(* ===== verification/Py_Prelude.thy ===== *)
theory Py_Prelude
  imports Complex_Main "HOL-Library.AList" "HOL-Library.Sublist" "HOL-Library.Char_ord"
    "HOL-Library.List_Lexorder" "HOL-Library.Monad_Syntax"
begin

text \<open>
  What the models share: Python's values, exceptions, strings, dictionaries and loops.

  \<^item> An exception is the left summand of \<open>pyexn + 'a\<close>; \<open>bindE\<close> is the sequencing
    that stops at the first exception, \<open>mapE\<close> a list comprehension whose body can raise.
  \<^item> A \<open>str\<close> is a \<^typ>\<open>string\<close>; text outside ASCII is given by its UTF-8 bytes
    (\<open>utf8\<close>). The string methods below are the ones the program calls, on ASCII.
  \<^item> An \<open>int\<close> is an \<^typ>\<open>int\<close>; a \<open>float\<close> is an exact \<^typ>\<open>rat\<close>: the program
    compares and clamps floats and never depends on their rounding.
  \<^item> A \<open>dict\<close> is an association list in insertion order: \<open>map_of\<close> looks a key up and
    \<open>AList.update\<close> stores one, in place or at the end, as Python does.
  \<^item> A JSON-like value (\<open>to_dict\<close>, stage payloads) is a \<open>pyval\<close>.
\<close>

named_theorems roundtrip_simps \<open>decoding undoes encoding\<close>
named_theorems pyeval \<open>equations that evaluate the model on closed inputs\<close>

subsection \<open>Exceptions\<close>

datatype pyexn =
    KeyError string
  | ValueError string
  | TypeError string
  | IndexError string
  | RuntimeError string
  | OtherError string string

text \<open>\<open>str(e)\<close> and \<open>type(e).__name__\<close>. A \<open>KeyError\<close> prints the repr of its key.\<close>

fun exn_str :: "pyexn \<Rightarrow> string" where
  "exn_str (KeyError k) = [CHR 0x27] @ k @ [CHR 0x27]"
| "exn_str (ValueError m) = m"
| "exn_str (TypeError m) = m"
| "exn_str (IndexError m) = m"
| "exn_str (RuntimeError m) = m"
| "exn_str (OtherError n m) = m"

fun exn_name :: "pyexn \<Rightarrow> string" where
  "exn_name (KeyError k) = ''KeyError''"
| "exn_name (ValueError m) = ''ValueError''"
| "exn_name (TypeError m) = ''TypeError''"
| "exn_name (IndexError m) = ''IndexError''"
| "exn_name (RuntimeError m) = ''RuntimeError''"
| "exn_name (OtherError n m) = n"

definition bindE :: "('e + 'a) \<Rightarrow> ('a \<Rightarrow> 'e + 'b) \<Rightarrow> 'e + 'b" where
  "bindE r f = (case r of Inl e \<Rightarrow> Inl e | Inr x \<Rightarrow> f x)"

lemma bindE_simps [simp]:
  "bindE (Inl e) f = Inl e"
  "bindE (Inr x) f = f x"
  by (simp_all add: bindE_def)

lemma bindE_Inr_iff: "bindE r f = Inr y \<longleftrightarrow> (\<exists>x. r = Inr x \<and> f x = Inr y)"
  by (cases r) simp_all

fun mapE :: "('a \<Rightarrow> 'e + 'b) \<Rightarrow> 'a list \<Rightarrow> 'e + 'b list" where
  "mapE f [] = Inr []"
| "mapE f (x # xs) = bindE (f x) (\<lambda>y. bindE (mapE f xs) (\<lambda>ys. Inr (y # ys)))"

lemma mapE_map: "(\<And>x. x \<in> set xs \<Longrightarrow> f (g x) = Inr x) \<Longrightarrow> mapE f (map g xs) = Inr xs"
  by (induction xs) auto

lemma mapE_map' [simp]: "(\<And>x. f (g x) = Inr x) \<Longrightarrow> mapE f (map g xs) = Inr xs"
  by (rule mapE_map)

lemma mapE_length: "mapE f xs = Inr ys \<Longrightarrow> length ys = length xs"
  by (induction xs arbitrary: ys) (auto simp: bindE_Inr_iff)

text \<open>\<open>try: r except Exception: d\<close>.\<close>

definition try_else :: "('e + 'a) \<Rightarrow> 'a \<Rightarrow> 'a" where
  "try_else r d = (case r of Inl _ \<Rightarrow> d | Inr x \<Rightarrow> x)"

lemma try_else_simps [simp]:
  "try_else (Inl e) d = d"
  "try_else (Inr x) d = x"
  by (simp_all add: try_else_def)

subsection \<open>Strings\<close>

definition utf8 :: "nat list \<Rightarrow> string" where
  "utf8 ns = map char_of ns"

definition newline :: string where
  "newline = [CHR 0x0A]"

text \<open>\<open>needle in haystack\<close>, \<open>startswith\<close>, \<open>endswith\<close>.\<close>

abbreviation contains :: "string \<Rightarrow> string \<Rightarrow> bool" where
  "contains needle s \<equiv> sublist needle s"

abbreviation startswith :: "string \<Rightarrow> string \<Rightarrow> bool" where
  "startswith s p \<equiv> prefix p s"

abbreviation endswith :: "string \<Rightarrow> string \<Rightarrow> bool" where
  "endswith s p \<equiv> suffix p s"

definition lower_char :: "char \<Rightarrow> char" where
  "lower_char c = (if 65 \<le> (of_char c :: nat) \<and> (of_char c :: nat) \<le> 90
     then char_of ((of_char c :: nat) + 32) else c)"

definition upper_char :: "char \<Rightarrow> char" where
  "upper_char c = (if 97 \<le> (of_char c :: nat) \<and> (of_char c :: nat) \<le> 122
     then char_of ((of_char c :: nat) - 32) else c)"

definition py_lower :: "string \<Rightarrow> string" where
  "py_lower s = map lower_char s"

definition py_upper :: "string \<Rightarrow> string" where
  "py_upper s = map upper_char s"

definition is_space :: "char \<Rightarrow> bool" where
  "is_space c = (let n = (of_char c :: nat) in n = 32 \<or> (9 \<le> n \<and> n \<le> 13) \<or> (28 \<le> n \<and> n \<le> 31))"

definition is_digit :: "char \<Rightarrow> bool" where
  "is_digit c = (48 \<le> (of_char c :: nat) \<and> (of_char c :: nat) \<le> 57)"

definition py_strip :: "string \<Rightarrow> string" where
  "py_strip s = rev (dropWhile is_space (rev (dropWhile is_space s)))"

text \<open>\<open>s.isdigit()\<close>: some character, and all of them digits.\<close>

definition py_isdigit :: "string \<Rightarrow> bool" where
  "py_isdigit s = (s \<noteq> [] \<and> list_all is_digit s)"

text \<open>\<open>s.split(c)\<close> for a one-character separator: always at least one piece.\<close>

fun split_on :: "char \<Rightarrow> string \<Rightarrow> string list" where
  "split_on c [] = [[]]"
| "split_on c (x # xs) = (if x = c then [] # split_on c xs
     else (case split_on c xs of [] \<Rightarrow> [[x]] | p # ps \<Rightarrow> (x # p) # ps))"

fun py_join :: "string \<Rightarrow> string list \<Rightarrow> string" where
  "py_join sep [] = []"
| "py_join sep [x] = x"
| "py_join sep (x # y # ys) = x @ sep @ py_join sep (y # ys)"

lemma split_on_nonempty [simp]: "split_on c s \<noteq> []"
  by (cases s) (auto split: list.splits)

lemma split_on_id: "c \<notin> set s \<Longrightarrow> split_on c s = [s]"
  by (induction s) auto

lemma py_join_split_on: "py_join [c] (split_on c s) = s"
proof (induction s)
  case (Cons x xs)
  obtain p ps where p: "split_on c xs = p # ps"
    by (cases "split_on c xs") auto
  show ?case using Cons p by (cases ps) auto
qed simp

lemma split_on_no_sep: "p \<in> set (split_on c s) \<Longrightarrow> c \<notin> set p"
  by (induction s arbitrary: p) (auto split: list.splits if_splits)

text \<open>
  \<open>s.splitlines()\<close>, on text whose line ends are newlines: an empty last line is not reported.
\<close>

definition py_splitlines :: "string \<Rightarrow> string list" where
  "py_splitlines s = (let ps = split_on (CHR 0x0A) s in if last ps = [] then butlast ps else ps)"

text \<open>
  \<open>repr(s)\<close>: double quotes when the text has single quotes and no double ones; quote, backslash
  and control characters are escaped.
\<close>

definition hex_digit :: "nat \<Rightarrow> char" where
  "hex_digit n = char_of (if n < 10 then 48 + n else 87 + n)"

definition repr_char :: "char \<Rightarrow> char \<Rightarrow> string" where
  "repr_char q c = (let n = (of_char c :: nat) in
     if c = q \<or> n = 92 then [CHR 0x5C, c]
     else if n = 10 then [CHR 0x5C, CHR ''n'']
     else if n = 13 then [CHR 0x5C, CHR ''r'']
     else if n = 9 then [CHR 0x5C, CHR ''t'']
     else if n < 32 \<or> n = 127
     then [CHR 0x5C, CHR ''x'', hex_digit (n div 16), hex_digit (n mod 16)]
     else [c])"

definition py_repr :: "string \<Rightarrow> string" where
  "py_repr s = (let q = (if CHR 0x27 \<in> set s \<and> CHR 0x22 \<notin> set s then CHR 0x22 else CHR 0x27)
     in [q] @ concat (map (repr_char q) s) @ [q])"

definition py_repr_list :: "string list \<Rightarrow> string" where
  "py_repr_list xs = ''['' @ py_join '', '' (map py_repr xs) @ '']''"

text \<open>Decimal digits of a natural number, and \<open>str(i)\<close> of an integer.\<close>

definition digit_char :: "nat \<Rightarrow> char" where
  "digit_char n = char_of (48 + n)"

fun show_nat :: "nat \<Rightarrow> string" where
  "show_nat n = (if n < 10 then [digit_char n] else show_nat (n div 10) @ [digit_char (n mod 10)])"

declare show_nat.simps [simp del]

definition show_int :: "int \<Rightarrow> string" where
  "show_int i = (if i < 0 then ''-'' @ show_nat (nat (- i)) else show_nat (nat i))"

lemma show_nat_nonempty [simp]: "show_nat n \<noteq> []"
  by (subst show_nat.simps) simp

text \<open>\<open>int(s)\<close> on a string of digits.\<close>

definition digits_value :: "string \<Rightarrow> nat" where
  "digits_value s = foldl (\<lambda>a c. 10 * a + ((of_char c :: nat) - 48)) 0 s"

lemma digits_value_snoc: "digits_value (s @ [c]) = 10 * digits_value s + ((of_char c :: nat) - 48)"
  by (simp add: digits_value_def)

lemma of_char_digit_char: "d < 10 \<Longrightarrow> (of_char (digit_char d) :: nat) = 48 + d"
  by (simp add: digit_char_def)

lemma digits_value_show_nat [simp]: "digits_value (show_nat n) = n"
proof (induction n rule: show_nat.induct)
  case (1 n)
  show ?case
  proof (cases "n < 10")
    case True
    then show ?thesis
      using digits_value_snoc [of "[]" "digit_char n"]
      by (subst show_nat.simps) (simp add: of_char_digit_char digits_value_def)
  next
    case False
    with 1 have "digits_value (show_nat (n div 10)) = n div 10" by simp
    with False show ?thesis
      by (subst show_nat.simps) (simp add: digits_value_snoc of_char_digit_char)
  qed
qed

lemma show_nat_digits: "list_all is_digit (show_nat n)"
proof (induction n rule: show_nat.induct)
  case (1 n)
  have d: "is_digit (digit_char m)" if "m < 10" for m
    using that by (simp add: is_digit_def of_char_digit_char)
  show ?case
    using 1 d by (subst show_nat.simps) auto
qed

text \<open>\<open>f"{x:.2f}"\<close>: two decimals, halves to even.\<close>

definition round_half_even :: "rat \<Rightarrow> int" where
  "round_half_even x = (let f = floor x; r = x - of_int f in
     if r < 1/2 then f else if r > 1/2 then f + 1 else if even f then f else f + 1)"

definition pad2 :: "nat \<Rightarrow> string" where
  "pad2 n = (if n < 10 then ''0'' @ show_nat n else show_nat n)"

definition fmt_2f :: "rat \<Rightarrow> string" where
  "fmt_2f x = (let c = round_half_even (\<bar>x\<bar> * 100) in
     (if x < 0 then ''-'' else []) @ show_int (c div 100) @ ''.'' @ pad2 (nat (c mod 100)))"

text \<open>\<open>round(x, 3)\<close>.\<close>

definition round3 :: "rat \<Rightarrow> rat" where
  "round3 x = of_int (round_half_even (x * 1000)) / 1000"

text \<open>\<open>round(x, n)\<close> for the two \<open>n\<close> the program uses beside 3.\<close>

definition round1 :: "rat \<Rightarrow> rat" where
  "round1 x = of_int (round_half_even (x * 10)) / 10"

definition round2 :: "rat \<Rightarrow> rat" where
  "round2 x = of_int (round_half_even (x * 100)) / 100"

subsection \<open>Dictionaries, sets and lists\<close>

text \<open>\<open>list(dict.fromkeys(xs))\<close>: first occurrences, in order.\<close>

fun dedup_first :: "'a list \<Rightarrow> 'a list" where
  "dedup_first [] = []"
| "dedup_first (x # xs) = x # filter (\<lambda>y. y \<noteq> x) (dedup_first xs)"

lemma set_dedup_first [simp]: "set (dedup_first xs) = set xs"
  by (induction xs) auto

lemma distinct_dedup_first [simp]: "distinct (dedup_first xs)"
  by (induction xs) auto

text \<open>\<open>sorted(set(xs))\<close>.\<close>

definition sorted_set :: "('a::linorder) list \<Rightarrow> 'a list" where
  "sorted_set xs = sort (remdups xs)"

lemma sorted_set_props [simp]:
  "set (sorted_set xs) = set xs" "distinct (sorted_set xs)" "sorted (sorted_set xs)"
  by (simp_all add: sorted_set_def)

definition dict_values :: "('k \<times> 'v) list \<Rightarrow> 'v list" where
  "dict_values d = map snd d"

definition dict_keys :: "('k \<times> 'v) list \<Rightarrow> 'k list" where
  "dict_keys d = map fst d"

text \<open>\<open>d.setdefault(k, v)\<close> as a statement.\<close>

definition dict_setdefault :: "'k \<Rightarrow> 'v \<Rightarrow> ('k \<times> 'v) list \<Rightarrow> ('k \<times> 'v) list" where
  "dict_setdefault k v d = (if k \<in> fst ` set d then d else d @ [(k, v)])"

lemma distinct_dict_setdefault:
  "distinct (map fst d) \<Longrightarrow> distinct (map fst (dict_setdefault k v d))"
  by (auto simp: dict_setdefault_def)

text \<open>\<open>max(xs)\<close> of a non-empty list, and the first of the elements with the largest key.\<close>

fun py_max :: "('a::linorder) list \<Rightarrow> 'a \<Rightarrow> 'a" where
  "py_max [] d = d"
| "py_max (x # xs) d = fold max xs x"

lemma fold_max_Max: "fold max xs x = Max (set (x # xs))"
  by (metis Max.set_eq_fold)

lemma py_max_ge: "x \<in> set xs \<Longrightarrow> x \<le> py_max xs d"
  by (cases xs) (simp_all add: fold_max_Max)

lemma py_max_in:
  assumes "xs \<noteq> []"
  shows "py_max xs d \<in> set xs"
proof -
  from assms have "Max (set xs) \<in> set xs" by (intro Max_in) auto
  moreover from assms have "py_max xs d = Max (set xs)"
    by (cases xs) (simp_all only: py_max.simps fold_max_Max)
  ultimately show ?thesis by simp
qed

lemma py_max_ge_iff: "xs \<noteq> [] \<Longrightarrow> t \<le> py_max xs d \<longleftrightarrow> (\<exists>x\<in>set xs. t \<le> x)"
  using py_max_ge py_max_in by (metis order_trans)

fun first_max_by :: "('a \<Rightarrow> 'b::linorder) \<Rightarrow> 'a \<Rightarrow> 'a list \<Rightarrow> 'a" where
  "first_max_by key b [] = b"
| "first_max_by key b (x # xs) = first_max_by key (if key x > key b then x else b) xs"

lemma first_max_by_in: "first_max_by key b xs \<in> set (b # xs)"
proof (induction xs arbitrary: b)
  case (Cons x xs)
  from Cons.IH [of "if key x > key b then x else b"] show ?case
    by (simp only: first_max_by.simps) (auto split: if_splits)
qed simp

lemma first_max_by_ge: "x \<in> set (b # xs) \<Longrightarrow> key x \<le> key (first_max_by key b xs)"
proof (induction xs arbitrary: b x)
  case (Cons y ys)
  let ?b = "if key y > key b then y else b"
  have b: "key ?b \<le> key (first_max_by key ?b ys)"
    by (rule Cons.IH) simp
  have "key b \<le> key ?b" "key y \<le> key ?b" by auto
  moreover have "key x \<le> key (first_max_by key ?b ys)" if "x \<in> set ys"
    by (rule Cons.IH) (simp add: that)
  ultimately show ?case using Cons.prems b by (auto intro: order_trans)
qed simp

lemma find_by_key:
  "distinct (map f xs) \<Longrightarrow> x \<in> set xs \<Longrightarrow> List.find (\<lambda>y. f y = f x) xs = Some x"
  by (induction xs) (auto simp: image_iff)

text \<open>The truth value of a container or string, and \<open>x or y\<close> on optional strings.\<close>

abbreviation truthy :: "'a list \<Rightarrow> bool" where
  "truthy xs \<equiv> xs \<noteq> []"

definition or_else :: "'a list option \<Rightarrow> 'a list \<Rightarrow> 'a list" where
  "or_else m d = (case m of None \<Rightarrow> d | Some [] \<Rightarrow> d | Some xs \<Rightarrow> xs)"

lemma or_else_simps [simp]:
  "or_else None d = d" "or_else (Some []) d = d" "or_else (Some (x # xs)) d = x # xs"
  by (simp_all add: or_else_def)

definition truthy_opt :: "'a list option \<Rightarrow> bool" where
  "truthy_opt m = (case m of None \<Rightarrow> False | Some xs \<Rightarrow> xs \<noteq> [])"

lemma truthy_opt_simps [simp]:
  "\<not> truthy_opt None" "truthy_opt (Some xs) = (xs \<noteq> [])"
  by (simp_all add: truthy_opt_def)

subsection \<open>JSON-like values\<close>

datatype pyval =
    PNone
  | PBool bool
  | PInt int
  | PFloat rat
  | PStr string
  | PList "pyval list"
  | PDict "(string \<times> pyval) list"

type_synonym pydict = "(string \<times> pyval) list"

definition pstrs :: "string list \<Rightarrow> pyval" where
  "pstrs xs = PList (map PStr xs)"

definition popt :: "('a \<Rightarrow> pyval) \<Rightarrow> 'a option \<Rightarrow> pyval" where
  "popt f m = (case m of None \<Rightarrow> PNone | Some x \<Rightarrow> f x)"

text \<open>The truth value of a value.\<close>

fun py_truth :: "pyval \<Rightarrow> bool" where
  "py_truth PNone = False"
| "py_truth (PBool b) = b"
| "py_truth (PInt i) = (i \<noteq> 0)"
| "py_truth (PFloat x) = (x \<noteq> 0)"
| "py_truth (PStr s) = (s \<noteq> [])"
| "py_truth (PList xs) = (xs \<noteq> [])"
| "py_truth (PDict d) = (d \<noteq> [])"

text \<open>
  Reading a field back. A value of another type than the field's annotation, which Python would
  store unchecked in the ill-typed field, is a \<open>TypeError\<close> here.
\<close>

fun as_dict :: "pyval \<Rightarrow> pyexn + pydict" where
  "as_dict (PDict d) = Inr d"
| "as_dict _ = Inl (TypeError ''dict'')"

fun as_str :: "pyval \<Rightarrow> pyexn + string" where
  "as_str (PStr s) = Inr s"
| "as_str _ = Inl (TypeError ''str'')"

fun as_list :: "pyval \<Rightarrow> pyexn + pyval list" where
  "as_list (PList xs) = Inr xs"
| "as_list _ = Inl (TypeError ''list'')"

fun as_bool :: "pyval \<Rightarrow> pyexn + bool" where
  "as_bool (PBool b) = Inr b"
| "as_bool _ = Inl (TypeError ''bool'')"

fun as_int :: "pyval \<Rightarrow> pyexn + int" where
  "as_int (PInt i) = Inr i"
| "as_int _ = Inl (TypeError ''int'')"

fun as_float :: "pyval \<Rightarrow> pyexn + rat" where
  "as_float (PFloat x) = Inr x"
| "as_float (PInt i) = Inr (of_int i)"
| "as_float _ = Inl (TypeError ''float'')"

fun as_opt :: "(pyval \<Rightarrow> pyexn + 'a) \<Rightarrow> pyval \<Rightarrow> pyexn + 'a option" where
  "as_opt f PNone = Inr None"
| "as_opt f v = bindE (f v) (\<lambda>x. Inr (Some x))"

definition as_strs :: "pyval \<Rightarrow> pyexn + string list" where
  "as_strs v = bindE (as_list v) (mapE as_str)"

text \<open>\<open>d[k]\<close> and \<open>d.get(k, default)\<close>.\<close>

definition d_item :: "pydict \<Rightarrow> string \<Rightarrow> pyexn + pyval" where
  "d_item d k = (case map_of d k of None \<Rightarrow> Inl (KeyError k) | Some v \<Rightarrow> Inr v)"

definition d_get :: "pydict \<Rightarrow> string \<Rightarrow> pyval \<Rightarrow> pyval" where
  "d_get d k dflt = (case map_of d k of None \<Rightarrow> dflt | Some v \<Rightarrow> v)"

lemma d_item_Cons [simp]: "d_item ((k', v) # d) k = (if k = k' then Inr v else d_item d k)"
  by (simp add: d_item_def)

lemma d_get_Cons [simp]: "d_get ((k', v) # d) k x = (if k = k' then v else d_get d k x)"
  by (simp add: d_get_def)

lemma d_Nil [simp]: "d_item [] k = Inl (KeyError k)" "d_get [] k x = x"
  by (simp_all add: d_item_def d_get_def)

lemma as_strs_pstrs [simp, roundtrip_simps]: "as_strs (pstrs xs) = Inr xs"
  by (simp add: as_strs_def pstrs_def)

lemma as_opt_popt_str [simp, roundtrip_simps]: "as_opt as_str (popt PStr m) = Inr m"
  by (cases m) (simp_all add: popt_def)

subsection \<open>String enumerations\<close>

text \<open>
  \<open>class E(str, Enum)\<close>: each member has a string value, and \<open>E(s)\<close> is the member with that
  value or a \<open>ValueError\<close>.
\<close>

definition enum_of :: "'a list \<Rightarrow> ('a \<Rightarrow> string) \<Rightarrow> string \<Rightarrow> pyexn + 'a" where
  "enum_of members val s =
     (case List.find (\<lambda>x. val x = s) members of None \<Rightarrow> Inl (ValueError s) | Some x \<Rightarrow> Inr x)"

locale str_enum =
  fixes members :: "'a list"
    and val :: "'a \<Rightarrow> string"
  assumes complete: "\<And>x. x \<in> set members"
    and val_inj: "\<And>x y. val x = val y \<Longrightarrow> x = y"
begin

lemma of_val: "enum_of members val (val x) = Inr x"
proof (cases "List.find (\<lambda>y. val y = val x) members")
  case None
  with complete [of x] show ?thesis by (auto simp: find_None_iff)
next
  case (Some y)
  then have "val y = val x" by (auto simp: find_Some_iff)
  then have "y = x" by (rule val_inj)
  with Some show ?thesis by (simp add: enum_of_def)
qed

lemma of_val_iff: "enum_of members val s = Inr x \<longleftrightarrow> s = val x"
proof
  assume "enum_of members val s = Inr x"
  then show "s = val x"
    by (auto simp: enum_of_def find_Some_iff split: option.splits)
next
  assume "s = val x"
  then show "enum_of members val s = Inr x" by (simp add: of_val)
qed

end

end
