(* ===== verification/Schema.thy ===== *)
theory Schema
  imports Py_Prelude
begin

text \<open>
  The data model of \<^verbatim>\<open>schema.py\<close>: the string enumerations, the knowledge-base entry,
  the evidence of a verdict, the stage results and the analysis report, with their
  \<^verbatim>\<open>to_dict\<close> and \<^verbatim>\<open>from_dict\<close>. A \<^verbatim>\<open>datetime\<close> is its ISO text.
\<close>

subsection \<open>Enumerations\<close>

datatype ecosystem = PYPI | NPM

fun ecosystem_value :: "ecosystem \<Rightarrow> string" where
  "ecosystem_value PYPI = ''PyPI''"
| "ecosystem_value NPM = ''npm''"

datatype attack_dimension =
  INFORMATION_READING | ENCODING | PAYLOAD_EXECUTION | DATA_TRANSMISSION

fun dimension_value :: "attack_dimension \<Rightarrow> string" where
  "dimension_value INFORMATION_READING = ''INFORMATION_READING''"
| "dimension_value ENCODING = ''ENCODING''"
| "dimension_value PAYLOAD_EXECUTION = ''PAYLOAD_EXECUTION''"
| "dimension_value DATA_TRANSMISSION = ''DATA_TRANSMISSION''"

datatype ttp_source = MITRE_ATTACK | MITRE_ATLAS | OWASP_LLM | OWASP_WEB | CWE | GHSA

fun ttp_source_value :: "ttp_source \<Rightarrow> string" where
  "ttp_source_value MITRE_ATTACK = ''MITRE ATT&CK''"
| "ttp_source_value MITRE_ATLAS = ''MITRE ATLAS''"
| "ttp_source_value OWASP_LLM = ''OWASP LLM Top 10''"
| "ttp_source_value OWASP_WEB = ''OWASP Top 10''"
| "ttp_source_value CWE = ''CWE''"
| "ttp_source_value GHSA = ''GitHub Advisory''"

datatype severity = SevHIGH | SevMEDIUM | SevLOW

fun severity_value :: "severity \<Rightarrow> string" where
  "severity_value SevHIGH = ''HIGH''"
| "severity_value SevMEDIUM = ''MEDIUM''"
| "severity_value SevLOW = ''LOW''"

datatype llm_verdict = LlmMALICIOUS | LlmSUSPICIOUS | LlmBENIGN

fun llm_verdict_value :: "llm_verdict \<Rightarrow> string" where
  "llm_verdict_value LlmMALICIOUS = ''malicious''"
| "llm_verdict_value LlmSUSPICIOUS = ''suspicious''"
| "llm_verdict_value LlmBENIGN = ''benign''"

datatype verdict =
  MALICIOUS | HIGH_RISK | SUSPICIOUS | AGENTIC | CLEAN | ERROR | CANNOT_ANALYZE

fun verdict_value :: "verdict \<Rightarrow> string" where
  "verdict_value MALICIOUS = ''MALICIOUS''"
| "verdict_value HIGH_RISK = ''HIGH_RISK''"
| "verdict_value SUSPICIOUS = ''SUSPICIOUS''"
| "verdict_value AGENTIC = ''AGENTIC''"
| "verdict_value CLEAN = ''CLEAN''"
| "verdict_value ERROR = ''ERROR''"
| "verdict_value CANNOT_ANALYZE = ''CANNOT_ANALYZE''"

text \<open>The members, in declaration order; \<^verbatim>\<open>E(v)\<close> looks a value up among them.\<close>

abbreviation "ecosystems \<equiv> [PYPI, NPM]"
abbreviation "dimensions_all \<equiv>
  [INFORMATION_READING, ENCODING, PAYLOAD_EXECUTION, DATA_TRANSMISSION]"
abbreviation "ttp_sources \<equiv> [MITRE_ATTACK, MITRE_ATLAS, OWASP_LLM, OWASP_WEB, CWE, GHSA]"
abbreviation "severities \<equiv> [SevHIGH, SevMEDIUM, SevLOW]"
abbreviation "llm_verdicts \<equiv> [LlmMALICIOUS, LlmSUSPICIOUS, LlmBENIGN]"
abbreviation "verdicts \<equiv>
  [MALICIOUS, HIGH_RISK, SUSPICIOUS, AGENTIC, CLEAN, ERROR, CANNOT_ANALYZE]"

interpretation eco_enum: str_enum ecosystems ecosystem_value
proof unfold_locales
  show "x \<in> set ecosystems" for x by (cases x) simp_all
  show "ecosystem_value x = ecosystem_value y \<Longrightarrow> x = y" for x y
    by (cases x; cases y) simp_all
qed

interpretation dim_enum: str_enum dimensions_all dimension_value
proof unfold_locales
  show "x \<in> set dimensions_all" for x by (cases x) simp_all
  show "dimension_value x = dimension_value y \<Longrightarrow> x = y" for x y
    by (cases x; cases y) simp_all
qed

interpretation src_enum: str_enum ttp_sources ttp_source_value
proof unfold_locales
  show "x \<in> set ttp_sources" for x by (cases x) simp_all
  show "ttp_source_value x = ttp_source_value y \<Longrightarrow> x = y" for x y
    by (cases x; cases y) simp_all
qed

interpretation sev_enum: str_enum severities severity_value
proof unfold_locales
  show "x \<in> set severities" for x by (cases x) simp_all
  show "severity_value x = severity_value y \<Longrightarrow> x = y" for x y
    by (cases x; cases y) simp_all
qed

interpretation llm_enum: str_enum llm_verdicts llm_verdict_value
proof unfold_locales
  show "x \<in> set llm_verdicts" for x by (cases x) simp_all
  show "llm_verdict_value x = llm_verdict_value y \<Longrightarrow> x = y" for x y
    by (cases x; cases y) simp_all
qed

interpretation vdt_enum: str_enum verdicts verdict_value
proof unfold_locales
  show "x \<in> set verdicts" for x by (cases x) simp_all
  show "verdict_value x = verdict_value y \<Longrightarrow> x = y" for x y
    by (cases x; cases y) simp_all
qed

lemmas enum_roundtrips [simp, roundtrip_simps] =
  eco_enum.of_val dim_enum.of_val src_enum.of_val sev_enum.of_val llm_enum.of_val vdt_enum.of_val

text \<open>An enumeration applied to a JSON value: only a string can be a member's value.\<close>

definition enum_pv :: "'a list \<Rightarrow> ('a \<Rightarrow> string) \<Rightarrow> pyval \<Rightarrow> pyexn + 'a" where
  "enum_pv members val v =
     (case v of PStr s \<Rightarrow> enum_of members val s | _ \<Rightarrow> Inl (ValueError ''not a member''))"

lemma enum_pv_str [simp, roundtrip_simps]: "enum_pv members val (PStr s) = enum_of members val s"
  by (simp add: enum_pv_def)

instantiation severity :: linorder
begin

fun severity_rank :: "severity \<Rightarrow> nat" where
  "severity_rank SevLOW = 0"
| "severity_rank SevMEDIUM = 1"
| "severity_rank SevHIGH = 2"

definition less_eq_severity :: "severity \<Rightarrow> severity \<Rightarrow> bool" where
  "less_eq_severity x y = (severity_rank x \<le> severity_rank y)"

definition less_severity :: "severity \<Rightarrow> severity \<Rightarrow> bool" where
  "less_severity x y = (severity_rank x < severity_rank y)"

instance
proof
  fix x y z :: severity
  show "x < y \<longleftrightarrow> x \<le> y \<and> \<not> y \<le> x"
    by (auto simp: less_severity_def less_eq_severity_def)
  show "x \<le> x" by (simp add: less_eq_severity_def)
  show "x \<le> y \<Longrightarrow> y \<le> z \<Longrightarrow> x \<le> z" by (simp add: less_eq_severity_def)
  show "x \<le> y \<Longrightarrow> y \<le> x \<Longrightarrow> x = y"
    by (cases x; cases y) (simp_all add: less_eq_severity_def)
  show "x \<le> y \<or> y \<le> x" by (auto simp: less_eq_severity_def)
qed

end

subsection \<open>Version difference\<close>

record version_diff_info =
  vd_compared_versions :: "string list"
  vd_new_apis :: "string list"
  vd_risk :: severity
  vd_details :: string

definition version_diff_to_dict :: "version_diff_info \<Rightarrow> pyval" where
  "version_diff_to_dict v = PDict
     [(''compared_versions'', pstrs (vd_compared_versions v)),
      (''new_apis'', pstrs (vd_new_apis v)),
      (''risk_classification'', PStr (severity_value (vd_risk v))),
      (''details'', PStr (vd_details v))]"

subsection \<open>Knowledge-base entries\<close>

record ttp_entry =
  ttp_id :: string
  ttp_name :: string
  ttp_source :: ttp_source
  ttp_kb_version :: string
  ttp_description :: string
  ttp_detection_hints :: "string list"
  ttp_mitigations :: "string list"
  ttp_severity :: severity
  ttp_url :: string
  ttp_embedding :: "rat list option"
  ttp_collected_at :: string

definition ttp_to_dict :: "ttp_entry \<Rightarrow> pyval" where
  "ttp_to_dict t = PDict
     ([(''ttp_id'', PStr (ttp_id t)),
       (''ttp_name'', PStr (ttp_name t)),
       (''source'', PStr (ttp_source_value (ttp_source t))),
       (''kb_version'', PStr (ttp_kb_version t)),
       (''description'', PStr (ttp_description t)),
       (''detection_hints'', pstrs (ttp_detection_hints t)),
       (''mitigations'', pstrs (ttp_mitigations t)),
       (''severity'', PStr (severity_value (ttp_severity t))),
       (''url'', PStr (ttp_url t)),
       (''collected_at'', PStr (ttp_collected_at t))]
      @ (case ttp_embedding t of None \<Rightarrow> [] | Some e \<Rightarrow> [(''embedding'', PList (map PFloat e))]))"

text \<open>
  \<open>parse_iso\<close> is \<^verbatim>\<open>datetime.fromisoformat\<close> (\<^const>\<open>None\<close> for its \<^verbatim>\<open>ValueError\<close>) and
  \<open>now\<close> the current time.
\<close>

definition ttp_collected :: "(string \<Rightarrow> string option) \<Rightarrow> string \<Rightarrow> pydict \<Rightarrow> string" where
  "ttp_collected parse_iso now d =
     (case d_get d ''collected_at'' PNone of
        PStr raw \<Rightarrow> if raw = [] then now
          else (case parse_iso raw of None \<Rightarrow> now | Some t \<Rightarrow> t)
      | _ \<Rightarrow> now)"

definition ttp_from_dict :: "(string \<Rightarrow> string option) \<Rightarrow> string \<Rightarrow> pyval \<Rightarrow> pyexn + ttp_entry" where
  "ttp_from_dict parse_iso now v =
     bindE (as_dict v) (\<lambda>d.
     let collected = ttp_collected parse_iso now d in
     bindE (bindE (d_item d ''ttp_id'') as_str) (\<lambda>i.
     bindE (bindE (d_item d ''ttp_name'') as_str) (\<lambda>n.
     bindE (bindE (d_item d ''source'') (enum_pv ttp_sources ttp_source_value)) (\<lambda>src.
     bindE (as_str (d_get d ''kb_version'' (PStr []))) (\<lambda>kb.
     bindE (as_str (d_get d ''description'' (PStr []))) (\<lambda>desc.
     bindE (as_strs (d_get d ''detection_hints'' (PList []))) (\<lambda>hints.
     bindE (as_strs (d_get d ''mitigations'' (PList []))) (\<lambda>mits.
     bindE (enum_pv severities severity_value
              (d_get d ''severity'' (PStr (severity_value SevMEDIUM)))) (\<lambda>sev.
     bindE (as_str (d_get d ''url'' (PStr []))) (\<lambda>url.
     bindE (as_opt (\<lambda>w. bindE (as_list w) (mapE as_float)) (d_get d ''embedding'' PNone)) (\<lambda>emb.
     Inr \<lparr>ttp_id = i, ttp_name = n, ttp_source = src, ttp_kb_version = kb,
          ttp_description = desc, ttp_detection_hints = hints, ttp_mitigations = mits,
          ttp_severity = sev, ttp_url = url, ttp_embedding = emb,
          ttp_collected_at = collected\<rparr>)))))))))))"

lemma ttp_roundtrip:
  assumes "ttp_collected_at t \<noteq> []"
    and "parse_iso (ttp_collected_at t) = Some (ttp_collected_at t)"
  shows "ttp_from_dict parse_iso now (ttp_to_dict t) = Inr t"
  using assms
  by (cases "ttp_embedding t")
    (simp_all add: ttp_from_dict_def ttp_to_dict_def ttp_collected_def)

subsection \<open>Evidence\<close>

record evidence =
  ev_file_path :: string
  ev_line_start :: int
  ev_line_end :: int
  ev_code_snippet :: string
  ev_behavior_sequence :: "string list"
  ev_attack_dimensions :: "attack_dimension list"
  ev_ttp_id :: string
  ev_ttp_name :: string
  ev_ttp_source :: ttp_source
  ev_ttp_url :: string
  ev_vector_similarity :: rat
  ev_ttp_severity :: severity
  ev_llm_verdict :: llm_verdict
  ev_llm_reasoning :: string
  ev_llm_model :: string
  ev_version_diff :: "version_diff_info option"
  ev_confidence :: rat

definition evidence_to_dict :: "evidence \<Rightarrow> pyval" where
  "evidence_to_dict e = PDict
     [(''file_path'', PStr (ev_file_path e)),
      (''line_start'', PInt (ev_line_start e)),
      (''line_end'', PInt (ev_line_end e)),
      (''code_snippet'', PStr (ev_code_snippet e)),
      (''behavior_sequence'', pstrs (ev_behavior_sequence e)),
      (''attack_dimensions'', pstrs (map dimension_value (ev_attack_dimensions e))),
      (''ttp_id'', PStr (ev_ttp_id e)),
      (''ttp_name'', PStr (ev_ttp_name e)),
      (''ttp_source'', PStr (ttp_source_value (ev_ttp_source e))),
      (''ttp_url'', PStr (ev_ttp_url e)),
      (''ttp_severity'', PStr (severity_value (ev_ttp_severity e))),
      (''vector_similarity'', PFloat (ev_vector_similarity e)),
      (''llm_verdict'', PStr (llm_verdict_value (ev_llm_verdict e))),
      (''llm_reasoning'', PStr (ev_llm_reasoning e)),
      (''llm_model'', PStr (ev_llm_model e)),
      (''version_diff'', popt version_diff_to_dict (ev_version_diff e)),
      (''confidence'', PFloat (ev_confidence e))]"

subsection \<open>Stage results and the report\<close>

record stage_result =
  sr_stage :: string
  sr_success :: bool
  sr_error :: "string option"
  sr_payload :: pydict

definition stage_ok :: "string \<Rightarrow> pydict \<Rightarrow> stage_result" where
  "stage_ok s p = \<lparr>sr_stage = s, sr_success = True, sr_error = None, sr_payload = p\<rparr>"

definition stage_fail :: "string \<Rightarrow> string \<Rightarrow> stage_result" where
  "stage_fail s e = \<lparr>sr_stage = s, sr_success = False, sr_error = Some e, sr_payload = []\<rparr>"

lemma stage_ok_fields [simp]:
  "sr_stage (stage_ok s p) = s" "sr_success (stage_ok s p)"
  by (simp_all add: stage_ok_def)

lemma stage_fail_fields [simp]:
  "sr_stage (stage_fail s e) = s" "\<not> sr_success (stage_fail s e)"
  by (simp_all add: stage_fail_def)

record analysis_report =
  ar_package :: string
  ar_ecosystem :: ecosystem
  ar_version :: string
  ar_analyzed_at :: string
  ar_verdict :: verdict
  ar_evidence :: "evidence list"
  ar_stage_results :: "stage_result list"
  ar_package_meta :: pydict
  ar_engine_version :: string
  ar_kb_versions :: pydict

definition report_to_dict :: "analysis_report \<Rightarrow> pyval" where
  "report_to_dict r = PDict
     [(''package'', PStr (ar_package r)),
      (''ecosystem'', PStr (ecosystem_value (ar_ecosystem r))),
      (''version'', PStr (ar_version r)),
      (''analyzed_at'', PStr (ar_analyzed_at r)),
      (''verdict'', PStr (verdict_value (ar_verdict r))),
      (''evidence'', PList (map evidence_to_dict (ar_evidence r))),
      (''stage_results'', PList (map (\<lambda>s. PDict
          [(''stage'', PStr (sr_stage s)), (''success'', PBool (sr_success s)),
           (''error'', popt PStr (sr_error s))]) (ar_stage_results r))),
      (''package_meta'', PDict (ar_package_meta r)),
      (''engine_version'', PStr (ar_engine_version r)),
      (''kb_versions'', PDict (ar_kb_versions r))]"

definition empty_report :: "string \<Rightarrow> string \<Rightarrow> ecosystem \<Rightarrow> string \<Rightarrow> analysis_report" where
  "empty_report now package eco version =
     \<lparr>ar_package = package, ar_ecosystem = eco, ar_version = version, ar_analyzed_at = now,
      ar_verdict = CLEAN, ar_evidence = [], ar_stage_results = [], ar_package_meta = [],
      ar_engine_version = ''2.0.0-alpha'', ar_kb_versions = []\<rparr>"

subsection \<open>The cached form of a report\<close>

text \<open>
  \<^verbatim>\<open>reporting/serialize.py\<close>. Every enumeration field of an evidence is set, so its
  \<^verbatim>\<open>if ... else None\<close> takes the first branch and the \<^verbatim>\<open>except\<close> is never reached.
\<close>

definition evidence_serializable :: "evidence \<Rightarrow> pyval" where
  "evidence_serializable e = PDict
     [(''file_path'', PStr (ev_file_path e)),
      (''line_start'', PInt (ev_line_start e)),
      (''line_end'', PInt (ev_line_end e)),
      (''code_snippet'', PStr (ev_code_snippet e)),
      (''behavior_sequence'', pstrs (ev_behavior_sequence e)),
      (''attack_dimensions'', pstrs (map dimension_value (ev_attack_dimensions e))),
      (''ttp_id'', PStr (ev_ttp_id e)),
      (''ttp_name'', PStr (ev_ttp_name e)),
      (''ttp_source'', PStr (ttp_source_value (ev_ttp_source e))),
      (''ttp_url'', PStr (ev_ttp_url e)),
      (''ttp_severity'', PStr (severity_value (ev_ttp_severity e))),
      (''vector_similarity'', PFloat (ev_vector_similarity e)),
      (''llm_verdict'', PStr (llm_verdict_value (ev_llm_verdict e))),
      (''llm_reasoning'', PStr (ev_llm_reasoning e)),
      (''llm_model'', PStr (ev_llm_model e)),
      (''confidence'', PFloat (ev_confidence e))]"

definition report_to_serializable :: "analysis_report \<Rightarrow> pydict" where
  "report_to_serializable r =
     [(''verdict'', PStr (verdict_value (ar_verdict r))),
      (''package'', PStr (ar_package r)),
      (''ecosystem'', PStr (ecosystem_value (ar_ecosystem r))),
      (''version'', PStr (ar_version r)),
      (''package_meta'', PDict (ar_package_meta r)),
      (''evidence'', PList (map evidence_serializable (ar_evidence r)))]"

end
