(* ===== verification/VerdictRules.thy ===== *)
theory VerdictRules
  imports Schema
begin

text \<open>
  \<^verbatim>\<open>verdict_rules.py\<close>: the final verdict from the evidence list and the stage results. The
  helper predicates keep the code's names without the leading underscore; the evidence predicates
  are bundled in \<open>verdict_preds\<close>. The lemmas at the end say what every predicate does when
  evidence is added, which is what the ordering of verdicts rests on.
\<close>

subsection \<open>Constants\<close>

definition REQUIRED_STAGES_FOR_JUDGMENT :: "string list" where
  "REQUIRED_STAGES_FOR_JUDGMENT =
     [''stage_2_behavior_sequence'', ''stage_4_ttp_matching'', ''stage_5_llm_review'']"

definition MALICIOUS_CONFIDENCE_THRESHOLD :: rat where
  "MALICIOUS_CONFIDENCE_THRESHOLD = 85 / 100"

definition STRONG_MATCH_SIMILARITY :: rat where
  "STRONG_MATCH_SIMILARITY = 85 / 100"

definition WEAK_MATCH_SIMILARITY :: rat where
  "WEAK_MATCH_SIMILARITY = 70 / 100"

definition LLM_SUSPICIOUS_QUORUM :: nat where
  "LLM_SUSPICIOUS_QUORUM = 2"

subsection \<open>Helpers\<close>

definition all_required_stages_passed :: "stage_result list \<Rightarrow> bool" where
  "all_required_stages_passed rs =
     (let passed = map sr_stage (filter sr_success rs)
      in list_all (\<lambda>s. s \<in> set passed) REQUIRED_STAGES_FOR_JUDGMENT)"

fun any_stage_failed :: "stage_result list \<Rightarrow> bool" where
  "any_stage_failed [] = False"
| "any_stage_failed (s # rs) =
     (if sr_stage s \<in> set REQUIRED_STAGES_FOR_JUDGMENT \<and> \<not> sr_success s then True
      else any_stage_failed rs)"

definition has_high_severity_ttp :: "evidence list \<Rightarrow> bool" where
  "has_high_severity_ttp es = list_ex (\<lambda>e. ev_ttp_severity e = SevHIGH) es"

definition has_any_strong_ttp_match :: "evidence list \<Rightarrow> bool" where
  "has_any_strong_ttp_match es = list_ex (\<lambda>e.
     ev_vector_similarity e \<ge> STRONG_MATCH_SIMILARITY
     \<and> ev_llm_verdict e \<noteq> LlmBENIGN \<and> ev_ttp_severity e \<noteq> SevLOW) es"

definition has_any_ttp_match :: "evidence list \<Rightarrow> bool" where
  "has_any_ttp_match es = list_ex (\<lambda>e.
     ev_vector_similarity e \<ge> WEAK_MATCH_SIMILARITY \<and> ev_llm_verdict e \<noteq> LlmBENIGN) es"

definition any_llm_malicious :: "evidence list \<Rightarrow> bool" where
  "any_llm_malicious es = list_ex (\<lambda>e. ev_llm_verdict e = LlmMALICIOUS) es"

definition any_llm_suspicious_or_worse :: "evidence list \<Rightarrow> bool" where
  "any_llm_suspicious_or_worse es = list_ex (\<lambda>e.
     ev_llm_verdict e \<in> {LlmSUSPICIOUS, LlmMALICIOUS} \<and> ev_confidence e \<ge> 1/2) es"

definition llm_suspicious_count :: "evidence list \<Rightarrow> nat" where
  "llm_suspicious_count es = length (filter (\<lambda>e.
     ev_llm_verdict e \<in> {LlmSUSPICIOUS, LlmMALICIOUS} \<and> ev_confidence e \<ge> 1/2) es)"

definition any_version_diff_critical :: "evidence list \<Rightarrow> bool" where
  "any_version_diff_critical es = list_ex (\<lambda>e.
     case ev_version_diff e of None \<Rightarrow> False | Some v \<Rightarrow> vd_risk v = SevHIGH) es"

definition any_version_diff :: "evidence list \<Rightarrow> bool" where
  "any_version_diff es = list_ex (\<lambda>e.
     case ev_version_diff e of None \<Rightarrow> False | Some v \<Rightarrow> vd_risk v \<noteq> SevLOW) es"

definition avg_confidence :: "evidence list \<Rightarrow> rat" where
  "avg_confidence es =
     (if es = [] then 0 else sum_list (map ev_confidence es) / of_nat (length es))"

definition max_malicious_confidence :: "evidence list \<Rightarrow> rat" where
  "max_malicious_confidence es =
     (let vals = map ev_confidence (filter (\<lambda>e. ev_llm_verdict e = LlmMALICIOUS) es)
      in if vals \<noteq> [] then py_max vals 0 else 0)"

subsection \<open>The decision\<close>

definition decide_verdict :: "evidence list \<Rightarrow> stage_result list \<Rightarrow> bool \<Rightarrow> verdict" where
  "decide_verdict es rs registry_found =
     (if \<not> registry_found then CANNOT_ANALYZE
      else if any_stage_failed rs then ERROR
      else if es = [] then (if all_required_stages_passed rs then CLEAN else ERROR)
      else if has_high_severity_ttp es \<and> any_llm_malicious es
              \<and> max_malicious_confidence es \<ge> MALICIOUS_CONFIDENCE_THRESHOLD then MALICIOUS
      else if (has_any_strong_ttp_match es \<or> any_version_diff_critical es)
              \<and> any_llm_suspicious_or_worse es then HIGH_RISK
      else if has_any_ttp_match es \<or> any_version_diff es
              \<or> llm_suspicious_count es \<ge> LLM_SUSPICIOUS_QUORUM then SUSPICIOUS
      else CLEAN)"

subsection \<open>The helpers as sets of evidence\<close>

lemma any_stage_failed_iff:
  "any_stage_failed rs \<longleftrightarrow>
     (\<exists>s\<in>set rs. sr_stage s \<in> set REQUIRED_STAGES_FOR_JUDGMENT \<and> \<not> sr_success s)"
  by (induction rs) auto

lemma any_stage_failed_append [simp]:
  "any_stage_failed (rs @ qs) \<longleftrightarrow> any_stage_failed rs \<or> any_stage_failed qs"
  by (auto simp: any_stage_failed_iff)

lemma any_stage_failed_ok [simp]: "\<not> any_stage_failed [stage_ok s p]"
  by simp

lemma max_malicious_ge_iff:
  assumes "0 < t"
  shows "t \<le> max_malicious_confidence es \<longleftrightarrow>
    (\<exists>e\<in>set es. ev_llm_verdict e = LlmMALICIOUS \<and> t \<le> ev_confidence e)"
proof -
  let ?vals = "map ev_confidence (filter (\<lambda>e. ev_llm_verdict e = LlmMALICIOUS) es)"
  show ?thesis
  proof (cases "?vals = []")
    case True
    with assms show ?thesis
      by (auto simp: max_malicious_confidence_def filter_empty_conv)
  next
    case False
    then have "max_malicious_confidence es = py_max ?vals 0"
      by (simp add: max_malicious_confidence_def Let_def)
    with py_max_ge_iff [OF False, of t 0] show ?thesis by auto
  qed
qed

text \<open>A piece of evidence that on its own settles the malicious confidence condition.\<close>

definition strong_malicious :: "evidence \<Rightarrow> bool" where
  "strong_malicious e = (ev_llm_verdict e = LlmMALICIOUS \<and> 85 / 100 \<le> ev_confidence e)"

lemma malicious_condition:
  "(has_high_severity_ttp es \<and> any_llm_malicious es
     \<and> max_malicious_confidence es \<ge> MALICIOUS_CONFIDENCE_THRESHOLD) \<longleftrightarrow>
   (\<exists>e\<in>set es. ev_ttp_severity e = SevHIGH) \<and> (\<exists>e\<in>set es. strong_malicious e)"
proof -
  have "MALICIOUS_CONFIDENCE_THRESHOLD \<le> max_malicious_confidence es \<longleftrightarrow>
      (\<exists>e\<in>set es. strong_malicious e)"
    using max_malicious_ge_iff [of MALICIOUS_CONFIDENCE_THRESHOLD es]
    unfolding strong_malicious_def MALICIOUS_CONFIDENCE_THRESHOLD_def by simp
  then show ?thesis
    by (auto simp: has_high_severity_ttp_def any_llm_malicious_def list_ex_iff
        strong_malicious_def)
qed

lemmas verdict_preds =
  has_any_strong_ttp_match_def has_any_ttp_match_def any_llm_suspicious_or_worse_def
  any_version_diff_critical_def any_version_diff_def

lemma suspicious_count_mono: "llm_suspicious_count es \<le> llm_suspicious_count (xs @ es @ ys)"
  by (simp add: llm_suspicious_count_def)

text \<open>The order of the verdicts a judged package can get.\<close>

fun verdict_rank :: "verdict \<Rightarrow> nat" where
  "verdict_rank MALICIOUS = 3"
| "verdict_rank HIGH_RISK = 2"
| "verdict_rank SUSPICIOUS = 1"
| "verdict_rank _ = 0"

lemma decide_judged:
  assumes "registry_found" and "\<not> any_stage_failed rs" and "es \<noteq> []"
  shows "decide_verdict es rs registry_found =
     (if (\<exists>e\<in>set es. ev_ttp_severity e = SevHIGH) \<and> (\<exists>e\<in>set es. strong_malicious e)
      then MALICIOUS
      else if (has_any_strong_ttp_match es \<or> any_version_diff_critical es)
              \<and> any_llm_suspicious_or_worse es then HIGH_RISK
      else if has_any_ttp_match es \<or> any_version_diff es
              \<or> llm_suspicious_count es \<ge> LLM_SUSPICIOUS_QUORUM then SUSPICIOUS
      else CLEAN)"
  using assms malicious_condition [of es] by (simp add: decide_verdict_def)

lemma verdict_preds_mono:
  assumes "set es \<subseteq> set fs"
  shows "has_any_strong_ttp_match es \<Longrightarrow> has_any_strong_ttp_match fs"
    and "any_version_diff_critical es \<Longrightarrow> any_version_diff_critical fs"
    and "any_llm_suspicious_or_worse es \<Longrightarrow> any_llm_suspicious_or_worse fs"
    and "has_any_ttp_match es \<Longrightarrow> has_any_ttp_match fs"
    and "any_version_diff es \<Longrightarrow> any_version_diff fs"
  using assms by (auto simp: verdict_preds list_ex_iff)

lemma decide_verdict_rank_mono:
  assumes "es \<noteq> []"
  shows "verdict_rank (decide_verdict es rs True) \<le>
         verdict_rank (decide_verdict (xs @ es @ ys) rs True)"
proof (cases "any_stage_failed rs")
  case True
  then show ?thesis by (simp add: decide_verdict_def)
next
  case False
  have sub: "set es \<subseteq> set (xs @ es @ ys)" by auto
  show ?thesis
    using decide_judged [OF TrueI False, of es] decide_judged [OF TrueI False, of "xs @ es @ ys"]
      assms verdict_preds_mono [OF sub] suspicious_count_mono [of es xs ys]
    by (auto simp: LLM_SUSPICIOUS_QUORUM_def)
qed

subsection \<open>Properties\<close>

text \<open>C1: A package is called MALICIOUS exactly when the registry knows it, no required stage
  failed, some evidence matched a HIGH-severity technique, and some evidence (perhaps another one)
  has a malicious LLM verdict with confidence at least 0.85.\<close>
theorem malicious_verdict_iff:
  "decide_verdict es rs registry_found = MALICIOUS \<longleftrightarrow>
     registry_found
     \<and> \<not> (\<exists>s\<in>set rs. sr_stage s \<in> set REQUIRED_STAGES_FOR_JUDGMENT \<and> \<not> sr_success s)
     \<and> (\<exists>e\<in>set es. ev_ttp_severity e = SevHIGH)
     \<and> (\<exists>e\<in>set es. ev_llm_verdict e = LlmMALICIOUS \<and> 85 / 100 \<le> ev_confidence e)"
  using malicious_condition [of es]
  by (auto simp: decide_verdict_def any_stage_failed_iff strong_malicious_def)

text \<open>C2: The decision is monotone: for a known package that has some evidence, more evidence,
  wherever it is inserted, never lowers the verdict (CLEAN and ERROR below SUSPICIOUS below
  HIGH_RISK below MALICIOUS).\<close>
theorem more_evidence_never_lowers:
  assumes "es \<noteq> []"
  shows "verdict_rank (decide_verdict es rs True) \<le>
         verdict_rank (decide_verdict (xs @ es @ ys) rs True)"
  by (rule decide_verdict_rank_mono [OF assms])

definition sample_evidence :: evidence where
  "sample_evidence =
     \<lparr>ev_file_path = ''setup.py'', ev_line_start = 1, ev_line_end = 1, ev_code_snippet = [],
      ev_behavior_sequence = [], ev_attack_dimensions = [], ev_ttp_id = ''T1059'',
      ev_ttp_name = ''Shell'', ev_ttp_source = MITRE_ATTACK, ev_ttp_url = [],
      ev_vector_similarity = 9/10, ev_ttp_severity = SevMEDIUM, ev_llm_verdict = LlmSUSPICIOUS,
      ev_llm_reasoning = [], ev_llm_model = [], ev_version_diff = None, ev_confidence = 6/10\<rparr>"

theorem more_evidence_never_lowers_witness:
  "verdict_rank (decide_verdict [sample_evidence] [] True) \<le>
   verdict_rank (decide_verdict ([] @ [sample_evidence]
      @ [sample_evidence\<lparr>ev_ttp_severity := SevHIGH\<rparr>]) [] True)"
  by (rule more_evidence_never_lowers) simp

text \<open>Of the stages only a failed one blocks the judgement of evidence: when none of the
  required stages was run at all, a known package with evidence is judged, and only one without
  evidence is an ERROR.\<close>
theorem absent_stages_judged:
  "decide_verdict es [] True = ERROR \<longleftrightarrow> es = []"
  by (simp add: decide_verdict_def all_required_stages_passed_def REQUIRED_STAGES_FOR_JUDGMENT_def)

end
