(* ===== verification/PriorityQueue.thy ===== *)
theory PriorityQueue
  imports Py_Prelude "HOL-Library.Product_Lexorder" "HOL-Library.Multiset"
begin

text \<open>
  The scan queue: \<^verbatim>\<open>monitor/release_event.py\<close> (release events and their priority) and
  \<^verbatim>\<open>monitor/priority_queue.py\<close> (the \<^verbatim>\<open>scan_queue\<close> table and its operations).

  The table is the list of its rows in \<^verbatim>\<open>id\<close> order, with the next \<^verbatim>\<open>AUTOINCREMENT\<close> id.
  A timestamp, which the database writes as fixed-width text that compares as the instants do, is
  the instant in milliseconds; every operation that reads the clock takes \<open>now\<close>. Rows that
  \<^verbatim>\<open>ORDER BY priority, enqueued_at\<close> leaves tied keep their \<^verbatim>\<open>id\<close> order, which is the order
  of the index SQLite scans.
\<close>

subsection \<open>Release events\<close>

record release_event =
  re_ecosystem :: string
  re_package :: string
  re_version :: string
  re_archive_url :: string
  re_source_event :: string
  re_raw_meta :: pydict

definition DEFAULT_PRIORITY :: int where
  "DEFAULT_PRIORITY = 200"

definition RANK_BUCKETS :: "(int \<times> int) list" where
  "RANK_BUCKETS = [(10, 10), (100, 30), (1000, 60), (5000, 90)]"

fun bucket_score :: "(int \<times> int) list \<Rightarrow> int \<Rightarrow> int \<Rightarrow> int" where
  "bucket_score [] rank score = score"
| "bucket_score ((upper, p) # bs) rank score =
     (if rank \<le> upper then p else bucket_score bs rank score)"

definition compute_priority ::
  "int option \<Rightarrow> bool \<Rightarrow> bool \<Rightarrow> bool \<Rightarrow> int option \<Rightarrow> int" where
  "compute_priority rank has_recent_advisory is_first_seen has_typosquat_signal archive_size_bytes =
     (let score = (case rank of None \<Rightarrow> DEFAULT_PRIORITY
                   | Some r \<Rightarrow> bucket_score RANK_BUCKETS r DEFAULT_PRIORITY);
          score = (if has_recent_advisory then score - 50 else score);
          score = (if is_first_seen then score - 20 else score);
          score = (if has_typosquat_signal then score - 30 else score);
          score = (case archive_size_bytes of None \<Rightarrow> score
                   | Some n \<Rightarrow> if n < 50 * 1024 then score + 20 else score)
      in max 0 (min 1000 score))"

lemma bucket_score_default:
  "bucket_score RANK_BUCKETS r DEFAULT_PRIORITY =
     (if r \<le> 10 then 10 else if r \<le> 100 then 30 else if r \<le> 1000 then 60
      else if r \<le> 5000 then 90 else 200)"
  by (simp add: RANK_BUCKETS_def DEFAULT_PRIORITY_def)

lemma bucket_score_bounds:
  "10 \<le> bucket_score RANK_BUCKETS r DEFAULT_PRIORITY"
  "bucket_score RANK_BUCKETS r DEFAULT_PRIORITY \<le> 200"
  by (simp_all add: bucket_score_default)

lemma bucket_score_mono:
  "r \<le> r' \<Longrightarrow> bucket_score RANK_BUCKETS r DEFAULT_PRIORITY \<le> bucket_score RANK_BUCKETS r' DEFAULT_PRIORITY"
  by (simp add: bucket_score_default)

text \<open>The score as the base bucket plus the corrections, clamped.\<close>

definition priority_correction :: "bool \<Rightarrow> bool \<Rightarrow> bool \<Rightarrow> int option \<Rightarrow> int" where
  "priority_correction a f t s = (if a then - 50 else 0) + (if f then - 20 else 0)
     + (if t then - 30 else 0) + (case s of None \<Rightarrow> 0 | Some n \<Rightarrow> if n < 50 * 1024 then 20 else 0)"

definition priority_base :: "int option \<Rightarrow> int" where
  "priority_base rank = (case rank of None \<Rightarrow> 200 | Some r \<Rightarrow>
     bucket_score RANK_BUCKETS r DEFAULT_PRIORITY)"

lemma compute_priority_eq:
  "compute_priority rank a f t s = max 0 (min 1000 (priority_base rank + priority_correction a f t s))"
  by (cases rank; cases s)
    (simp_all add: compute_priority_def priority_base_def priority_correction_def Let_def
      DEFAULT_PRIORITY_def)

lemma priority_correction_le: "priority_correction a f t s \<le> 20"
  by (cases s) (simp_all add: priority_correction_def)

lemma priority_base_le: "priority_base r \<le> 200"
  by (cases r) (simp_all add: priority_base_def bucket_score_bounds)

lemma compute_priority_bounds:
  "0 \<le> compute_priority r a f t s" "compute_priority r a f t s \<le> 220"
  using priority_correction_le [of a f t s] priority_base_le [of r]
  by (simp_all add: compute_priority_eq)

lemma compute_priority_rank_mono:
  "r \<le> r' \<Longrightarrow> compute_priority (Some r) a f t s \<le> compute_priority (Some r') a f t s"
  using bucket_score_mono [of r r'] by (simp add: compute_priority_eq priority_base_def)

subsection \<open>Automatic priority\<close>

text \<open>
  The two tables the priority reads. A table is \<^const>\<open>Inl\<close> when reading it raises, which
  \<^verbatim>\<open>_auto_priority\<close> treats as no row.
\<close>

record priority_db =
  pd_known_popular :: "pyexn + (string \<times> string \<times> int option) list"
  pd_known_malicious :: "pyexn + (string \<times> string) list"

definition lookup_popular :: "priority_db \<Rightarrow> string \<Rightarrow> string \<Rightarrow> pyexn + int option option" where
  "lookup_popular db eco package =
     bindE (pd_known_popular db) (\<lambda>rows.
       Inr (map_option (\<lambda>(_, _, rank). rank)
         (List.find (\<lambda>(e, p, _). e = eco \<and> p = py_lower package) rows)))"

definition auto_priority :: "priority_db \<Rightarrow> release_event \<Rightarrow> int" where
  "auto_priority db ev =
     (let rank = (case try_else (lookup_popular db (re_ecosystem ev) (re_package ev)) None of
                    None \<Rightarrow> None | Some r \<Rightarrow> r);
          has_advisory = try_else (bindE (pd_known_malicious db) (\<lambda>rows.
             Inr (list_ex (\<lambda>(e, p). e = re_ecosystem ev \<and> py_lower p = py_lower (re_package ev)) rows)))
             False
      in compute_priority rank has_advisory False False None)"

subsection \<open>The table\<close>

record scan_row =
  sq_id :: nat
  sq_package :: string
  sq_ecosystem :: string
  sq_version :: string
  sq_archive_url :: "string option"
  sq_priority :: int
  sq_source_event :: string
  sq_enqueued_at :: int
  sq_locked_at :: "int option"
  sq_locked_by :: "string option"
  sq_completed_at :: "int option"
  sq_result :: "string option"

record scan_queue =
  sq_rows :: "scan_row list"
  sq_next_id :: nat

record queued_job =
  qj_id :: nat
  qj_ecosystem :: string
  qj_package :: string
  qj_version :: string
  qj_archive_url :: string
  qj_priority :: int
  qj_source_event :: string
  qj_enqueued_at :: int
  qj_locked_by :: "string option"

definition row_to_job :: "scan_row \<Rightarrow> queued_job" where
  "row_to_job r =
     \<lparr>qj_id = sq_id r, qj_ecosystem = sq_ecosystem r, qj_package = sq_package r,
      qj_version = sq_version r, qj_archive_url = or_else (sq_archive_url r) [],
      qj_priority = sq_priority r, qj_source_event = sq_source_event r,
      qj_enqueued_at = sq_enqueued_at r, qj_locked_by = sq_locked_by r\<rparr>"

definition empty_queue :: scan_queue where
  "empty_queue = \<lparr>sq_rows = [], sq_next_id = 1\<rparr>"

text \<open>\<^verbatim>\<open>UPDATE scan_queue SET f WHERE P\<close>.\<close>

definition update_rows :: "(scan_row \<Rightarrow> bool) \<Rightarrow> (scan_row \<Rightarrow> scan_row) \<Rightarrow> scan_queue \<Rightarrow> scan_queue" where
  "update_rows P f q = q\<lparr>sq_rows := map (\<lambda>r. if P r then f r else r) (sq_rows q)\<rparr>"

text \<open>\<^verbatim>\<open>SELECT ... WHERE P ORDER BY priority, enqueued_at\<close>.\<close>

definition sort_rows :: "scan_row list \<Rightarrow> scan_row list" where
  "sort_rows rs = sort_key (\<lambda>r. (sq_priority r, sq_enqueued_at r)) rs"

definition row_key :: "scan_row \<Rightarrow> string \<times> string \<times> string \<times> int" where
  "row_key r = (sq_package r, sq_ecosystem r, sq_version r, sq_enqueued_at r)"

definition row_pending :: "scan_row \<Rightarrow> bool" where
  "row_pending r = (sq_locked_at r = None \<and> sq_completed_at r = None)"

definition row_inflight :: "scan_row \<Rightarrow> bool" where
  "row_inflight r = (sq_locked_at r \<noteq> None \<and> sq_completed_at r = None)"

subsection \<open>Operations\<close>

definition new_row :: "nat \<Rightarrow> release_event \<Rightarrow> int \<Rightarrow> int \<Rightarrow> scan_row" where
  "new_row i ev priority now =
     \<lparr>sq_id = i, sq_package = re_package ev, sq_ecosystem = re_ecosystem ev,
      sq_version = re_version ev, sq_archive_url = Some (re_archive_url ev),
      sq_priority = priority, sq_source_event = re_source_event ev, sq_enqueued_at = now,
      sq_locked_at = None, sq_locked_by = None, sq_completed_at = None, sq_result = None\<rparr>"

text \<open>
  \<^verbatim>\<open>INSERT\<close> fails, and is reported as \<^const>\<open>False\<close>, when the ecosystem is not one of the two
  the schema allows or the unique key is taken.
\<close>

definition insert_allowed :: "scan_queue \<Rightarrow> scan_row \<Rightarrow> bool" where
  "insert_allowed q r =
     ((sq_ecosystem r = ''PyPI'' \<or> sq_ecosystem r = ''npm'')
      \<and> row_key r \<notin> set (map row_key (sq_rows q)))"

definition insert_event :: "int \<Rightarrow> int \<Rightarrow> release_event \<Rightarrow> scan_queue \<Rightarrow> bool \<times> scan_queue" where
  "insert_event now priority ev q =
     (let r = new_row (sq_next_id q) ev priority now in
      if insert_allowed q r
      then (True, q\<lparr>sq_rows := sq_rows q @ [r], sq_next_id := Suc (sq_next_id q)\<rparr>)
      else (False, q))"

definition enqueue ::
  "int \<Rightarrow> priority_db \<Rightarrow> int option \<Rightarrow> release_event \<Rightarrow> scan_queue \<Rightarrow> bool \<times> scan_queue" where
  "enqueue now db priority ev q =
     insert_event now (case priority of None \<Rightarrow> auto_priority db ev | Some p \<Rightarrow> p) ev q"

text \<open>Each event is inserted at its own clock reading.\<close>

fun enqueue_many ::
  "priority_db \<Rightarrow> (int \<times> release_event) list \<Rightarrow> scan_queue \<Rightarrow> nat \<times> scan_queue" where
  "enqueue_many db [] q = (0, q)"
| "enqueue_many db ((now, ev) # evs) q =
     (case enqueue now db None ev q of (ok, q1) \<Rightarrow>
      case enqueue_many db evs q1 of (n, q2) \<Rightarrow> (if ok then Suc n else n, q2))"

definition own_rows :: "string \<Rightarrow> scan_queue \<Rightarrow> scan_row list" where
  "own_rows wid q =
     sort_rows (filter (\<lambda>r. sq_locked_by r = Some wid \<and> sq_completed_at r = None) (sq_rows q))"

definition pending_rows :: "scan_queue \<Rightarrow> scan_row list" where
  "pending_rows q = sort_rows (filter row_pending (sq_rows q))"

definition lock_row :: "string \<Rightarrow> int \<Rightarrow> scan_row \<Rightarrow> scan_row" where
  "lock_row wid now r = r\<lparr>sq_locked_at := Some now, sq_locked_by := Some wid\<rparr>"

definition lock_next ::
  "string \<Rightarrow> int \<Rightarrow> nat \<Rightarrow> scan_queue \<Rightarrow> queued_job option \<times> scan_queue" where
  "lock_next wid now max_inflight q =
     (case take max_inflight (own_rows wid q) of
        r # _ \<Rightarrow> (Some (row_to_job r), q)
      | [] \<Rightarrow>
        (case pending_rows q of
           [] \<Rightarrow> (None, q)
         | r # _ \<Rightarrow>
           (Some (row_to_job (lock_row wid now r)),
            update_rows (\<lambda>x. sq_id x = sq_id r) (lock_row wid now) q)))"

definition complete :: "int \<Rightarrow> nat \<Rightarrow> string \<Rightarrow> scan_queue \<Rightarrow> scan_queue" where
  "complete now job_id result =
     update_rows (\<lambda>r. sq_id r = job_id)
       (\<lambda>r. r\<lparr>sq_completed_at := Some now, sq_result := Some result\<rparr>)"

definition fail_job :: "nat \<Rightarrow> string \<Rightarrow> scan_queue \<Rightarrow> scan_queue" where
  "fail_job job_id error =
     update_rows (\<lambda>r. sq_id r = job_id)
       (\<lambda>r. r\<lparr>sq_locked_at := None, sq_locked_by := None,
              sq_result := Some (''RETRY:'' @ take 200 error)\<rparr>)"

definition abandon :: "int \<Rightarrow> nat \<Rightarrow> string \<Rightarrow> scan_queue \<Rightarrow> scan_queue" where
  "abandon now job_id error =
     update_rows (\<lambda>r. sq_id r = job_id)
       (\<lambda>r. r\<lparr>sq_completed_at := Some now, sq_result := Some (''ERR:'' @ take 200 error)\<rparr>)"

record queue_stats =
  qs_pending :: nat
  qs_inflight :: nat
  qs_done :: nat
  qs_failed :: nat
  qs_total :: nat

text \<open>\<^verbatim>\<open>result LIKE 'OK%'\<close>: SQLite's \<^verbatim>\<open>LIKE\<close> ignores ASCII case; NULL does not match.\<close>

definition like_prefix :: "string \<Rightarrow> string option \<Rightarrow> bool" where
  "like_prefix p res = (case res of None \<Rightarrow> False | Some s \<Rightarrow> prefix (py_upper p) (py_upper s))"

definition stats :: "scan_queue \<Rightarrow> queue_stats" where
  "stats q = (let n = (\<lambda>P. length (filter P (sq_rows q))) in
     \<lparr>qs_pending = n row_pending,
      qs_inflight = n row_inflight,
      qs_done = n (\<lambda>r. sq_completed_at r \<noteq> None \<and> like_prefix ''OK'' (sq_result r)),
      qs_failed = n (\<lambda>r. sq_completed_at r \<noteq> None \<and> like_prefix ''ERR'' (sq_result r)),
      qs_total = length (sq_rows q)\<rparr>)"

definition row_stuck :: "int \<Rightarrow> int \<Rightarrow> scan_row \<Rightarrow> bool" where
  "row_stuck now older_than_minutes r =
     (case sq_locked_at r of None \<Rightarrow> False
      | Some t \<Rightarrow> sq_completed_at r = None \<and> t < now - older_than_minutes * 60000)"

definition reset_stuck :: "int \<Rightarrow> int \<Rightarrow> scan_queue \<Rightarrow> nat \<times> scan_queue" where
  "reset_stuck now older_than_minutes q =
     (length (filter (row_stuck now older_than_minutes) (sq_rows q)),
      update_rows (row_stuck now older_than_minutes)
        (\<lambda>r. r\<lparr>sq_locked_at := None, sq_locked_by := None,
               sq_result := Some ''RESET:stuck-worker''\<rparr>) q)"

definition row_expired :: "int \<Rightarrow> int \<Rightarrow> scan_row \<Rightarrow> bool" where
  "row_expired now older_than_days r =
     (case sq_completed_at r of None \<Rightarrow> False | Some t \<Rightarrow> t < now - older_than_days * 86400000)"

definition purge_completed :: "int \<Rightarrow> int \<Rightarrow> scan_queue \<Rightarrow> nat \<times> scan_queue" where
  "purge_completed now older_than_days q =
     (length (filter (row_expired now older_than_days) (sq_rows q)),
      q\<lparr>sq_rows := filter (\<lambda>r. \<not> row_expired now older_than_days r) (sq_rows q)\<rparr>)"

subsection \<open>Row updates\<close>

lemma update_rows_rows [simp]:
  "sq_rows (update_rows P f q) = map (\<lambda>r. if P r then f r else r) (sq_rows q)"
  "sq_next_id (update_rows P f q) = sq_next_id q"
  by (simp_all add: update_rows_def)

lemma set_sort_rows [simp]: "set (sort_rows rs) = set rs"
  by (simp add: sort_rows_def)

lemma sort_rows_hd_le:
  assumes "sort_rows rs = r # qs" and "x \<in> set rs"
  shows "(sq_priority r, sq_enqueued_at r) \<le> (sq_priority x, sq_enqueued_at x)"
proof -
  have "sorted (map (\<lambda>r. (sq_priority r, sq_enqueued_at r)) (sort_rows rs))"
    by (simp add: sort_rows_def)
  moreover from assms(2) have "x \<in> set (sort_rows rs)" by simp
  ultimately show ?thesis using assms(1) by auto
qed

lemma lock_row_fields [simp]:
  "sq_id (lock_row w n r) = sq_id r" "row_key (lock_row w n r) = row_key r"
  "sq_locked_by (lock_row w n r) = Some w" "sq_locked_at (lock_row w n r) = Some n"
  "sq_completed_at (lock_row w n r) = sq_completed_at r"
  by (simp_all add: lock_row_def row_key_def)

lemma row_to_job_fields [simp]:
  "qj_id (row_to_job r) = sq_id r" "qj_locked_by (row_to_job r) = sq_locked_by r"
  "qj_priority (row_to_job r) = sq_priority r"
  by (simp_all add: row_to_job_def)

subsection \<open>Properties\<close>

text \<open>The priority of a release stays between 0 and 220, and a more popular package (a
  smaller rank) never gets a later place than a less popular one with the same corrections.\<close>
theorem priority_bounds_and_order:
  assumes "r \<le> r'"
  shows "0 \<le> compute_priority rank a f t s \<and> compute_priority rank a f t s \<le> 220
    \<and> compute_priority (Some r) a f t s \<le> compute_priority (Some r') a f t s"
  using compute_priority_bounds compute_priority_rank_mono [OF assms] by simp

theorem priority_bounds_and_order_witness:
  "0 \<le> compute_priority None True False False (Some 10)
    \<and> compute_priority None True False False (Some 10) \<le> 220
    \<and> compute_priority (Some 50) True False False (Some 10)
      \<le> compute_priority (Some 2000) True False False (Some 10)"
  by (rule priority_bounds_and_order) simp

end
