(* ===== verification/QueueProtocol.thy ===== *)
theory QueueProtocol
  imports PriorityQueue
begin

text \<open>
  What the scan queue promises to the processes that share it: the table invariant, kept by every
  operation; the step relation of any number of watchers and workers interleaving on one table; the
  contract of a job source (\<open>job_source\<close>), which the worker loop relies on and the queue provides.
\<close>

subsection \<open>The table invariant\<close>

definition row_wf :: "scan_row \<Rightarrow> bool" where
  "row_wf r = ((sq_locked_at r = None) = (sq_locked_by r = None)
     \<and> (sq_ecosystem r = ''PyPI'' \<or> sq_ecosystem r = ''npm''))"

definition queue_inv :: "scan_queue \<Rightarrow> bool" where
  "queue_inv q = (distinct (map sq_id (sq_rows q)) \<and> distinct (map row_key (sq_rows q))
     \<and> (\<forall>r\<in>set (sq_rows q). sq_id r < sq_next_id q \<and> row_wf r))"

lemma queue_inv_empty [simp]: "queue_inv empty_queue"
  by (simp add: queue_inv_def empty_queue_def)

lemma map_update_rows:
  "(\<And>r. g (f r) = g r) \<Longrightarrow> map g (sq_rows (update_rows P f q)) = map g (sq_rows q)"
  by (simp add: comp_def if_distrib [of g] cong: if_cong)

lemma update_rows_all:
  "(\<And>r. Q r \<Longrightarrow> Q (f r)) \<Longrightarrow> \<forall>r\<in>set rs. Q r \<Longrightarrow>
    \<forall>r\<in>set (map (\<lambda>r. if P r then f r else r) rs). Q r"
  by auto

lemma queue_inv_update:
  assumes "queue_inv q" and "\<And>r. sq_id (f r) = sq_id r" and "\<And>r. row_key (f r) = row_key r"
    and "\<And>r. row_wf r \<Longrightarrow> row_wf (f r)"
  shows "queue_inv (update_rows P f q)"
proof -
  have "\<forall>r\<in>set (sq_rows (update_rows P f q)). sq_id r < sq_next_id q \<and> row_wf r"
    unfolding update_rows_rows
    by (rule update_rows_all) (use assms in \<open>simp_all add: queue_inv_def\<close>)
  with assms(1) map_update_rows [of sq_id f, OF assms(2)] map_update_rows [of row_key f, OF assms(3)]
  show ?thesis by (simp add: queue_inv_def del: update_rows_rows(1))
qed

lemma insert_event_inv: "queue_inv q \<Longrightarrow> queue_inv (snd (insert_event now p ev q))"
  by (auto simp: insert_event_def Let_def queue_inv_def insert_allowed_def new_row_def row_wf_def
      less_Suc_eq)

lemma enqueue_inv: "queue_inv q \<Longrightarrow> queue_inv (snd (enqueue now db p ev q))"
  by (simp add: enqueue_def insert_event_inv)

lemma enqueue_many_inv: "queue_inv q \<Longrightarrow> queue_inv (snd (enqueue_many db evs q))"
proof (induction evs arbitrary: q)
  case (Cons e evs)
  obtain now ev where e: "e = (now, ev)" by (cases e)
  obtain ok q1 where 1: "enqueue now db None ev q = (ok, q1)" by fastforce
  with enqueue_inv [OF Cons.prems, of now db None ev] have "queue_inv q1" by simp
  from Cons.IH [OF this] show ?case
    by (cases "enqueue_many db evs q1") (simp add: e 1)
qed simp

lemma lock_next_inv: "queue_inv q \<Longrightarrow> queue_inv (snd (lock_next w now m q))"
  by (auto simp: lock_next_def split: list.splits
      intro!: queue_inv_update) (simp_all add: row_wf_def lock_row_def)

lemma complete_inv: "queue_inv q \<Longrightarrow> queue_inv (complete now i res q)"
  unfolding complete_def by (rule queue_inv_update) (simp_all add: row_key_def row_wf_def)

lemma fail_job_inv: "queue_inv q \<Longrightarrow> queue_inv (fail_job i e q)"
  unfolding fail_job_def by (rule queue_inv_update) (simp_all add: row_key_def row_wf_def)

lemma abandon_inv: "queue_inv q \<Longrightarrow> queue_inv (abandon now i e q)"
  unfolding abandon_def by (rule queue_inv_update) (simp_all add: row_key_def row_wf_def)

lemma reset_stuck_inv: "queue_inv q \<Longrightarrow> queue_inv (snd (reset_stuck now m q))"
  by (auto simp: reset_stuck_def row_key_def row_wf_def intro!: queue_inv_update)

lemma purge_completed_inv: "queue_inv q \<Longrightarrow> queue_inv (snd (purge_completed now d q))"
  by (auto simp: purge_completed_def queue_inv_def distinct_map_filter)

subsection \<open>Open jobs and their holders\<close>

text \<open>The jobs that are not finished, and those a worker holds.\<close>

definition open_ids :: "scan_queue \<Rightarrow> nat set" where
  "open_ids q = sq_id ` {r \<in> set (sq_rows q). sq_completed_at r = None}"

definition held_by :: "string \<Rightarrow> scan_queue \<Rightarrow> nat set" where
  "held_by w q =
     sq_id ` {r \<in> set (sq_rows q). sq_completed_at r = None \<and> sq_locked_by r = Some w}"

lemma open_idsI: "r \<in> set (sq_rows q) \<Longrightarrow> sq_completed_at r = None \<Longrightarrow> sq_id r \<in> open_ids q"
  by (auto simp: open_ids_def)

lemma open_idsE:
  assumes "i \<in> open_ids q"
  obtains r where "r \<in> set (sq_rows q)" "sq_id r = i" "sq_completed_at r = None"
  using assms by (auto simp: open_ids_def)

lemma held_byI:
  "r \<in> set (sq_rows q) \<Longrightarrow> sq_id r = i \<Longrightarrow> sq_completed_at r = None \<Longrightarrow> sq_locked_by r = Some w \<Longrightarrow>
    i \<in> held_by w q"
  by (auto simp: held_by_def)

lemma held_byE:
  assumes "i \<in> held_by w q"
  obtains r where "r \<in> set (sq_rows q)" "sq_id r = i" "sq_completed_at r = None"
    "sq_locked_by r = Some w"
  using assms by (auto simp: held_by_def)

lemma same_id_same_row:
  assumes "queue_inv q" "r \<in> set (sq_rows q)" "r' \<in> set (sq_rows q)" "sq_id r = sq_id r'"
  shows "r = r'"
proof -
  from assms(1) have "inj_on sq_id (set (sq_rows q))" by (simp add: queue_inv_def distinct_map)
  from inj_onD [OF this assms(4,2,3)] show ?thesis .
qed

lemma held_unique: "queue_inv q \<Longrightarrow> i \<in> held_by w q \<Longrightarrow> i \<in> held_by w' q \<Longrightarrow> w = w'"
  by (elim held_byE) (metis option.inject same_id_same_row)

lemma held_open: "held_by w q \<subseteq> open_ids q"
  by (auto simp: held_by_def open_ids_def)

text \<open>The two ways \<^const>\<open>lock_next\<close> finds a job.\<close>

lemma own_rows_mem:
  "r \<in> set (own_rows w q) \<longleftrightarrow>
     r \<in> set (sq_rows q) \<and> sq_locked_by r = Some w \<and> sq_completed_at r = None"
  by (auto simp: own_rows_def)

lemma pending_rows_mem: "r \<in> set (pending_rows q) \<longleftrightarrow> r \<in> set (sq_rows q) \<and> row_pending r"
  by (auto simp: pending_rows_def)

lemma lock_next_cases [consumes 1, case_names own new none]:
  assumes "lock_next w now m q = (job, q')"
  obtains
    r where "r \<in> set (sq_rows q)" "sq_locked_by r = Some w" "sq_completed_at r = None"
      "job = Some (row_to_job r)" "q' = q"
  | r rs where "take m (own_rows w q) = []" "pending_rows q = r # rs"
      "job = Some (row_to_job (lock_row w now r))"
      "q' = update_rows (\<lambda>x. sq_id x = sq_id r) (lock_row w now) q"
  | "take m (own_rows w q) = []" "pending_rows q = []" "job = None" "q' = q"
proof (cases "take m (own_rows w q)")
  case Nil
  show ?thesis
  proof (cases "pending_rows q")
    case Nil': Nil
    have "job = None \<and> q' = q" using assms by (simp add: lock_next_def Nil Nil' del: take_eq_Nil)
    with Nil Nil' show ?thesis by (intro that(3)) simp_all
  next
    case (Cons r rs)
    have "job = Some (row_to_job (lock_row w now r))
      \<and> q' = update_rows (\<lambda>x. sq_id x = sq_id r) (lock_row w now) q"
      using assms by (simp add: lock_next_def Nil Cons del: take_eq_Nil)
    with Nil Cons show ?thesis by (intro that(2)) simp_all
  qed
next
  case (Cons r rs)
  then have "r \<in> set (own_rows w q)" by (metis in_set_takeD list.set_intros(1))
  moreover have "job = Some (row_to_job r) \<and> q' = q" using assms by (simp add: lock_next_def Cons)
  ultimately show ?thesis by (intro that(1)) (simp_all add: own_rows_mem)
qed

lemma update_rows_mem:
  "r \<in> set (sq_rows q) \<Longrightarrow> (if P r then f r else r) \<in> set (sq_rows (update_rows P f q))"
  by simp

lemma update_rowsE:
  assumes "x \<in> set (sq_rows (update_rows P f q))"
  obtains r where "r \<in> set (sq_rows q)" "x = (if P r then f r else r)"
  using assms by auto

lemma open_ids_update:
  assumes id: "\<And>r. sq_id (f r) = sq_id r"
    and c: "\<And>r. sq_completed_at (f r) = sq_completed_at r"
  shows "open_ids (update_rows P f q) = open_ids q"
proof -
  have eq: "sq_id (if P r then f r else r) = sq_id r"
    "sq_completed_at (if P r then f r else r) = sq_completed_at r" for r
    by (simp_all add: id c)
  show ?thesis
  proof (intro equalityI subsetI)
    fix k assume "k \<in> open_ids (update_rows P f q)"
    then obtain x where x: "x \<in> set (sq_rows (update_rows P f q))" "sq_id x = k"
        "sq_completed_at x = None" by (rule open_idsE)
    from x(1) obtain r where "r \<in> set (sq_rows q)" "x = (if P r then f r else r)"
      by (rule update_rowsE)
    with x eq [of r] open_idsI [of r q] show "k \<in> open_ids q" by simp
  next
    fix k assume "k \<in> open_ids q"
    then obtain r where r: "r \<in> set (sq_rows q)" "sq_id r = k" "sq_completed_at r = None"
      by (rule open_idsE)
    with open_idsI [OF update_rows_mem [OF r(1), of P f]] eq [of r]
    show "k \<in> open_ids (update_rows P f q)" by simp
  qed
qed

lemma lock_next_open: "open_ids (snd (lock_next w now m q)) = open_ids q"
proof -
  obtain job q' where l: "lock_next w now m q = (job, q')" by fastforce
  then have "open_ids q' = open_ids q"
    by (cases rule: lock_next_cases) (simp_all add: open_ids_update)
  with l show ?thesis by simp
qed

lemma lock_next_held:
  assumes lock: "lock_next w now m q = (Some j, q')"
  shows "qj_id j \<in> held_by w q'"
  using lock
proof (cases rule: lock_next_cases)
  case (own r)
  then show ?thesis by (simp add: held_byI)
next
  case (new r rs)
  then have r: "r \<in> set (sq_rows q)" "sq_completed_at r = None"
    using pending_rows_mem [of r q] by (simp_all add: row_pending_def)
  have "lock_row w now r \<in> set (sq_rows q')"
    using new(4) update_rows_mem [OF r(1), of "\<lambda>x. sq_id x = sq_id r" "lock_row w now"] by simp
  then show ?thesis
    using new(3) r(2) by (intro held_byI [of "lock_row w now r"]) simp_all
qed simp

text \<open>A job another worker holds is not handed out, and stays with its holder.\<close>

lemma lock_next_keeps_held:
  assumes inv: "queue_inv q" and other: "i \<in> held_by w' q" and lock: "lock_next w now m q = (job, q')"
  shows "i \<in> held_by w' q'" and "w' \<noteq> w \<Longrightarrow> job = Some j \<Longrightarrow> qj_id j \<noteq> i"
proof -
  from other obtain x where x: "x \<in> set (sq_rows q)" "sq_id x = i" "sq_completed_at x = None"
      "sq_locked_by x = Some w'"
    by (rule held_byE)
  from lock have "i \<in> held_by w' q' \<and> (w' \<noteq> w \<longrightarrow> (\<forall>j. job = Some j \<longrightarrow> qj_id j \<noteq> i))"
  proof (cases rule: lock_next_cases)
    case (own r)
    have "r = x" if "sq_id r = i" using same_id_same_row [OF inv own(1) x(1)] that x(2) by simp
    with own x(4) other show ?thesis by auto
  next
    case (new r rs)
    have r: "r \<in> set (sq_rows q)" "sq_locked_at r = None"
      using new(2) pending_rows_mem [of r q] by (simp_all add: row_pending_def)
    have "row_wf r" using inv r(1) by (simp add: queue_inv_def)
    with r have "sq_locked_by r = None" by (simp add: row_wf_def)
    with x(4) have "r \<noteq> x" by auto
    with same_id_same_row [OF inv r(1) x(1)] have ne: "sq_id r \<noteq> sq_id x" by blast
    then have "x \<in> set (sq_rows q')"
      using new(4) update_rows_mem [OF x(1), of "\<lambda>x. sq_id x = sq_id r" "lock_row w now"] by simp
    then have "i \<in> held_by w' q'" using x(2-4) by (rule held_byI)
    with new(3) ne x(2) show ?thesis by simp
  next
    case none
    with other show ?thesis by simp
  qed
  then show "i \<in> held_by w' q'" and "w' \<noteq> w \<Longrightarrow> job = Some j \<Longrightarrow> qj_id j \<noteq> i"
    by simp_all
qed

text \<open>A new lock takes a pending row that no pending row precedes.\<close>

lemma lock_next_priority:
  assumes inv: "queue_inv q" and lock: "lock_next w now m q = (Some j, q')"
    and new: "held_by w q = {}" and p: "r \<in> set (sq_rows q)" "row_pending r"
  shows "qj_priority j \<le> sq_priority r"
  using lock
proof (cases rule: lock_next_cases)
  case (own x)
  with new held_byI [OF own(1) refl own(3,2)] show ?thesis by simp
next
  case (new x xs)
  from p have "r \<in> set (filter row_pending (sq_rows q))" by simp
  from sort_rows_hd_le [OF new(2) [unfolded pending_rows_def] this]
  show ?thesis using new(3) by (auto simp: lock_row_def row_to_job_def)
qed simp

lemma finish_open:
  assumes id: "\<And>r. sq_id (f r) = sq_id r" and c: "\<And>r. sq_completed_at (f r) \<noteq> None"
  shows "open_ids (update_rows (\<lambda>r. sq_id r = i) f q) = open_ids q - {i}"
proof (intro equalityI subsetI)
  fix k assume "k \<in> open_ids (update_rows (\<lambda>r. sq_id r = i) f q)"
  then obtain x where x: "x \<in> set (sq_rows (update_rows (\<lambda>r. sq_id r = i) f q))" "sq_id x = k"
      "sq_completed_at x = None" by (rule open_idsE)
  from x(1) obtain r where r: "r \<in> set (sq_rows q)" "x = (if sq_id r = i then f r else r)"
    by (rule update_rowsE)
  have "sq_id r \<noteq> i" using r(2) x(3) c [of r] by auto
  with r x open_idsI [of r q] show "k \<in> open_ids q - {i}" by simp
next
  fix k assume k: "k \<in> open_ids q - {i}"
  then obtain r where r: "r \<in> set (sq_rows q)" "sq_id r = k" "sq_completed_at r = None"
    by (blast elim: open_idsE)
  with k update_rows_mem [OF r(1), of "\<lambda>r. sq_id r = i" f]
  show "k \<in> open_ids (update_rows (\<lambda>r. sq_id r = i) f q)"
    using open_idsI [of r "update_rows (\<lambda>r. sq_id r = i) f q"] by simp
qed

lemma complete_open: "open_ids (complete now i res q) = open_ids q - {i}"
  unfolding complete_def by (rule finish_open) simp_all

lemma abandon_open: "open_ids (abandon now i e q) = open_ids q - {i}"
  unfolding abandon_def by (rule finish_open) simp_all

lemma reset_stuck_open: "open_ids (snd (reset_stuck now m q)) = open_ids q"
  by (simp add: reset_stuck_def open_ids_update)

subsection \<open>The contract of a job source\<close>

text \<open>
  What a worker needs of whatever hands it jobs: locking never invents or loses an open job, a
  locked job is open, finishing closes exactly that job, and housekeeping leaves the open jobs.
\<close>

locale job_source =
  fixes inv :: "'q \<Rightarrow> bool"
    and opens :: "'q \<Rightarrow> nat set"
    and lock :: "'t \<Rightarrow> 'q \<Rightarrow> queued_job option \<times> 'q"
    and finish :: "'t \<Rightarrow> nat \<Rightarrow> string \<Rightarrow> 'q \<Rightarrow> 'q"
    and tidy :: "'t \<Rightarrow> 'q \<Rightarrow> 'q"
  assumes inv_lock: "inv q \<Longrightarrow> inv (snd (lock t q))"
    and inv_finish: "inv q \<Longrightarrow> inv (finish t i r q)"
    and inv_tidy: "inv q \<Longrightarrow> inv (tidy t q)"
    and opens_lock: "inv q \<Longrightarrow> opens (snd (lock t q)) = opens q"
    and opens_finish: "inv q \<Longrightarrow> opens (finish t i r q) = opens q - {i}"
    and opens_tidy: "inv q \<Longrightarrow> opens (tidy t q) = opens q"
    and lock_open: "inv q \<Longrightarrow> lock t q = (Some j, q') \<Longrightarrow> qj_id j \<in> opens q'"
begin

text \<open>One round of a worker: tidy, lock, finish.\<close>

lemma round_inv: "inv q \<Longrightarrow> lock t (tidy t' q) = (Some j, q') \<Longrightarrow> inv (finish t'' i r q')"
  by (metis inv_finish inv_lock inv_tidy snd_conv)

lemma round_opens:
  assumes "inv q" and "lock t (tidy t' q) = (Some j, q')"
  shows "qj_id j \<in> opens q" and "opens (finish t'' (qj_id j) r q') = opens q - {qj_id j}"
proof -
  have tidied: "inv (tidy t' q)" using assms(1) by (rule inv_tidy)
  have q': "inv q'" "opens q' = opens q"
    using inv_lock [OF tidied, of t] opens_lock [OF tidied, of t] opens_tidy [OF assms(1)] assms(2)
    by simp_all
  show "qj_id j \<in> opens q" using lock_open [OF tidied assms(2)] q'(2) by simp
  show "opens (finish t'' (qj_id j) r q') = opens q - {qj_id j}"
    using opens_finish [OF q'(1)] q'(2) by simp
qed

end

interpretation sq_complete: job_source queue_inv open_ids
  "\<lambda>t. lock_next (fst t) (snd t) 1" "\<lambda>t. complete (snd t)" "\<lambda>t q. snd (reset_stuck (snd t) 10 q)"
proof unfold_locales
  show "queue_inv q \<Longrightarrow> lock_next (fst t) (snd t) 1 q = (Some j, q') \<Longrightarrow> qj_id j \<in> open_ids q'"
    for q t j q'
    using lock_next_held [of "fst t" "snd t" 1 q j q'] held_open by (metis subsetD)
qed (simp_all add: lock_next_inv complete_inv reset_stuck_inv lock_next_open complete_open
    reset_stuck_open)

interpretation sq_abandon: job_source queue_inv open_ids
  "\<lambda>t. lock_next (fst t) (snd t) 1" "\<lambda>t. abandon (snd t)" "\<lambda>t q. snd (reset_stuck (snd t) 10 q)"
proof unfold_locales
  show "queue_inv q \<Longrightarrow> lock_next (fst t) (snd t) 1 q = (Some j, q') \<Longrightarrow> qj_id j \<in> open_ids q'"
    for q t j q'
    using lock_next_held [of "fst t" "snd t" 1 q j q'] held_open by (metis subsetD)
qed (simp_all add: lock_next_inv abandon_inv reset_stuck_inv lock_next_open abandon_open
    reset_stuck_open)

subsection \<open>Interleavings\<close>

datatype queue_action =
    Enqueue int priority_db "int option" release_event
  | LockNext string int nat
  | Complete int nat string
  | Fail nat string
  | Abandon int nat string
  | ResetStuck int int
  | Purge int int

text \<open>
  A step of the shared table: some process runs one operation, with any arguments. (A worker
  finishes only a job it holds; that is how \<^verbatim>\<open>process_one\<close> calls these operations, not
  something the table checks.)
\<close>

inductive queue_step :: "scan_queue \<Rightarrow> queue_action \<Rightarrow> scan_queue \<Rightarrow> bool" where
  enqueue: "queue_step q (Enqueue now db p ev) (snd (enqueue now db p ev q))"
| lock: "queue_step q (LockNext w now m) (snd (lock_next w now m q))"
| complete: "queue_step q (Complete now i res) (complete now i res q)"
| fail: "queue_step q (Fail i e) (fail_job i e q)"
| abandon: "queue_step q (Abandon now i e) (abandon now i e q)"
| reset: "queue_step q (ResetStuck now m) (snd (reset_stuck now m q))"
| purge: "queue_step q (Purge now d) (snd (purge_completed now d q))"

inductive_simps queue_step_lock [simp]: "queue_step q (LockNext w now m) q'"
inductive_simps queue_step_enqueue [simp]: "queue_step q (Enqueue now db p ev) q'"

lemma queue_step_inv: "queue_step q a q' \<Longrightarrow> queue_inv q \<Longrightarrow> queue_inv q'"
  by (induction rule: queue_step.induct)
    (simp_all add: enqueue_inv lock_next_inv complete_inv fail_job_inv abandon_inv reset_stuck_inv
      purge_completed_inv)

inductive queue_run :: "scan_queue \<Rightarrow> queue_action list \<Rightarrow> scan_queue \<Rightarrow> bool" where
  run_nil: "queue_run q [] q"
| run_cons: "queue_step q a q1 \<Longrightarrow> queue_run q1 as q2 \<Longrightarrow> queue_run q (a # as) q2"

inductive_cases run_ConsE: "queue_run q (a # as) q2"

lemma queue_run_inv: "queue_run q as q' \<Longrightarrow> queue_inv q \<Longrightarrow> queue_inv q'"
  by (induction rule: queue_run.induct) (auto dest: queue_step_inv)

text \<open>The actions that can take a job from its holder.\<close>

fun releases :: "nat \<Rightarrow> queue_action \<Rightarrow> bool" where
  "releases i (Complete now j res) = (j = i)"
| "releases i (Fail j e) = (j = i)"
| "releases i (Abandon now j e) = (j = i)"
| "releases i (ResetStuck now m) = True"
| "releases i _ = False"

lemma held_update_other:
  assumes "i \<in> held_by w q" and "\<And>r. sq_id r = i \<Longrightarrow> \<not> P r"
  shows "i \<in> held_by w (update_rows P f q)"
proof -
  from assms(1) obtain x where x: "x \<in> set (sq_rows q)" "sq_id x = i" "sq_completed_at x = None"
      "sq_locked_by x = Some w" by (auto simp: held_by_def)
  with assms(2) have "x \<in> set (sq_rows (update_rows P f q))" by (auto simp: image_iff)
  with x show ?thesis by (auto simp: held_by_def)
qed

lemma queue_step_keeps_held:
  assumes "queue_step q a q'" and "queue_inv q" and "i \<in> held_by w q" and "\<not> releases i a"
  shows "i \<in> held_by w q'"
  using assms
proof (induction rule: queue_step.induct)
  case (enqueue q now db p ev)
  then show ?case by (auto simp: enqueue_def insert_event_def Let_def held_by_def)
next
  case (lock q w' now m)
  then show ?case using lock_next_keeps_held(1) by (metis prod.collapse)
next
  case (purge q now d)
  then show ?case
    by (auto simp: purge_completed_def held_by_def row_expired_def image_iff)
next
  case (complete q now j res)
  then show ?case by (auto simp: complete_def intro!: held_update_other)
next
  case (fail q j e)
  then show ?case by (auto simp: fail_job_def intro!: held_update_other)
next
  case (abandon q now j e)
  then show ?case by (auto simp: abandon_def intro!: held_update_other)
qed simp_all

lemma queue_run_keeps_held:
  "queue_run q as q' \<Longrightarrow> queue_inv q \<Longrightarrow> i \<in> held_by w q \<Longrightarrow> \<forall>a\<in>set as. \<not> releases i a \<Longrightarrow>
    i \<in> held_by w q'"
  by (induction rule: queue_run.induct) (auto dest: queue_step_keeps_held queue_step_inv)

text \<open>A finished job stays finished: no action reopens it.\<close>

definition finished_ids :: "scan_queue \<Rightarrow> nat set" where
  "finished_ids q = sq_id ` {r \<in> set (sq_rows q). sq_completed_at r \<noteq> None}"

definition closed_id :: "nat \<Rightarrow> scan_queue \<Rightarrow> bool" where
  "closed_id i q = (i < sq_next_id q \<and> i \<notin> open_ids q)"

lemma closed_update:
  assumes "closed_id i q" and "\<And>r. sq_id (f r) = sq_id r"
    and "\<And>r. sq_completed_at (f r) = None \<Longrightarrow> sq_completed_at r = None"
  shows "closed_id i (update_rows P f q)"
proof -
  have "i \<in> open_ids q" if "i \<in> open_ids (update_rows P f q)"
  proof -
    from that obtain x where x: "x \<in> set (sq_rows (update_rows P f q))" "sq_id x = i"
        "sq_completed_at x = None" by (rule open_idsE)
    from x(1) obtain r where r: "r \<in> set (sq_rows q)" "x = (if P r then f r else r)"
      by (rule update_rowsE)
    from r(2) x assms(2,3) [of r] have "sq_id r = i" "sq_completed_at r = None"
      by (cases "P r"; simp)+
    with open_idsI [OF r(1)] show ?thesis by simp
  qed
  with assms(1) show ?thesis by (auto simp: closed_id_def)
qed

lemma queue_step_closed: "queue_step q a q' \<Longrightarrow> closed_id i q \<Longrightarrow> closed_id i q'"
proof (induction rule: queue_step.induct)
  case (enqueue q now db p ev)
  then show ?case
    by (auto simp: enqueue_def insert_event_def Let_def closed_id_def open_ids_def new_row_def)
next
  case (lock q w now m)
  obtain job q' where l: "lock_next w now m q = (job, q')" by fastforce
  then have "closed_id i q'"
    using lock by (cases rule: lock_next_cases) (auto intro!: closed_update)
  with l show ?case by simp
next
  case (purge q now d)
  then show ?case by (auto simp: purge_completed_def closed_id_def open_ids_def)
qed (auto simp: complete_def fail_job_def abandon_def reset_stuck_def intro!: closed_update)

lemma queue_run_closed: "queue_run q as q' \<Longrightarrow> closed_id i q \<Longrightarrow> closed_id i q'"
  by (induction rule: queue_run.induct) (auto dest: queue_step_closed)

lemma closed_not_handed_out:
  assumes "queue_inv q" and "closed_id i q" and "lock_next w now m q = (Some j, q')"
  shows "qj_id j \<noteq> i"
  using sq_complete.lock_open [of q "(w, now)" j q'] assms lock_next_held [OF assms(3)]
    held_open [of w q'] lock_next_open [of w now m q]
  by (auto simp: closed_id_def)

subsection \<open>Statistics\<close>

lemma count_split3: "length (filter P rs) + length (filter Q rs) + length (filter R rs) = length rs"
  if "\<And>r. r \<in> set rs \<Longrightarrow> (P r \<and> \<not> Q r \<and> \<not> R r) \<or> (\<not> P r \<and> Q r \<and> \<not> R r) \<or> (\<not> P r \<and> \<not> Q r \<and> R r)"
  using that
proof (induction rs)
  case (Cons r rs)
  from Cons.IH Cons.prems have "length (filter P rs) + length (filter Q rs) + length (filter R rs)
    = length rs" by simp
  with Cons.prems [of r] show ?case by auto
qed simp

lemma stats_partition:
  "qs_pending (stats q) + qs_inflight (stats q)
     + length (filter (\<lambda>r. sq_completed_at r \<noteq> None) (sq_rows q)) = qs_total (stats q)"
  unfolding stats_def Let_def
  by (simp, rule count_split3) (auto simp: row_pending_def row_inflight_def)

subsection \<open>Properties\<close>

text \<open>Whatever operations any number of processes run on the queue table, in any order and
  with any arguments, starting from the empty table: row ids are distinct and below the next id, the
  unique key holds, and every row is well formed (\<^const>\<open>queue_inv\<close>).\<close>
theorem reachable_queue_inv:
  assumes "queue_run empty_queue as q"
  shows "queue_inv q"
  using queue_run_inv [OF assms] by simp

definition sample_event :: release_event where
  "sample_event = \<lparr>re_ecosystem = ''PyPI'', re_package = ''flask'', re_version = ''1.0'',
     re_archive_url = [], re_source_event = ''manual'', re_raw_meta = []\<rparr>"

definition sample_db :: priority_db where
  "sample_db = \<lparr>pd_known_popular = Inr [(''PyPI'', ''flask'', Some 7)], pd_known_malicious = Inr []\<rparr>"

definition sample_run :: "queue_action list" where
  "sample_run = [Enqueue 1 sample_db None sample_event, LockNext ''w1'' 2 1]"

definition sample_queue :: scan_queue where
  "sample_queue = snd (lock_next ''w1'' 2 1 (snd (enqueue 1 sample_db None sample_event empty_queue)))"

lemma sample_run_runs: "queue_run empty_queue sample_run sample_queue"
  unfolding sample_run_def sample_queue_def
  by (rule run_cons [OF queue_step.enqueue run_cons [OF queue_step.lock run_nil]])

theorem reachable_queue_inv_witness: "queue_inv sample_queue"
  by (rule reachable_queue_inv [OF sample_run_runs])

text \<open>C19: Mutual exclusion: while a worker holds a job and no operation of a run finishes, fails
  or unsticks it, the worker still holds it afterwards, no other worker holds it, and no other
  worker's \<^const>\<open>lock_next\<close> hands it out.\<close>
theorem held_job_exclusive:
  assumes "queue_inv q" and "i \<in> held_by w q" and "queue_run q as q'"
    and "\<forall>a\<in>set as. \<not> releases i a" and "w' \<noteq> w"
    and "lock_next w' now m q' = (job, q'')"
  shows "i \<in> held_by w q' \<and> i \<notin> held_by w' q' \<and> (case job of None \<Rightarrow> True | Some j \<Rightarrow> qj_id j \<noteq> i)"
proof -
  have inv: "queue_inv q'" using queue_run_inv assms(1,3) by blast
  have held: "i \<in> held_by w q'" using queue_run_keeps_held assms(1-4) by blast
  moreover have "i \<notin> held_by w' q'" using held_unique [OF inv held] assms(5) by blast
  moreover have "qj_id j \<noteq> i" if "job = Some j" for j
    using lock_next_keeps_held(2) [OF inv held assms(6)] assms(5) that by simp
  ultimately show ?thesis by (simp split: option.splits)
qed

lemmas queue_eval = sample_queue_def sample_event_def sample_db_def empty_queue_def enqueue_def
  insert_event_def new_row_def insert_allowed_def row_key_def auto_priority_def lookup_popular_def
  try_else_def bindE_def lock_next_def own_rows_def pending_rows_def sort_rows_def row_pending_def
  update_rows_def lock_row_def held_by_def py_lower_def lower_char_def compute_priority_def
  RANK_BUCKETS_def DEFAULT_PRIORITY_def

lemma sample_queue_inv: "queue_inv sample_queue"
  using queue_run_inv [OF sample_run_runs] by simp

lemma sample_held: "1 \<in> held_by ''w1'' sample_queue"
  by (rule held_byI [of "hd (sq_rows sample_queue)"]) (simp_all add: queue_eval)

theorem held_job_exclusive_witness:
  "1 \<in> held_by ''w1'' sample_queue \<and> 1 \<notin> held_by ''w2'' sample_queue
    \<and> (case fst (lock_next ''w2'' 9 1 sample_queue) of None \<Rightarrow> True | Some j \<Rightarrow> qj_id j \<noteq> 1)"
  by (rule held_job_exclusive [of sample_queue 1 "''w1''" "[]" sample_queue "''w2''" 9 1 _
        "snd (lock_next ''w2'' 9 1 sample_queue)"])
    (simp_all add: run_nil sample_held [simplified] sample_queue_inv)

text \<open>C20: A finished job stays finished: once a job has been completed, no sequence of operations
  makes \<^const>\<open>lock_next\<close> hand it out again, not even after it was unstuck, failed or purged.\<close>
theorem completed_never_handed_out:
  assumes "queue_inv q" and "i < sq_next_id q" and "queue_run (complete t i r q) as q'"
    and "lock_next w now m q' = (Some j, q'')"
  shows "qj_id j \<noteq> i"
proof -
  have "queue_inv (complete t i r q)" using complete_inv assms(1) .
  then have inv: "queue_inv q'" using queue_run_inv assms(3) by blast
  have "closed_id i (complete t i r q)"
    using assms(2) by (simp add: closed_id_def complete_open) (simp add: complete_def)
  from queue_run_closed [OF assms(3) this] show ?thesis
    by (rule closed_not_handed_out [OF inv _ assms(4)])
qed

definition sample_after :: scan_queue where
  "sample_after = snd (enqueue 5 sample_db None sample_event (complete 4 1 ''OK'' sample_queue))"

theorem completed_never_handed_out_witness:
  "\<exists>j q. lock_next ''w1'' 6 1 sample_after = (Some j, q) \<and> qj_id j \<noteq> 1"
proof -
  obtain j q where l: "lock_next ''w1'' 6 1 sample_after = (Some j, q)"
    by (simp add: sample_after_def complete_def queue_eval)
  have "queue_run (complete 4 1 ''OK'' sample_queue) [Enqueue 5 sample_db None sample_event] sample_after"
    unfolding sample_after_def by (rule run_cons [OF queue_step.enqueue run_nil])
  from completed_never_handed_out [OF sample_queue_inv _ this l] have "qj_id j \<noteq> 1"
    by (simp add: queue_eval)
  with l show ?thesis by blast
qed

text \<open>A worker without a job of its own gets a pending job of the smallest priority value, and
  holds it afterwards.\<close>
theorem lock_next_takes_most_urgent:
  assumes "queue_inv q" and "lock_next w now m q = (Some j, q')" and "held_by w q = {}"
    and "r \<in> set (sq_rows q)" and "row_pending r"
  shows "qj_priority j \<le> sq_priority r \<and> qj_id j \<in> held_by w q'"
  using lock_next_priority [OF assms] lock_next_held [OF assms(2)] by simp

definition sample_pending :: scan_queue where
  "sample_pending = snd (enqueue 1 sample_db None sample_event empty_queue)"

theorem lock_next_takes_most_urgent_witness:
  "\<exists>j q. lock_next ''w1'' 2 1 sample_pending = (Some j, q)
     \<and> qj_priority j \<le> sq_priority (hd (sq_rows sample_pending)) \<and> qj_id j \<in> held_by ''w1'' q"
proof -
  obtain j q where l: "lock_next ''w1'' 2 1 sample_pending = (Some j, q)"
    by (simp add: sample_pending_def queue_eval)
  have inv: "queue_inv sample_pending" unfolding sample_pending_def by (simp add: enqueue_inv)
  from lock_next_takes_most_urgent [OF inv l, of "hd (sq_rows sample_pending)"] l show ?thesis
    by (simp add: sample_pending_def queue_eval)
qed

end
