(* ===== verification/Worker.thy ===== *)
theory Worker
  imports QueueProtocol VerdictRules
begin

text \<open>
  \<^verbatim>\<open>monitor/worker.py\<close>: the consumer of the scan queue. The pipeline run, the sinks' own
  network and file output and the clock are parameters (\<open>worker_env\<close>), indexed by the round of
  the loop that reads them; the queue and the \<^verbatim>\<open>sink_log\<close> table are the state.
\<close>

subsection \<open>Sinks\<close>

record sink_config =
  sc_stix_out_dir :: "string option"
  sc_webhook_url :: "string option"
  sc_webhook_secret :: "string option"
  sc_falco_out_dir :: "string option"
  sc_taxii_url :: "string option"
  sc_taxii_user :: "string option"
  sc_taxii_pass :: "string option"
  sc_taxii_bearer :: "string option"
  sc_pmg_out_dir :: "string option"

definition sink_from_env :: "(string \<Rightarrow> string option) \<Rightarrow> sink_config" where
  "sink_from_env getenv =
     \<lparr>sc_stix_out_dir = getenv ''AISLOP_STIX_OUT_DIR'',
      sc_webhook_url = getenv ''AISLOP_WEBHOOK_URL'',
      sc_webhook_secret = getenv ''AISLOP_WEBHOOK_SECRET'',
      sc_falco_out_dir = getenv ''AISLOP_FALCO_OUT_DIR'',
      sc_taxii_url = getenv ''AISLOP_TAXII_URL'',
      sc_taxii_user = getenv ''AISLOP_TAXII_USER'',
      sc_taxii_pass = getenv ''AISLOP_TAXII_PASS'',
      sc_taxii_bearer = getenv ''AISLOP_TAXII_BEARER'',
      sc_pmg_out_dir = getenv ''AISLOP_PMG_OUT_DIR''\<rparr>"

definition any_configured :: "sink_config \<Rightarrow> bool" where
  "any_configured c = list_ex truthy_opt
     [sc_stix_out_dir c, sc_webhook_url c, sc_falco_out_dir c, sc_taxii_url c, sc_pmg_out_dir c]"

definition SINK_VERDICTS :: "verdict list" where
  "SINK_VERDICTS = [MALICIOUS, HIGH_RISK, SUSPICIOUS]"

definition should_emit :: "verdict \<Rightarrow> bool" where
  "should_emit v = (v \<in> set SINK_VERDICTS)"

record sink_log_row =
  sl_package :: string
  sl_ecosystem :: string
  sl_version :: string
  sl_kind :: string
  sl_success :: int
  sl_code :: pyval
  sl_error :: pyval
  sl_sha :: pyval

definition log_sink ::
  "queued_job \<Rightarrow> string \<Rightarrow> bool \<Rightarrow> pyval \<Rightarrow> pyval \<Rightarrow> pyval \<Rightarrow> sink_log_row list \<Rightarrow> sink_log_row list" where
  "log_sink job kind success code error sha lg = lg @
     [\<lparr>sl_package = qj_package job, sl_ecosystem = qj_ecosystem job, sl_version = qj_version job,
       sl_kind = kind, sl_success = (if success then 1 else 0), sl_code = code, sl_error = error,
       sl_sha = sha\<rparr>]"

text \<open>The four sinks' \<^verbatim>\<open>emit\<close>: the dictionary they return, or what they raise.\<close>

record sinks =
  emit_stix :: "sink_config \<Rightarrow> pydict \<Rightarrow> pyexn + pydict"
  emit_webhook :: "sink_config \<Rightarrow> pydict \<Rightarrow> pyexn + pydict"
  emit_falco :: "sink_config \<Rightarrow> pydict \<Rightarrow> pyexn + pydict"
  emit_pmg :: "sink_config \<Rightarrow> pydict \<Rightarrow> pyexn + pydict"

type_synonym emitted = "(string \<times> pydict) list"

text \<open>One sink: its answer and one log row, or the error and a failure row.\<close>

definition emit_one ::
  "queued_job \<Rightarrow> string \<Rightarrow> (pyexn + pydict) \<Rightarrow> (pydict \<Rightarrow> bool) \<Rightarrow> (pydict \<Rightarrow> pyval)
    \<Rightarrow> (pydict \<Rightarrow> pyval) \<Rightarrow> (pydict \<Rightarrow> pyval) \<Rightarrow> emitted \<times> sink_log_row list
    \<Rightarrow> emitted \<times> sink_log_row list" where
  "emit_one job kind answer ok code err sha st =
     (case st of (out, lg) \<Rightarrow>
      case answer of
        Inr r \<Rightarrow> (out @ [(kind, r)], log_sink job kind (ok r) (code r) (err r) (sha r) lg)
      | Inl e \<Rightarrow> (out @ [(kind, [(''error'', PStr (exn_str e))])],
                  log_sink job kind False PNone (PStr (exn_str e)) PNone lg))"

definition emit_sinks ::
  "sinks \<Rightarrow> queued_job \<Rightarrow> pydict \<Rightarrow> sink_config \<Rightarrow> sink_log_row list \<Rightarrow> emitted \<times> sink_log_row list" where
  "emit_sinks sk job report cfg lg =
     (let none = (\<lambda>r. PNone); key = (\<lambda>k r. d_get r k PNone);
          st = ([], lg);
          st = (if truthy_opt (sc_stix_out_dir cfg) \<or> truthy_opt (sc_taxii_url cfg)
                then emit_one job ''stix'' (emit_stix sk cfg report) (\<lambda>r. True)
                       (key ''taxii_status'') none (key ''sha256'') st
                else st);
          st = (if truthy_opt (sc_webhook_url cfg) \<and> truthy_opt (sc_webhook_secret cfg)
                then emit_one job ''webhook'' (emit_webhook sk cfg report)
                       (\<lambda>r. py_truth (d_get r ''ok'' (PBool False)))
                       (key ''status'') (key ''error'') (key ''body_sha256'') st
                else st);
          st = (if truthy_opt (sc_falco_out_dir cfg)
                then emit_one job ''falco'' (emit_falco sk cfg report) (\<lambda>r. True) none none none st
                else st);
          st = (if truthy_opt (sc_pmg_out_dir cfg)
                then emit_one job ''pmg'' (emit_pmg sk cfg report)
                       (\<lambda>r. py_truth (d_get r ''ok'' (PBool False))) none none (key ''sha256'') st
                else st)
      in st)"

subsection \<open>One job\<close>

record job_result =
  jr_job_id :: nat
  jr_package :: string
  jr_ecosystem :: string
  jr_version :: string
  jr_verdict :: string
  jr_elapsed_s :: rat
  jr_sinks_emitted :: emitted
  jr_error :: "string option"

record worker_state =
  ws_queue :: scan_queue
  ws_log :: "sink_log_row list"

text \<open>The instants one round reads: housekeeping, locking, start and end of the run, finishing.\<close>

record round_clock =
  tk_reset :: int
  tk_lock :: int
  tk_start :: int
  tk_end :: int
  tk_finish :: int

record worker_env =
  we_id :: string
  we_clock :: "nat \<Rightarrow> round_clock"
  we_pipeline :: "nat \<Rightarrow> string \<Rightarrow> ecosystem \<Rightarrow> string \<Rightarrow> pyexn + analysis_report"
  we_sinks :: "nat \<Rightarrow> sinks"
  we_started :: int
  we_stopped :: "nat \<Rightarrow> int"

definition ecosystem_of :: "string \<Rightarrow> pyexn + ecosystem" where
  "ecosystem_of s = (case enum_of ecosystems ecosystem_value s of
     Inr e \<Rightarrow> Inr e
   | Inl _ \<Rightarrow> Inl (ValueError ([CHR 0x27] @ s @ [CHR 0x27] @ '' is not a valid Ecosystem'')))"

definition process_one ::
  "worker_env \<Rightarrow> nat \<Rightarrow> sink_config \<Rightarrow> queued_job \<Rightarrow> worker_state \<Rightarrow> job_result \<times> worker_state" where
  "process_one env i cfg job st =
     (let clk = we_clock env i;
          elapsed = of_int (tk_end clk - tk_start clk) / 1000 :: rat;
          res = \<lparr>jr_job_id = qj_id job, jr_package = qj_package job,
                 jr_ecosystem = qj_ecosystem job, jr_version = qj_version job,
                 jr_verdict = ''ERROR'', jr_elapsed_s = round2 elapsed, jr_sinks_emitted = [],
                 jr_error = None\<rparr>
      in case bindE (ecosystem_of (qj_ecosystem job))
                (\<lambda>eco. we_pipeline env i (qj_package job) eco (qj_version job)) of
        Inr rep \<Rightarrow>
          let verdict_str = verdict_value (ar_verdict rep) in
          (case (if should_emit (ar_verdict rep) \<and> any_configured cfg
                 then emit_sinks (we_sinks env i) job (report_to_serializable rep) cfg (ws_log st)
                 else ([], ws_log st)) of
             (sinks_out, lg) \<Rightarrow>
               (res\<lparr>jr_verdict := verdict_str, jr_sinks_emitted := sinks_out\<rparr>,
                \<lparr>ws_queue = complete (tk_finish clk) (qj_id job) (''OK:'' @ verdict_str) (ws_queue st),
                 ws_log = lg\<rparr>))
      | Inl e \<Rightarrow>
          let err = exn_name e @ '': '' @ exn_str e in
          (res\<lparr>jr_error := Some err\<rparr>,
           st\<lparr>ws_queue := abandon (tk_finish clk) (qj_id job) (take 200 err) (ws_queue st)\<rparr>))"

subsection \<open>The loop\<close>

text \<open>
  \<open>n\<close> counts the processed jobs, \<open>i\<close> the rounds. With \<open>loop\<close> the code never leaves the
  loop, which is the value \<^const>\<open>None\<close>.
\<close>

partial_function (option) worker_loop ::
  "worker_env \<Rightarrow> sink_config \<Rightarrow> int \<Rightarrow> bool \<Rightarrow> nat \<Rightarrow> nat \<Rightarrow> job_result list \<Rightarrow> worker_state
    \<Rightarrow> (nat \<times> job_result list \<times> worker_state) option" where
  "worker_loop env cfg max_jobs loop i n processed st =
     (let clk = we_clock env i;
          q1 = snd (reset_stuck (tk_reset clk) 10 (ws_queue st))
      in case lock_next (we_id env) (tk_lock clk) 1 q1 of
        (None, q2) \<Rightarrow>
          if loop then worker_loop env cfg max_jobs loop (Suc i) n processed (st\<lparr>ws_queue := q2\<rparr>)
          else Some (n, processed, st\<lparr>ws_queue := q2\<rparr>)
      | (Some job, q2) \<Rightarrow>
          (case process_one env i cfg job (st\<lparr>ws_queue := q2\<rparr>) of
            (result, st3) \<Rightarrow>
              if int (Suc n) \<ge> max_jobs \<and> \<not> loop
              then Some (Suc n, processed @ [result], st3)
              else worker_loop env cfg max_jobs loop (Suc i) (Suc n) (processed @ [result]) st3))"

record job_row =
  jw_id :: nat
  jw_pkg :: string
  jw_verdict :: string
  jw_elapsed_s :: rat
  jw_sinks :: "string list"
  jw_error :: "string option"

definition job_row :: "job_result \<Rightarrow> job_row" where
  "job_row r =
     \<lparr>jw_id = jr_job_id r,
      jw_pkg = jr_ecosystem r @ ''/'' @ jr_package r @ ''@'' @ jr_version r,
      jw_verdict = jr_verdict r, jw_elapsed_s = jr_elapsed_s r,
      jw_sinks = map fst (jr_sinks_emitted r), jw_error = jr_error r\<rparr>"

record worker_summary =
  wsm_processed :: nat
  wsm_elapsed_s :: rat
  wsm_queue_stats :: queue_stats
  wsm_results :: "job_row list"

definition run_worker ::
  "worker_env \<Rightarrow> sink_config \<Rightarrow> int \<Rightarrow> bool \<Rightarrow> worker_state \<Rightarrow> (worker_summary \<times> worker_state) option" where
  "run_worker env cfg max_jobs loop st =
     (case worker_loop env cfg max_jobs loop 0 0 [] st of
        None \<Rightarrow> None
      | Some (n, processed, st') \<Rightarrow>
          Some (\<lparr>wsm_processed = n,
                 wsm_elapsed_s = round1 (of_int (we_stopped env n - we_started env) / 1000),
                 wsm_queue_stats = stats (ws_queue st'),
                 wsm_results = map job_row processed\<rparr>, st'))"

subsection \<open>What the worker guarantees\<close>

lemma process_one_queue:
  assumes "process_one env i cfg job st = (res, st')"
  obtains t r where "ws_queue st' = complete t (qj_id job) r (ws_queue st)"
  | t r where "ws_queue st' = abandon t (qj_id job) r (ws_queue st)"
  using assms by (auto simp: process_one_def Let_def split: sum.splits prod.splits)

lemma process_one_id:
  "process_one env i cfg job st = (res, st') \<Longrightarrow> jr_job_id res = qj_id job"
  by (auto simp: process_one_def Let_def split: sum.splits prod.splits)

lemma worker_round:
  assumes inv: "queue_inv (ws_queue st)"
    and lock: "lock_next w t 1 (snd (reset_stuck t' 10 (ws_queue st))) = (Some job, q2)"
    and one: "process_one env i cfg job (st\<lparr>ws_queue := q2\<rparr>) = (res, st3)"
  shows "queue_inv (ws_queue st3)" and "jr_job_id res \<in> open_ids (ws_queue st)"
    and "open_ids (ws_queue st3) = open_ids (ws_queue st) - {jr_job_id res}"
proof -
  have c: "(\<lambda>t. lock_next (fst t) (snd t) 1) (w, t) (snd (reset_stuck (snd (w, t')) 10 (ws_queue st)))
      = (Some job, q2)"
    using lock by simp
  note id = process_one_id [OF one]
  from one show "queue_inv (ws_queue st3)"
    using sq_complete.round_inv [OF inv c] sq_abandon.round_inv [OF inv c]
    by (cases rule: process_one_queue) (simp_all, metis snd_conv, metis snd_conv)
  show "jr_job_id res \<in> open_ids (ws_queue st)"
    using sq_complete.round_opens(1) [OF inv c] id by simp
  from one show "open_ids (ws_queue st3) = open_ids (ws_queue st) - {jr_job_id res}"
    using sq_complete.round_opens(2) [OF inv c] sq_abandon.round_opens(2) [OF inv c] id
    by (cases rule: process_one_queue) (simp_all, metis snd_conv, metis snd_conv)
qed

definition worker_idle :: "string \<Rightarrow> scan_queue \<Rightarrow> bool" where
  "worker_idle w q = (own_rows w q = [] \<and> pending_rows q = [])"

lemma lock_next_none:
  assumes "lock_next w t 1 q = (None, q')"
  shows "q' = q \<and> worker_idle w q"
  using assms by (cases rule: lock_next_cases) (simp_all add: worker_idle_def)

text \<open>What a batch of results did to the queue.\<close>

definition batch_done :: "scan_queue \<Rightarrow> job_result list \<Rightarrow> scan_queue \<Rightarrow> bool" where
  "batch_done q rs q' = (distinct (map jr_job_id rs) \<and> set (map jr_job_id rs) \<subseteq> open_ids q
     \<and> open_ids q' = open_ids q - set (map jr_job_id rs) \<and> queue_inv q')"

lemma batch_done_Cons:
  assumes "jr_job_id r \<in> open_ids q" and "open_ids q1 = open_ids q - {jr_job_id r}"
    and "batch_done q1 rs q2"
  shows "batch_done q (r # rs) q2"
  using assms by (auto simp: batch_done_def)

lemma worker_loop_returns:
  assumes "queue_inv (ws_queue st)"
  shows "\<exists>rs st'. worker_loop env cfg max_jobs False i n acc st = Some (n + length rs, acc @ rs, st')
     \<and> batch_done (ws_queue st) rs (ws_queue st')
     \<and> int (n + length rs) \<le> max (int n + 1) max_jobs
     \<and> (int (n + length rs) < max_jobs \<longrightarrow> worker_idle (we_id env) (ws_queue st'))"
  using assms
proof (induction "nat (max_jobs - int n)" arbitrary: i n acc st rule: less_induct)
  case less
  let ?q1 = "snd (reset_stuck (tk_reset (we_clock env i)) 10 (ws_queue st))"
  obtain job q2 where lock: "lock_next (we_id env) (tk_lock (we_clock env i)) 1 ?q1 = (job, q2)"
    by fastforce
  show ?case
  proof (cases job)
    case None
    with lock lock_next_none have q2: "q2 = ?q1" "worker_idle (we_id env) q2" by blast+
    have "worker_loop env cfg max_jobs False i n acc st = Some (n, acc, st\<lparr>ws_queue := q2\<rparr>)"
      using lock None by (subst worker_loop.simps) (simp add: Let_def)
    moreover have "batch_done (ws_queue st) [] q2"
      using less.prems by (simp add: batch_done_def q2(1) reset_stuck_inv reset_stuck_open)
    ultimately show ?thesis using q2(2) by (intro exI [of _ "[]"]) simp
  next
    case (Some j)
    obtain res st3 where one: "process_one env i cfg j (st\<lparr>ws_queue := q2\<rparr>) = (res, st3)" by fastforce
    note r = worker_round [OF less.prems lock [unfolded Some] one]
    show ?thesis
    proof (cases "int (Suc n) \<ge> max_jobs")
      case True
      have "worker_loop env cfg max_jobs False i n acc st = Some (Suc n, acc @ [res], st3)"
        using lock Some one True by (subst worker_loop.simps) (simp add: Let_def)
      moreover have "batch_done (ws_queue st) [res] (ws_queue st3)"
        using r by (simp add: batch_done_def)
      ultimately show ?thesis using True by (intro exI [of _ "[res]"]) simp
    next
      case False
      have step: "worker_loop env cfg max_jobs False i n acc st
          = worker_loop env cfg max_jobs False (Suc i) (Suc n) (acc @ [res]) st3"
        using lock Some one False by (subst worker_loop.simps) (simp add: Let_def)
      from False have "nat (max_jobs - int (Suc n)) < nat (max_jobs - int n)" by simp
      from less.hyps [OF this r(1), of "Suc i" "acc @ [res]"] obtain rs st' where
        rs: "worker_loop env cfg max_jobs False (Suc i) (Suc n) (acc @ [res]) st3
            = Some (Suc n + length rs, (acc @ [res]) @ rs, st')"
          "batch_done (ws_queue st3) rs (ws_queue st')"
          "int (Suc n + length rs) \<le> max (int (Suc n) + 1) max_jobs"
          "int (Suc n + length rs) < max_jobs \<longrightarrow> worker_idle (we_id env) (ws_queue st')"
        by blast
      have "batch_done (ws_queue st) (res # rs) (ws_queue st')"
        using r(2,3) rs(2) by (rule batch_done_Cons)
      with step rs(1,3,4) False show ?thesis by (intro exI [of _ "res # rs"] exI [of _ st']) auto
    qed
  qed
qed

lemma worker_loop_daemon: "worker_loop env cfg max_jobs True i n acc st = None"
proof (cases "worker_loop env cfg max_jobs True i n acc st")
  case (Some y)
  have "\<not> True"
  proof (rule worker_loop.raw_induct [where P = "\<lambda>env cfg m loop i n acc st y. \<not> loop",
        OF _ Some], goal_cases)
    case (1 f env cfg m loop i n acc st y)
    show ?case
    proof
      assume loop
      with 1(2) show False
        by (auto simp: Let_def split: prod.splits option.splits dest!: 1(1))
    qed
  qed
  then show ?thesis by simp
qed simp

subsection \<open>Properties\<close>

text \<open>C21: A worker started without \<^verbatim>\<open>--loop\<close> terminates, whatever the pipeline and the sinks do:
  it reports each processed job once, all of them were open before and exactly they are closed
  afterwards, the table stays well formed, at most \<open>max_jobs\<close> (but at least one, if there is
  any) are processed, and a worker that processed fewer found nothing left to take.\<close>
theorem run_worker_terminates:
  assumes "queue_inv (ws_queue st)"
  shows "\<exists>sm st'. run_worker env cfg max_jobs False st = Some (sm, st')
    \<and> wsm_processed sm = length (wsm_results sm) \<and> distinct (map jw_id (wsm_results sm))
    \<and> set (map jw_id (wsm_results sm)) \<subseteq> open_ids (ws_queue st)
    \<and> open_ids (ws_queue st') = open_ids (ws_queue st) - set (map jw_id (wsm_results sm))
    \<and> queue_inv (ws_queue st') \<and> int (wsm_processed sm) \<le> max 1 max_jobs
    \<and> (int (wsm_processed sm) < max_jobs \<longrightarrow> worker_idle (we_id env) (ws_queue st'))"
proof -
  from worker_loop_returns [OF assms, of env cfg max_jobs 0 0 "[]"] obtain rs st'
    where r: "worker_loop env cfg max_jobs False 0 0 [] st = Some (length rs, rs, st')"
      "batch_done (ws_queue st) rs (ws_queue st')" "int (length rs) \<le> max 1 max_jobs"
      "int (length rs) < max_jobs \<longrightarrow> worker_idle (we_id env) (ws_queue st')"
    by auto
  have id: "jw_id (job_row r) = jr_job_id r" for r by (simp add: job_row_def)
  show ?thesis
    using r(2-) unfolding batch_done_def by (simp add: run_worker_def r(1) id image_image o_def)
qed

definition sample_worker_env :: worker_env where
  "sample_worker_env =
     \<lparr>we_id = ''w2'', we_clock = (\<lambda>i. \<lparr>tk_reset = 900000, tk_lock = 900001, tk_start = 900002,
        tk_end = 900003, tk_finish = 900004\<rparr>),
      we_pipeline = (\<lambda>i p eco v. Inl (ValueError ''offline'')),
      we_sinks = (\<lambda>i. \<lparr>emit_stix = (\<lambda>c d. Inr []), emit_webhook = (\<lambda>c d. Inr []),
        emit_falco = (\<lambda>c d. Inr []), emit_pmg = (\<lambda>c d. Inr [])\<rparr>),
      we_started = 0, we_stopped = (\<lambda>n. 1000)\<rparr>"

theorem run_worker_terminates_witness:
  "\<exists>sm st'. run_worker sample_worker_env (sink_from_env (\<lambda>v. None)) 10 False
       \<lparr>ws_queue = sample_queue, ws_log = []\<rparr> = Some (sm, st')
    \<and> wsm_processed sm = length (wsm_results sm) \<and> worker_idle ''w2'' (ws_queue st')
    \<and> int (wsm_processed sm) < 10"
proof -
  from run_worker_terminates [of "\<lparr>ws_queue = sample_queue, ws_log = []\<rparr>" sample_worker_env
      "sink_from_env (\<lambda>v. None)" 10] sample_queue_inv
  obtain sm st' where r: "run_worker sample_worker_env (sink_from_env (\<lambda>v. None)) 10 False
        \<lparr>ws_queue = sample_queue, ws_log = []\<rparr> = Some (sm, st')"
      "wsm_processed sm = length (wsm_results sm)" "distinct (map jw_id (wsm_results sm))"
      "set (map jw_id (wsm_results sm)) \<subseteq> open_ids sample_queue"
      "int (wsm_processed sm) < 10 \<longrightarrow> worker_idle ''w2'' (ws_queue st')"
    by (auto simp: sample_worker_env_def)
  have "open_ids sample_queue \<subseteq> {1}"
    by (auto simp: queue_eval open_ids_def)
  with r(4) have "card (set (map jw_id (wsm_results sm))) \<le> 1"
    by (metis card_mono card_1_singleton_iff finite.emptyI finite_insert order_trans One_nat_def)
  with r(2) distinct_card [OF r(3)] have "int (wsm_processed sm) < 10" by simp
  with r show ?thesis by blast
qed

text \<open>C32: With \<^verbatim>\<open>--loop\<close> the worker never returns, whatever the queue holds and whatever
  \<open>max_jobs\<close> says: the job limit is ignored.\<close>
theorem daemon_never_returns: "run_worker env cfg max_jobs True st = None"
  by (simp add: run_worker_def worker_loop_daemon)

end
