(* ===== verification/ApiCatalog.thy ===== *)
theory ApiCatalog
  imports Schema
begin

text \<open>
  \<^verbatim>\<open>stages/api_catalog.py\<close>: the catalogue of calls, each with the attack dimension it
  counts for, and its two lookups.
\<close>

definition PYTHON_APIS :: "(string \<times> attack_dimension) list" where
  "PYTHON_APIS =
    [(''os.environ.get'', INFORMATION_READING),
     (''os.environ.__getitem__'', INFORMATION_READING), (''os.getenv'', INFORMATION_READING),
     (''os.uname'', INFORMATION_READING), (''platform.uname'', INFORMATION_READING),
     (''platform.system'', INFORMATION_READING), (''platform.node'', INFORMATION_READING),
     (''platform.machine'', INFORMATION_READING), (''platform.platform'', INFORMATION_READING),
     (''getpass.getuser'', INFORMATION_READING), (''socket.gethostname'', INFORMATION_READING),
     (''socket.gethostbyname'', INFORMATION_READING),
     (''pathlib.Path.home'', INFORMATION_READING),
     (''os.path.expanduser'', INFORMATION_READING), (''base64.b64decode'', ENCODING),
     (''base64.b64encode'', ENCODING), (''base64.b32decode'', ENCODING),
     (''base64.a85decode'', ENCODING), (''base64.urlsafe_b64decode'', ENCODING),
     (''codecs.decode'', ENCODING), (''codecs.encode'', ENCODING),
     (''zlib.decompress'', ENCODING), (''zlib.compress'', ENCODING),
     (''gzip.decompress'', ENCODING), (''bz2.decompress'', ENCODING),
     (''marshal.loads'', PAYLOAD_EXECUTION), (''pickle.loads'', PAYLOAD_EXECUTION),
     (''bytes.fromhex'', ENCODING), (''exec'', PAYLOAD_EXECUTION),
     (''eval'', PAYLOAD_EXECUTION), (''__import__'', PAYLOAD_EXECUTION),
     (''importlib.import_module'', PAYLOAD_EXECUTION), (''subprocess.run'', PAYLOAD_EXECUTION),
     (''subprocess.Popen'', PAYLOAD_EXECUTION), (''subprocess.call'', PAYLOAD_EXECUTION),
     (''subprocess.check_call'', PAYLOAD_EXECUTION),
     (''subprocess.check_output'', PAYLOAD_EXECUTION),
     (''subprocess.getoutput'', PAYLOAD_EXECUTION), (''os.system'', PAYLOAD_EXECUTION),
     (''os.popen'', PAYLOAD_EXECUTION), (''os.execv'', PAYLOAD_EXECUTION),
     (''os.execvp'', PAYLOAD_EXECUTION), (''os.execve'', PAYLOAD_EXECUTION),
     (''os.spawnv'', PAYLOAD_EXECUTION), (''os.fork'', PAYLOAD_EXECUTION),
     (''pty.spawn'', PAYLOAD_EXECUTION), (''ctypes.CDLL'', PAYLOAD_EXECUTION),
     (''ctypes.windll'', PAYLOAD_EXECUTION), (''requests.get'', DATA_TRANSMISSION),
     (''requests.post'', DATA_TRANSMISSION), (''requests.put'', DATA_TRANSMISSION),
     (''requests.patch'', DATA_TRANSMISSION), (''requests.request'', DATA_TRANSMISSION),
     (''urllib.request.urlopen'', DATA_TRANSMISSION),
     (''urllib.request.Request'', DATA_TRANSMISSION),
     (''urllib.request.urlretrieve'', DATA_TRANSMISSION),
     (''urllib.urlopen'', DATA_TRANSMISSION),
     (''http.client.HTTPConnection'', DATA_TRANSMISSION),
     (''http.client.HTTPSConnection'', DATA_TRANSMISSION), (''httpx.get'', DATA_TRANSMISSION),
     (''httpx.post'', DATA_TRANSMISSION), (''aiohttp.ClientSession'', DATA_TRANSMISSION),
     (''socket.socket'', DATA_TRANSMISSION), (''socket.create_connection'', DATA_TRANSMISSION),
     (''ftplib.FTP'', DATA_TRANSMISSION), (''smtplib.SMTP'', DATA_TRANSMISSION),
     (''telnetlib.Telnet'', DATA_TRANSMISSION)]"

definition JS_APIS :: "(string \<times> attack_dimension) list" where
  "JS_APIS =
    [(''process.env'', INFORMATION_READING), (''os.userInfo'', INFORMATION_READING),
     (''os.hostname'', INFORMATION_READING), (''os.homedir'', INFORMATION_READING),
     (''os.tmpdir'', INFORMATION_READING), (''os.platform'', INFORMATION_READING),
     (''os.arch'', INFORMATION_READING), (''os.networkInterfaces'', INFORMATION_READING),
     (''fs.readFileSync'', INFORMATION_READING), (''fs.readFile'', INFORMATION_READING),
     (''fs.readdirSync'', INFORMATION_READING), (''fs.readdir'', INFORMATION_READING),
     (''fs.statSync'', INFORMATION_READING), (''Buffer.from'', ENCODING), (''atob'', ENCODING),
     (''btoa'', ENCODING), (''zlib.gunzipSync'', ENCODING), (''zlib.inflateSync'', ENCODING),
     (''zlib.brotliDecompressSync'', ENCODING), (''eval'', PAYLOAD_EXECUTION),
     (''Function'', PAYLOAD_EXECUTION), (''child_process.exec'', PAYLOAD_EXECUTION),
     (''child_process.execSync'', PAYLOAD_EXECUTION),
     (''child_process.spawn'', PAYLOAD_EXECUTION),
     (''child_process.spawnSync'', PAYLOAD_EXECUTION),
     (''child_process.execFile'', PAYLOAD_EXECUTION),
     (''child_process.execFileSync'', PAYLOAD_EXECUTION),
     (''child_process.fork'', PAYLOAD_EXECUTION), (''vm.runInNewContext'', PAYLOAD_EXECUTION),
     (''vm.runInThisContext'', PAYLOAD_EXECUTION), (''vm.Script'', PAYLOAD_EXECUTION),
     (''require'', PAYLOAD_EXECUTION), (''http.request'', DATA_TRANSMISSION),
     (''https.request'', DATA_TRANSMISSION), (''http.get'', DATA_TRANSMISSION),
     (''https.get'', DATA_TRANSMISSION), (''fetch'', DATA_TRANSMISSION),
     (''axios.get'', DATA_TRANSMISSION), (''axios.post'', DATA_TRANSMISSION),
     (''net.Socket'', DATA_TRANSMISSION), (''net.createConnection'', DATA_TRANSMISSION),
     (''dgram.createSocket'', DATA_TRANSMISSION), (''dns.lookup'', DATA_TRANSMISSION),
     (''dns.resolve'', DATA_TRANSMISSION), (''WebSocket'', DATA_TRANSMISSION)]"

definition PY_HTTP_LIBS :: "string list" where
  "PY_HTTP_LIBS = [''requests'', ''httpx'', ''aiohttp'', ''urllib'',
     ''urllib2'', ''urllib3'', ''urlfetch'', ''httpcore'']"

definition lookup_python :: "string \<Rightarrow> attack_dimension option" where
  "lookup_python name =
     (case map_of PYTHON_APIS name of
        Some d \<Rightarrow> Some d
      | None \<Rightarrow>
          let parts = split_on (CHR ''.'') name in
          if length parts < 2 then None
          else if hd parts \<in> set PY_HTTP_LIBS
               \<and> last parts \<in> set [''get'', ''post'', ''put'', ''patch'', ''request'']
          then Some DATA_TRANSMISSION
          else None)"

definition lookup_js :: "string \<Rightarrow> attack_dimension option" where
  "lookup_js name = map_of JS_APIS name"

text \<open>The names the suffix rule adds to the catalogue: all of them send data.\<close>

definition http_method_call :: "string \<Rightarrow> bool" where
  "http_method_call name = (\<exists>lib\<in>set PY_HTTP_LIBS.
     \<exists>m\<in>set [''get'', ''post'', ''put'', ''patch'', ''request'']. \<exists>mid.
       split_on (CHR ''.'') name = lib # mid @ [m])"

lemma two_ended:
  assumes "\<not> length xs < 2"
  obtains a mid b where "xs = a # mid @ [b]"
proof -
  from assms obtain a ys where a: "xs = a # ys" "ys \<noteq> []"
    by (cases xs; cases "tl xs") auto
  with that [of a "butlast ys" "last ys"] show thesis by simp
qed

lemma lookup_python_iff:
  "lookup_python name = Some d \<longleftrightarrow>
     map_of PYTHON_APIS name = Some d
     \<or> (map_of PYTHON_APIS name = None \<and> http_method_call name \<and> d = DATA_TRANSMISSION)"
proof (cases "length (split_on (CHR ''.'') name) < 2")
  case True
  then have "\<not> http_method_call name" by (auto simp: http_method_call_def)
  with True show ?thesis by (auto simp: lookup_python_def split: option.splits)
next
  case False
  then obtain a mid b where p: "split_on (CHR ''.'') name = a # mid @ [b]" by (rule two_ended)
  have "http_method_call name \<longleftrightarrow> a \<in> set PY_HTTP_LIBS
      \<and> b \<in> set [''get'', ''post'', ''put'', ''patch'', ''request'']"
    unfolding http_method_call_def p by blast
  with p show ?thesis by (auto simp: lookup_python_def split: option.splits)
qed

subsection \<open>Properties\<close>

text \<open>A Python name has a dimension exactly when it is in the catalogue, which wins, or when
  it ends in an HTTP method and starts with one of the HTTP libraries; such a call is a data
  transmission.\<close>
theorem lookup_python_spec:
  "lookup_python name = Some d \<longleftrightarrow>
     map_of PYTHON_APIS name = Some d
     \<or> (map_of PYTHON_APIS name = None \<and> http_method_call name \<and> d = DATA_TRANSMISSION)"
  by (rule lookup_python_iff)

end
