(* ===== verification/EntryPoint.thy ===== *)
theory EntryPoint
  imports Schema "HOL-Library.Multiset"
begin

text \<open>
  \<^verbatim>\<open>stages/stage1_entry_point.py\<close> and \<^verbatim>\<open>stages/stage1b_full_source.py\<close>: which files of
  an archive are analysed. The network, the tar and zip readers, the UTF-8 codec and the JSON
  parser are parameters (\<open>archive_env\<close>); an archive is the list of its members.
\<close>

subsection \<open>Tier 1 files\<close>

definition PYPI_TIER1_BASENAMES :: "string list" where
  "PYPI_TIER1_BASENAMES =
     [''setup.py'', ''pyproject.toml'', ''setup.cfg'', ''__init__.py'', ''__main__.py'']"

definition NPM_TIER1_BASENAMES :: "string list" where
  "NPM_TIER1_BASENAMES =
     [''package.json'', ''index.js'', ''index.mjs'', ''index.cjs'', ''postinstall.js'',
      ''preinstall.js'']"

record entry_file =
  ef_path :: string
  ef_basename :: string
  ef_content :: string
  ef_size :: nat
  ef_language :: string

record extracted_package =
  xp_package :: string
  xp_ecosystem :: ecosystem
  xp_version :: string
  xp_archive_url :: string
  xp_archive_size :: nat
  xp_entry_files :: "entry_file list"
  xp_all_file_names :: "string list"
  xp_error :: "string option"

definition MAX_ARCHIVE_SIZE :: nat where
  "MAX_ARCHIVE_SIZE = 50 * 1024 * 1024"

definition MAX_TEXT_FILE_SIZE :: nat where
  "MAX_TEXT_FILE_SIZE = 500 * 1024"

definition EXCLUDE_DIR_SEGMENTS :: "string list" where
  "EXCLUDE_DIR_SEGMENTS =
     [''examples'', ''example'', ''tests'', ''test'', ''__tests__'', ''docs'', ''doc'', ''sample'',
      ''samples'', ''fixtures'', ''fixture'', ''demo'', ''demos'', ''node_modules'', ''.git'',
      ''.github'']"

definition has_excluded_segment :: "string list \<Rightarrow> bool" where
  "has_excluded_segment parts = list_ex (\<lambda>seg. seg \<in> set EXCLUDE_DIR_SEGMENTS) parts"

text \<open>\<^verbatim>\<open>name.replace("\\", "/").split("/")\<close>.\<close>

definition path_parts :: "string \<Rightarrow> string list" where
  "path_parts name = split_on (CHR ''/'') (map (\<lambda>c. if c = CHR 0x5C then CHR ''/'' else c) name)"

definition is_tier1_pypi :: "string \<Rightarrow> bool" where
  "is_tier1_pypi name =
     (let parts = path_parts name; basename = last parts in
      if basename \<notin> set PYPI_TIER1_BASENAMES then False
      else if has_excluded_segment parts then False
      else if basename \<in> set [''setup.py'', ''pyproject.toml'', ''setup.cfg''] then length parts = 2
      else if basename \<in> set [''__init__.py'', ''__main__.py''] then
        length parts = 3 \<or> (length parts = 4 \<and> parts ! 1 = ''src'')
      else True)"

definition is_tier1_npm :: "string \<Rightarrow> bool" where
  "is_tier1_npm name =
     (let parts = path_parts name; basename = last parts in
      if basename \<notin> set NPM_TIER1_BASENAMES then False
      else if has_excluded_segment parts then False
      else if basename = ''package.json'' \<and> length parts > 2 then False
      else if startswith basename ''index'' \<and> length parts > 2 then False
      else True)"

definition detect_language :: "string \<Rightarrow> string" where
  "detect_language basename =
     (if endswith basename ''.py'' then ''python''
      else if endswith basename ''.js'' \<or> endswith basename ''.mjs'' \<or> endswith basename ''.cjs''
      then ''javascript''
      else if basename = ''package.json'' \<or> endswith basename ''.json'' then ''json''
      else if basename = ''pyproject.toml'' \<or> endswith basename ''.toml'' then ''toml''
      else if basename = ''setup.cfg'' \<or> endswith basename ''.cfg'' then ''cfg''
      else ''unknown'')"

subsection \<open>Archives\<close>

record member =
  am_name :: string
  am_isfile :: bool
  am_size :: nat
  am_read :: "pyexn + string option"

record archive_env =
  ae_fetch :: "string \<Rightarrow> nat \<Rightarrow> pyexn + string"
  ae_untar :: "string \<Rightarrow> pyexn + member list"
  ae_unzip :: "string \<Rightarrow> pyexn + member list"
  ae_utf8 :: "string \<Rightarrow> pyexn + string"
  ae_utf8_replace :: "string \<Rightarrow> string"
  ae_json :: "string \<Rightarrow> pyexn + pyval"
  ae_str :: "pyval \<Rightarrow> string"

definition download :: "archive_env \<Rightarrow> string \<Rightarrow> pyexn + string" where
  "download env url =
     bindE (ae_fetch env url (MAX_ARCHIVE_SIZE + 1)) (\<lambda>data.
       if length data > MAX_ARCHIVE_SIZE
       then Inl (ValueError (''archive too large (>'' @ show_nat MAX_ARCHIVE_SIZE @ '' bytes)''))
       else Inr data)"

definition safe_decode :: "archive_env \<Rightarrow> string \<Rightarrow> string" where
  "safe_decode env data = try_else (ae_utf8 env data) (ae_utf8_replace env data)"

definition entry_of :: "archive_env \<Rightarrow> string \<Rightarrow> string \<Rightarrow> entry_file" where
  "entry_of env name raw = (let basename = last (path_parts name) in
     \<lparr>ef_path = name, ef_basename = basename, ef_content = safe_decode env raw,
      ef_size = length raw, ef_language = detect_language basename\<rparr>)"

text \<open>
  The two readers differ in one point: a tar member may have no content (\<open>Inr None\<close>), a zip
  member always has.
\<close>

fun extract_from_tar ::
  "archive_env \<Rightarrow> (string \<Rightarrow> bool) \<Rightarrow> member list \<Rightarrow> entry_file list \<times> string list" where
  "extract_from_tar env is_tier1 [] = ([], [])"
| "extract_from_tar env is_tier1 (m # ms) =
     (case extract_from_tar env is_tier1 ms of (entries, names) \<Rightarrow>
        if \<not> am_isfile m then (entries, names)
        else if \<not> is_tier1 (am_name m) then (entries, am_name m # names)
        else if am_size m > MAX_TEXT_FILE_SIZE then (entries, am_name m # names)
        else (case am_read m of
            Inl _ \<Rightarrow> (entries, am_name m # names)
          | Inr None \<Rightarrow> (entries, am_name m # names)
          | Inr (Some raw) \<Rightarrow> (entry_of env (am_name m) raw # entries, am_name m # names)))"

fun extract_from_zip ::
  "archive_env \<Rightarrow> (string \<Rightarrow> bool) \<Rightarrow> member list \<Rightarrow> entry_file list \<times> string list" where
  "extract_from_zip env is_tier1 [] = ([], [])"
| "extract_from_zip env is_tier1 (m # ms) =
     (case extract_from_zip env is_tier1 ms of (entries, names) \<Rightarrow>
        if \<not> am_isfile m then (entries, names)
        else if \<not> is_tier1 (am_name m) then (entries, am_name m # names)
        else if am_size m > MAX_TEXT_FILE_SIZE then (entries, am_name m # names)
        else (case am_read m of
            Inl _ \<Rightarrow> (entries, am_name m # names)
          | Inr raw \<Rightarrow>
              (entry_of env (am_name m) (or_else raw []) # entries, am_name m # names)))"

text \<open>The \<^verbatim>\<open>scripts\<close> of the first \<^verbatim>\<open>package.json\<close>, as one more file.\<close>

definition script_hooks :: "archive_env \<Rightarrow> pydict \<Rightarrow> string list" where
  "script_hooks env scripts =
     map (\<lambda>hook. ''# '' @ hook @ '': '' @ ae_str env (d_get scripts hook PNone))
       (filter (\<lambda>hook. map_of scripts hook \<noteq> None) [''preinstall'', ''install'', ''postinstall''])"

definition scripts_file :: "archive_env \<Rightarrow> entry_file list \<Rightarrow> entry_file list" where
  "scripts_file env entries =
     (case List.find (\<lambda>ef. ef_basename ef = ''package.json'') entries of
        None \<Rightarrow> []
      | Some ef \<Rightarrow>
          (case ae_json env (ef_content ef) of
             Inr (PDict pkg) \<Rightarrow>
               (case d_get pkg ''scripts'' (PDict []) of
                  PDict scripts \<Rightarrow>
                    let extra = script_hooks env scripts in
                    if extra = [] then []
                    else [\<lparr>ef_path = ''package.json::scripts'',
                           ef_basename = ''package.json::scripts'',
                           ef_content = py_join newline extra,
                           ef_size = sum_list (map length extra), ef_language = ''shell''\<rparr>]
                | _ \<Rightarrow> [])
           | _ \<Rightarrow> []))"

definition open_archive ::
  "archive_env \<Rightarrow> string \<Rightarrow> string \<Rightarrow> (member list \<Rightarrow> 'a) \<Rightarrow> (member list \<Rightarrow> 'a) \<Rightarrow> pyexn + 'a" where
  "open_archive env archive_url data from_tar from_zip =
     (let tar = bindE (ae_untar env data) (\<lambda>ms. Inr (from_tar ms));
          zip = bindE (ae_unzip env data) (\<lambda>ms. Inr (from_zip ms))
      in if endswith archive_url ''.tar.gz'' \<or> endswith archive_url ''.tgz'' then tar
         else if endswith archive_url ''.zip'' \<or> endswith archive_url ''.whl'' then zip
         else (case tar of Inr r \<Rightarrow> Inr r | Inl _ \<Rightarrow> zip))"

definition extract_tier1 ::
  "archive_env \<Rightarrow> string \<Rightarrow> ecosystem \<Rightarrow> string \<Rightarrow> string \<Rightarrow> extracted_package" where
  "extract_tier1 env package eco version archive_url =
     (let result = \<lparr>xp_package = package, xp_ecosystem = eco, xp_version = version,
                    xp_archive_url = archive_url, xp_archive_size = 0, xp_entry_files = [],
                    xp_all_file_names = [], xp_error = None\<rparr>
      in case download env archive_url of
        Inl e \<Rightarrow> result\<lparr>xp_error := Some (''download failed: '' @ exn_str e)\<rparr>
      | Inr data \<Rightarrow>
          let result = result\<lparr>xp_archive_size := length data\<rparr>;
              is_tier1 = (if eco = PYPI then is_tier1_pypi else is_tier1_npm)
          in case open_archive env archive_url data (extract_from_tar env is_tier1)
                    (extract_from_zip env is_tier1) of
            Inl e \<Rightarrow> result\<lparr>xp_error := Some (''extract failed: '' @ exn_str e)\<rparr>
          | Inr (entries, names) \<Rightarrow>
              result\<lparr>xp_entry_files :=
                       (if eco = NPM then entries @ scripts_file env entries else entries),
                     xp_all_file_names := names\<rparr>)"

subsection \<open>Full source\<close>

definition SOURCE_EXTENSIONS_PY :: "string list" where
  "SOURCE_EXTENSIONS_PY = [''.py'']"

definition SOURCE_EXTENSIONS_JS :: "string list" where
  "SOURCE_EXTENSIONS_JS = [''.js'', ''.mjs'', ''.cjs'', ''.ts'', ''.tsx'', ''.jsx'']"

definition METADATA_EXTENSIONS :: "string list" where
  "METADATA_EXTENSIONS = [''.json'', ''.toml'', ''.cfg'', ''.yaml'', ''.yml'', ''.ini'']"

definition BINARY_EXTENSIONS :: "string list" where
  "BINARY_EXTENSIONS = [''.so'', ''.dylib'', ''.dll'', ''.pyd'', ''.node'', ''.exe'', ''.bin'']"

definition DOC_EXTENSIONS :: "string list" where
  "DOC_EXTENSIONS = [''.md'', ''.rst'', ''.txt'', ''.html'']"

record full_source_file =
  fs_path :: string
  fs_basename :: string
  fs_content :: string
  fs_size :: nat
  fs_language :: string
  fs_tier :: nat

record full_source_extract =
  fx_package :: string
  fx_ecosystem :: ecosystem
  fx_version :: string
  fx_archive_url :: string
  fx_archive_size :: nat
  fx_source_files :: "full_source_file list"
  fx_binary_files :: "string list"
  fx_all_file_names :: "string list"
  fx_skipped :: "(string \<times> string) list"
  fx_error :: "string option"

definition is_excluded_path :: "string \<Rightarrow> bool" where
  "is_excluded_path name = list_ex (\<lambda>seg. seg \<in> set EXCLUDE_DIR_SEGMENTS) (path_parts name)"

definition classify_file :: "string \<Rightarrow> string" where
  "classify_file name =
     (let has = list_ex (endswith (py_lower name)) in
      if has SOURCE_EXTENSIONS_PY then ''source_py''
      else if has SOURCE_EXTENSIONS_JS then ''source_js''
      else if has METADATA_EXTENSIONS then ''metadata''
      else if has BINARY_EXTENSIONS then ''binary''
      else if has DOC_EXTENSIONS then ''doc''
      else ''other'')"

definition assign_tier :: "string \<Rightarrow> ecosystem \<Rightarrow> nat" where
  "assign_tier name eco =
     (let parts = path_parts name; basename = last parts in
      if eco = PYPI \<and> basename \<in> set [''setup.py'', ''__init__.py'', ''__main__.py'']
         \<and> length parts \<le> 4 then 1
      else if eco \<noteq> PYPI
         \<and> basename \<in> set [''index.js'', ''index.mjs'', ''index.cjs'', ''postinstall.js'',
             ''preinstall.js''] \<and> length parts \<le> 2 then 1
      else if list_ex (\<lambda>p. p \<in> set parts) [''bin'', ''scripts'', ''cli''] then 2
      else 3)"

text \<open>
  Python returns three values of which one is set; \<open>fate\<close> keeps the three, in their order.
\<close>

type_synonym fate = "full_source_file option \<times> string option \<times> string option"

definition process_member ::
  "archive_env \<Rightarrow> string \<Rightarrow> nat \<Rightarrow> (pyexn + string) \<Rightarrow> ecosystem \<Rightarrow> fate" where
  "process_member env name fsize read_bytes eco =
     (if is_excluded_path name then (None, None, Some ''excluded_path'')
      else let kind = classify_file name in
        if kind = ''binary'' then (None, Some name, None)
        else if kind = ''doc'' then (None, None, Some ''doc_skipped'')
        else if kind = ''other'' then (None, None, Some ''unknown_type'')
        else if fsize > MAX_TEXT_FILE_SIZE
        then (None, None, Some (''too_large('' @ show_nat fsize @ ''B)''))
        else (case read_bytes of
            Inl e \<Rightarrow> (None, None, Some (''read_fail:'' @ exn_str e))
          | Inr raw \<Rightarrow>
              let basename = last (path_parts name) in
              (Some \<lparr>fs_path = name, fs_basename = basename, fs_content = safe_decode env raw,
                     fs_size = fsize, fs_language = detect_language basename,
                     fs_tier = assign_tier name eco\<rparr>, None, None)))"

type_synonym collected =
  "full_source_file list \<times> string list \<times> string list \<times> (string \<times> string) list"

definition collect :: "string \<Rightarrow> fate \<Rightarrow> collected \<Rightarrow> collected" where
  "collect name fate acc =
     (case fate of (src, bin_path, reason) \<Rightarrow>
      case acc of (sources, binaries, names, skipped) \<Rightarrow>
       ((case src of None \<Rightarrow> sources | Some s \<Rightarrow> sources @ [s]),
        (if truthy_opt bin_path then binaries @ [the bin_path] else binaries),
        names @ [name],
        (if truthy_opt reason then skipped @ [(name, the reason)] else skipped)))"

text \<open>A tar member without content reads as empty bytes.\<close>

definition reader :: "member \<Rightarrow> pyexn + string" where
  "reader m = bindE (am_read m) (\<lambda>raw. Inr (or_else raw []))"

definition full_from_members :: "archive_env \<Rightarrow> ecosystem \<Rightarrow> member list \<Rightarrow> collected" where
  "full_from_members env eco ms =
     fold (\<lambda>m. collect (am_name m) (process_member env (am_name m) (am_size m) (reader m) eco))
       (filter am_isfile ms) ([], [], [], [])"

definition extract_all ::
  "archive_env \<Rightarrow> string \<Rightarrow> ecosystem \<Rightarrow> string \<Rightarrow> string \<Rightarrow> full_source_extract" where
  "extract_all env package eco version archive_url =
     (let result = \<lparr>fx_package = package, fx_ecosystem = eco, fx_version = version,
                    fx_archive_url = archive_url, fx_archive_size = 0, fx_source_files = [],
                    fx_binary_files = [], fx_all_file_names = [], fx_skipped = [],
                    fx_error = None\<rparr>
      in case download env archive_url of
        Inl e \<Rightarrow> result\<lparr>fx_error := Some (''download failed: '' @ exn_str e)\<rparr>
      | Inr data \<Rightarrow>
          let result = result\<lparr>fx_archive_size := length data\<rparr> in
          case open_archive env archive_url data (full_from_members env eco)
                 (full_from_members env eco) of
            Inl e \<Rightarrow> result\<lparr>fx_error := Some (''extract failed: '' @ exn_str e)\<rparr>
          | Inr (src, bins, names, skipped) \<Rightarrow>
              result\<lparr>fx_source_files := src, fx_binary_files := bins,
                     fx_all_file_names := names, fx_skipped := skipped\<rparr>)"

definition to_entry_files :: "full_source_extract \<Rightarrow> entry_file list" where
  "to_entry_files full =
     map (\<lambda>sf. \<lparr>ef_path = fs_path sf, ef_basename = fs_basename sf, ef_content = fs_content sf,
               ef_size = fs_size sf, ef_language = fs_language sf\<rparr>)
       (filter (\<lambda>sf. \<not> (fs_language sf \<in> set [''json'', ''toml'', ''cfg'']
                      \<and> fs_basename sf \<noteq> ''package.json'')) (fx_source_files full))"

subsection \<open>What is selected\<close>

lemma path_parts_nonempty [simp]: "path_parts name \<noteq> []"
  by (simp add: path_parts_def)

lemma tier1_pypi_shape:
  assumes "is_tier1_pypi name"
  shows "2 \<le> length (path_parts name)" and "length (path_parts name) \<le> 4"
    and "\<not> has_excluded_segment (path_parts name)"
  using assms by (auto simp: is_tier1_pypi_def Let_def PYPI_TIER1_BASENAMES_def split: if_splits)

lemma extract_from_tar_sound:
  assumes "extract_from_tar env t1 ms = (entries, names)" and "e \<in> set entries"
  shows "\<exists>m\<in>set ms. am_isfile m \<and> t1 (am_name m) \<and> am_size m \<le> MAX_TEXT_FILE_SIZE
    \<and> ef_path e = am_name m"
  using assms
proof (induction ms arbitrary: entries names)
  case (Cons m ms)
  obtain es ns where r: "extract_from_tar env t1 ms = (es, ns)" by fastforce
  show ?case
  proof (cases "e \<in> set es")
    case True
    from Cons.IH [OF r True] show ?thesis by auto
  next
    case False
    with Cons.prems r show ?thesis
      by (auto simp: entry_of_def Let_def split: if_splits sum.splits option.splits)
  qed
qed simp

lemma extract_from_zip_sound:
  assumes "extract_from_zip env t1 ms = (entries, names)" and "e \<in> set entries"
  shows "\<exists>m\<in>set ms. am_isfile m \<and> t1 (am_name m) \<and> am_size m \<le> MAX_TEXT_FILE_SIZE
    \<and> ef_path e = am_name m"
  using assms
proof (induction ms arbitrary: entries names)
  case (Cons m ms)
  obtain es ns where r: "extract_from_zip env t1 ms = (es, ns)" by fastforce
  show ?case
  proof (cases "e \<in> set es")
    case True
    from Cons.IH [OF r True] show ?thesis by auto
  next
    case False
    with Cons.prems r show ?thesis
      by (auto simp: entry_of_def Let_def split: if_splits sum.splits option.splits)
  qed
qed simp

lemma process_member_shape:
  "(\<exists>s. process_member env name fsize rb eco = (Some s, None, None) \<and> fs_path s = name
      \<and> fsize \<le> MAX_TEXT_FILE_SIZE \<and> \<not> is_excluded_path name)
   \<or> (process_member env name fsize rb eco = (None, Some name, None) \<and> classify_file name = ''binary'')
   \<or> (\<exists>r. process_member env name fsize rb eco = (None, None, Some r) \<and> r \<noteq> [])"
  by (cases rb) (simp_all add: process_member_def Let_def)

lemma process_member_one:
  obtains s where "process_member env name fsize rb eco = (Some s, None, None)" "fs_path s = name"
      "fsize \<le> MAX_TEXT_FILE_SIZE" "\<not> is_excluded_path name"
  | "process_member env name fsize rb eco = (None, Some name, None)" "classify_file name = ''binary''"
  | r where "process_member env name fsize rb eco = (None, None, Some r)" "r \<noteq> []"
  using process_member_shape [of env name fsize rb eco] by blast

lemma binary_name_nonempty: "classify_file name = ''binary'' \<Longrightarrow> name \<noteq> []"
  by (auto simp: classify_file_def Let_def py_lower_def SOURCE_EXTENSIONS_PY_def
      SOURCE_EXTENSIONS_JS_def METADATA_EXTENSIONS_def BINARY_EXTENSIONS_def DOC_EXTENSIONS_def
      split: if_splits)

text \<open>Every file of the archive ends up in exactly one of the three lists.\<close>

definition accounted :: "collected \<Rightarrow> bool" where
  "accounted acc = (case acc of (sources, binaries, names, skipped) \<Rightarrow>
     mset names = mset (map fs_path sources) + mset binaries + mset (map fst skipped))"

lemma collect_accounted:
  "accounted acc \<Longrightarrow> accounted (collect name (process_member env name fsize rb eco) acc)"
  by (cases rule: process_member_one [of env name fsize rb eco])
    (auto simp: accounted_def collect_def dest: binary_name_nonempty split: prod.splits)

lemma collected_names:
  "fst (snd (snd (fold (\<lambda>m. collect (am_name m) (fate m)) ms acc))) = fst (snd (snd acc)) @ map am_name ms"
  by (induction ms arbitrary: acc) (simp_all add: collect_def split: prod.splits)

lemma full_from_members_accounted:
  "accounted (full_from_members env eco ms)"
  "fst (snd (snd (full_from_members env eco ms))) = map am_name (filter am_isfile ms)"
proof -
  have "accounted acc \<Longrightarrow> accounted (fold (\<lambda>m. collect (am_name m)
      (process_member env (am_name m) (am_size m) (reader m) eco)) xs acc)" for xs acc
    by (induction xs arbitrary: acc) (simp_all add: collect_accounted)
  then show "accounted (full_from_members env eco ms)" by (simp add: full_from_members_def accounted_def)
  show "fst (snd (snd (full_from_members env eco ms))) = map am_name (filter am_isfile ms)"
    unfolding full_from_members_def collected_names by simp
qed

text \<open>A source file in the result is a file of the archive with the content that was read from it.\<close>

definition read_from :: "archive_env \<Rightarrow> member list \<Rightarrow> full_source_file \<Rightarrow> bool" where
  "read_from env ms sf \<longleftrightarrow> (\<exists>m\<in>set ms. am_isfile m \<and> fs_path sf = am_name m \<and> fs_size sf = am_size m
     \<and> am_size m \<le> MAX_TEXT_FILE_SIZE \<and> (\<exists>raw. am_read m = Inr raw \<and> fs_content sf = safe_decode env (or_else raw [])))"

lemma process_member_read:
  "process_member env name fsize rb eco = (Some sf, x) \<Longrightarrow> fs_path sf = name \<and> fs_size sf = fsize
     \<and> fsize \<le> MAX_TEXT_FILE_SIZE \<and> (\<exists>raw. rb = Inr raw \<and> fs_content sf = safe_decode env raw)"
  by (cases rb) (auto simp: process_member_def Let_def split: if_splits)

lemma full_from_members_read:
  "sf \<in> set (fst (full_from_members env eco ms)) \<Longrightarrow> read_from env ms sf"
proof -
  have "sf \<in> set (fst (fold (\<lambda>m. collect (am_name m)
      (process_member env (am_name m) (am_size m) (reader m) eco)) xs acc)) \<Longrightarrow> set xs \<subseteq> set (filter am_isfile ms)
    \<Longrightarrow> sf \<in> set (fst acc) \<or> read_from env ms sf" for xs acc
  proof (induction xs arbitrary: acc)
    case (Cons m xs)
    let ?fate = "process_member env (am_name m) (am_size m) (reader m) eco"
    from Cons.IH [of "collect (am_name m) ?fate acc"] Cons.prems
    have "sf \<in> set (fst (collect (am_name m) ?fate acc)) \<or> read_from env ms sf" by simp
    then consider "sf \<in> set (fst acc)" | x where "?fate = (Some sf, x)" | "read_from env ms sf"
      by (auto simp: collect_def split: prod.splits option.splits)
    then show ?case
    proof cases
      case 2
      with process_member_read [OF 2] Cons.prems(2) show ?thesis
        unfolding read_from_def reader_def by (auto simp: bindE_Inr_iff)
    qed simp_all
  qed simp
  from this [of "filter am_isfile ms" "([], [], [], [])"]
  show "sf \<in> set (fst (full_from_members env eco ms)) \<Longrightarrow> read_from env ms sf"
    by (simp add: full_from_members_def)
qed

lemma open_archive_cases:
  assumes "open_archive env url data f g = Inr r"
  obtains ms where "ae_untar env data = Inr ms" "r = f ms"
  | ms where "ae_unzip env data = Inr ms" "r = g ms"
  using assms by (auto simp: open_archive_def Let_def bindE_Inr_iff split: if_splits sum.splits)

subsection \<open>Properties\<close>

text \<open>C31: When the whole archive is extracted, the recorded names are those of the archive's regular
  files, in its order, and every one of them is accounted for exactly once: as a source file, as a recorded
  binary or as a skipped file with its reason. A source file has the content and the size of a file of the
  archive of that name.\<close>
theorem extract_all_accounts:
  assumes "fx_error (extract_all env package eco version url) = None"
  shows "\<exists>bytes ms. download env url = Inr bytes \<and> (ae_untar env bytes = Inr ms \<or> ae_unzip env bytes = Inr ms)
    \<and> fx_all_file_names (extract_all env package eco version url) = map am_name (filter am_isfile ms)
    \<and> mset (map am_name (filter am_isfile ms))
      = mset (map fs_path (fx_source_files (extract_all env package eco version url)))
        + mset (fx_binary_files (extract_all env package eco version url))
        + mset (map fst (fx_skipped (extract_all env package eco version url)))
    \<and> (\<forall>sf\<in>set (fx_source_files (extract_all env package eco version url)).
        \<exists>m\<in>set ms. am_isfile m \<and> fs_path sf = am_name m \<and> fs_size sf = am_size m \<and> am_size m \<le> 500 * 1024
          \<and> (\<exists>raw. am_read m = Inr raw \<and> fs_content sf = safe_decode env (or_else raw [])))"
proof -
  obtain bytes where d: "download env url = Inr bytes"
    using assms by (cases "download env url") (auto simp: extract_all_def Let_def)
  obtain r where r: "open_archive env url bytes (full_from_members env eco) (full_from_members env eco)
      = Inr r"
    using assms d by (cases "open_archive env url bytes (full_from_members env eco)
        (full_from_members env eco)") (auto simp: extract_all_def Let_def)
  then obtain ms where ms: "ae_untar env bytes = Inr ms \<or> ae_unzip env bytes = Inr ms"
      "r = full_from_members env eco ms"
    by (rule open_archive_cases) blast+
  obtain src bins names skipped where q: "full_from_members env eco ms = (src, bins, names, skipped)"
    by (cases "full_from_members env eco ms") auto
  have x: "fx_source_files (extract_all env package eco version url) = src"
      "fx_binary_files (extract_all env package eco version url) = bins"
      "fx_all_file_names (extract_all env package eco version url) = names"
      "fx_skipped (extract_all env package eco version url) = skipped"
    using d r by (simp_all add: extract_all_def Let_def ms(2) q)
  show ?thesis
    using full_from_members_accounted [of env eco ms] full_from_members_read [of _ env eco ms] d ms(1)
    unfolding x q accounted_def by (intro exI [of _ bytes] exI [of _ ms]) (simp add: read_from_def MAX_TEXT_FILE_SIZE_def)
qed

definition sample_archive :: archive_env where
  "sample_archive =
     \<lparr>ae_fetch = (\<lambda>u n. Inr ''bytes''),
      ae_untar = (\<lambda>b. Inr
        [\<lparr>am_name = ''p-1/setup.py'', am_isfile = True, am_size = 5, am_read = Inr (Some ''x = 1'')\<rparr>,
         \<lparr>am_name = ''p-1/p/_c.so'', am_isfile = True, am_size = 9, am_read = Inr None\<rparr>,
         \<lparr>am_name = ''p-1/README.md'', am_isfile = True, am_size = 9, am_read = Inr None\<rparr>]),
      ae_unzip = (\<lambda>b. Inl (ValueError ''no zip'')), ae_utf8 = Inr, ae_utf8_replace = id,
      ae_json = (\<lambda>s. Inl (ValueError ''no json'')), ae_str = (\<lambda>v. [])\<rparr>"

lemmas archive_eval = sample_archive_def extract_all_def download_def bindE_def Let_def
  open_archive_def MAX_ARCHIVE_SIZE_def

theorem extract_all_accounts_witness:
  "fx_all_file_names (extract_all sample_archive ''p'' PYPI ''1'' ''u.tar.gz'')
    = [''p-1/setup.py'', ''p-1/p/_c.so'', ''p-1/README.md'']
   \<and> mset [''p-1/setup.py'', ''p-1/p/_c.so'', ''p-1/README.md'']
    = mset (map fs_path (fx_source_files (extract_all sample_archive ''p'' PYPI ''1'' ''u.tar.gz'')))
      + mset (fx_binary_files (extract_all sample_archive ''p'' PYPI ''1'' ''u.tar.gz''))
      + mset (map fst (fx_skipped (extract_all sample_archive ''p'' PYPI ''1'' ''u.tar.gz'')))"
proof -
  have e: "fx_error (extract_all sample_archive ''p'' PYPI ''1'' ''u.tar.gz'') = None"
    by (simp add: archive_eval suffix_to_prefix split: prod.splits)
  from extract_all_accounts [OF e] show ?thesis by (auto simp: sample_archive_def)
qed

text \<open>The entry files of a PyPI package are files of the archive that are not too large, lie
  at most three directories deep, outside the excluded directories, and carry one of the entry
  point names.\<close>
theorem pypi_entry_files_bounded:
  assumes "ef \<in> set (xp_entry_files (extract_tier1 env package PYPI version url))"
  shows "\<exists>bytes ms m. download env url = Inr bytes
    \<and> (ae_untar env bytes = Inr ms \<or> ae_unzip env bytes = Inr ms) \<and> m \<in> set ms \<and> am_isfile m
    \<and> ef_path ef = am_name m \<and> am_size m \<le> MAX_TEXT_FILE_SIZE
    \<and> last (path_parts (am_name m)) \<in> set PYPI_TIER1_BASENAMES
    \<and> length (path_parts (am_name m)) \<le> 4 \<and> \<not> has_excluded_segment (path_parts (am_name m))"
proof -
  obtain bytes where d: "download env url = Inr bytes"
    using assms by (cases "download env url") (auto simp: extract_tier1_def Let_def)
  obtain es ns where r: "open_archive env url bytes (extract_from_tar env is_tier1_pypi)
      (extract_from_zip env is_tier1_pypi) = Inr (es, ns)"
    using assms d by (cases "open_archive env url bytes (extract_from_tar env is_tier1_pypi)
        (extract_from_zip env is_tier1_pypi)") (auto simp: extract_tier1_def Let_def)
  with assms d have ef: "ef \<in> set es" by (simp add: extract_tier1_def Let_def)
  obtain ms where ms: "ae_untar env bytes = Inr ms \<or> ae_unzip env bytes = Inr ms"
      "\<exists>m\<in>set ms. am_isfile m \<and> is_tier1_pypi (am_name m) \<and> am_size m \<le> MAX_TEXT_FILE_SIZE
         \<and> ef_path ef = am_name m"
    using open_archive_cases [OF r] extract_from_tar_sound [OF _ ef] extract_from_zip_sound [OF _ ef]
    by metis
  then obtain m where m: "m \<in> set ms" "am_isfile m" "is_tier1_pypi (am_name m)"
      "am_size m \<le> MAX_TEXT_FILE_SIZE" "ef_path ef = am_name m" by blast
  from m(3) have "last (path_parts (am_name m)) \<in> set PYPI_TIER1_BASENAMES"
    by (simp add: is_tier1_pypi_def Let_def split: if_splits)
  with d ms(1) m tier1_pypi_shape [OF m(3)] show ?thesis by blast
qed

theorem pypi_entry_files_bounded_witness:
  "xp_entry_files (extract_tier1 sample_archive ''p'' PYPI ''1'' ''u.tar.gz'') \<noteq> []
   \<and> (\<exists>bytes ms m. download sample_archive ''u.tar.gz'' = Inr bytes
    \<and> (ae_untar sample_archive bytes = Inr ms \<or> ae_unzip sample_archive bytes = Inr ms)
    \<and> m \<in> set ms \<and> am_isfile m
    \<and> ef_path (hd (xp_entry_files (extract_tier1 sample_archive ''p'' PYPI ''1'' ''u.tar.gz''))) = am_name m
    \<and> am_size m \<le> MAX_TEXT_FILE_SIZE
    \<and> last (path_parts (am_name m)) \<in> set PYPI_TIER1_BASENAMES
    \<and> length (path_parts (am_name m)) \<le> 4 \<and> \<not> has_excluded_segment (path_parts (am_name m)))"
proof -
  have ne: "xp_entry_files (extract_tier1 sample_archive ''p'' PYPI ''1'' ''u.tar.gz'') \<noteq> []"
    by (simp add: archive_eval suffix_to_prefix extract_tier1_def is_tier1_pypi_def path_parts_def
        PYPI_TIER1_BASENAMES_def EXCLUDE_DIR_SEGMENTS_def has_excluded_segment_def MAX_TEXT_FILE_SIZE_def)
  from pypi_entry_files_bounded [OF hd_in_set [OF ne]] ne show ?thesis by blast
qed

end
