(* ===== verification/PyAst.thy ===== *)
theory PyAst
  imports Py_Prelude
begin

text \<open>
  Python's \<^verbatim>\<open>ast\<close> as the analysers read it: the node classes they test for are
  constructors, every other node is \<open>Other\<close> of its child nodes. A node visitor whose
  \<^verbatim>\<open>visit_X\<close> methods do their work and then call \<^verbatim>\<open>generic_visit\<close> goes through the nodes
  in the order of \<open>preorder\<close>; \<^verbatim>\<open>ast.walk\<close> goes through them breadth first (\<open>walk\<close>).
\<close>

datatype seq_kind = ListSeq | TupleSeq | SetSeq

datatype pynode =
    Name string
  | Attribute pynode string
  | Call pynode "pynode list" "pynode list" nat
  | Keyword "string option" pynode
  | ConstStr string nat
  | ConstOther
  | BinOp string pynode pynode
  | Starred pynode
  | JoinedStr "pynode list"
  | FormattedValue pynode "pynode list"
  | Subscript pynode pynode
  | Sequence seq_kind "pynode list"
  | DictDisplay "pynode list" "pynode list"
  | IfExp pynode pynode pynode
  | Assign "pynode list" pynode nat
  | Import "(string \<times> string option) list"
  | ImportFrom "string option" "(string \<times> string option) list"
  | With "pynode list" "pynode list" nat
  | WithItem pynode "pynode option"
  | Other "pynode list"

text \<open>The child nodes, in the order of the node class's fields.\<close>

fun children :: "pynode \<Rightarrow> pynode list" where
  "children (Attribute v a) = [v]"
| "children (Call f args kws line) = f # args @ kws"
| "children (Keyword k v) = [v]"
| "children (BinOp oper l r) = [l, r]"
| "children (Starred v) = [v]"
| "children (JoinedStr vs) = vs"
| "children (FormattedValue v spec) = v # spec"
| "children (Subscript v s) = [v, s]"
| "children (Sequence k es) = es"
| "children (DictDisplay ks vs) = ks @ vs"
| "children (IfExp t b e) = [t, b, e]"
| "children (Assign ts v line) = ts @ [v]"
| "children (With items body line) = items @ body"
| "children (WithItem c v) = c # (case v of None \<Rightarrow> [] | Some x \<Rightarrow> [x])"
| "children (Other cs) = cs"
| "children _ = []"

lemma children_size [termination_simp]: "c \<in> set (children n) \<Longrightarrow> size c < size n"
  by (induction n rule: children.induct)
    (auto dest: size_list_estimation' [where f = size, OF _ order_refl] split: option.splits)

fun preorder :: "pynode \<Rightarrow> pynode list" where
  "preorder n = n # concat (map preorder (children n))"

declare preorder.simps [simp del]

lemma preorder_self [simp]: "n \<in> set (preorder n)"
  by (subst preorder.simps) simp

lemma preorder_child: "c \<in> set (children n) \<Longrightarrow> m \<in> set (preorder c) \<Longrightarrow> m \<in> set (preorder n)"
  by (subst preorder.simps) auto

text \<open>The queue of \<^verbatim>\<open>ast.walk\<close>.\<close>

function walk_queue :: "pynode list \<Rightarrow> pynode list" where
  "walk_queue [] = []"
| "walk_queue (n # todo) = n # walk_queue (todo @ children n)"
  by pat_completeness auto

fun node_count :: "pynode \<Rightarrow> nat" where
  "node_count n = Suc (sum_list (map node_count (children n)))"

declare node_count.simps [simp del]

termination walk_queue
  by (relation "measure (\<lambda>ns. sum_list (map node_count ns))") (simp_all add: node_count.simps)

definition walk :: "pynode \<Rightarrow> pynode list" where
  "walk tree = walk_queue [tree]"

lemma set_preorder: "set (preorder n) = insert n (\<Union>c\<in>set (children n). set (preorder c))"
  by (subst preorder.simps) auto

lemma walk_queue_set: "set (walk_queue ns) = (\<Union>n\<in>set ns. set (preorder n))"
proof (induction ns rule: walk_queue.induct)
  case (2 n todo)
  with set_preorder [of n] show ?case by auto
qed simp

lemma walk_set: "set (walk tree) = set (preorder tree)"
  unfolding walk_def walk_queue_set by simp

text \<open>
  \<open>Constant(value=str)\<close> as first argument, which every import-resolving rule asks for.
\<close>

fun first_str_arg :: "pynode list \<Rightarrow> string option" where
  "first_str_arg (ConstStr s line # _) = Some s"
| "first_str_arg _ = None"

end
