(* ===== verification/Behavior.thy ===== *)
theory Behavior
  imports ApiCatalog EntryPoint PyAst
begin

text \<open>
  \<^verbatim>\<open>stages/stage2_behavior.py\<close>: the sequence of catalogued calls of each file. Python is read
  through its syntax tree (\<^theory_text>\<open>PyAst\<close>), with the tracking of import aliases; the tree-sitter
  analysis of JavaScript is a parameter, its textual fallback is modelled, and so is the keyword
  scan of the install scripts.
\<close>

subsection \<open>Data\<close>

record api_call =
  ac_name :: string
  ac_line :: int
  ac_dimension :: attack_dimension
  ac_snippet :: string

definition call_to_dict :: "api_call \<Rightarrow> pyval" where
  "call_to_dict c = PDict
     [(''name'', PStr (ac_name c)), (''line'', PInt (ac_line c)),
      (''dimension'', PStr (dimension_value (ac_dimension c))),
      (''snippet'', PStr (ac_snippet c))]"

definition call_from_dict :: "pyval \<Rightarrow> pyexn + api_call" where
  "call_from_dict v =
     bindE (as_dict v) (\<lambda>d.
     bindE (bindE (d_item d ''name'') as_str) (\<lambda>n.
     bindE (bindE (d_item d ''line'') as_int) (\<lambda>l.
     bindE (bindE (d_item d ''dimension'') (enum_pv dimensions_all dimension_value)) (\<lambda>dm.
     bindE (as_str (d_get d ''snippet'' (PStr []))) (\<lambda>s.
     Inr \<lparr>ac_name = n, ac_line = l, ac_dimension = dm, ac_snippet = s\<rparr>)))))"

record file_sequence =
  fq_path :: string
  fq_language :: string
  fq_calls :: "api_call list"
  fq_parse_error :: "string option"

definition fq_sequence :: "file_sequence \<Rightarrow> string list" where
  "fq_sequence f = map ac_name (fq_calls f)"

definition fq_dimensions :: "file_sequence \<Rightarrow> attack_dimension list" where
  "fq_dimensions f = dedup_first (map ac_dimension (fq_calls f))"

definition fileseq_to_dict :: "file_sequence \<Rightarrow> pyval" where
  "fileseq_to_dict f = PDict
     [(''path'', PStr (fq_path f)), (''language'', PStr (fq_language f)),
      (''calls'', PList (map call_to_dict (fq_calls f))),
      (''parse_error'', popt PStr (fq_parse_error f))]"

definition fileseq_from_dict :: "pyval \<Rightarrow> pyexn + file_sequence" where
  "fileseq_from_dict v =
     bindE (as_dict v) (\<lambda>d.
     bindE (bindE (d_item d ''path'') as_str) (\<lambda>p.
     bindE (bindE (d_item d ''language'') as_str) (\<lambda>l.
     bindE (bindE (as_list (d_get d ''calls'' (PList []))) (mapE call_from_dict)) (\<lambda>cs.
     bindE (as_opt as_str (d_get d ''parse_error'' PNone)) (\<lambda>e.
     Inr \<lparr>fq_path = p, fq_language = l, fq_calls = cs, fq_parse_error = e\<rparr>)))))"

record behavior_report =
  bh_files :: "file_sequence list"

definition all_calls :: "behavior_report \<Rightarrow> api_call list" where
  "all_calls b = concat (map fq_calls (bh_files b))"

definition all_sequence :: "behavior_report \<Rightarrow> string list" where
  "all_sequence b = map ac_name (all_calls b)"

definition behavior_to_dict :: "behavior_report \<Rightarrow> pyval" where
  "behavior_to_dict b = PDict [(''files'', PList (map fileseq_to_dict (bh_files b)))]"

definition behavior_from_dict :: "pyval \<Rightarrow> pyexn + behavior_report" where
  "behavior_from_dict v =
     bindE (as_dict v) (\<lambda>d.
     bindE (bindE (as_list (d_get d ''files'' (PList []))) (mapE fileseq_from_dict)) (\<lambda>fs.
     Inr \<lparr>bh_files = fs\<rparr>))"

lemma call_roundtrip [simp, roundtrip_simps]: "call_from_dict (call_to_dict c) = Inr c"
  by (simp add: call_from_dict_def call_to_dict_def)

lemma fileseq_roundtrip [simp, roundtrip_simps]: "fileseq_from_dict (fileseq_to_dict f) = Inr f"
  by (simp add: fileseq_from_dict_def fileseq_to_dict_def)

lemma behavior_roundtrip [simp, roundtrip_simps]: "behavior_from_dict (behavior_to_dict b) = Inr b"
  by (simp add: behavior_from_dict_def behavior_to_dict_def)

subsection \<open>Python\<close>

type_synonym aliases = "(string \<times> string) list"

definition dotted :: "string \<Rightarrow> string \<Rightarrow> string" where
  "dotted l a = l @ ''.'' @ a"

fun resolve_call_name :: "aliases \<Rightarrow> pynode \<Rightarrow> string option" where
  "resolve_call_name al (Name i) = Some (case map_of al i of None \<Rightarrow> i | Some m \<Rightarrow> m)"
| "resolve_call_name al (Attribute v a) =
     (case resolve_call_name al v of None \<Rightarrow> Some a | Some l \<Rightarrow> Some (dotted l a))"
| "resolve_call_name al _ = None"

fun raw_call_name :: "pynode \<Rightarrow> string option" where
  "raw_call_name (Name i) = Some i"
| "raw_call_name (Attribute v a) =
     (case raw_call_name v of None \<Rightarrow> Some a | Some l \<Rightarrow> Some (dotted l a))"
| "raw_call_name _ = None"

definition dynamic_importers :: "string list" where
  "dynamic_importers = [''__import__'', ''importlib.import_module'']"

definition extract_dynamic_import_module :: "aliases \<Rightarrow> pynode \<Rightarrow> string option" where
  "extract_dynamic_import_module al val =
     (case val of
        Call func args kws line \<Rightarrow>
          (let raw = raw_call_name func;
               importer = (case raw of None \<Rightarrow> False
                 | Some r \<Rightarrow> r \<in> set dynamic_importers
                     \<or> (r \<noteq> [] \<and> (case map_of al r of None \<Rightarrow> False
                                     | Some m \<Rightarrow> m \<in> set dynamic_importers)))
           in if importer then first_str_arg args else None)
      | _ \<Rightarrow> None)"

record call_visitor =
  cv_calls :: "api_call list"
  cv_aliases :: aliases

definition get_snippet :: "string list \<Rightarrow> nat \<Rightarrow> string" where
  "get_snippet lines line =
     (if 0 < line \<and> line \<le> length lines then py_strip (lines ! (line - 1)) else [])"

text \<open>What \<^verbatim>\<open>visit_Import\<close>, \<^verbatim>\<open>visit_ImportFrom\<close>, \<^verbatim>\<open>visit_Assign\<close> and \<^verbatim>\<open>visit_Call\<close> do.\<close>

definition visit_import :: "(string \<times> string option) list \<Rightarrow> aliases \<Rightarrow> aliases" where
  "visit_import names al =
     fold (\<lambda>(name, asname). AList.update (or_else asname (hd (split_on (CHR ''.'') name))) name)
       names al"

definition visit_import_from ::
  "string option \<Rightarrow> (string \<times> string option) list \<Rightarrow> aliases \<Rightarrow> aliases" where
  "visit_import_from mdl names al =
     (if \<not> truthy_opt mdl then al
      else fold (\<lambda>(name, asname). AList.update (or_else asname name) (dotted (the mdl) name))
             names al)"

definition visit_assign :: "pynode list \<Rightarrow> pynode \<Rightarrow> aliases \<Rightarrow> aliases" where
  "visit_assign targets val al =
     (case targets of
        [Name target] \<Rightarrow>
          (case extract_dynamic_import_module al val of
             None \<Rightarrow> al | Some m \<Rightarrow> AList.update target m al)
      | _ \<Rightarrow> al)"

definition visit_call :: "string list \<Rightarrow> pynode \<Rightarrow> nat \<Rightarrow> call_visitor \<Rightarrow> call_visitor" where
  "visit_call lines func line v =
     (case resolve_call_name (cv_aliases v) func of
        None \<Rightarrow> v
      | Some name \<Rightarrow>
          (if name = [] then v
           else case lookup_python name of
             None \<Rightarrow> v
           | Some dm \<Rightarrow>
               v\<lparr>cv_calls := cv_calls v @
                   [\<lparr>ac_name = name, ac_line = int line, ac_dimension = dm,
                     ac_snippet = get_snippet lines line\<rparr>]\<rparr>))"

fun visit_node :: "string list \<Rightarrow> pynode \<Rightarrow> call_visitor \<Rightarrow> call_visitor" where
  "visit_node lines (Import names) v = v\<lparr>cv_aliases := visit_import names (cv_aliases v)\<rparr>"
| "visit_node lines (ImportFrom m names) v =
     v\<lparr>cv_aliases := visit_import_from m names (cv_aliases v)\<rparr>"
| "visit_node lines (Assign targets val line) v =
     v\<lparr>cv_aliases := visit_assign targets val (cv_aliases v)\<rparr>"
| "visit_node lines (Call func args kws line) v = visit_call lines func line v"
| "visit_node lines _ v = v"

definition visit_tree :: "string list \<Rightarrow> pynode \<Rightarrow> call_visitor" where
  "visit_tree lines tree =
     fold (visit_node lines) (preorder tree) \<lparr>cv_calls = [], cv_aliases = []\<rparr>"

text \<open>
  \<open>parse\<close> is \<^verbatim>\<open>ast.parse\<close>. Only its \<^verbatim>\<open>SyntaxError\<close> is caught.
\<close>

definition analyze_python ::
  "(string \<Rightarrow> pyexn + pynode) \<Rightarrow> entry_file \<Rightarrow> pyexn + file_sequence" where
  "analyze_python parse f =
     (let seq = \<lparr>fq_path = ef_path f, fq_language = ''python'', fq_calls = [],
                 fq_parse_error = None\<rparr>
      in case parse (ef_content f) of
        Inl e \<Rightarrow>
          (if exn_name e = ''SyntaxError''
           then Inr (seq\<lparr>fq_parse_error := Some (''SyntaxError: '' @ exn_str e)\<rparr>)
           else Inl e)
      | Inr tree \<Rightarrow>
          Inr (seq\<lparr>fq_calls := cv_calls (visit_tree (py_splitlines (ef_content f)) tree)\<rparr>))"

subsection \<open>JavaScript and install scripts\<close>

definition is_ident_char :: "char \<Rightarrow> bool" where
  "is_ident_char c = (let n = (of_char c :: nat) in
     (65 \<le> n \<and> n \<le> 90) \<or> (97 \<le> n \<and> n \<le> 122) \<or> is_digit c \<or> c = CHR ''_'' \<or> c = CHR ''$'')"

text \<open>
  The search for the pattern \<^verbatim>\<open>(?:(?<=^)|(?<=[^A-Za-z0-9_$]))name\<close>: an occurrence at the start of
  the line or after a character that is not part of an identifier.
\<close>

fun ident_search :: "string \<Rightarrow> bool \<Rightarrow> string \<Rightarrow> bool" where
  "ident_search pat free [] = (free \<and> pat = [])"
| "ident_search pat free (c # cs) =
     ((free \<and> startswith (c # cs) pat) \<or> ident_search pat (\<not> is_ident_char c) cs)"

definition numbered :: "string list \<Rightarrow> (nat \<times> string) list" where
  "numbered lines = zip [1..<Suc (length lines)] lines"

definition js_fallback_calls :: "string \<Rightarrow> api_call list" where
  "js_fallback_calls content =
     (let lines = numbered (py_splitlines content) in
      sort_key ac_line (concat (map (\<lambda>(api, dm).
        map (\<lambda>(i, line). \<lparr>ac_name = api, ac_line = int i, ac_dimension = dm,
                          ac_snippet = take 200 (py_strip line)\<rparr>)
          (filter (\<lambda>(i, line). ident_search api True line) lines)) JS_APIS)))"

definition analyze_javascript ::
  "(entry_file \<Rightarrow> pyexn + file_sequence) \<Rightarrow> entry_file \<Rightarrow> file_sequence" where
  "analyze_javascript js f =
     (case js f of
        Inr seq \<Rightarrow> seq
      | Inl e \<Rightarrow>
          \<lparr>fq_path = ef_path f, fq_language = ''javascript'',
           fq_calls = js_fallback_calls (ef_content f),
           fq_parse_error = Some (''AST parse failed, fallback to regex: '' @ exn_str e)\<rparr>)"

definition shell_patterns :: "(string \<times> attack_dimension) list" where
  "shell_patterns =
     [(''curl'', DATA_TRANSMISSION), (''wget'', DATA_TRANSMISSION), (''nc'', DATA_TRANSMISSION),
      (''bash'', PAYLOAD_EXECUTION), (''sh '', PAYLOAD_EXECUTION),
      (''python '', PAYLOAD_EXECUTION), (''node '', PAYLOAD_EXECUTION),
      (''eval'', PAYLOAD_EXECUTION), (''base64'', ENCODING)]"

definition analyze_package_json_scripts :: "entry_file \<Rightarrow> file_sequence" where
  "analyze_package_json_scripts f =
     \<lparr>fq_path = ef_path f, fq_language = ''shell'',
      fq_calls = concat (map (\<lambda>(i, line).
        map (\<lambda>(kw, dm). \<lparr>ac_name = ''shell:'' @ py_strip kw, ac_line = int i,
                          ac_dimension = dm, ac_snippet = take 200 (py_strip line)\<rparr>)
          (filter (\<lambda>(kw, dm). contains kw (py_lower line)) shell_patterns))
        (numbered (py_splitlines (ef_content f)))),
      fq_parse_error = None\<rparr>"

text \<open>A file of any other language is left out.\<close>

definition analyze_entry ::
  "(string \<Rightarrow> pyexn + pynode) \<Rightarrow> (entry_file \<Rightarrow> pyexn + file_sequence) \<Rightarrow> entry_file
    \<Rightarrow> pyexn + file_sequence list" where
  "analyze_entry parse js ef =
     (if ef_language ef = ''python'' then bindE (analyze_python parse ef) (\<lambda>s. Inr [s])
      else if ef_language ef = ''javascript'' then Inr [analyze_javascript js ef]
      else if ef_language ef = ''shell'' then Inr [analyze_package_json_scripts ef]
      else Inr [])"

definition analyze_files ::
  "(string \<Rightarrow> pyexn + pynode) \<Rightarrow> (entry_file \<Rightarrow> pyexn + file_sequence) \<Rightarrow> entry_file list
    \<Rightarrow> pyexn + behavior_report" where
  "analyze_files parse js efs =
     bindE (mapE (analyze_entry parse js) efs) (\<lambda>fss. Inr \<lparr>bh_files = concat fss\<rparr>)"

subsection \<open>What the visitor finds\<close>

definition call_sound :: "pynode \<Rightarrow> api_call \<Rightarrow> bool" where
  "call_sound tree c = (lookup_python (ac_name c) = Some (ac_dimension c)
     \<and> (\<exists>func args kws. Call func args kws (nat (ac_line c)) \<in> set (preorder tree)))"

lemma visit_node_calls:
  assumes "c \<in> set (cv_calls (visit_node lines n v))"
  shows "c \<in> set (cv_calls v) \<or> (\<exists>func args kws.
     n = Call func args kws (nat (ac_line c)) \<and> lookup_python (ac_name c) = Some (ac_dimension c))"
  using assms by (cases n) (auto simp: visit_call_def split: option.splits if_splits)

lemma visit_fold_calls:
  "c \<in> set (cv_calls (fold (visit_node lines) ns v)) \<Longrightarrow> c \<in> set (cv_calls v)
    \<or> (lookup_python (ac_name c) = Some (ac_dimension c)
       \<and> (\<exists>func args kws. Call func args kws (nat (ac_line c)) \<in> set ns))"
proof (induction ns arbitrary: v)
  case (Cons n ns)
  from Cons.prems have "c \<in> set (cv_calls (fold (visit_node lines) ns (visit_node lines n v)))" by simp
  from Cons.IH [OF this] visit_node_calls [of c lines n v] show ?case by auto
qed simp

lemma visit_tree_sound:
  assumes "c \<in> set (cv_calls (visit_tree lines tree))"
  shows "call_sound tree c"
  using visit_fold_calls [OF assms [unfolded visit_tree_def]] by (simp add: call_sound_def)

text \<open>Calls are only added, and an alias stays until a node rebinds its name.\<close>

lemma visit_calls_mono: "set (cv_calls v) \<subseteq> set (cv_calls (visit_node lines n v))"
  by (cases n) (auto simp: visit_call_def split: option.splits)

lemma fold_calls_mono: "set (cv_calls v) \<subseteq> set (cv_calls (fold (visit_node lines) ns v))"
proof (induction ns arbitrary: v)
  case (Cons n ns)
  show ?case using Cons.IH visit_calls_mono by (simp, blast)
qed simp

text \<open>The names a node may bind.\<close>

fun rebinds :: "pynode \<Rightarrow> string \<Rightarrow> bool" where
  "rebinds (Import names) i =
     (\<exists>(name, asname)\<in>set names. or_else asname (hd (split_on (CHR ''.'') name)) = i)"
| "rebinds (ImportFrom m names) i = (\<exists>(name, asname)\<in>set names. or_else asname name = i)"
| "rebinds (Assign targets val line) i = (targets = [Name i])"
| "rebinds _ i = False"

lemma visit_import_other:
  "\<not> rebinds (Import names) i \<Longrightarrow> map_of (visit_import names al) i = map_of al i"
  unfolding visit_import_def
  by (induction names arbitrary: al) (auto simp: update_conv')

lemma visit_import_from_other:
  assumes "\<not> rebinds (ImportFrom m names) i"
  shows "map_of (visit_import_from m names al) i = map_of al i"
proof -
  have "map_of (fold (\<lambda>(name, asname). AList.update (or_else asname name) (dotted (the m) name))
      names al) i = map_of al i"
    using assms by (induction names arbitrary: al) (auto simp: update_conv')
  then show ?thesis by (simp add: visit_import_from_def)
qed

lemma visit_node_alias:
  "\<not> rebinds n i \<Longrightarrow> map_of (cv_aliases (visit_node lines n v)) i = map_of (cv_aliases v) i"
proof (cases n)
  case (Assign targets val line)
  assume "\<not> rebinds n i"
  with Assign show ?thesis
    by (auto simp: visit_assign_def update_conv' split: list.splits pynode.splits option.splits)
next
  case (Call func args kws line)
  then show ?thesis by (simp add: visit_call_def split: option.splits)
qed (simp_all add: visit_import_other visit_import_from_other del: rebinds.simps)

lemma fold_alias:
  "\<forall>n\<in>set ns. \<not> rebinds n i \<Longrightarrow>
    map_of (cv_aliases (fold (visit_node lines) ns v)) i = map_of (cv_aliases v) i"
  by (induction ns arbitrary: v) (simp_all add: visit_node_alias)

lemma alias_call_found:
  assumes tree: "preorder tree = pre @ bnd # mid @ Call (Attribute (Name i) f) args kws line # post"
    and bound: "\<And>v. map_of (cv_aliases (visit_node lines bnd v)) i = Some m"
    and kept: "\<forall>n\<in>set mid. \<not> rebinds n i"
    and known: "lookup_python (dotted m f) = Some dm"
  shows "\<lparr>ac_name = dotted m f, ac_line = int line, ac_dimension = dm,
          ac_snippet = get_snippet lines line\<rparr> \<in> set (cv_calls (visit_tree lines tree))"
proof -
  let ?c = "\<lparr>ac_name = dotted m f, ac_line = int line, ac_dimension = dm,
          ac_snippet = get_snippet lines line\<rparr>"
  define v where "v = fold (visit_node lines) mid (visit_node lines bnd
      (fold (visit_node lines) pre \<lparr>cv_calls = [], cv_aliases = []\<rparr>))"
  have "map_of (cv_aliases v) i = Some m"
    unfolding v_def using fold_alias [OF kept] bound by simp
  then have "?c \<in> set (cv_calls (visit_node lines (Call (Attribute (Name i) f) args kws line) v))"
    using known by (simp add: visit_call_def dotted_def)
  moreover have "visit_tree lines tree
      = fold (visit_node lines) post (visit_node lines (Call (Attribute (Name i) f) args kws line) v)"
    by (simp add: visit_tree_def tree v_def)
  ultimately show ?thesis
    using fold_calls_mono [of "visit_node lines (Call (Attribute (Name i) f) args kws line) v" lines post]
    by (auto simp del: visit_node.simps)
qed

subsection \<open>Properties\<close>

text \<open>Every call reported for a Python file is a call of the syntax tree, at the reported
  line, and its name has the reported dimension in the catalogue.\<close>
theorem reported_calls_are_calls:
  assumes "analyze_python parse f = Inr s" and "c \<in> set (fq_calls s)"
  shows "\<exists>tree func args kws. parse (ef_content f) = Inr tree
    \<and> Call func args kws (nat (ac_line c)) \<in> set (preorder tree)
    \<and> lookup_python (ac_name c) = Some (ac_dimension c)"
  using assms visit_tree_sound
  by (fastforce simp: analyze_python_def Let_def call_sound_def split: sum.splits if_splits)

definition sample_tree :: pynode where
  "sample_tree = Other [Assign [Name ''o''] (Call (Name ''__import__'') [ConstStr ''os'' 1] [] 1) 1,
     Other [Call (Attribute (Name ''o'') ''system'') [ConstStr ''id'' 2] [] 2]]"

definition sample_file :: entry_file where
  "sample_file = \<lparr>ef_path = ''setup.py'', ef_basename = ''setup.py'', ef_content = ''x'',
     ef_size = 1, ef_language = ''python''\<rparr>"

lemma os_system_known: "lookup_python ''os.system'' = Some PAYLOAD_EXECUTION"
  by (simp add: lookup_python_def PYTHON_APIS_def)

lemma sample_call_found:
  "\<lparr>ac_name = ''os.system'', ac_line = 2, ac_dimension = PAYLOAD_EXECUTION,
    ac_snippet = get_snippet [''x''] 2\<rparr> \<in> set (cv_calls (visit_tree [''x''] sample_tree))"
  by (simp add: sample_tree_def visit_tree_def visit_assign_def extract_dynamic_import_module_def
      dynamic_importers_def visit_call_def dotted_def os_system_known
      lookup_python_def [of "''__import__''"] PYTHON_APIS_def preorder.simps)

theorem reported_calls_are_calls_witness:
  "\<exists>tree func args kws. Inr sample_tree = (Inr tree :: pyexn + pynode)
    \<and> Call func args kws 2 \<in> set (preorder tree)
    \<and> lookup_python ''os.system'' = Some PAYLOAD_EXECUTION"
  using reported_calls_are_calls [of "\<lambda>s. Inr sample_tree" sample_file
      "\<lparr>fq_path = ''setup.py'', fq_language = ''python'',
        fq_calls = cv_calls (visit_tree [''x''] sample_tree), fq_parse_error = None\<rparr>"
      "\<lparr>ac_name = ''os.system'', ac_line = 2, ac_dimension = PAYLOAD_EXECUTION,
        ac_snippet = get_snippet [''x''] 2\<rparr>"] sample_call_found
  by (simp add: analyze_python_def sample_file_def py_splitlines_def)

text \<open>C24: Imports do not hide calls: when a module is bound to a name by \<^verbatim>\<open>import m as i\<close> or by
  \<^verbatim>\<open>i = __import__("m")\<close>, and the name is not bound again before it, a call \<^verbatim>\<open>i.f(...)\<close> is
  reported as \<^verbatim>\<open>m.f\<close>, whatever \<open>i\<close> is, if the catalogue knows \<^verbatim>\<open>m.f\<close>.\<close>
theorem aliased_call_reported:
  assumes "preorder tree = pre @ bnd # mid @ Call (Attribute (Name i) f) args kws line # post"
    and "bnd = Import [(m, Some i)] \<and> i \<noteq> []
      \<or> bnd = Assign [Name i] (Call (Name ''__import__'') [ConstStr m l1] [] l2) l3"
    and "\<forall>n\<in>set mid. \<not> rebinds n i"
    and "lookup_python (dotted m f) = Some dm"
  shows "\<lparr>ac_name = dotted m f, ac_line = int line, ac_dimension = dm,
          ac_snippet = get_snippet lines line\<rparr> \<in> set (cv_calls (visit_tree lines tree))"
proof (rule alias_call_found [OF assms(1) _ assms(3,4)])
  show "map_of (cv_aliases (visit_node lines bnd v)) i = Some m" for v
    using assms(2)
    by (auto simp: visit_import_def visit_assign_def extract_dynamic_import_module_def
        dynamic_importers_def or_else_def update_conv' split: list.splits)
qed

theorem aliased_call_reported_witness:
  "\<lparr>ac_name = dotted ''os'' ''system'', ac_line = int 2, ac_dimension = PAYLOAD_EXECUTION,
    ac_snippet = get_snippet [''import os as o'', ''o.system(1)''] 2\<rparr>
   \<in> set (cv_calls (visit_tree [''import os as o'', ''o.system(1)'']
        (Other [Import [(''os'', Some ''o'')], Call (Attribute (Name ''o'') ''system'') [] [] 2])))"
  by (rule aliased_call_reported [of _ "[Other [Import [(''os'', Some ''o'')],
          Call (Attribute (Name ''o'') ''system'') [] [] 2]]" "Import [(''os'', Some ''o'')]" "[]"
        "''o''" "''system''" "[]" "[]" 2
        "[Attribute (Name ''o'') ''system'', Name ''o'']"])
    (simp_all add: dotted_def os_system_known preorder.simps)

text \<open>A dotted import does hide calls: \<^verbatim>\<open>import os.path\<close> binds \<^verbatim>\<open>os\<close> to the name
  \<^verbatim>\<open>os.path\<close>, so that a following \<^verbatim>\<open>os.system(...)\<close> is looked up as \<^verbatim>\<open>os.path.system\<close> and
  not reported, while without the import it is.\<close>
theorem dotted_import_hides_call:
  "cv_calls (visit_tree lines (Other [Import [(''os.path'', None)],
      Call (Attribute (Name ''os'') ''system'') [ConstStr cmd 2] [] 2])) = []
   \<and> cv_calls (visit_tree lines (Other
      [Call (Attribute (Name ''os'') ''system'') [ConstStr cmd 2] [] 2])) \<noteq> []"
  by (simp add: visit_tree_def visit_import_def visit_call_def or_else_def dotted_def lookup_python_def
      PYTHON_APIS_def PY_HTTP_LIBS_def preorder.simps)

text \<open>A behaviour report survives the cache: reading back what \<^verbatim>\<open>to_dict\<close> wrote gives the
  same report.\<close>
theorem behavior_cache_roundtrip: "behavior_from_dict (behavior_to_dict b) = Inr b"
  by (rule behavior_roundtrip)

end
