(* ===== verification/SequencePatterns.thy ===== *)
theory SequencePatterns
  imports Behavior
begin

text \<open>
  \<^verbatim>\<open>stages/sequence_patterns.py\<close>: ordered patterns of attack dimensions, and the greedy matcher
  that looks for them in the calls of a file. The last part gives the patterns a declarative
  meaning and shows that the greedy matcher decides it for patterns whose slots differ, which
  those of the catalogue do.
\<close>

subsection \<open>Patterns\<close>

record seq_slot =
  sl_dim :: string
  sl_min :: nat
  sl_max :: nat

definition seq_slot :: "string \<Rightarrow> nat \<Rightarrow> nat \<Rightarrow> seq_slot" where
  "seq_slot d a b = \<lparr>sl_dim = d, sl_min = a, sl_max = b\<rparr>"

record sequence_pattern =
  sp_code :: string
  sp_name :: string
  sp_description :: string
  sp_severity :: severity
  sp_slots :: "seq_slot list"
  sp_related_ttps :: "string list"

definition PATTERNS :: "sequence_pattern list" where
  "PATTERNS =
   [\<lparr>sp_code = ''SP-001'', sp_name = ''Credential exfiltration'',
sp_description = utf8 [237, 153, 152, 234, 178, 189, 235, 179, 128, 236, 136, 152, 47, 237, 140,
        140, 236, 157, 188, 32, 236, 157, 189, 234, 184, 176, 32, 226, 134, 146, 32, 40, 236, 132,
        160, 237, 131, 157, 236, 160, 129, 32, 236, 157, 184, 236, 189, 148, 235, 148, 169, 41,
        32, 226, 134, 146, 32, 235, 132, 164, 237, 138, 184, 236, 155, 140, 237, 129, 172, 32,
        236, 134, 161, 236, 139, 160],
     sp_severity = SevHIGH,
     sp_slots = [seq_slot ''INFORMATION_READING'' 1 5,
        seq_slot ''ENCODING'' 0 3,
        seq_slot ''DATA_TRANSMISSION'' 1 2],
     sp_related_ttps = [''T1552.001'', ''T1041'', ''T1048.003'']\<rparr>,
    \<lparr>sp_code = ''SP-002'', sp_name = ''Download-and-execute'',
sp_description = utf8 [235, 132, 164, 237, 138, 184, 236, 155, 140, 237, 129, 172, 32, 236, 136,
        152, 236, 139, 160, 32, 226, 134, 146, 32, 236, 139, 164, 237, 150, 137],
     sp_severity = SevHIGH,
     sp_slots = [seq_slot ''DATA_TRANSMISSION'' 1 2,
        seq_slot ''PAYLOAD_EXECUTION'' 1 2],
     sp_related_ttps = [''T1105'', ''T1059'']\<rparr>,
    \<lparr>sp_code = ''SP-003'', sp_name = ''Encoded payload execution'',
sp_description = utf8 [236, 157, 184, 236, 189, 148, 235, 148, 169, 32, 235, 148, 148, 236, 189,
        148, 235, 147, 156, 32, 226, 134, 146, 32, 236, 139, 164, 237, 150, 137],
     sp_severity = SevHIGH,
     sp_slots = [seq_slot ''ENCODING'' 1 3,
        seq_slot ''PAYLOAD_EXECUTION'' 1 2],
     sp_related_ttps = [''T1027'', ''T1059'', ''T1140'']\<rparr>,
    \<lparr>sp_code = ''SP-004'', sp_name = ''System reconnaissance + exfil'',
sp_description = utf8 [236, 139, 156, 236, 138, 164, 237, 133, 156, 32, 236, 160, 149, 235, 179,
        180, 32, 235, 139, 164, 236, 164, 145, 32, 236, 157, 189, 234, 184, 176, 32, 226, 134,
        146, 32, 236, 134, 161, 236, 139, 160],
     sp_severity = SevMEDIUM,
     sp_slots = [seq_slot ''INFORMATION_READING'' 2 10,
        seq_slot ''DATA_TRANSMISSION'' 1 2],
     sp_related_ttps = [''T1082'', ''T1057'', ''T1041'']\<rparr>,
    \<lparr>sp_code = ''SP-005'', sp_name = ''Info-driven execution'',
sp_description = utf8 [236, 160, 149, 235, 179, 180, 32, 236, 157, 189, 234, 184, 176, 32, 226,
        134, 146, 32, 236, 166, 137, 236, 139, 156, 32, 236, 139, 164, 237, 150, 137],
     sp_severity = SevMEDIUM,
     sp_slots = [seq_slot ''INFORMATION_READING'' 1 3,
        seq_slot ''PAYLOAD_EXECUTION'' 1 2],
     sp_related_ttps = [''T1059'', ''T1106'']\<rparr>,
    \<lparr>sp_code = ''SP-006'', sp_name = ''Full kill-chain'',
sp_description = utf8 [236, 160, 149, 235, 179, 180, 32, 236, 136, 152, 236, 167, 145, 32, 226,
        134, 146, 32, 236, 157, 184, 236, 189, 148, 235, 148, 169, 32, 226, 134, 146, 32, 236,
        139, 164, 237, 150, 137, 32, 226, 134, 146, 32, 236, 134, 161, 236, 139, 160, 32, 40, 236,
        153, 132, 236, 160, 132, 32, 236, 178, 180, 236, 157, 184, 41],
     sp_severity = SevHIGH,
     sp_slots = [seq_slot ''INFORMATION_READING'' 1 10,
        seq_slot ''ENCODING'' 1 5,
        seq_slot ''PAYLOAD_EXECUTION'' 1 3,
        seq_slot ''DATA_TRANSMISSION'' 1 3],
     sp_related_ttps = [''T1059'', ''T1041'', ''T1027'']\<rparr>]"

record sequence_match =
  sm_pattern :: sequence_pattern
  sm_file_path :: string
  sm_matched_calls :: "api_call list"
  sm_span :: "nat \<times> nat"

definition match_summary :: "sequence_match \<Rightarrow> string" where
  "match_summary m = sp_code (sm_pattern m) @ '' ['' @ sp_name (sm_pattern m) @ '']: ''
     @ py_join '' -> '' (map ac_name (sm_matched_calls m))"

definition match_to_dict :: "sequence_match \<Rightarrow> pyval" where
  "match_to_dict m = PDict
     [(''pattern_code'', PStr (sp_code (sm_pattern m))),
      (''file_path'', PStr (sm_file_path m)),
      (''matched_calls'', PList (map call_to_dict (sm_matched_calls m))),
      (''span'', PList [PInt (int (fst (sm_span m))), PInt (int (snd (sm_span m)))])]"

definition span_of :: "pyval list \<Rightarrow> pyexn + nat \<times> nat" where
  "span_of vs = (case vs of
     a # b # _ \<Rightarrow> bindE (as_int a) (\<lambda>i. bindE (as_int b) (\<lambda>j. Inr (nat i, nat j)))
   | _ \<Rightarrow> Inl (IndexError ''list index out of range''))"

text \<open>A code that is not in the catalogue raises \<^verbatim>\<open>StopIteration\<close>, from \<^verbatim>\<open>next\<close>.\<close>

definition pattern_of :: "string \<Rightarrow> pyexn + sequence_pattern" where
  "pattern_of code = (case List.find (\<lambda>p. sp_code p = code) PATTERNS of
     None \<Rightarrow> Inl (OtherError ''StopIteration'' []) | Some p \<Rightarrow> Inr p)"

definition match_from_dict :: "pyval \<Rightarrow> pyexn + sequence_match" where
  "match_from_dict v =
     bindE (as_dict v) (\<lambda>d.
     bindE (bindE (bindE (d_item d ''pattern_code'') as_str) pattern_of) (\<lambda>p.
     bindE (bindE (as_list (d_get d ''span'' (PList [PInt 0, PInt 0]))) span_of) (\<lambda>sp.
     bindE (as_str (d_get d ''file_path'' (PStr []))) (\<lambda>path.
     bindE (bindE (as_list (d_get d ''matched_calls'' (PList []))) (mapE call_from_dict)) (\<lambda>cs.
     Inr \<lparr>sm_pattern = p, sm_file_path = path, sm_matched_calls = cs, sm_span = sp\<rparr>)))))"

record sequence_mine_report =
  smr_matches :: "sequence_match list"
  smr_error :: "string option"

definition mine_to_dict :: "sequence_mine_report \<Rightarrow> pyval" where
  "mine_to_dict r = PDict
     [(''matches'', PList (map match_to_dict (smr_matches r))),
      (''error'', popt PStr (smr_error r))]"

definition mine_from_dict :: "pyval \<Rightarrow> pyexn + sequence_mine_report" where
  "mine_from_dict v =
     bindE (as_dict v) (\<lambda>d.
     bindE (bindE (as_list (d_get d ''matches'' (PList []))) (mapE match_from_dict)) (\<lambda>ms.
     bindE (as_opt as_str (d_get d ''error'' PNone)) (\<lambda>e.
     Inr \<lparr>smr_matches = ms, smr_error = e\<rparr>)))"

subsection \<open>The greedy matcher\<close>

definition slot_matches_dim :: "seq_slot \<Rightarrow> attack_dimension \<Rightarrow> bool" where
  "slot_matches_dim slot d = (sl_dim slot = ''ANY'' \<or> sl_dim slot = dimension_value d)"

text \<open>The inner loop: how many of the next calls a slot takes.\<close>

fun slot_count :: "seq_slot \<Rightarrow> nat \<Rightarrow> api_call list \<Rightarrow> nat" where
  "slot_count slot 0 cs = 0"
| "slot_count slot (Suc k) [] = 0"
| "slot_count slot (Suc k) (c # cs) =
     (if slot_matches_dim slot (ac_dimension c) then Suc (slot_count slot k cs) else 0)"

fun match_slots :: "seq_slot list \<Rightarrow> api_call list \<Rightarrow> nat option" where
  "match_slots [] cs = Some 0"
| "match_slots (slot # slots) cs =
     (let n = slot_count slot (sl_max slot) cs in
      if n < sl_min slot then None
      else map_option (\<lambda>m. n + m) (match_slots slots (drop n cs)))"

definition match_pattern_at :: "api_call list \<Rightarrow> nat \<Rightarrow> sequence_pattern \<Rightarrow> (nat \<times> nat) option" where
  "match_pattern_at calls start p =
     map_option (\<lambda>n. (start, start + n)) (match_slots (sp_slots p) (drop start calls))"

definition min_total :: "sequence_pattern \<Rightarrow> nat" where
  "min_total p = sum_list (map sl_min (sp_slots p))"

definition long_enough :: "sequence_pattern \<Rightarrow> nat \<times> nat \<Rightarrow> bool" where
  "long_enough p sspan = (case sspan of (a, b) \<Rightarrow> b - a \<ge> min_total p)"

text \<open>The first start position at which the pattern matches.\<close>

definition find_pattern :: "api_call list \<Rightarrow> sequence_pattern \<Rightarrow> (nat \<times> nat) option" where
  "find_pattern calls p =
     (case List.find (\<lambda>i. case match_pattern_at calls i p of None \<Rightarrow> False
                          | Some sspan \<Rightarrow> long_enough p sspan) [0..<length calls] of
        None \<Rightarrow> None | Some i \<Rightarrow> match_pattern_at calls i p)"

definition mine_sequence_in_file :: "file_sequence \<Rightarrow> sequence_match list" where
  "mine_sequence_in_file f =
     concat (map (\<lambda>p. case find_pattern (fq_calls f) p of
         None \<Rightarrow> []
       | Some (a, b) \<Rightarrow> [\<lparr>sm_pattern = p, sm_file_path = fq_path f,
                         sm_matched_calls = take (b - a) (drop a (fq_calls f)),
                         sm_span = (a, b)\<rparr>]) PATTERNS)"

text \<open>Nothing in the loop raises, so \<^verbatim>\<open>error\<close> stays unset.\<close>

definition mine :: "behavior_report \<Rightarrow> sequence_mine_report" where
  "mine b = \<lparr>smr_matches = concat (map mine_sequence_in_file (bh_files b)), smr_error = None\<rparr>"

subsection \<open>What a pattern means\<close>

text \<open>
  A pattern describes the lists that split into one block per slot, each block within the slot's
  bounds and all of it of the slot's dimension.
\<close>

fun describes :: "seq_slot list \<Rightarrow> api_call list \<Rightarrow> bool" where
  "describes [] cs = (cs = [])"
| "describes (slot # slots) cs =
     (\<exists>n\<le>length cs. sl_min slot \<le> n \<and> n \<le> sl_max slot
        \<and> (\<forall>c\<in>set (take n cs). slot_matches_dim slot (ac_dimension c))
        \<and> describes slots (drop n cs))"

lemma slot_count_bounds:
  "slot_count slot k cs \<le> k" "slot_count slot k cs \<le> length cs"
  by (induction slot k cs rule: slot_count.induct) auto

lemma slot_count_all: "c \<in> set (take (slot_count slot k cs) cs) \<Longrightarrow> slot_matches_dim slot (ac_dimension c)"
  by (induction slot k cs rule: slot_count.induct) (auto split: if_splits)

lemma slot_count_max:
  "n \<le> k \<Longrightarrow> n \<le> length cs \<Longrightarrow> \<forall>c\<in>set (take n cs). slot_matches_dim slot (ac_dimension c) \<Longrightarrow>
    n \<le> slot_count slot k cs"
proof (induction slot k cs arbitrary: n rule: slot_count.induct)
  case (3 slot k c cs)
  then show ?case by (cases n) auto
qed auto

lemma slot_count_next: "n < slot_count slot k cs \<Longrightarrow> slot_matches_dim slot (ac_dimension (cs ! n))"
proof (induction slot k cs arbitrary: n rule: slot_count.induct)
  case (3 slot k c cs)
  then show ?case by (cases n) (auto split: if_splits)
qed simp_all

lemma match_slots_le: "match_slots slots cs = Some n \<Longrightarrow> n \<le> length cs"
proof (induction slots arbitrary: cs n)
  case (Cons slot slots)
  then obtain m where m: "match_slots slots (drop (slot_count slot (sl_max slot) cs) cs) = Some m"
      "n = slot_count slot (sl_max slot) cs + m"
    by (auto simp: Let_def split: if_splits)
  from Cons.IH [OF m(1)] m(2) slot_count_bounds(2) [of slot "sl_max slot" cs] show ?case by simp
qed simp

lemma match_slots_sound: "match_slots slots cs = Some n \<Longrightarrow> describes slots (take n cs)"
proof (induction slots arbitrary: cs n)
  case (Cons slot slots)
  let ?k = "slot_count slot (sl_max slot) cs"
  from Cons.prems obtain m where m: "match_slots slots (drop ?k cs) = Some m" "n = ?k + m"
      "sl_min slot \<le> ?k"
    by (auto simp: Let_def split: if_splits)
  have t: "take ?k (take n cs) = take ?k cs" "drop ?k (take n cs) = take m (drop ?k cs)"
    using m(2) by (simp_all add: min_def take_drop add.commute)
  have "?k \<le> length (take n cs)" using m(2) slot_count_bounds(2) [of slot "sl_max slot" cs] by simp
  moreover have "describes slots (drop ?k (take n cs))" using Cons.IH [OF m(1)] t(2) by simp
  ultimately show ?case
    using m(3) slot_count_bounds(1) [of slot "sl_max slot" cs] slot_count_all [of _ slot "sl_max slot" cs] t(1)
    by (simp, intro exI [of _ ?k]) simp
qed simp

text \<open>A list a pattern describes starts with a call of one of its slots.\<close>

lemma describes_hd:
  "describes slots cs \<Longrightarrow> cs \<noteq> [] \<Longrightarrow> \<exists>s\<in>set slots. slot_matches_dim s (ac_dimension (cs ! 0))"
proof (induction slots arbitrary: cs)
  case (Cons slot slots)
  then obtain n where n: "n \<le> length cs" "\<forall>c\<in>set (take n cs). slot_matches_dim slot (ac_dimension c)"
      "describes slots (drop n cs)" by auto
  show ?case
  proof (cases n)
    case 0
    with n Cons show ?thesis by auto
  next
    case (Suc k)
    with Cons.prems(2) n(2) show ?thesis by (cases cs) auto
  qed
qed simp

lemma describes_Nil: "describes slots [] \<longleftrightarrow> (\<forall>s\<in>set slots. sl_min s = 0)"
  by (induction slots) auto

lemma match_slots_optional: "\<forall>s\<in>set slots. sl_min s = 0 \<Longrightarrow> \<exists>n. match_slots slots cs = Some n"
  by (induction slots arbitrary: cs) (auto simp: Let_def)

text \<open>Slots that accept different dimensions.\<close>

definition separated :: "seq_slot list \<Rightarrow> bool" where
  "separated slots = (distinct (map sl_dim slots) \<and> (\<forall>s\<in>set slots. sl_dim s \<noteq> ''ANY''))"

lemma separated_Cons: "separated (s # slots) \<Longrightarrow> separated slots"
  by (simp add: separated_def)

lemma separated_clash:
  assumes "separated (slot # slots)" and "s \<in> set slots"
    and "slot_matches_dim slot d" and "slot_matches_dim s d"
  shows False
  using assms by (force simp: separated_def slot_matches_dim_def)

lemma match_slots_complete:
  assumes "separated slots" and "describes slots (take n cs)" and "n \<le> length cs"
  shows "\<exists>m. match_slots slots cs = Some m"
  using assms
proof (induction slots arbitrary: cs n)
  case (Cons slot slots)
  let ?k = "slot_count slot (sl_max slot) cs"
  from Cons.prems(2) obtain j where j': "j \<le> length (take n cs)" "sl_min slot \<le> j" "j \<le> sl_max slot"
      "\<forall>c\<in>set (take j (take n cs)). slot_matches_dim slot (ac_dimension c)"
      "describes slots (drop j (take n cs))"
    unfolding describes.simps by blast
  from j'(1) have jn: "j \<le> n" by simp
  then have "take j (take n cs) = take j cs" by (simp add: min_def)
  with j' jn have j: "j \<le> n" "sl_min slot \<le> j" "j \<le> sl_max slot"
      "\<forall>c\<in>set (take j cs). slot_matches_dim slot (ac_dimension c)"
      "describes slots (drop j (take n cs))"
    by simp_all
  have jk: "j \<le> ?k" using slot_count_max [OF j(3) _ j(4)] j(1) Cons.prems(3) by simp
  have d: "drop j (take n cs) = take (n - j) (drop j cs)" by (simp add: drop_take)
  have "\<exists>m. match_slots slots (drop ?k cs) = Some m"
  proof (cases "j = ?k")
    case True
    then show ?thesis
      using Cons.IH [OF separated_Cons [OF Cons.prems(1)], of "n - j" "drop ?k cs"] j(1,5) d Cons.prems(3)
      by simp
  next
    case False
    with jk have lt: "j < ?k" by simp
    have "drop j (take n cs) = []"
    proof (rule ccontr)
      assume ne: "drop j (take n cs) \<noteq> []"
      from describes_hd [OF j(5) ne] obtain s where
        s: "s \<in> set slots" "slot_matches_dim s (ac_dimension (drop j (take n cs) ! 0))" by blast
      have "drop j (take n cs) ! 0 = cs ! j"
        using ne Cons.prems(3) by simp
      with s separated_clash [OF Cons.prems(1) s(1) slot_count_next [OF lt]] show False by simp
    qed
    with j(5) have "\<forall>s\<in>set slots. sl_min s = 0" by (simp add: describes_Nil)
    then show ?thesis by (rule match_slots_optional)
  qed
  with jk j(2) show ?case by (auto simp: Let_def)
qed simp

lemma PATTERNS_separated: "p \<in> set PATTERNS \<Longrightarrow> separated (sp_slots p)"
  by (auto simp: PATTERNS_def separated_def seq_slot_def)

lemma match_slots_min: "match_slots slots cs = Some n \<Longrightarrow> sum_list (map sl_min slots) \<le> n"
proof (induction slots arbitrary: cs n)
  case (Cons slot slots)
  then obtain m where m: "match_slots slots (drop (slot_count slot (sl_max slot) cs) cs) = Some m"
      "n = slot_count slot (sl_max slot) cs + m" "sl_min slot \<le> slot_count slot (sl_max slot) cs"
    by (auto simp: Let_def split: if_splits)
  from Cons.IH [OF m(1)] m(2,3) show ?case by simp
qed simp

lemma match_pattern_long_enough: "match_pattern_at calls i p = Some sspan \<Longrightarrow> long_enough p sspan"
  by (auto simp: match_pattern_at_def long_enough_def min_total_def dest: match_slots_min)

text \<open>A pattern occurs in a list of calls when it describes one of its sublists.\<close>

definition occurs_in :: "sequence_pattern \<Rightarrow> api_call list \<Rightarrow> bool" where
  "occurs_in p calls = (\<exists>i<length calls. \<exists>n\<le>length calls - i.
     describes (sp_slots p) (take n (drop i calls)))"

lemma find_pattern_eq:
  "find_pattern calls p = (case List.find (\<lambda>i. match_pattern_at calls i p \<noteq> None) [0..<length calls] of
     None \<Rightarrow> None | Some i \<Rightarrow> match_pattern_at calls i p)"
proof -
  have "(case match_pattern_at calls i p of None \<Rightarrow> False | Some s \<Rightarrow> long_enough p s)
      = (match_pattern_at calls i p \<noteq> None)" for i
    by (cases "match_pattern_at calls i p") (simp_all add: match_pattern_long_enough)
  then show ?thesis by (simp only: find_pattern_def)
qed

lemma match_pattern_start: "match_pattern_at calls i p = Some (a, b) \<Longrightarrow> a = i"
  by (auto simp: match_pattern_at_def)

lemma find_pattern_some:
  assumes "find_pattern calls p = Some (a, b)"
  shows "match_pattern_at calls a p = Some (a, b)"
proof -
  from assms obtain i where "match_pattern_at calls i p = Some (a, b)"
    by (auto simp: find_pattern_eq split: option.splits)
  with match_pattern_start show ?thesis by blast
qed

lemma find_pattern_none:
  "find_pattern calls p = None \<longleftrightarrow> (\<forall>i<length calls. match_pattern_at calls i p = None)"
proof (cases "List.find (\<lambda>i. match_pattern_at calls i p \<noteq> None) [0..<length calls]")
  case None
  moreover from None have "\<forall>i<length calls. match_pattern_at calls i p = None"
    by (simp add: find_None_iff del: not_None_eq)
  ultimately show ?thesis by (simp only: find_pattern_eq option.case) blast
next
  case (Some i)
  then have i: "i < length calls" "match_pattern_at calls i p \<noteq> None"
    by (auto simp: find_Some_iff simp del: not_None_eq)
  from Some have "find_pattern calls p = match_pattern_at calls i p"
    by (simp only: find_pattern_eq option.case)
  with i show ?thesis by metis
qed

lemma find_pattern_iff:
  assumes "separated (sp_slots p)"
  shows "find_pattern calls p \<noteq> None \<longleftrightarrow> occurs_in p calls"
proof
  assume "find_pattern calls p \<noteq> None"
  then obtain i where i: "i < length calls" "match_pattern_at calls i p \<noteq> None"
    by (auto simp: find_pattern_none)
  then obtain n where n: "match_slots (sp_slots p) (drop i calls) = Some n"
    by (auto simp: match_pattern_at_def)
  have "n \<le> length calls - i" using match_slots_le [OF n] by simp
  with i(1) match_slots_sound [OF n] show "occurs_in p calls"
    by (auto simp: occurs_in_def)
next
  assume "occurs_in p calls"
  then obtain i n where i: "i < length calls" "n \<le> length (drop i calls)"
      "describes (sp_slots p) (take n (drop i calls))"
    by (auto simp: occurs_in_def)
  from match_slots_complete [OF assms i(3,2)] have "match_pattern_at calls i p \<noteq> None"
    by (auto simp: match_pattern_at_def)
  with i(1) show "find_pattern calls p \<noteq> None" by (auto simp: find_pattern_none)
qed

lemma match_in_fileE:
  assumes "m \<in> set (mine_sequence_in_file f)"
  obtains p a b where "p \<in> set PATTERNS" "find_pattern (fq_calls f) p = Some (a, b)"
      "m = \<lparr>sm_pattern = p, sm_file_path = fq_path f,
            sm_matched_calls = take (b - a) (drop a (fq_calls f)), sm_span = (a, b)\<rparr>"
proof -
  from assms obtain p where p: "p \<in> set PATTERNS" "m \<in> set (case find_pattern (fq_calls f) p of
         None \<Rightarrow> []
       | Some (a, b) \<Rightarrow> [\<lparr>sm_pattern = p, sm_file_path = fq_path f,
                         sm_matched_calls = take (b - a) (drop a (fq_calls f)), sm_span = (a, b)\<rparr>])"
    unfolding mine_sequence_in_file_def set_concat set_map by blast
  from p(2) that p(1) show thesis
    by (cases "find_pattern (fq_calls f) p") (simp, fastforce)
qed

lemma match_in_file_iff:
  "(\<exists>m\<in>set (mine_sequence_in_file f). sm_pattern m = p)
     \<longleftrightarrow> p \<in> set PATTERNS \<and> find_pattern (fq_calls f) p \<noteq> None"
proof
  assume "\<exists>m\<in>set (mine_sequence_in_file f). sm_pattern m = p"
  then obtain m where "m \<in> set (mine_sequence_in_file f)" "sm_pattern m = p" by blast
  from this(1) this(2) [symmetric] show "p \<in> set PATTERNS \<and> find_pattern (fq_calls f) p \<noteq> None"
    by (cases rule: match_in_fileE) simp
next
  assume p: "p \<in> set PATTERNS \<and> find_pattern (fq_calls f) p \<noteq> None"
  then obtain a b where "find_pattern (fq_calls f) p = Some (a, b)"
    by (metis option.exhaust surj_pair)
  with p show "\<exists>m\<in>set (mine_sequence_in_file f). sm_pattern m = p"
    unfolding mine_sequence_in_file_def set_concat set_map
    by (intro bexI [of _ "\<lparr>sm_pattern = p, sm_file_path = fq_path f,
          sm_matched_calls = take (b - a) (drop a (fq_calls f)), sm_span = (a, b)\<rparr>"])
       (auto intro!: bexI [of _ p])
qed

lemma match_reported:
  assumes "m \<in> set (mine_sequence_in_file f)"
  shows "describes (sp_slots (sm_pattern m)) (sm_matched_calls m)" and "sm_pattern m \<in> set PATTERNS"
proof -
  from assms obtain p a b where p: "p \<in> set PATTERNS" "find_pattern (fq_calls f) p = Some (a, b)"
      "m = \<lparr>sm_pattern = p, sm_file_path = fq_path f,
            sm_matched_calls = take (b - a) (drop a (fq_calls f)), sm_span = (a, b)\<rparr>"
    by (rule match_in_fileE)
  from find_pattern_some [OF p(2)] obtain n where
    n: "match_slots (sp_slots p) (drop a (fq_calls f)) = Some n" "b = a + n"
    by (auto simp: match_pattern_at_def)
  from match_slots_sound [OF n(1)] n(2) p(3)
  show "describes (sp_slots (sm_pattern m)) (sm_matched_calls m)" by simp
  from p(1,3) show "sm_pattern m \<in> set PATTERNS" by simp
qed

lemma PATTERNS_codes: "distinct (map sp_code PATTERNS)"
  by (simp add: PATTERNS_def)

lemma pattern_of_code: "p \<in> set PATTERNS \<Longrightarrow> pattern_of (sp_code p) = Inr p"
  by (simp add: pattern_of_def find_by_key [OF PATTERNS_codes])

lemma match_roundtrip [roundtrip_simps]:
  "sm_pattern m \<in> set PATTERNS \<Longrightarrow> match_from_dict (match_to_dict m) = Inr m"
  by (cases "sm_span m") (simp add: match_from_dict_def match_to_dict_def pattern_of_code span_of_def)

lemma mine_roundtrip:
  assumes "\<forall>m\<in>set (smr_matches r). sm_pattern m \<in> set PATTERNS"
  shows "mine_from_dict (mine_to_dict r) = Inr r"
proof -
  have "mapE match_from_dict (map match_to_dict (smr_matches r)) = Inr (smr_matches r)"
    using assms by (intro mapE_map) (simp add: match_roundtrip)
  then show ?thesis by (simp add: mine_from_dict_def mine_to_dict_def)
qed

subsection \<open>Properties\<close>

text \<open>C29: The greedy miner is complete: a catalogued pattern is reported for a file exactly when
  some run of consecutive calls splits into one block per slot, each block of the slot's dimension
  and within its bounds. (The catalogue's neighbouring slots never share a dimension, which is what
  makes taking as many calls as possible safe.)\<close>
theorem miner_finds_every_pattern:
  "(\<exists>m\<in>set (mine_sequence_in_file f). sm_pattern m = p)
     \<longleftrightarrow> p \<in> set PATTERNS \<and> occurs_in p (fq_calls f)"
  using match_in_file_iff find_pattern_iff PATTERNS_separated by blast

text \<open>Cached sequence matches read back as they were written; a report that mentions a pattern
  the catalogue does not have raises \<^verbatim>\<open>StopIteration\<close>.\<close>
theorem mine_cache_roundtrip:
  "mine_from_dict (mine_to_dict (mine b)) = Inr (mine b)
   \<and> (code \<in> set (map sp_code PATTERNS)
      \<or> match_from_dict (PDict [(''pattern_code'', PStr code)]) = Inl (OtherError ''StopIteration'' []))"
proof
  show "mine_from_dict (mine_to_dict (mine b)) = Inr (mine b)"
    by (rule mine_roundtrip) (auto simp: mine_def dest: match_reported(2))
  show "code \<in> set (map sp_code PATTERNS)
      \<or> match_from_dict (PDict [(''pattern_code'', PStr code)]) = Inl (OtherError ''StopIteration'' [])"
  proof (cases "List.find (\<lambda>p. sp_code p = code) PATTERNS")
    case None
    then show ?thesis by (simp add: match_from_dict_def pattern_of_def d_item_def bindE_def)
  next
    case (Some p)
    then have "p \<in> set PATTERNS \<and> sp_code p = code" by (auto simp: find_Some_iff)
    then show ?thesis by auto
  qed
qed

end
