(* ===== verification/StringAnalysis.thy ===== *)
theory StringAnalysis
  imports PyAst
begin

text \<open>
  \<^verbatim>\<open>stages/string_analysis.py\<close>: string constants that decode, from base64 or hexadecimal, to
  something that looks like code, or that are too random. Base64 and hexadecimal are modelled;
  the UTF-8 codec, Shannon entropy (a logarithm) and the JavaScript literal pattern are parameters
  (\<open>string_env\<close>).
\<close>

subsection \<open>Base64 and hexadecimal\<close>

definition b64_value :: "char \<Rightarrow> nat option" where
  "b64_value c = (let n = (of_char c :: nat) in
     if 65 \<le> n \<and> n \<le> 90 then Some (n - 65)
     else if 97 \<le> n \<and> n \<le> 122 then Some (n - 71)
     else if 48 \<le> n \<and> n \<le> 57 then Some (n + 4)
     else if n = 43 then Some 62
     else if n = 47 then Some 63
     else None)"

definition is_b64_char :: "char \<Rightarrow> bool" where
  "is_b64_char c = (b64_value c \<noteq> None)"

definition b64_num :: "char \<Rightarrow> nat" where
  "b64_num c = (case b64_value c of None \<Rightarrow> 0 | Some n \<Rightarrow> n)"

text \<open>
  \<^verbatim>\<open>base64.b64decode\<close> of data characters, after the padding has been dropped. One character left
  over is an error, two make one byte and three make two.
\<close>

fun b64_decode :: "string \<Rightarrow> pyexn + string" where
  "b64_decode [] = Inr []"
| "b64_decode [a] = Inl (OtherError ''Error'' ''Invalid base64-encoded string'')"
| "b64_decode [a, b] = Inr [char_of ((b64_num a * 4 + b64_num b div 16) mod 256)]"
| "b64_decode [a, b, c] =
     Inr [char_of ((b64_num a * 4 + b64_num b div 16) mod 256),
          char_of ((b64_num b * 16 + b64_num c div 4) mod 256)]"
| "b64_decode (a # b # c # d # rest) =
     bindE (b64_decode rest) (\<lambda>bs.
       Inr ([char_of ((b64_num a * 4 + b64_num b div 16) mod 256),
             char_of ((b64_num b * 16 + b64_num c div 4) mod 256),
             char_of ((b64_num c * 64 + b64_num d) mod 256)] @ bs))"

definition hex_value :: "char \<Rightarrow> nat option" where
  "hex_value c = (let n = (of_char c :: nat) in
     if 48 \<le> n \<and> n \<le> 57 then Some (n - 48)
     else if 65 \<le> n \<and> n \<le> 70 then Some (n - 55)
     else if 97 \<le> n \<and> n \<le> 102 then Some (n - 87)
     else None)"

definition hex_num :: "char \<Rightarrow> nat" where
  "hex_num c = (case hex_value c of None \<Rightarrow> 0 | Some n \<Rightarrow> n)"

text \<open>\<^verbatim>\<open>bytes.fromhex\<close> of an even number of digits.\<close>

fun hex_decode :: "string \<Rightarrow> string" where
  "hex_decode (a # b # rest) = char_of (hex_num a * 16 + hex_num b) # hex_decode rest"
| "hex_decode _ = []"

subsection \<open>Suspicious strings\<close>

record suspicious_string =
  ss_line :: int
  ss_raw :: string
  ss_decoded :: "string option"
  ss_encoding :: string
  ss_reason :: string
  ss_entropy :: rat

definition ss_short :: "suspicious_string \<Rightarrow> string" where
  "ss_short s = (if length (ss_raw s) > 80 then take 80 (ss_raw s) @ ''...'' else ss_raw s)"

definition ss_to_dict :: "suspicious_string \<Rightarrow> pyval" where
  "ss_to_dict s = PDict
     [(''line'', PInt (ss_line s)), (''raw'', PStr (ss_raw s)),
      (''decoded'', popt PStr (ss_decoded s)), (''encoding'', PStr (ss_encoding s)),
      (''reason'', PStr (ss_reason s)), (''entropy'', PFloat (ss_entropy s))]"

definition ss_from_dict :: "pyval \<Rightarrow> pyexn + suspicious_string" where
  "ss_from_dict v =
     bindE (as_dict v) (\<lambda>d.
     bindE (bindE (d_item d ''line'') as_int) (\<lambda>l.
     bindE (bindE (d_item d ''raw'') as_str) (\<lambda>raw.
     bindE (as_opt as_str (d_get d ''decoded'' PNone)) (\<lambda>dec.
     bindE (as_str (d_get d ''encoding'' (PStr ''unknown''))) (\<lambda>enc.
     bindE (as_str (d_get d ''reason'' (PStr []))) (\<lambda>r.
     bindE (as_float (d_get d ''entropy'' (PFloat 0))) (\<lambda>e.
     Inr \<lparr>ss_line = l, ss_raw = raw, ss_decoded = dec, ss_encoding = enc, ss_reason = r,
          ss_entropy = e\<rparr>)))))))"

lemma ss_roundtrip [simp, roundtrip_simps]: "ss_from_dict (ss_to_dict s) = Inr s"
  by (simp add: ss_from_dict_def ss_to_dict_def)

text \<open>
  \<open>se_decode\<close> is \<^verbatim>\<open>bytes.decode("utf-8", errors="replace")\<close>; \<open>se_printable\<close> gives the number of
  printable characters of a text and the number of its characters.
\<close>

record string_env =
  se_decode :: "string \<Rightarrow> string"
  se_printable :: "string \<Rightarrow> nat \<times> nat"
  se_entropy :: "string \<Rightarrow> rat"
  se_js_strings :: "string \<Rightarrow> string list"

definition mostly_printable :: "string_env \<Rightarrow> string \<Rightarrow> bool" where
  "mostly_printable env text = (case se_printable env text of
     (p, n) \<Rightarrow> (of_nat p / of_nat (max n 1) :: rat) > 8/10)"

text \<open>\<^verbatim>\<open>^[A-Za-z0-9+/]{16,}={0,2}$\<close> and \<^verbatim>\<open>^(?:0x)?[0-9a-fA-F]{20,}$\<close>, on stripped text.\<close>

definition base64_match :: "string \<Rightarrow> bool" where
  "base64_match s = (length (takeWhile is_b64_char s) \<ge> 16
     \<and> dropWhile is_b64_char s \<in> set [[], ''='', ''==''])"

definition strip_0x :: "string \<Rightarrow> string" where
  "strip_0x s = (if startswith s ''0x'' then drop 2 s else s)"

definition hex_match :: "string \<Rightarrow> bool" where
  "hex_match s = (let ok = (\<lambda>t. length t \<ge> 20 \<and> list_all (\<lambda>c. hex_value c \<noteq> None) t) in
     ok s \<or> (startswith s ''0x'' \<and> ok (drop 2 s)))"

definition try_decode :: "string_env \<Rightarrow> string \<Rightarrow> string option \<times> string" where
  "try_decode env raw =
     (let stripped = py_strip raw;
          b64 = (if base64_match stripped
                 then (case b64_decode (takeWhile is_b64_char stripped) of
                    Inl _ \<Rightarrow> None
                  | Inr bytes \<Rightarrow> let text = se_decode env bytes in
                      if mostly_printable env text then Some text else None)
                 else None);
          hex = (if hex_match stripped \<and> even (length (strip_0x stripped))
                 then let text = se_decode env (hex_decode (strip_0x stripped)) in
                   if mostly_printable env text then Some text else None
                 else None)
      in case b64 of
           Some text \<Rightarrow> (Some text, ''base64'')
         | None \<Rightarrow> (case hex of Some text \<Rightarrow> (Some text, ''hex'') | None \<Rightarrow> (None, ''unknown'')))"

definition SUSPICIOUS_TOKENS :: "string list" where
  "SUSPICIOUS_TOKENS =
     [''exec('', ''eval('', ''subprocess'', ''os.system'', ''popen'', ''spawn'',
      ''child_process'', ''Function('', ''__import__'', ''importlib'',
      ''http://'', ''https://'', ''requests.'', ''urllib.'', ''fetch('',
      ''axios.'', ''net.Socket'', ''socket.socket'',
      ''os.environ'', ''process.env'', ''open('', ''fs.readFile'',
      ''/etc/passwd'', ''/.ssh/'', ''/.aws/'', ''appdata'',
      '' -c '', ''bash '', ''/bin/sh'', ''cmd.exe'', ''powershell'',
      '' curl '', '' wget '', ''certutil'',
      ''base64'', ''atob'', ''b64decode'']"

definition suspicion_reason :: "string \<Rightarrow> string option" where
  "suspicion_reason decoded =
     map_option (\<lambda>tok. ''decoded contains suspicious token: '' @ py_repr tok)
       (List.find (\<lambda>tok. contains (py_lower tok) (py_lower decoded)) SUSPICIOUS_TOKENS)"

text \<open>What both extractors do with one literal.\<close>

definition check_string :: "string_env \<Rightarrow> nat \<Rightarrow> string \<Rightarrow> suspicious_string list" where
  "check_string env line raw =
     (if length raw < 16 then []
      else let ent = se_entropy env raw; random =
        (if length raw \<ge> 40 \<and> ent \<ge> 45/10
         then [\<lparr>ss_line = int line, ss_raw = raw, ss_decoded = None, ss_encoding = ''high_entropy'',
                ss_reason = ''high entropy ('' @ fmt_2f ent @ '')'', ss_entropy = ent\<rparr>]
         else [])
      in case try_decode env raw of
        (Some decoded, encoding) \<Rightarrow>
          (if decoded = [] then random
           else case suspicion_reason decoded of
             None \<Rightarrow> random
           | Some reason \<Rightarrow>
               [\<lparr>ss_line = int line, ss_raw = raw, ss_decoded = Some decoded,
                 ss_encoding = encoding, ss_reason = reason, ss_entropy = ent\<rparr>])
      | (None, _) \<Rightarrow> random)"

definition extract_python_strings ::
  "string_env \<Rightarrow> (string \<Rightarrow> pyexn + pynode) \<Rightarrow> string \<Rightarrow> pyexn + suspicious_string list" where
  "extract_python_strings env parse src =
     (case parse src of
        Inl e \<Rightarrow> if exn_name e = ''SyntaxError'' then Inr [] else Inl e
      | Inr tree \<Rightarrow> Inr (concat (map (\<lambda>n. case n of ConstStr s line \<Rightarrow> check_string env line s | _ \<Rightarrow> [])
                           (walk tree))))"

definition extract_js_strings :: "string_env \<Rightarrow> string \<Rightarrow> suspicious_string list" where
  "extract_js_strings env src =
     (let lines = py_splitlines src in
      concat (map (\<lambda>(i, line). concat (map (check_string env i) (se_js_strings env line)))
        (zip [1..<Suc (length lines)] lines)))"

definition analyze_strings ::
  "string_env \<Rightarrow> (string \<Rightarrow> pyexn + pynode) \<Rightarrow> string \<Rightarrow> string \<Rightarrow> pyexn + suspicious_string list" where
  "analyze_strings env parse content language =
     (if language = ''python'' then extract_python_strings env parse content
      else if language = ''javascript'' then Inr (extract_js_strings env content)
      else Inr [])"

subsection \<open>Encoded code is found\<close>

text \<open>The encoder the attacker uses: standard base64, with padding.\<close>

definition b64_char :: "nat \<Rightarrow> char" where
  "b64_char n = char_of (if n < 26 then n + 65 else if n < 52 then n + 71
     else if n < 62 then n - 4 else if n = 62 then 43 else 47)"

fun b64_data :: "string \<Rightarrow> string" where
  "b64_data [] = []"
| "b64_data [x] = (let a = of_char x in [b64_char (a div 4), b64_char (a mod 4 * 16)])"
| "b64_data [x, y] = (let a = of_char x; b = of_char y in
     [b64_char (a div 4), b64_char (a mod 4 * 16 + b div 16), b64_char (b mod 16 * 4)])"
| "b64_data (x # y # z # rest) = (let a = of_char x; b = of_char y; c = of_char z in
     [b64_char (a div 4), b64_char (a mod 4 * 16 + b div 16),
      b64_char (b mod 16 * 4 + c div 64), b64_char (c mod 64)] @ b64_data rest)"

definition b64_encode :: "string \<Rightarrow> string" where
  "b64_encode s = b64_data s @ replicate ((3 - length s mod 3) mod 3) (CHR ''='')"

lemma b64_value_char: "n < 64 \<Longrightarrow> b64_value (b64_char n) = Some n"
  by (auto simp: b64_value_def b64_char_def Let_def of_char_of)

lemma b64_num_char [simp]: "n < 64 \<Longrightarrow> b64_num (b64_char n) = n"
  by (simp add: b64_num_def b64_value_char)

lemma is_b64_char_char [simp]: "n < 64 \<Longrightarrow> is_b64_char (b64_char n)"
  by (simp add: is_b64_char_def b64_value_char)

lemma char_nat_bound: "(of_char x :: nat) < 256"
  using of_char_mod_256 [of x, where 'a = nat] by (metis mod_less_divisor zero_less_numeral)

lemma byte_bounds:
  fixes a b c :: nat
  assumes "a < 256" "b < 256" "c < 256"
  shows "a div 4 < 64" "a mod 4 * 16 + b div 16 < 64" "a mod 4 * 16 < 64" "b mod 16 * 4 < 64"
    "b mod 16 * 4 + c div 64 < 64" "c mod 64 < 64"
proof -
  show "a div 4 < 64" using assms(1) by (simp add: less_mult_imp_div_less)
  have "a mod 4 < 4" "b mod 16 < 16" "b div 16 < 16" "c div 64 < 4"
    using assms by (simp_all add: less_mult_imp_div_less)
  then show "a mod 4 * 16 + b div 16 < 64" "a mod 4 * 16 < 64" "b mod 16 * 4 < 64"
    "b mod 16 * 4 + c div 64 < 64" by linarith+
qed simp

lemmas char_bounds = byte_bounds [OF char_nat_bound char_nat_bound char_nat_bound]

lemma b64_data_chars: "list_all is_b64_char (b64_data s)"
  by (induction s rule: b64_data.induct) (simp_all add: Let_def char_bounds)

lemma of_char_div_zero [simp]:
  "(of_char y :: nat) div 16 div 16 = 0" "(of_char y :: nat) div 64 div 4 = 0"
  using char_nat_bound [of y] by (simp_all flip: div_mult2_eq)

lemma b64_decode_data: "b64_decode (b64_data s) = Inr s"
proof (induction s rule: b64_data.induct)
  case (2 x)
  then show ?case
    by (simp add: Let_def char_bounds)
next
  case (3 x y)
  then show ?case
    by (simp add: Let_def char_bounds)
next
  case (4 x y z rest)
  then show ?case
    by (simp add: Let_def char_bounds)
qed simp

lemma b64_data_length: "4 * length s \<le> 3 * length (b64_data s)"
  by (induction s rule: b64_data.induct) (simp_all add: Let_def)

lemma b64_pad: "replicate ((3 - length s mod 3) mod 3) (CHR ''='') \<in> set [[], ''='', ''=='']"
proof -
  have "length s mod 3 < 3" by simp
  then consider "length s mod 3 = 0" | "length s mod 3 = 1" | "length s mod 3 = 2" by linarith
  then show ?thesis by cases (simp_all add: numeral_2_eq_2)
qed

lemma not_b64_equals: "\<not> is_b64_char (CHR ''='')"
  by (simp add: is_b64_char_def b64_value_def)

lemma takeWhile_encode: "takeWhile is_b64_char (b64_encode s) = b64_data s"
proof -
  have "takeWhile is_b64_char (replicate n (CHR ''='')) = []" for n
    by (cases n) (simp_all add: not_b64_equals)
  then show ?thesis
    using b64_data_chars [of s] by (simp add: b64_encode_def takeWhile_append2 list_all_iff)
qed

lemma dropWhile_encode:
  "dropWhile is_b64_char (b64_encode s) = replicate ((3 - length s mod 3) mod 3) (CHR ''='')"
proof -
  have "dropWhile is_b64_char (replicate n (CHR ''='')) = replicate n (CHR ''='')" for n
    by (cases n) (simp_all add: not_b64_equals)
  then show ?thesis
    using b64_data_chars [of s] by (simp add: b64_encode_def dropWhile_append2 list_all_iff)
qed

lemma b64_match_encode: "12 \<le> length s \<Longrightarrow> base64_match (b64_encode s)"
  using b64_data_length [of s] b64_pad [of s]
  by (simp add: base64_match_def takeWhile_encode dropWhile_encode)

lemma b64_char_no_space: "is_b64_char c \<Longrightarrow> \<not> is_space c"
  by (auto simp: is_b64_char_def b64_value_def is_space_def Let_def split: if_splits)

lemma strip_no_space: "\<forall>c\<in>set s. \<not> is_space c \<Longrightarrow> py_strip s = s"
  by (simp add: py_strip_def dropWhile_eq_self_iff)
    (metis (no_types, lifting) dropWhile_eq_self_iff hd_in_set rev_rev_ident set_rev)

lemma strip_encode: "py_strip (b64_encode s) = b64_encode s"
proof (rule strip_no_space)
  have "\<not> is_space (CHR ''='')" by (simp add: is_space_def)
  moreover have "\<forall>c\<in>set (b64_data s). is_b64_char c"
    using b64_data_chars [of s] by (simp add: list_all_iff)
  ultimately show "\<forall>c\<in>set (b64_encode s). \<not> is_space c"
    using b64_char_no_space by (auto simp: b64_encode_def)
qed

lemma try_decode_encode:
  assumes "12 \<le> length s" and "se_decode env s = s" and "mostly_printable env s"
  shows "try_decode env (b64_encode s) = (Some s, ''base64'')"
  using assms b64_match_encode [OF assms(1)]
  by (simp add: try_decode_def strip_encode takeWhile_encode b64_decode_data)

lemma suspicion_iff:
  "suspicion_reason s \<noteq> None \<longleftrightarrow> (\<exists>tok\<in>set SUSPICIOUS_TOKENS. contains (py_lower tok) (py_lower s))"
  by (auto simp: suspicion_reason_def find_None_iff)

lemma encoded_token_found:
  assumes "12 \<le> length s" and "se_decode env s = s" and "mostly_printable env s"
    and "tok \<in> set SUSPICIOUS_TOKENS" and "contains (py_lower tok) (py_lower s)"
  shows "\<exists>x. check_string env line (b64_encode s) = [x] \<and> ss_decoded x = Some s
    \<and> ss_encoding x = ''base64''"
proof -
  obtain reason where r: "suspicion_reason s = Some reason"
    using suspicion_iff [of s] assms(4,5) by blast
  have "16 \<le> length (b64_encode s)"
    using b64_data_length [of s] assms(1) by (simp add: b64_encode_def)
  moreover have "s \<noteq> []" using assms(1) by auto
  ultimately show ?thesis
    using r try_decode_encode [OF assms(1-3)] by (simp add: check_string_def)
qed

subsection \<open>Properties\<close>

text \<open>Base64 does not hide a suspicious token: a literal that encodes printable text of at
  least 12 characters which contains one of the tokens, in any case, is reported, and the report
  shows the decoded text. \<open>se_decode\<close> (UTF-8) is assumed to return this text unchanged, as it does
  for ASCII.\<close>
theorem base64_token_reported:
  assumes "12 \<le> length s" and "se_decode env s = s" and "mostly_printable env s"
    and "tok \<in> set SUSPICIOUS_TOKENS" and "contains (py_lower tok) (py_lower s)"
  shows "\<exists>x. check_string env line (b64_encode s) = [x] \<and> ss_decoded x = Some s
    \<and> ss_encoding x = ''base64''"
  by (rule encoded_token_found [OF assms])

definition ascii_env :: string_env where
  "ascii_env = \<lparr>se_decode = id,
     se_printable = (\<lambda>s. (length (filter (\<lambda>c. 32 \<le> (of_char c :: nat) \<and> (of_char c :: nat) < 127) s),
       length s)), se_entropy = (\<lambda>s. 0), se_js_strings = (\<lambda>s. [])\<rparr>"

theorem base64_token_reported_witness:
  "\<exists>x. check_string ascii_env 3 (b64_encode ''curl http://evil'') = [x]
    \<and> ss_decoded x = Some ''curl http://evil'' \<and> ss_encoding x = ''base64''"
  by (rule base64_token_reported [of _ _ "''http://''"])
    (simp_all add: ascii_env_def mostly_printable_def SUSPICIOUS_TOKENS_def py_lower_def
      lower_char_def sublist_code)

end
