(* ===== verification/Indicators.thy ===== *)
theory Indicators
  imports Behavior
begin

text \<open>
  \<^verbatim>\<open>knowledge/malicious_indicators.py\<close>, the catalogue of indicators, and
  \<^verbatim>\<open>stages/indicator_matcher.py\<close>, which matches them on call sequences, source text and package
  metadata. The compiled regular expressions, the deobfuscator and the JSON parser are parameters
  (\<open>text_env\<close>).
\<close>

subsection \<open>The catalogue\<close>

datatype indicator_category =
  EXECUTION_STAGE | EXECUTION_MECHANISM | EXFILTRATION | SYSTEM_IMPACT | NETWORK
  | DEFENSE_EVASION | METADATA

fun category_value :: "indicator_category \<Rightarrow> string" where
  "category_value EXECUTION_STAGE = ''Execution Stage''"
| "category_value EXECUTION_MECHANISM = ''Execution Mechanism''"
| "category_value EXFILTRATION = ''Exfiltration''"
| "category_value SYSTEM_IMPACT = ''System Impact''"
| "category_value NETWORK = ''Network Operations''"
| "category_value DEFENSE_EVASION = ''Defense Evasion''"
| "category_value METADATA = ''Metadata Manipulation''"

record malicious_indicator =
  mi_code :: string
  mi_name :: string
  mi_category :: indicator_category
  mi_description :: string
  mi_severity :: severity
  mi_related_dimensions :: "attack_dimension list"
  mi_detection_hints :: "string list"
  mi_mitre_ttps :: "string list"

definition EXS_INDICATORS :: "malicious_indicator list" where
  "EXS_INDICATORS = [
   \<lparr>mi_code = ''EXS-001'', mi_name = ''Import-Time Execution'',
    mi_category = EXECUTION_STAGE,
mi_description = utf8 [235, 170, 168, 235, 147, 136, 32, 105, 109, 112, 111, 114, 116, 32, 236,
        166, 137, 236, 139, 156, 32, 236, 158, 144, 235, 143, 153, 32, 236, 139, 164, 237, 150,
        137, 235, 144, 152, 235, 138, 148, 32, 237, 142, 152, 236, 157, 180, 235, 161, 156, 235,
        147, 156, 46, 32, 235, 170, 168, 235, 147, 136, 32, 235, 160, 136, 235, 178, 168, 32, 236,
        189, 148, 235, 147, 156, 236, 151, 144, 32, 237, 142, 152, 236, 157, 180, 235, 161, 156,
        235, 147, 156, 32, 236, 158, 132, 235, 178, 160, 235, 147, 156, 46],
    mi_severity = SevHIGH,
mi_related_dimensions = [PAYLOAD_EXECUTION],
mi_detection_hints = [''module-level call'', ''__init__.py top-level''],
    mi_mitre_ttps = [''T1059'']\<rparr>,
   \<lparr>mi_code = ''EXS-002'', mi_name = ''Install-Time Execution'',
    mi_category = EXECUTION_STAGE,
mi_description = utf8 [115, 101, 116, 117, 112, 46, 112, 121, 32, 236, 181, 156, 236, 131, 129,
        236, 156, 132, 236, 151, 144, 32, 235, 176, 176, 236, 185, 152, 235, 144, 156, 32, 236,
        189, 148, 235, 147, 156, 234, 176, 128, 32, 237, 140, 168, 237, 130, 164, 236, 167, 128,
        32, 236, 132, 164, 236, 185, 152, 32, 236, 139, 156, 32, 236, 158, 144, 235, 143, 153, 32,
        236, 139, 164, 237, 150, 137, 46],
    mi_severity = SevHIGH,
mi_related_dimensions = [PAYLOAD_EXECUTION],
mi_detection_hints = [''setup.py top-level'', ''side effect on import''],
    mi_mitre_ttps = [''T1195.002'']\<rparr>,
   \<lparr>mi_code = ''EXS-003'', mi_name = ''Lifecycle Hook Hijack'',
    mi_category = EXECUTION_STAGE,
mi_description = utf8 [115, 101, 116, 117, 112, 116, 111, 111, 108, 115, 32, 105, 110, 115, 116,
        97, 108, 108, 47, 100, 101, 118, 101, 108, 111, 112, 32, 235, 147, 177, 32, 237, 145, 156,
        236, 164, 128, 32, 236, 132, 164, 236, 185, 152, 32, 237, 155, 133, 236, 157, 132, 32,
        236, 152, 164, 235, 178, 132, 235, 157, 188, 236, 157, 180, 235, 147, 156, 237, 149, 152,
        236, 151, 172, 32, 235, 185, 140, 235, 147, 156, 32, 235, 139, 168, 234, 179, 132, 236,
        151, 144, 32, 236, 149, 133, 236, 132, 177, 32, 235, 161, 156, 236, 167, 129, 32, 236,
        163, 188, 236, 158, 133, 46],
    mi_severity = SevHIGH,
mi_related_dimensions = [PAYLOAD_EXECUTION],
mi_detection_hints = [''cmdclass='', ''install.run override'', ''build_py override''],
    mi_mitre_ttps = [''T1546'']\<rparr>]"

definition EXM_INDICATORS :: "malicious_indicator list" where
  "EXM_INDICATORS = [
   \<lparr>mi_code = ''EXM-001'', mi_name = ''Dynamic Evaluation'',
    mi_category = EXECUTION_MECHANISM,
mi_description = utf8 [101, 118, 97, 108, 40, 41, 47, 101, 120, 101, 99, 40, 41, 32, 235, 161,
        156, 32, 235, 172, 184, 236, 158, 144, 236, 151, 180, 236, 151, 144, 32, 235, 139, 180,
        234, 184, 180, 32, 236, 189, 148, 235, 147, 156, 235, 165, 188, 32, 235, 143, 153, 236,
        160, 129, 32, 236, 139, 164, 237, 150, 137, 46],
    mi_severity = SevHIGH,
mi_related_dimensions = [PAYLOAD_EXECUTION],
mi_detection_hints = [''eval('', ''exec('', ''compile(... 'exec')''],
    mi_mitre_ttps = [''T1059.006'']\<rparr>,
   \<lparr>mi_code = ''EXM-002'', mi_name = ''Conditional Payload Trigger'',
    mi_category = EXECUTION_MECHANISM,
mi_description = utf8 [79, 83, 47, 236, 139, 156, 234, 176, 132, 47, 237, 153, 152, 234, 178, 189,
        32, 236, 161, 176, 234, 177, 180, 236, 151, 144, 32, 235, 148, 176, 235, 157, 188, 32,
        236, 161, 176, 234, 177, 180, 235, 182, 128, 32, 236, 139, 164, 237, 150, 137, 32, 40,
        235, 182, 132, 236, 132, 157, 32, 237, 154, 140, 237, 148, 188, 41, 46],
    mi_severity = SevMEDIUM,
mi_related_dimensions = [PAYLOAD_EXECUTION],
mi_detection_hints = [''platform.system()'', ''sys.platform'', ''datetime check''],
    mi_mitre_ttps = [''T1480'']\<rparr>,
   \<lparr>mi_code = ''EXM-003'', mi_name = ''Binary Execution'',
    mi_category = EXECUTION_MECHANISM,
mi_description = utf8 [235, 178, 136, 235, 147, 164, 235, 144, 156, 32, 236, 187, 180, 237, 140,
        140, 236, 157, 188, 32, 235, 176, 148, 236, 157, 180, 235, 132, 136, 235, 166, 172, 235,
        165, 188, 32, 236, 139, 164, 237, 150, 137, 237, 149, 152, 236, 151, 172, 32, 80, 121,
        116, 104, 111, 110, 32, 235, 160, 136, 235, 178, 168, 32, 237, 131, 144, 236, 167, 128,
        32, 236, 154, 176, 237, 154, 140, 46],
    mi_severity = SevHIGH,
mi_related_dimensions = [PAYLOAD_EXECUTION],
mi_detection_hints = [''subprocess + .so/.dll/.exe'', ''ctypes.CDLL''],
    mi_mitre_ttps = [''T1027.002'']\<rparr>,
   \<lparr>mi_code = ''EXM-004'', mi_name = ''Hidden Code Execution'',
    mi_category = EXECUTION_MECHANISM,
mi_description = utf8 [235, 176, 177, 234, 183, 184, 235, 157, 188, 236, 154, 180, 235, 147, 156,
        47, 236, 136, 168, 234, 185, 128, 32, 235, 170, 168, 235, 147, 156, 235, 161, 156, 32,
        236, 132, 156, 235, 184, 140, 237, 148, 132, 235, 161, 156, 236, 132, 184, 236, 138, 164,
        32, 236, 139, 164, 237, 150, 137, 46],
    mi_severity = SevHIGH,
mi_related_dimensions = [PAYLOAD_EXECUTION],
mi_detection_hints = [''DETACHED_PROCESS'', ''creationflags'', ''nohup'', ''&''],
    mi_mitre_ttps = [''T1564'']\<rparr>,
   \<lparr>mi_code = ''EXM-005'', mi_name = ''Dynamic Module Import'',
    mi_category = EXECUTION_MECHANISM,
mi_description = utf8 [235, 143, 153, 236, 160, 129, 32, 234, 181, 172, 236, 132, 177, 235, 144,
        156, 32, 235, 172, 184, 236, 158, 144, 236, 151, 180, 235, 161, 156, 32, 235, 170, 168,
        235, 147, 136, 32, 105, 109, 112, 111, 114, 116, 32, 40, 235, 130, 156, 235, 143, 133,
        237, 153, 148, 32, 234, 176, 128, 235, 138, 165, 236, 132, 177, 41, 46],
    mi_severity = SevMEDIUM,
mi_related_dimensions = [PAYLOAD_EXECUTION],
mi_detection_hints = [''__import__(variable)'', ''importlib.import_module(variable)''],
    mi_mitre_ttps = [''T1027'']\<rparr>,
   \<lparr>mi_code = ''EXM-006'', mi_name = ''Dynamic Package Install'',
    mi_category = EXECUTION_MECHANISM,
mi_description = utf8 [235, 159, 176, 237, 131, 128, 236, 158, 132, 236, 151, 144, 32, 112, 105,
        112, 32, 105, 110, 115, 116, 97, 108, 108, 32, 235, 147, 177, 236, 156, 188, 235, 161,
        156, 32, 236, 157, 152, 236, 161, 180, 236, 132, 177, 236, 157, 132, 32, 235, 143, 153,
        236, 160, 129, 32, 236, 132, 164, 236, 185, 152, 46],
    mi_severity = SevHIGH,
mi_related_dimensions = [PAYLOAD_EXECUTION, DATA_TRANSMISSION],
mi_detection_hints = [utf8 [115, 117, 98, 112, 114, 111, 99, 101, 115, 115, 40, 91, 39, 112, 105,
        112, 39, 44, 39, 105, 110, 115, 116, 97, 108, 108, 39], ''pip.main''],
    mi_mitre_ttps = [''T1105'']\<rparr>,
   \<lparr>mi_code = ''EXM-007'', mi_name = ''Script File Execution'',
    mi_category = EXECUTION_MECHANISM,
mi_description = utf8 [235, 178, 136, 235, 147, 164, 235, 144, 156, 32, 236, 153, 184, 235, 182,
        128, 32, 236, 138, 164, 237, 129, 172, 235, 166, 189, 237, 138, 184, 40, 66, 97, 115, 104,
        47, 80, 111, 119, 101, 114, 83, 104, 101, 108, 108, 47, 80, 121, 116, 104, 111, 110, 41,
        32, 236, 139, 164, 237, 150, 137, 46],
    mi_severity = SevHIGH,
mi_related_dimensions = [PAYLOAD_EXECUTION],
mi_detection_hints = [''subprocess + .sh/.ps1/.py'', ''os.system + script''],
    mi_mitre_ttps = [''T1059'']\<rparr>,
   \<lparr>mi_code = ''EXM-008'', mi_name = ''Shell Command Execution'',
    mi_category = EXECUTION_MECHANISM,
mi_description = utf8 [79, 83, 32, 236, 133, 184, 235, 161, 156, 32, 114, 97, 119, 32, 235, 170,
        133, 235, 160, 185, 236, 150, 180, 32, 235, 172, 184, 236, 158, 144, 236, 151, 180, 32,
        236, 139, 164, 237, 150, 137, 46],
    mi_severity = SevHIGH,
mi_related_dimensions = [PAYLOAD_EXECUTION],
mi_detection_hints = [''os.system('', ''subprocess(shell=True'', ''popen(''],
    mi_mitre_ttps = [''T1059.004'']\<rparr>]"

definition EXF_INDICATORS :: "malicious_indicator list" where
  "EXF_INDICATORS = [
   \<lparr>mi_code = ''EXF-001'', mi_name = ''Data Exfiltration'',
    mi_category = EXFILTRATION,
mi_description = utf8 [236, 158, 144, 234, 178, 169, 236, 166, 157, 235, 170, 133, 47, 65, 80, 73,
        32, 237, 130, 164, 32, 235, 147, 177, 32, 237, 145, 156, 236, 160, 129, 32, 235, 175, 188,
        234, 176, 144, 32, 236, 160, 149, 235, 179, 180, 32, 236, 153, 184, 235, 182, 128, 32,
        236, 160, 132, 236, 134, 161, 46],
    mi_severity = SevHIGH,
mi_related_dimensions = [INFORMATION_READING, DATA_TRANSMISSION],
mi_detection_hints = [''os.environ + http.post'', ''AWS_ACCESS_KEY'', ''GITHUB_TOKEN''],
    mi_mitre_ttps = [''T1552'', ''T1048'']\<rparr>,
   \<lparr>mi_code = ''EXF-002'', mi_name = ''File Exfiltration'',
    mi_category = EXFILTRATION,
mi_description = utf8 [237, 140, 140, 236, 157, 188, 32, 236, 160, 132, 236, 178, 180, 235, 165,
        188, 32, 236, 153, 184, 235, 182, 128, 235, 161, 156, 32, 236, 160, 132, 236, 134, 161,
        46],
    mi_severity = SevHIGH,
mi_related_dimensions = [INFORMATION_READING, DATA_TRANSMISSION],
mi_detection_hints = [''read file + http upload'', ''multipart/form-data''],
    mi_mitre_ttps = [''T1041'']\<rparr>,
   \<lparr>mi_code = ''EXF-003'', mi_name = ''DNS Tunneling'',
    mi_category = EXFILTRATION,
mi_description = utf8 [68, 78, 83, 32, 236, 191, 188, 235, 166, 172, 235, 161, 156, 32, 235, 141,
        176, 236, 157, 180, 237, 132, 176, 32, 236, 156, 160, 236, 182, 156, 32, 235, 152, 144,
        235, 138, 148, 32, 67, 50, 32, 237, 138, 184, 235, 158, 152, 237, 148, 189, 32, 236, 134,
        161, 236, 139, 160, 46],
    mi_severity = SevHIGH,
mi_related_dimensions = [DATA_TRANSMISSION],
mi_detection_hints = [''socket.gethostbyname(encoded)'', ''dns.resolver.query''],
    mi_mitre_ttps = [''T1071.004'']\<rparr>,
   \<lparr>mi_code = ''EXF-004'', mi_name = ''Webhook Exfiltration'',
    mi_category = EXFILTRATION,
mi_description = utf8 [83, 108, 97, 99, 107, 47, 68, 105, 115, 99, 111, 114, 100, 47, 84, 101,
        108, 101, 103, 114, 97, 109, 32, 235, 147, 177, 32, 236, 177, 132, 237, 140, 133, 32, 65,
        80, 73, 32, 235, 165, 188, 32, 236, 157, 128, 235, 176, 128, 32, 236, 177, 132, 235, 132,
        144, 235, 161, 156, 32, 236, 130, 172, 236, 154, 169, 46],
    mi_severity = SevHIGH,
mi_related_dimensions = [DATA_TRANSMISSION],
mi_detection_hints = [''discord.com/api/webhooks'', ''hooks.slack.com'', ''api.telegram.org''],
    mi_mitre_ttps = [''T1567.002'']\<rparr>,
   \<lparr>mi_code = ''EXF-005'', mi_name = ''Suspicious Domain Exfiltration'',
    mi_category = EXFILTRATION,
mi_description = utf8 [236, 149, 133, 236, 132, 177, 32, 237, 153, 156, 235, 143, 153, 234, 179,
        188, 32, 236, 151, 176, 234, 180, 128, 235, 144, 156, 32, 235, 143, 132, 235, 169, 148,
        236, 157, 184, 236, 156, 188, 235, 161, 156, 32, 235, 141, 176, 236, 157, 180, 237, 132,
        176, 32, 236, 134, 161, 236, 139, 160, 46],
    mi_severity = SevHIGH,
mi_related_dimensions = [DATA_TRANSMISSION],
mi_detection_hints = [''pastebin.com'', ''transfer.sh'', ''.onion'', ''burp collaborator''],
    mi_mitre_ttps = [''T1041'']\<rparr>]"

definition SYS_INDICATORS :: "malicious_indicator list" where
  "SYS_INDICATORS = [
   \<lparr>mi_code = ''SYS-001'', mi_name = ''Environment Modification'',
    mi_category = SYSTEM_IMPACT,
mi_description = utf8 [80, 65, 84, 72, 44, 32, 76, 68, 95, 80, 82, 69, 76, 79, 65, 68, 32, 235,
        147, 177, 32, 237, 153, 152, 234, 178, 189, 235, 179, 128, 236, 136, 152, 32, 235, 179,
        128, 234, 178, 189, 46],
    mi_severity = SevHIGH,
mi_related_dimensions = [PAYLOAD_EXECUTION],
mi_detection_hints = [''os.environ['PATH']='', ''os.environ['LD_PRELOAD']=''],
    mi_mitre_ttps = [''T1574'']\<rparr>,
   \<lparr>mi_code = ''SYS-002'', mi_name = ''Startup File Persistence'',
    mi_category = SYSTEM_IMPACT,
mi_description = utf8 [97, 117, 116, 111, 45, 115, 116, 97, 114, 116, 32, 236, 156, 132, 236, 185,
        152, 32, 235, 179, 128, 234, 178, 189, 236, 156, 188, 235, 161, 156, 32, 235, 182, 128,
        237, 140, 133, 47, 235, 161, 156, 234, 183, 184, 236, 157, 184, 32, 236, 139, 156, 32,
        236, 139, 164, 237, 150, 137, 235, 144, 152, 235, 143, 132, 235, 161, 157, 32, 236, 152,
        129, 234, 181, 172, 237, 153, 148, 46],
    mi_severity = SevHIGH,
mi_related_dimensions = [PAYLOAD_EXECUTION],
mi_detection_hints = [''.bashrc'', ''Run registry key'', ''crontab'', ''systemd''],
    mi_mitre_ttps = [''T1547'']\<rparr>,
   \<lparr>mi_code = ''SYS-003'', mi_name = ''Crypto Wallet Harvesting'',
    mi_category = SYSTEM_IMPACT,
mi_description = utf8 [236, 149, 148, 237, 152, 184, 237, 153, 148, 237, 143, 144, 32, 236, 167,
        128, 234, 176, 145, 32, 237, 140, 140, 236, 157, 188, 32, 47, 32, 237, 130, 164, 236, 138,
        164, 237, 134, 160, 236, 150, 180, 32, 236, 138, 164, 236, 186, 148, 46],
    mi_severity = SevHIGH,
mi_related_dimensions = [INFORMATION_READING],
mi_detection_hints = [''wallet.dat'', ''keystore'', ''MetaMask'', ''.electrum''],
    mi_mitre_ttps = [''T1005'']\<rparr>,
   \<lparr>mi_code = ''SYS-004'', mi_name = ''Directory Enumeration'',
    mi_category = SYSTEM_IMPACT,
mi_description = utf8 [234, 179, 160, 234, 176, 128, 236, 185, 152, 32, 237, 131, 128, 234, 178,
        159, 32, 236, 139, 157, 235, 179, 132, 236, 157, 132, 32, 236, 156, 132, 237, 149, 156,
        32, 237, 140, 140, 236, 157, 188, 236, 139, 156, 236, 138, 164, 237, 133, 156, 32, 236,
        151, 180, 234, 177, 176, 46],
    mi_severity = SevMEDIUM,
mi_related_dimensions = [INFORMATION_READING],
mi_detection_hints = [''os.walk'', ''glob.glob'', ''Path.rglob''],
    mi_mitre_ttps = [''T1083'']\<rparr>,
   \<lparr>mi_code = ''SYS-005'', mi_name = ''System Info Reconnaissance'',
    mi_category = SYSTEM_IMPACT,
mi_description = utf8 [236, 139, 156, 236, 138, 164, 237, 133, 156, 32, 235, 169, 148, 237, 131,
        128, 235, 141, 176, 236, 157, 180, 237, 132, 176, 47, 236, 130, 172, 236, 154, 169, 236,
        158, 144, 32, 236, 160, 149, 235, 179, 180, 32, 236, 136, 152, 236, 167, 145, 46],
    mi_severity = SevMEDIUM,
mi_related_dimensions = [INFORMATION_READING],
mi_detection_hints = [''platform.uname'', ''getpass.getuser'', ''socket.gethostname''],
    mi_mitre_ttps = [''T1082'']\<rparr>,
   \<lparr>mi_code = ''SYS-006'', mi_name = ''File Relocation'',
    mi_category = SYSTEM_IMPACT,
mi_description = utf8 [236, 152, 129, 234, 181, 172, 237, 153, 148, 47, 236, 136, 168, 234, 185,
        128, 32, 236, 156, 132, 236, 185, 152, 235, 161, 156, 32, 237, 140, 140, 236, 157, 188,
        32, 236, 157, 180, 235, 143, 153, 46],
    mi_severity = SevMEDIUM,
mi_related_dimensions = [PAYLOAD_EXECUTION],
mi_detection_hints = [''shutil.move'', ''os.rename to AppData'', ''/tmp -> persistent''],
    mi_mitre_ttps = [''T1564'']\<rparr>,
   \<lparr>mi_code = ''SYS-007'', mi_name = ''File Deletion'',
    mi_category = SYSTEM_IMPACT,
mi_description = utf8 [237, 157, 148, 236, 160, 129, 32, 236, 160, 156, 234, 177, 176, 235, 165,
        188, 32, 236, 156, 132, 237, 149, 156, 32, 237, 140, 140, 236, 157, 188, 32, 236, 130,
        173, 236, 160, 156, 46],
    mi_severity = SevMEDIUM,
mi_related_dimensions = [PAYLOAD_EXECUTION],
mi_detection_hints = [''os.remove'', ''os.unlink'', ''shutil.rmtree'', ''del /F''],
    mi_mitre_ttps = [''T1070.004'']\<rparr>,
   \<lparr>mi_code = ''SYS-008'', mi_name = ''Arbitrary File Write'',
    mi_category = SYSTEM_IMPACT,
mi_description = utf8 [237, 142, 152, 236, 157, 180, 235, 161, 156, 235, 147, 156, 32, 115, 116,
        97, 103, 101, 32, 235, 152, 144, 235, 138, 148, 32, 236, 154, 180, 236, 152, 129, 32, 235,
        141, 176, 236, 157, 180, 237, 132, 176, 32, 236, 152, 129, 234, 181, 172, 237, 153, 148,
        235, 165, 188, 32, 236, 156, 132, 237, 149, 180, 32, 236, 158, 132, 236, 157, 152, 32,
        237, 140, 140, 236, 157, 188, 32, 236, 158, 145, 236, 132, 177, 46],
    mi_severity = SevMEDIUM,
mi_related_dimensions = [PAYLOAD_EXECUTION],
mi_detection_hints = [''open(... 'w')'', ''Path.write_bytes'', ''with binary content''],
    mi_mitre_ttps = [''T1105'']\<rparr>,
   \<lparr>mi_code = ''SYS-009'', mi_name = ''Sensitive Path Write'',
    mi_category = SYSTEM_IMPACT,
mi_description = utf8 [234, 182, 140, 237, 149, 156, 32, 237, 149, 132, 236, 154, 148, 237, 149,
        156, 32, 236, 139, 156, 236, 138, 164, 237, 133, 156, 32, 234, 178, 189, 235, 161, 156,
        236, 151, 144, 32, 236, 147, 176, 234, 184, 176, 32, 40, 115, 121, 115, 116, 101, 109, 51,
        50, 44, 32, 47, 101, 116, 99, 44, 32, 47, 117, 115, 114, 47, 98, 105, 110, 32, 235, 147,
        177, 41, 46],
    mi_severity = SevHIGH,
mi_related_dimensions = [PAYLOAD_EXECUTION],
mi_detection_hints = [''/etc/'', utf8 [67, 58, 92, 87, 105, 110, 100, 111, 119, 115, 92, 83, 121,
        115, 116, 101, 109, 51, 50], ''/usr/bin/'', ''/Library/''],
    mi_mitre_ttps = [''T1105'']\<rparr>]"

definition NET_INDICATORS :: "malicious_indicator list" where
  "NET_INDICATORS = [
   \<lparr>mi_code = ''NET-001'', mi_name = ''Geolocation Lookup'',
    mi_category = NETWORK,
mi_description = utf8 [236, 153, 184, 235, 182, 128, 32, 73, 80, 32, 236, 161, 176, 237, 154, 140,
        32, 65, 80, 73, 32, 235, 161, 156, 32, 237, 148, 188, 237, 149, 180, 236, 158, 144, 32,
        236, 156, 132, 236, 185, 152, 32, 235, 141, 176, 236, 157, 180, 237, 132, 176, 32, 236,
        136, 152, 236, 167, 145, 46],
    mi_severity = SevMEDIUM,
mi_related_dimensions = [DATA_TRANSMISSION],
mi_detection_hints = [''ipinfo.io'', ''ip-api.com'', ''ipify.org'', ''ifconfig.me''],
    mi_mitre_ttps = [''T1614'']\<rparr>,
   \<lparr>mi_code = ''NET-002'', mi_name = ''Mining Pool Connection'',
    mi_category = NETWORK,
mi_description = utf8 [236, 149, 148, 237, 152, 184, 237, 153, 148, 237, 143, 144, 32, 235, 167,
        136, 236, 157, 180, 235, 139, 157, 32, 237, 146, 128, 32, 236, 151, 176, 234, 178, 176,
        46],
    mi_severity = SevHIGH,
mi_related_dimensions = [DATA_TRANSMISSION],
mi_detection_hints = [''stratum+tcp://'', ''xmr-pool'', ''minexmr.com'', ''supportxmr.com''],
    mi_mitre_ttps = [''T1496'']\<rparr>,
   \<lparr>mi_code = ''NET-003'', mi_name = ''Suspicious Connection'',
    mi_category = NETWORK,
mi_description = utf8 [234, 179, 181, 234, 178, 169, 236, 158, 144, 32, 237, 134, 181, 236, 160,
        156, 32, 235, 152, 144, 235, 138, 148, 32, 236, 139, 160, 234, 183, 156, 32, 235, 147,
        177, 235, 161, 157, 235, 144, 156, 32, 235, 143, 132, 235, 169, 148, 236, 157, 184, 236,
        156, 188, 235, 161, 156, 32, 236, 151, 176, 234, 178, 176, 46],
    mi_severity = SevHIGH,
mi_related_dimensions = [DATA_TRANSMISSION],
mi_detection_hints = [''typosquatted hostname'', ''newly registered domain''],
    mi_mitre_ttps = [''T1071'']\<rparr>,
   \<lparr>mi_code = ''NET-004'', mi_name = ''Archive Dropper'',
    mi_category = NETWORK,
mi_description = utf8 [236, 155, 144, 234, 178, 169, 32, 236, 132, 156, 235, 178, 132, 236, 151,
        144, 236, 132, 156, 32, 236, 149, 149, 236, 182, 149, 32, 236, 149, 132, 236, 185, 180,
        236, 157, 180, 235, 184, 140, 235, 165, 188, 32, 235, 176, 155, 236, 149, 132, 32, 235,
        161, 156, 236, 187, 172, 32, 237, 149, 180, 236, 160, 156, 46],
    mi_severity = SevHIGH,
mi_related_dimensions = [DATA_TRANSMISSION, PAYLOAD_EXECUTION],
mi_detection_hints = [''zipfile + urlopen'', ''tarfile + http'', ''extractall''],
    mi_mitre_ttps = [''T1105'']\<rparr>,
   \<lparr>mi_code = ''NET-005'', mi_name = ''Binary Dropper'',
    mi_category = NETWORK,
mi_description = utf8 [236, 155, 144, 234, 178, 169, 32, 236, 132, 156, 235, 178, 132, 236, 151,
        144, 236, 132, 156, 32, 236, 187, 180, 237, 140, 140, 236, 157, 188, 235, 144, 156, 32,
        236, 139, 164, 237, 150, 137, 237, 140, 140, 236, 157, 188, 32, 235, 139, 164, 236, 154,
        180, 235, 161, 156, 235, 147, 156, 46],
    mi_severity = SevHIGH,
mi_related_dimensions = [DATA_TRANSMISSION, PAYLOAD_EXECUTION],
mi_detection_hints = [''.exe download'', ''.dll fetch'', ''.so + write binary''],
    mi_mitre_ttps = [''T1105'']\<rparr>,
   \<lparr>mi_code = ''NET-006'', mi_name = ''Payload Dropper'',
    mi_category = NETWORK,
mi_description = utf8 [236, 132, 164, 236, 185, 152, 32, 237, 155, 132, 32, 236, 155, 144, 234,
        178, 169, 32, 236, 132, 156, 235, 178, 132, 236, 151, 144, 236, 132, 156, 32, 236, 149,
        133, 236, 132, 177, 32, 237, 142, 152, 236, 157, 180, 235, 161, 156, 235, 147, 156, 32,
        234, 176, 128, 236, 160, 184, 236, 152, 164, 234, 184, 176, 46],
    mi_severity = SevHIGH,
mi_related_dimensions = [DATA_TRANSMISSION, PAYLOAD_EXECUTION],
mi_detection_hints = [''urlopen + exec'', ''requests.get + eval''],
    mi_mitre_ttps = [''T1105'']\<rparr>,
   \<lparr>mi_code = ''NET-007'', mi_name = ''Script Dropper'',
    mi_category = NETWORK,
mi_description = utf8 [236, 155, 144, 234, 178, 169, 236, 151, 144, 236, 132, 156, 32, 236, 157,
        184, 237, 132, 176, 237, 148, 132, 235, 166, 172, 237, 132, 176, 32, 236, 138, 164, 237,
        129, 172, 235, 166, 189, 237, 138, 184, 235, 165, 188, 32, 235, 176, 155, 236, 149, 132,
        32, 235, 161, 156, 236, 187, 172, 32, 236, 139, 164, 237, 150, 137, 46],
    mi_severity = SevHIGH,
mi_related_dimensions = [DATA_TRANSMISSION, PAYLOAD_EXECUTION],
mi_detection_hints = [''curl | bash'', utf8 [112, 121, 116, 104, 111, 110, 32, 45, 99, 32, 34, 36,
        40, 99, 117, 114, 108, 32, 46, 46, 46, 41, 34], ''iex(iwr''],
    mi_mitre_ttps = [''T1105'']\<rparr>,
   \<lparr>mi_code = ''NET-008'', mi_name = ''Reverse Shell'',
    mi_category = NETWORK,
mi_description = utf8 [234, 179, 181, 234, 178, 169, 236, 158, 144, 32, 237, 134, 181, 236, 160,
        156, 32, 236, 132, 156, 235, 178, 132, 235, 161, 156, 32, 236, 151, 173, 235, 176, 169,
        237, 150, 165, 32, 236, 133, 184, 32, 236, 151, 176, 234, 178, 176, 32, 236, 136, 152,
        235, 166, 189, 46],
    mi_severity = SevHIGH,
mi_related_dimensions = [DATA_TRANSMISSION, PAYLOAD_EXECUTION],
mi_detection_hints = [''socket.connect + dup2 + exec'', ''/dev/tcp/''],
    mi_mitre_ttps = [''T1059'']\<rparr>,
   \<lparr>mi_code = ''NET-009'', mi_name = ''SSL Validation Bypass'',
    mi_category = NETWORK,
mi_description = utf8 [83, 83, 76, 32, 236, 157, 184, 236, 166, 157, 236, 132, 156, 32, 234, 178,
        128, 236, 166, 157, 32, 236, 151, 134, 236, 157, 180, 32, 235, 132, 164, 237, 138, 184,
        236, 155, 140, 237, 129, 172, 32, 236, 151, 176, 234, 178, 176, 32, 236, 136, 152, 235,
        166, 189, 46],
    mi_severity = SevMEDIUM,
mi_related_dimensions = [DATA_TRANSMISSION],
mi_detection_hints = [''verify=False'', ''ssl._create_unverified_context'', ''rejectUnauthorized:
        false''],
    mi_mitre_ttps = [''T1573'']\<rparr>,
   \<lparr>mi_code = ''NET-010'', mi_name = ''Unencrypted Communication'',
    mi_category = NETWORK,
mi_description = utf8 [236, 149, 148, 237, 152, 184, 237, 153, 148, 235, 144, 152, 236, 167, 128,
        32, 236, 149, 138, 236, 157, 128, 32, 72, 84, 84, 80, 32, 235, 161, 156, 32, 236, 155,
        144, 234, 178, 169, 32, 236, 132, 156, 235, 178, 132, 236, 153, 128, 32, 237, 134, 181,
        236, 139, 160, 46],
    mi_severity = SevMEDIUM,
mi_related_dimensions = [DATA_TRANSMISSION],
mi_detection_hints = [''http://'', ''raw socket''],
    mi_mitre_ttps = [''T1071.001'']\<rparr>]"

definition DEF_INDICATORS :: "malicious_indicator list" where
  "DEF_INDICATORS = [
   \<lparr>mi_code = ''DEF-001'', mi_name = ''ASCII Art Deception'',
    mi_category = DEFENSE_EVASION,
mi_description = utf8 [235, 172, 180, 237, 149, 180, 237, 149, 180, 32, 235, 179, 180, 236, 157,
        180, 235, 138, 148, 32, 65, 83, 67, 73, 73, 32, 236, 149, 132, 237, 138, 184, 32, 235,
        146, 164, 236, 151, 144, 32, 236, 149, 133, 236, 132, 177, 32, 236, 189, 148, 235, 147,
        156, 32, 236, 158, 132, 235, 178, 160, 235, 147, 156, 46],
    mi_severity = SevMEDIUM,
mi_related_dimensions = [ENCODING],
mi_detection_hints = [''unusually large multi-line string in setup.py / __init__.py''],
    mi_mitre_ttps = [''T1027'']\<rparr>,
   \<lparr>mi_code = ''DEF-002'', mi_name = ''Computational Obfuscation'',
    mi_category = DEFENSE_EVASION,
mi_description = utf8 [235, 185, 132, 237, 138, 184, 236, 151, 176, 236, 130, 176, 47, 235, 172,
        184, 236, 158, 144, 236, 151, 180, 32, 236, 151, 176, 236, 130, 176, 236, 156, 188, 235,
        161, 156, 32, 235, 141, 176, 236, 157, 180, 237, 132, 176, 32, 236, 161, 176, 236, 158,
        145, 32, 40, 235, 159, 176, 237, 131, 128, 236, 158, 132, 32, 235, 179, 181, 236, 155,
        144, 41, 46],
    mi_severity = SevMEDIUM,
mi_related_dimensions = [ENCODING],
mi_detection_hints = [''chr(int^int)'', ''ord arithmetic'', ''string concat at runtime''],
    mi_mitre_ttps = [''T1027'']\<rparr>,
   \<lparr>mi_code = ''DEF-003'', mi_name = ''Encoding-Based Obfuscation'',
    mi_category = DEFENSE_EVASION,
mi_description = utf8 [66, 97, 115, 101, 54, 52, 32, 47, 32, 104, 101, 120, 32, 235, 147, 177, 32,
        236, 157, 184, 236, 189, 148, 235, 148, 169, 236, 156, 188, 235, 161, 156, 32, 237, 142,
        152, 236, 157, 180, 235, 161, 156, 235, 147, 156, 32, 235, 179, 128, 237, 153, 152, 46],
    mi_severity = SevHIGH,
mi_related_dimensions = [ENCODING],
mi_detection_hints = [''base64.b64decode'', ''bytes.fromhex'', ''atob''],
    mi_mitre_ttps = [''T1027.005'', ''T1140'']\<rparr>,
   \<lparr>mi_code = ''DEF-004'', mi_name = ''Encryption-Based Obfuscation'',
    mi_category = DEFENSE_EVASION,
mi_description = utf8 [236, 164, 145, 236, 154, 148, 32, 236, 189, 148, 235, 147, 156, 32, 235,
        182, 128, 235, 182, 132, 32, 236, 149, 148, 237, 152, 184, 237, 153, 148, 235, 161, 156,
        32, 236, 149, 133, 236, 132, 177, 32, 236, 157, 152, 235, 143, 132, 32, 236, 157, 128,
        235, 139, 137, 46],
    mi_severity = SevHIGH,
mi_related_dimensions = [ENCODING],
mi_detection_hints = [''AES.new'', ''Fernet('', ''RC4'', ''XOR with key''],
    mi_mitre_ttps = [''T1027'']\<rparr>,
   \<lparr>mi_code = ''DEF-005'', mi_name = ''Embedded String Payload'',
    mi_category = DEFENSE_EVASION,
mi_description = utf8 [235, 172, 184, 236, 158, 144, 236, 151, 180, 32, 236, 149, 136, 236, 151,
        144, 32, 236, 149, 133, 236, 132, 177, 32, 236, 189, 148, 235, 147, 156, 235, 165, 188,
        32, 236, 158, 132, 235, 178, 160, 235, 147, 156, 237, 149, 180, 32, 235, 159, 176, 237,
        131, 128, 236, 158, 132, 236, 151, 144, 32, 236, 139, 164, 237, 150, 137, 46],
    mi_severity = SevHIGH,
mi_related_dimensions = [ENCODING, PAYLOAD_EXECUTION],
mi_detection_hints = [''exec(string_var)'', ''Function(string)'', ''eval(longstring)''],
    mi_mitre_ttps = [''T1027'']\<rparr>,
   \<lparr>mi_code = ''DEF-006'', mi_name = ''Error Suppression'',
    mi_category = DEFENSE_EVASION,
mi_description = utf8 [236, 151, 144, 235, 159, 172, 32, 235, 169, 148, 236, 139, 156, 236, 167,
        128, 32, 236, 157, 152, 235, 143, 132, 236, 160, 129, 32, 236, 150, 181, 236, 160, 156,
        235, 161, 156, 32, 235, 185, 132, 236, 160, 149, 236, 131, 129, 32, 235, 143, 153, 236,
        158, 145, 32, 236, 157, 128, 235, 139, 137, 46],
    mi_severity = SevLOW,
mi_related_dimensions = [],
mi_detection_hints = [''try: ... except: pass'', ''2>/dev/null'', ''stderr=subprocess.DEVNULL''],
    mi_mitre_ttps = [''T1564'']\<rparr>]"

definition MET_INDICATORS :: "malicious_indicator list" where
  "MET_INDICATORS = [
   \<lparr>mi_code = ''MET-001'', mi_name = ''Suspicious Author Identity'',
    mi_category = METADATA,
mi_description = utf8 [112, 108, 97, 99, 101, 104, 111, 108, 100, 101, 114, 32, 236, 157, 180,
        235, 166, 132, 32, 235, 152, 144, 235, 138, 148, 32, 236, 157, 188, 237, 154, 140, 236,
        154, 169, 32, 236, 157, 180, 235, 169, 148, 236, 157, 188, 235, 161, 156, 32, 236, 160,
        128, 236, 158, 144, 32, 236, 160, 149, 235, 179, 180, 32, 236, 156, 132, 236, 161, 176,
        46],
    mi_severity = SevMEDIUM,
mi_related_dimensions = [],
mi_detection_hints = [utf8 [97, 117, 116, 104, 111, 114, 61, 39, 116, 101, 115, 116, 39],
        ''throwaway email'', ''10minutemail''],
    mi_mitre_ttps = [''T1195.001'']\<rparr>,
   \<lparr>mi_code = ''MET-002'', mi_name = ''Combosquatting'',
    mi_category = METADATA,
mi_description = utf8 [236, 156, 160, 235, 170, 133, 32, 235, 157, 188, 236, 157, 180, 235, 184,
        140, 235, 159, 172, 235, 166, 172, 32, 236, 157, 180, 235, 166, 132, 236, 151, 144, 32,
        235, 139, 168, 236, 150, 180, 47, 236, 160, 145, 235, 145, 144, 236, 130, 172, 235, 165,
        188, 32, 234, 178, 176, 237, 149, 169, 237, 149, 156, 32, 237, 140, 168, 237, 130, 164,
        236, 167, 128, 235, 170, 133, 46],
    mi_severity = SevMEDIUM,
mi_related_dimensions = [],
mi_detection_hints = [''popular_name + suffix/prefix''],
    mi_mitre_ttps = [''T1195.001'']\<rparr>,
   \<lparr>mi_code = ''MET-003'', mi_name = ''Suspicious Dependency'',
    mi_category = METADATA,
mi_description = utf8 [237, 140, 168, 237, 130, 164, 236, 167, 128, 32, 235, 170, 169, 236, 160,
        129, 234, 179, 188, 32, 236, 157, 188, 236, 185, 152, 237, 149, 152, 236, 167, 128, 32,
        236, 149, 138, 235, 138, 148, 32, 235, 185, 132, 236, 160, 149, 236, 131, 129, 236, 160,
        129, 32, 236, 157, 152, 236, 161, 180, 236, 132, 177, 32, 236, 132, 160, 236, 150, 184,
        46],
    mi_severity = SevMEDIUM,
mi_related_dimensions = [],
mi_detection_hints = [''json parser depends on subprocess libs'', ''inconsistent deps''],
    mi_mitre_ttps = [''T1195.001'']\<rparr>,
   \<lparr>mi_code = ''MET-004'', mi_name = ''Description Anomaly'',
    mi_category = METADATA,
mi_description = utf8 [235, 172, 180, 236, 157, 152, 235, 175, 184, 32, 237, 133, 141, 236, 138,
        164, 237, 138, 184, 44, 32, 237, 130, 164, 236, 155, 140, 235, 147, 156, 32, 236, 138,
        164, 237, 132, 176, 237, 149, 145, 44, 32, 235, 158, 156, 235, 141, 164, 32, 235, 172,
        184, 236, 158, 144, 234, 176, 128, 32, 237, 143, 172, 237, 149, 168, 235, 144, 156, 32,
        236, 132, 164, 235, 170, 133, 46],
    mi_severity = SevLOW,
mi_related_dimensions = [],
mi_detection_hints = [''random keyword stuffing'', ''lorem ipsum''],
    mi_mitre_ttps = [''T1195.001'']\<rparr>,
   \<lparr>mi_code = ''MET-005'', mi_name = ''Decoy Functionality'',
    mi_category = METADATA,
mi_description = utf8 [236, 150, 145, 236, 132, 177, 32, 235, 170, 169, 236, 160, 129, 236, 156,
        188, 235, 161, 156, 32, 236, 156, 132, 236, 158, 165, 235, 144, 156, 32, 234, 184, 176,
        235, 138, 165, 236, 156, 188, 235, 161, 156, 32, 236, 149, 133, 236, 132, 177, 32, 237,
        150, 137, 236, 156, 132, 32, 236, 157, 128, 237, 143, 144, 46],
    mi_severity = SevMEDIUM,
mi_related_dimensions = [],
mi_detection_hints = [''stated purpose vs actual code mismatch''],
    mi_mitre_ttps = [''T1195.001'']\<rparr>,
   \<lparr>mi_code = ''MET-006'', mi_name = ''Metadata Typosquatting'',
    mi_category = METADATA,
mi_description = utf8 [236, 156, 160, 235, 170, 133, 32, 235, 157, 188, 236, 157, 180, 235, 184,
        140, 235, 159, 172, 235, 166, 172, 236, 153, 128, 32, 235, 167, 164, 236, 154, 176, 32,
        236, 156, 160, 236, 130, 172, 237, 149, 156, 32, 236, 157, 180, 235, 166, 132, 32, 236,
        132, 160, 237, 131, 157, 32, 40, 237, 142, 184, 236, 167, 145, 234, 177, 176, 235, 166,
        172, 32, 49, 126, 50, 41, 46],
    mi_severity = SevHIGH,
mi_related_dimensions = [],
mi_detection_hints = [''edit_distance(name, popular) <= 2''],
    mi_mitre_ttps = [''T1195.001'']\<rparr>]"

definition DOW_INDICATORS :: "malicious_indicator list" where
  "DOW_INDICATORS = [
   \<lparr>mi_code = ''DOW-001'', mi_name = ''Single-file Downloader-Exec Pattern'',
    mi_category = EXECUTION_STAGE,
mi_description = utf8 [237, 149, 156, 32, 237, 140, 140, 236, 157, 188, 32, 235, 130, 180, 236,
        151, 144, 236, 132, 156, 32, 72, 84, 84, 80, 47, 102, 101, 116, 99, 104, 32, 237, 152,
        184, 236, 182, 156, 32, 234, 178, 176, 234, 179, 188, 235, 165, 188, 32, 234, 183, 184,
        235, 140, 128, 235, 161, 156, 32, 101, 120, 101, 99, 47, 101, 118, 97, 108, 47, 114, 117,
        110, 32, 236, 156, 188, 235, 161, 156, 32, 235, 132, 152, 234, 184, 176, 235, 138, 148,
        32, 235, 139, 164, 235, 139, 168, 234, 179, 132, 32, 100, 111, 119, 110, 108, 111, 97,
        100, 101, 114, 32, 237, 140, 168, 237, 132, 180, 46, 32, 83, 116, 97, 103, 101, 45, 50,
        32, 237, 142, 152, 236, 157, 180, 235, 161, 156, 235, 147, 156, 235, 165, 188, 32, 235,
        143, 153, 236, 160, 129, 236, 156, 188, 235, 161, 156, 32, 234, 176, 128, 236, 160, 184,
        236, 153, 128, 32, 236, 139, 164, 237, 150, 137, 32, 226, 128, 148, 32, 104, 101, 97, 118,
        121, 32, 111, 98, 102, 117, 115, 99, 97, 116, 105, 111, 110, 32, 236, 154, 176, 237, 154,
        140, 236, 157, 152, 32, 236, 160, 132, 237, 152, 149, 46],
    mi_severity = SevHIGH,
mi_related_dimensions = [DATA_TRANSMISSION, PAYLOAD_EXECUTION],
mi_detection_hints = [''requests.get + exec/eval/compile'', ''urllib.request.urlopen + exec'',
        ''fetch/axios + Function/eval'', ''child_process.exec on fetch response''],
    mi_mitre_ttps = [''T1059'', ''T1105'']\<rparr>,
   \<lparr>mi_code = ''DOW-002'', mi_name = ''Write-then-Exec Downloader'',
    mi_category = EXECUTION_STAGE,
mi_description = utf8 [102, 101, 116, 99, 104, 32, 226, 134, 146, 32, 102, 115, 46, 119, 114, 105,
        116, 101, 70, 105, 108, 101, 32, 47, 32, 111, 112, 101, 110, 40, 46, 46, 46, 41, 46, 119,
        114, 105, 116, 101, 32, 226, 134, 146, 32, 234, 183, 184, 32, 237, 140, 140, 236, 157,
        188, 236, 157, 132, 32, 236, 166, 137, 236, 139, 156, 32, 101, 120, 101, 99, 117, 116,
        101, 46, 32, 68, 79, 87, 45, 48, 48, 49, 32, 235, 179, 180, 235, 139, 164, 32, 49, 32,
        235, 139, 168, 234, 179, 132, 32, 235, 141, 148, 32, 226, 128, 148, 32, 237, 140, 140,
        236, 157, 188, 32, 236, 139, 156, 236, 138, 164, 237, 133, 156, 32, 236, 157, 184, 235,
        148, 148, 236, 188, 128, 236, 157, 180, 237, 132, 176, 32, 235, 130, 168, 234, 185, 128,
        46],
    mi_severity = SevHIGH,
mi_related_dimensions = [DATA_TRANSMISSION, PAYLOAD_EXECUTION],
mi_detection_hints = [''open(..., 'wb').write + subprocess.run / os.system'', ''fs.writeFileSync +
        child_process.exec''],
    mi_mitre_ttps = [''T1105'', ''T1059'']\<rparr>]"

definition INDICATORS :: "malicious_indicator list" where
  "INDICATORS = EXS_INDICATORS @ EXM_INDICATORS @ EXF_INDICATORS @ SYS_INDICATORS @ NET_INDICATORS @ DEF_INDICATORS @ MET_INDICATORS @ DOW_INDICATORS"

definition get_indicator :: "string \<Rightarrow> malicious_indicator option" where
  "get_indicator code = List.find (\<lambda>i. mi_code i = code) INDICATORS"

definition indicators_by_category :: "indicator_category \<Rightarrow> malicious_indicator list" where
  "indicators_by_category c = filter (\<lambda>i. mi_category i = c) INDICATORS"

definition indicators_by_dimension :: "attack_dimension \<Rightarrow> malicious_indicator list" where
  "indicators_by_dimension d = filter (\<lambda>i. d \<in> set (mi_related_dimensions i)) INDICATORS"

definition indicators_by_severity :: "severity \<Rightarrow> malicious_indicator list" where
  "indicators_by_severity s = filter (\<lambda>i. mi_severity i = s) INDICATORS"

subsection \<open>Hits\<close>

record indicator_hit =
  ih_indicator :: malicious_indicator
  ih_file_path :: string
  ih_line :: int
  ih_snippet :: string
  ih_confidence :: rat
  ih_reason :: string

definition hit_to_dict :: "indicator_hit \<Rightarrow> pyval" where
  "hit_to_dict h = PDict
     [(''indicator_code'', PStr (mi_code (ih_indicator h))), (''file_path'', PStr (ih_file_path h)),
      (''line'', PInt (ih_line h)), (''snippet'', PStr (ih_snippet h)),
      (''confidence'', PFloat (ih_confidence h)), (''reason'', PStr (ih_reason h))]"

text \<open>\<^verbatim>\<open>INDICATORS[code]\<close>.\<close>

definition indicator_item :: "string \<Rightarrow> pyexn + malicious_indicator" where
  "indicator_item code = (case get_indicator code of None \<Rightarrow> Inl (KeyError code) | Some i \<Rightarrow> Inr i)"

definition hit_from_dict :: "pyval \<Rightarrow> pyexn + indicator_hit" where
  "hit_from_dict v =
     bindE (as_dict v) (\<lambda>d.
     bindE (bindE (bindE (d_item d ''indicator_code'') as_str) indicator_item) (\<lambda>i.
     bindE (bindE (d_item d ''file_path'') as_str) (\<lambda>p.
     bindE (as_int (d_get d ''line'' (PInt 0))) (\<lambda>l.
     bindE (as_str (d_get d ''snippet'' (PStr []))) (\<lambda>s.
     bindE (as_float (d_get d ''confidence'' (PFloat 0))) (\<lambda>c.
     bindE (as_str (d_get d ''reason'' (PStr []))) (\<lambda>r.
     Inr \<lparr>ih_indicator = i, ih_file_path = p, ih_line = l, ih_snippet = s, ih_confidence = c,
          ih_reason = r\<rparr>)))))))"

record indicator_report =
  ir_hits :: "indicator_hit list"

definition indicators_to_dict :: "indicator_report \<Rightarrow> pyval" where
  "indicators_to_dict r = PDict [(''hits'', PList (map hit_to_dict (ir_hits r)))]"

definition indicators_from_dict :: "pyval \<Rightarrow> pyexn + indicator_report" where
  "indicators_from_dict v =
     bindE (as_dict v) (\<lambda>d.
     bindE (bindE (as_list (d_get d ''hits'' (PList []))) (mapE hit_from_dict)) (\<lambda>hs.
     Inr \<lparr>ir_hits = hs\<rparr>))"

definition categories_present :: "indicator_report \<Rightarrow> indicator_category list" where
  "categories_present r = dedup_first (map (\<lambda>h. mi_category (ih_indicator h)) (ir_hits r))"

definition hits_by_category :: "indicator_category \<Rightarrow> indicator_report \<Rightarrow> indicator_hit list" where
  "hits_by_category c r = filter (\<lambda>h. mi_category (ih_indicator h) = c) (ir_hits r)"

definition high_severity_count :: "indicator_report \<Rightarrow> nat" where
  "high_severity_count r = length (filter (\<lambda>h. mi_severity (ih_indicator h) = SevHIGH) (ir_hits r))"

text \<open>\<^verbatim>\<open>_hit\<close>: a code that is not in the catalogue raises \<^verbatim>\<open>KeyError\<close>.\<close>

definition make_hit ::
  "string \<Rightarrow> string \<Rightarrow> int \<Rightarrow> string \<Rightarrow> rat \<Rightarrow> string \<Rightarrow> pyexn + indicator_hit" where
  "make_hit code file_path line snippet confidence reason =
     bindE (indicator_item code) (\<lambda>i.
       Inr \<lparr>ih_indicator = i, ih_file_path = file_path, ih_line = line, ih_snippet = snippet,
            ih_confidence = confidence, ih_reason = reason\<rparr>)"

subsection \<open>From the call sequence\<close>

text \<open>A candidate hit: code, the call it points at, confidence, reason.\<close>

type_synonym candidate = "string \<times> api_call \<times> rat \<times> string"

definition first_call :: "(api_call \<Rightarrow> bool) \<Rightarrow> api_call list \<Rightarrow> api_call list" where
  "first_call P cs = (case List.find P cs of None \<Rightarrow> [] | Some c \<Rightarrow> [c])"

definition shell_call_names :: "string list" where
  "shell_call_names =
     [''os.system'', ''os.popen'', ''subprocess.run'', ''subprocess.Popen'', ''subprocess.call'']"

definition recon_apis :: "string list" where
  "recon_apis =
     [''platform.uname'', ''platform.system'', ''socket.gethostname'', ''getpass.getuser'',
      ''os.uname'']"

definition encoder_apis :: "string list" where
  "encoder_apis =
     [''base64.b64decode'', ''base64.urlsafe_b64decode'', ''codecs.decode'', ''bytes.fromhex'']"

definition sequence_candidates :: "file_sequence \<Rightarrow> candidate list" where
  "sequence_candidates f =
     (let cs = fq_calls f;
          dims = map ac_dimension cs;
          is_install_hook = list_ex (\<lambda>kw. contains kw (py_lower (fq_path f)))
                              [''setup.py'', ''postinstall'', ''preinstall''];
          is_init_py = endswith (fq_path f) ''__init__.py'';
          snip = (\<lambda>p c. contains p (ac_snippet c))
      in (if is_init_py then map (\<lambda>c. (''EXS-001'', c, 7/10,
                 ''module-level call detected in __init__.py'')) (take 1 cs) else [])
       @ (if is_install_hook then map (\<lambda>c. (''EXS-002'', c, 85/100,
                 ''top-level call in install hook file'')) (take 1 cs) else [])
       @ map (\<lambda>c. (''EXM-001'', c, 85/100, ac_name c @ ''() detected''))
           (first_call (\<lambda>c. ac_name c \<in> set [''exec'', ''eval'']) cs)
       @ map (\<lambda>c. (''EXM-005'', c, 7/10, ''dynamic module import''))
           (first_call (\<lambda>c. ac_name c \<in> set [''__import__'', ''importlib.import_module'']) cs)
       @ map (\<lambda>c. (''EXM-006'', c, 85/100, ''runtime pip install detected''))
           (first_call (\<lambda>c. snip ''pip'' c \<and> snip ''install'' c) cs)
       @ map (\<lambda>c. (''EXM-008'', c, 75/100, ''OS shell invocation''))
           (first_call (\<lambda>c. ac_name c \<in> set shell_call_names) cs)
       @ (if INFORMATION_READING \<in> set dims
          then map (\<lambda>c. (''EXF-001'', c, 85/100, ''information_reading + data_transmission chain''))
                 (first_call (\<lambda>c. ac_dimension c = DATA_TRANSMISSION) cs)
          else [])
       @ map (\<lambda>c. (''SYS-005'', c, 6/10, ''system metadata enumeration''))
           (first_call (\<lambda>c. ac_name c \<in> set recon_apis) cs)
       @ map (\<lambda>c. (''NET-009'', c, 8/10, ''SSL verification disabled''))
           (first_call (\<lambda>c. snip ''verify=False'' c \<or> snip ''_create_unverified_context'' c) cs)
       @ map (\<lambda>c. (''NET-010'', c, 6/10, ''unencrypted http:// URL''))
           (first_call (\<lambda>c. ac_dimension c = DATA_TRANSMISSION \<and> snip ''http://'' c) cs)
       @ map (\<lambda>c. (''DEF-003'', c, 7/10, ''encoding/decoding API used (base64/hex/codecs)''))
           (first_call (\<lambda>c. ac_name c \<in> set encoder_apis) cs))"

definition match_from_sequence :: "file_sequence \<Rightarrow> pyexn + indicator_hit list" where
  "match_from_sequence f =
     mapE (\<lambda>(code, c, conf, reason).
        make_hit code (fq_path f) (ac_line c) (ac_snippet c) conf reason) (sequence_candidates f)"

subsection \<open>From the source text\<close>

text \<open>
  A compiled pattern: the code it counts for, its search (\<open>re.search\<close>: the span of the first
  match), the confidence and the reason.
\<close>

record text_pattern =
  tp_code :: string
  tp_search :: "string \<Rightarrow> (nat \<times> nat) option"
  tp_confidence :: rat
  tp_reason :: string

record text_env =
  te_augment :: "string \<Rightarrow> string \<Rightarrow> pyexn + string"
  te_json :: "string \<Rightarrow> pyexn + pyval"
  te_text_patterns :: "text_pattern list"
  te_multiline_patterns :: "text_pattern list"
  te_npm_dangerous :: "string \<Rightarrow> string option"

definition NPM_SCRIPT_HOOKS :: "string list" where
  "NPM_SCRIPT_HOOKS =
     [''preinstall'', ''postinstall'', ''install'', ''preuninstall'', ''preprepare'', ''prepare'']"

definition type_name :: "pyval \<Rightarrow> string" where
  "type_name v = (case v of PNone \<Rightarrow> ''NoneType'' | PBool b \<Rightarrow> ''bool'' | PInt i \<Rightarrow> ''int''
     | PFloat x \<Rightarrow> ''float'' | PStr s \<Rightarrow> ''str'' | PList xs \<Rightarrow> ''list'' | PDict d \<Rightarrow> ''dict'')"

definition dquote :: string where
  "dquote = [CHR 0x22]"

definition npm_hook_hits ::
  "text_env \<Rightarrow> string \<Rightarrow> pydict \<Rightarrow> string \<Rightarrow> pyexn + indicator_hit list" where
  "npm_hook_hits env path scripts hook =
     (case d_get scripts hook PNone of
        PStr cmd \<Rightarrow>
          (if py_strip cmd = [] then Inr []
           else case te_npm_dangerous env cmd of
             None \<Rightarrow> Inr []
           | Some m \<Rightarrow>
               let snippet = dquote @ hook @ dquote @ '': '' @ dquote @ take 200 cmd @ dquote in
               bindE (make_hit ''EXS-002'' path 0 snippet (95/100)
                        (''npm '' @ hook @ '' script contains dangerous command: '' @ py_repr m))
                 (\<lambda>h1. bindE (make_hit ''EXM-008'' path 0 snippet (9/10)
                        (''shell command in npm '' @ hook)) (\<lambda>h2. Inr [h1, h2])))
      | _ \<Rightarrow> Inr [])"

text \<open>
  The parsed document is asked for its \<^verbatim>\<open>scripts\<close> before it is known to be an object, and
  outside the \<^verbatim>\<open>try\<close>.
\<close>

definition match_from_package_json :: "text_env \<Rightarrow> full_source_file \<Rightarrow> pyexn + indicator_hit list" where
  "match_from_package_json env sf =
     (if py_lower (fs_basename sf) \<noteq> ''package.json'' then Inr []
      else case te_json env (fs_content sf) of
        Inl _ \<Rightarrow> Inr []
      | Inr (PDict doc) \<Rightarrow>
          (case d_get doc ''scripts'' PNone of
             PDict scripts \<Rightarrow>
               bindE (mapE (npm_hook_hits env (fs_path sf) scripts) NPM_SCRIPT_HOOKS)
                 (\<lambda>hss. Inr (concat hss))
           | _ \<Rightarrow> Inr [])
      | Inr v \<Rightarrow> Inl (OtherError ''AttributeError''
            ([CHR 0x27] @ type_name v @ [CHR 0x27] @ '' object has no attribute ''
             @ [CHR 0x27] @ ''get'' @ [CHR 0x27])))"

definition line_hits ::
  "string \<Rightarrow> string list \<Rightarrow> text_pattern \<Rightarrow> pyexn + indicator_hit list" where
  "line_hits path lines p =
     (case List.find (\<lambda>(i, line). tp_search p line \<noteq> None) (numbered lines) of
        None \<Rightarrow> Inr []
      | Some (i, line) \<Rightarrow>
          bindE (make_hit (tp_code p) path (int i) (take 200 (py_strip line)) (tp_confidence p)
                   (tp_reason p)) (\<lambda>h. Inr [h]))"

definition multiline_hits :: "string \<Rightarrow> string \<Rightarrow> text_pattern \<Rightarrow> pyexn + indicator_hit list" where
  "multiline_hits path content p =
     (case tp_search p content of
        None \<Rightarrow> Inr []
      | Some (a, b) \<Rightarrow>
          bindE (make_hit (tp_code p) path
                   (int (length (filter (\<lambda>c. c = CHR 0x0A) (take a content)) + 1))
                   (map (\<lambda>c. if c = CHR 0x0A then CHR '' '' else c)
                      (take 200 (take (b - a) (drop a content))))
                   (tp_confidence p) (tp_reason p)) (\<lambda>h. Inr [h]))"

definition match_from_text :: "text_env \<Rightarrow> full_source_file \<Rightarrow> pyexn + indicator_hit list" where
  "match_from_text env sf =
     (if py_lower (fs_basename sf) = ''package.json'' then match_from_package_json env sf
      else if fs_language sf \<noteq> ''python'' \<and> fs_language sf \<noteq> ''javascript'' then Inr []
      else let content = try_else (te_augment env (fs_content sf) (fs_language sf)) (fs_content sf) in
        bindE (mapE (line_hits (fs_path sf) (py_splitlines content)) (te_text_patterns env)) (\<lambda>a.
        bindE (mapE (multiline_hits (fs_path sf) content) (te_multiline_patterns env)) (\<lambda>b.
        Inr (concat a @ concat b))))"

subsection \<open>From the metadata\<close>

definition py_words :: "string \<Rightarrow> string list" where
  "py_words s = filter (\<lambda>w. w \<noteq> [])
     (split_on (CHR '' '') (map (\<lambda>c. if is_space c then CHR '' '' else c) s))"

definition author_candidates :: "string \<Rightarrow> (string \<times> string \<times> rat \<times> string) list" where
  "author_candidates author =
     (let a = py_lower author in
      if author \<noteq> [] \<and> (a \<in> set [''test'', ''anon'', ''anonymous'', ''user'', ''admin'', []]
         \<or> contains ''10minutemail'' a \<or> contains ''throwaway'' a)
      then [(''MET-001'', ''author='' @ py_repr author, 6/10,
             ''placeholder/throwaway author identity'')]
      else [])"

definition description_candidates :: "string \<Rightarrow> (string \<times> string \<times> rat \<times> string) list" where
  "description_candidates description =
     (if description = [] then []
      else (if length description < 10
            then [(''MET-004'', ''description='' @ py_repr description, 4/10,
                   ''description suspiciously short'')] else [])
         @ (let words = py_words description;
                avg = of_nat (sum_list (map length words)) / of_nat (length words) :: rat
            in if length words > 5 \<and> (avg < 3 \<or> avg > 12)
               then [(''MET-004'', take 120 description, 3/10,
                      ''description has unusual word-length pattern'')] else []))"

definition deps_candidates :: "string \<Rightarrow> string list \<Rightarrow> (string \<times> string \<times> rat \<times> string) list" where
  "deps_candidates description deps =
     (if deps \<noteq> [] \<and> description \<noteq> []
         \<and> list_ex (\<lambda>kw. contains kw (py_lower description))
             [''parser'', ''json'', ''yaml'', ''csv'', ''format'', ''logger'', ''color'']
         \<and> list_ex (\<lambda>d. py_lower d \<in> set [''subprocess32'', ''psutil'', ''pyminizip'']) deps
      then [(''MET-003'', ''deps='' @ py_repr_list deps, 55/100,
             ''dependencies inconsistent with stated purpose'')]
      else [])"

definition match_from_metadata ::
  "string \<Rightarrow> string \<Rightarrow> string list \<Rightarrow> pyexn + indicator_hit list" where
  "match_from_metadata description author deps =
     mapE (\<lambda>(code, snippet, conf, reason). make_hit code ''<metadata>'' 0 snippet conf reason)
       (author_candidates author @ description_candidates description
        @ deps_candidates description deps)"

subsection \<open>Together\<close>

definition hit_key :: "indicator_hit \<Rightarrow> string \<times> string" where
  "hit_key h = (mi_code (ih_indicator h), ih_file_path h)"

definition keep_best ::
  "indicator_hit \<Rightarrow> ((string \<times> string) \<times> indicator_hit) list
    \<Rightarrow> ((string \<times> string) \<times> indicator_hit) list" where
  "keep_best h seen =
     (case map_of seen (hit_key h) of
        None \<Rightarrow> AList.update (hit_key h) h seen
      | Some old \<Rightarrow>
          if ih_confidence h > ih_confidence old then AList.update (hit_key h) h seen else seen)"

definition dedup_hits :: "indicator_hit list \<Rightarrow> indicator_hit list" where
  "dedup_hits hs = dict_values (fold keep_best hs [])"

definition match_all ::
  "text_env \<Rightarrow> file_sequence list \<Rightarrow> full_source_file list \<Rightarrow> string \<Rightarrow> string \<Rightarrow> string list
    \<Rightarrow> pyexn + indicator_report" where
  "match_all env behavior_files source_files description author declared_deps =
     bindE (mapE match_from_sequence behavior_files) (\<lambda>a.
     bindE (mapE (match_from_text env) source_files) (\<lambda>b.
     bindE (match_from_metadata description author declared_deps) (\<lambda>c.
     Inr \<lparr>ir_hits = dedup_hits (concat a @ concat b @ c)\<rparr>)))"

subsection \<open>Facts\<close>

lemma INDICATORS_code_list: "map mi_code INDICATORS =
     [''EXS-001'', ''EXS-002'', ''EXS-003'', ''EXM-001'', ''EXM-002'', ''EXM-003'',
      ''EXM-004'', ''EXM-005'', ''EXM-006'', ''EXM-007'', ''EXM-008'', ''EXF-001'',
      ''EXF-002'', ''EXF-003'', ''EXF-004'', ''EXF-005'', ''SYS-001'', ''SYS-002'',
      ''SYS-003'', ''SYS-004'', ''SYS-005'', ''SYS-006'', ''SYS-007'', ''SYS-008'',
      ''SYS-009'', ''NET-001'', ''NET-002'', ''NET-003'', ''NET-004'', ''NET-005'',
      ''NET-006'', ''NET-007'', ''NET-008'', ''NET-009'', ''NET-010'', ''DEF-001'',
      ''DEF-002'', ''DEF-003'', ''DEF-004'', ''DEF-005'', ''DEF-006'', ''MET-001'',
      ''MET-002'', ''MET-003'', ''MET-004'', ''MET-005'', ''MET-006'', ''DOW-001'', ''DOW-002'']"
  by (simp add: INDICATORS_def EXS_INDICATORS_def EXM_INDICATORS_def EXF_INDICATORS_def SYS_INDICATORS_def NET_INDICATORS_def DEF_INDICATORS_def MET_INDICATORS_def DOW_INDICATORS_def)

lemma INDICATORS_codes: "distinct (map mi_code INDICATORS)"
  unfolding INDICATORS_code_list by simp

lemma INDICATORS_count: "length INDICATORS = 49"
  using arg_cong [OF INDICATORS_code_list, of length] by simp

lemma indicator_item_code: "i \<in> set INDICATORS \<Longrightarrow> indicator_item (mi_code i) = Inr i"
  by (simp add: indicator_item_def get_indicator_def find_by_key [OF INDICATORS_codes])

lemma hit_roundtrip:
  "ih_indicator h \<in> set INDICATORS \<Longrightarrow> hit_from_dict (hit_to_dict h) = Inr h"
  by (simp add: hit_from_dict_def hit_to_dict_def indicator_item_code)

lemma indicators_roundtrip:
  assumes "\<forall>h\<in>set (ir_hits r). ih_indicator h \<in> set INDICATORS"
  shows "indicators_from_dict (indicators_to_dict r) = Inr r"
proof -
  have "mapE hit_from_dict (map hit_to_dict (ir_hits r)) = Inr (ir_hits r)"
    using assms by (intro mapE_map) (simp add: hit_roundtrip)
  then show ?thesis by (simp add: indicators_from_dict_def indicators_to_dict_def)
qed

lemma make_hit_in: "make_hit code p l s c r = Inr h \<Longrightarrow> ih_indicator h \<in> set INDICATORS"
  by (auto simp: make_hit_def indicator_item_def get_indicator_def find_Some_iff bindE_Inr_iff
      split: option.splits)

text \<open>The best hit of each key, one per key.\<close>

definition best_of :: "indicator_hit list \<Rightarrow> ((string \<times> string) \<times> indicator_hit) list \<Rightarrow> bool" where
  "best_of hs seen = (distinct (map fst seen)
     \<and> (\<forall>h\<in>set hs. map_of seen (hit_key h) \<noteq> None)
     \<and> (\<forall>k h. map_of seen k = Some h \<longrightarrow> h \<in> set hs \<and> hit_key h = k
          \<and> (\<forall>h'\<in>set hs. hit_key h' = k \<longrightarrow> ih_confidence h' \<le> ih_confidence h)))"

lemma best_ofD:
  assumes "best_of hs seen"
  shows "distinct (map fst seen)" and "h \<in> set hs \<Longrightarrow> \<exists>x. map_of seen (hit_key h) = Some x"
    and "map_of seen k = Some h \<Longrightarrow> h \<in> set hs \<and> hit_key h = k"
    and "map_of seen k = Some h \<Longrightarrow> h' \<in> set hs \<Longrightarrow> hit_key h' = k \<Longrightarrow>
      ih_confidence h' \<le> ih_confidence h"
  using assms unfolding best_of_def by (blast, blast, blast, blast)

lemma best_of_replace:
  assumes b: "best_of hs seen" and "\<And>h'. h' \<in> set hs \<Longrightarrow> hit_key h' = hit_key h \<Longrightarrow>
      ih_confidence h' \<le> ih_confidence h"
  shows "best_of (hs @ [h]) (AList.update (hit_key h) h seen)"
  unfolding best_of_def
proof (intro conjI allI impI ballI)
  show "distinct (map fst (AList.update (hit_key h) h seen))"
    using best_ofD(1) [OF b] by (rule distinct_update)
next
  fix g assume "g \<in> set (hs @ [h])"
  with best_ofD(2) [OF b] show "map_of (AList.update (hit_key h) h seen) (hit_key g) \<noteq> None"
    by (auto simp: update_conv')
next
  fix k g assume g: "map_of (AList.update (hit_key h) h seen) k = Some g"
  from g best_ofD(3) [OF b, of k g] show "g \<in> set (hs @ [h])" and "hit_key g = k"
    by (auto simp: update_conv' split: if_splits)
  fix h' assume "h' \<in> set (hs @ [h])" "hit_key h' = k"
  with g best_ofD(4) [OF b, of k g h'] assms(2) [of h'] show "ih_confidence h' \<le> ih_confidence g"
    by (auto simp: update_conv' split: if_splits)
qed

lemma keep_best_step:
  assumes b: "best_of hs seen"
  shows "best_of (hs @ [h]) (keep_best h seen)"
proof (cases "map_of seen (hit_key h)")
  case None
  then have "hit_key h' \<noteq> hit_key h" if "h' \<in> set hs" for h'
    using best_ofD(2) [OF b that] by auto
  with best_of_replace [OF b, of h] None show ?thesis by (auto simp: keep_best_def)
next
  case (Some old)
  show ?thesis
  proof (cases "ih_confidence h > ih_confidence old")
    case True
    with best_ofD(4) [OF b Some] have "ih_confidence h' \<le> ih_confidence h"
      if "h' \<in> set hs" "hit_key h' = hit_key h" for h'
      using that by fastforce
    with best_of_replace [OF b, of h] Some True show ?thesis by (simp add: keep_best_def)
  next
    case False
    have "best_of (hs @ [h]) seen"
      unfolding best_of_def
    proof (intro conjI allI impI ballI)
      show "distinct (map fst seen)" by (rule best_ofD(1) [OF b])
    next
      fix g assume "g \<in> set (hs @ [h])"
      with best_ofD(2) [OF b] Some show "map_of seen (hit_key g) \<noteq> None" by auto
    next
      fix k g assume g: "map_of seen k = Some g"
      from best_ofD(3) [OF b g] show "g \<in> set (hs @ [h])" and "hit_key g = k" by auto
      fix h' assume "h' \<in> set (hs @ [h])" "hit_key h' = k"
      with g best_ofD(4) [OF b g, of h'] Some False show "ih_confidence h' \<le> ih_confidence g" by auto
    qed
    with Some False show ?thesis by (simp add: keep_best_def)
  qed
qed

lemma fold_best: "best_of hs seen \<Longrightarrow> best_of (hs @ ys) (fold keep_best ys seen)"
proof (induction ys arbitrary: hs seen)
  case (Cons y ys)
  from Cons.IH [OF keep_best_step [OF Cons.prems, of y]] show ?case by simp
qed simp

lemma dedup_hits_best:
  obtains seen where "best_of hs seen" "dedup_hits hs = map snd seen"
proof -
  have "best_of [] []" by (simp add: best_of_def)
  from fold_best [OF this, of hs] that show thesis
    by (simp add: dedup_hits_def dict_values_def)
qed

lemma dedup_hits_spec:
  "distinct (map hit_key (dedup_hits hs))" "hit_key ` set (dedup_hits hs) = hit_key ` set hs"
  "h \<in> set (dedup_hits hs) \<Longrightarrow> h \<in> set hs"
  "h \<in> set (dedup_hits hs) \<Longrightarrow> h' \<in> set hs \<Longrightarrow> hit_key h' = hit_key h \<Longrightarrow>
     ih_confidence h' \<le> ih_confidence h"
proof -
  obtain seen where b: "best_of hs seen" and d: "dedup_hits hs = map snd seen"
    by (rule dedup_hits_best)
  have look: "map_of seen (hit_key g) = Some g \<and> g \<in> set hs" if "g \<in> set (dedup_hits hs)" for g
  proof -
    from that d obtain k where "(k, g) \<in> set seen" by auto
    then have "map_of seen k = Some g" using best_ofD(1) [OF b] by simp
    with best_ofD(3) [OF b this] show ?thesis by simp
  qed
  have k: "hit_key (snd p) = fst p" if "p \<in> set seen" for p
  proof -
    have "map_of seen (fst p) = Some (snd p)" using best_ofD(1) [OF b] that by simp
    from best_ofD(3) [OF b this] show ?thesis by simp
  qed
  then have m: "map hit_key (dedup_hits hs) = map fst seen" by (simp add: d)
  then show "distinct (map hit_key (dedup_hits hs))" using best_ofD(1) [OF b] by simp
  show "hit_key ` set (dedup_hits hs) = hit_key ` set hs"
  proof (intro equalityI subsetI)
    fix x assume "x \<in> hit_key ` set hs"
    then obtain g where g: "g \<in> set hs" "x = hit_key g" by blast
    then obtain y where y: "map_of seen x = Some y" using best_ofD(2) [OF b] by blast
    then have "(x, y) \<in> set seen" by (rule map_of_SomeD)
    then have "y \<in> set (dedup_hits hs)" by (force simp: d)
    with best_ofD(3) [OF b y] show "x \<in> hit_key ` set (dedup_hits hs)" by blast
  qed (use look in blast)
  show "h \<in> set (dedup_hits hs) \<Longrightarrow> h \<in> set hs" using look by blast
  show "h \<in> set (dedup_hits hs) \<Longrightarrow> h' \<in> set hs \<Longrightarrow> hit_key h' = hit_key h \<Longrightarrow>
     ih_confidence h' \<le> ih_confidence h"
    using look [of h] best_ofD(4) [OF b] by blast
qed

text \<open>One source file whose matcher raises makes the whole stage raise.\<close>

lemma mapE_Inl: "x \<in> set xs \<Longrightarrow> f x = Inl e \<Longrightarrow> \<exists>e'. mapE f xs = Inl e'"
proof (induction xs)
  case (Cons y ys)
  then show ?case by (cases "f y"; cases "mapE f ys") auto
qed simp

lemma package_json_not_object:
  assumes "py_lower (fs_basename sf) = ''package.json''" and "te_json env (fs_content sf) = Inr v"
    and "\<And>d. v \<noteq> PDict d"
  shows "\<exists>e. match_from_text env sf = Inl e"
  using assms(1,2) assms(3)
  by (cases v) (auto simp: match_from_text_def match_from_package_json_def)

subsection \<open>Properties\<close>

text \<open>The merged report keeps, for every indicator and file that was hit at all, exactly one
  hit, and it is one of the hits with the highest confidence.\<close>
theorem match_all_keeps_best:
  assumes "mapE match_from_sequence fss = Inr a" and "mapE (match_from_text env) sfs = Inr b"
    and "match_from_metadata d au deps = Inr c" and "hits = concat a @ concat b @ c"
  shows "\<exists>r. match_all env fss sfs d au deps = Inr r \<and> distinct (map hit_key (ir_hits r))
    \<and> hit_key ` set (ir_hits r) = hit_key ` set hits \<and> set (ir_hits r) \<subseteq> set hits
    \<and> (\<forall>h\<in>set (ir_hits r). \<forall>h'\<in>set hits. hit_key h' = hit_key h \<longrightarrow>
          ih_confidence h' \<le> ih_confidence h)"
proof -
  have "match_all env fss sfs d au deps = Inr \<lparr>ir_hits = dedup_hits hits\<rparr>"
    using assms by (simp add: match_all_def)
  moreover note dedup_hits_spec(1,2) [of hits]
  moreover have "set (dedup_hits hits) \<subseteq> set hits" using dedup_hits_spec(3) by blast
  moreover have "\<forall>h\<in>set (dedup_hits hits). \<forall>h'\<in>set hits. hit_key h' = hit_key h \<longrightarrow>
      ih_confidence h' \<le> ih_confidence h"
    using dedup_hits_spec(4) by blast
  ultimately show ?thesis by (simp del: split_paired_All)
qed

definition no_patterns :: text_env where
  "no_patterns = \<lparr>te_augment = (\<lambda>s l. Inr s), te_json = (\<lambda>s. Inr (PList [])), te_text_patterns = [],
     te_multiline_patterns = [], te_npm_dangerous = (\<lambda>s. None)\<rparr>"

lemma make_hit_known:
  assumes "code \<in> set (map mi_code INDICATORS)"
  shows "\<exists>h. make_hit code p l snip c r = Inr h"
proof -
  from assms obtain i where "i \<in> set INDICATORS" "code = mi_code i" by auto
  with indicator_item_code [of i] show ?thesis by (simp add: make_hit_def bindE_def)
qed

lemma mapE_total: "\<forall>x\<in>set xs. \<exists>y. f x = Inr y \<Longrightarrow> \<exists>ys. mapE f xs = Inr ys"
  by (induction xs) (auto simp: bindE_def)

text \<open>The metadata matcher only uses codes of the catalogue, so it never raises.\<close>

lemma metadata_codes:
  "fst ` set (author_candidates a @ description_candidates d @ deps_candidates d ds)
     \<subseteq> set (map mi_code INDICATORS)"
  unfolding INDICATORS_code_list
  by (auto simp: author_candidates_def description_candidates_def deps_candidates_def Let_def
      split: if_splits)

lemma match_from_metadata_total: "\<exists>c. match_from_metadata d a ds = Inr c"
  unfolding match_from_metadata_def
proof (rule mapE_total, intro ballI)
  fix x assume "x \<in> set (author_candidates a @ description_candidates d @ deps_candidates d ds)"
  with metadata_codes [of a d ds] have "fst x \<in> set (map mi_code INDICATORS)" by blast
  then show "\<exists>y. (case x of (code, snip, conf, reason) \<Rightarrow>
      make_hit code ''<metadata>'' 0 snip conf reason) = Inr y"
    by (cases x) (simp add: make_hit_known del: set_map)
qed

theorem match_all_keeps_best_witness:
  "\<exists>r. match_all no_patterns [] [] ''json'' ''test'' [''PSUtil''] = Inr r
    \<and> distinct (map hit_key (ir_hits r))"
proof -
  obtain c where c: "match_from_metadata ''json'' ''test'' [''PSUtil''] = Inr c"
    using match_from_metadata_total by blast
  have "mapE match_from_sequence [] = Inr []" "mapE (match_from_text no_patterns) [] = Inr []" by simp_all
  from match_all_keeps_best [OF this c refl] show ?thesis by blast
qed

text \<open>One package file stops the whole matching: when a \<^verbatim>\<open>package.json\<close> parses to something
  that is not an object, \<^verbatim>\<open>match_all\<close> raises, whatever the other files are.\<close>
theorem package_json_aborts_matching:
  assumes "sf \<in> set sfs" and "py_lower (fs_basename sf) = ''package.json''"
    and "te_json env (fs_content sf) = Inr v" and "\<And>d. v \<noteq> PDict d"
  shows "\<exists>e. match_all env fss sfs d au deps = Inl e"
proof -
  from package_json_not_object [OF assms(2-4)] obtain e where "match_from_text env sf = Inl e" ..
  from mapE_Inl [where f = "match_from_text env", OF assms(1) this] obtain e' where "mapE (match_from_text env) sfs = Inl e'" ..
  then show ?thesis
    unfolding match_all_def by (cases "mapE match_from_sequence fss") (simp_all add: bindE_def)
qed

definition list_package_json :: full_source_file where
  "list_package_json = \<lparr>fs_path = ''p/package.json'', fs_basename = ''package.json'',
      fs_content = ''[]'', fs_size = 2, fs_language = ''json'', fs_tier = 3\<rparr>"

theorem package_json_aborts_matching_witness:
  "\<exists>e. match_all no_patterns [] [list_package_json] [] [] [] = Inl e"
proof (rule package_json_aborts_matching [where sf = list_package_json and v = "PList []"])
  show "py_lower (fs_basename list_package_json) = ''package.json''"
    unfolding list_package_json_def full_source_file.select_convs py_lower_def
    by (simp add: lower_char_def)
qed (simp_all add: no_patterns_def)

end
