(* ===== verification/TaintPython.thy ===== *)
theory TaintPython
  imports EntryPoint PyAst
begin

text \<open>
  \<^verbatim>\<open>stages/taint_slicer.py\<close>, the shared data and the Python half: which values flow from a
  source call (environment, files, host information) into a sink call (network, execution), within
  one file and across \<^verbatim>\<open>from ... import\<close>, and the code excerpt for the reviewer.
\<close>

subsection \<open>Sources, sinks, transforms\<close>

definition TAINT_SOURCES :: "string list" where
  "TAINT_SOURCES =
     [''os.environ.get'', ''os.environ.__getitem__'', ''os.getenv'',
      ''getpass.getuser'', ''getpass.getpass'',
      ''open'', ''io.open'', ''Path.read_text'', ''Path.read_bytes'',
      ''fs.readFileSync'', ''fs.readFile'',
      ''platform.uname'', ''socket.gethostname'', ''os.uname'',
      ''subprocess.check_output'', ''subprocess.getoutput'',
      ''process.env'']"

definition TAINT_SINKS :: "string list" where
  "TAINT_SINKS =
     [''requests.post'', ''requests.put'', ''requests.patch'',
      ''urllib.request.urlopen'', ''urllib.request.Request'',
      ''http.client.HTTPSConnection'',
      ''httpx.post'', ''httpx.put'',
      ''socket.send'', ''socket.sendto'',
      ''exec'', ''eval'', ''compile'',
      ''subprocess.run'', ''subprocess.Popen'', ''subprocess.call'',
      ''os.system'', ''os.popen'',
      ''pickle.loads'', ''marshal.loads'',
      ''yaml.load'',
      ''socket.gethostbyname'', ''socket.gethostbyname_ex'',
      ''fetch'', ''axios.post'', ''http.request'', ''https.request'',
      ''child_process.exec'', ''child_process.spawn'']"

definition TAINT_TRANSFORMS :: "string list" where
  "TAINT_TRANSFORMS =
     [''base64.b64encode'', ''base64.b64decode'',
      ''json.dumps'', ''json.loads'',
      ''str'', ''bytes'', ''encode'', ''decode'',
      ''Buffer.from'', ''atob'', ''btoa'']"

subsection \<open>Flows\<close>

record taint_flow =
  tf_source_call :: string
  tf_source_line :: int
  tf_sink_call :: string
  tf_sink_line :: int
  tf_tainted_var :: string
  tf_transforms :: "string list"
  tf_file_path :: string

definition flow_summary :: "taint_flow \<Rightarrow> string" where
  "flow_summary f = py_join '' -> '' ([tf_source_call f] @ tf_transforms f @ [tf_sink_call f])"

definition flow_to_dict :: "taint_flow \<Rightarrow> pyval" where
  "flow_to_dict f = PDict
     [(''source_call'', PStr (tf_source_call f)), (''source_line'', PInt (tf_source_line f)),
      (''sink_call'', PStr (tf_sink_call f)), (''sink_line'', PInt (tf_sink_line f)),
      (''tainted_var'', PStr (tf_tainted_var f)), (''transforms'', pstrs (tf_transforms f)),
      (''file_path'', PStr (tf_file_path f))]"

definition flow_from_dict :: "pyval \<Rightarrow> pyexn + taint_flow" where
  "flow_from_dict v =
     bindE (as_dict v) (\<lambda>d.
     bindE (bindE (d_item d ''source_call'') as_str) (\<lambda>sc.
     bindE (as_int (d_get d ''source_line'' (PInt 0))) (\<lambda>sl.
     bindE (bindE (d_item d ''sink_call'') as_str) (\<lambda>kc.
     bindE (as_int (d_get d ''sink_line'' (PInt 0))) (\<lambda>kl.
     bindE (as_str (d_get d ''tainted_var'' (PStr []))) (\<lambda>tv.
     bindE (as_strs (d_get d ''transforms'' (PList []))) (\<lambda>ts.
     bindE (as_str (d_get d ''file_path'' (PStr []))) (\<lambda>p.
     Inr \<lparr>tf_source_call = sc, tf_source_line = sl, tf_sink_call = kc, tf_sink_line = kl,
          tf_tainted_var = tv, tf_transforms = ts, tf_file_path = p\<rparr>))))))))"

record taint_report =
  tr_flows :: "taint_flow list"
  tr_error :: "string option"

definition taint_to_dict :: "taint_report \<Rightarrow> pyval" where
  "taint_to_dict r = PDict
     [(''flows'', PList (map flow_to_dict (tr_flows r))), (''error'', popt PStr (tr_error r))]"

definition taint_from_dict :: "pyval \<Rightarrow> pyexn + taint_report" where
  "taint_from_dict v =
     bindE (as_dict v) (\<lambda>d.
     bindE (bindE (as_list (d_get d ''flows'' (PList []))) (mapE flow_from_dict)) (\<lambda>fs.
     bindE (as_opt as_str (d_get d ''error'' PNone)) (\<lambda>e.
     Inr \<lparr>tr_flows = fs, tr_error = e\<rparr>)))"

lemma flow_roundtrip [simp, roundtrip_simps]: "flow_from_dict (flow_to_dict f) = Inr f"
  by (simp add: flow_from_dict_def flow_to_dict_def)

lemma taint_roundtrip [simp, roundtrip_simps]: "taint_from_dict (taint_to_dict r) = Inr r"
  by (simp add: taint_from_dict_def taint_to_dict_def)

definition no_flows :: taint_report where
  "no_flows = \<lparr>tr_flows = [], tr_error = None\<rparr>"

definition taint_error :: "string \<Rightarrow> taint_report" where
  "taint_error e = \<lparr>tr_flows = [], tr_error = Some e\<rparr>"

subsection \<open>The analyser\<close>

record taint_info =
  ti_source :: string
  ti_line :: int
  ti_transforms :: "string list"

record taint_state =
  ts_tainted :: "(string \<times> taint_info) list"
  ts_flows :: "taint_flow list"
  ts_aliases :: "(string \<times> string) list"

definition taint_start :: taint_state where
  "taint_start = \<lparr>ts_tainted = [], ts_flows = [], ts_aliases = []\<rparr>"

text \<open>The module named by \<^verbatim>\<open>__import__("m")\<close> or \<^verbatim>\<open>x.import_module("m")\<close>.\<close>

fun imported_module :: "pynode \<Rightarrow> pynode list \<Rightarrow> string option" where
  "imported_module (Name f) args = (if f = ''__import__'' then first_str_arg args else None)"
| "imported_module (Attribute v a) args = (if a = ''import_module'' then first_str_arg args else None)"
| "imported_module _ args = None"

fun taint_call_name :: "(string \<times> string) list \<Rightarrow> pynode \<Rightarrow> string option" where
  "taint_call_name al (Name i) = Some i"
| "taint_call_name al (Attribute v a) =
     (case taint_call_name al v of
        None \<Rightarrow> Some a
      | Some b \<Rightarrow> if b = [] then Some a
          else Some ((case map_of al b of None \<Rightarrow> b | Some m \<Rightarrow> m) @ ''.'' @ a))"
| "taint_call_name al (Call f args kws line) = imported_module f args"
| "taint_call_name al _ = None"

fun names_in_expr :: "(string \<times> string) list \<Rightarrow> pynode \<Rightarrow> string list"
  and names_in_formatted :: "(string \<times> string) list \<Rightarrow> pynode \<Rightarrow> string list" where
  "names_in_expr al (Name i) = [i]"
| "names_in_expr al (Attribute v a) =
     (case taint_call_name al (Attribute v a) of
        None \<Rightarrow> [] | Some b \<Rightarrow> if b = [] then [] else [hd (split_on (CHR ''.'') b)])"
| "names_in_expr al (Call f args kws line) =
     concat (map (names_in_expr al) args)
     @ (case f of Attribute v a \<Rightarrow> names_in_expr al v | _ \<Rightarrow> [])"
| "names_in_expr al (BinOp oper l r) = names_in_expr al l @ names_in_expr al r"
| "names_in_expr al (Starred v) = names_in_expr al v"
| "names_in_expr al (JoinedStr vs) = concat (map (names_in_formatted al) vs)"
| "names_in_expr al (Subscript v s) = names_in_expr al v"
| "names_in_expr al (Sequence k es) = concat (map (names_in_expr al) es)"
| "names_in_expr al (IfExp t b e) = names_in_expr al b @ names_in_expr al e"
| "names_in_expr al _ = []"
| "names_in_formatted al (FormattedValue v spec) = names_in_expr al v"
| "names_in_formatted al _ = []"

definition names_in_args :: "(string \<times> string) list \<Rightarrow> pynode list \<Rightarrow> string list" where
  "names_in_args al args = concat (map (names_in_expr al) args)"

text \<open>
  \<^verbatim>\<open>for name in names: if name in self.tainted: ...; break\<close>: the first tainted name.
\<close>

definition first_tainted :: "taint_state \<Rightarrow> string list \<Rightarrow> (string \<times> taint_info) option" where
  "first_tainted st names =
     (case List.find (\<lambda>n. map_of (ts_tainted st) n \<noteq> None) names of
        None \<Rightarrow> None | Some n \<Rightarrow> map_option (Pair n) (map_of (ts_tainted st) n))"

definition set_taint :: "string \<Rightarrow> taint_info \<Rightarrow> taint_state \<Rightarrow> taint_state" where
  "set_taint x info st = st\<lparr>ts_tainted := AList.update x info (ts_tainted st)\<rparr>"

definition add_transform :: "string \<Rightarrow> taint_info \<Rightarrow> taint_info" where
  "add_transform t info = info\<lparr>ti_transforms := ti_transforms info @ [t]\<rparr>"

definition is_transform :: "string option \<Rightarrow> bool" where
  "is_transform callee = (case callee of None \<Rightarrow> False | Some c \<Rightarrow>
     c \<in> set TAINT_TRANSFORMS \<or> endswith c ''.encode'' \<or> endswith c ''.decode'')"

text \<open>\<^verbatim>\<open>target = func(args)\<close>.\<close>

definition assign_call ::
  "string \<Rightarrow> pynode \<Rightarrow> pynode list \<Rightarrow> nat \<Rightarrow> taint_state \<Rightarrow> taint_state" where
  "assign_call target func args line st0 =
     (let st = (case imported_module func args of
                  None \<Rightarrow> st0
                | Some m \<Rightarrow> st0\<lparr>ts_aliases := AList.update target m (ts_aliases st0)\<rparr>);
          callee = taint_call_name (ts_aliases st) func
      in case callee of
           Some c \<Rightarrow>
             if c \<in> set TAINT_SOURCES
             then set_taint target \<lparr>ti_source = c, ti_line = int line, ti_transforms = []\<rparr> st
             else if is_transform callee
             then (case first_tainted st (names_in_args (ts_aliases st) args) of
                     None \<Rightarrow> st
                   | Some (n, info) \<Rightarrow> set_taint target (add_transform c info) st)
             else (case func of
                     Attribute (Name r) a \<Rightarrow>
                       (case map_of (ts_tainted st) r of
                          None \<Rightarrow> st
                        | Some info \<Rightarrow> set_taint target (add_transform (CHR ''.'' # a) info) st)
                   | _ \<Rightarrow> st)
         | None \<Rightarrow> st)"

definition taint_assign :: "pynode list \<Rightarrow> pynode \<Rightarrow> nat \<Rightarrow> taint_state \<Rightarrow> taint_state" where
  "taint_assign targets val line st =
     (case targets of
        [Name target] \<Rightarrow>
          (case val of
             Call func args kws l \<Rightarrow> assign_call target func args line st
           | Name y \<Rightarrow>
               (case map_of (ts_tainted st) y of
                  None \<Rightarrow> st | Some info \<Rightarrow> set_taint target info st)
           | _ \<Rightarrow> st)
      | _ \<Rightarrow> st)"

fun taint_item :: "nat \<Rightarrow> pynode \<Rightarrow> taint_state \<Rightarrow> taint_state" where
  "taint_item line (WithItem (Call func args kws l) (Some (Name x))) st =
     (case taint_call_name (ts_aliases st) func of
        None \<Rightarrow> st
      | Some c \<Rightarrow>
          if c \<in> set TAINT_SOURCES
          then set_taint x \<lparr>ti_source = c, ti_line = int line, ti_transforms = []\<rparr> st
          else st)"
| "taint_item line _ st = st"

fun keyword_names :: "pynode \<Rightarrow> string list" where
  "keyword_names (Keyword k (Name x)) = [x]"
| "keyword_names (Keyword k (DictDisplay ks vs)) =
     concat (map (\<lambda>v. case v of Name x \<Rightarrow> [x] | _ \<Rightarrow> []) vs)"
| "keyword_names _ = []"

definition taint_call ::
  "pynode \<Rightarrow> pynode list \<Rightarrow> pynode list \<Rightarrow> nat \<Rightarrow> taint_state \<Rightarrow> taint_state" where
  "taint_call func args kws line st =
     (case taint_call_name (ts_aliases st) func of
        None \<Rightarrow> st
      | Some c \<Rightarrow>
          if c \<notin> set TAINT_SINKS then st
          else case first_tainted st
                  (names_in_args (ts_aliases st) args @ concat (map keyword_names kws)) of
            None \<Rightarrow> st
          | Some (n, info) \<Rightarrow>
              st\<lparr>ts_flows := ts_flows st @
                   [\<lparr>tf_source_call = ti_source info, tf_source_line = ti_line info,
                     tf_sink_call = c, tf_sink_line = int line, tf_tainted_var = n,
                     tf_transforms = ti_transforms info, tf_file_path = []\<rparr>]\<rparr>)"

fun taint_node :: "pynode \<Rightarrow> taint_state \<Rightarrow> taint_state" where
  "taint_node (Assign targets val line) st = taint_assign targets val line st"
| "taint_node (With items body line) st = fold (taint_item line) items st"
| "taint_node (Call func args kws line) st = taint_call func args kws line st"
| "taint_node _ st = st"

definition taint_visit :: "pynode \<Rightarrow> taint_state \<Rightarrow> taint_state" where
  "taint_visit tree st = fold taint_node (preorder tree) st"

definition with_path :: "string \<Rightarrow> taint_flow list \<Rightarrow> taint_flow list" where
  "with_path p fs = map (\<lambda>f. f\<lparr>tf_file_path := p\<rparr>) fs"

text \<open>\<^verbatim>\<open>SyntaxError\<close> is reported; any other exception of the parser goes on.\<close>

definition on_syntax_error :: "pyexn + 'a \<Rightarrow> (string \<Rightarrow> 'b) \<Rightarrow> ('a \<Rightarrow> 'b) \<Rightarrow> pyexn + 'b" where
  "on_syntax_error r bad good = (case r of
     Inr x \<Rightarrow> Inr (good x)
   | Inl e \<Rightarrow> if exn_name e = ''SyntaxError'' then Inr (bad (exn_str e)) else Inl e)"

definition taint_python :: "(string \<Rightarrow> pyexn + pynode) \<Rightarrow> string \<Rightarrow> pyexn + taint_report" where
  "taint_python parse src = on_syntax_error (parse src)
     (\<lambda>e. taint_error (''SyntaxError: '' @ e))
     (\<lambda>tree. no_flows\<lparr>tr_flows := ts_flows (taint_visit tree taint_start)\<rparr>)"

subsection \<open>Across modules\<close>

definition path_to_module :: "string \<Rightarrow> string option" where
  "path_to_module path =
     (let p = map (\<lambda>c. if c = CHR 0x5C then CHR ''/'' else c) path in
      if \<not> endswith p ''.py'' then None
      else
        let p = take (length p - 3) p;
            parts = filter (\<lambda>s. s \<noteq> [] \<and> s \<noteq> ''src'') (split_on (CHR ''/'') p);
            parts = (if parts \<noteq> [] \<and> (contains ''-'' (hd parts) \<or> hd parts = ''package'')
                     then tl parts else parts)
        in if parts = [] then None
           else let parts = (if last parts = ''__init__'' then butlast parts else parts) in
             if parts = [] then None else Some (py_join ''.'' parts))"

text \<open>Every statement of the module is visited, with whatever it contains.\<close>

definition module_level_taints ::
  "(string \<Rightarrow> pyexn + pynode) \<Rightarrow> string \<Rightarrow> pyexn + (string \<times> taint_info) list" where
  "module_level_taints parse src = on_syntax_error (parse src) (\<lambda>e. [])
     (\<lambda>tree. ts_tainted (fold taint_visit (children tree) taint_start))"

record module_table =
  mt_file_module :: "(string \<times> string) list"
  mt_exports :: "(string \<times> (string \<times> taint_info) list) list"
  mt_module_file :: "(string \<times> string) list"

fun collect_modules ::
  "(string \<Rightarrow> pyexn + pynode) \<Rightarrow> (string \<times> string) list \<Rightarrow> module_table \<Rightarrow> pyexn + module_table" where
  "collect_modules parse [] t = Inr t"
| "collect_modules parse ((path, src) # rest) t =
     (case path_to_module path of
        None \<Rightarrow> collect_modules parse rest t
      | Some m \<Rightarrow>
          bindE (module_level_taints parse src) (\<lambda>exports.
            let t = t\<lparr>mt_file_module := AList.update path m (mt_file_module t)\<rparr>;
                t = (if exports = [] then t
                     else t\<lparr>mt_exports := AList.update m exports (mt_exports t),
                            mt_module_file := AList.update m path (mt_module_file t)\<rparr>)
            in collect_modules parse rest t))"

text \<open>The exports of the imported module: an exact match, or the first whose name ends with it.\<close>

definition imported_exports ::
  "module_table \<Rightarrow> string \<Rightarrow> string \<Rightarrow> (string \<times> taint_info) list option" where
  "imported_exports t path target =
     (case map_of (mt_exports t) target of
        Some e \<Rightarrow> Some e
      | None \<Rightarrow>
          if map_of (mt_file_module t) path = None then None
          else map_option snd (List.find
            (\<lambda>(m, e). endswith m (CHR ''.'' # target) \<or> m = target) (mt_exports t)))"

definition import_taint ::
  "module_table \<Rightarrow> string \<Rightarrow> string \<Rightarrow> (string \<times> taint_info) list \<Rightarrow> string \<times> string option
    \<Rightarrow> taint_state \<Rightarrow> taint_state" where
  "import_taint t path target exports imp st =
     (case imp of (origin, asname) \<Rightarrow>
      case map_of exports origin of
        None \<Rightarrow> st
      | Some info \<Rightarrow>
          let src_file = (case map_of (mt_module_file t) target of None \<Rightarrow> [] | Some f \<Rightarrow> f);
              marked = (if src_file \<noteq> [] \<and> src_file \<noteq> path
                        then (''<cross-file from '' @ src_file @ ''>'') # ti_transforms info
                        else ti_transforms info)
          in set_taint (or_else asname origin) (info\<lparr>ti_transforms := marked\<rparr>) st)"

fun import_node :: "module_table \<Rightarrow> string \<Rightarrow> pynode \<Rightarrow> taint_state \<Rightarrow> taint_state" where
  "import_node t path (ImportFrom (Some target) names) st =
     (if target = [] then st
      else case imported_exports t path target of
        None \<Rightarrow> st
      | Some exports \<Rightarrow> fold (import_taint t path target exports) names st)"
| "import_node t path _ st = st"

definition taint_module :: "module_table \<Rightarrow> string \<Rightarrow> pynode \<Rightarrow> taint_report" where
  "taint_module t path tree =
     (let st = fold (import_node t path) (walk tree) taint_start in
      no_flows\<lparr>tr_flows := with_path path (ts_flows (taint_visit tree st))\<rparr>)"

definition analyze_python_cross_file ::
  "(string \<Rightarrow> pyexn + pynode) \<Rightarrow> (string \<times> string) list \<Rightarrow> pyexn + (string \<times> taint_report) list" where
  "analyze_python_cross_file parse sources =
     bindE (collect_modules parse sources \<lparr>mt_file_module = [], mt_exports = [], mt_module_file = []\<rparr>)
       (\<lambda>t. mapE (\<lambda>(path, src). bindE (on_syntax_error (parse src)
                (\<lambda>e. taint_error (''SyntaxError: '' @ e)) (taint_module t path))
              (\<lambda>r. Inr (path, r))) sources)"

subsection \<open>The excerpt\<close>

definition pad3 :: "nat \<Rightarrow> string" where
  "pad3 n = (let s = show_nat n in replicate (3 - length s) (CHR '' '') @ s)"

definition slice_range :: "nat \<Rightarrow> taint_flow \<Rightarrow> int \<times> int" where
  "slice_range n f =
     (max 1 (min (tf_source_line f) (tf_sink_line f) - 2),
      min (int n) (max (tf_source_line f) (tf_sink_line f) + 2))"

definition slice_flow :: "string list \<Rightarrow> nat \<times> taint_flow \<Rightarrow> string list" where
  "slice_flow lines nf = (case nf of (i, f) \<Rightarrow>
     (newline @ ''--- Flow #'' @ show_nat i @ '': '' @ flow_summary f @ '' ---'')
     # (case slice_range (length lines) f of (a, b) \<Rightarrow>
          map (\<lambda>j. ''  L'' @ pad3 (nat j) @ ''  '' @ lines ! nat (j - 1)) [a..b]))"

definition slice_for_llm :: "string \<Rightarrow> taint_flow list \<Rightarrow> string" where
  "slice_for_llm src flows =
     (if flows = [] then []
      else let lines = py_splitlines src in
        py_join newline (concat (map (slice_flow lines)
          (zip [1..<Suc (length flows)] flows))))"

subsection \<open>Soundness of a flow\<close>

text \<open>
  A node that taints a name with a source: an assignment from a source call, or a \<^verbatim>\<open>with\<close> item
  that binds one.
\<close>

definition source_call :: "string \<Rightarrow> pynode \<Rightarrow> bool" where
  "source_call c n = (c \<in> set TAINT_SOURCES
     \<and> (\<exists>al func args kws l. n = Call func args kws l \<and> taint_call_name al func = Some c))"

lemma source_callI:
  "taint_call_name al func = Some c \<Longrightarrow> c \<in> set TAINT_SOURCES \<Longrightarrow> source_call c (Call func args kws l)"
  by (auto simp: source_call_def)

fun source_node :: "string \<Rightarrow> int \<Rightarrow> pynode \<Rightarrow> bool" where
  "source_node c l (Assign targets val line) = (l = int line \<and> source_call c val)"
| "source_node c l (With items body line) =
     (l = int line \<and> (\<exists>ctx v. WithItem ctx v \<in> set items \<and> source_call c ctx))"
| "source_node c l _ = False"

definition originates :: "pynode list \<Rightarrow> taint_info \<Rightarrow> bool" where
  "originates ns info = (\<exists>n\<in>set ns. source_node (ti_source info) (ti_line info) n)"

definition taint_ok :: "pynode list \<Rightarrow> taint_state \<Rightarrow> bool" where
  "taint_ok ns st = (\<forall>(x, info)\<in>set (ts_tainted st). originates ns info)"

lemma originates_mono: "originates ns info \<Longrightarrow> set ns \<subseteq> set ms \<Longrightarrow> originates ms info"
  by (auto simp: originates_def)

lemma originates_add [simp]: "originates ns (add_transform t info) = originates ns info"
  by (simp add: originates_def add_transform_def)

lemma taint_ok_lookup: "taint_ok ns st \<Longrightarrow> map_of (ts_tainted st) x = Some info \<Longrightarrow> originates ns info"
  by (auto simp: taint_ok_def dest: map_of_SomeD)

lemma set_update: "set (AList.update k v al) \<subseteq> insert (k, v) (set al)"
  by (induction al) (auto split: if_splits)

lemma taint_ok_set: "taint_ok ns st \<Longrightarrow> originates ns info \<Longrightarrow> taint_ok ns (set_taint x info st)"
  using set_update [of x info "ts_tainted st"]
  by (fastforce simp: taint_ok_def set_taint_def)

lemma first_tainted_ok: "taint_ok ns st \<Longrightarrow> first_tainted st xs = Some (x, info) \<Longrightarrow> originates ns info"
  by (auto simp: first_tainted_def split: option.splits dest: taint_ok_lookup)

lemma taint_ok_aliases [simp]: "taint_ok ns (st\<lparr>ts_aliases := al\<rparr>) = taint_ok ns st"
  by (simp add: taint_ok_def)

lemma taint_ok_flows [simp]: "taint_ok ns (st\<lparr>ts_flows := fs\<rparr>) = taint_ok ns st"
  by (simp add: taint_ok_def)

lemma assign_call_ok:
  assumes "taint_ok ns st" and "\<And>c. source_call c (Call func args kws l) \<Longrightarrow>
      originates ns \<lparr>ti_source = c, ti_line = int line, ti_transforms = []\<rparr>"
  shows "taint_ok ns (assign_call x func args line st)"
proof -
  define st1 where "st1 = (case imported_module func args of
      None \<Rightarrow> st | Some m \<Rightarrow> st\<lparr>ts_aliases := AList.update x m (ts_aliases st)\<rparr>)"
  have ok: "taint_ok ns st1"
    using assms(1) by (simp add: st1_def split: option.splits)
  have src: "originates ns \<lparr>ti_source = c, ti_line = int line, ti_transforms = []\<rparr>"
    if "taint_call_name (ts_aliases st1) func = Some c" "c \<in> set TAINT_SOURCES" for c
    using assms(2) that by (auto simp: source_call_def)
  show ?thesis
    unfolding assign_call_def Let_def st1_def [symmetric]
    using ok src
    by (auto split: option.splits pynode.splits intro!: taint_ok_set
        dest: first_tainted_ok taint_ok_lookup)
qed

lemma taint_item_ok:
  assumes "taint_ok ns st" and "\<And>c ctx v. item = WithItem ctx v \<Longrightarrow> source_call c ctx \<Longrightarrow>
      originates ns \<lparr>ti_source = c, ti_line = int line, ti_transforms = []\<rparr>"
  shows "taint_ok ns (taint_item line item st)"
proof (cases "(line, item, st)" rule: taint_item.cases)
  case (1 line' func args kws l x st')
  show ?thesis
  proof (cases "taint_call_name (ts_aliases st) func")
    case (Some c)
    have "c \<in> set TAINT_SOURCES \<Longrightarrow>
        originates ns \<lparr>ti_source = c, ti_line = int line, ti_transforms = []\<rparr>"
      using 1 assms(2) source_callI [OF Some] by simp
    with 1 Some assms(1) show ?thesis by (simp add: taint_ok_set)
  qed (use 1 assms(1) in simp)
qed (use assms(1) in simp_all)

lemma taint_items_ok:
  assumes "taint_ok ns st" and "\<And>c ctx v. WithItem ctx v \<in> set items \<Longrightarrow> source_call c ctx \<Longrightarrow>
      originates ns \<lparr>ti_source = c, ti_line = int line, ti_transforms = []\<rparr>"
  shows "taint_ok ns (fold (taint_item line) items st)"
  using assms
proof (induction items arbitrary: st)
  case (Cons i items)
  have "taint_ok ns (taint_item line i st)"
    using Cons.prems by (intro taint_item_ok) auto
  with Cons show ?case by auto
qed simp

lemma taint_node_ok: "taint_ok ns st \<Longrightarrow> taint_ok (ns @ [n]) (taint_node n st)"
proof -
  assume "taint_ok ns st"
  then have ok: "taint_ok (ns @ [n]) st"
    unfolding taint_ok_def by (auto dest!: originates_mono [where ms = "ns @ [n]"])
  show ?thesis
  proof (cases n)
    case (Assign targets val line)
    have src: "originates (ns @ [n]) \<lparr>ti_source = c, ti_line = int line, ti_transforms = []\<rparr>"
      if "source_call c val" for c
      using that Assign by (simp add: originates_def)
    show ?thesis
      using ok src unfolding Assign
      by (auto simp: taint_assign_def split: list.splits pynode.splits option.splits
          intro!: taint_ok_set assign_call_ok dest: taint_ok_lookup)
  next
    case (With items body line)
    have "taint_ok (ns @ [n]) (fold (taint_item line) items st)"
      using With by (intro taint_items_ok [OF ok]) (auto simp: originates_def)
    with With show ?thesis by simp
  next
    case (Call func args kws line)
    with ok show ?thesis by (auto simp: taint_call_def split: option.splits)
  qed (use ok in simp_all)
qed

text \<open>A flow of the list of nodes: its sink call, preceded by a node that made its source.\<close>

definition flow_sound :: "pynode list \<Rightarrow> taint_flow \<Rightarrow> bool" where
  "flow_sound ns f = (tf_sink_call f \<in> set TAINT_SINKS \<and> tf_source_call f \<in> set TAINT_SOURCES
     \<and> (\<exists>pre func args kws line post. ns = pre @ Call func args kws line # post
          \<and> tf_sink_line f = int line \<and> (\<exists>al. taint_call_name al func = Some (tf_sink_call f))
          \<and> (\<exists>n\<in>set pre. source_node (tf_source_call f) (tf_source_line f) n)))"

lemma source_node_source: "source_node c l n \<Longrightarrow> c \<in> set TAINT_SOURCES"
  by (cases "(c, l, n)" rule: source_node.cases) (auto simp: source_call_def)

lemma flow_sound_snoc: "flow_sound ns f \<Longrightarrow> flow_sound (ns @ ms) f"
  unfolding flow_sound_def by (metis append.assoc append_Cons)

lemma set_taint_flows [simp]: "ts_flows (set_taint x info st) = ts_flows st"
  by (simp add: set_taint_def)

lemma assign_call_flows: "ts_flows (assign_call x func args line st) = ts_flows st"
  by (simp add: assign_call_def Let_def split: option.splits pynode.splits)

lemma taint_assign_flows: "ts_flows (taint_assign targets val line st) = ts_flows st"
  by (auto simp: taint_assign_def assign_call_flows split: list.splits pynode.splits option.splits)

lemma taint_item_flows: "ts_flows (taint_item line i st) = ts_flows st"
  by (cases "(line, i, st)" rule: taint_item.cases) (auto split: option.splits)

lemma taint_items_flows: "ts_flows (fold (taint_item line) items st) = ts_flows st"
  by (induction items arbitrary: st) (simp_all add: taint_item_flows)

lemma taint_node_flows:
  assumes "taint_ok ns st" and "f \<in> set (ts_flows (taint_node n st))"
  shows "f \<in> set (ts_flows st) \<or> flow_sound (ns @ [n]) f"
proof (cases n)
  case (Assign targets val line)
  with assms(2) show ?thesis by (simp add: taint_assign_flows)
next
  case (With items body line)
  with assms(2) show ?thesis by (simp add: taint_items_flows)
next
  case (Call func args kws line)
  show ?thesis
  proof (cases "f \<in> set (ts_flows st)")
    case False
    with Call assms(2) obtain c x info where
      c: "taint_call_name (ts_aliases st) func = Some c" "c \<in> set TAINT_SINKS"
        "first_tainted st (names_in_args (ts_aliases st) args @ concat (map keyword_names kws))
           = Some (x, info)"
        "f = \<lparr>tf_source_call = ti_source info, tf_source_line = ti_line info,
              tf_sink_call = c, tf_sink_line = int line, tf_tainted_var = x,
              tf_transforms = ti_transforms info, tf_file_path = []\<rparr>"
      by (auto simp: taint_call_def split: option.splits if_splits)
    from first_tainted_ok [OF assms(1) c(3)] obtain m where
      m: "m \<in> set ns" "source_node (ti_source info) (ti_line info) m"
      by (auto simp: originates_def)
    from m(2) have "ti_source info \<in> set TAINT_SOURCES" by (rule source_node_source)
    moreover have "ns @ [n] = ns @ Call func args kws line # []" using Call by simp
    ultimately have "flow_sound (ns @ [n]) f"
      unfolding flow_sound_def using c m by (metis taint_flow.select_convs(1-4))
    then show ?thesis ..
  qed simp
qed (use assms(2) in simp_all)

lemma taint_fold_sound:
  assumes "taint_ok ns st" and "\<forall>f\<in>set (ts_flows st). flow_sound ns f"
  shows "\<forall>f\<in>set (ts_flows (fold taint_node ms st)). flow_sound (ns @ ms) f"
  using assms
proof (induction ms arbitrary: ns st)
  case (Cons m ms)
  have "\<forall>f\<in>set (ts_flows (taint_node m st)). flow_sound (ns @ [m]) f"
    using taint_node_flows [OF Cons.prems(1)] Cons.prems(2) flow_sound_snoc by blast
  from Cons.IH [OF taint_node_ok [OF Cons.prems(1)] this] show ?case by simp
qed simp

lemma taint_visit_sound:
  "f \<in> set (ts_flows (taint_visit tree taint_start)) \<Longrightarrow> flow_sound (preorder tree) f"
  using taint_fold_sound [of "[]" taint_start "preorder tree"]
  by (simp add: taint_visit_def taint_start_def taint_ok_def)

subsection \<open>A tainted name stays tainted\<close>

definition is_tainted :: "taint_state \<Rightarrow> string \<Rightarrow> bool" where
  "is_tainted st x = (map_of (ts_tainted st) x \<noteq> None)"

lemma is_tainted_simps [simp]:
  "is_tainted (set_taint y info st) x = (x = y \<or> is_tainted st x)"
  "is_tainted (st\<lparr>ts_aliases := al\<rparr>) x = is_tainted st x"
  "is_tainted (st\<lparr>ts_flows := fs\<rparr>) x = is_tainted st x"
  by (auto simp: is_tainted_def set_taint_def update_conv')

lemma taint_item_keeps: "is_tainted st x \<Longrightarrow> is_tainted (taint_item line i st) x"
  by (cases "(line, i, st)" rule: taint_item.cases) (auto split: option.splits)

lemma taint_items_keep: "is_tainted st x \<Longrightarrow> is_tainted (fold (taint_item line) items st) x"
  by (induction items arbitrary: st) (simp_all add: taint_item_keeps)

lemma assign_call_keeps: "is_tainted st x \<Longrightarrow> is_tainted (assign_call y func args line st) x"
  by (auto simp: assign_call_def Let_def split: option.splits pynode.splits)

lemma taint_node_keeps: "is_tainted st x \<Longrightarrow> is_tainted (taint_node n st) x"
  by (cases n) (auto simp: taint_assign_def taint_call_def assign_call_keeps taint_items_keep
      split: list.splits pynode.splits option.splits)

lemma taint_fold_keeps: "is_tainted st x \<Longrightarrow> is_tainted (fold taint_node ns st) x"
  by (induction ns arbitrary: st) (simp_all add: taint_node_keeps)

lemma first_tainted_some:
  "is_tainted st x \<Longrightarrow> x \<in> set xs \<Longrightarrow> \<exists>y info. first_tainted st xs = Some (y, info)"
proof (cases "List.find (\<lambda>n. map_of (ts_tainted st) n \<noteq> None) xs")
  case None
  assume "is_tainted st x" "x \<in> set xs"
  with None show ?thesis by (auto simp: is_tainted_def find_None_iff)
next
  case (Some y)
  then have "map_of (ts_tainted st) y \<noteq> None" by (auto simp: find_Some_iff simp del: not_None_eq)
  with Some show ?thesis by (auto simp: first_tainted_def)
qed

lemma taint_flows_mono: "set (ts_flows st) \<subseteq> set (ts_flows (taint_node n st))"
proof (cases n)
  case (Assign targets val line)
  then show ?thesis by (simp add: taint_assign_flows)
next
  case (With items body line)
  then show ?thesis by (simp add: taint_items_flows)
next
  case (Call func args kws line)
  then show ?thesis by (auto simp: taint_call_def split: option.splits)
qed simp_all

lemma taint_fold_flows_mono: "set (ts_flows st) \<subseteq> set (ts_flows (fold taint_node ns st))"
proof (induction ns arbitrary: st)
  case (Cons n ns)
  show ?case using Cons.IH taint_flows_mono by (simp, blast)
qed simp

text \<open>
  A sink call one of whose argument names is tainted makes a flow; an assignment from a source
  taints its target.
\<close>

lemma source_assign_taints:
  assumes "taint_call_name (ts_aliases st) func = Some c" and "c \<in> set TAINT_SOURCES"
    and "imported_module func args = None"
  shows "is_tainted (taint_node (Assign [Name x] (Call func args kws l) line) st) x"
  using assms by (simp add: taint_assign_def assign_call_def Let_def)

lemma sink_call_flows:
  assumes "taint_call_name (ts_aliases st) func = Some c" and "c \<in> set TAINT_SINKS"
    and "is_tainted st x"
    and "x \<in> set (names_in_args (ts_aliases st) args @ concat (map keyword_names kws))"
  shows "\<exists>f\<in>set (ts_flows (taint_node (Call func args kws line) st)).
    tf_sink_call f = c \<and> tf_sink_line f = int line"
proof -
  from first_tainted_some [OF assms(3,4)] obtain y info where
    "first_tainted st (names_in_args (ts_aliases st) args @ concat (map keyword_names kws))
      = Some (y, info)" by blast
  with assms(1,2) show ?thesis by (simp add: taint_call_def)
qed

text \<open>The assignments that bind a dynamically imported module; other nodes keep the aliases.\<close>

fun binds_import :: "pynode \<Rightarrow> bool" where
  "binds_import (Assign [Name x] (Call func args kws l) line) = (imported_module func args \<noteq> None)"
| "binds_import _ = False"

lemma taint_item_aliases: "ts_aliases (taint_item line i st) = ts_aliases st"
  by (cases "(line, i, st)" rule: taint_item.cases) (auto simp: set_taint_def split: option.splits)

lemma taint_items_aliases: "ts_aliases (fold (taint_item line) items st) = ts_aliases st"
  by (induction items arbitrary: st) (simp_all add: taint_item_aliases)

lemma assign_call_aliases:
  "imported_module func args = None \<Longrightarrow> ts_aliases (assign_call x func args line st) = ts_aliases st"
  by (simp add: assign_call_def Let_def set_taint_def split: option.splits pynode.splits)

lemma taint_assign_aliases:
  "\<not> binds_import (Assign targets val line) \<Longrightarrow> ts_aliases (taint_assign targets val line st) = ts_aliases st"
  by (auto simp: taint_assign_def set_taint_def assign_call_aliases
      split: list.splits pynode.splits option.splits)

lemma taint_node_aliases: "\<not> binds_import n \<Longrightarrow> ts_aliases (taint_node n st) = ts_aliases st"
  by (cases n) (simp_all add: taint_assign_aliases taint_items_aliases taint_call_def split: option.splits)

lemma taint_fold_aliases:
  "\<forall>n\<in>set ns. \<not> binds_import n \<Longrightarrow> ts_aliases (fold taint_node ns st) = ts_aliases st"
  by (induction ns arbitrary: st) (simp_all add: taint_node_aliases)

lemma keyword_or_arg: "Name x \<in> set args \<Longrightarrow> x \<in> set (names_in_args al args)"
  by (force simp: names_in_args_def)

lemma assign_then_sink:
  assumes tree: "preorder tree = pre @ Assign [Name x] (Call sfunc sargs skws l) line1
      # mid @ Call func args kws line2 # post"
    and al: "\<forall>n\<in>set (preorder tree). \<not> binds_import n"
    and src: "taint_call_name [] sfunc = Some c" "c \<in> set TAINT_SOURCES"
    and snk: "taint_call_name [] func = Some d" "d \<in> set TAINT_SINKS"
    and arg: "Name x \<in> set args"
  shows "\<exists>f\<in>set (ts_flows (taint_visit tree taint_start)). tf_sink_call f = d
    \<and> tf_sink_line f = int line2"
proof -
  let ?asg = "Assign [Name x] (Call sfunc sargs skws l) line1"
  define st0 where "st0 = fold taint_node pre taint_start"
  define st1 where "st1 = fold taint_node mid (taint_node ?asg st0)"
  from al tree have free: "\<forall>n\<in>set pre. \<not> binds_import n" "\<not> binds_import ?asg"
      "\<forall>n\<in>set mid. \<not> binds_import n" by (simp_all del: binds_import.simps)
  have a0: "ts_aliases st0 = []"
    unfolding st0_def taint_fold_aliases [OF free(1)] by (simp add: taint_start_def)
  then have a1: "ts_aliases st1 = []"
    unfolding st1_def taint_fold_aliases [OF free(3)] taint_node_aliases [OF free(2)] .
  have "is_tainted st1 x"
    unfolding st1_def using src a0 free(2)
    by (intro taint_fold_keeps source_assign_taints [where c = c]) simp_all
  then obtain f where f: "f \<in> set (ts_flows (taint_node (Call func args kws line2) st1))"
      "tf_sink_call f = d" "tf_sink_line f = int line2"
    using sink_call_flows [of st1 func d x args kws line2] snk a1 keyword_or_arg [OF arg] by auto
  have "taint_visit tree taint_start = fold taint_node post (taint_node (Call func args kws line2) st1)"
    by (simp add: taint_visit_def tree st1_def st0_def)
  with f taint_fold_flows_mono [of "taint_node (Call func args kws line2) st1" post]
  show ?thesis by (auto simp del: taint_node.simps)
qed

subsection \<open>The excerpt stays within the file\<close>

lemma slice_range_within:
  "slice_range n f = (a, b) \<Longrightarrow> j \<in> {a..b} \<Longrightarrow> nat (j - 1) < n"
  by (auto simp: slice_range_def)

subsection \<open>Properties\<close>

text \<open>C26: Every flow reported for a Python file is a call of a sink in its tree, preceded in
  visiting order by an assignment or \<^verbatim>\<open>with\<close> item that takes the reported value from the reported
  source, at the reported line.\<close>
theorem reported_flows_sound:
  assumes "taint_python parse src = Inr r" and "f \<in> set (tr_flows r)"
  shows "\<exists>tree. parse src = Inr tree \<and> flow_sound (preorder tree) f"
  using assms taint_visit_sound
  by (fastforce simp: taint_python_def on_syntax_error_def taint_error_def no_flows_def
      split: sum.splits if_splits)

text \<open>C25: A value assigned from a source and later passed to a sink is found: in a file without
  dynamic imports, after \<^verbatim>\<open>x = source(...)\<close> any later call of a sink with \<open>x\<close> as an argument
  has a flow, whatever happens to \<open>x\<close> in between (a taint is never removed).\<close>
theorem source_to_sink_reported:
  assumes "preorder tree = pre @ Assign [Name x] (Call sfunc sargs skws l) line1
      # mid @ Call func args kws line2 # post"
    and "\<forall>n\<in>set (preorder tree). \<not> binds_import n"
    and "taint_call_name [] sfunc = Some c" and "c \<in> set TAINT_SOURCES"
    and "taint_call_name [] func = Some d" and "d \<in> set TAINT_SINKS" and "Name x \<in> set args"
  shows "\<exists>f\<in>set (ts_flows (taint_visit tree taint_start)).
    tf_sink_call f = d \<and> tf_sink_line f = int line2"
  by (rule assign_then_sink [OF assms])

abbreviation (input) sample_source :: pynode where
  "sample_source \<equiv> Assign [Name ''k''] (Call (Attribute (Name ''os'') ''getenv'') [ConstStr ''K'' 1] [] 1) 1"

abbreviation (input) sample_sink :: pynode where
  "sample_sink \<equiv> Call (Attribute (Name ''requests'') ''post'') [Name ''k''] [] 2"

theorem source_to_sink_reported_witness:
  "\<exists>f\<in>set (ts_flows (taint_visit (Other [sample_source, sample_sink]) taint_start)).
    tf_sink_call f = ''requests.post'' \<and> tf_sink_line f = int 2"
  by (rule source_to_sink_reported [where pre = "[Other [sample_source, sample_sink]]" and x = "''k''"
        and sfunc = "Attribute (Name ''os'') ''getenv''" and sargs = "[ConstStr ''K'' 1]"
        and skws = "[]" and l = 1 and ?line1.0 = 1 and c = "''os.getenv''"
        and mid = "[Name ''k'', Call (Attribute (Name ''os'') ''getenv'') [ConstStr ''K'' 1] [] 1,
           Attribute (Name ''os'') ''getenv'', Name ''os'', ConstStr ''K'' 1]"
        and func = "Attribute (Name ''requests'') ''post''" and args = "[Name ''k'']" and kws = "[]"
        and post = "[Attribute (Name ''requests'') ''post'', Name ''requests'', Name ''k'']"])
    (simp_all add: preorder.simps TAINT_SOURCES_def TAINT_SINKS_def)

theorem reported_flows_sound_witness:
  "\<exists>f tree. Inr (Other [sample_source, sample_sink]) = (Inr tree :: pyexn + pynode)
    \<and> flow_sound (preorder tree) f"
proof -
  let ?r = "no_flows\<lparr>tr_flows := ts_flows (taint_visit (Other [sample_source, sample_sink]) taint_start)\<rparr>"
  have r: "taint_python (\<lambda>s. Inr (Other [sample_source, sample_sink])) [] = Inr ?r"
    by (simp add: taint_python_def on_syntax_error_def)
  have "tr_flows ?r \<noteq> []"
    by (simp add: no_flows_def taint_visit_def taint_start_def preorder.simps taint_assign_def
        assign_call_def TAINT_SOURCES_def TAINT_SINKS_def set_taint_def taint_call_def names_in_args_def
        first_tainted_def)
  from reported_flows_sound [OF r hd_in_set [OF this]] show ?thesis by blast
qed

end
