(* ===== verification/Dependency.thy ===== *)
theory Dependency
  imports EntryPoint PyAst "HOL-Library.Product_Lexorder"
begin

text \<open>
  \<^verbatim>\<open>stages/stage_dependency.py\<close>: which dependencies a package declares, which version a
  range resolves to, and the breadth-first analysis of the dependency graph. The TOML and JSON
  parsers, the registries, the attack-history lookup and Python's \<^verbatim>\<open>packaging\<close> are parameters.
\<close>

subsection \<open>Declarations\<close>

record dependency =
  dp_name :: string
  dp_spec :: string
  dp_source_file :: string

record dependency_extraction =
  dx_direct :: "dependency list"
  dx_dev :: "dependency list"
  dx_errors :: "string list"

definition no_deps :: dependency_extraction where
  "no_deps = \<lparr>dx_direct = [], dx_dev = [], dx_errors = []\<rparr>"

text \<open>A list or tuple of strings, a name bound to one, or a sum of two.\<close>

fun const_strs :: "pynode list \<Rightarrow> string list option" where
  "const_strs [] = Some []"
| "const_strs (ConstStr s line # es) = map_option (Cons s) (const_strs es)"
| "const_strs (e # es) = None"

fun extract_str_list :: "(string \<times> string list) list \<Rightarrow> pynode \<Rightarrow> string list option" where
  "extract_str_list bs (Sequence k es) = (if k = SetSeq then None else const_strs es)"
| "extract_str_list bs (Name i) = map_of bs i"
| "extract_str_list bs (BinOp oper l r) =
     (if oper \<noteq> ''Add'' then None
      else case (extract_str_list bs l, extract_str_list bs r) of
        (Some a, Some b) \<Rightarrow> Some (a @ b) | _ \<Rightarrow> None)"
| "extract_str_list bs _ = None"

fun setup_binding :: "pynode \<Rightarrow> (string \<times> string list) list \<Rightarrow> (string \<times> string list) list" where
  "setup_binding (Assign [Name x] v line) bs =
     (case extract_str_list [] v of None \<Rightarrow> bs | Some xs \<Rightarrow> AList.update x xs bs)"
| "setup_binding _ bs = bs"

fun call_func_name :: "pynode \<Rightarrow> string" where
  "call_func_name (Name i) = i"
| "call_func_name (Attribute v a) = a"
| "call_func_name _ = []"

fun install_requires_of :: "(string \<times> string list) list \<Rightarrow> pynode \<Rightarrow> string list list" where
  "install_requires_of bs (Call f args kws line) =
     (if call_func_name f \<noteq> ''setup'' then []
      else concat (map (\<lambda>kw. case kw of
          Keyword (Some k) v \<Rightarrow>
            if k \<noteq> ''install_requires'' then []
            else (case extract_str_list bs v of None \<Rightarrow> [] | Some xs \<Rightarrow> [xs])
        | _ \<Rightarrow> []) kws))"
| "install_requires_of bs _ = []"

definition parse_setup_py_deps :: "(string \<Rightarrow> pyexn + pynode) \<Rightarrow> string \<Rightarrow> pyexn + string list" where
  "parse_setup_py_deps parse content =
     (case parse content of
        Inl e \<Rightarrow> if exn_name e = ''SyntaxError'' then Inr [] else Inl e
      | Inr tree \<Rightarrow>
          let bindings = fold setup_binding (children tree) [] in
          Inr (case concat (map (install_requires_of bindings) (walk tree)) of
                 [] \<Rightarrow> [] | xs # _ \<Rightarrow> xs))"

text \<open>
  PEP 735 groups. The stack of open groups stops a cycle and, at \<open>max_depth\<close>, a long chain; the
  fuel is \<open>max_depth - length stack\<close>, so its end is the code's second test.
\<close>

fun resolve_group :: "pydict \<Rightarrow> nat \<Rightarrow> string list \<Rightarrow> string \<Rightarrow> string list" where
  "resolve_group groups 0 stack name = []"
| "resolve_group groups (Suc fuel) stack name =
     (if name \<in> set stack then []
      else case map_of groups name of
        Some (PList items) \<Rightarrow>
          dedup_first (concat (map (\<lambda>it. case it of
              PStr s \<Rightarrow> [s]
            | PDict d \<Rightarrow> (case d_get d ''include-group'' PNone of
                PStr ref \<Rightarrow> resolve_group groups fuel (stack @ [name]) ref
              | _ \<Rightarrow> [])
            | _ \<Rightarrow> []) items))
      | _ \<Rightarrow> [])"

definition expand_pep735_groups :: "nat \<Rightarrow> pydict \<Rightarrow> (string \<times> string list) list" where
  "expand_pep735_groups max_depth groups =
     map (\<lambda>name. (name, resolve_group groups max_depth [] name)) (dict_keys groups)"

subsection \<open>Requirement lines\<close>

definition strip_chars :: "string \<Rightarrow> string \<Rightarrow> string" where
  "strip_chars cs s =
     rev (dropWhile (\<lambda>c. c \<in> set cs) (rev (dropWhile (\<lambda>c. c \<in> set cs) s)))"

definition rstrip_chars :: "string \<Rightarrow> string \<Rightarrow> string" where
  "rstrip_chars cs s = rev (dropWhile (\<lambda>c. c \<in> set cs) (rev s))"

definition is_alpha :: "char \<Rightarrow> bool" where
  "is_alpha c = (let n = (of_char c :: nat) in (65 \<le> n \<and> n \<le> 90) \<or> (97 \<le> n \<and> n \<le> 122))"

definition is_req_char :: "char \<Rightarrow> bool" where
  "is_req_char c = (is_alpha c \<or> is_digit c \<or> c \<in> set ''_.-'')"

text \<open>
  The pattern of a requirement: a name, an optional bracket of extras, an optional specifier that
  starts with an operator. Everything after the name is optional, so the first try is the match.
\<close>

definition skip_extras :: "string \<Rightarrow> string" where
  "skip_extras s = (case s of
     [] \<Rightarrow> s
   | c # cs \<Rightarrow> if c = CHR ''['' \<and> CHR '']'' \<in> set cs
       then tl (dropWhile (\<lambda>x. x \<noteq> CHR '']'') cs) else s)"

definition pep_req_match :: "string \<Rightarrow> (string \<times> string) option" where
  "pep_req_match line =
     (let s = dropWhile is_space line;
          name = takeWhile is_req_char s;
          rest = dropWhile is_space (dropWhile is_req_char s);
          rest = dropWhile is_space (skip_extras rest)
      in if name = [] then None
         else Some (name,
           (if rest \<noteq> [] \<and> hd rest \<in> set ''<>=!~''
            then takeWhile (\<lambda>c. c \<notin> set [CHR '','', CHR '';'', CHR 0x0A]) rest else [])))"

definition quote_chars :: string where
  "quote_chars = [CHR 0x27, CHR 0x22]"

definition parse_python_requires :: "string \<Rightarrow> (string \<times> string) list" where
  "parse_python_requires content =
     concat (map (\<lambda>raw.
       let line = strip_chars quote_chars (rstrip_chars '','' (py_strip raw)) in
       if line = [] \<or> startswith line ''#'' then []
       else let line = (if CHR '';'' \<in> set line
                        then py_strip (hd (split_on (CHR '';'') line)) else line)
         in case pep_req_match line of
           None \<Rightarrow> [] | Some (name, spec) \<Rightarrow> [(name, py_strip spec)])
       (py_splitlines content))"

text \<open>
  The fallback of \<^verbatim>\<open>setup.py\<close>: the text between the brackets of the first
  \<^verbatim>\<open>install_requires = [\<close>, and the quoted pieces in it.
\<close>

definition requires_body_at :: "string \<Rightarrow> string option" where
  "requires_body_at s =
     (if \<not> startswith s ''install_requires'' then None
      else let r = dropWhile is_space (drop (length ''install_requires'') s) in
        if r = [] \<or> hd r \<noteq> CHR ''='' then None
        else let r = dropWhile is_space (tl r) in
          if r = [] \<or> hd r \<noteq> CHR ''['' \<or> CHR '']'' \<notin> set (tl r) then None
          else Some (takeWhile (\<lambda>c. c \<noteq> CHR '']'') (tl r)))"

fun requires_body :: "string \<Rightarrow> string option" where
  "requires_body [] = None"
| "requires_body (c # cs) =
     (case requires_body_at (c # cs) of Some b \<Rightarrow> Some b | None \<Rightarrow> requires_body cs)"

definition is_quote :: "char \<Rightarrow> bool" where
  "is_quote c = (c \<in> set quote_chars)"

function quoted_items :: "string \<Rightarrow> string list" where
  "quoted_items [] = []"
| "quoted_items (c # cs) =
     (let body = takeWhile (\<lambda>x. \<not> is_quote x) cs; rest = dropWhile (\<lambda>x. \<not> is_quote x) cs in
      if is_quote c \<and> body \<noteq> [] \<and> rest \<noteq> [] then body # quoted_items (tl rest)
      else quoted_items cs)"
  by pat_completeness auto

termination
proof (relation "measure length", simp_all)
  fix cs :: string
  show "length (dropWhile (\<lambda>x. \<not> is_quote x) cs) - Suc 0 < Suc (length cs)"
    using length_dropWhile_le [of "\<lambda>x. \<not> is_quote x" cs] by simp
qed

subsection \<open>Extraction\<close>

record dep_env =
  de_parse :: "string \<Rightarrow> pyexn + pynode"
  de_toml :: "string \<Rightarrow> pyexn + pyval"
  de_json :: "string \<Rightarrow> pyexn + pyval"
  de_str :: "pyval \<Rightarrow> string"

text \<open>\<^verbatim>\<open>v or {}\<close>; \<^verbatim>\<open>v.get\<close>, \<^verbatim>\<open>v.items\<close> of a value that is not a dictionary; iteration.\<close>

definition or_empty :: "pyval \<Rightarrow> pyval" where
  "or_empty v = (if py_truth v then v else PDict [])"

definition attr_dict :: "string \<Rightarrow> pyval \<Rightarrow> pyexn + pydict" where
  "attr_dict attr v = (case v of PDict d \<Rightarrow> Inr d | _ \<Rightarrow> Inl (OtherError ''AttributeError'' attr))"

definition py_iter :: "pyval \<Rightarrow> pyexn + pyval list" where
  "py_iter v = (case v of PList xs \<Rightarrow> Inr xs | PDict d \<Rightarrow> Inr (map (PStr \<circ> fst) d)
     | PStr s \<Rightarrow> Inr (map (\<lambda>c. PStr [c]) s) | PNone \<Rightarrow> Inr []
     | _ \<Rightarrow> Inl (TypeError ''object is not iterable''))"

definition deps_of_req :: "string \<Rightarrow> string \<Rightarrow> dependency list" where
  "deps_of_req source req = map (\<lambda>(name, spec). \<lparr>dp_name = name, dp_spec = spec,
     dp_source_file = source\<rparr>) (parse_python_requires req)"

definition deps_of_values :: "string \<Rightarrow> pyval list \<Rightarrow> dependency list" where
  "deps_of_values source vs =
     concat (map (\<lambda>v. case v of PStr s \<Rightarrow> deps_of_req source s | _ \<Rightarrow> []) vs)"

definition pyproject_deps ::
  "string \<Rightarrow> pyval \<Rightarrow> pyexn + dependency list \<times> dependency list" where
  "pyproject_deps path doc =
     bindE (attr_dict ''get'' doc) (\<lambda>data.
     bindE (attr_dict ''get'' (or_empty (d_get data ''project'' (PDict [])))) (\<lambda>project.
     bindE (py_iter (or_empty (d_get project ''dependencies'' (PList [])))) (\<lambda>deps.
     bindE (attr_dict ''values'' (or_empty (d_get project ''optional-dependencies'' (PDict []))))
       (\<lambda>opt.
     bindE (mapE (\<lambda>v. py_iter (or_empty v)) (dict_values opt)) (\<lambda>opts.
     bindE (attr_dict ''get'' (or_empty (d_get data ''dependency-groups'' (PDict [])))) (\<lambda>groups.
     Inr (deps_of_values path deps,
          concat (map (deps_of_values path) opts)
          @ concat (map (\<lambda>(g, reqs). concat (map (deps_of_req (path @ ''::group:'' @ g)) reqs))
              (expand_pep735_groups 10 groups)))))))))"

definition extract_pyproject ::
  "dep_env \<Rightarrow> full_source_file \<Rightarrow> dependency_extraction \<Rightarrow> pyexn + dependency_extraction" where
  "extract_pyproject env sf dx =
     (if fs_basename sf \<noteq> ''pyproject.toml'' then Inr dx
      else case de_toml env (fs_content sf) of
        Inl e \<Rightarrow> Inr (dx\<lparr>dx_errors := dx_errors dx
                  @ [fs_path sf @ '': toml parse failed: '' @ exn_str e]\<rparr>)
      | Inr doc \<Rightarrow> bindE (pyproject_deps (fs_path sf) doc) (\<lambda>(direct, dev).
          Inr (dx\<lparr>dx_direct := dx_direct dx @ direct, dx_dev := dx_dev dx @ dev\<rparr>)))"

definition extract_setup_py ::
  "dep_env \<Rightarrow> full_source_file \<Rightarrow> dependency_extraction \<Rightarrow> pyexn + dependency_extraction" where
  "extract_setup_py env sf dx =
     (if fs_basename sf \<noteq> ''setup.py'' then Inr dx
      else bindE (parse_setup_py_deps (de_parse env) (fs_content sf)) (\<lambda>items.
        let items = (if items \<noteq> [] then items
                     else case requires_body (fs_content sf) of
                       None \<Rightarrow> [] | Some body \<Rightarrow> quoted_items body)
        in Inr (dx\<lparr>dx_direct := dx_direct dx
                  @ concat (map (deps_of_req (fs_path sf)) items)\<rparr>)))"

definition extract_requirements ::
  "full_source_file \<Rightarrow> dependency_extraction \<Rightarrow> dependency_extraction" where
  "extract_requirements sf dx =
     (if py_lower (fs_basename sf) \<in> set [''requirements.txt'', ''requirements-prod.txt'']
      then dx\<lparr>dx_direct := dx_direct dx @ deps_of_req (fs_path sf) (fs_content sf)\<rparr>
      else dx)"

fun foldE :: "('a \<Rightarrow> 's \<Rightarrow> 'e + 's) \<Rightarrow> 'a list \<Rightarrow> 's \<Rightarrow> 'e + 's" where
  "foldE f [] s = Inr s"
| "foldE f (x # xs) s = bindE (f x s) (foldE f xs)"

definition extract_python_deps ::
  "dep_env \<Rightarrow> full_source_file list \<Rightarrow> pyexn + dependency_extraction" where
  "extract_python_deps env sfs =
     bindE (foldE (extract_pyproject env) sfs no_deps) (\<lambda>dx.
     bindE (foldE (extract_setup_py env) sfs dx) (\<lambda>dx.
     Inr (fold extract_requirements sfs dx)))"

definition npm_block ::
  "dep_env \<Rightarrow> string \<Rightarrow> pydict \<Rightarrow> string \<Rightarrow> pyexn + dependency list" where
  "npm_block env path data key =
     bindE (attr_dict ''items'' (or_empty (d_get data key (PDict [])))) (\<lambda>block.
       Inr (map (\<lambda>(name, spec). \<lparr>dp_name = name, dp_spec = de_str env spec,
                                 dp_source_file = path\<rparr>) block))"

definition extract_package_json ::
  "dep_env \<Rightarrow> full_source_file \<Rightarrow> dependency_extraction \<Rightarrow> pyexn + dependency_extraction" where
  "extract_package_json env sf dx =
     (if fs_basename sf \<noteq> ''package.json'' then Inr dx
      else case de_json env (fs_content sf) of
        Inl e \<Rightarrow> Inr (dx\<lparr>dx_errors := dx_errors dx
                  @ [fs_path sf @ '': json parse failed: '' @ exn_str e]\<rparr>)
      | Inr doc \<Rightarrow>
          bindE (attr_dict ''get'' doc) (\<lambda>data.
          bindE (mapE (npm_block env (fs_path sf) data)
            [''dependencies'', ''peerDependencies'', ''optionalDependencies'']) (\<lambda>direct.
          bindE (npm_block env (fs_path sf) data ''devDependencies'') (\<lambda>dev.
          Inr (dx\<lparr>dx_direct := dx_direct dx @ concat direct, dx_dev := dx_dev dx @ dev\<rparr>)))))"

definition extract_npm_deps ::
  "dep_env \<Rightarrow> full_source_file list \<Rightarrow> pyexn + dependency_extraction" where
  "extract_npm_deps env sfs = foldE (extract_package_json env) sfs no_deps"

definition extract_dependencies ::
  "dep_env \<Rightarrow> full_source_file list \<Rightarrow> ecosystem \<Rightarrow> pyexn + dependency_extraction" where
  "extract_dependencies env sfs eco =
     (if eco = PYPI then extract_python_deps env sfs else extract_npm_deps env sfs)"

subsection \<open>Versions\<close>

definition extract_pinned_version :: "string \<Rightarrow> string option" where
  "extract_pinned_version spec =
     (let s = dropWhile is_space spec;
          s = (if startswith s ''=='' then drop 2 s else if startswith s ''='' then drop 1 s else s);
          s = dropWhile is_space s;
          stop = (\<lambda>c. c = CHR '','' \<or> c = CHR '';'' \<or> is_space c);
          tok = takeWhile (\<lambda>c. \<not> stop c) s
      in if tok \<noteq> [] \<and> is_digit (hd tok) \<and> list_all is_space (dropWhile (\<lambda>c. \<not> stop c) s)
         then Some tok else None)"

type_synonym semver = "nat \<times> nat \<times> nat"

definition parse_semver :: "string \<Rightarrow> semver option" where
  "parse_semver v =
     (let s = py_strip v; core = takeWhile (\<lambda>c. c \<noteq> CHR ''-'' \<and> c \<noteq> CHR ''+'') s;
          suffix = dropWhile (\<lambda>c. c \<noteq> CHR ''-'' \<and> c \<noteq> CHR ''+'') s
      in case split_on (CHR ''.'') core of
           [a, b, c] \<Rightarrow>
             (if py_isdigit a \<and> py_isdigit b \<and> py_isdigit c \<and> CHR 0x0A \<notin> set suffix
              then Some (digits_value a, digits_value b, digits_value c) else None)
         | _ \<Rightarrow> None)"

definition semver_caret :: "semver \<Rightarrow> semver \<Rightarrow> bool" where
  "semver_caret v b =
     (case (v, b) of ((v0, v1, v2), (b0, b1, b2)) \<Rightarrow>
        if b0 > 0 then v \<ge> b \<and> v0 = b0
        else if b1 > 0 then v \<ge> b \<and> v0 = 0 \<and> v1 = b1
        else v \<ge> b \<and> v0 = 0 \<and> v1 = 0)"

definition semver_tilde :: "semver \<Rightarrow> semver \<Rightarrow> bool" where
  "semver_tilde v b = (v \<ge> b \<and> fst v = fst b \<and> fst (snd v) = fst (snd b))"

definition semver_ops :: "(string \<times> (semver \<Rightarrow> semver \<Rightarrow> bool)) list" where
  "semver_ops =
     [(''>='', \<lambda>v b. v \<ge> b), (''<='', \<lambda>v b. v \<le> b), (''>'', \<lambda>v b. v > b), (''<'', \<lambda>v b. v < b),
      (''='', \<lambda>v b. v = b)]"

text \<open>
  \<^verbatim>\<open>X.Y.x\<close> and \<^verbatim>\<open>X.x\<close>; \<^const>\<open>None\<close> when the branch does not return.
\<close>

definition semver_wildcard :: "semver \<Rightarrow> string \<Rightarrow> bool option" where
  "semver_wildcard v spec =
     (if \<not> contains ''.x'' (py_lower spec) then None
      else case split_on (CHR ''.'') (py_lower spec) of
        [a, b, x] \<Rightarrow>
          if x = ''x'' \<and> py_isdigit b \<and> py_isdigit a
          then Some (fst v = digits_value a \<and> fst (snd v) = digits_value b) else None
      | [a, x] \<Rightarrow> if x = ''x'' \<and> py_isdigit a then Some (fst v = digits_value a) else None
      | _ \<Rightarrow> None)"

text \<open>A specifier without \<^verbatim>\<open>||\<close>.\<close>

definition semver_simple :: "semver \<Rightarrow> string \<Rightarrow> bool option" where
  "semver_simple v spec =
     (if spec \<in> set [[], ''*'', ''x'', ''X'', ''latest''] then Some True
      else if startswith spec ''^'' then map_option (semver_caret v) (parse_semver (drop 1 spec))
      else if startswith spec ''~'' then map_option (semver_tilde v) (parse_semver (drop 1 spec))
      else case List.find (\<lambda>(op, f). startswith spec op) semver_ops of
        Some (op, f) \<Rightarrow> map_option (f v) (parse_semver (drop (length op) spec))
      | None \<Rightarrow>
          (case semver_wildcard v spec of
             Some r \<Rightarrow> Some r
           | None \<Rightarrow> map_option (\<lambda>b. v = b) (parse_semver spec)))"

fun split_bars :: "string \<Rightarrow> string list" where
  "split_bars [] = [[]]"
| "split_bars [c] = [[c]]"
| "split_bars (c # d # cs) =
     (if c = CHR ''|'' \<and> d = CHR ''|'' then [] # split_bars cs
      else (case split_bars (d # cs) of [] \<Rightarrow> [[c]] | p # ps \<Rightarrow> (c # p) # ps))"

text \<open>The parts between bars hold no bars, so the recursive call ends in \<^const>\<open>semver_simple\<close>.\<close>

definition semver_satisfies :: "string \<Rightarrow> string \<Rightarrow> bool option" where
  "semver_satisfies version spec =
     (case parse_semver version of
        None \<Rightarrow> None
      | Some v \<Rightarrow>
          let spec = py_strip spec in
          if contains ''||'' spec
          then Some (list_ex (\<lambda>part. semver_simple v (py_strip part) = Some True) (split_bars spec))
          else semver_simple v spec)"

definition npm_candidates :: "string \<Rightarrow> string list \<Rightarrow> (semver \<times> string) list" where
  "npm_candidates spec versions = concat (map (\<lambda>s.
     if semver_satisfies s spec = Some True
     then (case parse_semver s of None \<Rightarrow> [] | Some v \<Rightarrow> [(v, s)]) else []) versions)"

definition npm_max_satisfying :: "string \<Rightarrow> string list \<Rightarrow> string option" where
  "npm_max_satisfying spec versions =
     (let cs = sort_key fst (npm_candidates spec versions) in
      if cs = [] then None else Some (snd (last cs)))"

text \<open>
  \<open>pypi_max\<close> is the maximum by \<^verbatim>\<open>packaging\<close>'s specifiers; \<open>registry\<close> gives the latest version
  and all versions.
\<close>

record version_env =
  ve_pypi_max :: "string \<Rightarrow> string list \<Rightarrow> string option"
  ve_registry :: "string \<Rightarrow> ecosystem \<Rightarrow> string option \<times> string list"

definition max_satisfying ::
  "version_env \<Rightarrow> string \<Rightarrow> string list \<Rightarrow> ecosystem \<Rightarrow> string option" where
  "max_satisfying env spec versions eco =
     (if spec = [] \<or> versions = [] then None
      else if eco = PYPI then ve_pypi_max env spec versions
      else npm_max_satisfying spec versions)"

definition resolve_dep_version ::
  "version_env \<Rightarrow> string \<Rightarrow> string \<Rightarrow> ecosystem \<Rightarrow> bool \<Rightarrow> string option" where
  "resolve_dep_version env name spec eco fetch_registry =
     (case (if spec = [] then None else extract_pinned_version spec) of
        Some v \<Rightarrow> Some v
      | None \<Rightarrow>
          if \<not> fetch_registry then None
          else case ve_registry env name eco of (latest, versions) \<Rightarrow>
            if versions = [] \<or> spec = [] then latest
            else case max_satisfying env spec versions eco of
              None \<Rightarrow> latest
            | Some s \<Rightarrow> if s = [] then latest else Some s)"

subsection \<open>The analysis\<close>

record dep_result =
  dr_name :: string
  dr_version_spec :: string
  dr_resolved :: "string option"
  dr_verdict :: string
  dr_reason :: string
  dr_evidence_count :: nat
  dr_depth :: nat
  dr_path :: "string list"

text \<open>What the attack index answers: exact advisories (id, summary) and the reasons of the weaker
  matches.\<close>

record attack_history =
  hi_error :: "string option"
  hi_exact :: "(string \<times> string) list"
  hi_historical :: "string list"
  hi_typosquat :: "string list"

record graph_env =
  ge_versions :: version_env
  ge_history :: "string \<Rightarrow> ecosystem \<Rightarrow> string option \<Rightarrow> pyexn + attack_history"
  ge_children :: "string \<Rightarrow> string \<Rightarrow> ecosystem \<Rightarrow> pyexn + (string \<times> string) list"
  ge_pipeline :: "string \<Rightarrow> ecosystem \<Rightarrow> pyexn + analysis_report"

definition analyze_one_dep_history ::
  "graph_env \<Rightarrow> string \<Rightarrow> string \<Rightarrow> ecosystem \<Rightarrow> nat \<Rightarrow> string list \<Rightarrow> bool
    \<Rightarrow> pyexn + dep_result \<times> string option" where
  "analyze_one_dep_history env name spec eco depth path resolve_ranges =
     (let resolved = resolve_dep_version (ge_versions env) name spec eco resolve_ranges;
          r = \<lparr>dr_name = name, dr_version_spec = spec, dr_resolved = resolved,
               dr_verdict = ''CLEAN'', dr_reason = ''no attack history match'',
               dr_evidence_count = 0, dr_depth = depth, dr_path = path\<rparr>
      in bindE (ge_history env name eco resolved) (\<lambda>hist.
        if truthy_opt (hi_error hist)
        then Inr (r\<lparr>dr_resolved := None, dr_verdict := ''SKIPPED'',
                  dr_reason := ''attack index unavailable: '' @ the (hi_error hist)\<rparr>, resolved)
        else case hi_exact hist of
          (adv, summary) # _ \<Rightarrow>
            Inr (r\<lparr>dr_verdict := ''MALICIOUS'',
                 dr_reason := ''dependency name is on the malicious list ('' @ adv @ ''): ''
                   @ take 100 summary,
                 dr_evidence_count := 1\<rparr>, resolved)
        | [] \<Rightarrow>
            (case hi_historical hist of
               h1 # _ \<Rightarrow>
                 Inr (r\<lparr>dr_verdict := ''INFO'', dr_reason := h1,
                      dr_evidence_count := length (hi_historical hist)\<rparr>, resolved)
             | [] \<Rightarrow>
                 (case hi_typosquat hist of
                    h1 # _ \<Rightarrow>
                      Inr (r\<lparr>dr_verdict := ''SUSPICIOUS'', dr_reason := h1,
                           dr_evidence_count := length (hi_typosquat hist)\<rparr>, resolved)
                  | [] \<Rightarrow> Inr (r, resolved)))))"

definition skipped_dep ::
  "string \<Rightarrow> string \<Rightarrow> pyexn \<Rightarrow> nat \<Rightarrow> string list \<Rightarrow> dep_result" where
  "skipped_dep name spec e depth path =
     \<lparr>dr_name = name, dr_version_spec = spec, dr_resolved = None, dr_verdict = ''SKIPPED'',
      dr_reason = ''error: '' @ exn_str e, dr_evidence_count = 0, dr_depth = depth,
      dr_path = path\<rparr>"

definition full_analysis :: "graph_env \<Rightarrow> ecosystem \<Rightarrow> dependency \<Rightarrow> dep_result" where
  "full_analysis env eco d =
     (case ge_pipeline env (dp_name d) eco of
        Inl e \<Rightarrow> skipped_dep (dp_name d) (dp_spec d) e 1 []
      | Inr rep \<Rightarrow>
          \<lparr>dr_name = dp_name d, dr_version_spec = dp_spec d, dr_resolved = Some (ar_version rep),
           dr_verdict = verdict_value (ar_verdict rep),
           dr_reason = show_nat (length (ar_evidence rep)) @ '' evidence item(s)'',
           dr_evidence_count = length (ar_evidence rep), dr_depth = 1, dr_path = []\<rparr>)"

text \<open>An entry of the worklist: name, specifier, depth, path of its parents.\<close>

type_synonym dep_item = "string \<times> string \<times> nat \<times> string list"

definition child_items ::
  "graph_env \<Rightarrow> ecosystem \<Rightarrow> nat \<Rightarrow> string list \<Rightarrow> dep_item \<Rightarrow> string option \<Rightarrow> dep_item list" where
  "child_items env eco max_depth visited it resolved =
     (case it of (name, spec, depth, path) \<Rightarrow>
      case resolved of
        None \<Rightarrow> []
      | Some v \<Rightarrow>
          if depth \<ge> max_depth then []
          else map (\<lambda>(cn, cs). (cn, cs, Suc depth, path @ [name]))
                 (filter (\<lambda>(cn, cs). py_lower cn \<notin> set visited)
                   (try_else (ge_children env name v eco) [])))"

function bfs ::
  "graph_env \<Rightarrow> ecosystem \<Rightarrow> bool \<Rightarrow> nat \<Rightarrow> nat \<Rightarrow> string list \<Rightarrow> dep_result list \<Rightarrow> dep_item list
    \<Rightarrow> dep_result list" where
  "bfs env eco ranges max_depth max_packages visited results [] = results"
| "bfs env eco ranges max_depth max_packages visited results ((name, spec, depth, path) # todo) =
     (if length results \<ge> max_packages then results
      else if py_lower name \<in> set visited
      then bfs env eco ranges max_depth max_packages visited results todo
      else let visited = py_lower name # visited in
        case analyze_one_dep_history env name spec eco depth path ranges of
          Inl e \<Rightarrow> bfs env eco ranges max_depth max_packages visited
                    (results @ [skipped_dep name spec e depth path]) todo
        | Inr (r, resolved) \<Rightarrow> bfs env eco ranges max_depth max_packages visited (results @ [r])
            (todo @ child_items env eco max_depth visited (name, spec, depth, path) resolved))"
  by pat_completeness auto

termination
  by (relation "measures [\<lambda>(env, eco, rg, md, mp, vis, res, todo). mp - length res,
       \<lambda>(env, eco, rg, md, mp, vis, res, todo). length todo]") auto

definition analyze_dependencies ::
  "graph_env \<Rightarrow> dependency_extraction \<Rightarrow> ecosystem \<Rightarrow> nat \<Rightarrow> nat \<Rightarrow> bool \<Rightarrow> bool \<Rightarrow> dep_result list" where
  "analyze_dependencies env dx eco max_depth max_packages attack_history_only ranges =
     (let deps = dx_direct dx @ dx_dev dx in
      if \<not> attack_history_only then map (full_analysis env eco) (take max_packages deps)
      else bfs env eco ranges max_depth max_packages [] []
             (map (\<lambda>d. (dp_name d, dp_spec d, 1, [])) deps))"

subsection \<open>PEP 735 groups expand to what they reach\<close>

definition group_items :: "pydict \<Rightarrow> string \<Rightarrow> pyval list" where
  "group_items g name = (case map_of g name of Some (PList items) \<Rightarrow> items | _ \<Rightarrow> [])"

definition group_strs :: "pydict \<Rightarrow> string \<Rightarrow> string set" where
  "group_strs g name = {s. PStr s \<in> set (group_items g name)}"

definition group_refs :: "pydict \<Rightarrow> string \<Rightarrow> string \<Rightarrow> bool" where
  "group_refs g a b = (\<exists>d. PDict d \<in> set (group_items g a) \<and> d_get d ''include-group'' PNone = PStr b)"

lemma resolve_group_Suc:
  "set (resolve_group g (Suc k) stack name) =
     (if name \<in> set stack then {}
      else group_strs g name \<union> (\<Union>b\<in>{b. group_refs g name b}. set (resolve_group g k (stack @ [name]) b)))"
proof (cases "name \<in> set stack")
  case False
  define piece where "piece = (\<lambda>it. case it of
      PStr s \<Rightarrow> [s]
    | PDict d \<Rightarrow> (case d_get d ''include-group'' PNone of
        PStr ref \<Rightarrow> resolve_group g k (stack @ [name]) ref | _ \<Rightarrow> [])
    | _ \<Rightarrow> [])"
  have "resolve_group g (Suc k) stack name = dedup_first (concat (map piece (group_items g name)))"
  proof (cases "map_of g name")
    case (Some v)
    then show ?thesis using False by (cases v) (simp_all add: piece_def group_items_def)
  qed (use False in \<open>simp add: group_items_def\<close>)
  then have "set (resolve_group g (Suc k) stack name)
      = (\<Union>it\<in>set (group_items g name). set (piece it))"
    by simp
  also have "\<dots> = group_strs g name
      \<union> (\<Union>b\<in>{b. group_refs g name b}. set (resolve_group g k (stack @ [name]) b))"
  proof (intro equalityI subsetI)
    fix x assume "x \<in> (\<Union>it\<in>set (group_items g name). set (piece it))"
    then obtain it where it: "it \<in> set (group_items g name)" "x \<in> set (piece it)" by blast
    from it(2) consider "it = PStr x"
      | d ref where "it = PDict d" "d_get d ''include-group'' PNone = PStr ref"
          "x \<in> set (resolve_group g k (stack @ [name]) ref)"
    proof (cases it)
      case (PDict d)
      with it(2) that(2) show ?thesis
        by (cases "d_get d ''include-group'' PNone") (simp_all add: piece_def)
    qed (use it(2) that(1) in \<open>simp_all add: piece_def\<close>)
    then show "x \<in> group_strs g name
        \<union> (\<Union>b\<in>{b. group_refs g name b}. set (resolve_group g k (stack @ [name]) b))"
      using it(1) by cases (auto simp: group_strs_def group_refs_def)
  next
    fix x assume "x \<in> group_strs g name
        \<union> (\<Union>b\<in>{b. group_refs g name b}. set (resolve_group g k (stack @ [name]) b))"
    then show "x \<in> (\<Union>it\<in>set (group_items g name). set (piece it))"
    proof (elim UnE)
      assume "x \<in> group_strs g name"
      then show ?thesis by (auto simp: group_strs_def piece_def intro!: bexI [of _ "PStr x"])
    next
      assume "x \<in> (\<Union>b\<in>{b. group_refs g name b}. set (resolve_group g k (stack @ [name]) b))"
      then obtain b d where "PDict d \<in> set (group_items g name)"
          "d_get d ''include-group'' PNone = PStr b" "x \<in> set (resolve_group g k (stack @ [name]) b)"
        by (auto simp: group_refs_def)
      then show ?thesis by (auto simp: piece_def intro!: bexI [of _ "PDict d"])
    qed
  qed
  finally show ?thesis using False by simp
qed simp

lemma resolve_group_sound:
  "s \<in> set (resolve_group g k stack name) \<Longrightarrow> \<exists>m. (group_refs g)\<^sup>*\<^sup>* name m \<and> s \<in> group_strs g m"
proof (induction k arbitrary: stack name)
  case (Suc k)
  from Suc.prems consider "s \<in> group_strs g name"
    | b where "group_refs g name b" "s \<in> set (resolve_group g k (stack @ [name]) b)"
    unfolding resolve_group_Suc by (auto split: if_splits)
  then show ?case
  proof cases
    case 2
    from Suc.IH [OF 2(2)] 2(1) show ?thesis by (meson converse_rtranclp_into_rtranclp)
  qed blast
qed simp

definition avoiding :: "pydict \<Rightarrow> string set \<Rightarrow> string \<Rightarrow> string \<Rightarrow> bool" where
  "avoiding g S a b = (group_refs g a b \<and> b \<notin> S)"

lemma leave_start:
  "(avoiding g S)\<^sup>*\<^sup>* a m \<Longrightarrow> m = a \<or>
     (\<exists>c. group_refs g a c \<and> c \<notin> insert a S \<and> (avoiding g (insert a S))\<^sup>*\<^sup>* c m)"
proof (induction rule: rtranclp_induct)
  case (step y z)
  show ?case
  proof (cases "z = a")
    case False
    with step.hyps(2) have z: "avoiding g (insert a S) y z" by (auto simp: avoiding_def)
    from step.IH show ?thesis
    proof (elim disjE exE conjE)
      assume "y = a"
      with z show ?thesis by (auto simp: avoiding_def)
    next
      fix c assume c: "group_refs g a c" "c \<notin> insert a S" "(avoiding g (insert a S))\<^sup>*\<^sup>* c y"
      from c(3) z have "(avoiding g (insert a S))\<^sup>*\<^sup>* c z" by (rule rtranclp.rtrancl_into_rtrancl)
      with c(1,2) show ?thesis by blast
    qed
  qed simp
qed simp

definition group_names :: "pydict \<Rightarrow> string set" where
  "group_names g = {n. group_items g n \<noteq> []}"

lemma group_names_keys: "group_names g \<subseteq> fst ` set g"
  by (auto simp: group_names_def group_items_def split: option.splits dest: map_of_SomeD)
    (force dest: map_of_SomeD)

lemma finite_group_names [simp]: "finite (group_names g)"
  using group_names_keys finite_subset by blast

lemma resolve_group_complete:
  assumes "name \<notin> set stack" and "(avoiding g (set stack))\<^sup>*\<^sup>* name m" and "s \<in> group_strs g m"
    and "card (group_names g - set stack) \<le> k"
  shows "s \<in> set (resolve_group g k stack name)"
  using assms
proof (induction k arbitrary: stack name)
  case 0
  then have none: "group_names g \<subseteq> set stack" by simp
  from 0(3) have "m \<in> group_names g" by (auto simp: group_strs_def group_names_def)
  with none have "m \<in> set stack" by blast
  with 0(1,2) have "m \<noteq> name \<and> (avoiding g (set stack))\<^sup>*\<^sup>* name m" by blast
  then show ?case using \<open>m \<in> set stack\<close> by (auto simp: avoiding_def elim: rtranclp.cases)
next
  case (Suc k)
  from leave_start [OF Suc.prems(2)] show ?case
  proof (elim disjE exE conjE)
    assume "m = name"
    with Suc.prems show ?thesis unfolding resolve_group_Suc by simp
  next
    fix c assume c: "group_refs g name c" "c \<notin> insert name (set stack)"
      "(avoiding g (insert name (set stack)))\<^sup>*\<^sup>* c m"
    have "name \<in> group_names g - set stack"
      using c(1) Suc.prems(1) by (auto simp: group_refs_def group_names_def)
    then have "card (group_names g - set (stack @ [name])) < card (group_names g - set stack)"
      by (intro psubset_card_mono) auto
    with Suc.prems(4) have "card (group_names g - set (stack @ [name])) \<le> k" by simp
    then have "s \<in> set (resolve_group g k (stack @ [name]) c)"
      using c(2,3) Suc.prems(3) by (intro Suc.IH) simp_all
    with c(1) Suc.prems(1) show ?thesis unfolding resolve_group_Suc by auto
  qed
qed

lemma avoiding_empty: "avoiding g {} = group_refs g"
  by (intro ext) (simp add: avoiding_def)

lemma resolve_group_iff:
  assumes "card (group_names g) \<le> k"
  shows "s \<in> set (resolve_group g k [] name) \<longleftrightarrow> (\<exists>m. (group_refs g)\<^sup>*\<^sup>* name m \<and> s \<in> group_strs g m)"
  using resolve_group_sound [of s g k "[]" name] resolve_group_complete [of name "[]" g _ s k] assms
  by (auto simp: avoiding_empty)

lemma resolve_group_distinct: "distinct (resolve_group g k stack name)"
  by (cases k) (auto split: option.splits pyval.splits)

subsection \<open>Ranges\<close>

fun caret_upper :: "semver \<Rightarrow> semver" where
  "caret_upper (b0, b1, b2) =
     (if b0 > 0 then (Suc b0, 0, 0) else if b1 > 0 then (0, Suc b1, 0) else (0, 1, 0))"

fun tilde_upper :: "semver \<Rightarrow> semver" where
  "tilde_upper (b0, b1, b2) = (b0, Suc b1, 0)"

lemma semver_caret_range: "semver_caret v b \<longleftrightarrow> b \<le> v \<and> v < caret_upper b"
  by (cases v; cases b) (auto simp: semver_caret_def)

lemma semver_tilde_range: "semver_tilde v b \<longleftrightarrow> b \<le> v \<and> v < tilde_upper b"
  by (cases v; cases b) (auto simp: semver_tilde_def)

lemma candidate_mem:
  "((v :: 'a), s) \<in> set (if P then (case r of None \<Rightarrow> [] | Some v \<Rightarrow> [(v, x)]) else [])
      \<longleftrightarrow> P \<and> x = s \<and> r = Some v"
  by (cases P; cases r) auto

lemma npm_candidates_mem:
  "(v, s) \<in> set (npm_candidates spec versions) \<longleftrightarrow>
     s \<in> set versions \<and> semver_satisfies s spec = Some True \<and> parse_semver s = Some v"
proof -
  have one: "(v, s) \<in> set (if P then (case parse_semver x of None \<Rightarrow> [] | Some v \<Rightarrow> [(v, x)]) else [])
      \<longleftrightarrow> P \<and> x = s \<and> parse_semver x = Some v" for x P
    by (rule candidate_mem)
  have "(v, s) \<in> set (npm_candidates spec versions) \<longleftrightarrow> (\<exists>x\<in>set versions. (v, s) \<in> set (
      if semver_satisfies x spec = Some True
      then (case parse_semver x of None \<Rightarrow> [] | Some v \<Rightarrow> [(v, x)]) else []))"
    unfolding npm_candidates_def set_concat set_map Union_iff bex_simps by (rule refl)
  then show ?thesis by (simp only: one) blast
qed

lemma satisfies_parses: "semver_satisfies s spec = Some r \<Longrightarrow> parse_semver s \<noteq> None"
  by (auto simp: semver_satisfies_def split: option.splits)

lemma npm_max_some:
  assumes "npm_max_satisfying spec versions = Some s"
  shows "s \<in> set versions" and "semver_satisfies s spec = Some True"
    and "t \<in> set versions \<Longrightarrow> semver_satisfies t spec = Some True \<Longrightarrow>
      the (parse_semver t) \<le> the (parse_semver s)"
proof -
  define cs where "cs = sort_key fst (npm_candidates spec versions)"
  from assms have ne: "cs \<noteq> []" and s: "s = snd (last cs)"
    by (auto simp: npm_max_satisfying_def cs_def Let_def split: if_splits)
  from last_in_set [OF ne] have "last cs \<in> set (npm_candidates spec versions)" by (simp add: cs_def)
  then have l: "(fst (last cs), s) \<in> set (npm_candidates spec versions)" by (simp add: s)
  then show "s \<in> set versions" "semver_satisfies s spec = Some True"
    by (simp_all add: npm_candidates_mem)
  assume t: "t \<in> set versions" "semver_satisfies t spec = Some True"
  from satisfies_parses [OF t(2)] obtain v where v: "parse_semver t = Some v" by blast
  with t have "(v, t) \<in> set cs" by (simp add: cs_def npm_candidates_mem)
  then obtain i where i: "i < length cs" "cs ! i = (v, t)" by (auto simp: in_set_conv_nth)
  have "sorted (map fst cs)" by (simp add: cs_def)
  from sorted_nth_mono [OF this, of i "length cs - 1"] i ne have "v \<le> fst (last cs)"
    by (simp add: last_conv_nth)
  with l v show "the (parse_semver t) \<le> the (parse_semver s)" by (simp add: npm_candidates_mem)
qed

lemma npm_max_none:
  "npm_max_satisfying spec versions = None \<longleftrightarrow> (\<forall>s\<in>set versions. semver_satisfies s spec \<noteq> Some True)"
proof -
  have "npm_candidates spec versions = [] \<longleftrightarrow> (\<forall>p. p \<notin> set (npm_candidates spec versions))"
    by (cases "npm_candidates spec versions") auto
  also have "\<dots> \<longleftrightarrow> (\<forall>s\<in>set versions. semver_satisfies s spec \<noteq> Some True)"
    using satisfies_parses [of _ spec True] npm_candidates_mem [of _ _ spec versions]
    by (metis option.exhaust surj_pair)
  finally have "npm_candidates spec versions = []
      \<longleftrightarrow> (\<forall>s\<in>set versions. semver_satisfies s spec \<noteq> Some True)" .
  moreover have "sort_key fst xs = [] \<longleftrightarrow> xs = []" for xs :: "(semver \<times> string) list"
    by (metis set_empty set_sort)
  then have "npm_max_satisfying spec versions = None \<longleftrightarrow> npm_candidates spec versions = []"
    by (simp add: npm_max_satisfying_def Let_def)
  ultimately show ?thesis by simp
qed

subsection \<open>The search is bounded\<close>

lemma analyze_one_fields:
  "analyze_one_dep_history env name spec eco depth path ranges = Inr (r, resolved) \<Longrightarrow>
    dr_name r = name \<and> dr_depth r = depth \<and> dr_path r = path"
  by (auto simp: analyze_one_dep_history_def Let_def bindE_Inr_iff split: if_splits list.splits)

definition bfs_ok :: "nat \<Rightarrow> nat \<Rightarrow> string list \<Rightarrow> dep_result list \<Rightarrow> bool" where
  "bfs_ok max_depth max_packages visited results =
     (length results \<le> max_packages \<and> distinct (map (py_lower \<circ> dr_name) results)
      \<and> set visited = set (map (py_lower \<circ> dr_name) results)
      \<and> (\<forall>r\<in>set results. 1 \<le> dr_depth r \<and> dr_depth r \<le> max_depth
           \<and> length (dr_path r) + 1 = dr_depth r))"

definition item_ok :: "nat \<Rightarrow> dep_item \<Rightarrow> bool" where
  "item_ok max_depth it = (case it of (name, spec, depth, path) \<Rightarrow>
     1 \<le> depth \<and> depth \<le> max_depth \<and> length path + 1 = depth)"

lemma child_items_ok:
  "item_ok max_depth it \<Longrightarrow> c \<in> set (child_items env eco max_depth visited it resolved) \<Longrightarrow>
    item_ok max_depth c"
  by (auto simp: child_items_def item_ok_def split: prod.splits option.splits if_splits)

lemma bfs_ok_step:
  assumes "bfs_ok md mp visited results" and "\<not> length results \<ge> mp"
    and "py_lower name \<notin> set visited" and "item_ok md (name, spec, depth, path)"
    and "dr_name r = name" "dr_depth r = depth" "dr_path r = path"
  shows "bfs_ok md mp (py_lower name # visited) (results @ [r])"
  using assms by (auto simp: bfs_ok_def item_ok_def)

lemma bfs_bounded:
  assumes "bfs_ok md mp visited results" and "\<forall>it\<in>set todo. item_ok md it"
  shows "\<exists>vis. bfs_ok md mp vis (bfs env eco ranges md mp visited results todo)"
  using assms
proof (induction env eco ranges md mp visited results todo rule: bfs.induct)
  case (2 env eco ranges md mp visited results name spec depth path todo)
  let ?it = "(name, spec, depth, path)"
  show ?case
  proof (cases "length results \<ge> mp \<or> py_lower name \<in> set visited")
    case True
    with 2 show ?thesis by auto
  next
    case False
    show ?thesis
    proof (cases "analyze_one_dep_history env name spec eco depth path ranges")
      case (Inl e)
      have "bfs_ok md mp (py_lower name # visited) (results @ [skipped_dep name spec e depth path])"
        using False 2(4,5) by (intro bfs_ok_step [where name = name and spec = spec]) (auto simp: skipped_dep_def)
      from 2(2) [OF _ _ refl Inl this] False Inl 2(5) show ?thesis by (simp add: Let_def)
    next
      case (Inr p)
      obtain r resolved where p: "p = (r, resolved)" by fastforce
      note fields = analyze_one_fields [OF Inr [unfolded p]]
      have ok: "bfs_ok md mp (py_lower name # visited) (results @ [r])"
        using False 2(4,5) fields by (intro bfs_ok_step [where name = name and spec = spec]) auto
      have items: "\<forall>it\<in>set (todo @ child_items env eco md (py_lower name # visited) ?it resolved). item_ok md it"
        using 2(5) child_items_ok [of md ?it] by auto
      from 2(3) [OF _ _ refl Inr p [symmetric] ok] items False Inr p show ?thesis by (simp add: Let_def)
    qed
  qed
qed auto

lemma skipped_dep_fields [simp]:
  "dr_name (skipped_dep name spec e depth path) = name"
  "dr_depth (skipped_dep name spec e depth path) = depth"
  "dr_path (skipped_dep name spec e depth path) = path"
  by (simp_all add: skipped_dep_def)

lemma covers_step:
  assumes "length R < mp \<Longrightarrow> (\<forall>(n, x)\<in>set (todo @ extra). py_lower n \<in> set (map (py_lower \<circ> dr_name) R))
      \<and> set (results @ [r]) \<subseteq> set R"
    and "length R < mp" and "dr_name r = name"
  shows "(\<forall>(n, x)\<in>set ((name, spec, depth, path) # todo). py_lower n \<in> set (map (py_lower \<circ> dr_name) R))
      \<and> set results \<subseteq> set R"
  using assms(1) [OF assms(2)] assms(3) by auto

text \<open>Unless the cap is reached, every entry of the worklist has a result.\<close>

lemma bfs_covers:
  assumes "set visited = set (map (py_lower \<circ> dr_name) results)"
    and "length (bfs env eco ranges md mp visited results todo) < mp"
  shows "(\<forall>(name, x)\<in>set todo. py_lower name
            \<in> set (map (py_lower \<circ> dr_name) (bfs env eco ranges md mp visited results todo)))
     \<and> set results \<subseteq> set (bfs env eco ranges md mp visited results todo)"
  using assms
proof (induction env eco ranges md mp visited results todo rule: bfs.induct)
  case (2 env eco ranges md mp visited results name spec depth path todo)
  show ?case
  proof (cases "length results \<ge> mp")
    case True
    with 2 show ?thesis by auto
  next
    case nfull: False
    show ?thesis
    proof (cases "py_lower name \<in> set visited")
      case True
      with 2(1) [OF nfull True 2(4)] 2(4,5) nfull show ?thesis by auto
    next
      case new: False
      show ?thesis
      proof (cases "analyze_one_dep_history env name spec eco depth path ranges")
        case (Inl e)
        have "set (py_lower name # visited)
            = set (map (py_lower \<circ> dr_name) (results @ [skipped_dep name spec e depth path]))"
          using 2(4) by simp
        note ih = 2(2) [OF nfull new refl Inl this]
        have eq: "bfs env eco ranges md mp visited results ((name, spec, depth, path) # todo)
            = bfs env eco ranges md mp (py_lower name # visited)
                (results @ [skipped_dep name spec e depth path]) todo"
          using nfull new Inl by (simp add: Let_def)
        show ?thesis unfolding eq by (rule covers_step [where extra = "[]"
                and r = "skipped_dep name spec e depth path"]) (use ih 2(5) eq in simp_all)
      next
        case (Inr p)
        obtain r resolved where p: "p = (r, resolved)" by fastforce
        note fields = analyze_one_fields [OF Inr [unfolded p]]
        have "set (py_lower name # visited) = set (map (py_lower \<circ> dr_name) (results @ [r]))"
          using 2(4) fields by simp
        note ih = 2(3) [OF nfull new refl Inr p [symmetric] this]
        have eq: "bfs env eco ranges md mp visited results ((name, spec, depth, path) # todo)
            = bfs env eco ranges md mp (py_lower name # visited) (results @ [r])
                (todo @ child_items env eco md (py_lower name # visited) (name, spec, depth, path)
                   resolved)"
          using nfull new Inr p by (simp add: Let_def)
        show ?thesis unfolding eq by (rule covers_step [where r = r
                and extra = "child_items env eco md (py_lower name # visited) (name, spec, depth, path) resolved"])
              (use ih 2(5) eq fields in simp_all)
      qed
    qed
  qed
qed simp

subsection \<open>Properties\<close>

text \<open>A PEP 735 dependency group expands to exactly the requirements of the groups it reaches
  through \<^verbatim>\<open>include-group\<close>, cycles included, as long as the table has no more non-empty groups
  than the depth limit.\<close>
theorem group_expansion_exact:
  assumes "card {n. group_items g n \<noteq> []} \<le> max_depth"
    and "(name, rs) \<in> set (expand_pep735_groups max_depth g)"
  shows "set rs = {s. \<exists>m. (group_refs g)\<^sup>*\<^sup>* name m \<and> s \<in> group_strs g m} \<and> distinct rs"
proof -
  from assms(2) have rs: "rs = resolve_group g max_depth [] name"
    by (auto simp: expand_pep735_groups_def)
  have "card (group_names g) \<le> max_depth" using assms(1) by (simp add: group_names_def)
  from resolve_group_iff [OF this] show ?thesis
    unfolding rs by (auto simp: resolve_group_distinct)
qed

definition sample_groups :: pydict where
  "sample_groups = [(''a'', PList [PStr ''x'', PDict [(''include-group'', PStr ''b'')]]),
     (''b'', PList [PDict [(''include-group'', PStr ''a'')], PStr ''y''])]"

theorem group_expansion_exact_witness:
  "set [''x'', ''y''] = {s. \<exists>m. (group_refs sample_groups)\<^sup>*\<^sup>* ''b'' m \<and> s \<in> group_strs sample_groups m}
    \<and> distinct [''x'', ''y'']"
proof -
  have sub: "{n. group_items sample_groups n \<noteq> []} \<subseteq> {''a'', ''b''}"
    by (auto simp: sample_groups_def group_items_def split: if_splits)
  have "card {''a'', ''b''} = 2" by simp
  with card_mono [OF _ sub] have card: "card {n. group_items sample_groups n \<noteq> []} \<le> 3" by simp
  have mem: "(''b'', [''x'', ''y'']) \<in> set (expand_pep735_groups 3 sample_groups)"
    by (simp add: expand_pep735_groups_def sample_groups_def dict_keys_def d_get_def numeral_3_eq_3)
  show ?thesis by (rule group_expansion_exact [OF card mem])
qed

text \<open>The npm ranges are the intervals npm documents: \<^verbatim>\<open>^b\<close> from \<open>b\<close> up to the next
  change of the first non-zero of major and minor, \<^verbatim>\<open>~b\<close> from \<open>b\<close> up to the next minor. (For
  \<^verbatim>\<open>^0.0.z\<close> the code accepts every later patch, where npm accepts only \<^verbatim>\<open>0.0.z\<close>.)\<close>
theorem npm_range_intervals:
  "(semver_caret v b \<longleftrightarrow> b \<le> v \<and> v < caret_upper b) \<and> (semver_tilde v b \<longleftrightarrow> b \<le> v \<and> v < tilde_upper b)"
  using semver_caret_range semver_tilde_range by blast

text \<open>The version chosen for an npm range is one of the registry's, satisfies the range, and no
  other satisfying version is newer; nothing is chosen only when no version satisfies the range.\<close>
theorem npm_choice_is_maximal:
  "case npm_max_satisfying spec versions of
     None \<Rightarrow> \<not> (\<exists>s\<in>set versions. semver_satisfies s spec = Some True)
   | Some s \<Rightarrow> s \<in> set versions \<and> semver_satisfies s spec = Some True
       \<and> \<not> (\<exists>t\<in>set versions. semver_satisfies t spec = Some True
              \<and> the (parse_semver s) < the (parse_semver t))"
proof (cases "npm_max_satisfying spec versions")
  case None
  with npm_max_none [of spec versions] show ?thesis by simp
next
  case (Some s)
  with npm_max_some [OF Some] show ?thesis by (auto simp: not_less)
qed

text \<open>C30: The transitive analysis is bounded whatever the registry answers: at most
  \<open>max_packages\<close> results, no name twice (in any case), depths between 1 and \<open>max_depth\<close>, and each
  result's path has one parent per level above it.\<close>
theorem dependency_walk_bounded:
  assumes "1 \<le> max_depth"
    and "rs = analyze_dependencies env dx eco max_depth max_packages True ranges"
  shows "length rs \<le> max_packages \<and> distinct (map (py_lower \<circ> dr_name) rs)
    \<and> (\<forall>r\<in>set rs. 1 \<le> dr_depth r \<and> dr_depth r \<le> max_depth \<and> length (dr_path r) + 1 = dr_depth r)"
proof -
  have "bfs_ok max_depth max_packages [] []" by (simp add: bfs_ok_def)
  from bfs_bounded [OF this, of "map (\<lambda>d. (dp_name d, dp_spec d, 1, [])) (dx_direct dx @ dx_dev dx)" env eco ranges]
  obtain vis where "bfs_ok max_depth max_packages vis rs"
    using assms by (auto simp: analyze_dependencies_def item_ok_def)
  then show ?thesis by (simp add: bfs_ok_def)
qed

definition sample_graph :: graph_env where
  "sample_graph =
     \<lparr>ge_versions = \<lparr>ve_pypi_max = (\<lambda>s vs. None), ve_registry = (\<lambda>n e. (Some ''1.0.0'', [''1.0.0'']))\<rparr>,
      ge_history = (\<lambda>n e v. Inr \<lparr>hi_error = None, hi_exact = [], hi_historical = [], hi_typosquat = []\<rparr>),
      ge_children = (\<lambda>n v e. Inr [(''Flatmap'', ''*'')]),
      ge_pipeline = (\<lambda>n e. Inl (ValueError ''offline''))\<rparr>"

definition sample_deps :: dependency_extraction where
  "sample_deps = \<lparr>dx_direct = [\<lparr>dp_name = ''event-stream'', dp_spec = ''^3.0.0'', dp_source_file = ''package.json''\<rparr>],
     dx_dev = [], dx_errors = []\<rparr>"

theorem dependency_walk_bounded_witness:
  "length (analyze_dependencies sample_graph sample_deps NPM 2 30 True True) \<le> 30
   \<and> distinct (map (py_lower \<circ> dr_name) (analyze_dependencies sample_graph sample_deps NPM 2 30 True True))
   \<and> list_all (\<lambda>r. 1 \<le> dr_depth r \<and> dr_depth r \<le> 2 \<and> length (dr_path r) + 1 = dr_depth r)
       (analyze_dependencies sample_graph sample_deps NPM 2 30 True True)"
  using dependency_walk_bounded [of 2, OF _ refl, of sample_graph sample_deps NPM 30 True]
  by (simp only: list_all_iff) simp

text \<open>Below the package cap the walk misses nothing it was given: every declared dependency,
  runtime or development, has a result.\<close>
theorem dependency_walk_covers:
  assumes "length (analyze_dependencies env dx eco max_depth max_packages True ranges) < max_packages"
    and "d \<in> set (dx_direct dx) \<union> set (dx_dev dx)"
  shows "\<exists>r\<in>set (analyze_dependencies env dx eco max_depth max_packages True ranges).
    py_lower (dr_name r) = py_lower (dp_name d)"
proof -
  define todo :: "dep_item list" where "todo = map (\<lambda>d. (dp_name d, dp_spec d, 1, [])) (dx_direct dx @ dx_dev dx)"
  have eq: "analyze_dependencies env dx eco max_depth max_packages True ranges
      = bfs env eco ranges max_depth max_packages [] [] todo"
    by (simp add: analyze_dependencies_def todo_def)
  have "(dp_name d, dp_spec d, 1, []) \<in> set todo" using assms(2) by (auto simp: todo_def)
  with bfs_covers [of "[]" "[]" env eco ranges max_depth max_packages todo] assms(1)
  have "py_lower (dp_name d)
      \<in> set (map (py_lower \<circ> dr_name) (bfs env eco ranges max_depth max_packages [] [] todo))"
    unfolding eq by auto
  then show ?thesis unfolding eq by auto
qed

theorem dependency_walk_covers_witness:
  "\<exists>r\<in>set (analyze_dependencies sample_graph sample_deps NPM 2 30 True True).
    py_lower (dr_name r) = py_lower ''event-stream''"
proof -
  have "length (analyze_dependencies sample_graph sample_deps NPM 2 30 True True) < 30"
    by (simp add: analyze_dependencies_def sample_deps_def sample_graph_def analyze_one_dep_history_def
        resolve_dep_version_def extract_pinned_version_def child_items_def Let_def bindE_def try_else_def
        max_satisfying_def npm_max_satisfying_def py_lower_def lower_char_def is_space_def is_digit_def
        truthy_opt_def npm_candidates_def semver_satisfies_def parse_semver_def py_strip_def
        semver_simple_def semver_caret_def digits_value_def py_isdigit_def sublist_code)
  from dependency_walk_covers [OF this, of "hd (dx_direct sample_deps)"] show ?thesis
    by (simp add: sample_deps_def)
qed

end
