(* ===== verification/TtpMatch.thy ===== *)
theory TtpMatch
  imports Behavior
begin

text \<open>
  Stage 4 (\<^verbatim>\<open>stages/stage4_rules.py\<close>, \<^verbatim>\<open>stages/stage4_ttp_match.py\<close>, \<^verbatim>\<open>evidence/snippets.py\<close>):
  the fixed behaviour rules, the sentence a call sequence becomes, and the matches of both. The
  embedding index is not part of the repository's own code: \<open>load_index\<close> gives its top-k query,
  or the exception of loading it.
\<close>

subsection \<open>Behaviour rules\<close>

record behavior_rule =
  br_required_dims :: "attack_dimension list"
  br_ttp_id :: string
  br_ttp_name :: string
  br_severity :: severity
  br_reason :: string

definition RULES :: "behavior_rule list" where
  "RULES =
     [\<lparr>br_required_dims = [INFORMATION_READING, DATA_TRANSMISSION], br_ttp_id = ''T1552.001'',
       br_ttp_name = ''Unsecured Credentials: Credentials In Files'', br_severity = SevHIGH,
       br_reason = ''Sensitive information is read and transmitted externally''\<rparr>,
      \<lparr>br_required_dims = [INFORMATION_READING, ENCODING, DATA_TRANSMISSION],
       br_ttp_id = ''T1048.003'',
       br_ttp_name = ''Exfiltration Over Unencrypted Non-C2 Protocol'', br_severity = SevHIGH,
       br_reason = ''Information is read, encoded, and transmitted -- classic exfil pattern''\<rparr>,
      \<lparr>br_required_dims = [ENCODING, PAYLOAD_EXECUTION], br_ttp_id = ''T1027'',
       br_ttp_name = ''Obfuscated Files or Information'', br_severity = SevHIGH,
       br_reason = ''Decoded/obfuscated content is executed dynamically''\<rparr>,
      \<lparr>br_required_dims = [DATA_TRANSMISSION, PAYLOAD_EXECUTION], br_ttp_id = ''T1105'',
       br_ttp_name = ''Ingress Tool Transfer'', br_severity = SevHIGH,
       br_reason = ''Content is fetched from a remote endpoint then executed''\<rparr>,
      \<lparr>br_required_dims = [PAYLOAD_EXECUTION], br_ttp_id = ''T1059'',
       br_ttp_name = ''Command and Scripting Interpreter'', br_severity = SevMEDIUM,
       br_reason = ''Dynamic code/shell execution detected''\<rparr>]"

record rule_hit =
  rh_rule :: behavior_rule
  rh_file_path :: string
  rh_matched_dims :: "attack_dimension list"
  rh_matched_calls :: "string list"

definition apply_rules :: "file_sequence \<Rightarrow> rule_hit list" where
  "apply_rules f =
     (if fq_calls f = [] then []
      else map (\<lambda>rule. \<lparr>rh_rule = rule, rh_file_path = fq_path f,
                        rh_matched_dims = br_required_dims rule,
                        rh_matched_calls = map ac_name (fq_calls f)\<rparr>)
             (filter (\<lambda>rule. set (br_required_dims rule) \<subseteq> set (fq_dimensions f)) RULES))"

definition technique_url :: "string \<Rightarrow> string" where
  "technique_url ttp = ''https://attack.mitre.org/techniques/'' @ hd (split_on (CHR ''.'') ttp) @ ''/''"

text \<open>\<open>now\<close> is the time the entry is made, its \<^verbatim>\<open>collected_at\<close>.\<close>

definition rule_hit_to_ttp_entry :: "string \<Rightarrow> rule_hit \<Rightarrow> ttp_entry" where
  "rule_hit_to_ttp_entry now h =
     \<lparr>ttp_id = br_ttp_id (rh_rule h), ttp_name = br_ttp_name (rh_rule h),
      ttp_source = MITRE_ATTACK, ttp_kb_version = ''rule-based'',
      ttp_description = br_reason (rh_rule h), ttp_detection_hints = [], ttp_mitigations = [],
      ttp_severity = br_severity (rh_rule h), ttp_url = technique_url (br_ttp_id (rh_rule h)),
      ttp_embedding = None, ttp_collected_at = now\<rparr>"

subsection \<open>Matches\<close>

definition STRONG_THRESHOLD :: rat where
  "STRONG_THRESHOLD = 70 / 100"

definition VERY_STRONG_THRESHOLD :: rat where
  "VERY_STRONG_THRESHOLD = 85 / 100"

record ttp_match =
  tm_file_path :: string
  tm_sequence :: "string list"
  tm_dimensions :: "attack_dimension list"
  tm_ttp :: ttp_entry
  tm_similarity :: rat
  tm_sequence_text :: string

definition ttp_match_to_dict :: "ttp_match \<Rightarrow> pyval" where
  "ttp_match_to_dict m = PDict
     [(''file_path'', PStr (tm_file_path m)),
      (''sequence'', pstrs (tm_sequence m)),
      (''dimensions'', PList (map (\<lambda>d. PStr (dimension_value d)) (tm_dimensions m))),
      (''ttp'', ttp_to_dict (tm_ttp m)),
      (''similarity'', PFloat (tm_similarity m)),
      (''sequence_text'', PStr (tm_sequence_text m))]"

definition ttp_match_from_dict :: "(string \<Rightarrow> string option) \<Rightarrow> string \<Rightarrow> pyval \<Rightarrow> pyexn + ttp_match" where
  "ttp_match_from_dict parse_iso now v =
     bindE (as_dict v) (\<lambda>d.
     bindE (bindE (d_item d ''file_path'') as_str) (\<lambda>p.
     bindE (as_strs (d_get d ''sequence'' (PList []))) (\<lambda>s.
     bindE (bindE (as_list (d_get d ''dimensions'' (PList [])))
              (mapE (enum_pv dimensions_all dimension_value))) (\<lambda>ds.
     bindE (bindE (d_item d ''ttp'') (ttp_from_dict parse_iso now)) (\<lambda>t.
     bindE (as_float (d_get d ''similarity'' (PFloat 0))) (\<lambda>sim.
     bindE (as_str (d_get d ''sequence_text'' (PStr []))) (\<lambda>txt.
     Inr \<lparr>tm_file_path = p, tm_sequence = s, tm_dimensions = ds, tm_ttp = t, tm_similarity = sim,
          tm_sequence_text = txt\<rparr>)))))))"

record ttp_match_report =
  tmr_matches :: "ttp_match list"

definition has_strong_match :: "ttp_match_report \<Rightarrow> bool" where
  "has_strong_match r = list_ex (\<lambda>m. tm_similarity m \<ge> VERY_STRONG_THRESHOLD) (tmr_matches r)"

definition ttp_report_to_dict :: "ttp_match_report \<Rightarrow> pyval" where
  "ttp_report_to_dict r = PDict [(''matches'', PList (map ttp_match_to_dict (tmr_matches r)))]"

definition ttp_report_from_dict ::
  "(string \<Rightarrow> string option) \<Rightarrow> string \<Rightarrow> pyval \<Rightarrow> pyexn + ttp_match_report" where
  "ttp_report_from_dict parse_iso now v =
     bindE (as_dict v) (\<lambda>d.
     bindE (bindE (as_list (d_get d ''matches'' (PList []))) (mapE (ttp_match_from_dict parse_iso now)))
       (\<lambda>ms. Inr \<lparr>tmr_matches = ms\<rparr>))"

fun dim_phrase :: "attack_dimension \<Rightarrow> string" where
  "dim_phrase INFORMATION_READING = ''read sensitive data''"
| "dim_phrase ENCODING = ''obfuscate or encode content''"
| "dim_phrase PAYLOAD_EXECUTION = ''execute dynamic code''"
| "dim_phrase DATA_TRANSMISSION = ''transmit data to remote endpoint''"

definition sequence_to_text :: "file_sequence \<Rightarrow> string" where
  "sequence_to_text f =
     (if fq_calls f = [] then []
      else ''The following behavior sequence in '' @ fq_path f @ '' ('' @ fq_language f @ '') performs: ''
        @ py_join '', '' (map dim_phrase (fq_dimensions f)) @ ''. Call chain: ''
        @ py_join '' -> '' (map ac_name (fq_calls f)))"

text \<open>The index: loading it may raise, and so may a query (text, k).\<close>

type_synonym ttp_index = "string \<Rightarrow> nat \<Rightarrow> pyexn + (ttp_entry \<times> rat) list"

definition match_file ::
  "(rule_hit \<Rightarrow> string) \<Rightarrow> ttp_index \<Rightarrow> nat \<Rightarrow> file_sequence \<Rightarrow> pyexn + ttp_match list" where
  "match_file clock index top_k f =
     (if fq_calls f = [] then Inr []
      else let text = sequence_to_text f;
               mk = (\<lambda>t sim txt. \<lparr>tm_file_path = fq_path f, tm_sequence = fq_sequence f,
                       tm_dimensions = fq_dimensions f, tm_ttp = t, tm_similarity = sim,
                       tm_sequence_text = txt\<rparr>)
      in bindE (index text top_k) (\<lambda>hits.
        Inr (map (\<lambda>(t, sim). mk t sim text) (filter (\<lambda>(t, sim). \<not> sim < STRONG_THRESHOLD) hits)
             @ map (\<lambda>h. mk (rule_hit_to_ttp_entry (clock h) h) 1
                          (''[rule] '' @ br_reason (rh_rule h))) (apply_rules f))))"

definition match_ttps ::
  "(rule_hit \<Rightarrow> string) \<Rightarrow> (pyexn + ttp_index) \<Rightarrow> nat \<Rightarrow> behavior_report \<Rightarrow> pyexn + ttp_match_report" where
  "match_ttps clock load_index top_k b =
     bindE load_index (\<lambda>index.
     bindE (mapE (match_file clock index top_k) (bh_files b)) (\<lambda>mss.
     Inr \<lparr>tmr_matches = concat mss\<rparr>))"

subsection \<open>Snippets and confidence\<close>

definition find_file_seq :: "behavior_report \<Rightarrow> string \<Rightarrow> file_sequence option" where
  "find_file_seq b path = List.find (\<lambda>f. fq_path f = path) (bh_files b)"

definition snippet_for :: "nat \<Rightarrow> file_sequence \<Rightarrow> string" where
  "snippet_for max_lines f =
     (if fq_calls f = [] then [] else py_join newline (map ac_snippet (take max_lines (fq_calls f))))"

definition match_confidence :: "ttp_match \<Rightarrow> llm_verdict \<Rightarrow> rat" where
  "match_confidence m v =
     (let base = tm_similarity m in
      if v = LlmMALICIOUS then min 1 (base + 10/100)
      else if v = LlmSUSPICIOUS then min 1 (base + 5/100)
      else max 0 (base - 5/100))"

subsection \<open>Lemmas\<close>

lemma ttp_match_roundtrip:
  assumes "ttp_collected_at (tm_ttp m) \<noteq> []"
    and "parse_iso (ttp_collected_at (tm_ttp m)) = Some (ttp_collected_at (tm_ttp m))"
  shows "ttp_match_from_dict parse_iso now (ttp_match_to_dict m) = Inr m"
proof -
  have "mapE (enum_pv dimensions_all dimension_value) (map (\<lambda>d. PStr (dimension_value d)) ds) = Inr ds"
    for ds by (rule mapE_map') (simp add: dim_enum.of_val del: set_simps)
  with ttp_roundtrip [where parse_iso = parse_iso and t = "tm_ttp m" and now = now, OF assms] show ?thesis
    by (simp add: ttp_match_from_dict_def ttp_match_to_dict_def)
qed

lemma ttp_report_roundtrip:
  assumes "\<And>m. m \<in> set (tmr_matches r) \<Longrightarrow> ttp_collected_at (tm_ttp m) \<noteq> []
      \<and> parse_iso (ttp_collected_at (tm_ttp m)) = Some (ttp_collected_at (tm_ttp m))"
  shows "ttp_report_from_dict parse_iso now (ttp_report_to_dict r) = Inr r"
  using mapE_map [of "tmr_matches r" "ttp_match_from_dict parse_iso now" ttp_match_to_dict]
    ttp_match_roundtrip assms
  by (simp add: ttp_report_from_dict_def ttp_report_to_dict_def)

lemma mapE_Inr_mem:
  "mapE f xs = Inr ys \<Longrightarrow> y \<in> set ys \<Longrightarrow> \<exists>x\<in>set xs. f x = Inr y"
  by (induction xs arbitrary: ys) (auto simp: bindE_Inr_iff)

lemma mapE_Inr_each:
  "mapE f xs = Inr ys \<Longrightarrow> x \<in> set xs \<Longrightarrow> \<exists>y\<in>set ys. f x = Inr y"
  by (induction xs arbitrary: ys) (auto simp: bindE_Inr_iff)

lemma apply_rules_mem:
  "h \<in> set (apply_rules f) \<longleftrightarrow> fq_calls f \<noteq> [] \<and> (\<exists>r\<in>set RULES.
     set (br_required_dims r) \<subseteq> ac_dimension ` set (fq_calls f)
     \<and> h = \<lparr>rh_rule = r, rh_file_path = fq_path f, rh_matched_dims = br_required_dims r,
           rh_matched_calls = map ac_name (fq_calls f)\<rparr>)"
  by (auto simp: apply_rules_def fq_dimensions_def)

text \<open>Where a match comes from.\<close>

lemma match_file_mem:
  assumes "match_file clock index k f = Inr ms"
  shows "m \<in> set ms \<longleftrightarrow> fq_calls f \<noteq> []
    \<and> tm_file_path m = fq_path f \<and> tm_sequence m = fq_sequence f \<and> tm_dimensions m = fq_dimensions f
    \<and> ((\<exists>hits. index (sequence_to_text f) k = Inr hits \<and> (tm_ttp m, tm_similarity m) \<in> set hits
          \<and> STRONG_THRESHOLD \<le> tm_similarity m \<and> tm_sequence_text m = sequence_to_text f)
       \<or> (\<exists>h\<in>set (apply_rules f). tm_ttp m = rule_hit_to_ttp_entry (clock h) h \<and> tm_similarity m = 1
            \<and> tm_sequence_text m = ''[rule] '' @ br_reason (rh_rule h)))"
proof (cases "fq_calls f = []")
  case False
  with assms obtain hits where hits: "index (sequence_to_text f) k = Inr hits"
    by (auto simp: match_file_def Let_def bindE_Inr_iff)
  show ?thesis
    using assms False hits by (cases m) (auto simp: match_file_def Let_def image_iff)
qed (use assms in \<open>simp add: match_file_def\<close>)

end
