(* ===== verification/Anomaly.thy ===== *)
theory Anomaly
  imports Behavior
begin

text \<open>
  The category baseline (\<^verbatim>\<open>knowledge/anomaly_baseline.py\<close>): a package whose name or description
  suggests a parser, formatter, date or math library should not transmit, execute or encode.
\<close>

record anomaly_category =
  ct_name :: string
  ct_description :: string
  ct_keywords :: "string list"
  ct_allowed_dimensions :: "attack_dimension list"
  ct_disallowed_apis :: "string list"

definition CATEGORIES :: "anomaly_category list" where
  "CATEGORIES =
     [\<lparr>ct_name = ''parser'', ct_description = utf8 [74, 83, 79, 78, 47, 89, 65, 77, 76,
      47, 67, 83, 86, 47, 88, 77, 76, 32, 235, 147, 177, 32, 235, 141, 176, 236, 157, 180, 237,
      132, 176, 32, 237, 140, 140, 236, 132, 156], ct_keywords = [''json'', ''yaml'', ''csv'',
      ''xml'', ''toml'', ''parser'', ''parse''], ct_allowed_dimensions = [INFORMATION_READING],
      ct_disallowed_apis = [''requests.post'', ''requests.get'', ''subprocess.run'',
      ''subprocess.Popen'', ''os.system'', ''child_process.exec'', ''child_process.spawn'',
      ''http.request'', ''https.request'', ''fetch'', ''eval'', ''exec'']\<rparr>,
      \<lparr>ct_name = ''formatter'', ct_description = utf8 [235, 161, 156, 234, 183, 184, 47,
      235, 172, 184, 236, 158, 144, 236, 151, 180, 32, 237, 143, 172, 235, 167, 164, 237, 132,
      176, 44, 32, 236, 131, 137, 236, 131, 129, 32, 235, 157, 188, 236, 157, 180, 235, 184,
      140, 235, 159, 172, 235, 166, 172, 32, 235, 147, 177], ct_keywords = [''format'',
      ''color'', ''log'', ''chalk'', ''ansi'', ''style''], ct_allowed_dimensions = [],
      ct_disallowed_apis = [''requests.post'', ''requests.get'', ''subprocess.run'',
      ''subprocess.Popen'', ''http.request'', ''fetch'', ''eval'', ''exec'', ''os.environ.get'',
      ''process.env'']\<rparr>,
      \<lparr>ct_name = ''date_utility'', ct_description = utf8 [235, 130, 160, 236, 167, 156,
      47, 236, 139, 156, 234, 176, 132, 32, 236, 156, 160, 237, 139, 184, 235, 166, 172, 237,
      139, 176], ct_keywords = [''date'', ''time'', ''moment'', ''dayjs'', ''luxon'',
      ''timezone''], ct_allowed_dimensions = [], ct_disallowed_apis = [''requests.post'',
      ''subprocess.run'', ''http.request'', ''fetch'', ''eval'', ''exec'',
      ''os.environ.get'']\<rparr>,
      \<lparr>ct_name = ''math_utility'', ct_description = utf8 [236, 136, 152, 237, 149, 153,
      47, 237, 134, 181, 234, 179, 132, 32, 236, 156, 160, 237, 139, 184, 235, 166, 172, 237,
      139, 176], ct_keywords = [''math'', ''stat'', ''random'', ''number'', ''calc''],
      ct_allowed_dimensions = [], ct_disallowed_apis = [''requests.post'', ''subprocess.run'',
      ''os.environ.get'', ''http.request'', ''fetch'', ''eval'', ''exec'']\<rparr>]"

definition guess_category :: "string \<Rightarrow> string \<Rightarrow> anomaly_category option" where
  "guess_category package_name description =
     (let text = py_lower (package_name @ '' '' @ description) in
      List.find (\<lambda>cat. list_ex (\<lambda>kw. contains kw text) (ct_keywords cat)) CATEGORIES)"

record anomaly_finding =
  af_category :: string
  af_file_path :: string
  af_unexpected_apis :: "string list"
  af_unexpected_dimensions :: "attack_dimension list"
  af_reason :: string

definition unexpected_dim :: "anomaly_category \<Rightarrow> attack_dimension \<Rightarrow> bool" where
  "unexpected_dim cat d =
     (d \<notin> set (ct_allowed_dimensions cat) \<and> d \<in> set [DATA_TRANSMISSION, PAYLOAD_EXECUTION, ENCODING])"

definition anomaly_reason :: "anomaly_category \<Rightarrow> string list \<Rightarrow> attack_dimension list \<Rightarrow> string" where
  "anomaly_reason cat apis dims =
     ''Package classified as '' @ py_repr (ct_name cat) @ '' ('' @ ct_description cat
     @ '') but exhibits APIs/dimensions that are atypical for this category. Unexpected APIs: ''
     @ py_repr_list (take 5 apis) @ '', Unexpected dimensions: ''
     @ py_repr_list (map dimension_value dims)"

definition check_anomaly :: "file_sequence \<Rightarrow> anomaly_category \<Rightarrow> anomaly_finding option" where
  "check_anomaly f cat =
     (let apis = filter (\<lambda>n. n \<in> set (ct_disallowed_apis cat)) (map ac_name (fq_calls f));
          dims = dedup_first (filter (unexpected_dim cat) (map ac_dimension (fq_calls f)))
      in if apis = [] \<and> dims = [] then None
         else Some \<lparr>af_category = ct_name cat, af_file_path = fq_path f,
                    af_unexpected_apis = sorted_set apis, af_unexpected_dimensions = dims,
                    af_reason = anomaly_reason cat (sorted_set apis) dims\<rparr>)"

definition detect_anomalies :: "string \<Rightarrow> string \<Rightarrow> file_sequence list \<Rightarrow> anomaly_finding list" where
  "detect_anomalies package_name description fs =
     (case guess_category package_name description of
        None \<Rightarrow> []
      | Some cat \<Rightarrow> concat (map (\<lambda>f. case check_anomaly f cat of None \<Rightarrow> [] | Some x \<Rightarrow> [x]) fs))"

lemma anomaly_apis_sound:
  assumes "check_anomaly f cat = Some a"
  shows "set (af_unexpected_apis a) = set (ct_disallowed_apis cat) \<inter> ac_name ` set (fq_calls f)"
    and "set (af_unexpected_dimensions a)
      = {d \<in> ac_dimension ` set (fq_calls f). unexpected_dim cat d}"
  using assms by (auto simp: check_anomaly_def Let_def split: if_splits)

lemma detect_anomalies_mem:
  "a \<in> set (detect_anomalies p d fs) \<longleftrightarrow>
     (\<exists>cat f. guess_category p d = Some cat \<and> f \<in> set fs \<and> check_anomaly f cat = Some a)"
proof (cases "guess_category p d")
  case (Some cat)
  have one: "a \<in> set (case m of None \<Rightarrow> [] | Some x \<Rightarrow> [x]) \<longleftrightarrow> m = Some a" for m
    by (cases m) auto
  show ?thesis unfolding detect_anomalies_def Some by (auto simp: one) metis
qed (simp add: detect_anomalies_def)

end
