(* ===== verification/Converters.thy ===== *)
theory Converters
  imports Anomaly Indicators SequencePatterns StringAnalysis Dependency TtpMatch
begin

text \<open>
  From the stages' results to \<^typ>\<open>evidence\<close> (\<^verbatim>\<open>evidence/converters.py\<close>). The findings of the
  binary scanner and the sandbox, which are not modelled, are records of the fields the converters
  read.
\<close>

definition STANDALONE_WEAK_INDICATORS :: "string list" where
  "STANDALONE_WEAK_INDICATORS =
     [''EXM-001'', ''EXS-001'', ''SYS-005'', ''SYS-004'', ''DEF-006'', ''MET-004'', ''MET-001'',
      ''EXM-005'', ''DEF-003'']"

definition mitre_evidence :: "string \<Rightarrow> evidence" where
  "mitre_evidence path =
     \<lparr>ev_file_path = path, ev_line_start = 0, ev_line_end = 0, ev_code_snippet = [],
      ev_behavior_sequence = [], ev_attack_dimensions = [], ev_ttp_id = [], ev_ttp_name = [],
      ev_ttp_source = MITRE_ATTACK, ev_ttp_url = [], ev_vector_similarity = 1,
      ev_ttp_severity = SevMEDIUM, ev_llm_verdict = LlmSUSPICIOUS, ev_llm_reasoning = [],
      ev_llm_model = [], ev_version_diff = None, ev_confidence = 0\<rparr>"

text \<open>An optional text that counts as present when it is not empty.\<close>

definition string_ttp :: "string \<Rightarrow> string \<times> string" where
  "string_ttp encoding =
     (if encoding = ''base64'' then (''T1140'', ''Deobfuscate/Decode Files or Information'')
      else if encoding = ''hex'' then (''T1027.009'', ''Obfuscated Files: Embedded Payloads'')
      else (''T1027'', ''Obfuscated Files or Information''))"

definition ss_evidence :: "string \<Rightarrow> suspicious_string \<Rightarrow> evidence" where
  "ss_evidence file_path s =
     (let decoded = truthy_opt (ss_decoded s) in
      case string_ttp (ss_encoding s) of (ttp, name) \<Rightarrow>
        (mitre_evidence file_path)
          \<lparr>ev_line_start := ss_line s, ev_line_end := ss_line s,
           ev_code_snippet := ''['' @ ss_encoding s @ ''] '' @ ss_short s
             @ (if decoded then newline @ ''-> decoded: '' @ take 200 (the (ss_decoded s)) else []),
           ev_behavior_sequence := [''string_const:'' @ ss_encoding s],
           ev_attack_dimensions := [ENCODING], ev_ttp_id := ttp, ev_ttp_name := name,
           ev_ttp_url := technique_url ttp,
           ev_ttp_severity := (if decoded then SevMEDIUM else SevLOW),
           ev_llm_verdict := (if decoded then LlmSUSPICIOUS else LlmBENIGN),
           ev_llm_reasoning := ''String constant analysis: '' @ ss_reason s,
           ev_llm_model := ''string-analysis-rule'',
           ev_confidence := (if decoded then 8/10 else 4/10)\<rparr>)"

definition sstr_to_evidence :: "string \<Rightarrow> suspicious_string list \<Rightarrow> evidence list" where
  "sstr_to_evidence file_path strs = map (ss_evidence file_path) strs"

definition anomaly_to_evidence :: "anomaly_finding \<Rightarrow> evidence" where
  "anomaly_to_evidence a =
     (mitre_evidence (af_file_path a))
       \<lparr>ev_code_snippet := ''Category baseline violation ('' @ af_category a @ '')'',
        ev_behavior_sequence := [''anomaly:'' @ af_category a],
        ev_attack_dimensions := af_unexpected_dimensions a,
        ev_ttp_id := (if PAYLOAD_EXECUTION \<in> set (af_unexpected_dimensions a) then ''T1059''
                      else ''T1041''),
        ev_ttp_name := ''Unexpected behavior for '' @ af_category a @ '' category'',
        ev_ttp_url := ''https://attack.mitre.org/'', ev_llm_reasoning := af_reason a,
        ev_llm_model := ''anomaly-baseline'', ev_confidence := 75/100\<rparr>"

record binary_finding =
  bf_path :: string
  bf_binary_type :: string
  bf_suspicious_imports :: "string list"
  bf_network_strings :: "string list"
  bf_strings_of_interest :: "string list"

definition py_bool :: "bool \<Rightarrow> string" where
  "py_bool b = (if b then ''True'' else ''False'')"

definition binary_to_evidence :: "binary_finding \<Rightarrow> evidence" where
  "binary_to_evidence f =
     (mitre_evidence (bf_path f))
       \<lparr>ev_code_snippet := ''['' @ bf_binary_type f @ ''] suspicious imports: ''
          @ py_join '', '' (take 10 (bf_suspicious_imports f)) @ newline
          @ (if bf_network_strings f \<noteq> []
             then ''network strings: '' @ py_join '', '' (take 3 (bf_network_strings f)) @ newline
             else [])
          @ (if bf_strings_of_interest f \<noteq> []
             then ''interesting strings: '' @ py_join '', '' (take 3 (bf_strings_of_interest f))
             else []),
        ev_behavior_sequence := map (\<lambda>sym. ''binary:'' @ sym) (take 5 (bf_suspicious_imports f)),
        ev_attack_dimensions := [PAYLOAD_EXECUTION], ev_ttp_id := ''T1027.002'',
        ev_ttp_name := ''Software Packing / Native Code'',
        ev_ttp_url := ''https://attack.mitre.org/techniques/T1027/002/'',
        ev_ttp_severity := SevHIGH,
        ev_llm_reasoning := ''Native binary contains suspicious imports: ''
          @ py_repr_list (take 5 (bf_suspicious_imports f)) @ ''. Network strings detected: ''
          @ py_bool (bf_network_strings f \<noteq> []),
        ev_llm_model := ''binary-analysis-rule'', ev_confidence := 7/10\<rparr>"

record sandbox_observation =
  so_mode :: string
  so_duration_s :: rat
  so_process_spawns :: "string list"
  so_network_requests :: "string list"
  so_file_writes :: "string list"
  so_has_findings :: bool

definition sandbox_to_evidence :: "sandbox_observation \<Rightarrow> evidence" where
  "sandbox_to_evidence ob =
     (mitre_evidence ''<sandbox>'')
       \<lparr>ev_code_snippet := ''mode: '' @ so_mode ob @ '', duration: '' @ fmt_2f (so_duration_s ob) @ ''s''
          @ newline @ ''processes: '' @ py_repr_list (so_process_spawns ob)
          @ newline @ ''network: '' @ py_repr_list (so_network_requests ob)
          @ newline @ ''file writes: '' @ py_repr_list (so_file_writes ob),
        ev_behavior_sequence := [''sandbox:'' @ py_join '','' (take 3 (so_network_requests ob))],
        ev_attack_dimensions := (if so_network_requests ob \<noteq> [] then [DATA_TRANSMISSION] else []),
        ev_ttp_id := ''T1041'', ev_ttp_name := ''Exfiltration Over C2 Channel'',
        ev_ttp_url := ''https://attack.mitre.org/techniques/T1041/'',
        ev_ttp_severity := (if so_network_requests ob \<noteq> [] then SevHIGH else SevLOW),
        ev_llm_verdict := (if so_has_findings ob then LlmSUSPICIOUS else LlmBENIGN),
        ev_llm_reasoning := ''Sandbox observation ('' @ so_mode ob @ ''). ''
          @ (if so_has_findings ob then ''Unexpected runtime activity detected.''
             else ''No unexpected activity.''),
        ev_llm_model := ''sandbox-observer'',
        ev_confidence := (if so_has_findings ob then 85/100 else 3/10)\<rparr>"

text \<open>The first related technique, and its page.\<close>

definition first_ttp :: "string list \<Rightarrow> string" where
  "first_ttp ttps = (case ttps of [] \<Rightarrow> ''GENERIC'' | t # _ \<Rightarrow> t)"

definition ttp_page :: "string \<Rightarrow> string" where
  "ttp_page ttp = (if ttp = ''GENERIC'' then [] else technique_url ttp)"

definition RISK_PREFIXES :: "string list" where
  "RISK_PREFIXES =
     [''EXF-'', ''NET-002'', ''NET-007'', ''NET-008'', ''EXS-002'', ''EXS-003'', ''EXM-006'',
      ''EXM-008'', ''DEF-005'']"

definition has_risk_combo :: "string list \<Rightarrow> bool" where
  "has_risk_combo codes = list_ex (\<lambda>c. list_ex (startswith c) RISK_PREFIXES) codes"

definition hit_judgement :: "indicator_hit \<Rightarrow> string list \<Rightarrow> llm_verdict \<times> rat \<times> severity" where
  "hit_judgement h codes =
     (let i = ih_indicator h; conf = ih_confidence h;
          weak = (mi_code i \<in> set STANDALONE_WEAK_INDICATORS \<and> \<not> has_risk_combo codes)
      in if weak then (LlmBENIGN, min conf (4/10), SevLOW)
         else if mi_severity i = SevHIGH \<and> conf \<ge> 8/10 then (LlmMALICIOUS, conf, mi_severity i)
         else if mi_severity i \<in> set [SevHIGH, SevMEDIUM] \<and> conf \<ge> 1/2
         then (LlmSUSPICIOUS, conf, mi_severity i)
         else (LlmBENIGN, conf, mi_severity i))"

definition indicator_hit_to_evidence :: "indicator_hit \<Rightarrow> string list \<Rightarrow> evidence" where
  "indicator_hit_to_evidence h codes =
     (let i = ih_indicator h; ttp = first_ttp (mi_mitre_ttps i) in
      case hit_judgement h codes of (v, conf, sev) \<Rightarrow>
        (mitre_evidence (ih_file_path h))
          \<lparr>ev_line_start := ih_line h, ev_line_end := ih_line h,
           ev_code_snippet := take 1500 (ih_snippet h),
           ev_behavior_sequence := [''indicator:'' @ mi_code i],
           ev_attack_dimensions := mi_related_dimensions i,
           ev_ttp_id := mi_code i @ ''/'' @ ttp,
           ev_ttp_name := mi_name i @ '' -- '' @ category_value (mi_category i),
           ev_ttp_url := ttp_page ttp, ev_ttp_severity := sev, ev_llm_verdict := v,
           ev_llm_reasoning := ''['' @ mi_code i @ ''] '' @ ih_reason h @ '' (description: ''
             @ mi_description i @ '')'',
           ev_llm_model := ''indicator-rule-47'', ev_confidence := conf\<rparr>)"

definition pad4 :: "string \<Rightarrow> string" where
  "pad4 s = replicate (4 - length s) (CHR '' '') @ s"

fun severity_judgement :: "severity \<Rightarrow> llm_verdict \<times> rat" where
  "severity_judgement SevHIGH = (LlmMALICIOUS, 85/100)"
| "severity_judgement SevMEDIUM = (LlmSUSPICIOUS, 65/100)"
| "severity_judgement SevLOW = (LlmBENIGN, 4/10)"

definition sequence_match_to_evidence :: "sequence_match \<Rightarrow> evidence" where
  "sequence_match_to_evidence m =
     (let p = sm_pattern m; cs = sm_matched_calls m; ttp = first_ttp (sp_related_ttps p) in
      case severity_judgement (sp_severity p) of (v, conf) \<Rightarrow>
        (mitre_evidence (sm_file_path m))
          \<lparr>ev_line_start := (if cs = [] then 0 else ac_line (hd cs)),
           ev_line_end := (if cs = [] then 0 else ac_line (last cs)),
           ev_code_snippet := take 1500 (py_join newline (map (\<lambda>c.
              ''L'' @ pad4 (show_int (ac_line c)) @ ''  ['' @ take 4 (dimension_value (ac_dimension c))
              @ '']  '' @ ac_name c) (take 8 cs))),
           ev_behavior_sequence := map ac_name cs, ev_attack_dimensions := map ac_dimension cs,
           ev_ttp_id := sp_code p @ ''/'' @ ttp,
           ev_ttp_name := sp_name p @ '' -- sequential pattern'', ev_ttp_url := ttp_page ttp,
           ev_ttp_severity := sp_severity p, ev_llm_verdict := v,
           ev_llm_reasoning := ''['' @ sp_code p @ ''] '' @ sp_description p @ '' | matched span=(''
             @ show_nat (fst (sm_span m)) @ '', '' @ show_nat (snd (sm_span m)) @ ''), calls=''
             @ show_nat (length cs),
           ev_llm_model := ''sequence-pattern-mine'', ev_confidence := conf\<rparr>)"

definition dependency_to_evidence :: "dep_result \<Rightarrow> evidence option" where
  "dependency_to_evidence r =
     (if dr_verdict r \<in> set [''CLEAN'', ''CANNOT_ANALYZE'', ''SKIPPED''] then None
      else let bad = (dr_verdict r = ''MALICIOUS'') in
        Some ((mitre_evidence (''<dependency: '' @ dr_name r @ ''>''))
          \<lparr>ev_code_snippet := ''dependency '' @ dr_name r @ '' ('' @ dr_version_spec r @ '')'',
           ev_behavior_sequence := [''dep_chain:'' @ dr_name r], ev_ttp_id := ''T1195.001'',
           ev_ttp_name := ''Supply Chain Compromise: Compromise Software Dependencies'',
           ev_ttp_url := ''https://attack.mitre.org/techniques/T1195/001/'',
           ev_ttp_severity := (if bad then SevHIGH else SevMEDIUM),
           ev_llm_verdict := (if bad then LlmMALICIOUS else LlmSUSPICIOUS),
           ev_llm_reasoning := dr_reason r, ev_llm_model := ''dependency-analyzer'',
           ev_confidence := (if bad then 9/10 else 7/10)\<rparr>))"

end
