(* ===== verification/MultiAgent.thy ===== *)
theory MultiAgent
  imports TtpMatch
begin

text \<open>
  Stage 5 (\<^verbatim>\<open>stages/stage5_multi_agent.py\<close>, \<^verbatim>\<open>stages/stage5_llm_review.py\<close>): the prompts, the
  reading of the model's answers, the offline agents and the vote. The model itself is a parameter
  (\<open>llm\<close>: system prompt, user prompt and model name to its text or the exception of the call),
  and so is \<^verbatim>\<open>json.loads\<close>. Texts the model returns are kept as JSON values, as the code keeps
  them.
\<close>

subsection \<open>Reports\<close>

record agent_report =
  ag_name :: string
  ag_verdict :: llm_verdict
  ag_reasoning :: pyval
  ag_evidence :: pyval
  ag_confidence :: rat

definition agent_to_dict :: "agent_report \<Rightarrow> pyval" where
  "agent_to_dict a = PDict
     [(''agent'', PStr (ag_name a)), (''verdict'', PStr (llm_verdict_value (ag_verdict a))),
      (''reasoning'', ag_reasoning a), (''evidence'', ag_evidence a),
      (''confidence'', PFloat (round3 (ag_confidence a)))]"

record consensus_report =
  cr_verdict :: llm_verdict
  cr_reasoning :: string
  cr_agent_reports :: "agent_report list"
  cr_agreement_ratio :: rat
  cr_model :: string

definition consensus_to_dict :: "consensus_report \<Rightarrow> pyval" where
  "consensus_to_dict c = PDict
     [(''verdict'', PStr (llm_verdict_value (cr_verdict c))), (''reasoning'', PStr (cr_reasoning c)),
      (''agreement_ratio'', PFloat (round3 (cr_agreement_ratio c))),
      (''agents'', PList (map agent_to_dict (cr_agent_reports c))),
      (''model'', PStr (cr_model c))]"

record llm_response =
  lr_verdict :: llm_verdict
  lr_reasoning :: pyval
  lr_evidence :: pyval
  lr_model :: string

subsection \<open>Prompts\<close>

definition SYSTEM_BASE :: string where
  "SYSTEM_BASE =
     ''You are a software supply chain security analyst. ''
     @ ''Reply MUST be valid JSON with keys: ''
     @ ''verdict (malicious | suspicious | benign), ''
     @ ''reasoning (string), ''
     @ ''most_convincing_evidence (string). ''
     @ ''No other output.''"

definition SEMANTIC_SYSTEM :: string where
  "SEMANTIC_SYSTEM = SYSTEM_BASE
     @ '' Focus: code semantics. Determine if the behavior sequence and ''
     @ ''taint flows describe credential theft, remote execution, or ''
     @ ''exfiltration. Ignore version history.''"

definition DIFF_SYSTEM :: string where
  "DIFF_SYSTEM = SYSTEM_BASE
     @ '' Focus: version diff. Determine if the changes between versions ''
     @ ''introduce malicious behavior (event-stream / ua-parser style attack). ''
     @ ''If no diff is provided, reply benign with low confidence.''"

definition DEPENDENCY_SYSTEM :: string where
  "DEPENDENCY_SYSTEM = SYSTEM_BASE
     @ '' Focus: declared dependencies. Determine if the dependency list ''
     @ ''is suspicious (e.g. unusual deps for the package'' @ [CHR 0x27] @ ''s stated purpose, ''
     @ ''typosquat-style names, runtime-installed deps). ''
     @ ''If no dependency list is provided, reply benign with low confidence.''"

text \<open>
  The line for a matched technique reads \<^verbatim>\<open>m.ttp.ttp_source\<close>, an attribute \<^verbatim>\<open>TTPEntry\<close> does not
  have (its field is \<^verbatim>\<open>source\<close>): the first match raises.
\<close>

definition no_ttp_source :: pyexn where
  "no_ttp_source = OtherError ''AttributeError''
     ([CHR 0x27] @ ''TTPEntry'' @ [CHR 0x27] @ '' object has no attribute '' @ [CHR 0x27]
      @ ''ttp_source'' @ [CHR 0x27])"

definition ttp_line :: "ttp_match \<Rightarrow> pyexn + string" where
  "ttp_line m = Inl no_ttp_source"

definition fence :: string where
  "fence = [CHR 0x60, CHR 0x60, CHR 0x60]"

definition py_text_strip :: "string option \<Rightarrow> string" where
  "py_text_strip s = (case s of None \<Rightarrow> [] | Some t \<Rightarrow> py_strip t)"

definition sequence_block :: "file_sequence \<Rightarrow> string" where
  "sequence_block f = ''File: '' @ fq_path f @ newline
     @ ''Behavior sequence: '' @ py_join '' -> '' (fq_sequence f) @ newline
     @ ''Dimensions: '' @ py_join '', '' (map dimension_value (fq_dimensions f)) @ newline"

definition package_line :: "string \<Rightarrow> string \<Rightarrow> string \<Rightarrow> string" where
  "package_line package version eco =
     ''Package: '' @ package @ '' '' @ version @ '' ('' @ eco @ '')'' @ newline @ newline"

text \<open>The slice, when there is one, replaces the snippet.\<close>

definition evidence_block :: "string \<Rightarrow> string \<Rightarrow> string option \<Rightarrow> string \<Rightarrow> string" where
  "evidence_block taint_label code_label taint_slice code_snippet =
     (case (if py_text_strip taint_slice \<noteq> [] then (taint_label, take 1800 (the taint_slice))
            else (code_label, take 1500 code_snippet)) of
        (label, body) \<Rightarrow> label @ newline @ fence @ newline @ body @ newline @ fence @ newline @ newline)"

definition build_semantic_prompt ::
  "string \<Rightarrow> string \<Rightarrow> string \<Rightarrow> file_sequence \<Rightarrow> ttp_match list \<Rightarrow> string \<Rightarrow> string option
    \<Rightarrow> pyexn + string" where
  "build_semantic_prompt package version eco f ttps code_snippet taint_slice =
     bindE (mapE ttp_line (take 5 ttps)) (\<lambda>ttp_lines.
       Inr (package_line package version eco @ sequence_block f @ newline @ ''Matched TTPs:'' @ newline
            @ (if ttp_lines \<noteq> [] then py_join newline ttp_lines else ''(none)'') @ newline @ newline
            @ evidence_block ''Taint flows (source -> sink):'' ''Code snippet:'' taint_slice code_snippet
            @ ''Reply with JSON only.''))"

definition build_diff_prompt ::
  "string \<Rightarrow> string \<Rightarrow> string \<Rightarrow> string option \<Rightarrow> string list option \<Rightarrow> string" where
  "build_diff_prompt package version eco summary new_apis =
     package_line package version eco
     @ ''Version diff summary: '' @ or_else summary ''(no version diff data)'' @ newline
     @ ''Newly introduced API calls: ''
     @ (let apis = py_join '', '' (or_else new_apis []) in if apis = [] then ''(none)'' else apis)
     @ newline @ newline @ ''Question: Does this diff introduce malicious behavior?''
     @ newline @ newline @ ''Reply with JSON only.''"

definition build_dependency_prompt ::
  "string \<Rightarrow> string \<Rightarrow> string \<Rightarrow> string \<Rightarrow> string list \<Rightarrow> string" where
  "build_dependency_prompt package version eco description declared_deps =
     package_line package version eco
     @ ''Stated description: ''
     @ take 300 (if description = [] then ''(no description)'' else description) @ newline @ newline
     @ ''Declared dependencies: ''
     @ (if declared_deps = [] then ''(none)'' else py_join '', '' declared_deps) @ newline @ newline
     @ ''Question: Are the declared dependencies coherent with the stated purpose, or do they ''
     @ ''suggest hidden malicious intent?'' @ newline @ newline @ ''Reply with JSON only.''"

subsection \<open>The model's answer\<close>

record llm_env =
  le_llm :: "string \<Rightarrow> string \<Rightarrow> string \<Rightarrow> pyexn + string"
  le_json :: "string \<Rightarrow> pyexn + pyval"
  le_str :: "pyval \<Rightarrow> string"

definition parse_llm_json :: "llm_env \<Rightarrow> string \<Rightarrow> pyexn + pyval" where
  "parse_llm_json env text =
     (let t = py_strip text in
      le_json env (if startswith t fence
        then py_join newline (filter (\<lambda>line. \<not> startswith line fence) (py_splitlines t))
        else t))"

text \<open>\<^verbatim>\<open>v.get(...)\<close> and \<^verbatim>\<open>v.lower()\<close> on a value of another type raise.\<close>

definition no_attribute :: "string \<Rightarrow> pyexn" where
  "no_attribute a = OtherError ''AttributeError'' a"

definition answer_dict :: "pyval \<Rightarrow> pyexn + pydict" where
  "answer_dict v = (case v of PDict d \<Rightarrow> Inr d | _ \<Rightarrow> Inl (no_attribute ''get''))"

definition answer_verdict :: "pydict \<Rightarrow> pyexn + string" where
  "answer_verdict d =
     (let v = d_get d ''verdict'' PNone in
      if \<not> py_truth v then Inr ''benign''
      else case v of PStr s \<Rightarrow> Inr (py_lower s) | _ \<Rightarrow> Inl (no_attribute ''lower''))"

fun verdict_confidence :: "llm_verdict \<Rightarrow> rat" where
  "verdict_confidence LlmMALICIOUS = 9/10"
| "verdict_confidence LlmSUSPICIOUS = 6/10"
| "verdict_confidence LlmBENIGN = 3/10"

definition verdict_of_answer :: "string \<Rightarrow> llm_verdict" where
  "verdict_of_answer s =
     (if s = ''malicious'' then LlmMALICIOUS else if s = ''suspicious'' then LlmSUSPICIOUS
      else LlmBENIGN)"

definition run_agent_claude ::
  "llm_env \<Rightarrow> string \<Rightarrow> string \<Rightarrow> string \<Rightarrow> string \<Rightarrow> pyexn + agent_report" where
  "run_agent_claude env name system user model =
     bindE (le_llm env system user model) (\<lambda>raw.
       case parse_llm_json env raw of
         Inl e \<Rightarrow> Inr \<lparr>ag_name = name, ag_verdict = LlmBENIGN,
                       ag_reasoning = PStr (''parse-error: '' @ exn_str e),
                       ag_evidence = PStr (take 200 raw), ag_confidence = 0\<rparr>
       | Inr v \<Rightarrow>
           bindE (answer_dict v) (\<lambda>d.
           bindE (answer_verdict d) (\<lambda>raw_verdict.
             let verdict = verdict_of_answer raw_verdict in
             Inr \<lparr>ag_name = name, ag_verdict = verdict,
                  ag_reasoning = d_get d ''reasoning'' (PStr []),
                  ag_evidence = d_get d ''most_convincing_evidence'' (PStr []),
                  ag_confidence = verdict_confidence verdict\<rparr>)))"

subsection \<open>The offline agents\<close>

definition creds_combo :: "attack_dimension list" where
  "creds_combo = [INFORMATION_READING, ENCODING, DATA_TRANSMISSION]"

definition remote_exec :: "attack_dimension list" where
  "remote_exec = [DATA_TRANSMISSION, PAYLOAD_EXECUTION]"

definition is_install_hook :: "file_sequence \<Rightarrow> bool" where
  "is_install_hook f = list_ex (\<lambda>kw. contains kw (py_lower (fq_path f)))
     [''setup.py'', ''postinstall'', ''preinstall'']"

definition has_dims :: "attack_dimension list \<Rightarrow> file_sequence \<Rightarrow> bool" where
  "has_dims ds f = list_all (\<lambda>d. d \<in> set (fq_dimensions f)) ds"

definition stub_report :: "string \<Rightarrow> llm_verdict \<Rightarrow> string \<Rightarrow> string \<Rightarrow> rat \<Rightarrow> agent_report" where
  "stub_report name v reasoning evidence confidence =
     \<lparr>ag_name = name, ag_verdict = v, ag_reasoning = PStr reasoning, ag_evidence = PStr evidence,
      ag_confidence = confidence\<rparr>"

definition stub_semantic :: "file_sequence \<Rightarrow> string option \<Rightarrow> agent_report" where
  "stub_semantic f taint_slice =
     (let has_taint = (py_text_strip taint_slice \<noteq> []); file = ''file='' @ fq_path f in
      if has_dims creds_combo f \<and> (is_install_hook f \<or> has_taint)
      then stub_report ''semantic_agent'' LlmMALICIOUS
        (utf8 [83, 116, 117, 98, 58, 32, 99, 114, 101, 100, 101, 110, 116, 105, 97, 108, 32, 237,
        131, 136, 236, 183, 168, 32, 236, 178, 180, 236, 157, 184, 236, 157, 180, 32, 236, 132,
        164, 236, 185, 152, 32, 237, 155, 133, 32, 235, 152, 144, 235, 138, 148, 32, 116, 97,
        105, 110, 116, 32, 102, 108, 111, 119, 32, 235, 161, 156, 32, 237, 153, 149, 236, 157,
        184, 235, 144, 168, 46]) file (9/10)
      else if has_dims creds_combo f
      then stub_report ''semantic_agent'' LlmSUSPICIOUS
        (utf8 [83, 116, 117, 98, 58, 32, 105, 110, 102, 111, 45, 114, 101, 97, 100, 32, 43, 32,
        101, 110, 99, 111, 100, 101, 32, 43, 32, 115, 101, 110, 100, 32, 236, 161, 176, 237,
        149, 169, 32, 235, 147, 177, 236, 158, 165, 32, 40, 236, 132, 164, 236, 185, 152, 237,
        155, 133, 32, 236, 149, 132, 235, 139, 152, 41, 46]) file (6/10)
      else if has_dims remote_exec f \<and> is_install_hook f
      then stub_report ''semantic_agent'' LlmSUSPICIOUS
        (utf8 [83, 116, 117, 98, 58, 32, 236, 132, 164, 236, 185, 152, 32, 237, 155, 133, 236,
        151, 144, 32, 110, 101, 116, 119, 111, 114, 107, 32, 43, 32, 101, 120, 101, 99, 117,
        116, 105, 111, 110, 32, 236, 161, 176, 237, 149, 169, 46]) file (65/100)
      else stub_report ''semantic_agent'' LlmBENIGN
        (utf8 [83, 116, 117, 98, 58, 32, 235, 170, 133, 237, 153, 149, 237, 149, 156, 32, 234,
        179, 181, 234, 178, 169, 32, 236, 139, 156, 237, 128, 128, 236, 138, 164, 32, 236, 151,
        134, 236, 157, 140, 46]) ''none'' (4/10))"

definition diff_keywords :: "string list" where
  "diff_keywords = [''severity HIGH'', ''exec'', ''eval'', ''subprocess'', ''post'', ''child_process'']"

definition diff_has_high :: "string \<Rightarrow> string list \<Rightarrow> bool" where
  "diff_has_high summ apis =
     (list_ex (\<lambda>k. contains (py_lower k) (py_lower summ)) diff_keywords
      \<or> list_ex (\<lambda>api. list_ex (\<lambda>k. contains k api) [''exec'', ''eval'', ''Popen'', ''system'', ''post''])
           apis)"

definition stub_diff :: "string option \<Rightarrow> string list option \<Rightarrow> agent_report" where
  "stub_diff summary new_apis =
     (let summ = or_else summary [] in
      if diff_has_high summ (or_else new_apis [])
      then stub_report ''diff_agent'' LlmSUSPICIOUS
        (utf8 [83, 116, 117, 98, 58, 32, 236, 139, 160, 234, 183, 156, 32, 235, 178, 132, 236,
        160, 132, 236, 151, 144, 236, 132, 156, 32, 236, 156, 132, 237, 151, 152, 32, 65, 80,
        73, 32, 235, 143, 132, 236, 158, 133, 32, 234, 176, 128, 235, 138, 165, 236, 132, 177,
        46]) (take 200 summ) (65/100)
      else if summ = []
      then stub_report ''diff_agent'' LlmBENIGN
        (utf8 [83, 116, 117, 98, 58, 32, 235, 178, 132, 236, 160, 132, 32, 100, 105, 102, 102,
        32, 236, 160, 149, 235, 179, 180, 32, 236, 151, 134, 236, 157, 140, 46]) ''(no diff)'' (3/10)
      else stub_report ''diff_agent'' LlmBENIGN
        (utf8 [83, 116, 117, 98, 58, 32, 235, 178, 132, 236, 160, 132, 32, 100, 105, 102, 102,
        32, 236, 151, 144, 32, 235, 170, 133, 237, 153, 149, 237, 149, 156, 32, 236, 156, 132,
        237, 151, 152, 32, 236, 139, 160, 237, 152, 184, 32, 236, 151, 134, 236, 157, 140, 46]) (take 200 summ) (4/10))"

definition deps_suspicious :: "string \<Rightarrow> string list \<Rightarrow> bool" where
  "deps_suspicious description declared_deps =
     (let desc = py_lower description; deps = map py_lower declared_deps;
          any_of = (\<lambda>ds. list_ex (\<lambda>d. d \<in> set deps) ds)
      in (length (py_strip desc) < 25
          \<and> any_of [''requests'', ''psutil'', ''cryptography'', ''discord-webhook''])
         \<or> ((contains ''json'' desc \<or> contains ''parser'' desc \<or> contains ''format'' desc)
            \<and> any_of [''psutil'', ''cryptography'', ''requests'']))"

definition stub_dependency :: "string \<Rightarrow> string list \<Rightarrow> agent_report" where
  "stub_dependency description declared_deps =
     (let desc = py_lower description; deps = map py_lower declared_deps in
      if deps_suspicious description declared_deps
      then stub_report ''dependency_agent'' LlmSUSPICIOUS
        (utf8 [83, 116, 117, 98, 58, 32, 236, 157, 152, 236, 161, 180, 236, 132, 177, 234, 179,
        188, 32, 237, 140, 168, 237, 130, 164, 236, 167, 128, 32, 236, 132, 164, 235, 170, 133,
        236, 157, 152, 32, 236, 160, 149, 237, 149, 169, 236, 132, 177, 236, 157, 180, 32, 235,
        130, 174, 236, 157, 140, 46])
        (''desc='' @ take 80 desc @ '' | deps='' @ py_repr_list deps) (55/100)
      else if declared_deps = []
      then stub_report ''dependency_agent'' LlmBENIGN
        (utf8 [83, 116, 117, 98, 58, 32, 236, 157, 152, 236, 161, 180, 236, 132, 177, 32, 236,
        160, 149, 235, 179, 180, 32, 236, 151, 134, 236, 157, 140, 32, 235, 152, 144, 235, 138,
        148, 32, 235, 185, 132, 236, 150, 180, 32, 236, 158, 136, 236, 157, 140, 46]) ''(no deps)'' (3/10)
      else stub_report ''dependency_agent'' LlmBENIGN
        (utf8 [83, 116, 117, 98, 58, 32, 236, 157, 152, 236, 161, 180, 236, 132, 177, 32, 236,
        157, 188, 234, 180, 128, 236, 132, 177, 236, 151, 144, 32, 237, 129, 176, 32, 236, 157,
        180, 236, 131, 129, 32, 236, 151, 134, 236, 157, 140, 46]) (''deps='' @ py_repr_list deps) (4/10))"

subsection \<open>The vote\<close>

definition count_verdict :: "llm_verdict \<Rightarrow> agent_report list \<Rightarrow> nat" where
  "count_verdict v rs = length (filter (\<lambda>r. ag_verdict r = v) rs)"

definition vote :: "agent_report list \<Rightarrow> llm_verdict" where
  "vote rs = (let m = count_verdict LlmMALICIOUS rs; s = count_verdict LlmSUSPICIOUS rs in
     if m \<ge> 2 then LlmMALICIOUS
     else if m \<ge> 1 \<and> s \<ge> 1 then LlmMALICIOUS
     else if m + s \<ge> 2 then LlmSUSPICIOUS
     else if m \<ge> 1 then LlmSUSPICIOUS
     else LlmBENIGN)"

definition agreement :: "agent_report list \<Rightarrow> rat" where
  "agreement rs =
     of_nat (py_max (map (\<lambda>v. count_verdict v rs) [LlmMALICIOUS, LlmSUSPICIOUS, LlmBENIGN]) 0)
     / of_nat (length rs)"

definition consensus :: "agent_report list \<Rightarrow> consensus_report" where
  "consensus rs =
     (if rs = [] then \<lparr>cr_verdict = LlmBENIGN, cr_reasoning = ''No agents reported.'',
        cr_agent_reports = [], cr_agreement_ratio = 0, cr_model = ''multi-agent''\<rparr>
      else \<lparr>cr_verdict = vote rs,
        cr_reasoning = utf8 [77, 117, 108, 116, 105, 45, 97, 103, 101, 110, 116, 32, 99, 111, 110, 115, 101,
        110, 115, 117, 115, 32, 226, 134, 146, 32] @ llm_verdict_value (vote rs)
          @ '' (agreement='' @ fmt_2f (agreement rs) @ ''). ''
          @ py_join '' | '' (map (\<lambda>r. ag_name r @ ''='' @ llm_verdict_value (ag_verdict r) @ ''(''
              @ fmt_2f (ag_confidence r) @ '')'') rs),
        cr_agent_reports = rs, cr_agreement_ratio = agreement rs, cr_model = ''multi-agent''\<rparr>)"

text \<open>A failed call is a benign report with no confidence.\<close>

definition agent_or_failed :: "string \<Rightarrow> (pyexn + agent_report) \<Rightarrow> agent_report" where
  "agent_or_failed name r = (case r of
     Inr a \<Rightarrow> a
   | Inl e \<Rightarrow> stub_report name LlmBENIGN (''call-failed: '' @ exn_str e) [] 0)"

record review_input =
  ri_package :: string
  ri_version :: string
  ri_ecosystem :: string
  ri_file_seq :: file_sequence
  ri_ttp_matches :: "ttp_match list"
  ri_code_snippet :: string
  ri_diff_summary :: "string option"
  ri_new_apis :: "string list option"
  ri_description :: string
  ri_declared_deps :: "string list option"
  ri_taint_slice :: "string option"
  ri_mode :: string
  ri_model :: string

definition review_multi :: "llm_env \<Rightarrow> review_input \<Rightarrow> pyexn + consensus_report" where
  "review_multi env i =
     (let deps = or_else (ri_declared_deps i) [] in
      if ri_mode i = ''stub''
      then Inr (consensus
        [stub_semantic (ri_file_seq i) (ri_taint_slice i),
         stub_diff (ri_diff_summary i) (ri_new_apis i),
         stub_dependency (ri_description i) deps])
      else
        bindE (build_semantic_prompt (ri_package i) (ri_version i) (ri_ecosystem i) (ri_file_seq i)
                 (ri_ttp_matches i) (ri_code_snippet i) (ri_taint_slice i)) (\<lambda>semantic_user.
        let diff_user = build_diff_prompt (ri_package i) (ri_version i) (ri_ecosystem i)
              (ri_diff_summary i) (ri_new_apis i);
            dep_user = build_dependency_prompt (ri_package i) (ri_version i) (ri_ecosystem i)
              (ri_description i) deps;
            ask = (\<lambda>name system user.
              agent_or_failed name (run_agent_claude env name system user (ri_model i)))
        in Inr (consensus
             [ask ''semantic_agent'' SEMANTIC_SYSTEM semantic_user,
              ask ''diff_agent'' DIFF_SYSTEM diff_user,
              ask ''dependency_agent'' DEPENDENCY_SYSTEM dep_user])))"

definition consensus_to_llm_response :: "llm_env \<Rightarrow> consensus_report \<Rightarrow> llm_response" where
  "consensus_to_llm_response env c =
     \<lparr>lr_verdict = cr_verdict c, lr_reasoning = PStr (cr_reasoning c),
      lr_evidence = PStr (case cr_agent_reports c of
          [] \<Rightarrow> []
        | a # as \<Rightarrow> (let best = first_max_by ag_confidence a as in
            ''['' @ ag_name best @ ''] '' @ le_str env (ag_evidence best))),
      lr_model = cr_model c\<rparr>"

subsection \<open>The single reviewer\<close>

definition stub_review :: "file_sequence \<Rightarrow> llm_response" where
  "stub_review f =
     (let mk = (\<lambda>v reasoning evidence. \<lparr>lr_verdict = v, lr_reasoning = PStr reasoning,
                  lr_evidence = PStr evidence, lr_model = ''stub''\<rparr>);
          file = ''file='' @ fq_path f
      in if has_dims creds_combo f \<and> is_install_hook f
         then mk LlmMALICIOUS (utf8 [83, 116, 117, 98, 58, 32, 99, 114, 101, 100, 101, 110, 116, 105, 97, 108, 32, 237,
        131, 136, 236, 183, 168, 32, 236, 178, 180, 236, 157, 184, 236, 157, 180, 32, 236, 132,
        164, 236, 185, 152, 32, 237, 155, 133, 32, 237, 140, 140, 236, 157, 188, 236, 151, 144,
        32, 236, 161, 180, 236, 158, 172, 46])
           (file @ '', creds-theft chain'')
         else if has_dims creds_combo f
         then mk LlmSUSPICIOUS (utf8 [83, 116, 117, 98, 58, 32, 105, 110, 102, 111, 45, 114, 101, 97, 100, 32, 43, 32,
        101, 110, 99, 111, 100, 101, 32, 43, 32, 115, 101, 110, 100, 32, 236, 161, 176, 237,
        149, 169, 32, 235, 147, 177, 236, 158, 165, 32, 40, 235, 167, 165, 235, 157, 189, 32,
        234, 178, 128, 237, 134, 160, 32, 237, 149, 132, 236, 154, 148, 41, 46]) file
         else if has_dims remote_exec f \<and> is_install_hook f
         then mk LlmSUSPICIOUS (utf8 [83, 116, 117, 98, 58, 32, 236, 132, 164, 236, 185, 152, 32, 237, 155, 133, 236,
        151, 144, 236, 132, 156, 32, 235, 132, 164, 237, 138, 184, 236, 155, 140, 237, 129, 172,
        32, 43, 32, 236, 139, 164, 237, 150, 137, 32, 236, 161, 176, 237, 149, 169, 46]) file
         else mk LlmBENIGN
           (utf8 [83, 116, 117, 98, 58, 32, 236, 160, 149, 236, 160, 129, 32, 234, 183, 156, 236,
        185, 153, 236, 156, 188, 235, 161, 156, 32, 235, 170, 133, 237, 153, 149, 237, 149, 156,
        32, 234, 179, 181, 234, 178, 169, 32, 237, 140, 168, 237, 132, 180, 32, 235, 175, 184,
        237, 153, 149, 236, 157, 184, 32, 40, 236, 139, 164, 236, 160, 156, 32, 237, 140, 144,
        236, 160, 149, 236, 157, 128, 32, 67, 108, 97, 117, 100, 101, 32, 65, 80, 73, 32, 237,
        149, 132, 236, 154, 148, 41, 46]) ''none'')"

definition SYSTEM_PROMPT :: string where
  "SYSTEM_PROMPT =
     ''You are a software supply chain security analyst. ''
     @ ''Given behavior sequences extracted from a package and TTP matches ''
     @ ''from official frameworks (MITRE ATT&CK, etc.), determine whether ''
     @ ''the package performs a security-relevant malicious action. ''
     @ ''Your reply MUST be valid JSON with fields: ''
     @ ''verdict (malicious | suspicious | benign), reasoning (string), ''
     @ ''most_convincing_evidence (string). No other output.''"

definition build_user_prompt ::
  "string \<Rightarrow> string \<Rightarrow> string \<Rightarrow> file_sequence \<Rightarrow> ttp_match list \<Rightarrow> string \<Rightarrow> string option
    \<Rightarrow> string option \<Rightarrow> pyexn + string" where
  "build_user_prompt package version eco f ttps code_snippet diff_summary taint_slice =
     bindE (mapE ttp_line (take 5 ttps)) (\<lambda>ttp_lines.
       Inr (package_line package version eco @ sequence_block f @ newline
            @ (if ttps \<noteq> [] then py_join newline (''Matched TTPs:'' # ttp_lines) else [])
            @ (if truthy_opt diff_summary
               then newline @ newline @ ''Version diff: '' @ or_else diff_summary [] else [])
            @ newline @ newline
            @ evidence_block ''Taint flows (source -> sink slices):'' ''Code evidence:'' taint_slice
                code_snippet
            @ ''Respond with JSON only (fields: verdict, reasoning, most_convincing_evidence).''
            @ newline))"

definition review :: "llm_env \<Rightarrow> review_input \<Rightarrow> pyexn + llm_response" where
  "review env i =
     (if ri_mode i = ''stub'' then Inr (stub_review (ri_file_seq i))
      else
        bindE (build_user_prompt (ri_package i) (ri_version i) (ri_ecosystem i) (ri_file_seq i)
                 (ri_ttp_matches i) (ri_code_snippet i) (ri_diff_summary i) (ri_taint_slice i)) (\<lambda>prompt.
        bindE (le_llm env SYSTEM_PROMPT prompt (ri_model i)) (\<lambda>raw.
        case parse_llm_json env raw of
          Inl e \<Rightarrow> Inl (RuntimeError (utf8 [76, 76, 77, 32, 74, 83, 79, 78, 32, 237, 140, 140, 236, 139, 177, 32, 236,
              139, 164, 237, 140, 168, 58, 32]
            @ exn_str e @ utf8 [10, 236, 155, 144, 235, 172, 184, 58, 32] @ take 300 raw))
        | Inr v \<Rightarrow>
            bindE (answer_dict v) (\<lambda>d.
            bindE (enum_pv llm_verdicts llm_verdict_value (d_get d ''verdict'' (PStr ''benign''))) (\<lambda>w.
            Inr \<lparr>lr_verdict = w, lr_reasoning = d_get d ''reasoning'' (PStr []),
                 lr_evidence = d_get d ''most_convincing_evidence'' (PStr []),
                 lr_model = ri_model i\<rparr>)))))"

subsection \<open>The vote as a function of the verdict counts\<close>

lemma count_verdict_mset:
  "count_verdict v rs = count (image_mset ag_verdict (mset rs)) v"
  by (induction rs) (simp_all add: count_verdict_def)

lemma count_verdict_total:
  "count_verdict LlmMALICIOUS rs + count_verdict LlmSUSPICIOUS rs + count_verdict LlmBENIGN rs
     = length rs"
  by (induction rs) (simp_all add: count_verdict_def, metis llm_verdict.exhaust)

lemma vote_malicious_iff:
  "vote rs = LlmMALICIOUS \<longleftrightarrow>
     2 \<le> count_verdict LlmMALICIOUS rs
     \<or> 1 \<le> count_verdict LlmMALICIOUS rs \<and> 1 \<le> count_verdict LlmSUSPICIOUS rs"
  by (simp add: vote_def Let_def)

lemma vote_benign_iff:
  "vote rs = LlmBENIGN \<longleftrightarrow>
     count_verdict LlmMALICIOUS rs = 0 \<and> count_verdict LlmSUSPICIOUS rs \<le> 1"
  by (auto simp: vote_def Let_def)

text \<open>
  The rank table of the source (\<^verbatim>\<open>_VERDICT_RANK\<close>), and reports compared agent by agent: raising
  the verdict of any agent never lowers the vote.
\<close>

fun VERDICT_RANK :: "llm_verdict \<Rightarrow> nat" where
  "VERDICT_RANK LlmBENIGN = 0"
| "VERDICT_RANK LlmSUSPICIOUS = 1"
| "VERDICT_RANK LlmMALICIOUS = 2"

abbreviation raised :: "agent_report \<Rightarrow> agent_report \<Rightarrow> bool" where
  "raised a b \<equiv> VERDICT_RANK (ag_verdict a) \<le> VERDICT_RANK (ag_verdict b)"

lemma raised_counts:
  assumes "list_all2 raised rs rs'"
  shows "count_verdict LlmMALICIOUS rs \<le> count_verdict LlmMALICIOUS rs'
    \<and> count_verdict LlmMALICIOUS rs + count_verdict LlmSUSPICIOUS rs
      \<le> count_verdict LlmMALICIOUS rs' + count_verdict LlmSUSPICIOUS rs'"
  using assms
proof (induction rule: list_all2_induct)
  case (Cons a as b bs)
  then show ?case
    by (cases "ag_verdict a"; cases "ag_verdict b") (simp_all add: count_verdict_def)
qed (simp add: count_verdict_def)

text \<open>The multi-agent vote depends only on how many agents gave each verdict: it is malicious
  exactly when two agents say malicious or one does and another says suspicious, benign exactly when
  none says malicious and at most one suspicious, suspicious otherwise; and when every agent's
  verdict is kept or raised, the vote is kept or raised.\<close>
theorem vote_monotone:
  assumes "list_all2 raised rs rs'"
  shows "VERDICT_RANK (vote rs) \<le> VERDICT_RANK (vote rs')
    \<and> (vote rs = LlmMALICIOUS) = (2 \<le> count_verdict LlmMALICIOUS rs
         \<or> 1 \<le> count_verdict LlmMALICIOUS rs \<and> 1 \<le> count_verdict LlmSUSPICIOUS rs)
    \<and> (vote rs = LlmBENIGN) =
        (count_verdict LlmMALICIOUS rs = 0 \<and> count_verdict LlmSUSPICIOUS rs \<le> 1)"
proof -
  have "VERDICT_RANK (vote rs) \<le> VERDICT_RANK (vote rs')"
    using raised_counts [OF assms] by (auto simp: vote_def Let_def)
  then show ?thesis
    by (simp only: vote_malicious_iff vote_benign_iff)
qed

theorem vote_monotone_witness:
  "let a = (\<lambda>n v. stub_report n v [] [] 0);
       low = [a ''semantic_agent'' LlmBENIGN, a ''diff_agent'' LlmSUSPICIOUS];
       high = [a ''semantic_agent'' LlmMALICIOUS, a ''diff_agent'' LlmSUSPICIOUS]
   in VERDICT_RANK (vote low) \<le> VERDICT_RANK (vote high) \<and> vote low = LlmBENIGN
      \<and> vote high = LlmMALICIOUS"
  using vote_monotone [of "[stub_report ''semantic_agent'' LlmBENIGN [] [] 0,
       stub_report ''diff_agent'' LlmSUSPICIOUS [] [] 0]"
      "[stub_report ''semantic_agent'' LlmMALICIOUS [] [] 0,
        stub_report ''diff_agent'' LlmSUSPICIOUS [] [] 0]"]
  by (simp add: stub_report_def vote_def count_verdict_def Let_def)

subsection \<open>The offline consensus\<close>

lemma stub_semantic_verdict:
  "ag_verdict (stub_semantic f t) =
     (if has_dims creds_combo f \<and> (is_install_hook f \<or> py_text_strip t \<noteq> []) then LlmMALICIOUS
      else if has_dims creds_combo f \<or> has_dims remote_exec f \<and> is_install_hook f
      then LlmSUSPICIOUS else LlmBENIGN)"
  by (simp add: stub_semantic_def stub_report_def Let_def)

lemma stub_diff_verdict:
  "ag_verdict (stub_diff s apis) =
     (if diff_has_high (or_else s []) (or_else apis []) then LlmSUSPICIOUS else LlmBENIGN)"
  by (simp add: stub_diff_def stub_report_def Let_def)

lemma stub_dependency_verdict:
  "ag_verdict (stub_dependency d deps) =
     (if deps_suspicious d deps then LlmSUSPICIOUS else LlmBENIGN)"
  by (simp add: stub_dependency_def stub_report_def Let_def)

lemmas stub_verdicts = stub_semantic_verdict stub_diff_verdict stub_dependency_verdict

lemma consensus_verdict: "cr_verdict (consensus rs) = vote rs"
  by (simp add: consensus_def vote_def count_verdict_def)

text \<open>In the offline mode the review never fails, and its consensus is malicious exactly when
  the file reads information, encodes it and sends it out, from an install hook or along a taint
  flow, and the version diff or the declared dependencies look suspicious as well: no single agent
  can convict alone.\<close>
theorem stub_consensus_malicious_iff:
  assumes "ri_mode i = ''stub''"
  shows "\<exists>c. review_multi env i = Inr c \<and> length (cr_agent_reports c) = 3 \<and>
    (cr_verdict c = LlmMALICIOUS) =
      (has_dims creds_combo (ri_file_seq i)
       \<and> (is_install_hook (ri_file_seq i) \<or> py_text_strip (ri_taint_slice i) \<noteq> [])
       \<and> (diff_has_high (or_else (ri_diff_summary i) []) (or_else (ri_new_apis i) [])
          \<or> deps_suspicious (ri_description i) (or_else (ri_declared_deps i) [])))"
  using assms
  by (simp add: review_multi_def Let_def consensus_verdict vote_malicious_iff count_verdict_def
        stub_verdicts, simp add: consensus_def)

text \<open>With the real model no review of a file with a matched technique succeeds: both reviewers
  read \<^verbatim>\<open>ttp_source\<close> of the matched \<^verbatim>\<open>TTPEntry\<close>, whose field is \<^verbatim>\<open>source\<close>, and raise
  \<^verbatim>\<open>AttributeError\<close> before the model is asked.\<close>
theorem real_review_with_ttp_raises:
  assumes "ri_mode i \<noteq> ''stub''" and "ri_ttp_matches i \<noteq> []"
  shows "review_multi env i = Inl no_ttp_source \<and> review env i = Inl no_ttp_source"
proof -
  from assms(2) obtain m ms where "ri_ttp_matches i = m # ms" by (cases "ri_ttp_matches i") simp_all
  then have "mapE ttp_line (take 5 (ri_ttp_matches i)) = Inl no_ttp_source"
    by (simp add: ttp_line_def)
  then show ?thesis
    using assms(1)
    by (simp add: review_multi_def review_def build_semantic_prompt_def build_user_prompt_def Let_def)
qed

definition no_llm :: llm_env where
  "no_llm = \<lparr>le_llm = (\<lambda>system user model. Inl (RuntimeError [])),
     le_json = (\<lambda>text. Inl (ValueError [])), le_str = (\<lambda>v. [])\<rparr>"

definition sample_match :: ttp_match where
  "sample_match = \<lparr>tm_file_path = [], tm_sequence = [], tm_dimensions = [],
     tm_ttp = \<lparr>ttp_id = ''T1059'', ttp_name = [], ttp_source = MITRE_ATTACK, ttp_kb_version = [],
       ttp_description = [], ttp_detection_hints = [], ttp_mitigations = [], ttp_severity = SevHIGH,
       ttp_url = [], ttp_embedding = None, ttp_collected_at = []\<rparr>,
     tm_similarity = 1, tm_sequence_text = []\<rparr>"

definition sample_review :: "string \<Rightarrow> ttp_match list \<Rightarrow> review_input" where
  "sample_review mode ttps =
     \<lparr>ri_package = ''evil'', ri_version = ''0.0.1'', ri_ecosystem = ''PyPI'',
      ri_file_seq = \<lparr>fq_path = ''evil/setup.py'', fq_language = ''python'',
        fq_calls = map (\<lambda>d. \<lparr>ac_name = ''f'', ac_line = 1, ac_dimension = d, ac_snippet = []\<rparr>) creds_combo,
        fq_parse_error = None\<rparr>,
      ri_ttp_matches = ttps, ri_code_snippet = [], ri_diff_summary = None,
      ri_new_apis = Some [''os.system''], ri_description = [], ri_declared_deps = None,
      ri_taint_slice = Some ''os.environ -> requests.post'', ri_mode = mode, ri_model = ''m''\<rparr>"

theorem stub_consensus_malicious_iff_witness:
  "\<exists>c. review_multi no_llm (sample_review ''stub'' []) = Inr c \<and> cr_verdict c = LlmMALICIOUS"
proof -
  have sem: "has_dims creds_combo (ri_file_seq (sample_review ''stub'' []))"
    by (simp add: sample_review_def has_dims_def fq_dimensions_def creds_combo_def list_all_iff image_iff)
  have taint: "py_text_strip (ri_taint_slice (sample_review ''stub'' [])) \<noteq> []"
    by (simp add: sample_review_def py_text_strip_def) code_simp
  have diff: "diff_has_high [] [''os.system'']"
    by code_simp
  show ?thesis
    using stub_consensus_malicious_iff [of "sample_review ''stub'' []" no_llm] sem taint diff
    by (auto simp: sample_review_def)
qed

theorem real_review_with_ttp_raises_witness:
  "review_multi no_llm (sample_review ''claude'' [sample_match]) = Inl no_ttp_source"
  using real_review_with_ttp_raises [of "sample_review ''claude'' [sample_match]" no_llm]
  by (simp add: sample_review_def)

subsection \<open>Agreement\<close>

lemma agreement_bounds:
  assumes "rs \<noteq> []"
  shows "1 / 3 \<le> agreement rs" "agreement rs \<le> 1"
proof -
  let ?c = "\<lambda>v. count_verdict v rs"
  let ?top = "py_max (map ?c [LlmMALICIOUS, LlmSUSPICIOUS, LlmBENIGN]) 0"
  have n: "0 < length rs" using assms by simp
  have ge: "?c v \<le> ?top" for v
    by (rule py_max_ge) (cases v; simp)
  have "?top \<in> set (map ?c [LlmMALICIOUS, LlmSUSPICIOUS, LlmBENIGN])"
    by (rule py_max_in) simp
  moreover have "?c v \<le> length rs" for v by (simp add: count_verdict_def)
  ultimately have le: "?top \<le> length rs" by auto
  have "length rs \<le> 3 * ?top"
    using count_verdict_total [of rs] ge [of LlmMALICIOUS] ge [of LlmSUSPICIOUS] ge [of LlmBENIGN]
    by simp
  then have "(of_nat (length rs) :: rat) \<le> of_nat (3 * ?top)" by (simp only: of_nat_le_iff)
  then show "1 / 3 \<le> agreement rs"
    using n by (simp add: agreement_def field_simps del: py_max.simps)
  show "agreement rs \<le> 1"
    using n le by (simp add: agreement_def divide_le_eq del: py_max.simps)
qed

end
