(* ===== verification/KeyedTable.thy ===== *)
theory KeyedTable
  imports Py_Prelude
begin

text \<open>
  A database table with a primary key: \<^verbatim>\<open>INSERT ... ON CONFLICT DO UPDATE\<close>, \<^verbatim>\<open>SELECT\<close> by key and
  \<^verbatim>\<open>DELETE\<close> by a condition on the key. The locale \<open>keyed_table\<close> is the contract the two caches rely
  on; its lemmas say that such a table behaves as a finite map, for single operations and for any
  sequence of them.
\<close>

definition upsert :: "('r \<Rightarrow> 'k) \<Rightarrow> 'r \<Rightarrow> 'r list \<Rightarrow> 'r list" where
  "upsert key r rows =
     (if list_ex (\<lambda>x. key x = key r) rows then map (\<lambda>x. if key x = key r then r else x) rows
      else rows @ [r])"

definition fetch :: "('r \<Rightarrow> 'k) \<Rightarrow> 'r list \<Rightarrow> 'k \<Rightarrow> 'r option" where
  "fetch key rows k = List.find (\<lambda>r. key r = k) rows"

definition delete_where :: "('r \<Rightarrow> 'k) \<Rightarrow> ('k \<Rightarrow> bool) \<Rightarrow> 'r list \<Rightarrow> 'r list" where
  "delete_where key P rows = filter (\<lambda>r. \<not> P (key r)) rows"

datatype ('r, 'k) table_op = Put 'r | Delete "'k \<Rightarrow> bool"

subsection \<open>The contract\<close>

locale keyed_table =
  fixes key :: "'r \<Rightarrow> 'k"
    and put :: "'r \<Rightarrow> 'r list \<Rightarrow> 'r list"
    and get :: "'r list \<Rightarrow> 'k \<Rightarrow> 'r option"
    and delete :: "('k \<Rightarrow> bool) \<Rightarrow> 'r list \<Rightarrow> 'r list"
  assumes get_put: "\<And>r rows k. get (put r rows) k = (if k = key r then Some r else get rows k)"
    and get_delete: "\<And>P rows k. get (delete P rows) k = (if P k then None else get rows k)"
    and get_key: "\<And>rows k r. get rows k = Some r \<Longrightarrow> key r = k"
    and keys_put: "\<And>r rows. distinct (map key rows) \<Longrightarrow> distinct (map key (put r rows))"
    and keys_delete: "\<And>P rows. distinct (map key rows) \<Longrightarrow> distinct (map key (delete P rows))"
begin

fun run :: "('r, 'k) table_op list \<Rightarrow> 'r list \<Rightarrow> 'r list" where
  "run [] rows = rows"
| "run (Put r # ops) rows = run ops (put r rows)"
| "run (Delete P # ops) rows = run ops (delete P rows)"

fun abs_run :: "('r, 'k) table_op list \<Rightarrow> ('k \<Rightarrow> 'r option) \<Rightarrow> 'k \<Rightarrow> 'r option" where
  "abs_run [] m = m"
| "abs_run (Put r # ops) m = abs_run ops (m(key r \<mapsto> r))"
| "abs_run (Delete P # ops) m = abs_run ops (\<lambda>k. if P k then None else m k)"

lemma put_map: "get (put r rows) = (get rows)(key r \<mapsto> r)"
  by (rule ext) (simp add: get_put)

lemma delete_map: "get (delete P rows) = (\<lambda>k. if P k then None else get rows k)"
  by (rule ext) (simp add: get_delete)

lemma run_map: "get (run ops rows) = abs_run ops (get rows)"
  by (induction ops rows rule: run.induct) (simp_all add: put_map delete_map del: fun_upd_apply)

lemma run_distinct: "distinct (map key rows) \<Longrightarrow> distinct (map key (run ops rows))"
  by (induction ops rows rule: run.induct) (simp_all add: keys_put keys_delete)

lemma last_put_wins: "get (put r' (put r rows)) = get (put r' rows)" if "key r = key r'"
  using that by (auto simp: get_put)

lemma put_commutes: "get (put r (put r' rows)) = get (put r' (put r rows))" if "key r \<noteq> key r'"
  using that by (auto simp: get_put)

lemma delete_after_put: "P (key r) \<Longrightarrow> get (delete P (put r rows)) = get (delete P rows)"
  by (auto simp: get_put get_delete)

end

subsection \<open>The table meets it\<close>

lemma key_present: "list_ex (\<lambda>x. key x = key r) rows \<longleftrightarrow> key r \<in> key ` set rows"
  by (induction rows) auto

lemma map_key_upsert:
  "map key (upsert key r rows) =
     (if key r \<in> key ` set rows then map key rows else map key rows @ [key r])"
  by (auto simp: upsert_def key_present intro!: map_cong)

lemma fetch_Nil [simp]: "fetch key [] k = None"
  by (simp add: fetch_def)

lemma fetch_Cons [simp]: "fetch key (r # rows) k = (if key r = k then Some r else fetch key rows k)"
  by (simp add: fetch_def)

lemma fetch_append: "fetch key (rows @ rows') k =
   (case fetch key rows k of None \<Rightarrow> fetch key rows' k | Some r \<Rightarrow> Some r)"
  by (induction rows) simp_all

lemma fetch_None_iff: "fetch key rows k = None \<longleftrightarrow> k \<notin> key ` set rows"
  by (induction rows) auto

lemma fetch_replaced:
  "fetch key (map (\<lambda>x. if key x = key r then r else x) rows) k =
     (if k = key r \<and> k \<in> key ` set rows then Some r else fetch key rows k)"
  by (induction rows) auto

lemma fetch_upsert: "fetch key (upsert key r rows) k = (if k = key r then Some r else fetch key rows k)"
proof (cases "key r \<in> key ` set rows")
  case True
  then show ?thesis by (simp add: upsert_def key_present fetch_replaced)
next
  case False
  then have "fetch key rows (key r) = None" by (simp add: fetch_None_iff)
  then show ?thesis
    using False by (simp add: upsert_def key_present fetch_append split: option.split)
qed

lemma fetch_delete_where:
  "fetch key (delete_where key P rows) k = (if P k then None else fetch key rows k)"
  by (induction rows) (auto simp: delete_where_def)

lemma fetch_key: "fetch key rows k = Some r \<Longrightarrow> key r = k"
  by (induction rows) (auto split: if_splits)

lemma fetch_in: "fetch key rows k = Some r \<Longrightarrow> r \<in> set rows"
  by (induction rows) (auto split: if_splits)

lemma distinct_upsert: "distinct (map key rows) \<Longrightarrow> distinct (map key (upsert key r rows))"
  by (simp add: map_key_upsert)

lemma distinct_delete_where:
  "distinct (map key rows) \<Longrightarrow> distinct (map key (delete_where key P rows))"
  by (simp add: delete_where_def distinct_map_filter)

end
