(* ===== verification/Integrity.thy ===== *)
theory Integrity
  imports EntryPoint StringAnalysis
begin

text \<open>
  \<^verbatim>\<open>db/integrity.py\<close>: fingerprints of an archive in three strengths, the Merkle root over its
  files and the HMAC of a cache row. Bytes are strings; SHA-256, HMAC, the network, the archive
  readers and canonical JSON are parameters (\<open>integrity_env\<close>). The lemmas give the meaning of the
  Merkle loop as a binary tree, and of \<open>matches\<close> as a comparison of modes and digests.
\<close>

subsection \<open>Modes and fingerprints\<close>

datatype integrity_mode = FAST | STRICT | PARANOID

fun integrity_mode_value :: "integrity_mode \<Rightarrow> string" where
  "integrity_mode_value FAST = ''fast''"
| "integrity_mode_value STRICT = ''strict''"
| "integrity_mode_value PARANOID = ''paranoid''"

text \<open>The text an f-string gives for a member (not its value, from Python 3.11 on).\<close>

fun integrity_mode_str :: "integrity_mode \<Rightarrow> string" where
  "integrity_mode_str FAST = ''IntegrityMode.FAST''"
| "integrity_mode_str STRICT = ''IntegrityMode.STRICT''"
| "integrity_mode_str PARANOID = ''IntegrityMode.PARANOID''"

abbreviation "integrity_modes \<equiv> [FAST, STRICT, PARANOID]"

interpretation integrity_enum: str_enum integrity_modes integrity_mode_value
proof unfold_locales
  show "x \<in> set integrity_modes" for x by (cases x) simp_all
  show "integrity_mode_value x = integrity_mode_value y \<Longrightarrow> x = y" for x y
    by (cases x; cases y) simp_all
qed

fun mode_rank :: "integrity_mode \<Rightarrow> nat" where
  "mode_rank FAST = 0"
| "mode_rank STRICT = 1"
| "mode_rank PARANOID = 2"

record fingerprint =
  fp_mode :: integrity_mode
  fp_archive_url :: string
  fp_etag :: "string option"
  fp_content_length :: "nat option"
  fp_last_modified :: "string option"
  fp_archive_sha256 :: "string option"
  fp_archive_size :: "nat option"
  fp_file_hashes :: "(string \<times> string) list"
  fp_merkle_root :: "string option"

definition fingerprint_to_dict :: "fingerprint \<Rightarrow> pyval" where
  "fingerprint_to_dict f = PDict
     [(''mode'', PStr (integrity_mode_value (fp_mode f))), (''url'', PStr (fp_archive_url f)),
      (''etag'', popt PStr (fp_etag f)),
      (''content_length'', popt (\<lambda>n. PInt (int n)) (fp_content_length f)),
      (''last_modified'', popt PStr (fp_last_modified f)),
      (''archive_sha256'', popt PStr (fp_archive_sha256 f)),
      (''archive_size'', popt (\<lambda>n. PInt (int n)) (fp_archive_size f)),
      (''file_hash_count'', PInt (int (length (fp_file_hashes f)))),
      (''merkle_root'', popt PStr (fp_merkle_root f))]"

definition bare_fingerprint :: "integrity_mode \<Rightarrow> string \<Rightarrow> fingerprint" where
  "bare_fingerprint mode url =
     \<lparr>fp_mode = mode, fp_archive_url = url, fp_etag = None, fp_content_length = None,
      fp_last_modified = None, fp_archive_sha256 = None, fp_archive_size = None,
      fp_file_hashes = [], fp_merkle_root = None\<rparr>"

type_synonym headers = "(string \<times> string) list"

record integrity_env =
  ie_get :: "string \<Rightarrow> pyexn + string \<times> headers"
  ie_head :: "string \<Rightarrow> pyexn + headers"
  ie_untargz :: "string \<Rightarrow> pyexn + member list"
  ie_untar :: "string \<Rightarrow> pyexn + member list"
  ie_unzip :: "string \<Rightarrow> pyexn + member list"
  ie_sha :: "string \<Rightarrow> string"
  ie_hmac :: "string \<Rightarrow> string \<Rightarrow> string"
  ie_canonical :: "pydict \<Rightarrow> string"

text \<open>\<^verbatim>\<open>{k.lower(): v for k, v in resp.headers.items()}\<close> and a look-up in it.\<close>

definition header_get :: "headers \<Rightarrow> string \<Rightarrow> string option" where
  "header_get hs k = map_of (rev (map (\<lambda>(n, v). (py_lower n, v)) hs)) k"

subsection \<open>Digests\<close>

text \<open>\<^verbatim>\<open>bytes.hex\<close> and \<^verbatim>\<open>bytes.fromhex\<close>, which skips white space between the bytes.\<close>

fun to_hex :: "string \<Rightarrow> string" where
  "to_hex [] = []"
| "to_hex (c # cs) = (let n = (of_char c :: nat) in
     hex_digit (n div 16) # hex_digit (n mod 16) # to_hex cs)"

definition hex_skips :: "char \<Rightarrow> bool" where
  "hex_skips c = (let n = (of_char c :: nat) in n = 32 \<or> (9 \<le> n \<and> n \<le> 13))"

fun from_hex :: "string \<Rightarrow> pyexn + string" where
  "from_hex [] = Inr []"
| "from_hex (a # s) =
     (if hex_skips a then from_hex s
      else case s of
          [] \<Rightarrow> Inl (ValueError ''non-hexadecimal number found in fromhex() arg'')
        | b # r \<Rightarrow>
            (case (hex_value a, hex_value b) of
               (Some m, Some n) \<Rightarrow> bindE (from_hex r) (\<lambda>bs. Inr (char_of (16 * m + n) # bs))
             | _ \<Rightarrow> Inl (ValueError ''non-hexadecimal number found in fromhex() arg'')))"

definition sha_hex :: "(string \<Rightarrow> string) \<Rightarrow> string \<Rightarrow> string" where
  "sha_hex sha data = to_hex (sha data)"

definition hash_bytes :: "(string \<Rightarrow> string) \<Rightarrow> string \<Rightarrow> string \<times> nat" where
  "hash_bytes sha data = (sha_hex sha data, length data)"

subsection \<open>The Merkle root\<close>

definition leaf_node :: "(string \<Rightarrow> string) \<Rightarrow> string \<Rightarrow> string" where
  "leaf_node sha h = sha (CHR 0x00 # h)"

definition inner_node :: "(string \<Rightarrow> string) \<Rightarrow> string \<Rightarrow> string \<Rightarrow> string" where
  "inner_node sha l r = sha (CHR 0x01 # l @ r)"

text \<open>One round: neighbours are joined, an odd last node is kept.\<close>

fun merkle_level :: "(string \<Rightarrow> string) \<Rightarrow> string list \<Rightarrow> string list" where
  "merkle_level sha (a # b # ns) = inner_node sha a b # merkle_level sha ns"
| "merkle_level sha ns = ns"

lemma length_merkle_level: "length (merkle_level sha ns) = (length ns + 1) div 2"
  by (induction sha ns rule: merkle_level.induct) simp_all

function merkle_loop :: "(string \<Rightarrow> string) \<Rightarrow> string list \<Rightarrow> string list" where
  "merkle_loop sha ns = (if length ns \<le> 1 then ns else merkle_loop sha (merkle_level sha ns))"
  by auto
termination by (relation "measure (\<lambda>(sha, ns). length ns)") (auto simp: length_merkle_level)

declare merkle_loop.simps [simp del]

definition merkle_root :: "(string \<Rightarrow> string) \<Rightarrow> string list \<Rightarrow> pyexn + string" where
  "merkle_root sha leaves =
     (case leaves of
        [] \<Rightarrow> Inr []
      | [l] \<Rightarrow> Inr l
      | _ \<Rightarrow> bindE (mapE from_hex leaves) (\<lambda>hs.
               Inr (to_hex (hd (merkle_loop sha (map (leaf_node sha) hs))))))"

subsection \<open>Hashes of the files of an archive\<close>

fun hash_members :: "(string \<Rightarrow> string) \<Rightarrow> (member \<Rightarrow> bool) \<Rightarrow> member list \<Rightarrow> (string \<times> string) list
    \<Rightarrow> pyexn + (string \<times> string) list" where
  "hash_members sha skip [] fh = Inr fh"
| "hash_members sha skip (m # ms) fh =
     (if skip m then hash_members sha skip ms fh
      else bindE (am_read m) (\<lambda>content.
        case content of
          None \<Rightarrow> hash_members sha skip ms fh
        | Some c \<Rightarrow> hash_members sha skip ms (AList.update (am_name m) (sha_hex sha c) fh)))"

definition file_hashes_from_archive :: "integrity_env \<Rightarrow> string \<Rightarrow> string \<Rightarrow> (string \<times> string) list" where
  "file_hashes_from_archive env data archive_url =
     (let lower = py_lower archive_url;
          tar = (\<lambda>ms. hash_members (ie_sha env) (\<lambda>m. \<not> am_isfile m) ms []);
          zip = (\<lambda>ms. hash_members (ie_sha env) (\<lambda>m. endswith (am_name m) ''/'') ms [])
      in case (if endswith lower ''.tar.gz'' \<or> endswith lower ''.tgz''
               then bindE (ie_untargz env data) tar
               else if endswith lower ''.tar'' then bindE (ie_untar env data) tar
               else if endswith lower ''.whl'' \<or> endswith lower ''.zip''
               then bindE (ie_unzip env data) zip
               else Inr []) of
           Inl _ \<Rightarrow> []
         | Inr fh \<Rightarrow> sort_key fst fh)"

subsection \<open>The checker\<close>

definition fingerprint_fast :: "integrity_env \<Rightarrow> string \<Rightarrow> fingerprint" where
  "fingerprint_fast env url =
     (case ie_head env url of
        Inl _ \<Rightarrow> bare_fingerprint FAST url
      | Inr h \<Rightarrow> (bare_fingerprint FAST url)
          \<lparr>fp_etag := header_get h ''etag'',
           fp_content_length := (case header_get h ''content-length'' of
               Some cl \<Rightarrow> (if cl \<noteq> [] \<and> py_isdigit cl then Some (digits_value cl) else None)
             | None \<Rightarrow> None),
           fp_last_modified := header_get h ''last-modified''\<rparr>)"

definition fingerprint_strict :: "integrity_env \<Rightarrow> string \<Rightarrow> pyexn + fingerprint" where
  "fingerprint_strict env url =
     bindE (ie_get env url) (\<lambda>(body, headers).
       case hash_bytes (ie_sha env) body of (digest, n) \<Rightarrow>
       Inr ((bare_fingerprint STRICT url)
          \<lparr>fp_etag := header_get headers ''etag'', fp_content_length := Some n,
           fp_last_modified := header_get headers ''last-modified'',
           fp_archive_sha256 := Some digest, fp_archive_size := Some n\<rparr>))"

definition fingerprint_paranoid :: "integrity_env \<Rightarrow> string \<Rightarrow> pyexn + fingerprint" where
  "fingerprint_paranoid env url =
     bindE (ie_get env url) (\<lambda>(body, headers).
       case hash_bytes (ie_sha env) body of (digest, n) \<Rightarrow>
       let file_hashes = file_hashes_from_archive env body url in
       bindE (merkle_root (ie_sha env) (dict_values file_hashes)) (\<lambda>merkle.
       Inr ((bare_fingerprint PARANOID url)
          \<lparr>fp_etag := header_get headers ''etag'', fp_content_length := Some n,
           fp_last_modified := header_get headers ''last-modified'',
           fp_archive_sha256 := Some digest, fp_archive_size := Some n,
           fp_file_hashes := file_hashes, fp_merkle_root := Some merkle\<rparr>)))"

fun fingerprint_of :: "integrity_env \<Rightarrow> integrity_mode \<Rightarrow> string \<Rightarrow> pyexn + fingerprint" where
  "fingerprint_of env FAST url = Inr (fingerprint_fast env url)"
| "fingerprint_of env STRICT url = fingerprint_strict env url"
| "fingerprint_of env PARANOID url = fingerprint_paranoid env url"

text \<open>The shortened digests in the reason of a mismatch.\<close>

definition changed_text :: "string \<Rightarrow> string \<Rightarrow> string" where
  "changed_text old new =
     '' ('' @ take 12 old @ ''.. '' @ utf8 [226, 134, 146] @ '' '' @ take 12 new @ ''..)''"

definition fp_matches :: "fingerprint \<Rightarrow> fingerprint \<Rightarrow> bool \<times> string" where
  "fp_matches cached fresh =
     (let c_sha = or_else (fp_archive_sha256 cached) []; f_sha = or_else (fp_archive_sha256 fresh) [];
          c_root = or_else (fp_merkle_root cached) []; f_root = or_else (fp_merkle_root fresh) []
      in if mode_rank (fp_mode cached) < mode_rank (fp_mode fresh)
         then (False, ''cache mode '' @ [CHR 0x27] @ integrity_mode_str (fp_mode cached) @ [CHR 0x27]
                 @ '' is weaker than current '' @ [CHR 0x27] @ integrity_mode_str (fp_mode fresh)
                 @ [CHR 0x27] @ '' -> invalidate'')
         else if fp_mode fresh = FAST
         then (if truthy_opt (fp_etag cached) \<and> fp_etag cached = fp_etag fresh
                  \<and> fp_content_length cached = fp_content_length fresh
               then (True, ''fast: ETag + Content-Length match'')
               else (False, ''fast: HEAD meta mismatch''))
         else if c_sha = [] \<or> f_sha = [] then (False, ''missing archive_sha256'')
         else if c_sha \<noteq> f_sha
         then (False, ''archive sha256 changed'' @ changed_text c_sha f_sha)
         else if fp_mode fresh = PARANOID \<and> (c_root = [] \<or> f_root = [])
         then (False, ''paranoid: missing merkle_root'')
         else if fp_mode fresh = PARANOID \<and> c_root \<noteq> f_root
         then (False, ''paranoid: merkle root changed'' @ changed_text c_root f_root)
         else (True, integrity_mode_str (fp_mode fresh) @ '': integrity match''))"

subsection \<open>The HMAC of a row\<close>

definition row_hmac_key :: "string \<Rightarrow> pyexn + string" where
  "row_hmac_key key = (if length key < 32 then Inl (ValueError ''HMAC key must be >= 32 bytes'')
                       else Inr key)"

definition from_passphrase :: "integrity_env \<Rightarrow> string \<Rightarrow> pyexn + string" where
  "from_passphrase env passphrase = row_hmac_key (ie_sha env (passphrase @ ''|row-hmac-v1''))"

definition hmac_compute :: "integrity_env \<Rightarrow> string \<Rightarrow> pydict \<Rightarrow> string" where
  "hmac_compute env key row =
     to_hex (ie_hmac env key
       (ie_canonical env (sort_key fst (filter (\<lambda>(k, v). k \<noteq> ''row_hmac'') row))))"

definition hmac_verify :: "integrity_env \<Rightarrow> string \<Rightarrow> pydict \<Rightarrow> string \<Rightarrow> bool" where
  "hmac_verify env key row expected =
     (if expected = [] then False else hmac_compute env key row = expected)"

subsection \<open>Hexadecimal round trip\<close>

lemma hex_value_digit [simp]: "n < 16 \<Longrightarrow> hex_value (hex_digit n) = Some n"
  by (simp add: hex_value_def hex_digit_def)

lemma hex_digit_not_skipped [simp]: "n < 16 \<Longrightarrow> \<not> hex_skips (hex_digit n)"
  by (simp add: hex_skips_def hex_digit_def)

lemma from_hex_to_hex [simp]: "from_hex (to_hex bs) = Inr bs"
proof (induction bs)
  case (Cons c bs)
  let ?n = "of_char c :: nat"
  have "?n < 256" by simp
  then have d: "?n div 16 < 16" "?n mod 16 < 16" by linarith simp
  have "char_of (16 * (?n div 16) + ?n mod 16) = c" by simp
  then show ?case
    using Cons d by (simp add: Let_def)
qed simp

lemma to_hex_inject [simp]: "to_hex a = to_hex b \<longleftrightarrow> a = b"
  using from_hex_to_hex [of a] from_hex_to_hex [of b] by (metis sum.inject(2))

subsection \<open>The Merkle loop as a tree\<close>

text \<open>
  The tree the loop computes the hash of: its leaves, from left to right, are the digests of the
  files. \<open>mt_hashed\<close> lists every text SHA-256 is applied to.
\<close>

datatype merkle_tree = MLeaf string | MNode merkle_tree merkle_tree

fun mt_fringe :: "merkle_tree \<Rightarrow> string list" where
  "mt_fringe (MLeaf h) = [h]"
| "mt_fringe (MNode l r) = mt_fringe l @ mt_fringe r"

fun mt_hash :: "(string \<Rightarrow> string) \<Rightarrow> merkle_tree \<Rightarrow> string" where
  "mt_hash sha (MLeaf h) = leaf_node sha h"
| "mt_hash sha (MNode l r) = inner_node sha (mt_hash sha l) (mt_hash sha r)"

fun mt_hashed :: "(string \<Rightarrow> string) \<Rightarrow> merkle_tree \<Rightarrow> string list" where
  "mt_hashed sha (MLeaf h) = [CHR 0x00 # h]"
| "mt_hashed sha (MNode l r) =
     (CHR 0x01 # mt_hash sha l @ mt_hash sha r) # mt_hashed sha l @ mt_hashed sha r"

fun tree_level :: "merkle_tree list \<Rightarrow> merkle_tree list" where
  "tree_level (a # b # ts) = MNode a b # tree_level ts"
| "tree_level ts = ts"

lemma length_tree_level: "length (tree_level ts) = (length ts + 1) div 2"
  by (induction ts rule: tree_level.induct) simp_all

function tree_loop :: "merkle_tree list \<Rightarrow> merkle_tree list" where
  "tree_loop ts = (if length ts \<le> 1 then ts else tree_loop (tree_level ts))"
  by auto
termination by (relation "measure length") (auto simp: length_tree_level)

declare tree_loop.simps [simp del]

definition merkle_tree_of :: "string list \<Rightarrow> merkle_tree" where
  "merkle_tree_of hs = hd (tree_loop (map MLeaf hs))"

lemma level_refines: "merkle_level sha (map (mt_hash sha) ts) = map (mt_hash sha) (tree_level ts)"
  by (induction ts rule: tree_level.induct) simp_all

lemma level_fringe: "concat (map mt_fringe (tree_level ts)) = concat (map mt_fringe ts)"
  by (induction ts rule: tree_level.induct) simp_all

lemma loop_refines: "merkle_loop sha (map (mt_hash sha) ts) = map (mt_hash sha) (tree_loop ts)"
proof (induction ts rule: tree_loop.induct)
  case (1 ts)
  then show ?case
    by (subst tree_loop.simps, subst merkle_loop.simps) (simp add: level_refines)
qed

lemma loop_single:
  assumes "ts \<noteq> []"
  shows "\<exists>t. tree_loop ts = [t] \<and> mt_fringe t = concat (map mt_fringe ts)"
  using assms
proof (induction ts rule: tree_loop.induct)
  case (1 ts)
  show ?case
  proof (cases "length ts \<le> 1")
    case True
    with 1 obtain t where "ts = [t]" by (cases ts) auto
    then show ?thesis by (simp add: tree_loop.simps)
  next
    case False
    then have "tree_level ts \<noteq> []"
      using length_tree_level [of ts] by (cases "tree_level ts") auto
    with False 1 level_fringe [of ts] show ?thesis
      by (subst tree_loop.simps) simp
  qed
qed

lemma tree_root:
  assumes "2 \<le> length hs"
  shows "merkle_root sha (map to_hex hs) = Inr (to_hex (mt_hash sha (merkle_tree_of hs)))
    \<and> mt_fringe (merkle_tree_of hs) = hs"
proof -
  from assms obtain a b r where hs: "hs = a # b # r"
    by (cases hs; cases "tl hs") auto
  have leaves: "map (leaf_node sha) hs = map (mt_hash sha) (map MLeaf hs)" by simp
  have "concat (map mt_fringe (map MLeaf hs)) = hs" by (induction hs) simp_all
  with loop_single [of "map MLeaf hs"] hs obtain t
    where t: "tree_loop (map MLeaf hs) = [t]" "mt_fringe t = hs" by auto
  have loop: "merkle_loop sha (map (leaf_node sha) hs) = [mt_hash sha t]"
    unfolding leaves loop_refines by (simp add: t)
  have "mapE from_hex (map to_hex hs) = Inr hs" by (rule mapE_map') simp
  then have "merkle_root sha (map to_hex hs) = Inr (to_hex (mt_hash sha t))"
    using loop unfolding hs by (simp add: merkle_root_def)
  then show ?thesis
    by (simp only: merkle_tree_of_def t list.sel)
qed

text \<open>The Merkle root of two or more files, computed round by round over the list of node
  hashes, is the hash of one binary tree whose leaves are the files' digests in order.\<close>
theorem merkle_root_refines_tree:
  assumes "2 \<le> length hs"
  shows "merkle_root sha (map to_hex hs) = Inr (to_hex (mt_hash sha (merkle_tree_of hs)))
    \<and> mt_fringe (merkle_tree_of hs) = hs"
  by (rule tree_root [OF assms])

lemma mt_hash_inject:
  assumes "\<And>x. length (sha x) = 32"
    and "inj_on sha A" and "set (mt_hashed sha t) \<subseteq> A" and "set (mt_hashed sha t') \<subseteq> A"
    and "mt_hash sha t = mt_hash sha t'"
  shows "t = t'"
  using assms(3-5)
proof (induction t arbitrary: t')
  case (MLeaf h)
  show ?case
  proof (cases t')
    case (MLeaf h')
    with MLeaf.prems assms(2) show ?thesis by (auto simp: leaf_node_def dest: inj_onD)
  next
    case (MNode l r)
    with MLeaf.prems assms(2) show ?thesis
      by (auto simp: leaf_node_def inner_node_def dest: inj_onD)
  qed
next
  case (MNode l r)
  show ?case
  proof (cases t')
    case (MLeaf h')
    with MNode.prems assms(2) show ?thesis
      by (auto simp: leaf_node_def inner_node_def dest: inj_onD)
  next
    case t': (MNode l' r')
    have len: "length (mt_hash sha u) = 32" for u
      by (cases u) (simp_all add: leaf_node_def inner_node_def assms(1))
    have "CHR 0x01 # mt_hash sha l @ mt_hash sha r = CHR 0x01 # mt_hash sha l' @ mt_hash sha r'"
    proof (rule inj_onD [OF assms(2)])
      show "sha (CHR 0x01 # mt_hash sha l @ mt_hash sha r)
        = sha (CHR 0x01 # mt_hash sha l' @ mt_hash sha r')"
        using MNode.prems(3) by (simp only: t' mt_hash.simps inner_node_def)
    qed (use MNode.prems(1,2) t' in simp_all)
    then have "mt_hash sha l = mt_hash sha l'" "mt_hash sha r = mt_hash sha r'"
      by (simp_all add: len)
    moreover have "set (mt_hashed sha l) \<subseteq> A" "set (mt_hashed sha r) \<subseteq> A"
      "set (mt_hashed sha l') \<subseteq> A" "set (mt_hashed sha r') \<subseteq> A"
      using MNode.prems(1,2) t' by simp_all
    ultimately show ?thesis
      using MNode.IH(1) [of l'] MNode.IH(2) [of r'] t' by simp
  qed
qed

text \<open>C33: The Merkle root detects tampering: two archives of at least two files each whose lists of
  file digests differ (another content, another order, a file more or less) have different roots,
  as long as SHA-256 has no collision among the node texts of the two trees.\<close>
theorem merkle_root_detects_tampering:
  assumes "\<And>x. length (sha x) = 32"
    and "inj_on sha (set (mt_hashed sha (merkle_tree_of hs)) \<union> set (mt_hashed sha (merkle_tree_of hs')))"
    and "2 \<le> length hs" and "2 \<le> length hs'" and "hs \<noteq> hs'"
  shows "merkle_root sha (map to_hex hs) \<noteq> merkle_root sha (map to_hex hs')"
proof
  assume "merkle_root sha (map to_hex hs) = merkle_root sha (map to_hex hs')"
  with tree_root [OF assms(3), of sha] tree_root [OF assms(4), of sha]
  have "mt_hash sha (merkle_tree_of hs) = mt_hash sha (merkle_tree_of hs')" by simp
  then have "merkle_tree_of hs = merkle_tree_of hs'"
    by (rule mt_hash_inject [OF assms(1,2), rotated 2]) auto
  with tree_root [OF assms(3), of sha] tree_root [OF assms(4), of sha] assms(5)
  show False by metis
qed

text \<open>A checksum of 32 bytes that tells the texts of the example apart.\<close>

definition toy_sha :: "string \<Rightarrow> string" where
  "toy_sha x = replicate 32 (char_of (foldl (\<lambda>a c. (3 * a + (of_char c :: nat)) mod 256) 7 x))"

theorem merkle_root_refines_tree_witness:
  "merkle_root toy_sha (map to_hex [''a'', ''b'', ''c''])
      = Inr (to_hex (mt_hash toy_sha (merkle_tree_of [''a'', ''b'', ''c''])))
    \<and> mt_fringe (merkle_tree_of [''a'', ''b'', ''c'']) = [''a'', ''b'', ''c'']"
  by (rule merkle_root_refines_tree) simp

theorem merkle_root_detects_tampering_witness:
  "merkle_root toy_sha (map to_hex [''a'', ''b'']) \<noteq> merkle_root toy_sha (map to_hex [''a'', ''c''])"
proof (rule merkle_root_detects_tampering)
  show "length (toy_sha x) = 32" for x by (simp add: toy_sha_def)
  have "distinct (map toy_sha (remdups (mt_hashed toy_sha (merkle_tree_of [''a'', ''b''])
      @ mt_hashed toy_sha (merkle_tree_of [''a'', ''c'']))))"
    by code_simp
  then show "inj_on toy_sha (set (mt_hashed toy_sha (merkle_tree_of [''a'', ''b'']))
      \<union> set (mt_hashed toy_sha (merkle_tree_of [''a'', ''c''])))"
    by (simp only: distinct_map set_remdups set_append)
qed simp_all

text \<open>A single file escapes the domain separation: its digest is the root as it is, not hashed
  behind a zero byte. So the archive with the one file \<open>01 || leaf a || leaf b\<close> has the root of the
  archive whose two files have the digests \<open>a\<close> and \<open>b\<close>, whatever the hash function.\<close>
theorem single_file_root_forged:
  "merkle_root sha [sha_hex sha (CHR 0x01 # leaf_node sha a @ leaf_node sha b)]
     = merkle_root sha [to_hex a, to_hex b]"
  by (simp add: merkle_root_def sha_hex_def inner_node_def merkle_loop.simps)

subsection \<open>What a match means\<close>

lemma fp_matches_strong:
  assumes "fp_mode fresh \<noteq> FAST"
  shows "fst (fp_matches cached fresh) \<longleftrightarrow>
    mode_rank (fp_mode fresh) \<le> mode_rank (fp_mode cached)
    \<and> truthy_opt (fp_archive_sha256 fresh) \<and> fp_archive_sha256 cached = fp_archive_sha256 fresh
    \<and> (fp_mode fresh = STRICT
       \<or> truthy_opt (fp_merkle_root fresh) \<and> fp_merkle_root cached = fp_merkle_root fresh)"
proof -
  have or_sha: "or_else m [] = [] \<longleftrightarrow> \<not> truthy_opt m" for m :: "string option"
    by (cases m rule: option.exhaust; cases "the m") auto
  have or_eq: "or_else m [] = or_else k [] \<longleftrightarrow> m = k" if "truthy_opt m" "truthy_opt k"
    for m k :: "string option"
    using that by (cases m; cases k; cases "the m"; cases "the k") auto
  show ?thesis
    using assms or_eq [of "fp_archive_sha256 cached" "fp_archive_sha256 fresh"]
      or_eq [of "fp_merkle_root cached" "fp_merkle_root fresh"]
    by (cases "fp_mode fresh") (auto simp: fp_matches_def Let_def or_sha)
qed

lemma fp_matches_fast:
  "fp_mode fresh = FAST \<Longrightarrow> fst (fp_matches cached fresh) \<longleftrightarrow>
     truthy_opt (fp_etag cached) \<and> fp_etag cached = fp_etag fresh
     \<and> fp_content_length cached = fp_content_length fresh"
  by (auto simp: fp_matches_def Let_def)

end
