(* ===== verification/AnalysisCache.thy ===== *)
theory AnalysisCache
  imports Integrity KeyedTable
begin

text \<open>
  \<^verbatim>\<open>db/analysis_cache.py\<close>: the cache of whole reports. The state is the two tables the code
  reads and writes, \<^verbatim>\<open>analyses\<close> and \<^verbatim>\<open>cache_invalidation_log\<close>; an operation that raises rolls
  back, so its exception carries no state. Time stamps are the database's texts, compared as texts.
  The clock, the JSON codec, the modules' sources and the master key are parameters.
\<close>

subsection \<open>Tables and keys\<close>

record analysis_row =
  an_package :: string
  an_ecosystem :: string
  an_version :: string
  an_engine_version :: string
  an_rules_version :: string
  an_kb_version :: string
  an_feed_version :: string
  an_archive_sha256 :: "string option"
  an_merkle_root :: "string option"
  an_row_hmac :: "string option"
  an_integrity_mode :: integrity_mode
  an_verdict :: string
  an_report_json :: string
  an_analyzed_at :: string

record log_row =
  lg_ecosystem :: string
  lg_package :: string
  lg_invalidated_at :: string
  lg_reason :: string

record cache_db =
  cb_analyses :: "analysis_row list"
  cb_log :: "log_row list"

record cache_key =
  ck_package :: string
  ck_ecosystem :: string
  ck_version :: string
  ck_engine_version :: string

record cache_hit =
  ch_hit :: bool
  ch_reason :: string
  ch_report :: "pyval option"
  ch_cache_row :: "analysis_row option"
  ch_invalidation :: "string list"

record cache_env =
  ce_integrity :: integrity_env
  ce_read_module :: "string \<Rightarrow> pyexn + string option"
  ce_feed_meta :: "(string \<times> string option) list"
  ce_parse_iso :: "string \<Rightarrow> rat option"
  ce_now :: rat
  ce_now_iso :: string
  ce_now_sql :: string
  ce_dumps :: "pyval \<Rightarrow> pyexn + string"
  ce_loads :: "string \<Rightarrow> pyexn + pyval"
  ce_passphrase :: "string option"

subsection \<open>Versions of the engine, the rules and the knowledge\<close>

definition ENGINE_VERSION :: string where
  "ENGINE_VERSION = ''2.0.0''"

definition module_text :: "(string \<Rightarrow> pyexn + string option) \<Rightarrow> string \<Rightarrow> string" where
  "module_text read_module name =
     (case read_module name of Inl _ \<Rightarrow> name | Inr None \<Rightarrow> [] | Inr (Some src) \<Rightarrow> src)"

definition hash_module_set ::
  "(string \<Rightarrow> string) \<Rightarrow> (string \<Rightarrow> pyexn + string option) \<Rightarrow> string list \<Rightarrow> string" where
  "hash_module_set sha read_module names =
     take 16 (sha_hex sha (concat (map (module_text read_module) (sort names))))"

definition get_rules_version :: "cache_env \<Rightarrow> string" where
  "get_rules_version env = hash_module_set (ie_sha (ce_integrity env)) (ce_read_module env)
     [''pkgsentinel.knowledge.malicious_indicators'', ''pkgsentinel.stages.indicator_matcher'',
      ''pkgsentinel.stages.sequence_patterns'', ''pkgsentinel.stages.api_catalog'',
      ''pkgsentinel.stages.taint_slicer'']"

definition get_kb_version :: "cache_env \<Rightarrow> string" where
  "get_kb_version env = hash_module_set (ie_sha (ce_integrity env)) (ce_read_module env)
     [''pkgsentinel.knowledge.mitre_attack'', ''pkgsentinel.knowledge.mitre_atlas'',
      ''pkgsentinel.knowledge.owasp_llm'']"

definition get_feed_version :: "cache_env \<Rightarrow> string" where
  "get_feed_version env = take 16 (sha_hex (ie_sha (ce_integrity env))
     (py_join ''|'' (map (\<lambda>(source, v). source @ ''='' @ or_else v [])
        (sort_key fst (ce_feed_meta env)))))"

subsection \<open>Rows\<close>

definition row_key :: "analysis_row \<Rightarrow> cache_key" where
  "row_key r = \<lparr>ck_package = an_package r, ck_ecosystem = an_ecosystem r, ck_version = an_version r,
     ck_engine_version = an_engine_version r\<rparr>"

definition fetch_row :: "cache_db \<Rightarrow> cache_key \<Rightarrow> analysis_row option" where
  "fetch_row db key = fetch row_key (cb_analyses db) key"

definition row_to_fingerprint :: "analysis_row \<Rightarrow> string \<Rightarrow> fingerprint" where
  "row_to_fingerprint r archive_url =
     (bare_fingerprint (an_integrity_mode r) archive_url)
       \<lparr>fp_archive_sha256 := an_archive_sha256 r, fp_merkle_root := an_merkle_root r\<rparr>"

text \<open>The columns the HMAC covers: all but \<^verbatim>\<open>row_hmac\<close> and \<^verbatim>\<open>analyzed_at\<close>.\<close>

definition hmac_columns :: "analysis_row \<Rightarrow> pydict" where
  "hmac_columns r =
     [(''package'', PStr (an_package r)), (''ecosystem'', PStr (an_ecosystem r)),
      (''version'', PStr (an_version r)), (''engine_version'', PStr (an_engine_version r)),
      (''rules_version'', PStr (an_rules_version r)), (''kb_version'', PStr (an_kb_version r)),
      (''feed_version'', PStr (an_feed_version r)),
      (''archive_sha256'', popt PStr (an_archive_sha256 r)),
      (''merkle_root'', popt PStr (an_merkle_root r)),
      (''integrity_mode'', PStr (integrity_mode_value (an_integrity_mode r))),
      (''verdict'', PStr (an_verdict r)), (''report_json'', PStr (an_report_json r))]"

definition get_row_hmac :: "cache_env \<Rightarrow> pyexn + string" where
  "get_row_hmac env =
     (if truthy_opt (ce_passphrase env)
      then from_passphrase (ce_integrity env) (the (ce_passphrase env))
      else Inl (RuntimeError ''row HMAC requires master passphrase''))"

text \<open>The log's primary key is ecosystem, package and time.\<close>

definition add_log :: "string \<Rightarrow> string \<Rightarrow> string \<Rightarrow> string \<Rightarrow> cache_db \<Rightarrow> pyexn + cache_db" where
  "add_log eco package time reason db =
     (if list_ex (\<lambda>l. lg_ecosystem l = eco \<and> lg_package l = package \<and> lg_invalidated_at l = time)
           (cb_log db)
      then Inl (OtherError ''IntegrityError'' ''UNIQUE constraint failed: cache_invalidation_log'')
      else Inr (db\<lparr>cb_log := cb_log db @
        [\<lparr>lg_ecosystem = eco, lg_package = package, lg_invalidated_at = time, lg_reason = reason\<rparr>]\<rparr>))"

definition log_tamper :: "cache_env \<Rightarrow> cache_key \<Rightarrow> string \<Rightarrow> cache_db \<Rightarrow> pyexn + cache_db" where
  "log_tamper env key reason db =
     add_log (ck_ecosystem key) (ck_package key) (ce_now_sql env) (''TAMPER: '' @ reason) db"

subsection \<open>Looking up\<close>

definition miss :: "string \<Rightarrow> cache_hit" where
  "miss reason = \<lparr>ch_hit = False, ch_reason = reason, ch_report = None, ch_cache_row = None,
                  ch_invalidation = []\<rparr>"

definition age_of :: "cache_env \<Rightarrow> rat \<Rightarrow> analysis_row \<Rightarrow> rat" where
  "age_of env ttl_days r = ce_now env -
     (case ce_parse_iso env (an_analyzed_at r) of
        Some t \<Rightarrow> t | None \<Rightarrow> ce_now env - ttl_days * 2 * 86400)"

definition newer_log :: "cache_db \<Rightarrow> cache_key \<Rightarrow> analysis_row \<Rightarrow> log_row list" where
  "newer_log db key r = take 5 (rev (sort_key lg_invalidated_at
     (filter (\<lambda>l. lg_ecosystem l = ck_ecosystem key \<and> lg_package l = ck_package key
        \<and> lg_invalidated_at l > an_analyzed_at r) (cb_log db))))"

definition check_archive :: "cache_env \<Rightarrow> integrity_mode \<Rightarrow> string option \<Rightarrow> analysis_row \<Rightarrow> string option" where
  "check_archive env mode archive_url r =
     (if \<not> truthy_opt archive_url then None
      else case fingerprint_of (ce_integrity env) mode (the archive_url) of
          Inl e \<Rightarrow> Some (''integrity check failed: '' @ exn_str e)
        | Inr fresh \<Rightarrow>
            (case fp_matches (row_to_fingerprint r (the archive_url)) fresh of
               (ok, why) \<Rightarrow> if ok then None else Some (''integrity mismatch: '' @ why)))"

text \<open>Checks 1 to 6: why a row is stale, if it is.\<close>

definition stale :: "cache_env \<Rightarrow> integrity_mode \<Rightarrow> nat \<Rightarrow> cache_key \<Rightarrow> cache_db \<Rightarrow> analysis_row
    \<Rightarrow> cache_hit option" where
  "stale env mode ttl_days key db r =
     (let rules = get_rules_version env; kb = get_kb_version env; ttl = of_nat ttl_days in
      if an_engine_version r \<noteq> ENGINE_VERSION
      then Some (miss (''engine version changed ('' @ an_engine_version r @ '' -> '' @ ENGINE_VERSION
             @ '')''))
      else if an_rules_version r \<noteq> rules
      then Some (miss (''rules version changed ('' @ take 8 (an_rules_version r) @ '' -> ''
             @ take 8 rules @ '')''))
      else if an_kb_version r \<noteq> kb
      then Some (miss (''kb version changed ('' @ take 8 (an_kb_version r) @ '' -> '' @ take 8 kb
             @ '')''))
      else if mode_rank (an_integrity_mode r) < mode_rank mode
      then Some (miss (''cache mode '' @ [CHR 0x27] @ integrity_mode_value (an_integrity_mode r)
             @ [CHR 0x27] @ '' weaker than current '' @ [CHR 0x27] @ integrity_mode_value mode
             @ [CHR 0x27]))
      else if age_of env ttl r > ttl * 86400
      then Some (miss (''TTL exceeded ('' @ show_int \<lfloor>age_of env ttl r / 86400\<rfloor> @ ''d > ''
             @ show_nat ttl_days @ ''d)''))
      else (case newer_log db key r of
          [] \<Rightarrow> None
        | l # ls \<Rightarrow> Some ((miss (''invalidated by feed update: '' @ lg_reason l))
                            \<lparr>ch_invalidation := map lg_reason (l # ls)\<rparr>)))"

text \<open>The row's HMAC, and then the stored report.\<close>

definition open_row :: "cache_env \<Rightarrow> integrity_mode \<Rightarrow> cache_key \<Rightarrow> cache_db \<Rightarrow> analysis_row
    \<Rightarrow> pyexn + cache_db \<times> cache_hit" where
  "open_row env mode key db r =
     bindE (if mode = PARANOID \<and> truthy_opt (an_row_hmac r)
            then bindE (get_row_hmac env) (\<lambda>k.
              Inr (hmac_verify (ce_integrity env) k (hmac_columns r) (the (an_row_hmac r))))
            else Inr True) (\<lambda>genuine.
       if \<not> genuine
       then bindE (log_tamper env key ''row HMAC mismatch'' db) (\<lambda>db'.
              Inr (db', miss ''row HMAC mismatch (tamper suspected)''))
       else case ce_loads env (an_report_json r) of
           Inl e \<Rightarrow> Inr (db, miss (''corrupt report json: '' @ exn_str e))
         | Inr report \<Rightarrow>
             Inr (db, \<lparr>ch_hit = True, ch_reason = ''all checks passed'', ch_report = Some report,
                       ch_cache_row = Some r, ch_invalidation = []\<rparr>))"

definition cache_get ::
  "cache_env \<Rightarrow> integrity_mode \<Rightarrow> nat \<Rightarrow> cache_key \<Rightarrow> string option \<Rightarrow> cache_db
    \<Rightarrow> pyexn + cache_db \<times> cache_hit" where
  "cache_get env mode ttl_days key archive_url db =
     (case fetch_row db key of
        None \<Rightarrow> Inr (db, miss ''miss: no cache row'')
      | Some r \<Rightarrow>
        (case stale env mode ttl_days key db r of
           Some h \<Rightarrow> Inr (db, h)
         | None \<Rightarrow>
           (case check_archive env mode archive_url r of
              Some reason \<Rightarrow> Inr (db, miss reason)
            | None \<Rightarrow> open_row env mode key db r)))"

subsection \<open>Storing and removing\<close>

definition new_analysis ::
  "cache_env \<Rightarrow> integrity_mode \<Rightarrow> cache_key \<Rightarrow> string \<Rightarrow> string option \<Rightarrow> string \<Rightarrow> analysis_row" where
  "new_analysis env mode key report_json archive_url verdict =
     (let fp = (if truthy_opt archive_url
                then (case fingerprint_of (ce_integrity env) mode (the archive_url) of
                        Inl _ \<Rightarrow> None | Inr f \<Rightarrow> Some f)
                else None)
      in \<lparr>an_package = ck_package key, an_ecosystem = ck_ecosystem key, an_version = ck_version key,
          an_engine_version = ENGINE_VERSION, an_rules_version = get_rules_version env,
          an_kb_version = get_kb_version env, an_feed_version = get_feed_version env,
          an_archive_sha256 = Option.bind fp fp_archive_sha256,
          an_merkle_root = Option.bind fp fp_merkle_root, an_row_hmac = None,
          an_integrity_mode = mode, an_verdict = verdict, an_report_json = report_json,
          an_analyzed_at = ce_now_iso env\<rparr>)"

definition put_summary :: "analysis_row \<Rightarrow> pyval" where
  "put_summary r =
     (let short = (\<lambda>m. if truthy_opt m then PStr (take 12 (the m)) else PNone) in
      PDict [(''stored'', PBool True), (''rules_version'', PStr (take 8 (an_rules_version r))),
             (''kb_version'', PStr (take 8 (an_kb_version r))),
             (''feed_version'', PStr (take 8 (an_feed_version r))),
             (''archive_sha256'', short (an_archive_sha256 r)),
             (''merkle_root'', short (an_merkle_root r))])"

definition cache_put ::
  "cache_env \<Rightarrow> integrity_mode \<Rightarrow> cache_key \<Rightarrow> pydict \<Rightarrow> string option \<Rightarrow> string option
    \<Rightarrow> cache_db \<Rightarrow> pyexn + cache_db \<times> pyval" where
  "cache_put env mode key report archive_url verdict db =
     bindE (case verdict of Some v \<Rightarrow> Inr v | None \<Rightarrow> as_str (d_get report ''verdict'' (PStr ''ERROR'')))
       (\<lambda>v.
     bindE (ce_dumps env (PDict report)) (\<lambda>json.
     let r = new_analysis env mode key json archive_url v in
     bindE (if mode = PARANOID
            then bindE (get_row_hmac env) (\<lambda>k.
              Inr (r\<lparr>an_row_hmac := Some (hmac_compute (ce_integrity env) k (hmac_columns r))\<rparr>))
            else Inr r) (\<lambda>r.
     if an_ecosystem r \<notin> {''PyPI'', ''npm''}
     then Inl (OtherError ''IntegrityError'' ''CHECK constraint failed: ecosystem'')
     else Inr (db\<lparr>cb_analyses := upsert row_key r (cb_analyses db)\<rparr>, put_summary r))))"

definition cache_invalidate ::
  "cache_env \<Rightarrow> cache_key \<Rightarrow> string \<Rightarrow> cache_db \<Rightarrow> pyexn + cache_db \<times> bool" where
  "cache_invalidate env key reason db =
     (let kept = delete_where row_key (\<lambda>k. k = key) (cb_analyses db) in
      bindE (add_log (ck_ecosystem key) (ck_package key) (ce_now_sql env) (''manual: '' @ reason)
               (db\<lparr>cb_analyses := kept\<rparr>)) (\<lambda>db'.
      Inr (db', length kept < length (cb_analyses db))))"

text \<open>The trigger on \<^verbatim>\<open>known_malicious\<close>: insert or ignore.\<close>

definition on_new_advisory :: "cache_env \<Rightarrow> string \<Rightarrow> string \<Rightarrow> string \<Rightarrow> cache_db \<Rightarrow> cache_db" where
  "on_new_advisory env eco package advisory_id db =
     try_else (add_log eco package (ce_now_iso env) (''new advisory: '' @ advisory_id) db) db"

definition count_by :: "('a \<Rightarrow> string) \<Rightarrow> 'a list \<Rightarrow> pyval" where
  "count_by f rows = PDict (map (\<lambda>k. (k, PInt (int (length (filter (\<lambda>r. f r = k) rows)))))
     (sorted_set (map f rows)))"

definition cache_stats :: "cache_db \<Rightarrow> pyval" where
  "cache_stats db = PDict
     [(''total'', PInt (int (length (cb_analyses db)))),
      (''by_verdict'', count_by an_verdict (cb_analyses db)),
      (''by_mode'', count_by (\<lambda>r. integrity_mode_value (an_integrity_mode r)) (cb_analyses db))]"

subsection \<open>The table of analyses as a map\<close>

interpretation analyses: keyed_table row_key "upsert row_key" "fetch row_key" "delete_where row_key"
  by unfold_locales
    (auto simp: fetch_upsert fetch_delete_where distinct_upsert distinct_delete_where dest: fetch_key)

text \<open>Well-formed tables: both primary keys hold and every row was written by this engine.\<close>

definition cache_inv :: "cache_db \<Rightarrow> bool" where
  "cache_inv db =
     (distinct (map row_key (cb_analyses db))
      \<and> distinct (map (\<lambda>l. (lg_ecosystem l, lg_package l, lg_invalidated_at l)) (cb_log db))
      \<and> list_all (\<lambda>r. an_engine_version r = ENGINE_VERSION \<and> an_ecosystem r \<in> {''PyPI'', ''npm''})
          (cb_analyses db))"

lemma add_log_Inr:
  "add_log eco p t reason db = Inr db' \<Longrightarrow> cb_analyses db' = cb_analyses db
     \<and> cb_log db' = cb_log db @ [\<lparr>lg_ecosystem = eco, lg_package = p, lg_invalidated_at = t,
                                  lg_reason = reason\<rparr>]
     \<and> (eco, p, t) \<notin> (\<lambda>l. (lg_ecosystem l, lg_package l, lg_invalidated_at l)) ` set (cb_log db)"
  by (auto simp: add_log_def list_ex_iff split: if_splits)

lemma add_log_inv: "add_log eco p t reason db = Inr db' \<Longrightarrow> cache_inv db \<Longrightarrow> cache_inv db'"
  using add_log_Inr [of eco p t reason db db'] by (simp add: cache_inv_def)

lemma set_upsert: "x \<in> set (upsert key r rows) \<Longrightarrow> x = r \<or> x \<in> set rows"
  by (auto simp: upsert_def split: if_splits)

lemma new_analysis_fields [simp]:
  "an_engine_version (new_analysis env mode key json url v) = ENGINE_VERSION"
  "an_ecosystem (new_analysis env mode key json url v) = ck_ecosystem key"
  "an_package (new_analysis env mode key json url v) = ck_package key"
  "an_version (new_analysis env mode key json url v) = ck_version key"
  "an_rules_version (new_analysis env mode key json url v) = get_rules_version env"
  "an_kb_version (new_analysis env mode key json url v) = get_kb_version env"
  "an_integrity_mode (new_analysis env mode key json url v) = mode"
  "an_report_json (new_analysis env mode key json url v) = json"
  "an_analyzed_at (new_analysis env mode key json url v) = ce_now_iso env"
  by (simp_all add: new_analysis_def Let_def)

text \<open>What a successful \<open>put\<close> leaves in the table.\<close>

lemma cache_put_Inr:
  assumes "cache_put env mode key report url verdict db = Inr (db', s)"
  shows "\<exists>json v h. ce_dumps env (PDict report) = Inr json
    \<and> db' = db\<lparr>cb_analyses := upsert row_key (new_analysis env mode key json url v\<lparr>an_row_hmac := h\<rparr>)
                               (cb_analyses db)\<rparr>
    \<and> ck_ecosystem key \<in> {''PyPI'', ''npm''}
    \<and> (if mode = PARANOID
       then \<exists>k. get_row_hmac env = Inr k
              \<and> h = Some (hmac_compute (ce_integrity env) k
                            (hmac_columns (new_analysis env mode key json url v)))
       else h = None)"
proof -
  have none: "r\<lparr>an_row_hmac := None\<rparr> = r" if "an_row_hmac r = None" for r :: analysis_row
    using that by simp
  have fresh: "an_row_hmac (new_analysis env mode key json url v) = None" for json v
    by (simp add: new_analysis_def Let_def)
  from assms obtain v json where v: "ce_dumps env (PDict report) = Inr json"
    and rest: "bindE (if mode = PARANOID
            then bindE (get_row_hmac env) (\<lambda>k.
              Inr ((new_analysis env mode key json url v)\<lparr>an_row_hmac := Some (hmac_compute
                (ce_integrity env) k (hmac_columns (new_analysis env mode key json url v)))\<rparr>))
            else Inr (new_analysis env mode key json url v)) (\<lambda>r.
       if an_ecosystem r \<notin> {''PyPI'', ''npm''}
       then Inl (OtherError ''IntegrityError'' ''CHECK constraint failed: ecosystem'')
       else Inr (db\<lparr>cb_analyses := upsert row_key r (cb_analyses db)\<rparr>, put_summary r)) = Inr (db', s)"
    unfolding cache_put_def by (auto simp: bindE_Inr_iff Let_def)
  show ?thesis
  proof (cases "mode = PARANOID")
    case True
    with v rest show ?thesis
      by (auto simp: bindE_Inr_iff split: if_splits intro!: exI [of _ json] exI [of _ v])
  next
    case False
    with v rest show ?thesis
      by (intro exI [of _ json] exI [of _ v] exI [of _ None])
        (auto simp: none fresh split: if_splits)
  qed
qed

lemma cache_put_inv:
  assumes "cache_put env mode key report url verdict db = Inr (db', s)" and "cache_inv db"
  shows "cache_inv db'"
proof -
  from cache_put_Inr [OF assms(1)] obtain json v h where
    db': "db' = db\<lparr>cb_analyses := upsert row_key (new_analysis env mode key json url v\<lparr>an_row_hmac := h\<rparr>)
                               (cb_analyses db)\<rparr>"
    and eco: "ck_ecosystem key \<in> {''PyPI'', ''npm''}"
    by auto
  show ?thesis
    using assms(2) eco unfolding db'
    by (auto simp: cache_inv_def list_all_iff intro: distinct_upsert dest: set_upsert)
qed

lemma cache_invalidate_inv:
  assumes "cache_invalidate env key reason db = Inr (db', b)" and "cache_inv db"
  shows "cache_inv db'"
proof -
  let ?db = "db\<lparr>cb_analyses := delete_where row_key (\<lambda>k. k = key) (cb_analyses db)\<rparr>"
  have "cache_inv ?db"
    using assms(2) by (auto simp: cache_inv_def list_all_iff delete_where_def distinct_map_filter)
  with assms(1) show ?thesis
    by (auto simp: cache_invalidate_def Let_def bindE_Inr_iff intro: add_log_inv)
qed

subsection \<open>When a look-up hits\<close>

lemma sort_key_Nil_iff [simp]: "sort_key f xs = [] \<longleftrightarrow> xs = []"
  by (cases xs) (simp_all add: insort_not_Nil)

lemma newer_log_Nil_iff:
  "newer_log db key r = [] \<longleftrightarrow>
     (\<forall>l\<in>set (cb_log db). lg_ecosystem l = ck_ecosystem key \<and> lg_package l = ck_package key
        \<longrightarrow> lg_invalidated_at l \<le> an_analyzed_at r)"
  by (auto simp: newer_log_def filter_empty_conv not_less)

lemma check_archive_None:
  "check_archive env mode (Some u) r = None \<longleftrightarrow>
     u = [] \<or> (\<exists>fresh. fingerprint_of (ce_integrity env) mode u = Inr fresh
               \<and> fst (fp_matches (row_to_fingerprint r u) fresh))"
  by (auto simp: check_archive_def split: sum.split prod.split)

definition genuine_row :: "cache_env \<Rightarrow> integrity_mode \<Rightarrow> analysis_row \<Rightarrow> bool" where
  "genuine_row env mode r =
     (mode = PARANOID \<and> truthy_opt (an_row_hmac r) \<longrightarrow>
        (\<exists>k. get_row_hmac env = Inr k
           \<and> hmac_verify (ce_integrity env) k (hmac_columns r) (the (an_row_hmac r))))"

definition row_current :: "cache_env \<Rightarrow> integrity_mode \<Rightarrow> nat \<Rightarrow> analysis_row \<Rightarrow> bool" where
  "row_current env mode ttl r =
     (an_engine_version r = ENGINE_VERSION \<and> an_rules_version r = get_rules_version env
      \<and> an_kb_version r = get_kb_version env \<and> mode_rank mode \<le> mode_rank (an_integrity_mode r)
      \<and> age_of env (of_nat ttl) r \<le> of_nat ttl * 86400)"

lemma stale_None: "stale env mode ttl key db r = None \<longleftrightarrow>
    row_current env mode ttl r \<and> newer_log db key r = []"
  by (simp add: stale_def row_current_def Let_def not_less split: list.split)

lemma stale_no_hit: "stale env mode ttl key db r = Some h \<Longrightarrow> \<not> ch_hit h"
  by (auto simp: stale_def miss_def Let_def split: if_splits list.splits)

lemma open_row_hit:
  "open_row env mode key db r = Inr (db', h) \<and> ch_hit h \<longleftrightarrow>
     genuine_row env mode r \<and> db' = db
     \<and> (\<exists>report. ce_loads env (an_report_json r) = Inr report
          \<and> h = \<lparr>ch_hit = True, ch_reason = ''all checks passed'', ch_report = Some report,
                 ch_cache_row = Some r, ch_invalidation = []\<rparr>)"
proof (cases "mode = PARANOID \<and> truthy_opt (an_row_hmac r)")
  case True
  then show ?thesis
    by (cases "get_row_hmac env")
      (auto simp: open_row_def genuine_row_def miss_def bindE_Inr_iff split: sum.splits)
next
  case False
  then show ?thesis
    by (auto simp: open_row_def genuine_row_def miss_def bindE_Inr_iff split: sum.splits)
qed

lemma cache_get_hit:
  "cache_get env mode ttl key url db = Inr (db', h) \<and> ch_hit h \<longleftrightarrow>
   (\<exists>r report. fetch_row db key = Some r \<and> row_current env mode ttl r \<and> newer_log db key r = []
      \<and> check_archive env mode url r = None \<and> genuine_row env mode r \<and> db' = db
      \<and> ce_loads env (an_report_json r) = Inr report
      \<and> h = \<lparr>ch_hit = True, ch_reason = ''all checks passed'', ch_report = Some report,
             ch_cache_row = Some r, ch_invalidation = []\<rparr>)"
proof (cases "fetch_row db key")
  case None
  then show ?thesis by (auto simp: cache_get_def miss_def)
next
  case (Some r)
  have no: "\<not> ch_hit (miss reason)" for reason by (simp add: miss_def)
  show ?thesis
  proof (cases "stale env mode ttl key db r")
    case None
    show ?thesis
    proof (cases "check_archive env mode url r")
      case None
      with \<open>stale env mode ttl key db r = None\<close> Some show ?thesis
        using open_row_hit [of env mode key db r db' h] stale_None [of env mode ttl key db r]
        by (simp add: cache_get_def)
    next
      case (Some reason)
      with \<open>fetch_row db key = Some r\<close> None show ?thesis by (auto simp: cache_get_def no)
    qed
  next
    case (Some h')
    with \<open>fetch_row db key = Some r\<close> show ?thesis
      using stale_None [of env mode ttl key db r] stale_no_hit [OF Some]
      by (auto simp: cache_get_def)
  qed
qed

subsection \<open>Properties\<close>

lemma fingerprint_mode: "fingerprint_of env mode u = Inr f \<Longrightarrow> fp_mode f = mode"
  by (cases mode) (auto simp: fingerprint_fast_def fingerprint_strict_def fingerprint_paranoid_def
      bare_fingerprint_def hash_bytes_def bindE_Inr_iff Let_def split: sum.splits)


lemma row_fingerprint [simp]:
  "fp_mode (row_to_fingerprint r u) = an_integrity_mode r"
  "fp_archive_sha256 (row_to_fingerprint r u) = an_archive_sha256 r"
  "fp_merkle_root (row_to_fingerprint r u) = an_merkle_root r"
  "fp_etag (row_to_fingerprint r u) = None"
  by (simp_all add: row_to_fingerprint_def bare_fingerprint_def)



text \<open>
  Whoever can write the database can therefore have any report answered, also in the paranoid mode: when the
  row of a package version is replaced by one that has another report and no HMAC, the look-up still hits and
  answers the other report.
\<close>

lemma unsigned_row_hits:
  assumes "cache_get env mode ttl key url db = Inr (db, h)" and "ch_hit h" and "ch_cache_row h = Some r"
    and "ce_loads env json = Inr forged"
  shows "\<exists>h'. cache_get env mode ttl key url
      (db\<lparr>cb_analyses := upsert row_key (r\<lparr>an_report_json := json, an_row_hmac := None\<rparr>) (cb_analyses db)\<rparr>)
        = Inr (db\<lparr>cb_analyses := upsert row_key (r\<lparr>an_report_json := json, an_row_hmac := None\<rparr>) (cb_analyses db)\<rparr>, h')
    \<and> ch_hit h' \<and> ch_report h' = Some forged"
proof -
  let ?r = "r\<lparr>an_report_json := json, an_row_hmac := None\<rparr>"
  let ?db = "db\<lparr>cb_analyses := upsert row_key ?r (cb_analyses db)\<rparr>"
  have "cache_get env mode ttl key url db = Inr (db, h) \<and> ch_hit h" using assms(1,2) by simp
  then have r: "fetch_row db key = Some r" "row_current env mode ttl r" "newer_log db key r = []"
      "check_archive env mode url r = None"
    unfolding cache_get_hit using assms(3) by auto
  have "row_key r = key" using r(1) unfolding fetch_row_def by (rule fetch_key)
  then have "row_key ?r = key" by (simp add: row_key_def)
  then have "fetch_row ?db key = Some ?r" by (simp add: fetch_row_def fetch_upsert)
  moreover have "row_current env mode ttl ?r" using r(2) by (simp add: row_current_def age_of_def)
  moreover have "newer_log ?db key ?r = []" using r(3) by (simp add: newer_log_def)
  moreover have "row_to_fingerprint ?r = row_to_fingerprint r" by (simp add: fun_eq_iff row_to_fingerprint_def)
  then have "check_archive env mode url ?r = None" using r(4) by (simp only: check_archive_def)
  moreover have "genuine_row env mode ?r" by (simp add: genuine_row_def)
  ultimately have "cache_get env mode ttl key url ?db = Inr (?db,
      \<lparr>ch_hit = True, ch_reason = ''all checks passed'', ch_report = Some forged, ch_cache_row = Some ?r,
       ch_invalidation = []\<rparr>) \<and> ch_hit (\<lparr>ch_hit = True, ch_reason = ''all checks passed'', ch_report = Some forged,
       ch_cache_row = Some ?r, ch_invalidation = []\<rparr> :: cache_hit)"
    unfolding cache_get_hit using assms(4) by auto
  then show ?thesis by auto
qed

text \<open>C35: A report that was stored is found again, in any mode but fast, as long as the time to live
  has not passed, the package was not invalidated meanwhile, and the archive, rules and knowledge are
  unchanged.\<close>
theorem cache_roundtrip:
  assumes "cache_put env mode key report (Some url) verdict db = Inr (db', s)"
    and "mode \<noteq> FAST" and "ck_engine_version key = ENGINE_VERSION"
    and "fingerprint_of (ce_integrity env) mode url = Inr f"
    and "truthy_opt (fp_archive_sha256 f)" and "mode = PARANOID \<Longrightarrow> truthy_opt (fp_merkle_root f)"
    and "\<And>v json. ce_dumps env v = Inr json \<Longrightarrow> ce_loads env json = Inr v"
    and "ce_parse_iso env (ce_now_iso env) = Some (ce_now env)"
    and "later - ce_now env \<le> of_nat ttl * 86400"
    and "list_all (\<lambda>l. lg_invalidated_at l \<le> ce_now_iso env) (cb_log db)"
  shows "\<exists>h. cache_get (env\<lparr>ce_now := later\<rparr>) mode ttl key (Some url) db' = Inr (db', h)
    \<and> ch_hit h \<and> ch_report h = Some (PDict report)"
proof -
  from cache_put_Inr [OF assms(1)] obtain json v hm where
    json: "ce_dumps env (PDict report) = Inr json"
    and db': "db' = db\<lparr>cb_analyses := upsert row_key (new_analysis env mode key json (Some url) v
                 \<lparr>an_row_hmac := hm\<rparr>) (cb_analyses db)\<rparr>"
    and hm: "if mode = PARANOID then \<exists>k. get_row_hmac env = Inr k
              \<and> hm = Some (hmac_compute (ce_integrity env) k
                            (hmac_columns (new_analysis env mode key json (Some url) v)))
             else hm = None"
    by auto
  define r where "r = new_analysis env mode key json (Some url) v\<lparr>an_row_hmac := hm\<rparr>"
  let ?env = "env\<lparr>ce_now := later\<rparr>"
  have same: "get_rules_version ?env = get_rules_version env" "get_kb_version ?env = get_kb_version env"
    "get_row_hmac ?env = get_row_hmac env"
    by (simp_all add: get_rules_version_def get_kb_version_def get_row_hmac_def)
  have "row_key r = key" using assms(3) by (simp add: row_key_def r_def)
  then have row: "fetch_row db' key = Some r"
    by (simp add: fetch_row_def db' fetch_upsert r_def)
  have cur: "row_current ?env mode ttl r"
    using assms(8,9) by (simp add: row_current_def r_def same age_of_def)
  have log: "newer_log db' key r = []"
    using assms(10) by (simp add: newer_log_Nil_iff db' r_def list_all_iff)
  have cols: "hmac_columns r = hmac_columns (new_analysis env mode key json (Some url) v)"
    by (simp add: hmac_columns_def r_def)
  have hr: "an_row_hmac r = hm" by (simp add: r_def)
  have gen: "genuine_row ?env mode r"
    using hm by (auto simp: genuine_row_def same cols hmac_verify_def hr split: if_splits)
  have "fst (fp_matches (row_to_fingerprint r url) f) \<or> url = []"
    using assms(2,4-6) fingerprint_mode [OF assms(4)]
    by (cases mode) (auto simp: fp_matches_strong r_def new_analysis_def Let_def)
  then have arch: "check_archive ?env mode (Some url) r = None"
    using assms(4) by (auto simp: check_archive_None)
  have loads: "ce_loads ?env (an_report_json r) = Inr (PDict report)"
    using assms(7) [OF json] by (simp add: r_def)
  let ?h = "\<lparr>ch_hit = True, ch_reason = ''all checks passed'', ch_report = Some (PDict report),
              ch_cache_row = Some r, ch_invalidation = []\<rparr>"
  from row cur log gen arch loads
  have "cache_get ?env mode ttl key (Some url) db' = Inr (db', ?h) \<and> ch_hit ?h"
    unfolding cache_get_hit by auto
  then show ?thesis by (intro exI [of _ ?h]) simp
qed

text \<open>In the fast mode the cache never hits when the archive is checked: the table has no column
  for the ETag the comparison needs.\<close>
theorem fast_mode_never_hits:
  assumes "url \<noteq> []" and "cache_get env FAST ttl key (Some url) db = Inr (db', h)"
  shows "\<not> ch_hit h"
proof
  assume "ch_hit h"
  with assms(2) cache_get_hit obtain r where "check_archive env FAST (Some url) r = None" by blast
  then obtain fresh where "fingerprint_of (ce_integrity env) FAST url = Inr fresh"
    "fst (fp_matches (row_to_fingerprint r url) fresh)"
    using assms(1) by (auto simp: check_archive_None)
  then show False
    using fp_matches_fast [of fresh] fingerprint_mode by auto
qed

lemma add_log_has:
  "\<exists>l\<in>set (cb_log (try_else (add_log eco p t reason db) db)).
     lg_ecosystem l = eco \<and> lg_package l = p \<and> lg_invalidated_at l = t"
  by (auto simp: add_log_def list_ex_iff)

text \<open>Once an advisory for a package is stored, no look-up of any version of it hits a report
  analysed before, in any mode, until the version is analysed again.\<close>
theorem advisory_invalidates:
  assumes "cache_get env mode ttl key url (on_new_advisory env' (ck_ecosystem key) (ck_package key) adv db)
             = Inr (db', h)"
    and "fetch_row db key = Some r" and "an_analyzed_at r < ce_now_iso env'"
  shows "\<not> ch_hit h"
proof
  let ?db = "on_new_advisory env' (ck_ecosystem key) (ck_package key) adv db"
  assume "ch_hit h"
  with assms(1) cache_get_hit obtain r' where r': "fetch_row ?db key = Some r'" "newer_log ?db key r' = []"
    by blast
  have "cb_analyses ?db = cb_analyses db"
    by (auto simp: on_new_advisory_def try_else_def dest: add_log_Inr split: sum.split)
  with r'(1) assms(2) have "r' = r" by (simp add: fetch_row_def)
  with r'(2) assms(3) add_log_has [of "ck_ecosystem key" "ck_package key" "ce_now_iso env'"
      "''new advisory: '' @ adv" db]
  show False
    by (auto simp: newer_log_Nil_iff on_new_advisory_def)
qed

subsection \<open>A concrete cache\<close>

definition sample_report :: pydict where
  "sample_report = [(''verdict'', PStr ''CLEAN'')]"

definition sample_cache_env :: cache_env where
  "sample_cache_env =
     \<lparr>ce_integrity = \<lparr>ie_get = (\<lambda>url. Inr (''bytes'', [])), ie_head = (\<lambda>url. Inr []),
        ie_untargz = (\<lambda>data. Inr []), ie_untar = (\<lambda>data. Inr []), ie_unzip = (\<lambda>data. Inr []),
        ie_sha = toy_sha, ie_hmac = (\<lambda>key body. key), ie_canonical = (\<lambda>d. [])\<rparr>,
      ce_read_module = (\<lambda>name. Inr (Some name)), ce_feed_meta = [],
      ce_parse_iso = (\<lambda>s. if s = ''2025-01-01T00:00:00.000Z'' then Some 0 else None),
      ce_now = 0, ce_now_iso = ''2025-01-01T00:00:00.000Z'', ce_now_sql = ''2025-01-01 00:00:00'',
      ce_dumps = (\<lambda>v. if v = PDict sample_report then Inr ''{}'' else Inl (TypeError [])),
      ce_loads = (\<lambda>s. if s = ''{}'' then Inr (PDict sample_report) else Inl (ValueError [])),
      ce_passphrase = None\<rparr>"

definition sample_cache_key :: cache_key where
  "sample_cache_key = \<lparr>ck_package = ''left-pad'', ck_ecosystem = ''npm'', ck_version = ''1.3.0'',
     ck_engine_version = ENGINE_VERSION\<rparr>"

definition sample_row :: "integrity_mode \<Rightarrow> analysis_row" where
  "sample_row mode = new_analysis sample_cache_env mode sample_cache_key ''{}'' (Some ''u'') ''CLEAN''"

definition sample_cache :: "integrity_mode \<Rightarrow> cache_db" where
  "sample_cache mode = \<lparr>cb_analyses = [sample_row mode], cb_log = []\<rparr>"

lemma sample_strict:
  "fingerprint_of (ce_integrity sample_cache_env) STRICT ''u'' = Inr ((bare_fingerprint STRICT ''u'')
     \<lparr>fp_etag := None, fp_content_length := Some 5, fp_last_modified := None,
      fp_archive_sha256 := Some (to_hex (toy_sha ''bytes'')), fp_archive_size := Some 5\<rparr>)"
  by (simp add: fingerprint_strict_def sample_cache_env_def hash_bytes_def sha_hex_def header_get_def)

lemma toy_sha_hex [simp]: "to_hex (toy_sha x) \<noteq> []"
proof -
  have "to_hex bs = [] \<longleftrightarrow> bs = []" for bs by (cases bs) (simp_all add: Let_def)
  then show ?thesis by (simp add: toy_sha_def)
qed

lemma sample_row_found: "fetch_row (sample_cache mode) sample_cache_key = Some (sample_row mode)"
  by (simp add: fetch_row_def sample_cache_def sample_row_def row_key_def sample_cache_key_def)



theorem cache_roundtrip_witness:
  "\<exists>db s h. cache_put sample_cache_env STRICT sample_cache_key sample_report (Some ''u'') None
       \<lparr>cb_analyses = [], cb_log = []\<rparr> = Inr (db, s)
     \<and> cache_get (sample_cache_env\<lparr>ce_now := 3600\<rparr>) STRICT 7 sample_cache_key (Some ''u'') db = Inr (db, h)
     \<and> ch_hit h"
proof -
  have "\<exists>db s. cache_put sample_cache_env STRICT sample_cache_key sample_report (Some ''u'') None
       \<lparr>cb_analyses = [], cb_log = []\<rparr> = Inr (db, s)"
    by (simp add: cache_put_def Let_def sample_report_def)
      (simp add: sample_cache_env_def sample_cache_key_def sample_report_def)
  then obtain db s where put: "cache_put sample_cache_env STRICT sample_cache_key sample_report
       (Some ''u'') None \<lparr>cb_analyses = [], cb_log = []\<rparr> = Inr (db, s)" by blast
  have "\<exists>h. cache_get (sample_cache_env\<lparr>ce_now := 3600\<rparr>) STRICT 7 sample_cache_key (Some ''u'') db
      = Inr (db, h) \<and> ch_hit h \<and> ch_report h = Some (PDict sample_report)"
    by (rule cache_roundtrip [OF put _ _ sample_strict])
      (simp_all add: sample_cache_key_def bare_fingerprint_def sample_cache_env_def split: if_splits)
  with put show ?thesis by blast
qed

theorem fast_mode_never_hits_witness:
  "\<exists>h. cache_get sample_cache_env FAST 7 sample_cache_key (Some ''u'') (sample_cache FAST)
     = Inr (sample_cache FAST, h) \<and> \<not> ch_hit h"
proof -
  have "\<exists>h. cache_get sample_cache_env FAST 7 sample_cache_key (Some ''u'') (sample_cache FAST)
     = Inr (sample_cache FAST, h)"
    by (simp add: cache_get_def sample_row_found open_row_def split: option.split)
      (auto simp: sample_cache_env_def split: sum.split)
  with fast_mode_never_hits [of "''u''" sample_cache_env 7 sample_cache_key "sample_cache FAST"]
  show ?thesis by auto
qed

theorem advisory_invalidates_witness:
  "\<exists>h. cache_get sample_cache_env FAST 7 sample_cache_key None
       (on_new_advisory (sample_cache_env\<lparr>ce_now_iso := ''2025-01-02T00:00:00.000Z''\<rparr>) ''npm'' ''left-pad''
          ''MAL-1'' (sample_cache FAST)) =
       Inr (on_new_advisory (sample_cache_env\<lparr>ce_now_iso := ''2025-01-02T00:00:00.000Z''\<rparr>) ''npm'' ''left-pad''
          ''MAL-1'' (sample_cache FAST), h) \<and> \<not> ch_hit h"
proof -
  let ?env = "sample_cache_env\<lparr>ce_now_iso := ''2025-01-02T00:00:00.000Z''\<rparr>"
  let ?db = "on_new_advisory ?env (ck_ecosystem sample_cache_key) (ck_package sample_cache_key) ''MAL-1''
    (sample_cache FAST)"
  have "\<exists>h. cache_get sample_cache_env FAST 7 sample_cache_key None ?db = Inr (?db, h)"
    by (auto simp: cache_get_def open_row_def check_archive_def split: option.split)
      (auto simp: sample_cache_env_def split: sum.split)
  moreover have "an_analyzed_at (sample_row FAST) < ce_now_iso ?env"
    by (simp add: sample_row_def) (simp add: sample_cache_env_def)
  ultimately show ?thesis
    using advisory_invalidates [of sample_cache_env FAST 7 sample_cache_key None ?env "''MAL-1''"
        "sample_cache FAST" ?db _ "sample_row FAST"] sample_row_found
    by (auto simp: sample_cache_key_def)
qed

text \<open>
  \<^verbatim>\<open>CURRENT_TIMESTAMP\<close> writes a blank where \<^verbatim>\<open>analyzed_at\<close> has a \<open>T\<close>, so an entry of the log made
  by \<^verbatim>\<open>invalidate\<close> or by the tamper check is never newer than an analysis of the same day.
\<close>

lemma same_day_order: "d @ '' '' @ t < d @ ''T'' @ (t' :: string)"
  by (induction d) (simp_all add: less_char_def)

lemma manual_log_not_newer:
  assumes "an_analyzed_at r = day @ ''T'' @ t" and "ce_now_sql env = day @ '' '' @ t'"
    and "newer_log db key r = []" and "add_log eco p (ce_now_sql env) reason db = Inr db'"
  shows "newer_log db' key r = []"
  using assms(3) add_log_Inr [OF assms(4)] same_day_order [of day t' t]
  by (auto simp: newer_log_Nil_iff assms(1,2) less_imp_le)

end
