(* ===== verification/StageCache.thy ===== *)
theory StageCache
  imports AnalysisCache
begin

text \<open>
  \<^verbatim>\<open>db/stage_cache.py\<close>: the cache of single stages, and the pattern by which the pipeline runs a
  stage through it (\<open>cached_stage\<close>). The table \<^verbatim>\<open>stage_cache\<close> is a list of rows with the primary key
  of the schema.
\<close>

subsection \<open>Versions\<close>

definition STAGE_DEPS :: "(string \<times> string list) list" where
  "STAGE_DEPS =
     [(''stage_2_behavior'', [''pkgsentinel.stages.api_catalog'', ''pkgsentinel.stages.stage2_behavior'']),
      (''stage_2b_string'', [''pkgsentinel.stages.string_analysis'']),
      (''stage_3b_version_diff'',
         [''pkgsentinel.stages.stage3b_full_diff'', ''pkgsentinel.stages.stage1b_full_source'']),
      (''stage_4_ttp'', [''pkgsentinel.stages.stage4_ttp_match'', ''pkgsentinel.knowledge.mitre_attack'']),
      (''stage_4c_ind47'',
         [''pkgsentinel.stages.indicator_matcher'', ''pkgsentinel.knowledge.malicious_indicators'']),
      (''stage_4d_taint'', [''pkgsentinel.stages.taint_slicer'']),
      (''stage_4e_sequence'', [''pkgsentinel.stages.sequence_patterns'']),
      (''stage_0a_threat_filter'', [''pkgsentinel.stages.stage0_threat_filter'']),
      (''stage_0b_attack_history'', [''pkgsentinel.stages.stage0b_attack_history''])]"

definition module_files_hash ::
  "(string \<Rightarrow> string) \<Rightarrow> (string \<Rightarrow> pyexn + string option) \<Rightarrow> string list \<Rightarrow> string" where
  "module_files_hash sha read_module names =
     take 16 (sha_hex sha (concat (map (module_text read_module) (sort names))))"

definition stage_version_for ::
  "(string \<Rightarrow> string) \<Rightarrow> (string \<Rightarrow> pyexn + string option) \<Rightarrow> string \<Rightarrow> string option \<Rightarrow> string" where
  "stage_version_for sha read_module stage feed_version =
     (case map_of STAGE_DEPS stage of
        None \<Rightarrow> take 16 (sha_hex sha stage)
      | Some deps \<Rightarrow>
          (let base = module_files_hash sha read_module deps in
           if stage \<in> set [''stage_0a_threat_filter'', ''stage_0b_attack_history'']
              \<and> truthy_opt feed_version
           then take 16 (sha_hex sha (base @ ''|'' @ the feed_version))
           else base))"

definition all_supported_stages :: "string list" where
  "all_supported_stages = sort (map fst STAGE_DEPS)"

subsection \<open>The table\<close>

record stage_key =
  sk_package :: string
  sk_ecosystem :: string
  sk_version :: string
  sk_stage :: string

record stage_row =
  st_key :: stage_key
  st_stage_version :: string
  st_archive_sha256 :: "string option"
  st_payload_json :: string
  st_cached_at :: string

record stage_hit =
  sh_hit :: bool
  sh_reason :: string
  sh_payload :: "pyval option"
  sh_cached_at :: "string option"
  sh_stage_version :: "string option"

type_synonym stage_db = "stage_row list"

definition stage_row_key :: "stage_row \<Rightarrow> stage_key \<times> string" where
  "stage_row_key r = (st_key r, st_stage_version r)"

record stage_env =
  se_sha :: "string \<Rightarrow> string"
  se_read_module :: "string \<Rightarrow> pyexn + string option"
  se_dumps :: "pyval \<Rightarrow> pyexn + string"
  se_loads :: "string \<Rightarrow> pyexn + pyval"
  se_now_iso :: string

definition stage_version :: "stage_env \<Rightarrow> stage_key \<Rightarrow> string option \<Rightarrow> string" where
  "stage_version env key feed_version =
     stage_version_for (se_sha env) (se_read_module env) (sk_stage key) feed_version"

definition stage_get ::
  "stage_env \<Rightarrow> stage_key \<Rightarrow> string option \<Rightarrow> string option \<Rightarrow> stage_db \<Rightarrow> stage_hit" where
  "stage_get env key archive_sha256 feed_version db =
     (let sv = stage_version env key feed_version;
          no = (\<lambda>reason at_time. \<lparr>sh_hit = False, sh_reason = reason, sh_payload = None,
                  sh_cached_at = at_time, sh_stage_version = Some sv\<rparr>)
      in case fetch stage_row_key db (key, sv) of
           None \<Rightarrow> no ''miss: no cached row'' None
         | Some r \<Rightarrow>
             if archive_sha256 \<noteq> None \<and> truthy_opt (st_archive_sha256 r)
                \<and> st_archive_sha256 r \<noteq> archive_sha256
             then no ''archive sha256 mismatch'' (Some (st_cached_at r))
             else (case se_loads env (st_payload_json r) of
                 Inl e \<Rightarrow> no (''corrupt payload json: '' @ exn_str e) None
               | Inr payload \<Rightarrow>
                   \<lparr>sh_hit = True, sh_reason = ''ok'', sh_payload = Some payload,
                    sh_cached_at = Some (st_cached_at r), sh_stage_version = Some sv\<rparr>))"

text \<open>Serialising may fail, which is reported; the table's check of the ecosystem raises.\<close>

definition stage_put ::
  "stage_env \<Rightarrow> stage_key \<Rightarrow> pyval \<Rightarrow> string option \<Rightarrow> string option \<Rightarrow> stage_db
    \<Rightarrow> pyexn + stage_db \<times> pyval" where
  "stage_put env key payload archive_sha256 feed_version db =
     (let sv = stage_version env key feed_version in
      case se_dumps env payload of
        Inl e \<Rightarrow> Inr (db, PDict [(''stored'', PBool False),
                   (''error'', PStr (''non-serializable payload: '' @ exn_str e))])
      | Inr json \<Rightarrow>
          if sk_ecosystem key \<notin> {''PyPI'', ''npm''}
          then Inl (OtherError ''IntegrityError'' ''CHECK constraint failed: ecosystem'')
          else Inr (upsert stage_row_key
                     \<lparr>st_key = key, st_stage_version = sv, st_archive_sha256 = archive_sha256,
                      st_payload_json = json, st_cached_at = se_now_iso env\<rparr> db,
                    PDict [(''stored'', PBool True), (''stage'', PStr (sk_stage key)),
                           (''stage_version'', PStr sv)]))"

text \<open>The condition of the \<^verbatim>\<open>DELETE\<close>: the given, non-empty fields.\<close>

definition selects :: "string option \<Rightarrow> string option \<Rightarrow> string option \<Rightarrow> string option
    \<Rightarrow> stage_key \<times> string \<Rightarrow> bool" where
  "selects package eco version stage k =
     ((truthy_opt package \<longrightarrow> package = Some (sk_package (fst k)))
      \<and> (truthy_opt eco \<longrightarrow> eco = Some (sk_ecosystem (fst k)))
      \<and> (truthy_opt version \<longrightarrow> version = Some (sk_version (fst k)))
      \<and> (truthy_opt stage \<longrightarrow> stage = Some (sk_stage (fst k))))"

definition stage_invalidate ::
  "string option \<Rightarrow> string option \<Rightarrow> string option \<Rightarrow> string option \<Rightarrow> stage_db
    \<Rightarrow> pyexn + stage_db \<times> nat" where
  "stage_invalidate package eco version stage db =
     (if \<not> truthy_opt package \<and> \<not> truthy_opt eco \<and> \<not> truthy_opt version \<and> \<not> truthy_opt stage
      then Inl (ValueError (''invalidate requires at least one of ''
             @ ''(key | package | ecosystem | version | stage)''))
      else let kept = delete_where stage_row_key (selects package eco version stage) db
           in Inr (kept, length db - length kept))"

definition stage_invalidate_key :: "stage_key \<Rightarrow> stage_db \<Rightarrow> pyexn + stage_db \<times> nat" where
  "stage_invalidate_key key = stage_invalidate (Some (sk_package key)) (Some (sk_ecosystem key))
     (Some (sk_version key)) (Some (sk_stage key))"

text \<open>The trigger on \<^verbatim>\<open>known_malicious\<close> drops the stages that read the feeds.\<close>

definition drop_threat_stages :: "string \<Rightarrow> string \<Rightarrow> stage_db \<Rightarrow> stage_db" where
  "drop_threat_stages eco package db = delete_where stage_row_key
     (\<lambda>(k, sv). sk_ecosystem k = eco \<and> sk_package k = package
        \<and> sk_stage k \<in> {''stage_0a_threat_filter'', ''stage_0b_attack_history''}) db"

definition stage_stats :: "stage_db \<Rightarrow> pyval" where
  "stage_stats db = PDict
     [(''total'', PInt (int (length db))),
      (''by_stage'', count_by (\<lambda>r. sk_stage (st_key r)) db),
      (''supported_stages'', pstrs all_supported_stages)]"

subsection \<open>The table as a map\<close>

interpretation stages: keyed_table stage_row_key "upsert stage_row_key" "fetch stage_row_key"
    "delete_where stage_row_key"
  by unfold_locales
    (auto simp: fetch_upsert fetch_delete_where distinct_upsert distinct_delete_where dest: fetch_key)

subsection \<open>A stage behind the cache\<close>

text \<open>
  How the pipeline runs a stage: take the stored result if it reads back, else compute and store it;
  a failure to store is ignored, one to compute is the stage's. The result comes with the text for
  the stage's payload.
\<close>

record cache_opts =
  co_use_cache :: bool
  co_force_rescan :: bool
  co_archive_sha :: "string option"

definition stage_lookup :: "stage_env \<Rightarrow> cache_opts \<Rightarrow> stage_key \<Rightarrow> stage_db \<Rightarrow> stage_hit option" where
  "stage_lookup env opts key db =
     (if co_use_cache opts \<and> \<not> co_force_rescan opts
      then Some (stage_get env key (co_archive_sha opts) None db) else None)"

definition stage_store :: "stage_env \<Rightarrow> cache_opts \<Rightarrow> stage_key \<Rightarrow> pyval \<Rightarrow> stage_db \<Rightarrow> stage_db" where
  "stage_store env opts key payload db =
     (if co_use_cache opts
      then fst (try_else (stage_put env key payload (co_archive_sha opts) None db) (db, PNone))
      else db)"

definition restored :: "(pyval \<Rightarrow> pyexn + 'a) \<Rightarrow> stage_hit option \<Rightarrow> 'a option" where
  "restored from_dict hit =
     (case hit of
        None \<Rightarrow> None
      | Some h \<Rightarrow> if sh_hit h
          then (case from_dict (the (sh_payload h)) of Inl _ \<Rightarrow> None | Inr x \<Rightarrow> Some x)
          else None)"

definition cached_stage ::
  "stage_env \<Rightarrow> cache_opts \<Rightarrow> stage_key \<Rightarrow> ('a \<Rightarrow> pyval) \<Rightarrow> (pyval \<Rightarrow> pyexn + 'a) \<Rightarrow> pyexn + 'a
    \<Rightarrow> stage_db \<Rightarrow> pyexn + 'a \<times> string \<times> stage_db" where
  "cached_stage env opts key to_dict from_dict compute db =
     (let hit = stage_lookup env opts key db in
      case restored from_dict hit of
        Some x \<Rightarrow> Inr (x, ''hit'', db)
      | None \<Rightarrow>
          bindE compute (\<lambda>x.
            Inr (x, if hit \<noteq> None then ''miss'' else ''disabled'',
                 stage_store env opts key (to_dict x) db)))"

subsection \<open>Transparency\<close>

text \<open>
  The stored row of a key, if it would be used for this archive, is the serialised result \<open>x\<close>.
\<close>

definition holds_result :: "stage_env \<Rightarrow> cache_opts \<Rightarrow> stage_key \<Rightarrow> pyval \<Rightarrow> stage_db \<Rightarrow> bool" where
  "holds_result env opts key v db =
     (case fetch stage_row_key db (key, stage_version env key None) of
        None \<Rightarrow> True
      | Some r \<Rightarrow>
          (co_archive_sha opts \<noteq> None \<and> truthy_opt (st_archive_sha256 r)
             \<and> st_archive_sha256 r \<noteq> co_archive_sha opts)
          \<or> se_loads env (st_payload_json r) = Inr v)"

locale stage_codec =
  fixes to_dict :: "'a \<Rightarrow> pyval"
    and from_dict :: "pyval \<Rightarrow> pyexn + 'a"
    and ok :: "'a \<Rightarrow> bool"
  assumes codec: "\<And>x. ok x \<Longrightarrow> from_dict (to_dict x) = Inr x"
begin

lemma restored_result:
  assumes "ok x" and "holds_result env opts key (to_dict x) db"
  shows "restored from_dict (stage_lookup env opts key db) \<in> {None, Some x}"
  using assms codec [OF assms(1)]
  by (auto simp: restored_def stage_lookup_def stage_get_def holds_result_def Let_def
      split: option.splits sum.splits)

lemma stage_store_holds:
  assumes "\<And>json. se_dumps env (to_dict x) = Inr json \<Longrightarrow> se_loads env json = Inr (to_dict x)"
    and "holds_result env opts key (to_dict x) db"
  shows "holds_result env opts key (to_dict x) (stage_store env opts key (to_dict x) db)"
proof (cases "co_use_cache opts")
  case True
  with assms show ?thesis
    by (auto simp: stage_store_def stage_put_def holds_result_def Let_def fetch_upsert
        stage_row_key_def split: sum.split)
qed (use assms in \<open>simp add: stage_store_def\<close>)

lemma transparent:
  assumes "compute = Inr x" and "ok x" and "holds_result env opts key (to_dict x) db"
    and "\<And>json. se_dumps env (to_dict x) = Inr json \<Longrightarrow> se_loads env json = Inr (to_dict x)"
  shows "\<exists>status db'. cached_stage env opts key to_dict from_dict compute db = Inr (x, status, db')
    \<and> holds_result env opts key (to_dict x) db'"
  using restored_result [OF assms(2,3)] stage_store_holds [OF assms(4,3)] assms(1,3)
  by (auto simp: cached_stage_def Let_def split: option.split)

end

subsection \<open>The table refines a map\<close>

text \<open>
  The abstract cache is a map from a key and a stage version to the stored row; a table and a map
  go through the same operations.
\<close>

datatype stage_op =
    StagePut stage_key pyval "string option"
  | StageInvalidate "string option" "string option" "string option" "string option"
  | StageAdvisory string string

fun stage_step :: "stage_env \<Rightarrow> stage_op \<Rightarrow> stage_db \<Rightarrow> stage_db" where
  "stage_step env (StagePut key v sha) db = fst (try_else (stage_put env key v sha None db) (db, PNone))"
| "stage_step env (StageInvalidate p e v s) db = fst (try_else (stage_invalidate p e v s db) (db, 0))"
| "stage_step env (StageAdvisory eco package) db = drop_threat_stages eco package db"

type_synonym stage_map = "stage_key \<times> string \<Rightarrow> stage_row option"

fun spec_step :: "stage_env \<Rightarrow> stage_op \<Rightarrow> stage_map \<Rightarrow> stage_map" where
  "spec_step env (StagePut key v sha) m =
     (case se_dumps env v of
        Inl _ \<Rightarrow> m
      | Inr json \<Rightarrow>
          if sk_ecosystem key \<in> {''PyPI'', ''npm''}
          then m((key, stage_version env key None) \<mapsto>
                 \<lparr>st_key = key, st_stage_version = stage_version env key None, st_archive_sha256 = sha,
                  st_payload_json = json, st_cached_at = se_now_iso env\<rparr>)
          else m)"
| "spec_step env (StageInvalidate p e v s) m =
     (if truthy_opt p \<or> truthy_opt e \<or> truthy_opt v \<or> truthy_opt s
      then (\<lambda>k. if selects p e v s k then None else m k) else m)"
| "spec_step env (StageAdvisory eco package) m =
     (\<lambda>k. if sk_ecosystem (fst k) = eco \<and> sk_package (fst k) = package
            \<and> sk_stage (fst k) \<in> {''stage_0a_threat_filter'', ''stage_0b_attack_history''}
          then None else m k)"

lemma stage_step_refines:
  "fetch stage_row_key (stage_step env op db) = spec_step env op (fetch stage_row_key db)"
proof (cases op)
  case (StagePut key v sha)
  then show ?thesis
    by (auto simp: stage_put_def Let_def stages.put_map stage_row_key_def split: sum.split)
next
  case (StageInvalidate p e v s)
  then show ?thesis by (auto simp: stage_invalidate_def Let_def stages.delete_map)
next
  case (StageAdvisory eco package)
  then show ?thesis
    by (auto simp: drop_threat_stages_def stages.delete_map split_beta fun_eq_iff)
qed

lemma stage_step_keys:
  "distinct (map stage_row_key db) \<Longrightarrow> distinct (map stage_row_key (stage_step env op db))"
  by (cases op) (auto simp: stage_put_def stage_invalidate_def drop_threat_stages_def Let_def
      stages.keys_put stages.keys_delete split: sum.split)

text \<open>C37: However stage results are stored and invalidated, and whatever advisories arrive, the table
  keeps its primary key and answers exactly as a map from key and stage version to the row written
  last.\<close>
theorem stage_cache_refines_map:
  "fetch stage_row_key (fold (stage_step env) ops []) = fold (spec_step env) ops Map.empty
   \<and> distinct (map stage_row_key (fold (stage_step env) ops []))"
proof -
  have "fetch stage_row_key (fold (stage_step env) ops db)
        = fold (spec_step env) ops (fetch stage_row_key db)
      \<and> (distinct (map stage_row_key db) \<longrightarrow>
          distinct (map stage_row_key (fold (stage_step env) ops db)))" for db
    by (induction ops arbitrary: db) (simp_all add: stage_step_refines stage_step_keys)
  moreover have "fetch stage_row_key [] = Map.empty" by (rule ext) simp
  ultimately show ?thesis by (metis distinct.simps(1) list.map(1))
qed

text \<open>
  The version of a stage depends on the sources of its listed modules only. The list of
  \<^verbatim>\<open>stage_4_ttp\<close> does not name \<^verbatim>\<open>stages.stage4_rules\<close>, whose rules make half of its result.
\<close>

lemma stage_version_listed:
  assumes "map_of STAGE_DEPS stage = Some deps" and "\<And>n. n \<in> set deps \<Longrightarrow> read n = read' n"
  shows "stage_version_for sha read stage feed = stage_version_for sha read' stage feed"
proof -
  have "map (module_text read) (sort deps) = map (module_text read') (sort deps)"
    using assms(2) by (simp add: module_text_def)
  then have "module_files_hash sha read deps = module_files_hash sha read' deps"
    by (simp only: module_files_hash_def)
  then show ?thesis
    using assms(1) by (simp add: stage_version_for_def)
qed

lemma ttp_version_ignores_rules:
  "stage_version_for sha (read(''pkgsentinel.stages.stage4_rules'' := new)) ''stage_4_ttp'' feed
     = stage_version_for sha read ''stage_4_ttp'' feed"
  by (rule stage_version_listed
      [of _ "[''pkgsentinel.stages.stage4_ttp_match'', ''pkgsentinel.knowledge.mitre_attack'']"])
    (auto simp: STAGE_DEPS_def)

end
