(* ===== verification/EditDistance.thy ===== *)
theory EditDistance
  imports Py_Prelude
begin

text \<open>
  The two edit-distance routines (\<^verbatim>\<open>stages/stage0_threat_filter.py\<close>, with an early exit, and
  \<^verbatim>\<open>knowledge/attack_index.py\<close>), the textbook recursion, and the specification: the least number of
  single-character insertions, deletions and replacements.
\<close>

subsection \<open>The routines\<close>

text \<open>
  The inner loop: from the previous row \<open>p0 # p1 # ps\<close> and the entry \<open>l\<close> to the left, the rest of the
  current row.
\<close>

fun lev_row :: "char \<Rightarrow> string \<Rightarrow> nat list \<Rightarrow> nat \<Rightarrow> nat list" where
  "lev_row ca (cb # bs) (p0 # p1 # ps) l =
     (let c = min (min (l + 1) (p1 + 1)) (p0 + (if ca = cb then 0 else 1))
      in c # lev_row ca bs (p1 # ps) c)"
| "lev_row ca bs ps l = []"

definition next_row :: "nat \<Rightarrow> char \<Rightarrow> string \<Rightarrow> nat list \<Rightarrow> nat list" where
  "next_row i ca b prev = i # lev_row ca b prev i"

text \<open>The outer loop, which gives up when a whole row is beyond the limit.\<close>

fun lev_rows :: "nat option \<Rightarrow> nat \<Rightarrow> nat list \<Rightarrow> string \<Rightarrow> string \<Rightarrow> nat" where
  "lev_rows limit i prev [] b = last prev"
| "lev_rows limit i prev (ca # a) b =
     (let curr = next_row i ca b prev in
      case limit of
        Some m \<Rightarrow> if m < fold min (tl curr) (hd curr) then m + 1 else lev_rows limit (i + 1) curr a b
      | None \<Rightarrow> lev_rows limit (i + 1) curr a b)"

definition levenshtein_bounded :: "string \<Rightarrow> string \<Rightarrow> nat \<Rightarrow> nat" where
  "levenshtein_bounded a b max_dist =
     (if a = b then 0
      else if nat \<bar>int (length a) - int (length b)\<bar> > max_dist then max_dist + 1
      else if a = [] then length b
      else if b = [] then length a
      else lev_rows (Some max_dist) 1 [0..<length b + 1] a b)"

definition levenshtein_full :: "string \<Rightarrow> string \<Rightarrow> nat" where
  "levenshtein_full a b =
     (if a = b then 0
      else if a = [] then length b
      else if b = [] then length a
      else lev_rows None 1 [0..<length b + 1] a b)"

subsection \<open>The textbook recursion\<close>

fun ed :: "'a list \<Rightarrow> 'a list \<Rightarrow> nat" where
  "ed [] b = length b"
| "ed a [] = length a"
| "ed (x # a) (y # b) =
     min (min (ed (x # a) b + 1) (ed a (y # b) + 1)) (ed a b + (if x = y then 0 else 1))"

lemma ed_Nil2 [simp]: "ed a [] = length a"
  by (cases a) simp_all

lemma ed_sym: "ed a b = ed b a"
  by (induction a b rule: ed.induct) (auto simp: min.commute)

lemma ed_refl [simp]: "ed a a = 0"
  by (induction a) (simp_all add: min_def)

lemma ed_length: "length a \<le> ed a b + length b"
  by (induction a b rule: ed.induct) (auto simp: min_def)

lemma ed_length': "nat \<bar>int (length a) - int (length b)\<bar> \<le> ed a b"
  using ed_length [of a b] ed_length [of b a] ed_sym [of a b] by linarith

lemma ed_Cons2: "ed a (x # v) \<le> ed a v + 1"
  by (cases a) simp_all

lemma ed_Cons1: "ed (x # a) v \<le> ed a v + 1"
  using ed_Cons2 [of v x a] by (simp add: ed_sym)

lemma ed_drop2: "ed a v \<le> ed a (x # v) + 1"
proof (induction a)
  case (Cons z a)
  have "ed (z # a) v \<le> ed a v + 1" by (rule ed_Cons1)
  with Cons show ?case by auto
qed simp

lemma min3: "min (min p q) r = p \<or> min (min p q) r = q \<or> min (min p q) r = (r :: nat)"
  by (simp add: min_def)

lemma ed_Cons_cases:
  "ed (x # a) (y # b) = ed (x # a) b + 1 \<or> ed (x # a) (y # b) = ed a (y # b) + 1
   \<or> ed (x # a) (y # b) = ed a b + (if x = y then 0 else 1)"
  by (simp only: ed.simps min3)

lemma ed_replace2: "ed a (y # v) \<le> ed a (x # v) + 1"
proof (induction a)
  case (Cons z a)
  have "ed (z # a) (y # v) \<le> ed a (y # v) + 1" "ed (z # a) (y # v) \<le> ed (z # a) v + 1"
    "ed (z # a) (y # v) \<le> ed a v + 1"
    by (auto simp: min_def)
  with Cons ed_Cons_cases [of z a x v] show ?case
    by (auto simp del: ed.simps split: if_splits)
qed simp

subsection \<open>Single edits\<close>

inductive edit :: "'a list \<Rightarrow> 'a list \<Rightarrow> bool" where
  insert: "edit (u @ v) (u @ x # v)"
| delete: "edit (u @ x # v) (u @ v)"
| replace: "edit (u @ x # v) (u @ y # v)"

inductive_cases edit_from_NilE: "edit [] b"

text \<open>A property of the last argument that holds at the place of the edit holds behind a common prefix.\<close>

lemma ed_prefix:
  assumes "\<And>a. ed a v \<le> ed a w + 1"
  shows "ed a (u @ v) \<le> ed a (u @ w) + 1"
proof (induction "length a + length u" arbitrary: a u rule: less_induct)
  case less
  show ?case
  proof (cases u)
    case Nil
    with assms show ?thesis by simp
  next
    case u: (Cons y u')
    show ?thesis
    proof (cases a)
      case Nil
      with assms [of "[]"] u show ?thesis by simp
    next
      case (Cons z a')
      have "ed a (u' @ v) \<le> ed a (u' @ w) + 1" "ed a' (u @ v) \<le> ed a' (u @ w) + 1"
        "ed a' (u' @ v) \<le> ed a' (u' @ w) + 1"
        using less [of a u'] less [of a' u] less [of a' u'] by (simp_all add: u Cons)
      then show ?thesis by (auto simp: u Cons)
    qed
  qed
qed

lemma ed_edit: "edit b c \<Longrightarrow> ed a c \<le> ed a b + 1"
  by (induction rule: edit.induct) (rule ed_prefix, rule ed_Cons2 ed_drop2 ed_replace2)+

lemma edit_Cons: "edit a b \<Longrightarrow> edit (x # a) (x # b)"
  by (induction rule: edit.induct) (metis append_Cons edit.intros)+

lemma edits_Cons: "(edit ^^ n) a b \<Longrightarrow> (edit ^^ n) (x # a) (x # b)"
  by (induction n arbitrary: b) (auto intro: edit_Cons relcomppI)

lemma edits_at_least: "(edit ^^ n) a b \<Longrightarrow> ed a b \<le> n"
proof (induction n arbitrary: b)
  case (Suc n)
  then obtain c where "(edit ^^ n) a c" "edit c b" by auto
  with Suc.IH [of c] ed_edit [of c b a] show ?case by simp
qed simp

lemma edits_reach: "(edit ^^ ed a b) a b"
proof (induction a b rule: ed.induct)
  case (1 b)
  show ?case
  proof (induction b)
    case (Cons x b)
    have "edit b (x # b)" using edit.insert [of "[]" b x] by simp
    with Cons show ?case by auto
  qed simp
next
  case (2 x a)
  have "(edit ^^ length as) as []" for as :: "'a list"
  proof (induction as)
    case (Cons y as)
    have "edit (y # as) as" using edit.delete [of "[]" y as] by simp
    from this Cons have "(edit ^^ Suc (length as)) (y # as) []" by (rule relpowp_Suc_I2)
    then show ?case by (simp only: length_Cons)
  qed simp
  from this [of "x # a"] show ?case by simp
next
  case (3 x a y b)
  have ins: "edit b (y # b)" using edit.insert [of "[]" b y] by simp
  have del: "edit (x # a) a" using edit.delete [of "[]" x a] by simp
  have rep: "edit (x # a) (y # a)" using edit.replace [of "[]" x a y] by simp
  consider "ed (x # a) (y # b) = ed (x # a) b + 1" | "ed (x # a) (y # b) = ed a (y # b) + 1"
    | "ed (x # a) (y # b) = ed a b + (if x = y then 0 else 1)"
    using ed_Cons_cases [of x a y b] by blast
  then show ?case
  proof cases
    case 1
    from relpowp_Suc_I [OF 3(1) ins] show ?thesis by (simp only: 1 Suc_eq_plus1)
  next
    case 2
    from relpowp_Suc_I2 [OF del 3(2)] show ?thesis by (simp only: 2 Suc_eq_plus1)
  next
    case 3
    from \<open>(edit ^^ ed a b) a b\<close> have path: "(edit ^^ ed a b) (y # a) (y # b)" by (rule edits_Cons)
    show ?thesis
    proof (cases "x = y")
      case True
      with 3 path show ?thesis by simp
    next
      case False
      from relpowp_Suc_I2 [OF rep path] False show ?thesis
        by (simp only: 3 Suc_eq_plus1 if_False)
    qed
  qed
qed

text \<open>The recursion computes the least number of edits.\<close>

lemma ed_Least: "ed a b = (LEAST n. (edit ^^ n) a b)"
  by (rule sym, rule Least_equality) (simp_all add: edits_reach edits_at_least)

lemma edit_rev: "edit a b \<Longrightarrow> edit (rev a) (rev b)"
proof (induction rule: edit.induct)
  case (insert u v x)
  show ?case using edit.insert [of "rev v" "rev u" x] by simp
next
  case (delete u x v)
  show ?case using edit.delete [of "rev v" x "rev u"] by simp
next
  case (replace u x v y)
  show ?case using edit.replace [of "rev v" x "rev u" y] by simp
qed

lemma edits_rev: "(edit ^^ n) a b \<Longrightarrow> (edit ^^ n) (rev a) (rev b)"
  by (induction n arbitrary: b) (auto intro: edit_rev relcomppI)

lemma ed_rev: "ed (rev a) (rev b) = ed a b"
proof -
  have "ed (rev c) (rev d) \<le> ed c d" for c d :: "'a list"
    by (rule edits_at_least, rule edits_rev, rule edits_reach)
  from this [of a b] this [of "rev a" "rev b"] show ?thesis by simp
qed

subsection \<open>The table\<close>

text \<open>Entry \<open>(i, j)\<close> of the table: the distance of the prefixes of these lengths.\<close>

definition lev_entry :: "string \<Rightarrow> string \<Rightarrow> nat \<Rightarrow> nat \<Rightarrow> nat" where
  "lev_entry a b i j = ed (rev (take i a)) (rev (take j b))"

definition table_row :: "string \<Rightarrow> string \<Rightarrow> nat \<Rightarrow> nat list" where
  "table_row a b i = map (lev_entry a b i) [0..<length b + 1]"

lemma entry_0 [simp]: "lev_entry a b 0 j = min j (length b)" "lev_entry a b i 0 = min i (length a)"
  by (simp_all add: lev_entry_def min.commute)

lemma entry_Suc:
  assumes "i < length a" and "j < length b"
  shows "lev_entry a b (Suc i) (Suc j) =
    min (min (lev_entry a b (Suc i) j + 1) (lev_entry a b i (Suc j) + 1))
        (lev_entry a b i j + (if a ! i = b ! j then 0 else 1))"
  using assms by (simp add: lev_entry_def take_Suc_conv_app_nth)

lemma entry_full: "lev_entry a b (length a) (length b) = ed a b"
  by (simp add: lev_entry_def ed_rev)

lemma lev_row_correct:
  assumes "i < length a" and "j \<le> length b"
  shows "lev_row (a ! i) (drop j b) (map (lev_entry a b i) [j..<length b + 1]) (lev_entry a b (Suc i) j)
    = map (lev_entry a b (Suc i)) [Suc j..<length b + 1]"
  using assms(2)
proof (induction "length b - j" arbitrary: j)
  case 0
  then show ?case by simp
next
  case (Suc n)
  then have j: "j < length b" by simp
  have drop: "drop j b = b ! j # drop (Suc j) b" using j by (simp add: Cons_nth_drop_Suc)
  have upt: "[j..<length b + 1] = j # Suc j # [Suc (Suc j)..<length b + 1]"
    "[Suc j..<length b + 1] = Suc j # [Suc (Suc j)..<length b + 1]"
    using j by (simp_all add: upt_conv_Cons)
  from Suc have IH: "lev_row (a ! i) (drop (Suc j) b) (map (lev_entry a b i) [Suc j..<length b + 1])
      (lev_entry a b (Suc i) (Suc j)) = map (lev_entry a b (Suc i)) [Suc (Suc j)..<length b + 1]"
    by simp
  have e: "min (min (lev_entry a b (Suc i) j + 1) (lev_entry a b i (Suc j) + 1))
      (lev_entry a b i j + (if a ! i = b ! j then 0 else 1)) = lev_entry a b (Suc i) (Suc j)"
    using entry_Suc [OF assms(1) j] by simp
  show ?case
    using IH by (simp only: drop upt list.map lev_row.simps Let_def e)
qed

lemma next_row_correct:
  assumes "i < length a"
  shows "next_row (Suc i) (a ! i) b (table_row a b i) = table_row a b (Suc i)"
proof -
  have "lev_entry a b (Suc i) 0 = Suc i" using assms by simp
  then have "lev_row (a ! i) b (table_row a b i) (Suc i)
      = map (lev_entry a b (Suc i)) [Suc 0..<length b + 1]"
    using lev_row_correct [OF assms, of 0 b] by (simp add: table_row_def)
  then show ?thesis
    using assms by (simp add: next_row_def table_row_def upt_conv_Cons del: upt_Suc)
qed

text \<open>No entry of a row is below the least entry of the row before.\<close>

lemma entry_grows:
  assumes "i < length a" and "j \<le> length b" and "\<And>k. k \<le> length b \<Longrightarrow> m < lev_entry a b i k"
  shows "m < lev_entry a b (Suc i) j"
  using assms(2)
proof (induction j)
  case 0
  with assms(1) assms(3) [of 0] show ?case by simp
next
  case (Suc j)
  with assms(1) assms(3) [of j] assms(3) [of "Suc j"] show ?case
    by (auto simp: entry_Suc)
qed

lemma rows_grow:
  assumes "i \<le> i'" and "i' \<le> length a" and "\<And>k. k \<le> length b \<Longrightarrow> m < lev_entry a b i k"
  shows "k \<le> length b \<Longrightarrow> m < lev_entry a b i' k"
  using assms(1,2)
proof (induction i' arbitrary: k rule: dec_induct)
  case (step n)
  then show ?case by (intro entry_grows) auto
qed (rule assms(3))

lemma row_min:
  "m < fold min (tl (table_row a b i)) (hd (table_row a b i)) \<longleftrightarrow> (\<forall>k\<le>length b. m < lev_entry a b i k)"
proof -
  have "fold min xs x = Min (set (x # xs))" for xs and x :: nat
    by (metis Min.set_eq_fold)
  moreover have "table_row a b i = hd (table_row a b i) # tl (table_row a b i)"
    by (simp add: table_row_def upt_conv_Cons del: upt_Suc)
  ultimately have "fold min (tl (table_row a b i)) (hd (table_row a b i)) = Min (set (table_row a b i))"
    by metis
  then show ?thesis
    by (auto simp: table_row_def less_Suc_eq_le)
qed

text \<open>The loop from row \<open>i\<close> on: the exact distance, unless a row went beyond the limit.\<close>

lemma lev_rows_correct:
  assumes "i \<le> length a"
  shows "case limit of
      None \<Rightarrow> lev_rows limit (i + 1) (table_row a b i) (drop i a) b = ed a b
    | Some m \<Rightarrow> (let r = lev_rows limit (i + 1) (table_row a b i) (drop i a) b in
          r = ed a b \<or> (m < r \<and> m < ed a b))"
  using assms
proof (induction "length a - i" arbitrary: i)
  case 0
  then have "i = length a" by simp
  then show ?case
    by (simp add: table_row_def entry_full split: option.split)
next
  case (Suc n)
  then have i: "i < length a" by simp
  have drop: "drop i a = a ! i # drop (Suc i) a" using i by (simp add: Cons_nth_drop_Suc)
  note row = next_row_correct [OF i, of b]
  have IH: "case limit of
      None \<Rightarrow> lev_rows limit (Suc i + 1) (table_row a b (Suc i)) (drop (Suc i) a) b = ed a b
    | Some m \<Rightarrow> (let r = lev_rows limit (Suc i + 1) (table_row a b (Suc i)) (drop (Suc i) a) b in
          r = ed a b \<or> (m < r \<and> m < ed a b))"
    by (rule Suc) (use Suc i in auto)
  show ?case
  proof (cases limit)
    case None
    with IH show ?thesis by (simp add: drop row)
  next
    case (Some m)
    have "m < ed a b" if "m < fold min (tl (table_row a b (Suc i))) (hd (table_row a b (Suc i)))"
      using rows_grow [of "Suc i" "length a" a b m "length b"] that i
      by (simp add: row_min entry_full)
    with IH Some show ?thesis by (simp add: drop row Let_def)
  qed
qed

lemma first_row: "table_row a b 0 = [0..<length b + 1]"
  unfolding table_row_def by (rule map_idI) auto

lemma levenshtein_full_ed: "levenshtein_full a b = ed a b"
  using lev_rows_correct [of 0 a None b]
  by (auto simp: first_row levenshtein_full_def ed_sym [of a "[]"])

lemma levenshtein_bounded_ed:
  "levenshtein_bounded a b m = ed a b \<or> (m < levenshtein_bounded a b m \<and> m < ed a b)"
  using lev_rows_correct [of 0 a "Some m" b] ed_length' [of a b]
  by (auto simp: first_row Let_def levenshtein_bounded_def ed_sym [of a "[]"])

lemma ed_zero: "ed a b = 0 \<longleftrightarrow> a = b"
  using edits_reach [of a b] by auto

text \<open>C38: The edit distance of the attack index is the least number of single-character insertions,
  deletions and replacements that turn one name into the other; the routine of the threat filter,
  which stops early, agrees with it up to its limit and answers more than the limit beyond.\<close>
theorem levenshtein_is_edit_distance:
  "levenshtein_full a b = (LEAST n. (edit ^^ n) a b)
   \<and> min (levenshtein_bounded a b m) (Suc m) = min (LEAST n. (edit ^^ n) a b) (Suc m)"
  using levenshtein_full_ed [of a b] levenshtein_bounded_ed [of a b m] ed_Least [of a b] by auto

end
