(* ===== verification/AttackIndex.thy ===== *)
theory AttackIndex
  imports EditDistance Converters
begin

text \<open>
  \<^verbatim>\<open>knowledge/attack_index.py\<close> and \<^verbatim>\<open>stages/stage0b_attack_history.py\<close>: the index of reported attacks,
  its exact and similar look-ups, the additions at run time, and the evidence of stage 0B. The
  pattern files are a parameter.
\<close>

record attack_pattern =
  ap_advisory_id :: string
  ap_ecosystem :: string
  ap_affected_packages :: "string list"
  ap_affected_versions :: "string list"
  ap_summary :: string
  ap_details :: string
  ap_attack_type :: string
  ap_references :: "string list"

datatype match_kind = ExactMatch | HistoricalNameMatch | TyposquatCandidate

fun match_kind_value :: "match_kind \<Rightarrow> string" where
  "match_kind_value ExactMatch = ''exact''"
| "match_kind_value HistoricalNameMatch = ''historical_name_match''"
| "match_kind_value TyposquatCandidate = ''typosquat_candidate''"

record attack_match =
  am_kind :: match_kind
  am_pattern :: attack_pattern
  am_similarity :: rat
  am_reason :: string

subsection \<open>The index\<close>

record runtime_ioc =
  io_type :: string
  io_value :: string
  io_confidence :: rat
  io_associated_packages :: "string list"
  io_source_observation_id :: "int option"

record attack_index =
  ax_patterns :: "attack_pattern list"
  ax_by_name :: "((string \<times> string) \<times> attack_pattern list) list"
  ax_all_names :: "(string \<times> string \<times> attack_pattern) list"
  ax_runtime_iocs :: "((string \<times> string) \<times> runtime_ioc) list"

text \<open>\<^verbatim>\<open>d.setdefault(key, []).append(p)\<close>\<close>

definition by_name_add :: "string \<times> string \<Rightarrow> 'p \<Rightarrow> ((string \<times> string) \<times> 'p list) list
    \<Rightarrow> ((string \<times> string) \<times> 'p list) list" where
  "by_name_add k p d = AList.update k (or_else (map_of d k) [] @ [p]) d"

definition name_keys :: "attack_pattern \<Rightarrow> (string \<times> string) list" where
  "name_keys p = map (\<lambda>name. (ap_ecosystem p, py_lower name)) (ap_affected_packages p)"

definition index_pattern :: "attack_pattern \<Rightarrow> attack_index \<Rightarrow> attack_index" where
  "index_pattern p ix = ix
     \<lparr>ax_by_name := fold (\<lambda>k. by_name_add k p) (name_keys p) (ax_by_name ix),
      ax_all_names := ax_all_names ix @ map (\<lambda>(e, n). (e, n, p)) (name_keys p)\<rparr>"

definition make_index :: "attack_pattern list \<Rightarrow> attack_index" where
  "make_index ps = fold index_pattern ps
     \<lparr>ax_patterns = ps, ax_by_name = [], ax_all_names = [], ax_runtime_iocs = []\<rparr>"

definition add_runtime_pattern :: "attack_pattern \<Rightarrow> attack_index \<Rightarrow> attack_index" where
  "add_runtime_pattern p ix =
     (if ap_advisory_id p \<in> set (map ap_advisory_id (ax_patterns ix)) then ix
      else index_pattern p (ix\<lparr>ax_patterns := ax_patterns ix @ [p]\<rparr>))"

fun add_runtime_patterns :: "attack_pattern list \<Rightarrow> attack_index \<Rightarrow> attack_index \<times> nat" where
  "add_runtime_patterns [] ix = (ix, 0)"
| "add_runtime_patterns (p # ps) ix =
     (let ix' = add_runtime_pattern p ix; (ix'', n) = add_runtime_patterns ps ix' in
      (ix'', n + (if length (ax_patterns ix') > length (ax_patterns ix) then 1 else 0)))"

definition ioc_key :: "string \<Rightarrow> string \<Rightarrow> string \<times> string" where
  "ioc_key ioc_type v = (ioc_type, if ioc_type \<noteq> ''sha256'' then py_lower v else v)"

definition add_runtime_ioc :: "runtime_ioc \<Rightarrow> attack_index \<Rightarrow> attack_index" where
  "add_runtime_ioc ioc ix = ix
     \<lparr>ax_runtime_iocs := AList.update (ioc_key (io_type ioc) (io_value ioc)) ioc (ax_runtime_iocs ix)\<rparr>"

definition lookup_runtime_ioc :: "attack_index \<Rightarrow> string \<Rightarrow> string \<Rightarrow> runtime_ioc option" where
  "lookup_runtime_ioc ix ioc_type v = map_of (ax_runtime_iocs ix) (ioc_key ioc_type v)"

subsection \<open>Look-ups\<close>

definition exact_match :: "string \<Rightarrow> string option \<Rightarrow> attack_pattern \<Rightarrow> attack_match" where
  "exact_match package version p =
     (let affected = ap_affected_versions p;
          mk = (\<lambda>kind reason. \<lparr>am_kind = kind, am_pattern = p, am_similarity = 1, am_reason = reason\<rparr>)
      in case version of
          None \<Rightarrow> mk ExactMatch (''exact match: this package name was reported as malicious (''
                    @ ap_advisory_id p @ '')'')
        | Some v \<Rightarrow>
            if affected = []
            then mk ExactMatch (''exact match: this package name was reported as malicious (''
                    @ ap_advisory_id p @ '')'')
            else if v \<in> set affected
            then mk ExactMatch (''exact version match: '' @ package @ ''@'' @ v
                   @ '' is in affected_versions of '' @ ap_advisory_id p)
            else mk HistoricalNameMatch (''name '' @ [CHR 0x27] @ package @ [CHR 0x27]
                   @ '' was reported as malicious ('' @ ap_advisory_id p @ '') but version '' @ v
                   @ '' is NOT in affected_versions '' @ py_repr_list (take 5 affected)
                   @ (if length affected > 5 then ''...'' else []) @ '' ''
                   @ utf8 [226, 128, 148] @ '' current version likely safe''))"

definition lookup_exact :: "attack_index \<Rightarrow> string \<Rightarrow> string \<Rightarrow> string option \<Rightarrow> attack_match list" where
  "lookup_exact ix package eco version =
     map (exact_match package version) (or_else (map_of (ax_by_name ix) (eco, py_lower package)) [])"

definition edit_similarity :: "string \<Rightarrow> string \<Rightarrow> nat \<Rightarrow> rat" where
  "edit_similarity a b d = 1 - of_nat d / of_nat (max (length a) (length b))"

definition similar_match :: "string \<Rightarrow> nat \<Rightarrow> string \<Rightarrow> string \<times> string \<times> attack_pattern
    \<Rightarrow> attack_match option" where
  "similar_match name max_dist eco entry =
     (case entry of (e, known, p) \<Rightarrow>
      if e \<noteq> eco \<or> known = name \<or> nat \<bar>int (length known) - int (length name)\<bar> > max_dist then None
      else let dist = levenshtein_full name known in
        if dist = 0 \<or> dist > max_dist then None
        else Some \<lparr>am_kind = TyposquatCandidate, am_pattern = p,
                   am_similarity = edit_similarity name known dist,
                   am_reason = ''name is within edit distance '' @ show_nat dist
                     @ '' of known malicious package '' @ py_repr known @ '' (''
                     @ ap_advisory_id p @ '')''\<rparr>)"

definition lookup_similar :: "attack_index \<Rightarrow> string \<Rightarrow> string \<Rightarrow> nat \<Rightarrow> nat \<Rightarrow> attack_match list" where
  "lookup_similar ix package eco max_dist max_results =
     take max_results (sort_key (\<lambda>m. - am_similarity m)
       (List.map_filter (similar_match (py_lower package) max_dist eco) (ax_all_names ix)))"

text \<open>Loading: the files that exist, in order, each advisory once.\<close>

fun load_files :: "attack_pattern list \<Rightarrow> string list \<Rightarrow> attack_pattern list" where
  "load_files [] seen = []"
| "load_files (p # ps) seen =
     (if ap_advisory_id p \<in> set seen then load_files ps seen
      else p # load_files ps (ap_advisory_id p # seen))"

definition get_index :: "(string \<Rightarrow> attack_pattern list option) \<Rightarrow> pyexn + attack_index" where
  "get_index read_cache =
     (let ps = load_files (concat (map (\<lambda>fn. case read_cache fn of None \<Rightarrow> [] | Some ps \<Rightarrow> ps)
                 [''osv_pypi.json'', ''osv_npm.json'', ''ossf_malicious_pypi.json'',
                  ''ossf_malicious_npm.json''])) []
      in if ps = [] then Inl (OtherError ''FileNotFoundError'' 
           (utf8 [236, 156, 132, 237, 152, 145, 32, 102, 101, 101, 100, 32, 236, 186, 144,
             236, 139, 156, 234, 176, 128, 32, 236, 151, 134, 236, 138, 181, 235, 139, 136,
             235, 139, 164, 46, 32, 235, 168, 188, 236, 160, 128, 32, 236, 136, 152, 236,
             167, 145, 237, 149, 152, 236, 132, 184, 236, 154, 148, 58, 10, 32, 32, 112, 121,
             116, 104, 111, 110, 32, 45, 109, 32, 112, 107, 103, 115, 101, 110, 116, 105,
             110, 101, 108, 46, 107, 110, 111, 119, 108, 101, 100, 103, 101, 46, 111, 115,
             118, 32, 80, 121, 80, 73, 10, 32, 32, 112, 121, 116, 104, 111, 110, 32, 45, 109,
             32, 112, 107, 103, 115, 101, 110, 116, 105, 110, 101, 108, 46, 107, 110, 111,
             119, 108, 101, 100, 103, 101, 46, 111, 115, 118, 32, 110, 112, 109, 10, 32, 32,
             112, 121, 116, 104, 111, 110, 32, 45, 109, 32, 112, 107, 103, 115, 101, 110,
             116, 105, 110, 101, 108, 46, 107, 110, 111, 119, 108, 101, 100, 103, 101, 46,
             111, 115, 115, 102, 95, 109, 97, 108, 105, 99, 105, 111, 117, 115, 32, 32, 40,
             236, 132, 160, 237, 131, 157, 41, 10]))
         else Inr (make_index ps))"

subsection \<open>Stage 0B\<close>

record attack_history_result =
  ah_exact_matches :: "attack_match list"
  ah_historical_name_matches :: "attack_match list"
  ah_typosquat_candidates :: "attack_match list"
  ah_error :: "string option"

definition any_hit :: "attack_history_result \<Rightarrow> bool" where
  "any_hit r = (ah_exact_matches r \<noteq> [] \<or> ah_historical_name_matches r \<noteq> []
                \<or> ah_typosquat_candidates r \<noteq> [])"

text \<open>Only a missing feed is caught.\<close>

definition check_attack_history ::
  "(pyexn + attack_index) \<Rightarrow> string \<Rightarrow> ecosystem \<Rightarrow> string option \<Rightarrow> pyexn + attack_history_result" where
  "check_attack_history index package eco version =
     (case index of
        Inl e \<Rightarrow>
          if exn_name e = ''FileNotFoundError''
          then Inr \<lparr>ah_exact_matches = [], ah_historical_name_matches = [],
                    ah_typosquat_candidates = [], ah_error = Some (exn_str e)\<rparr>
          else Inl e
      | Inr ix \<Rightarrow>
          let ms = lookup_exact ix package (ecosystem_value eco) version in
          Inr \<lparr>ah_exact_matches = filter (\<lambda>m. am_kind m = ExactMatch) ms,
               ah_historical_name_matches = filter (\<lambda>m. am_kind m \<noteq> ExactMatch) ms,
               ah_typosquat_candidates = lookup_similar ix package (ecosystem_value eco) 2 5,
               ah_error = None\<rparr>)"

definition first_reference :: "attack_pattern \<Rightarrow> string" where
  "first_reference p = (case ap_references p of [] \<Rightarrow> [] | r # _ \<Rightarrow> r)"

definition exact_evidence :: "string \<Rightarrow> attack_match \<Rightarrow> evidence" where
  "exact_evidence file_path m =
     (let p = am_pattern m in (mitre_evidence file_path)
       \<lparr>ev_code_snippet := ''package name '' @ [CHR 0x27] @ hd (ap_affected_packages p) @ [CHR 0x27]
          @ '' is on the malicious list'',
        ev_behavior_sequence := [''registry_name_match''], ev_ttp_id := ap_advisory_id p,
        ev_ttp_name := ''Reported malicious package '' @ utf8 [226, 128, 148] @ '' ''
          @ take 80 (ap_summary p),
        ev_ttp_source := GHSA, ev_ttp_url := first_reference p, ev_ttp_severity := SevHIGH,
        ev_llm_verdict := LlmMALICIOUS,
        ev_llm_reasoning := ''Package name matches a previously reported malicious entry (''
          @ ap_advisory_id p @ '', '' @ ap_attack_type p @ ''). Details: '' @ take 200 (ap_details p),
        ev_llm_model := ''attack-history-rule'', ev_confidence := 99/100\<rparr>)"

definition similar_evidence :: "string \<Rightarrow> attack_match \<Rightarrow> evidence" where
  "similar_evidence file_path m =
     (let p = am_pattern m;
          known = (case ap_affected_packages p of [] \<Rightarrow> ''?'' | n # _ \<Rightarrow> n)
      in (mitre_evidence file_path)
       \<lparr>ev_code_snippet := ''name similar to previously-malicious '' @ [CHR 0x27] @ known @ [CHR 0x27]
          @ '' (edit distance close)'',
        ev_behavior_sequence := [''registry_name_similarity''], ev_ttp_id := ''TYPOSQUAT_CANDIDATE'',
        ev_ttp_name := ''Name similarity with malicious '' @ known @ '' (informational)'',
        ev_ttp_source := GHSA, ev_ttp_url := first_reference p, ev_ttp_severity := SevLOW,
        ev_vector_similarity := am_similarity m, ev_llm_verdict := LlmBENIGN,
        ev_llm_reasoning := ''Informational: name similarity '' @ fmt_2f (am_similarity m)
          @ '' with malicious '' @ py_repr known @ '' (advisory '' @ ap_advisory_id p
          @ ''). This could indicate either a typosquat attempt or that this package ''
          @ ''shares a name prefix with a popular target. Context required.'',
        ev_llm_model := ''attack-history-rule'', ev_confidence := 3/10\<rparr>)"

text \<open>An exact match of a pattern without packages would raise; the index only holds named ones.\<close>

definition history_evidence :: "string \<Rightarrow> attack_history_result \<Rightarrow> evidence list" where
  "history_evidence file_path r =
     map (exact_evidence file_path) (ah_exact_matches r)
     @ map (similar_evidence file_path) (take 3 (ah_typosquat_candidates r))"

subsection \<open>What the index holds\<close>

definition named_by :: "attack_pattern list \<Rightarrow> string \<times> string \<Rightarrow> attack_pattern list" where
  "named_by ps k = concat (map (\<lambda>p. map (\<lambda>k'. p) (filter (\<lambda>k'. k' = k) (name_keys p))) ps)"

definition index_inv :: "attack_index \<Rightarrow> bool" where
  "index_inv ix = ((\<forall>k. or_else (map_of (ax_by_name ix) k) [] = named_by (ax_patterns ix) k)
     \<and> set (ax_all_names ix) = {(e, n, p). p \<in> set (ax_patterns ix) \<and> (e, n) \<in> set (name_keys p)})"

lemma or_else_some [simp]: "or_else (Some xs) [] = xs"
  by (cases xs) simp_all

lemma by_name_add_get:
  "or_else (map_of (by_name_add k p d) k') []
     = or_else (map_of d k') [] @ (if k' = k then [p] else [])"
  by (auto simp: by_name_add_def update_conv')

lemma by_name_fold:
  "or_else (map_of (fold (\<lambda>k. by_name_add k p) ks d) k') []
     = or_else (map_of d k') [] @ map (\<lambda>k. p) (filter (\<lambda>k. k = k') ks)"
  by (induction ks arbitrary: d) (auto simp: by_name_add_get)

lemma index_pattern_inv:
  assumes "index_inv ix"
  shows "index_inv (index_pattern p (ix\<lparr>ax_patterns := ax_patterns ix @ [p]\<rparr>))"
  using assms by (auto simp: index_inv_def index_pattern_def by_name_fold named_by_def)

lemma index_pattern_patterns [simp]: "ax_patterns (index_pattern p ix) = ax_patterns ix"
  by (simp add: index_pattern_def)

lemma fold_index:
  "or_else (map_of (ax_by_name (fold index_pattern ps ix)) k) []
     = or_else (map_of (ax_by_name ix) k) [] @ named_by ps k"
  "set (ax_all_names (fold index_pattern ps ix))
     = set (ax_all_names ix) \<union> {(e, n, p). p \<in> set ps \<and> (e, n) \<in> set (name_keys p)}"
  "ax_patterns (fold index_pattern ps ix) = ax_patterns ix"
  by (induction ps arbitrary: ix) (auto simp: index_pattern_def by_name_fold named_by_def)

lemma make_index_inv: "index_inv (make_index ps)" "ax_patterns (make_index ps) = ps"
  by (simp_all add: make_index_def index_inv_def fold_index)

lemma add_runtime_pattern_inv: "index_inv ix \<Longrightarrow> index_inv (add_runtime_pattern p ix)"
  by (simp add: add_runtime_pattern_def index_pattern_inv)

lemma add_runtime_patterns_inv: "index_inv ix \<Longrightarrow> index_inv (fst (add_runtime_patterns ps ix))"
  by (induction ps ix rule: add_runtime_patterns.induct)
    (simp_all add: add_runtime_pattern_inv Let_def split_beta)

lemma lookup_exact_mem:
  assumes "index_inv ix"
  shows "m \<in> set (lookup_exact ix package eco version) \<longleftrightarrow>
    (\<exists>p\<in>set (ax_patterns ix). ap_ecosystem p = eco
       \<and> py_lower package \<in> py_lower ` set (ap_affected_packages p)
       \<and> m = exact_match package version p)"
proof -
  have "p \<in> set (named_by ps (eco, n)) \<longleftrightarrow>
      p \<in> set ps \<and> ap_ecosystem p = eco \<and> n \<in> py_lower ` set (ap_affected_packages p)" for p ps n
    by (auto simp: named_by_def name_keys_def)
  with assms show ?thesis by (auto simp: lookup_exact_def index_inv_def)
qed

lemma exact_match_kind:
  "am_kind (exact_match package version p) = (case version of
      None \<Rightarrow> ExactMatch
    | Some v \<Rightarrow> if ap_affected_versions p = [] \<or> v \<in> set (ap_affected_versions p) then ExactMatch
               else HistoricalNameMatch)"
  "am_pattern (exact_match package version p) = p"
  by (auto simp: exact_match_def Let_def split: option.split)

text \<open>C39: However the index was built and extended at run time, stage 0B reports a pattern as an exact
  hit precisely when it names the package (up to case, in its ecosystem) and concerns the version: no
  version is asked for, the pattern lists none, or it lists this one. A pattern that lists other
  versions only is historical, never exact.\<close>
theorem attack_history_exact:
  assumes "ix = fst (add_runtime_patterns qs (make_index ps))"
    and "check_attack_history (Inr ix) package eco version = Inr r"
  shows "p \<in> am_pattern ` set (ah_exact_matches r) \<longleftrightarrow>
      p \<in> set (ax_patterns ix) \<and> ap_ecosystem p = ecosystem_value eco
      \<and> py_lower package \<in> py_lower ` set (ap_affected_packages p)
      \<and> (version = None \<or> ap_affected_versions p = [] \<or> the version \<in> set (ap_affected_versions p))"
proof -
  have inv: "index_inv ix" using assms(1) add_runtime_patterns_inv make_index_inv by simp
  from assms(2) have r: "ah_exact_matches r
      = filter (\<lambda>m. am_kind m = ExactMatch) (lookup_exact ix package (ecosystem_value eco) version)"
    by (auto simp: check_attack_history_def Let_def)
  have "p \<in> am_pattern ` set (ah_exact_matches r) \<longleftrightarrow>
      p \<in> set (ax_patterns ix) \<and> ap_ecosystem p = ecosystem_value eco
      \<and> py_lower package \<in> py_lower ` set (ap_affected_packages p)
      \<and> am_kind (exact_match package version p) = ExactMatch"
    unfolding r set_filter image_iff Bex_def mem_Collect_eq lookup_exact_mem [OF inv]
    by (metis exact_match_kind(2) imageE imageI)
  then show ?thesis by (cases version) (auto simp: exact_match_kind)
qed

definition sample_pattern :: attack_pattern where
  "sample_pattern = \<lparr>ap_advisory_id = ''MAL-2025-1'', ap_ecosystem = ''npm'',
     ap_affected_packages = [''chalk''], ap_affected_versions = [''5.6.1''], ap_summary = [],
     ap_details = [], ap_attack_type = ''malicious_package'', ap_references = []\<rparr>"

theorem attack_history_exact_witness:
  "\<exists>r. check_attack_history (Inr (fst (add_runtime_patterns [] (make_index [sample_pattern]))))
       ''chalk'' NPM (Some ''5.6.1'') = Inr r
     \<and> sample_pattern \<in> am_pattern ` set (ah_exact_matches r)"
proof -
  obtain r where r: "check_attack_history (Inr (fst (add_runtime_patterns [] (make_index [sample_pattern]))))
       ''chalk'' NPM (Some ''5.6.1'') = Inr r"
    by (simp add: check_attack_history_def Let_def)
  from attack_history_exact [OF refl r, of sample_pattern] r show ?thesis
    by (simp add: make_index_inv sample_pattern_def)
qed

subsection \<open>Similar names\<close>

lemma similar_match_Some:
  "similar_match name k eco (e, known, p) = Some m \<longleftrightarrow>
     e = eco \<and> known \<noteq> name \<and> ed name known \<le> k
     \<and> m = \<lparr>am_kind = TyposquatCandidate, am_pattern = p,
            am_similarity = edit_similarity name known (ed name known),
            am_reason = ''name is within edit distance '' @ show_nat (ed name known)
              @ '' of known malicious package '' @ py_repr known @ '' ('' @ ap_advisory_id p @ '')''\<rparr>"
proof -
  have full: "levenshtein_full name known = ed name known"
    using levenshtein_full_ed by simp
  have pos: "ed name known \<noteq> 0" if "known \<noteq> name" using that ed_zero [of name known] by auto
  have cut: "\<not> ed name known \<le> k" if "nat \<bar>int (length known) - int (length name)\<bar> > k"
    using that ed_length' [of known name] by (simp add: ed_sym)
  show ?thesis
    using pos cut by (auto simp: similar_match_def full Let_def)
qed

end
