(* ===== verification/ThreatFilter.thy ===== *)
theory ThreatFilter
  imports AttackIndex
begin

text \<open>
  \<^verbatim>\<open>stages/stage0_threat_filter.py\<close>: the gate before the analysis. The tables \<^verbatim>\<open>known_malicious\<close> and
  \<^verbatim>\<open>known_popular\<close> are lists of rows; package names are ASCII, so SQL's \<^verbatim>\<open>length\<close> and \<^verbatim>\<open>lower\<close> are
  those of the texts.
\<close>

record malicious_row =
  km_advisory_id :: string
  km_ecosystem :: string
  km_package :: string
  km_attack_type :: string
  km_summary :: "string option"
  km_modified :: "string option"

record popular_row =
  kp_ecosystem :: string
  kp_package :: string
  kp_rank :: "int option"
  kp_downloads_30d :: "int option"

record threat_tables =
  tt_malicious :: "malicious_row list"
  tt_popular :: "popular_row list"

record typosquat =
  ty_kind :: string
  ty_target :: string
  ty_rank :: "int option"
  ty_edit_distance :: nat
  ty_similarity :: rat

record threat_filter_report =
  tf_exact_match :: bool
  tf_advisory_id :: "string option"
  tf_advisory_summary :: "string option"
  tf_typosquat_candidates :: "typosquat list"
  tf_popular_rank :: "int option"
  tf_popular_downloads :: "int option"
  tf_skipped :: bool
  tf_error :: "string option"

definition is_popular :: "threat_filter_report \<Rightarrow> bool" where
  "is_popular r = (case tf_popular_rank r of None \<Rightarrow> False | Some n \<Rightarrow> n \<le> 5000)"

definition is_top_popular :: "threat_filter_report \<Rightarrow> bool" where
  "is_top_popular r = (case tf_popular_rank r of None \<Rightarrow> False | Some n \<Rightarrow> n \<le> 1000)"

definition typosquat_to_dict :: "typosquat \<Rightarrow> pyval" where
  "typosquat_to_dict c = PDict
     ([(''kind'', PStr (ty_kind c)), (''target'', PStr (ty_target c))]
      @ (if ty_kind c = ''typosquat-of-popular'' then [(''rank'', popt PInt (ty_rank c))] else [])
      @ [(''edit_distance'', PInt (int (ty_edit_distance c))),
         (''similarity'', PFloat (ty_similarity c))])"

definition threat_report_to_dict :: "threat_filter_report \<Rightarrow> pyval" where
  "threat_report_to_dict r = PDict
     [(''exact_match'', PBool (tf_exact_match r)), (''advisory_id'', popt PStr (tf_advisory_id r)),
      (''advisory_summary'', popt PStr (tf_advisory_summary r)),
      (''typosquat_candidates'', PList (map typosquat_to_dict (tf_typosquat_candidates r))),
      (''popular_rank'', popt PInt (tf_popular_rank r)),
      (''popular_downloads'', popt PInt (tf_popular_downloads r)), (''ioc_hits'', PList []),
      (''skipped'', PBool (tf_skipped r)), (''error'', popt PStr (tf_error r))]"

subsection \<open>Queries\<close>

text \<open>The row with the latest \<^verbatim>\<open>modified\<close>, an absent one last.\<close>

definition check_exact :: "threat_tables \<Rightarrow> string \<Rightarrow> string \<Rightarrow> malicious_row option" where
  "check_exact db eco package =
     (case filter (\<lambda>r. km_ecosystem r = eco \<and> py_lower (km_package r) = py_lower package)
             (tt_malicious db) of
        [] \<Rightarrow> None
      | r # rs \<Rightarrow> Some (first_max_by (\<lambda>r. or_else (km_modified r) []) r rs))"

definition check_popular :: "threat_tables \<Rightarrow> string \<Rightarrow> string \<Rightarrow> popular_row option" where
  "check_popular db eco package =
     List.find (\<lambda>r. kp_ecosystem r = eco \<and> py_lower (kp_package r) = py_lower package) (tt_popular db)"

definition near_length :: "string \<Rightarrow> nat \<Rightarrow> string \<Rightarrow> bool" where
  "near_length p k name =
     (int (length name) \<ge> max 1 (int (length p) - int k) \<and> length name \<le> length p + k)"

definition candidate :: "string \<Rightarrow> nat \<Rightarrow> string \<Rightarrow> int option \<Rightarrow> string \<Rightarrow> typosquat option" where
  "candidate kind k p rank name =
     (if name = p then None
      else let d = levenshtein_bounded p name k in
        if 0 < d \<and> d \<le> k
        then Some \<lparr>ty_kind = kind, ty_target = name, ty_rank = rank, ty_edit_distance = d,
                   ty_similarity = round3 (edit_similarity p name d)\<rparr>
        else None)"

text \<open>\<^verbatim>\<open>NULL\<close> ranks come first, as in SQLite; ranks are positive.\<close>

definition check_typosquat :: "threat_tables \<Rightarrow> string \<Rightarrow> string \<Rightarrow> nat \<Rightarrow> nat \<Rightarrow> typosquat list" where
  "check_typosquat db eco package k max_results =
     (let p = py_lower package in
      if length p < 3 then []
      else let
        popular = take 2000 (sort_key (\<lambda>r. case kp_rank r of None \<Rightarrow> (-1 :: int) | Some n \<Rightarrow> n)
          (filter (\<lambda>r. kp_ecosystem r = eco \<and> near_length p k (kp_package r)) (tt_popular db)));
        malicious = take 5000 (remdups (map km_package
          (filter (\<lambda>r. km_ecosystem r = eco \<and> near_length p k (km_package r)) (tt_malicious db))));
        cands = List.map_filter (\<lambda>r. candidate ''typosquat-of-popular'' k p (kp_rank r) (kp_package r)) popular
          @ List.map_filter (\<lambda>n. candidate ''typosquat-of-malicious'' k p None n) malicious
      in take max_results (sort_key (\<lambda>c. - ty_similarity c) cands))"

subsection \<open>The gate\<close>

definition empty_threat_report :: threat_filter_report where
  "empty_threat_report = \<lparr>tf_exact_match = False, tf_advisory_id = None, tf_advisory_summary = None,
     tf_typosquat_candidates = [], tf_popular_rank = None, tf_popular_downloads = None,
     tf_skipped = False, tf_error = None\<rparr>"

definition threat_filter :: "(pyexn + threat_tables) \<Rightarrow> string \<Rightarrow> ecosystem \<Rightarrow> threat_filter_report" where
  "threat_filter open_db package eco =
     (case open_db of
        Inl e \<Rightarrow> empty_threat_report\<lparr>tf_skipped := True, tf_error := Some (''DB unavailable: '' @ exn_str e)\<rparr>
      | Inr db \<Rightarrow>
          let e = ecosystem_value eco;
              r = (case check_exact db e package of
                     None \<Rightarrow> empty_threat_report
                   | Some row \<Rightarrow> empty_threat_report\<lparr>tf_exact_match := True,
                       tf_advisory_id := Some (km_advisory_id row),
                       tf_advisory_summary := Some (take 300 (or_else (km_summary row) []))\<rparr>);
              r = (case check_popular db e package of
                     None \<Rightarrow> r
                   | Some row \<Rightarrow> r\<lparr>tf_popular_rank := kp_rank row,
                                   tf_popular_downloads := kp_downloads_30d row\<rparr>)
          in if is_popular r then r
             else r\<lparr>tf_typosquat_candidates := check_typosquat db e package 2 5\<rparr>)"

definition feed_evidence :: "threat_filter_report \<Rightarrow> string \<Rightarrow> string \<Rightarrow> evidence" where
  "feed_evidence r package eco =
     (let adv = (case tf_advisory_id r of None \<Rightarrow> ''None'' | Some a \<Rightarrow> a) in
      (mitre_evidence ''<threat-feed>'')
       \<lparr>ev_code_snippet := take 800 (or_else (tf_advisory_summary r) []),
        ev_behavior_sequence := [''exact_match:known_malicious''],
        ev_attack_dimensions := [DATA_TRANSMISSION], ev_ttp_id := adv @ ''/T1195.002'',
        ev_ttp_name := ''Supply Chain Compromise: Compromise Software Supply Chain'',
        ev_ttp_source := GHSA, ev_ttp_url := ''https://osv.dev/vulnerability/'' @ adv,
        ev_ttp_severity := SevHIGH, ev_llm_verdict := LlmMALICIOUS,
        ev_llm_reasoning := ''This (eco='' @ eco @ '', pkg='' @ package
          @ '') is on the known_malicious feed under advisory '' @ adv @ ''.'',
        ev_llm_model := ''threat-filter-exact'', ev_confidence := 99/100\<rparr>)"

definition typosquat_evidence :: "string \<Rightarrow> typosquat \<Rightarrow> evidence" where
  "typosquat_evidence package c =
     (mitre_evidence ''<threat-feed>'')
       \<lparr>ev_code_snippet := ''name '' @ py_repr package @ '' is within edit distance ''
          @ show_nat (ty_edit_distance c) @ '' of '' @ py_repr (ty_target c) @ '' (''
          @ ty_kind c @ '')'',
        ev_behavior_sequence := [''typosquat:'' @ ty_target c], ev_ttp_id := ''T1036'',
        ev_ttp_name := ''Masquerading: Typosquat / Slopsquat'',
        ev_ttp_url := ''https://attack.mitre.org/techniques/T1036/'',
        ev_ttp_severity := (if ty_similarity c \<ge> 85/100 then SevMEDIUM else SevLOW),
        ev_vector_similarity := ty_similarity c, ev_llm_verdict := LlmSUSPICIOUS,
        ev_llm_reasoning := ''name suspiciously similar to '' @ ty_target c,
        ev_llm_model := ''threat-filter-typosquat'',
        ev_confidence := min (9/10) (ty_similarity c)\<rparr>"

definition threat_evidence :: "threat_filter_report \<Rightarrow> string \<Rightarrow> string \<Rightarrow> evidence list" where
  "threat_evidence r package eco =
     (if tf_exact_match r then [feed_evidence r package eco] else [])
     @ map (typosquat_evidence package) (take 3 (tf_typosquat_candidates r))"

subsection \<open>What the gate reports\<close>

lemma candidate_Some:
  "candidate kind k p rank name = Some c \<Longrightarrow>
     ty_target c = name \<and> name \<noteq> p \<and> ty_edit_distance c = ed p name \<and> 0 < ed p name \<and> ed p name \<le> k
     \<and> ty_similarity c = round3 (edit_similarity p name (ed p name))"
  using levenshtein_bounded_ed [of p name k] by (auto simp: candidate_def Let_def split: if_splits)

lemma map_filter_mem: "y \<in> set (List.map_filter f xs) \<longleftrightarrow> (\<exists>x\<in>set xs. f x = Some y)"
  by (induction xs) (auto simp: List.map_filter_simps split: option.splits)

lemma check_typosquat_mem:
  assumes "c \<in> set (check_typosquat db eco package k n)"
  shows "3 \<le> length package
    \<and> ty_target c \<in> set (map kp_package (tt_popular db)) \<union> set (map km_package (tt_malicious db))
    \<and> ty_edit_distance c = ed (py_lower package) (ty_target c)
    \<and> 0 < ty_edit_distance c \<and> ty_edit_distance c \<le> k"
proof -
  from assms have len: "3 \<le> length package"
    by (auto simp: check_typosquat_def Let_def py_lower_def split: if_splits)
  obtain popular malicious where
    c: "c \<in> set (List.map_filter (\<lambda>r. candidate ''typosquat-of-popular'' k (py_lower package)
          (kp_rank r) (kp_package r)) popular
        @ List.map_filter (\<lambda>n. candidate ''typosquat-of-malicious'' k (py_lower package) None n) malicious)"
    and sub: "set popular \<subseteq> set (tt_popular db)" "set malicious \<subseteq> km_package ` set (tt_malicious db)"
  proof
    let ?pop = "take 2000 (sort_key (\<lambda>r. case kp_rank r of None \<Rightarrow> (-1 :: int) | Some n \<Rightarrow> n)
          (filter (\<lambda>r. kp_ecosystem r = eco \<and> near_length (py_lower package) k (kp_package r)) (tt_popular db)))"
    let ?mal = "take 5000 (remdups (map km_package
          (filter (\<lambda>r. km_ecosystem r = eco \<and> near_length (py_lower package) k (km_package r)) (tt_malicious db))))"
    show "c \<in> set (List.map_filter (\<lambda>r. candidate ''typosquat-of-popular'' k (py_lower package)
          (kp_rank r) (kp_package r)) ?pop
        @ List.map_filter (\<lambda>n. candidate ''typosquat-of-malicious'' k (py_lower package) None n) ?mal)"
    proof -
      have "\<not> length (py_lower package) < 3" using len by (simp add: py_lower_def)
      with assms have "c \<in> set (take n (sort_key (\<lambda>c. - ty_similarity c)
          (List.map_filter (\<lambda>r. candidate ''typosquat-of-popular'' k (py_lower package)
             (kp_rank r) (kp_package r)) ?pop
           @ List.map_filter (\<lambda>n. candidate ''typosquat-of-malicious'' k (py_lower package) None n) ?mal)))"
        by (simp only: check_typosquat_def Let_def if_False)
      from in_set_takeD [OF this] show ?thesis by (simp only: set_sort)
    qed
    show "set ?pop \<subseteq> set (tt_popular db)" "set ?mal \<subseteq> km_package ` set (tt_malicious db)"
      by (auto dest!: in_set_takeD)
  qed
  from c obtain kind rank name where
    "candidate kind k (py_lower package) rank name = Some c"
    "name \<in> kp_package ` set popular \<union> set malicious"
    by (auto simp: map_filter_mem)
  then show ?thesis
    using sub len candidate_Some [of kind k "py_lower package" rank name c] by auto
qed

lemma check_exact_None: "check_exact db eco package = None \<longleftrightarrow>
    \<not> list_ex (\<lambda>r. km_ecosystem r = eco \<and> py_lower (km_package r) = py_lower package) (tt_malicious db)"
proof -
  have "check_exact db eco package = None \<longleftrightarrow>
      filter (\<lambda>r. km_ecosystem r = eco \<and> py_lower (km_package r) = py_lower package) (tt_malicious db) = []"
    by (simp add: check_exact_def split: list.split)
  then show ?thesis by (auto simp: list_ex_iff filter_empty_conv)
qed

lemma threat_filter_fields:
  "tf_exact_match (threat_filter (Inr db) package eco)
     = (check_exact db (ecosystem_value eco) package \<noteq> None)"
  "tf_typosquat_candidates (threat_filter (Inr db) package eco)
     = (if is_popular (threat_filter (Inr db) package eco) then []
        else check_typosquat db (ecosystem_value eco) package 2 5)"
  by (auto simp: threat_filter_def Let_def empty_threat_report_def is_popular_def split: option.split)

text \<open>The gate calls a package known malicious exactly when some advisory names it in its ecosystem,
  up to case and whatever the version; and every typosquat candidate it reports is a name of the two
  tables at the reported least number of edits, one or two, from the package's lower-case name.\<close>
theorem threat_filter_reports:
  "tf_exact_match (threat_filter (Inr db) package eco) =
     list_ex (\<lambda>r. km_ecosystem r = ecosystem_value eco \<and> py_lower (km_package r) = py_lower package)
       (tt_malicious db)
   \<and> list_all (\<lambda>c. ty_target c \<in> set (map kp_package (tt_popular db) @ map km_package (tt_malicious db))
        \<and> ty_edit_distance c = (LEAST n. (edit ^^ n) (py_lower package) (ty_target c))
        \<and> ty_edit_distance c \<in> {1, 2})
      (tf_typosquat_candidates (threat_filter (Inr db) package eco))"
proof
  show "tf_exact_match (threat_filter (Inr db) package eco) =
     list_ex (\<lambda>r. km_ecosystem r = ecosystem_value eco \<and> py_lower (km_package r) = py_lower package)
       (tt_malicious db)"
    by (simp only: threat_filter_fields check_exact_None not_not)
  have "ty_target c \<in> set (map kp_package (tt_popular db) @ map km_package (tt_malicious db))
        \<and> ty_edit_distance c = (LEAST n. (edit ^^ n) (py_lower package) (ty_target c))
        \<and> ty_edit_distance c \<in> {1, 2}"
    if "c \<in> set (check_typosquat db (ecosystem_value eco) package 2 5)" for c
    using check_typosquat_mem [OF that] unfolding ed_Least [symmetric] by auto
  then have "list_all (\<lambda>c. ty_target c \<in> set (map kp_package (tt_popular db) @ map km_package (tt_malicious db))
        \<and> ty_edit_distance c = (LEAST n. (edit ^^ n) (py_lower package) (ty_target c))
        \<and> ty_edit_distance c \<in> {1, 2}) (check_typosquat db (ecosystem_value eco) package 2 5)"
    unfolding list_all_iff by blast
  then show "list_all (\<lambda>c. ty_target c \<in> set (map kp_package (tt_popular db) @ map km_package (tt_malicious db))
        \<and> ty_edit_distance c = (LEAST n. (edit ^^ n) (py_lower package) (ty_target c))
        \<and> ty_edit_distance c \<in> {1, 2})
      (tf_typosquat_candidates (threat_filter (Inr db) package eco))"
    unfolding threat_filter_fields by (cases "is_popular (threat_filter (Inr db) package eco)") simp_all
qed

end
