(* ===== verification/Registry.thy ===== *)
theory Registry
  imports Dependency
begin

text \<open>
  \<^verbatim>\<open>stages/stage0_registry.py\<close>: what PyPI and npm know of a package. The HTTP request is a
  parameter: a status code, another failure, or the parsed JSON.
\<close>

datatype http_result = HttpStatus nat | HttpFailed pyexn | HttpJson pyval

record registry_info =
  rg_found :: bool
  rg_latest_version :: pyval
  rg_all_versions :: "string list"
  rg_archive_urls :: "(string \<times> pyval) list"
  rg_raw_metadata :: pyval
  rg_error :: "string option"

definition unknown_package :: "string option \<Rightarrow> registry_info" where
  "unknown_package err = \<lparr>rg_found = False, rg_latest_version = PNone, rg_all_versions = [],
     rg_archive_urls = [], rg_raw_metadata = PNone, rg_error = err\<rparr>"

text \<open>\<^verbatim>\<open>int(x)\<close>: white space, a sign, digits with single underscores between them.\<close>

definition py_int :: "string \<Rightarrow> int option" where
  "py_int s =
     (let t = py_strip s;
          neg = (startswith t ''-'');
          d = (if neg \<or> startswith t ''+'' then tl t else t)
      in if d \<noteq> [] \<and> list_all (\<lambda>c. is_digit c \<or> c = CHR ''_'') d \<and> hd d \<noteq> CHR ''_''
            \<and> last d \<noteq> CHR ''_'' \<and> \<not> contains ''__'' d
         then Some ((if neg then -1 else 1) * int (digits_value (filter is_digit d)))
         else None)"

definition try_int :: "string \<Rightarrow> int" where
  "try_int x = (case py_int x of Some n \<Rightarrow> n | None \<Rightarrow> 9999)"

definition version_key :: "string \<Rightarrow> int list" where
  "version_key v = map try_int (split_on (CHR ''.'') v)"

text \<open>\<^verbatim>\<open>v.get(k, default)\<close> of a value that may not be a dictionary.\<close>

definition get_attr :: "pyval \<Rightarrow> string \<Rightarrow> pyval \<Rightarrow> pyexn + pyval" where
  "get_attr v k default_value = bindE (attr_dict ''get'' v) (\<lambda>d. Inr (d_get d k default_value))"

text \<open>The file of a release: the first sdist, else the first wheel, else the first.\<close>

fun first_typed :: "string \<Rightarrow> pyval list \<Rightarrow> pyexn + pyval option" where
  "first_typed t [] = Inr None"
| "first_typed t (f # fs) = bindE (get_attr f ''packagetype'' PNone) (\<lambda>p.
     if p = PStr t then Inr (Some f) else first_typed t fs)"

definition pypi_url :: "pyval \<Rightarrow> pyexn + pyval" where
  "pypi_url files =
     bindE (as_list files) (\<lambda>fs.
     bindE (first_typed ''sdist'' fs) (\<lambda>sdist.
     bindE (first_typed ''bdist_wheel'' fs) (\<lambda>wheel.
     get_attr (case sdist of Some f \<Rightarrow> f | None \<Rightarrow> (case wheel of Some f \<Rightarrow> f | None \<Rightarrow> hd fs))
       ''url'' (PStr []))))"

definition failed_check :: "http_result \<Rightarrow> registry_info" where
  "failed_check r = (case r of
     HttpStatus code \<Rightarrow> if code = 404 then unknown_package None
       else unknown_package (Some (''HTTP '' @ show_nat code))
   | HttpFailed e \<Rightarrow> unknown_package (Some (exn_str e))
   | HttpJson v \<Rightarrow> unknown_package None)"

definition check_pypi :: "(string \<Rightarrow> http_result) \<Rightarrow> string \<Rightarrow> pyexn + registry_info" where
  "check_pypi http package =
     (case http (''https://pypi.org/pypi/'' @ package @ ''/json'') of
        HttpJson data \<Rightarrow>
          bindE (get_attr data ''releases'' (PDict [])) (\<lambda>rel.
          bindE (attr_dict ''items'' (or_empty rel)) (\<lambda>releases.
          bindE (mapE (\<lambda>(v, files). bindE (pypi_url files) (\<lambda>u. Inr (v, u)))
                   (filter (\<lambda>(v, files). py_truth files) releases)) (\<lambda>urls.
          bindE (get_attr data ''info'' (PDict [])) (\<lambda>info.
          bindE (get_attr info ''version'' PNone) (\<lambda>latest.
          Inr \<lparr>rg_found = True, rg_latest_version = latest,
               rg_all_versions = sort_key version_key (map fst urls),
               rg_archive_urls = urls, rg_raw_metadata = data, rg_error = None\<rparr>)))))
      | r \<Rightarrow> Inr (failed_check r))"

definition check_npm :: "(string \<Rightarrow> http_result) \<Rightarrow> string \<Rightarrow> pyexn + registry_info" where
  "check_npm http package =
     (case http (''https://registry.npmjs.org/'' @ package) of
        HttpJson data \<Rightarrow>
          bindE (get_attr data ''versions'' PNone) (\<lambda>vs.
          bindE (attr_dict ''keys'' (or_empty vs)) (\<lambda>versions.
          bindE (mapE (\<lambda>(v, meta). bindE (get_attr meta ''dist'' (PDict [])) (\<lambda>dist.
                   bindE (get_attr dist ''tarball'' (PStr [])) (\<lambda>u. Inr (v, u)))) versions) (\<lambda>urls.
          bindE (get_attr data ''dist-tags'' (PDict [])) (\<lambda>tags.
          bindE (get_attr tags ''latest'' PNone) (\<lambda>latest.
          Inr \<lparr>rg_found = True, rg_latest_version = latest,
               rg_all_versions = sort_key version_key (map fst urls),
               rg_archive_urls = urls, rg_raw_metadata = data, rg_error = None\<rparr>)))))
      | r \<Rightarrow> Inr (failed_check r))"

definition registry_check :: "(string \<Rightarrow> http_result) \<Rightarrow> string \<Rightarrow> ecosystem \<Rightarrow> pyexn + registry_info" where
  "registry_check http package eco =
     (case eco of PYPI \<Rightarrow> check_pypi http package | NPM \<Rightarrow> check_npm http package)"

definition archive_url_of :: "registry_info \<Rightarrow> string \<Rightarrow> pyval" where
  "archive_url_of r v = (case map_of (rg_archive_urls r) v of None \<Rightarrow> PNone | Some u \<Rightarrow> u)"

end
