(* ===== verification/FullDiff.thy ===== *)
theory FullDiff
  imports Registry StageCache Behavior
begin

text \<open>
  \<^verbatim>\<open>stages/stage3b_full_diff.py\<close>: what a version adds to the one before. The order in which Python
  walks through a set shows in some texts and in the list of dependency changes; it is the parameter
  \<open>df_names\<close> for names and \<open>df_dims\<close> for dimensions.
\<close>

subsection \<open>Results\<close>

record file_diff =
  fd_path :: string
  fd_kind :: string
  fd_new_apis :: "string list"
  fd_size_before :: nat
  fd_size_after :: nat
  fd_dimensions_added :: "attack_dimension list"

definition file_diff_to_dict :: "file_diff \<Rightarrow> pyval" where
  "file_diff_to_dict f = PDict
     [(''path'', PStr (fd_path f)), (''kind'', PStr (fd_kind f)), (''new_apis'', pstrs (fd_new_apis f)),
      (''size_before'', PInt (int (fd_size_before f))), (''size_after'', PInt (int (fd_size_after f))),
      (''dimensions_added'', PList (map (\<lambda>d. PStr (dimension_value d)) (fd_dimensions_added f)))]"

definition file_diff_from_dict :: "pyval \<Rightarrow> pyexn + file_diff" where
  "file_diff_from_dict v =
     bindE (as_dict v) (\<lambda>d.
     bindE (bindE (d_item d ''path'') as_str) (\<lambda>p.
     bindE (bindE (d_item d ''kind'') as_str) (\<lambda>k.
     bindE (as_strs (d_get d ''new_apis'' (PList []))) (\<lambda>apis.
     bindE (as_int (d_get d ''size_before'' (PInt 0))) (\<lambda>b.
     bindE (as_int (d_get d ''size_after'' (PInt 0))) (\<lambda>a.
     bindE (bindE (as_list (d_get d ''dimensions_added'' (PList [])))
              (mapE (enum_pv dimensions_all dimension_value))) (\<lambda>ds.
     Inr \<lparr>fd_path = p, fd_kind = k, fd_new_apis = apis, fd_size_before = nat b, fd_size_after = nat a,
          fd_dimensions_added = ds\<rparr>)))))))"

record dependency_change =
  dc_kind :: string
  dc_name :: string
  dc_old_spec :: string
  dc_new_spec :: string
  dc_is_dangerous :: bool
  dc_reason :: string

definition dep_change_to_dict :: "dependency_change \<Rightarrow> pyval" where
  "dep_change_to_dict c = PDict
     [(''kind'', PStr (dc_kind c)), (''name'', PStr (dc_name c)), (''old_spec'', PStr (dc_old_spec c)),
      (''new_spec'', PStr (dc_new_spec c)), (''is_dangerous'', PBool (dc_is_dangerous c)),
      (''reason'', PStr (dc_reason c))]"

definition dep_change_from_dict :: "pyval \<Rightarrow> pyexn + dependency_change" where
  "dep_change_from_dict v =
     bindE (as_dict v) (\<lambda>d.
     bindE (as_str (d_get d ''kind'' (PStr []))) (\<lambda>k.
     bindE (as_str (d_get d ''name'' (PStr []))) (\<lambda>n.
     bindE (as_str (d_get d ''old_spec'' (PStr []))) (\<lambda>old.
     bindE (as_str (d_get d ''new_spec'' (PStr []))) (\<lambda>new.
     bindE (as_str (d_get d ''reason'' (PStr []))) (\<lambda>r.
     Inr \<lparr>dc_kind = k, dc_name = n, dc_old_spec = old, dc_new_spec = new,
          dc_is_dangerous = py_truth (d_get d ''is_dangerous'' (PBool False)), dc_reason = r\<rparr>))))))"

definition DANGEROUS_NEW_DEPS :: "string list" where
  "DANGEROUS_NEW_DEPS =
     [''child_process'', ''node:child_process'', ''node:crypto'', ''request'', ''node-fetch'', ''axios'',
      ''got'', ''subprocess'', ''pycryptodome'', ''cryptography'', ''requests'', ''urllib3'', ''httpx'',
      ''paramiko'', ''fabric'', ''psutil'', ''PyInstaller'']"

definition HIGH_RISK_NEW_DEPS :: "string list" where
  "HIGH_RISK_NEW_DEPS =
     [''node:child_process'', ''child_process'', ''paramiko'', ''fabric'', ''pyinstaller'']"

record full_diff_result =
  fr_current_version :: string
  fr_compared_versions :: "string list"
  fr_file_diffs :: "file_diff list"
  fr_dep_changes :: "dependency_change list"
  fr_overall_severity :: severity
  fr_summary :: string
  fr_error :: "string option"

definition diff_to_dict :: "full_diff_result \<Rightarrow> pyval" where
  "diff_to_dict r = PDict
     [(''current_version'', PStr (fr_current_version r)),
      (''compared_versions'', pstrs (fr_compared_versions r)),
      (''file_diffs'', PList (map file_diff_to_dict (fr_file_diffs r))),
      (''dep_changes'', PList (map dep_change_to_dict (fr_dep_changes r))),
      (''overall_severity'', PStr (severity_value (fr_overall_severity r))),
      (''summary'', PStr (fr_summary r)), (''error'', popt PStr (fr_error r))]"

definition diff_from_dict :: "pyval \<Rightarrow> pyexn + full_diff_result" where
  "diff_from_dict v =
     bindE (as_dict v) (\<lambda>d.
     bindE (as_str (d_get d ''current_version'' (PStr []))) (\<lambda>cv.
     bindE (as_strs (d_get d ''compared_versions'' (PList []))) (\<lambda>cmp.
     bindE (bindE (as_list (d_get d ''file_diffs'' (PList []))) (mapE file_diff_from_dict)) (\<lambda>fds.
     bindE (bindE (as_list (d_get d ''dep_changes'' (PList []))) (mapE dep_change_from_dict)) (\<lambda>dcs.
     bindE (enum_pv severities severity_value (d_get d ''overall_severity'' (PStr ''LOW''))) (\<lambda>sev.
     bindE (as_str (d_get d ''summary'' (PStr []))) (\<lambda>s.
     bindE (as_opt as_str (d_get d ''error'' PNone)) (\<lambda>e.
     Inr \<lparr>fr_current_version = cv, fr_compared_versions = cmp, fr_file_diffs = fds,
          fr_dep_changes = dcs, fr_overall_severity = sev, fr_summary = s, fr_error = e\<rparr>))))))))"

definition to_version_diff_info :: "full_diff_result \<Rightarrow> version_diff_info option" where
  "to_version_diff_info r =
     (if fr_compared_versions r = [] \<or> truthy_opt (fr_error r) then None
      else Some \<lparr>vd_compared_versions = fr_compared_versions r,
                 vd_new_apis = take 50 (sorted_set (concat (map fd_new_apis (fr_file_diffs r)))),
                 vd_risk = fr_overall_severity r, vd_details = fr_summary r\<rparr>)"

subsection \<open>Dependencies\<close>

type_synonym dep_map = "(string \<times> string) list"

definition dep_get :: "dep_map \<Rightarrow> string \<Rightarrow> string" where
  "dep_get d k = (case map_of d k of None \<Rightarrow> [] | Some v \<Rightarrow> v)"

definition added_dep :: "dep_map \<Rightarrow> string \<Rightarrow> dependency_change" where
  "added_dep cur name =
     (let high = (py_lower name \<in> set HIGH_RISK_NEW_DEPS);
          dangerous = (py_lower name \<in> set DANGEROUS_NEW_DEPS \<or> high)
      in \<lparr>dc_kind = ''added'', dc_name = name, dc_old_spec = [], dc_new_spec = dep_get cur name,
          dc_is_dangerous = dangerous,
          dc_reason = (if high then ''high-risk dependency added: '' @ name
                       else if dangerous then ''sensitive dependency added: '' @ name else [])\<rparr>)"

definition removed_dep :: "dep_map \<Rightarrow> string \<Rightarrow> dependency_change" where
  "removed_dep prev name =
     \<lparr>dc_kind = ''removed'', dc_name = name, dc_old_spec = dep_get prev name, dc_new_spec = [],
      dc_is_dangerous = False, dc_reason = ''dependency removed (informational)''\<rparr>"

definition changed_dep :: "dep_map \<Rightarrow> dep_map \<Rightarrow> string \<Rightarrow> dependency_change" where
  "changed_dep prev cur name =
     \<lparr>dc_kind = ''version_changed'', dc_name = name, dc_old_spec = dep_get prev name,
      dc_new_spec = dep_get cur name, dc_is_dangerous = False,
      dc_reason = ''dependency version: '' @ dep_get prev name @ '' -> '' @ dep_get cur name\<rparr>"

definition diff_dependencies ::
  "(string list \<Rightarrow> string list) \<Rightarrow> dep_map \<Rightarrow> dep_map \<Rightarrow> dependency_change list" where
  "diff_dependencies order prev cur =
     (let ps = map fst prev; cs = map fst cur in
      map (added_dep cur) (order (filter (\<lambda>n. n \<notin> set ps) cs))
      @ map (removed_dep prev) (order (filter (\<lambda>n. n \<notin> set cs) ps))
      @ map (changed_dep prev cur)
          (filter (\<lambda>n. dep_get prev n \<noteq> dep_get cur n) (order (filter (\<lambda>n. n \<in> set cs) ps))))"

definition extract_deps_map :: "dep_env \<Rightarrow> full_source_extract \<Rightarrow> dep_map" where
  "extract_deps_map env x =
     (case extract_dependencies env (fx_source_files x) (fx_ecosystem x) of
        Inl _ \<Rightarrow> []
      | Inr de \<Rightarrow> fold (\<lambda>d. dict_setdefault (dp_name d) (dp_spec d)) (dx_direct de @ dx_dev de) [])"

subsection \<open>Files and severity\<close>

definition is_code_file :: "full_source_file \<Rightarrow> bool" where
  "is_code_file sf = (fs_language sf \<in> set [''python'', ''javascript''])"

definition sources_to_entry_files :: "full_source_extract \<Rightarrow> entry_file list" where
  "sources_to_entry_files x =
     map (\<lambda>sf. \<lparr>ef_path = fs_path sf, ef_basename = fs_basename sf, ef_content = fs_content sf,
               ef_size = fs_size sf, ef_language = fs_language sf\<rparr>)
       (filter is_code_file (fx_source_files x))"

definition behavior_for_files ::
  "(string \<Rightarrow> pyexn + pynode) \<Rightarrow> (entry_file \<Rightarrow> pyexn + file_sequence) \<Rightarrow> entry_file list
    \<Rightarrow> pyexn + behavior_report" where
  "behavior_for_files parse js files =
     bindE (mapE (\<lambda>ef.
        if ef_language ef = ''python'' then bindE (analyze_python parse ef) (\<lambda>s. Inr [s])
        else if ef_language ef = ''javascript'' then Inr [analyze_javascript js ef]
        else Inr []) files) (\<lambda>fss. Inr \<lparr>bh_files = concat fss\<rparr>)"

definition normalize_path :: "string \<Rightarrow> string" where
  "normalize_path path =
     (let parts = path_parts path;
          parts = (if contains ''-'' (hd parts) \<and> list_ex is_digit (hd parts) then tl parts else parts);
          parts = (if parts \<noteq> [] \<and> hd parts = ''package'' then tl parts else parts)
      in py_join ''/'' parts)"

definition high_combos :: "attack_dimension list list" where
  "high_combos =
     [[DATA_TRANSMISSION, ENCODING], [PAYLOAD_EXECUTION, ENCODING],
      [PAYLOAD_EXECUTION, DATA_TRANSMISSION], [INFORMATION_READING, DATA_TRANSMISSION]]"

definition counts_text :: "nat \<Rightarrow> nat \<Rightarrow> string" where
  "counts_text files apis = show_nat files @ '' new file(s), '' @ show_nat apis @ '' new API(s)''"

definition classify_severity ::
  "(attack_dimension list \<Rightarrow> attack_dimension list) \<Rightarrow> string list \<Rightarrow> nat \<Rightarrow> attack_dimension list
    \<Rightarrow> severity \<times> string" where
  "classify_severity order new_apis new_files new_dims =
     (let values = (\<lambda>ds. map dimension_value (order ds)); napis = length (remdups new_apis);
          dims = remdups new_dims
      in case List.find (\<lambda>combo. set combo \<subseteq> set dims) high_combos of
           Some combo \<Rightarrow>
             (SevHIGH, ''HIGH: new cross-dimension behavior introduced (''
                @ py_join '' + '' (values combo) @ ''). '' @ counts_text new_files napis @ ''.'')
         | None \<Rightarrow>
             if PAYLOAD_EXECUTION \<in> set dims \<or> DATA_TRANSMISSION \<in> set dims
             then (SevMEDIUM, ''MEDIUM: risky new dimension introduced (''
                     @ py_join '', '' (values dims) @ ''). '' @ counts_text new_files napis @ ''.'')
             else if napis \<noteq> 0 \<or> new_files \<noteq> 0
             then (SevLOW, ''LOW: minor changes '' @ utf8 [226, 128, 148] @ '' ''
                     @ counts_text new_files napis @ '', dimensions: ''
                     @ (let t = py_join '', '' (values dims) in if t = [] then ''none'' else t))
             else (SevLOW, ''no behavior changes detected''))"

definition pick_previous_versions :: "string list \<Rightarrow> string \<Rightarrow> string list" where
  "pick_previous_versions versions current =
     (if current \<notin> set versions then []
      else let idx = length (takeWhile (\<lambda>v. v \<noteq> current) versions) in
        dedup_first (map (\<lambda>off. versions ! (idx - off)) (filter (\<lambda>off. off \<le> idx) [1, 3, 5])))"

subsection \<open>The comparison\<close>

record diff_env =
  df_archive :: archive_env
  df_parse :: "string \<Rightarrow> pyexn + pynode"
  df_js :: "entry_file \<Rightarrow> pyexn + file_sequence"
  df_deps :: dep_env
  df_stage :: stage_env
  df_names :: "string list \<Rightarrow> string list"
  df_dims :: "attack_dimension list \<Rightarrow> attack_dimension list"

type_synonym api_map = "(string \<times> string list) list"
type_synonym file_map = "(string \<times> full_source_file) list"

definition apis_by_file :: "behavior_report \<Rightarrow> api_map" where
  "apis_by_file b = fold (\<lambda>f. AList.update (normalize_path (fq_path f)) (fq_sequence f)) (bh_files b) []"

definition files_by_path :: "full_source_extract \<Rightarrow> file_map" where
  "files_by_path x = fold (\<lambda>sf. AList.update (normalize_path (fs_path sf)) sf)
     (filter is_code_file (fx_source_files x)) []"

text \<open>A file of the cached behaviour report of the previous version, without content or size.\<close>

definition placeholder :: "file_sequence \<Rightarrow> full_source_file" where
  "placeholder f = \<lparr>fs_path = fq_path f, fs_basename = last (split_on (CHR ''/'') (fq_path f)),
     fs_content = [], fs_size = 0, fs_language = fq_language f, fs_tier = 1\<rparr>"

definition try_load_cached_prev ::
  "stage_env \<Rightarrow> stage_db \<Rightarrow> string \<Rightarrow> ecosystem \<Rightarrow> string \<Rightarrow> (api_map \<times> file_map) option" where
  "try_load_cached_prev env db package eco prev_version =
     (let hit = stage_get env \<lparr>sk_package = package, sk_ecosystem = ecosystem_value eco,
                  sk_version = prev_version, sk_stage = ''stage_2_behavior''\<rparr> None None db
      in case sh_payload hit of
           None \<Rightarrow> None
         | Some payload \<Rightarrow>
             if \<not> sh_hit hit \<or> \<not> py_truth payload then None
             else (case behavior_from_dict payload of
                 Inl _ \<Rightarrow> None
               | Inr b \<Rightarrow> Some (apis_by_file b,
                   fold (\<lambda>f. AList.update (normalize_path (fq_path f)) (placeholder f)) (bh_files b) [])))"

text \<open>What one file of the current version adds; \<open>None\<close> when it adds nothing.\<close>

definition api_dimension :: "string \<Rightarrow> attack_dimension option" where
  "api_dimension api = (case lookup_python api of Some d \<Rightarrow> Some d | None \<Rightarrow> lookup_js api)"

definition new_apis_of :: "api_map \<Rightarrow> api_map \<Rightarrow> string \<Rightarrow> string list" where
  "new_apis_of cur_apis prev_apis path =
     filter (\<lambda>a. a \<notin> set (or_else (map_of prev_apis path) [])) (or_else (map_of cur_apis path) [])"

definition diff_file :: "api_map \<Rightarrow> api_map \<Rightarrow> file_map \<Rightarrow> string \<times> full_source_file \<Rightarrow> file_diff option" where
  "diff_file cur_apis prev_apis prev_files entry =
     (case entry of (path, sf) \<Rightarrow>
      let new_apis = new_apis_of cur_apis prev_apis path;
          mk = (\<lambda>kind before. \<lparr>fd_path = path, fd_kind = kind, fd_new_apis = sorted_set new_apis,
                  fd_size_before = before, fd_size_after = fs_size sf,
                  fd_dimensions_added = sort_key dimension_value
                    (remdups (List.map_filter api_dimension new_apis))\<rparr>)
      in case map_of prev_files path of
           None \<Rightarrow> Some (mk ''new_file'' 0)
         | Some prev_sf \<Rightarrow>
             if new_apis \<noteq> [] then Some (mk ''api_added'' (fs_size prev_sf)) else None)"

fun raise_severity :: "severity \<Rightarrow> severity" where
  "raise_severity SevLOW = SevMEDIUM"
| "raise_severity SevMEDIUM = SevHIGH"
| "raise_severity SevHIGH = SevHIGH"

definition dangerous_added :: "dependency_change list \<Rightarrow> dependency_change list" where
  "dangerous_added cs = filter (\<lambda>c. dc_kind c = ''added'' \<and> dc_is_dangerous c) cs"

definition empty_diff :: "string \<Rightarrow> full_diff_result" where
  "empty_diff version = \<lparr>fr_current_version = version, fr_compared_versions = [], fr_file_diffs = [],
     fr_dep_changes = [], fr_overall_severity = SevLOW, fr_summary = [], fr_error = None\<rparr>"

text \<open>The part after both versions' files and calls are known.\<close>

definition compare_versions ::
  "diff_env \<Rightarrow> full_diff_result \<Rightarrow> file_map \<Rightarrow> api_map \<Rightarrow> file_map \<Rightarrow> api_map \<Rightarrow> dependency_change list
    \<Rightarrow> full_diff_result" where
  "compare_versions env r cur_files cur_apis prev_files prev_apis changes =
     (let diffs = List.map_filter (diff_file cur_apis prev_apis prev_files) cur_files;
          new_files = length (filter (\<lambda>f. fd_kind f = ''new_file'') diffs);
          added = concat (map fd_new_apis diffs);
          dims = concat (map fd_dimensions_added diffs);
          (sev, summary) = classify_severity (df_dims env) added new_files dims;
          dangerous = dangerous_added changes
      in r\<lparr>fr_file_diffs := diffs, fr_dep_changes := changes,
           fr_overall_severity := (if dangerous \<noteq> [] then raise_severity sev else sev),
           fr_summary := summary @ (if dangerous \<noteq> []
             then '' [Z6] dangerous deps added: '' @ py_repr_list (map dc_name (take 5 dangerous)) @ ''.''
             else [])\<rparr>)"

definition analyze_full_diff ::
  "diff_env \<Rightarrow> stage_db \<Rightarrow> registry_info \<Rightarrow> full_source_extract \<Rightarrow> behavior_report
    \<Rightarrow> full_diff_result" where
  "analyze_full_diff env db reg x b =
     (let r = empty_diff (fx_version x); prev = pick_previous_versions (rg_all_versions reg) (fx_version x)
      in if rg_all_versions reg = [] then r\<lparr>fr_error := Some ''no version list''\<rparr>
         else if prev = [] then r\<lparr>fr_error := Some ''no earlier versions to compare''\<rparr>
         else let r = r\<lparr>fr_compared_versions := prev\<rparr>; prev_v = hd prev;
                  url = archive_url_of reg prev_v; cur_files = files_by_path x; cur_apis = apis_by_file b
           in if \<not> py_truth url
              then r\<lparr>fr_error := Some (''no archive url for previous version '' @ prev_v)\<rparr>
              else (case try_load_cached_prev (df_stage env) db (fx_package x) (fx_ecosystem x) prev_v of
                  Some (prev_apis, prev_files) \<Rightarrow>
                    compare_versions env r cur_files cur_apis prev_files prev_apis []
                | None \<Rightarrow>
                    let px = extract_all (df_archive env) (fx_package x) (fx_ecosystem x) prev_v
                               (try_else (as_str url) [])
                    in if truthy_opt (fx_error px)
                       then r\<lparr>fr_error := Some (''prev extract failed: '' @ the (fx_error px))\<rparr>
                       else (case behavior_for_files (df_parse env) (df_js env) (sources_to_entry_files px) of
                           Inl e \<Rightarrow> r\<lparr>fr_error := Some (''prev analysis failed: '' @ exn_str e)\<rparr>
                         | Inr pb \<Rightarrow>
                             compare_versions env r cur_files cur_apis (files_by_path px) (apis_by_file pb)
                               (diff_dependencies (df_names env) (extract_deps_map (df_deps env) px)
                                 (extract_deps_map (df_deps env) x)))))"

subsection \<open>Cached results read back\<close>

lemma dims_read_back:
  "mapE (enum_pv dimensions_all dimension_value) (map (\<lambda>d. PStr (dimension_value d)) ds) = Inr ds"
  by (rule mapE_map') (simp add: dim_enum.of_val del: set_simps)

lemma file_diff_roundtrip: "file_diff_from_dict (file_diff_to_dict f) = Inr f"
  by (simp add: file_diff_from_dict_def file_diff_to_dict_def dims_read_back)

lemma dep_change_roundtrip: "dep_change_from_dict (dep_change_to_dict c) = Inr c"
  by (simp add: dep_change_from_dict_def dep_change_to_dict_def)

lemma diff_roundtrip: "diff_from_dict (diff_to_dict r) = Inr r"
  by (simp add: diff_from_dict_def diff_to_dict_def sev_enum.of_val file_diff_roundtrip
      dep_change_roundtrip del: set_simps)

subsection \<open>What is reported\<close>

lemma map_filter_set: "set (List.map_filter f xs) = {y. \<exists>x\<in>set xs. f x = Some y}"
  by (induction xs) (auto simp: List.map_filter_simps split: option.splits)

lemma diff_file_Some:
  assumes "diff_file cur prev files (path, sf) = Some d"
  shows "fd_path d = path \<and> set (fd_new_apis d) = set (new_apis_of cur prev path)
    \<and> set (fd_dimensions_added d) = {dm. \<exists>a\<in>set (new_apis_of cur prev path). api_dimension a = Some dm}"
  using assms by (auto simp: diff_file_def Let_def map_filter_set split: option.splits if_splits)

lemma diff_file_reported:
  assumes "new_apis_of cur prev path \<noteq> []"
  shows "\<exists>d. diff_file cur prev files (path, sf) = Some d"
  using assms by (simp add: diff_file_def Let_def split: option.split)

text \<open>The new calls: of a current file, by name, not made by the file in the previous version.\<close>

definition new_call :: "file_map \<Rightarrow> api_map \<Rightarrow> api_map \<Rightarrow> string \<Rightarrow> string \<Rightarrow> bool" where
  "new_call files cur prev path a =
     (path \<in> set (map fst files) \<and> a \<in> set (or_else (map_of cur path) [])
      \<and> a \<notin> set (or_else (map_of prev path) []))"

lemma new_call_iff:
  "new_call files cur prev path a \<longleftrightarrow>
     path \<in> set (map fst files) \<and> a \<in> set (new_apis_of cur prev path)"
  by (auto simp: new_call_def new_apis_of_def)

definition risky_dimensions :: "file_map \<Rightarrow> api_map \<Rightarrow> api_map \<Rightarrow> attack_dimension set" where
  "risky_dimensions files cur prev =
     {d. \<exists>path a. new_call files cur prev path a \<and> api_dimension a = Some d}"

lemma compare_versions_diffs:
  "fr_file_diffs (compare_versions env r files cur prev_files prev changes)
     = List.map_filter (diff_file cur prev prev_files) files"
  by (simp add: compare_versions_def Let_def split_beta)

lemma reported_entry:
  assumes "d \<in> set (List.map_filter (diff_file cur prev prev_files) files)"
  shows "fd_path d \<in> set (map fst files)" "set (fd_new_apis d) = set (new_apis_of cur prev (fd_path d))"
    "set (fd_dimensions_added d) = {dm. \<exists>a\<in>set (fd_new_apis d). api_dimension a = Some dm}"
proof -
  from assms obtain path sf where e: "(path, sf) \<in> set files"
      "diff_file cur prev prev_files (path, sf) = Some d"
    by (auto simp: map_filter_set)
  from diff_file_Some [OF e(2)] e(1) show "fd_path d \<in> set (map fst files)"
      "set (fd_new_apis d) = set (new_apis_of cur prev (fd_path d))"
      "set (fd_dimensions_added d) = {dm. \<exists>a\<in>set (fd_new_apis d). api_dimension a = Some dm}"
    by (auto simp: rev_image_eqI)
qed

lemma reported_call_iff:
  "(\<exists>d\<in>set (List.map_filter (diff_file cur prev prev_files) files).
      fd_path d = path \<and> a \<in> set (fd_new_apis d)) \<longleftrightarrow> new_call files cur prev path a"
proof
  assume "\<exists>d\<in>set (List.map_filter (diff_file cur prev prev_files) files).
      fd_path d = path \<and> a \<in> set (fd_new_apis d)"
  then obtain d where "d \<in> set (List.map_filter (diff_file cur prev prev_files) files)"
      "fd_path d = path" "a \<in> set (fd_new_apis d)"
    by blast
  with reported_entry [OF this(1)] show "new_call files cur prev path a"
    by (simp add: new_call_iff)
next
  assume "new_call files cur prev path a"
  then obtain sf where sf: "(path, sf) \<in> set files" "a \<in> set (new_apis_of cur prev path)"
    by (auto simp: new_call_iff)
  from sf(2) have "new_apis_of cur prev path \<noteq> []" by force
  from diff_file_reported [OF this] obtain d where "diff_file cur prev prev_files (path, sf) = Some d" ..
  with sf diff_file_Some [OF this] show "\<exists>d\<in>set (List.map_filter (diff_file cur prev prev_files) files).
      fd_path d = path \<and> a \<in> set (fd_new_apis d)"
    by (auto simp: map_filter_set)
qed

lemma added_dimensions:
  "set (concat (map fd_dimensions_added (List.map_filter (diff_file cur prev prev_files) files)))
     = risky_dimensions files cur prev" (is "?D = _")
proof (rule set_eqI)
  fix d
  have "d \<in> ?D \<longleftrightarrow> (\<exists>x\<in>set (List.map_filter (diff_file cur prev prev_files) files).
      \<exists>a\<in>set (fd_new_apis x). api_dimension a = Some d)"
    by (auto simp: reported_entry(3))
  also have "\<dots> \<longleftrightarrow> (\<exists>path a. (\<exists>x\<in>set (List.map_filter (diff_file cur prev prev_files) files).
      fd_path x = path \<and> a \<in> set (fd_new_apis x)) \<and> api_dimension a = Some d)"
    by blast
  finally show "d \<in> ?D \<longleftrightarrow> d \<in> risky_dimensions files cur prev"
    unfolding reported_call_iff by (simp add: risky_dimensions_def)
qed

lemma classify_severity_value:
  "fst (classify_severity order apis n dims) =
     (if list_ex (\<lambda>combo. set combo \<subseteq> set dims) high_combos then SevHIGH
      else if PAYLOAD_EXECUTION \<in> set dims \<or> DATA_TRANSMISSION \<in> set dims then SevMEDIUM
      else SevLOW)"
proof (cases "List.find (\<lambda>combo. set combo \<subseteq> set (remdups dims)) high_combos")
  case None
  then have "\<not> list_ex (\<lambda>combo. set combo \<subseteq> set dims) high_combos"
    by (simp add: find_None_iff list_ex_iff)
  with None show ?thesis by (simp add: classify_severity_def Let_def)
next
  case (Some combo)
  then have "list_ex (\<lambda>combo. set combo \<subseteq> set dims) high_combos"
    by (auto simp: find_Some_iff list_ex_iff)
  with Some show ?thesis by (simp add: classify_severity_def Let_def)
qed

text \<open>C40: The version diff reports a call of a file exactly when the file is one of the current version,
  makes the call now and did not make it in the previous version. Its severity is HIGH when the new calls
  together encode and transmit, encode and execute a payload, execute and transmit, or read information and
  transmit; otherwise MEDIUM when they execute or transmit, and LOW when they do neither. When a change of
  the dependencies adds a dangerous one, LOW becomes MEDIUM and everything else HIGH.\<close>
theorem diff_reports_new_calls:
  "let r' = compare_versions env r files cur prev_files prev changes;
       D = risky_dimensions files cur prev;
       executes = PAYLOAD_EXECUTION \<in> D; transmits = DATA_TRANSMISSION \<in> D;
       high = (transmits \<and> ENCODING \<in> D \<or> executes \<and> ENCODING \<in> D \<or> executes \<and> transmits
               \<or> INFORMATION_READING \<in> D \<and> transmits);
       medium = (executes \<or> transmits);
       raised = list_ex (\<lambda>c. dc_kind c = ''added'' \<and> dc_is_dangerous c) changes
   in ((\<exists>d\<in>set (fr_file_diffs r'). fd_path d = path \<and> a \<in> set (fd_new_apis d))
         = new_call files cur prev path a)
      \<and> fr_overall_severity r' =
          (if high \<or> medium \<and> raised then SevHIGH else if medium \<or> raised then SevMEDIUM else SevLOW)"
proof -
  let ?D = "risky_dimensions files cur prev"
  have "fr_overall_severity (compare_versions env r files cur prev_files prev changes) =
     (let sev = fst (classify_severity (df_dims env)
          (concat (map fd_new_apis (List.map_filter (diff_file cur prev prev_files) files)))
          (length (filter (\<lambda>f. fd_kind f = ''new_file'')
             (List.map_filter (diff_file cur prev prev_files) files)))
          (concat (map fd_dimensions_added (List.map_filter (diff_file cur prev prev_files) files))))
      in if dangerous_added changes \<noteq> [] then raise_severity sev else sev)"
    by (simp add: compare_versions_def Let_def split_beta)
  moreover have "dangerous_added changes \<noteq> [] \<longleftrightarrow> list_ex (\<lambda>c. dc_kind c = ''added'' \<and> dc_is_dangerous c) changes"
    by (auto simp: dangerous_added_def filter_empty_conv list_ex_iff)
  moreover have "list_ex (\<lambda>combo. set combo \<subseteq> ?D) high_combos \<longleftrightarrow>
      (DATA_TRANSMISSION \<in> ?D \<and> ENCODING \<in> ?D \<or> PAYLOAD_EXECUTION \<in> ?D \<and> ENCODING \<in> ?D
       \<or> PAYLOAD_EXECUTION \<in> ?D \<and> DATA_TRANSMISSION \<in> ?D \<or> INFORMATION_READING \<in> ?D \<and> DATA_TRANSMISSION \<in> ?D)"
    by (simp add: high_combos_def)
  ultimately show ?thesis
    unfolding Let_def compare_versions_diffs reported_call_iff
    by (simp only: classify_severity_value added_dimensions) auto
qed

subsection \<open>Two discrepancies\<close>

text \<open>
  The prefix \<^verbatim>\<open>[cached]\<close> that is to mark a comparison with a cached version never reaches the
  reader: the summary is overwritten. And of the versions listed as compared, only the first is.
\<close>

lemma cached_prefix_lost: "\<not> startswith (fr_summary (compare_versions env r files cur pf prev ch)) ''[cached] ''"
  by (simp add: compare_versions_def classify_severity_def Let_def split: option.split)

lemma only_latest_compared:
  assumes "rg_all_versions reg' = rg_all_versions reg"
    and "archive_url_of reg' (hd (pick_previous_versions (rg_all_versions reg) (fx_version x)))
       = archive_url_of reg (hd (pick_previous_versions (rg_all_versions reg) (fx_version x)))"
  shows "analyze_full_diff env db reg' x b = analyze_full_diff env db reg x b"
  by (simp only: analyze_full_diff_def Let_def assms)

end
