(* ===== verification/AgenticManifest.thy ===== *)
theory AgenticManifest
  imports Dependency
begin

text \<open>
  The manifest of an agentic package and the Rule of Two: \<^verbatim>\<open>agentic/manifest.py\<close>, the vocabulary of
  \<^verbatim>\<open>agentic/capability_detector.py\<close> and the check of \<^verbatim>\<open>agentic/rule_of_two.py\<close>. The TOML and JSON
  readers are parameters; what a manifest declares is any JSON-like value.
\<close>

subsection \<open>Capabilities\<close>

definition CAPABILITIES :: "string list" where
  "CAPABILITIES =
     [''filesystem-read'', ''filesystem-write'', ''shell'', ''network'', ''env-secrets'', ''code-exec'',
      ''credential-paths'', ''db-access'', ''mcp-client'', ''mcp-server'', ''llm-call'', ''tool-loop'',
      ''memory-persistent'', ''dynamic-tool-load'', ''agent-to-agent'']"

definition ABC_MAP :: "(string \<times> string list) list" where
  "ABC_MAP =
     [(''filesystem-read'', [''A'', ''B'']), (''filesystem-write'', [''C'']), (''shell'', [''C'']),
      (''network'', [''A'', ''C'']), (''env-secrets'', [''B'']), (''code-exec'', [''C'']),
      (''credential-paths'', [''B'']), (''db-access'', [''A'', ''B'', ''C'']),
      (''mcp-client'', [''A'', ''C'']), (''mcp-server'', [''A'', ''C'']), (''llm-call'', [''A'']),
      (''tool-loop'', []), (''memory-persistent'', [''B'', ''C'']), (''dynamic-tool-load'', [''A'']),
      (''agent-to-agent'', [''A'', ''C''])]"

text \<open>Sets of capabilities and of properties are lists; they are sorted where they are shown.\<close>

definition map_to_abc :: "string list \<Rightarrow> string list" where
  "map_to_abc detected = sorted_set (concat (map (\<lambda>c. or_else (map_of ABC_MAP c) []) detected))"

definition minus_set :: "string list \<Rightarrow> string list \<Rightarrow> string list" where
  "minus_set xs ys = filter (\<lambda>x. x \<notin> set ys) xs"

definition inter_set :: "string list \<Rightarrow> string list \<Rightarrow> string list" where
  "inter_set xs ys = filter (\<lambda>x. x \<in> set ys) xs"

lemma minus_inter_sets [simp]:
  "set (minus_set xs ys) = set xs - set ys" "set (inter_set xs ys) = set xs \<inter> set ys"
  by (auto simp: minus_set_def inter_set_def)

definition DANGEROUS_UNDECLARED :: "string list" where
  "DANGEROUS_UNDECLARED = [''shell'', ''code-exec'', ''credential-paths'']"

definition MEDIUM_UNDECLARED :: "string list" where
  "MEDIUM_UNDECLARED =
     [''network'', ''filesystem-write'', ''env-secrets'', ''db-access'', ''mcp-server'',
      ''dynamic-tool-load'']"

subsection \<open>The Rule of Two\<close>

record trifecta_check =
  tc_detected_caps :: "string list"
  tc_abc_present :: "string list"
  tc_has_trifecta :: bool
  tc_has_human_in_the_loop :: bool
  tc_declared_satisfies :: "string list"
  tc_declared_session_isolation :: bool
  tc_session_isolation_verified :: bool

definition session_isolation_effective :: "trifecta_check \<Rightarrow> bool" where
  "session_isolation_effective c =
     (tc_declared_session_isolation c \<and> tc_session_isolation_verified c)"

definition is_violation :: "trifecta_check \<Rightarrow> bool" where
  "is_violation c = (tc_has_trifecta c \<and> \<not> tc_has_human_in_the_loop c
     \<and> \<not> session_isolation_effective c)"

definition trifecta_to_dict :: "trifecta_check \<Rightarrow> pyval" where
  "trifecta_to_dict c = PDict
     [(''abc_present'', pstrs (sorted_set (tc_abc_present c))),
      (''has_trifecta'', PBool (tc_has_trifecta c)),
      (''has_human_in_the_loop'', PBool (tc_has_human_in_the_loop c)),
      (''declared_satisfies'', pstrs (tc_declared_satisfies c)),
      (''declared_session_isolation'', PBool (tc_declared_session_isolation c)),
      (''session_isolation_verified'', PBool (tc_session_isolation_verified c)),
      (''session_isolation_effective'', PBool (session_isolation_effective c)),
      (''is_violation'', PBool (is_violation c))]"

definition has_lethal_trifecta ::
  "string list \<Rightarrow> bool \<Rightarrow> string list option \<Rightarrow> bool \<Rightarrow> bool \<Rightarrow> trifecta_check" where
  "has_lethal_trifecta detected has_hitl satisfies isolation verified =
     (let abc = map_to_abc detected in
      \<lparr>tc_detected_caps = detected, tc_abc_present = abc, tc_has_trifecta = (length abc = 3),
       tc_has_human_in_the_loop = has_hitl, tc_declared_satisfies = or_else satisfies [],
       tc_declared_session_isolation = isolation, tc_session_isolation_verified = verified\<rparr>)"

lemma map_to_abc_range: "set (map_to_abc cs) \<subseteq> {''A'', ''B'', ''C''}"
proof -
  have "or_else (map_of ABC_MAP c) [] = x \<Longrightarrow> set x \<subseteq> {''A'', ''B'', ''C''}" for c x
    by (auto simp: ABC_MAP_def split: if_splits)
  then show ?thesis by (fastforce simp: map_to_abc_def)
qed

lemma trifecta_iff:
  "tc_has_trifecta (has_lethal_trifecta cs h s i v) \<longleftrightarrow>
     (\<forall>x\<in>{''A'', ''B'', ''C''}. \<exists>c\<in>set cs. x \<in> set (or_else (map_of ABC_MAP c) []))"
proof -
  have d: "distinct (map_to_abc cs)" by (simp add: map_to_abc_def)
  have "length (map_to_abc cs) = 3 \<longleftrightarrow> set (map_to_abc cs) = {''A'', ''B'', ''C''}"
  proof
    assume "length (map_to_abc cs) = 3"
    then have "card (set (map_to_abc cs)) = 3" using d by (simp add: distinct_card)
    then show "set (map_to_abc cs) = {''A'', ''B'', ''C''}"
      using map_to_abc_range [of cs] by (intro card_subset_eq) simp_all
  next
    assume "set (map_to_abc cs) = {''A'', ''B'', ''C''}"
    then have "card (set (map_to_abc cs)) = 3" by simp
    then show "length (map_to_abc cs) = 3" using d by (simp add: distinct_card)
  qed
  also have "\<dots> \<longleftrightarrow> {''A'', ''B'', ''C''} \<subseteq> set (map_to_abc cs)"
    using map_to_abc_range [of cs] by blast
  finally show ?thesis by (auto simp: has_lethal_trifecta_def Let_def map_to_abc_def)
qed

subsection \<open>The manifest\<close>

record agentic_manifest =
  mf_agentic :: bool
  mf_spec_version :: pyval
  mf_capabilities :: "pyval list"
  mf_opt_in_required :: bool
  mf_sandbox_recommended :: bool
  mf_satisfies :: "pyval list"
  mf_session_isolation :: bool
  mf_applied :: "pyval list"
  mf_dynamic_tools :: bool
  mf_tool_signature_verification :: bool
  mf_trusted_tool_sources :: "pyval list"

text \<open>
  \<^verbatim>\<open>list(v)\<close>, \<^verbatim>\<open>v or w\<close>, membership of a value in a set of strings (a list or a dictionary
  is not hashable), and \<^verbatim>\<open>for x in v\<close> over strings. \<^verbatim>\<open>spec_version\<close> is kept as it was given: the
  source applies \<^verbatim>\<open>str\<close> to it, and nothing reads it.
\<close>

fun py_list :: "pyval \<Rightarrow> pyexn + pyval list" where
  "py_list (PList xs) = Inr xs"
| "py_list (PStr s) = Inr (map (\<lambda>c. PStr [c]) s)"
| "py_list (PDict d) = Inr (map (\<lambda>e. PStr (fst e)) d)"
| "py_list v = Inl (TypeError ''object is not iterable'')"

definition py_or :: "pyval \<Rightarrow> pyval \<Rightarrow> pyval" where
  "py_or v w = (if py_truth v then v else w)"

fun hashable :: "pyval \<Rightarrow> bool" where
  "hashable (PList xs) = False"
| "hashable (PDict d) = False"
| "hashable v = True"

fun attr_str :: "string \<Rightarrow> pyval \<Rightarrow> pyexn + string" where
  "attr_str attr (PStr s) = Inr s"
| "attr_str attr v = Inl (OtherError ''AttributeError'' attr)"

definition canonical :: "pyval \<Rightarrow> pyexn + string list" where
  "canonical v = (if \<not> hashable v then Inl (TypeError ''unhashable type'')
     else (case v of PStr c \<Rightarrow> Inr (if c \<in> set CAPABILITIES then [c] else []) | _ \<Rightarrow> Inr []))"

definition declared_set :: "agentic_manifest \<Rightarrow> pyexn + string list" where
  "declared_set m = bindE (mapE canonical (mf_capabilities m)) (\<lambda>cs. Inr (dedup_first (concat cs)))"

definition manifest_from_dict :: "pydict \<Rightarrow> pyexn + agentic_manifest" where
  "manifest_from_dict d =
     bindE (py_list (py_or (d_get d ''capabilities'' PNone) (PList []))) (\<lambda>caps.
     bindE (attr_dict ''get'' (py_or (d_get d ''rule_of_two'' PNone) (PDict []))) (\<lambda>rt.
     bindE (py_list (py_or (d_get rt ''satisfies'' PNone) (PList []))) (\<lambda>satisfies.
     bindE (attr_dict ''get'' (py_or (d_get d ''design_patterns'' PNone) (PDict []))) (\<lambda>dp.
     bindE (py_list (py_or (d_get dp ''applied'' PNone) (PList []))) (\<lambda>applied.
     bindE (attr_dict ''get'' (py_or (d_get d ''tool_registry'' PNone) (PDict []))) (\<lambda>tr.
     bindE (py_list (py_or (d_get tr ''trusted_tool_sources'' PNone) (PList []))) (\<lambda>trusted.
     Inr \<lparr>mf_agentic = py_truth (d_get d ''agentic'' (PBool False)),
          mf_spec_version = d_get d ''spec_version'' (PStr ''0.1''), mf_capabilities = caps,
          mf_opt_in_required = py_truth (d_get d ''opt_in_required'' (PBool True)),
          mf_sandbox_recommended = py_truth (d_get d ''sandbox_recommended'' (PBool False)),
          mf_satisfies = satisfies,
          mf_session_isolation = py_truth (d_get rt ''session_isolation'' (PBool False)),
          mf_applied = applied,
          mf_dynamic_tools = py_truth (d_get tr ''dynamic_tools'' (PBool False)),
          mf_tool_signature_verification =
            py_truth (d_get tr ''tool_signature_verification'' (PBool False)),
          mf_trusted_tool_sources = trusted\<rparr>)))))))"

definition parse_python_pyproject :: "(string \<Rightarrow> pyexn + pyval) \<Rightarrow> string
    \<Rightarrow> pyexn + agentic_manifest option" where
  "parse_python_pyproject toml content =
     (case toml content of
        Inl _ \<Rightarrow> Inr None
      | Inr data \<Rightarrow>
          bindE (attr_dict ''get'' data) (\<lambda>d.
          bindE (attr_dict ''get'' (py_or (d_get d ''tool'' PNone) (PDict []))) (\<lambda>t.
          let tool = d_get t ''agentic'' PNone in
          if \<not> py_truth tool then Inr None
          else bindE (attr_dict ''get'' tool) (\<lambda>td.
               bindE (manifest_from_dict td) (\<lambda>m. Inr (Some m))))))"

definition normalize_keys :: "pyval \<Rightarrow> (string \<times> string) list \<Rightarrow> pyexn + pydict" where
  "normalize_keys v names = bindE (attr_dict ''items'' v) (\<lambda>d.
     Inr (fold (\<lambda>(k, x). AList.update (case map_of names k of None \<Rightarrow> k | Some k' \<Rightarrow> k') x) d []))"

definition get_either :: "pydict \<Rightarrow> string \<Rightarrow> string \<Rightarrow> pyval" where
  "get_either d camel snake =
     py_or (py_or (d_get d camel PNone) (d_get d snake PNone)) (PDict [])"

definition parse_npm_package :: "(string \<Rightarrow> pyexn + pyval) \<Rightarrow> string
    \<Rightarrow> pyexn + agentic_manifest option" where
  "parse_npm_package json content =
     (case json content of
        Inl _ \<Rightarrow> Inr None
      | Inr data \<Rightarrow>
          bindE (attr_dict ''get'' data) (\<lambda>d.
          let block = d_get d ''agentic'' PNone in
          if \<not> py_truth block then Inr None
          else bindE (attr_dict ''get'' block) (\<lambda>b.
               bindE (normalize_keys (get_either b ''ruleOfTwo'' ''rule_of_two'')
                        [(''sessionIsolation'', ''session_isolation'')]) (\<lambda>rt.
               bindE (normalize_keys (get_either b ''toolRegistry'' ''tool_registry'')
                        [(''dynamicTools'', ''dynamic_tools''),
                         (''toolSignatureVerification'', ''tool_signature_verification''),
                         (''trustedToolSources'', ''trusted_tool_sources'')]) (\<lambda>tr.
               bindE (manifest_from_dict
                 [(''agentic'', d_get b ''agentic'' (PBool False)),
                  (''spec_version'', py_or (d_get b ''specVersion'' PNone)
                                       (d_get b ''spec_version'' (PStr ''0.1''))),
                  (''capabilities'', d_get b ''capabilities'' (PList [])),
                  (''opt_in_required'', d_get b ''optInRequired'' (d_get b ''opt_in_required'' (PBool True))),
                  (''sandbox_recommended'', d_get b ''sandboxRecommended''
                                              (d_get b ''sandbox_recommended'' (PBool False))),
                  (''rule_of_two'', PDict rt),
                  (''design_patterns'', get_either b ''designPatterns'' ''design_patterns''),
                  (''tool_registry'', PDict tr)]) (\<lambda>m. Inr (Some m)))))))"

definition parse_manifest ::
  "(string \<Rightarrow> pyexn + pyval) \<Rightarrow> (string \<Rightarrow> pyexn + pyval) \<Rightarrow> string option \<Rightarrow> string option
    \<Rightarrow> pyexn + agentic_manifest option" where
  "parse_manifest toml json pyproject package_json =
     bindE (case package_json of None \<Rightarrow> Inr None | Some t \<Rightarrow> parse_npm_package json t) (\<lambda>npm.
     case npm of
       Some m \<Rightarrow> Inr (Some m)
     | None \<Rightarrow> (case pyproject of None \<Rightarrow> Inr None | Some t \<Rightarrow> parse_python_pyproject toml t))"

end
