(* ===== verification/AgenticStage.thy ===== *)
theory AgenticStage
  imports AgenticManifest Converters
begin

text \<open>
  The decision tree for agentic packages (\<^verbatim>\<open>agentic/classifier.py\<close>) and the pipeline's stage around
  it (\<^verbatim>\<open>stages/stage_agentic.py\<close>). The detectors that read the source text (signals, capabilities,
  a human in the loop, the rules R1 to R4) are the fields of \<open>agentic_env\<close>.
\<close>

subsection \<open>Signals and rules\<close>

record signal_report =
  sg_score :: nat
  sg_is_agentic :: bool
  sg_matched :: "string list"

definition AGENTIC_THRESHOLD :: nat where
  "AGENTIC_THRESHOLD = 5"

definition signal_to_dict :: "signal_report \<Rightarrow> pyval" where
  "signal_to_dict r = PDict
     [(''score'', PInt (int (sg_score r))), (''threshold'', PInt (int AGENTIC_THRESHOLD)),
      (''is_agentic'', PBool (sg_is_agentic r)), (''matched'', pstrs (sg_matched r))]"

datatype rule_severity = RsMALICIOUS | RsHIGH_RISK | RsSUSPICIOUS

fun rule_severity_value :: "rule_severity \<Rightarrow> string" where
  "rule_severity_value RsMALICIOUS = ''MALICIOUS''"
| "rule_severity_value RsHIGH_RISK = ''HIGH_RISK''"
| "rule_severity_value RsSUSPICIOUS = ''SUSPICIOUS''"

record rule_finding =
  rf_rule_id :: string
  rf_severity :: rule_severity
  rf_file_path :: string
  rf_snippet :: string
  rf_reason :: string
  rf_excused_by :: "string list"

text \<open>A report is the list of its hits.\<close>

definition hits_of_severity :: "rule_finding list \<Rightarrow> rule_severity \<Rightarrow> rule_finding list" where
  "hits_of_severity hits sev = filter (\<lambda>h. rf_severity h = sev) hits"

definition has_malicious :: "rule_finding list \<Rightarrow> bool" where
  "has_malicious hits = list_ex (\<lambda>h. rf_severity h = RsMALICIOUS) hits"

definition rules_to_dict :: "rule_finding list \<Rightarrow> pyval" where
  "rules_to_dict hits = PDict
     [(''total'', PInt (int (length hits))),
      (''by_severity'', PDict (map (\<lambda>s. (rule_severity_value s,
          PInt (int (length (hits_of_severity hits s))))) [RsMALICIOUS, RsHIGH_RISK, RsSUSPICIOUS])),
      (''hits'', PList (map (\<lambda>h. PDict
          [(''rule'', PStr (rf_rule_id h)), (''severity'', PStr (rule_severity_value (rf_severity h))),
           (''file'', PStr (rf_file_path h)), (''snippet'', PStr (take 200 (rf_snippet h))),
           (''reason'', PStr (rf_reason h)), (''excused_by'', pstrs (rf_excused_by h))]) hits))]"

type_synonym sources = "(string \<times> string) list"

text \<open>The arguments of \<^verbatim>\<open>run_all_rules\<close>.\<close>

record rule_input =
  ru_declared :: "string list"
  ru_detected :: "string list"
  ru_manifest_present :: bool
  ru_has_hitl :: bool
  ru_session_isolation :: bool
  ru_applied :: "pyval list option"
  ru_satisfies :: "pyval list option"
  ru_language :: string

record agentic_env =
  ag_toml :: "string \<Rightarrow> pyexn + pyval"
  ag_json :: "string \<Rightarrow> pyexn + pyval"
  ag_signal :: "bool \<Rightarrow> string \<Rightarrow> string \<Rightarrow> string list \<Rightarrow> sources \<Rightarrow> signal_report"
  ag_capabilities :: "bool \<Rightarrow> sources \<Rightarrow> pyexn + string list"
  ag_hitl :: "sources \<Rightarrow> string \<Rightarrow> bool"
  ag_rules :: "sources \<Rightarrow> rule_input \<Rightarrow> pyexn + rule_finding list"

subsection \<open>The classifier\<close>

record agentic_classification =
  ac_is_agentic :: bool
  ac_manifest :: "agentic_manifest option"
  ac_signal :: "signal_report option"
  ac_declared :: "string list"
  ac_detected :: "string list"
  ac_undeclared :: "string list"
  ac_abc_actual :: "string list"
  ac_has_hitl :: bool
  ac_rules :: "rule_finding list option"
  ac_verdict :: verdict
  ac_reason :: string

definition classification_to_dict :: "agentic_classification \<Rightarrow> pyval" where
  "classification_to_dict c = PDict
     [(''is_agentic'', PBool (ac_is_agentic c)),
      (''manifest_present'', PBool (ac_manifest c \<noteq> None)),
      (''signal'', popt signal_to_dict (ac_signal c)),
      (''declared'', pstrs (sorted_set (ac_declared c))),
      (''detected'', pstrs (sorted_set (ac_detected c))),
      (''undeclared'', pstrs (sorted_set (ac_undeclared c))),
      (''abc_actual'', pstrs (sorted_set (ac_abc_actual c))),
      (''has_human_in_the_loop'', PBool (ac_has_hitl c)),
      (''rules'', popt rules_to_dict (ac_rules c)),
      (''verdict'', PStr (verdict_value (ac_verdict c))), (''reason'', PStr (ac_reason c))]"

definition is_py :: "string \<Rightarrow> bool" where
  "is_py language = startswith language ''py''"

text \<open>The last part: the verdict of an agentic package from its rule hits.\<close>

definition judge_rules :: "agentic_manifest option \<Rightarrow> pyval list \<Rightarrow> rule_finding list \<Rightarrow> verdict \<times> string" where
  "judge_rules manifest applied hits =
     (let ids = (\<lambda>hs. py_join '', '' (map rf_rule_id hs));
          high = hits_of_severity hits RsHIGH_RISK;
          r1 = length (filter (\<lambda>h. startswith (rf_rule_id h) ''R1-'') hits)
      in if has_malicious hits
         then (MALICIOUS, ''R1-R4 MALICIOUS hit: '' @ ids (hits_of_severity hits RsMALICIOUS))
         else if high \<noteq> [] \<or> (r1 \<ge> 2 \<and> applied = [])
         then (HIGH_RISK, ''R1-R4 HIGH_RISK: ''
                 @ (let t = ids high in if t \<noteq> [] then t else ''R1 hits without design_patterns''))
         else if hits \<noteq> [] then (SUSPICIOUS, ''R1-R4 SUSPICIOUS: '' @ ids hits)
         else (AGENTIC, if manifest = None
                 then ''AGENTIC (manifest absent - explicit opt-in required, warning shown)''
                 else ''AGENTIC (declared >= detected, all R1-R4 clean - explicit opt-in required)''))"

definition manifest_field :: "agentic_manifest option \<Rightarrow> (agentic_manifest \<Rightarrow> 'a) \<Rightarrow> 'a \<Rightarrow> 'a" where
  "manifest_field m f d = (case m of None \<Rightarrow> d | Some x \<Rightarrow> f x)"

definition new_classification ::
  "bool \<Rightarrow> agentic_manifest option \<Rightarrow> signal_report \<Rightarrow> agentic_classification" where
  "new_classification is_agentic manifest signal =
     \<lparr>ac_is_agentic = is_agentic, ac_manifest = manifest, ac_signal = Some signal, ac_declared = [],
      ac_detected = [], ac_undeclared = [], ac_abc_actual = [], ac_has_hitl = False, ac_rules = None,
      ac_verdict = CLEAN, ac_reason = []\<rparr>"

definition classify ::
  "agentic_env \<Rightarrow> string \<Rightarrow> string \<Rightarrow> string list \<Rightarrow> sources \<Rightarrow> string option \<Rightarrow> string option \<Rightarrow> string
    \<Rightarrow> pyexn + agentic_classification" where
  "classify env package description deps sources pyproject package_json language =
     bindE (parse_manifest (ag_toml env) (ag_json env) pyproject package_json) (\<lambda>manifest.
     let signal = ag_signal env (is_py language) package description deps sources;
         is_agentic = (manifest_field manifest mf_agentic False \<or> sg_is_agentic signal);
         cls = new_classification is_agentic manifest signal
     in if \<not> is_agentic
        then Inr (cls\<lparr>ac_reason := ''not agentic (manifest absent / signals < threshold)''\<rparr>)
        else
          bindE (ag_capabilities env (is_py language) sources) (\<lambda>detected.
          bindE (case manifest of None \<Rightarrow> Inr [] | Some m \<Rightarrow> declared_set m) (\<lambda>declared.
          let undeclared = minus_set detected declared;
              bad = inter_set undeclared DANGEROUS_UNDECLARED;
              cls = cls\<lparr>ac_declared := declared, ac_detected := detected, ac_undeclared := undeclared\<rparr>;
              input = \<lparr>ru_declared = declared, ru_detected = detected,
                ru_manifest_present = (manifest \<noteq> None), ru_has_hitl = False,
                ru_session_isolation = manifest_field manifest mf_session_isolation False,
                ru_applied = map_option mf_applied manifest,
                ru_satisfies = map_option mf_satisfies manifest, ru_language = language\<rparr>
          in if manifest \<noteq> None \<and> bad \<noteq> []
             then bindE (ag_rules env sources input) (\<lambda>hits.
               Inr (cls\<lparr>ac_verdict := MALICIOUS,
                        ac_reason := ''Step 2: undeclared dangerous capabilities ''
                          @ py_repr_list (sorted_set bad),
                        ac_rules := Some hits\<rparr>))
             else
               let hitl = ag_hitl env sources language;
                   applied = manifest_field manifest mf_applied [];
                   cls = cls\<lparr>ac_abc_actual := map_to_abc detected, ac_has_hitl := hitl\<rparr>
               in bindE (ag_rules env sources
                          (input\<lparr>ru_has_hitl := hitl, ru_applied := Some applied\<rparr>)) (\<lambda>hits.
                  case judge_rules manifest applied hits of (v, reason) \<Rightarrow>
                    Inr (cls\<lparr>ac_rules := Some hits, ac_verdict := v, ac_reason := reason\<rparr>)))))"

subsection \<open>The stage\<close>

record stage_agentic_result =
  sa_triggered :: bool
  sa_classification :: agentic_classification
  sa_verdict :: "verdict option"
  sa_evidence :: "evidence list"
  sa_package_meta :: pydict

definition collect_sources :: "full_source_file list \<Rightarrow> string \<Rightarrow> sources" where
  "collect_sources files language =
     fold (\<lambda>sf. AList.update (fs_path sf) (fs_content sf))
       (filter (\<lambda>sf. fs_language sf = language) files) []"

definition find_manifest_text :: "full_source_file list \<Rightarrow> string \<Rightarrow> string option" where
  "find_manifest_text files basename =
     map_option fs_content (List.find (\<lambda>sf. fs_basename sf = basename
       \<or> endswith (fs_path sf) (CHR ''/'' # basename)) files)"

definition requirement_name :: "string \<Rightarrow> string" where
  "requirement_name d =
     py_strip (fold (\<lambda>c s. hd (split_on c s))
       [CHR ''['', CHR '';'', CHR ''='', CHR ''<'', CHR ''>'', CHR ''~''] d)"

definition deps_from_pyproject :: "agentic_env \<Rightarrow> string option \<Rightarrow> pyexn + string list" where
  "deps_from_pyproject env text =
     (if \<not> truthy_opt text then Inr []
      else case ag_toml env (the text) of
        Inl _ \<Rightarrow> Inr []
      | Inr data \<Rightarrow>
          bindE (attr_dict ''get'' data) (\<lambda>d.
          bindE (attr_dict ''get'' (py_or (d_get d ''project'' PNone) (PDict []))) (\<lambda>project.
          bindE (py_list (py_or (d_get project ''dependencies'' PNone) (PList []))) (\<lambda>deps.
          bindE (mapE (attr_str ''split'') deps) (\<lambda>ds.
          Inr (map py_lower (filter (\<lambda>n. n \<noteq> []) (map requirement_name ds))))))))"

definition deps_from_package_json :: "agentic_env \<Rightarrow> string option \<Rightarrow> pyexn + string list" where
  "deps_from_package_json env text =
     (if \<not> truthy_opt text then Inr []
      else case ag_json env (the text) of
        Inl _ \<Rightarrow> Inr []
      | Inr data \<Rightarrow>
          bindE (attr_dict ''get'' data) (\<lambda>d.
          Inr (map py_lower (concat (map (\<lambda>k. case d_get d k PNone of PDict x \<Rightarrow> map fst x | _ \<Rightarrow> [])
            [''dependencies'', ''devDependencies'', ''peerDependencies''])))))"

fun severity_from_verdict :: "verdict \<Rightarrow> severity" where
  "severity_from_verdict MALICIOUS = SevHIGH"
| "severity_from_verdict HIGH_RISK = SevHIGH"
| "severity_from_verdict SUSPICIOUS = SevMEDIUM"
| "severity_from_verdict AGENTIC = SevLOW"
| "severity_from_verdict CLEAN = SevLOW"
| "severity_from_verdict _ = SevMEDIUM"

fun llm_verdict_from :: "verdict \<Rightarrow> llm_verdict" where
  "llm_verdict_from MALICIOUS = LlmMALICIOUS"
| "llm_verdict_from HIGH_RISK = LlmMALICIOUS"
| "llm_verdict_from SUSPICIOUS = LlmSUSPICIOUS"
| "llm_verdict_from AGENTIC = LlmSUSPICIOUS"
| "llm_verdict_from CLEAN = LlmBENIGN"
| "llm_verdict_from _ = LlmSUSPICIOUS"

definition summary_evidence :: "agentic_classification \<Rightarrow> evidence" where
  "summary_evidence c = (mitre_evidence ''<agentic>'')
     \<lparr>ev_code_snippet := ''declared='' @ py_repr_list (sorted_set (ac_declared c))
        @ '', detected='' @ py_repr_list (sorted_set (ac_detected c))
        @ '', undeclared='' @ py_repr_list (sorted_set (ac_undeclared c))
        @ '', ABC='' @ py_repr_list (sorted_set (ac_abc_actual c))
        @ '', HITL='' @ py_bool (ac_has_hitl c),
      ev_behavior_sequence := [''agentic:'' @ verdict_value (ac_verdict c)],
      ev_ttp_id := ''AGENTIC-CLS'', ev_ttp_name := ''Agentic Agentic Classification'',
      ev_ttp_source := OWASP_LLM,
      ev_ttp_url := ''https://genai.owasp.org/2025/12/09/owasp-genai-security-project-releases-''
        @ ''top-10-risks-and-mitigations-for-agentic-ai-security/'',
      ev_ttp_severity := severity_from_verdict (ac_verdict c),
      ev_llm_verdict := llm_verdict_from (ac_verdict c), ev_llm_reasoning := ac_reason c,
      ev_llm_model := ''agentic-classifier'',
      ev_confidence := (if ac_verdict c \<in> {MALICIOUS, HIGH_RISK} then 9/10 else 6/10)\<rparr>"

definition rule_finding_evidence :: "rule_finding \<Rightarrow> evidence" where
  "rule_finding_evidence h =
     (mitre_evidence (if rf_file_path h \<noteq> [] then rf_file_path h else ''<agentic>''))
     \<lparr>ev_code_snippet := take 1500 (rf_snippet h),
      ev_behavior_sequence := [''agentic:'' @ rf_rule_id h],
      ev_ttp_id := ''AGENTIC-'' @ rf_rule_id h, ev_ttp_name := ''Agentic '' @ rf_rule_id h,
      ev_ttp_source := OWASP_LLM,
      ev_ttp_url := ''https://github.com/anthropics/agentic/spec/RULES.md'',
      ev_ttp_severity := (if rf_severity h = RsSUSPICIOUS then SevMEDIUM else SevHIGH),
      ev_llm_verdict := (if rf_severity h = RsMALICIOUS then LlmMALICIOUS else LlmSUSPICIOUS),
      ev_llm_reasoning := rf_reason h @ (if rf_excused_by h \<noteq> []
        then '' [excused: '' @ py_join '', '' (rf_excused_by h) @ '']'' else []),
      ev_llm_model := ''agentic-rules'',
      ev_confidence := (case rf_severity h of RsMALICIOUS \<Rightarrow> 9/10 | RsHIGH_RISK \<Rightarrow> 75/100
                        | RsSUSPICIOUS \<Rightarrow> 55/100)\<rparr>"

definition classification_to_evidence :: "agentic_classification \<Rightarrow> evidence list" where
  "classification_to_evidence c =
     summary_evidence c # map rule_finding_evidence (or_else (ac_rules c) [])"

definition agentic_run ::
  "agentic_env \<Rightarrow> string \<Rightarrow> string \<Rightarrow> string list \<Rightarrow> full_source_file list \<Rightarrow> ecosystem
    \<Rightarrow> pyexn + stage_agentic_result" where
  "agentic_run env package description declared_deps files eco =
     bindE (if eco = PYPI
        then let text = find_manifest_text files ''pyproject.toml'' in
          bindE (deps_from_pyproject env text) (\<lambda>deps.
          classify env package description (dedup_first (deps @ declared_deps))
            (collect_sources files ''python'') text None ''python'')
        else let text = find_manifest_text files ''package.json'' in
          bindE (deps_from_package_json env text) (\<lambda>deps.
          classify env package description (dedup_first (deps @ declared_deps))
            (collect_sources files ''javascript'') None text ''javascript'')) (\<lambda>cls.
     let meta = [(''agentic'', classification_to_dict cls)] in
     Inr (if ac_is_agentic cls
          then \<lparr>sa_triggered = True, sa_classification = cls, sa_verdict = Some (ac_verdict cls),
                sa_evidence = classification_to_evidence cls, sa_package_meta = meta\<rparr>
          else \<lparr>sa_triggered = False, sa_classification = cls, sa_verdict = None,
                sa_evidence = [], sa_package_meta = meta\<rparr>))"

end
