(* ===== verification/Reputation.thy ===== *)
theory Reputation
  imports Registry AgenticManifest
begin

text \<open>
  The reference stages: OpenSSF Scorecard (\<^verbatim>\<open>stages/stage_scorecard.py\<close>), the SLSA estimate
  (\<^verbatim>\<open>stages/stage_slsa.py\<close>) and the SSDF checklist (\<^verbatim>\<open>stages/stage_ssdf.py\<close>). They never change a
  verdict. The Scorecard service and the three patterns that find a GitHub repository in a URL are
  parameters, and so is \<^verbatim>\<open>str\<close> of a JSON value.
\<close>

definition fmt_1f :: "rat \<Rightarrow> string" where
  "fmt_1f x = (let c = round_half_even (\<bar>x\<bar> * 10) in
     (if x < 0 then ''-'' else []) @ show_int (c div 10) @ ''.'' @ show_int (c mod 10))"

text \<open>\<^verbatim>\<open>d.get(k, default)\<close> where the key is itself a JSON value.\<close>

definition get_key :: "pydict \<Rightarrow> pyval \<Rightarrow> pyval \<Rightarrow> pyexn + pyval" where
  "get_key d k default_value = (case k of PStr s \<Rightarrow> Inr (d_get d s default_value)
     | _ \<Rightarrow> if hashable k then Inr default_value else Inl (TypeError ''unhashable type''))"

subsection \<open>Scorecard\<close>

record scorecard_check =
  kc_name :: string
  kc_score :: rat
  kc_reason :: string
  kc_documentation :: string

record scorecard_report =
  ks_available :: bool
  ks_repo :: "string option"
  ks_date :: "string option"
  ks_overall_score :: "rat option"
  ks_checks :: "scorecard_check list"
  ks_error :: "string option"

record score_env =
  kv_github :: "string \<Rightarrow> string option"
  kv_http :: "string \<Rightarrow> http_result"
  kv_str :: "pyval \<Rightarrow> string"

definition scorecard_to_dict :: "scorecard_report \<Rightarrow> pyval" where
  "scorecard_to_dict r = PDict
     [(''available'', PBool (ks_available r)), (''repo'', popt PStr (ks_repo r)),
      (''date'', popt PStr (ks_date r)), (''overall_score'', popt PFloat (ks_overall_score r)),
      (''checks'', PList (map (\<lambda>c. PDict [(''name'', PStr (kc_name c)), (''score'', PFloat (kc_score c)),
         (''reason'', PStr (take 200 (kc_reason c)))]) (ks_checks r))),
      (''error'', popt PStr (ks_error r))]"

definition no_scorecard :: "string option \<Rightarrow> string \<Rightarrow> scorecard_report" where
  "no_scorecard repo err = \<lparr>ks_available = False, ks_repo = repo, ks_date = None,
     ks_overall_score = None, ks_checks = [], ks_error = Some err\<rparr>"

definition extract_github_repo :: "score_env \<Rightarrow> pyval \<Rightarrow> pyexn + string option" where
  "extract_github_repo env url =
     (if \<not> py_truth url then Inr None
      else bindE (attr_str ''strip'' url) (\<lambda>s. Inr (kv_github env (py_strip s))))"

text \<open>The strings among some values, in order.\<close>

definition only_strs :: "pyval list \<Rightarrow> pyval list" where
  "only_strs vs = filter (\<lambda>v. case v of PStr _ \<Rightarrow> True | _ \<Rightarrow> False) vs"

definition pypi_repo_urls :: "pydict \<Rightarrow> pyexn + pyval list" where
  "pypi_repo_urls meta =
     bindE (attr_dict ''get'' (py_or (d_get meta ''info'' (PDict [])) (PDict []))) (\<lambda>info.
     Inr (only_strs (map (\<lambda>k. d_get info k PNone)
            [''home_page'', ''project_url'', ''package_url'', ''docs_url''])
          @ (case d_get info ''project_urls'' PNone of PDict d \<Rightarrow> only_strs (map snd d) | _ \<Rightarrow> [])))"

definition repository_url :: "pyval \<Rightarrow> pyval list" where
  "repository_url v = (case v of
     PDict d \<Rightarrow> (case map_of d ''url'' of Some u \<Rightarrow> [u] | None \<Rightarrow> [])
   | PStr s \<Rightarrow> [PStr s]
   | _ \<Rightarrow> [])"

text \<open>\<^verbatim>\<open>versions[dist-tags.latest]\<close> of the npm metadata: an empty dictionary without a latest tag.\<close>

definition npm_latest :: "pydict \<Rightarrow> pyexn + pyval" where
  "npm_latest meta =
     bindE (attr_dict ''get'' (py_or (d_get meta ''dist-tags'' PNone) (PDict []))) (\<lambda>tags.
     let latest = d_get tags ''latest'' PNone in
     if \<not> py_truth latest then Inr (PDict [])
     else bindE (attr_dict ''get'' (py_or (d_get meta ''versions'' PNone) (PDict []))) (\<lambda>vs.
          get_key vs latest (PDict [])))"

definition npm_repo_urls :: "pydict \<Rightarrow> pyexn + pyval list" where
  "npm_repo_urls meta =
     bindE (npm_latest meta) (\<lambda>ver.
     bindE (attr_dict ''get'' ver) (\<lambda>v.
     Inr (concat (map (\<lambda>x. case x of PStr s \<Rightarrow> [PStr s] | PDict d \<Rightarrow> only_strs (map snd d) | _ \<Rightarrow> [])
            [d_get meta ''homepage'' PNone, d_get meta ''bugs'' (PDict [])])
          @ repository_url (d_get meta ''repository'' PNone)
          @ repository_url (d_get v ''repository'' PNone)
          @ only_strs [d_get v ''homepage'' PNone])))"

fun first_repo :: "score_env \<Rightarrow> pyval list \<Rightarrow> pyexn + string option" where
  "first_repo env [] = Inr None"
| "first_repo env (u # us) = bindE (extract_github_repo env u) (\<lambda>r.
     case r of Some slug \<Rightarrow> Inr (Some slug) | None \<Rightarrow> first_repo env us)"

definition find_github_repo :: "score_env \<Rightarrow> pyval \<Rightarrow> ecosystem \<Rightarrow> pyexn + string option" where
  "find_github_repo env raw eco =
     (if \<not> py_truth raw then Inr None
      else bindE (attr_dict ''get'' raw) (\<lambda>meta.
           bindE (case eco of PYPI \<Rightarrow> pypi_repo_urls meta | NPM \<Rightarrow> npm_repo_urls meta) (first_repo env)))"

definition check_of :: "pyval \<Rightarrow> pyexn + scorecard_check" where
  "check_of v =
     bindE (attr_dict ''get'' v) (\<lambda>c.
     bindE (as_str (d_get c ''name'' (PStr ''?''))) (\<lambda>name.
     bindE (as_float (d_get c ''score'' (PInt (-1)))) (\<lambda>score.
     bindE (as_str (py_or (d_get c ''reason'' (PStr [])) (PStr []))) (\<lambda>reason.
     bindE (case d_get c ''documentation'' PNone of
              PDict d \<Rightarrow> as_str (d_get d ''short'' (PStr [])) | _ \<Rightarrow> Inr []) (\<lambda>doc.
     Inr \<lparr>kc_name = name, kc_score = score, kc_reason = reason, kc_documentation = doc\<rparr>)))))"

definition fetch_scorecard :: "score_env \<Rightarrow> string \<Rightarrow> pyexn + scorecard_report" where
  "fetch_scorecard env slug =
     (if slug = [] then Inr (no_scorecard None ''empty repo slug'')
      else case kv_http env (''https://api.securityscorecards.dev/projects/github.com/'' @ slug) of
        HttpStatus code \<Rightarrow> Inr (no_scorecard (Some slug)
          (if code = 404 then ''not in scorecard cache (404)'' else ''HTTP '' @ show_nat code))
      | HttpFailed e \<Rightarrow> Inr (no_scorecard (Some slug) (''network error: '' @ exn_str e))
      | HttpJson v \<Rightarrow>
          bindE (attr_dict ''get'' v) (\<lambda>data.
          bindE (py_list (py_or (d_get data ''checks'' PNone) (PList []))) (\<lambda>raw.
          bindE (mapE check_of raw) (\<lambda>checks.
          bindE (as_opt as_float (d_get data ''score'' PNone)) (\<lambda>score.
          bindE (as_opt as_str (d_get data ''date'' PNone)) (\<lambda>date.
          Inr \<lparr>ks_available = True, ks_repo = Some slug, ks_date = date, ks_overall_score = score,
               ks_checks = checks, ks_error = None\<rparr>))))))"

definition fetch_for_package :: "score_env \<Rightarrow> pyval \<Rightarrow> ecosystem \<Rightarrow> pyexn + scorecard_report" where
  "fetch_for_package env raw eco =
     bindE (find_github_repo env raw eco) (\<lambda>repo.
     if truthy_opt repo then fetch_scorecard env (the repo)
     else Inr (no_scorecard None ''no github repo found in metadata''))"

definition RISK_THRESHOLDS :: "(string \<times> rat) list" where
  "RISK_THRESHOLDS =
     [(''Maintained'', 3), (''Code-Review'', 5), (''Branch-Protection'', 3), (''Token-Permissions'', 5),
      (''Vulnerabilities'', 7), (''Pinned-Dependencies'', 3), (''Dangerous-Workflow'', 7)]"

definition risk_signal :: "scorecard_check \<Rightarrow> string option" where
  "risk_signal c =
     (case map_of RISK_THRESHOLDS (kc_name c) of
        None \<Rightarrow> None
      | Some t \<Rightarrow> if 0 \<le> kc_score c \<and> kc_score c < t
          then Some (''Scorecard: '' @ kc_name c @ ''='' @ fmt_1f (kc_score c) @ ''/10 (threshold ''
                 @ fmt_1f t @ ''). '' @ take 120 (kc_reason c))
          else None)"

definition extract_risk_signals :: "scorecard_report \<Rightarrow> string list" where
  "extract_risk_signals r = (if \<not> ks_available r then [] else List.map_filter risk_signal (ks_checks r))"

subsection \<open>SLSA\<close>

datatype slsa_level = L0 | L1 | L2 | L3_OR_HIGHER | LUNKNOWN

fun slsa_level_value :: "slsa_level \<Rightarrow> string" where
  "slsa_level_value L0 = ''L0''"
| "slsa_level_value L1 = ''L1''"
| "slsa_level_value L2 = ''L2''"
| "slsa_level_value L3_OR_HIGHER = ''L3+''"
| "slsa_level_value LUNKNOWN = ''UNKNOWN''"

record slsa_report =
  sl_level :: slsa_level
  sl_has_provenance :: bool
  sl_has_signature :: bool
  sl_builder_url :: "string option"
  sl_source_uri :: pyval
  sl_raw_provenance :: pyval
  sl_notes :: "string list"
  sl_error :: "string option"

definition slsa_to_dict :: "slsa_report \<Rightarrow> pyval" where
  "slsa_to_dict r = PDict
     [(''level'', PStr (slsa_level_value (sl_level r))), (''has_provenance'', PBool (sl_has_provenance r)),
      (''has_signature'', PBool (sl_has_signature r)), (''builder_url'', popt PStr (sl_builder_url r)),
      (''source_uri'', sl_source_uri r), (''notes'', pstrs (take 5 (sl_notes r))),
      (''error'', popt PStr (sl_error r))]"

definition unknown_slsa :: "string \<Rightarrow> slsa_report" where
  "unknown_slsa err = \<lparr>sl_level = LUNKNOWN, sl_has_provenance = False, sl_has_signature = False,
     sl_builder_url = None, sl_source_uri = PNone, sl_raw_provenance = PNone, sl_notes = [],
     sl_error = Some err\<rparr>"

definition builder_of :: "bool \<Rightarrow> string option" where
  "builder_of provenance = (if provenance then Some ''https://github.com/actions'' else None)"

text \<open>\<^verbatim>\<open>len(v)\<close>.\<close>

fun py_len :: "pyval \<Rightarrow> pyexn + nat" where
  "py_len (PList xs) = Inr (length xs)"
| "py_len (PDict d) = Inr (length d)"
| "py_len (PStr s) = Inr (length s)"
| "py_len v = Inl (TypeError ''object has no len()'')"

definition evaluate_npm :: "score_env \<Rightarrow> pydict \<Rightarrow> pyexn + slsa_report" where
  "evaluate_npm env raw =
     bindE (npm_latest raw) (\<lambda>v.
     bindE (attr_dict ''get'' v) (\<lambda>ver.
     bindE (attr_dict ''get'' (py_or (d_get ver ''dist'' PNone) (PDict []))) (\<lambda>dist.
     let att = py_or (d_get dist ''attestations'' PNone) (PDict []);
         sigs = py_or (d_get dist ''signatures'' PNone) (PList []);
         provenance = py_truth att; signature = py_truth sigs
     in bindE (if \<not> provenance then Inr [] else bindE (attr_dict ''get'' att) (\<lambda>a.
          Inr (concat (map (\<lambda>k. if py_truth (d_get a k PNone)
                 then [''attestations.'' @ k @ ''='' @ kv_str env (d_get a k PNone)] else [])
               [''url'', ''count''])))) (\<lambda>notes.
        bindE (if \<not> signature then Inr [] else bindE (py_len sigs) (\<lambda>n.
          Inr [''signatures='' @ show_nat n @ '' entry(s)''])) (\<lambda>sig_notes.
        Inr \<lparr>sl_level = (if provenance \<and> signature then L2 else if provenance \<or> signature then L1 else L0),
             sl_has_provenance = provenance, sl_has_signature = signature,
             sl_builder_url = builder_of provenance,
             sl_source_uri = (case d_get ver ''repository'' PNone of
                PDict d \<Rightarrow> d_get d ''url'' PNone | PStr s \<Rightarrow> PStr s | _ \<Rightarrow> PNone),
             sl_raw_provenance = (if provenance then att else PNone), sl_notes = notes @ sig_notes,
             sl_error = None\<rparr>)))))"

text \<open>The first file with an attestation, and the first one with a digest.\<close>

fun first_attested :: "pyval list \<Rightarrow> pyexn + pydict option" where
  "first_attested [] = Inr None"
| "first_attested (v # vs) = bindE (attr_dict ''get'' v) (\<lambda>u.
     if list_ex (\<lambda>k. py_truth (d_get u k PNone)) [''provenance'', ''has_attestations'', ''attestations'']
     then Inr (Some u) else first_attested vs)"

definition has_sha256 :: "pyval \<Rightarrow> pyexn + bool" where
  "has_sha256 v = bindE (attr_dict ''get'' v) (\<lambda>u.
     bindE (attr_dict ''get'' (py_or (d_get u ''digests'' PNone) (PDict []))) (\<lambda>d.
     Inr (py_truth (d_get d ''sha256'' PNone))))"

fun any_sha256 :: "pyval list \<Rightarrow> pyexn + bool" where
  "any_sha256 [] = Inr False"
| "any_sha256 (v # vs) = bindE (has_sha256 v) (\<lambda>b. if b then Inr True else any_sha256 vs)"

definition evaluate_pypi :: "score_env \<Rightarrow> pydict \<Rightarrow> pyexn + slsa_report" where
  "evaluate_pypi env raw =
     bindE (attr_dict ''get'' (py_or (d_get raw ''info'' PNone) (PDict []))) (\<lambda>info.
     bindE (attr_dict ''get'' (py_or (d_get info ''project_urls'' PNone) (PDict []))) (\<lambda>pu.
     let source = py_or (d_get pu ''Source'' PNone)
                    (py_or (d_get pu ''Homepage'' PNone) (d_get info ''home_page'' PNone)) in
     bindE (py_list (py_or (d_get raw ''urls'' PNone) (PList []))) (\<lambda>urls.
     bindE (first_attested urls) (\<lambda>att.
     bindE (case att of
         Some u \<Rightarrow> Inr [''PEP-740 attestation on '' @ kv_str env (d_get u ''filename'' PNone)]
       | None \<Rightarrow> bindE (any_sha256 urls) (\<lambda>b.
           Inr (if b then [''PyPI provides sha256 digest (integrity only)''] else []))) (\<lambda>notes.
     Inr \<lparr>sl_level = (if att \<noteq> None then L2 else L0), sl_has_provenance = (att \<noteq> None),
          sl_has_signature = False, sl_builder_url = builder_of (att \<noteq> None),
          sl_source_uri = (case source of PStr s \<Rightarrow> PStr s | _ \<Rightarrow> PNone),
          sl_raw_provenance = (case att of None \<Rightarrow> PNone | Some u \<Rightarrow> PDict
            [(''url'', d_get u ''url'' PNone), (''filename'', d_get u ''filename'' PNone),
             (''provenance'', py_or (d_get u ''provenance'' PNone) (d_get u ''attestations'' PNone)),
             (''has_attestations'', d_get u ''has_attestations'' PNone)]),
          sl_notes = notes, sl_error = None\<rparr>)))))"

definition slsa_evaluate :: "score_env \<Rightarrow> pyval \<Rightarrow> ecosystem \<Rightarrow> slsa_report" where
  "slsa_evaluate env raw eco =
     (if \<not> py_truth raw then unknown_slsa ''no metadata''
      else case bindE (attr_dict ''get'' raw) (\<lambda>m.
             case eco of NPM \<Rightarrow> evaluate_npm env m | PYPI \<Rightarrow> evaluate_pypi env m) of
        Inr r \<Rightarrow> r
      | Inl e \<Rightarrow> unknown_slsa (exn_name e @ '': '' @ exn_str e))"

subsection \<open>SSDF\<close>

datatype ssdf_status = SsPASS | SsFAIL | SsUNKNOWN

fun ssdf_status_value :: "ssdf_status \<Rightarrow> string" where
  "ssdf_status_value SsPASS = ''PASS''"
| "ssdf_status_value SsFAIL = ''FAIL''"
| "ssdf_status_value SsUNKNOWN = ''UNKNOWN''"

record ssdf_check =
  sc_code :: string
  sc_title :: string
  sc_status :: ssdf_status
  sc_evidence :: string

record ssdf_report =
  sf_checks :: "ssdf_check list"
  sf_pass_count :: nat
  sf_fail_count :: nat
  sf_unknown_count :: nat

definition ssdf_to_dict :: "ssdf_report \<Rightarrow> pyval" where
  "ssdf_to_dict r = PDict
     [(''pass'', PInt (int (sf_pass_count r))), (''fail'', PInt (int (sf_fail_count r))),
      (''unknown'', PInt (int (sf_unknown_count r))),
      (''checks'', PList (map (\<lambda>c. PDict
         [(''code'', PStr (sc_code c)), (''title'', PStr (sc_title c)),
          (''status'', PStr (ssdf_status_value (sc_status c))),
          (''evidence'', PStr (take 200 (sc_evidence c))),
          (''reference'', PStr ''https://csrc.nist.gov/pubs/sp/800/218/final'')]) (sf_checks r))),
      (''compliance_ratio'', PFloat (round3 (of_nat (sf_pass_count r)
         / of_nat (max 1 (length (sf_checks r))))))]"

definition SCORECARD_PASS :: "(string \<times> rat) list" where
  "SCORECARD_PASS =
     [(''Security-Policy'', 7), (''Signed-Releases'', 5), (''Maintained'', 5), (''Code-Review'', 5),
      (''SAST'', 5), (''Fuzzing'', 5), (''Vulnerabilities'', 7)]"

definition scorecard_status :: "scorecard_report option \<Rightarrow> string \<Rightarrow> ssdf_status \<times> string" where
  "scorecard_status scorecard name =
     (case scorecard of
        None \<Rightarrow> (SsUNKNOWN, ''no scorecard data'')
      | Some r \<Rightarrow>
          if \<not> ks_available r then (SsUNKNOWN, ''no scorecard data'')
          else (case List.find (\<lambda>c. kc_name c = name) (ks_checks r) of
              None \<Rightarrow> (SsUNKNOWN, name @ '' check not present'')
            | Some c \<Rightarrow>
                let t = (case map_of SCORECARD_PASS name of None \<Rightarrow> 5 | Some t \<Rightarrow> t) in
                if kc_score c < 0 then (SsUNKNOWN, name @ ''=N/A'')
                else if kc_score c \<ge> t
                then (SsPASS, name @ ''='' @ fmt_1f (kc_score c) @ ''/10 (>= '' @ fmt_1f t @ '')'')
                else (SsFAIL, name @ ''='' @ fmt_1f (kc_score c) @ ''/10 (< '' @ fmt_1f t @ ''). ''
                        @ take 120 (kc_reason c))))"

definition has_sbom_in_files :: "string list \<Rightarrow> bool" where
  "has_sbom_in_files paths = list_ex (\<lambda>p. list_ex (\<lambda>k. contains k (py_lower p))
     [''sbom'', ''cyclonedx'', ''spdx'']) paths"

definition has_changelog :: "string list \<Rightarrow> bool" where
  "has_changelog paths = list_ex (\<lambda>p. let low = py_lower p; base = last (split_on (CHR ''/'') low) in
     list_ex (\<lambda>k. contains k low)
       [''changelog'', ''history.md'', ''history.rst'', ''release_notes'', ''release-notes'']
     \<or> base \<in> set [''changes.md'', ''changes.rst'', ''changes.txt'', ''changes'']
     \<or> startswith base ''changes.'') paths"

definition has_security_md :: "string list \<Rightarrow> bool" where
  "has_security_md paths = list_ex (\<lambda>p.
     endswith (py_lower p) ''security.md'' \<or> endswith (py_lower p) ''security.rst'') paths"

definition ssdf_integrity :: "score_env \<Rightarrow> ecosystem \<Rightarrow> pyval \<Rightarrow> pyexn + ssdf_status \<times> string" where
  "ssdf_integrity env eco raw =
     (if \<not> py_truth raw then Inr (SsUNKNOWN, ''no registry metadata'')
      else bindE (attr_dict ''get'' raw) (\<lambda>meta.
        case eco of
          PYPI \<Rightarrow>
            bindE (py_list (py_or (d_get meta ''urls'' PNone) (PList []))) (\<lambda>urls.
            bindE (any_sha256 urls) (\<lambda>has_hash.
            Inr (if has_hash then (SsPASS, ''PyPI provides sha256 digests'')
                 else (SsUNKNOWN, ''no sha256 found in current version metadata''))))
        | NPM \<Rightarrow>
            bindE (npm_latest meta) (\<lambda>v.
            bindE (attr_dict ''get'' v) (\<lambda>ver.
            bindE (attr_dict ''get'' (py_or (d_get ver ''dist'' PNone) (PDict []))) (\<lambda>dist.
            let integrity = d_get dist ''integrity'' PNone in
            Inr (if py_truth integrity
                 then (SsPASS, ''npm dist.integrity = '' @ kv_str env integrity)
                 else (SsUNKNOWN, ''no dist.integrity in versions[latest]'')))))))"

definition ssdf_check_of :: "string \<Rightarrow> string \<Rightarrow> ssdf_status \<times> string \<Rightarrow> ssdf_check" where
  "ssdf_check_of code title_text s =
     \<lparr>sc_code = code, sc_title = title_text, sc_status = fst s, sc_evidence = snd s\<rparr>"

definition ssdf_checks ::
  "ecosystem \<Rightarrow> bool \<Rightarrow> string list \<Rightarrow> scorecard_report option \<Rightarrow> ssdf_status \<times> string \<Rightarrow> ssdf_check list" where
  "ssdf_checks eco registry_found paths scorecard integrity =
     (let status = scorecard_status scorecard; policy = status ''Security-Policy'';
          secmd = has_security_md paths; sast = status ''SAST''; fuzz = status ''Fuzzing'';
          tests = (if fst sast = SsPASS \<or> fst fuzz = SsPASS then SsPASS
                   else if fst sast = SsFAIL \<and> fst fuzz = SsFAIL then SsFAIL else SsUNKNOWN);
          reporting = (secmd \<or> (case scorecard of None \<Rightarrow> False | Some r \<Rightarrow>
            list_ex (\<lambda>c. kc_name c = ''Security-Policy'' \<and> kc_score c \<ge> 7) (ks_checks r)))
      in [ssdf_check_of ''PO.4.1'' ''Security policy / report channel exists''
            (if secmd then (SsPASS, ''SECURITY.md found ('' @ snd policy @ '')'') else policy),
          ssdf_check_of ''PS.1.1'' ''File integrity protection (signed releases)''
            (status ''Signed-Releases''),
          ssdf_check_of ''PS.2.1'' ''Software change history disclosed''
            (if has_changelog paths then (SsPASS, ''CHANGELOG/HISTORY found'')
             else (SsUNKNOWN, ''no CHANGELOG file in archive'')),
          ssdf_check_of ''PS.3.1'' ''Software Bill of Materials (SBOM) provided''
            (if has_sbom_in_files paths then (SsPASS, ''SBOM file found in archive'')
             else (SsFAIL, ''no SBOM (sbom.json / cyclonedx / spdx) in archive'')),
          ssdf_check_of ''PW.4.1'' ''Component is actively maintained'' (status ''Maintained''),
          ssdf_check_of ''PW.4.4'' ''Component obtained from authoritative source''
            (if registry_found then (SsPASS, ''published on '' @ ecosystem_value eco)
             else (SsFAIL, ''not found on '' @ ecosystem_value eco)),
          ssdf_check_of ''PW.4.5'' ''Component integrity is verifiable'' integrity,
          ssdf_check_of ''PW.7.1'' ''Code review policy enforced (PR-based)'' (status ''Code-Review''),
          ssdf_check_of ''PW.8.1'' ''Test/scan automation exists''
            (tests, ''SAST: '' @ snd sast @ ''; Fuzzing: '' @ snd fuzz),
          ssdf_check_of ''RV.1.1'' ''No known unpatched vulnerabilities'' (status ''Vulnerabilities''),
          ssdf_check_of ''RV.2.1'' ''Vulnerability reporting channel exists''
            (if reporting then SsPASS else SsUNKNOWN, ''SECURITY.md or Scorecard Security-Policy'')])"

definition count_status :: "ssdf_status \<Rightarrow> ssdf_check list \<Rightarrow> nat" where
  "count_status s cs = length (filter (\<lambda>c. sc_status c = s) cs)"

definition ssdf_evaluate ::
  "score_env \<Rightarrow> ecosystem \<Rightarrow> bool \<Rightarrow> pyval \<Rightarrow> string list \<Rightarrow> scorecard_report option
    \<Rightarrow> pyexn + ssdf_report" where
  "ssdf_evaluate env eco registry_found raw paths scorecard =
     bindE (ssdf_integrity env eco raw) (\<lambda>integrity.
     let cs = ssdf_checks eco registry_found paths scorecard integrity in
     Inr \<lparr>sf_checks = cs, sf_pass_count = count_status SsPASS cs,
          sf_fail_count = count_status SsFAIL cs, sf_unknown_count = count_status SsUNKNOWN cs\<rparr>)"

text \<open>Every check is counted once.\<close>

lemma count_status_total:
  "count_status SsPASS cs + count_status SsFAIL cs + count_status SsUNKNOWN cs = length cs"
proof (induction cs)
  case (Cons c cs)
  then show ?case by (cases "sc_status c") (simp_all add: count_status_def)
qed (simp add: count_status_def)

lemma length_ssdf_checks: "length (ssdf_checks eco found paths scorecard integrity) = 11"
  unfolding ssdf_checks_def Let_def list.size by simp

lemma ssdf_counts:
  assumes "ssdf_evaluate env eco found raw paths scorecard = Inr r"
  shows "length (sf_checks r) = 11 \<and> sf_pass_count r + sf_fail_count r + sf_unknown_count r = 11"
proof -
  from assms obtain integrity where "r = (let cs = ssdf_checks eco found paths scorecard integrity in
      \<lparr>sf_checks = cs, sf_pass_count = count_status SsPASS cs,
       sf_fail_count = count_status SsFAIL cs, sf_unknown_count = count_status SsUNKNOWN cs\<rparr>)"
    unfolding ssdf_evaluate_def bindE_Inr_iff Let_def by blast
  then show ?thesis
    using count_status_total [of "ssdf_checks eco found paths scorecard integrity"]
    by (simp add: Let_def length_ssdf_checks)
qed

end
