(* ===== verification/Pipeline.thy ===== *)
theory Pipeline
  imports VerdictRules MultiAgent AnalysisCache FullDiff ThreatFilter AttackIndex TaintPython
    AgenticStage Reputation
begin

text \<open>
  \<^verbatim>\<open>run_pipeline\<close> (\<^verbatim>\<open>pipeline.py\<close>, \<^verbatim>\<open>_pipeline_state.py\<close>): the stages in the order the program runs
  them, as a state that is passed along. The context holds what the stages accumulate (results,
  evidence, the two cache tables); an early return is the left summand of an outcome. What the
  stages produce for later ones (registry entry, archive, behaviour report, diff, ...) is passed as
  arguments.

  The network, the parsers, the language model, the clocks and the two scanners that are not
  modelled (native binaries, sandbox) are fields of \<open>pipe_env\<close>. A latest version or archive URL
  that is not a string counts as absent.
\<close>

subsection \<open>Input, environment, state\<close>

record pipe_input =
  pi_package :: string
  pi_ecosystem :: ecosystem
  pi_version :: "string option"
  pi_llm_mode :: string
  pi_llm_model :: string
  pi_enable_deps :: bool
  pi_enable_sandbox :: bool
  pi_multi_agent :: bool
  pi_integrity_mode :: string
  pi_use_cache :: bool
  pi_force_rescan :: bool
  pi_threat_filter :: bool

record pipe_env =
  pv_now :: string
  pv_api_key :: bool
  pv_traceback :: "pyexn \<Rightarrow> string"
  pv_http :: "string \<Rightarrow> http_result"
  pv_threat :: "pyexn + threat_tables"
  pv_index :: "pyexn + attack_index"
  pv_scores :: score_env
  pv_db_error :: "pyexn option"
  pv_cache :: cache_env
  pv_stage :: stage_env
  pv_archive :: archive_env
  pv_sha :: "string \<Rightarrow> string"
  pv_agentic :: agentic_env
  pv_parse :: "string \<Rightarrow> pyexn + pynode"
  pv_js :: "entry_file \<Rightarrow> pyexn + file_sequence"
  pv_strings :: string_env
  pv_diff :: diff_env
  pv_ttp_clock :: "rule_hit \<Rightarrow> string"
  pv_ttp_index :: "pyexn + ttp_index"
  pv_iso :: "string \<Rightarrow> string option"
  pv_text :: text_env
  pv_deps :: dep_env
  pv_graph :: graph_env
  pv_llm :: llm_env
  pv_binaries :: "string \<Rightarrow> string list \<Rightarrow> pyexn + binary_finding list"
  pv_sandbox :: "string \<Rightarrow> ecosystem \<Rightarrow> string \<Rightarrow> pyexn + sandbox_observation"
  pv_taxonomies :: "verdict \<Rightarrow> pydict"

record pipe_db =
  pd_cache :: cache_db
  pd_stages :: stage_db

record pipe_ctx =
  px_results :: "stage_result list"
  px_evidence :: "evidence list"
  px_db :: pipe_db

type_synonym outcome = "analysis_report \<times> pipe_db"

definition add_result :: "stage_result \<Rightarrow> pipe_ctx \<Rightarrow> pipe_ctx" where
  "add_result r cx = cx\<lparr>px_results := px_results cx @ [r]\<rparr>"

definition add_evidence :: "evidence list \<Rightarrow> pipe_ctx \<Rightarrow> pipe_ctx" where
  "add_evidence es cx = cx\<lparr>px_evidence := px_evidence cx @ es\<rparr>"

definition stage_outcome :: "string \<Rightarrow> string option \<Rightarrow> pydict \<Rightarrow> stage_result" where
  "stage_outcome name err payload =
     \<lparr>sr_stage = name, sr_success = (err = None), sr_error = err, sr_payload = payload\<rparr>"

definition full_error :: "pipe_env \<Rightarrow> pyexn \<Rightarrow> string" where
  "full_error env e = exn_str e @ newline @ pv_traceback env e"

definition or_text :: "string option \<Rightarrow> string \<Rightarrow> string" where
  "or_text m d = (if truthy_opt m then the m else d)"

text \<open>A report of what the context holds, and an early return with it.\<close>

definition report_with ::
  "pipe_env \<Rightarrow> pipe_input \<Rightarrow> string \<Rightarrow> verdict \<Rightarrow> evidence list \<Rightarrow> pydict \<Rightarrow> pipe_ctx \<Rightarrow> analysis_report" where
  "report_with env i version v es meta cx =
     (empty_report (pv_now env) (pi_package i) (pi_ecosystem i) version)
       \<lparr>ar_verdict := v, ar_evidence := es, ar_stage_results := px_results cx, ar_package_meta := meta\<rparr>"

definition error_report :: "pipe_env \<Rightarrow> pipe_input \<Rightarrow> string \<Rightarrow> pipe_ctx \<Rightarrow> outcome" where
  "error_report env i version cx =
     (report_with env i version ERROR (px_evidence cx) [] cx, px_db cx)"

definition nat_pv :: "nat \<Rightarrow> pyval" where
  "nat_pv n = PInt (int n)"

subsection \<open>Stages 0 to 0D\<close>

definition integrity_mode_of :: "string \<Rightarrow> integrity_mode" where
  "integrity_mode_of s =
     (case enum_of [FAST, STRICT, PARANOID] integrity_mode_value s of Inr m \<Rightarrow> m | Inl _ \<Rightarrow> STRICT)"

definition no_api_key_error :: string where
  "no_api_key_error = ''ANTHROPIC_API_KEY '' @ utf8
    [237, 153, 152, 234, 178, 189, 235, 179, 128, 236, 136, 152, 32, 235, 175, 184, 236, 132, 164, 236,
     160, 149, 46, 32, 237, 130, 164, 235, 165, 188, 32, 236, 132, 164, 236, 160, 149, 237, 149, 152, 234,
     177, 176, 235, 130, 152, 44, 32, 236, 160, 149, 236, 160, 129, 32, 235, 182, 132, 236, 132, 157, 235,
     167, 140, 32, 236, 155, 144, 237, 149, 152, 235, 169, 180]
    @ '' --llm stub '' @ utf8
    [236, 156, 188, 235, 161, 156, 32, 236, 139, 164, 237, 150, 137, 46, 32, 235, 139, 168, 44]
    @ '' stub '' @ utf8
    [235, 170, 168, 235, 147, 156, 235, 138, 148, 32, 236, 157, 184, 234, 184, 176, 32, 237, 140, 168, 237,
     130, 164, 236, 167, 128, 236, 151, 144, 236, 132, 156]
    @ '' FP '' @ utf8
    [236, 156, 168, 236, 157, 180, 32, 235, 167, 164, 236, 154, 176, 32, 235, 134, 146, 236, 157, 140, 46]"

definition stage_0 :: "pipe_env \<Rightarrow> pipe_input \<Rightarrow> pipe_ctx \<Rightarrow> outcome + registry_info \<times> pipe_ctx" where
  "stage_0 env i cx =
     (case registry_check (pv_http env) (pi_package i) (pi_ecosystem i) of
        Inl e \<Rightarrow>
          let cx = add_result (stage_fail ''stage_0_registry'' (full_error env e)) cx in
          Inl (report_with env i (or_text (pi_version i) ''unknown'') ERROR [] [] cx, px_db cx)
      | Inr reg \<Rightarrow>
          let cx = add_result (stage_outcome ''stage_0_registry'' (rg_error reg)
                     [(''found'', PBool (rg_found reg))]) cx
          in if \<not> rg_found reg
             then Inl (report_with env i (or_text (pi_version i) ''unknown'') CANNOT_ANALYZE []
                    [(''reason'', PStr ''registry_not_found'')] cx, px_db cx)
             else Inr (reg, cx))"

definition latest_text :: "registry_info \<Rightarrow> string option" where
  "latest_text reg = (case rg_latest_version reg of PStr s \<Rightarrow> Some s | _ \<Rightarrow> None)"

definition stage_0a :: "pipe_env \<Rightarrow> pipe_input \<Rightarrow> registry_info \<Rightarrow> pipe_ctx \<Rightarrow> outcome + pipe_ctx" where
  "stage_0a env i reg cx =
     (if \<not> pi_threat_filter i then Inr cx
      else
        let rpt = threat_filter (pv_threat env) (pi_package i) (pi_ecosystem i);
            es = threat_evidence rpt (pi_package i) (ecosystem_value (pi_ecosystem i));
            cx = add_result \<lparr>sr_stage = ''stage_0a_threat_filter'', sr_success = (\<not> tf_skipped rpt),
                   sr_error = tf_error rpt,
                   sr_payload = [(''exact_match'', PBool (tf_exact_match rpt)),
                     (''advisory_id'', popt PStr (tf_advisory_id rpt)),
                     (''popular_rank'', popt PInt (tf_popular_rank rpt)),
                     (''typosquat_candidates'', nat_pv (length (tf_typosquat_candidates rpt)))]\<rparr> cx
        in if tf_exact_match rpt
           then let cx = add_evidence es cx in
             Inl (report_with env i (or_text (pi_version i) (or_text (latest_text reg) ''unknown''))
                    MALICIOUS (px_evidence cx)
                    [(''shortcircuit_reason'', PStr ''known_malicious_in_threat_feed''),
                     (''advisory_id'', popt PStr (tf_advisory_id rpt)),
                     (''advisory_summary'', popt PStr (tf_advisory_summary rpt))] cx, px_db cx)
           else Inr (if tf_typosquat_candidates rpt \<noteq> [] then add_evidence es cx else cx))"

definition stage_0b :: "pipe_env \<Rightarrow> pipe_input \<Rightarrow> pipe_ctx \<Rightarrow> pipe_ctx" where
  "stage_0b env i cx =
     (case check_attack_history (pv_index env) (pi_package i) (pi_ecosystem i)
             (if truthy_opt (pi_version i) then pi_version i else None) of
        Inl e \<Rightarrow> add_result (stage_fail ''stage_0b_attack_history'' (exn_str e)) cx
      | Inr hist \<Rightarrow>
          let cx = add_result (stage_outcome ''stage_0b_attack_history'' (ah_error hist)
                     [(''exact_matches'', nat_pv (length (ah_exact_matches hist))),
                      (''historical_name_matches'', nat_pv (length (ah_historical_name_matches hist))),
                      (''typosquat_candidates'', nat_pv (length (ah_typosquat_candidates hist)))]) cx
          in if any_hit hist then add_evidence (history_evidence ''<registry>'' hist) cx else cx)"

definition stage_0c ::
  "pipe_env \<Rightarrow> pipe_input \<Rightarrow> registry_info \<Rightarrow> pipe_ctx \<Rightarrow> scorecard_report option \<times> pipe_ctx" where
  "stage_0c env i reg cx =
     (case fetch_for_package (pv_scores env) (rg_raw_metadata reg) (pi_ecosystem i) of
        Inl e \<Rightarrow> (None, add_result (stage_fail ''stage_0c_scorecard'' (exn_str e)) cx)
      | Inr r \<Rightarrow> (Some r, add_result \<lparr>sr_stage = ''stage_0c_scorecard'', sr_success = ks_available r,
          sr_error = ks_error r,
          sr_payload = [(''repo'', popt PStr (ks_repo r)), (''score'', popt PFloat (ks_overall_score r)),
            (''checks'', nat_pv (length (ks_checks r)))]\<rparr> cx))"

definition stage_0d ::
  "pipe_env \<Rightarrow> pipe_input \<Rightarrow> registry_info \<Rightarrow> pipe_ctx \<Rightarrow> slsa_report \<times> pipe_ctx" where
  "stage_0d env i reg cx =
     (let r = slsa_evaluate (pv_scores env) (rg_raw_metadata reg) (pi_ecosystem i) in
      (r, add_result (stage_outcome ''stage_0d_slsa'' (sl_error r)
            [(''level'', PStr (slsa_level_value (sl_level r))),
             (''has_provenance'', PBool (sl_has_provenance r)),
             (''has_signature'', PBool (sl_has_signature r))]) cx))"

subsection \<open>Archive, cache look-up, extraction\<close>

definition target_version :: "pipe_input \<Rightarrow> registry_info \<Rightarrow> string" where
  "target_version i reg = or_text (pi_version i) (or_text (latest_text reg) [])"

definition target_url :: "registry_info \<Rightarrow> string \<Rightarrow> string" where
  "target_url reg version = try_else (as_str (archive_url_of reg version)) []"

definition no_archive :: "pipe_env \<Rightarrow> pipe_input \<Rightarrow> string \<Rightarrow> pipe_ctx \<Rightarrow> outcome" where
  "no_archive env i version cx =
     (let cx = add_result (stage_fail ''stage_1b_full_source'' (''no archive url for '' @ version)) cx in
      (report_with env i version (decide_verdict (px_evidence cx) (px_results cx) True)
         (px_evidence cx) [] cx, px_db cx))"

definition cache_key_of :: "pipe_input \<Rightarrow> string \<Rightarrow> cache_key" where
  "cache_key_of i version = \<lparr>ck_package = pi_package i, ck_ecosystem = ecosystem_value (pi_ecosystem i),
     ck_version = version, ck_engine_version = ENGINE_VERSION\<rparr>"

text \<open>The report of a cache hit: the verdict is read back, the evidence only counted.\<close>

definition cached_meta :: "cache_hit \<Rightarrow> pydict \<Rightarrow> pyexn + pydict" where
  "cached_meta h report =
     bindE (as_dict (py_or (d_get report ''package_meta'' (PDict [])) (PDict []))) (\<lambda>meta.
     bindE (py_len (py_or (d_get report ''evidence'' (PList [])) (PList []))) (\<lambda>n.
     Inr (AList.update ''cached_evidence_count'' (nat_pv n)
       (AList.update ''cached_at'' (case ch_cache_row h of None \<Rightarrow> PNone | Some r \<Rightarrow> PStr (an_analyzed_at r))
         (AList.update ''cache_hit'' (PBool True) meta)))))"

definition cached_verdict :: "pydict \<Rightarrow> verdict" where
  "cached_verdict report = try_else (enum_pv verdicts verdict_value (d_get report ''verdict'' (PStr ''ERROR''))) ERROR"

definition open_db :: "pipe_env \<Rightarrow> pyexn + unit" where
  "open_db env = (case pv_db_error env of None \<Rightarrow> Inr () | Some e \<Rightarrow> Inl e)"

definition stage_0e ::
  "pipe_env \<Rightarrow> pipe_input \<Rightarrow> string \<Rightarrow> string \<Rightarrow> pipe_ctx \<Rightarrow> outcome + pipe_ctx" where
  "stage_0e env i version url cx =
     (if \<not> pi_use_cache i \<or> pi_force_rescan i then Inr cx
      else let mode = integrity_mode_of (pi_integrity_mode i);
               failed = (\<lambda>e cx. Inr (add_result (stage_fail ''stage_0e_cache_lookup'' (exn_str e)) cx))
        in case bindE (open_db env) (\<lambda>_.
               cache_get (pv_cache env) mode 7 (cache_key_of i version) (Some url) (pd_cache (px_db cx))) of
          Inl e \<Rightarrow> failed e cx
        | Inr (cdb, h) \<Rightarrow>
            let cx = add_result (stage_ok ''stage_0e_cache_lookup''
                   [(''checked'', PBool True), (''hit'', PBool (ch_hit h)), (''reason'', PStr (ch_reason h)),
                    (''integrity_mode'', PStr (integrity_mode_value mode))])
                   (cx\<lparr>px_db := (px_db cx)\<lparr>pd_cache := cdb\<rparr>\<rparr>)
            in (case ch_report h of
                  None \<Rightarrow> Inr cx
                | Some v \<Rightarrow>
                    if \<not> ch_hit h then Inr cx
                    else (case bindE (attr_dict ''get'' v) (\<lambda>report.
                             bindE (cached_meta h report) (\<lambda>meta. Inr (cached_verdict report, meta))) of
                        Inl e \<Rightarrow> failed e cx
                      | Inr (v, meta) \<Rightarrow> Inl (report_with env i version v [] meta cx, px_db cx))))"

definition source_digest :: "pipe_env \<Rightarrow> full_source_extract \<Rightarrow> string" where
  "source_digest env x = take 32 (sha_hex (pv_sha env)
     (concat (map (\<lambda>sf. fs_path sf @ CHR 0x00 # fs_content sf) (sort_key fs_path (fx_source_files x)))))"

definition stage_1b ::
  "pipe_env \<Rightarrow> pipe_input \<Rightarrow> string \<Rightarrow> string \<Rightarrow> pipe_ctx \<Rightarrow> outcome + (full_source_extract \<times> string) \<times> pipe_ctx" where
  "stage_1b env i version url cx =
     (let x = extract_all (pv_archive env) (pi_package i) (pi_ecosystem i) version url;
          sha = source_digest env x;
          cx = add_result (stage_outcome ''stage_1b_full_source'' (fx_error x)
            [(''archive_size'', nat_pv (fx_archive_size x)),
             (''source_files'', nat_pv (length (fx_source_files x))),
             (''binary_files'', nat_pv (length (fx_binary_files x))),
             (''total_files'', nat_pv (length (fx_all_file_names x))),
             (''ext_sha256'', if fx_error x = None then PStr sha else PNone)]) cx
      in case fx_error x of
           None \<Rightarrow> Inr ((x, sha), cx)
         | Some e \<Rightarrow> Inl (error_report env i version
             (add_result (stage_fail ''stage_1b_full_source'' e) cx)))"

subsection \<open>Stage 1C\<close>

definition meta_info :: "registry_info \<Rightarrow> pyexn + pydict" where
  "meta_info reg =
     bindE (attr_dict ''get'' (rg_raw_metadata reg)) (\<lambda>meta.
     attr_dict ''get'' (py_or (d_get meta ''info'' (PDict [])) (PDict [])))"

definition meta_description :: "registry_info \<Rightarrow> nat \<Rightarrow> pyexn + string" where
  "meta_description reg n =
     (if \<not> py_truth (rg_raw_metadata reg) then Inr []
      else bindE (meta_info reg) (\<lambda>info.
           bindE (as_str (py_or (py_or (d_get info ''summary'' PNone) (d_get info ''description'' PNone))
                    (PStr []))) (\<lambda>t. Inr (take n t))))"

definition declared_names :: "pipe_env \<Rightarrow> pipe_input \<Rightarrow> full_source_extract \<Rightarrow> string list" where
  "declared_names env i x = try_else
     (bindE (extract_dependencies (pv_deps env) (fx_source_files x) (pi_ecosystem i))
        (\<lambda>d. Inr (map dp_name (dx_direct d)))) []"

definition agentic_payload :: "agentic_classification \<Rightarrow> pydict" where
  "agentic_payload c =
     [(''is_agentic'', PBool (ac_is_agentic c)), (''manifest_present'', PBool (ac_manifest c \<noteq> None)),
      (''signal_score'', nat_pv (case ac_signal c of None \<Rightarrow> 0 | Some s \<Rightarrow> sg_score s)),
      (''declared'', pstrs (sorted_set (ac_declared c))), (''detected'', pstrs (sorted_set (ac_detected c))),
      (''undeclared'', pstrs (sorted_set (ac_undeclared c))),
      (''verdict'', PStr (verdict_value (ac_verdict c)))]"

definition stage_1c ::
  "pipe_env \<Rightarrow> pipe_input \<Rightarrow> registry_info \<Rightarrow> string \<Rightarrow> full_source_extract \<Rightarrow> pipe_ctx
    \<Rightarrow> outcome + stage_agentic_result option \<times> pipe_ctx" where
  "stage_1c env i reg version x cx =
     (case bindE (meta_description reg 300) (\<lambda>d.
             agentic_run (pv_agentic env) (pi_package i) d (declared_names env i x) (fx_source_files x)
               (pi_ecosystem i)) of
        Inl e \<Rightarrow> Inr (None, add_result (stage_fail ''stage_1c_agentic''
            (exn_str e @ newline @ take 300 (pv_traceback env e))) cx)
      | Inr r \<Rightarrow>
          let cx = add_result (stage_ok ''stage_1c_agentic'' (agentic_payload (sa_classification r))) cx;
              cx' = add_evidence (sa_evidence r) cx
          in if sa_triggered r \<and> sa_verdict r \<in> {Some MALICIOUS, Some HIGH_RISK}
             then Inl (report_with env i version (the (sa_verdict r)) (px_evidence cx')
                    (sa_package_meta r) cx', px_db cx')
             else Inr (Some r, if sa_triggered r then cx' else cx))"

subsection \<open>Stages behind the stage cache\<close>

definition stage_key_of :: "pipe_input \<Rightarrow> string \<Rightarrow> string \<Rightarrow> stage_key" where
  "stage_key_of i version name = \<lparr>sk_package = pi_package i,
     sk_ecosystem = ecosystem_value (pi_ecosystem i), sk_version = version, sk_stage = name\<rparr>"

definition cache_opts_of :: "pipe_input \<Rightarrow> string \<Rightarrow> cache_opts" where
  "cache_opts_of i sha = \<lparr>co_use_cache = pi_use_cache i, co_force_rescan = pi_force_rescan i,
     co_archive_sha = Some sha\<rparr>"

text \<open>Opening the cache can fail; only a run that uses it does.\<close>

definition open_stage_cache :: "pipe_env \<Rightarrow> pipe_input \<Rightarrow> pyexn + unit" where
  "open_stage_cache env i = (if pi_use_cache i then open_db env else Inr ())"

definition set_stages :: "stage_db \<Rightarrow> pipe_ctx \<Rightarrow> pipe_ctx" where
  "set_stages db cx = cx\<lparr>px_db := (px_db cx)\<lparr>pd_stages := db\<rparr>\<rparr>"

definition behind_cache ::
  "pipe_env \<Rightarrow> pipe_input \<Rightarrow> string \<Rightarrow> string \<Rightarrow> string \<Rightarrow> ('a \<Rightarrow> pyval) \<Rightarrow> (pyval \<Rightarrow> pyexn + 'a) \<Rightarrow> pyexn + 'a
    \<Rightarrow> pipe_ctx \<Rightarrow> pyexn + 'a \<times> string \<times> pipe_ctx" where
  "behind_cache env i version sha name to_dict from_dict compute cx =
     bindE (open_stage_cache env i) (\<lambda>_.
     bindE (cached_stage (pv_stage env) (cache_opts_of i sha) (stage_key_of i version name)
              to_dict from_dict compute (pd_stages (px_db cx))) (\<lambda>(r, status, db).
     Inr (r, status, set_stages db cx)))"

text \<open>Stage 2: unlike the later stages, a stored result that cannot be read back is an error.\<close>

definition run_behavior ::
  "pipe_env \<Rightarrow> pipe_input \<Rightarrow> string \<Rightarrow> string \<Rightarrow> full_source_extract \<Rightarrow> pipe_ctx
    \<Rightarrow> pyexn + behavior_report \<times> string \<times> pipe_ctx" where
  "run_behavior env i version sha x cx =
     (let opts = cache_opts_of i sha; key = stage_key_of i version ''stage_2_behavior'';
          hit = stage_lookup (pv_stage env) opts key (pd_stages (px_db cx))
      in bindE (open_stage_cache env i) (\<lambda>_.
         case hit of
           Some h \<Rightarrow> if sh_hit h
             then bindE (behavior_from_dict (the (sh_payload h))) (\<lambda>b. Inr (b, ''hit'', cx))
             else bindE (analyze_files (pv_parse env) (pv_js env) (to_entry_files x)) (\<lambda>b.
                  bindE (stage_put (pv_stage env) key (behavior_to_dict b) (Some sha) None
                           (pd_stages (px_db cx))) (\<lambda>(db, _). Inr (b, ''miss'', set_stages db cx)))
         | None \<Rightarrow>
             bindE (analyze_files (pv_parse env) (pv_js env) (to_entry_files x)) (\<lambda>b.
             bindE (if pi_use_cache i
                    then stage_put (pv_stage env) key (behavior_to_dict b) (Some sha) None
                           (pd_stages (px_db cx))
                    else Inr (pd_stages (px_db cx), PNone)) (\<lambda>(db, _).
             Inr (b, ''disabled'', set_stages db cx)))))"

definition stage_2 ::
  "pipe_env \<Rightarrow> pipe_input \<Rightarrow> string \<Rightarrow> string \<Rightarrow> full_source_extract \<Rightarrow> pipe_ctx
    \<Rightarrow> outcome + behavior_report \<times> pipe_ctx" where
  "stage_2 env i version sha x cx =
     (case run_behavior env i version sha x cx of
        Inl e \<Rightarrow> Inl (error_report env i version
          (add_result (stage_fail ''stage_2_behavior_sequence'' (full_error env e)) cx))
      | Inr (b, status, cx) \<Rightarrow> Inr (b, add_result (stage_ok ''stage_2_behavior_sequence''
          [(''files_analyzed'', nat_pv (length (bh_files b))),
           (''files_with_calls'', nat_pv (length (filter (\<lambda>f. fq_calls f \<noteq> []) (bh_files b)))),
           (''total_calls'', nat_pv (length (all_calls b))), (''stage_cache'', PStr status)]) cx))"

subsection \<open>Stage 2B\<close>

text \<open>
  Replaying the stored strings: file by file into the evidence; when one cannot be read back, what
  was replayed before stays. The scan that follows then starts over.
\<close>

fun replay_strings :: "pydict \<Rightarrow> evidence list \<times> nat \<Rightarrow> (evidence list \<times> nat) \<times> bool" where
  "replay_strings [] acc = (acc, True)"
| "replay_strings ((path, items) # rest) (es, n) =
     (case bindE (py_list items) (mapE ss_from_dict) of
        Inl _ \<Rightarrow> ((es, n), False)
      | Inr strs \<Rightarrow> replay_strings rest (es @ sstr_to_evidence path strs, n + length strs))"

fun scan_strings ::
  "pipe_env \<Rightarrow> full_source_file list \<Rightarrow> (evidence list \<times> nat) \<times> pydict
    \<Rightarrow> ((evidence list \<times> nat) \<times> pydict) \<times> pyexn option" where
  "scan_strings env [] acc = (acc, None)"
| "scan_strings env (sf # sfs) ((es, n), payload) =
     (if fs_language sf \<notin> set [''python'', ''javascript''] then scan_strings env sfs ((es, n), payload)
      else case analyze_strings (pv_strings env) (pv_parse env) (fs_content sf) (fs_language sf) of
        Inl e \<Rightarrow> (((es, n), payload), Some e)
      | Inr [] \<Rightarrow> scan_strings env sfs ((es, n), payload)
      | Inr strs \<Rightarrow> scan_strings env sfs
          ((es @ sstr_to_evidence (fs_path sf) strs, n + length strs),
           AList.update (fs_path sf) (PList (map ss_to_dict strs)) payload))"

definition replay_hit :: "stage_hit option \<Rightarrow> (evidence list \<times> nat) \<times> bool" where
  "replay_hit hit =
     (case hit of
        None \<Rightarrow> (([], 0), False)
      | Some h \<Rightarrow>
          if \<not> sh_hit h then (([], 0), False)
          else (case bindE (attr_dict ''get'' (the (sh_payload h))) (\<lambda>d.
                  attr_dict ''items'' (d_get d ''per_file'' (PDict []))) of
              Inl _ \<Rightarrow> (([], 0), False)
            | Inr per_file \<Rightarrow> replay_strings per_file ([], 0)))"

definition stage_2b ::
  "pipe_env \<Rightarrow> pipe_input \<Rightarrow> string \<Rightarrow> string \<Rightarrow> full_source_extract \<Rightarrow> pipe_ctx \<Rightarrow> pipe_ctx" where
  "stage_2b env i version sha x cx =
     (let name = ''stage_2b_string_analysis''; opts = cache_opts_of i sha;
          key = stage_key_of i version ''stage_2b_string'';
          done = (\<lambda>es n status cx. add_result (stage_ok name
            [(''suspicious_strings'', nat_pv n), (''stage_cache'', PStr status)]) (add_evidence es cx))
      in case open_stage_cache env i of
        Inl e \<Rightarrow> add_result (stage_fail name (exn_str e)) cx
      | Inr _ \<Rightarrow>
          let hit = stage_lookup (pv_stage env) opts key (pd_stages (px_db cx)) in
          (case replay_hit hit of
             ((es, n), True) \<Rightarrow> done es n ''hit'' cx
           | ((es, n), False) \<Rightarrow>
               (case scan_strings env (fx_source_files x) ((es, n), []) of
                  (((es, n), payload), Some e) \<Rightarrow>
                    add_result (stage_fail name (exn_str e)) (add_evidence es cx)
                | (((es, n), payload), None) \<Rightarrow>
                    done es n
                      (case hit of None \<Rightarrow> ''disabled'' | Some h \<Rightarrow> if sh_hit h then ''disabled'' else ''miss'')
                      (set_stages (stage_store (pv_stage env) opts key
                         (PDict [(''per_file'', PDict payload)]) (pd_stages (px_db cx))) cx))))"

subsection \<open>Stages 3B and 4\<close>

definition stage_3b ::
  "pipe_env \<Rightarrow> pipe_input \<Rightarrow> registry_info \<Rightarrow> string \<Rightarrow> string \<Rightarrow> full_source_extract \<Rightarrow> behavior_report
    \<Rightarrow> pipe_ctx \<Rightarrow> full_diff_result option \<times> pipe_ctx" where
  "stage_3b env i reg version sha x b cx =
     (let key = stage_key_of i version ''stage_3b_version_diff'';
          hit = stage_lookup (pv_stage env) (cache_opts_of i sha) key (pd_stages (px_db cx))
      in case behind_cache env i version sha ''stage_3b_version_diff'' diff_to_dict diff_from_dict
             (Inr (analyze_full_diff (pv_diff env) (pd_stages (px_db cx)) reg x b)) cx of
        Inl e \<Rightarrow> (None, add_result (stage_fail ''stage_3b_version_diff'' (exn_str e)) cx)
      | Inr (d, status, cx) \<Rightarrow>
          let status = (if status = ''miss'' \<and> (case hit of None \<Rightarrow> False | Some h \<Rightarrow> sh_hit h)
                        then ''disabled'' else status)
          in (Some d, add_result (stage_outcome ''stage_3b_version_diff'' (fr_error d)
            [(''compared'', pstrs (fr_compared_versions d)),
             (''changed_files'', nat_pv (length (fr_file_diffs d))),
             (''severity'', PStr (severity_value (fr_overall_severity d))),
             (''stage_cache'', PStr status)]) cx))"

definition stage_4 ::
  "pipe_env \<Rightarrow> pipe_input \<Rightarrow> string \<Rightarrow> string \<Rightarrow> behavior_report \<Rightarrow> pipe_ctx
    \<Rightarrow> outcome + ttp_match_report \<times> pipe_ctx" where
  "stage_4 env i version sha b cx =
     (case behind_cache env i version sha ''stage_4_ttp'' ttp_report_to_dict
             (ttp_report_from_dict (pv_iso env) (pv_now env))
             (match_ttps (pv_ttp_clock env) (pv_ttp_index env) 3 b) cx of
        Inl e \<Rightarrow> Inl (error_report env i version
          (add_result (stage_fail ''stage_4_ttp_matching'' (full_error env e)) cx))
      | Inr (m, status, cx) \<Rightarrow> Inr (m, add_result (stage_ok ''stage_4_ttp_matching''
          [(''matches'', nat_pv (length (tmr_matches m))), (''stage_cache'', PStr status)]) cx))"

subsection \<open>Stages 4B to 4D\<close>

definition meta_author :: "registry_info \<Rightarrow> pyexn + string" where
  "meta_author reg =
     (if \<not> py_truth (rg_raw_metadata reg) then Inr []
      else bindE (meta_info reg) (\<lambda>info.
           as_str (py_or (py_or (d_get info ''author'' PNone) (d_get info ''author_email'' PNone))
             (PStr []))))"

definition stage_4b ::
  "pipe_env \<Rightarrow> pipe_input \<Rightarrow> registry_info \<Rightarrow> behavior_report \<Rightarrow> pipe_ctx \<Rightarrow> (string \<times> string) \<times> pipe_ctx" where
  "stage_4b env i reg b cx =
     (case bindE (meta_description reg 200) (\<lambda>d. bindE (meta_author reg) (\<lambda>a. Inr (d, a))) of
        Inl e \<Rightarrow> (([], []), add_result (stage_fail ''stage_4b_anomaly_detection'' (exn_str e)) cx)
      | Inr (d, a) \<Rightarrow>
          let fs = detect_anomalies (pi_package i) d (bh_files b) in
          ((d, a), add_result (stage_ok ''stage_4b_anomaly_detection'' [(''anomalies'', nat_pv (length fs))])
             (add_evidence (map anomaly_to_evidence fs) cx)))"

definition codes_in_file :: "indicator_report \<Rightarrow> string \<Rightarrow> string list" where
  "codes_in_file r path =
     map (\<lambda>h. mi_code (ih_indicator h)) (filter (\<lambda>h. ih_file_path h = path) (ir_hits r))"

definition indicator_evidence :: "indicator_report \<Rightarrow> evidence list" where
  "indicator_evidence r =
     map (\<lambda>h. indicator_hit_to_evidence h (codes_in_file r (ih_file_path h))) (ir_hits r)"

definition stage_4c ::
  "pipe_env \<Rightarrow> pipe_input \<Rightarrow> string \<Rightarrow> string \<Rightarrow> full_source_extract \<Rightarrow> behavior_report \<Rightarrow> string \<Rightarrow> string
    \<Rightarrow> pipe_ctx \<Rightarrow> pipe_ctx" where
  "stage_4c env i version sha x b description author cx =
     (case behind_cache env i version sha ''stage_4c_ind47'' indicators_to_dict indicators_from_dict
             (match_all (pv_text env) (bh_files b) (fx_source_files x) description author
                (declared_names env i x)) cx of
        Inl e \<Rightarrow> add_result (stage_fail ''stage_4c_indicator_matcher'' (full_error env e)) cx
      | Inr (r, status, cx) \<Rightarrow> add_result (stage_ok ''stage_4c_indicator_matcher''
          [(''total_hits'', nat_pv (length (ir_hits r))), (''high_severity'', nat_pv (high_severity_count r)),
           (''categories'', pstrs (map category_value (categories_present r))),
           (''stage_cache'', PStr status)]) (add_evidence (indicator_evidence r) cx))"

definition stage_4e ::
  "pipe_env \<Rightarrow> pipe_input \<Rightarrow> string \<Rightarrow> string \<Rightarrow> behavior_report \<Rightarrow> pipe_ctx \<Rightarrow> pipe_ctx" where
  "stage_4e env i version sha b cx =
     (case behind_cache env i version sha ''stage_4e_sequence'' mine_to_dict mine_from_dict
             (Inr (mine b)) cx of
        Inl e \<Rightarrow> add_result (stage_fail ''stage_4e_sequence_mining'' (full_error env e)) cx
      | Inr (r, status, cx) \<Rightarrow> add_result (stage_outcome ''stage_4e_sequence_mining'' (smr_error r)
          [(''patterns_matched'', nat_pv (length (smr_matches r))),
           (''patterns'', pstrs (sorted_set (map (\<lambda>m. sp_code (sm_pattern m)) (smr_matches r)))),
           (''stage_cache'', PStr status)]) (add_evidence (map sequence_match_to_evidence (smr_matches r)) cx))"

type_synonym flow_map = "(string \<times> taint_flow list) list"

definition flows_to_dict :: "flow_map \<Rightarrow> pyval" where
  "flows_to_dict m = PDict [(''flows_by_path'',
     PDict (map (\<lambda>(p, fs). (p, PList (map flow_to_dict fs))) m))]"

definition flows_from_dict :: "pyval \<Rightarrow> pyexn + flow_map" where
  "flows_from_dict v =
     bindE (attr_dict ''get'' v) (\<lambda>d.
     bindE (attr_dict ''items'' (d_get d ''flows_by_path'' (PDict []))) (\<lambda>m.
     mapE (\<lambda>(p, items). bindE (py_list items) (\<lambda>xs. bindE (mapE flow_from_dict xs) (\<lambda>fs. Inr (p, fs)))) m))"

definition python_files :: "full_source_extract \<Rightarrow> full_source_file list" where
  "python_files x = filter (\<lambda>sf. fs_language sf = ''python'') (fx_source_files x)"

definition taint_file :: "pipe_env \<Rightarrow> full_source_file \<Rightarrow> flow_map \<Rightarrow> pyexn + flow_map" where
  "taint_file env sf m = bindE (taint_python (pv_parse env) (fs_content sf)) (\<lambda>r.
     Inr (if tr_flows r \<noteq> [] then AList.update (fs_path sf) (tr_flows r) m else m))"

definition taint_slices :: "full_source_extract \<Rightarrow> flow_map \<Rightarrow> (string \<times> string) list" where
  "taint_slices x m =
     (let contents = fold (\<lambda>sf. AList.update (fs_path sf) (fs_content sf)) (python_files x) [] in
      concat (map (\<lambda>(p, fs). let c = or_else (map_of contents p) [] in
        if fs = [] \<or> c = [] then [] else [(p, slice_for_llm c fs)]) m))"

definition stage_4d ::
  "pipe_env \<Rightarrow> pipe_input \<Rightarrow> string \<Rightarrow> string \<Rightarrow> full_source_extract \<Rightarrow> pipe_ctx
    \<Rightarrow> (string \<times> string) list \<times> pipe_ctx" where
  "stage_4d env i version sha x cx =
     (case behind_cache env i version sha ''stage_4d_taint'' flows_to_dict flows_from_dict
             (foldE (taint_file env) (python_files x) []) cx of
        Inl e \<Rightarrow> ([], add_result (stage_fail ''stage_4d_taint_slicing'' (full_error env e)) cx)
      | Inr (m, status, cx) \<Rightarrow>
          let slices = taint_slices x m in
          (slices, add_result (stage_ok ''stage_4d_taint_slicing''
             [(''files_with_flows'', nat_pv (length slices)),
              (''total_flows'', nat_pv (length (concat (map snd m)))),
              (''stage_cache'', PStr status)]) cx))"

subsection \<open>Stage 5\<close>

definition new_apis_all :: "full_diff_result option \<Rightarrow> string list" where
  "new_apis_all diff = (case diff of None \<Rightarrow> [] | Some d \<Rightarrow> concat (map fd_new_apis (fr_file_diffs d)))"

definition diff_summary :: "full_diff_result option \<Rightarrow> string option" where
  "diff_summary diff = (case diff of
     None \<Rightarrow> None
   | Some d \<Rightarrow> if fr_file_diffs d = [] then None
       else Some (show_nat (length (fr_file_diffs d)) @ '' file(s) changed, severity ''
              @ severity_value (fr_overall_severity d)))"

record review_ctx =
  rc_input :: pipe_input
  rc_version :: string
  rc_behavior :: behavior_report
  rc_matches :: "ttp_match list"
  rc_diff :: "full_diff_result option"
  rc_description :: string
  rc_deps :: "string list"
  rc_slices :: "(string \<times> string) list"

definition review_request :: "review_ctx \<Rightarrow> file_sequence \<Rightarrow> review_input" where
  "review_request rc fs =
     (let i = rc_input rc in
      \<lparr>ri_package = pi_package i, ri_version = rc_version rc,
       ri_ecosystem = ecosystem_value (pi_ecosystem i), ri_file_seq = fs, ri_ttp_matches = rc_matches rc,
       ri_code_snippet = snippet_for 30 fs, ri_diff_summary = diff_summary (rc_diff rc),
       ri_new_apis = Some (new_apis_all (rc_diff rc)), ri_description = rc_description rc,
       ri_declared_deps = Some (rc_deps rc), ri_taint_slice = map_of (rc_slices rc) (fq_path fs),
       ri_mode = pi_llm_mode i, ri_model = pi_llm_model i\<rparr>)"

text \<open>A reasoning that is not a string is shown as \<^verbatim>\<open>str\<close> shows it.\<close>

definition reasoning_text :: "pipe_env \<Rightarrow> llm_response \<Rightarrow> string" where
  "reasoning_text env r = (case lr_reasoning r of PStr s \<Rightarrow> s | v \<Rightarrow> le_str (pv_llm env) v)"

definition reviewed_evidence ::
  "pipe_env \<Rightarrow> review_ctx \<Rightarrow> ttp_match \<Rightarrow> file_sequence \<Rightarrow> llm_response \<Rightarrow> evidence" where
  "reviewed_evidence env rc m fs r =
     \<lparr>ev_file_path = fq_path fs,
      ev_line_start = (case fq_calls fs of [] \<Rightarrow> 0 | c # _ \<Rightarrow> ac_line c),
      ev_line_end = (case fq_calls fs of [] \<Rightarrow> 0 | _ \<Rightarrow> ac_line (last (fq_calls fs))),
      ev_code_snippet = take 1500 (snippet_for 30 fs), ev_behavior_sequence = fq_sequence fs,
      ev_attack_dimensions = fq_dimensions fs, ev_ttp_id = ttp_id (tm_ttp m),
      ev_ttp_name = ttp_name (tm_ttp m), ev_ttp_source = ttp_source (tm_ttp m), ev_ttp_url = ttp_url (tm_ttp m),
      ev_vector_similarity = tm_similarity m, ev_ttp_severity = ttp_severity (tm_ttp m),
      ev_llm_verdict = lr_verdict r, ev_llm_reasoning = reasoning_text env r, ev_llm_model = lr_model r,
      ev_version_diff = (case rc_diff rc of None \<Rightarrow> None | Some d \<Rightarrow> to_version_diff_info d),
      ev_confidence = match_confidence m (lr_verdict r)\<rparr>"

definition review_file ::
  "pipe_env \<Rightarrow> review_ctx \<Rightarrow> file_sequence \<Rightarrow> pyexn + llm_response \<times> consensus_report option" where
  "review_file env rc fs =
     (if pi_multi_agent (rc_input rc)
      then bindE (review_multi (pv_llm env) (review_request rc fs)) (\<lambda>c.
           Inr (consensus_to_llm_response (pv_llm env) c, Some c))
      else bindE (review (pv_llm env) (review_request rc fs)) (\<lambda>r. Inr (r, None)))"

type_synonym reviewed = "evidence list \<times> (string \<times> consensus_report) list"

text \<open>The matches one after the other; an exception keeps the evidence so far.\<close>

fun review_matches ::
  "pipe_env \<Rightarrow> review_ctx \<Rightarrow> ttp_match list \<Rightarrow> reviewed \<Rightarrow> reviewed \<times> pyexn option" where
  "review_matches env rc [] acc = (acc, None)"
| "review_matches env rc (m # ms) (es, cons) =
     (case find_file_seq (rc_behavior rc) (tm_file_path m) of
        None \<Rightarrow> review_matches env rc ms (es, cons)
      | Some fs \<Rightarrow>
          (case review_file env rc fs of
             Inl e \<Rightarrow> ((es, cons), Some e)
           | Inr (r, c) \<Rightarrow> review_matches env rc ms
               (es @ [reviewed_evidence env rc m fs r],
                case c of None \<Rightarrow> cons | Some c \<Rightarrow> AList.update (fq_path fs) c cons)))"

definition diff_evidence :: "version_diff_info \<Rightarrow> evidence" where
  "diff_evidence vd =
     (mitre_evidence ''<version-diff>'')
       \<lparr>ev_code_snippet := ''version diff vs '' @ py_join '', '' (vd_compared_versions vd) @ '': '' @ vd_details vd,
        ev_behavior_sequence := map (\<lambda>a. ''diff:'' @ a) (take 8 (vd_new_apis vd)),
        ev_ttp_id := ''DIFF/T1195.002'',
        ev_ttp_name := ''Version-diff risk introduction ('' @ severity_value (vd_risk vd) @ '')'',
        ev_ttp_url := ''https://attack.mitre.org/techniques/T1195/002/'',
        ev_ttp_severity := vd_risk vd,
        ev_llm_verdict := (if vd_risk vd \<in> {SevHIGH, SevMEDIUM} then LlmSUSPICIOUS else LlmBENIGN),
        ev_llm_reasoning := ''new APIs introduced in current version vs prior (''
          @ show_nat (length (vd_new_apis vd)) @ '' added). '' @ vd_details vd,
        ev_llm_model := ''version-diff-rule'', ev_version_diff := Some vd,
        ev_confidence := (case vd_risk vd of SevHIGH \<Rightarrow> 85/100 | SevMEDIUM \<Rightarrow> 6/10 | SevLOW \<Rightarrow> 3/10)\<rparr>"

definition diff_only_evidence :: "full_diff_result option \<Rightarrow> evidence list \<Rightarrow> evidence list" where
  "diff_only_evidence diff es =
     (case diff of
        None \<Rightarrow> []
      | Some d \<Rightarrow>
          if fr_error d = None \<and> fr_compared_versions d \<noteq> [] \<and> fr_overall_severity d \<noteq> SevLOW
             \<and> \<not> list_ex (\<lambda>e. ev_version_diff e \<noteq> None) es
          then (case to_version_diff_info d of None \<Rightarrow> [] | Some vd \<Rightarrow> [diff_evidence vd])
          else [])"

definition multi_agent_payload :: "pipe_input \<Rightarrow> (string \<times> consensus_report) list \<Rightarrow> pydict" where
  "multi_agent_payload i cons =
     (if \<not> pi_multi_agent i \<or> cons = [] then []
      else [(''multi_agent'', PBool True), (''files_evaluated'', nat_pv (length cons)),
            (''avg_agreement'', PFloat (round3 (sum_list (map (cr_agreement_ratio \<circ> snd) cons)
               / of_nat (length cons)))),
            (''verdicts'', pstrs (map (llm_verdict_value \<circ> cr_verdict \<circ> snd) cons))])"

definition stage_5 :: "pipe_env \<Rightarrow> review_ctx \<Rightarrow> pipe_ctx \<Rightarrow> outcome + pipe_ctx" where
  "stage_5 env rc cx =
     (case review_matches env rc (rc_matches rc) ([], []) of
        ((es, cons), Some e) \<Rightarrow> Inl (error_report env (rc_input rc) (rc_version rc)
          (add_result (stage_fail ''stage_5_llm_review'' (full_error env e)) (add_evidence es cx)))
      | ((es, cons), None) \<Rightarrow>
          let cx = add_evidence es cx;
              cx = add_evidence (diff_only_evidence (rc_diff rc) (px_evidence cx)) cx
          in Inr (add_result (stage_ok ''stage_5_llm_review''
               ([(''evidence_generated'', nat_pv (length (px_evidence cx))),
                 (''mode'', PStr (pi_llm_mode (rc_input rc)))]
                @ multi_agent_payload (rc_input rc) cons)) cx))"

subsection \<open>Stages 6 to 8\<close>

definition stage_6 :: "pipe_env \<Rightarrow> pipe_input \<Rightarrow> full_source_extract \<Rightarrow> pipe_ctx \<Rightarrow> pipe_ctx" where
  "stage_6 env i x cx =
     (if \<not> pi_enable_deps i then cx
      else case extract_dependencies (pv_deps env) (fx_source_files x) (pi_ecosystem i) of
        Inl e \<Rightarrow> add_result (stage_fail ''stage_6_dependencies'' (exn_str e)) cx
      | Inr dx \<Rightarrow>
          let rs = analyze_dependencies (pv_graph env) dx (pi_ecosystem i) 1 30 True True;
              es = List.map_filter dependency_to_evidence rs
          in add_result (stage_ok ''stage_6_dependencies''
               [(''direct'', nat_pv (length (dx_direct dx))), (''dev'', nat_pv (length (dx_dev dx))),
                (''analyzed'', nat_pv (length rs)), (''hits'', nat_pv (length es))]) (add_evidence es cx))"

definition binary_has_findings :: "binary_finding \<Rightarrow> bool" where
  "binary_has_findings f = (bf_suspicious_imports f \<noteq> [] \<or> bf_network_strings f \<noteq> [])"

definition stage_7 :: "pipe_env \<Rightarrow> string \<Rightarrow> full_source_extract \<Rightarrow> pipe_ctx \<Rightarrow> pipe_ctx" where
  "stage_7 env url x cx =
     (if fx_binary_files x = []
      then add_result (stage_ok ''stage_7_binary''
             [(''binaries'', nat_pv 0), (''skipped'', PStr ''no binary files'')]) cx
      else case pv_binaries env url (fx_binary_files x) of
        Inl e \<Rightarrow> add_result (stage_fail ''stage_7_binary'' (exn_str e)) cx
      | Inr fs \<Rightarrow>
          let hits = filter binary_has_findings fs in
          add_result (stage_ok ''stage_7_binary''
            [(''binaries'', nat_pv (length fs)), (''hits'', nat_pv (length hits))])
            (add_evidence (map binary_to_evidence hits) cx))"

definition sandbox_has_findings :: "sandbox_observation \<Rightarrow> bool" where
  "sandbox_has_findings ob =
     (so_process_spawns ob \<noteq> [] \<or> so_network_requests ob \<noteq> [] \<or> so_file_writes ob \<noteq> [])"

definition stage_8 :: "pipe_env \<Rightarrow> pipe_input \<Rightarrow> string \<Rightarrow> pipe_ctx \<Rightarrow> pipe_ctx" where
  "stage_8 env i version cx =
     (if \<not> pi_enable_sandbox i then cx
      else case pv_sandbox env (pi_package i) (pi_ecosystem i) version of
        Inl e \<Rightarrow> add_result (stage_fail ''stage_8_sandbox'' (exn_str e)) cx
      | Inr ob \<Rightarrow>
          let found = sandbox_has_findings ob;
              cx = (if found then add_evidence [sandbox_to_evidence (ob\<lparr>so_has_findings := found\<rparr>)] cx
                    else cx)
          in add_result (stage_ok ''stage_8_sandbox''
               [(''mode'', PStr (so_mode ob)), (''duration_s'', PFloat (so_duration_s ob)),
                (''has_findings'', PBool found)]) cx)"

subsection \<open>Stage 9\<close>

record stage_products =
  pp_registry :: registry_info
  pp_url :: string
  pp_extract :: full_source_extract
  pp_agentic :: "stage_agentic_result option"
  pp_scorecard :: "scorecard_report option"
  pp_slsa :: slsa_report

definition final_meta :: "stage_products \<Rightarrow> pydict" where
  "final_meta p =
     (let reg = pp_registry p; x = pp_extract p in
      [(''latest_version'', rg_latest_version reg), (''version_count'', nat_pv (length (rg_all_versions reg))),
       (''archive_size'', nat_pv (fx_archive_size x)), (''source_files'', nat_pv (length (fx_source_files x))),
       (''binary_files'', nat_pv (length (fx_binary_files x)))]
      @ (case pp_agentic p of None \<Rightarrow> []
         | Some a \<Rightarrow> [(''agentic'', classification_to_dict (sa_classification a))])
      @ (case pp_scorecard p of None \<Rightarrow> []
         | Some s \<Rightarrow> [(''scorecard'', scorecard_to_dict s), (''scorecard_risks'', pstrs (extract_risk_signals s))])
      @ [(''slsa'', slsa_to_dict (pp_slsa p))])"

text \<open>
  The paths for the SSDF check: the binary files are strings, but their \<^verbatim>\<open>path\<close> attribute is asked
  for.
\<close>

definition ssdf_paths :: "full_source_extract \<Rightarrow> pyexn + string list" where
  "ssdf_paths x =
     (case fx_binary_files x of
        [] \<Rightarrow> Inr (map fs_path (fx_source_files x))
      | _ \<Rightarrow> Inl (OtherError ''AttributeError'' ([CHR 0x27] @ ''str'' @ [CHR 0x27] @ '' object has no attribute ''
               @ [CHR 0x27] @ ''path'' @ [CHR 0x27])))"

definition run_ssdf :: "pipe_env \<Rightarrow> pipe_input \<Rightarrow> stage_products \<Rightarrow> pyexn + ssdf_report" where
  "run_ssdf env i p =
     bindE (ssdf_paths (pp_extract p)) (\<lambda>paths.
     ssdf_evaluate (pv_scores env) (pi_ecosystem i) True (rg_raw_metadata (pp_registry p)) paths
       (pp_scorecard p))"

definition store_report ::
  "pipe_env \<Rightarrow> pipe_input \<Rightarrow> string \<Rightarrow> string \<Rightarrow> analysis_report \<Rightarrow> pipe_db \<Rightarrow> outcome" where
  "store_report env i version url r db =
     (if \<not> pi_use_cache i then (r, db)
      else case bindE (open_db env) (\<lambda>_.
             cache_put (pv_cache env) (integrity_mode_of (pi_integrity_mode i)) (cache_key_of i version)
               (report_to_serializable r) (Some url) (Some (verdict_value (ar_verdict r))) (pd_cache db)) of
        Inl e \<Rightarrow> (r\<lparr>ar_package_meta := ar_package_meta r
                     @ [(''cache_stored'', PBool False), (''cache_error'', PStr (exn_str e))]\<rparr>, db)
      | Inr (cdb, info) \<Rightarrow> (r\<lparr>ar_package_meta := ar_package_meta r
                     @ [(''cache_stored'', PBool True), (''cache_info'', info)]\<rparr>,
                   db\<lparr>pd_cache := cdb\<rparr>))"

definition stage_9 :: "pipe_env \<Rightarrow> pipe_input \<Rightarrow> string \<Rightarrow> stage_products \<Rightarrow> pipe_ctx \<Rightarrow> outcome" where
  "stage_9 env i version p cx =
     (let v = decide_verdict (px_evidence cx) (px_results cx) True;
          meta = final_meta p @ pv_taxonomies env v;
          (ssdf_meta, cx) = (case run_ssdf env i p of
             Inl e \<Rightarrow> ([], add_result (stage_fail ''stage_ssdf_compliance'' (exn_str e)) cx)
           | Inr s \<Rightarrow> ([(''ssdf'', ssdf_to_dict s)], add_result (stage_ok ''stage_ssdf_compliance''
               [(''pass'', nat_pv (sf_pass_count s)), (''fail'', nat_pv (sf_fail_count s)),
                (''unknown'', nat_pv (sf_unknown_count s))]) cx));
          r = (report_with env i version v (px_evidence cx) (meta @ ssdf_meta) cx)
                \<lparr>ar_kb_versions := [(''MITRE ATT&CK'', PStr ''cached-local''), (''OSV'', PStr ''cached-local'')]\<rparr>
      in store_report env i version (pp_url p) r (px_db cx))"

subsection \<open>The whole run\<close>

definition static_stages ::
  "pipe_env \<Rightarrow> pipe_input \<Rightarrow> registry_info \<Rightarrow> string \<Rightarrow> string \<Rightarrow> full_source_extract \<Rightarrow> pipe_ctx
    \<Rightarrow> outcome + review_ctx \<times> pipe_ctx" where
  "static_stages env i reg version sha x cx =
     bindE (stage_2 env i version sha x cx) (\<lambda>(b, cx).
     let cx = stage_2b env i version sha x cx;
         (diff, cx) = stage_3b env i reg version sha x b cx
     in bindE (stage_4 env i version sha b cx) (\<lambda>(m, cx).
        let ((description, author), cx) = stage_4b env i reg b cx;
            cx = stage_4c env i version sha x b description author cx;
            cx = stage_4e env i version sha b cx;
            (slices, cx) = stage_4d env i version sha x cx
        in Inr (\<lparr>rc_input = i, rc_version = version, rc_behavior = b, rc_matches = tmr_matches m,
                 rc_diff = diff, rc_description = description, rc_deps = declared_names env i x,
                 rc_slices = slices\<rparr>, cx)))"

definition review_and_judge ::
  "pipe_env \<Rightarrow> pipe_input \<Rightarrow> stage_products \<Rightarrow> review_ctx \<Rightarrow> pipe_ctx \<Rightarrow> outcome + outcome" where
  "review_and_judge env i p rc cx =
     bindE (stage_5 env rc cx) (\<lambda>cx.
     Inr (stage_9 env i (rc_version rc) p
       (stage_8 env i (rc_version rc) (stage_7 env (pp_url p) (pp_extract p) (stage_6 env i (pp_extract p) cx)))))"

definition analyse_archive ::
  "pipe_env \<Rightarrow> pipe_input \<Rightarrow> registry_info \<Rightarrow> scorecard_report option \<Rightarrow> slsa_report \<Rightarrow> string \<Rightarrow> string
    \<Rightarrow> pipe_ctx \<Rightarrow> outcome + outcome" where
  "analyse_archive env i reg scorecard slsa version url cx =
     bindE (stage_1b env i version url cx) (\<lambda>((x, sha), cx).
     bindE (stage_1c env i reg version x cx) (\<lambda>(agentic, cx).
     bindE (static_stages env i reg version sha x cx) (\<lambda>(rc, cx).
     review_and_judge env i
       \<lparr>pp_registry = reg, pp_url = url, pp_extract = x, pp_agentic = agentic,
        pp_scorecard = scorecard, pp_slsa = slsa\<rparr> rc cx)))"

definition run_stages :: "pipe_env \<Rightarrow> pipe_input \<Rightarrow> pipe_ctx \<Rightarrow> outcome + outcome" where
  "run_stages env i cx =
     bindE (stage_0 env i cx) (\<lambda>(reg, cx).
     bindE (stage_0a env i reg cx) (\<lambda>cx.
     let cx = stage_0b env i cx;
         (scorecard, cx) = stage_0c env i reg cx;
         (slsa, cx) = stage_0d env i reg cx;
         version = target_version i reg; url = target_url reg version
     in if url = [] then Inl (no_archive env i version cx)
        else bindE (stage_0e env i version url cx)
               (analyse_archive env i reg scorecard slsa version url)))"

definition outcome_of :: "'a + 'a \<Rightarrow> 'a" where
  "outcome_of r = (case r of Inl x \<Rightarrow> x | Inr x \<Rightarrow> x)"

definition run_pipeline :: "pipe_env \<Rightarrow> pipe_input \<Rightarrow> pipe_db \<Rightarrow> outcome" where
  "run_pipeline env i db =
     (if pi_llm_mode i = ''claude'' \<and> \<not> pv_api_key env
      then ((empty_report (pv_now env) (pi_package i) (pi_ecosystem i) (or_text (pi_version i) ''unknown''))
              \<lparr>ar_verdict := ERROR,
               ar_stage_results := [stage_fail ''preflight_llm_check'' no_api_key_error]\<rparr>, db)
      else outcome_of (run_stages env i \<lparr>px_results = [], px_evidence = [], px_db = db\<rparr>))"

end
