(* ===== verification/PipelineFacts.thy ===== *)
theory PipelineFacts
  imports Pipeline
begin

text \<open>
  What the pipeline guarantees: the context only grows, the verdict is the decision over all the
  evidence, and what follows for the verdicts of a run.
\<close>

subsection \<open>The context only grows\<close>

definition extends :: "pipe_ctx \<Rightarrow> pipe_ctx \<Rightarrow> bool" where
  "extends cx cx' = (prefix (px_evidence cx) (px_evidence cx') \<and> prefix (px_results cx) (px_results cx'))"

named_theorems grows \<open>a stage extends the context it is given\<close>

lemma extends_refl [simp, intro, grows]: "extends cx cx"
  by (simp add: extends_def)

lemma extends_trans: "extends a b \<Longrightarrow> extends b c \<Longrightarrow> extends a c"
  by (auto simp: extends_def intro: prefix_order.trans)

lemma add_fields [simp]:
  "px_evidence (add_result r cx) = px_evidence cx" "px_results (add_result r cx) = px_results cx @ [r]"
  "px_db (add_result r cx) = px_db cx"
  "px_evidence (add_evidence es cx) = px_evidence cx @ es" "px_results (add_evidence es cx) = px_results cx"
  "px_db (add_evidence es cx) = px_db cx"
  "px_evidence (set_stages db cx) = px_evidence cx" "px_results (set_stages db cx) = px_results cx"
  by (simp_all add: add_result_def add_evidence_def set_stages_def)

lemma extends_add [simp]:
  "extends a cx \<Longrightarrow> extends a (add_result r cx)" "extends a cx \<Longrightarrow> extends a (add_evidence es cx)"
  "extends a (set_stages db cx) \<longleftrightarrow> extends a cx"
  by (auto simp: extends_def prefix_def)

lemma behind_cache_grows:
  assumes "behind_cache env i version sha name to_dict from_dict compute cx = Inr (r, status, cx')"
  shows "extends a cx' = extends a cx" "px_evidence cx' = px_evidence cx" "px_results cx' = px_results cx"
  using assms by (auto simp: behind_cache_def bindE_Inr_iff extends_def)

lemma stage_0b_grows [grows]: "extends cx (stage_0b env i cx)"
  by (auto simp: stage_0b_def Let_def split: sum.split)

lemma stage_0c_grows [grows]: "extends cx (snd (stage_0c env i reg cx))"
  by (auto simp: stage_0c_def split: sum.split)

lemma stage_0d_grows [grows]: "extends cx (snd (stage_0d env i reg cx))"
  by (auto simp: stage_0d_def Let_def)

lemma run_behavior_grows:
  "run_behavior env i version sha x cx = Inr (b, status, cx')
    \<Longrightarrow> px_evidence cx' = px_evidence cx \<and> px_results cx' = px_results cx"
  by (auto simp: run_behavior_def Let_def bindE_Inr_iff split: option.splits if_splits)

lemma stage_2_grows: "stage_2 env i version sha x cx = Inr (b, cx') \<Longrightarrow> extends cx cx'"
  by (auto simp: stage_2_def extends_def dest!: run_behavior_grows split: sum.splits)

lemma stage_2b_grows [grows]: "extends cx (stage_2b env i version sha x cx)"
  by (auto simp: stage_2b_def Let_def split: sum.split prod.split option.split bool.split)

lemma stage_3b_grows [grows]: "extends cx (snd (stage_3b env i reg version sha x b cx))"
  by (auto simp: stage_3b_def Let_def behind_cache_grows split: sum.split prod.split)

lemma stage_4_grows: "stage_4 env i version sha b cx = Inr (m, cx') \<Longrightarrow> extends cx cx'"
  by (auto simp: stage_4_def behind_cache_grows split: sum.splits prod.splits)

lemma stage_4b_grows [grows]: "extends cx (snd (stage_4b env i reg b cx))"
  by (auto simp: stage_4b_def Let_def split: sum.split prod.split)

lemma stage_4c_grows [grows]: "extends cx (stage_4c env i version sha x b d a cx)"
  by (auto simp: stage_4c_def behind_cache_grows split: sum.split prod.split)

lemma stage_4e_grows [grows]: "extends cx (stage_4e env i version sha b cx)"
  by (auto simp: stage_4e_def behind_cache_grows split: sum.split prod.split)

lemma stage_4d_grows [grows]: "extends cx (snd (stage_4d env i version sha x cx))"
  by (auto simp: stage_4d_def behind_cache_grows Let_def split: sum.split prod.split)

lemma stage_5_grows: "stage_5 env rc cx = Inr cx' \<Longrightarrow> extends cx cx'"
  by (auto simp: stage_5_def Let_def split: prod.splits option.splits)

lemma stage_6_grows [grows]: "extends cx (stage_6 env i x cx)"
  by (auto simp: stage_6_def Let_def split: sum.split)

lemma stage_7_grows [grows]: "extends cx (stage_7 env url x cx)"
  by (auto simp: stage_7_def Let_def split: sum.split)

lemma stage_8_grows [grows]: "extends cx (stage_8 env i version cx)"
  by (auto simp: stage_8_def Let_def split: sum.split)

subsection \<open>How a run ends\<close>

definition judged :: "pipe_ctx \<Rightarrow> outcome \<Rightarrow> bool" where
  "judged cx out = (\<exists>cx'. extends cx cx'
     \<and> ar_verdict (fst out) = decide_verdict (px_evidence cx') (px_results cx') True
     \<and> ar_evidence (fst out) = px_evidence cx')"

lemma report_with_fields [simp]:
  "ar_verdict (report_with env i version v es meta cx) = v"
  "ar_evidence (report_with env i version v es meta cx) = es"
  "ar_stage_results (report_with env i version v es meta cx) = px_results cx"
  "ar_package_meta (report_with env i version v es meta cx) = meta"
  by (simp_all add: report_with_def)

lemma error_report_verdict [simp]: "ar_verdict (fst (error_report env i version cx)) = ERROR"
  by (simp add: error_report_def)

lemma store_report_fields [simp]:
  "ar_verdict (fst (store_report env i version url r db)) = ar_verdict r"
  "ar_evidence (fst (store_report env i version url r db)) = ar_evidence r"
  "ar_stage_results (fst (store_report env i version url r db)) = ar_stage_results r"
  by (auto simp: store_report_def split: sum.split)

lemma stage_9_report:
  "ar_verdict (fst (stage_9 env i version p cx)) = decide_verdict (px_evidence cx) (px_results cx) True"
  "ar_evidence (fst (stage_9 env i version p cx)) = px_evidence cx"
  by (auto simp: stage_9_def Let_def split: sum.split prod.split)

lemma judged_later: "extends cx cx' \<Longrightarrow> judged cx' out \<Longrightarrow> judged cx out"
  by (auto simp: judged_def intro: extends_trans)

lemma stage_9_judged: "judged cx (stage_9 env i version p cx)"
  using stage_9_report [of env i version p cx] by (auto simp: judged_def intro!: exI [of _ cx])

lemma review_and_judge_ends:
  "review_and_judge env i p rc cx = Inl out \<Longrightarrow> ar_verdict (fst out) = ERROR"
  "review_and_judge env i p rc cx = Inr out \<Longrightarrow> judged cx out"
proof -
  assume "review_and_judge env i p rc cx = Inl out"
  then show "ar_verdict (fst out) = ERROR"
    by (cases "stage_5 env rc cx")
      (auto simp: review_and_judge_def stage_5_def Let_def split: prod.splits option.splits)
next
  assume "review_and_judge env i p rc cx = Inr out"
  then obtain cx1 where cx1: "stage_5 env rc cx = Inr cx1"
    and out: "out = stage_9 env i (rc_version rc) p (stage_8 env i (rc_version rc)
      (stage_7 env (pp_url p) (pp_extract p) (stage_6 env i (pp_extract p) cx1)))"
    by (auto simp: review_and_judge_def bindE_Inr_iff)
  have "extends cx1 (stage_8 env i (rc_version rc)
      (stage_7 env (pp_url p) (pp_extract p) (stage_6 env i (pp_extract p) cx1)))"
    by (rule extends_trans [OF extends_trans [OF stage_6_grows stage_7_grows] stage_8_grows])
  from extends_trans [OF stage_5_grows [OF cx1] this] show "judged cx out"
    unfolding out by (rule judged_later) (rule stage_9_judged)
qed

lemma stage_errors:
  "stage_2 env i version sha x cx = Inl out \<Longrightarrow> ar_verdict (fst out) = ERROR"
  "stage_4 env i version sha b cx = Inl out \<Longrightarrow> ar_verdict (fst out) = ERROR"
  by (simp_all add: stage_2_def stage_4_def split: sum.splits prod.splits) (metis error_report_verdict)+

lemma bindE_Inl_iff: "bindE r f = Inl e \<longleftrightarrow> r = Inl e \<or> (\<exists>x. r = Inr x \<and> f x = Inl e)"
  by (cases r) simp_all

lemma static_stages_ends:
  "static_stages env i reg version sha x cx = Inl out \<Longrightarrow> ar_verdict (fst out) = ERROR"
  "static_stages env i reg version sha x cx = Inr (rc, cx') \<Longrightarrow> extends cx cx'"
proof -
  assume "static_stages env i reg version sha x cx = Inl out"
  then have "(\<exists>cx. stage_2 env i version sha x cx = Inl out)
      \<or> (\<exists>b cx. stage_4 env i version sha b cx = Inl out)"
    by (auto simp: static_stages_def bindE_Inl_iff Let_def split_beta)
  then show "ar_verdict (fst out) = ERROR" by (auto simp: stage_errors)
next
  assume "static_stages env i reg version sha x cx = Inr (rc, cx')"
  then obtain b cx2 m cx4 where 2: "stage_2 env i version sha x cx = Inr (b, cx2)"
    and 4: "stage_4 env i version sha b
        (snd (stage_3b env i reg version sha x b (stage_2b env i version sha x cx2))) = Inr (m, cx4)"
    and cx': "cx' = snd (stage_4d env i version sha x (stage_4e env i version sha b
        (let r = stage_4b env i reg b cx4 in
         stage_4c env i version sha x b (fst (fst r)) (snd (fst r)) (snd r))))"
    by (auto simp: static_stages_def bindE_Inr_iff Let_def split_beta)
  note steps = stage_2_grows [OF 2] stage_2b_grows [of cx2 env i version sha x]
    stage_3b_grows [of "stage_2b env i version sha x cx2" env i reg version sha x b] stage_4_grows [OF 4]
    stage_4b_grows [of cx4 env i reg b]
  have "extends cx cx4" using steps(1-4) by (blast intro: extends_trans)
  moreover have "extends cx4 cx'"
    unfolding cx' Let_def
    by (rule extends_trans [OF extends_trans [OF extends_trans [OF stage_4b_grows stage_4c_grows]
          stage_4e_grows] stage_4d_grows])
  ultimately show "extends cx cx'" by (rule extends_trans)
qed

text \<open>After stage 1C the run ends with an error or with a judgement over all its evidence.\<close>

lemma after_1c:
  assumes "stage_1b env i version url cx = Inr ((x, sha), cx1)"
    and "stage_1c env i reg version x cx1 = Inr (agentic, cx2)"
    and "out = outcome_of (analyse_archive env i reg scorecard slsa version url cx)"
  shows "ar_verdict (fst out) = ERROR \<or> judged cx2 out"
proof -
  let ?p = "\<lparr>pp_registry = reg, pp_url = url, pp_extract = x, pp_agentic = agentic,
        pp_scorecard = scorecard, pp_slsa = slsa\<rparr>"
  have out: "out = outcome_of (bindE (static_stages env i reg version sha x cx2)
      (\<lambda>(rc, cx). review_and_judge env i ?p rc cx))"
    using assms by (simp add: analyse_archive_def)
  show ?thesis
  proof (cases "static_stages env i reg version sha x cx2")
    case (Inl a)
    with static_stages_ends(1) [OF Inl] show ?thesis by (simp add: out outcome_of_def)
  next
    case (Inr rc_cx)
    obtain rc cx3 where rc: "rc_cx = (rc, cx3)" by (cases rc_cx)
    with Inr have ext: "extends cx2 cx3" by (auto intro: static_stages_ends(2))
    show ?thesis
    proof (cases "review_and_judge env i ?p rc cx3")
      case (Inl a)
      with review_and_judge_ends(1) [OF Inl] Inr rc show ?thesis by (simp add: out outcome_of_def)
    next
      case (Inr o2)
      with judged_later [OF ext review_and_judge_ends(2) [OF Inr]] \<open>static_stages _ _ _ _ _ _ _ = _\<close> rc
      show ?thesis by (simp add: out outcome_of_def)
    qed
  qed
qed

subsection \<open>What evidence forces\<close>

definition weighs :: "verdict \<Rightarrow> evidence \<Rightarrow> bool" where
  "weighs v e =
     (case v of
        MALICIOUS \<Rightarrow> ev_ttp_severity e = SevHIGH \<and> strong_malicious e
      | HIGH_RISK \<Rightarrow> STRONG_MATCH_SIMILARITY \<le> ev_vector_similarity e \<and> ev_llm_verdict e \<noteq> LlmBENIGN
          \<and> ev_ttp_severity e \<noteq> SevLOW \<and> 1/2 \<le> ev_confidence e
      | SUSPICIOUS \<Rightarrow> WEAK_MATCH_SIMILARITY \<le> ev_vector_similarity e \<and> ev_llm_verdict e \<noteq> LlmBENIGN
      | _ \<Rightarrow> False)"

lemma not_benign_iff: "v \<noteq> LlmBENIGN \<longleftrightarrow> v = LlmSUSPICIOUS \<or> v = LlmMALICIOUS"
  by (cases v) simp_all

lemma decide_floor:
  assumes "e \<in> set es" and "weighs v e" and "decide_verdict es rs True \<noteq> ERROR"
  shows "verdict_rank v \<le> verdict_rank (decide_verdict es rs True)"
proof -
  from assms(1) have "es \<noteq> []" by auto
  moreover from assms(3) have "\<not> any_stage_failed rs" by (auto simp: decide_verdict_def)
  ultimately have d: "decide_verdict es rs True =
     (if (\<exists>e\<in>set es. ev_ttp_severity e = SevHIGH) \<and> (\<exists>e\<in>set es. strong_malicious e)
      then MALICIOUS
      else if (has_any_strong_ttp_match es \<or> any_version_diff_critical es)
              \<and> any_llm_suspicious_or_worse es then HIGH_RISK
      else if has_any_ttp_match es \<or> any_version_diff es
              \<or> llm_suspicious_count es \<ge> LLM_SUSPICIOUS_QUORUM then SUSPICIOUS
      else CLEAN)"
    by (intro decide_judged) simp_all
  show ?thesis
  proof (cases v)
    case MALICIOUS
    with assms(1,2) have "(\<exists>e\<in>set es. ev_ttp_severity e = SevHIGH) \<and> (\<exists>e\<in>set es. strong_malicious e)"
      by (auto simp: weighs_def)
    with d MALICIOUS show ?thesis by simp
  next
    case HIGH_RISK
    with assms(1,2) have "has_any_strong_ttp_match es \<and> any_llm_suspicious_or_worse es"
      by (auto simp: weighs_def verdict_preds list_ex_iff not_benign_iff)
    with d HIGH_RISK show ?thesis by simp
  next
    case SUSPICIOUS
    with assms(1,2) have "has_any_ttp_match es"
      by (auto simp: weighs_def verdict_preds list_ex_iff)
    with d SUSPICIOUS show ?thesis by simp
  qed simp_all
qed

lemma judged_floor:
  assumes "judged cx out" and "e \<in> set (px_evidence cx)" and "weighs v e"
    and "ar_verdict (fst out) \<noteq> ERROR"
  shows "verdict_rank v \<le> verdict_rank (ar_verdict (fst out))"
proof -
  from assms(1) obtain cx' where cx': "extends cx cx'"
    "ar_verdict (fst out) = decide_verdict (px_evidence cx') (px_results cx') True"
    by (auto simp: judged_def)
  from cx'(1) assms(2) have "e \<in> set (px_evidence cx')"
    by (auto simp: extends_def dest: set_mono_prefix)
  from decide_floor [OF this assms(3), of "px_results cx'"] assms(4) cx'(2) show ?thesis by simp
qed

subsection \<open>Verdicts of a run\<close>

lemma decide_not_agentic: "decide_verdict es rs known \<noteq> AGENTIC"
  by (simp add: decide_verdict_def)

lemma stage_0_ends:
  "stage_0 env i cx = Inl out \<Longrightarrow> ar_verdict (fst out) \<in> {ERROR, CANNOT_ANALYZE}"
  by (auto simp: stage_0_def Let_def split: sum.splits if_splits)

lemma stage_0a_ends:
  "stage_0a env i reg cx = Inl out \<Longrightarrow> ar_verdict (fst out) = MALICIOUS"
  by (auto simp: stage_0a_def Let_def split: if_splits)

lemma stage_1b_ends:
  "stage_1b env i version url cx = Inl out \<Longrightarrow> ar_verdict (fst out) = ERROR"
  by (simp add: stage_1b_def Let_def split: option.splits) (metis error_report_verdict)

lemma stage_1c_ends:
  "stage_1c env i reg version x cx = Inl out \<Longrightarrow> ar_verdict (fst out) \<in> {MALICIOUS, HIGH_RISK}"
  by (auto simp: stage_1c_def Let_def split: sum.splits if_splits)

lemma analyse_archive_ends:
  "ar_verdict (fst (outcome_of (analyse_archive env i reg scorecard slsa version url cx)))
      \<in> {ERROR, MALICIOUS, HIGH_RISK}
    \<or> (\<exists>es rs. ar_verdict (fst (outcome_of (analyse_archive env i reg scorecard slsa version url cx)))
               = decide_verdict es rs True)"
proof (cases "stage_1b env i version url cx")
  case (Inl a)
  with stage_1b_ends [OF Inl] show ?thesis by (simp add: analyse_archive_def outcome_of_def)
next
  case (Inr b)
  obtain x sha cx1 where b: "b = ((x, sha), cx1)" by (cases b) auto
  show ?thesis
  proof (cases "stage_1c env i reg version x cx1")
    case (Inl a)
    with stage_1c_ends [OF Inl] Inr b show ?thesis by (simp add: analyse_archive_def outcome_of_def)
  next
    case (Inr c)
    obtain agentic cx2 where "c = (agentic, cx2)" by (cases c)
    with after_1c [of env i version url cx x sha cx1 reg agentic cx2, OF _ _ refl] Inr b
      \<open>stage_1b env i version url cx = Inr b\<close>
    show ?thesis by (fastforce simp: judged_def)
  qed
qed

lemma run_pipeline_ends:
  assumes "\<not> pi_use_cache i"
  shows "ar_verdict (fst (run_pipeline env i db)) \<in> {ERROR, CANNOT_ANALYZE, MALICIOUS, HIGH_RISK}
    \<or> (\<exists>es rs. ar_verdict (fst (run_pipeline env i db)) = decide_verdict es rs True)"
proof -
  let ?cx = "\<lparr>px_results = [], px_evidence = [], px_db = db\<rparr>"
  have "ar_verdict (fst (outcome_of (run_stages env i ?cx))) \<in> {ERROR, CANNOT_ANALYZE, MALICIOUS, HIGH_RISK}
    \<or> (\<exists>es rs. ar_verdict (fst (outcome_of (run_stages env i ?cx))) = decide_verdict es rs True)"
  proof (cases "stage_0 env i ?cx")
    case (Inl a)
    with stage_0_ends [OF Inl] show ?thesis by (simp add: run_stages_def outcome_of_def) blast
  next
    case (Inr b)
    obtain reg cx1 where b: "b = (reg, cx1)" by (cases b)
    show ?thesis
    proof (cases "stage_0a env i reg cx1")
      case (Inl a)
      with stage_0a_ends [OF Inl] Inr b show ?thesis by (simp add: run_stages_def outcome_of_def)
    next
      case (Inr cx2)
      let ?cx = "snd (stage_0d env i reg (snd (stage_0c env i reg (stage_0b env i cx2))))"
      let ?v = "target_version i reg"
      have "outcome_of (run_stages env i \<lparr>px_results = [], px_evidence = [], px_db = db\<rparr>)
          = (if target_url reg ?v = [] then no_archive env i ?v ?cx
             else outcome_of (analyse_archive env i reg
               (fst (stage_0c env i reg (stage_0b env i cx2)))
               (fst (stage_0d env i reg (snd (stage_0c env i reg (stage_0b env i cx2))))) ?v
               (target_url reg ?v) ?cx))"
        using Inr b \<open>stage_0 env i _ = Inr b\<close> assms
        by (simp add: run_stages_def stage_0e_def outcome_of_def split_beta Let_def)
      then show ?thesis
        using analyse_archive_ends [of env i reg "fst (stage_0c env i reg (stage_0b env i cx2))"
            "fst (stage_0d env i reg (snd (stage_0c env i reg (stage_0b env i cx2))))" ?v
            "target_url reg ?v" ?cx]
        by (auto simp: no_archive_def Let_def)
    qed
  qed
  then show ?thesis by (auto simp: run_pipeline_def)
qed

text \<open>A run without the cache never answers AGENTIC: the verdict that the agentic stage gives an
  honest agentic package is not the answer of any path through the pipeline.\<close>
theorem agentic_never_answered:
  assumes "\<not> pi_use_cache i"
  shows "ar_verdict (fst (run_pipeline env i db)) \<noteq> AGENTIC"
  using run_pipeline_ends [OF assms, of env db] decide_not_agentic by auto

lemma agentic_run_triggered:
  assumes "agentic_run env package d deps files eco = Inr a" and "sa_triggered a"
  shows "sa_verdict a = Some (ac_verdict (sa_classification a))
    \<and> summary_evidence (sa_classification a) \<in> set (sa_evidence a)"
  using assms
  by (auto simp: agentic_run_def bindE_Inr_iff Let_def classification_to_evidence_def split: if_splits)

lemma summary_weighs:
  "ac_verdict c = AGENTIC \<Longrightarrow> weighs SUSPICIOUS (summary_evidence c)"
  "ac_verdict c = SUSPICIOUS \<Longrightarrow> weighs HIGH_RISK (summary_evidence c)"
  by (simp_all add: weighs_def summary_evidence_def mitre_evidence_def WEAK_MATCH_SIMILARITY_def
      STRONG_MATCH_SIMILARITY_def)

text \<open>C4: What the agentic stage finds is escalated by the final judgement. An agentic package whose
  rules are all clean (AGENTIC) is at least SUSPICIOUS in the end, and one the agentic stage calls
  SUSPICIOUS is at least HIGH_RISK, unless the run ends in an ERROR.\<close>
theorem agentic_escalated:
  assumes "stage_1b env i version url cx = Inr ((x, sha), cx1)"
    and "meta_description reg 300 = Inr d"
    and "agentic_run (pv_agentic env) (pi_package i) d (declared_names env i x) (fx_source_files x)
           (pi_ecosystem i) = Inr a"
    and "sa_triggered a" and "sa_verdict a = Some v"
    and "r = fst (outcome_of (analyse_archive env i reg scorecard slsa version url cx))"
  shows "(v = AGENTIC \<longrightarrow> ar_verdict r \<in> {ERROR, SUSPICIOUS, HIGH_RISK, MALICIOUS})
       \<and> (v = SUSPICIOUS \<longrightarrow> ar_verdict r \<in> {ERROR, HIGH_RISK, MALICIOUS})"
proof -
  have rank: "2 \<le> verdict_rank w \<longleftrightarrow> w \<in> {HIGH_RISK, MALICIOUS}"
    "Suc 0 \<le> verdict_rank w \<longleftrightarrow> w \<in> {SUSPICIOUS, HIGH_RISK, MALICIOUS}" for w
    by (cases w; simp)+
  let ?e = "summary_evidence (sa_classification a)"
  from agentic_run_triggered [OF assms(3,4)] assms(5)
  have v: "ac_verdict (sa_classification a) = v" "?e \<in> set (sa_evidence a)" by auto
  have "ar_verdict r = ERROR \<or> verdict_rank w \<le> verdict_rank (ar_verdict r)"
    if "v \<notin> {MALICIOUS, HIGH_RISK}" and "weighs w ?e" for w
  proof -
    from assms(2-5) that(1) obtain cx2 where
      "stage_1c env i reg version x cx1 = Inr (Some a, cx2)" "?e \<in> set (px_evidence cx2)"
      using v(2) by (auto simp: stage_1c_def Let_def)
    with after_1c [OF assms(1) this(1) refl, of scorecard slsa] judged_floor [OF _ this(2) that(2)] assms(6)
    show ?thesis by blast
  qed
  from this [of SUSPICIOUS] this [of HIGH_RISK] summary_weighs [of "sa_classification a"] v(1)
  show ?thesis by (auto simp: rank)
qed

subsection \<open>From a call sequence to the verdict\<close>

lemma behind_cache_off:
  assumes "\<not> pi_use_cache i"
  shows "behind_cache env i version sha name to_dict from_dict compute cx
    = bindE compute (\<lambda>r. Inr (r, ''disabled'', cx))"
  using assms
  by (cases compute) (simp_all add: behind_cache_def open_stage_cache_def cached_stage_def
      stage_lookup_def stage_store_def restored_def cache_opts_of_def set_stages_def Let_def)

lemma run_behavior_off:
  assumes "\<not> pi_use_cache i" and "run_behavior env i version sha x cx = Inr (b, status, cx')"
  shows "analyze_files (pv_parse env) (pv_js env) (to_entry_files x) = Inr b"
  using assms by (auto simp: run_behavior_def open_stage_cache_def stage_lookup_def cache_opts_of_def
      Let_def bindE_Inr_iff)

lemma stage_2_off:
  assumes "\<not> pi_use_cache i" and "stage_2 env i version sha x cx = Inr (b, cx')"
  shows "analyze_files (pv_parse env) (pv_js env) (to_entry_files x) = Inr b"
  using assms run_behavior_off [OF assms(1)] by (auto simp: stage_2_def split: sum.splits)

lemma stage_4e_off:
  assumes "\<not> pi_use_cache i"
  shows "px_evidence (stage_4e env i version sha b cx)
    = px_evidence cx @ map sequence_match_to_evidence (smr_matches (mine b))"
  using assms by (simp add: stage_4e_def behind_cache_off)

lemma static_stages_mined:
  assumes "static_stages env i reg version sha x cx = Inr (rc, cx')"
  obtains b cx2 cx4 where "stage_2 env i version sha x cx = Inr (b, cx2)"
    and "extends (stage_4e env i version sha b cx4) cx'"
proof -
  from assms obtain b cx2 m cx3 where 2: "stage_2 env i version sha x cx = Inr (b, cx2)"
    and cx': "cx' = snd (stage_4d env i version sha x (stage_4e env i version sha b
        (let r = stage_4b env i reg b cx3 in
         stage_4c env i version sha x b (fst (fst r)) (snd (fst r)) (snd r))))"
    by (auto simp: static_stages_def bindE_Inr_iff Let_def split_beta)
  show thesis by (rule that [OF 2]) (unfold cx', rule stage_4d_grows)
qed

lemma mined_evidence_weighs:
  "sp_severity (sm_pattern m) = SevHIGH \<Longrightarrow> weighs MALICIOUS (sequence_match_to_evidence m)"
  "sp_severity (sm_pattern m) = SevMEDIUM \<Longrightarrow> weighs HIGH_RISK (sequence_match_to_evidence m)"
  by (simp_all add: weighs_def sequence_match_to_evidence_def mitre_evidence_def strong_malicious_def
      STRONG_MATCH_SIMILARITY_def Let_def)

lemma pattern_is_mined:
  assumes "f \<in> set (bh_files b)" and "p \<in> set PATTERNS" and "occurs_in p (fq_calls f)"
  shows "\<exists>m\<in>set (smr_matches (mine b)). sm_pattern m = p"
  using assms match_in_file_iff [of f p] find_pattern_iff [of p "fq_calls f"] PATTERNS_separated
  by (auto simp: mine_def)

text \<open>C3: A catalogued attack sequence decides the verdict on its own. Once extraction and the agentic
  stage let the analysis go on, without the cache, a file whose calls contain a HIGH pattern makes the
  package MALICIOUS and one with a MEDIUM pattern at least HIGH_RISK, whatever the registry, the
  language model and every other stage say, unless the run ends in an ERROR.\<close>
theorem pattern_condemns:
  assumes "\<not> pi_use_cache i"
    and "stage_1b env i version url cx = Inr ((x, sha), cx1)"
    and "stage_1c env i reg version x cx1 = Inr (a, cx2)"
    and "analyze_files (pv_parse env) (pv_js env) (to_entry_files x) = Inr b"
    and "f \<in> set (bh_files b)" and "p \<in> set PATTERNS" and "occurs_in p (fq_calls f)"
    and "r = fst (outcome_of (analyse_archive env i reg scorecard slsa version url cx))"
  shows "(sp_severity p = SevHIGH \<longrightarrow> ar_verdict r \<in> {ERROR, MALICIOUS})
       \<and> (sp_severity p = SevMEDIUM \<longrightarrow> ar_verdict r \<in> {ERROR, HIGH_RISK, MALICIOUS})"
proof -
  have rank: "3 \<le> verdict_rank w \<longleftrightarrow> w = MALICIOUS" "2 \<le> verdict_rank w \<longleftrightarrow> w \<in> {HIGH_RISK, MALICIOUS}" for w
    by (cases w; simp)+
  from pattern_is_mined [OF assms(5-7)] obtain m where m: "m \<in> set (smr_matches (mine b))" "sm_pattern m = p"
    by blast
  let ?p = "\<lparr>pp_registry = reg, pp_url = url, pp_extract = x, pp_agentic = a,
        pp_scorecard = scorecard, pp_slsa = slsa\<rparr>"
  let ?run = "bindE (static_stages env i reg version sha x cx2) (\<lambda>(rc, cx). review_and_judge env i ?p rc cx)"
  have r: "r = fst (outcome_of ?run)" using assms(2,3,8) by (simp add: analyse_archive_def)
  have "ar_verdict r = ERROR \<or> verdict_rank w \<le> verdict_rank (ar_verdict r)"
    if w: "weighs w (sequence_match_to_evidence m)" for w
  proof (cases "static_stages env i reg version sha x cx2")
    case (Inl out)
    with static_stages_ends(1) [OF Inl] show ?thesis by (simp add: r outcome_of_def)
  next
    case (Inr rc_cx)
    obtain rc cx3 where rc: "rc_cx = (rc, cx3)" by (cases rc_cx)
    from Inr rc obtain b' cx4 cx5 where b': "stage_2 env i version sha x cx2 = Inr (b', cx4)"
      "extends (stage_4e env i version sha b' cx5) cx3" using static_stages_mined by metis
    with stage_2_off [OF assms(1) b'(1)] assms(4) have "b' = b" by simp
    have "prefix (px_evidence (stage_4e env i version sha b cx5)) (px_evidence cx3)"
      using b'(2) by (simp add: extends_def \<open>b' = b\<close>)
    from set_mono_prefix [OF this] m(1)
    have e: "sequence_match_to_evidence m \<in> set (px_evidence cx3)"
      by (auto simp: stage_4e_off [OF assms(1)])
    show ?thesis
    proof (cases "review_and_judge env i ?p rc cx3")
      case (Inl out)
      with review_and_judge_ends(1) [OF Inl] Inr rc show ?thesis by (simp add: r outcome_of_def)
    next
      case (Inr out)
      with judged_floor [OF review_and_judge_ends(2) [OF Inr] e w] rc
        \<open>static_stages env i reg version sha x cx2 = Inr rc_cx\<close>
      show ?thesis by (simp add: r outcome_of_def) blast
    qed
  qed
  from this [of MALICIOUS] this [of HIGH_RISK] mined_evidence_weighs [of m] m(2)
  show ?thesis by (auto simp: rank)
qed

subsection \<open>A package without an archive\<close>

lemma exact_weighs: "weighs MALICIOUS (exact_evidence path m)"
  by (simp add: weighs_def exact_evidence_def mitre_evidence_def strong_malicious_def Let_def)

lemma informational_not_judged:
  assumes "es \<noteq> []" and "\<not> any_stage_failed rs"
    and "\<And>e. e \<in> set es \<Longrightarrow> ev_llm_verdict e = LlmBENIGN \<and> ev_version_diff e = None"
  shows "decide_verdict es rs True = CLEAN"
proof -
  have "llm_suspicious_count es = 0"
    using assms(3) by (auto simp: llm_suspicious_count_def filter_empty_conv)
  then show ?thesis
    using assms
    by (auto simp: decide_judged strong_malicious_def verdict_preds list_ex_iff LLM_SUSPICIOUS_QUORUM_def)
qed

lemma similar_evidence_fields:
  "ev_llm_verdict (similar_evidence path m) = LlmBENIGN" "ev_version_diff (similar_evidence path m) = None"
  by (simp_all add: similar_evidence_def mitre_evidence_def Let_def)

text \<open>A package whose version has no archive is judged without having been looked at. Without the
  threat filter its verdict is MALICIOUS when its name and version were reported, ERROR when the attack
  history knows nothing, and CLEAN when its name merely resembles a reported one: the informational
  evidence turns the ERROR into a clean bill.\<close>
theorem no_archive_verdict:
  assumes "pi_llm_mode i \<noteq> ''claude'' \<or> pv_api_key env" and "\<not> pi_threat_filter i"
    and "registry_check (pv_http env) (pi_package i) (pi_ecosystem i) = Inr reg" and "rg_found reg"
    and "target_url reg (target_version i reg) = []"
    and "check_attack_history (pv_index env) (pi_package i) (pi_ecosystem i)
           (if truthy_opt (pi_version i) then pi_version i else None) = Inr hist"
  shows "ar_verdict (fst (run_pipeline env i db))
     = (if ah_exact_matches hist \<noteq> [] then MALICIOUS
        else if ah_typosquat_candidates hist \<noteq> [] then CLEAN else ERROR)"
proof -
  define es where "es = (if any_hit hist then history_evidence ''<registry>'' hist else [])"
  obtain rs where rs: "ar_verdict (fst (run_pipeline env i db)) = decide_verdict es rs True"
    "\<forall>s\<in>set rs. sr_stage s \<in> {''stage_0_registry'', ''stage_0b_attack_history'', ''stage_0c_scorecard'',
       ''stage_0d_slsa'', ''stage_1b_full_source''}"
  proof
    let ?cx0 = "add_result (stage_outcome ''stage_0_registry'' (rg_error reg)
      [(''found'', PBool (rg_found reg))]) \<lparr>px_results = [], px_evidence = [], px_db = db\<rparr>"
    let ?cx = "snd (stage_0d env i reg (snd (stage_0c env i reg (stage_0b env i ?cx0))))"
    let ?v = "target_version i reg"
    show "ar_verdict (fst (run_pipeline env i db)) = decide_verdict es
        (px_results ?cx @ [stage_fail ''stage_1b_full_source'' (''no archive url for '' @ ?v)]) True"
      using assms
      by (auto simp: run_pipeline_def run_stages_def stage_0_def stage_0a_def stage_0b_def stage_0c_def
          stage_0d_def no_archive_def es_def outcome_of_def Let_def split: sum.split)
    show "\<forall>s\<in>set (px_results ?cx @ [stage_fail ''stage_1b_full_source'' (''no archive url for '' @ ?v)]).
       sr_stage s \<in> {''stage_0_registry'', ''stage_0b_attack_history'', ''stage_0c_scorecard'',
         ''stage_0d_slsa'', ''stage_1b_full_source''}"
      using assms(6)
      by (auto simp: stage_0b_def stage_0c_def stage_0d_def stage_outcome_def Let_def split: sum.split)
  qed
  from rs(2) have ok: "\<not> any_stage_failed rs" and absent: "\<not> all_required_stages_passed rs"
    by (auto simp: any_stage_failed_iff all_required_stages_passed_def REQUIRED_STAGES_FOR_JUDGMENT_def)
  show ?thesis
  proof (cases "ah_exact_matches hist")
    case (Cons m ms)
    then have e: "exact_evidence ''<registry>'' m \<in> set es"
      by (simp add: es_def any_hit_def history_evidence_def)
    have "decide_verdict es rs True \<noteq> ERROR"
      using e ok by (auto simp: decide_verdict_def)
    from decide_floor [OF e exact_weighs this] have "decide_verdict es rs True = MALICIOUS"
      by (cases "decide_verdict es rs True") simp_all
    with Cons rs(1) show ?thesis by simp
  next
    case Nil
    then have es: "es = map (similar_evidence ''<registry>'') (take 3 (ah_typosquat_candidates hist))"
      by (simp add: es_def any_hit_def history_evidence_def)
    show ?thesis
    proof (cases "ah_typosquat_candidates hist = []")
      case True
      with es Nil rs(1) ok absent show ?thesis by (simp add: decide_verdict_def)
    next
      case False
      have "decide_verdict es rs True = CLEAN"
        by (rule informational_not_judged [OF _ ok]) (use False in \<open>auto simp: es similar_evidence_fields\<close>)
      with False Nil rs(1) show ?thesis by simp
    qed
  qed
qed

subsection \<open>The cache as a single point of failure\<close>

text \<open>The stage cache is only an optimisation, but when it cannot be opened every analysis that
  reaches stage 2 ends in an ERROR, although nothing is wrong with the package or the stages.\<close>
theorem cache_failure_is_fatal:
  assumes "pi_use_cache i" and "pv_db_error env = Some e"
    and "stage_1b env i version url cx = Inr ((x, sha), cx1)"
    and "stage_1c env i reg version x cx1 = Inr (a, cx2)"
  shows "ar_verdict (fst (outcome_of (analyse_archive env i reg scorecard slsa version url cx))) = ERROR"
proof -
  have "run_behavior env i version sha x cx2 = Inl e"
    using assms(1,2) by (simp add: run_behavior_def open_stage_cache_def open_db_def Let_def)
  then have "stage_2 env i version sha x cx2 = Inl (error_report env i version
      (add_result (stage_fail ''stage_2_behavior_sequence'' (full_error env e)) cx2))"
    by (simp add: stage_2_def)
  with assms(3,4) show ?thesis
    by (simp add: analyse_archive_def static_stages_def outcome_of_def)
qed

subsection \<open>A small run\<close>

text \<open>
  A PyPI package with a given archive, in an environment without services: every network request
  other than the registry's fails, the parser is given, no other detector fires.
\<close>

definition sample_registry :: pyval where
  "sample_registry = PDict
     [(''info'', PDict [(''version'', PStr ''1.0''), (''summary'', PStr ''a small library''),
        (''author'', PStr ''Jo Doe'')]),
      (''releases'', PDict [(''1.0'', PList [PDict [(''packagetype'', PStr ''sdist''),
        (''url'', PStr ''https://files/p-1.0.tar.gz'')]])])]"

definition sample_detectors :: "nat \<Rightarrow> rule_finding list \<Rightarrow> agentic_env" where
  "sample_detectors score hits =
     \<lparr>ag_toml = (\<lambda>t. Inl (ValueError [])), ag_json = (\<lambda>t. Inl (ValueError [])),
      ag_signal = (\<lambda>py p d deps src. \<lparr>sg_score = score, sg_is_agentic = (score \<ge> AGENTIC_THRESHOLD),
         sg_matched = []\<rparr>),
      ag_capabilities = (\<lambda>py src. Inr []), ag_hitl = (\<lambda>src l. False),
      ag_rules = (\<lambda>src input. Inr hits)\<rparr>"

definition sample_dep_env :: dep_env where
  "sample_dep_env = \<lparr>de_parse = (\<lambda>s. Inr (Other [])), de_toml = (\<lambda>s. Inl (ValueError [])),
     de_json = (\<lambda>s. Inl (ValueError [])), de_str = (\<lambda>v. [])\<rparr>"

definition sample_stage_env :: stage_env where
  "sample_stage_env = \<lparr>se_sha = (\<lambda>s. s), se_read_module = (\<lambda>m. Inr None),
     se_dumps = (\<lambda>v. Inl (TypeError [])), se_loads = (\<lambda>s. Inl (ValueError [])), se_now_iso = []\<rparr>"

definition sample_tar :: "member list \<Rightarrow> archive_env" where
  "sample_tar ms = \<lparr>ae_fetch = (\<lambda>u n. Inr []), ae_untar = (\<lambda>b. Inr ms),
     ae_unzip = (\<lambda>b. Inl (ValueError [])), ae_utf8 = Inr, ae_utf8_replace = id,
     ae_json = (\<lambda>s. Inl (ValueError [])), ae_str = (\<lambda>v. [])\<rparr>"

definition sample_env :: "member list \<Rightarrow> pynode \<Rightarrow> agentic_env \<Rightarrow> pipe_env" where
  "sample_env ms tree detectors =
     \<lparr>pv_now = [], pv_api_key = True, pv_traceback = (\<lambda>e. []),
      pv_http = (\<lambda>u. HttpJson sample_registry),
      pv_threat = Inr \<lparr>tt_malicious = [], tt_popular = []\<rparr>, pv_index = Inr (make_index []),
      pv_scores = \<lparr>kv_github = (\<lambda>u. None), kv_http = (\<lambda>u. HttpStatus 404), kv_str = (\<lambda>v. [])\<rparr>,
      pv_db_error = None, pv_cache = sample_cache_env, pv_stage = sample_stage_env,
      pv_archive = sample_tar ms, pv_sha = (\<lambda>s. s), pv_agentic = detectors,
      pv_parse = (\<lambda>s. Inr tree), pv_js = (\<lambda>f. Inl (ValueError [])), pv_strings = ascii_env,
      pv_diff = \<lparr>df_archive = sample_tar ms, df_parse = (\<lambda>s. Inr (Other [])),
        df_js = (\<lambda>f. Inl (ValueError [])), df_deps = sample_dep_env, df_stage = sample_stage_env,
        df_names = id, df_dims = id\<rparr>,
      pv_ttp_clock = (\<lambda>h. []), pv_ttp_index = Inr (\<lambda>s k. Inr []), pv_iso = (\<lambda>s. None),
      pv_text = no_patterns, pv_deps = sample_dep_env,
      pv_graph = \<lparr>ge_versions = \<lparr>ve_pypi_max = (\<lambda>s vs. None), ve_registry = (\<lambda>n e. (None, []))\<rparr>,
        ge_history = (\<lambda>n e v. Inl (ValueError [])), ge_children = (\<lambda>n v e. Inr []),
        ge_pipeline = (\<lambda>n e. Inl (ValueError []))\<rparr>,
      pv_llm = no_llm, pv_binaries = (\<lambda>u bs. Inl (ValueError [])),
      pv_sandbox = (\<lambda>p e v. Inl (ValueError [])), pv_taxonomies = (\<lambda>v. [])\<rparr>"

definition sample_input :: pipe_input where
  "sample_input = \<lparr>pi_package = ''p'', pi_ecosystem = PYPI, pi_version = None, pi_llm_mode = ''stub'',
     pi_llm_model = [], pi_enable_deps = False, pi_enable_sandbox = False, pi_multi_agent = True,
     pi_integrity_mode = ''strict'', pi_use_cache = False, pi_force_rescan = False,
     pi_threat_filter = True\<rparr>"

definition empty_pipe_db :: pipe_db where
  "empty_pipe_db = \<lparr>pd_cache = \<lparr>cb_analyses = [], cb_log = []\<rparr>, pd_stages = []\<rparr>"

definition start_ctx :: pipe_ctx where
  "start_ctx = \<lparr>px_results = [], px_evidence = [], px_db = empty_pipe_db\<rparr>"

definition empty_extract :: full_source_extract where
  "empty_extract = \<lparr>fx_package = ''p'', fx_ecosystem = PYPI, fx_version = ''1.0'',
     fx_archive_url = ''u.tgz'', fx_archive_size = 0, fx_source_files = [], fx_binary_files = [],
     fx_all_file_names = [], fx_skipped = [], fx_error = None\<rparr>"

lemma sample_extract: "extract_all (sample_tar []) ''p'' PYPI ''1.0'' ''u.tgz'' = empty_extract"
  by (simp add: archive_eval sample_tar_def full_from_members_def empty_extract_def suffix_to_prefix)

lemma sample_env_fields [simp]:
  "pv_archive (sample_env ms tree d) = sample_tar ms" "pv_agentic (sample_env ms tree d) = d"
  "pv_parse (sample_env ms tree d) = (\<lambda>s. Inr tree)" "pv_deps (sample_env ms tree d) = sample_dep_env"
  "pv_api_key (sample_env ms tree d)" "pv_index (sample_env ms tree d) = Inr (make_index [])"
  "pv_http (sample_env ms tree d) = (\<lambda>u. HttpJson sample_registry)"
  by (simp_all add: sample_env_def)

lemma sample_input_fields [simp]:
  "pi_package sample_input = ''p''" "pi_ecosystem sample_input = PYPI" "\<not> pi_use_cache sample_input"
  "pi_llm_mode sample_input = ''stub''" "pi_version sample_input = None"
  by (simp_all add: sample_input_def)

text \<open>An agentic package without files: the signals suffice, no rule hits.\<close>

lemma sample_agentic:
  "\<exists>a. agentic_run (sample_detectors 6 []) ''p'' [] [] [] PYPI = Inr a \<and> sa_triggered a
     \<and> sa_verdict a = Some AGENTIC"
  by (simp add: agentic_run_def find_manifest_text_def deps_from_pyproject_def classify_def
      parse_manifest_def sample_detectors_def manifest_field_def AGENTIC_THRESHOLD_def Let_def
      judge_rules_def hits_of_severity_def has_malicious_def new_classification_def)

theorem agentic_never_answered_witness:
  "ar_verdict (fst (run_pipeline (sample_env [] (Other []) (sample_detectors 6 [])) sample_input
      empty_pipe_db)) \<noteq> AGENTIC"
  by (rule agentic_never_answered) simp

theorem agentic_escalated_witness:
  "\<exists>r. r = fst (outcome_of (analyse_archive (sample_env [] (Other []) (sample_detectors 6 []))
        sample_input (unknown_package None) None (unknown_slsa []) ''1.0'' ''u.tgz'' start_ctx))
     \<and> ar_verdict r \<in> {ERROR, SUSPICIOUS, HIGH_RISK, MALICIOUS}"
proof -
  let ?env = "sample_env [] (Other []) (sample_detectors 6 [])"
  from sample_agentic obtain a where a: "agentic_run (sample_detectors 6 []) ''p'' [] [] [] PYPI = Inr a"
    "sa_triggered a" "sa_verdict a = Some AGENTIC" by blast
  obtain sha cx1 where 1: "stage_1b ?env sample_input ''1.0'' ''u.tgz'' start_ctx
      = Inr ((empty_extract, sha), cx1)"
    by (simp add: stage_1b_def Let_def sample_extract) (simp add: empty_extract_def)
  have d: "meta_description (unknown_package None) 300 = Inr []"
    by (simp add: meta_description_def unknown_package_def)
  have deps: "declared_names ?env sample_input empty_extract = []"
    by (simp add: declared_names_def empty_extract_def extract_dependencies_def extract_python_deps_def
        no_deps_def)
  have "(AGENTIC = AGENTIC \<longrightarrow> ar_verdict (fst (outcome_of (analyse_archive ?env sample_input
        (unknown_package None) None (unknown_slsa []) ''1.0'' ''u.tgz'' start_ctx)))
        \<in> {ERROR, SUSPICIOUS, HIGH_RISK, MALICIOUS})"
    by (rule conjunct1 [OF agentic_escalated [OF 1 d _ a(2,3) refl]])
      (simp add: deps a(1), simp add: empty_extract_def a(1))
  then show ?thesis by simp
qed

subsection \<open>The conditions can be met\<close>

lemma quiet_agentic:
  assumes "find_manifest_text (fx_source_files x) ''pyproject.toml'' = None" and "pv_agentic env = sample_detectors 0 hits"
    and "pi_ecosystem i = PYPI"
  obtains a where "stage_1c env i (unknown_package None) version x cx = Inr a"
proof -
  have run: "agentic_run (sample_detectors 0 hits) (pi_package i) [] deps (fx_source_files x) PYPI
    = Inr \<lparr>sa_triggered = False, sa_classification = c, sa_verdict = None, sa_evidence = [],
        sa_package_meta = [(''agentic'', classification_to_dict c)]\<rparr>"
    if "c = (new_classification False None \<lparr>sg_score = 0, sg_is_agentic = False, sg_matched = []\<rparr>)
          \<lparr>ac_reason := ''not agentic (manifest absent / signals < threshold)''\<rparr>" for c deps
    using assms(1) that
    by (simp add: agentic_run_def deps_from_pyproject_def classify_def parse_manifest_def
        sample_detectors_def manifest_field_def AGENTIC_THRESHOLD_def new_classification_def Let_def)
  have d: "meta_description (unknown_package None) 300 = Inr []"
    by (simp add: meta_description_def unknown_package_def)
  show thesis
    by (rule that, simp add: stage_1c_def d assms(2,3) run [OF refl] Let_def)
qed

definition dropper_tree :: pynode where
  "dropper_tree = Other [Call (Attribute (Name ''requests'') ''get'') [] [] 1,
     Call (Name ''exec'') [] [] 2]"

definition dropper_member :: member where
  "dropper_member = \<lparr>am_name = ''p-1/setup.py'', am_isfile = True, am_size = 1, am_read = Inr (Some ''x'')\<rparr>"

definition dropper_extract :: full_source_extract where
  "dropper_extract = empty_extract
     \<lparr>fx_source_files := [\<lparr>fs_path = ''p-1/setup.py'', fs_basename = ''setup.py'', fs_content = ''x'',
        fs_size = 1, fs_language = ''python'', fs_tier = 1\<rparr>],
      fx_all_file_names := [''p-1/setup.py'']\<rparr>"

lemma dropper_extracted:
  "extract_all (sample_tar [dropper_member]) ''p'' PYPI ''1.0'' ''u.tgz'' = dropper_extract"
proof -
  have parts: "path_parts ''p-1/setup.py'' = [''p-1'', ''setup.py'']"
    by (simp add: path_parts_def)
  have lang: "detect_language ''setup.py'' = ''python''"
    by (simp add: detect_language_def suffix_to_prefix)
  have kind: "classify_file ''p-1/setup.py'' = ''source_py''"
    by (simp add: classify_file_def SOURCE_EXTENSIONS_PY_def suffix_to_prefix py_lower_def lower_char_def Let_def)
  have fate: "process_member (sample_tar [dropper_member]) ''p-1/setup.py'' 1 (Inr ''x'') PYPI
    = (Some (hd (fx_source_files dropper_extract)), None, None)"
    by (simp add: process_member_def is_excluded_path_def parts EXCLUDE_DIR_SEGMENTS_def kind
        MAX_TEXT_FILE_SIZE_def dropper_extract_def lang safe_decode_def sample_tar_def assign_tier_def Let_def)
  then show ?thesis
    by (simp add: archive_eval full_from_members_def suffix_to_prefix dropper_member_def
        sample_tar_def reader_def collect_def dropper_extract_def empty_extract_def)
qed

lemma dropper_behavior:
  "\<exists>f. analyze_files (\<lambda>s. Inr dropper_tree) js (to_entry_files dropper_extract) = Inr \<lparr>bh_files = [f]\<rparr>
     \<and> map ac_dimension (fq_calls f) = [DATA_TRANSMISSION, PAYLOAD_EXECUTION]"
proof -
  have known: "lookup_python ''requests.get'' = Some DATA_TRANSMISSION"
    "lookup_python ''exec'' = Some PAYLOAD_EXECUTION"
    by (simp_all add: lookup_python_def PYTHON_APIS_def)
  show ?thesis
    by (simp add: analyze_files_def dropper_extract_def empty_extract_def to_entry_files_def analyze_entry_def
        analyze_python_def dropper_tree_def visit_tree_def visit_call_def known preorder.simps dotted_def)
qed

theorem pattern_condemns_witness:
  "\<exists>r. r = fst (outcome_of (analyse_archive (sample_env [dropper_member] dropper_tree (sample_detectors 0 []))
        sample_input (unknown_package None) None (unknown_slsa []) ''1.0'' ''u.tgz'' start_ctx))
     \<and> ar_verdict r \<in> {ERROR, MALICIOUS}"
proof -
  let ?env = "sample_env [dropper_member] dropper_tree (sample_detectors 0 [])"
  obtain sha cx1 where 1: "stage_1b ?env sample_input ''1.0'' ''u.tgz'' start_ctx
      = Inr ((dropper_extract, sha), cx1)"
    by (simp add: stage_1b_def Let_def dropper_extracted) (simp add: dropper_extract_def empty_extract_def)
  obtain a cx2 where 2: "stage_1c ?env sample_input (unknown_package None) ''1.0'' dropper_extract cx1
      = Inr (a, cx2)"
    by (rule quiet_agentic [of dropper_extract ?env "[]" sample_input "''1.0''" cx1])
      (auto simp: dropper_extract_def find_manifest_text_def suffix_to_prefix)
  obtain f where f: "analyze_files (pv_parse ?env) (pv_js ?env) (to_entry_files dropper_extract)
      = Inr \<lparr>bh_files = [f]\<rparr>" "map ac_dimension (fq_calls f) = [DATA_TRANSMISSION, PAYLOAD_EXECUTION]"
    using dropper_behavior by fastforce
  from f(2) obtain c d where cs: "fq_calls f = [c, d]" "ac_dimension c = DATA_TRANSMISSION"
      "ac_dimension d = PAYLOAD_EXECUTION"
    by (auto simp: Cons_eq_map_conv map_eq_Cons_conv)
  obtain p where p: "p \<in> set PATTERNS" "sp_severity p = SevHIGH"
      "sp_slots p = [seq_slot ''DATA_TRANSMISSION'' 1 2, seq_slot ''PAYLOAD_EXECUTION'' 1 2]"
    by (rule that [of "PATTERNS ! 1"]) (simp_all add: PATTERNS_def)
  have occ: "occurs_in p (fq_calls f)"
    unfolding occurs_in_def using cs p(3)
    by (intro exI [of _ 0] conjI exI [of _ 2])
      (auto intro!: exI [of _ 1] simp: seq_slot_def slot_matches_dim_def)
  from pattern_condemns [OF _ 1 2 f(1) _ p(1) occ refl] p(2) show ?thesis by simp
qed

definition resembling_env :: pipe_env where
  "resembling_env = (sample_env [] (Other []) (sample_detectors 0 []))
     \<lparr>pv_http := \<lambda>u. HttpJson (PDict []), pv_index := Inr (make_index [sample_pattern])\<rparr>"

theorem no_archive_verdict_witness:
  "ar_verdict (fst (run_pipeline resembling_env
     (sample_input\<lparr>pi_package := ''chalc'', pi_ecosystem := NPM, pi_threat_filter := False\<rparr>)
     empty_pipe_db)) = CLEAN"
proof -
  let ?in = "sample_input\<lparr>pi_package := ''chalc'', pi_ecosystem := NPM, pi_threat_filter := False\<rparr>"
  have reg: "registry_check (pv_http resembling_env) ''chalc'' NPM = Inr \<lparr>rg_found = True,
      rg_latest_version = PNone, rg_all_versions = [], rg_archive_urls = [], rg_raw_metadata = PDict [],
      rg_error = None\<rparr>"
    by (simp add: resembling_env_def registry_check_def check_npm_def get_attr_def attr_dict_def
        or_empty_def d_get_def)
  obtain hist where h: "check_attack_history (pv_index resembling_env) ''chalc'' NPM None = Inr hist"
    by (simp add: check_attack_history_def resembling_env_def Let_def)
  have names: "ax_all_names (make_index [sample_pattern]) = [(''npm'', ''chalk'', sample_pattern)]"
    "ax_by_name (make_index [sample_pattern]) = [((''npm'', ''chalk''), [sample_pattern])]"
    by (simp_all add: make_index_def index_pattern_def sample_pattern_def py_lower_def lower_char_def
        name_keys_def by_name_add_def)
  have "similar_match ''chalc'' 2 ''npm'' (''npm'', ''chalk'', sample_pattern) \<noteq> None"
    by (simp add: similar_match_def levenshtein_full_ed Let_def)
  then have exact: "ah_exact_matches hist = []" and similar: "ah_typosquat_candidates hist \<noteq> []"
    using h by (auto simp: check_attack_history_def resembling_env_def lookup_exact_def names or_else_def
        lookup_similar_def List.map_filter_simps py_lower_def lower_char_def)
  show ?thesis
    using no_archive_verdict [of ?in resembling_env _ hist empty_pipe_db] reg h exact similar
    by (simp add: target_url_def target_version_def archive_url_of_def)
qed

theorem cache_failure_is_fatal_witness:
  "ar_verdict (fst (outcome_of (analyse_archive
      ((sample_env [] (Other []) (sample_detectors 0 []))\<lparr>pv_db_error := Some (ValueError [])\<rparr>)
      (sample_input\<lparr>pi_use_cache := True\<rparr>) (unknown_package None) None (unknown_slsa [])
      ''1.0'' ''u.tgz'' start_ctx))) = ERROR"
proof -
  let ?env = "(sample_env [] (Other []) (sample_detectors 0 []))\<lparr>pv_db_error := Some (ValueError [])\<rparr>"
  let ?in = "sample_input\<lparr>pi_use_cache := True\<rparr>"
  obtain sha cx1 where 1: "stage_1b ?env ?in ''1.0'' ''u.tgz'' start_ctx
      = Inr ((empty_extract, sha), cx1)"
    by (simp add: stage_1b_def Let_def sample_extract) (simp add: empty_extract_def)
  obtain a cx2 where 2: "stage_1c ?env ?in (unknown_package None) ''1.0'' empty_extract cx1
      = Inr (a, cx2)"
    by (rule quiet_agentic [of empty_extract ?env "[]" ?in "''1.0''" cx1])
      (auto simp: empty_extract_def find_manifest_text_def)
  show ?thesis by (rule cache_failure_is_fatal [OF _ _ 1 2]) simp_all
qed

end
