(* ===== verification/CachedStages.thy ===== *)
theory CachedStages
  imports PipelineFacts
begin

text \<open>
  The stages that the pipeline runs behind the stage cache (stages 3B, 4C, 4D and 4E of
  \<^verbatim>\<open>pipeline.py\<close>): each result type has a codec, and what a codec reads back is what it wrote, so
  a stage gives the same evidence whether its result was stored or computed. The contract is the
  locale \<open>stage_codec\<close> of the cache; here it is interpreted on the codecs the stages use.
\<close>

subsection \<open>The codecs\<close>

lemma flows_roundtrip: "flows_from_dict (flows_to_dict m) = Inr m"
proof -
  have "mapE flow_from_dict (map flow_to_dict fs) = Inr fs" for fs
    by (intro mapE_map) simp
  then have "mapE (\<lambda>(p, items). bindE (py_list items) (\<lambda>xs. bindE (mapE flow_from_dict xs) (\<lambda>fs. Inr (p, fs))))
      (map (\<lambda>(p, fs). (p, PList (map flow_to_dict fs))) m) = Inr m"
    by (intro mapE_map) auto
  then show ?thesis by (simp add: flows_from_dict_def flows_to_dict_def attr_dict_def d_get_def)
qed

interpretation diff_codec: stage_codec diff_to_dict diff_from_dict "\<lambda>_. True"
  by unfold_locales (simp add: diff_roundtrip)

interpretation flow_codec: stage_codec flows_to_dict flows_from_dict "\<lambda>_. True"
  by unfold_locales (simp add: flows_roundtrip)

interpretation mine_codec: stage_codec mine_to_dict mine_from_dict
    "\<lambda>r. \<forall>m\<in>set (smr_matches r). sm_pattern m \<in> set PATTERNS"
  by unfold_locales (rule mine_roundtrip)

interpretation indicator_codec: stage_codec indicators_to_dict indicators_from_dict
    "\<lambda>r. \<forall>h\<in>set (ir_hits r). ih_indicator h \<in> set INDICATORS"
  by unfold_locales (rule indicators_roundtrip)

subsection \<open>Every hit is in the catalogue\<close>

definition catalogued :: "indicator_hit list \<Rightarrow> bool" where
  "catalogued hs = (\<forall>h\<in>set hs. ih_indicator h \<in> set INDICATORS)"

lemma catalogued_simps [simp]:
  "catalogued []" "catalogued (h # hs) \<longleftrightarrow> ih_indicator h \<in> set INDICATORS \<and> catalogued hs"
  "catalogued (xs @ ys) \<longleftrightarrow> catalogued xs \<and> catalogued ys"
  by (auto simp: catalogued_def)

lemma mapE_catalogued:
  assumes "mapE f xs = Inr hss" and "\<And>x hs. x \<in> set xs \<Longrightarrow> f x = Inr hs \<Longrightarrow> catalogued hs"
  shows "catalogued (concat hss)"
  using assms by (induction xs arbitrary: hss) (simp, fastforce simp: bindE_Inr_iff)

lemma mapE_made:
  assumes "mapE f xs = Inr hs" and "\<And>x h. f x = Inr h \<Longrightarrow> ih_indicator h \<in> set INDICATORS"
  shows "catalogued hs"
  using assms by (induction xs arbitrary: hs) (auto simp: bindE_Inr_iff)

lemma sequence_catalogued: "match_from_sequence f = Inr hs \<Longrightarrow> catalogued hs"
  unfolding match_from_sequence_def by (erule mapE_made) (auto intro: make_hit_in split: prod.splits)

lemma metadata_catalogued: "match_from_metadata d a ds = Inr hs \<Longrightarrow> catalogued hs"
  unfolding match_from_metadata_def by (erule mapE_made) (auto intro: make_hit_in split: prod.splits)

lemma text_catalogued:
  assumes "match_from_text env sf = Inr hs"
  shows "catalogued hs"
proof -
  have line: "catalogued hs" if "line_hits p ls t = Inr hs" for p ls t hs
    using that by (auto simp: line_hits_def bindE_Inr_iff split: option.splits) (erule make_hit_in)+
  have multi: "catalogued hs" if "multiline_hits p c t = Inr hs" for p c t hs
    using that by (auto simp: multiline_hits_def bindE_Inr_iff split: option.splits) (erule make_hit_in)+
  have hook: "catalogued hs" if "npm_hook_hits env p d k = Inr hs" for p d k hs
    using that by (auto simp: npm_hook_hits_def bindE_Inr_iff Let_def dest: make_hit_in
        split: pyval.splits option.splits if_splits)
  have json: "catalogued hs" if "match_from_package_json env sf = Inr hs" for hs
    using that by (auto simp: match_from_package_json_def bindE_Inr_iff dest: mapE_catalogued [OF _ hook]
        split: pyval.splits sum.splits if_splits)
  show ?thesis
    using assms by (auto simp: match_from_text_def bindE_Inr_iff Let_def dest: json
        mapE_catalogued [OF _ line] mapE_catalogued [OF _ multi] split: if_splits)
qed

lemma match_all_catalogued:
  assumes "match_all env fs sfs d a ds = Inr r"
  shows "\<forall>h\<in>set (ir_hits r). ih_indicator h \<in> set INDICATORS"
proof -
  from assms obtain x y z where r: "r = \<lparr>ir_hits = dedup_hits (concat x @ concat y @ z)\<rparr>"
    and m: "mapE match_from_sequence fs = Inr x" "mapE (match_from_text env) sfs = Inr y"
      "match_from_metadata d a ds = Inr z"
    by (auto simp: match_all_def bindE_Inr_iff)
  from mapE_catalogued [OF m(1) sequence_catalogued] mapE_catalogued [OF m(2) text_catalogued]
    metadata_catalogued [OF m(3)] r
  show ?thesis using dedup_hits_spec(3) by (fastforce simp: catalogued_def)
qed

lemma mine_catalogued: "\<forall>m\<in>set (smr_matches (mine b)). sm_pattern m \<in> set PATTERNS"
  by (auto simp: mine_def dest: match_reported(2))

subsection \<open>Stored or computed\<close>

text \<open>
  What the row of a stage must hold, and what the serialiser must do, for the cache to be sound: the
  row of this archive, if there is one, stores the result of the stage on this input, and what is
  written can be read.
\<close>

definition stored_right :: "pipe_env \<Rightarrow> pipe_input \<Rightarrow> string \<Rightarrow> string \<Rightarrow> string \<Rightarrow> pyval \<Rightarrow> stage_db \<Rightarrow> bool" where
  "stored_right env i version sha name v db =
     holds_result (pv_stage env) (cache_opts_of i sha) (stage_key_of i version name) v db"

definition writes_back :: "pipe_env \<Rightarrow> pyval \<Rightarrow> bool" where
  "writes_back env v = (\<forall>json. se_dumps (pv_stage env) v = Inr json \<longrightarrow> se_loads (pv_stage env) json = Inr v)"

lemma cached_agrees:
  assumes open_ok: "pv_db_error env = None" and codec: "stage_codec to_dict from_dict ok"
    and "ok r" and right: "stored_right env i version sha name (to_dict r) (pd_stages (px_db cx))"
    and wb: "writes_back env (to_dict r)"
  shows "\<exists>status db. behind_cache env i version sha name to_dict from_dict (Inr r) cx
      = Inr (r, status, set_stages db cx) \<and> stored_right env i version sha name (to_dict r) db"
proof -
  obtain status db where "cached_stage (pv_stage env) (cache_opts_of i sha) (stage_key_of i version name)
      to_dict from_dict (Inr r) (pd_stages (px_db cx)) = Inr (r, status, db)"
    "holds_result (pv_stage env) (cache_opts_of i sha) (stage_key_of i version name) (to_dict r) db"
    using stage_codec.transparent [OF codec refl \<open>ok r\<close> right [unfolded stored_right_def]]
      wb by (auto simp: writes_back_def)
  with open_ok show ?thesis
    by (intro exI [of _ status] exI [of _ db])
      (simp add: behind_cache_def open_stage_cache_def open_db_def stored_right_def)
qed

lemma set_stages_fields [simp]:
  "px_evidence (set_stages db cx) = px_evidence cx" "px_results (set_stages db cx) = px_results cx"
  "pd_stages (px_db (set_stages db cx)) = db"
  by (simp_all add: set_stages_def)

text \<open>C5: The stage cache does not change what the analysis finds. When the rows of the archive hold
  what the stages computed on it, indicator matching (4C), sequence mining (4E) and taint slicing (4D)
  add with the cache the same evidence, and yield the same code slices, as without it; and they leave
  the rows so, hence a rerun of the same analysis finds the same.\<close>
theorem cache_is_transparent:
  assumes "pv_db_error env = None"
    and "match_all (pv_text env) (bh_files b) (fx_source_files x) d a (declared_names env i x) = Inr r"
    and "foldE (taint_file env) (python_files x) [] = Inr flows"
    and "stored_right env i version sha ''stage_4c_ind47'' (indicators_to_dict r) (pd_stages (px_db cx))"
    and "stored_right env i version sha ''stage_4e_sequence'' (mine_to_dict (mine b)) (pd_stages (px_db cx))"
    and "stored_right env i version sha ''stage_4d_taint'' (flows_to_dict flows) (pd_stages (px_db cx))"
    and "writes_back env (indicators_to_dict r)" and "writes_back env (mine_to_dict (mine b))"
    and "writes_back env (flows_to_dict flows)"
  shows "px_evidence (stage_4c env i version sha x b d a cx)
      = px_evidence (stage_4c env (i\<lparr>pi_use_cache := False\<rparr>) version sha x b d a cx)
    \<and> px_evidence (stage_4e env i version sha b cx)
      = px_evidence (stage_4e env (i\<lparr>pi_use_cache := False\<rparr>) version sha b cx)
    \<and> fst (stage_4d env i version sha x cx) = fst (stage_4d env (i\<lparr>pi_use_cache := False\<rparr>) version sha x cx)
    \<and> stored_right env i version sha ''stage_4c_ind47'' (indicators_to_dict r)
        (pd_stages (px_db (stage_4c env i version sha x b d a cx)))
    \<and> stored_right env i version sha ''stage_4e_sequence'' (mine_to_dict (mine b))
        (pd_stages (px_db (stage_4e env i version sha b cx)))
    \<and> stored_right env i version sha ''stage_4d_taint'' (flows_to_dict flows)
        (pd_stages (px_db (snd (stage_4d env i version sha x cx))))"
proof -
  have names: "declared_names env (i\<lparr>pi_use_cache := c\<rparr>) x = declared_names env i x" for c
    by (simp add: declared_names_def)
  from cached_agrees [OF assms(1) indicator_codec.stage_codec_axioms match_all_catalogued [OF assms(2)]
      assms(4,7)]
    cached_agrees [OF assms(1) mine_codec.stage_codec_axioms _ assms(5,8)] mine_catalogued
    cached_agrees [OF assms(1) flow_codec.stage_codec_axioms _ assms(6,9)]
  show ?thesis
    by (auto simp: stage_4c_def stage_4e_def stage_4d_def behind_cache_off names assms(2,3) Let_def)
qed

definition mined_sample :: behavior_report where
  "mined_sample = \<lparr>bh_files = [\<lparr>fq_path = ''setup.py'', fq_language = ''python'', fq_calls =
     [\<lparr>ac_name = ''os.getenv'', ac_line = 1, ac_dimension = INFORMATION_READING, ac_snippet = []\<rparr>,
      \<lparr>ac_name = ''requests.post'', ac_line = 2, ac_dimension = DATA_TRANSMISSION, ac_snippet = []\<rparr>],
     fq_parse_error = None\<rparr>]\<rparr>"

text \<open>A serialiser that knows one document.\<close>

definition caching_env :: pipe_env where
  "caching_env = (sample_env [] (Other []) (sample_detectors 0 []))
     \<lparr>pv_stage := sample_stage_env
        \<lparr>se_dumps := \<lambda>v. if v = mine_to_dict (mine mined_sample) then Inr ''doc'' else Inl (TypeError []),
         se_loads := \<lambda>s. Inr (mine_to_dict (mine mined_sample))\<rparr>\<rparr>"

text \<open>Matching on calls only uses codes of the catalogue, so it never raises.\<close>

lemma sequence_codes: "fst ` set (sequence_candidates f) \<subseteq> set (map mi_code INDICATORS)"
  unfolding INDICATORS_code_list by (auto simp: sequence_candidates_def Let_def split: if_splits)

lemma match_from_sequence_total: "\<exists>hs. match_from_sequence f = Inr hs"
  unfolding match_from_sequence_def
proof (rule mapE_total, intro ballI)
  fix x assume "x \<in> set (sequence_candidates f)"
  with sequence_codes [of f] have "fst x \<in> set (map mi_code INDICATORS)" by blast
  then show "\<exists>y. (case x of (code, c, conf, reason) \<Rightarrow>
      make_hit code (fq_path f) (ac_line c) (ac_snippet c) conf reason) = Inr y"
    by (cases x) (simp add: make_hit_known del: set_map)
qed

theorem cache_is_transparent_witness:
  "px_evidence (stage_4e caching_env (sample_input\<lparr>pi_use_cache := True\<rparr>) ''1.0'' ''sha'' mined_sample start_ctx)
   = px_evidence (stage_4e caching_env (sample_input\<lparr>pi_use_cache := True, pi_use_cache := False\<rparr>) ''1.0'' ''sha''
       mined_sample start_ctx)"
proof -
  let ?x = "empty_extract" and ?i = "sample_input\<lparr>pi_use_cache := True\<rparr>"
  have wb: "writes_back caching_env v" for v
    by (simp add: writes_back_def caching_env_def)
  have fresh: "stored_right caching_env ?i ''1.0'' ''sha'' name v (pd_stages (px_db start_ctx))" for name v
    by (simp add: stored_right_def holds_result_def start_ctx_def empty_pipe_db_def fetch_def)
  have m: "\<exists>r. match_all (pv_text caching_env) (bh_files mined_sample) (fx_source_files ?x) [] []
      (declared_names caching_env ?i ?x) = Inr r"
  proof -
    obtain hs c where "match_from_sequence (hd (bh_files mined_sample)) = Inr hs"
      "match_from_metadata [] [] (declared_names caching_env ?i ?x) = Inr c"
      using match_from_sequence_total match_from_metadata_total by blast
    then show ?thesis by (simp add: match_all_def mined_sample_def empty_extract_def)
  qed
  then obtain r where r: "match_all (pv_text caching_env) (bh_files mined_sample) (fx_source_files ?x) [] []
      (declared_names caching_env ?i ?x) = Inr r" by blast
  have f: "foldE (taint_file caching_env) (python_files ?x) [] = Inr []"
    by (simp add: python_files_def empty_extract_def)
  have "pv_db_error caching_env = None" by (simp add: caching_env_def sample_env_def)
  from cache_is_transparent [OF this r f fresh fresh fresh wb wb wb] show ?thesis by simp
qed

end
