(* ===== verification/Regex.thy ===== *)
theory Regex
  imports Py_Prelude
begin

text \<open>
  Python's module \<^verbatim>\<open>re\<close>, as far as the program uses it: the syntax of patterns, the
  backtracking matcher with its captures, and \<^verbatim>\<open>search\<close>, \<^verbatim>\<open>match\<close>, \<^verbatim>\<open>finditer\<close>,
  \<^verbatim>\<open>findall\<close> and \<^verbatim>\<open>sub\<close>. The matcher returns the ends of all ways to match, in the order
  in which backtracking tries them; the match Python reports is the first. Text is ASCII, as in the
  rest of the development.

  A pattern is written as in the source, with a grave accent for each backslash.
\<close>

subsection \<open>Syntax\<close>

datatype set_item = SChar char | SRange char char | SClass char

datatype rx =
    REmpty
  | RChar char
  | RAny
  | RSet bool "set_item list"
  | RBegin
  | REnd
  | RWordB bool
  | RSeq rx rx
  | RAlt rx rx
  | RRep rx nat "nat option" bool
  | RGroup nat rx
  | RBackref nat
  | RLook bool rx
  | RBehind bool rx

record re_flags =
  fl_ignorecase :: bool
  fl_multiline :: bool
  fl_dotall :: bool

definition no_flags :: re_flags where
  "no_flags = \<lparr>fl_ignorecase = False, fl_multiline = False, fl_dotall = False\<rparr>"

definition RE_I :: re_flags where
  "RE_I = no_flags\<lparr>fl_ignorecase := True\<rparr>"

definition RE_M :: re_flags where
  "RE_M = no_flags\<lparr>fl_multiline := True\<rparr>"

definition RE_S :: re_flags where
  "RE_S = no_flags\<lparr>fl_dotall := True\<rparr>"

subsection \<open>Characters\<close>

definition is_word :: "char \<Rightarrow> bool" where
  "is_word c = (let n = (of_char c :: nat) in
     (48 \<le> n \<and> n \<le> 57) \<or> (65 \<le> n \<and> n \<le> 90) \<or> (97 \<le> n \<and> n \<le> 122) \<or> n = 95)"

definition class_has :: "char \<Rightarrow> char \<Rightarrow> bool" where
  "class_has k c =
     (if k = CHR ''w'' then is_word c else if k = CHR ''W'' then \<not> is_word c
      else if k = CHR ''d'' then is_digit c else if k = CHR ''D'' then \<not> is_digit c
      else if k = CHR ''s'' then is_space c else if k = CHR ''S'' then \<not> is_space c
      else False)"

definition in_range :: "char \<Rightarrow> char \<Rightarrow> char \<Rightarrow> bool" where
  "in_range a b c = ((of_char a :: nat) \<le> of_char c \<and> (of_char c :: nat) \<le> of_char b)"

text \<open>With \<^verbatim>\<open>IGNORECASE\<close> a character is tried in both cases.\<close>

definition cases_of :: "re_flags \<Rightarrow> char \<Rightarrow> char list" where
  "cases_of fl c = (if fl_ignorecase fl then [c, lower_char c, upper_char c] else [c])"

fun item_has :: "re_flags \<Rightarrow> char \<Rightarrow> set_item \<Rightarrow> bool" where
  "item_has fl c (SChar a) = (a \<in> set (cases_of fl c))"
| "item_has fl c (SRange a b) = list_ex (in_range a b) (cases_of fl c)"
| "item_has fl c (SClass k) = class_has k c"

definition fold_case :: "re_flags \<Rightarrow> string \<Rightarrow> string" where
  "fold_case fl s = (if fl_ignorecase fl then py_lower s else s)"

subsection \<open>The matcher\<close>

type_synonym caps = "nat \<Rightarrow> (nat \<times> nat) option"
type_synonym ways = "(nat \<times> caps) list"

definition no_caps :: caps where
  "no_caps = (\<lambda>_. None)"

text \<open>
  \<open>rep f greedy hi prev i c\<close>: at most \<open>length hi\<close> further rounds of
  \<open>f\<close>, after the obligatory ones; a round that starts where the previous one started is not tried, so that empty rounds end. The list \<open>hi\<close> only counts.
\<close>

fun rep :: "(nat \<Rightarrow> caps \<Rightarrow> ways) \<Rightarrow> bool \<Rightarrow> 'a list \<Rightarrow> nat option \<Rightarrow> nat \<Rightarrow> caps \<Rightarrow> ways" where
  "rep f greedy [] prev i c = [(i, c)]"
| "rep f greedy (_ # n) prev i c =
     (let rounds = (if prev = Some i then []
            else concat (map (\<lambda>(j, c'). rep f greedy n (Some i) j c') (f i c)))
      in if greedy then rounds @ [(i, c)] else (i, c) # rounds)"

fun rep_min :: "(nat \<Rightarrow> caps \<Rightarrow> ways) \<Rightarrow> (nat \<Rightarrow> caps \<Rightarrow> ways) \<Rightarrow> 'a list \<Rightarrow> nat \<Rightarrow> caps \<Rightarrow> ways" where
  "rep_min f k [] i c = k i c"
| "rep_min f k (_ # n) i c = concat (map (\<lambda>(j, c'). rep_min f k n j c') (f i c))"

definition seq_ways :: "(nat \<Rightarrow> caps \<Rightarrow> ways) \<Rightarrow> ways \<Rightarrow> ways" where
  "seq_ways g ws = concat (map (\<lambda>(j, c). g j c) ws)"

text \<open>The length of the matches of an expression that a look-behind may contain.\<close>

fun rx_width :: "rx \<Rightarrow> nat" where
  "rx_width (RChar c) = 1"
| "rx_width RAny = 1"
| "rx_width (RSet n items) = 1"
| "rx_width (RSeq a b) = rx_width a + rx_width b"
| "rx_width (RAlt a b) = rx_width a"
| "rx_width (RRep r lo hi g) = lo * rx_width r"
| "rx_width (RGroup k r) = rx_width r"
| "rx_width r = 0"

definition at_word :: "string \<Rightarrow> nat \<Rightarrow> bool" where
  "at_word s i = (i < length s \<and> is_word (s ! i))"

definition at_boundary :: "string \<Rightarrow> nat \<Rightarrow> bool" where
  "at_boundary s i = ((0 < i \<and> at_word s (i - 1)) \<noteq> at_word s i)"

definition at_begin :: "re_flags \<Rightarrow> string \<Rightarrow> nat \<Rightarrow> bool" where
  "at_begin fl s i = (i = 0 \<or> fl_multiline fl \<and> s ! (i - 1) = CHR 0x0A)"

definition at_end :: "re_flags \<Rightarrow> string \<Rightarrow> nat \<Rightarrow> bool" where
  "at_end fl s i = (i = length s \<or> i + 1 = length s \<and> s ! i = CHR 0x0A
     \<or> fl_multiline fl \<and> s ! i = CHR 0x0A)"

definition one_char :: "(char \<Rightarrow> bool) \<Rightarrow> string \<Rightarrow> nat \<Rightarrow> caps \<Rightarrow> ways" where
  "one_char P s i c = (if i < length s \<and> P (s ! i) then [(i + 1, c)] else [])"

definition assert_at :: "bool \<Rightarrow> nat \<Rightarrow> caps \<Rightarrow> ways" where
  "assert_at b i c = (if b then [(i, c)] else [])"

text \<open>How many rounds beyond the obligatory ones: without an upper bound, one per character left and
  one that may be empty.\<close>

definition extra_rounds :: "string \<Rightarrow> nat \<Rightarrow> nat \<Rightarrow> nat option \<Rightarrow> unit list" where
  "extra_rounds s i lo hi = replicate (case hi of None \<Rightarrow> length s - i + 1 | Some n \<Rightarrow> n - lo) ()"

definition backref :: "re_flags \<Rightarrow> string \<Rightarrow> (nat \<times> nat) option \<Rightarrow> nat \<Rightarrow> caps \<Rightarrow> ways" where
  "backref fl s sp i c =
     (case sp of
        None \<Rightarrow> []
      | Some (a, b) \<Rightarrow>
          if i + (b - a) \<le> length s
             \<and> fold_case fl (take (b - a) (drop i s)) = fold_case fl (take (b - a) (drop a s))
          then [(i + (b - a), c)] else [])"

primrec ways_of :: "re_flags \<Rightarrow> string \<Rightarrow> rx \<Rightarrow> nat \<Rightarrow> caps \<Rightarrow> ways" where
  "ways_of fl s REmpty = (\<lambda>i c. [(i, c)])"
| "ways_of fl s (RChar a) = one_char (\<lambda>x. item_has fl x (SChar a)) s"
| "ways_of fl s RAny = one_char (\<lambda>x. fl_dotall fl \<or> x \<noteq> CHR 0x0A) s"
| "ways_of fl s (RSet neg items) = one_char (\<lambda>x. list_ex (item_has fl x) items \<noteq> neg) s"
| "ways_of fl s RBegin = (\<lambda>i. assert_at (at_begin fl s i) i)"
| "ways_of fl s REnd = (\<lambda>i. assert_at (at_end fl s i) i)"
| "ways_of fl s (RWordB b) = (\<lambda>i. assert_at (at_boundary s i = b) i)"
| "ways_of fl s (RSeq r1 r2) = (\<lambda>i c. seq_ways (ways_of fl s r2) (ways_of fl s r1 i c))"
| "ways_of fl s (RAlt r1 r2) = (\<lambda>i c. ways_of fl s r1 i c @ ways_of fl s r2 i c)"
| "ways_of fl s (RRep r lo hi greedy) = (\<lambda>i c.
     rep_min (ways_of fl s r)
       (\<lambda>j. rep (ways_of fl s r) greedy (extra_rounds s j lo hi) None j) (replicate lo ()) i c)"
| "ways_of fl s (RGroup k r) = (\<lambda>i c. map (\<lambda>(j, c'). (j, c'(k \<mapsto> (i, j)))) (ways_of fl s r i c))"
| "ways_of fl s (RBackref k) = (\<lambda>i c. backref fl s (c k) i c)"
| "ways_of fl s (RLook pos r) = (\<lambda>i c.
     if pos then map (\<lambda>(j, c'). (i, c')) (take 1 (ways_of fl s r i c))
     else assert_at (ways_of fl s r i c = []) i c)"
| "ways_of fl s (RBehind pos r) = (\<lambda>i c.
     let found = rx_width r \<le> i \<and> i \<in> fst ` set (ways_of fl s r (i - rx_width r) c)
     in assert_at (found = pos) i c)"

subsection \<open>Patterns as text\<close>

text \<open>The grave accent stands for the backslash.\<close>

definition pattern_text :: "string \<Rightarrow> string" where
  "pattern_text p = map (\<lambda>x. if x = CHR 0x60 then CHR 0x5C else x) p"

definition bslash :: char where
  "bslash = CHR 0x60"

definition hex_val :: "char \<Rightarrow> nat" where
  "hex_val x = (let n = of_char x in if n \<le> 57 then n - 48 else if n \<le> 70 then n - 55 else n - 87)"

text \<open>An escaped character, outside and inside brackets, with the number of characters it takes.\<close>

definition class_letters :: "char list" where
  "class_letters = ''wWdDsS''"

fun escaped_char :: "string \<Rightarrow> char \<times> string" where
  "escaped_char [] = (bslash, [])"
| "escaped_char (x # rest) =
     (if x = CHR ''n'' then (CHR 0x0A, rest) else if x = CHR ''t'' then (CHR 0x09, rest)
      else if x = CHR ''r'' then (CHR 0x0D, rest) else if x = CHR ''f'' then (CHR 0x0C, rest)
      else if x = CHR ''v'' then (CHR 0x0B, rest)
      else if x = CHR ''x'' then
        (case rest of a # b # rest' \<Rightarrow> (char_of (16 * hex_val a + hex_val b), rest') | _ \<Rightarrow> (x, rest))
      else if x = bslash then (CHR 0x5C, rest) else (x, rest))"

text \<open>The items of a bracket, up to its end. The first argument bounds the recursion.\<close>

fun parse_items :: "'a list \<Rightarrow> string \<Rightarrow> bool \<Rightarrow> (set_item list \<times> string) option" where
  "parse_items [] p fst_item = None"
| "parse_items (_ # n) p fst_item =
     (case p of
        [] \<Rightarrow> None
      | x # p1 \<Rightarrow>
          if x = CHR '']'' \<and> \<not> fst_item then Some ([], p1)
          else if x = bslash \<and> (case p1 of y # _ \<Rightarrow> y \<in> set class_letters | [] \<Rightarrow> False)
          then map_option (apfst (Cons (SClass (hd p1)))) (parse_items n (tl p1) False)
          else
            (case (if x = bslash then escaped_char p1 else (x, p1)) of
              (a, p2) \<Rightarrow>
                (case p2 of
                   d # e # p3 \<Rightarrow>
                     if d = CHR ''-'' \<and> e \<noteq> CHR '']''
                     then (case (if e = bslash then escaped_char p3 else (e, p3)) of
                         (b, p4) \<Rightarrow> map_option (apfst (Cons (SRange a b))) (parse_items n p4 False))
                     else map_option (apfst (Cons (SChar a))) (parse_items n p2 False)
                 | _ \<Rightarrow> map_option (apfst (Cons (SChar a))) (parse_items n p2 False))))"

definition parse_set :: "string \<Rightarrow> (rx \<times> string) option" where
  "parse_set p =
     (case p of
        x # p1 \<Rightarrow> if x = CHR ''^'' then map_option (apfst (RSet True)) (parse_items p p1 True)
                  else map_option (apfst (RSet False)) (parse_items p p True)
      | [] \<Rightarrow> None)"

text \<open>A quantifier: \<^verbatim>\<open>*\<close>, \<^verbatim>\<open>+\<close>, \<^verbatim>\<open>?\<close>, \<^verbatim>\<open>{n}\<close>, \<^verbatim>\<open>{n,}\<close>,
  \<^verbatim>\<open>{,m}\<close> or \<^verbatim>\<open>{n,m}\<close>, lazy when a question mark follows.\<close>

fun number_value :: "string \<Rightarrow> nat \<Rightarrow> nat" where
  "number_value [] n = n"
| "number_value (x # xs) n = number_value xs (10 * n + (of_char x - 48))"

definition braces :: "string \<Rightarrow> (nat \<times> nat option \<times> string) option" where
  "braces p =
     (let a = takeWhile is_digit p; p1 = dropWhile is_digit p in
      case p1 of
        x # p2 \<Rightarrow>
          if x = CHR ''}'' \<and> a \<noteq> []
          then Some (number_value a 0, Some (number_value a 0), p2)
          else if x = CHR '',''
          then (let b = takeWhile is_digit p2; p3 = dropWhile is_digit p2 in
                if startswith p3 ''}'' then
                  Some (number_value a 0, if b = [] then None else Some (number_value b 0), tl p3)
                else None)
          else None
      | [] \<Rightarrow> None)"

definition quantifier :: "string \<Rightarrow> (nat \<times> nat option \<times> string) option" where
  "quantifier p =
     (case p of
        [] \<Rightarrow> None
      | x # p1 \<Rightarrow>
          if x = CHR ''*'' then Some (0, None, p1)
          else if x = CHR ''+'' then Some (1, None, p1)
          else if x = CHR ''?'' then Some (0, Some 1, p1)
          else if x = CHR ''{'' then braces p1 else None)"

definition quantified :: "rx \<Rightarrow> string \<Rightarrow> rx \<times> string" where
  "quantified r p =
     (case quantifier p of
        None \<Rightarrow> (r, p)
      | Some (lo, hi, p1) \<Rightarrow>
          if startswith p1 ''?'' then (RRep r lo hi False, tl p1) else (RRep r lo hi True, p1))"

text \<open>Names of groups, the number of the next group, the text that is left.\<close>

type_synonym group_names = "(string \<times> nat) list"
type_synonym 'a parsed = "('a \<times> group_names \<times> nat \<times> string) option"

definition name_end :: "string \<Rightarrow> char \<Rightarrow> string \<times> string" where
  "name_end p x = (takeWhile (\<lambda>y. y \<noteq> x) p, tl (dropWhile (\<lambda>y. y \<noteq> x) p))"

definition parse_escape :: "string \<Rightarrow> rx \<times> string" where
  "parse_escape p =
     (case p of
        [] \<Rightarrow> (RChar (CHR 0x5C), [])
      | x # p1 \<Rightarrow>
          if x \<in> set class_letters then (RSet False [SClass x], p1)
          else if x = CHR ''b'' then (RWordB True, p1)
          else if x = CHR ''B'' then (RWordB False, p1)
          else if is_digit x then (RBackref (of_char x - 48), p1)
          else (case escaped_char p of (y, p2) \<Rightarrow> (RChar y, p2)))"

datatype group_kind =
  Plain | Numbered | Named string | Ahead bool | Behind bool

definition group_kind_of :: "string \<Rightarrow> group_kind \<times> string" where
  "group_kind_of p =
     (if startswith p ''?:'' then (Plain, drop 2 p)
      else if startswith p ''?P<'' then (case name_end (drop 3 p) (CHR ''>'') of (n, p') \<Rightarrow> (Named n, p'))
      else if startswith p ''?!'' then (Ahead False, drop 2 p)
      else if startswith p ''?='' then (Ahead True, drop 2 p)
      else if startswith p ''?<!'' then (Behind False, drop 3 p)
      else if startswith p ''?<='' then (Behind True, drop 3 p)
      else (Numbered, p))"

definition grouped :: "group_kind \<Rightarrow> nat \<Rightarrow> rx \<Rightarrow> rx" where
  "grouped k n r = (case k of Plain \<Rightarrow> r | Numbered \<Rightarrow> RGroup n r | Named nm \<Rightarrow> RGroup n r
     | Ahead b \<Rightarrow> RLook b r | Behind b \<Rightarrow> RBehind b r)"

definition new_names :: "group_kind \<Rightarrow> nat \<Rightarrow> group_names \<Rightarrow> group_names" where
  "new_names k n nms = (case k of Named nm \<Rightarrow> (nm, n) # nms | _ \<Rightarrow> nms)"

definition next_number :: "group_kind \<Rightarrow> nat \<Rightarrow> nat" where
  "next_number k n = (case k of Numbered \<Rightarrow> n + 1 | Named _ \<Rightarrow> n + 1 | _ \<Rightarrow> n)"

text \<open>
  Alternatives, sequences and one item; the first argument bounds the depth, and the text itself is
  long enough.
\<close>

fun parse_alt :: "'a list \<Rightarrow> group_names \<Rightarrow> nat \<Rightarrow> string \<Rightarrow> rx parsed"
and parse_seq :: "'a list \<Rightarrow> group_names \<Rightarrow> nat \<Rightarrow> string \<Rightarrow> rx parsed"
and parse_item :: "'a list \<Rightarrow> group_names \<Rightarrow> nat \<Rightarrow> string \<Rightarrow> rx parsed" where
  "parse_alt [] nms k p = None"
| "parse_alt (_ # n) nms k p =
     (case parse_seq n nms k p of
        None \<Rightarrow> None
      | Some (r, nms1, k1, p1) \<Rightarrow>
          if startswith p1 ''|''
          then (case parse_alt n nms1 k1 (tl p1) of
                  None \<Rightarrow> None
                | Some (r', nms2, k2, p2) \<Rightarrow> Some (RAlt r r', nms2, k2, p2))
          else Some (r, nms1, k1, p1))"
| "parse_seq [] nms k p = None"
| "parse_seq (_ # n) nms k p =
     (if p = [] \<or> hd p = CHR ''|'' \<or> hd p = CHR '')'' then Some (REmpty, nms, k, p)
      else case parse_item n nms k p of
        None \<Rightarrow> None
      | Some (r, nms1, k1, p1) \<Rightarrow>
          (case parse_seq n nms1 k1 p1 of
             None \<Rightarrow> None
           | Some (r', nms2, k2, p2) \<Rightarrow> Some (if r' = REmpty then r else RSeq r r', nms2, k2, p2)))"
| "parse_item [] nms k p = None"
| "parse_item (_ # n) nms k p =
     (case p of
        [] \<Rightarrow> None
      | x # p1 \<Rightarrow>
          if x = CHR ''('' then
            (if startswith p1 ''?P='' then
               (case name_end (drop 3 p1) (CHR '')'') of (nm, p2) \<Rightarrow>
                 (case map_of nms nm of
                    None \<Rightarrow> None
                  | Some g \<Rightarrow> (case quantified (RBackref g) p2 of (r, p3) \<Rightarrow> Some (r, nms, k, p3))))
             else
               (case group_kind_of p1 of (kind, p2) \<Rightarrow>
                 (case parse_alt n (new_names kind k nms) (next_number kind k) p2 of
                    None \<Rightarrow> None
                  | Some (r, nms1, k1, p3) \<Rightarrow>
                      if startswith p3 '')''
                      then (case quantified (grouped kind k r) (tl p3) of (r', p4) \<Rightarrow> Some (r', nms1, k1, p4))
                      else None)))
          else if x = CHR ''['' then
            (case parse_set p1 of
               None \<Rightarrow> None
             | Some (r, p2) \<Rightarrow> (case quantified r p2 of (r', p3) \<Rightarrow> Some (r', nms, k, p3)))
          else
            (case (if x = bslash then parse_escape p1
                   else if x = CHR ''.'' then (RAny, p1)
                   else if x = CHR ''^'' then (RBegin, p1)
                   else if x = CHR ''$'' then (REnd, p1)
                   else (RChar x, p1)) of
              (r, p2) \<Rightarrow> (case quantified r p2 of (r', p3) \<Rightarrow> Some (r', nms, k, p3))))"

definition parse_pattern :: "string \<Rightarrow> rx option" where
  "parse_pattern p =
     (case parse_alt (p @ p @ p @ ''    '') [] 1 p of
        Some (r, _, _, []) \<Rightarrow> Some r
      | _ \<Rightarrow> None)"

record regex =
  rg_pattern :: string
  rg_flags :: re_flags
  rg_rx :: rx

text \<open>\<^verbatim>\<open>re.compile\<close>; a pattern that is no pattern is given an expression that matches nothing
  (every pattern of the program is shown to be one).\<close>

definition re_compile :: "re_flags \<Rightarrow> string \<Rightarrow> regex" where
  "re_compile fl p = \<lparr>rg_pattern = pattern_text p, rg_flags = fl,
     rg_rx = (case parse_pattern p of Some r \<Rightarrow> r | None \<Rightarrow> RSet False [])\<rparr>"

abbreviation rxP :: "string \<Rightarrow> regex" where
  "rxP p \<equiv> re_compile no_flags p"

abbreviation rxI :: "string \<Rightarrow> regex" where
  "rxI p \<equiv> re_compile RE_I p"

subsection \<open>Searching\<close>

record re_match =
  mt_start :: nat
  mt_end :: nat
  mt_caps :: caps

definition py_slice :: "string \<Rightarrow> nat \<Rightarrow> nat \<Rightarrow> string" where
  "py_slice s i j = take (j - i) (drop i s)"

text \<open>\<^verbatim>\<open>m.group(0)\<close> and \<^verbatim>\<open>m.group(k)\<close>, \<^verbatim>\<open>None\<close> for a group without a match.\<close>

definition group0 :: "string \<Rightarrow> re_match \<Rightarrow> string" where
  "group0 s m = py_slice s (mt_start m) (mt_end m)"

definition group_of :: "string \<Rightarrow> re_match \<Rightarrow> nat \<Rightarrow> string option" where
  "group_of s m k = map_option (\<lambda>(i, j). py_slice s i j) (mt_caps m k)"

definition ways_at :: "regex \<Rightarrow> string \<Rightarrow> nat \<Rightarrow> ways" where
  "ways_at r s i = ways_of (rg_flags r) s (rg_rx r) i no_caps"

text \<open>The first way at one position, the first position that has one; an empty match can be refused
  at the first position, as \<^verbatim>\<open>finditer\<close> does after an empty match.\<close>

definition match_at :: "regex \<Rightarrow> string \<Rightarrow> bool \<Rightarrow> nat \<Rightarrow> re_match option" where
  "match_at r s nonempty i =
     (case filter (\<lambda>(j, c). nonempty \<longrightarrow> j \<noteq> i) (ways_at r s i) of
        [] \<Rightarrow> None
      | (j, c) # _ \<Rightarrow> Some \<lparr>mt_start = i, mt_end = j, mt_caps = c\<rparr>)"

fun first_at :: "(nat \<Rightarrow> 'b option) \<Rightarrow> nat list \<Rightarrow> 'b option" where
  "first_at f [] = None"
| "first_at f (i # is) = (case f i of None \<Rightarrow> first_at f is | Some x \<Rightarrow> Some x)"

definition search_from :: "regex \<Rightarrow> string \<Rightarrow> bool \<Rightarrow> nat \<Rightarrow> re_match option" where
  "search_from r s nonempty pos =
     first_at (\<lambda>i. match_at r s (nonempty \<and> i = pos) i) [pos..<length s + 1]"

definition re_search :: "regex \<Rightarrow> string \<Rightarrow> re_match option" where
  "re_search r s = search_from r s False 0"

definition re_found :: "regex \<Rightarrow> string \<Rightarrow> bool" where
  "re_found r s = (re_search r s \<noteq> None)"

definition re_match0 :: "regex \<Rightarrow> string \<Rightarrow> re_match option" where
  "re_match0 r s = match_at r s False 0"

subsection \<open>Bounds\<close>

lemma concat_ways: "(j, c) \<in> set (concat (map (\<lambda>(a, b). f a b) ws)) \<longleftrightarrow> (\<exists>a b. (a, b) \<in> set ws \<and> (j, c) \<in> set (f a b))"
  by auto

definition forward :: "string \<Rightarrow> (nat \<Rightarrow> caps \<Rightarrow> ways) \<Rightarrow> bool" where
  "forward s f = (\<forall>i c j c'. i \<le> length s \<longrightarrow> (j, c') \<in> set (f i c) \<longrightarrow> i \<le> j \<and> j \<le> length s)"

lemma forwardD: "forward s f \<Longrightarrow> i \<le> length s \<Longrightarrow> (j, c') \<in> set (f i c) \<Longrightarrow> i \<le> j \<and> j \<le> length s"
  unfolding forward_def by blast

lemma forwardI:
  assumes "\<And>i c j c'. i \<le> length s \<Longrightarrow> (j, c') \<in> set (f i c) \<Longrightarrow> i \<le> j \<and> j \<le> length s"
  shows "forward s f"
  using assms unfolding forward_def by blast

lemma rep_forward:
  assumes "forward s f"
  shows "forward s (rep f g n prev)"
proof -
  have "i \<le> length s \<Longrightarrow> (j, c') \<in> set (rep f g n prev i c) \<Longrightarrow> i \<le> j \<and> j \<le> length s" for i j c c'
  proof (induction n arbitrary: prev i c)
    case (Cons x n)
    from Cons.prems consider "j = i" | a b where "(a, b) \<in> set (f i c)" "(j, c') \<in> set (rep f g n (Some i) a b)"
      by (auto simp: Let_def split: if_splits)
    then show ?case
    proof cases
      case 2
      with forwardD [OF assms Cons.prems(1) 2(1)] Cons.IH [of a "Some i" b] show ?thesis by linarith
    qed (use Cons.prems(1) in simp)
  qed simp
  then show ?thesis unfolding forward_def by (intro allI impI)
qed

lemma rep_min_forward:
  assumes "forward s f" and "forward s k"
  shows "forward s (rep_min f k n)"
proof -
  have "i \<le> length s \<Longrightarrow> (j, c') \<in> set (rep_min f k n i c) \<Longrightarrow> i \<le> j \<and> j \<le> length s" for i j c c'
  proof (induction n arbitrary: i c)
    case Nil
    show ?case by (rule forwardD [OF assms(2) Nil(1)]) (use Nil(2) in simp)
  next
    case (Cons x n)
    then obtain a b where "(a, b) \<in> set (f i c)" "(j, c') \<in> set (rep_min f k n a b)"
      by auto
    with forwardD [OF assms(1) Cons.prems(1) this(1)] Cons.IH [of a b] show ?case by linarith
  qed
  then show ?thesis unfolding forward_def by (intro allI impI)
qed

lemma ways_forward: "forward s (ways_of fl s r)"
proof (induction r)
  case (RSeq r1 r2)
  show ?case unfolding forward_def
  proof (intro allI impI)
    fix i c j c' assume i: "i \<le> length s" and "(j, c') \<in> set (ways_of fl s (RSeq r1 r2) i c)"
    then obtain a b where ab: "(a, b) \<in> set (ways_of fl s r1 i c)" "(j, c') \<in> set (ways_of fl s r2 a b)"
      by (auto simp: seq_ways_def)
    from forwardD [OF RSeq.IH(1) i ab(1)] have a: "i \<le> a" "a \<le> length s" by simp_all
    from forwardD [OF RSeq.IH(2) a(2) ab(2)] a(1) show "i \<le> j \<and> j \<le> length s" by simp
  qed
next
  case (RRep r lo hi g)
  have "forward s (\<lambda>j. rep (ways_of fl s r) g (extra_rounds s j lo hi) None j)"
    unfolding forward_def by (intro allI impI) (erule (1) forwardD [OF rep_forward [OF RRep.IH]])
  from rep_min_forward [OF RRep.IH this] show ?case by (simp only: ways_of.simps)
next
  case (RAlt r1 r2)
  have "(j, c') \<in> set (ways_of fl s r1 i c) \<or> (j, c') \<in> set (ways_of fl s r2 i c)"
    if "(j, c') \<in> set (ways_of fl s (RAlt r1 r2) i c)" for i c j c'
    using that by simp
  with RAlt.IH [THEN forwardD] show ?case unfolding forward_def by metis
next
  case (RGroup k r)
  have "\<exists>c''. (j, c'') \<in> set (ways_of fl s r i c)" if "(j, c') \<in> set (ways_of fl s (RGroup k r) i c)" for i c j c'
    using that by auto
  with RGroup.IH [THEN forwardD] show ?case unfolding forward_def by metis
next
  case (RLook b r)
  have "j = i" if "(j, c') \<in> set (ways_of fl s (RLook b r) i c)" for i c j c'
    using that by (auto simp: assert_at_def split: if_splits)
  then show ?case unfolding forward_def by blast
next
  case (RBackref k)
  show ?case unfolding forward_def by (auto simp: backref_def split: option.splits if_splits)
next
  case REmpty
  show ?case by (rule forwardI) simp
next
  case (RBehind b r)
  show ?case by (rule forwardI) (auto simp: assert_at_def Let_def split: if_splits)
qed (rule forwardI, auto simp: one_char_def assert_at_def split: if_splits)+

lemma match_at_bounds:
  assumes "match_at r s ne i = Some m" and "i \<le> length s"
  shows "mt_start m = i" and "i \<le> mt_end m" and "mt_end m \<le> length s" and "ne \<Longrightarrow> mt_end m \<noteq> i"
    and "(mt_end m, mt_caps m) \<in> set (ways_at r s i)"
proof -
  obtain j c rest where f: "filter (\<lambda>(j, c). ne \<longrightarrow> j \<noteq> i) (ways_at r s i) = (j, c) # rest"
    and m: "m = \<lparr>mt_start = i, mt_end = j, mt_caps = c\<rparr>"
    using assms(1) by (auto simp: match_at_def split: list.splits)
  from f have mem: "(j, c) \<in> set (filter (\<lambda>(j, c). ne \<longrightarrow> j \<noteq> i) (ways_at r s i))" by simp
  then show "mt_start m = i" "(mt_end m, mt_caps m) \<in> set (ways_at r s i)" "ne \<Longrightarrow> mt_end m \<noteq> i"
    by (auto simp: m)
  with forwardD [OF ways_forward assms(2)] show "i \<le> mt_end m" "mt_end m \<le> length s"
    by (auto simp: ways_at_def m)
qed

lemma first_at_Some:
  "first_at f is = Some x \<Longrightarrow> \<exists>i\<in>set is. f i = Some x"
  by (induction "is") (auto split: option.splits)

lemma search_from_Some:
  assumes "search_from r s ne pos = Some m"
  shows "match_at r s (ne \<and> mt_start m = pos) (mt_start m) = Some m"
    and "pos \<le> mt_start m" and "mt_start m \<le> mt_end m" and "mt_end m \<le> length s"
    and "ne \<Longrightarrow> mt_start m = pos \<Longrightarrow> mt_end m \<noteq> pos"
proof -
  from first_at_Some [OF assms [unfolded search_from_def]] obtain i where i: "pos \<le> i" "i \<le> length s"
    "match_at r s (ne \<and> i = pos) i = Some m" by auto
  from match_at_bounds [OF i(3,2)] i show "match_at r s (ne \<and> mt_start m = pos) (mt_start m) = Some m"
    "pos \<le> mt_start m" "mt_start m \<le> mt_end m" "mt_end m \<le> length s"
    "ne \<Longrightarrow> mt_start m = pos \<Longrightarrow> mt_end m \<noteq> pos" by auto
qed

subsection \<open>All matches\<close>

text \<open>\<^verbatim>\<open>finditer\<close>: the search goes on at the end of a match; after an empty one it refuses
  an empty match there.\<close>

function matches_from :: "regex \<Rightarrow> string \<Rightarrow> bool \<Rightarrow> nat \<Rightarrow> re_match list" where
  "matches_from r s ne pos =
     (case search_from r s ne pos of
        None \<Rightarrow> []
      | Some m \<Rightarrow> m # matches_from r s (mt_end m = mt_start m) (mt_end m))"
  by pat_completeness auto
termination
proof (relation "measure (\<lambda>(r, s, ne, pos). 2 * (length s - pos) + (if ne then 0 else 1))")
  fix r s ne pos m assume m: "search_from r s ne pos = Some m"
  from search_from_Some [OF m]
  show "((r, s, mt_end m = mt_start m, mt_end m), r, s, ne, pos)
      \<in> measure (\<lambda>(r, s, ne, pos). 2 * (length s - pos) + (if ne then 0 else 1))"
    by (cases "mt_end m = mt_start m"; cases "mt_start m = pos"; cases ne) auto
qed simp

declare matches_from.simps [simp del]

definition finditer :: "regex \<Rightarrow> string \<Rightarrow> re_match list" where
  "finditer r s = matches_from r s False 0"

text \<open>\<^verbatim>\<open>findall\<close> of a pattern with one group, and \<^verbatim>\<open>sub\<close> with a function.\<close>

definition findall1 :: "regex \<Rightarrow> string \<Rightarrow> string list" where
  "findall1 r s = map (\<lambda>m. case group_of s m 1 of None \<Rightarrow> [] | Some t \<Rightarrow> t) (finditer r s)"

fun splice :: "string \<Rightarrow> (re_match \<Rightarrow> string) \<Rightarrow> nat \<Rightarrow> re_match list \<Rightarrow> string" where
  "splice s f pos [] = drop pos s"
| "splice s f pos (m # ms) = py_slice s pos (mt_start m) @ f m @ splice s f (mt_end m) ms"

definition re_sub :: "regex \<Rightarrow> (re_match \<Rightarrow> string) \<Rightarrow> string \<Rightarrow> string" where
  "re_sub r f s = splice s f 0 (finditer r s)"

fun in_order :: "nat \<Rightarrow> re_match list \<Rightarrow> bool" where
  "in_order pos [] = True"
| "in_order pos (m # ms) = (pos \<le> mt_start m \<and> mt_start m \<le> mt_end m \<and> in_order (mt_end m) ms)"

lemma matches_in_order:
  "in_order pos (matches_from r s ne pos)"
  "m \<in> set (matches_from r s ne pos) \<Longrightarrow> mt_end m \<le> length s"
proof (induction r s ne pos rule: matches_from.induct)
  case (1 r s ne pos)
  { case 1 with "1.IH" show ?case
      by (subst matches_from.simps) (auto split: option.split dest: search_from_Some) }
  { case 2
    then obtain m' where m': "search_from r s ne pos = Some m'"
      and "m = m' \<or> m \<in> set (matches_from r s (mt_end m' = mt_start m') (mt_end m'))"
      by (auto simp only: matches_from.simps [of r s ne pos] split: option.splits) auto
    with "1.IH"(2) [OF m'] search_from_Some(4) [OF m'] show ?case by blast }
qed

subsection \<open>What the matcher accepts\<close>

text \<open>
  The meaning of an expression without captures: from where to where it matches, with an iteration as
  a power of a relation. The backtracking matcher, with its order and its rule against empty rounds,
  finds exactly these ends.
\<close>

primrec spans :: "re_flags \<Rightarrow> string \<Rightarrow> rx \<Rightarrow> nat \<Rightarrow> nat \<Rightarrow> bool" where
  "spans fl s REmpty = (\<lambda>i j. j = i)"
| "spans fl s (RChar a) = (\<lambda>i j. i < length s \<and> j = i + 1 \<and> item_has fl (s ! i) (SChar a))"
| "spans fl s RAny = (\<lambda>i j. i < length s \<and> j = i + 1 \<and> (fl_dotall fl \<or> s ! i \<noteq> CHR 0x0A))"
| "spans fl s (RSet neg items) = (\<lambda>i j. i < length s \<and> j = i + 1 \<and> (list_ex (item_has fl (s ! i)) items \<noteq> neg))"
| "spans fl s RBegin = (\<lambda>i j. j = i \<and> at_begin fl s i)"
| "spans fl s REnd = (\<lambda>i j. j = i \<and> at_end fl s i)"
| "spans fl s (RWordB b) = (\<lambda>i j. j = i \<and> at_boundary s i = b)"
| "spans fl s (RSeq r1 r2) = spans fl s r1 OO spans fl s r2"
| "spans fl s (RAlt r1 r2) = (\<lambda>i j. spans fl s r1 i j \<or> spans fl s r2 i j)"
| "spans fl s (RRep r lo hi greedy) = (\<lambda>i j. \<exists>n\<ge>lo. (case hi of None \<Rightarrow> True | Some h \<Rightarrow> n \<le> h)
     \<and> (spans fl s r ^^ n) i j)"
| "spans fl s (RGroup k r) = spans fl s r"
| "spans fl s (RBackref k) = (\<lambda>i j. False)"
| "spans fl s (RLook pos r) = (\<lambda>i j. j = i \<and> (\<exists>k. spans fl s r i k) = pos)"
| "spans fl s (RBehind pos r) = (\<lambda>i j. j = i \<and> (rx_width r \<le> i \<and> spans fl s r (i - rx_width r) i) = pos)"

text \<open>Without back references, and with bounds in order.\<close>

fun plain_rx :: "rx \<Rightarrow> bool" where
  "plain_rx (RSeq a b) = (plain_rx a \<and> plain_rx b)"
| "plain_rx (RAlt a b) = (plain_rx a \<and> plain_rx b)"
| "plain_rx (RRep r lo hi g) = (plain_rx r \<and> (case hi of None \<Rightarrow> True | Some h \<Rightarrow> lo \<le> h))"
| "plain_rx (RGroup k r) = plain_rx r"
| "plain_rx (RBackref k) = False"
| "plain_rx (RLook b r) = plain_rx r"
| "plain_rx (RBehind b r) = plain_rx r"
| "plain_rx r = True"

definition reaches :: "string \<Rightarrow> (nat \<Rightarrow> caps \<Rightarrow> ways) \<Rightarrow> (nat \<Rightarrow> nat \<Rightarrow> bool) \<Rightarrow> bool" where
  "reaches s f R = (\<forall>i\<le>length s. \<forall>c j. (\<exists>c'. (j, c') \<in> set (f i c)) \<longleftrightarrow> R i j)"

lemma reachesI: "(\<And>i c j. i \<le> length s \<Longrightarrow> (\<exists>c'. (j, c') \<in> set (f i c)) \<longleftrightarrow> R i j) \<Longrightarrow> reaches s f R"
  by (simp add: reaches_def)

lemma reachesD: "reaches s f R \<Longrightarrow> i \<le> length s \<Longrightarrow> (\<exists>c'. (j, c') \<in> set (f i c)) \<longleftrightarrow> R i j"
  by (simp add: reaches_def)

lemma reaches_step:
  assumes "reaches s f R" and "forward s f" and "R i j" and "i \<le> length s"
  shows "i \<le> j" and "j \<le> length s"
  using reachesD [OF assms(1,4), of j no_caps] forwardD [OF assms(2,4), of j _ no_caps] assms(3) by blast+

lemma relpowp_bounds:
  assumes "reaches s f R" and "forward s f"
  shows "(R ^^ n) i j \<Longrightarrow> i \<le> length s \<Longrightarrow> i \<le> j \<and> j \<le> length s"
proof (induction n arbitrary: j)
  case (Suc n)
  then obtain m where m: "(R ^^ n) i m" "R m j" by auto
  with Suc.IH [OF m(1) Suc.prems(2)] reaches_step [OF assms m(2)] show ?case by simp
qed simp

lemma relpowp_first: "(R ^^ Suc n) i j \<longleftrightarrow> (\<exists>m. R i m \<and> (R ^^ n) m j)"
  using relpowp_Suc_D2 [of n R i j] relpowp_Suc_I2 [of R i _ n j] by blast

lemma rep_reaches:
  assumes f: "reaches s f R" "forward s f"
  shows "i \<le> length s \<Longrightarrow> (\<exists>c'. (j, c') \<in> set (rep f g n prev i c))
    \<longleftrightarrow> (if prev = Some i then j = i else \<exists>k\<le>length n. (R ^^ k) i j)"
proof (induction n arbitrary: prev i c)
  case (Cons x n)
  have round: "(\<exists>c'. (j, c') \<in> set (concat (map (\<lambda>(a, b). rep f g n (Some i) a b) (f i c))))
      \<longleftrightarrow> (\<exists>a. R i a \<and> (if a = i then j = i else \<exists>k\<le>length n. (R ^^ k) a j))" (is "?l = ?r")
  proof -
    have "?l \<longleftrightarrow> (\<exists>a b. (a, b) \<in> set (f i c) \<and> (\<exists>c'. (j, c') \<in> set (rep f g n (Some i) a b)))"
      by auto
    also have "\<dots> \<longleftrightarrow> (\<exists>a b. (a, b) \<in> set (f i c) \<and> (if a = i then j = i else \<exists>k\<le>length n. (R ^^ k) a j))"
      using Cons.IH forwardD [OF f(2) Cons.prems] by (metis option.inject)
    also have "\<dots> \<longleftrightarrow> ?r" using reachesD [OF f(1) Cons.prems] by blast
    finally show ?thesis .
  qed
  show ?case
  proof (cases "prev = Some i")
    case False
    have "(\<exists>a. R i a \<and> (if a = i then j = i else \<exists>k\<le>length n. (R ^^ k) a j)) \<or> j = i
      \<longleftrightarrow> (\<exists>k\<le>Suc (length n). (R ^^ k) i j)" (is "?a \<longleftrightarrow> ?b")
    proof
      assume ?a
      then consider "j = i" | a k where "R i a" "k \<le> length n" "(R ^^ k) a j" by (auto split: if_splits)
      then show ?b
      proof cases
        case 1
        then show ?thesis by (intro exI [of _ 0]) simp
      next
        case 2
        then show ?thesis by (intro exI [of _ "Suc k"]) (auto simp del: relpowp.simps simp: relpowp_first)
      qed
    next
      assume ?b
      then obtain k where "k \<le> Suc (length n)" "(R ^^ k) i j" by blast
      then show ?a
      proof (induction k)
        case (Suc k)
        from Suc.prems(2) [unfolded relpowp_first] obtain a where a: "R i a" "(R ^^ k) a j" by blast
        show ?case
        proof (cases "a = i")
          case True
          with a Suc show ?thesis by simp
        next
          case False
          with a Suc.prems(1) show ?thesis by auto
        qed
      qed simp
    qed
    moreover have "(\<exists>c'. (j, c') \<in> set (rep f g (x # n) prev i c))
      \<longleftrightarrow> (\<exists>c'. (j, c') \<in> set (concat (map (\<lambda>(a, b). rep f g n (Some i) a b) (f i c)))) \<or> j = i"
      using False by (simp only: rep.simps Let_def if_False split: if_split) auto
    ultimately show ?thesis using round False by simp
  qed (simp add: Let_def)
qed (auto)

lemma rep_min_reaches:
  assumes f: "reaches s f R" "forward s f" and k: "reaches s k S"
  shows "i \<le> length s \<Longrightarrow> (\<exists>c'. (j, c') \<in> set (rep_min f k n i c)) \<longleftrightarrow> ((R ^^ length n) OO S) i j"
proof (induction n arbitrary: i c)
  case Nil
  then show ?case using reachesD [OF k] by (auto simp: relcompp_apply)
next
  case (Cons x n)
  have "(\<exists>c'. (j, c') \<in> set (rep_min f k (x # n) i c))
      \<longleftrightarrow> (\<exists>a b. (a, b) \<in> set (f i c) \<and> (\<exists>c'. (j, c') \<in> set (rep_min f k n a b)))"
    by auto
  also have "\<dots> \<longleftrightarrow> (\<exists>a b. (a, b) \<in> set (f i c) \<and> ((R ^^ length n) OO S) a j)"
    using Cons.IH forwardD [OF f(2) Cons.prems] by blast
  also have "\<dots> \<longleftrightarrow> (\<exists>a. R i a \<and> ((R ^^ length n) OO S) a j)"
    using reachesD [OF f(1) Cons.prems] by blast
  also have "\<dots> \<longleftrightarrow> ((R ^^ length (x # n)) OO S) i j"
    by (simp only: relcompp_apply list.size add_Suc_right add_0_right relpowp_first) blast
  finally show ?case .
qed

text \<open>Rounds that stay where they are can be left out.\<close>

lemma relpowp_shorten:
  assumes "reaches s f R" and "forward s f"
  shows "(R ^^ k) i j \<Longrightarrow> i \<le> length s \<Longrightarrow> \<exists>k'\<le>j - i. (R ^^ k') i j"
proof (induction k arbitrary: i)
  case 0
  then show ?case by auto
next
  case (Suc k)
  from Suc.prems(1) [unfolded relpowp_first] obtain a where a: "R i a" "(R ^^ k) a j" by blast
  from reaches_step [OF assms a(1) Suc.prems(2)] have le: "i \<le> a" "a \<le> length s" .
  from Suc.IH [OF a(2) le(2)] obtain k' where k': "k' \<le> j - a" "(R ^^ k') a j" by blast
  show ?case
  proof (cases "a = i")
    case True
    with k' show ?thesis by blast
  next
    case False
    from relpowp_bounds [OF assms a(2) le(2)] have "a \<le> j" by simp
    with False le k' a(1) show ?thesis
      by (intro exI [of _ "Suc k'"]) (auto simp del: relpowp.simps simp: relpowp_first)
  qed
qed

lemma extra_rounds_enough:
  assumes "reaches s f R" and "forward s f" and "i \<le> length s"
  shows "(\<exists>k\<le>length (extra_rounds s i lo hi). (R ^^ k) i j)
    \<longleftrightarrow> (\<exists>k. (case hi of None \<Rightarrow> True | Some h \<Rightarrow> k \<le> h - lo) \<and> (R ^^ k) i j)"
proof (cases hi)
  case None
  have "\<exists>k'\<le>length s - i + 1. (R ^^ k') i j" if r: "(R ^^ k) i j" for k
  proof -
    from relpowp_shorten [OF assms(1,2) r assms(3)] obtain k' where "k' \<le> j - i" "(R ^^ k') i j" by blast
    with relpowp_bounds [OF assms(1,2) r assms(3)] show ?thesis by (intro exI [of _ k']) auto
  qed
  with None show ?thesis by (auto simp: extra_rounds_def)
qed (simp add: extra_rounds_def)

text \<open>The matcher finds the ends of the matches, all of them and no others.\<close>

theorem ways_spans:
  "plain_rx r \<Longrightarrow> reaches s (ways_of fl s r) (spans fl s r)"
proof (induction r)
  case (RSeq r1 r2)
  then have r: "reaches s (ways_of fl s r1) (spans fl s r1)" "reaches s (ways_of fl s r2) (spans fl s r2)"
    by simp_all
  show ?case
  proof (rule reachesI)
    fix i c j assume i: "i \<le> length s"
    have "(\<exists>c'. (j, c') \<in> set (ways_of fl s (RSeq r1 r2) i c))
      \<longleftrightarrow> (\<exists>a b. (a, b) \<in> set (ways_of fl s r1 i c) \<and> (\<exists>c'. (j, c') \<in> set (ways_of fl s r2 a b)))"
      by (auto simp: seq_ways_def)
    also have "\<dots> \<longleftrightarrow> (\<exists>a b. (a, b) \<in> set (ways_of fl s r1 i c) \<and> spans fl s r2 a j)"
      using reachesD [OF r(2)] forwardD [OF ways_forward i] by blast
    also have "\<dots> \<longleftrightarrow> spans fl s (RSeq r1 r2) i j"
      using reachesD [OF r(1) i, of _ c] by (auto simp: relcompp_apply)
    finally show "(\<exists>c'. (j, c') \<in> set (ways_of fl s (RSeq r1 r2) i c)) \<longleftrightarrow> spans fl s (RSeq r1 r2) i j" .
  qed
next
  case (RAlt r1 r2)
  then have r: "reaches s (ways_of fl s r1) (spans fl s r1)" "reaches s (ways_of fl s r2) (spans fl s r2)"
    by simp_all
  show ?case by (rule reachesI) (use reachesD [OF r(1)] reachesD [OF r(2)] in \<open>auto simp: ex_disj_distrib\<close>)
next
  case (RGroup k r)
  then have r: "reaches s (ways_of fl s r) (spans fl s r)" by simp
  show ?case
  proof (rule reachesI)
    fix i c j assume i: "i \<le> length s"
    have "(\<exists>c'. (j, c') \<in> set (ways_of fl s (RGroup k r) i c)) \<longleftrightarrow> (\<exists>c'. (j, c') \<in> set (ways_of fl s r i c))"
      by force
    with reachesD [OF r i] show "(\<exists>c'. (j, c') \<in> set (ways_of fl s (RGroup k r) i c)) \<longleftrightarrow> spans fl s (RGroup k r) i j"
      by simp
  qed
next
  case (RLook pos r)
  then have r: "reaches s (ways_of fl s r) (spans fl s r)" by simp
  show ?case
  proof (rule reachesI)
    fix i c j assume i: "i \<le> length s"
    have "ways_of fl s r i c \<noteq> [] \<longleftrightarrow> (\<exists>k. spans fl s r i k)"
    proof
      assume "ways_of fl s r i c \<noteq> []"
      then obtain k c' where "(k, c') \<in> set (ways_of fl s r i c)" by (cases "ways_of fl s r i c") auto
      with reachesD [OF r i] show "\<exists>k. spans fl s r i k" by blast
    next
      assume "\<exists>k. spans fl s r i k"
      with reachesD [OF r i, of _ c] show "ways_of fl s r i c \<noteq> []" by fastforce
    qed
    then show "(\<exists>c'. (j, c') \<in> set (ways_of fl s (RLook pos r) i c)) \<longleftrightarrow> spans fl s (RLook pos r) i j"
      by (cases "ways_of fl s r i c") (auto simp: assert_at_def)
  qed
next
  case (RBehind pos r)
  then have r: "reaches s (ways_of fl s r) (spans fl s r)" by simp
  show ?case
  proof (rule reachesI)
    fix i c j assume i: "i \<le> length s"
    have "i \<in> fst ` set (ways_of fl s r (i - rx_width r) c) \<longleftrightarrow> spans fl s r (i - rx_width r) i"
      using reachesD [OF r, of "i - rx_width r" i c] i by (force simp: image_iff)
    then show "(\<exists>c'. (j, c') \<in> set (ways_of fl s (RBehind pos r) i c)) \<longleftrightarrow> spans fl s (RBehind pos r) i j"
      by (auto simp: assert_at_def Let_def)
  qed
next
  case (RRep r lo hi g)
  then have r: "reaches s (ways_of fl s r) (spans fl s r)" and hi: "case hi of None \<Rightarrow> True | Some h \<Rightarrow> lo \<le> h"
    by simp_all
  let ?R = "spans fl s r"
  let ?more = "\<lambda>i j. \<exists>k. (case hi of None \<Rightarrow> True | Some h \<Rightarrow> k \<le> h - lo) \<and> (?R ^^ k) i j"
  have k: "reaches s (\<lambda>j. rep (ways_of fl s r) g (extra_rounds s j lo hi) None j) ?more"
    by (rule reachesI) (simp only: rep_reaches [OF r ways_forward] option.distinct if_False
        extra_rounds_enough [OF r ways_forward])
  have all: "((?R ^^ lo) OO ?more) i j \<longleftrightarrow> spans fl s (RRep r lo hi g) i j" for i j
  proof
    assume "((?R ^^ lo) OO ?more) i j"
    then obtain a k where "(?R ^^ lo) i a" "(?R ^^ k) a j" "case hi of None \<Rightarrow> True | Some h \<Rightarrow> k \<le> h - lo"
      by blast
    with hi show "spans fl s (RRep r lo hi g) i j"
      by (intro spans.simps(10) [THEN fun_cong, THEN fun_cong, THEN iffD2] exI [of _ "lo + k"])
        (auto simp: relpowp_add relcompp_apply split: option.splits)
  next
    assume "spans fl s (RRep r lo hi g) i j"
    then obtain n where n: "lo \<le> n" "case hi of None \<Rightarrow> True | Some h \<Rightarrow> n \<le> h" "(?R ^^ n) i j" by auto
    then have "(?R ^^ (lo + (n - lo))) i j" by simp
    then obtain a where "(?R ^^ lo) i a" "(?R ^^ (n - lo)) a j"
      unfolding relpowp_add by blast
    moreover have "case hi of None \<Rightarrow> True | Some h \<Rightarrow> n - lo \<le> h - lo"
      using n(2) by (auto split: option.splits)
    ultimately show "((?R ^^ lo) OO ?more) i j" by blast
  qed
  show ?case
  proof (rule reachesI)
    fix i c j assume i: "i \<le> length s"
    from rep_min_reaches [OF r ways_forward k i, of j "replicate lo ()" c] all [of i j]
    show "(\<exists>c'. (j, c') \<in> set (ways_of fl s (RRep r lo hi g) i c)) \<longleftrightarrow> spans fl s (RRep r lo hi g) i j"
      by (simp only: ways_of.simps length_replicate)
  qed
qed (auto simp: reaches_def one_char_def assert_at_def)

text \<open>A search succeeds when the expression matches somewhere.\<close>

lemma first_at_None: "first_at f is = None \<longleftrightarrow> (\<forall>i\<in>set is. f i = None)"
  by (induction "is") (auto split: option.splits)

lemma re_found_ways: "re_found r s \<longleftrightarrow> (\<exists>i\<le>length s. ways_at r s i \<noteq> [])"
proof -
  have "match_at r s False i = None \<longleftrightarrow> ways_at r s i = []" for i
    by (auto simp: match_at_def split: list.splits)
  then show ?thesis
    by (auto simp: re_found_def re_search_def search_from_def first_at_None less_Suc_eq_le simp del: upt_Suc)
qed

theorem re_found_iff:
  assumes "plain_rx (rg_rx r)"
  shows "re_found r s \<longleftrightarrow> (\<exists>i\<le>length s. \<exists>j. spans (rg_flags r) s (rg_rx r) i j)"
proof -
  have "ways_at r s i \<noteq> [] \<longleftrightarrow> (\<exists>j. spans (rg_flags r) s (rg_rx r) i j)" if "i \<le> length s" for i
  proof -
    have "ways_at r s i \<noteq> [] \<longleftrightarrow> (\<exists>j c'. (j, c') \<in> set (ways_at r s i))"
      by (cases "ways_at r s i") auto
    with reachesD [OF ways_spans [OF assms] that] show ?thesis by (simp add: ways_at_def)
  qed
  then show ?thesis by (auto simp: re_found_ways)
qed

text \<open>An expression of literal characters, and a disjunction of searches.\<close>

fun rx_lit :: "string \<Rightarrow> rx" where
  "rx_lit [] = REmpty"
| "rx_lit [c] = RChar c"
| "rx_lit (c # cs) = RSeq (RChar c) (rx_lit cs)"

lemma plain_lit [simp]: "plain_rx (rx_lit t)"
  by (induction t rule: rx_lit.induct) simp_all

lemma spans_lit:
  "\<not> fl_ignorecase fl \<Longrightarrow> spans fl s (rx_lit t) i j \<longleftrightarrow> j = i + length t \<and> (t = [] \<or> j \<le> length s) \<and> py_slice s i j = t"
proof (induction t arbitrary: i rule: rx_lit.induct)
  case (2 c)
  then show ?case
    by (auto simp: py_slice_def cases_of_def Cons_nth_drop_Suc [symmetric] take_Suc_conv_app_nth)
next
  case (3 c d cs)
  show ?case
  proof (cases "i < length s")
    case True
    have "spans fl s (rx_lit (c # d # cs)) i j \<longleftrightarrow> s ! i = c \<and> spans fl s (rx_lit (d # cs)) (i + 1) j"
      using True 3(2) by (auto simp: relcompp_apply cases_of_def)
    also have "\<dots> \<longleftrightarrow> s ! i = c \<and> j = i + 1 + length (d # cs) \<and> j \<le> length s \<and> py_slice s (i + 1) j = d # cs"
      using 3 by auto
    also have "\<dots> \<longleftrightarrow> j = i + length (c # d # cs) \<and> j \<le> length s \<and> py_slice s i j = c # d # cs"
      using True by (auto simp: py_slice_def Cons_nth_drop_Suc [symmetric])
    finally show ?thesis by simp
  next
    case False
    then show ?thesis by (auto simp: relcompp_apply)
  qed
qed (auto simp: py_slice_def)

definition any_found :: "regex list \<Rightarrow> string \<Rightarrow> bool" where
  "any_found rs s = list_ex (\<lambda>r. re_found r s) rs"

abbreviation rxM :: "string \<Rightarrow> regex" where
  "rxM p \<equiv> re_compile RE_M p"

abbreviation rxS :: "string \<Rightarrow> regex" where
  "rxS p \<equiv> re_compile RE_S p"

text \<open>Every pattern of a list is one; used to show that the tables below are well formed.\<close>

definition proper :: "regex \<Rightarrow> bool" where
  "proper r = (rg_rx r \<noteq> RSet False [])"

text \<open>The first pattern of a list that is found, with its match.\<close>

fun first_found :: "regex list \<Rightarrow> string \<Rightarrow> re_match option" where
  "first_found [] s = None"
| "first_found (r # rs) s = (case re_search r s of None \<Rightarrow> first_found rs s | Some m \<Rightarrow> Some m)"

lemma first_found_iff: "first_found rs s \<noteq> None \<longleftrightarrow> any_found rs s"
  by (induction rs) (auto simp: any_found_def re_found_def split: option.splits)

end
