(* ===== verification/AgenticDetect.thy ===== *)
theory AgenticDetect
  imports Regex AgenticStage PyAst
begin

text \<open>
  The detectors of the agentic classifier that read names, dependencies and source text:
  \<^verbatim>\<open>agentic/signals.py\<close>, \<^verbatim>\<open>agentic/capability_detector.py\<close> and the detectors of
  \<^verbatim>\<open>agentic/rule_of_two.py\<close>. The patterns are the source's; Python's parser is a parameter.
  Sets of capabilities are lists without order.
\<close>

subsection \<open>Capabilities of Python sources\<close>

definition CREDENTIAL_PATH_RE :: regex where
  "CREDENTIAL_PATH_RE = rxP (''(~/`.ssh/|~/`.aws/|~/`.gnupg/|~/`.config/gcloud/|~/`.kube/|''
         @ ''~/`.docker/config`.json|~/`.netrc|''
         @ ''`bid_rsa`b|`bid_ed25519`b|`bid_ecdsa`b|''
         @ ''`.pem(?:[`\"']|$)|`.key(?:[`\"']|$)|`.p12(?:[`\"']|$)|`.pfx(?:[`\"']|$)|''
         @ ''`.env(?:[.`\"']|$)|''
         @ ''credentials`.json|service[-_]account[-_]?key)'')"

definition PY_CAPABILITY_MAP :: "(string \<times> string) list" where
  "PY_CAPABILITY_MAP =
    [(''os.scandir'', ''filesystem-read''), (''os.listdir'', ''filesystem-read''),
     (''os.walk'', ''filesystem-read''), (''os.remove'', ''filesystem-write''),
     (''os.unlink'', ''filesystem-write''), (''os.rmdir'', ''filesystem-write''),
     (''os.rename'', ''filesystem-write''), (''os.replace'', ''filesystem-write''),
     (''os.makedirs'', ''filesystem-write''), (''os.mkdir'', ''filesystem-write''),
     (''os.chmod'', ''filesystem-write''), (''os.chown'', ''filesystem-write''),
     (''shutil.copy'', ''filesystem-write''), (''shutil.copy2'', ''filesystem-write''),
     (''shutil.copyfile'', ''filesystem-write''), (''shutil.copytree'', ''filesystem-write''),
     (''shutil.move'', ''filesystem-write''), (''shutil.rmtree'', ''filesystem-write''),
     (''glob.glob'', ''filesystem-read''), (''glob.iglob'', ''filesystem-read''),
     (''subprocess.run'', ''shell''), (''subprocess.Popen'', ''shell''),
     (''subprocess.call'', ''shell''), (''subprocess.check_call'', ''shell''),
     (''subprocess.check_output'', ''shell''), (''subprocess.getoutput'', ''shell''),
     (''os.system'', ''shell''), (''os.popen'', ''shell''), (''pty.spawn'', ''shell''),
     (''pty.fork'', ''shell''), (''asyncio.create_subprocess_exec'', ''shell''),
     (''asyncio.create_subprocess_shell'', ''shell''), (''requests.get'', ''network''),
     (''requests.post'', ''network''), (''requests.put'', ''network''),
     (''requests.patch'', ''network''), (''requests.delete'', ''network''),
     (''requests.head'', ''network''), (''requests.request'', ''network''),
     (''httpx.get'', ''network''), (''httpx.post'', ''network''), (''httpx.put'', ''network''),
     (''httpx.AsyncClient'', ''network''), (''urllib.request.urlopen'', ''network''),
     (''urllib.request.Request'', ''network''), (''aiohttp.ClientSession'', ''network''),
     (''socket.socket'', ''network''), (''socket.create_connection'', ''network''),
     (''http.client.HTTPConnection'', ''network''),
     (''http.client.HTTPSConnection'', ''network''), (''websockets.connect'', ''network''),
     (''smtplib.SMTP'', ''network''), (''smtplib.SMTP_SSL'', ''network''),
     (''os.environ'', ''env-secrets''), (''os.getenv'', ''env-secrets''),
     (''dotenv.load_dotenv'', ''env-secrets''), (''exec'', ''code-exec''),
     (''eval'', ''code-exec''), (''compile'', ''code-exec''), (''__import__'', ''code-exec''),
     (''importlib.import_module'', ''code-exec''), (''marshal.loads'', ''code-exec''),
     (''pickle.loads'', ''code-exec''), (''yaml.load'', ''code-exec''),
     (''psycopg2.connect'', ''db-access''), (''psycopg.connect'', ''db-access''),
     (''pymysql.connect'', ''db-access''), (''mysql.connector.connect'', ''db-access''),
     (''sqlalchemy.create_engine'', ''db-access''), (''redis.Redis'', ''db-access''),
     (''redis.StrictRedis'', ''db-access''), (''aioredis.Redis'', ''db-access''),
     (''pymongo.MongoClient'', ''db-access''),
     (''motor.motor_asyncio.AsyncIOMotorClient'', ''db-access''),
     (''cassandra.cluster.Cluster'', ''db-access''),
     (''clickhouse_driver.Client'', ''db-access''), (''duckdb.connect'', ''db-access''),
     (''sqlite3.connect'', ''db-access''), (''openai.ChatCompletion.create'', ''llm-call''),
     (''openai.OpenAI'', ''llm-call''), (''anthropic.Anthropic'', ''llm-call''),
     (''google.generativeai.GenerativeModel'', ''llm-call''), (''cohere.Client'', ''llm-call''),
     (''mistralai.client.MistralClient'', ''llm-call'')]"

definition PY_IMPORT_SIGNATURES :: "(string \<times> string) list" where
  "PY_IMPORT_SIGNATURES =
    [(''from mcp.client'', ''mcp-client''), (''import mcp.client'', ''mcp-client''),
     (''ClientSession'', ''mcp-client''), (''from mcp.server'', ''mcp-server''),
     (''import mcp.server'', ''mcp-server''), (''FastMCP'', ''mcp-server''),
     (''@server.list_tools'', ''mcp-server''), (''@server.call_tool'', ''mcp-server''),
     (''from langchain'', ''llm-call''), (''from openai'', ''llm-call''),
     (''from anthropic'', ''llm-call''), (''import openai'', ''llm-call''),
     (''import anthropic'', ''llm-call''), (''import langchain'', ''llm-call''),
     (''import cohere'', ''llm-call''), (''import mistralai'', ''llm-call''),
     (''from langchain.memory'', ''memory-persistent''),
     (''from llama_index.core.memory'', ''memory-persistent''),
     (''chromadb.Collection'', ''memory-persistent''),
     (''pinecone.Index'', ''memory-persistent''), (''from crewai'', ''agent-to-agent''),
     (''from autogen'', ''agent-to-agent''), (''GroupChat'', ''agent-to-agent''),
     (''crew.delegate'', ''agent-to-agent'')]"

definition PY_IMPORT_REGEX_SIGNATURES :: "(regex \<times> string) list" where
  "PY_IMPORT_REGEX_SIGNATURES =
    [(rxM ''^`s*(?:from|import)`s+[`w.,`s]*`bopenai`b'', ''llm-call''),
     (rxM ''^`s*(?:from|import)`s+[`w.,`s]*`banthropic`b'', ''llm-call''),
     (rxM ''^`s*(?:from|import)`s+[`w.,`s]*`bcohere`b'', ''llm-call''),
     (rxM ''^`s*(?:from|import)`s+[`w.,`s]*`bmistralai`b'', ''llm-call''),
     (rxM ''^`s*(?:from|import)`s+[`w.,`s]*`blangchain'', ''llm-call'')]"

definition TOOL_LOOP_HINT_RE :: regex where
  "TOOL_LOOP_HINT_RE = rxP (''(while`s+True|while`s+`w+|for`s+`w+`s+in)''
         @ ''[`s`S]{0,500}''
         @ ''(invoke|chat`.completions|messages`.create|generate_content|complete`(|chat`()''
         @ ''[`s`S]{0,500}''
         @ ''(tool|tools`[|callTool|getattr|globals`(`)|dispatch)'')"

definition dynamic_tool_load_py :: "regex list" where
  "dynamic_tool_load_py =
    [rxP ''requests`.get`([^)]*`)`s*`.json`(`)'',
     rxP ''`.bind_tools`(`s*[^)]*remote'',
     rxP ''agent`.tools`s*`.`s*append'',
     rxP ''agent`.tools`s*`.`s*extend'',
     rxP ''session`.list_tools`(`)'']"

fun resolve_dotted :: "pynode \<Rightarrow> string option" where
  "resolve_dotted (Name i) = Some i"
| "resolve_dotted (Attribute v a) =
     (case resolve_dotted v of None \<Rightarrow> Some a | Some b \<Rightarrow> if b \<noteq> [] then Some (b @ ''.'' @ a) else Some a)"
| "resolve_dotted _ = None"

text \<open>\<^verbatim>\<open>sig.split(".")[-1]\<close> and \<^verbatim>\<open>sig.rsplit(".", 1)[0]\<close>.\<close>

definition last_part :: "string \<Rightarrow> string" where
  "last_part sg = last (split_on (CHR ''.'') sg)"

definition before_last :: "string \<Rightarrow> string" where
  "before_last sg = (let ps = split_on (CHR ''.'') sg in
     if length ps = 1 then sg else py_join ''.'' (butlast ps))"

definition api_matches :: "string \<Rightarrow> string \<Rightarrow> bool" where
  "api_matches name sg = (name = sg
     \<or> (endswith name (''.'' @ last_part sg) \<and> startswith name (before_last sg)))"

text \<open>The mode of \<^verbatim>\<open>open\<close>: the second argument, then each keyword \<^verbatim>\<open>mode\<close>; a constant that
  is not a string counts as no mode.\<close>

definition constant_mode :: "pynode \<Rightarrow> string option option" where
  "constant_mode n = (case n of ConstStr t line \<Rightarrow> Some (Some t) | ConstOther \<Rightarrow> Some None | _ \<Rightarrow> None)"

definition mode_keyword :: "string option \<Rightarrow> pynode \<Rightarrow> string option" where
  "mode_keyword mode kw =
     (case kw of
        Keyword k v \<Rightarrow> if k = Some ''mode'' then (case constant_mode v of None \<Rightarrow> mode | Some m \<Rightarrow> m) else mode
      | _ \<Rightarrow> mode)"

definition open_mode_caps :: "pynode list \<Rightarrow> pynode list \<Rightarrow> string list" where
  "open_mode_caps args kws =
     (let mode0 = (if 2 \<le> length args then (case constant_mode (args ! 1) of None \<Rightarrow> None | Some m \<Rightarrow> m) else None);
          mode = foldl mode_keyword mode0 kws
      in case mode of
           Some m \<Rightarrow> if list_ex (\<lambda>c. c \<in> set m) ''wax'' then [''filesystem-write''] else [''filesystem-read'']
         | None \<Rightarrow> [''filesystem-read''])"

definition call_caps :: "pynode \<Rightarrow> pynode list \<Rightarrow> pynode list \<Rightarrow> string list" where
  "call_caps f args kws =
     (case resolve_dotted f of
        None \<Rightarrow> []
      | Some name \<Rightarrow> if name = [] then [] else
          map snd (filter (\<lambda>(sg, cap). api_matches name sg) PY_CAPABILITY_MAP)
          @ (if name = ''open'' then open_mode_caps args kws else []))"

definition node_caps :: "pynode \<Rightarrow> string list" where
  "node_caps n =
     (case n of
        Call f args kws line \<Rightarrow> call_caps f args kws
      | Attribute v a \<Rightarrow> if resolve_dotted n = Some ''os.environ'' then [''env-secrets''] else []
      | _ \<Rightarrow> [])"

definition visitor_caps :: "pynode \<Rightarrow> string list" where
  "visitor_caps tree = concat (map node_caps (preorder tree))"

definition text_caps_py :: "string \<Rightarrow> string list" where
  "text_caps_py src =
     map snd (filter (\<lambda>(sg, cap). contains sg src) PY_IMPORT_SIGNATURES)
     @ map snd (filter (\<lambda>(pat, cap). re_found pat src) PY_IMPORT_REGEX_SIGNATURES)
     @ (if re_found CREDENTIAL_PATH_RE src then [''credential-paths''] else [])
     @ (if re_found TOOL_LOOP_HINT_RE src then [''tool-loop''] else [])
     @ (if any_found dynamic_tool_load_py src then [''dynamic-tool-load''] else [])"

text \<open>A file that does not parse is read as text only; any other exception of the parser passes.\<close>

definition file_caps_py :: "(string \<Rightarrow> pyexn + pynode) \<Rightarrow> string \<Rightarrow> pyexn + string list" where
  "file_caps_py parse src =
     (case parse src of
        Inr tree \<Rightarrow> Inr (visitor_caps tree @ text_caps_py src)
      | Inl e \<Rightarrow> if exn_name e = ''SyntaxError'' then Inr (text_caps_py src) else Inl e)"

definition extract_capabilities_python ::
  "(string \<Rightarrow> pyexn + pynode) \<Rightarrow> sources \<Rightarrow> pyexn + string list" where
  "extract_capabilities_python parse sources =
     bindE (mapE (\<lambda>(path, src). file_caps_py parse src) sources) (\<lambda>css. Inr (dedup_first (concat css)))"

subsection \<open>Capabilities of JavaScript sources\<close>

definition JS_CAPABILITY_PATTERNS :: "(regex \<times> string) list" where
  "JS_CAPABILITY_PATTERNS =
    [(rxP ''`bfs`.readFile(?:Sync)?`b'', ''filesystem-read''),
     (rxP ''`bfs`.readdir(?:Sync)?`b'', ''filesystem-read''),
     (rxP ''`bfs`.createReadStream`b'', ''filesystem-read''),
     (rxP ''`bfsPromises`.readFile`b'', ''filesystem-read''),
     (rxP ''`bfs`.writeFile(?:Sync)?`b'', ''filesystem-write''),
     (rxP ''`bfs`.appendFile(?:Sync)?`b'', ''filesystem-write''),
     (rxP ''`bfs`.createWriteStream`b'', ''filesystem-write''),
     (rxP ''`bfs`.unlink(?:Sync)?`b'', ''filesystem-write''),
     (rxP ''`bfs`.rm(?:dir)?(?:Sync)?`b'', ''filesystem-write''),
     (rxP ''`bfs`.rename(?:Sync)?`b'', ''filesystem-write''),
     (rxP ''`bfs`.copyFile(?:Sync)?`b'', ''filesystem-write''),
     (rxP ''`bfs`.mkdir(?:Sync)?`b'', ''filesystem-write''),
     (rxP ''`bfs`.chmod(?:Sync)?`b'', ''filesystem-write''),
     (rxP ''`bchild_process`.exec(?:File)?(?:Sync)?`b'', ''shell''),
     (rxP ''`bchild_process`.spawn(?:Sync)?`b'', ''shell''),
     (rxP ''`bchild_process`.fork`b'', ''shell''), (rxP ''`bexeca`('', ''shell''),
     (rxP ''`bshelljs`.exec`b'', ''shell''), (rxP ''`bBun`.spawn`b'', ''shell''),
     (rxP ''`bfetch`('', ''network''),
     (rxP ''`baxios`.(get|post|put|delete|patch|head)`b'', ''network''),
     (rxP ''`baxios`('', ''network''), (rxP ''`bhttps?`.request`b'', ''network''),
     (rxP ''`bgot`('', ''network''), (rxP ''`bnode-fetch`b'', ''network''),
     (rxP ''`bundici`.(fetch|request)`b'', ''network''), (rxP ''`bnet`.Socket`b'', ''network''),
     (rxP ''`bnet`.createConnection`b'', ''network''),
     (rxP ''`bnodemailer`.createTransport`b'', ''network''),
     (rxP ''`bprocess`.env`b'', ''env-secrets''), (rxP ''`bdotenv`.config`('', ''env-secrets''),
     (rxP ''`beval`('', ''code-exec''), (rxP ''`bnew`s+Function`('', ''code-exec''),
     (rxP ''`bvm`.runIn(?:NewContext|ThisContext|Context)`b'', ''code-exec''),
     (rxP ''`bvm2`.NodeVM`b'', ''code-exec''), (rxP ''['`\"]pg['`\"]'', ''db-access''),
     (rxP ''['`\"]mysql2?['`\"]'', ''db-access''), (rxP ''['`\"]mongodb['`\"]'', ''db-access''),
     (rxP ''['`\"]ioredis['`\"]'', ''db-access''),
     (rxP ''['`\"]@prisma/client['`\"]'', ''db-access''),
     (rxP ''@modelcontextprotocol/sdk/client'', ''mcp-client''),
     (rxP ''@modelcontextprotocol/sdk/server'', ''mcp-server''),
     (rxP ''setRequestHandler`(.*ListToolsRequestSchema'', ''mcp-server''),
     (rxP ''['`\"]openai['`\"]'', ''llm-call''), (rxP ''@anthropic-ai/sdk'', ''llm-call''),
     (rxP ''@google/generative-ai'', ''llm-call''), (rxP ''['`\"]cohere-ai['`\"]'', ''llm-call''),
     (rxP ''`bgenerateText`('', ''llm-call''), (rxP ''`bstreamText`('', ''llm-call''),
     (rxP ''`bgenerateObject`('', ''llm-call''),
     (rxP ''@pinecone-database/pinecone'', ''memory-persistent''),
     (rxP ''['`\"]chromadb['`\"]'', ''memory-persistent''),
     (rxP ''@qdrant/js-client-rest'', ''memory-persistent'')]"

definition tool_loop_js :: regex where
  "tool_loop_js = rxP (''(?:client|llm|model)`.[a-z]*(?:create|invoke|generate)''
     @ ''[`s`S]{0,600}'' @ ''(?:tools?:`s*`[|callTool|toolCalls)'')"

definition is_tool_loop_js :: "string \<Rightarrow> bool" where
  "is_tool_loop_js src =
     ((contains ''while'' src \<or> contains ''for'' src) \<and> re_found tool_loop_js src)"

definition dynamic_tool_load_js :: "regex list" where
  "dynamic_tool_load_js =
    [rxP ''await`s+fetch`s*`([^)]*`)`s*`.then`s*`(`s*r`s*=>`s*r`.json`(`)`s*`)'',
     rxP ''agent`.tools`s*=`s*`['',
     rxP ''client`.listTools`s*`('']"

definition a2a_js :: "regex list" where
  "a2a_js = [rxP ''['`\"]crewai['`\"]'',
     rxP ''GroupChat'',
     rxP ''agent`.send`s*`('']"

definition file_caps_js :: "string \<Rightarrow> string list" where
  "file_caps_js src =
     map snd (filter (\<lambda>(pat, cap). re_found pat src) JS_CAPABILITY_PATTERNS)
     @ (if re_found CREDENTIAL_PATH_RE src then [''credential-paths''] else [])
     @ (if is_tool_loop_js src then [''tool-loop''] else [])
     @ (if any_found dynamic_tool_load_js src then [''dynamic-tool-load''] else [])
     @ (if any_found a2a_js src then [''agent-to-agent''] else [])"

definition extract_capabilities_js :: "sources \<Rightarrow> string list" where
  "extract_capabilities_js sources = dedup_first (concat (map (\<lambda>(path, src). file_caps_js src) sources))"

subsection \<open>A human in the loop, a session that is reset\<close>

definition HITL_PYTHON_PATTERNS :: "regex list" where
  "HITL_PYTHON_PATTERNS =
    [rxP ''`binput`s*`(`s*[`\"'][^`\"']*`?[^`\"']*[`\"']`s*`)'',
     rxP ''`bconfirm`s*`('',
     rxP ''`bapproval_required`s*=`s*True'',
     rxP ''`bhuman_in_the_loop`b'',
     rxP ''`bHumanInTheLoop`b'',
     rxP ''`brequest_approval`b'',
     rxP ''@requires_approval`b'',
     rxP ''`bask_user_to_continue`b'']"

definition HITL_JS_PATTERNS :: "regex list" where
  "HITL_JS_PATTERNS =
    [rxP ''`breadlineSync`b'',
     rxP ''`binquirer`b'',
     rxP ''`bprompts`s*`('',
     rxP ''`brequireApproval`b'',
     rxP ''`bhumanInTheLoop`b'',
     rxP ''`bHumanInTheLoop`b'']"

definition detect_human_in_the_loop :: "sources \<Rightarrow> string \<Rightarrow> bool" where
  "detect_human_in_the_loop sources language =
     list_ex (\<lambda>(path, src). any_found (if is_py language then HITL_PYTHON_PATTERNS else HITL_JS_PATTERNS) src)
       sources"

definition SESSION_RESET_PY :: "regex list" where
  "SESSION_RESET_PY =
    [rxP ''`bmessages`s*=`s*`[`s*`]'',
     rxI ''`b(?:reset|clear)_(?:context|history|memory|session)`b'',
     rxI ''`bnew_session`b|`bfresh_context`b'',
     rxI ''`bConversation`w*Memory`b[`s`S]{0,40}`.clear`s*`('',
     rxP ''`bsession_isolation`s*=`s*True`b'']"

definition SESSION_RESET_JS :: "regex list" where
  "SESSION_RESET_JS =
    [rxP ''`bmessages`s*=`s*`[`s*`]'',
     rxP ''`b(?:reset|clear)(?:Context|History|Memory|Session)`b'',
     rxP ''`bnewSession`b|`bfreshContext`b'',
     rxP ''`bsessionIsolation`s*:`s*true`b'']"

definition verify_session_isolation :: "sources \<Rightarrow> string \<Rightarrow> bool" where
  "verify_session_isolation sources language =
     list_ex (\<lambda>(path, src). any_found (if is_py language then SESSION_RESET_PY else SESSION_RESET_JS) src)
       sources"

subsection \<open>Signals\<close>

definition PACKAGE_NAME_PATTERNS_PY :: "regex list" where
  "PACKAGE_NAME_PATTERNS_PY =
    [rxI (''(^|[-_])(agent|autogpt|crewai|langchain|langgraph|''
         @ ''llama[-_]?index|autogen|haystack)([-_]|$)''),
     rxI ''^mcp-server-'',
     rxI ''^mcp-'']"

definition PACKAGE_NAME_PATTERNS_JS :: "regex list" where
  "PACKAGE_NAME_PATTERNS_JS =
    [rxI ''(^|[-/])(agent|langchain|llamaindex|crewai|autogen)'',
     rxI ''^@modelcontextprotocol/'',
     rxI ''^mcp-server-'',
     rxI ''-agent$'']"

definition DESCRIPTION_KEYWORDS :: "string list" where
  "DESCRIPTION_KEYWORDS =
    [''ai agent'', ''llm agent'', ''autonomous agent'', ''tool use'', ''tool calling'',
     ''function calling'', ''mcp'', ''model context protocol'', ''agentic'', ''react'',
     ''agent loop'']"

definition LLM_SDK_DEPS_PY :: "string list" where
  "LLM_SDK_DEPS_PY =
    [''openai'', ''anthropic'', ''google-generativeai'', ''cohere'', ''mistralai'', ''boto3'']"

definition AGENT_FRAMEWORK_DEPS_PY :: "string list" where
  "AGENT_FRAMEWORK_DEPS_PY =
    [''langchain'', ''langchain-core'', ''langgraph'', ''llama-index'', ''llama-index-core'',
     ''crewai'', ''autogen-agentchat'', ''autogen'', ''haystack-ai'', ''mcp'', ''openai-agents'']"

definition LLM_SDK_DEPS_JS :: "string list" where
  "LLM_SDK_DEPS_JS =
    [''openai'', ''@anthropic-ai/sdk'', ''@google/generative-ai'', ''cohere-ai'',
     ''@aws-sdk/client-bedrock-runtime'']"

definition AGENT_FRAMEWORK_DEPS_JS :: "string list" where
  "AGENT_FRAMEWORK_DEPS_JS =
    [''langchain'', ''@langchain/core'', ''@langchain/langgraph'', ''@langchain/openai'',
     ''@langchain/anthropic'', ''llamaindex'', ''@llamaindex/core'', ''crewai'',
     ''@modelcontextprotocol/sdk'', ''ai'']"

definition VECTOR_STORE_PY :: "string list" where
  "VECTOR_STORE_PY =
    [''chromadb'', ''pinecone'', ''weaviate'', ''faiss'', ''qdrant-client'', ''qdrant_client'']"

definition VECTOR_STORE_JS :: "string list" where
  "VECTOR_STORE_JS =
    [''chromadb'', ''pinecone-client'', ''@pinecone-database/pinecone'', ''weaviate-client'',
     ''@qdrant/js-client-rest'']"

definition MEMORY_MODULE_HINTS_PY :: "string list" where
  "MEMORY_MODULE_HINTS_PY = [''langchain.memory'', ''llama_index.core.memory'']"

definition REACT_RE :: regex where
  "REACT_RE = rxI ''(`bThought:`s|`bAction:`s|`bObservation:`s)''"

definition react_tokens :: "string \<Rightarrow> string list" where
  "react_tokens src = dedup_first (map (\<lambda>m. py_strip (py_lower (or_else (group_of src m 1) []))) (finditer REACT_RE src))"

definition has_react_pattern :: "string \<Rightarrow> bool" where
  "has_react_pattern src = (2 \<le> length (react_tokens src))"

definition has_mcp_server_python :: "string \<Rightarrow> bool" where
  "has_mcp_server_python src =
     (contains ''from mcp.server import'' src \<or> contains ''from mcp.server'' src
      \<or> (contains ''FastMCP'' src \<and> contains ''@app.tool'' src)
      \<or> contains ''@server.list_tools'' src \<or> contains ''@server.call_tool'' src)"

definition has_mcp_server_js :: "string \<Rightarrow> bool" where
  "has_mcp_server_js src =
     (contains ''@modelcontextprotocol/sdk/server'' src
      \<or> (contains ''ListToolsRequestSchema'' src \<and> contains ''setRequestHandler'' src))"

definition LLM_CALL_RE_PY :: regex where
  "LLM_CALL_RE_PY = rxP (''(?:openai`.|anthropic`.|llm`.|model`.)''
         @ ''(?:invoke|chat`s*`.`s*completions|messages`s*`.`s*create''
         @ ''|generate_content|complete|chat)'')"

definition TOOL_DISPATCH_RE_PY :: regex where
  "TOOL_DISPATCH_RE_PY = rxP (''(?:tool`s*`.`s*invoke|tool`s*`.`s*run|tools`[.*?`]''
         @ ''|globals`(`)`[.*?`]|getattr`(.*?,`s*tool_name`)''
         @ ''|Tool`.from_function|@tool`b|@function_tool`b)'')"

definition has_agent_loop_python :: "string \<Rightarrow> bool" where
  "has_agent_loop_python src =
     ((contains ''while '' src \<or> contains ''for '' src)
      \<and> re_found LLM_CALL_RE_PY src \<and> re_found TOOL_DISPATCH_RE_PY src)"

definition LLM_CALL_RE_JS :: regex where
  "LLM_CALL_RE_JS = rxP (''(?:client`.|model`.|llm`.|chat`.)''
         @ ''(?:completions`.create|messages`.create|invoke|generateText''
         @ ''|streamText|generateContent)'')"

definition TOOL_DISPATCH_RE_JS :: regex where
  "TOOL_DISPATCH_RE_JS = rxP (''(?:tools`s*:`s*`[|new`s+DynamicTool|tool`s*`(|callTool''
         @ ''|invokeTool|toolCalls|maxSteps)'')"

definition has_agent_loop_js :: "string \<Rightarrow> bool" where
  "has_agent_loop_js src =
     ((contains ''while'' src \<or> contains ''for'' src)
      \<and> re_found LLM_CALL_RE_JS src \<and> re_found TOOL_DISPATCH_RE_JS src)"

definition has_tool_decorator_python :: "string \<Rightarrow> bool" where
  "has_tool_decorator_python src = re_found
     (rxP ''@(?:tool|function_tool|server`.call_tool|server`.list_tools|app`.tool)`b'') src"

definition has_tool_definition_js :: "string \<Rightarrow> bool" where
  "has_tool_definition_js src =
     (contains ''new DynamicTool'' src \<or> re_found (rxP ''`btool`s*`(`s*`{'') src
      \<or> re_found (rxP ''`bdefineFunction`s*`('') src)"

definition agent_class_imports_py :: "regex list" where
  "agent_class_imports_py =
    [rxP ''from`s+langchain[._`w]*`s+import`s+.*`b(AgentExecutor|Agent|Tool)`b'',
     rxP ''from`s+langchain_core`.tools`s+import`s+Tool'',
     rxP ''from`s+llama_index[._`w]*`s+import`s+.*`b(ReActAgent|Agent)`b'',
     rxP ''from`s+crewai`s+import`s+.*`b(Agent|Crew|Task)`b'',
     rxP ''from`s+autogen[._`w]*`s+import'']"

definition agent_class_imports_js :: "regex list" where
  "agent_class_imports_js =
    [rxP ''from`s+['`\"]langchain/agents['`\"]'',
     rxP ''from`s+['`\"]@langchain/[`w-]+['`\"]'',
     rxP ''from`s+['`\"]llamaindex['`\"]'',
     rxP ''from`s+['`\"]crewai['`\"]'',
     rxP ''`bAgentExecutor`b|`bDynamicTool`b'']"

definition has_function_calling_schema :: "string \<Rightarrow> bool" where
  "has_function_calling_schema src =
     (re_found (rxS ''['\"]type['\"]`s*:`s*['\"]function['\"].*?['\"]function['\"]`s*:'') src
      \<or> re_found (rxP ''tools`s*=`s*`[`s*`{'') src)"

text \<open>The signals that fire, with weight and label, in the order of the source; the report adds up.\<close>

definition fires :: "bool \<Rightarrow> nat \<Rightarrow> string \<Rightarrow> (nat \<times> string) list" where
  "fires b w label = (if b then [(w, label)] else [])"

definition name_signal :: "regex list \<Rightarrow> string \<Rightarrow> (nat \<times> string) list" where
  "name_signal pats name =
     (case filter (\<lambda>p. re_found p name) pats of
        [] \<Rightarrow> [] | p # _ \<Rightarrow> [(3, ''package-name match: '' @ rg_pattern p)])"

definition dep_signal :: "nat \<Rightarrow> string \<Rightarrow> string list \<Rightarrow> string list \<Rightarrow> (nat \<times> string) list" where
  "dep_signal w label table deps =
     (let found = inter_set deps table in
      fires (found \<noteq> []) w (label @ '': '' @ py_repr_list (sorted_set found)))"

definition any_source :: "(string \<Rightarrow> bool) \<Rightarrow> sources \<Rightarrow> bool" where
  "any_source P sources = list_ex (\<lambda>(path, src). P src) sources"

definition report_of :: "(nat \<times> string) list \<Rightarrow> signal_report" where
  "report_of fired =
     (let score = sum_list (map fst fired) in
      \<lparr>sg_score = score, sg_is_agentic = (score \<ge> AGENTIC_THRESHOLD),
       sg_matched = map (\<lambda>(w, label). ''+'' @ show_nat w @ '' '' @ label) fired\<rparr>)"

definition python_signals :: "string \<Rightarrow> string \<Rightarrow> string list \<Rightarrow> sources \<Rightarrow> (nat \<times> string) list" where
  "python_signals package description dependencies sources =
     (let deps = map py_lower dependencies; desc = py_lower description; name = py_lower package in
      name_signal PACKAGE_NAME_PATTERNS_PY name
      @ fires (list_ex (\<lambda>kw. contains kw desc) DESCRIPTION_KEYWORDS) 3
          ''description keyword (AI agent / MCP / tool calling / ...)''
      @ fires (any_source has_react_pattern sources) 3 ''ReAct pattern (Thought/Action/Observation tokens)''
      @ fires (any_source has_mcp_server_python sources) 3
          ''MCP server entry-point (mcp.server.Server / FastMCP)''
      @ fires (any_source has_agent_loop_python sources) 3
          ''agent loop (LLM call + tool dispatch in while/for)''
      @ dep_signal 2 ''LLM SDK dependency'' LLM_SDK_DEPS_PY deps
      @ dep_signal 2 ''agent framework dependency'' AGENT_FRAMEWORK_DEPS_PY deps
      @ fires (any_source has_tool_decorator_python sources) 2
          ''tool decorator (@tool / @function_tool / @server.call_tool)''
      @ fires (any_source (any_found agent_class_imports_py) sources) 2 ''Agent/Tool/Executor class import''
      @ fires (any_source has_function_calling_schema sources) 2 ''OpenAI tools schema usage''
      @ dep_signal 1 ''vector store'' VECTOR_STORE_PY deps
      @ fires (any_source (\<lambda>src. list_ex (\<lambda>h. contains h src) MEMORY_MODULE_HINTS_PY) sources) 1
          ''memory module import'')"

definition detect_agentic_python :: "string \<Rightarrow> string \<Rightarrow> string list \<Rightarrow> sources \<Rightarrow> signal_report" where
  "detect_agentic_python package description dependencies sources =
     report_of (python_signals package description dependencies sources)"

definition js_signals :: "string \<Rightarrow> string \<Rightarrow> string list \<Rightarrow> sources \<Rightarrow> (nat \<times> string) list" where
  "js_signals package description dependencies sources =
     (let deps = map py_lower dependencies; desc = py_lower description; name = py_lower package in
      name_signal PACKAGE_NAME_PATTERNS_JS name
      @ fires (list_ex (\<lambda>kw. contains kw desc) DESCRIPTION_KEYWORDS) 3 ''description keyword''
      @ fires (any_source has_react_pattern sources) 3 ''ReAct pattern''
      @ fires (any_source has_mcp_server_js sources) 3 ''MCP server entry-point (Server / setRequestHandler)''
      @ fires (any_source has_agent_loop_js sources) 3 ''agent loop (await LLM + tool dispatch in loop)''
      @ dep_signal 2 ''LLM SDK dep'' LLM_SDK_DEPS_JS deps
      @ dep_signal 2 ''agent framework dep'' AGENT_FRAMEWORK_DEPS_JS deps
      @ fires (any_source has_tool_definition_js sources) 2 ''tool() / DynamicTool / defineFunction''
      @ fires (any_source has_function_calling_schema sources) 2 ''function calling schema''
      @ fires (any_source (any_found agent_class_imports_js) sources) 2 ''Agent/Tool/Executor import''
      @ dep_signal 1 ''vector store'' VECTOR_STORE_JS deps)"

definition detect_agentic_js :: "string \<Rightarrow> string \<Rightarrow> string list \<Rightarrow> sources \<Rightarrow> signal_report" where
  "detect_agentic_js package description dependencies sources =
     report_of (js_signals package description dependencies sources)"

end
