(* ===== verification/AgenticRules.thy ===== *)
theory AgenticRules
  imports AgenticDetect
begin

text \<open>
  The rules R1 to R4 over the sources of an agentic package (\<^verbatim>\<open>agentic/rules.py\<close>), and the
  environment of the classifier with the detectors of the source in it: only the TOML and JSON
  readers, Python's parser and the display of declarations that are not strings stay parameters.
\<close>

subsection \<open>Hits\<close>

definition make_hit ::
  "string \<Rightarrow> rule_severity \<Rightarrow> string \<Rightarrow> string \<Rightarrow> string \<Rightarrow> string list \<Rightarrow> rule_finding" where
  "make_hit rule_id sev file_path snippet reason excused_by =
     \<lparr>rf_rule_id = rule_id, rf_severity = sev, rf_file_path = file_path,
      rf_snippet = take 300 snippet, rf_reason = reason, rf_excused_by = excused_by\<rparr>"

text \<open>\<^verbatim>\<open>for pat in PATTERNS: m = pat.search(src); if m: hits.append(...); break\<close>\<close>

definition first_hit :: "regex list \<Rightarrow> string \<Rightarrow> (string \<Rightarrow> rule_finding) \<Rightarrow> rule_finding list" where
  "first_hit pats src hit =
     (case first_found pats src of None \<Rightarrow> [] | Some m \<Rightarrow> [hit (group0 src m)])"

definition has_high_risk :: "rule_finding list \<Rightarrow> bool" where
  "has_high_risk hits = list_ex (\<lambda>h. rf_severity h = RsHIGH_RISK) hits"

subsection \<open>Design patterns\<close>

definition DESIGN_PATTERN_SIGNATURES :: "(string \<times> regex list) list" where
  "DESIGN_PATTERN_SIGNATURES =
    [(''dual-llm'',
      [rxI ''`b(?:quarantine|privileged|trusted|untrusted)_?llm`b'',
       rxP ''`b(?:q_llm|p_llm)`b'']),
     (''llm-map-reduce'',
      [rxI ''`bmap_reduce`b|`bmapreduce`b'',
       rxI ''`.map`s*`([`s`S]{0,200}`.reduce`s*`('']),
     (''plan-then-execute'',
      [rxI ''`b(?:make_plan|create_plan|plan_step|planner)`b'',
       rxI ''`bplan`b[`s`S]{0,120}`bexecute`b'']),
     (''context-minimization'',
      [rxI ''`b(?:minimi[sz]e|strip|prune)_context`b'',
       rxI ''`bcontext`s*=`s*context`s*`['']),
     (''action-selector'',
      [rxP ''`b(?:ALLOWED|WHITELIST|PERMITTED)_(?:ACTIONS|TOOLS)`b'',
       rxI ''`bif`s+`w+`s+(?:not`s+)?in`s+(?:allowed|whitelist)'']),
     (''code-then-execute'',
      [rxI ''`bsandbox`b[`s`S]{0,120}`b(?:exec|run)`b'',
       rxI ''`b(?:docker|nsjail|firejail|seccomp)`b''])]"

definition signed_pattern :: "string \<Rightarrow> pyval \<Rightarrow> bool" where
  "signed_pattern blob p = (case p of
       PStr name \<Rightarrow> (case map_of DESIGN_PATTERN_SIGNATURES name of
                       None \<Rightarrow> False | Some sigs \<Rightarrow> any_found sigs blob)
     | _ \<Rightarrow> False)"

definition verify_design_patterns ::
  "pyval list option \<Rightarrow> sources \<Rightarrow> pyexn + (pyval list \<times> pyval list)" where
  "verify_design_patterns declared sources =
     (let ps = or_else declared []; blob = py_join [CHR 0x0A] (map snd sources)
      in if list_all hashable ps
         then Inr (filter (signed_pattern blob) ps, filter (\<lambda>p. \<not> signed_pattern blob p) ps)
         else Inl (TypeError ''unhashable type''))"

text \<open>
  The note on unverified declarations shows \<^verbatim>\<open>sorted(dp_unverified)\<close>. How Python orders and shows
  declarations that are not all strings is the parameter.
\<close>

fun all_strs :: "pyval list \<Rightarrow> string list option" where
  "all_strs [] = Some []"
| "all_strs (PStr s # vs) = map_option ((#) s) (all_strs vs)"
| "all_strs (v # vs) = None"

definition shown_sorted :: "(pyval list \<Rightarrow> pyexn + string) \<Rightarrow> pyval list \<Rightarrow> pyexn + string" where
  "shown_sorted other ps = (case all_strs ps of
     Some ss \<Rightarrow> Inr (py_repr_list (sorted_set ss)) | None \<Rightarrow> other ps)"

definition unverified_note ::
  "(pyval list \<Rightarrow> pyexn + string) \<Rightarrow> pyval list \<Rightarrow> pyexn + string list" where
  "unverified_note other unverified =
     (if unverified = [] then Inr []
      else bindE (shown_sorted other unverified) (\<lambda>shown.
        Inr [''DECLARED-BUT-UNVERIFIED: '' @ shown @ '' (no exemption)'']))"

subsection \<open>R1: prompt injection\<close>

definition R1_1_PATTERNS :: "regex list" where
  "R1_1_PATTERNS =
    [rxI (''(?:system|prompt|instruction)`s*=`s*f[`\"'][^`\"']*`{[^}]*''
         @ ''(?:html|content|data|text|page|fetched|scraped|web|response|tool_output|''
         @ ''observation|external|user_input|search_result|retrieved)''
         @ ''[^}]*`}''),
     rxI (''`{[`\"']role[`\"']`s*:`s*[`\"']system[`\"']`s*,`s*''
         @ ''[`\"']content[`\"']`s*:`s*''
         @ ''[^}]*(?:`+`s*`w+|f[`\"'][^`\"']*`{)''),
     rxI (''messages`s*`.`s*append`s*`(`s*`{`s*[`\"']role[`\"']`s*:`s*[`\"']system[`\"']''
         @ ''[`s`S]{0,80}tool'')]"

definition R1_2_PATTERNS :: "regex list" where
  "R1_2_PATTERNS =
    [rxI ''requests`.get`s*`([^)]*`)`s*`.json`(`)'',
     rxI ''agent`s*`.`s*bind_tools`s*`([^)]*remote'',
     rxI ''tools?`s*`.`s*append`s*`(`s*request'',
     rxI ''client`.listTools`s*`('',
     rxI ''session`.list_tools`s*`('']"

definition R1_3_PATTERNS :: "regex list" where
  "R1_3_PATTERNS =
    [rxI (''(?:web_search|search|browse|fetch|crawl|scrape)`s*`([^)]*`)''
         @ ''[`s`S]{0,200}''
         @ ''(?:llm|model|chain|agent)`s*`.`s*invoke''),
     rxI (''(?P<varname>results?|content|response|page|html)`s*=`s*''
         @ ''(?:requests|httpx|fetch)`s*`.''
         @ ''[`s`S]{0,300}''
         @ ''messages`s*`.`s*append`s*`([^)]*(?P=varname)'')]"

definition R1_4_PATTERNS :: "regex list" where
  "R1_4_PATTERNS =
    [rxI (''(?P<v>code|cmd|tool_call|llm_output|generated)`s*=`s*''
         @ ''(?:llm|model|client)`s*`.`s*(?:invoke|complete|chat|generate)''
         @ ''[`s`S]{0,200}''
         @ ''(?:exec|eval)`s*`(`s*(?P=v)''),
     rxI (''subprocess`.`w+`s*`([^)]*shell`s*=`s*True[^)]*''
         @ ''(?:llm_|model_|generated_|cmd|command)''),
     rxI ''globals`(`)`s*`[`s*`w+`s*`]`s*`('',
     rxI (''getattr`s*`([^,]+,`s*''
         @ ''(?:tool_name|toolname|tool|action_name|action|fn_name|func_name|''
         @ ''method_name|cmd|command|llm_output|generated|tool_call|call_name|''
         @ ''selected_tool|chosen_tool)`s*`)`s*`('')]"

definition excuse :: "string list \<Rightarrow> pyval list \<Rightarrow> string \<Rightarrow> string list" where
  "excuse names dp label = (if list_ex (\<lambda>n. PStr n \<in> set dp) names then [label] else [])"

definition R1_file :: "pyval list \<Rightarrow> string list \<Rightarrow> string \<Rightarrow> string \<Rightarrow> rule_finding list" where
  "R1_file dp note path src =
     first_hit R1_1_PATTERNS src (\<lambda>g.
       let excused = excuse [''dual-llm'', ''llm-map-reduce''] dp ''dual-llm or llm-map-reduce applied''
       in make_hit ''R1-1'' (if excused \<noteq> [] then RsSUSPICIOUS else RsHIGH_RISK) path g
            ''untrusted input mixed with privileged prompt'' (excused @ note))
     @ first_hit R1_2_PATTERNS src (\<lambda>g.
         make_hit ''R1-2'' RsHIGH_RISK path g ''tool description loaded dynamically (ToolHijacker)'' [])
     @ first_hit R1_3_PATTERNS src (\<lambda>g.
         make_hit ''R1-3'' RsSUSPICIOUS path g
           ''external fetch result injected to LLM context without sanitization''
           (excuse [''plan-then-execute'', ''context-minimization''] dp
              ''plan-then-execute or context-minimization'' @ note))
     @ first_hit R1_4_PATTERNS src (\<lambda>g.
         let excused = excuse [''action-selector''] dp ''action-selector (whitelisted tools)''
               @ excuse [''code-then-execute''] dp ''code-then-execute + sandbox''
         in make_hit ''R1-4'' (if excused \<noteq> [] then RsSUSPICIOUS else RsHIGH_RISK) path g
              ''free-form code/tool execution as default'' (excused @ note))"

definition R1_check ::
  "(pyval list \<Rightarrow> pyexn + string) \<Rightarrow> sources \<Rightarrow> pyval list option \<Rightarrow> pyexn + rule_finding list" where
  "R1_check other sources applied =
     bindE (verify_design_patterns applied sources) (\<lambda>(dp, unverified).
     bindE (unverified_note other unverified) (\<lambda>note.
     Inr (concat (map (\<lambda>(path, src). R1_file dp note path src) sources))))"

subsection \<open>R2: sandbox escape\<close>

definition R2_2_PATTERNS :: "regex list" where
  "R2_2_PATTERNS =
    [rxP ''`bos`.setuid`s*`(`s*0`s*`)'',
     rxP ''`bos`.setgid`s*`(`s*0`s*`)'',
     rxP ''subprocess`.`w+`s*`(`s*`[`s*[`\"']sudo[`\"']'',
     rxP ''setresuid`s*`(`s*0`s*,`s*0`s*,`s*0`s*`)'',
     rxP ''capset`s*`('']"

definition R2_3_PATTERNS :: "regex list" where
  "R2_3_PATTERNS =
    [rxP ''[`\"']/var/run/docker`.sock[`\"']'',
     rxP ''[`\"']/proc/self/cgroup[`\"']'',
     rxP ''`bos`.unshare`s*`('',
     rxP ''CLONE_NEW(?:NS|UTS|PID|NET|USER)'',
     rxP ''`bos`.listdir`s*`(`s*[`\"']/proc[`\"']`s*`)'']"

definition R2_4_PATTERNS_STATIC :: "regex list" where
  "R2_4_PATTERNS_STATIC =
    [rxP ''subprocess`.`w+`s*`(`s*`[`s*[`\"']pip[`\"']`s*,`s*[`\"']install[`\"']'',
     rxP ''os`.system`s*`(`s*f?[`\"'][^`\"']*pip`s+install'',
     rxP ''__import__`s*`(`s*[`\"']pip[`\"']`s*`)`s*`.`s*main'',
     rxP ''child_process`.exec`s*`([^)]*npm`s+install'']"

definition R2_4_DYNAMIC_RE :: regex where
  "R2_4_DYNAMIC_RE = rxI (''(?:subprocess`.`w+|os`.system|child_process`.exec)`s*`([^)]*''
         @ ''(?:llm_|model_|agent_|generated_)'')"

definition R2_trifecta :: "string list \<Rightarrow> bool \<Rightarrow> bool \<Rightarrow> bool \<Rightarrow> rule_finding list" where
  "R2_trifecta detected has_hitl isolation verified =
     (let chk = has_lethal_trifecta detected has_hitl None isolation verified;
          snippet = ''ABC = '' @ py_repr_list (sorted_set (tc_abc_present chk))
      in if \<not> tc_has_trifecta chk then []
         else if is_violation chk
         then [make_hit ''R2-1'' RsHIGH_RISK ''<capability-set>'' snippet
                 ''Lethal Trifecta (A+B+C) without HITL or verified session_isolation'' []]
         else [make_hit ''R2-1'' RsSUSPICIOUS ''<capability-set>'' snippet
                 ''Lethal Trifecta present but mitigated (HITL/session_isolation)''
                 ((if has_hitl then [''human-in-the-loop''] else [])
                  @ (if session_isolation_effective chk
                     then [''session_isolation declared+verified''] else [])
                  @ (if isolation \<and> \<not> verified
                     then [''DECLARED-BUT-UNVERIFIED: session_isolation (no mitigation)''] else []))])"

definition R2_file :: "string \<Rightarrow> string \<Rightarrow> rule_finding list" where
  "R2_file path src =
     first_hit R2_2_PATTERNS src (\<lambda>g.
       make_hit ''R2-2'' RsMALICIOUS path g ''privilege escalation attempt'' [])
     @ first_hit R2_3_PATTERNS src (\<lambda>g.
         make_hit ''R2-3'' RsMALICIOUS path g ''container/sandbox escape signal'' [])
     @ (let is_dynamic = re_found R2_4_DYNAMIC_RE src in
        first_hit R2_4_PATTERNS_STATIC src (\<lambda>g.
          make_hit ''R2-4'' (if is_dynamic then RsMALICIOUS else RsHIGH_RISK) path g
            (''runtime dependency installation (''
               @ (if is_dynamic then ''LLM-driven'' else ''static'') @ '')'') []))"

definition R2_check ::
  "sources \<Rightarrow> string list \<Rightarrow> bool \<Rightarrow> bool \<Rightarrow> string \<Rightarrow> rule_finding list" where
  "R2_check sources detected has_hitl isolation language =
     R2_trifecta detected has_hitl isolation
       (if isolation then verify_session_isolation sources language else False)
     @ concat (map (\<lambda>(path, src). R2_file path src) sources)"

subsection \<open>R3: undeclared capabilities and the declared Rule of Two\<close>

definition R3_check :: "string list \<Rightarrow> string list \<Rightarrow> bool \<Rightarrow> rule_finding list" where
  "R3_check declared detected manifest_present =
     (let undeclared = minus_set detected declared;
          bad = py_repr_list (sorted_set (inter_set undeclared DANGEROUS_UNDECLARED));
          medium = inter_set (minus_set undeclared DANGEROUS_UNDECLARED) MEDIUM_UNDECLARED;
          minor = minus_set (minus_set undeclared DANGEROUS_UNDECLARED) MEDIUM_UNDECLARED;
          hit = (\<lambda>rule sev snippet reason. make_hit rule sev ''<capability-set>'' snippet reason [])
      in (if inter_set undeclared DANGEROUS_UNDECLARED = [] then []
          else if manifest_present
          then [hit ''R3-dangerous'' RsMALICIOUS (''undeclared dangerous: '' @ bad)
                  (''undeclared dangerous capabilities '' @ bad
                     @ '' (manifest present - under-declaration)'')]
          else [hit ''R3-dangerous-no-manifest'' RsSUSPICIOUS
                  (''dangerous caps without manifest: '' @ bad)
                  (''dangerous capabilities '' @ bad @ '' used without Agentic ''
                     @ ''manifest (no under-declaration claim; behavioral rules ''
                     @ ''decide maliciousness)'')])
         @ (if medium = [] then []
            else [hit ''R3-medium'' RsSUSPICIOUS
                    (''undeclared medium: '' @ py_repr_list (sorted_set medium))
                    (''undeclared medium capabilities '' @ py_repr_list (sorted_set medium)
                       @ ''; manifest_present='' @ py_bool manifest_present)])
         @ (if minor \<noteq> [] \<and> \<not> manifest_present
            then [hit ''R3-minor-no-manifest'' RsSUSPICIOUS
                    (''manifest absent; minor caps: '' @ py_repr_list (sorted_set minor))
                    ''manifest missing; capabilities used implicitly'']
            else []))"

definition section_sign :: string where
  "section_sign = [CHR 0xC2, CHR 0xA7]"

definition R3_rule_of_two_consistency ::
  "string list \<Rightarrow> pyval list \<Rightarrow> bool \<Rightarrow> pyexn + rule_finding list" where
  "R3_rule_of_two_consistency detected satisfies manifest_present =
     (if \<not> manifest_present then Inr []
      else bindE (mapE (attr_str ''strip'') satisfies) (\<lambda>ss.
        let declared = sorted_set (filter (\<lambda>s. s \<in> {''A'', ''B'', ''C''})
              (map (\<lambda>s. py_upper (py_strip s)) ss));
            actual = map_to_abc detected;
            extra = minus_set actual declared
        in if declared = [''A'', ''B'', ''C'']
           then Inr [make_hit ''R3-rot-forbidden'' RsHIGH_RISK ''<rule-of-two>''
                  ''satisfies = [A, B, C]''
                  (''rule_of_two.satisfies declares all three properties (forbidden by spec ''
                     @ section_sign @ ''4 - human-in-the-loop required)'') []]
           else if declared \<noteq> [] \<and> extra \<noteq> []
           then Inr [make_hit ''R3-rot-mismatch'' RsSUSPICIOUS ''<rule-of-two>''
                  (''declared satisfies='' @ py_repr_list (sorted_set declared)
                     @ '', detected ABC='' @ py_repr_list (sorted_set actual))
                  (''detected capability posture exceeds declared rule_of_two satisfies; ''
                     @ ''undeclared properties '' @ py_repr_list (sorted_set extra)) []]
           else Inr []))"

subsection \<open>R4: hidden side channels\<close>

definition R4_1_LOG_NAMES :: "string list" where
  "R4_1_LOG_NAMES =
    [''log'', ''logger'', ''logging'', ''audit'', ''trail'', ''track'', ''tracker'', ''tracing'',
     ''metric'', ''metrics'', ''analytic'', ''analytics'', ''telemetry'', ''telemetric'',
     ''stat'', ''stats'', ''statistics'', ''report'', ''reporter'', ''reporting'', ''monitor'',
     ''monitoring'', ''usage'', ''event'', ''diagnostic'', ''diagnostics'', ''heartbeat'',
     ''ping'', ''instrument'', ''instrumentation'']"

definition R4_5_BENIGN_VERBS :: "string list" where
  "R4_5_BENIGN_VERBS =
    [''validate'', ''verify'', ''check'', ''is_'', ''has_'', ''format'', ''parse'', ''render'',
     ''stringify'', ''get'', ''fetch_config'', ''read_config'', ''read_setting'', ''compute'',
     ''calculate'', ''compare'', ''diff_'', ''convert'', ''transform'', ''normalize'',
     ''sanitize'', ''hash_'', ''encode_safe'', ''escape'']"

definition R4_5_DANGEROUS_BODY :: regex where
  "R4_5_DANGEROUS_BODY = rxI (''(?:subprocess`.(?:run|Popen|call|check_output)|os`.system|''
         @ ''os`.popen|eval`s*`(|exec`s*`(|compile`s*`(|''
         @ ''socket`.(?:socket|create_connection)|''
         @ ''requests`.(?:post|put|patch)`s*`([`\"']https?://(?!localhost|127`.|0`.0`.0`.0))'')"

definition verb_matches :: "string \<Rightarrow> string \<Rightarrow> bool" where
  "verb_matches name v =
     (if endswith v ''_'' then startswith name v
      else startswith name v \<or> v \<in> set (split_on (CHR ''_'') name))"

definition matches_benign_verb :: "string \<Rightarrow> bool" where
  "matches_benign_verb fn_name = list_ex (verb_matches (py_lower fn_name)) R4_5_BENIGN_VERBS"

text \<open>The body of a function: up to the next definition, or the next 800 characters.\<close>

definition body_from :: "regex \<Rightarrow> string \<Rightarrow> nat \<Rightarrow> string" where
  "body_from next_def src start =
     (let rest = drop start src in
      take (case re_search next_def rest of None \<Rightarrow> 800 | Some m \<Rightarrow> mt_start m) rest)"

definition R4_1_func_pat :: regex where
  "R4_1_func_pat = rxI (''(?:def|async`s+def|@tool[^`n]*`n`s*def)`s+(`w+)`s*`([^)]*`)[^:]*:`s*''
         @ ''(?:[`\"']{3}([^`\"']*)[`\"']{3})?'')"

definition R4_1_ext_post :: regex where
  "R4_1_ext_post = rxI ''requests`.post`s*`([`\"']https?://(?!localhost|127`.|0`.0`.0`.0)''"

definition looks_logy :: "string \<Rightarrow> string \<Rightarrow> bool" where
  "looks_logy fn_name docstring =
     (list_ex (\<lambda>k. contains k (py_lower fn_name)) R4_1_LOG_NAMES
      \<or> list_ex (\<lambda>k. contains k (py_lower docstring)) R4_1_LOG_NAMES)"

definition r4_1_check :: "string \<Rightarrow> string \<Rightarrow> rule_finding list" where
  "r4_1_check src path = concat (map (\<lambda>m.
     let fn_name = or_else (group_of src m 1) []; docstring = or_else (group_of src m 2) []
     in if looks_logy fn_name docstring
          \<and> re_found R4_1_ext_post (body_from (rxP ''`n(?:def|async`s+def|@`w)'') src (mt_end m))
        then [make_hit ''R4-1'' RsMALICIOUS path (take 200 (group0 src m))
                (''function '' @ [CHR 0x27] @ fn_name @ [CHR 0x27]
                   @ '' described as logging but posts to external endpoint'') []]
        else []) (finditer R4_1_func_pat src))"

definition R4_5_func_pat :: regex where
  "R4_5_func_pat = rxI (''(?:def|async`s+def)`s+(`w+)`s*`([^)]*`)`s*(?:->[^:]+)?:`s*''
         @ ''(?:[`\"']{3}([^`\"']*)[`\"']{3})?'')"

definition r4_5_check :: "string \<Rightarrow> string \<Rightarrow> rule_finding list" where
  "r4_5_check src path = concat (map (\<lambda>m.
     let fn_name = py_lower (or_else (group_of src m 1) []);
         body = body_from (rxP ''`n(?:def|async`s+def|class`s+|@`w)'') src (mt_end m)
     in if \<not> matches_benign_verb fn_name then []
        else (case re_search R4_5_DANGEROUS_BODY body of
            None \<Rightarrow> []
          | Some bm \<Rightarrow> [make_hit ''R4-5'' RsHIGH_RISK path (take 200 (group0 src m))
              (''function '' @ [CHR 0x27] @ fn_name @ [CHR 0x27]
                 @ '' has benign-looking name but body contains dangerous primitive: ''
                 @ take 60 (group0 body bm)) []])) (finditer R4_5_func_pat src))"

definition R4_3_PROVENANCE_RE :: regex where
  "R4_3_PROVENANCE_RE = rxI (''`b(?:logger|logging|getLogger|structlog|loguru|''
         @ ''audit_log|audit_trail|provenance|opentelemetry|otel|''
         @ ''telemetry|sentry_sdk|trace_id|span|metadata)`b'')"

definition R4_2_PATTERNS :: "regex list" where
  "R4_2_PATTERNS =
    [rxI (''(?:scrape|web_search|fetch|crawl|download|read_url)`s*`([^)]*`)''
         @ ''[`s`S]{0,300}''
         @ ''(?:vector_store|chromadb|pinecone|weaviate)`s*`.`s*''
         @ ''(?:add|upsert|insert|index)''),
     rxI (''(?:vector_store|memory)`s*`.`s*add(?:_texts)?`s*`(''
         @ ''`s*(?:external|untrusted|fetched|scraped)'')]"

definition R4_4_PATTERNS :: "regex list" where
  "R4_4_PATTERNS =
    [rxI (''(?:Crew|GroupChat|GroupChatManager)`s*`([^)]*`)''
         @ ''[`s`S]{0,300}''
         @ ''`.`s*(?:kickoff|run|start)`s*`(`s*(?:inputs|messages)`s*=`s*`w+''),
     rxI (''async`s+def`s+receive_from_peer`s*`([^)]*`)`s*:[`s`S]{0,200}''
         @ ''(?:process|handle)`s*`('')]"

definition R4_file :: "string \<Rightarrow> string \<Rightarrow> rule_finding list" where
  "R4_file path src =
     r4_1_check src path @ r4_5_check src path
     @ first_hit R4_2_PATTERNS src (\<lambda>g.
         make_hit ''R4-2'' RsHIGH_RISK path (take 200 g)
           ''external data ingested to persistent memory without provenance'' [])
     @ first_hit R4_4_PATTERNS src (\<lambda>g.
         make_hit ''R4-4'' RsSUSPICIOUS path (take 200 g)
           ''multi-agent communication without sender authentication'' [])"

definition R4_check :: "sources \<Rightarrow> string list \<Rightarrow> rule_finding list" where
  "R4_check sources detected =
     concat (map (\<lambda>(path, src). R4_file path src) sources)
     @ (if ''memory-persistent'' \<in> set detected \<and> \<not> any_source (re_found R4_3_PROVENANCE_RE) sources
        then [make_hit ''R4-3'' RsSUSPICIOUS ''<provenance-check>''
                ''memory_persistent used without logging.* calls''
                ''persistent memory without provenance / audit log'' []]
        else [])"

subsection \<open>All rules, and the classifier's environment\<close>

definition run_all_rules ::
  "(pyval list \<Rightarrow> pyexn + string) \<Rightarrow> sources \<Rightarrow> rule_input \<Rightarrow> pyexn + rule_finding list" where
  "run_all_rules other sources inp =
     bindE (R1_check other sources (ru_applied inp)) (\<lambda>r1.
     let r2 = R2_check sources (ru_detected inp) (ru_has_hitl inp) (ru_session_isolation inp)
           (ru_language inp);
         r3 = R3_check (ru_declared inp) (ru_detected inp) (ru_manifest_present inp)
     in bindE (R3_rule_of_two_consistency (ru_detected inp) (or_else (ru_satisfies inp) [])
                 (ru_manifest_present inp)) (\<lambda>rot.
     Inr (r1 @ r2 @ r3 @ rot @ R4_check sources (ru_detected inp))))"

definition source_env ::
  "(string \<Rightarrow> pyexn + pyval) \<Rightarrow> (string \<Rightarrow> pyexn + pyval) \<Rightarrow> (string \<Rightarrow> pyexn + pynode)
    \<Rightarrow> (pyval list \<Rightarrow> pyexn + string) \<Rightarrow> agentic_env" where
  "source_env toml json parser other =
     \<lparr>ag_toml = toml, ag_json = json,
      ag_signal = (\<lambda>py. if py then detect_agentic_python else detect_agentic_js),
      ag_capabilities = (\<lambda>py sources. if py then extract_capabilities_python parser sources
                                      else Inr (extract_capabilities_js sources)),
      ag_hitl = detect_human_in_the_loop, ag_rules = run_all_rules other\<rparr>"

subsection \<open>What the rules guarantee\<close>

lemma in_first_hitD: "h \<in> set (first_hit pats src f) \<Longrightarrow> \<exists>g. h = f g"
  by (auto simp: first_hit_def split: option.splits)

lemma first_hit_map:
  assumes "\<And>g. r (f g) = r' (f' g)"
  shows "map r (first_hit pats src f) = map r' (first_hit pats src f')"
  using assms by (simp add: first_hit_def split: option.split)

lemma make_hit_sel [simp]:
  "rf_rule_id (make_hit i v p s r e) = i" "rf_severity (make_hit i v p s r e) = v"
  "rf_file_path (make_hit i v p s r e) = p" "rf_snippet (make_hit i v p s r e) = take 300 s"
  "rf_excused_by (make_hit i v p s r e) = e"
  by (simp_all add: make_hit_def)

lemma run_all_rules_Inr:
  "run_all_rules other sources inp = Inr hits \<longleftrightarrow>
     (\<exists>r1 rot. R1_check other sources (ru_applied inp) = Inr r1
        \<and> R3_rule_of_two_consistency (ru_detected inp) (or_else (ru_satisfies inp) [])
            (ru_manifest_present inp) = Inr rot
        \<and> hits = r1 @ R2_check sources (ru_detected inp) (ru_has_hitl inp)
              (ru_session_isolation inp) (ru_language inp)
            @ R3_check (ru_declared inp) (ru_detected inp) (ru_manifest_present inp)
            @ rot @ R4_check sources (ru_detected inp))"
  by (auto simp: run_all_rules_def Let_def bindE_Inr_iff)

lemma R1_check_Inr:
  "R1_check other sources applied = Inr r1 \<longleftrightarrow>
     (\<exists>dp un note. verify_design_patterns applied sources = Inr (dp, un)
        \<and> unverified_note other un = Inr note
        \<and> r1 = concat (map (\<lambda>(path, src). R1_file dp note path src) sources))"
  by (auto simp: R1_check_def bindE_Inr_iff)

definition no_show :: "pyval list \<Rightarrow> pyexn + string" where
  "no_show ps = Inl (TypeError ''not supported'')"

text \<open>A package without files, with a manifest that keeps quiet about its capabilities.\<close>

definition quiet_input :: rule_input where
  "quiet_input = \<lparr>ru_declared = [], ru_detected = [''shell'', ''filesystem-read''],
     ru_manifest_present = True, ru_has_hitl = False, ru_session_isolation = True,
     ru_applied = Some [PStr ''magic''], ru_satisfies = Some [], ru_language = ''python''\<rparr>"

definition quiet_hits :: "rule_finding list" where
  "quiet_hits = R2_trifecta [''shell'', ''filesystem-read''] False True False
     @ R3_check [] [''shell'', ''filesystem-read''] True"

lemma quiet_run: "run_all_rules no_show [] quiet_input = Inr quiet_hits"
  by code_simp

lemma quiet_verify: "verify_design_patterns (ru_applied quiet_input) [] = Inr ([], [PStr ''magic''])"
  by code_simp

lemma quiet_isolation: "\<not> verify_session_isolation [] (ru_language quiet_input)"
  by code_simp

subsubsection \<open>Every hit is well formed\<close>

text \<open>
  The severities that \<^verbatim>\<open>docs/agentic-manifest/spec/RULES.md\<close> documents for a rule (section "Verdict" of each
  rule and the summary at its end; the specification of the manifest, section 4, for the declared Rule of Two).
\<close>

definition documented_severity :: "(string \<times> rule_severity) set" where
  "documented_severity =
     {(''R1-1'', RsHIGH_RISK), (''R1-2'', RsHIGH_RISK), (''R1-3'', RsSUSPICIOUS), (''R1-4'', RsHIGH_RISK),
      (''R2-1'', RsHIGH_RISK), (''R2-2'', RsMALICIOUS), (''R2-3'', RsMALICIOUS),
      (''R2-4'', RsHIGH_RISK), (''R2-4'', RsMALICIOUS),
      (''R3-dangerous'', RsMALICIOUS), (''R3-dangerous-no-manifest'', RsMALICIOUS),
      (''R3-medium'', RsHIGH_RISK), (''R3-minor-no-manifest'', RsSUSPICIOUS),
      (''R3-rot-forbidden'', RsHIGH_RISK), (''R3-rot-mismatch'', RsSUSPICIOUS),
      (''R4-1'', RsMALICIOUS), (''R4-2'', RsHIGH_RISK), (''R4-3'', RsSUSPICIOUS), (''R4-4'', RsSUSPICIOUS),
      (''R4-5'', RsMALICIOUS)}"

text \<open>Where the code does not answer what is documented: three rules are milder, and three others are when excused.\<close>

definition severity_ok :: "string \<Rightarrow> rule_severity \<Rightarrow> string list \<Rightarrow> bool" where
  "severity_ok i sev excuses \<longleftrightarrow>
     (if i \<in> {''R4-5'', ''R3-medium'', ''R3-dangerous-no-manifest''}
      then (i, sev) \<in> {(''R4-5'', RsHIGH_RISK), (''R3-medium'', RsSUSPICIOUS),
                         (''R3-dangerous-no-manifest'', RsSUSPICIOUS)}
      else (i, sev) \<in> documented_severity
           \<or> i \<in> {''R1-1'', ''R1-4'', ''R2-1''} \<and> sev = RsSUSPICIOUS \<and> excuses \<noteq> [])"

lemma severities_ok [simp]:
  "severity_ok ''R1-1'' RsHIGH_RISK e" "e \<noteq> [] \<Longrightarrow> severity_ok ''R1-1'' RsSUSPICIOUS e"
  "severity_ok ''R1-2'' RsHIGH_RISK e" "severity_ok ''R1-3'' RsSUSPICIOUS e"
  "severity_ok ''R1-4'' RsHIGH_RISK e" "e \<noteq> [] \<Longrightarrow> severity_ok ''R1-4'' RsSUSPICIOUS e"
  "severity_ok ''R2-1'' RsHIGH_RISK e" "e \<noteq> [] \<Longrightarrow> severity_ok ''R2-1'' RsSUSPICIOUS e"
  "severity_ok ''R2-2'' RsMALICIOUS e" "severity_ok ''R2-3'' RsMALICIOUS e"
  "severity_ok ''R2-4'' RsMALICIOUS e" "severity_ok ''R2-4'' RsHIGH_RISK e"
  "severity_ok ''R3-dangerous'' RsMALICIOUS e" "severity_ok ''R3-dangerous-no-manifest'' RsSUSPICIOUS e"
  "severity_ok ''R3-medium'' RsSUSPICIOUS e" "severity_ok ''R3-minor-no-manifest'' RsSUSPICIOUS e"
  "severity_ok ''R3-rot-forbidden'' RsHIGH_RISK e" "severity_ok ''R3-rot-mismatch'' RsSUSPICIOUS e"
  "severity_ok ''R4-1'' RsMALICIOUS e" "severity_ok ''R4-2'' RsHIGH_RISK e" "severity_ok ''R4-3'' RsSUSPICIOUS e"
  "severity_ok ''R4-4'' RsSUSPICIOUS e" "severity_ok ''R4-5'' RsHIGH_RISK e"
  by (simp_all add: severity_ok_def documented_severity_def)

definition hit_place :: "sources \<Rightarrow> rule_finding \<Rightarrow> bool" where
  "hit_place sources h = (rf_file_path h \<in> fst ` set sources
     \<or> rf_file_path h \<in> {''<capability-set>'', ''<rule-of-two>'', ''<provenance-check>''})"

definition hit_ok :: "sources \<Rightarrow> rule_finding \<Rightarrow> bool" where
  "hit_ok sources h = (severity_ok (rf_rule_id h) (rf_severity h) (rf_excused_by h)
     \<and> length (rf_snippet h) \<le> 300 \<and> hit_place sources h
     \<and> (rf_excused_by h \<noteq> [] \<longrightarrow> rf_rule_id h \<in> {''R1-1'', ''R1-3'', ''R1-4'', ''R2-1''}))"

lemma hit_ok_make_hit:
  "severity_ok i sev e \<Longrightarrow>
   path \<in> fst ` set sources \<or> path \<in> {''<capability-set>'', ''<rule-of-two>'', ''<provenance-check>''} \<Longrightarrow>
   e = [] \<or> i \<in> {''R1-1'', ''R1-3'', ''R1-4'', ''R2-1''} \<Longrightarrow> hit_ok sources (make_hit i sev path s r e)"
  by (auto simp: hit_ok_def hit_place_def)

definition hits_ok :: "sources \<Rightarrow> rule_finding list \<Rightarrow> bool" where
  "hits_ok sources hs = (\<forall>h\<in>set hs. hit_ok sources h)"

lemma hits_ok_simps [simp]:
  "hits_ok sources []"
  "hits_ok sources (h # hs) \<longleftrightarrow> hit_ok sources h \<and> hits_ok sources hs"
  "hits_ok sources (hs @ hs') \<longleftrightarrow> hits_ok sources hs \<and> hits_ok sources hs'"
  "hits_ok sources (concat hss) \<longleftrightarrow> (\<forall>hs\<in>set hss. hits_ok sources hs)"
  by (auto simp: hits_ok_def)

lemma hits_ok_first [intro]: "(\<And>g. hit_ok sources (f g)) \<Longrightarrow> hits_ok sources (first_hit pats src f)"
  by (simp add: first_hit_def split: option.split)

lemma hit_ok_in_file:
  "path \<in> fst ` set sources \<Longrightarrow> severity_ok i sev e \<Longrightarrow>
   e = [] \<or> i \<in> {''R1-1'', ''R1-3'', ''R1-4'', ''R2-1''} \<Longrightarrow> hit_ok sources (make_hit i sev path s r e)"
  by (rule hit_ok_make_hit) simp_all

lemma hits_ok_map: "(\<And>x. hits_ok sources (f x)) \<Longrightarrow> hits_ok sources (concat (map f xs))"
  by simp

lemma R1_file_ok: "path \<in> fst ` set sources \<Longrightarrow> hits_ok sources (R1_file dp note path src)"
  unfolding R1_file_def Let_def hits_ok_simps
  by (intro conjI hits_ok_first hit_ok_in_file) auto

lemma R2_file_ok: "path \<in> fst ` set sources \<Longrightarrow> hits_ok sources (R2_file path src)"
  unfolding R2_file_def Let_def hits_ok_simps
  by (intro conjI hits_ok_first hit_ok_in_file) simp_all

lemma R4_1_ok: "path \<in> fst ` set sources \<Longrightarrow> hits_ok sources (r4_1_check src path)"
  unfolding r4_1_check_def Let_def
  by (rule hits_ok_map) (simp add: hit_ok_in_file)

lemma R4_5_ok: "path \<in> fst ` set sources \<Longrightarrow> hits_ok sources (r4_5_check src path)"
  unfolding r4_5_check_def Let_def
  by (rule hits_ok_map) (simp add: hit_ok_in_file split: option.split)

lemma R4_file_ok: "path \<in> fst ` set sources \<Longrightarrow> hits_ok sources (R4_file path src)"
  unfolding R4_file_def hits_ok_simps
  by (intro conjI R4_1_ok R4_5_ok hits_ok_first hit_ok_in_file) simp_all

lemma R2_trifecta_ok: "hits_ok sources (R2_trifecta detected hitl isolation verified)"
  unfolding R2_trifecta_def Let_def
  by (auto simp: is_violation_def has_lethal_trifecta_def Let_def intro!: hit_ok_make_hit)

lemma R3_ok: "hits_ok sources (R3_check declared detected present)"
  unfolding R3_check_def Let_def by (auto intro!: hit_ok_make_hit)

lemma rot_ok:
  "R3_rule_of_two_consistency detected satisfies present = Inr rot \<Longrightarrow> hits_ok sources rot"
  unfolding R3_rule_of_two_consistency_def Let_def
  by (auto simp: bindE_Inr_iff split: if_splits intro!: hit_ok_make_hit)

lemma of_files_ok:
  "(\<And>path src. path \<in> fst ` set sources \<Longrightarrow> hits_ok sources (f path src)) \<Longrightarrow>
   hits_ok sources (concat (map (\<lambda>(path, src). f path src) sources))"
  by (force simp: hits_ok_def)

lemma R1_ok: "R1_check other sources applied = Inr r1 \<Longrightarrow> hits_ok sources r1"
  by (auto simp only: R1_check_Inr intro!: of_files_ok R1_file_ok)

lemma R2_ok: "hits_ok sources (R2_check sources detected hitl isolation lang)"
  unfolding R2_check_def hits_ok_simps(3) by (intro conjI R2_trifecta_ok of_files_ok R2_file_ok)

lemma R4_ok: "hits_ok sources (R4_check sources detected)"
  unfolding R4_check_def hits_ok_simps(3)
  by (intro conjI of_files_ok R4_file_ok) (simp_all add: hit_ok_make_hit)

lemma run_all_rules_ok: "run_all_rules other sources inp = Inr hits \<Longrightarrow> hits_ok sources hits"
  by (elim run_all_rules_Inr [THEN iffD1, elim_format] exE conjE)
    (simp only: hits_ok_simps(3) R1_ok R2_ok R3_ok rot_ok R4_ok simp_thms)

text \<open>C17: A hit of the rules has the severity that \<^verbatim>\<open>RULES.md\<close> documents for its rule, except that R1-1, R1-4 and
  R2-1 are only SUSPICIOUS when something excuses them, and that R4-5 is HIGH_RISK where MALICIOUS is documented,
  an undeclared medium capability SUSPICIOUS where the summary says HIGH_RISK, and a dangerous capability without a
  manifest SUSPICIOUS where MALICIOUS is documented. A hit has a snippet of at most 300 characters and lies in a
  file of the sources or one of the three pseudo files; only R1-1, R1-3, R1-4 and R2-1 can carry an excuse, and a
  MALICIOUS hit carries none.\<close>
theorem rule_hits_well_formed:
  assumes "run_all_rules other sources inp = Inr hits" and "h \<in> set hits"
  shows "(if rf_rule_id h \<in> {''R4-5'', ''R3-medium'', ''R3-dangerous-no-manifest''}
      then (rf_rule_id h, rf_severity h) \<in> {(''R4-5'', RsHIGH_RISK), (''R3-medium'', RsSUSPICIOUS),
             (''R3-dangerous-no-manifest'', RsSUSPICIOUS)}
      else (rf_rule_id h, rf_severity h) \<in> documented_severity
        \<or> rf_rule_id h \<in> {''R1-1'', ''R1-4'', ''R2-1''} \<and> rf_severity h = RsSUSPICIOUS \<and> rf_excused_by h \<noteq> [])
    \<and> length (rf_snippet h) \<le> 300
    \<and> (rf_file_path h \<in> fst ` set sources
       \<or> rf_file_path h \<in> {''<capability-set>'', ''<rule-of-two>'', ''<provenance-check>''})
    \<and> (rf_excused_by h \<noteq> [] \<longrightarrow> rf_rule_id h \<in> {''R1-1'', ''R1-3'', ''R1-4'', ''R2-1''})
    \<and> (rf_severity h = RsMALICIOUS \<longrightarrow> rf_excused_by h = [])"
proof -
  have ok: "hit_ok sources h" using run_all_rules_ok [OF assms(1)] assms(2) by (simp add: hits_ok_def)
  have "rf_excused_by h = []" if "rf_severity h = RsMALICIOUS"
    using ok that by (auto simp: hit_ok_def severity_ok_def documented_severity_def)
  with ok show ?thesis unfolding hit_ok_def hit_place_def severity_ok_def by blast
qed

theorem rule_hits_well_formed_witness:
  "\<exists>h. h \<in> set quiet_hits \<and> rf_severity h = RsMALICIOUS
     \<and> (rf_rule_id h, RsMALICIOUS) \<in> documented_severity \<and> rf_excused_by h = []"
proof -
  have "has_malicious quiet_hits" by code_simp
  then obtain h where "h \<in> set quiet_hits" "rf_severity h = RsMALICIOUS"
    by (auto simp: has_malicious_def list_ex_iff)
  with rule_hits_well_formed [OF quiet_run this(1)] show ?thesis by (auto split: if_splits)
qed

subsubsection \<open>What declarations can and cannot change\<close>

lemma malicious_simps [simp]:
  "hits_of_severity [] v = []"
  "hits_of_severity (h # hs) v = (if rf_severity h = v then h # hits_of_severity hs v else hits_of_severity hs v)"
  "hits_of_severity (hs @ hs') v = hits_of_severity hs v @ hits_of_severity hs' v"
  by (simp_all add: hits_of_severity_def)

lemma none_of_severity: "(\<And>h. h \<in> set hs \<Longrightarrow> rf_severity h \<noteq> v) \<Longrightarrow> hits_of_severity hs v = []"
  by (auto simp: hits_of_severity_def filter_empty_conv)

lemma has_malicious_iff: "has_malicious hits \<longleftrightarrow> hits_of_severity hits RsMALICIOUS \<noteq> []"
  by (auto simp: has_malicious_def list_ex_iff hits_of_severity_def filter_empty_conv)

lemma R1_not_malicious: "R1_check other sources applied = Inr r1 \<Longrightarrow> hits_of_severity r1 RsMALICIOUS = []"
  by (rule none_of_severity)
    (auto simp: R1_check_Inr R1_file_def Let_def split: if_splits dest!: in_first_hitD)

lemma trifecta_not_malicious: "hits_of_severity (R2_trifecta detected hitl isolation verified) RsMALICIOUS = []"
  by (simp add: R2_trifecta_def Let_def)

lemma rot_not_malicious:
  "R3_rule_of_two_consistency detected satisfies present = Inr rot \<Longrightarrow> hits_of_severity rot RsMALICIOUS = []"
  by (auto simp: R3_rule_of_two_consistency_def Let_def bindE_Inr_iff split: if_splits)

text \<open>C18: What the rules call MALICIOUS depends on the sources, the capabilities found and declared and
  the presence of a manifest only: no declared design pattern, Rule of Two, session isolation, human
  in the loop or language hides a MALICIOUS hit or adds one.
\<close>
theorem malicious_hits_undeniable:
  assumes "run_all_rules other sources inp = Inr hits"
    and "run_all_rules other' sources inp' = Inr hits'"
    and "ru_declared inp' = ru_declared inp" "ru_detected inp' = ru_detected inp"
    and "ru_manifest_present inp' = ru_manifest_present inp"
  shows "hits_of_severity hits' RsMALICIOUS = hits_of_severity hits RsMALICIOUS
    \<and> (has_malicious hits' \<longleftrightarrow> has_malicious hits)"
proof -
  let ?own = "hits_of_severity (concat (map (\<lambda>(path, src). R2_file path src) sources)
      @ R3_check (ru_declared inp) (ru_detected inp) (ru_manifest_present inp)
      @ R4_check sources (ru_detected inp)) RsMALICIOUS"
  have "hits_of_severity hits RsMALICIOUS = ?own" "hits_of_severity hits' RsMALICIOUS = ?own"
    using assms by (auto simp: run_all_rules_Inr R1_not_malicious rot_not_malicious R2_check_def
        trifecta_not_malicious)
  then show ?thesis by (simp add: has_malicious_iff)
qed

theorem malicious_hits_undeniable_witness:
  "\<exists>hits. run_all_rules no_show [] (quiet_input\<lparr>ru_has_hitl := True, ru_applied := None\<rparr>) = Inr hits
     \<and> hits_of_severity hits RsMALICIOUS = hits_of_severity quiet_hits RsMALICIOUS
     \<and> has_malicious hits"
proof -
  have "run_all_rules no_show [] (quiet_input\<lparr>ru_has_hitl := True, ru_applied := None\<rparr>)
      = Inr (R2_trifecta [''shell'', ''filesystem-read''] True True False
          @ R3_check [] [''shell'', ''filesystem-read''] True)"
    by code_simp
  moreover have "has_malicious quiet_hits" by code_simp
  ultimately show ?thesis
    using malicious_hits_undeniable [OF quiet_run, of no_show
        "quiet_input\<lparr>ru_has_hitl := True, ru_applied := None\<rparr>"]
    by simp
qed

definition forget_notes :: "rule_finding \<Rightarrow> rule_finding" where
  "forget_notes h = h\<lparr>rf_excused_by := []\<rparr>"

lemma forget_make_hit [simp]: "forget_notes (make_hit i v p s r e) = make_hit i v p s r []"
  by (simp add: forget_notes_def make_hit_def)

lemma excuse_none [simp]: "excuse names [] label = []"
  by (auto simp: excuse_def list_ex_iff)

lemma forget_first: "map forget_notes (first_hit pats src f) = first_hit pats src (\<lambda>g. forget_notes (f g))"
  by (simp add: first_hit_def split: option.split)

lemma R1_file_unexcused: "map forget_notes (R1_file [] msg path src) = map forget_notes (R1_file [] [] path src)"
  by (simp only: R1_file_def Let_def forget_first map_append forget_make_hit excuse_none append_Nil
      simp_thms if_False)

lemma R1_files_unexcused:
  "map forget_notes (concat (map (\<lambda>(path, src). R1_file [] msg path src) sources))
     = map forget_notes (concat (map (\<lambda>(path, src). R1_file [] [] path src) sources))"
  by (induction sources) (simp_all add: split_def R1_file_unexcused [of msg])

lemma R1_unverified:
  assumes "R1_check other sources applied = Inr r1"
    and "verify_design_patterns applied sources = Inr ([], un)"
  obtains r0 where "R1_check other sources None = Inr r0" "map forget_notes r1 = map forget_notes r0"
proof (rule that)
  show "R1_check other sources None = Inr (concat (map (\<lambda>(path, src). R1_file [] [] path src) sources))"
    by (simp add: R1_check_def verify_design_patterns_def unverified_note_def)
  show "map forget_notes r1
      = map forget_notes (concat (map (\<lambda>(path, src). R1_file [] [] path src) sources))"
    using assms by (auto simp only: R1_check_Inr sum.inject prod.inject intro: R1_files_unexcused)
qed

lemma trifecta_unverified:
  "map forget_notes (R2_trifecta detected hitl isolation False)
     = map forget_notes (R2_trifecta detected hitl False False)"
  by (simp add: R2_trifecta_def Let_def has_lethal_trifecta_def is_violation_def
      session_isolation_effective_def)

text \<open>A design pattern that no file bears out and a session isolation that is not verified change
  nothing in the rules but the notes of the hits: the same rules fire with the same severities, files,
  snippets and reasons as without these declarations.
\<close>
theorem unverified_declarations_only_noted:
  assumes "run_all_rules other sources inp = Inr hits"
    and "verify_design_patterns (ru_applied inp) sources = Inr ([], un)"
    and "ru_session_isolation inp \<longrightarrow> \<not> verify_session_isolation sources (ru_language inp)"
  shows "\<exists>hits0. run_all_rules other sources (inp\<lparr>ru_applied := None, ru_session_isolation := False\<rparr>)
      = Inr hits0 \<and> map forget_notes hits = map forget_notes hits0"
proof -
  obtain r1 rot where r1: "R1_check other sources (ru_applied inp) = Inr r1"
    and rot: "R3_rule_of_two_consistency (ru_detected inp) (or_else (ru_satisfies inp) [])
        (ru_manifest_present inp) = Inr rot"
    and hits: "hits = r1 @ R2_check sources (ru_detected inp) (ru_has_hitl inp)
              (ru_session_isolation inp) (ru_language inp)
            @ R3_check (ru_declared inp) (ru_detected inp) (ru_manifest_present inp)
            @ rot @ R4_check sources (ru_detected inp)"
    using assms(1) by (auto simp: run_all_rules_Inr)
  obtain r0 where r0: "R1_check other sources None = Inr r0" "map forget_notes r1 = map forget_notes r0"
    using R1_unverified [OF r1 assms(2)] .
  have "map forget_notes (R2_check sources (ru_detected inp) (ru_has_hitl inp)
          (ru_session_isolation inp) (ru_language inp))
      = map forget_notes (R2_check sources (ru_detected inp) (ru_has_hitl inp) False (ru_language inp))"
    using assms(3) trifecta_unverified [of "ru_detected inp" "ru_has_hitl inp" True]
    by (cases "ru_session_isolation inp") (simp_all add: R2_check_def)
  with r0 rot show ?thesis by (simp add: run_all_rules_Inr hits)
qed

theorem unverified_declarations_only_noted_witness:
  "\<exists>hits0. run_all_rules no_show [] (quiet_input\<lparr>ru_applied := None, ru_session_isolation := False\<rparr>)
      = Inr hits0 \<and> map forget_notes quiet_hits = map forget_notes hits0"
  using unverified_declarations_only_noted [OF quiet_run quiet_verify] quiet_isolation by blast

lemma or_else_Some_Nil: "or_else (Some xs) [] = xs"
  by (cases xs) simp_all

lemma all_strs_map [simp]: "all_strs (map PStr names) = Some names"
  by (induction names) simp_all

lemma forget_sel [simp]:
  "rf_rule_id (forget_notes h) = rf_rule_id h" "rf_severity (forget_notes h) = rf_severity h"
  by (simp_all add: forget_notes_def)

lemma forget_counts:
  assumes "map forget_notes hs = map forget_notes hs'"
  shows "map rf_rule_id hs = map rf_rule_id hs'" "map rf_severity hs = map rf_severity hs'"
  using arg_cong [OF assms, of "map rf_rule_id"] arg_cong [OF assms, of "map rf_severity"]
  by (simp_all add: comp_def)

lemma no_severity_map: "hits_of_severity hs v = [] \<longleftrightarrow> v \<notin> set (map rf_severity hs)"
  by (auto simp: hits_of_severity_def filter_empty_conv)

lemma judge_forgets:
  assumes same: "map forget_notes hs = map forget_notes hs0"
    and "fst (judge_rules m [] hs0) = HIGH_RISK" "hits_of_severity hs0 RsHIGH_RISK = []" "names \<noteq> []"
  shows "fst (judge_rules m (map PStr names) hs) = SUSPICIOUS"
proof -
  have "\<not> has_malicious hs0" "hs0 \<noteq> []"
    using assms by (auto simp: judge_rules_def has_malicious_iff Let_def split: if_splits)
  moreover have "hs \<noteq> []" using same \<open>hs0 \<noteq> []\<close> by auto
  ultimately show ?thesis using assms(3,4) forget_counts [OF same]
    by (simp add: judge_rules_def has_malicious_iff no_severity_map Let_def)
qed

text \<open>
  An unverified design pattern does lower the verdict: when only the number of R1 hits made it
  HIGH_RISK, declaring any name that no file bears out makes the same sources SUSPICIOUS.
\<close>
lemma bogus_pattern_lowers_verdict:
  assumes "run_all_rules other sources inp = Inr hits0" and "ru_applied inp = Some []"
    and "fst (judge_rules m [] hits0) = HIGH_RISK" and "hits_of_severity hits0 RsHIGH_RISK = []"
    and "names \<noteq> []"
    and "\<forall>n\<in>set names. \<not> signed_pattern (py_join [CHR 0x0A] (map snd sources)) (PStr n)"
  shows "\<exists>hits. run_all_rules other sources (inp\<lparr>ru_applied := Some (map PStr names)\<rparr>) = Inr hits
    \<and> fst (judge_rules m (map PStr names) hits) = SUSPICIOUS"
proof -
  obtain r1 rest where r1: "R1_check other sources (Some []) = Inr r1" and hits0: "hits0 = r1 @ rest"
    and all: "\<And>ps r. R1_check other sources (Some ps) = Inr r \<Longrightarrow>
        run_all_rules other sources (inp\<lparr>ru_applied := Some ps\<rparr>) = Inr (r @ rest)"
    using assms(1,2) by (force simp: run_all_rules_Inr)
  have none: "filter (signed_pattern (py_join [CHR 0x0A] (map snd sources))) (map PStr names) = []"
    "filter (\<lambda>p. \<not> signed_pattern (py_join [CHR 0x0A] (map snd sources)) p) (map PStr names) = map PStr names"
    using assms(6) by (auto simp: filter_empty_conv filter_id_conv)
  obtain msg where msg: "unverified_note other (map PStr names) = Inr msg"
    using assms(5) by (simp only: unverified_note_def shown_sorted_def all_strs_map option.case
        bindE_simps map_is_Nil_conv if_False)
  define r where "r = concat (map (\<lambda>(path, src). R1_file [] msg path src) sources)"
  have "verify_design_patterns (Some (map PStr names)) sources = Inr ([], map PStr names)"
    by (simp only: verify_design_patterns_def or_else_Some_Nil Let_def none) (simp add: list_all_iff)
  then have r: "R1_check other sources (Some (map PStr names)) = Inr r"
    using msg by (simp add: R1_check_def r_def)
  have "r1 = concat (map (\<lambda>(path, src). R1_file [] [] path src) sources)"
    using r1 by (simp add: R1_check_def verify_design_patterns_def unverified_note_def)
  then have "map forget_notes (r @ rest) = map forget_notes hits0"
    by (simp add: hits0 r_def R1_files_unexcused [of msg] del: map_concat)
  then have "fst (judge_rules m (map PStr names) (r @ rest)) = SUSPICIOUS"
    using assms(3-5) by (rule judge_forgets)
  then show ?thesis using all [OF r] by blast
qed

end
