(* ===== verification/ApiAuth.thy ===== *)
theory ApiAuth
  imports Py_Prelude
begin

text \<open>
  Signed requests: the webhook sink (\<^verbatim>\<open>realtime/sinks/webhook_sink.py\<close>) signs what it sends, the
  servers' endpoints check what they get (\<^verbatim>\<open>api/auth.py\<close>), with a cache of seen nonces against
  replays. HMAC-SHA256, the serializer and the network are parameters; a clock reading is a number of
  seconds. The cache, an \<^verbatim>\<open>OrderedDict\<close>, is a list of its entries from the oldest to the newest.
\<close>

type_synonym mac = "string \<Rightarrow> string \<Rightarrow> string"

subsection \<open>Signing and verifying\<close>

definition hmac_sign :: "mac \<Rightarrow> string \<Rightarrow> int \<Rightarrow> string \<Rightarrow> string" where
  "hmac_sign mac secret timestamp_ms body = mac secret (show_int timestamp_ms @ ''.'' @ body)"

definition epoch_ms :: "rat \<Rightarrow> int" where
  "epoch_ms now = \<lfloor>now * 1000\<rfloor>"

definition ascii :: "string \<Rightarrow> bool" where
  "ascii s = list_all (\<lambda>c. (of_char c :: nat) < 128) s"

text \<open>\<^verbatim>\<open>hmac.compare_digest\<close> raises on strings with other characters than ASCII.\<close>

definition compare_digest :: "string \<Rightarrow> string \<Rightarrow> pyexn + bool" where
  "compare_digest a b = (if ascii a \<and> ascii b then Inr (a = b)
     else Inl (TypeError ''comparing strings with non-ASCII characters is not supported''))"

definition hmac_verify :: "mac \<Rightarrow> rat \<Rightarrow> string \<Rightarrow> int \<Rightarrow> string \<Rightarrow> string \<Rightarrow> int \<Rightarrow> pyexn + bool" where
  "hmac_verify mac now secret timestamp_ms body header max_age_s =
     (if header = [] then Inr False
      else if \<not> startswith header ''sha256='' then Inr False
      else bindE (compare_digest (hmac_sign mac secret timestamp_ms body) (drop 7 header)) (\<lambda>same.
        Inr (same \<and> \<bar>epoch_ms now - timestamp_ms\<bar> \<le> max_age_s * 1000)))"

subsection \<open>The webhook sink\<close>

record webhook_sink =
  wh_url :: string
  wh_secret :: string
  wh_timeout :: int
  wh_event_name :: string

record http_request =
  hr_url :: string
  hr_body :: string
  hr_headers :: "(string \<times> string) list"
  hr_timeout :: int

datatype http_answer = HttpStatus int | HttpFailure int string | NetFailure string

definition emit_request :: "mac \<Rightarrow> rat \<Rightarrow> webhook_sink \<Rightarrow> string \<Rightarrow> http_request" where
  "emit_request mac now sink body =
     (let ts = epoch_ms now in
      \<lparr>hr_url = wh_url sink, hr_body = body,
       hr_headers =
         [(''Content-Type'', ''application/json''), (''User-Agent'', ''ai-slopsq/2.0''),
          (''X-PkgSentinel-Event'', wh_event_name sink), (''X-PkgSentinel-Timestamp'', show_int ts),
          (''X-PkgSentinel-Signature'', ''sha256='' @ hmac_sign mac (wh_secret sink) ts body),
          (''X-PkgSentinel-Tool'', ''pkgsentinel/2.0'')],
       hr_timeout = wh_timeout sink\<rparr>)"

definition webhook_emit ::
  "mac \<Rightarrow> (string \<Rightarrow> string) \<Rightarrow> (pyval \<Rightarrow> string) \<Rightarrow> (http_request \<Rightarrow> http_answer) \<Rightarrow> rat \<Rightarrow> webhook_sink
    \<Rightarrow> pyval \<Rightarrow> pyval" where
  "webhook_emit mac sha256 dumps http now sink payload =
     (let body = dumps payload in
      case http (emit_request mac now sink body) of
        HttpStatus status \<Rightarrow> PDict [(''ok'', PBool True), (''status'', PInt status),
          (''body_sha256'', PStr (take 16 (sha256 body)))]
      | HttpFailure code e \<Rightarrow> PDict [(''ok'', PBool False), (''status'', PInt code), (''error'', PStr e)]
      | NetFailure e \<Rightarrow> PDict [(''ok'', PBool False), (''error'', PStr e)])"

subsection \<open>The nonce cache\<close>

type_synonym nonce = "int \<times> string"
type_synonym nonce_cache = "(nonce \<times> rat) list"

definition NONCE_MAX :: nat where
  "NONCE_MAX = 8192"

definition NONCE_TTL_S :: rat where
  "NONCE_TTL_S = 360"

definition drop_expired :: "rat \<Rightarrow> nonce_cache \<Rightarrow> nonce_cache" where
  "drop_expired now cache = dropWhile (\<lambda>e. now - snd e > NONCE_TTL_S) cache"

definition make_room :: "nonce_cache \<Rightarrow> nonce_cache" where
  "make_room cache = drop (length cache + 1 - NONCE_MAX) cache"

definition nonce_seen :: "nonce \<Rightarrow> rat \<Rightarrow> nonce_cache \<Rightarrow> bool \<times> nonce_cache" where
  "nonce_seen key now cache =
     (let cache = make_room (drop_expired now cache) in
      case map_of cache key of
        Some t \<Rightarrow> (True, filter (\<lambda>e. fst e \<noteq> key) cache @ [(key, t)])
      | None \<Rightarrow> (False, cache @ [(key, now)]))"

subsection \<open>The check of an endpoint\<close>

record signed_request =
  sr_signature :: "string option"
  sr_timestamp :: "int option"
  sr_body :: "string option"

type_synonym answer = "pyval \<times> int"

definition deny :: "string \<Rightarrow> int \<Rightarrow> answer" where
  "deny why code = (PDict [(''error'', PStr why)], code)"

definition signature_hex :: "string \<Rightarrow> string" where
  "signature_hex header = (if CHR ''='' \<in> set header
     then drop 1 (dropWhile (\<lambda>c. c \<noteq> CHR ''='') header) else header)"

text \<open>The answer is \<open>None\<close> for an accepted request; the two clocks are those of the two checks.\<close>

definition check_hmac ::
  "mac \<Rightarrow> string option \<Rightarrow> bool \<Rightarrow> rat \<Rightarrow> rat \<Rightarrow> signed_request \<Rightarrow> nonce_cache
    \<Rightarrow> pyexn + (answer option \<times> nonce_cache)" where
  "check_hmac mac shared_secret enforce_nonce now now' req cache =
     (case shared_secret of
        None \<Rightarrow> Inr (None, cache)
      | Some secret \<Rightarrow>
          (case (sr_signature req, sr_timestamp req, sr_body req) of
             (Some header, Some ts, Some body) \<Rightarrow>
               bindE (hmac_verify mac now secret ts body header 300) (\<lambda>valid.
               if \<not> valid then Inr (Some (deny ''invalid signature or replay window expired'' 401), cache)
               else if enforce_nonce
               then (case nonce_seen (ts, signature_hex header) now' cache of
                   (seen, cache') \<Rightarrow>
                     Inr (if seen then Some (deny ''replay detected (nonce already seen)'' 401) else None,
                          cache'))
               else Inr (None, cache))
           | _ \<Rightarrow> Inr (Some (deny ''signature/timestamp/body required for HMAC'' 400), cache)))"

subsection \<open>What is signed\<close>

lemma digits_no: "list_all is_digit s \<Longrightarrow> \<not> is_digit c \<Longrightarrow> c \<notin> set s"
  by (auto simp: list_all_iff)

lemma show_nat_inj: "show_nat m = show_nat n \<Longrightarrow> m = n"
  using digits_value_show_nat by metis

lemma show_nat_same: "show_nat m = show_nat n \<longleftrightarrow> m = n"
  using show_nat_inj by blast

lemma show_nat_not_minus: "show_nat n \<noteq> CHR ''-'' # s" "CHR ''-'' # s \<noteq> show_nat n"
  using show_nat_digits [of n] by (auto simp: is_digit_def dest: sym)

lemma show_int_inj: "show_int i = show_int j \<Longrightarrow> i = j"
  by (cases "i < 0"; cases "j < 0") (simp_all add: show_int_def show_nat_not_minus show_nat_same)

lemma show_int_no_dot: "CHR ''.'' \<notin> set (show_int i)"
  using digits_no [OF show_nat_digits, of "CHR ''.''"] by (auto simp: show_int_def is_digit_def)

lemma split_at_first: "x \<notin> set xs \<Longrightarrow> x \<notin> set xs' \<Longrightarrow> xs @ x # ys = xs' @ x # ys' \<Longrightarrow> xs = xs' \<and> ys = ys'"
proof (induction xs arbitrary: xs')
  case Nil
  then show ?case by (cases xs') auto
next
  case (Cons a xs)
  then show ?case by (cases xs') auto
qed

lemma signed_text_inj:
  "show_int ts @ ''.'' @ body = show_int ts' @ ''.'' @ body' \<longleftrightarrow> ts = ts' \<and> body = body'"
proof
  assume "show_int ts @ ''.'' @ body = show_int ts' @ ''.'' @ body'"
  then have "show_int ts = show_int ts' \<and> body = body'"
    by (intro split_at_first [OF show_int_no_dot show_int_no_dot]) simp
  then show "ts = ts' \<and> body = body'" using show_int_inj by blast
qed simp

lemma verify_True_iff:
  "hmac_verify mac now secret ts body header age = Inr True \<longleftrightarrow>
     header = ''sha256='' @ hmac_sign mac secret ts body \<and> ascii (hmac_sign mac secret ts body)
     \<and> \<bar>epoch_ms now - ts\<bar> \<le> age * 1000"
  by (auto simp: hmac_verify_def compare_digest_def bindE_Inr_iff prefix_def)

lemma check_accepts_iff:
  "check_hmac mac (Some secret) True now now' req cache = Inr (None, cache') \<longleftrightarrow>
     (\<exists>header ts body. req = \<lparr>sr_signature = Some header, sr_timestamp = Some ts, sr_body = Some body\<rparr>
        \<and> hmac_verify mac now secret ts body header 300 = Inr True
        \<and> nonce_seen (ts, signature_hex header) now' cache = (False, cache'))"
  by (cases req) (auto simp: check_hmac_def bindE_Inr_iff split: option.splits if_splits prod.splits)

text \<open>An endpoint with a secret accepts only a request whose signature is the MAC of its timestamp
  and body under this secret and whose timestamp is at most five minutes from the server's clock.
  Two accepted requests with the same signature have the same timestamp and the same body, or the MAC
  gives the same value on two different texts.
\<close>
theorem accepted_requests_signed:
  assumes "check_hmac mac (Some secret) True now now' req cache = Inr (None, cache')"
    and "check_hmac mac (Some secret) True later later' req' other = Inr (None, other')"
    and "sr_signature req' = sr_signature req"
  shows "\<exists>ts body. req = \<lparr>sr_signature = Some (''sha256='' @ mac secret (show_int ts @ ''.'' @ body)),
        sr_timestamp = Some ts, sr_body = Some body\<rparr>
      \<and> \<bar>epoch_ms now - ts\<bar> \<le> 300000
      \<and> (req' = req \<or> (\<exists>m m'. m \<noteq> m' \<and> mac secret m = mac secret m'))"
proof -
  obtain ts body where req: "req = \<lparr>sr_signature = Some (''sha256='' @ hmac_sign mac secret ts body),
      sr_timestamp = Some ts, sr_body = Some body\<rparr>" "\<bar>epoch_ms now - ts\<bar> \<le> 300000"
    using assms(1) by (auto simp: check_accepts_iff verify_True_iff)
  obtain ts' body' where req': "req' = \<lparr>sr_signature = Some (''sha256='' @ hmac_sign mac secret ts' body'),
      sr_timestamp = Some ts', sr_body = Some body'\<rparr>"
    using assms(2) by (auto simp: check_accepts_iff verify_True_iff)
  have "req' = req \<or> show_int ts @ ''.'' @ body \<noteq> show_int ts' @ ''.'' @ body'"
    using req(1) req' unfolding signed_text_inj by auto
  moreover have "mac secret (show_int ts @ ''.'' @ body) = mac secret (show_int ts' @ ''.'' @ body')"
    using req(1) req' assms(3) by (simp add: hmac_sign_def)
  ultimately have "req' = req \<or> (\<exists>m m'. m \<noteq> m' \<and> mac secret m = mac secret m')" by blast
  then show ?thesis using req unfolding hmac_sign_def by blast
qed

text \<open>What the webhook sink sends is accepted by a receiver with the same secret whose clock, when
  the request arrives, is less than five minutes from the sender's.
\<close>
theorem webhook_accepted:
  assumes "\<And>key msg. ascii (mac key msg)" and "\<bar>now' - now\<bar> < 299"
  shows "hmac_verify mac now' (wh_secret sink) (epoch_ms now) (hr_body (emit_request mac now sink body))
      (the (map_of (hr_headers (emit_request mac now sink body)) ''X-PkgSentinel-Signature'')) 300 = Inr True
    \<and> map_of (hr_headers (emit_request mac now sink body)) ''X-PkgSentinel-Timestamp''
        = Some (show_int (epoch_ms now))"
proof -
  have "\<bar>epoch_ms now' - epoch_ms now\<bar> \<le> 300000"
    using assms(2) unfolding epoch_ms_def by linarith
  then show ?thesis
    using assms(1) by (simp add: verify_True_iff emit_request_def Let_def hmac_sign_def)
qed

theorem webhook_accepted_witness:
  "hmac_verify (\<lambda>key msg. ''ab'') 1000 ''s'' (epoch_ms 990)
      (hr_body (emit_request (\<lambda>key msg. ''ab'') 990 \<lparr>wh_url = ''u'', wh_secret = ''s'', wh_timeout = 10,
        wh_event_name = ''e''\<rparr> ''{}'')) ''sha256=ab'' 300 = Inr True"
proof -
  let ?sink = "\<lparr>wh_url = ''u'', wh_secret = ''s'', wh_timeout = 10, wh_event_name = ''e''\<rparr>"
  have "\<And>key msg :: string. ascii ''ab''" "\<bar>1000 - 990 :: rat\<bar> < 299" by (simp_all add: ascii_def)
  from webhook_accepted [of "\<lambda>key msg. ''ab''", OF this, of ?sink "''{}''"]
  show ?thesis by (simp add: emit_request_def Let_def hmac_sign_def)
qed

subsection \<open>Replays\<close>

text \<open>
  A recorded nonce stays in the cache as long as it is not older than its time to live and fewer than
  \<^verbatim>\<open>_NONCE_MAX - 1\<close> requests came after it: \<open>holds\<close> says so of a cache with at most \<open>n\<close> entries
  behind the nonce's.
\<close>

definition holds :: "nonce \<Rightarrow> rat \<Rightarrow> nat \<Rightarrow> nonce_cache \<Rightarrow> bool" where
  "holds k t n cache \<longleftrightarrow> (\<exists>pre post. cache = pre @ (k, t) # post \<and> length post \<le> n \<and> k \<notin> fst ` set pre)"

lemma holds_drop_expired: "holds k t n cache \<Longrightarrow> u - t \<le> NONCE_TTL_S \<Longrightarrow> holds k t n (drop_expired u cache)"
  unfolding holds_def drop_expired_def
proof (elim exE conjE)
  fix pre post assume c: "cache = pre @ (k, t) # post" "length post \<le> n" "k \<notin> fst ` set pre"
    and u: "u - t \<le> NONCE_TTL_S"
  have "dropWhile (\<lambda>e. NONCE_TTL_S < u - snd e) cache
      = dropWhile (\<lambda>e. NONCE_TTL_S < u - snd e) pre @ (k, t) # post"
    using u by (simp add: c(1) dropWhile_append3 not_less)
  moreover have "k \<notin> fst ` set (dropWhile (\<lambda>e. NONCE_TTL_S < u - snd e) pre)"
    using c(3) by (auto dest: set_dropWhileD)
  ultimately show "\<exists>pre post. dropWhile (\<lambda>e. NONCE_TTL_S < u - snd e) cache = pre @ (k, t) # post
      \<and> length post \<le> n \<and> k \<notin> fst ` set pre"
    using c(2) by blast
qed

lemma holds_make_room: "holds k t n cache \<Longrightarrow> n + 1 < NONCE_MAX \<Longrightarrow> holds k t n (make_room cache)"
  unfolding holds_def make_room_def
proof (elim exE conjE)
  fix pre post assume c: "cache = pre @ (k, t) # post" "length post \<le> n" "k \<notin> fst ` set pre"
    and n: "n + 1 < NONCE_MAX"
  let ?m = "length cache + 1 - NONCE_MAX"
  have "?m \<le> length pre" using c(1,2) n by simp
  then have "drop ?m cache = drop ?m pre @ (k, t) # post" by (simp add: c(1))
  moreover have "k \<notin> fst ` set (drop ?m pre)" using c(3) by (auto dest: in_set_dropD)
  ultimately show "\<exists>pre post. drop ?m cache = pre @ (k, t) # post \<and> length post \<le> n \<and> k \<notin> fst ` set pre"
    using c(2) by blast
qed

lemma holds_lookup: "holds k t n cache \<Longrightarrow> map_of cache k = Some t"
  by (auto simp: holds_def map_add_Some_iff map_of_eq_None_iff)

lemma holds_step:
  assumes "holds k t n cache" and "u - t \<le> NONCE_TTL_S" and "n + 1 < NONCE_MAX"
  shows "holds k t (n + 1) (snd (nonce_seen key u cache))"
proof -
  define c where "c = make_room (drop_expired u cache)"
  have h: "holds k t n c" unfolding c_def using assms by (intro holds_make_room holds_drop_expired)
  then obtain pre post where c: "c = pre @ (k, t) # post" "length post \<le> n" "k \<notin> fst ` set pre"
    by (auto simp: holds_def)
  show ?thesis
  proof (cases "map_of c key")
    case None
    then have "snd (nonce_seen key u cache) = c @ [(key, u)]"
      by (simp add: nonce_seen_def c_def [symmetric] Let_def)
    then have "snd (nonce_seen key u cache) = pre @ (k, t) # (post @ [(key, u)])" by (simp add: c(1))
    then show ?thesis using c(2,3) unfolding holds_def by fastforce
  next
    case (Some t')
    then have s: "snd (nonce_seen key u cache) = filter (\<lambda>e. fst e \<noteq> key) c @ [(key, t')]"
      by (simp add: nonce_seen_def c_def [symmetric] Let_def)
    show ?thesis
    proof (cases "key = k")
      case True
      then have "t' = t" using holds_lookup [OF h] Some by simp
      then have "snd (nonce_seen key u cache) = filter (\<lambda>e. fst e \<noteq> key) c @ (k, t) # []"
        using s True by simp
      moreover have "k \<notin> fst ` set (filter (\<lambda>e. fst e \<noteq> key) c)" by (auto simp: True)
      ultimately show ?thesis unfolding holds_def
        by (intro exI [of _ "filter (\<lambda>e. fst e \<noteq> key) c"] exI [of _ "[]"]) simp
    next
      case False
      then have "snd (nonce_seen key u cache)
          = filter (\<lambda>e. fst e \<noteq> key) pre @ (k, t) # (filter (\<lambda>e. fst e \<noteq> key) post @ [(key, t')])"
        by (simp add: s c(1))
      moreover have "length (filter (\<lambda>e. fst e \<noteq> key) post @ [(key, t')]) \<le> n + 1"
        using c(2) by (simp add: le_trans [OF length_filter_le])
      moreover have "k \<notin> fst ` set (filter (\<lambda>e. fst e \<noteq> key) pre)" using c(3) by auto
      ultimately show ?thesis unfolding holds_def by blast
    qed
  qed
qed

text \<open>The cache after a sequence of requests: an exception leaves it as it was.\<close>

fun serve :: "mac \<Rightarrow> string option \<Rightarrow> (rat \<times> rat \<times> signed_request) list \<Rightarrow> nonce_cache \<Rightarrow> nonce_cache" where
  "serve mac secret [] cache = cache"
| "serve mac secret ((now, now', req) # reqs) cache = serve mac secret reqs
     (case check_hmac mac secret True now now' req cache of Inl e \<Rightarrow> cache | Inr (_, cache') \<Rightarrow> cache')"

lemma holds_weaken: "holds k t n cache \<Longrightarrow> n \<le> m \<Longrightarrow> holds k t m cache"
  by (fastforce simp: holds_def)

lemma holds_check:
  assumes "holds k t n cache" and "u' - t \<le> NONCE_TTL_S" and "n + 1 < NONCE_MAX"
  shows "holds k t (n + 1)
    (case check_hmac mac secret True u u' req cache of Inl e \<Rightarrow> cache | Inr (_, cache') \<Rightarrow> cache')"
proof -
  have "holds k t (n + 1) cache" using assms(1) by (rule holds_weaken) simp
  moreover have "holds k t (n + 1) (snd (nonce_seen key u' cache))" for key
    using assms by (rule holds_step)
  ultimately show ?thesis
    by (auto simp: check_hmac_def bindE_def split: option.splits sum.splits prod.splits)
      (metis snd_conv)+
qed

lemma holds_serve:
  "holds k t n cache \<Longrightarrow> \<forall>(u, u', req)\<in>set reqs. u' - t \<le> NONCE_TTL_S \<Longrightarrow> n + length reqs < NONCE_MAX
   \<Longrightarrow> holds k t (n + length reqs) (serve mac secret reqs cache)"
proof (induction mac secret reqs cache arbitrary: n rule: serve.induct)
  case (2 mac secret now now' req reqs cache)
  have "holds k t (n + 1) (case check_hmac mac secret True now now' req cache of
      Inl e \<Rightarrow> cache | Inr (_, cache') \<Rightarrow> cache')"
    using 2(2-4) by (intro holds_check) auto
  from 2(1) [OF this] 2(3,4) show ?case by simp
qed simp

text \<open>C12: An accepted request is not accepted again during the six minutes after it was recorded, while
  at most 8190 further requests are served.
\<close>
theorem replay_rejected:
  assumes "check_hmac mac (Some secret) True now t req cache = Inr (None, cache')"
    and "\<forall>(u, u', r)\<in>set reqs. u' \<le> t + 360" and "length reqs \<le> 8190" and "again' \<le> t + 360"
  shows "check_hmac mac (Some secret) True again again' req (serve mac (Some secret) reqs cache')
    \<noteq> Inr (None, cache'')"
proof
  let ?served = "serve mac (Some secret) reqs cache'"
  assume "check_hmac mac (Some secret) True again again' req ?served = Inr (None, cache'')"
  then obtain header ts body where req: "req = \<lparr>sr_signature = Some header, sr_timestamp = Some ts,
      sr_body = Some body\<rparr>" and new: "nonce_seen (ts, signature_hex header) again' ?served = (False, cache'')"
    by (auto simp: check_accepts_iff)
  let ?k = "(ts, signature_hex header)"
  have first: "nonce_seen ?k t cache = (False, cache')"
    using assms(1) by (simp add: check_accepts_iff req)
  then have "holds ?k t 0 cache'"
    by (auto simp: nonce_seen_def Let_def holds_def map_of_eq_None_iff split: option.splits)
  then have "holds ?k t (0 + length reqs) ?served"
    using assms(2,3) by (intro holds_serve) (auto simp: NONCE_TTL_S_def NONCE_MAX_def)
  then have "holds ?k t (length reqs) (make_room (drop_expired again' ?served))"
    using assms(3,4) by (intro holds_make_room holds_drop_expired) (simp_all add: NONCE_TTL_S_def NONCE_MAX_def)
  then show False using new by (simp add: nonce_seen_def Let_def holds_lookup)
qed

text \<open>The time to live is shorter than the time a signature can stay valid: a request stamped five
  minutes ahead of the server's clock is accepted when it arrives and again, unchanged, from six
  minutes later until ten minutes later.
\<close>
theorem replay_accepted_after_ttl:
  assumes "ascii (hmac_sign mac secret (epoch_ms t + 300000) body)" and "t + 360 < v" and "v \<le> t + 600"
  shows "\<exists>cache1 cache2. let req = \<lparr>sr_signature = Some (''sha256='' @
          hmac_sign mac secret (epoch_ms t + 300000) body),
        sr_timestamp = Some (epoch_ms t + 300000), sr_body = Some body\<rparr> in
      check_hmac mac (Some secret) True t t req [] = Inr (None, cache1)
      \<and> check_hmac mac (Some secret) True v v req cache1 = Inr (None, cache2)"
proof -
  have "\<bar>epoch_ms v - (epoch_ms t + 300000)\<bar> \<le> 300000"
    using assms(2,3) unfolding epoch_ms_def by linarith
  then show ?thesis
    using assms by (simp add: check_accepts_iff verify_True_iff Let_def nonce_seen_def make_room_def
        NONCE_MAX_def drop_expired_def NONCE_TTL_S_def)
qed

subsection \<open>Concrete requests\<close>

definition flat_mac :: mac where
  "flat_mac key msg = ''ab''"

definition sample_request :: signed_request where
  "sample_request = \<lparr>sr_signature = Some ''sha256=ab'', sr_timestamp = Some 1000000, sr_body = Some ''{}''\<rparr>"

lemma sample_accepted:
  "check_hmac flat_mac (Some ''s'') True 1000 1000 sample_request []
     = Inr (None, [((1000000, ''ab''), 1000)])"
  by (simp add: check_hmac_def sample_request_def hmac_verify_def compare_digest_def ascii_def
      hmac_sign_def flat_mac_def epoch_ms_def nonce_seen_def make_room_def drop_expired_def
      NONCE_MAX_def signature_hex_def)

theorem accepted_requests_signed_witness:
  "sample_request = \<lparr>sr_signature = Some (''sha256='' @ flat_mac ''s'' ''1000000.{}''),
     sr_timestamp = Some 1000000, sr_body = Some ''{}''\<rparr>"
  using accepted_requests_signed [OF sample_accepted sample_accepted refl]
  by (auto simp: sample_request_def flat_mac_def)

theorem replay_rejected_witness:
  "check_hmac flat_mac (Some ''s'') True 1300 1300 sample_request
     (serve flat_mac (Some ''s'') [(1200, 1200, sample_request)] [((1000000, ''ab''), 1000)])
     \<noteq> Inr (None, [])"
  by (rule replay_rejected [OF sample_accepted]) simp_all

theorem replay_accepted_after_ttl_witness:
  "\<exists>cache1 cache2. let req = \<lparr>sr_signature = Some (''sha256='' @
          hmac_sign flat_mac ''s'' (epoch_ms 1000 + 300000) ''{}''),
        sr_timestamp = Some (epoch_ms 1000 + 300000), sr_body = Some ''{}''\<rparr> in
      check_hmac flat_mac (Some ''s'') True 1000 1000 req [] = Inr (None, cache1)
      \<and> check_hmac flat_mac (Some ''s'') True 1500 1500 req cache1 = Inr (None, cache2)"
  by (rule replay_accepted_after_ttl) (simp_all add: hmac_sign_def flat_mac_def ascii_def)

end
