(* ===== verification/RuntimeStore.thy ===== *)
theory RuntimeStore
  imports KeyedTable
begin

text \<open>
  The store of the runtime feedback loop (\<^verbatim>\<open>db/runtime_intel.py\<close>): observations, learned indicators
  of compromise (IOCs) and rule drafts. A table is the list of its rows in \<^verbatim>\<open>id\<close> order. A column that
  holds JSON text is the value the text encodes; \<open>now\<close> is the clock's reading as ISO text. Rows that
  \<^verbatim>\<open>ORDER BY\<close> leaves tied keep their \<^verbatim>\<open>id\<close> order. A column value that comes from an alert is any
  JSON value: SQLite keeps text and turns a number into text, and refuses a list or a dictionary.
\<close>

subsection \<open>Rows\<close>

record observation =
  ob_id :: int
  ob_received_at :: "string option"
  ob_source :: string
  ob_host :: "string option"
  ob_package :: "string option"
  ob_ecosystem :: "string option"
  ob_version :: "string option"
  ob_raw_event :: pyval
  ob_extracted_iocs :: "pyval list"
  ob_extracted_pattern :: "pyval option"
  ob_verdict_before :: "string option"
  ob_verdict_after :: "string option"
  ob_mitigation :: "string option"

record runtime_observation =
  ro_received_at :: pyval
  ro_source :: string
  ro_raw_event :: pyval
  ro_host :: pyval
  ro_package :: pyval
  ro_ecosystem :: pyval
  ro_version :: pyval
  ro_extracted_iocs :: "pyval list"
  ro_extracted_pattern :: pyval
  ro_verdict_before :: pyval
  ro_verdict_after :: pyval
  ro_mitigation :: pyval

record learned_ioc =
  li_id :: int
  li_type :: string
  li_value :: string
  li_confidence :: rat
  li_count :: int
  li_first_seen :: string
  li_last_seen :: string
  li_packages :: "string list"
  li_observations :: "int list"
  li_status :: string
  li_notes :: "string option"

record learned_rule =
  lr_id :: int
  lr_kind :: string
  lr_body :: string
  lr_observations :: "int list"
  lr_confidence :: rat
  lr_status :: string
  lr_created_at :: string
  lr_approved_at :: "string option"
  lr_approved_by :: "string option"
  lr_rationale :: "string option"

record intel_store =
  is_observations :: "observation list"
  is_iocs :: "learned_ioc list"
  is_rules :: "learned_rule list"

definition empty_store :: intel_store where
  "empty_store = \<lparr>is_observations = [], is_iocs = [], is_rules = []\<rparr>"

text \<open>\<^verbatim>\<open>AUTOINCREMENT\<close>: no row is ever deleted from these tables.\<close>

definition next_id :: "('r \<Rightarrow> int) \<Rightarrow> 'r list \<Rightarrow> int" where
  "next_id idf rows = fold max (map idf rows) 0 + 1"

subsection \<open>Observations\<close>

fun bind_text :: "(rat \<Rightarrow> string) \<Rightarrow> pyval \<Rightarrow> pyexn + string option" where
  "bind_text show_float PNone = Inr None"
| "bind_text show_float (PStr s) = Inr (Some s)"
| "bind_text show_float (PBool b) = Inr (Some (if b then ''1'' else ''0''))"
| "bind_text show_float (PInt i) = (if - (2 ^ 63) \<le> i \<and> i < 2 ^ 63 then Inr (Some (show_int i))
     else Inl (OtherError ''OverflowError'' ''Python int too large to convert to SQLite INTEGER''))"
| "bind_text show_float (PFloat x) = Inr (Some (show_float x))"
| "bind_text show_float v = Inl (OtherError ''ProgrammingError'' ''type is not supported'')"

text \<open>A \<^verbatim>\<open>NOT NULL\<close> column: \<^verbatim>\<open>received_at or _now()\<close> is never null.\<close>

definition record_observation ::
  "(rat \<Rightarrow> string) \<Rightarrow> string \<Rightarrow> runtime_observation \<Rightarrow> intel_store \<Rightarrow> pyexn + (int \<times> intel_store)" where
  "record_observation show_float now obs s =
     bindE (bind_text show_float (if py_truth (ro_received_at obs) then ro_received_at obs else PStr now))
       (\<lambda>received_at.
     bindE (bind_text show_float (ro_host obs)) (\<lambda>host.
     bindE (bind_text show_float (ro_package obs)) (\<lambda>package.
     bindE (bind_text show_float (ro_ecosystem obs)) (\<lambda>ecosystem.
     bindE (bind_text show_float (ro_version obs)) (\<lambda>version.
     bindE (bind_text show_float (ro_verdict_before obs)) (\<lambda>before.
     bindE (bind_text show_float (ro_verdict_after obs)) (\<lambda>after.
     bindE (bind_text show_float (ro_mitigation obs)) (\<lambda>mitigation.
     let i = next_id ob_id (is_observations s) in
     Inr (i, s\<lparr>is_observations := is_observations s @
       [\<lparr>ob_id = i, ob_received_at = received_at, ob_source = ro_source obs, ob_host = host,
         ob_package = package, ob_ecosystem = ecosystem, ob_version = version,
         ob_raw_event = ro_raw_event obs, ob_extracted_iocs = ro_extracted_iocs obs,
         ob_extracted_pattern = (if py_truth (ro_extracted_pattern obs)
                                 then Some (ro_extracted_pattern obs) else None),
         ob_verdict_before = before, ob_verdict_after = after, ob_mitigation = mitigation\<rparr>]\<rparr>)))))))))"

definition update_verdict_after :: "int \<Rightarrow> string \<Rightarrow> intel_store \<Rightarrow> intel_store" where
  "update_verdict_after i verdict s = s\<lparr>is_observations :=
     map (\<lambda>o'. if ob_id o' = i then o'\<lparr>ob_verdict_after := Some verdict\<rparr> else o') (is_observations s)\<rparr>"

definition get_observation :: "int \<Rightarrow> intel_store \<Rightarrow> observation option" where
  "get_observation i s = fetch ob_id (is_observations s) i"

text \<open>\<^verbatim>\<open>LIMIT n\<close>: a negative number is no limit.\<close>

definition sql_limit :: "int \<Rightarrow> 'a list \<Rightarrow> 'a list" where
  "sql_limit n xs = (if n < 0 then xs else take (nat n) xs)"

definition descending :: "('a \<Rightarrow> 'b::linorder) \<Rightarrow> 'a list \<Rightarrow> 'a list" where
  "descending f xs = rev (sort_key f (rev xs))"

definition list_observations :: "string option \<Rightarrow> int \<Rightarrow> intel_store \<Rightarrow> observation list" where
  "list_observations package limit s =
     sql_limit limit (descending (\<lambda>o'. or_else (ob_received_at o') [])
       (filter (\<lambda>o'. truthy_opt package \<longrightarrow> ob_package o' = package) (is_observations s)))"

subsection \<open>Learned indicators\<close>

definition round4 :: "rat \<Rightarrow> rat" where
  "round4 x = (let y = x * 10000; n = \<lfloor>y\<rfloor>; d = y - of_int n in
     of_int (if d < 1/2 \<or> (d = 1/2 \<and> even n) then n else n + 1) / 10000)"

definition bump_confidence :: "rat \<Rightarrow> int \<Rightarrow> nat \<Rightarrow> rat" where
  "bump_confidence current observation_count package_count =
     (let b = current;
          b = (if observation_count \<ge> 3 then max b (3/4) else b);
          b = (if observation_count \<ge> 5 then max b (17/20) else b);
          b = (if package_count \<ge> 2 then max b (9/10) else b);
          b = (if package_count \<ge> 3 then max b (19/20) else b)
      in min 1 (round4 b))"

definition ioc_name :: "learned_ioc \<Rightarrow> string \<times> string" where
  "ioc_name r = (li_type r, li_value r)"

definition add_new :: "'a \<Rightarrow> 'a list \<Rightarrow> 'a list" where
  "add_new x xs = (if x \<in> set xs then xs else xs @ [x])"

definition add_opt :: "'a option \<Rightarrow> 'a list \<Rightarrow> 'a list" where
  "add_opt m xs = (case m of None \<Rightarrow> xs | Some x \<Rightarrow> add_new x xs)"

text \<open>The package is added when it is a non-empty string.\<close>

definition given :: "string option \<Rightarrow> string option" where
  "given m = (if truthy_opt m then m else None)"

definition seen_again :: "string \<Rightarrow> int option \<Rightarrow> string option \<Rightarrow> learned_ioc \<Rightarrow> learned_ioc" where
  "seen_again now obs pkg r =
     (let obs_ids = add_opt obs (li_observations r);
          count = li_count r + (if obs_ids = li_observations r then 0 else 1);
          packages = add_opt (given pkg) (li_packages r)
      in r\<lparr>li_confidence := bump_confidence (li_confidence r) count (length packages),
           li_count := count, li_last_seen := now, li_packages := packages,
           li_observations := obs_ids\<rparr>)"

definition first_time :: "string \<Rightarrow> int option \<Rightarrow> string option \<Rightarrow> int \<Rightarrow> learned_ioc \<Rightarrow> learned_ioc" where
  "first_time now obs pkg i r =
     r\<lparr>li_id := i, li_confidence := max (li_confidence r) (1/2),
       li_first_seen := (if li_first_seen r \<noteq> [] then li_first_seen r else now), li_last_seen := now,
       li_packages := add_opt (given pkg) (li_packages r),
       li_observations := add_opt obs (li_observations r)\<rparr>"

text \<open>The row written, whose id is the answer.\<close>

definition upsert_row :: "string \<Rightarrow> int option \<Rightarrow> string option \<Rightarrow> learned_ioc \<Rightarrow> intel_store \<Rightarrow> learned_ioc" where
  "upsert_row now obs pkg ioc s =
     (case fetch ioc_name (is_iocs s) (ioc_name ioc) of
        Some r \<Rightarrow> seen_again now obs pkg r
      | None \<Rightarrow> first_time now obs pkg (next_id li_id (is_iocs s)) ioc)"

definition upsert_ioc ::
  "string \<Rightarrow> int option \<Rightarrow> string option \<Rightarrow> learned_ioc \<Rightarrow> intel_store \<Rightarrow> int \<times> intel_store" where
  "upsert_ioc now obs pkg ioc s =
     (let r = upsert_row now obs pkg ioc s in
      (li_id r, s\<lparr>is_iocs := upsert ioc_name r (is_iocs s)\<rparr>))"

definition set_status :: "int \<Rightarrow> string \<Rightarrow> intel_store \<Rightarrow> intel_store" where
  "set_status i status s = s\<lparr>is_iocs :=
     map (\<lambda>r. if li_id r = i then r\<lparr>li_status := status\<rparr> else r) (is_iocs s)\<rparr>"

definition get_ioc :: "int \<Rightarrow> intel_store \<Rightarrow> learned_ioc option" where
  "get_ioc i s = fetch li_id (is_iocs s) i"

definition should_promote :: "learned_ioc \<Rightarrow> bool" where
  "should_promote r = (li_confidence r \<ge> 9/10 \<or> length (li_packages r) \<ge> 2)"

definition auto_promote :: "int \<Rightarrow> intel_store \<Rightarrow> bool \<times> intel_store" where
  "auto_promote i s =
     (case get_ioc i s of
        None \<Rightarrow> (False, s)
      | Some r \<Rightarrow> if li_status r = ''pending'' \<and> should_promote r
                  then (True, set_status i ''approved'' s) else (False, s))"

definition list_iocs :: "string option \<Rightarrow> string option \<Rightarrow> rat \<Rightarrow> int \<Rightarrow> intel_store \<Rightarrow> learned_ioc list" where
  "list_iocs status ioc_type min_confidence limit s =
     sql_limit limit (descending li_confidence (descending li_count
       (filter (\<lambda>r. li_confidence r \<ge> min_confidence
          \<and> (truthy_opt status \<longrightarrow> li_status r = the status)
          \<and> (truthy_opt ioc_type \<longrightarrow> li_type r = the ioc_type)) (is_iocs s))))"

text \<open>The manual approval of \<^verbatim>\<open>intel/cli.py\<close>.\<close>

definition approve_ioc :: "int \<Rightarrow> intel_store \<Rightarrow> int \<times> intel_store" where
  "approve_ioc i s = (case get_ioc i s of None \<Rightarrow> (1, s) | Some r \<Rightarrow> (0, set_status i ''approved'' s))"

subsection \<open>Rule drafts and counts\<close>

definition record_rule_draft :: "string \<Rightarrow> learned_rule \<Rightarrow> intel_store \<Rightarrow> int \<times> intel_store" where
  "record_rule_draft now rule s =
     (let i = next_id lr_id (is_rules s) in
      (i, s\<lparr>is_rules := is_rules s @
        [rule\<lparr>lr_id := i,
              lr_created_at := (if lr_created_at rule \<noteq> [] then lr_created_at rule else now),
              lr_approved_at := None, lr_approved_by := None\<rparr>]\<rparr>))"

definition approve_rule :: "string \<Rightarrow> int \<Rightarrow> string \<Rightarrow> intel_store \<Rightarrow> bool \<times> intel_store" where
  "approve_rule now i approver s =
     (let hit = (\<lambda>r. lr_id r = i \<and> lr_status r = ''draft'') in
      (list_ex hit (is_rules s), s\<lparr>is_rules := map (\<lambda>r. if hit r
         then r\<lparr>lr_status := ''approved'', lr_approved_at := Some now, lr_approved_by := Some approver\<rparr>
         else r) (is_rules s)\<rparr>))"

definition list_rules :: "string option \<Rightarrow> string option \<Rightarrow> int \<Rightarrow> intel_store \<Rightarrow> learned_rule list" where
  "list_rules status rule_kind limit s =
     sql_limit limit (descending lr_created_at
       (filter (\<lambda>r. (truthy_opt status \<longrightarrow> lr_status r = the status)
          \<and> (truthy_opt rule_kind \<longrightarrow> lr_kind r = the rule_kind)) (is_rules s)))"

definition intel_stats :: "intel_store \<Rightarrow> pyval" where
  "intel_stats s = PDict
     [(''observations'', PInt (int (length (is_observations s)))),
      (''iocs_total'', PInt (int (length (is_iocs s)))),
      (''iocs_by_status'', PDict (map (\<lambda>st. (st,
          PInt (int (length (filter (\<lambda>r. li_status r = st) (is_iocs s))))))
        (sorted_set (map li_status (is_iocs s))))),
      (''rule_drafts_pending_review'',
        PInt (int (length (filter (\<lambda>r. lr_status r = ''draft'') (is_rules s)))))]"

subsection \<open>The tables\<close>

interpretation ioc_table: keyed_table ioc_name "upsert ioc_name" "fetch ioc_name" "delete_where ioc_name"
  by unfold_locales
    (auto simp: fetch_upsert fetch_delete_where distinct_upsert distinct_delete_where intro: fetch_key)

lemma fold_max: "fold max xs (a::int) = Max (insert a (set xs))"
  using Max.set_eq_fold [of a xs] by simp

lemma next_id_new: "r \<in> set rows \<Longrightarrow> idf r < next_id idf rows"
  by (simp add: next_id_def fold_max zle_add1_eq_le Max_ge_iff)

lemma next_id_pos: "0 < next_id idf rows"
proof -
  have "0 \<le> fold max (map idf rows) 0" unfolding fold_max by (rule Max_ge) simp_all
  then show ?thesis by (simp add: next_id_def)
qed

lemma set_add_opt [simp]: "set (add_opt m xs) = set xs \<union> set_option m"
  by (auto simp: add_opt_def add_new_def split: option.splits)

lemma distinct_add_opt [simp]: "distinct (add_opt m xs) \<longleftrightarrow> distinct xs"
  by (auto simp: add_opt_def add_new_def split: option.splits)

lemma length_add_opt: "length xs \<le> length (add_opt m xs)" "length (add_opt m xs) \<le> length xs + 1"
  by (auto simp: add_opt_def add_new_def split: option.splits)

lemma add_opt_count: "length xs + (if add_opt m xs = xs then 0 else 1) = length (add_opt m xs)"
  by (auto simp: add_opt_def add_new_def split: option.splits)

subsection \<open>Confidence\<close>

definition decimal4 :: "rat \<Rightarrow> bool" where
  "decimal4 x = (of_int \<lfloor>x * 10000\<rfloor> = x * 10000)"

lemma round4_decimal4: "decimal4 x \<Longrightarrow> round4 x = x"
proof -
  assume "decimal4 x"
  then have e: "of_int \<lfloor>x * 10000\<rfloor> = x * 10000" by (simp only: decimal4_def)
  then have r: "x * 10000 - of_int \<lfloor>x * 10000\<rfloor> = 0" by (simp only: diff_self)
  have "round4 x = of_int \<lfloor>x * 10000\<rfloor> / 10000" unfolding round4_def Let_def r by simp
  then show "round4 x = x" unfolding e by simp
qed

lemma max_max: "a \<le> b \<Longrightarrow> max (max x a) b = max (x::rat) b"
  by (simp add: max.assoc max_def)

lemma decimal4_max: "decimal4 x \<Longrightarrow> decimal4 y \<Longrightarrow> decimal4 (max x y)"
  by (simp add: max_def)

lemma decimal4_consts: "decimal4 (1/2)" "decimal4 (3/4)" "decimal4 (17/20)" "decimal4 (9/10)"
    "decimal4 (19/20)" "decimal4 1"
  by (simp_all add: decimal4_def)

definition floor_of :: "int \<Rightarrow> nat \<Rightarrow> rat" where
  "floor_of count packages =
     (if packages \<ge> 3 then 19/20 else if packages \<ge> 2 then 9/10
      else if count \<ge> 5 then 17/20 else if count \<ge> 3 then 3/4 else 1/2)"

lemma bump_confidence_max:
  assumes "decimal4 x" and "1/2 \<le> x" and "x \<le> 1"
  shows "bump_confidence x count packages = max x (floor_of count packages)"
proof -
  define b1 where "b1 = (if count \<ge> 3 then max x (3/4) else x)"
  define b2 where "b2 = (if count \<ge> 5 then max b1 (17/20) else b1)"
  define b3 where "b3 = (if packages \<ge> 2 then max b2 (9/10) else b2)"
  define b4 where "b4 = (if packages \<ge> 3 then max b3 (19/20) else b3)"
  have "decimal4 b4"
    using assms(1) by (simp add: b4_def b3_def b2_def b1_def decimal4_max decimal4_consts)
  moreover have "b1 = max x (if count \<ge> 3 then 3/4 else 1/2)"
    using assms(2) by (simp add: b1_def)
  then have "b2 = max x (if count \<ge> 5 then 17/20 else if count \<ge> 3 then 3/4 else 1/2)"
    by (cases "count \<ge> 5"; cases "count \<ge> 3") (simp_all add: b2_def max_max)
  then have "b3 = max x (if packages \<ge> 2 then 9/10
      else if count \<ge> 5 then 17/20 else if count \<ge> 3 then 3/4 else 1/2)"
    by (cases "packages \<ge> 2"; cases "count \<ge> 5"; cases "count \<ge> 3") (simp_all add: b3_def max_max)
  then have b4: "b4 = max x (floor_of count packages)"
    by (cases "packages \<ge> 3"; cases "packages \<ge> 2"; cases "count \<ge> 5"; cases "count \<ge> 3")
      (simp_all add: b4_def floor_of_def max_max)
  moreover have "b4 \<le> 1" using assms(3) by (simp add: b4 floor_of_def)
  moreover have "bump_confidence x count packages = min 1 (round4 b4)"
    by (simp only: bump_confidence_def Let_def b4_def b3_def b2_def b1_def)
  ultimately show ?thesis by (metis round4_decimal4 min.absorb2)
qed

lemma decimal4_floor: "decimal4 (floor_of c n)"
  by (simp add: floor_of_def decimal4_consts)

lemma floor_of_bounds: "1/2 \<le> floor_of c n" "floor_of c n \<le> 1"
  by (simp_all add: floor_of_def)

lemma floor_of_mono: "c \<le> c' \<Longrightarrow> n \<le> n' \<Longrightarrow> floor_of c n \<le> floor_of c' n'"
  by (auto simp: floor_of_def)

subsection \<open>The store's states\<close>

text \<open>\<^verbatim>\<open>LearnedIOC(ioc_type=..., value=..., confidence=...)\<close>\<close>

definition new_ioc :: "string \<Rightarrow> string \<Rightarrow> rat \<Rightarrow> learned_ioc" where
  "new_ioc ioc_type v confidence =
     \<lparr>li_id = 0, li_type = ioc_type, li_value = v, li_confidence = confidence, li_count = 1,
      li_first_seen = [], li_last_seen = [], li_packages = [], li_observations = [],
      li_status = ''pending'', li_notes = None\<rparr>"

inductive store_step :: "intel_store \<Rightarrow> intel_store \<Rightarrow> bool" where
  observed: "record_observation show_float now obs s = Inr (i, s') \<Longrightarrow> store_step s s'"
| judged: "store_step s (update_verdict_after i verdict s)"
| learned: "decimal4 c \<Longrightarrow> c \<le> 1 \<Longrightarrow> upsert_ioc now (Some obs) pkg (new_ioc t v c) s = (i, s')
    \<Longrightarrow> store_step s s'"
| promoted: "auto_promote i s = (b, s') \<Longrightarrow> store_step s s'"
| approved: "approve_ioc i s = (rc, s') \<Longrightarrow> store_step s s'"
| drafted: "record_rule_draft now rule s = (i, s') \<Longrightarrow> lr_status rule = ''draft'' \<Longrightarrow> store_step s s'"
| rule_approved: "approve_rule now i approver s = (b, s') \<Longrightarrow> store_step s s'"

inductive_cases store_stepE: "store_step s s'"

definition ioc_inv :: "learned_ioc \<Rightarrow> bool" where
  "ioc_inv r \<longleftrightarrow> 0 < li_id r \<and> decimal4 (li_confidence r)
     \<and> floor_of (li_count r) (length (li_packages r)) \<le> li_confidence r \<and> li_confidence r \<le> 1
     \<and> li_count r = int (length (li_observations r)) \<and> 0 < li_count r
     \<and> distinct (li_observations r) \<and> distinct (li_packages r)
     \<and> (li_status r = ''pending'' \<or> li_status r = ''approved'')"

definition rule_inv :: "learned_rule \<Rightarrow> bool" where
  "rule_inv r \<longleftrightarrow> 0 < lr_id r \<and> (lr_status r = ''draft'' \<and> lr_approved_by r = None
     \<or> lr_status r = ''approved'' \<and> lr_approved_by r \<noteq> None)"

definition store_inv :: "intel_store \<Rightarrow> bool" where
  "store_inv s \<longleftrightarrow> distinct (map ob_id (is_observations s))
     \<and> distinct (map ioc_name (is_iocs s)) \<and> distinct (map li_id (is_iocs s))
     \<and> distinct (map lr_id (is_rules s))
     \<and> (\<forall>r\<in>set (is_iocs s). ioc_inv r) \<and> (\<forall>r\<in>set (is_rules s). rule_inv r)"

lemma floor_le_half: "floor_of c n \<le> x \<Longrightarrow> 1/2 \<le> x"
  using floor_of_bounds(1) [of c n] by linarith

lemma seen_again_inv:
  assumes "ioc_inv r"
  shows "ioc_inv (seen_again now obs pkg r) \<and> li_confidence r \<le> li_confidence (seen_again now obs pkg r)"
proof -
  let ?obs = "add_opt obs (li_observations r)" and ?pk = "add_opt (given pkg) (li_packages r)"
  have "1/2 \<le> li_confidence r" using assms floor_le_half unfolding ioc_inv_def by blast
  then have conf: "bump_confidence (li_confidence r) c n = max (li_confidence r) (floor_of c n)" for c n
    using assms by (intro bump_confidence_max) (simp_all add: ioc_inv_def)
  have count: "li_count r + (if ?obs = li_observations r then 0 else 1) = int (length ?obs)"
    using assms add_opt_count [of "li_observations r" obs] by (auto simp: ioc_inv_def)
  have "li_observations r \<noteq> []" using assms by (auto simp: ioc_inv_def)
  then have "?obs \<noteq> []" using length_add_opt(1) [of "li_observations r" obs] by auto
  then show ?thesis
    using assms unfolding ioc_inv_def seen_again_def Let_def count
    by (simp add: conf decimal4_max decimal4_floor floor_of_bounds)
qed

lemma first_time_inv:
  "decimal4 c \<Longrightarrow> c \<le> 1 \<Longrightarrow> 0 < i \<Longrightarrow> ioc_inv (first_time now (Some obs) pkg i (new_ioc t v c))"
  by (auto simp: first_time_def ioc_inv_def new_ioc_def floor_of_def decimal4_max decimal4_consts
      add_opt_def add_new_def split: option.splits)

lemma seen_again_key [simp]:
  "ioc_name (seen_again now obs pkg r) = ioc_name r" "li_id (seen_again now obs pkg r) = li_id r"
  "li_status (seen_again now obs pkg r) = li_status r"
  by (simp_all add: seen_again_def ioc_name_def Let_def)

lemma first_time_key [simp]:
  "ioc_name (first_time now obs pkg i r) = ioc_name r" "li_id (first_time now obs pkg i r) = i"
  by (simp_all add: first_time_def ioc_name_def)

lemma in_upsert:
  assumes "x \<in> set (upsert key r rows)"
  shows "x = r \<or> (x \<in> set rows \<and> key x \<noteq> key r)"
proof (cases "key r \<in> key ` set rows")
  case True
  then show ?thesis using assms by (auto simp: upsert_def key_present split: if_splits)
next
  case False
  then have "\<And>y. y \<in> set rows \<Longrightarrow> key y \<noteq> key r" by (metis imageI)
  then show ?thesis using assms False by (auto simp: upsert_def key_present)
qed

lemma upsert_ids:
  assumes "distinct (map li_id rows)" and "distinct (map ioc_name rows)"
    and "case fetch ioc_name rows (ioc_name r) of Some x \<Rightarrow> li_id r = li_id x
         | None \<Rightarrow> li_id r = next_id li_id rows"
  shows "distinct (map li_id (upsert ioc_name r rows))"
proof (cases "fetch ioc_name rows (ioc_name r)")
  case None
  then have "upsert ioc_name r rows = rows @ [r]"
    by (simp add: upsert_def key_present fetch_None_iff)
  moreover have "li_id r \<notin> li_id ` set rows" using assms(3) None next_id_new [of _ rows li_id] by force
  ultimately show ?thesis using assms(1) by simp
next
  case (Some x)
  then have x: "x \<in> set rows" "ioc_name x = ioc_name r" "li_id r = li_id x"
    using assms(3) by (auto dest: fetch_in fetch_key)
  then have uniq: "\<And>y. y \<in> set rows \<Longrightarrow> ioc_name y = ioc_name r \<Longrightarrow> y = x"
    using assms(2) by (simp add: distinct_map inj_on_def)
  have same: "\<And>y. y \<in> set rows \<Longrightarrow> li_id (if ioc_name y = ioc_name r then r else y) = li_id y"
    by (metis uniq x(3))
  have "ioc_name r \<in> ioc_name ` set rows" using x by (metis image_eqI)
  then have "map li_id (upsert ioc_name r rows) = map li_id rows"
    using same by (simp add: upsert_def key_present)
  then show ?thesis using assms(1) by simp
qed

lemma learned_inv:
  assumes "store_inv s" and "decimal4 c" and "c \<le> 1"
  shows "store_inv (snd (upsert_ioc now (Some obs) pkg (new_ioc t v c) s))"
proof -
  let ?r = "upsert_row now (Some obs) pkg (new_ioc t v c) s"
  have name: "ioc_name ?r = ioc_name (new_ioc t v c)"
    by (auto simp: upsert_row_def split: option.split dest: fetch_key)
  have "ioc_inv ?r"
    using assms by (auto simp: upsert_row_def store_inv_def split: option.split
        intro!: first_time_inv next_id_pos dest: fetch_in seen_again_inv)
  moreover have "distinct (map li_id (upsert ioc_name ?r (is_iocs s)))"
  proof (rule upsert_ids)
    show "case fetch ioc_name (is_iocs s) (ioc_name ?r) of Some x \<Rightarrow> li_id ?r = li_id x
        | None \<Rightarrow> li_id ?r = next_id li_id (is_iocs s)"
      unfolding name by (simp add: upsert_row_def split: option.split)
  qed (use assms(1) in \<open>simp_all add: store_inv_def\<close>)
  ultimately show ?thesis
    using assms(1) by (auto simp: upsert_ioc_def Let_def store_inv_def distinct_upsert dest!: in_upsert)
qed

lemma map_set_status:
  "(\<And>r. f (r\<lparr>li_status := st\<rparr>) = f r) \<Longrightarrow> map f (is_iocs (set_status i st s)) = map f (is_iocs s)"
  by (simp add: set_status_def)

lemma set_status_others [simp]:
  "is_observations (set_status i st s) = is_observations s" "is_rules (set_status i st s) = is_rules s"
  by (simp_all add: set_status_def)

lemma set_status_inv: "store_inv s \<Longrightarrow> store_inv (set_status i ''approved'' s)"
  unfolding store_inv_def
  by (simp add: map_set_status [of ioc_name] map_set_status [of li_id] ioc_name_def)
    (auto simp: set_status_def ioc_inv_def)

lemma update_verdict_inv: "store_inv s \<Longrightarrow> store_inv (update_verdict_after i v s)"
  by (simp add: store_inv_def update_verdict_after_def comp_def if_distrib cong: if_cong)

lemma observed_inv:
  assumes "record_observation show_float now obs s = Inr (i, s')" and "store_inv s"
  shows "store_inv s'"
proof -
  have "next_id ob_id (is_observations s) \<notin> ob_id ` set (is_observations s)"
    using next_id_new [of _ "is_observations s" ob_id] by force
  then show ?thesis
    using assms by (auto simp: record_observation_def bindE_Inr_iff Let_def store_inv_def)
qed

lemma drafted_inv:
  assumes "store_inv s" and "lr_status rule = ''draft''"
  shows "store_inv (snd (record_rule_draft now rule s))"
proof -
  have "next_id lr_id (is_rules s) \<notin> lr_id ` set (is_rules s)"
    using next_id_new [of _ "is_rules s" lr_id] by force
  then show ?thesis
    using assms by (auto simp: record_rule_draft_def Let_def store_inv_def rule_inv_def next_id_pos)
qed

lemma approve_rule_inv:
  assumes "store_inv s"
  shows "store_inv (snd (approve_rule now i approver s))"
proof -
  let ?s = "snd (approve_rule now i approver s)"
  have "map lr_id (is_rules ?s) = map lr_id (is_rules s)" by (simp add: approve_rule_def Let_def)
  then have "distinct (map lr_id (is_rules ?s))" using assms by (simp only: store_inv_def)
  moreover have "\<forall>r\<in>set (is_rules ?s). rule_inv r"
    using assms by (auto simp: approve_rule_def Let_def store_inv_def rule_inv_def)
  moreover have "is_observations ?s = is_observations s" "is_iocs ?s = is_iocs s"
    by (simp_all add: approve_rule_def Let_def)
  ultimately show ?thesis using assms unfolding store_inv_def by simp
qed

lemma store_step_inv: "store_step s s' \<Longrightarrow> store_inv s \<Longrightarrow> store_inv s'"
proof (induction rule: store_step.induct)
  case (learned c now obs pkg t v s i s')
  then show ?case using learned_inv [of s c now obs pkg t v] by simp
next
  case (promoted i s b s')
  then show ?case by (auto simp: auto_promote_def set_status_inv split: option.splits if_splits)
next
  case (approved i s rc s')
  then show ?case by (auto simp: approve_ioc_def set_status_inv split: option.splits)
next
  case (drafted now rule s i s')
  then show ?case using drafted_inv [of s rule now] by simp
next
  case (rule_approved now i approver s b s')
  then show ?case using approve_rule_inv [of s now i approver] by simp
qed (simp_all add: update_verdict_inv observed_inv)

lemma empty_store_inv: "store_inv empty_store"
  by (simp add: store_inv_def empty_store_def)

lemma reachable_inv: "store_step\<^sup>*\<^sup>* empty_store s \<Longrightarrow> store_inv s"
  by (induction rule: rtranclp_induct) (auto intro: empty_store_inv store_step_inv)

text \<open>C10: Every reachable store is well formed: names and ids are unique, an IOC's count is the number of
  its observations, its confidence is at least what its count and packages call for and at most one,
  nothing but the two reviewed statuses occurs, and an approved rule names its approver.
\<close>
theorem reachable_store_inv:
  assumes "store_step\<^sup>*\<^sup>* empty_store s"
  shows "store_inv s"
  using assms by (rule reachable_inv)

text \<open>What later steps keep of an IOC.\<close>

definition grown :: "learned_ioc \<Rightarrow> learned_ioc \<Rightarrow> bool" where
  "grown r r' \<longleftrightarrow> li_id r' = li_id r \<and> ioc_name r' = ioc_name r
     \<and> li_confidence r \<le> li_confidence r' \<and> li_count r \<le> li_count r'
     \<and> set (li_packages r) \<subseteq> set (li_packages r') \<and> set (li_observations r) \<subseteq> set (li_observations r')
     \<and> li_first_seen r' = li_first_seen r \<and> (li_status r = ''approved'' \<longrightarrow> li_status r' = ''approved'')"

lemma grown_refl [simp]: "grown r r"
  by (simp add: grown_def)

lemma grown_trans: "grown a b \<Longrightarrow> grown b c \<Longrightarrow> grown a c"
  by (auto simp: grown_def)

lemma grown_approved [simp]: "grown r (r\<lparr>li_status := ''approved''\<rparr>)"
  by (simp add: grown_def ioc_name_def)

lemma grown_seen_again: "ioc_inv r \<Longrightarrow> grown r (seen_again now obs pkg r)"
  using seen_again_inv [of r now obs pkg]
  by (auto simp: grown_def) (auto simp: seen_again_def Let_def)

definition all_grown :: "intel_store \<Rightarrow> intel_store \<Rightarrow> bool" where
  "all_grown s s' \<longleftrightarrow> (\<forall>r\<in>set (is_iocs s). \<exists>r'\<in>set (is_iocs s'). grown r r')"

lemma all_grown_same: "is_iocs s' = is_iocs s \<Longrightarrow> all_grown s s'"
  by (force simp: all_grown_def)

lemma all_grown_status: "all_grown s (set_status i ''approved'' s)"
  unfolding all_grown_def
proof
  fix r assume "r \<in> set (is_iocs s)"
  then show "\<exists>r'\<in>set (is_iocs (set_status i ''approved'' s)). grown r r'"
    by (intro bexI [of _ "if li_id r = i then r\<lparr>li_status := ''approved''\<rparr> else r"])
      (auto simp: set_status_def)
qed

lemma upserted_in: "fetch key rows (key r) = Some x \<Longrightarrow> y \<in> set rows \<Longrightarrow>
    (if key y = key r then r else y) \<in> set (upsert key r rows)"
  by (auto simp: upsert_def key_present fetch_None_iff dest: fetch_in fetch_key)

lemma all_grown_upsert:
  assumes "store_inv s"
  shows "all_grown s (snd (upsert_ioc now obs pkg ioc s))"
  unfolding all_grown_def
proof
  fix r assume r: "r \<in> set (is_iocs s)"
  let ?r = "upsert_row now obs pkg ioc s" and ?rows = "is_iocs s"
  have rows: "is_iocs (snd (upsert_ioc now obs pkg ioc s)) = upsert ioc_name ?r ?rows"
    by (simp add: upsert_ioc_def Let_def)
  show "\<exists>r'\<in>set (is_iocs (snd (upsert_ioc now obs pkg ioc s))). grown r r'"
  proof (cases "fetch ioc_name ?rows (ioc_name ioc)")
    case None
    then have "ioc_name ?r = ioc_name ioc" by (simp add: upsert_row_def)
    then have "upsert ioc_name ?r ?rows = ?rows @ [?r]"
      using None by (simp add: upsert_def key_present fetch_None_iff)
    then show ?thesis using r grown_refl unfolding rows by fastforce
  next
    case (Some x)
    then have u: "?r = seen_again now obs pkg x" and x: "x \<in> set ?rows" "ioc_name x = ioc_name ioc"
      by (auto simp: upsert_row_def dest: fetch_in fetch_key)
    then have "(if ioc_name r = ioc_name ?r then ?r else r) \<in> set (upsert ioc_name ?r ?rows)"
      using upserted_in [of ioc_name ?rows ?r x r] Some r by simp
    moreover have "ioc_name r = ioc_name ?r \<Longrightarrow> r = x"
      using assms r x u by (auto simp: store_inv_def distinct_map inj_on_def)
    moreover have "grown x ?r" unfolding u using assms x by (intro grown_seen_again) (simp add: store_inv_def)
    ultimately show ?thesis unfolding rows by (metis grown_refl)
  qed
qed

lemma store_step_grows: "store_step s s' \<Longrightarrow> store_inv s \<Longrightarrow> all_grown s s'"
proof (induction rule: store_step.induct)
  case (observed show_float now obs s i s')
  then have "is_iocs s' = is_iocs s" by (auto simp: record_observation_def bindE_Inr_iff Let_def)
  then show ?case by (rule all_grown_same)
next
  case (learned c now obs pkg t v s i s')
  then show ?case using all_grown_upsert [of s now "Some obs" pkg "new_ioc t v c"] by simp
next
  case (promoted i s b s')
  then show ?case
    by (auto simp: auto_promote_def all_grown_status all_grown_same split: option.splits if_splits)
next
  case (approved i s rc s')
  then show ?case by (auto simp: approve_ioc_def all_grown_status all_grown_same split: option.splits)
next
  case (drafted now rule s i s')
  then show ?case by (intro all_grown_same) (auto simp: record_rule_draft_def Let_def)
next
  case (rule_approved now i approver s b s')
  then show ?case by (intro all_grown_same) (auto simp: approve_rule_def Let_def)
qed (simp add: all_grown_same update_verdict_after_def)

lemma steps_grow:
  assumes "store_step\<^sup>*\<^sup>* s s'" and "store_inv s"
  shows "store_inv s' \<and> all_grown s s'"
  using assms
proof (induction rule: rtranclp_induct)
  case base
  then show ?case by (simp add: all_grown_same)
next
  case (step b c)
  then have "store_inv c" "all_grown s b" "all_grown b c" by (auto intro: store_step_inv store_step_grows)
  then show ?case unfolding all_grown_def by (meson grown_trans)
qed

text \<open>C11: What the store knows only grows: after any further steps an IOC is still there under its id and
  name, with at least its confidence, its count, its packages and its observations, and approved if
  it was.
\<close>
theorem evidence_only_grows:
  assumes "store_step\<^sup>*\<^sup>* empty_store s" and "store_step\<^sup>*\<^sup>* s s'" and "r \<in> set (is_iocs s)"
  shows "\<exists>r'\<in>set (is_iocs s'). grown r r'"
  using steps_grow [OF assms(2) reachable_inv [OF assms(1)]] assms(3) unfolding all_grown_def by blast

definition sample_store :: "string \<Rightarrow> int \<Rightarrow> string \<Rightarrow> intel_store \<Rightarrow> intel_store" where
  "sample_store now obs pkg s = snd (upsert_ioc now (Some obs) (Some pkg) (new_ioc ''ip'' ''8.8.8.8:53'' (7/10)) s)"

lemma sample_step: "store_step s (sample_store now obs pkg s)"
  unfolding sample_store_def
  by (rule learned [OF _ _ prod.collapse [symmetric]]) (simp_all add: decimal4_def)

theorem reachable_store_inv_witness: "store_inv (sample_store ''t'' 1 ''a@1'' empty_store)"
  by (rule reachable_store_inv) (blast intro: sample_step)

theorem evidence_only_grows_witness:
  "\<exists>r'\<in>set (is_iocs (sample_store ''u'' 2 ''b@1'' (sample_store ''t'' 1 ''a@1'' empty_store))).
     grown ((new_ioc ''ip'' ''8.8.8.8:53'' (7/10))\<lparr>li_id := 1, li_first_seen := ''t'', li_last_seen := ''t'',
       li_packages := [''a@1''], li_observations := [1]\<rparr>) r'"
proof (rule evidence_only_grows [of "sample_store ''t'' 1 ''a@1'' empty_store"])
  show "store_step\<^sup>*\<^sup>* empty_store (sample_store ''t'' 1 ''a@1'' empty_store)"
    by (blast intro: sample_step)
  show "store_step\<^sup>*\<^sup>* (sample_store ''t'' 1 ''a@1'' empty_store)
      (sample_store ''u'' 2 ''b@1'' (sample_store ''t'' 1 ''a@1'' empty_store))"
    by (blast intro: sample_step)
  show "(new_ioc ''ip'' ''8.8.8.8:53'' (7/10))\<lparr>li_id := 1, li_first_seen := ''t'', li_last_seen := ''t'',
      li_packages := [''a@1''], li_observations := [1]\<rparr> \<in> set (is_iocs (sample_store ''t'' 1 ''a@1'' empty_store))"
    by code_simp
qed

subsection \<open>Promotion\<close>

lemma auto_promote_iff:
  "fst (auto_promote i s) \<longleftrightarrow> (\<exists>r. get_ioc i s = Some r \<and> li_status r = ''pending'' \<and> should_promote r)"
  by (auto simp: auto_promote_def split: option.splits)

lemma row_written: "fetch ioc_name (is_iocs (snd (upsert_ioc now obs pkg ioc s))) (ioc_name ioc)
    = Some (upsert_row now obs pkg ioc s)"
  by (auto simp: upsert_ioc_def Let_def fetch_upsert upsert_row_def split: option.splits dest: fetch_key)

lemma get_unique: "store_inv s \<Longrightarrow> r \<in> set (is_iocs s) \<Longrightarrow> get_ioc (li_id r) s = Some r"
proof -
  assume s: "store_inv s" "r \<in> set (is_iocs s)"
  then obtain x where x: "get_ioc (li_id r) s = Some x"
    by (cases "get_ioc (li_id r) s") (auto simp: get_ioc_def fetch_None_iff)
  then have "x \<in> set (is_iocs s)" "li_id x = li_id r" by (auto simp: get_ioc_def dest: fetch_in fetch_key)
  then have "x = r" using s by (auto simp: store_inv_def distinct_map dest: inj_onD)
  with x show ?thesis by simp
qed

text \<open>After an upsert and the promotion that follows it, an IOC of two packages is approved.\<close>

definition learn :: "string \<Rightarrow> int \<Rightarrow> string option \<Rightarrow> learned_ioc \<Rightarrow> intel_store \<Rightarrow> intel_store" where
  "learn now obs pkg ioc s = (case upsert_ioc now (Some obs) pkg ioc s of (i, s') \<Rightarrow> snd (auto_promote i s'))"

lemma learn_row:
  assumes "store_inv s" and "decimal4 c" and "c \<le> 1"
  shows "\<exists>r\<in>set (is_iocs (learn now obs pkg (new_ioc t v c) s)).
      ioc_name r = (t, v) \<and> set_option (given pkg) \<subseteq> set (li_packages r)
      \<and> (should_promote r \<longrightarrow> li_status r = ''approved'')"
proof -
  let ?ioc = "new_ioc t v c"
  let ?s' = "snd (upsert_ioc now (Some obs) pkg ?ioc s)" and ?r = "upsert_row now (Some obs) pkg ?ioc s"
  have inv: "store_inv ?s'" using assms by (rule learned_inv)
  have name: "ioc_name ?ioc = (t, v)" by (simp add: ioc_name_def new_ioc_def)
  have "?r \<in> set (is_iocs ?s')" "ioc_name ?r = (t, v)"
    using row_written [of now "Some obs" pkg ?ioc s] name by (auto dest: fetch_in fetch_key)
  moreover have "set_option (given pkg) \<subseteq> set (li_packages ?r)"
    by (auto simp: upsert_row_def seen_again_def first_time_def Let_def split: option.splits)
  moreover have "li_status ?r = ''pending'' \<or> li_status ?r = ''approved''"
    using inv \<open>?r \<in> set (is_iocs ?s')\<close> by (auto simp: store_inv_def ioc_inv_def)
  moreover have "learn now obs pkg ?ioc s = (if li_status ?r = ''pending'' \<and> should_promote ?r
      then set_status (li_id ?r) ''approved'' ?s' else ?s')"
    using get_unique [OF inv \<open>?r \<in> set (is_iocs ?s')\<close>]
    by (simp add: learn_def upsert_ioc_def auto_promote_def Let_def)
  ultimately show ?thesis
    by (intro bexI [of _ "if li_status ?r = ''pending'' \<and> should_promote ?r
          then ?r\<lparr>li_status := ''approved''\<rparr> else ?r"])
      (auto simp: set_status_def ioc_name_def)
qed

end
