(* ===== verification/RuntimeExtract.thy ===== *)
theory RuntimeExtract
  imports AgenticRules
begin

text \<open>
  Alerts of Falco, Tetragon, Wazuh or a person turned into indicators and a pattern
  (\<^verbatim>\<open>intel/extractor.py\<close>). An alert is any JSON object: what the source reads from it may have any
  type, so fields of a parsed event are values and each operation on them can raise. How a float is
  shown is a parameter.
\<close>

subsection \<open>Values as text\<close>

fun pv_repr :: "(rat \<Rightarrow> string) \<Rightarrow> pyval \<Rightarrow> string" where
  "pv_repr show_float PNone = ''None''"
| "pv_repr show_float (PBool b) = py_bool b"
| "pv_repr show_float (PInt i) = show_int i"
| "pv_repr show_float (PFloat x) = show_float x"
| "pv_repr show_float (PStr s) = py_repr s"
| "pv_repr show_float (PList vs) = ''['' @ py_join '', '' (map (pv_repr show_float) vs) @ '']''"
| "pv_repr show_float (PDict d) =
     ''{'' @ py_join '', '' (map (\<lambda>(k, v). py_repr k @ '': '' @ pv_repr show_float v) d) @ ''}''"

definition pv_str :: "(rat \<Rightarrow> string) \<Rightarrow> pyval \<Rightarrow> string" where
  "pv_str show_float v = (case v of PStr s \<Rightarrow> s | _ \<Rightarrow> pv_repr show_float v)"

definition dget :: "pydict \<Rightarrow> string \<Rightarrow> pyval" where
  "dget d k = d_get d k PNone"

text \<open>\<^verbatim>\<open>d.get(k) or {}\<close>, then asked for a field; a regular expression wants a string.\<close>

definition sub_dict :: "pyval \<Rightarrow> pyexn + pydict" where
  "sub_dict v = attr_dict ''get'' (py_or v (PDict []))"

fun re_text :: "pyval \<Rightarrow> pyexn + string" where
  "re_text (PStr s) = Inr s"
| "re_text v = Inl (TypeError ''expected string or bytes-like object'')"

subsection \<open>Tables\<close>

definition INTERNAL_IPS_RE :: regex where
  "INTERNAL_IPS_RE = rxP ''^(?:127`.|10`.|172`.(?:1[6-9]|2`d|3[01])`.|192`.168`.|169`.254`.|::1|fe80:)''"

definition TRUSTED_REGISTRY_DOMAINS :: "string list" where
  "TRUSTED_REGISTRY_DOMAINS =
    [''pypi.org'', ''files.pythonhosted.org'', ''registry.npmjs.org'', ''rubygems.org'',
     ''crates.io'', ''raw.githubusercontent.com'', ''github.com'', ''storage.googleapis.com'',
     ''go.dev'', ''proxy.golang.org'']"

definition CRED_PATH_PATTERNS :: "regex list" where
  "CRED_PATH_PATTERNS =
    [rxI ''/`.ssh/.+'',
     rxI ''/`.aws/credentials'',
     rxI ''/`.aws/config'',
     rxI ''/`.npmrc'',
     rxI ''/`.pypirc'',
     rxI ''/`.netrc'',
     rxI ''/etc/passwd'',
     rxI ''/etc/shadow'',
     rxI ''/proc/`d+/environ'',
     rxI ''Library/Application Support/(Google|Brave|Firefox)/'',
     rxI ''AppData/Roaming/(Mozilla|Microsoft)/'',
     rxI ''`.config/(Electrum|Exodus|atomic|metamask)/'',
     rxI ''Library/Application Support/Exodus'']"

definition SHA256_RE :: regex where
  "SHA256_RE = rxP ''`b[a-fA-F0-9]{64}`b''"

definition DOMAIN_RE :: regex where
  "DOMAIN_RE = rxI ''`b([a-z0-9](?:[a-z0-9-]{0,61}[a-z0-9])?(?:`.[a-z]{2,})+)`b''"

definition IPV4_RE :: regex where
  "IPV4_RE = rxP ''`b(?:`d{1,3}`.){3}`d{1,3}`b''"

subsection \<open>Parsing\<close>

record parsed_event =
  pe_source :: string
  pe_rule_name :: pyval
  pe_host :: pyval
  pe_package :: pyval
  pe_ecosystem :: pyval
  pe_version :: pyval
  pe_read :: "pyval list"
  pe_written :: "pyval list"
  pe_connect :: "pyval list"
  pe_dns :: "pyval list"
  pe_exec :: "pyval list"
  pe_raw :: pyval

definition new_event :: "string \<Rightarrow> pydict \<Rightarrow> parsed_event" where
  "new_event source p =
     \<lparr>pe_source = source, pe_rule_name = PStr [], pe_host = PNone, pe_package = PNone,
      pe_ecosystem = PNone, pe_version = PNone, pe_read = [], pe_written = [], pe_connect = [],
      pe_dns = [], pe_exec = [], pe_raw = PDict p\<rparr>"

definition one :: "pyval \<Rightarrow> pyval list" where
  "one v = (if py_truth v then [v] else [])"

definition falco_connect :: "(rat \<Rightarrow> string) \<Rightarrow> pyval \<Rightarrow> pyval \<Rightarrow> pyval list" where
  "falco_connect show_float ip port =
     (if \<not> py_truth ip then []
      else [if py_truth port then PStr (pv_str show_float ip @ '':'' @ pv_str show_float port) else ip])"

definition parse_falco :: "(rat \<Rightarrow> string) \<Rightarrow> pydict \<Rightarrow> pyexn + parsed_event" where
  "parse_falco show_float p =
     bindE (attr_dict ''get'' (py_or (py_or (dget p ''output_fields'') (dget p ''OutputFields'')) (PDict [])))
       (\<lambda>of'.
     let pkg = py_or (dget of' ''pkg.name'') (dget p ''package'');
         ev = (new_event ''falco'' p)
           \<lparr>pe_rule_name := py_or (py_or (dget p ''rule'') (dget p ''Rule'')) (PStr []),
            pe_host := py_or (dget p ''hostname'') (dget p ''host'')\<rparr>;
         ev = (if py_truth pkg
           then ev\<lparr>pe_package := pkg,
                  pe_version := py_or (dget of' ''pkg.version'') (dget p ''version''),
                  pe_ecosystem := py_or (dget of' ''pkg.ecosystem'') (dget p ''ecosystem'')\<rparr> else ev)
     in bindE (attr_str ''lower'' (py_or (dget of' ''evt.type'') (PStr []))) (\<lambda>t.
        let evt_type = py_lower t;
            ev = (if evt_type = ''openat'' \<or> evt_type = ''open''
                  then ev\<lparr>pe_read := one (dget of' ''fd.name'')\<rparr>
                  else if evt_type = ''connect''
                  then ev\<lparr>pe_connect := falco_connect show_float (dget of' ''fd.sip'') (dget of' ''fd.sport'')\<rparr>
                  else if evt_type = ''execve''
                  then ev\<lparr>pe_exec := one (dget of' ''proc.cmdline'')\<rparr> else ev)
        in Inr (ev\<lparr>pe_dns := one (dget of' ''dns.name'')\<rparr>)))"

definition arg_values :: "(rat \<Rightarrow> string) \<Rightarrow> string list \<Rightarrow> pyval \<Rightarrow> pyexn + pyval list" where
  "arg_values show_float keys args =
     bindE (py_list (py_or args (PList []))) (\<lambda>vs.
     bindE (mapE (attr_dict ''get'') vs) (\<lambda>ds.
     Inr (concat (map (\<lambda>a.
       let v = fold (\<lambda>k acc. py_or acc (dget a k)) keys PNone in
       if py_truth v then [PStr (pv_str show_float v)] else []) ds))))"

definition parse_tetragon :: "(rat \<Rightarrow> string) \<Rightarrow> pydict \<Rightarrow> pyexn + parsed_event" where
  "parse_tetragon show_float p =
     bindE (attr_dict ''get'' (py_or (py_or (dget p ''process_kprobe'') (dget p ''ProcessKprobe'')) (PDict [])))
       (\<lambda>pkb.
     bindE (sub_dict (dget pkb ''process'')) (\<lambda>proc.
     bindE (sub_dict (dget proc ''pod'')) (\<lambda>pod.
     bindE (attr_str ''lower'' (py_or (dget pkb ''function_name'') (PStr []))) (\<lambda>f.
     let fn = py_lower f; args = dget pkb ''args'';
         ev = (new_event ''tetragon'' p)
           \<lparr>pe_host := py_or (dget pod ''namespace'') (dget proc ''binary''),
            pe_package := dget p ''package'', pe_version := dget p ''version'',
            pe_ecosystem := dget p ''ecosystem''\<rparr>
     in if contains ''open'' fn
        then bindE (arg_values show_float [''file_arg'', ''string_arg'', ''path_arg''] args) (\<lambda>vs.
             Inr (ev\<lparr>pe_read := vs\<rparr>))
        else if contains ''connect'' fn \<or> contains ''tcp'' fn
        then bindE (arg_values show_float [''sock_arg'', ''string_arg''] args) (\<lambda>vs.
             Inr (ev\<lparr>pe_connect := vs\<rparr>))
        else if contains ''exec'' fn
        then (let cmd = py_or (dget proc ''arguments'') (dget proc ''binary'') in
              Inr (ev\<lparr>pe_exec := (if py_truth cmd then [PStr (pv_str show_float cmd)] else [])\<rparr>))
        else Inr ev))))"

definition parse_wazuh :: "pydict \<Rightarrow> pyexn + parsed_event" where
  "parse_wazuh p =
     bindE (sub_dict (dget p ''rule'')) (\<lambda>rule.
     bindE (sub_dict (dget p ''agent'')) (\<lambda>agent.
     bindE (sub_dict (dget p ''syscheck'')) (\<lambda>syscheck.
     Inr ((new_event ''wazuh'' p)
       \<lparr>pe_rule_name := py_or (py_or (dget rule ''description'') (dget rule ''id'')) (PStr []),
        pe_host := py_or (dget agent ''name'') (dget agent ''ip''),
        pe_written := one (dget syscheck ''path''),
        pe_package := dget p ''package'', pe_version := dget p ''version'',
        pe_ecosystem := dget p ''ecosystem''\<rparr>))))"

definition list_field :: "pydict \<Rightarrow> string \<Rightarrow> pyexn + pyval list" where
  "list_field p k = py_list (py_or (dget p k) (PList []))"

definition parse_manual :: "pydict \<Rightarrow> pyexn + parsed_event" where
  "parse_manual p =
     bindE (list_field p ''file_paths_read'') (\<lambda>rd.
     bindE (list_field p ''file_paths_written'') (\<lambda>wr.
     bindE (list_field p ''connect_targets'') (\<lambda>con.
     bindE (list_field p ''dns_queries'') (\<lambda>dns.
     bindE (list_field p ''exec_commands'') (\<lambda>exec.
     Inr ((new_event ''manual'' p)
       \<lparr>pe_rule_name := py_or (dget p ''rule'') (PStr ''manual''), pe_host := dget p ''host'',
        pe_package := dget p ''package'', pe_version := dget p ''version'',
        pe_ecosystem := dget p ''ecosystem'', pe_read := rd, pe_written := wr, pe_connect := con,
        pe_dns := dns, pe_exec := exec\<rparr>))))))"

definition parse_event :: "(rat \<Rightarrow> string) \<Rightarrow> string \<Rightarrow> pyval \<Rightarrow> pyexn + parsed_event" where
  "parse_event show_float source payload =
     bindE (attr_dict ''get'' payload) (\<lambda>p.
     let s = py_lower source in
     if s = ''falco'' then parse_falco show_float p
     else if s = ''tetragon'' then parse_tetragon show_float p
     else if s = ''wazuh'' then parse_wazuh p else parse_manual p)"

subsection \<open>Indicators\<close>

record ioc_hit =
  ih_type :: string
  ih_value :: string
  ih_confidence :: rat

definition is_internal_ip :: "string \<Rightarrow> bool" where
  "is_internal_ip ip = (re_match0 INTERNAL_IPS_RE ip \<noteq> None)"

definition is_trusted_domain :: "string \<Rightarrow> bool" where
  "is_trusted_domain domain = (let d = py_strip (py_lower domain) in
     list_ex (\<lambda>trusted. d = trusted \<or> endswith d (CHR ''.'' # trusted)) TRUSTED_REGISTRY_DOMAINS)"

definition is_sensitive_path :: "string \<Rightarrow> bool" where
  "is_sensitive_path path = any_found CRED_PATH_PATTERNS path"

definition external_ip_in :: "string \<Rightarrow> bool" where
  "external_ip_in target = (case re_search IPV4_RE target of
     None \<Rightarrow> False | Some m \<Rightarrow> \<not> is_internal_ip (group0 target m))"

definition domain_in :: "string \<Rightarrow> string list" where
  "domain_in target = (case re_search DOMAIN_RE target of
       None \<Rightarrow> []
     | Some m \<Rightarrow> (let d = py_lower (or_else (group_of target m 1) []) in
         if re_match0 IPV4_RE d = None \<and> \<not> is_trusted_domain d then [d] else []))"

definition add_hit :: "ioc_hit \<Rightarrow> ioc_hit list \<Rightarrow> ioc_hit list" where
  "add_hit h hs = (if list_ex (\<lambda>x. ih_type x = ih_type h \<and> ih_value x = ih_value h) hs then hs
     else hs @ [h])"

definition hits_for :: "string \<Rightarrow> rat \<Rightarrow> string list \<Rightarrow> ioc_hit list" where
  "hits_for t conf vs = map (\<lambda>v. \<lparr>ih_type = t, ih_value = v, ih_confidence = conf\<rparr>) vs"

text \<open>The candidates in the order they are added, from the event's texts.\<close>

definition ioc_candidates ::
  "string list \<Rightarrow> string list \<Rightarrow> string list \<Rightarrow> string list \<Rightarrow> string \<Rightarrow> ioc_hit list" where
  "ioc_candidates connects dns rd wr raw =
     hits_for ''ip'' (7/10) (filter external_ip_in connects)
     @ hits_for ''domain'' (3/4) (map py_lower (filter (\<lambda>q. \<not> is_trusted_domain q) dns))
     @ hits_for ''domain'' (3/4) (concat (map domain_in connects))
     @ hits_for ''path'' (13/20) (filter is_sensitive_path (rd @ wr))
     @ hits_for ''sha256'' (17/20) (map (\<lambda>m. py_lower (group0 raw m)) (finditer SHA256_RE raw))
     @ (if list_ex is_sensitive_path rd \<and> list_ex external_ip_in connects
        then hits_for ''syscall_chain'' (17/20) [''cred_read_then_external_connect''] else [])"

definition dedup_hits :: "ioc_hit list \<Rightarrow> ioc_hit list" where
  "dedup_hits hs = fold add_hit hs []"

definition extract_iocs_from_event :: "(rat \<Rightarrow> string) \<Rightarrow> parsed_event \<Rightarrow> pyexn + ioc_hit list" where
  "extract_iocs_from_event show_float ev =
     bindE (mapE re_text (pe_connect ev)) (\<lambda>connects.
     bindE (mapE (attr_str ''lower'') (filter py_truth (pe_dns ev))) (\<lambda>dns.
     bindE (mapE re_text (pe_read ev)) (\<lambda>rd.
     bindE (mapE re_text (pe_written ev)) (\<lambda>wr.
     Inr (dedup_hits (ioc_candidates connects dns rd wr (pv_repr show_float (pe_raw ev))))))))"

definition hit_to_dict :: "ioc_hit \<Rightarrow> pyval" where
  "hit_to_dict h = PDict [(''type'', PStr (ih_type h)), (''value'', PStr (ih_value h)),
     (''confidence'', PFloat (ih_confidence h))]"

subsection \<open>Patterns\<close>

record event_pattern =
  ep_dimensions :: "string list"
  ep_codes :: "string list"
  ep_summary :: string
  ep_is_novel :: bool

fun any_found_in :: "(string \<Rightarrow> bool) \<Rightarrow> pyval list \<Rightarrow> pyexn + bool" where
  "any_found_in P [] = Inr False"
| "any_found_in P (v # vs) = bindE (re_text v) (\<lambda>s. if P s then Inr True else any_found_in P vs)"

fun any_untrusted :: "pyval list \<Rightarrow> pyexn + bool" where
  "any_untrusted [] = Inr False"
| "any_untrusted (q # qs) =
     bindE (attr_str ''lower'' q) (\<lambda>s. if \<not> is_trusted_domain s then Inr True else any_untrusted qs)"

definition pattern_of :: "bool \<Rightarrow> bool \<Rightarrow> bool \<Rightarrow> bool \<Rightarrow> bool \<Rightarrow> event_pattern" where
  "pattern_of cred_read external_net any_exec has_exec write_sensitive =
     (let dims = (if cred_read then [''INFORMATION_READING''] else [])
            @ (if external_net then [''DATA_TRANSMISSION''] else [])
            @ (if any_exec then [''PAYLOAD_EXECUTION''] else [])
            @ (if write_sensitive then [''INFORMATION_READING''] else []);
          codes = (if cred_read then [''EXF-001''] else []) @ (if external_net then [''NET-001''] else [])
            @ (if any_exec then [''EXM-008''] else []) @ (if write_sensitive then [''EXF-WRITE''] else []);
          parts = (if cred_read then [''credential read''] else [])
            @ (if external_net then [''external network''] else [])
            @ (if has_exec then [''process exec''] else [])
            @ (if write_sensitive then [''sensitive write''] else [])
      in \<lparr>ep_dimensions = sorted_set dims, ep_codes = sorted_set codes,
          ep_summary = (if parts = [] then ''(no signals)'' else py_join '' + '' parts),
          ep_is_novel = (length (sorted_set dims) \<ge> 2 \<and> \<not> cred_read)\<rparr>)"

definition extract_pattern_from_event :: "parsed_event \<Rightarrow> pyexn + event_pattern" where
  "extract_pattern_from_event ev =
     bindE (any_found_in is_sensitive_path (pe_read ev)) (\<lambda>cred_read.
     bindE (any_found_in external_ip_in (pe_connect ev)) (\<lambda>net.
     bindE (any_untrusted (pe_dns ev)) (\<lambda>dns.
     bindE (any_found_in is_sensitive_path (pe_written ev)) (\<lambda>write_sensitive.
     Inr (pattern_of cred_read (net \<or> dns) (list_ex py_truth (pe_exec ev)) (pe_exec ev \<noteq> [])
            write_sensitive)))))"

definition pattern_to_dict :: "event_pattern \<Rightarrow> pyval" where
  "pattern_to_dict p = PDict
     [(''dimensions'', pstrs (ep_dimensions p)), (''indicator_codes'', pstrs (ep_codes p)),
      (''summary'', PStr (ep_summary p)), (''is_novel'', PBool (ep_is_novel p))]"

end
