(* ===== verification/RuleGenerator.thy ===== *)
theory RuleGenerator
  imports RuntimeExtract RuntimeStore
begin

text \<open>
  Rule drafts from an observation (\<^verbatim>\<open>intel/rule_generator.py\<close>), and JSON text as
  \<^verbatim>\<open>json.dumps(v, ensure_ascii=False, indent=2)\<close> writes it.
\<close>

subsection \<open>JSON text\<close>

definition json_char :: "char \<Rightarrow> string" where
  "json_char c = (let n = (of_char c :: nat) in
     if n = 34 then [CHR 0x5C, c] else if n = 92 then [c, c]
     else if n = 10 then [CHR 0x5C, CHR ''n''] else if n = 13 then [CHR 0x5C, CHR ''r'']
     else if n = 9 then [CHR 0x5C, CHR ''t''] else if n = 8 then [CHR 0x5C, CHR ''b'']
     else if n = 12 then [CHR 0x5C, CHR ''f'']
     else if n < 32 then [CHR 0x5C, CHR ''u'', CHR ''0'', CHR ''0'', hex_digit (n div 16), hex_digit (n mod 16)]
     else [c])"

definition json_string :: "string \<Rightarrow> string" where
  "json_string s = [CHR 0x22] @ concat (map json_char s) @ [CHR 0x22]"

definition json_block :: "nat \<Rightarrow> char \<Rightarrow> string list \<Rightarrow> char \<Rightarrow> string" where
  "json_block indent opening items closing =
     (if items = [] then [opening, closing]
      else (let nl = CHR 0x0A # replicate (indent + 2) (CHR '' '') in
        [opening] @ nl @ py_join (CHR '','' # nl) items
        @ CHR 0x0A # replicate indent (CHR '' '') @ [closing]))"

fun json_text :: "(rat \<Rightarrow> string) \<Rightarrow> nat \<Rightarrow> pyval \<Rightarrow> string" where
  "json_text show_float indent PNone = ''null''"
| "json_text show_float indent (PBool b) = (if b then ''true'' else ''false'')"
| "json_text show_float indent (PInt i) = show_int i"
| "json_text show_float indent (PFloat x) = show_float x"
| "json_text show_float indent (PStr s) = json_string s"
| "json_text show_float indent (PList vs) =
     json_block indent (CHR ''['') (map (json_text show_float (indent + 2)) vs) (CHR '']'')"
| "json_text show_float indent (PDict d) =
     json_block indent (CHR ''{'')
       (map (\<lambda>(k, v). json_string k @ '': '' @ json_text show_float (indent + 2) v) d) (CHR ''}'')"

text \<open>The bodies of rules hold no floats.\<close>

definition json_body :: "pydict \<Rightarrow> string" where
  "json_body d = json_text (\<lambda>x. []) 0 (PDict d)"

subsection \<open>Generators\<close>

definition obs_str :: "int list \<Rightarrow> string" where
  "obs_str ids = (let t = py_join ''-'' (map show_int (take 3 (sort ids))) in if t = [] then ''x'' else t)"

definition new_rule :: "string \<Rightarrow> string \<Rightarrow> int list \<Rightarrow> rat \<Rightarrow> string \<Rightarrow> learned_rule" where
  "new_rule kind body ids confidence rationale =
     \<lparr>lr_id = 0, lr_kind = kind, lr_body = body, lr_observations = ids, lr_confidence = confidence,
      lr_status = ''draft'', lr_created_at = [], lr_approved_at = None, lr_approved_by = None,
      lr_rationale = Some rationale\<rparr>"

definition generate_indicator_47_rule :: "int list \<Rightarrow> event_pattern \<Rightarrow> string \<Rightarrow> learned_rule" where
  "generate_indicator_47_rule ids p rationale =
     new_rule ''indicator_47'' (json_body
       [(''code'', PStr (''RT-'' @ obs_str ids)),
        (''name'', PStr (if ep_summary p = [] then ''runtime-derived'' else ep_summary p)),
        (''dimensions'', pstrs (ep_dimensions p)),
        (''severity'', PStr (if length (ep_dimensions p) \<ge> 2 then ''HIGH'' else ''MEDIUM'')),
        (''match_kind'', PStr ''behavior_combo''), (''indicator_codes_seen'', pstrs (ep_codes p))])
       ids (1/2) rationale"

definition values_of :: "string \<Rightarrow> ioc_hit list \<Rightarrow> string list" where
  "values_of t iocs = map ih_value (filter (\<lambda>i. ih_type i = t) iocs)"

definition quoted :: "string \<Rightarrow> string" where
  "quoted s = [CHR 0x27] @ s @ [CHR 0x27]"

definition falco_conditions :: "string list \<Rightarrow> string list \<Rightarrow> string list \<Rightarrow> string list" where
  "falco_conditions ips domains paths =
     (if ips = [] then [] else [''evt.type = connect and fd.sip in (''
        @ py_join '', '' (map (\<lambda>ip. quoted (hd (split_on (CHR '':'') ip))) ips) @ '')''])
     @ (if domains = [] then [] else [''dns.name in ('' @ py_join '', '' (map quoted domains) @ '')''])
     @ (if paths = [] then [] else [''(evt.type = openat and (''
        @ py_join '' or '' (map (\<lambda>p. ''fd.name pmatch ('' @ quoted p @ '')'') (take 5 paths)) @ ''))''])"

definition generate_falco_rule ::
  "int list \<Rightarrow> ioc_hit list \<Rightarrow> string \<Rightarrow> learned_rule option" where
  "generate_falco_rule ids iocs rationale =
     (let ips = values_of ''ip'' iocs; domains = values_of ''domain'' iocs; paths = values_of ''path'' iocs;
          rule_name = ''pkgsentinel-rt-'' @ obs_str ids;
          condition = py_join '' or '' (map (\<lambda>c. ''('' @ c @ '')'') (falco_conditions ips domains paths));
          body = py_join [CHR 0x0A]
            [''- rule: '' @ rule_name,
             ''  desc: Auto-generated from pkgsentinel runtime observations [''
               @ py_join '', '' (map show_int ids) @ '']'',
             ''  condition: '' @ condition,
             ''  output: '' @ quoted (''pkgsentinel runtime IOC match (rule='' @ rule_name @ '')''),
             ''  priority: CRITICAL'',
             ''  tags: [pkgsentinel, runtime-derived, auto]''] @ [CHR 0x0A]
      in if ips = [] \<and> domains = [] \<and> paths = [] then None
         else Some (new_rule ''falco'' body ids (7/10) rationale))"

definition generate_sequence_pattern_rule ::
  "int list \<Rightarrow> event_pattern \<Rightarrow> string \<Rightarrow> learned_rule option" where
  "generate_sequence_pattern_rule ids p rationale =
     (let dims = sorted_set (ep_dimensions p) in
      if length dims < 2 then None
      else Some (new_rule ''sequence_pattern'' (json_body
        [(''code'', PStr (''SP-RT-'' @ obs_str ids)),
         (''name'', PStr (''Runtime-observed sequence: '' @ ep_summary p)), (''severity'', PStr ''HIGH''),
         (''dimension_sequence'', pstrs dims), (''min_distance'', PInt 1), (''max_distance'', PInt 50)])
        ids (2/5) rationale))"

definition generate_agentic_r_extension ::
  "int list \<Rightarrow> event_pattern \<Rightarrow> string \<Rightarrow> learned_rule option" where
  "generate_agentic_r_extension ids p rationale =
     (let dims = sorted_set (ep_dimensions p) in
      if \<not> (''INFORMATION_READING'' \<in> set dims \<and> ''DATA_TRANSMISSION'' \<in> set dims) then None
      else Some (new_rule ''agentic_r'' (json_body
        [(''rule_id'', PStr (''R3-RT-'' @ obs_str ids)), (''extends'', PStr ''R3''),
         (''name'', PStr ''Runtime-observed undeclared cred-exfil capability''),
         (''trigger_dimensions'', pstrs dims), (''severity'', PStr ''MALICIOUS''),
         (''note'', PStr (''If package did not declare '' @ quoted ''env-secrets'' @ '' + '' @ quoted ''network''
            @ '' capabilities in Agentic manifest but runtime shows credential read + ''
            @ ''external connect, treat as MALICIOUS regardless of static signals.''))])
        ids (9/20) rationale))"

definition opt_list :: "'a option \<Rightarrow> 'a list" where
  "opt_list m = (case m of None \<Rightarrow> [] | Some x \<Rightarrow> [x])"

definition generate_all_drafts ::
  "int list \<Rightarrow> ioc_hit list \<Rightarrow> event_pattern \<Rightarrow> string \<Rightarrow> learned_rule list" where
  "generate_all_drafts ids iocs p rationale =
     (if ep_codes p = [] then [] else [generate_indicator_47_rule ids p rationale])
     @ opt_list (generate_falco_rule ids iocs rationale)
     @ opt_list (generate_sequence_pattern_rule ids p rationale)
     @ opt_list (generate_agentic_r_extension ids p rationale)"

lemma new_rule_status: "lr_status (new_rule kind body ids confidence rationale) = ''draft''"
  by (simp add: new_rule_def)

lemma draft_if: "(if b then None else Some (new_rule kind body ids confidence rationale)) = Some rule \<Longrightarrow>
    lr_status rule = ''draft''"
  by (auto simp: new_rule_status split: if_splits)

lemma generated_drafts:
  "lr_status (generate_indicator_47_rule ids p rationale) = ''draft''"
  "generate_falco_rule ids iocs rationale = Some rule \<Longrightarrow> lr_status rule = ''draft''"
  "generate_sequence_pattern_rule ids p rationale = Some rule \<Longrightarrow> lr_status rule = ''draft''"
  "generate_agentic_r_extension ids p rationale = Some rule \<Longrightarrow> lr_status rule = ''draft''"
  unfolding generate_indicator_47_rule_def generate_falco_rule_def generate_sequence_pattern_rule_def
    generate_agentic_r_extension_def Let_def
  by (rule new_rule_status | erule draft_if)+

lemma in_opt_list [simp]: "x \<in> set (opt_list m) \<longleftrightarrow> m = Some x"
  by (auto simp: opt_list_def split: option.splits)

lemma drafts_are_drafts: "rule \<in> set (generate_all_drafts ids iocs p rationale) \<Longrightarrow> lr_status rule = ''draft''"
  by (auto simp: generate_all_drafts_def split: if_splits intro: generated_drafts)

end
