(* ===== verification/RegexLemmas.thy ===== *)
theory RegexLemmas
  imports Regex
begin

text \<open>
  How the proofs about extractors use the meaning of patterns: the text that a pattern takes from a
  position, the literal heads of a pattern, the leftmost match of a search, the matches that
  \<^verbatim>\<open>finditer\<close> reaches, and the call of a named function with one string literal.
\<close>

subsection \<open>The text taken at a position\<close>

definition takes :: "string \<Rightarrow> nat \<Rightarrow> string \<Rightarrow> nat \<Rightarrow> bool" where
  "takes s i x j \<longleftrightarrow> j = i + length x \<and> prefix x (drop i s)"

lemma takes_Nil [simp]: "takes s i [] j \<longleftrightarrow> j = i"
  by (simp add: takes_def)

lemma takes_Cons: "takes s i (c # x) j \<longleftrightarrow> i < length s \<and> s ! i = c \<and> takes s (Suc i) x j"
proof (cases "i < length s")
  case True
  then have "drop i s = s ! i # drop (Suc i) s" by (simp add: Cons_nth_drop_Suc)
  then show ?thesis using True by (auto simp: takes_def)
qed (simp add: takes_def)

lemma takes_append: "takes s i (x @ y) j \<longleftrightarrow> (\<exists>k. takes s i x k \<and> takes s k y j)"
  by (induction x arbitrary: i) (auto simp: takes_Cons)

lemma takes_slice: "takes s i x j \<Longrightarrow> py_slice s i j = x"
  by (auto simp: takes_def py_slice_def prefix_def)

lemma takes_bound: "takes s i x j \<Longrightarrow> i \<le> length s \<Longrightarrow> j \<le> length s"
  by (auto simp: takes_def dest: prefix_length_le)

lemma takes_split: "takes s i x j \<Longrightarrow> i \<le> length s \<Longrightarrow> s = take i s @ x @ drop j s"
proof -
  assume "takes s i x j" "i \<le> length s"
  then obtain z where "drop i s = x @ z" "j = i + length x" by (auto simp: takes_def prefix_def)
  then have "drop j s = z" by (metis add.commute append_eq_conv_conj drop_drop)
  with \<open>drop i s = x @ z\<close> show ?thesis by (metis append_take_drop_id)
qed

text \<open>An expression that takes exactly the texts of a set, from wherever it starts.\<close>

definition takes_only :: "re_flags \<Rightarrow> string \<Rightarrow> rx \<Rightarrow> (string \<Rightarrow> bool) \<Rightarrow> bool" where
  "takes_only fl s r P \<longleftrightarrow> (\<forall>i j. spans fl s r i j \<longleftrightarrow> (\<exists>x. P x \<and> takes s i x j))"

lemma takes_onlyD: "takes_only fl s r P \<Longrightarrow> spans fl s r i j \<longleftrightarrow> (\<exists>x. P x \<and> takes s i x j)"
  by (simp add: takes_only_def)

lemma takes_only_seq:
  assumes "takes_only fl s a P" and "takes_only fl s b Q"
  shows "takes_only fl s (RSeq a b) (\<lambda>z. \<exists>x y. z = x @ y \<and> P x \<and> Q y)"
  unfolding takes_only_def
proof (intro allI)
  fix i j
  have "spans fl s (RSeq a b) i j \<longleftrightarrow> (\<exists>k x y. P x \<and> takes s i x k \<and> Q y \<and> takes s k y j)"
    unfolding spans.simps(8) relcompp_apply takes_onlyD [OF assms(1)] takes_onlyD [OF assms(2)] by blast
  then show "spans fl s (RSeq a b) i j \<longleftrightarrow> (\<exists>z. (\<exists>x y. z = x @ y \<and> P x \<and> Q y) \<and> takes s i z j)"
    unfolding ex_simps(1) [symmetric] by (metis takes_append)
qed

lemma takes_only_one:
  assumes "\<And>i j. spans fl s r i j \<longleftrightarrow> i < length s \<and> j = i + 1 \<and> P (s ! i)"
  shows "takes_only fl s r (\<lambda>x. \<exists>c. x = [c] \<and> P c)"
  unfolding takes_only_def assms by (auto simp: takes_Cons)

lemma takes_only_power:
  assumes "\<And>i j. spans fl s r i j \<longleftrightarrow> i < length s \<and> j = i + 1 \<and> P (s ! i)"
  shows "(spans fl s r ^^ n) i j \<longleftrightarrow> (\<exists>x. length x = n \<and> list_all P x \<and> takes s i x j)"
proof (induction n arbitrary: i)
  case (Suc n)
  have "(spans fl s r ^^ Suc n) i j \<longleftrightarrow> (\<exists>m. spans fl s r i m \<and> (spans fl s r ^^ n) m j)"
    by (rule relpowp_first)
  also have "\<dots> \<longleftrightarrow> i < length s \<and> P (s ! i) \<and> (\<exists>x. length x = n \<and> list_all P x \<and> takes s (Suc i) x j)"
    by (auto simp: assms Suc.IH)
  also have "\<dots> \<longleftrightarrow> (\<exists>x. length x = Suc n \<and> list_all P x \<and> takes s i x j)"
  proof
    assume "i < length s \<and> P (s ! i) \<and> (\<exists>x. length x = n \<and> list_all P x \<and> takes s (Suc i) x j)"
    then obtain x where "i < length s" "P (s ! i)" "length x = n" "list_all P x" "takes s (Suc i) x j" by blast
    then show "\<exists>x. length x = Suc n \<and> list_all P x \<and> takes s i x j"
      by (intro exI [of _ "s ! i # x"]) (simp add: takes_Cons)
  next
    assume "\<exists>x. length x = Suc n \<and> list_all P x \<and> takes s i x j"
    then obtain c x where "length (c # x) = Suc n" "list_all P (c # x)" "takes s i (c # x) j"
      by (metis length_Suc_conv)
    then show "i < length s \<and> P (s ! i) \<and> (\<exists>x. length x = n \<and> list_all P x \<and> takes s (Suc i) x j)"
      by (auto simp: takes_Cons)
  qed
  finally show ?case .
qed auto

lemma takes_only_rep:
  assumes "\<And>i j. spans fl s r i j \<longleftrightarrow> i < length s \<and> j = i + 1 \<and> P (s ! i)"
  shows "takes_only fl s (RRep r lo hi g)
    (\<lambda>x. lo \<le> length x \<and> (case hi of None \<Rightarrow> True | Some h \<Rightarrow> length x \<le> h) \<and> list_all P x)"
  unfolding takes_only_def by (auto simp: takes_only_power [OF assms])

text \<open>Digits, and one literal character without \<^verbatim>\<open>IGNORECASE\<close>.\<close>

lemma spans_digit: "spans fl s (RSet False [SClass (CHR ''d'')]) i j \<longleftrightarrow> i < length s \<and> j = i + 1 \<and> is_digit (s ! i)"
  by (auto simp: class_has_def)

lemma spans_char: "spans no_flags s (RChar a) i j \<longleftrightarrow> i < length s \<and> j = i + 1 \<and> s ! i = a"
  by (auto simp: cases_of_def no_flags_def)

lemmas takes_digits = takes_only_rep [of _ _ "RSet False [SClass (CHR ''d'')]", OF spans_digit]
lemmas takes_char = takes_only_one [OF spans_char]

lemma takes_only_rep3:
  assumes "takes_only fl s r P"
  shows "takes_only fl s (RRep r 3 (Some 3) g) (\<lambda>z. \<exists>x y w. z = x @ y @ w \<and> P x \<and> P y \<and> P w)"
proof -
  have "spans fl s (RRep r 3 (Some 3) g) i j \<longleftrightarrow> (spans fl s r ^^ 3) i j" for i j
    by (auto intro: exI [of _ 3])
  moreover have "spans fl s r ^^ 3 = spans fl s (RSeq r (RSeq r r))"
    by (simp add: numeral_3_eq_3 relcompp_assoc eq_OO)
  moreover have "takes_only fl s (RSeq r (RSeq r r)) (\<lambda>z. \<exists>x y. z = x @ y \<and> P x \<and> (\<exists>y' w. y = y' @ w \<and> P y' \<and> P w))"
    by (intro takes_only_seq assms)
  ultimately show ?thesis unfolding takes_only_def by (simp only:) metis
qed

subsection \<open>Literal heads\<close>

text \<open>
  The texts one of which every match starts with, in lower case, and whether that is all of the match.
\<close>

fun heads_of :: "rx \<Rightarrow> string list \<times> bool" where
  "heads_of REmpty = ([[]], True)"
| "heads_of (RChar c) = ([[lower_char c]], True)"
| "heads_of (RSeq a b) =
     (case heads_of a of (ws, whole) \<Rightarrow>
        if whole then (case heads_of b of (vs, whole') \<Rightarrow> (concat (map (\<lambda>w. map ((@) w) vs) ws), whole'))
        else (ws, whole))"
| "heads_of (RAlt a b) = (fst (heads_of a) @ fst (heads_of b), snd (heads_of a) \<and> snd (heads_of b))"
| "heads_of (RGroup k r) = heads_of r"
| "heads_of r = ([[]], False)"

lemma plain_bounds:
  assumes "plain_rx r" and "spans fl s r i j" and "i \<le> length s"
  shows "i \<le> j" and "j \<le> length s"
  using reaches_step [OF ways_spans [OF assms(1)] ways_forward assms(2,3)] by simp_all

lemma slice_append: "i \<le> k \<Longrightarrow> k \<le> j \<Longrightarrow> py_slice s i j = py_slice s i k @ py_slice s k j"
  unfolding py_slice_def by (metis drop_drop le_add_diff_inverse2 le_add_diff_inverse take_add Nat.add_diff_assoc2)

lemma cases_lower: "a \<in> set (cases_of fl c) \<Longrightarrow> lower_char a = lower_char c"
  by (auto simp: cases_of_def lower_char_def upper_char_def split: if_splits)

lemma spans_head:
  assumes "plain_rx r" and "spans fl s r i j" and "i \<le> length s"
  shows "\<exists>w\<in>set (fst (heads_of r)). prefix w (py_lower (py_slice s i j))
    \<and> (snd (heads_of r) \<longrightarrow> py_lower (py_slice s i j) = w)"
  using assms
proof (induction r arbitrary: i j)
  case (RChar c)
  then show ?case by (auto simp: py_slice_def py_lower_def Cons_nth_drop_Suc [symmetric] cases_lower)
next
  case (RSeq a b)
  then obtain k where k: "spans fl s a i k" "spans fl s b k j" "plain_rx a" "plain_rx b" by auto
  from plain_bounds [OF k(3,1) RSeq.prems(3)] have b: "i \<le> k" "k \<le> length s" by simp_all
  from plain_bounds [OF k(4,2) b(2)] have j: "k \<le> j" by simp
  have split: "py_lower (py_slice s i j) = py_lower (py_slice s i k) @ py_lower (py_slice s k j)"
    by (simp add: slice_append [OF b(1) j] py_lower_def)
  from RSeq.IH(1) [OF k(3,1) RSeq.prems(3)] obtain w where w: "w \<in> set (fst (heads_of a))"
    "prefix w (py_lower (py_slice s i k))" "snd (heads_of a) \<longrightarrow> py_lower (py_slice s i k) = w" by blast
  from RSeq.IH(2) [OF k(4,2) b(2)] obtain v where v: "v \<in> set (fst (heads_of b))"
    "prefix v (py_lower (py_slice s k j))" "snd (heads_of b) \<longrightarrow> py_lower (py_slice s k j) = v" by blast
  show ?case
  proof (cases "snd (heads_of a)")
    case True
    with w v show ?thesis by (intro bexI [of _ "w @ v"]) (auto simp: split split_beta)
  next
    case False
    with w show ?thesis by (intro bexI [of _ w]) (auto simp: split split_beta)
  qed
next
  case (RAlt a b)
  then consider "spans fl s a i j" | "spans fl s b i j" by auto
  then show ?case
  proof cases
    case 1
    with RAlt.IH(1) [of i j] RAlt.prems show ?thesis by auto
  next
    case 2
    with RAlt.IH(2) [of i j] RAlt.prems show ?thesis by auto
  qed
next
  case REmpty
  then show ?case by (simp add: py_slice_def py_lower_def)
qed auto

lemma slice_sublist: "sublist (py_slice s i j) s"
  unfolding py_slice_def by (meson sublist_drop sublist_order.order.trans sublist_take)

lemma lower_sublist: "sublist x s \<Longrightarrow> sublist (py_lower x) (py_lower s)"
  unfolding sublist_def py_lower_def by (metis map_append)

lemma found_contains_head:
  assumes "plain_rx (rg_rx r)" and "re_found r s"
  shows "\<exists>w\<in>set (fst (heads_of (rg_rx r))). sublist w (py_lower s)"
proof -
  from assms obtain i j where ij: "i \<le> length s" "spans (rg_flags r) s (rg_rx r) i j"
    by (auto simp: re_found_iff)
  from spans_head [OF assms(1) ij(2,1)] obtain w where "w \<in> set (fst (heads_of (rg_rx r)))"
    "prefix w (py_lower (py_slice s i j))" by blast
  moreover have "sublist (py_lower (py_slice s i j)) (py_lower s)" by (rule lower_sublist [OF slice_sublist])
  ultimately show ?thesis by (meson prefix_imp_sublist sublist_order.order.trans)
qed

subsection \<open>The first match\<close>

lemma match_at_None: "match_at r s False i = None \<longleftrightarrow> ways_at r s i = []"
  by (auto simp: match_at_def split: list.splits)

lemma ways_at_iff:
  assumes "plain_rx (rg_rx r)" and "i \<le> length s"
  shows "ways_at r s i \<noteq> [] \<longleftrightarrow> (\<exists>j. spans (rg_flags r) s (rg_rx r) i j)"
proof -
  have "ways_at r s i \<noteq> [] \<longleftrightarrow> (\<exists>j c'. (j, c') \<in> set (ways_at r s i))" by (cases "ways_at r s i") auto
  with reachesD [OF ways_spans [OF assms(1)] assms(2)] show ?thesis by (simp add: ways_at_def)
qed

lemma re_match0_iff:
  "plain_rx (rg_rx r) \<Longrightarrow> re_match0 r s \<noteq> None \<longleftrightarrow> (\<exists>j. spans (rg_flags r) s (rg_rx r) 0 j)"
  unfolding re_match0_def match_at_None by (rule ways_at_iff) simp_all

lemma first_at_upt:
  "first_at f [a..<b] = Some x \<Longrightarrow> \<exists>i. a \<le> i \<and> i < b \<and> f i = Some x \<and> (\<forall>k. a \<le> k \<and> k < i \<longrightarrow> f k = None)"
proof (induction "b - a" arbitrary: a)
  case (Suc n)
  then have l: "[a..<b] = a # [Suc a..<b]" "a < b" by (simp_all add: upt_rec)
  show ?case
  proof (cases "f a")
    case None
    have "n = b - Suc a" using Suc.hyps(2) by simp
    moreover have "first_at f [Suc a..<b] = Some x" using Suc.prems l(1) None by simp
    ultimately obtain i where i: "Suc a \<le> i" "i < b" "f i = Some x" "\<forall>k. Suc a \<le> k \<and> k < i \<longrightarrow> f k = None"
      using Suc.hyps(1) by blast
    have "f k = None" if "a \<le> k" "k < i" for k
      using that None i(4) by (cases "k = a") auto
    with i show ?thesis by (intro exI [of _ i]) simp
  next
    case (Some y)
    with Suc.prems l show ?thesis by (intro exI [of _ a]) auto
  qed
qed simp

lemma re_search_leftmost:
  assumes "plain_rx (rg_rx r)" and "re_search r s = Some m"
  shows "spans (rg_flags r) s (rg_rx r) (mt_start m) (mt_end m)" and "mt_start m \<le> length s"
    and "\<And>k j. k < mt_start m \<Longrightarrow> \<not> spans (rg_flags r) s (rg_rx r) k j"
proof -
  from first_at_upt [OF assms(2) [unfolded re_search_def search_from_def]] obtain i where
    i: "i \<le> length s" "match_at r s False i = Some m" "\<forall>k<i. match_at r s False k = None"
    by (auto simp: less_Suc_eq_le)
  note b = match_at_bounds [OF i(2,1)]
  show "mt_start m \<le> length s" using b(1) i(1) by simp
  show "spans (rg_flags r) s (rg_rx r) (mt_start m) (mt_end m)"
    using b(1,5) reachesD [OF ways_spans [OF assms(1)] i(1)] unfolding ways_at_def by blast
  show "\<not> spans (rg_flags r) s (rg_rx r) k j" if "k < mt_start m" for k j
    using i that b(1) ways_at_iff [OF assms(1), of k s] by (auto simp: match_at_None)
qed

lemma finditer_spans:
  assumes "plain_rx (rg_rx r)" and "m \<in> set (finditer r s)"
  shows "spans (rg_flags r) s (rg_rx r) (mt_start m) (mt_end m)" and "mt_start m \<le> length s"
proof -
  have "m \<in> set (matches_from r s ne pos) \<Longrightarrow> \<exists>ne. match_at r s ne (mt_start m) = Some m \<and> mt_start m \<le> length s" for ne pos
  proof (induction r s ne pos rule: matches_from.induct)
    case (1 r s ne pos)
    then obtain m' where m': "search_from r s ne pos = Some m'"
      and "m = m' \<or> m \<in> set (matches_from r s (mt_end m' = mt_start m') (mt_end m'))"
      by (auto simp only: matches_from.simps [of r s ne pos] split: option.splits) auto
    with "1.IH" [OF m'] search_from_Some [OF m'] show ?case by (metis le_trans)
  qed
  with assms(2) obtain ne where m: "match_at r s ne (mt_start m) = Some m" "mt_start m \<le> length s"
    unfolding finditer_def by blast
  show "mt_start m \<le> length s" by (rule m(2))
  show "spans (rg_flags r) s (rg_rx r) (mt_start m) (mt_end m)"
    using match_at_bounds(5) [OF m] reachesD [OF ways_spans [OF assms(1)] m(2)] unfolding ways_at_def by blast
qed

lemma finditer_reaches:
  assumes "plain_rx (rg_rx r)" and "k \<le> length s"
    and "spans (rg_flags r) s (rg_rx r) k e" and "\<And>j. spans (rg_flags r) s (rg_rx r) k j \<Longrightarrow> j \<noteq> k"
    and "\<And>i j. i < k \<Longrightarrow> spans (rg_flags r) s (rg_rx r) i j \<Longrightarrow> j \<le> k"
  shows "\<exists>m\<in>set (finditer r s). mt_start m = k \<and> (mt_end m, mt_caps m) \<in> set (ways_at r s k)"
proof -
  have ways: "(\<exists>c. (j, c) \<in> set (ways_at r s i)) \<longleftrightarrow> spans (rg_flags r) s (rg_rx r) i j" if "i \<le> length s" for i j
    using reachesD [OF ways_spans [OF assms(1)] that] by (simp add: ways_at_def)
  have here: "match_at r s ne k \<noteq> None" for ne
  proof -
    from ways [OF assms(2)] assms(3) obtain c where "(e, c) \<in> set (ways_at r s k)" by blast
    then have "(e, c) \<in> set (filter (\<lambda>(j, c). ne \<longrightarrow> j \<noteq> k) (ways_at r s k))" using assms(4) [OF assms(3)] by simp
    then have "filter (\<lambda>(j, c). ne \<longrightarrow> j \<noteq> k) (ways_at r s k) \<noteq> []" by (metis empty_iff list.set(1))
    then show ?thesis by (auto simp: match_at_def split: list.split)
  qed
  have "pos \<le> k \<Longrightarrow> \<exists>m\<in>set (matches_from r s ne pos). mt_start m = k \<and> (mt_end m, mt_caps m) \<in> set (ways_at r s k)" for ne pos
  proof (induction "2 * (k - pos) + (if ne then 0 else 1)" arbitrary: ne pos rule: less_induct)
    case less
    have "search_from r s ne pos \<noteq> None"
      using here assms(2) less.prems by (auto simp: search_from_def first_at_None less_Suc_eq_le simp del: upt_Suc intro!: bexI [of _ k])
    then obtain m where m: "search_from r s ne pos = Some m" by blast
    from first_at_upt [OF this [unfolded search_from_def]] obtain i where i: "pos \<le> i" "i \<le> length s"
      "match_at r s (ne \<and> i = pos) i = Some m" "\<forall>h. pos \<le> h \<and> h < i \<longrightarrow> match_at r s (ne \<and> h = pos) h = None"
      by (auto simp: less_Suc_eq_le)
    note b = match_at_bounds [OF i(3,2)]
    have "i \<le> k" using i(4) here [of "ne \<and> k = pos"] less.prems by (meson not_le)
    have step: "matches_from r s ne pos = m # matches_from r s (mt_end m = mt_start m) (mt_end m)"
      by (subst matches_from.simps) (simp add: m)
    show ?case
    proof (cases "i = k")
      case True
      with b step show ?thesis by simp
    next
      case False
      with \<open>i \<le> k\<close> have "i < k" by simp
      moreover have "spans (rg_flags r) s (rg_rx r) i (mt_end m)" using b(5) ways [OF i(2)] by blast
      ultimately have e: "mt_end m \<le> k" by (rule assms(5))
      have "2 * (k - mt_end m) + (if mt_end m = mt_start m then 0 else 1) < 2 * (k - pos) + (if ne then 0 else 1)"
        using b(1,2,4) i(1) e \<open>i < k\<close> by (cases "mt_end m = i"; cases "i = pos"; cases ne) auto
      from less.hyps [OF this e] step show ?thesis by simp
    qed
  qed
  then show ?thesis unfolding finditer_def by blast
qed

text \<open>The text of a group that stands last but one in a sequence.\<close>

lemma chain_group:
  assumes "list_all plain_rx as" and "plain_rx G" and "plain_rx Q"
    and "\<And>b c j c'. (j, c') \<in> set (ways_of fl s Q b c) \<Longrightarrow> c' = c"
  shows "(j, c') \<in> set (ways_of fl s (foldr RSeq as (RSeq (RGroup g G) Q)) i c) \<Longrightarrow> i \<le> length s \<Longrightarrow>
    \<exists>a b. spans fl s (foldr RSeq as REmpty) i a \<and> spans fl s G a b \<and> spans fl s Q b j \<and> c' g = Some (a, b)"
  using assms(1)
proof (induction as arbitrary: i c)
  case Nil
  then obtain b c1 where "(b, c1) \<in> set (ways_of fl s G i c)" and q: "(j, c') \<in> set (ways_of fl s Q b (c1(g \<mapsto> (i, b))))"
    by (auto simp: seq_ways_def)
  moreover from this(1) have "spans fl s G i b" using reachesD [OF ways_spans [OF assms(2)] Nil.prems(2)] by blast
  moreover from this have "b \<le> length s" using plain_bounds [OF assms(2)] Nil.prems(2) by blast
  moreover from this q have "spans fl s Q b j" using reachesD [OF ways_spans [OF assms(3)]] by blast
  moreover have "c' g = Some (i, b)" using assms(4) [OF q] by simp
  ultimately show ?case by auto
next
  case (Cons a as)
  then obtain k c1 where k: "(k, c1) \<in> set (ways_of fl s a i c)"
    "(j, c') \<in> set (ways_of fl s (foldr RSeq as (RSeq (RGroup g G) Q)) k c1)"
    by (auto simp: seq_ways_def)
  have a: "plain_rx a" "list_all plain_rx as" using Cons.prems(3) by simp_all
  have s: "spans fl s a i k" using k(1) reachesD [OF ways_spans [OF a(1)] Cons.prems(2)] by blast
  have "k \<le> length s" using plain_bounds [OF a(1) s Cons.prems(2)] by simp
  from Cons.IH [OF k(2) this a(2)] s show ?case by auto
qed

lemma takes_only_mono: "takes_only fl s r P \<Longrightarrow> (\<And>x. P x \<longleftrightarrow> Q x) \<Longrightarrow> takes_only fl s r Q"
  by (simp add: takes_only_def)

lemma takes_only_empty: "takes_only fl s REmpty (\<lambda>x. x = [])"
  by (auto simp: takes_only_def)

lemma spans_char_fl: "\<not> fl_ignorecase fl \<Longrightarrow> spans fl s (RChar a) i j \<longleftrightarrow> i < length s \<and> j = i + 1 \<and> s ! i = a"
  by (auto simp: cases_of_def)

lemma takes_only_lits:
  assumes "\<not> fl_ignorecase fl" and "takes_only fl s r P"
  shows "takes_only fl s (foldr RSeq (map RChar t) r) (\<lambda>z. \<exists>y. z = t @ y \<and> P y)"
proof (induction t)
  case Nil
  show ?case using assms(2) by simp
next
  case (Cons c t)
  have c: "takes_only fl s (RChar c) (\<lambda>x. \<exists>d. x = [d] \<and> d = c)"
    by (rule takes_only_one) (rule spans_char_fl [OF assms(1)])
  show ?case
    unfolding list.map foldr.simps comp_apply
    by (rule takes_only_mono [OF takes_only_seq [OF c Cons.IH]]) auto
qed

lemma takes_nth: "takes s i x j \<Longrightarrow> h < length x \<Longrightarrow> x ! h = s ! (i + h)"
proof (induction x arbitrary: i h)
  case (Cons c x)
  then show ?case by (cases h) (auto simp: takes_Cons)
qed simp

lemma spans_foldr: "spans fl s (foldr RSeq as r) = spans fl s (foldr RSeq as REmpty) OO spans fl s r"
  by (induction as) (auto simp: relcompp_assoc fun_eq_iff relcompp_apply)

lemma takes_only_foldr:
  assumes "takes_only fl s (foldr RSeq as REmpty) P" and "takes_only fl s r Q"
  shows "takes_only fl s (foldr RSeq as r) (\<lambda>z. \<exists>x y. z = x @ y \<and> P x \<and> Q y)"
proof -
  have "spans fl s (foldr RSeq as r) = spans fl s (RSeq (foldr RSeq as REmpty) r)"
    using spans_foldr [of fl s as r] by simp
  with takes_only_seq [OF assms] show ?thesis unfolding takes_only_def by simp
qed

subsection \<open>A call with one literal argument\<close>

text \<open>
  The patterns of the decoders: a name, a parenthesis and a quote with white space between them, perhaps a
  prefix of the literal, then the literal's text as the only group, and a quote.
\<close>

definition rx_space :: rx where
  "rx_space = RRep (RSet False [SClass (CHR ''s'')]) 0 None True"

definition rx_quote :: rx where
  "rx_quote = RSet False [SChar (CHR 0x22), SChar (CHR 0x27)]"

definition rx_call :: "string \<Rightarrow> rx list \<Rightarrow> set_item list \<Rightarrow> rx" where
  "rx_call name opt items =
     foldr RSeq (map RChar name @ [rx_space, RChar (CHR ''(''), rx_space] @ opt @ [rx_quote])
       (RSeq (RGroup 1 (RRep (RSet False items) 1 None True)) rx_quote)"

definition quote_char :: "char \<Rightarrow> bool" where
  "quote_char c \<longleftrightarrow> c = CHR 0x22 \<or> c = CHR 0x27"

lemma takes_space: "takes_only fl s rx_space (list_all is_space)"
  unfolding rx_space_def
  by (rule takes_only_mono [OF takes_only_rep [where P = is_space]]) (auto simp: class_has_def)

lemma takes_quote: "\<not> fl_ignorecase fl \<Longrightarrow> takes_only fl s rx_quote (\<lambda>x. \<exists>q. x = [q] \<and> quote_char q)"
  unfolding rx_quote_def by (rule takes_only_one) (auto simp: cases_of_def quote_char_def)

lemma takes_head:
  assumes "\<not> fl_ignorecase fl" and "takes_only fl s (foldr RSeq opt REmpty) (\<lambda>x. x \<in> set ps)"
  shows "takes_only fl s (foldr RSeq (map RChar name @ [rx_space, RChar (CHR ''(''), rx_space] @ opt @ [rx_quote]) REmpty)
    (\<lambda>x. \<exists>w1 w2 p q. x = name @ w1 @ ''('' @ w2 @ p @ [q] \<and> list_all is_space w1 \<and> list_all is_space w2
       \<and> p \<in> set ps \<and> quote_char q)"
proof -
  have par: "takes_only fl s (RChar (CHR ''('')) (\<lambda>x. \<exists>d. x = [d] \<and> d = CHR ''('')"
    by (rule takes_only_one) (rule spans_char_fl [OF assms(1)])
  note q = takes_only_seq [OF takes_quote [OF assms(1)] takes_only_empty, of s]
  have opt: "takes_only fl s (foldr RSeq (opt @ [rx_quote]) REmpty) (\<lambda>x. \<exists>p q. x = p @ [q] \<and> p \<in> set ps \<and> quote_char q)"
    unfolding foldr_append foldr.simps comp_apply id_apply
    by (rule takes_only_mono [OF takes_only_foldr [OF assms(2) q]]) auto
  have "takes_only fl s (foldr RSeq ([rx_space, RChar (CHR ''(''), rx_space] @ opt @ [rx_quote]) REmpty)
    (\<lambda>x. \<exists>w1 w2 p q. x = w1 @ ''('' @ w2 @ p @ [q] \<and> list_all is_space w1 \<and> list_all is_space w2
       \<and> p \<in> set ps \<and> quote_char q)"
    unfolding append_Cons append_Nil foldr.simps comp_apply
    by (rule takes_only_mono [OF takes_only_seq [OF takes_space takes_only_seq [OF par
          takes_only_seq [OF takes_space opt]]]]) fastforce
  from takes_only_lits [OF assms(1) this, of name] show ?thesis
    unfolding foldr_append
    by (rule takes_only_mono) fastforce
qed

lemma unique_nth: "(a @ c # b) ! h = c \<Longrightarrow> h < length (a @ c # b) \<Longrightarrow> c \<notin> set a \<Longrightarrow> c \<notin> set b \<Longrightarrow> h = length a"
  by (auto simp: nth_append nth_Cons' split: if_splits)

lemma run_unique:
  assumes "g @ [c] @ x = h @ [d] @ y" and "list_all P g" and "list_all P h" and "\<not> P c" and "\<not> P d"
  shows "g = h"
proof -
  have "takeWhile P (g @ [c] @ x) = g" using assms(2,4) by (simp add: takeWhile_append2 list_all_iff)
  moreover have "takeWhile P (h @ [d] @ y) = h" using assms(3,5) by (simp add: takeWhile_append2 list_all_iff)
  ultimately show ?thesis using assms(1) by simp
qed

lemma call_group_found:
  fixes name :: string
  assumes rx: "rg_rx r = rx_call name opt items" and fl: "\<not> fl_ignorecase (rg_flags r)"
    and opt: "takes_only (rg_flags r) s (foldr RSeq opt REmpty) (\<lambda>x. x \<in> set ps)" "list_all plain_rx opt"
      "[] \<in> set ps" "\<forall>p\<in>set ps. set p \<subseteq> set ''bf''"
    and items: "\<And>c. P c \<longleftrightarrow> list_ex (item_has (rg_flags r) c) items" "\<And>c. quote_char c \<Longrightarrow> \<not> P c" "\<not> P (CHR ''('')"
    and name: "name \<noteq> []" "\<not> is_space (last name)" "CHR ''('' \<notin> set name" "\<forall>c\<in>set name. \<not> quote_char c"
    and s: "s = u @ (name @ ''('' @ [q] @ enc @ [q']) @ v" and q: "quote_char q" "quote_char q'"
    and enc: "enc \<noteq> []" "list_all P enc"
  shows "enc \<in> set (findall1 r s)"
proof -
  let ?fl = "rg_flags r"
  let ?as = "map RChar name @ [rx_space, RChar (CHR ''(''), rx_space] @ opt @ [rx_quote]"
  let ?G = "RRep (RSet False items) 1 None True"
  let ?k = "length u"
  let ?lit = "name @ ''('' @ [q] @ enc @ [q']"
  let ?head = "\<lambda>x. \<exists>w1 w2 p q. x = name @ w1 @ ''('' @ w2 @ p @ [q] \<and> list_all is_space w1 \<and> list_all is_space w2
       \<and> p \<in> set ps \<and> quote_char q"
  have rx': "rg_rx r = foldr RSeq ?as (RSeq (RGroup 1 ?G) rx_quote)" by (simp add: rx rx_call_def)
  have head: "takes_only ?fl s (foldr RSeq ?as REmpty) ?head" by (rule takes_head [OF fl opt(1)])
  have G: "takes_only ?fl s ?G (\<lambda>x. 1 \<le> length x \<and> list_all P x)"
    by (rule takes_only_mono [OF takes_only_rep [where P = P]]) (auto simp: items(1))
  have G': "takes_only ?fl s (RGroup 1 ?G) (\<lambda>x. 1 \<le> length x \<and> list_all P x)"
    using G by (simp add: takes_only_def)
  have all: "takes_only ?fl s (rg_rx r) (\<lambda>z. \<exists>x y. z = x @ y \<and> ?head x
      \<and> (\<exists>g h. y = g @ h \<and> (1 \<le> length g \<and> list_all P g) \<and> (\<exists>q. h = [q] \<and> quote_char q)))"
    unfolding rx' by (rule takes_only_foldr [OF head takes_only_seq [OF G' takes_quote [OF fl]]])
  have plain_as: "list_all plain_rx ?as" using opt(2) by (auto simp: list_all_iff rx_space_def rx_quote_def)
  have plain_fold: "plain_rx (foldr RSeq as x)" if "list_all plain_rx as" "plain_rx x" for as x
    using that by (induction as) simp_all
  have plain: "plain_rx (rg_rx r)"
    unfolding rx' by (rule plain_fold [OF plain_as]) (simp add: rx_quote_def)
  have k: "?k \<le> length s" by (simp add: s)
  have whole: "takes s ?k ?lit (?k + length ?lit)" by (simp add: s takes_def)
  have "?head (name @ [] @ ''('' @ [] @ [] @ [q])"
    by (rule exI [of _ "[]"], rule exI [of _ "[]"], rule exI [of _ "[]"], rule exI [of _ q]) (use opt(3) q(1) in simp)
  then have "?head (name @ ''('' @ [q])" by simp
  moreover have "?lit = (name @ ''('' @ [q]) @ (enc @ [q'])" by simp
  moreover have "1 \<le> length enc \<and> list_all P enc" using enc by (simp add: Suc_leI)
  ultimately have start: "spans ?fl s (rg_rx r) ?k (?k + length ?lit)"
    unfolding takes_onlyD [OF all] using whole q(2) by blast
  have nonempty: "j \<noteq> ?k" if "spans ?fl s (rg_rx r) ?k j" for j
    using that name(1) unfolding takes_onlyD [OF all] by (auto simp: takes_def)
  have apart: "j \<le> ?k" if i: "i < ?k" and sp: "spans ?fl s (rg_rx r) i j" for i j
  proof (rule ccontr)
    assume j: "\<not> j \<le> ?k"
    from sp [unfolded takes_onlyD [OF all]] obtain w1 w2 p q1 g q2 where
      x: "takes s i ((name @ w1) @ CHR ''('' # (w2 @ p @ [q1] @ g @ [q2])) j" "list_all is_space w1" "list_all is_space w2"
        "p \<in> set ps" "quote_char q1" "list_all P g" "quote_char q2"
      by auto
    let ?x = "(name @ w1) @ CHR ''('' # (w2 @ p @ [q1] @ g @ [q2])"
    have jx: "j = i + length ?x" using x(1) by (simp add: takes_def)
    have nths: "?x ! h = s ! (i + h)" if "h < length ?x" for h by (rule takes_nth [OF x(1) that])
    have nopar: "CHR ''('' \<notin> set (name @ w1)" "CHR ''('' \<notin> set (w2 @ p @ [q1] @ g @ [q2])"
      using name(3) x(2-7) opt(4) items(3) by (auto simp: list_all_iff is_space_def quote_char_def)
    show False
    proof (cases "j \<le> ?k + length name")
      case True
      have "?x ! (length ?x - 1) = q2" by (simp add: nth_append)
      moreover have "?x ! (length ?x - 1) = s ! (j - 1)" using nths [of "length ?x - 1"] jx by simp
      moreover have "s ! (j - 1) = name ! (j - 1 - ?k)" using True j by (auto simp: s nth_append)
      moreover have "j - 1 - ?k < length name" using True j by linarith
      ultimately have "q2 \<in> set name" using nth_mem by metis
      then show False using name(4) x(7) by blast
    next
      case False
      let ?h = "?k + length name - i"
      have h: "?h < length ?x" "i + ?h = ?k + length name" using False jx i by linarith+
      have "s ! (?k + length name) = CHR ''(''" by (simp add: s nth_append)
      then have "?x ! ?h = CHR ''(''" using nths [OF h(1)] h(2) by simp
      from unique_nth [OF this h(1) nopar] have "?h = length (name @ w1)" .
      then have w1: "length w1 = ?k - i" using i by simp
      then have "w1 \<noteq> []" using i by auto
      then have last: "?x ! (?h - 1) = last w1" using \<open>?h = _\<close> by (cases w1 rule: rev_cases) (auto simp: nth_append)
      have "?h - 1 < length ?x" using h(1) by simp
      from nths [OF this] last have "last w1 = s ! (i + (?h - 1))" by simp
      also have "i + (?h - 1) = ?k + (length name - 1)" using i name(1) by (cases name) auto
      also have "s ! (?k + (length name - 1)) = last name" using name(1) by (simp add: s nth_append last_conv_nth)
      finally show False using name(2) x(2) last_in_set [OF \<open>w1 \<noteq> []\<close>] by (auto simp: list_all_iff)
    qed
  qed
  have "\<exists>m\<in>set (finditer r s). mt_start m = ?k \<and> (mt_end m, mt_caps m) \<in> set (ways_at r s ?k)"
    by (rule finditer_reaches [OF plain k start]) (use nonempty apart in blast)+
  then obtain m where m: "m \<in> set (finditer r s)" "(mt_end m, mt_caps m) \<in> set (ways_at r s ?k)" by blast
  have keep: "c' = c" if "(j, c') \<in> set (ways_of ?fl s rx_quote b c)" for b c j c'
    using that by (auto simp: rx_quote_def one_char_def split: if_splits)
  have "\<exists>a b. spans ?fl s (foldr RSeq ?as REmpty) ?k a \<and> spans ?fl s ?G a b \<and> spans ?fl s rx_quote b (mt_end m)
      \<and> mt_caps m 1 = Some (a, b)"
    by (rule chain_group [OF plain_as _ _ _ m(2) [unfolded ways_at_def rx'] k])
      (simp_all add: rx_quote_def keep [unfolded rx_quote_def])
  then obtain a b where
    ab: "spans ?fl s (foldr RSeq ?as REmpty) ?k a" "spans ?fl s ?G a b" "spans ?fl s rx_quote b (mt_end m)"
      "mt_caps m 1 = Some (a, b)"
    by blast
  from ab(1) [unfolded takes_onlyD [OF head]] obtain w1 w2 p q1 where
    x: "takes s ?k (name @ w1 @ ''('' @ w2 @ p @ [q1]) a" "list_all is_space w1" "list_all is_space w2" "p \<in> set ps" "quote_char q1"
    by blast
  from ab(2) [unfolded takes_onlyD [OF G]] obtain g where g: "takes s a g b" "list_all P g" by blast
  from ab(3) [unfolded takes_onlyD [OF takes_quote [OF fl]]] obtain q2 where q2: "takes s b [q2] (mt_end m)" "quote_char q2" by blast
  have "takes s ?k ((name @ w1 @ ''('' @ w2 @ p @ [q1]) @ g @ [q2]) (mt_end m)"
    using x(1) g(1) q2(1) takes_append by blast
  then obtain z where "drop ?k s = ((name @ w1 @ ''('' @ w2 @ p @ [q1]) @ g @ [q2]) @ z" by (auto simp: takes_def prefix_def)
  then have eq: "w1 @ ''('' @ w2 @ p @ [q1] @ g @ [q2] @ z = ''('' @ [q] @ enc @ [q'] @ v" by (simp add: s)
  have w1: "w1 = []" using eq x(2) by (cases w1) (auto simp: is_space_def)
  have w2: "w2 = []" using eq w1 x(3) q(1) by (cases w2) (auto simp: is_space_def quote_char_def)
  have "p = []" using eq w1 w2 x(4) opt(4) q(1) by (cases p) (fastforce simp: quote_char_def)+
  with eq w1 w2 have "g @ [q2] @ z = enc @ [q'] @ v" by simp
  from run_unique [OF this g(2) enc(2)] items(2) q2(2) q(2) have "g = enc" by blast
  then have "group_of s m 1 = Some enc" using takes_slice [OF g(1)] ab(4) by (simp add: group_of_def)
  with m(1) show ?thesis unfolding findall1_def by force
qed

end
