(* ===== verification/RuntimeFilters.thy ===== *)
theory RuntimeFilters
  imports RuntimeExtract RegexLemmas
begin

text \<open>
  What the filters of the extractor (\<^verbatim>\<open>intel/extractor.py\<close>) let through, written without its regular
  expressions: addresses outside the private networks, paths with credentials, digests.
\<close>


subsection \<open>Addresses\<close>

text \<open>Four numbers of one to three digits, not inside a longer word.\<close>

definition octet :: "string \<Rightarrow> bool" where
  "octet d = (1 \<le> length d \<and> length d \<le> 3 \<and> list_all is_digit d)"

definition dotted_quad :: "string \<Rightarrow> bool" where
  "dotted_quad q \<longleftrightarrow> (\<exists>a b c d. q = a @ ''.'' @ b @ ''.'' @ c @ ''.'' @ d \<and> octet a \<and> octet b \<and> octet c \<and> octet d)"

definition address_in :: "string \<Rightarrow> string \<Rightarrow> string \<Rightarrow> bool" where
  "address_in u q v \<longleftrightarrow> dotted_quad q \<and> (u = [] \<or> \<not> is_word (last u)) \<and> (v = [] \<or> \<not> is_word (hd v))"

text \<open>Loopback, the private networks and the link-local network.\<close>

definition private_address :: "string \<Rightarrow> bool" where
  "private_address q =
     (list_ex (\<lambda>p. startswith q p) [''127.'', ''10.'', ''192.168.'', ''169.254.'']
      \<or> list_ex (\<lambda>n. startswith q (''172.'' @ n @ ''.''))
          [''16'', ''17'', ''18'', ''19'', ''20'', ''21'', ''22'', ''23'', ''24'', ''25'', ''26'', ''27'', ''28'', ''29'',
           ''30'', ''31''])"

text \<open>The expression for addresses takes exactly these texts.\<close>

lemma ipv4_rx: "rg_flags IPV4_RE = no_flags"
  "rg_rx IPV4_RE = RSeq (RWordB True)
     (RSeq (RRep (RSeq (RRep (RSet False [SClass (CHR ''d'')]) 1 (Some 3) True) (RChar (CHR ''.''))) 3 (Some 3) True)
        (RSeq (RRep (RSet False [SClass (CHR ''d'')]) 1 (Some 3) True) (RWordB True)))"
  by (simp add: IPV4_RE_def re_compile_def) code_simp

lemma takes_octet: "takes_only fl s (RRep (RSet False [SClass (CHR ''d'')]) 1 (Some 3) True) octet"
  using takes_digits [of fl s 1 "Some 3" True] by (simp add: octet_def [abs_def])

lemma takes_quad:
  "takes_only no_flags s
     (RSeq (RRep (RSeq (RRep (RSet False [SClass (CHR ''d'')]) 1 (Some 3) True) (RChar (CHR ''.''))) 3 (Some 3) True)
        (RRep (RSet False [SClass (CHR ''d'')]) 1 (Some 3) True)) dotted_quad"
proof -
  have "takes_only no_flags s (RSeq (RRep (RSet False [SClass (CHR ''d'')]) 1 (Some 3) True) (RChar (CHR ''.'')))
      (\<lambda>z. \<exists>x y. z = x @ y \<and> octet x \<and> (\<exists>c. y = [c] \<and> c = CHR ''.''))"
    by (intro takes_only_seq takes_octet takes_char)
  moreover have "(\<lambda>z. \<exists>x y. z = x @ y \<and> octet x \<and> (\<exists>c. y = [c] \<and> c = CHR ''.'')) = (\<lambda>z. \<exists>x. z = x @ ''.'' \<and> octet x)"
    by auto
  ultimately have "takes_only no_flags s (RSeq (RRep (RSet False [SClass (CHR ''d'')]) 1 (Some 3) True) (RChar (CHR ''.'')))
      (\<lambda>z. \<exists>x. z = x @ ''.'' \<and> octet x)" by simp
  from takes_only_seq [OF takes_only_rep3 [OF this] takes_octet]
  have "takes_only no_flags s
     (RSeq (RRep (RSeq (RRep (RSet False [SClass (CHR ''d'')]) 1 (Some 3) True) (RChar (CHR ''.''))) 3 (Some 3) True)
        (RRep (RSet False [SClass (CHR ''d'')]) 1 (Some 3) True))
     (\<lambda>z. \<exists>x y. z = x @ y \<and> (\<exists>a b c. x = a @ b @ c \<and> (\<exists>x. a = x @ ''.'' \<and> octet x) \<and> (\<exists>x. b = x @ ''.'' \<and> octet x)
        \<and> (\<exists>x. c = x @ ''.'' \<and> octet x)) \<and> octet y)" .
  moreover have "(\<exists>x y. z = x @ y \<and> (\<exists>a b c. x = a @ b @ c \<and> (\<exists>x. a = x @ ''.'' \<and> octet x) \<and> (\<exists>x. b = x @ ''.'' \<and> octet x)
        \<and> (\<exists>x. c = x @ ''.'' \<and> octet x)) \<and> octet y) \<longleftrightarrow> dotted_quad z" (is "?l \<longleftrightarrow> _") for z
  proof
    assume ?l
    then obtain a b c d where "z = ((a @ ''.'') @ (b @ ''.'') @ (c @ ''.'')) @ d" "octet a" "octet b" "octet c" "octet d"
      by blast
    then show "dotted_quad z" unfolding dotted_quad_def
      by (intro exI [of _ a] exI [of _ b] exI [of _ c] exI [of _ d]) simp
  next
    assume "dotted_quad z"
    then obtain a b c d where "z = a @ ''.'' @ b @ ''.'' @ c @ ''.'' @ d" "octet a" "octet b" "octet c" "octet d"
      unfolding dotted_quad_def by blast
    then have "z = ((a @ ''.'') @ (b @ ''.'') @ (c @ ''.'')) @ d" by simp
    with \<open>octet a\<close> \<open>octet b\<close> \<open>octet c\<close> \<open>octet d\<close> show ?l by blast
  qed
  ultimately show ?thesis by simp
qed

lemma quad_shape: "dotted_quad q \<Longrightarrow> q \<noteq> [] \<and> is_digit (hd q) \<and> is_digit (last q)"
  by (auto simp: dotted_quad_def octet_def neq_Nil_conv Suc_le_length_iff list_all_iff last_in_set)

lemma digit_word: "is_digit c \<Longrightarrow> is_word c"
  by (simp add: is_digit_def is_word_def)

lemma spans_ipv4:
  "spans no_flags s (rg_rx IPV4_RE) i j
    \<longleftrightarrow> (\<exists>q. dotted_quad q \<and> takes s i q j \<and> at_boundary s i \<and> at_boundary s j)"
proof -
  let ?q = "RSeq (RRep (RSeq (RRep (RSet False [SClass (CHR ''d'')]) 1 (Some 3) True) (RChar (CHR ''.''))) 3 (Some 3) True)
        (RRep (RSet False [SClass (CHR ''d'')]) 1 (Some 3) True)"
  have "spans no_flags s (rg_rx IPV4_RE) = spans no_flags s (RWordB True) OO spans no_flags s ?q OO spans no_flags s (RWordB True)"
    by (simp only: ipv4_rx spans.simps(8) relcompp_assoc)
  then have "spans no_flags s (rg_rx IPV4_RE) i j \<longleftrightarrow> spans no_flags s ?q i j \<and> at_boundary s i \<and> at_boundary s j"
    by (auto simp del: spans.simps(8) spans.simps(10))
  then show ?thesis by (auto simp only: takes_onlyD [OF takes_quad])
qed

lemma address_spans:
  "address_in u q v \<longleftrightarrow> dotted_quad q \<and> at_boundary (u @ q @ v) (length u) \<and> at_boundary (u @ q @ v) (length u + length q)"
proof (cases "dotted_quad q")
  case True
  then have q: "q \<noteq> []" "is_word (hd q)" "is_word (last q)" using quad_shape digit_word by blast+
  have "at_boundary (u @ q @ v) (length u) \<longleftrightarrow> u = [] \<or> \<not> is_word (last u)"
    using q by (cases u rule: rev_cases) (auto simp: at_boundary_def at_word_def nth_append hd_conv_nth)
  moreover have "at_boundary (u @ q @ v) (length u + length q) \<longleftrightarrow> v = [] \<or> \<not> is_word (hd v)"
    using q by (cases q rule: rev_cases; cases v) (auto simp: at_boundary_def at_word_def nth_append)
  ultimately show ?thesis using True by (simp add: address_in_def)
qed (simp add: address_in_def)

lemma spans_address:
  assumes "i \<le> length s"
  shows "spans no_flags s (rg_rx IPV4_RE) i j \<longleftrightarrow>
    (\<exists>u q v. s = u @ q @ v \<and> i = length u \<and> j = i + length q \<and> address_in u q v)"
proof
  assume "spans no_flags s (rg_rx IPV4_RE) i j"
  then obtain q where q: "dotted_quad q" "takes s i q j" "at_boundary s i" "at_boundary s j"
    by (auto simp: spans_ipv4)
  from takes_split [OF q(2) assms] have s: "s = take i s @ q @ drop j s" .
  moreover have "length (take i s) = i" "j = i + length q" using assms q(2) by (simp_all add: takes_def)
  ultimately show "\<exists>u q v. s = u @ q @ v \<and> i = length u \<and> j = i + length q \<and> address_in u q v"
    using q by (intro exI [of _ "take i s"] exI [of _ q] exI [of _ "drop j s"]) (metis address_spans)
next
  assume "\<exists>u q v. s = u @ q @ v \<and> i = length u \<and> j = i + length q \<and> address_in u q v"
  then show "spans no_flags s (rg_rx IPV4_RE) i j"
    by (auto simp: spans_ipv4 address_spans takes_def)
qed

text \<open>The third alternative of the internal networks, \<^verbatim>\<open>172.16.\<close> to \<^verbatim>\<open>172.31.\<close>.\<close>

definition rx_172 :: rx where
  "rx_172 = RSeq (RChar (CHR ''1'')) (RSeq (RChar (CHR ''7'')) (RSeq (RChar (CHR ''2'')) (RSeq (RChar (CHR ''.''))
        (RSeq (RAlt (RSeq (RChar (CHR ''1'')) (RSet False [SRange (CHR ''6'') (CHR ''9'')]))
           (RAlt (RSeq (RChar (CHR ''2'')) (RSet False [SClass (CHR ''d'')]))
              (RSeq (RChar (CHR ''3'')) (RSet False [SChar (CHR ''0''), SChar (CHR ''1'')])))) (RChar (CHR ''.''))))))"

lemma internal_rx: "rg_flags INTERNAL_IPS_RE = no_flags"
  "rg_rx INTERNAL_IPS_RE = RSeq RBegin (RAlt (rx_lit ''127.'') (RAlt (rx_lit ''10.'') (RAlt rx_172
     (RAlt (rx_lit ''192.168.'') (RAlt (rx_lit ''169.254.'') (RAlt (rx_lit ''::1'') (rx_lit ''fe80:'')))))))"
  by (simp add: INTERNAL_IPS_RE_def re_compile_def) code_simp

lemma spans_lit_here: "spans no_flags (t @ w) (rx_lit t) 0 (length t)"
  by (subst spans_lit) (simp_all add: no_flags_def py_slice_def)

lemma spans_172:
  assumes "e = CHR ''1'' \<and> f \<in> set ''6789'' \<or> e = CHR ''2'' \<and> f \<in> set ''0123456789'' \<or> e = CHR ''3'' \<and> f \<in> set ''01''"
  shows "spans no_flags (''172.'' @ e # f # CHR ''.'' # w) rx_172 0 7"
proof -
  let ?s = "''172.'' @ e # f # CHR ''.'' # w"
  have "spans no_flags ?s (RChar (CHR ''1'')) 0 1" "spans no_flags ?s (RChar (CHR ''7'')) 1 2"
    "spans no_flags ?s (RChar (CHR ''2'')) 2 3" "spans no_flags ?s (RChar (CHR ''.'')) 3 4"
    "spans no_flags ?s (RChar (CHR ''.'')) 6 7"
    unfolding spans_char by simp_all
  moreover have "spans no_flags ?s (RAlt (RSeq (RChar (CHR ''1'')) (RSet False [SRange (CHR ''6'') (CHR ''9'')]))
           (RAlt (RSeq (RChar (CHR ''2'')) (RSet False [SClass (CHR ''d'')]))
              (RSeq (RChar (CHR ''3'')) (RSet False [SChar (CHR ''0''), SChar (CHR ''1'')])))) 4 6"
    using assms by (elim disjE) (auto simp: relcompp_apply cases_of_def no_flags_def class_has_def in_range_def is_digit_def)
  ultimately show ?thesis unfolding rx_172_def spans.simps(8) by (meson relcomppI)
qed

lemma private_internal: "private_address q \<Longrightarrow> is_internal_ip q"
proof -
  assume "private_address q"
  then consider (lit) t w where "t \<in> set [''127.'', ''10.'', ''192.168.'', ''169.254.'']" "q = t @ w"
    | (net) n w where "n \<in> set [''16'', ''17'', ''18'', ''19'', ''20'', ''21'', ''22'', ''23'', ''24'', ''25'', ''26'',
         ''27'', ''28'', ''29'', ''30'', ''31'']" "q = (''172.'' @ n @ ''.'') @ w"
    unfolding private_address_def list_ex_iff prefix_def by blast
  then have "\<exists>r j. r \<in> {rx_lit ''127.'', rx_lit ''10.'', rx_172, rx_lit ''192.168.'', rx_lit ''169.254.''} \<and> spans no_flags q r 0 j"
  proof cases
    case lit
    then show ?thesis using spans_lit_here [of t w] by (intro exI [of _ "rx_lit t"] exI [of _ "length t"]) auto
  next
    case net
    then obtain e f where "n = [e, f]"
      "e = CHR ''1'' \<and> f \<in> set ''6789'' \<or> e = CHR ''2'' \<and> f \<in> set ''0123456789'' \<or> e = CHR ''3'' \<and> f \<in> set ''01''"
      by auto
    with net(2) spans_172 [of e f w] show ?thesis by (intro exI [of _ rx_172] exI [of _ 7]) simp
  qed
  then have "\<exists>j. spans no_flags q (RAlt (rx_lit ''127.'') (RAlt (rx_lit ''10.'') (RAlt rx_172
     (RAlt (rx_lit ''192.168.'') (RAlt (rx_lit ''169.254.'') (RAlt (rx_lit ''::1'') (rx_lit ''fe80:''))))))) 0 j"
    unfolding spans.simps(9) by blast
  moreover have "spans no_flags q RBegin 0 0" by (simp add: at_begin_def)
  ultimately have "\<exists>j. spans no_flags q (rg_rx INTERNAL_IPS_RE) 0 j"
    unfolding internal_rx spans.simps(8) by blast
  moreover have "plain_rx (rg_rx INTERNAL_IPS_RE)" by (simp add: internal_rx rx_172_def)
  ultimately show ?thesis using re_match0_iff [of INTERNAL_IPS_RE q] by (simp add: is_internal_ip_def internal_rx(1))
qed

text \<open>What is learned as an external address starts, as its first address, with one outside these networks.\<close>

lemma plain_ipv4: "plain_rx (rg_rx IPV4_RE)" by (simp add: ipv4_rx)

definition external_target :: "string \<Rightarrow> bool" where
  "external_target t \<longleftrightarrow> (\<exists>u q v. t = u @ q @ v \<and> address_in u q v \<and> \<not> private_address q
    \<and> (\<forall>u' q' v'. t = u' @ q' @ v' \<and> address_in u' q' v' \<longrightarrow> length u \<le> length u'))"

lemma external_address:
  assumes "external_ip_in t"
  shows "external_target t"
proof -
  from assms obtain m where m: "re_search IPV4_RE t = Some m" "\<not> is_internal_ip (group0 t m)"
    by (auto simp: external_ip_in_def split: option.splits)
  note l = re_search_leftmost [OF plain_ipv4 m(1), unfolded ipv4_rx(1)]
  from l(1) obtain u q v where t: "t = u @ q @ v" "mt_start m = length u" "mt_end m = mt_start m + length q" "address_in u q v"
    unfolding spans_address [OF l(2)] by blast
  then have "group0 t m = q" by (simp add: group0_def py_slice_def)
  with m(2) private_internal have "\<not> private_address q" by blast
  moreover have "length u \<le> length u'" if "t = u' @ q' @ v'" "address_in u' q' v'" for u' q' v'
  proof (rule ccontr)
    assume "\<not> length u \<le> length u'"
    then have "length u' < mt_start m" using t(2) by simp
    moreover have "spans no_flags t (rg_rx IPV4_RE) (length u') (length u' + length q')"
      using that by (subst spans_address) auto
    ultimately show False using l(3) by blast
  qed
  ultimately show ?thesis using t(1,4) unfolding external_target_def by blast
qed

subsection \<open>Paths\<close>

text \<open>The environment of a process, then the other paths with credentials.\<close>

lemma digits_lower: "list_all is_digit d \<Longrightarrow> py_lower d = d"
  unfolding py_lower_def list_all_iff
  by (intro map_idI) (auto simp: lower_char_def is_digit_def)

lemma proc_rx: "rg_rx (rxI ''/proc/`d+/environ'')
    = RSeq (RChar (CHR ''/'')) (RSeq (RChar (CHR ''p'')) (RSeq (RChar (CHR ''r'')) (RSeq (RChar (CHR ''o''))
       (RSeq (RChar (CHR ''c'')) (RSeq (RChar (CHR ''/'')) (RSeq (RRep (RSet False [SClass (CHR ''d'')]) 1 None True)
       (rx_lit ''/environ'')))))))"
  by (simp add: re_compile_def) code_simp

lemma proc_found:
  assumes "re_found (rxI ''/proc/`d+/environ'') p"
  shows "\<exists>d. d \<noteq> [] \<and> list_all is_digit d \<and> sublist (''/proc/'' @ d @ ''/environ'') (py_lower p)"
proof -
  let ?fl = "rg_flags (rxI ''/proc/`d+/environ'')"
  have "spans ?fl p (rg_rx (rxI ''/proc/`d+/environ''))
      = spans ?fl p (rx_lit ''/proc/'') OO spans ?fl p (RRep (RSet False [SClass (CHR ''d'')]) 1 None True)
        OO spans ?fl p (rx_lit ''/environ'')"
    unfolding proc_rx by (simp only: rx_lit.simps spans.simps(8) relcompp_assoc)
  moreover have "plain_rx (rg_rx (rxI ''/proc/`d+/environ''))" unfolding proc_rx by simp
  ultimately obtain i k l j where s: "i \<le> length p" "spans ?fl p (rx_lit ''/proc/'') i k"
      "spans ?fl p (RRep (RSet False [SClass (CHR ''d'')]) 1 None True) k l" "spans ?fl p (rx_lit ''/environ'') l j"
    using assms by (auto simp: re_found_iff relcompp_apply simp del: spans.simps rx_lit.simps)
  have h: "heads_of (rx_lit ''/proc/'') = ([''/proc/''], True)" "heads_of (rx_lit ''/environ'') = ([''/environ''], True)"
    by code_simp+
  note plain_lit [simp]
  have ik: "i \<le> k" "k \<le> length p" using plain_bounds [OF plain_lit s(2,1)] by simp_all
  from s(3) obtain d where d: "1 \<le> length d" "list_all is_digit d" "takes p k d l"
    using takes_digits [of ?fl p 1 None True] by (auto simp: takes_only_def simp del: spans.simps)
  then have kl: "k \<le> l" "l \<le> length p" "py_slice p k l = d"
    using takes_bound [OF d(3) ik(2)] takes_slice by (auto simp: takes_def)
  have lj: "l \<le> j" using plain_bounds [OF plain_lit s(4) kl(2)] by simp
  have "py_slice p i j = py_slice p i k @ d @ py_slice p l j"
    using slice_append [of i k j p] slice_append [of k l j p] ik(1) kl(1,3) lj by simp
  moreover have "py_lower (py_slice p i k) = ''/proc/''" "py_lower (py_slice p l j) = ''/environ''"
    using spans_head [OF plain_lit s(2,1)] spans_head [OF plain_lit s(4) kl(2)] h by auto
  ultimately have "py_lower (py_slice p i j) = ''/proc/'' @ d @ ''/environ''"
    using digits_lower [OF d(2)] by (simp add: py_lower_def)
  then have "sublist (''/proc/'' @ d @ ''/environ'') (py_lower p)"
    using lower_sublist [OF slice_sublist, of p i j] by simp
  with d show ?thesis by (intro exI [of _ d]) auto
qed

definition credential_path :: "string \<Rightarrow> bool" where
  "credential_path p \<longleftrightarrow>
     list_ex (\<lambda>w. contains w (py_lower p))
       [''/.ssh/'', ''/.aws/credentials'', ''/.aws/config'', ''/.npmrc'', ''/.pypirc'', ''/.netrc'',
        ''/etc/passwd'', ''/etc/shadow'',
        ''library/application support/google/'', ''library/application support/brave/'',
        ''library/application support/firefox/'', ''library/application support/exodus'',
        ''appdata/roaming/mozilla/'', ''appdata/roaming/microsoft/'',
        ''.config/electrum/'', ''.config/exodus/'', ''.config/atomic/'', ''.config/metamask/'']
     \<or> (\<exists>d. d \<noteq> [] \<and> list_all is_digit d \<and> contains (''/proc/'' @ d @ ''/environ'') (py_lower p))"

lemma cred_heads: "map (heads_of o rg_rx) CRED_PATH_PATTERNS =
   [([''/.ssh/''], False), ([''/.aws/credentials''], True),
  ([''/.aws/config''], True), ([''/.npmrc''], True), ([''/.pypirc''], True),
  ([''/.netrc''], True), ([''/etc/passwd''], True),
  ([''/etc/shadow''], True), ([''/proc/''], False),
  ([''library/application support/google/'',
    ''library/application support/brave/'',
    ''library/application support/firefox/''],
   True),
  ([''appdata/roaming/mozilla/'', ''appdata/roaming/microsoft/''], True),
  ([''.config/electrum/'', ''.config/exodus/'', ''.config/atomic/'',
    ''.config/metamask/''],
   True),
  ([''library/application support/exodus''], True)]"
  by code_simp

lemma cred_plain: "list_all (plain_rx o rg_rx) CRED_PATH_PATTERNS"
  by code_simp

lemma sensitive_credential: "is_sensitive_path p \<Longrightarrow> credential_path p"
proof -
  assume "is_sensitive_path p"
  then obtain r where r: "r \<in> set CRED_PATH_PATTERNS" "re_found r p"
    by (auto simp: is_sensitive_path_def any_found_def list_ex_iff)
  show ?thesis
  proof (cases "r = rxI ''/proc/`d+/environ''")
    case True
    with r(2) proc_found show ?thesis by (simp add: credential_path_def)
  next
    case False
    have "plain_rx (rg_rx r)" using cred_plain r(1) by (auto simp: list_all_iff)
    from found_contains_head [OF this r(2)] obtain w where
      w: "w \<in> set (fst (heads_of (rg_rx r)))" "sublist w (py_lower p)" by blast
    obtain k where k: "k < length CRED_PATH_PATTERNS" "r = CRED_PATH_PATTERNS ! k"
      using r(1) by (auto simp: in_set_conv_nth)
    have "k \<noteq> 8" using k False by (auto simp: CRED_PATH_PATTERNS_def)
    moreover have "k < 13" using k(1) by (simp add: CRED_PATH_PATTERNS_def)
    moreover have "heads_of (rg_rx r) = map (heads_of o rg_rx) CRED_PATH_PATTERNS ! k"
      using k by simp
    ultimately show ?thesis
      using w unfolding credential_path_def cred_heads 
      by (auto simp: less_Suc_eq numeral_eq_Suc)
  qed
qed

subsection \<open>Digests\<close>

lemma sha256_rx: "rg_flags SHA256_RE = no_flags"
  "rg_rx SHA256_RE = RSeq (RWordB True) (RSeq (RRep (RSet False
     [SRange (CHR ''a'') (CHR ''f''), SRange (CHR ''A'') (CHR ''F''), SRange (CHR ''0'') (CHR ''9'')]) 64 (Some 64) True)
     (RWordB True))"
  by (simp add: SHA256_RE_def re_compile_def) code_simp

lemma hex_lower:
  "list_ex (item_has no_flags c) [SRange (CHR ''a'') (CHR ''f''), SRange (CHR ''A'') (CHR ''F''), SRange (CHR ''0'') (CHR ''9'')]
   \<Longrightarrow> is_digit (lower_char c) \<or> in_range (CHR ''a'') (CHR ''f'') (lower_char c)"
  by (auto simp: cases_of_def no_flags_def in_range_def is_digit_def lower_char_def)

lemma digest_shape:
  assumes "m \<in> set (finditer SHA256_RE raw)"
  shows "length (py_lower (group0 raw m)) = 64
    \<and> list_all (\<lambda>c. is_digit c \<or> in_range (CHR ''a'') (CHR ''f'') c) (py_lower (group0 raw m))"
proof -
  let ?set = "[SRange (CHR ''a'') (CHR ''f''), SRange (CHR ''A'') (CHR ''F''), SRange (CHR ''0'') (CHR ''9'')]"
  define P where "P = (\<lambda>c. list_ex (item_has no_flags c) ?set)"
  have one: "spans no_flags raw (RSet False ?set) i j \<longleftrightarrow> i < length raw \<and> j = i + 1 \<and> P (raw ! i)" for i j
    by (simp add: P_def)
  have "plain_rx (rg_rx SHA256_RE)" by (simp add: sha256_rx)
  from finditer_spans(1) [OF this assms]
  have "spans no_flags raw (RRep (RSet False ?set) 64 (Some 64) True) (mt_start m) (mt_end m)"
    unfolding sha256_rx by (auto simp del: spans.simps(4,10) simp: relcompp_apply)
  from this [unfolded takes_onlyD [OF takes_only_rep [of no_flags raw "RSet False ?set", OF one]]]
  obtain x where x: "64 \<le> length x" "length x \<le> 64" "list_all P x" "takes raw (mt_start m) x (mt_end m)" by auto
  have "is_digit (lower_char c) \<or> in_range (CHR ''a'') (CHR ''f'') (lower_char c)" if "P c" for c
    using that unfolding P_def by (rule hex_lower)
  then show ?thesis
    using x(1-3) takes_slice [OF x(4)] by (auto simp: group0_def py_lower_def list_all_iff)
qed

end
