(* ===== verification/RuntimeAlert.thy ===== *)
theory RuntimeAlert
  imports RuleGenerator ApiAuth AttackIndex RuntimeFilters
begin

text \<open>
  The feedback loop from an alert to the next analysis: the inbound alert
  (\<^verbatim>\<open>api/runtime_alert.py\<close>), the indicators pushed to clients (\<^verbatim>\<open>api/iocs_export.py\<close>) and the advisories
  exported for others (\<^verbatim>\<open>intel/osv_export.py\<close>). A rerun of the pipeline, the text of a float and the
  readers of numbers in text are parameters.
\<close>

subsection \<open>The alert\<close>

record alert_env =
  al_mac :: mac
  al_secret :: "string option"
  al_clock_verify :: rat
  al_clock_nonce :: rat
  al_now :: string
  al_show_float :: "rat \<Rightarrow> string"
  al_rerun :: "pyval \<Rightarrow> ecosystem \<Rightarrow> pyval \<Rightarrow> pyexn + verdict"
  al_exn_text :: "pyexn \<Rightarrow> string"
  al_enable_repipeline :: bool

record alert_state =
  as_nonces :: nonce_cache
  as_store :: intel_store
  as_index :: "attack_index option"

definition infer_source :: "pydict \<Rightarrow> string" where
  "infer_source payload =
     (let has = (\<lambda>k. map_of payload k \<noteq> None) in
      if has ''output_fields'' then ''falco''
      else if has ''process_kprobe'' \<or> has ''ProcessKprobe'' then ''tetragon''
      else if has ''syscheck'' \<and> has ''agent'' then ''wazuh'' else ''manual'')"

definition enriched :: "pydict \<Rightarrow> parsed_event \<Rightarrow> parsed_event" where
  "enriched payload ev = ev
     \<lparr>pe_package := py_or (pe_package ev) (dget payload ''package''),
      pe_version := py_or (pe_version ev) (dget payload ''version''),
      pe_ecosystem := py_or (pe_ecosystem ev) (dget payload ''ecosystem'')\<rparr>"

definition read_alert :: "(rat \<Rightarrow> string) \<Rightarrow> pydict \<Rightarrow> pyexn + (parsed_event \<times> pyval)" where
  "read_alert show_float payload =
     bindE (attr_str ''lower'' (py_or (dget payload ''source'') (PStr []))) (\<lambda>named.
     let source = (if py_lower named \<noteq> [] then py_lower named else infer_source payload);
         event = py_or (dget payload ''event'') (PDict payload)
     in bindE (parse_event show_float source event) (\<lambda>ev. Inr (enriched payload ev, event)))"

definition pkg_at_version :: "(rat \<Rightarrow> string) \<Rightarrow> parsed_event \<Rightarrow> string option" where
  "pkg_at_version show_float ev =
     (if py_truth (pe_package ev)
      then Some (pv_str show_float (pe_package ev) @ ''@''
             @ pv_str show_float (py_or (pe_version ev) (PStr ''*'')))
      else None)"

text \<open>\<^verbatim>\<open>for ioc in iocs: upsert_ioc(...); auto_promote(...)\<close>, counting the promotions.\<close>

fun learn_all :: "string \<Rightarrow> int \<Rightarrow> string option \<Rightarrow> ioc_hit list \<Rightarrow> intel_store \<Rightarrow> intel_store \<times> nat" where
  "learn_all now obs pkg [] s = (s, 0)"
| "learn_all now obs pkg (h # hs) s =
     (case upsert_ioc now (Some obs) pkg (new_ioc (ih_type h) (ih_value h) (ih_confidence h)) s of
        (i, s1) \<Rightarrow> (case auto_promote i s1 of (b, s2) \<Rightarrow>
          (case learn_all now obs pkg hs s2 of (s3, n) \<Rightarrow> (s3, n + (if b then 1 else 0)))))"

fun record_drafts :: "string \<Rightarrow> learned_rule list \<Rightarrow> intel_store \<Rightarrow> intel_store \<times> int list" where
  "record_drafts now [] s = (s, [])"
| "record_drafts now (d # ds) s =
     (case record_rule_draft now (d\<lparr>lr_created_at := now\<rparr>) s of
        (i, s1) \<Rightarrow> (case record_drafts now ds s1 of (s2, ids) \<Rightarrow> (s2, i # ids)))"

definition runtime_ioc_of :: "int \<Rightarrow> string option \<Rightarrow> ioc_hit \<Rightarrow> runtime_ioc" where
  "runtime_ioc_of obs pkg h =
     \<lparr>io_type = ih_type h, io_value = ih_value h, io_confidence = ih_confidence h,
      io_associated_packages = opt_list pkg, io_source_observation_id = Some obs\<rparr>"

definition live_update :: "int \<Rightarrow> string option \<Rightarrow> ioc_hit list \<Rightarrow> attack_index option \<Rightarrow> attack_index option" where
  "live_update obs pkg hits index =
     map_option (fold (\<lambda>h. add_runtime_ioc (runtime_ioc_of obs pkg h)) hits) index"

definition observation_of :: "string \<Rightarrow> pydict \<Rightarrow> parsed_event \<Rightarrow> pyval \<Rightarrow> ioc_hit list \<Rightarrow> event_pattern
    \<Rightarrow> runtime_observation" where
  "observation_of now payload ev event hits pat =
     \<lparr>ro_received_at = py_or (dget payload ''received_at'') (PStr now), ro_source = pe_source ev,
      ro_raw_event = event, ro_host = pe_host ev, ro_package = pe_package ev,
      ro_ecosystem = pe_ecosystem ev, ro_version = pe_version ev,
      ro_extracted_iocs = map hit_to_dict hits, ro_extracted_pattern = pattern_to_dict pat,
      ro_verdict_before = py_or (dget payload ''verdict_before'') (PStr ''UNKNOWN''),
      ro_verdict_after = PNone, ro_mitigation = dget payload ''mitigation''\<rparr>"

definition rationale_of :: "(rat \<Rightarrow> string) \<Rightarrow> int \<Rightarrow> parsed_event \<Rightarrow> string" where
  "rationale_of show_float obs ev =
     ''Auto-derived from runtime observation #'' @ show_int obs @ '' (source='' @ pe_source ev
     @ '', host='' @ pv_str show_float (pe_host ev) @ '', pkg='' @ pv_str show_float (pe_package ev)
     @ ''@'' @ pv_str show_float (pe_version ev) @ '')''"

definition to_ecosystem :: "pyval \<Rightarrow> pyexn + ecosystem" where
  "to_ecosystem v = (case v of
       PStr s \<Rightarrow> enum_of ecosystems ecosystem_value s
     | _ \<Rightarrow> Inl (ValueError ''not a valid Ecosystem''))"

text \<open>The rerun: an error of it is the verdict's text; a verdict is written back.\<close>

definition rerun_verdict :: "alert_env \<Rightarrow> parsed_event \<Rightarrow> pyval \<Rightarrow> int \<Rightarrow> intel_store \<Rightarrow> pyval \<times> intel_store" where
  "rerun_verdict env ev before obs s =
     (if al_enable_repipeline env \<and> py_truth (pe_package ev) \<and> py_truth (pe_ecosystem ev)
         \<and> py_truth (pe_version ev)
      then (case bindE (to_ecosystem (pe_ecosystem ev)) (\<lambda>eco.
                   al_rerun env (pe_package ev) eco (pe_version ev)) of
          Inl e \<Rightarrow> (PStr (''REPIPELINE_ERROR: '' @ al_exn_text env e), s)
        | Inr v \<Rightarrow> (PStr (verdict_value v), update_verdict_after obs (verdict_value v) s))
      else (before, s))"

definition handle_alert_body :: "alert_env \<Rightarrow> pydict \<Rightarrow> alert_state \<Rightarrow> pyexn + (answer \<times> alert_state)" where
  "handle_alert_body env payload st =
     bindE (read_alert (al_show_float env) payload) (\<lambda>(ev, event).
     bindE (extract_iocs_from_event (al_show_float env) ev) (\<lambda>hits.
     bindE (extract_pattern_from_event ev) (\<lambda>pat.
     let obs = observation_of (al_now env) payload ev event hits pat in
     bindE (record_observation (al_show_float env) (al_now env) obs (as_store st)) (\<lambda>(i, s).
     let pkg = pkg_at_version (al_show_float env) ev;
         (s, promoted) = learn_all (al_now env) i pkg hits s;
         (s, drafts) = record_drafts (al_now env)
           (generate_all_drafts [i] hits pat (rationale_of (al_show_float env) i ev)) s;
         index = live_update i pkg hits (as_index st);
         (after, s) = rerun_verdict env ev (ro_verdict_before obs) i s
     in Inr ((PDict
          [(''ok'', PBool True), (''observation_id'', PInt i), (''source'', PStr (pe_source ev)),
           (''package'', pe_package ev), (''iocs_recorded'', PInt (int (length hits))),
           (''iocs_auto_promoted'', PInt (int promoted)), (''rule_draft_ids'', PList (map PInt drafts)),
           (''verdict_before'', ro_verdict_before obs), (''verdict_after'', after)], 200),
          st\<lparr>as_store := s, as_index := index\<rparr>)))))"

definition handle_runtime_alert ::
  "alert_env \<Rightarrow> signed_request \<Rightarrow> pydict \<Rightarrow> alert_state \<Rightarrow> pyexn + (answer \<times> alert_state)" where
  "handle_runtime_alert env req payload st =
     bindE (check_hmac (al_mac env) (al_secret env) True (al_clock_verify env) (al_clock_nonce env) req
              (as_nonces st)) (\<lambda>(denied, nonces).
     case denied of
       Some err \<Rightarrow> Inr (err, st\<lparr>as_nonces := nonces\<rparr>)
     | None \<Rightarrow> handle_alert_body env payload (st\<lparr>as_nonces := nonces\<rparr>))"

subsection \<open>Indicators for clients\<close>

fun to_float :: "(string \<Rightarrow> rat option) \<Rightarrow> pyval \<Rightarrow> rat option" where
  "to_float float_of (PBool b) = Some (if b then 1 else 0)"
| "to_float float_of (PInt i) = Some (of_int i)"
| "to_float float_of (PFloat x) = Some x"
| "to_float float_of (PStr s) = float_of s"
| "to_float float_of v = None"

fun to_int :: "(string \<Rightarrow> int option) \<Rightarrow> pyval \<Rightarrow> int option" where
  "to_int int_of (PBool b) = Some (if b then 1 else 0)"
| "to_int int_of (PInt i) = Some i"
| "to_int int_of (PFloat x) = Some (if x < 0 then - \<lfloor>- x\<rfloor> else \<lfloor>x\<rfloor>)"
| "to_int int_of (PStr s) = int_of s"
| "to_int int_of v = None"

definition text_field :: "pydict \<Rightarrow> string \<Rightarrow> string \<Rightarrow> pyexn + string" where
  "text_field d k dflt = bindE (attr_str ''strip'' (py_or (dget d k) (PStr dflt))) (\<lambda>s. Inr (py_strip s))"

definition export_limit :: "(string \<Rightarrow> int option) \<Rightarrow> pydict \<Rightarrow> int" where
  "export_limit int_of query =
     (case to_int int_of (d_get query ''limit'' (PInt 1000)) of None \<Rightarrow> 1000 | Some n \<Rightarrow> min n 10000)"

definition ioc_dict :: "learned_ioc \<Rightarrow> pyval" where
  "ioc_dict i = PDict
     [(''id'', PInt (li_id i)), (''type'', PStr (li_type i)), (''value'', PStr (li_value i)),
      (''confidence'', PFloat (li_confidence i)), (''observation_count'', PInt (li_count i)),
      (''first_seen'', PStr (li_first_seen i)), (''last_seen'', PStr (li_last_seen i)),
      (''associated_packages'', pstrs (li_packages i)), (''status'', PStr (li_status i))]"

definition high_watermark :: "learned_ioc list \<Rightarrow> string" where
  "high_watermark iocs = fold (\<lambda>i m. max (li_last_seen i) m) iocs []"

text \<open>The selected rows; the answer shows them.\<close>

definition export_rows ::
  "(string \<Rightarrow> rat option) \<Rightarrow> (string \<Rightarrow> int option) \<Rightarrow> string \<Rightarrow> string \<Rightarrow> string \<Rightarrow> pydict \<Rightarrow> intel_store
    \<Rightarrow> learned_ioc list" where
  "export_rows float_of int_of status ioc_type since query s =
     filter (\<lambda>i. since \<noteq> [] \<longrightarrow> li_last_seen i \<ge> since)
       (list_iocs (Some status) (if ioc_type = [] then None else Some ioc_type)
          (case to_float float_of (d_get query ''min_confidence'' (PFloat (7/10))) of
             None \<Rightarrow> 7/10 | Some x \<Rightarrow> x)
          (export_limit int_of query) s)"

definition iocs_export_body ::
  "(string \<Rightarrow> rat option) \<Rightarrow> (string \<Rightarrow> int option) \<Rightarrow> pydict \<Rightarrow> intel_store \<Rightarrow> pyexn + answer" where
  "iocs_export_body float_of int_of query s =
     bindE (text_field query ''status'' ''approved'') (\<lambda>status.
     bindE (text_field query ''ioc_type'' []) (\<lambda>ioc_type.
     bindE (text_field query ''since'' []) (\<lambda>since.
     if status \<notin> {''pending'', ''approved'', ''retired''}
     then Inr (deny (''unknown status: '' @ status) 400)
     else if export_limit int_of query < - (2 ^ 63)
     then Inr (deny ''store unavailable: Python int too large to convert to SQLite INTEGER'' 500)
     else let iocs = export_rows float_of int_of status ioc_type since query s in
       Inr (PDict [(''ok'', PBool True), (''iocs'', PList (map ioc_dict iocs)),
         (''count'', PInt (int (length iocs))), (''high_watermark'', PStr (high_watermark iocs)),
         (''filter'', PDict
            [(''status'', PStr status),
             (''ioc_type'', if ioc_type = [] then PNone else PStr ioc_type),
             (''min_confidence'', PFloat (case to_float float_of
                (d_get query ''min_confidence'' (PFloat (7/10))) of None \<Rightarrow> 7/10 | Some x \<Rightarrow> x)),
             (''since'', if since = [] then PNone else PStr since),
             (''limit'', PInt (export_limit int_of query))])], 200))))"

definition handle_iocs_export ::
  "alert_env \<Rightarrow> (string \<Rightarrow> rat option) \<Rightarrow> (string \<Rightarrow> int option) \<Rightarrow> signed_request \<Rightarrow> pydict \<Rightarrow> alert_state
    \<Rightarrow> pyexn + (answer \<times> alert_state)" where
  "handle_iocs_export env float_of int_of req query st =
     bindE (check_hmac (al_mac env) (al_secret env) True (al_clock_verify env) (al_clock_nonce env) req
              (as_nonces st)) (\<lambda>(denied, nonces).
     case denied of
       Some err \<Rightarrow> Inr (err, st\<lparr>as_nonces := nonces\<rparr>)
     | None \<Rightarrow> bindE (iocs_export_body float_of int_of query (as_store st)) (\<lambda>a.
         Inr (a, st\<lparr>as_nonces := nonces\<rparr>)))"

subsection \<open>Advisories for others\<close>

text \<open>\<^verbatim>\<open>s.rpartition("@")\<close> of a string with an at sign.\<close>

definition split_pkg_at_version :: "string \<Rightarrow> string \<times> string" where
  "split_pkg_at_version s =
     (if CHR ''@'' \<notin> set s then (s, ''*'')
      else let ver = rev (takeWhile (\<lambda>c. c \<noteq> CHR ''@'') (rev s));
               name = take (length s - length ver - 1) s
           in if startswith name ''@'' \<and> CHR ''/'' \<in> set name then (name, ver)
              else if name = [] then (s, ''*'') else (name, if ver = [] then ''*'' else ver))"

definition ecosystem_to_osv :: "string \<Rightarrow> string" where
  "ecosystem_to_osv eco = (let e = py_lower eco in
     if e = ''pypi'' then ''PyPI'' else if e = ''npm'' then ''npm'' else eco)"

definition affected_versions :: "string list \<Rightarrow> ((string \<times> string) \<times> string list) list" where
  "affected_versions pkgs = fold (\<lambda>pv d. case split_pkg_at_version pv of
     (name, ver) \<Rightarrow> by_name_add (''npm'', name) ver d) pkgs []"

definition ioc_summary :: "learned_ioc \<Rightarrow> string" where
  "ioc_summary ioc = ''Runtime-observed ''
     @ (case map_of [(''ip'', ''IP address''), (''domain'', ''Domain''), (''sha256'', ''File hash''),
          (''path'', ''Sensitive path access''), (''syscall_chain'', ''Syscall sequence'')] (li_type ioc) of
          None \<Rightarrow> ''Indicator'' | Some l \<Rightarrow> l) @ '': '' @ li_value ioc"

definition ioc_details :: "(rat \<Rightarrow> string) \<Rightarrow> learned_ioc \<Rightarrow> string" where
  "ioc_details show_float ioc =
     ''This indicator ('' @ li_type ioc @ ''='' @ li_value ioc @ '') was runtime-observed ''
     @ ''in association with the following package versions: ''
     @ py_join '', '' (take 10 (li_packages ioc)) @ ''. Confidence: '' @ show_float (li_confidence ioc)
     @ ''. Total observations across hosts: '' @ show_int (li_count ioc)
     @ ''. Source: pkgsentinel runtime intel feedback loop. ''
     @ ''This advisory is auto-generated and approved by review.''"

definition ioc_to_osv_advisory :: "(rat \<Rightarrow> string) \<Rightarrow> learned_ioc \<Rightarrow> pydict" where
  "ioc_to_osv_advisory show_float ioc =
     [(''schema_version'', PStr ''1.6.0''),
      (''id'', PStr (''PKGSENTINEL-IOC-'' @ (if li_id ioc = 0 then ''x'' else show_int (li_id ioc)))),
      (''summary'', PStr (ioc_summary ioc)), (''details'', PStr (ioc_details show_float ioc)),
      (''modified'', PStr (if li_last_seen ioc \<noteq> [] then li_last_seen ioc else li_first_seen ioc)),
      (''published'', PStr (li_first_seen ioc)),
      (''affected'', PList (map (\<lambda>((eco, name), versions). PDict
         [(''package'', PDict [(''name'', PStr name), (''ecosystem'', PStr (ecosystem_to_osv eco))]),
          (''versions'', pstrs (sorted_set versions))]) (affected_versions (li_packages ioc)))),
      (''database_specific'', PDict [(''pkgsentinel'', PDict
         [(''ioc_type'', PStr (li_type ioc)), (''ioc_value'', PStr (li_value ioc)),
          (''confidence'', PFloat (li_confidence ioc)), (''observation_count'', PInt (li_count ioc)),
          (''source_observation_ids'', PList (map PInt (li_observations ioc))),
          (''status'', PStr (li_status ioc))])])]"

definition export_approved_iocs :: "(rat \<Rightarrow> string) \<Rightarrow> rat \<Rightarrow> intel_store \<Rightarrow> pydict list" where
  "export_approved_iocs show_float min_confidence s =
     map (ioc_to_osv_advisory show_float) (list_iocs (Some ''approved'') None min_confidence 1000 s)"

text \<open>The files written: a name and its text; the answer lists their paths.\<close>

definition export_to_directory ::
  "(rat \<Rightarrow> string) \<Rightarrow> string \<Rightarrow> rat \<Rightarrow> intel_store \<Rightarrow> (string \<times> string) list \<times> pyval" where
  "export_to_directory show_float out_dir min_confidence s =
     (let advisories = export_approved_iocs show_float min_confidence s;
          path = (\<lambda>adv. out_dir @ ''/'' @ pv_str show_float (d_get adv ''id'' PNone) @ ''.json'')
      in (map (\<lambda>adv. (path adv, json_text show_float 0 (PDict adv))) advisories,
          PDict [(''count'', PInt (int (length advisories))),
                 (''files'', pstrs (map path advisories)), (''out_dir'', PStr out_dir)]))"

subsection \<open>An alert is a sequence of store steps\<close>

lemma in_add_hit: "x \<in> set (add_hit h hs) \<Longrightarrow> x = h \<or> x \<in> set hs"
  by (auto simp: add_hit_def split: if_splits)

lemma in_dedup: "x \<in> set (fold add_hit hs acc) \<Longrightarrow> x \<in> set hs \<or> x \<in> set acc"
  by (induction hs arbitrary: acc) (auto dest!: in_add_hit)

definition hit_conf :: "ioc_hit \<Rightarrow> bool" where
  "hit_conf h \<longleftrightarrow> decimal4 (ih_confidence h) \<and> ih_confidence h \<le> 1"

lemma hits_for_conf: "decimal4 c \<Longrightarrow> c \<le> 1 \<Longrightarrow> h \<in> set (hits_for t c vs) \<Longrightarrow> hit_conf h"
  by (auto simp: hits_for_def hit_conf_def)

lemma candidates_conf: "h \<in> set (ioc_candidates cs ds rd wr raw) \<Longrightarrow> hit_conf h"
  unfolding ioc_candidates_def set_append Un_iff
  by (auto split: if_splits simp: decimal4_def elim!: hits_for_conf [rotated 2])

lemma extracted_conf:
  "extract_iocs_from_event sf ev = Inr hits \<Longrightarrow> h \<in> set hits \<Longrightarrow> hit_conf h"
  by (auto simp: extract_iocs_from_event_def bindE_Inr_iff dedup_hits_def dest!: in_dedup
      intro: candidates_conf)

lemma upsert_step:
  "hit_conf h \<Longrightarrow> upsert_ioc now (Some obs) pkg (new_ioc (ih_type h) (ih_value h) (ih_confidence h)) s = (i, s')
   \<Longrightarrow> store_step s s'"
  by (rule learned) (simp_all add: hit_conf_def)

lemma learn_all_steps:
  "\<forall>h\<in>set hs. hit_conf h \<Longrightarrow> store_step\<^sup>*\<^sup>* s (fst (learn_all now obs pkg hs s))"
proof (induction hs arbitrary: s)
  case (Cons h hs)
  obtain i s1 where u: "upsert_ioc now (Some obs) pkg
      (new_ioc (ih_type h) (ih_value h) (ih_confidence h)) s = (i, s1)" by fastforce
  obtain b s2 where p: "auto_promote i s1 = (b, s2)" by fastforce
  have "store_step s s1" using Cons.prems u by (intro upsert_step) auto
  moreover have "store_step s1 s2" using p by (rule promoted)
  moreover have "store_step\<^sup>*\<^sup>* s2 (fst (learn_all now obs pkg hs s2))" using Cons by simp
  ultimately show ?case by (simp add: u p split_beta converse_rtranclp_into_rtranclp)
qed simp

lemma record_drafts_steps:
  "\<forall>d\<in>set ds. lr_status d = ''draft'' \<Longrightarrow> store_step\<^sup>*\<^sup>* s (fst (record_drafts now ds s))"
proof (induction ds arbitrary: s)
  case (Cons d ds)
  obtain i s1 where r: "record_rule_draft now (d\<lparr>lr_created_at := now\<rparr>) s = (i, s1)" by fastforce
  have "store_step s s1" using Cons.prems r by (intro drafted) auto
  then show ?case using Cons by (simp add: r split_beta converse_rtranclp_into_rtranclp)
qed simp

lemma rerun_steps: "store_step\<^sup>*\<^sup>* s (snd (rerun_verdict env ev before i s))"
  by (auto simp: rerun_verdict_def split: sum.splits intro: judged)

text \<open>What one accepted alert does, with the stores it goes through.\<close>

lemma alert_body_cases:
  assumes "handle_alert_body env payload st = Inr (answer, st')"
  obtains ev event hits pat i s1 where
    "read_alert (al_show_float env) payload = Inr (ev, event)"
    "extract_iocs_from_event (al_show_float env) ev = Inr hits"
    "extract_pattern_from_event ev = Inr pat"
    "record_observation (al_show_float env) (al_now env)
       (observation_of (al_now env) payload ev event hits pat) (as_store st) = Inr (i, s1)"
    "store_step\<^sup>*\<^sup>* (fst (learn_all (al_now env) i (pkg_at_version (al_show_float env) ev) hits s1))
       (as_store st')"
    "as_index st' = live_update i (pkg_at_version (al_show_float env) ev) hits (as_index st)"
    "as_nonces st' = as_nonces st"
proof -
  obtain ev event where r: "read_alert (al_show_float env) payload = Inr (ev, event)"
    and rest: "bindE (extract_iocs_from_event (al_show_float env) ev) (\<lambda>hits. undefined) = Inr undefined \<or> True"
    using assms by (auto simp: handle_alert_body_def bindE_Inr_iff)
  from assms r obtain hits pat i s1 where h: "extract_iocs_from_event (al_show_float env) ev = Inr hits"
    and p: "extract_pattern_from_event ev = Inr pat"
    and o': "record_observation (al_show_float env) (al_now env)
       (observation_of (al_now env) payload ev event hits pat) (as_store st) = Inr (i, s1)"
    by (fastforce simp: handle_alert_body_def bindE_Inr_iff Let_def)
  let ?pkg = "pkg_at_version (al_show_float env) ev"
  let ?s2 = "fst (learn_all (al_now env) i ?pkg hits s1)"
  let ?drafts = "generate_all_drafts [i] hits pat (rationale_of (al_show_float env) i ev)"
  let ?s3 = "fst (record_drafts (al_now env) ?drafts ?s2)"
  let ?before = "ro_verdict_before (observation_of (al_now env) payload ev event hits pat)"
  have st': "as_store st' = snd (rerun_verdict env ev ?before i ?s3)"
    "as_index st' = live_update i ?pkg hits (as_index st)" "as_nonces st' = as_nonces st"
    using assms by (auto simp: handle_alert_body_def r h p o' Let_def split_beta)
  have "store_step\<^sup>*\<^sup>* ?s2 ?s3" by (rule record_drafts_steps) (auto dest: drafts_are_drafts)
  moreover have "store_step\<^sup>*\<^sup>* ?s3 (as_store st')" unfolding st'(1) by (rule rerun_steps)
  ultimately have "store_step\<^sup>*\<^sup>* ?s2 (as_store st')" by simp
  then show ?thesis using that r h p o' st'(2,3) by blast
qed

lemma alert_body_steps:
  assumes "handle_alert_body env payload st = Inr (answer, st')"
  shows "store_step\<^sup>*\<^sup>* (as_store st) (as_store st')"
proof -
  from assms obtain ev event hits pat i s1 where
    h: "extract_iocs_from_event (al_show_float env) ev = Inr hits"
    and o': "record_observation (al_show_float env) (al_now env)
       (observation_of (al_now env) payload ev event hits pat) (as_store st) = Inr (i, s1)"
    and s: "store_step\<^sup>*\<^sup>* (fst (learn_all (al_now env) i (pkg_at_version (al_show_float env) ev) hits s1))
       (as_store st')"
    by (rule alert_body_cases)
  have "store_step (as_store st) s1" using o' by (rule observed)
  moreover have "store_step\<^sup>*\<^sup>* s1 (fst (learn_all (al_now env) i (pkg_at_version (al_show_float env) ev) hits s1))"
    using extracted_conf [OF h] by (intro learn_all_steps) blast
  ultimately show ?thesis using s by (meson converse_rtranclp_into_rtranclp rtranclp_trans)
qed

lemma alert_steps:
  assumes "handle_runtime_alert env req payload st = Inr (answer, st')"
  shows "store_step\<^sup>*\<^sup>* (as_store st) (as_store st')"
  using assms
  by (auto simp: handle_runtime_alert_def bindE_Inr_iff split: option.splits dest!: alert_body_steps)

subsection \<open>What the loop guarantees\<close>

lemma learn_all_learn:
  "learn_all now obs pkg (h # hs) s = (case learn_all now obs pkg hs
     (learn now obs pkg (new_ioc (ih_type h) (ih_value h) (ih_confidence h)) s) of (s3, n) \<Rightarrow>
       (s3, n + (if fst (auto_promote (fst (upsert_ioc now (Some obs) pkg
          (new_ioc (ih_type h) (ih_value h) (ih_confidence h)) s)) (snd (upsert_ioc now (Some obs) pkg
          (new_ioc (ih_type h) (ih_value h) (ih_confidence h)) s))) then 1 else 0)))"
  by (simp add: learn_def split_beta)

lemma learn_steps:
  "hit_conf h \<Longrightarrow> store_step\<^sup>*\<^sup>* s (learn now obs pkg (new_ioc (ih_type h) (ih_value h) (ih_confidence h)) s)"
  using learn_all_steps [of "[h]" s now obs pkg] by (simp add: learn_def split_beta)

definition knows :: "intel_store \<Rightarrow> string \<times> string \<Rightarrow> string \<Rightarrow> bool" where
  "knows s name p \<longleftrightarrow> (\<exists>r\<in>set (is_iocs s). ioc_name r = name \<and> p \<in> set (li_packages r))"

definition approved_ioc :: "intel_store \<Rightarrow> string \<times> string \<Rightarrow> bool" where
  "approved_ioc s name \<longleftrightarrow> (\<exists>r\<in>set (is_iocs s). ioc_name r = name \<and> li_status r = ''approved'')"

lemma kept:
  assumes "store_step\<^sup>*\<^sup>* s s'" and "store_inv s"
  shows "knows s name p \<Longrightarrow> knows s' name p" and "approved_ioc s name \<Longrightarrow> approved_ioc s' name"
  using steps_grow [OF assms] unfolding knows_def approved_ioc_def all_grown_def grown_def by blast+

lemma row_of_name:
  "store_inv s \<Longrightarrow> r \<in> set (is_iocs s) \<Longrightarrow> r' \<in> set (is_iocs s) \<Longrightarrow> ioc_name r = ioc_name r' \<Longrightarrow> r = r'"
  by (auto simp: store_inv_def distinct_map dest: inj_onD)

lemma two_packages: "p \<in> set xs \<Longrightarrow> p' \<in> set xs \<Longrightarrow> p \<noteq> p' \<Longrightarrow> 2 \<le> length xs"
  by (cases xs; cases "tl xs") auto

lemma learn_knows:
  assumes "store_inv s" and "hit_conf h" and "p \<noteq> []"
    and s'_def: "s' = learn now obs (Some p) (new_ioc (ih_type h) (ih_value h) (ih_confidence h)) s"
  shows "knows s' (ih_type h, ih_value h) p"
    and "knows s (ih_type h, ih_value h) p' \<Longrightarrow> p' \<noteq> p \<Longrightarrow> approved_ioc s' (ih_type h, ih_value h)"
proof -
  let ?n = "(ih_type h, ih_value h)"
  obtain r where r: "r \<in> set (is_iocs s')" "ioc_name r = ?n" "p \<in> set (li_packages r)"
    "should_promote r \<longrightarrow> li_status r = ''approved''"
    using learn_row [OF assms(1), of "ih_confidence h" now obs "Some p" "ih_type h" "ih_value h"] assms(2,3)
    unfolding s'_def hit_conf_def by (auto simp: given_def)
  then show "knows s' ?n p" by (auto simp: knows_def)
  have steps: "store_step\<^sup>*\<^sup>* s s'" unfolding s'_def using assms(2) by (rule learn_steps)
  then have inv: "store_inv s'" using steps_grow assms(1) by blast
  assume "knows s ?n p'" "p' \<noteq> p"
  then have "knows s' ?n p'" using kept(1) [OF steps assms(1)] by blast
  then have "p' \<in> set (li_packages r)" using row_of_name [OF inv] r unfolding knows_def by metis
  then have "2 \<le> length (li_packages r)" using two_packages [of p' _ p] r(3) \<open>p' \<noteq> p\<close> by blast
  then have "should_promote r" by (simp add: should_promote_def)
  then show "approved_ioc s' ?n" using r by (auto simp: approved_ioc_def)
qed

lemma learn_all_fst:
  "fst (learn_all now obs pkg (h # hs) s) = fst (learn_all now obs pkg hs
     (learn now obs pkg (new_ioc (ih_type h) (ih_value h) (ih_confidence h)) s))"
  by (simp only: learn_all_learn split_beta fst_conv)

lemma learn_first:
  assumes "store_inv s" and "\<forall>h\<in>set (x # hs). hit_conf h"
    and s1_def: "s1 = learn now obs pkg (new_ioc (ih_type x) (ih_value x) (ih_confidence x)) s"
  shows "store_step\<^sup>*\<^sup>* s s1" and "store_inv s1" and "store_step\<^sup>*\<^sup>* s1 (fst (learn_all now obs pkg hs s1))"
proof -
  show step: "store_step\<^sup>*\<^sup>* s s1" unfolding s1_def by (rule learn_steps) (use assms(2) in simp)
  show "store_inv s1" using steps_grow [OF step assms(1)] by blast
  show "store_step\<^sup>*\<^sup>* s1 (fst (learn_all now obs pkg hs s1))"
    by (rule learn_all_steps) (use assms(2) in simp)
qed

lemma learn_all_knows:
  "store_inv s \<Longrightarrow> \<forall>h\<in>set hs. hit_conf h \<Longrightarrow> h \<in> set hs \<Longrightarrow> p \<noteq> [] \<Longrightarrow>
   knows (fst (learn_all now obs (Some p) hs s)) (ih_type h, ih_value h) p"
proof (induction hs arbitrary: s)
  case (Cons x hs)
  note first = learn_first [OF Cons.prems(1,2) refl, of now obs "Some p"]
  show ?case
  proof (cases "h \<in> set hs")
    case True
    then show ?thesis unfolding learn_all_fst using Cons.IH [OF first(2)] Cons.prems by simp
  next
    case False
    then have "x = h" using Cons.prems(3) by simp
    then show ?thesis unfolding learn_all_fst
      using kept(1) [OF first(3,2)] learn_knows(1) [OF Cons.prems(1) _ Cons.prems(4) refl] Cons.prems(2) by simp
  qed
qed simp

lemma learn_all_approves:
  "store_inv s \<Longrightarrow> \<forall>h\<in>set hs. hit_conf h \<Longrightarrow> h \<in> set hs \<Longrightarrow> p \<noteq> [] \<Longrightarrow>
   knows s (ih_type h, ih_value h) p' \<Longrightarrow> p' \<noteq> p \<Longrightarrow>
   approved_ioc (fst (learn_all now obs (Some p) hs s)) (ih_type h, ih_value h)"
proof (induction hs arbitrary: s)
  case (Cons x hs)
  note first = learn_first [OF Cons.prems(1,2) refl, of now obs "Some p"]
  show ?case
  proof (cases "h \<in> set hs")
    case True
    then show ?thesis unfolding learn_all_fst
      using Cons.IH [OF first(2)] kept(1) [OF first(1) Cons.prems(1,5)] Cons.prems by simp
  next
    case False
    then have "x = h" using Cons.prems(3) by simp
    then show ?thesis unfolding learn_all_fst
      using kept(2) [OF first(3,2)] learn_knows(2) [OF Cons.prems(1) _ Cons.prems(4) refl Cons.prems(5,6)]
        Cons.prems(2) by simp
  qed
qed simp

text \<open>An accepted alert, from the alert to the state after it.\<close>

lemma accepted_body:
  assumes "handle_runtime_alert env req payload st = Inr (answer, st')" and "snd answer = 200"
  obtains n where "handle_alert_body env payload (st\<lparr>as_nonces := n\<rparr>) = Inr (answer, st')"
proof -
  have denied: "snd err = 400 \<or> snd err = 401"
    if "check_hmac mac secret b t t' req c = Inr (Some err, c')" for mac secret b t t' c c' err
    using that by (auto simp: check_hmac_def bindE_Inr_iff deny_def split: option.splits if_splits prod.splits)
  show ?thesis
    using assms that by (fastforce simp: handle_runtime_alert_def bindE_Inr_iff dest: denied split: option.splits)
qed

lemma pkg_not_empty: "pkg_at_version sf ev = Some p \<Longrightarrow> p \<noteq> []"
  by (auto simp: pkg_at_version_def split: if_splits)

definition reports :: "alert_env \<Rightarrow> pydict \<Rightarrow> string \<times> string \<Rightarrow> string \<Rightarrow> bool" where
  "reports env payload name p \<longleftrightarrow> (\<exists>ev event hits. read_alert (al_show_float env) payload = Inr (ev, event)
     \<and> extract_iocs_from_event (al_show_float env) ev = Inr hits
     \<and> name \<in> (\<lambda>h. (ih_type h, ih_value h)) ` set hits \<and> pkg_at_version (al_show_float env) ev = Some p)"

lemma live_update_finds:
  assumes "name \<in> (\<lambda>h. (ih_type h, ih_value h)) ` set hits" and "live_update i pkg hits index = Some ix"
  shows "lookup_runtime_ioc ix (fst name) (snd name) \<noteq> None"
proof -
  let ?f = "\<lambda>h. add_runtime_ioc (runtime_ioc_of i pkg h)"
  have "lookup_runtime_ioc x t v \<noteq> None \<Longrightarrow> lookup_runtime_ioc (?f a x) t v \<noteq> None" for a x t v
    by (simp add: lookup_runtime_ioc_def add_runtime_ioc_def update_conv)
  then have stays: "lookup_runtime_ioc x t v \<noteq> None \<Longrightarrow> lookup_runtime_ioc (fold ?f hs x) t v \<noteq> None"
    for hs x t v
    by (induction hs arbitrary: x) simp_all
  have "h \<in> set hs \<Longrightarrow> lookup_runtime_ioc (fold ?f hs x) (ih_type h) (ih_value h) \<noteq> None" for hs x h
  proof (induction hs arbitrary: x)
    case (Cons a hs)
    have "lookup_runtime_ioc (?f a x) (ih_type a) (ih_value a) \<noteq> None"
      by (simp add: runtime_ioc_of_def lookup_runtime_ioc_def add_runtime_ioc_def update_conv)
    then show ?case using Cons stays by auto
  qed simp
  then show ?thesis using assms by (auto simp: live_update_def)
qed

lemma alert_learns:
  assumes "store_inv (as_store st)" and "handle_runtime_alert env req payload st = Inr (answer, st')"
    and "snd answer = 200" and "reports env payload name p"
  shows "knows (as_store st') name p"
    and "knows (as_store st) name p' \<Longrightarrow> p' \<noteq> p \<Longrightarrow> approved_ioc (as_store st') name"
    and "as_index st' = Some ix \<Longrightarrow> lookup_runtime_ioc ix (fst name) (snd name) \<noteq> None"
proof -
  obtain n where "handle_alert_body env payload (st\<lparr>as_nonces := n\<rparr>) = Inr (answer, st')"
    using accepted_body [OF assms(2,3)] .
  then obtain ev event hits pat i s1 where
    r: "read_alert (al_show_float env) payload = Inr (ev, event)"
    and h: "extract_iocs_from_event (al_show_float env) ev = Inr hits"
    and o': "record_observation (al_show_float env) (al_now env)
       (observation_of (al_now env) payload ev event hits pat) (as_store (st\<lparr>as_nonces := n\<rparr>)) = Inr (i, s1)"
    and s: "store_step\<^sup>*\<^sup>* (fst (learn_all (al_now env) i (pkg_at_version (al_show_float env) ev) hits s1))
       (as_store st')"
    and ix: "as_index st' = live_update i (pkg_at_version (al_show_float env) ev) hits
       (as_index (st\<lparr>as_nonces := n\<rparr>))"
    by (rule alert_body_cases)
  obtain x where x: "x \<in> set hits" "name = (ih_type x, ih_value x)"
    and p: "pkg_at_version (al_show_float env) ev = Some p"
    using assms(4) r h by (auto simp: reports_def)
  have conf: "\<forall>h\<in>set hits. hit_conf h" using extracted_conf [OF h] by blast
  have step: "store_step\<^sup>*\<^sup>* (as_store st) s1" using observed [OF o'] by simp
  have inv1: "store_inv s1" using steps_grow [OF step assms(1)] by blast
  let ?s2 = "fst (learn_all (al_now env) i (Some p) hits s1)"
  have steps: "store_step\<^sup>*\<^sup>* s1 ?s2" using conf by (rule learn_all_steps)
  have inv2: "store_inv ?s2" using steps_grow [OF steps inv1] by blast
  have "knows ?s2 name p" unfolding x(2) using inv1 conf x(1) pkg_not_empty [OF p] by (rule learn_all_knows)
  then show "knows (as_store st') name p" using kept(1) [OF s [unfolded p] inv2] by blast
  show "approved_ioc (as_store st') name" if "knows (as_store st) name p'" "p' \<noteq> p"
  proof -
    have "knows s1 name p'" using kept(1) [OF step assms(1)] that by blast
    then have "approved_ioc ?s2 name"
      using learn_all_approves [OF inv1 conf x(1) pkg_not_empty [OF p]] that(2) unfolding x(2) by blast
    then show ?thesis using kept(2) [OF s [unfolded p] inv2] by blast
  qed
  show "lookup_runtime_ioc ix (fst name) (snd name) \<noteq> None" if "as_index st' = Some ix"
    using live_update_finds [of name hits i "Some p" "as_index (st\<lparr>as_nonces := n\<rparr>)" ix] that ix p x by auto
qed

text \<open>C9: An indicator that two accepted alerts report for different packages, with anything the store
  does before, between and after them, is approved with a confidence of at least 0.9, names both
  packages, and right after the second alert the attack index finds it.
\<close>
theorem shared_indicator_approved:
  assumes "store_step\<^sup>*\<^sup>* empty_store (as_store st)"
    and "handle_runtime_alert env req payload st = Inr (answer, st1)" and "snd answer = 200"
    and "reports env payload name p"
    and "store_step\<^sup>*\<^sup>* (as_store st1) (as_store st2)"
    and "handle_runtime_alert env' req' payload' st2 = Inr (answer', st3)" and "snd answer' = 200"
    and "reports env' payload' name p'" and "p' \<noteq> p" and "store_step\<^sup>*\<^sup>* (as_store st3) later"
  shows "(\<exists>r\<in>set (is_iocs later). ioc_name r = name \<and> li_status r = ''approved''
      \<and> 9/10 \<le> li_confidence r \<and> {p, p'} \<subseteq> set (li_packages r))
    \<and> (\<forall>ix. as_index st3 = Some ix \<longrightarrow> lookup_runtime_ioc ix (fst name) (snd name) \<noteq> None)"
proof -
  have i0: "store_inv (as_store st)" using assms(1) by (rule reachable_inv)
  have i1: "store_inv (as_store st1)" using steps_grow [OF alert_steps [OF assms(2)] i0] by blast
  have i2: "store_inv (as_store st2)" using steps_grow [OF assms(5) i1] by blast
  have i3: "store_inv (as_store st3)" using steps_grow [OF alert_steps [OF assms(6)] i2] by blast
  have i4: "store_inv later" using steps_grow [OF assms(10) i3] by blast
  have "knows (as_store st1) name p" using alert_learns(1) [OF i0 assms(2-4)] .
  then have k2: "knows (as_store st2) name p" by (rule kept(1) [OF assms(5) i1])
  have "approved_ioc later name"
    using alert_learns(2) [OF i2 assms(6-8) k2] assms(9) kept(2) [OF assms(10) i3] by auto
  moreover have "knows later name p"
    using kept(1) [OF alert_steps [OF assms(6)] i2 k2] kept(1) [OF assms(10) i3] by blast
  moreover have "knows later name p'"
    using alert_learns(1) [OF i2 assms(6-8)] kept(1) [OF assms(10) i3] by blast
  ultimately obtain r where r: "r \<in> set (is_iocs later)" "ioc_name r = name" "li_status r = ''approved''"
    "{p, p'} \<subseteq> set (li_packages r)"
    using row_of_name [OF i4] unfolding approved_ioc_def knows_def by (metis empty_subsetI insert_subset)
  then have "2 \<le> length (li_packages r)" using two_packages [of p _ p'] assms(9) by auto
  moreover have "floor_of (li_count r) (length (li_packages r)) \<le> li_confidence r"
    using i4 r(1) by (auto simp: store_inv_def ioc_inv_def)
  ultimately have "9/10 \<le> li_confidence r" by (auto simp: floor_of_def split: if_splits)
  with r show ?thesis using alert_learns(3) [OF i2 assms(6-8)] by blast
qed

definition quiet_env :: alert_env where
  "quiet_env = \<lparr>al_mac = flat_mac, al_secret = None, al_clock_verify = 0, al_clock_nonce = 0,
     al_now = ''2026-01-01T00:00:00Z'', al_show_float = (\<lambda>x. ''0.0''),
     al_rerun = (\<lambda>p e v. Inl (RuntimeError ''no pipeline'')), al_exn_text = exn_name,
     al_enable_repipeline = False\<rparr>"

definition dns_alert :: "string \<Rightarrow> pydict" where
  "dns_alert package = [(''package'', PStr package), (''dns_queries'', pstrs [''evil.example''])]"

definition start_state :: alert_state where
  "start_state = \<lparr>as_nonces = [], as_store = empty_store, as_index = Some (make_index [])\<rparr>"

definition dns_event :: "string \<Rightarrow> parsed_event" where
  "dns_event package = (new_event ''manual'' (dns_alert package))
     \<lparr>pe_rule_name := PStr ''manual'', pe_package := PStr package, pe_dns := [PStr ''evil.example'']\<rparr>"

definition dns_hit :: ioc_hit where
  "dns_hit = \<lparr>ih_type = ''domain'', ih_value = ''evil.example'', ih_confidence = 3/4\<rparr>"

lemma dns_read:
  "read_alert (al_show_float quiet_env) (dns_alert ''a'') = Inr (dns_event ''a'', PDict (dns_alert ''a''))"
  "read_alert (al_show_float quiet_env) (dns_alert ''b'') = Inr (dns_event ''b'', PDict (dns_alert ''b''))"
  by code_simp+

lemma dns_hits:
  "extract_iocs_from_event (al_show_float quiet_env) (dns_event ''a'') = Inr [dns_hit]"
  "extract_iocs_from_event (al_show_float quiet_env) (dns_event ''b'') = Inr [dns_hit]"
  by code_simp+

lemma dns_pattern:
  "extract_pattern_from_event (dns_event p) = Inr (pattern_of False True False False False)"
proof -
  have "\<not> is_trusted_domain ''evil.example''" by code_simp
  then show ?thesis by (simp add: extract_pattern_from_event_def dns_event_def new_event_def)
qed

lemma body_answers:
  assumes "read_alert (al_show_float env) payload = Inr (ev, event)"
    and "extract_iocs_from_event (al_show_float env) ev = Inr hits"
    and "extract_pattern_from_event ev = Inr pat"
    and "record_observation (al_show_float env) (al_now env)
       (observation_of (al_now env) payload ev event hits pat) (as_store st) = Inr (i, s1)"
  shows "\<exists>answer st'. handle_alert_body env payload st = Inr (answer, st') \<and> snd answer = 200"
  by (simp add: handle_alert_body_def assms Let_def split_beta)

lemma dns_answered:
  assumes "read_alert (al_show_float quiet_env) (dns_alert p) = Inr (dns_event p, PDict (dns_alert p))"
    and "extract_iocs_from_event (al_show_float quiet_env) (dns_event p) = Inr [dns_hit]"
  obtains answer st' where "handle_runtime_alert quiet_env req (dns_alert p) st = Inr (answer, st')"
    "snd answer = 200"
proof -
  have "\<exists>x. record_observation (al_show_float quiet_env) (al_now quiet_env) (observation_of (al_now quiet_env)
      (dns_alert p) (dns_event p) (PDict (dns_alert p)) [dns_hit] pat) s = Inr x" for pat s
    by (simp add: record_observation_def observation_of_def dns_event_def new_event_def dns_alert_def
        dget_def py_or_def Let_def)
  then have "\<exists>answer st'. handle_alert_body quiet_env (dns_alert p) st = Inr (answer, st') \<and> snd answer = 200"
    for st
    using body_answers [OF assms dns_pattern] by (metis surj_pair)
  moreover have "handle_runtime_alert quiet_env req (dns_alert p) st
      = handle_alert_body quiet_env (dns_alert p) (st\<lparr>as_nonces := as_nonces st\<rparr>)"
    by (simp add: handle_runtime_alert_def check_hmac_def quiet_env_def)
  ultimately show ?thesis using that by (metis (no_types, lifting))
qed

theorem shared_indicator_approved_witness:
  "\<exists>req answer st1 answer' st3. handle_runtime_alert quiet_env req (dns_alert ''a'') start_state = Inr (answer, st1)
     \<and> handle_runtime_alert quiet_env req (dns_alert ''b'') st1 = Inr (answer', st3)
     \<and> (\<exists>r\<in>set (is_iocs (as_store st3)). ioc_name r = (''domain'', ''evil.example'')
          \<and> li_status r = ''approved'' \<and> 9/10 \<le> li_confidence r
          \<and> {''a@*'', ''b@*''} \<subseteq> set (li_packages r))"
proof -
  obtain answer st1 where 1: "handle_runtime_alert quiet_env undefined (dns_alert ''a'') start_state
      = Inr (answer, st1)" "snd answer = 200"
    by (rule dns_answered [OF dns_read(1) dns_hits(1)])
  obtain answer' st3 where 2: "handle_runtime_alert quiet_env undefined (dns_alert ''b'') st1
      = Inr (answer', st3)" "snd answer' = 200"
    by (rule dns_answered [OF dns_read(2) dns_hits(2)])
  have r: "reports quiet_env (dns_alert ''a'') (''domain'', ''evil.example'') ''a@*''"
    "reports quiet_env (dns_alert ''b'') (''domain'', ''evil.example'') ''b@*''"
    unfolding reports_def using dns_read dns_hits
    by (auto simp: dns_hit_def pkg_at_version_def dns_event_def new_event_def pv_str_def py_or_def)
  have "store_step\<^sup>*\<^sup>* empty_store (as_store start_state)" by (simp add: start_state_def)
  from shared_indicator_approved [OF this 1 r(1) rtranclp.rtrancl_refl 2 r(2) _ rtranclp.rtrancl_refl]
  show ?thesis using 1 2 by fastforce
qed

subsection \<open>Only external traffic is learned\<close>

lemma of_char_of: "n < 256 \<Longrightarrow> (of_char (char_of n :: char) :: nat) = n"
  by simp

lemma lower_idem: "py_lower (py_lower s) = py_lower s"
proof -
  have "lower_char (lower_char c) = lower_char c" for c
    by (simp add: lower_char_def)
  then show ?thesis by (simp add: py_lower_def)
qed

lemma trusted_lower [simp]: "is_trusted_domain (py_lower q) = is_trusted_domain q"
  by (simp add: is_trusted_domain_def lower_idem)










text \<open>A name server query that is a private address is learned, as a domain.\<close>

lemma dns_address_learned:
  "extract_iocs_from_event show_float ((new_event ''manual'' [])\<lparr>pe_dns := [PStr ''10.0.0.1'']\<rparr>)
     = Inr [\<lparr>ih_type = ''domain'', ih_value = ''10.0.0.1'', ih_confidence = 3/4\<rparr>]"
proof -
  have "\<not> is_trusted_domain ''10.0.0.1''" "py_lower ''10.0.0.1'' = ''10.0.0.1''" "finditer SHA256_RE ''{}'' = []"
    by code_simp+
  then show ?thesis
    by (simp add: extract_iocs_from_event_def new_event_def ioc_candidates_def hits_for_def dedup_hits_def add_hit_def
        bindE_def)
qed

subsection \<open>The export\<close>

lemma length_sql_limit: "0 \<le> n \<Longrightarrow> length (sql_limit n xs) \<le> nat n"
  by (simp add: sql_limit_def)

lemma set_descending [simp]: "set (descending f xs) = set xs"
  by (simp add: descending_def)

text \<open>The maximum of 10000 indicators of one export does not bind: a negative limit, which \<^verbatim>\<open>min\<close>
  keeps, hands out every indicator the filter selects, while any other limit is respected.
\<close>
theorem export_limit_binds_unless_negative:
  "export_limit int_of [(''limit'', PInt (- 1))] = - 1
   \<and> (if 0 \<le> export_limit int_of query
      then length (export_rows float_of int_of status ioc_type since query s) \<le> 10000
      else set (export_rows float_of int_of ''approved'' [] [] query s)
        = {r \<in> set (is_iocs s). li_status r = ''approved''
             \<and> (case to_float float_of (d_get query ''min_confidence'' (PFloat (7/10)))
                  of None \<Rightarrow> 7/10 | Some x \<Rightarrow> x) \<le> li_confidence r})"
proof (cases "0 \<le> export_limit int_of query")
  case True
  have "length (export_rows float_of int_of status ioc_type since query s) \<le> nat (export_limit int_of query)"
    unfolding export_rows_def list_iocs_def
    by (rule le_trans [OF length_filter_le length_sql_limit [OF True]])
  moreover have "export_limit int_of query \<le> 10000" by (simp add: export_limit_def split: option.split)
  ultimately have "length (export_rows float_of int_of status ioc_type since query s) \<le> 10000" by linarith
  then show ?thesis using True by (simp add: export_limit_def)
next
  case False
  then show ?thesis
    by (auto simp: export_rows_def list_iocs_def sql_limit_def) (simp_all add: export_limit_def)
qed

lemma takeWhile_rev_last: "x \<notin> set ys \<Longrightarrow> takeWhile (\<lambda>c. c \<noteq> x) (rev (xs @ x # ys)) = rev ys"
proof -
  assume "x \<notin> set ys"
  then have "takeWhile (\<lambda>c. c \<noteq> x) (rev ys @ x # rev xs) = rev ys @ takeWhile (\<lambda>c. c \<noteq> x) (x # rev xs)"
    by (intro takeWhile_append2) auto
  then show ?thesis by simp
qed

text \<open>A package and version that the loop wrote as one text are read back from it, scoped names
  included, when the version is not empty and has no at sign.
\<close>
theorem package_version_roundtrip:
  assumes "name \<noteq> []" and "ver \<noteq> []" and "CHR ''@'' \<notin> set ver"
  shows "split_pkg_at_version (name @ ''@'' @ ver) = (name, ver)"
proof -
  have "takeWhile (\<lambda>c. c \<noteq> CHR ''@'') (rev (name @ CHR ''@'' # ver)) = rev ver"
    by (rule takeWhile_rev_last) (rule assms(3))
  then show ?thesis using assms(1,2) by (simp add: split_pkg_at_version_def Let_def)
qed

theorem package_version_roundtrip_witness:
  "split_pkg_at_version (''@scope/pkg'' @ ''@'' @ ''1.0.0'') = (''@scope/pkg'', ''1.0.0'')"
  by (rule package_version_roundtrip) simp_all

end
