(* ===== verification/ApiServer.thy ===== *)
theory ApiServer
  imports Pipeline RuntimeAlert
begin

text \<open>
  The HTTP server (\<^verbatim>\<open>server/app.py\<close>) and the analysis endpoint (\<^verbatim>\<open>api/analyze.py\<close>), over the pipeline,
  the analysis cache and the runtime feedback loop. Flask's part is what the source relies on: routing by
  path and method (not the HEAD and OPTIONS methods it adds), the limit on bodies it reads, an exception
  of a handler answered with 500. JSON decoding of a body and elapsed times are parameters. A cached report's evidence is a list, as the
  report that was stored had it.
\<close>

subsection \<open>The analysis endpoint\<close>

record analyze_env =
  nv_pipe :: pipe_env
  nv_elapsed :: rat

definition report_evidence :: "pydict \<Rightarrow> pyexn + pyval list" where
  "report_evidence report = as_list (py_or (dget report ''evidence'') (PList []))"

fun pv_number :: "pyval \<Rightarrow> pyexn + rat" where
  "pv_number (PInt i) = Inr (of_int i)"
| "pv_number (PFloat x) = Inr x"
| "pv_number (PBool b) = Inr (if b then 1 else 0)"
| "pv_number v = Inl (TypeError ''not supported between instances'')"

definition dicts_of :: "pyval list \<Rightarrow> pydict list" where
  "dicts_of vs = concat (map (\<lambda>v. case v of PDict d \<Rightarrow> [d] | _ \<Rightarrow> []) vs)"

definition top_confidence :: "pydict \<Rightarrow> pyexn + rat" where
  "top_confidence report =
     bindE (report_evidence report) (\<lambda>ev.
     bindE (mapE (\<lambda>d. pv_number (d_get d ''confidence'' (PFloat 0))) (dicts_of ev)) (\<lambda>confs.
     Inr (case confs of [] \<Rightarrow> 0 | c # cs \<Rightarrow> fold max cs c)))"

fun first_reasoning :: "pyval list \<Rightarrow> pyexn + string" where
  "first_reasoning [] = Inr []"
| "first_reasoning (e # es) =
     bindE (attr_dict ''get'' e) (\<lambda>d.
     let r = py_or (py_or (dget d ''llm_reasoning'') (dget d ''reasoning'')) (PStr []) in
     if py_truth r then bindE (as_str r) (\<lambda>s. Inr (take 500 s)) else first_reasoning es)"

definition top_reasoning :: "pydict \<Rightarrow> pyexn + string" where
  "top_reasoning report =
     bindE (report_evidence report) (\<lambda>ev.
     bindE (first_reasoning ev) (\<lambda>r.
     if r \<noteq> [] then Inr r
     else bindE (attr_dict ''get'' (py_or (dget report ''package_meta'') (PDict []))) (\<lambda>meta.
          bindE (as_str (d_get meta ''advisory_summary'' (PStr []))) (\<lambda>s. Inr (take 500 s)))))"

definition summary_entry :: "pydict \<Rightarrow> pyexn + pyval" where
  "summary_entry d =
     bindE (as_str (py_or (dget d ''code_snippet'') (PStr []))) (\<lambda>snippet.
     Inr (PDict (map (\<lambda>k. (k, dget d k)) [''file_path'', ''line_start'', ''ttp_id'', ''ttp_name'',
         ''ttp_severity'', ''confidence'', ''llm_verdict'']
       @ [(''code_snippet'', PStr (take 200 snippet))])))"

definition evidence_summary :: "pydict \<Rightarrow> pyexn + pyval list" where
  "evidence_summary report =
     bindE (report_evidence report) (\<lambda>ev. mapE summary_entry (dicts_of (take 3 ev)))"

definition summary_of_obj :: "evidence \<Rightarrow> pyval" where
  "summary_of_obj e = PDict
     [(''file_path'', PStr (ev_file_path e)), (''line_start'', PInt (ev_line_start e)),
      (''ttp_id'', PStr (ev_ttp_id e)), (''ttp_name'', PStr (ev_ttp_name e)),
      (''ttp_severity'', PStr (severity_value (ev_ttp_severity e))),
      (''confidence'', PFloat (ev_confidence e)),
      (''llm_verdict'', PStr (llm_verdict_value (ev_llm_verdict e))),
      (''code_snippet'', PStr (take 200 (ev_code_snippet e)))]"

definition top_confidence_of_obj :: "analysis_report \<Rightarrow> rat" where
  "top_confidence_of_obj report = (case map ev_confidence (ar_evidence report) of
     [] \<Rightarrow> 0 | c # cs \<Rightarrow> fold max cs c)"

definition top_reasoning_of_obj :: "analysis_report \<Rightarrow> string" where
  "top_reasoning_of_obj report = (case List.find (\<lambda>e. ev_llm_reasoning e \<noteq> []) (ar_evidence report) of
     None \<Rightarrow> [] | Some e \<Rightarrow> take 500 (ev_llm_reasoning e))"

definition cached_answer :: "rat \<Rightarrow> cache_hit \<Rightarrow> pyval \<Rightarrow> pyexn + answer" where
  "cached_answer elapsed h v =
     bindE (attr_dict ''get'' v) (\<lambda>report.
     bindE (top_confidence report) (\<lambda>conf.
     bindE (top_reasoning report) (\<lambda>reasoning.
     bindE (report_evidence report) (\<lambda>ev.
     bindE (evidence_summary report) (\<lambda>summary.
     Inr (PDict
       [(''ok'', PBool True), (''verdict'', dget report ''verdict''), (''confidence'', PFloat conf),
        (''reasoning'', PStr reasoning), (''evidence_count'', PInt (int (length ev))),
        (''evidence_summary'', PList summary),
        (''package_meta'', py_or (dget report ''package_meta'') (PDict [])),
        (''cache'', PDict [(''hit'', PBool True), (''reason'', PStr (ch_reason h)),
           (''cached_at'', popt (\<lambda>r. PStr (an_analyzed_at r)) (ch_cache_row h))]),
        (''elapsed_s'', PFloat elapsed)], 200))))))"

definition fresh_answer :: "rat \<Rightarrow> analysis_report \<Rightarrow> answer" where
  "fresh_answer elapsed report = (PDict
     [(''ok'', PBool True), (''verdict'', PStr (verdict_value (ar_verdict report))),
      (''confidence'', PFloat (top_confidence_of_obj report)),
      (''reasoning'', PStr (top_reasoning_of_obj report)),
      (''evidence_count'', PInt (int (length (ar_evidence report)))),
      (''evidence_summary'', PList (map summary_of_obj (take 3 (ar_evidence report)))),
      (''package_meta'', PDict (ar_package_meta report)),
      (''cache'', PDict [(''hit'', PBool False), (''reason'', PStr ''fresh pipeline run'')]),
      (''elapsed_s'', PFloat elapsed)], 200)"

text \<open>
  The look-up of \<^verbatim>\<open>AnalysisCache()\<close> with its defaults and without an archive URL; an exception of it
  means no result. A hit without a report, or with an empty one, is none.
\<close>

definition lookup_cached :: "pipe_env \<Rightarrow> string \<Rightarrow> ecosystem \<Rightarrow> string \<Rightarrow> pipe_db
    \<Rightarrow> (cache_hit \<times> pyval) option \<times> pipe_db" where
  "lookup_cached env pkg eco version db =
     (case bindE (open_db env) (\<lambda>_. cache_get (pv_cache env) STRICT 7
              \<lparr>ck_package = pkg, ck_ecosystem = ecosystem_value eco, ck_version = version,
               ck_engine_version = ENGINE_VERSION\<rparr> None (pd_cache db)) of
        Inl _ \<Rightarrow> (None, db)
      | Inr (cdb, h) \<Rightarrow>
          (if ch_hit h then case ch_report h of
               Some v \<Rightarrow> if py_truth v then Some (h, v) else None
             | None \<Rightarrow> None
           else None, db\<lparr>pd_cache := cdb\<rparr>))"

definition analysis_input :: "string \<Rightarrow> ecosystem \<Rightarrow> string option \<Rightarrow> string \<Rightarrow> pipe_input" where
  "analysis_input pkg eco version llm_mode =
     \<lparr>pi_package = pkg, pi_ecosystem = eco, pi_version = version, pi_llm_mode = llm_mode,
      pi_llm_model = ''claude-sonnet-4-5'', pi_enable_deps = False, pi_enable_sandbox = False,
      pi_multi_agent = True, pi_integrity_mode = ''strict'', pi_use_cache = True,
      pi_force_rescan = False, pi_threat_filter = True\<rparr>"

text \<open>The fields read from the request, in the order they are checked.\<close>

definition analyze_request :: "pydict \<Rightarrow> pyexn + (answer + (string \<times> ecosystem \<times> string option \<times> string))" where
  "analyze_request payload =
     bindE (text_field payload ''package'' []) (\<lambda>pkg.
     bindE (text_field payload ''ecosystem'' []) (\<lambda>eco_str.
     if pkg = [] \<or> eco_str = [] then Inr (Inl (deny ''package + ecosystem required'' 400))
     else case enum_of ecosystems ecosystem_value eco_str of
       Inl _ \<Rightarrow> Inr (Inl (deny (''unknown ecosystem: '' @ eco_str @ '' (supported: PyPI, npm)'') 400))
     | Inr eco \<Rightarrow>
         bindE (text_field payload ''version'' []) (\<lambda>ver.
         bindE (text_field payload ''llm_mode'' ''stub'') (\<lambda>mode.
         let llm_mode = py_lower mode
         in if llm_mode \<notin> {''stub'', ''claude''}
            then Inr (Inl (deny (''unknown llm_mode: '' @ llm_mode) 400))
            else Inr (Inr (pkg, eco, if ver = [] then None else Some ver, llm_mode))))))"

definition analyze_body :: "analyze_env \<Rightarrow> pydict \<Rightarrow> pipe_db \<Rightarrow> (pyexn + answer) \<times> pipe_db" where
  "analyze_body env payload db =
     (case analyze_request payload of
        Inl e \<Rightarrow> (Inl e, db)
      | Inr (Inl err) \<Rightarrow> (Inr err, db)
      | Inr (Inr (pkg, eco, version, llm_mode)) \<Rightarrow>
          (case (case version of None \<Rightarrow> (None, db) | Some v \<Rightarrow> lookup_cached (nv_pipe env) pkg eco v db) of
             (Some (h, v), db') \<Rightarrow> (cached_answer (nv_elapsed env) h v, db')
           | (None, db') \<Rightarrow>
               (case run_pipeline (nv_pipe env) (analysis_input pkg eco version llm_mode) db' of
                  (report, db'') \<Rightarrow> (Inr (fresh_answer (nv_elapsed env) report), db''))))"

subsection \<open>The server's state\<close>

record server_env =
  sv_analyze :: analyze_env
  sv_alert :: alert_env
  sv_secret_arg :: "string option"
  sv_secret_var :: "string option"
  sv_dev_var :: "string option"
  sv_loads :: "string \<Rightarrow> pyval option"
  sv_int :: "string \<Rightarrow> int option"
  sv_float :: "string \<Rightarrow> rat option"
  sv_time :: int
  sv_db_probe :: "pyexn option"

record http_in =
  hi_method :: string
  hi_path :: string
  hi_query :: "(string \<times> string) list"
  hi_query_string :: string
  hi_body :: string
  hi_signature :: "string option"
  hi_timestamp :: "string option"

record server_state =
  st_alert :: alert_state
  st_db :: pipe_db
  st_metrics :: "(string \<times> int) list"

definition METRICS :: "(string \<times> int) list" where
  "METRICS = map (\<lambda>k. (''pkgsentinel_'' @ k, 0))
     [''requests_total'', ''analyze_total'', ''analyze_cache_hits_total'', ''analyze_errors_total'',
      ''runtime_alert_total'', ''iocs_export_total'', ''hmac_failures_total'']"

definition bump :: "string \<Rightarrow> server_state \<Rightarrow> server_state" where
  "bump k s = s\<lparr>st_metrics := AList.update (''pkgsentinel_'' @ k)
     ((case map_of (st_metrics s) (''pkgsentinel_'' @ k) of None \<Rightarrow> 0 | Some n \<Rightarrow> n) + 1) (st_metrics s)\<rparr>"

definition bump_if :: "bool \<Rightarrow> string \<Rightarrow> server_state \<Rightarrow> server_state" where
  "bump_if b k s = (if b then bump k s else s)"

definition get_secret :: "server_env \<Rightarrow> string option" where
  "get_secret env = (case sv_secret_var env of
     None \<Rightarrow> None | Some s \<Rightarrow> if py_strip s = [] then None else Some (py_strip s))"

definition dev_no_auth :: "server_env \<Rightarrow> bool" where
  "dev_no_auth env =
     (py_lower (py_strip (or_text (sv_dev_var env) [])) \<in> {''1'', ''true'', ''yes'', ''on''})"

definition auth_posture :: "server_env \<Rightarrow> string option \<times> answer option" where
  "auth_posture env =
     (let secret = (if truthy_opt (sv_secret_arg env) then sv_secret_arg env else get_secret env) in
      if secret = None \<and> \<not> dev_no_auth env
      then (None, Some (deny (''server misconfigured: HMAC secret required. ''
             @ ''Set PKGSENTINEL_HMAC_SECRET (prod) or PKGSENTINEL_DEV_NO_AUTH=1 (dev, insecure).'') 503))
      else (secret, None))"

definition MAX_CONTENT_LENGTH :: nat where
  "MAX_CONTENT_LENGTH = 4 * 1024 * 1024"

text \<open>\<^verbatim>\<open>_json_body\<close>: a body that is not JSON is an empty dictionary; any JSON value is taken as it is.\<close>

definition json_of_body :: "server_env \<Rightarrow> http_in \<Rightarrow> pyval" where
  "json_of_body env r = (if hi_body r = [] then PDict []
     else case sv_loads env (hi_body r) of None \<Rightarrow> PDict [] | Some v \<Rightarrow> v)"

definition signed_of :: "server_env \<Rightarrow> http_in \<Rightarrow> string \<Rightarrow> signed_request" where
  "signed_of env r raw =
     \<lparr>sr_signature = hi_signature r,
      sr_timestamp = (if truthy_opt (hi_timestamp r) then sv_int env (the (hi_timestamp r)) else None),
      sr_body = Some raw\<rparr>"

definition too_large :: answer where
  "too_large = deny ''request body too large (max 4 MiB)'' 413"

definition server_error :: answer where
  "server_error = deny ''Internal Server Error'' 500"

subsection \<open>The endpoints\<close>

text \<open>
  The three protected endpoints share their frame: the posture, the body, the handler, the counters.
  The handler gets the secret, the signed request and the body; an exception ends in 500.
\<close>

definition with_posture ::
  "server_env \<Rightarrow> (string option \<Rightarrow> server_state \<Rightarrow> answer \<times> server_state) \<Rightarrow> server_state
    \<Rightarrow> answer \<times> server_state" where
  "with_posture env handler s =
     (case auth_posture env of
        (_, Some err) \<Rightarrow> (err, s)
      | (secret, None) \<Rightarrow> handler secret s)"

definition checked ::
  "server_env \<Rightarrow> string option \<Rightarrow> signed_request \<Rightarrow> server_state
    \<Rightarrow> (server_state \<Rightarrow> (pyexn + answer) \<times> server_state) \<Rightarrow> (pyexn + answer) \<times> server_state" where
  "checked env secret req s handler =
     (case check_hmac (al_mac (sv_alert env)) secret True (al_clock_verify (sv_alert env))
              (al_clock_nonce (sv_alert env)) req (as_nonces (st_alert s)) of
        Inl e \<Rightarrow> (Inl e, s)
      | Inr (denied, nonces) \<Rightarrow>
          (let s' = s\<lparr>st_alert := (st_alert s)\<lparr>as_nonces := nonces\<rparr>\<rparr> in
           case denied of Some err \<Rightarrow> (Inr err, s') | None \<Rightarrow> handler s'))"

definition finish ::
  "(answer \<Rightarrow> server_state \<Rightarrow> server_state) \<Rightarrow> (pyexn + answer) \<times> server_state \<Rightarrow> answer \<times> server_state" where
  "finish tally r = (case r of (Inl e, s) \<Rightarrow> (server_error, s) | (Inr a, s) \<Rightarrow> (a, tally a s))"

definition cache_hit_answer :: "answer \<Rightarrow> bool" where
  "cache_hit_answer a = (case fst a of
       PDict d \<Rightarrow> (case d_get d ''cache'' (PDict []) of PDict c \<Rightarrow> py_truth (dget c ''hit'') | _ \<Rightarrow> False)
     | _ \<Rightarrow> False)"

definition count_auth :: "answer \<Rightarrow> server_state \<Rightarrow> server_state" where
  "count_auth a s = bump_if (snd a = 401) ''hmac_failures_total'' s"

definition count_analyze :: "answer \<Rightarrow> server_state \<Rightarrow> server_state" where
  "count_analyze a s = bump_if (cache_hit_answer a) ''analyze_cache_hits_total''
     (bump_if (snd a \<ge> 500) ''analyze_errors_total'' (count_auth a s))"

definition analyze_handler :: "server_env \<Rightarrow> http_in \<Rightarrow> server_state \<Rightarrow> (pyexn + answer) \<times> server_state" where
  "analyze_handler env r s =
     (case attr_dict ''get'' (json_of_body env r) of
        Inl e \<Rightarrow> (Inl e, s)
      | Inr payload \<Rightarrow> (case analyze_body (sv_analyze env) payload (st_db s) of
          (a, db) \<Rightarrow> (a, s\<lparr>st_db := db\<rparr>)))"

text \<open>An exception of the alert's handler comes before its first write that succeeds.\<close>

definition alert_handler :: "server_env \<Rightarrow> http_in \<Rightarrow> server_state \<Rightarrow> (pyexn + answer) \<times> server_state" where
  "alert_handler env r s =
     (case bindE (attr_dict ''get'' (json_of_body env r)) (\<lambda>payload.
             handle_alert_body (sv_alert env) payload (st_alert s)) of
        Inl e \<Rightarrow> (Inl e, s)
      | Inr (a, st) \<Rightarrow> (Inr a, s\<lparr>st_alert := st\<rparr>))"

definition query_args :: "(string \<times> string) list \<Rightarrow> pydict" where
  "query_args qs = fold (\<lambda>(k, v) d. if map_of d k = None then d @ [(k, PStr v)] else d) qs []"

definition export_handler :: "server_env \<Rightarrow> pyval \<Rightarrow> server_state \<Rightarrow> (pyexn + answer) \<times> server_state" where
  "export_handler env body s =
     (bindE (attr_dict ''get'' body) (\<lambda>query.
        iocs_export_body (sv_float env) (sv_int env) query (as_store (st_alert s))), s)"

definition analyze_endpoint :: "server_env \<Rightarrow> http_in \<Rightarrow> server_state \<Rightarrow> answer \<times> server_state" where
  "analyze_endpoint env r s = with_posture env (\<lambda>secret s.
     if length (hi_body r) > MAX_CONTENT_LENGTH then (too_large, s)
     else finish count_analyze
       (checked env secret (signed_of env r (hi_body r)) s (analyze_handler env r))) (bump ''analyze_total'' s)"

definition alert_endpoint :: "server_env \<Rightarrow> http_in \<Rightarrow> server_state \<Rightarrow> answer \<times> server_state" where
  "alert_endpoint env r s = with_posture env (\<lambda>secret s.
     if length (hi_body r) > MAX_CONTENT_LENGTH then (too_large, s)
     else finish count_auth
       (checked env secret (signed_of env r (hi_body r)) s (alert_handler env r)))
     (bump ''runtime_alert_total'' s)"

definition export_endpoint :: "server_env \<Rightarrow> http_in \<Rightarrow> server_state \<Rightarrow> answer \<times> server_state" where
  "export_endpoint env r s = with_posture env (\<lambda>secret s.
     if hi_method r = ''GET''
     then finish count_auth (checked env secret (signed_of env r (hi_query_string r)) s
            (export_handler env (PDict (query_args (hi_query r)))))
     else if length (hi_body r) > MAX_CONTENT_LENGTH then (too_large, s)
     else finish count_auth (checked env secret (signed_of env r (hi_body r)) s
            (export_handler env (json_of_body env r)))) (bump ''iocs_export_total'' s)"

definition metrics_text :: "server_state \<Rightarrow> string" where
  "metrics_text s = py_join [CHR 0x0A] (concat (map (\<lambda>k.
     [''# TYPE '' @ k @ '' counter'',
      k @ '' '' @ show_int (case map_of (st_metrics s) k of None \<Rightarrow> 0 | Some n \<Rightarrow> n)])
     (sorted_set (map fst (st_metrics s))))) @ [CHR 0x0A]"

text \<open>A path and its methods, and what serves it.\<close>

definition ROUTES :: "(string \<times> string list) list" where
  "ROUTES =
     [(''/api/v1/analyze'', [''POST'']), (''/api/v1/runtime-alert'', [''POST'']),
      (''/api/v1/iocs/export'', [''GET'', ''POST'']), (''/healthz'', [''GET'']),
      (''/readyz'', [''GET'']), (''/metrics'', [''GET''])]"

definition dispatch :: "server_env \<Rightarrow> http_in \<Rightarrow> server_state \<Rightarrow> answer \<times> server_state" where
  "dispatch env r s =
     (if hi_path r = ''/api/v1/analyze'' then analyze_endpoint env r s
      else if hi_path r = ''/api/v1/runtime-alert'' then alert_endpoint env r s
      else if hi_path r = ''/api/v1/iocs/export'' then export_endpoint env r s
      else if hi_path r = ''/healthz''
      then ((PDict [(''ok'', PBool True), (''service'', PStr ''pkgsentinel''),
              (''ts'', PInt (sv_time env))], 200), s)
      else if hi_path r = ''/readyz''
      then ((case sv_db_probe env of
              None \<Rightarrow> (PDict [(''ok'', PBool True)], 200)
            | Some e \<Rightarrow> (PDict [(''ok'', PBool False),
                (''error'', PStr (''db: '' @ exn_name e @ '': '' @ exn_str e))], 503)), s)
      else ((PStr (metrics_text s), 200), s))"

definition serve_request :: "server_env \<Rightarrow> http_in \<Rightarrow> server_state \<Rightarrow> answer \<times> server_state" where
  "serve_request env r s =
     (let s = bump ''requests_total'' s in
      case map_of ROUTES (hi_path r) of
        None \<Rightarrow> (deny ''not found'' 404, s)
      | Some methods \<Rightarrow>
          if hi_method r \<in> set methods then dispatch env r s
          else (deny ''method not allowed'' 405, s))"

subsection \<open>Nothing is done for a stranger\<close>

text \<open>What a request can change besides the counters: the feedback loop and the databases.\<close>

definition core :: "server_state \<Rightarrow> alert_state \<times> pipe_db" where
  "core s = (st_alert s, st_db s)"

lemma core_bump [simp]: "core (bump k s) = core s" "core (bump_if b k s) = core s"
  by (simp_all add: core_def bump_def bump_if_def)

lemma core_tally [simp]: "core (count_auth a s) = core s" "core (count_analyze a s) = core s"
  by (simp_all add: count_auth_def count_analyze_def)

definition genuine :: "server_env \<Rightarrow> string \<Rightarrow> http_in \<Rightarrow> bool" where
  "genuine env secret r \<longleftrightarrow> (\<exists>ts. signed_of env r (hi_body r)
       = \<lparr>sr_signature = Some (''sha256='' @ al_mac (sv_alert env) secret (show_int ts @ ''.'' @ hi_body r)),
          sr_timestamp = Some ts, sr_body = Some (hi_body r)\<rparr>
     \<and> \<bar>epoch_ms (al_clock_verify (sv_alert env)) - ts\<bar> \<le> 300000)"

lemma checked_cases:
  assumes "checked env (Some secret) req s handler = (a, s')"
  shows "(\<exists>n. check_hmac (al_mac (sv_alert env)) (Some secret) True (al_clock_verify (sv_alert env))
            (al_clock_nonce (sv_alert env)) req (as_nonces (st_alert s)) = Inr (None, n)
          \<and> (a, s') = handler (s\<lparr>st_alert := (st_alert s)\<lparr>as_nonces := n\<rparr>\<rparr>))
       \<or> as_store (st_alert s') = as_store (st_alert s) \<and> as_index (st_alert s') = as_index (st_alert s)
         \<and> st_db s' = st_db s"
  using assms by (auto simp: checked_def Let_def split: sum.splits option.splits prod.splits)

lemma accepted_genuine:
  assumes "check_hmac (al_mac (sv_alert env)) (Some secret) True (al_clock_verify (sv_alert env)) now
      (signed_of env r (hi_body r)) cache = Inr (None, cache')"
  shows "genuine env secret r"
proof -
  obtain header ts body where "signed_of env r (hi_body r)
      = \<lparr>sr_signature = Some header, sr_timestamp = Some ts, sr_body = Some body\<rparr>"
    and "hmac_verify (al_mac (sv_alert env)) (al_clock_verify (sv_alert env)) secret ts body header 300 = Inr True"
    using assms unfolding check_accepts_iff by blast
  moreover from this(1) have "body = hi_body r" by (simp add: signed_of_def)
  ultimately show ?thesis unfolding genuine_def verify_True_iff hmac_sign_def by auto
qed

lemma checked_genuine:
  assumes "checked env (Some secret) (signed_of env r (hi_body r)) s handler = (a, s')"
    and "\<not> genuine env secret r"
  shows "as_store (st_alert s') = as_store (st_alert s)" "as_index (st_alert s') = as_index (st_alert s)"
    "st_db s' = st_db s"
  using checked_cases [OF assms(1)] accepted_genuine assms(2) by blast+

text \<open>What a request leaves behind besides the counters and the nonces.\<close>

definition kept_data :: "server_state \<Rightarrow> intel_store \<times> attack_index option \<times> pipe_db" where
  "kept_data s = (as_store (st_alert s), as_index (st_alert s), st_db s)"

lemma kept_bump [simp]: "kept_data (bump k s) = kept_data s" "kept_data (bump_if b k s) = kept_data s"
  by (simp_all add: kept_data_def bump_def bump_if_def)

lemma kept_finish:
  assumes "\<And>a s. kept_data (tally a s) = kept_data s"
  shows "kept_data (snd (finish tally r)) = kept_data (snd r)"
  using assms by (auto simp: finish_def split: sum.splits prod.splits)

lemma kept_tally [simp]: "kept_data (count_auth a s) = kept_data s" "kept_data (count_analyze a s) = kept_data s"
  by (simp_all add: count_auth_def count_analyze_def)

lemma kept_checked:
  assumes "\<not> genuine env secret r"
  shows "kept_data (snd (checked env (Some secret) (signed_of env r (hi_body r)) s handler)) = kept_data s"
proof (cases "checked env (Some secret) (signed_of env r (hi_body r)) s handler")
  case (Pair a s')
  show ?thesis using checked_genuine [OF Pair assms] by (simp add: kept_data_def Pair)
qed

lemma kept_export:
  "kept_data (snd (checked env secret req s (export_handler env body))) = kept_data s"
  by (auto simp: checked_def export_handler_def kept_data_def Let_def split: sum.splits option.splits prod.splits)

lemma kept_posture:
  assumes "\<And>secret s. \<not> dev_no_auth env \<Longrightarrow> auth_posture env = (Some secret, None)
      \<Longrightarrow> kept_data (snd (handler (Some secret) s)) = kept_data s" and "\<not> dev_no_auth env"
  shows "kept_data (snd (with_posture env handler s)) = kept_data s"
proof (cases "auth_posture env")
  case (Pair secret err)
  show ?thesis
  proof (cases "secret = None")
    case True
    then have "err \<noteq> None" using Pair assms(2) by (auto simp: auth_posture_def Let_def split: if_splits)
    then show ?thesis by (auto simp: with_posture_def Pair)
  next
    case False
    then obtain k where k: "secret = Some k" by blast
    then have "err = None" using Pair by (auto simp: auth_posture_def Let_def split: if_splits)
    then show ?thesis using assms Pair k by (simp add: with_posture_def)
  qed
qed

text \<open>C8: Without the development flag, a request that changes anything besides the counters and the
  nonces found a secret configured, is a POST to the analysis or the alert endpoint of at most 4 MiB
  and carries the MAC of its own time stamp and body under that secret, stamped within five minutes.
\<close>
theorem strangers_change_nothing:
  assumes "\<not> dev_no_auth env" and "kept_data (snd (serve_request env r s)) \<noteq> kept_data s"
  shows "\<exists>secret. auth_posture env = (Some secret, None) \<and> genuine env secret r
    \<and> hi_method r = ''POST'' \<and> hi_path r \<in> {''/api/v1/analyze'', ''/api/v1/runtime-alert''}
    \<and> length (hi_body r) \<le> MAX_CONTENT_LENGTH"
proof (rule ccontr)
  assume no: "\<not> ?thesis"
  let ?s = "bump ''requests_total'' s"
  have "kept_data (snd (dispatch env r ?s)) = kept_data s"
    if "map_of ROUTES (hi_path r) = Some ms" "hi_method r \<in> set ms" for ms
  proof -
    have post: "hi_path r \<in> {''/api/v1/analyze'', ''/api/v1/runtime-alert''} \<Longrightarrow> hi_method r = ''POST''"
      using that by (auto simp: ROUTES_def)
    have "kept_data (snd (analyze_endpoint env r ?s)) = kept_data s" if "hi_path r = ''/api/v1/analyze''"
      using no post that assms(1) unfolding analyze_endpoint_def
      by (subst kept_posture) (auto simp: kept_finish kept_checked not_le)
    moreover have "kept_data (snd (alert_endpoint env r ?s)) = kept_data s"
      if "hi_path r = ''/api/v1/runtime-alert''"
      using no post that assms(1) unfolding alert_endpoint_def
      by (subst kept_posture) (auto simp: kept_finish kept_checked not_le)
    moreover have "kept_data (snd (export_endpoint env r ?s)) = kept_data s"
      using assms(1) unfolding export_endpoint_def
      by (subst kept_posture) (auto simp: kept_finish kept_export)
    ultimately show ?thesis by (simp add: dispatch_def)
  qed
  then show False using assms(2) by (auto simp: serve_request_def Let_def split: option.splits if_splits)
qed

definition door_env :: server_env where
  "door_env = \<lparr>sv_analyze = undefined, sv_alert = quiet_env, sv_secret_arg = Some ''s'', sv_secret_var = None,
     sv_dev_var = None, sv_loads = (\<lambda>b. Some (PDict (dns_alert ''a''))), sv_int = (\<lambda>t. Some 0),
     sv_float = (\<lambda>t. None), sv_time = 0, sv_db_probe = None\<rparr>"

definition door_request :: http_in where
  "door_request = \<lparr>hi_method = ''POST'', hi_path = ''/api/v1/runtime-alert'', hi_query = [],
     hi_query_string = [], hi_body = ''{}'', hi_signature = Some ''sha256=ab'', hi_timestamp = Some ''0''\<rparr>"

definition door_state :: "pipe_db \<Rightarrow> server_state" where
  "door_state db = \<lparr>st_alert = start_state, st_db = db, st_metrics = METRICS\<rparr>"

lemma door_answered:
  obtains answer st where "handle_alert_body quiet_env (dns_alert ''a'') (start_state\<lparr>as_nonces := n\<rparr>) = Inr (answer, st)"
    "is_iocs (as_store st) \<noteq> []"
proof -
  obtain answer st where a: "handle_runtime_alert quiet_env undefined (dns_alert ''a'') (start_state\<lparr>as_nonces := n\<rparr>)
      = Inr (answer, st)" "snd answer = 200"
    by (rule dns_answered [OF dns_read(1) dns_hits(1)])
  then have h: "handle_alert_body quiet_env (dns_alert ''a'') (start_state\<lparr>as_nonces := n\<rparr>) = Inr (answer, st)"
    by (simp add: handle_runtime_alert_def check_hmac_def quiet_env_def)
  have r: "reports quiet_env (dns_alert ''a'') (''domain'', ''evil.example'') ''a@*''"
    unfolding reports_def using dns_read dns_hits
    by (auto simp: dns_hit_def pkg_at_version_def dns_event_def new_event_def pv_str_def py_or_def)
  have "store_inv (as_store (start_state\<lparr>as_nonces := n\<rparr>))"
    using reachable_inv [OF rtranclp.rtrancl_refl] by (simp add: start_state_def)
  from alert_learns(1) [OF this a r] have "is_iocs (as_store st) \<noteq> []" by (auto simp: knows_def)
  with h show ?thesis by (rule that)
qed

lemma door_changes: "kept_data (snd (serve_request door_env door_request (door_state db))) \<noteq> kept_data (door_state db)"
proof -
  obtain answer st where a: "handle_alert_body quiet_env (dns_alert ''a'')
      (start_state\<lparr>as_nonces := [((0, ''ab''), 0)]\<rparr>) = Inr (answer, st)" "is_iocs (as_store st) \<noteq> []"
    by (rule door_answered)
  have "check_hmac flat_mac (Some ''s'') True 0 0 \<lparr>sr_signature = Some ''sha256=ab'', sr_timestamp = Some 0,
      sr_body = Some ''{}''\<rparr> [] = Inr (None, [((0, ''ab''), 0)])"
    by (simp add: check_hmac_def hmac_verify_def compare_digest_def ascii_def hmac_sign_def flat_mac_def
        epoch_ms_def nonce_seen_def make_room_def drop_expired_def NONCE_MAX_def Let_def signature_hex_def)
  then have check: "check_hmac (al_mac quiet_env) (Some ''s'') True (al_clock_verify quiet_env) (al_clock_nonce quiet_env)
      (signed_of door_env door_request (hi_body door_request)) (as_nonces start_state)
      = Inr (None, [((0, ''ab''), 0)])"
    by (simp add: quiet_env_def signed_of_def door_env_def door_request_def truthy_opt_def start_state_def)
  have posture: "auth_posture door_env = (Some ''s'', None)"
    by (simp add: auth_posture_def door_env_def truthy_opt_def)
  have body: "attr_dict ''get'' (json_of_body door_env door_request) = Inr (dns_alert ''a'')"
    by (simp add: json_of_body_def door_env_def door_request_def attr_dict_def)
  have alert: "sv_alert door_env = quiet_env" by (simp add: door_env_def)
  have "as_store (st_alert (snd (alert_endpoint door_env door_request s))) = as_store st"
    if "st_alert s = start_state" for s
  proof -
    let ?s = "bump ''runtime_alert_total'' s"
    have "st_alert ?s = start_state" using that by (simp add: bump_def)
    then have "checked door_env (Some ''s'') (signed_of door_env door_request (hi_body door_request)) ?s
        (alert_handler door_env door_request) = (Inr answer, ?s\<lparr>st_alert := st\<rparr>)"
      using check body a(1) by (simp add: checked_def alert Let_def
          alert_handler_def bindE_def)
    then show ?thesis
      by (simp add: alert_endpoint_def with_posture_def posture finish_def MAX_CONTENT_LENGTH_def count_auth_def
          bump_if_def bump_def door_request_def)
  qed
  then have "as_store (st_alert (snd (serve_request door_env door_request (door_state db)))) = as_store st"
    by (simp add: serve_request_def ROUTES_def dispatch_def Let_def door_request_def bump_def door_state_def)
  then show ?thesis using a(2) by (auto simp: kept_data_def door_state_def start_state_def empty_store_def)
qed

theorem strangers_change_nothing_witness:
  "\<exists>db. genuine door_env ''s'' door_request
     \<and> kept_data (snd (serve_request door_env door_request (door_state db))) \<noteq> kept_data (door_state db)"
proof -
  have "\<not> dev_no_auth door_env" by (simp add: dev_no_auth_def door_env_def or_text_def py_strip_def py_lower_def)
  from strangers_change_nothing [OF this door_changes] show ?thesis
    using door_changes by (auto simp: auth_posture_def door_env_def truthy_opt_def)
qed

end
