(* ===== verification/JsAst.thy ===== *)
theory JsAst
  imports Behavior Dependency
begin

text \<open>
  \<^verbatim>\<open>stages/js_ast_parser.py\<close>: the calls of a JavaScript file, found in the tree that tree-sitter
  builds. The parser is a parameter; a node has the name of the field it fills in its parent (empty
  for none), its type, its text, its row (from 0) and its children in order.
\<close>

subsection \<open>Syntax trees\<close>

datatype jsnode = JsNode (js_field: string) (js_type: string) (js_text: string) (js_row: nat)
  (js_kids: "jsnode list")

definition child_by_field :: "jsnode \<Rightarrow> string \<Rightarrow> jsnode option" where
  "child_by_field n f = List.find (\<lambda>c. js_field c = f) (js_kids n)"

lemma kid_size [termination_simp]: "c \<in> set (js_kids n) \<Longrightarrow> size c < size n"
  by (cases n) (auto dest: size_list_estimation' [where f = size, OF _ order_refl])

lemma child_by_field_kid: "child_by_field n f = Some c \<Longrightarrow> c \<in> set (js_kids n)"
  by (auto simp: child_by_field_def find_Some_iff)

lemma child_size [termination_simp]: "child_by_field n f = Some c \<Longrightarrow> size c < size n"
  by (metis child_by_field_kid kid_size)

fun js_preorder :: "jsnode \<Rightarrow> jsnode list" where
  "js_preorder n = n # concat (map js_preorder (js_kids n))"

declare js_preorder.simps [simp del]

definition js_line :: "jsnode \<Rightarrow> nat" where
  "js_line n = js_row n + 1"

definition js_quotes :: string where
  "js_quotes = [CHR 0x27, CHR 0x22, CHR 0x60]"

definition js_unquote :: "jsnode \<Rightarrow> string" where
  "js_unquote n = strip_chars js_quotes (js_text n)"

subsection \<open>Calls\<close>

fun first_name :: "string option list \<Rightarrow> string option" where
  "first_name [] = None"
| "first_name (r # rs) = (if r = None \<or> r = Some [] then first_name rs else r)"

definition dotted :: "string option \<Rightarrow> string \<Rightarrow> string" where
  "dotted obj p = (case obj of None \<Rightarrow> p | Some s \<Rightarrow> s @ ''.'' @ p)"

fun js_call_name :: "jsnode \<Rightarrow> string option" where
  "js_call_name n =
     (if js_type n = ''identifier'' then Some (js_text n)
      else if js_type n = ''member_expression'' then
        (case child_by_field n ''property'' of
           None \<Rightarrow> None
         | Some p \<Rightarrow> Some (dotted (case child_by_field n ''object'' of None \<Rightarrow> None
                                     | Some obj \<Rightarrow> js_call_name obj) (js_text p)))
      else if js_type n = ''parenthesized_expression''
      then first_name (map js_call_name (js_kids n))
      else None)"

declare js_call_name.simps [simp del]

definition js_function :: "jsnode \<Rightarrow> jsnode option" where
  "js_function n = (case child_by_field n ''function'' of
       Some f \<Rightarrow> Some f
     | None \<Rightarrow> if js_type n = ''new_expression'' then child_by_field n ''constructor'' else None)"

definition js_name_of_call :: "jsnode \<Rightarrow> string option" where
  "js_name_of_call n = (case js_function n of None \<Rightarrow> None | Some f \<Rightarrow> js_call_name f)"

definition first_string :: "jsnode list \<Rightarrow> string option" where
  "first_string cs = map_option js_unquote (List.find (\<lambda>c. js_type c = ''string'') cs)"

definition string_argument :: "jsnode \<Rightarrow> string option" where
  "string_argument n = (case child_by_field n ''arguments'' of None \<Rightarrow> None | Some a \<Rightarrow> first_string (js_kids a))"

definition required_dimension :: "string \<Rightarrow> attack_dimension option" where
  "required_dimension m =
     (if m \<in> {''child_process'', ''vm''} then Some PAYLOAD_EXECUTION
      else if m \<in> {''net'', ''http'', ''https'', ''dgram''} then Some DATA_TRANSMISSION else None)"

definition js_call :: "string list \<Rightarrow> jsnode \<Rightarrow> string \<Rightarrow> attack_dimension \<Rightarrow> api_call" where
  "js_call lines n name dm =
     \<lparr>ac_name = name, ac_line = int (js_line n), ac_dimension = dm, ac_snippet = take 200 (get_snippet lines (js_line n))\<rparr>"

definition require_calls :: "string list \<Rightarrow> jsnode \<Rightarrow> api_call list" where
  "require_calls lines n =
     (if js_name_of_call n = Some ''require'' then
        (case string_argument n of
           None \<Rightarrow> []
         | Some m \<Rightarrow> (case required_dimension m of
               None \<Rightarrow> [] | Some dm \<Rightarrow> [js_call lines n (''require:'' @ m) dm]))
      else [])"

definition named_calls :: "string list \<Rightarrow> jsnode \<Rightarrow> api_call list" where
  "named_calls lines n =
     (case js_name_of_call n of
        None \<Rightarrow> []
      | Some name \<Rightarrow> if name = [] then [] else
          (case lookup_js name of None \<Rightarrow> [] | Some dm \<Rightarrow> [js_call lines n name dm]))"

definition js_node_calls :: "string list \<Rightarrow> jsnode \<Rightarrow> api_call list" where
  "js_node_calls lines n =
     (if js_type n \<in> {''call_expression'', ''new_expression''}
      then require_calls lines n @ named_calls lines n else [])
     @ (case (js_type n = ''call_expression'', child_by_field n ''function'') of
          (True, Some f) \<Rightarrow> if js_type f = ''subscript_expression''
             then [js_call lines n ''<dynamic_call_via_subscript>'' PAYLOAD_EXECUTION] else []
        | _ \<Rightarrow> [])"

definition js_calls :: "string list \<Rightarrow> jsnode \<Rightarrow> api_call list" where
  "js_calls lines tree = sort_key ac_line (concat (map (js_node_calls lines) (js_preorder tree)))"

definition extract_js_calls :: "(string \<Rightarrow> pyexn + jsnode) \<Rightarrow> string \<Rightarrow> pyexn + api_call list" where
  "extract_js_calls parse src = bindE (parse src) (\<lambda>tree. Inr (js_calls (py_splitlines src) tree))"

definition analyze_entry_js :: "(string \<Rightarrow> pyexn + jsnode) \<Rightarrow> entry_file \<Rightarrow> file_sequence" where
  "analyze_entry_js parse f =
     (case extract_js_calls parse (ef_content f) of
        Inr calls \<Rightarrow> \<lparr>fq_path = ef_path f, fq_language = ''javascript'', fq_calls = calls, fq_parse_error = None\<rparr>
      | Inl e \<Rightarrow> \<lparr>fq_path = ef_path f, fq_language = ''javascript'', fq_calls = [],
          fq_parse_error = Some (''tree-sitter error: '' @ exn_str e)\<rparr>)"

text \<open>
  The analyser as the behaviour stage calls it; without the tree-sitter packages the import fails, and
  only then does the stage fall back to its textual scan.
\<close>

definition js_analyser :: "pyexn + (string \<Rightarrow> pyexn + jsnode) \<Rightarrow> entry_file \<Rightarrow> pyexn + file_sequence" where
  "js_analyser parser f = bindE parser (\<lambda>parse. Inr (analyze_entry_js parse f))"

lemma js_analyser_used:
  "analyze_javascript (js_analyser (Inr parse)) f = analyze_entry_js parse f"
  by (simp add: analyze_javascript_def js_analyser_def)

text \<open>
  An exception of the parser ends in a sequence without calls: the textual scan that the behaviour
  stage keeps for failures is only reached when tree-sitter cannot be imported.
\<close>

lemma parse_failure_hides_calls:
  assumes "parse (ef_content f) = Inl e"
  shows "fq_calls (analyze_javascript (js_analyser (Inr parse)) f) = []"
  using assms by (simp add: js_analyser_used analyze_entry_js_def extract_js_calls_def)

lemma js_calls_sorted: "sorted (map ac_line (js_calls lines tree))"
  by (simp add: js_calls_def)

lemma js_calls_of_nodes: "set (js_calls lines tree) = (\<Union>n\<in>set (js_preorder tree). set (js_node_calls lines n))"
  by (auto simp: js_calls_def)

lemma subscript_call_flagged:
  assumes "n \<in> set (js_preorder tree)" and "js_type n = ''call_expression''"
    and "child_by_field n ''function'' = Some f" and "js_type f = ''subscript_expression''"
  shows "js_call lines n ''<dynamic_call_via_subscript>'' PAYLOAD_EXECUTION \<in> set (js_calls lines tree)"
proof -
  have "js_call lines n ''<dynamic_call_via_subscript>'' PAYLOAD_EXECUTION \<in> set (js_node_calls lines n)"
    using assms(2-4) by (simp add: js_node_calls_def)
  then show ?thesis unfolding js_calls_of_nodes using assms(1) by blast
qed

end
