(* ===== verification/TaintJs.thy ===== *)
theory TaintJs
  imports JsAst TaintPython
begin

text \<open>
  \<^verbatim>\<open>stages/taint_slicer.py\<close>, the JavaScript half: secrets that one module exports and another imports,
  by \<^verbatim>\<open>import\<close> or \<^verbatim>\<open>require\<close>, and passes to a sink. The parser is a parameter, as in \<^theory_text>\<open>JsAst\<close>.
  A dictionary of sources has distinct paths.
\<close>

subsection \<open>Sources, sinks, transforms\<close>

definition JS_SECRET_PATH_HINTS :: "string list" where
  "JS_SECRET_PATH_HINTS = [''.aws/'', ''.ssh/'', ''credentials'', ''.env'', ''id_rsa'', ''secrets'']"

definition JS_SINK_NAMES :: "string list" where
  "JS_SINK_NAMES =
     [''fetch'',
      ''axios.post'', ''axios.put'', ''axios.patch'', ''axios.get'', ''axios'',
      ''http.request'', ''https.request'',
      ''child_process.exec'', ''child_process.execSync'',
      ''child_process.spawn'', ''child_process.spawnSync'',
      ''eval'', ''Function'']"

definition JS_TRANSFORMS :: "string list" where
  "JS_TRANSFORMS =
     [''Buffer.from'', ''JSON.stringify'', ''JSON.parse'',
      ''atob'', ''btoa'', ''encodeURIComponent'', ''decodeURIComponent'',
      ''String'', ''Number'']"

fun js_resolve_member :: "jsnode \<Rightarrow> string option" where
  "js_resolve_member n =
     (if js_type n \<in> {''identifier'', ''property_identifier''} then Some (js_text n)
      else if js_type n = ''member_expression'' then
        (case child_by_field n ''property'' of
           None \<Rightarrow> None
         | Some p \<Rightarrow> Some (dotted (case child_by_field n ''object'' of None \<Rightarrow> None
                                     | Some obj \<Rightarrow> js_resolve_member obj) (js_text p)))
      else if js_type n = ''subscript_expression'' then
        (case child_by_field n ''object'' of None \<Rightarrow> None | Some obj \<Rightarrow> js_resolve_member obj)
      else None)"

declare js_resolve_member.simps [simp del]

definition callee_of :: "jsnode \<Rightarrow> string option" where
  "callee_of n = (case child_by_field n ''function'' of None \<Rightarrow> None | Some f \<Rightarrow> js_resolve_member f)"

definition names_secret :: "jsnode \<Rightarrow> bool" where
  "names_secret c = (js_type c = ''string''
     \<and> list_ex (\<lambda>h. sublist h (py_lower (js_unquote c))) JS_SECRET_PATH_HINTS)"

definition js_is_taint_source :: "jsnode option \<Rightarrow> string option" where
  "js_is_taint_source v = (case v of
     None \<Rightarrow> None
   | Some n \<Rightarrow>
       if js_type n \<in> {''member_expression'', ''subscript_expression''} then
         (case js_resolve_member n of
            None \<Rightarrow> None
          | Some name \<Rightarrow> if name = ''process.env'' \<or> startswith name ''process.env.''
              then Some ''process.env'' else None)
       else if js_type n = ''call_expression'' then
         (if callee_of n \<in> {Some ''fs.readFileSync'', Some ''fs.readFile''} then
            (case child_by_field n ''arguments'' of
               None \<Rightarrow> None
             | Some a \<Rightarrow> if list_ex names_secret (js_kids a) then callee_of n else None)
          else None)
       else None)"

subsection \<open>What a module taints and exports\<close>

record js_module =
  jm_tainted :: "(string \<times> taint_info) list"
  jm_exports :: "(string \<times> string) list"

definition no_module :: js_module where
  "no_module = \<lparr>jm_tainted = [], jm_exports = []\<rparr>"

definition taint_name :: "string \<Rightarrow> string \<Rightarrow> jsnode \<Rightarrow> js_module \<Rightarrow> js_module" where
  "taint_name x src at_node m = m\<lparr>jm_tainted := AList.update x
     \<lparr>ti_source = src, ti_line = int (js_line at_node), ti_transforms = []\<rparr> (jm_tainted m)\<rparr>"

definition export_name :: "string \<Rightarrow> string \<Rightarrow> js_module \<Rightarrow> js_module" where
  "export_name x local_var m = m\<lparr>jm_exports := AList.update x local_var (jm_exports m)\<rparr>"

definition scan_declarator :: "bool \<Rightarrow> jsnode \<Rightarrow> js_module \<Rightarrow> js_module" where
  "scan_declarator in_export decl m =
     (case child_by_field decl ''name'' of
        None \<Rightarrow> m
      | Some n \<Rightarrow>
          if js_type n = ''identifier'' then
            (let m = (case js_is_taint_source (child_by_field decl ''value'') of
                        None \<Rightarrow> m | Some src \<Rightarrow> taint_name (js_text n) src decl m)
             in if in_export then export_name (js_text n) (js_text n) m else m)
          else m)"

definition scan_declarators :: "bool \<Rightarrow> jsnode \<Rightarrow> js_module \<Rightarrow> js_module" where
  "scan_declarators in_export stmt =
     fold (scan_declarator in_export) (filter (\<lambda>c. js_type c = ''variable_declarator'') (js_kids stmt))"

definition is_declaration :: "jsnode \<Rightarrow> bool" where
  "is_declaration n = (js_type n \<in> {''lexical_declaration'', ''variable_declaration''})"

definition scan_export_specifier :: "jsnode \<Rightarrow> js_module \<Rightarrow> js_module" where
  "scan_export_specifier spec m =
     (if js_type spec = ''export_specifier'' then
        (case child_by_field spec ''name'' of
           None \<Rightarrow> m
         | Some n \<Rightarrow> export_name (case child_by_field spec ''alias'' of None \<Rightarrow> js_text n | Some a \<Rightarrow> js_text a)
             (js_text n) m)
      else m)"

definition scan_export :: "jsnode \<Rightarrow> js_module \<Rightarrow> js_module" where
  "scan_export c m =
     (if is_declaration c then scan_declarators True c m
      else if js_type c = ''export_clause'' then fold scan_export_specifier (js_kids c) m
      else m)"

definition scan_property :: "jsnode \<Rightarrow> js_module \<Rightarrow> js_module" where
  "scan_property p m =
     (if js_type p = ''shorthand_property_identifier'' then export_name (js_text p) (js_text p) m
      else if js_type p = ''pair'' then
        (case (child_by_field p ''key'', child_by_field p ''value'') of
           (Some k, Some v) \<Rightarrow> if js_type v = ''identifier'' then export_name (js_text k) (js_text v) m else m
         | _ \<Rightarrow> m)
      else m)"

definition scan_exports_member :: "jsnode \<Rightarrow> string \<Rightarrow> jsnode option \<Rightarrow> js_module \<Rightarrow> js_module" where
  "scan_exports_member stmt x rhs m =
     (case rhs of
        None \<Rightarrow> m
      | Some r \<Rightarrow>
          if js_type r = ''identifier'' then export_name x (js_text r) m
          else (case js_is_taint_source (Some r) of
                  None \<Rightarrow> m
                | Some src \<Rightarrow> export_name x (''__export_'' @ x) (taint_name (''__export_'' @ x) src stmt m)))"

definition scan_assignment :: "jsnode \<Rightarrow> jsnode \<Rightarrow> js_module \<Rightarrow> js_module" where
  "scan_assignment stmt inner m =
     (let rhs = child_by_field inner ''right'';
          lhs = (case child_by_field inner ''left'' of None \<Rightarrow> None | Some l \<Rightarrow> js_resolve_member l)
      in case lhs of
           None \<Rightarrow> m
         | Some name \<Rightarrow>
             (case (name = ''module.exports'', rhs) of
                (True, Some r) \<Rightarrow> if js_type r = ''object'' then fold scan_property (js_kids r) m else m
              | _ \<Rightarrow> if startswith name ''module.exports.'' \<or> startswith name ''exports.''
                  then scan_exports_member stmt (last (split_on (CHR ''.'') name)) rhs m else m))"

definition scan_statement :: "jsnode \<Rightarrow> js_module \<Rightarrow> js_module" where
  "scan_statement stmt m =
     (if is_declaration stmt then scan_declarators False stmt m
      else if js_type stmt = ''export_statement'' then fold scan_export (js_kids stmt) m
      else if js_type stmt = ''expression_statement'' then
        (case js_kids stmt of
           [] \<Rightarrow> m
         | inner # _ \<Rightarrow> if js_type inner = ''assignment_expression'' then scan_assignment stmt inner m else m)
      else m)"

definition module_taints_and_exports :: "jsnode \<Rightarrow> js_module" where
  "module_taints_and_exports tree = fold scan_statement (js_kids tree) no_module"

subsection \<open>Resolving an import\<close>

definition js_path_to_key :: "string \<Rightarrow> string" where
  "js_path_to_key path = map (\<lambda>c. if c = CHR 0x5C then CHR ''/'' else c) path"

definition normal_step :: "string \<Rightarrow> string list \<Rightarrow> string list" where
  "normal_step seg parts =
     (if seg = [] \<or> seg = ''.'' then parts
      else if seg = ''..'' then butlast parts
      else parts @ [seg])"

definition dir_of :: "string \<Rightarrow> string" where
  "dir_of path = py_join ''/'' (butlast (split_on (CHR ''/'') path))"

definition import_candidates :: "string \<Rightarrow> string \<Rightarrow> string list" where
  "import_candidates spec importer_path =
     (let folder = dir_of (js_path_to_key importer_path) in
      if startswith spec ''./'' \<or> startswith spec ''../'' \<or> startswith spec ''/'' then
        (let base = (if startswith spec ''/'' then dropWhile (\<lambda>c. c = CHR ''/'') spec
                     else if folder \<noteq> [] then folder @ ''/'' @ spec else spec);
             joined = py_join ''/'' (fold normal_step (split_on (CHR ''/'') base) [])
         in [joined, joined @ ''.js'', joined @ ''.mjs'', joined @ ''.cjs'', joined @ ''/index.js''])
      else
        (let base = last (split_on (CHR ''/'') spec)
         in [spec, spec @ ''.js'', base, base @ ''.js'', base @ ''/index.js'']))"

definition key_table :: "string list \<Rightarrow> (string \<times> string) list" where
  "key_table paths = fold (\<lambda>k. AList.update (js_path_to_key k) k) paths []"

definition suffix_match :: "(string \<times> string) list \<Rightarrow> string \<Rightarrow> string option" where
  "suffix_match keys cand =
     map_option snd (List.find (\<lambda>(norm, k). endswith norm (''/'' @ cand) \<or> norm = cand) keys)"

definition js_resolve_import :: "string \<Rightarrow> string \<Rightarrow> string list \<Rightarrow> string option" where
  "js_resolve_import spec importer_path paths =
     (let keys = key_table paths; cands = import_candidates spec importer_path in
      case List.find (\<lambda>c. map_of keys c \<noteq> None) cands of
        Some c \<Rightarrow> map_of keys c
      | None \<Rightarrow> (case List.find (\<lambda>c. suffix_match keys c \<noteq> None) cands of
            Some c \<Rightarrow> suffix_match keys c | None \<Rightarrow> None))"

subsection \<open>What a module imports\<close>

record js_import =
  ji_module :: string
  ji_bindings :: "(string \<times> string) list"

definition named_import :: "jsnode \<Rightarrow> (string \<times> string) list" where
  "named_import spec =
     (if js_type spec = ''import_specifier'' then
        (case child_by_field spec ''name'' of
           None \<Rightarrow> []
         | Some n \<Rightarrow> [(js_text n, case child_by_field spec ''alias'' of None \<Rightarrow> js_text n | Some a \<Rightarrow> js_text a)])
      else [])"

definition clause_bindings :: "jsnode \<Rightarrow> (string \<times> string) list" where
  "clause_bindings cc =
     (if js_type cc = ''identifier'' then [(''default'', js_text cc)]
      else if js_type cc = ''named_imports'' then concat (map named_import (js_kids cc))
      else [])"

definition last_of_type :: "string \<Rightarrow> jsnode list \<Rightarrow> jsnode option" where
  "last_of_type t cs = List.find (\<lambda>c. js_type c = t) (rev cs)"

definition import_statement :: "jsnode \<Rightarrow> js_import list" where
  "import_statement stmt =
     (case last_of_type ''string'' (js_kids stmt) of
        None \<Rightarrow> []
      | Some m \<Rightarrow> [\<lparr>ji_module = js_unquote m,
          ji_bindings = (case last_of_type ''import_clause'' (js_kids stmt) of
             None \<Rightarrow> [] | Some clause \<Rightarrow> concat (map clause_bindings (js_kids clause)))\<rparr>])"

text \<open>The \<^verbatim>\<open>require\<close> call of an initial value, and the property read from its result.\<close>

definition require_of :: "jsnode \<Rightarrow> (jsnode \<times> string) option" where
  "require_of v =
     (if js_type v = ''call_expression'' then Some (v, [])
      else if js_type v = ''member_expression'' then
        (case (child_by_field v ''object'', child_by_field v ''property'') of
           (Some obj, Some p) \<Rightarrow> if js_type obj = ''call_expression'' then Some (obj, js_text p) else None
         | _ \<Rightarrow> None)
      else None)"

definition required_module :: "jsnode \<Rightarrow> string option" where
  "required_module call =
     (case child_by_field call ''function'' of
        None \<Rightarrow> None
      | Some f \<Rightarrow> if js_text f = ''require'' then string_argument call else None)"

definition pattern_binding :: "jsnode \<Rightarrow> (string \<times> string) list" where
  "pattern_binding p =
     (if js_type p = ''shorthand_property_identifier_pattern'' then [(js_text p, js_text p)]
      else if js_type p = ''pair_pattern'' then
        (case (child_by_field p ''key'', child_by_field p ''value'') of
           (Some k, Some v) \<Rightarrow> if js_type v = ''identifier'' then [(js_text k, js_text v)] else []
         | _ \<Rightarrow> [])
      else [])"

definition require_bindings :: "string \<Rightarrow> jsnode option \<Rightarrow> (string \<times> string) list" where
  "require_bindings trailing name = (case name of
     None \<Rightarrow> []
   | Some n \<Rightarrow>
       if js_type n = ''identifier''
       then [(if trailing \<noteq> [] then trailing else ''default'', js_text n)]
       else if js_type n = ''object_pattern'' then concat (map pattern_binding (js_kids n))
       else [])"

definition require_declarator :: "jsnode \<Rightarrow> js_import list" where
  "require_declarator d =
     (case child_by_field d ''value'' of
        None \<Rightarrow> []
      | Some v \<Rightarrow> (case require_of v of
          None \<Rightarrow> []
        | Some (call, trailing) \<Rightarrow> (case required_module call of
            None \<Rightarrow> []
          | Some m \<Rightarrow>
              (let bs = require_bindings trailing (child_by_field d ''name'')
               in if bs = [] then [] else [\<lparr>ji_module = m, ji_bindings = bs\<rparr>]))))"

definition statement_imports :: "jsnode \<Rightarrow> js_import list" where
  "statement_imports stmt =
     (if js_type stmt = ''import_statement'' then import_statement stmt
      else if is_declaration stmt
      then concat (map require_declarator (filter (\<lambda>d. js_type d = ''variable_declarator'') (js_kids stmt)))
      else [])"

definition js_scan_imports :: "jsnode \<Rightarrow> js_import list" where
  "js_scan_imports tree = concat (map statement_imports (js_kids tree))"

subsection \<open>Flows into sinks\<close>

fun js_names_in_expr :: "jsnode \<Rightarrow> string list" where
  "js_names_in_expr n =
     (if js_type n = ''identifier'' then [js_text n]
      else if js_type n \<in> {''member_expression'', ''subscript_expression''} then
        (case child_by_field n ''object'' of None \<Rightarrow> [] | Some obj \<Rightarrow> js_names_in_expr obj)
      else concat (map js_names_in_expr (js_kids n)))"

declare js_names_in_expr.simps [simp del]

definition argument_names :: "jsnode \<Rightarrow> string list" where
  "argument_names n = (case child_by_field n ''arguments'' of None \<Rightarrow> [] | Some a \<Rightarrow> js_names_in_expr a)"

text \<open>\<^verbatim>\<open>target = value\<close>, in a declaration or an assignment.\<close>

definition js_propagate :: "string \<Rightarrow> jsnode \<Rightarrow> taint_state \<Rightarrow> taint_state" where
  "js_propagate target v st =
     (if js_type v = ''call_expression'' then
        (case callee_of v of
           None \<Rightarrow> st
         | Some callee \<Rightarrow>
             if callee \<in> set JS_TRANSFORMS then
               (case first_tainted st (argument_names v) of
                  None \<Rightarrow> st | Some (_, info) \<Rightarrow> set_taint target (add_transform callee info) st)
             else st)
      else if js_type v = ''identifier'' then
        (case map_of (ts_tainted st) (js_text v) of None \<Rightarrow> st | Some info \<Rightarrow> set_taint target info st)
      else st)"

definition js_assign :: "jsnode option \<Rightarrow> jsnode option \<Rightarrow> taint_state \<Rightarrow> taint_state" where
  "js_assign target v st = (case (target, v) of
     (Some t, Some v) \<Rightarrow> if js_type t = ''identifier'' then js_propagate (js_text t) v st else st
   | _ \<Rightarrow> st)"

definition js_handle_call :: "string \<Rightarrow> jsnode \<Rightarrow> taint_state \<Rightarrow> taint_state" where
  "js_handle_call path n st =
     (case callee_of n of
        None \<Rightarrow> st
      | Some callee \<Rightarrow>
          if callee \<in> set JS_SINK_NAMES then
            (case first_tainted st (argument_names n) of
               None \<Rightarrow> st
             | Some (x, info) \<Rightarrow> st\<lparr>ts_flows := ts_flows st @
                 [\<lparr>tf_source_call = ti_source info, tf_source_line = ti_line info,
                   tf_sink_call = callee, tf_sink_line = int (js_line n), tf_tainted_var = x,
                   tf_transforms = ti_transforms info, tf_file_path = path\<rparr>]\<rparr>)
          else st)"

definition js_flow_node :: "string \<Rightarrow> jsnode \<Rightarrow> taint_state \<Rightarrow> taint_state" where
  "js_flow_node path n st =
     (if js_type n = ''variable_declarator''
      then js_assign (child_by_field n ''name'') (child_by_field n ''value'') st
      else if js_type n = ''assignment_expression''
      then js_assign (child_by_field n ''left'') (child_by_field n ''right'') st
      else if js_type n = ''call_expression'' then js_handle_call path n st
      else st)"

definition js_emit_flows :: "(string \<times> taint_info) list \<Rightarrow> string \<Rightarrow> jsnode \<Rightarrow> taint_flow list" where
  "js_emit_flows initial path tree =
     ts_flows (fold (js_flow_node path) (js_preorder tree) (taint_start\<lparr>ts_tainted := initial\<rparr>))"

subsection \<open>Across files\<close>

definition modules_of :: "(string \<Rightarrow> pyexn + jsnode) \<Rightarrow> (string \<times> string) list \<Rightarrow> (string \<times> js_module) list" where
  "modules_of parse sources = map (\<lambda>(path, src).
     (path, case parse src of Inl e \<Rightarrow> no_module | Inr tree \<Rightarrow> module_taints_and_exports tree)) sources"

definition binding_taint :: "js_module \<Rightarrow> string \<Rightarrow> string \<Rightarrow> taint_info option" where
  "binding_taint m target origin =
     (case map_of (jm_exports m) origin of
        None \<Rightarrow> None
      | Some x \<Rightarrow> map_option (\<lambda>info. info\<lparr>ti_transforms :=
            (''<cross-file from '' @ target @ ''>'') # ti_transforms info\<rparr>) (map_of (jm_tainted m) x))"

definition add_binding :: "js_module \<Rightarrow> string \<Rightarrow> string \<times> string
    \<Rightarrow> (string \<times> taint_info) list \<Rightarrow> (string \<times> taint_info) list" where
  "add_binding m target b initial =
     (case binding_taint m target (fst b) of None \<Rightarrow> initial | Some info \<Rightarrow> AList.update (snd b) info initial)"

definition add_import :: "(string \<times> js_module) list \<Rightarrow> string \<Rightarrow> js_import
    \<Rightarrow> (string \<times> taint_info) list \<Rightarrow> (string \<times> taint_info) list" where
  "add_import modules path imp initial =
     (case js_resolve_import (ji_module imp) path (map fst modules) of
        None \<Rightarrow> initial
      | Some target \<Rightarrow>
          if target = path then initial
          else fold (add_binding (case map_of modules target of None \<Rightarrow> no_module | Some m \<Rightarrow> m) target)
            (ji_bindings imp) initial)"

definition imported_taints :: "(string \<times> js_module) list \<Rightarrow> string \<Rightarrow> jsnode \<Rightarrow> (string \<times> taint_info) list" where
  "imported_taints modules path tree = fold (add_import modules path) (js_scan_imports tree) []"

definition js_file_report :: "(string \<Rightarrow> pyexn + jsnode) \<Rightarrow> (string \<times> js_module) list
    \<Rightarrow> string \<Rightarrow> string \<Rightarrow> taint_report" where
  "js_file_report parse modules path src =
     (case parse src of
        Inl e \<Rightarrow> taint_error (''js parse error: '' @ exn_str e)
      | Inr tree \<Rightarrow> \<lparr>tr_flows = js_emit_flows (imported_taints modules path tree) path tree, tr_error = None\<rparr>)"

definition analyze_javascript_cross_file ::
  "(string \<Rightarrow> pyexn + jsnode) option \<Rightarrow> (string \<times> string) list \<Rightarrow> (string \<times> taint_report) list" where
  "analyze_javascript_cross_file parser sources =
     (case parser of
        None \<Rightarrow> map (\<lambda>(p, _). (p, taint_error ''tree-sitter-javascript unavailable'')) sources
      | Some parse \<Rightarrow> map (\<lambda>(p, src). (p, js_file_report parse (modules_of parse sources) p src)) sources)"

subsection \<open>Every flow crosses a file\<close>

lemma js_preorder_self [simp]: "n \<in> set (js_preorder n)"
  by (subst js_preorder.simps) simp

lemma js_preorder_kid: "c \<in> set (js_kids n) \<Longrightarrow> m \<in> set (js_preorder c) \<Longrightarrow> m \<in> set (js_preorder n)"
  by (subst js_preorder.simps) auto

definition taints_at :: "jsnode \<Rightarrow> taint_info \<Rightarrow> bool" where
  "taints_at n info \<longleftrightarrow> ti_line info = int (js_line n) \<and> ti_transforms info = []
     \<and> (\<exists>v\<in>set (js_preorder n). js_is_taint_source (Some v) = Some (ti_source info))"

definition module_ok :: "jsnode \<Rightarrow> js_module \<Rightarrow> bool" where
  "module_ok tree m \<longleftrightarrow> (\<forall>(x, info)\<in>set (jm_tainted m). \<exists>n\<in>set (js_preorder tree). taints_at n info)"

lemma module_ok_export [simp]: "module_ok tree (export_name x y m) = module_ok tree m"
  by (simp add: module_ok_def export_name_def)

lemma module_ok_none [simp]: "module_ok tree no_module"
  by (simp add: module_ok_def no_module_def)

lemma module_ok_taint:
  assumes "module_ok tree m" and "n \<in> set (js_preorder tree)" and "v \<in> set (js_preorder n)"
    and "js_is_taint_source (Some v) = Some src"
  shows "module_ok tree (taint_name x src n m)"
proof -
  have "taints_at n \<lparr>ti_source = src, ti_line = int (js_line n), ti_transforms = []\<rparr>"
    using assms(3,4) by (auto simp: taints_at_def)
  then show ?thesis
    using assms(1,2) set_update [of x "\<lparr>ti_source = src, ti_line = int (js_line n), ti_transforms = []\<rparr>"
        "jm_tainted m"]
    unfolding module_ok_def taint_name_def by fastforce
qed

lemma source_of_value: "js_is_taint_source v = Some src \<Longrightarrow> \<exists>n. v = Some n"
  by (cases v) (simp_all add: js_is_taint_source_def)

lemma value_in_preorder: "child_by_field n f = Some v \<Longrightarrow> v \<in> set (js_preorder n)"
  using child_by_field_kid js_preorder_kid js_preorder_self by blast

lemma scan_declarator_ok:
  assumes "module_ok tree m" and "d \<in> set (js_preorder tree)"
  shows "module_ok tree (scan_declarator e d m)"
proof -
  have "module_ok tree (taint_name x src d m)"
    if "js_is_taint_source (child_by_field d ''value'') = Some src" for x src
    using source_of_value [OF that] that assms value_in_preorder by (metis module_ok_taint)
  then show ?thesis using assms(1) by (simp add: scan_declarator_def Let_def split: option.split)
qed

lemma fold_ok: "P m \<Longrightarrow> (\<And>x m. x \<in> set xs \<Longrightarrow> P m \<Longrightarrow> P (f x m)) \<Longrightarrow> P (fold f xs m)"
  by (induction xs arbitrary: m) auto

lemma scan_declarators_ok:
  assumes "module_ok tree m" and "stmt \<in> set (js_preorder tree)"
    and "\<And>n c. n \<in> set (js_preorder tree) \<Longrightarrow> c \<in> set (js_kids n) \<Longrightarrow> c \<in> set (js_preorder tree)"
  shows "module_ok tree (scan_declarators e stmt m)"
  unfolding scan_declarators_def using assms(1) by (rule fold_ok) (auto intro: scan_declarator_ok assms(2,3))

lemma preorder_closed:
  "n \<in> set (js_preorder tree) \<Longrightarrow> c \<in> set (js_kids n) \<Longrightarrow> c \<in> set (js_preorder tree)"
proof (induction tree rule: js_preorder.induct)
  case (1 t)
  show ?case
  proof (cases "n = t")
    case True
    then show ?thesis using 1(3) by (blast intro: js_preorder_kid js_preorder_self)
  next
    case False
    then obtain k where "k \<in> set (js_kids t)" "n \<in> set (js_preorder k)"
      using 1(2) by (subst (asm) js_preorder.simps) auto
    then show ?thesis using 1(1,3) js_preorder_kid by blast
  qed
qed

lemma preorder_trans: "n \<in> set (js_preorder tree) \<Longrightarrow> m \<in> set (js_preorder n) \<Longrightarrow> m \<in> set (js_preorder tree)"
proof (induction n arbitrary: m rule: js_preorder.induct)
  case (1 n)
  show ?case
  proof (cases "m = n")
    case False
    then obtain k where "k \<in> set (js_kids n)" "m \<in> set (js_preorder k)"
      using 1(3) by (subst (asm) js_preorder.simps) auto
    then show ?thesis using 1(1,2) preorder_closed by blast
  qed (use 1 in simp)
qed

lemma export_specifier_ok [simp]: "module_ok tree (scan_export_specifier s m) = module_ok tree m"
  by (simp add: scan_export_specifier_def split: option.split)

lemma scan_property_ok [simp]: "module_ok tree (scan_property p m) = module_ok tree m"
  by (simp add: scan_property_def split: option.split)

lemma scan_export_ok:
  assumes "module_ok tree m" and "c \<in> set (js_preorder tree)"
  shows "module_ok tree (scan_export c m)"
  unfolding scan_export_def using assms
  by (auto intro: scan_declarators_ok preorder_closed fold_ok [where P = "module_ok tree"])

lemma scan_assignment_ok:
  assumes "module_ok tree m" and "stmt \<in> set (js_preorder tree)" and "inner \<in> set (js_kids stmt)"
  shows "module_ok tree (scan_assignment stmt inner m)"
proof -
  have "module_ok tree (scan_exports_member stmt x None m)" for x
    using assms(1) by (simp add: scan_exports_member_def)
  moreover have "module_ok tree (scan_exports_member stmt x (Some v) m)"
    if "child_by_field inner ''right'' = Some v" for x v
  proof -
    have "v \<in> set (js_preorder stmt)"
      using value_in_preorder [OF that] assms(3) js_preorder_kid by blast
    then show ?thesis
      using assms by (auto simp: scan_exports_member_def intro: module_ok_taint split: option.split)
  qed
  moreover have "module_ok tree (fold scan_property ps m)" for ps
    using assms(1) by (rule fold_ok) simp
  ultimately show ?thesis
    using assms(1) by (simp add: scan_assignment_def Let_def split: option.split bool.split)
qed

lemma scan_statement_ok:
  assumes "module_ok tree m" and "stmt \<in> set (js_kids tree)"
  shows "module_ok tree (scan_statement stmt m)"
proof -
  have s: "stmt \<in> set (js_preorder tree)" using assms(2) preorder_closed js_preorder_self by blast
  have "module_ok tree (fold scan_export (js_kids stmt) m)"
    using assms(1) by (rule fold_ok) (blast intro: scan_export_ok preorder_closed s)
  then show ?thesis
    using assms(1) s by (auto simp: scan_statement_def
        intro: scan_declarators_ok preorder_closed scan_assignment_ok split: list.split)
qed

lemma module_taints_ok: "module_ok tree (module_taints_and_exports tree)"
  unfolding module_taints_and_exports_def
  by (rule fold_ok) (auto intro: scan_statement_ok)

definition derived :: "taint_info \<Rightarrow> taint_info \<Rightarrow> bool" where
  "derived i0 i \<longleftrightarrow> ti_source i = ti_source i0 \<and> ti_line i = ti_line i0
     \<and> (\<exists>ts. set ts \<subseteq> set JS_TRANSFORMS \<and> ti_transforms i = ti_transforms i0 @ ts)"

lemma derived_refl [simp]: "derived i i"
  by (auto simp: derived_def intro: exI [of _ "[]"])

lemma derived_transform: "derived i0 i \<Longrightarrow> t \<in> set JS_TRANSFORMS \<Longrightarrow> derived i0 (add_transform t i)"
  by (fastforce simp: derived_def add_transform_def)

definition all_derived :: "(string \<times> taint_info) list \<Rightarrow> taint_state \<Rightarrow> bool" where
  "all_derived initial st \<longleftrightarrow> (\<forall>(x, i)\<in>set (ts_tainted st). \<exists>(y, i0)\<in>set initial. derived i0 i)"

lemma all_derived_lookup: "all_derived initial st \<Longrightarrow> map_of (ts_tainted st) x = Some i
    \<Longrightarrow> \<exists>(y, i0)\<in>set initial. derived i0 i"
  by (auto simp: all_derived_def dest: map_of_SomeD)

lemma all_derived_set:
  assumes "all_derived initial st" and "\<exists>(y, i0)\<in>set initial. derived i0 i"
  shows "all_derived initial (set_taint x i st)"
  using assms set_update [of x i "ts_tainted st"] unfolding all_derived_def set_taint_def by fastforce

lemma first_tainted_Some:
  "first_tainted st xs = Some (x, i) \<Longrightarrow> x \<in> set xs \<and> map_of (ts_tainted st) x = Some i"
  by (auto simp: first_tainted_def find_Some_iff split: option.splits)

lemma js_propagate_derived:
  assumes "all_derived initial st"
  shows "all_derived initial (js_propagate x v st)"
proof -
  have "all_derived initial (set_taint x (add_transform t i) st)"
    if "first_tainted st ns = Some (y, i)" "t \<in> set JS_TRANSFORMS" for ns y i t
    using all_derived_lookup [OF assms] first_tainted_Some [OF that(1)] that(2) derived_transform
    by (intro all_derived_set [OF assms]) fast
  moreover have "all_derived initial (set_taint x i st)" if "map_of (ts_tainted st) y = Some i" for y i
    using all_derived_lookup [OF assms that] by (rule all_derived_set [OF assms])
  ultimately show ?thesis
    using assms by (simp add: js_propagate_def split: option.split prod.split)
qed

lemma js_propagate_flows [simp]: "ts_flows (js_propagate x v st) = ts_flows st"
  by (simp add: js_propagate_def split: option.split prod.split)

lemma js_assign_flows [simp]: "ts_flows (js_assign t v st) = ts_flows st"
  by (simp add: js_assign_def split: option.split)

lemma js_assign_derived: "all_derived initial st \<Longrightarrow> all_derived initial (js_assign t v st)"
  by (simp add: js_assign_def js_propagate_derived split: option.split)

text \<open>The sink call that a flow reports.\<close>

definition sink_at :: "jsnode \<Rightarrow> taint_flow \<Rightarrow> bool" where
  "sink_at n f \<longleftrightarrow> js_type n = ''call_expression'' \<and> callee_of n = Some (tf_sink_call f)
     \<and> tf_sink_call f \<in> set JS_SINK_NAMES \<and> tf_sink_line f = int (js_line n)
     \<and> tf_tainted_var f \<in> set (argument_names n)"

definition carries :: "taint_info \<Rightarrow> taint_flow \<Rightarrow> bool" where
  "carries i0 f \<longleftrightarrow> derived i0 \<lparr>ti_source = tf_source_call f, ti_line = tf_source_line f, ti_transforms = tf_transforms f\<rparr>"

lemma js_node_flows:
  assumes "all_derived initial st" and "f \<in> set (ts_flows (js_flow_node path n st))" and "f \<notin> set (ts_flows st)"
  shows "sink_at n f \<and> (\<exists>(y, i0)\<in>set initial. carries i0 f)"
proof -
  obtain x i callee where c: "js_type n = ''call_expression''" "callee_of n = Some callee"
      "callee \<in> set JS_SINK_NAMES" "first_tainted st (argument_names n) = Some (x, i)"
    and f: "f = \<lparr>tf_source_call = ti_source i, tf_source_line = ti_line i, tf_sink_call = callee,
      tf_sink_line = int (js_line n), tf_tainted_var = x, tf_transforms = ti_transforms i, tf_file_path = path\<rparr>"
    using assms(2,3) by (auto simp: js_flow_node_def js_handle_call_def split: if_splits option.splits prod.splits)
  have "\<exists>(y, i0)\<in>set initial. derived i0 i"
    using all_derived_lookup [OF assms(1)] first_tainted_Some [OF c(4)] by blast
  then show ?thesis
    using c first_tainted_Some [OF c(4)] by (cases i) (auto simp: f sink_at_def carries_def)
qed

lemma js_node_derived: "all_derived initial st \<Longrightarrow> all_derived initial (js_flow_node path n st)"
proof -
  assume "all_derived initial st"
  moreover from this have "all_derived initial (js_handle_call path n st)"
    by (auto simp: js_handle_call_def all_derived_def split: option.split prod.split)
  ultimately show ?thesis by (simp add: js_flow_node_def js_assign_derived)
qed

lemma js_fold_flows:
  "all_derived initial st \<Longrightarrow> f \<in> set (ts_flows (fold (js_flow_node path) ns st)) \<Longrightarrow> f \<notin> set (ts_flows st)
   \<Longrightarrow> \<exists>n\<in>set ns. sink_at n f \<and> (\<exists>(y, i0)\<in>set initial. carries i0 f)"
proof (induction ns arbitrary: st)
  case (Cons n ns)
  show ?case
  proof (cases "f \<in> set (ts_flows (js_flow_node path n st))")
    case True
    then show ?thesis using js_node_flows [OF Cons.prems(1) True Cons.prems(3)] by auto
  next
    case False
    then show ?thesis using Cons.IH [OF js_node_derived [OF Cons.prems(1)]] Cons.prems(2) by auto
  qed
qed simp

lemma js_emit_sound:
  assumes "f \<in> set (js_emit_flows initial path tree)"
  shows "\<exists>n\<in>set (js_preorder tree). sink_at n f \<and> (\<exists>(y, i0)\<in>set initial. carries i0 f)"
proof (rule js_fold_flows)
  show "all_derived initial (taint_start\<lparr>ts_tainted := initial\<rparr>)"
    by (auto simp: all_derived_def intro: derived_refl)
  show "f \<in> set (ts_flows (fold (js_flow_node path) (js_preorder tree) (taint_start\<lparr>ts_tainted := initial\<rparr>)))"
    using assms by (simp add: js_emit_flows_def)
qed (simp add: taint_start_def)

text \<open>Where an initial taint comes from.\<close>

definition imported_from :: "(string \<times> js_module) list \<Rightarrow> string \<Rightarrow> jsnode \<Rightarrow> string \<times> taint_info \<Rightarrow> bool" where
  "imported_from modules path tree xi \<longleftrightarrow> (\<exists>imp\<in>set (js_scan_imports tree). \<exists>target origin m.
     (origin, fst xi) \<in> set (ji_bindings imp) \<and> js_resolve_import (ji_module imp) path (map fst modules) = Some target
     \<and> target \<noteq> path \<and> map_of modules target = Some m \<and> binding_taint m target origin = Some (snd xi))"

lemma add_import_from:
  assumes "imp \<in> set (js_scan_imports tree)" and "\<forall>xi\<in>set initial. imported_from modules path tree xi"
  shows "\<forall>xi\<in>set (add_import modules path imp initial). imported_from modules path tree xi"
proof (cases "js_resolve_import (ji_module imp) path (map fst modules)")
  case (Some target)
  show ?thesis
  proof (cases "target = path \<or> map_of modules target = None")
    case True
    have "fold (add_binding no_module target) bs initial = initial" for bs
      by (induction bs) (simp_all add: add_binding_def binding_taint_def no_module_def)
    then show ?thesis using True assms(2) by (auto simp: add_import_def Some)
  next
    case False
    then obtain m where m: "map_of modules target = Some m" by blast
    have "\<forall>xi\<in>set (fold (add_binding m target) (ji_bindings imp) initial). imported_from modules path tree xi"
    proof (rule fold_ok [where P = "\<lambda>ini. \<forall>xi\<in>set ini. imported_from modules path tree xi", OF assms(2)])
      fix b ini
      assume b: "b \<in> set (ji_bindings imp)" and ini: "\<forall>xi\<in>set ini. imported_from modules path tree xi"
      show "\<forall>xi\<in>set (add_binding m target b ini). imported_from modules path tree xi"
      proof (cases "binding_taint m target (fst b)")
        case bt: (Some i)
        have "(fst b, fst (snd b, i)) \<in> set (ji_bindings imp)" using b by simp
        then have new: "imported_from modules path tree (snd b, i)"
          unfolding imported_from_def using assms(1) Some False m bt by (metis snd_conv)
        have "set (add_binding m target b ini) \<subseteq> insert (snd b, i) (set ini)"
          unfolding add_binding_def bt option.case by (rule set_update)
        then show ?thesis using new ini by blast
      qed (use ini in \<open>simp add: add_binding_def\<close>)
    qed
    then show ?thesis using False by (simp add: add_import_def Some m)
  qed
qed (use assms(2) in \<open>simp add: add_import_def\<close>)

lemma imported_taints_from: "xi \<in> set (imported_taints modules path tree) \<Longrightarrow> imported_from modules path tree xi"
proof -
  have "\<forall>xi\<in>set (imported_taints modules path tree). imported_from modules path tree xi"
    unfolding imported_taints_def
    by (rule fold_ok [where P = "\<lambda>ini. \<forall>xi\<in>set ini. imported_from modules path tree xi"])
      (simp, rule add_import_from)
  then show "xi \<in> set (imported_taints modules path tree) \<Longrightarrow> imported_from modules path tree xi" by blast
qed

lemma modules_lookup:
  assumes "map_of (modules_of parse sources) target = Some m"
  shows "\<exists>src. (target, src) \<in> set sources
    \<and> m = (case parse src of Inl e \<Rightarrow> no_module | Inr tree \<Rightarrow> module_taints_and_exports tree)"
  using map_of_SomeD [OF assms] by (auto simp: modules_of_def)

lemma modules_paths [simp]: "map fst (modules_of parse sources) = map fst sources"
  by (simp add: modules_of_def case_prod_unfold comp_def)

subsection \<open>Every imported secret in a sink is reported\<close>

lemma js_propagate_keeps: "is_tainted st x \<Longrightarrow> is_tainted (js_propagate y v st) x"
  by (simp add: js_propagate_def split: option.split prod.split)

lemma js_assign_keeps: "is_tainted st x \<Longrightarrow> is_tainted (js_assign t v st) x"
  by (simp add: js_assign_def js_propagate_keeps split: option.split)

lemma js_call_keeps: "is_tainted st x \<Longrightarrow> is_tainted (js_handle_call path n st) x"
  by (simp add: js_handle_call_def is_tainted_def split: option.split prod.split)

lemma js_node_keeps: "is_tainted st x \<Longrightarrow> is_tainted (js_flow_node path n st) x"
  by (simp add: js_flow_node_def js_assign_keeps js_call_keeps)

lemma js_fold_keeps: "is_tainted st x \<Longrightarrow> is_tainted (fold (js_flow_node path) ns st) x"
  by (induction ns arbitrary: st) (simp_all add: js_node_keeps)

lemma js_node_flows_mono: "set (ts_flows st) \<subseteq> set (ts_flows (js_flow_node path n st))"
  by (auto simp: js_flow_node_def js_handle_call_def split: option.split)

lemma js_fold_flows_mono: "set (ts_flows st) \<subseteq> set (ts_flows (fold (js_flow_node path) ns st))"
proof (induction ns arbitrary: st)
  case (Cons n ns)
  show ?case using Cons.IH js_node_flows_mono by (simp, blast)
qed simp

lemma js_sink_flows:
  assumes "js_type n = ''call_expression''" and "callee_of n = Some c" and "c \<in> set JS_SINK_NAMES"
    and "is_tainted st x" and "x \<in> set (argument_names n)"
  shows "\<exists>f\<in>set (ts_flows (js_flow_node path n st)). tf_sink_call f = c \<and> tf_sink_line f = int (js_line n)
    \<and> tf_tainted_var f \<in> set (argument_names n) \<and> tf_file_path f = path"
proof -
  from first_tainted_some [OF assms(4,5)] obtain y info where
    y: "first_tainted st (argument_names n) = Some (y, info)" by blast
  with assms(1-3) first_tainted_Some [OF y] show ?thesis by (simp add: js_flow_node_def js_handle_call_def)
qed

lemma js_emit_complete:
  assumes "n \<in> set (js_preorder tree)" and "js_type n = ''call_expression''" and "callee_of n = Some c"
    and "c \<in> set JS_SINK_NAMES" and "map_of initial x \<noteq> None" and "x \<in> set (argument_names n)"
  shows "\<exists>f\<in>set (js_emit_flows initial path tree). tf_sink_call f = c \<and> tf_sink_line f = int (js_line n)
    \<and> tf_tainted_var f \<in> set (argument_names n) \<and> tf_file_path f = path"
proof -
  obtain before rest where pre: "js_preorder tree = before @ n # rest" using assms(1) split_list by metis
  let ?st = "fold (js_flow_node path) before (taint_start\<lparr>ts_tainted := initial\<rparr>)"
  have "is_tainted ?st x" using assms(5) by (intro js_fold_keeps) (simp add: is_tainted_def)
  from js_sink_flows [OF assms(2-4) this assms(6)] obtain f
    where "f \<in> set (ts_flows (js_flow_node path n ?st))" "tf_sink_call f = c" "tf_sink_line f = int (js_line n)"
      "tf_tainted_var f \<in> set (argument_names n)" "tf_file_path f = path"
    by blast
  then show ?thesis unfolding js_emit_flows_def pre using js_fold_flows_mono by (simp, blast)
qed

lemma add_binding_keeps: "map_of ini x \<noteq> None \<Longrightarrow> map_of (add_binding m target b ini) x \<noteq> None"
  by (simp add: add_binding_def update_conv' split: option.split)

lemma add_bindings_keep: "map_of ini x \<noteq> None \<Longrightarrow> map_of (fold (add_binding m target) bs ini) x \<noteq> None"
  by (induction bs arbitrary: ini) (simp_all add: add_binding_keeps del: not_None_eq)

lemma add_bindings_bind:
  "(origin, x) \<in> set bs \<Longrightarrow> binding_taint m target origin \<noteq> None
    \<Longrightarrow> map_of (fold (add_binding m target) bs ini) x \<noteq> None"
proof (induction bs arbitrary: ini)
  case (Cons b bs)
  show ?case
  proof (cases "b = (origin, x)")
    case True
    then have "map_of (add_binding m target b ini) x \<noteq> None"
      using Cons.prems(2) by (auto simp: add_binding_def update_conv')
    then show ?thesis by (simp add: add_bindings_keep del: not_None_eq)
  qed (use Cons in simp)
qed simp

lemma add_import_keeps: "map_of ini x \<noteq> None \<Longrightarrow> map_of (add_import modules path imp ini) x \<noteq> None"
  by (simp add: add_import_def add_bindings_keep del: not_None_eq split: option.split)

lemma imported_taints_bind:
  assumes "imp \<in> set (js_scan_imports tree)" and "(origin, x) \<in> set (ji_bindings imp)"
    and "js_resolve_import (ji_module imp) path (map fst modules) = Some target" and "target \<noteq> path"
    and "map_of modules target = Some m" and "binding_taint m target origin \<noteq> None"
  shows "map_of (imported_taints modules path tree) x \<noteq> None"
proof -
  obtain before rest where imps: "js_scan_imports tree = before @ imp # rest"
    using assms(1) split_list by metis
  have "map_of (add_import modules path imp ini) x \<noteq> None" for ini
    using assms(3-5) add_bindings_bind [OF assms(2,6)] by (simp add: add_import_def del: not_None_eq)
  then have "map_of (fold (add_import modules path) rest (add_import modules path imp ini)) x \<noteq> None" for ini
    by (rule fold_ok [where P = "\<lambda>i. map_of i x \<noteq> None"]) (rule add_import_keeps)
  then show ?thesis by (simp add: imported_taints_def imps del: not_None_eq)
qed

subsection \<open>The properties of the analysis\<close>

text \<open>Every reported flow of a file ends in a sink call of this file with a tainted argument and
  starts in another file: there an exported variable holds a secret that a node reads, at the line the
  flow names. Nothing is reported for a secret that a file reads and sends itself.\<close>
theorem js_flows_cross_files:
  assumes "(path, r) \<in> set (analyze_javascript_cross_file (Some parse) sources)" and "f \<in> set (tr_flows r)"
  shows "\<exists>src tree sink target tsrc ttree n origin x v.
    (path, src) \<in> set sources \<and> parse src = Inr tree \<and> sink \<in> set (js_preorder tree) \<and> sink_at sink f
    \<and> target \<noteq> path \<and> (target, tsrc) \<in> set sources \<and> parse tsrc = Inr ttree
    \<and> map_of (jm_exports (module_taints_and_exports ttree)) origin = Some x
    \<and> n \<in> set (js_preorder ttree) \<and> v \<in> set (js_preorder n) \<and> js_is_taint_source (Some v) = Some (tf_source_call f)
    \<and> tf_source_line f = int (js_line n)
    \<and> tf_transforms f \<noteq> [] \<and> hd (tf_transforms f) = ''<cross-file from '' @ target @ ''>''
    \<and> set (tl (tf_transforms f)) \<subseteq> set JS_TRANSFORMS"
proof -
  obtain src where src: "(path, src) \<in> set sources"
    and r: "r = js_file_report parse (modules_of parse sources) path src"
    using assms(1) by (auto simp: analyze_javascript_cross_file_def)
  obtain tree where tree: "parse src = Inr tree"
    and f: "f \<in> set (js_emit_flows (imported_taints (modules_of parse sources) path tree) path tree)"
    using assms(2) by (cases "parse src") (auto simp: r js_file_report_def taint_error_def)
  obtain sink y i0 where sink: "sink \<in> set (js_preorder tree)" "sink_at sink f" and c: "carries i0 f"
    and "(y, i0) \<in> set (imported_taints (modules_of parse sources) path tree)"
    using js_emit_sound [OF f] by blast
  then obtain target origin m where t: "target \<noteq> path" "map_of (modules_of parse sources) target = Some m"
    and bt: "binding_taint m target origin = Some i0"
    using imported_taints_from unfolding imported_from_def by (metis snd_conv)
  obtain tsrc where tsrc: "(target, tsrc) \<in> set sources"
    and m: "m = (case parse tsrc of Inl e \<Rightarrow> no_module | Inr tree \<Rightarrow> module_taints_and_exports tree)"
    using modules_lookup [OF t(2)] by blast
  obtain x info where x: "map_of (jm_exports m) origin = Some x" "map_of (jm_tainted m) x = Some info"
    and i0: "i0 = info\<lparr>ti_transforms := (''<cross-file from '' @ target @ ''>'') # ti_transforms info\<rparr>"
    using bt by (auto simp: binding_taint_def split: option.splits)
  obtain ttree where ttree: "parse tsrc = Inr ttree"
    using x(1) m by (cases "parse tsrc") (simp_all add: no_module_def)
  then have m': "m = module_taints_and_exports ttree" using m by simp
  obtain n where n: "n \<in> set (js_preorder ttree)" "taints_at n info"
    using module_taints_ok [of ttree] map_of_SomeD [OF x(2)] unfolding module_ok_def m' by fast
  then obtain v where "v \<in> set (js_preorder n)" "js_is_taint_source (Some v) = Some (ti_source info)"
    by (auto simp: taints_at_def)
  moreover have "ti_source info = tf_source_call f" "tf_source_line f = int (js_line n)"
    using c n(2) by (auto simp: carries_def derived_def i0 taints_at_def)
  moreover have "tf_transforms f \<noteq> [] \<and> hd (tf_transforms f) = ''<cross-file from '' @ target @ ''>''
      \<and> set (tl (tf_transforms f)) \<subseteq> set JS_TRANSFORMS"
    using c n(2) by (auto simp: carries_def derived_def i0 taints_at_def)
  ultimately show ?thesis
    using src tree sink t(1) tsrc ttree x(1) [unfolded m'] n(1) by (intro exI conjI) (assumption | simp)+
qed

text \<open>
  A file imports a secret: one of its imports binds a name that another file exports, and the variable
  exported under this name holds a secret there.
\<close>

definition imports_secret ::
  "(string \<Rightarrow> pyexn + jsnode) \<Rightarrow> (string \<times> string) list \<Rightarrow> string \<Rightarrow> jsnode \<Rightarrow> string \<Rightarrow> string \<Rightarrow> taint_info \<Rightarrow> bool" where
  "imports_secret parse sources path tree target origin info \<longleftrightarrow>
     (\<exists>imp\<in>set (js_scan_imports tree). \<exists>x y tsrc ttree.
        (origin, x) \<in> set (ji_bindings imp)
        \<and> js_resolve_import (ji_module imp) path (map fst sources) = Some target \<and> target \<noteq> path
        \<and> (target, tsrc) \<in> set sources \<and> parse tsrc = Inr ttree
        \<and> map_of (jm_exports (module_taints_and_exports ttree)) origin = Some y
        \<and> map_of (jm_tainted (module_taints_and_exports ttree)) y = Some info)"

lemma flow_imports_secret:
  assumes "f \<in> set (js_emit_flows (imported_taints (modules_of parse sources) path tree) path tree)"
  obtains target origin info ts where "imports_secret parse sources path tree target origin info"
    "tf_source_call f = ti_source info" "tf_source_line f = ti_line info" "set ts \<subseteq> set JS_TRANSFORMS"
    "tf_transforms f = (''<cross-file from '' @ target @ ''>'') # ti_transforms info @ ts"
proof -
  from js_emit_sound [OF assms] obtain y i0 where c: "carries i0 f"
    and "(y, i0) \<in> set (imported_taints (modules_of parse sources) path tree)"
    by blast
  then have "imported_from (modules_of parse sources) path tree (y, i0)" by (blast intro: imported_taints_from)
  then obtain imp target origin m where i: "imp \<in> set (js_scan_imports tree)" "(origin, y) \<in> set (ji_bindings imp)"
      "js_resolve_import (ji_module imp) path (map fst sources) = Some target" "target \<noteq> path"
    and m: "map_of (modules_of parse sources) target = Some m" "binding_taint m target origin = Some i0"
    unfolding imported_from_def by auto
  obtain tsrc where tsrc: "(target, tsrc) \<in> set sources"
      "m = (case parse tsrc of Inl e \<Rightarrow> no_module | Inr tree \<Rightarrow> module_taints_and_exports tree)"
    using modules_lookup [OF m(1)] by blast
  obtain x info where x: "map_of (jm_exports m) origin = Some x" "map_of (jm_tainted m) x = Some info"
    and i0: "i0 = info\<lparr>ti_transforms := (''<cross-file from '' @ target @ ''>'') # ti_transforms info\<rparr>"
    using m(2) by (auto simp: binding_taint_def split: option.splits)
  obtain ttree where ttree: "parse tsrc = Inr ttree"
    using x(1) tsrc(2) by (cases "parse tsrc") (simp_all add: no_module_def)
  then have "m = module_taints_and_exports ttree" using tsrc(2) by simp
  with i tsrc(1) x ttree have "imports_secret parse sources path tree target origin info"
    unfolding imports_secret_def by blast
  then show ?thesis using c by (auto simp: carries_def derived_def i0 intro: that)
qed

text \<open>C27: A secret that one file exports and another imports under some name is reported at every sink
  call of the importing file with that name among its arguments: a flow with this sink, its line and one of the
  arguments, whose source and source line are those of a secret that the file imports, and whose first transform
  names the file the secret comes from. When the file imports no other secret, that is this secret and this file.\<close>
theorem imported_secret_reported:
  assumes "distinct (map fst sources)" and "(path, src) \<in> set sources" and "parse src = Inr tree"
    and "(target, tsrc) \<in> set sources" and "target \<noteq> path" and "parse tsrc = Inr ttree"
    and "imp \<in> set (js_scan_imports tree)" and "(origin, x) \<in> set (ji_bindings imp)"
    and "js_resolve_import (ji_module imp) path (map fst sources) = Some target"
    and "map_of (jm_exports (module_taints_and_exports ttree)) origin = Some y"
    and "map_of (jm_tainted (module_taints_and_exports ttree)) y = Some info"
    and "n \<in> set (js_preorder tree)" and "js_type n = ''call_expression''" and "callee_of n = Some c"
    and "c \<in> set JS_SINK_NAMES" and "x \<in> set (argument_names n)"
  shows "\<exists>r f modl export secret ts.
      (path, r) \<in> set (analyze_javascript_cross_file (Some parse) sources) \<and> f \<in> set (tr_flows r)
    \<and> tf_file_path f = path \<and> tf_sink_call f = c \<and> tf_sink_line f = int (js_line n)
    \<and> tf_tainted_var f \<in> set (argument_names n)
    \<and> imports_secret parse sources path tree modl export secret
    \<and> tf_source_call f = ti_source secret \<and> tf_source_line f = ti_line secret
    \<and> tf_transforms f = (''<cross-file from '' @ modl @ ''>'') # ti_transforms secret @ ts \<and> set ts \<subseteq> set JS_TRANSFORMS
    \<and> ((\<forall>t e i. imports_secret parse sources path tree t e i \<longrightarrow> (t, e) = (target, origin))
        \<longrightarrow> modl = target \<and> secret = info)"
proof -
  let ?modules = "modules_of parse sources"
  have "map_of ?modules target = Some (module_taints_and_exports ttree)"
    using assms(1,4,6) by (intro map_of_is_SomeI) (auto simp: modules_of_def case_prod_unfold comp_def rev_image_eqI)
  moreover have "binding_taint (module_taints_and_exports ttree) target origin \<noteq> None"
    using assms(10,11) by (simp add: binding_taint_def)
  ultimately have "map_of (imported_taints ?modules path tree) x \<noteq> None"
    using assms(5,7-9) by (intro imported_taints_bind) simp_all
  from js_emit_complete [OF assms(12-15) this assms(16), of path] obtain f
    where f: "f \<in> set (js_emit_flows (imported_taints ?modules path tree) path tree)"
      "tf_sink_call f = c" "tf_sink_line f = int (js_line n)" "tf_tainted_var f \<in> set (argument_names n)"
      "tf_file_path f = path" by blast
  from flow_imports_secret [OF f(1)] obtain modl export secret ts where
    secret: "imports_secret parse sources path tree modl export secret" "tf_source_call f = ti_source secret"
      "tf_source_line f = ti_line secret" "set ts \<subseteq> set JS_TRANSFORMS"
      "tf_transforms f = (''<cross-file from '' @ modl @ ''>'') # ti_transforms secret @ ts" by blast
  have "modl = target \<and> secret = info"
    if "\<forall>t e i. imports_secret parse sources path tree t e i \<longrightarrow> (t, e) = (target, origin)"
  proof -
    from that secret(1) have "modl = target" "export = origin" by blast+
    moreover from this secret(1) have "secret = info"
      using assms(1,4,6,10,11) eq_key_imp_eq_value [of sources target] unfolding imports_secret_def by fastforce
    ultimately show ?thesis by simp
  qed
  moreover have "(path, js_file_report parse ?modules path src) \<in> set (analyze_javascript_cross_file (Some parse) sources)"
    using assms(2) by (force simp: analyze_javascript_cross_file_def)
  moreover have "f \<in> set (tr_flows (js_file_report parse ?modules path src))"
    using f(1) assms(3) by (simp add: js_file_report_def)
  ultimately show ?thesis using f(2-5) secret by blast
qed

subsection \<open>Two modules\<close>

text \<open>\<^verbatim>\<open>exports.K = process.env.T\<close> in \<^verbatim>\<open>a.js\<close>; \<^verbatim>\<open>const {K} = require('./a')\<close> and \<^verbatim>\<open>fetch(K)\<close> in \<^verbatim>\<open>b.js\<close>.\<close>

definition leaf :: "string \<Rightarrow> string \<Rightarrow> string \<Rightarrow> jsnode" where
  "leaf f t x = JsNode f t x 0 []"

definition member_node :: "string \<Rightarrow> jsnode \<Rightarrow> string \<Rightarrow> jsnode" where
  "member_node f obj p = JsNode f ''member_expression'' [] 0 [obj, leaf ''property'' ''property_identifier'' p]"

definition call_node :: "string \<Rightarrow> nat \<Rightarrow> string \<Rightarrow> jsnode \<Rightarrow> jsnode" where
  "call_node f row callee arg = JsNode f ''call_expression'' [] row
     [leaf ''function'' ''identifier'' callee, JsNode ''arguments'' ''arguments'' [] row [arg]]"

definition tree_a :: jsnode where
  "tree_a = JsNode [] ''program'' [] 0 [JsNode [] ''expression_statement'' [] 0
     [JsNode [] ''assignment_expression'' [] 0
       [member_node ''left'' (leaf ''object'' ''identifier'' ''exports'') ''K'',
        member_node ''right'' (member_node ''object'' (leaf ''object'' ''identifier'' ''process'') ''env'') ''T'']]]"

definition sink_b :: jsnode where
  "sink_b = call_node [] 1 ''fetch'' (leaf [] ''identifier'' ''K'')"

definition tree_b :: jsnode where
  "tree_b = JsNode [] ''program'' [] 0
     [JsNode [] ''lexical_declaration'' [] 0 [JsNode [] ''variable_declarator'' [] 0
        [JsNode ''name'' ''object_pattern'' [] 0 [leaf [] ''shorthand_property_identifier_pattern'' ''K''],
         call_node ''value'' 0 ''require'' (leaf [] ''string'' ''./a'')]],
      JsNode [] ''expression_statement'' [] 1 [sink_b]]"

definition two_parse :: "string \<Rightarrow> pyexn + jsnode" where
  "two_parse src = Inr (if src = ''A'' then tree_a else tree_b)"

definition two_files :: "(string \<times> string) list" where
  "two_files = [(''a.js'', ''A''), (''b.js'', ''B'')]"

definition two_flow :: taint_flow where
  "two_flow = \<lparr>tf_source_call = ''process.env'', tf_source_line = 1, tf_sink_call = ''fetch'', tf_sink_line = 2,
     tf_tainted_var = ''K'', tf_transforms = [''<cross-file from a.js>''], tf_file_path = ''b.js''\<rparr>"

lemma two_report: "analyze_javascript_cross_file (Some two_parse) two_files
    = [(''a.js'', no_flows), (''b.js'', \<lparr>tr_flows = [two_flow], tr_error = None\<rparr>)]"
  by code_simp

theorem imported_secret_reported_witness:
  "\<exists>r f modl export secret ts.
      (''b.js'', r) \<in> set (analyze_javascript_cross_file (Some two_parse) two_files) \<and> f \<in> set (tr_flows r)
    \<and> tf_file_path f = ''b.js'' \<and> tf_sink_call f = ''fetch'' \<and> tf_sink_line f = int (js_line sink_b)
    \<and> tf_tainted_var f \<in> set (argument_names sink_b)
    \<and> imports_secret two_parse two_files ''b.js'' tree_b modl export secret
    \<and> tf_source_call f = ti_source secret \<and> tf_source_line f = ti_line secret
    \<and> tf_transforms f = (''<cross-file from '' @ modl @ ''>'') # ti_transforms secret @ ts \<and> set ts \<subseteq> set JS_TRANSFORMS
    \<and> ((\<forall>t e i. imports_secret two_parse two_files ''b.js'' tree_b t e i \<longrightarrow> (t, e) = (''a.js'', ''K''))
        \<longrightarrow> modl = ''a.js'' \<and> secret = \<lparr>ti_source = ''process.env'', ti_line = 1, ti_transforms = []\<rparr>)"
proof (rule imported_secret_reported)
  show "(''b.js'', ''B'') \<in> set two_files" "(''a.js'', ''A'') \<in> set two_files" by (simp_all add: two_files_def)
  show "two_parse ''B'' = Inr tree_b" "two_parse ''A'' = Inr tree_a" by (simp_all add: two_parse_def)
  show "distinct (map fst two_files)" "''a.js'' \<noteq> ''b.js''" by (simp_all add: two_files_def)
  show "\<lparr>ji_module = ''./a'', ji_bindings = [(''K'', ''K'')]\<rparr> \<in> set (js_scan_imports tree_b)" by code_simp
  show "(''K'', ''K'') \<in> set (ji_bindings \<lparr>ji_module = ''./a'', ji_bindings = [(''K'', ''K'')]\<rparr>)" by simp
  show "js_resolve_import (ji_module \<lparr>ji_module = ''./a'', ji_bindings = [(''K'', ''K'')]\<rparr>) ''b.js'' (map fst two_files)
      = Some ''a.js''" by code_simp
  show "map_of (jm_exports (module_taints_and_exports tree_a)) ''K'' = Some ''__export_K''" by code_simp
  show "map_of (jm_tainted (module_taints_and_exports tree_a)) ''__export_K''
      = Some \<lparr>ti_source = ''process.env'', ti_line = 1, ti_transforms = []\<rparr>" by code_simp
  show "sink_b \<in> set (js_preorder tree_b)" by code_simp
  show "js_type sink_b = ''call_expression''" "callee_of sink_b = Some ''fetch''" by code_simp+
  show "''fetch'' \<in> set JS_SINK_NAMES" "''K'' \<in> set (argument_names sink_b)" by code_simp+
qed

theorem js_flows_cross_files_witness:
  "\<exists>n v. n \<in> set (js_preorder tree_a) \<and> v \<in> set (js_preorder n) \<and> js_is_taint_source (Some v) = Some ''process.env''"
proof -
  have r: "(''b.js'', \<lparr>tr_flows = [two_flow], tr_error = None\<rparr>)
      \<in> set (analyze_javascript_cross_file (Some two_parse) two_files)"
    by (simp add: two_report)
  have "two_flow \<in> set (tr_flows \<lparr>tr_flows = [two_flow], tr_error = None\<rparr>)" by simp
  from js_flows_cross_files [OF r this] obtain target tsrc ttree n v where
    "target \<noteq> ''b.js''" "(target, tsrc) \<in> set two_files" "two_parse tsrc = Inr ttree"
    "n \<in> set (js_preorder ttree)" "v \<in> set (js_preorder n)"
    "js_is_taint_source (Some v) = Some (tf_source_call two_flow)"
    by blast
  moreover have "ttree = tree_a" using calculation(1-3) by (auto simp: two_files_def two_parse_def)
  ultimately show ?thesis by (auto simp: two_flow_def)
qed

end
