(* ===== verification/Deobfuscate.thy ===== *)
theory Deobfuscate
  imports Regex StringAnalysis Indicators
begin

text \<open>
  \<^verbatim>\<open>stages/deobfuscator.py\<close>: encoded strings of a source, decoded layer by layer without running
  anything, and the patterns of \<^verbatim>\<open>stages/indicator_matcher.py\<close> that are searched in the source together
  with the layers. Parameters are \<^verbatim>\<open>bytes.decode("utf-8", errors="replace")\<close> and whether
  Python's strict base64 decoder tolerates padding after a complete group, which its versions differ in.
\<close>

subsection \<open>Patterns\<close>

definition MAX_LAYERS :: nat where
  "MAX_LAYERS = 3"

definition MAX_TOTAL_SIZE :: nat where
  "MAX_TOTAL_SIZE = 5000000"

definition MIN_STRING_LEN :: nat where
  "MIN_STRING_LEN = 8"

definition PY_B64_CALL_RE :: regex where
  "PY_B64_CALL_RE = rxS ''base64`.b64decode`s*`(`s*[bf]?[\"']([A-Za-z0-9+/=`s]+)[\"']''"

definition JS_ATOB_RE :: regex where
  "JS_ATOB_RE = rxS ''atob`s*`(`s*[\"']([A-Za-z0-9+/=`s]+)[\"']''"

definition JS_BUFFER_B64_RE :: regex where
  "JS_BUFFER_B64_RE =
     rxS ''Buffer`.from`s*`(`s*[\"']([A-Za-z0-9+/=`s]+)[\"']`s*,`s*[\"']base64[\"']''"

definition PY_HEX_RE :: regex where
  "PY_HEX_RE = rxS ''bytes`.fromhex`s*`(`s*[bf]?[\"']([0-9a-fA-F`s]+)[\"']''"

definition HEX_ESC_LITERAL_RE :: regex where
  "HEX_ESC_LITERAL_RE = rxP ''((?:``x[0-9a-fA-F]{2}){4,})''"

definition UNI_ESC_LITERAL_RE :: regex where
  "UNI_ESC_LITERAL_RE = rxP ''((?:``u[0-9a-fA-F]{4}){4,})''"

definition FROM_CHAR_CODE_RE :: regex where
  "FROM_CHAR_CODE_RE = rxP ''String`.fromCharCode`s*`(([`s`d,]+)`)''"

definition URL_PCT_RE :: regex where
  "URL_PCT_RE = rxP ''((?:%[0-9a-fA-F]{2}){8,})''"

subsection \<open>Decoders\<close>

record deob_env =
  dx_decode :: "string \<Rightarrow> string"
  dx_excess_padding :: bool

text \<open>
  \<^verbatim>\<open>base64.b64decode(s, validate=True)\<close> of data characters followed by padding: the padding
  completes the last group of four, and nothing follows it.
\<close>

definition b64_strict :: "deob_env \<Rightarrow> string \<Rightarrow> string option" where
  "b64_strict env s =
     (let d = takeWhile is_b64_char s; n = length d mod 4; p = length s - length d in
      if (n, p) \<in> {(0, 0), (2, 2), (3, 1)} \<or> (n = 0 \<and> dx_excess_padding env)
      then (case b64_decode d of Inl e \<Rightarrow> None | Inr t \<Rightarrow> Some t) else None)"

definition drop_space :: "string \<Rightarrow> string" where
  "drop_space s = filter (\<lambda>c. \<not> is_space c) s"

definition try_decode_b64 :: "deob_env \<Rightarrow> string \<Rightarrow> string option" where
  "try_decode_b64 env s =
     (let cleaned = drop_space s; d = takeWhile is_b64_char cleaned in
      if length cleaned < MIN_STRING_LEN then None
      else if d = [] \<or> \<not> list_all (\<lambda>c. c = CHR ''='') (dropWhile is_b64_char cleaned) then None
      else map_option (dx_decode env) (b64_strict env cleaned))"

definition try_decode_hex :: "deob_env \<Rightarrow> string \<Rightarrow> string option" where
  "try_decode_hex env s =
     (let cleaned = drop_space s in
      if length cleaned < MIN_STRING_LEN \<or> odd (length cleaned) then None
      else if \<not> list_all (\<lambda>c. hex_value c \<noteq> None) cleaned then None
      else Some (dx_decode env (hex_decode cleaned)))"

definition hex_int :: "string \<Rightarrow> nat" where
  "hex_int s = foldl (\<lambda>a c. 16 * a + hex_num c) 0 s"

definition try_decode_hex_escape :: "deob_env \<Rightarrow> string \<Rightarrow> string option" where
  "try_decode_hex_escape env s =
     (case findall1 (rxP ''``x([0-9a-fA-F]{2})'') s of
        [] \<Rightarrow> None
      | hs \<Rightarrow> Some (dx_decode env (map (\<lambda>h. char_of (hex_int h)) hs)))"

text \<open>\<^verbatim>\<open>chr(n)\<close>, as its UTF-8 bytes.\<close>

definition chr_bytes :: "nat \<Rightarrow> string" where
  "chr_bytes n =
     (if n < 128 then utf8 [n]
      else if n < 2048 then utf8 [192 + n div 64, 128 + n mod 64]
      else if n < 65536 then utf8 [224 + n div 4096, 128 + n div 64 mod 64, 128 + n mod 64]
      else utf8 [240 + n div 262144, 128 + n div 4096 mod 64, 128 + n div 64 mod 64, 128 + n mod 64])"

definition try_decode_unicode_escape :: "string \<Rightarrow> string option" where
  "try_decode_unicode_escape s =
     (case findall1 (rxP ''``u([0-9a-fA-F]{4})'') s of
        [] \<Rightarrow> None
      | hs \<Rightarrow> Some (concat (map (\<lambda>h. chr_bytes (hex_int h)) hs)))"

definition code_points :: "string \<Rightarrow> string list" where
  "code_points s = filter (\<lambda>t. t \<noteq> []) (map py_strip (split_on (CHR '','') s))"

definition try_decode_char_code_array :: "string \<Rightarrow> string option" where
  "try_decode_char_code_array s =
     (let ts = code_points s in
      if ts = [] \<or> \<not> list_all py_isdigit ts \<or> list_ex (\<lambda>t. digits_value t > 1114111) ts then None
      else Some (concat (map (\<lambda>t. chr_bytes (digits_value t)) ts)))"

text \<open>\<^verbatim>\<open>urllib.parse.unquote\<close> of a run of percent escapes.\<close>

fun unquote_bytes :: "string \<Rightarrow> string" where
  "unquote_bytes (c # a # b # rest) = char_of (hex_num a * 16 + hex_num b) # unquote_bytes rest"
| "unquote_bytes _ = []"

definition try_decode_url_pct :: "deob_env \<Rightarrow> string \<Rightarrow> string option" where
  "try_decode_url_pct env s = Some (dx_decode env (unquote_bytes s))"

subsection \<open>One layer\<close>

definition chunks_of :: "regex \<Rightarrow> (string \<Rightarrow> string option) \<Rightarrow> string \<Rightarrow> string list" where
  "chunks_of r decode src = concat (map (\<lambda>s. case decode s of None \<Rightarrow> [] | Some d \<Rightarrow> if d = [] then [] else [d])
     (findall1 r src))"

text \<open>The kinds of decoding in their order, with the chunks each gives.\<close>

definition layer_chunks :: "deob_env \<Rightarrow> string \<Rightarrow> (string \<times> string list) list" where
  "layer_chunks env src =
     [(''py_b64'', chunks_of PY_B64_CALL_RE (try_decode_b64 env) src),
      (''js_atob'', chunks_of JS_ATOB_RE (try_decode_b64 env) src),
      (''js_buffer_b64'', chunks_of JS_BUFFER_B64_RE (try_decode_b64 env) src),
      (''py_hex'', chunks_of PY_HEX_RE (try_decode_hex env) src),
      (''hex_escape'', chunks_of HEX_ESC_LITERAL_RE (try_decode_hex_escape env) src),
      (''unicode_escape'', chunks_of UNI_ESC_LITERAL_RE try_decode_unicode_escape src),
      (''from_char_code'', chunks_of FROM_CHAR_CODE_RE try_decode_char_code_array src),
      (''url_pct'', chunks_of URL_PCT_RE
         (\<lambda>s. case try_decode_url_pct env s of None \<Rightarrow> None | Some d \<Rightarrow> if d = s then None else Some d) src)]"

type_synonym deob_stats = "(string \<times> nat) list"

definition process_layer :: "deob_env \<Rightarrow> string \<Rightarrow> string \<times> deob_stats" where
  "process_layer env src =
     (let ls = layer_chunks env src in
      (py_join newline (concat (map snd ls)),
       map (\<lambda>(k, cs). (k, length cs)) (filter (\<lambda>(k, cs). cs \<noteq> []) ls)))"

subsection \<open>All layers\<close>

record deob_result =
  dr_layers :: "string list"
  dr_final_text :: string
  dr_layer_count :: nat
  dr_stats :: deob_stats


definition add_stats :: "deob_stats \<Rightarrow> deob_stats \<Rightarrow> deob_stats" where
  "add_stats new acc = fold (\<lambda>(k, v) a. AList.update k ((case map_of a k of None \<Rightarrow> 0 | Some n \<Rightarrow> n) + v) a) new acc"

fun deob_loop :: "deob_env \<Rightarrow> nat \<Rightarrow> string \<Rightarrow> string list \<Rightarrow> deob_stats \<Rightarrow> string list \<times> deob_stats" where
  "deob_loop env 0 cur layers acc = (layers, acc)"
| "deob_loop env (Suc k) cur layers acc =
     (case process_layer env cur of (decoded, stats) \<Rightarrow>
        if py_strip decoded = [] then (layers, acc)
        else (let acc = add_stats stats acc in
          if decoded \<in> set layers then (layers, acc)
          else (let layers = layers @ [decoded] in
            if sum_list (map length layers) > MAX_TOTAL_SIZE then (layers, acc)
            else deob_loop env k decoded layers acc)))"

definition deobfuscate :: "deob_env \<Rightarrow> nat \<Rightarrow> string \<Rightarrow> deob_result" where
  "deobfuscate env max_layers src =
     (if length src > MAX_TOTAL_SIZE
      then \<lparr>dr_layers = [], dr_final_text = [], dr_layer_count = 0, dr_stats = []\<rparr>
      else (case deob_loop env max_layers src [] [] of (layers, stats) \<Rightarrow>
        \<lparr>dr_layers = layers, dr_final_text = py_join newline layers, dr_layer_count = length layers,
         dr_stats = stats\<rparr>))"



subsection \<open>The patterns of the indicators\<close>






subsection \<open>What the decoding adds\<close>













lemma deob_loop_bounded: "length (fst (deob_loop env k cur layers acc)) \<le> length layers + k"
proof (induction env k cur layers acc rule: deob_loop.induct)
  case (2 env k cur layers acc)
  then show ?case by (auto simp: Let_def split: prod.split)
qed simp

lemma layers_bounded: "dr_layer_count (deobfuscate env MAX_LAYERS src) \<le> 3"
  using deob_loop_bounded [of env MAX_LAYERS src "[]" "[]"]
  by (auto simp: deobfuscate_def MAX_LAYERS_def split: prod.split)














end
