(* ===== verification/BinaryScan.thy ===== *)
theory BinaryScan
  imports Regex PipelineFacts
begin

text \<open>
  \<^verbatim>\<open>stages/stage_binary.py\<close>: native files of an archive. The format is told from the first
  bytes; the imported or linked symbols are compared with two tables, and two patterns are searched in the
  bytes themselves. What \<^verbatim>\<open>pefile\<close> and \<^verbatim>\<open>pyelftools\<close> read from a file is a parameter: the
  names their iterations give, in order, and the exception that ends them, if one does.
\<close>

subsection \<open>Tables\<close>

definition SUSPICIOUS_PE_IMPORTS :: "string list" where
  "SUSPICIOUS_PE_IMPORTS =
     [''CreateProcessA'', ''CreateProcessW'', ''WinExec'', ''ShellExecuteA'', ''ShellExecuteW'',
      ''CreateRemoteThread'', ''NtCreateThreadEx'',
      ''InternetOpenA'', ''InternetOpenW'', ''InternetConnectA'', ''HttpSendRequestA'',
      ''socket'', ''connect'', ''send'', ''recv'', ''WSAStartup'',
      ''GetUserNameA'', ''GetComputerNameA'', ''RegOpenKeyExA'', ''CredReadA'',
      ''VirtualAllocEx'', ''WriteProcessMemory'', ''ReadProcessMemory'',
      ''SetWindowsHookExA'', ''SetWindowsHookExW'']"

definition SUSPICIOUS_ELF_SYMBOLS :: "string list" where
  "SUSPICIOUS_ELF_SYMBOLS =
     [''system'', ''execve'', ''execv'', ''execvp'', ''execl'', ''popen'',
      ''fork'', ''vfork'', ''clone'',
      ''socket'', ''connect'', ''send'', ''recv'',
      ''mmap'', ''mprotect'',
      ''ptrace'',
      ''getenv'']"

text \<open>Patterns over bytes: \<^verbatim>\<open>\s\<close> is white space without the separators 0x1C to 0x1F.\<close>

definition NETWORK_STR_RE :: regex where
  "NETWORK_STR_RE =
     rxP (''(?:https?://[^`x00-`x1f`x7f-`xff `t`n`r`f`v\"'' @ [CHR 0x27] @ '']{4,200}''
          @ ''|`b(?:`d{1,3}`.){3}`d{1,3}(?::`d+)?)'')"

definition INTERESTING_STR_RE :: regex where
  "INTERESTING_STR_RE =
     rxP ''(?:/etc/passwd|/`.ssh/|`.aws/credentials|powershell|cmd`.exe|curl[ `t`n`r`f`v]|wget[ `t`n`r`f`v])''"

subsection \<open>One file\<close>

record binary_result =
  br_path :: string
  br_binary_type :: string
  br_suspicious_imports :: "string list"
  br_network_strings :: "string list"
  br_strings_of_interest :: "string list"
  br_error :: "string option"

definition new_result :: "string \<Rightarrow> string \<Rightarrow> binary_result" where
  "new_result path btype =
     \<lparr>br_path = path, br_binary_type = btype, br_suspicious_imports = [], br_network_strings = [],
      br_strings_of_interest = [], br_error = None\<rparr>"

definition br_has_findings :: "binary_result \<Rightarrow> bool" where
  "br_has_findings r = (br_suspicious_imports r \<noteq> [] \<or> br_network_strings r \<noteq> [])"

type_synonym symbol_reader = "string \<Rightarrow> string option list \<times> pyexn option"

record binary_env =
  be_pefile :: "symbol_reader option"
  be_elftools :: "symbol_reader option"
  be_utf8_replace :: "string \<Rightarrow> string"
  be_fetch :: "string \<Rightarrow> pyexn + string"

text \<open>A symbol without a name is passed over; \<^verbatim>\<open>and name\<close> also passes over the empty one.\<close>

definition pe_names :: "binary_env \<Rightarrow> string option list \<Rightarrow> string list" where
  "pe_names env names =
     filter (\<lambda>n. n \<in> set SUSPICIOUS_PE_IMPORTS) (map (be_utf8_replace env) (List.map_filter id names))"

definition elf_names :: "string option list \<Rightarrow> string list" where
  "elf_names names =
     filter (\<lambda>n. n \<noteq> [] \<and> n \<in> set SUSPICIOUS_ELF_SYMBOLS) (List.map_filter id names)"

definition analyze_pe :: "binary_env \<Rightarrow> string \<Rightarrow> string \<Rightarrow> binary_result" where
  "analyze_pe env data path =
     (let r = new_result path ''pe'' in
      case be_pefile env of
        None \<Rightarrow> r\<lparr>br_error := Some ''pefile not installed''\<rparr>
      | Some read \<Rightarrow>
          (case read data of
             (names, err) \<Rightarrow>
               r\<lparr>br_suspicious_imports := pe_names env names,
                 br_error := map_option (\<lambda>e. ''pe parse: '' @ exn_str e) err\<rparr>))"

definition analyze_elf :: "binary_env \<Rightarrow> string \<Rightarrow> string \<Rightarrow> binary_result" where
  "analyze_elf env data path =
     (let r = new_result path ''elf'' in
      case be_elftools env of
        None \<Rightarrow> r\<lparr>br_error := Some ''pyelftools not installed''\<rparr>
      | Some read \<Rightarrow>
          (case read data of
             (names, err) \<Rightarrow>
               r\<lparr>br_suspicious_imports := elf_names names,
                 br_error := map_option (\<lambda>e. ''elf parse: '' @ exn_str e) err\<rparr>))"

text \<open>The network pattern matches only ASCII, so \<^verbatim>\<open>decode("ascii")\<close> never fails there, and the
  other one consists of ASCII literals.\<close>

definition found_strings :: "regex \<Rightarrow> string \<Rightarrow> string list" where
  "found_strings r data = take 10 (sorted_set (map (group0 data) (finditer r data)))"

definition extract_strings :: "string \<Rightarrow> string list \<times> string list" where
  "extract_strings data = (found_strings NETWORK_STR_RE data, found_strings INTERESTING_STR_RE data)"

definition detect_binary_type :: "string \<Rightarrow> string" where
  "detect_binary_type data =
     (if length data < 4 then ''unknown''
      else if take 2 data = ''MZ'' then ''pe''
      else if take 4 data = CHR 0x7F # ''ELF'' then ''elf''
      else if take 4 data = [CHR 0xFE, CHR 0xED, CHR 0xFA, CHR 0xCF]
           \<or> take 4 data = [CHR 0xCF, CHR 0xFA, CHR 0xED, CHR 0xFE] then ''macho''
      else ''unknown'')"

definition analyze_binary :: "binary_env \<Rightarrow> string \<Rightarrow> string \<Rightarrow> binary_result" where
  "analyze_binary env data path =
     (let btype = detect_binary_type data;
          r = (if btype = ''pe'' then analyze_pe env data path
               else if btype = ''elf'' then analyze_elf env data path
               else new_result path btype);
          (network, interesting) = extract_strings data
      in r\<lparr>br_network_strings := network, br_strings_of_interest := interesting,
           br_suspicious_imports := sorted_set (br_suspicious_imports r)\<rparr>)"

subsection \<open>The archive\<close>

text \<open>
  The loop over a tar's members measures what it has read, the one over a zip's the size the directory
  states; an exception ends the loop and keeps what was found before it.
\<close>

definition MAX_BINARY_SIZE :: nat where
  "MAX_BINARY_SIZE = 10 * 1024 * 1024"

definition unreadable :: "pyexn \<Rightarrow> binary_result" where
  "unreadable e =
     (new_result ''<archive>'' ''unknown'')\<lparr>br_error := Some (''archive read failed: '' @ exn_str e)\<rparr>"

fun scan_tar :: "binary_env \<Rightarrow> string list \<Rightarrow> member list \<Rightarrow> binary_result list" where
  "scan_tar env paths [] = []"
| "scan_tar env paths (m # ms) =
     (if am_name m \<in> set paths \<and> am_isfile m
      then (case am_read m of
              Inl e \<Rightarrow> [unreadable e]
            | Inr None \<Rightarrow> scan_tar env paths ms
            | Inr (Some data) \<Rightarrow>
                if length data > MAX_BINARY_SIZE then scan_tar env paths ms
                else analyze_binary env data (am_name m) # scan_tar env paths ms)
      else scan_tar env paths ms)"

fun scan_zip :: "binary_env \<Rightarrow> string list \<Rightarrow> member list \<Rightarrow> binary_result list" where
  "scan_zip env paths [] = []"
| "scan_zip env paths (m # ms) =
     (if am_name m \<in> set paths \<and> am_isfile m
      then if am_size m > MAX_BINARY_SIZE then scan_zip env paths ms
           else (case am_read m of
                   Inl e \<Rightarrow> [unreadable e]
                 | Inr c \<Rightarrow> analyze_binary env (or_else c []) (am_name m) # scan_zip env paths ms)
      else scan_zip env paths ms)"

definition extract_and_analyze ::
  "archive_env \<Rightarrow> binary_env \<Rightarrow> string \<Rightarrow> string list \<Rightarrow> string \<Rightarrow> binary_result list" where
  "extract_and_analyze ar env archive paths url =
     (if paths = [] then []
      else if endswith url ''.tar.gz'' \<or> endswith url ''.tgz''
      then (case ae_untar ar archive of Inl e \<Rightarrow> [unreadable e] | Inr ms \<Rightarrow> scan_tar env paths ms)
      else (case ae_unzip ar archive of Inl e \<Rightarrow> [unreadable e] | Inr ms \<Rightarrow> scan_zip env paths ms))"

text \<open>Stage 7 of the pipeline downloads the archive again, without a limit, and never reads the error of a
  finding.\<close>

definition to_finding :: "binary_result \<Rightarrow> binary_finding" where
  "to_finding r =
     \<lparr>bf_path = br_path r, bf_binary_type = br_binary_type r,
      bf_suspicious_imports = br_suspicious_imports r, bf_network_strings = br_network_strings r,
      bf_strings_of_interest = br_strings_of_interest r\<rparr>"

definition stage_binaries ::
  "archive_env \<Rightarrow> binary_env \<Rightarrow> string \<Rightarrow> string list \<Rightarrow> pyexn + binary_finding list" where
  "stage_binaries ar env url paths =
     bindE (be_fetch env url) (\<lambda>archive. Inr (map to_finding (extract_and_analyze ar env archive paths url)))"

subsection \<open>What is reported\<close>

definition listed :: "string list \<Rightarrow> member \<Rightarrow> bool" where
  "listed paths m = (am_name m \<in> set paths \<and> am_isfile m)"

definition readable :: "member \<Rightarrow> bool" where
  "readable m = (\<exists>c. am_read m = Inr c)"

lemma scan_tar_reaches:
  assumes "list_all (\<lambda>m'. listed paths m' \<longrightarrow> readable m') before" and "listed paths m"
    and "am_read m = Inr (Some data)" and "length data \<le> MAX_BINARY_SIZE"
  shows "analyze_binary env data (am_name m) \<in> set (scan_tar env paths (before @ m # after))"
  using assms by (induction before) (auto simp: listed_def readable_def split: option.splits)

lemma scan_zip_reaches:
  assumes "list_all (\<lambda>m'. listed paths m' \<longrightarrow> readable m') before" and "listed paths m"
    and "am_read m = Inr (Some data)" and "am_size m \<le> MAX_BINARY_SIZE"
  shows "analyze_binary env data (am_name m) \<in> set (scan_zip env paths (before @ m # after))"
  using assms by (induction before) (auto simp: listed_def readable_def)

lemma scan_tar_stops:
  "listed paths m \<Longrightarrow> am_read m = Inl e \<Longrightarrow>
   scan_tar env paths (before @ m # after) = scan_tar env paths (before @ [m])"
  by (induction before) (auto simp: listed_def split: sum.splits option.splits)

lemma scan_zip_stops:
  "listed paths m \<Longrightarrow> am_read m = Inl e \<Longrightarrow> am_size m \<le> MAX_BINARY_SIZE \<Longrightarrow>
   scan_zip env paths (before @ m # after) = scan_zip env paths (before @ [m])"
  by (induction before) (auto simp: listed_def split: sum.splits)

lemma analyze_binary_path [simp]: "br_path (analyze_binary env data path) = path"
  by (simp add: analyze_binary_def analyze_pe_def analyze_elf_def new_result_def Let_def
      split: prod.split option.split)

lemma analyze_binary_imports:
  "set (br_suspicious_imports (analyze_binary env data path)) \<subseteq>
     set SUSPICIOUS_PE_IMPORTS \<union> set SUSPICIOUS_ELF_SYMBOLS"
  by (auto simp: analyze_binary_def analyze_pe_def analyze_elf_def new_result_def pe_names_def elf_names_def
      Let_def split: prod.splits option.splits if_splits)

text \<open>A suspicious symbol that the reader of the file's format gives is reported.\<close>

definition symbol_given :: "binary_env \<Rightarrow> string \<Rightarrow> string \<Rightarrow> bool" where
  "symbol_given env data x =
     (if detect_binary_type data = ''pe''
      then (case be_pefile env of None \<Rightarrow> False
            | Some read \<Rightarrow> x \<in> set SUSPICIOUS_PE_IMPORTS
                \<and> x \<in> be_utf8_replace env ` {n. Some n \<in> set (fst (read data))})
      else if detect_binary_type data = ''elf''
      then (case be_elftools env of None \<Rightarrow> False
            | Some read \<Rightarrow> x \<in> set SUSPICIOUS_ELF_SYMBOLS \<and> Some x \<in> set (fst (read data)))
      else False)"

lemma set_map_filter_id: "set (List.map_filter id xs) = {n. Some n \<in> set xs}"
  by (force simp: List.map_filter_def image_iff)

lemma empty_no_symbol: "[] \<notin> set SUSPICIOUS_ELF_SYMBOLS"
  by (simp add: SUSPICIOUS_ELF_SYMBOLS_def)

lemma analyze_binary_symbols:
  "x \<in> set (br_suspicious_imports (analyze_binary env data path)) \<longleftrightarrow> symbol_given env data x"
  using empty_no_symbol
  by (auto simp: analyze_binary_def analyze_pe_def analyze_elf_def new_result_def pe_names_def elf_names_def
      symbol_given_def set_map_filter_id Let_def split: prod.splits option.splits if_splits)

subsection \<open>Stage 7\<close>

definition tar_url :: "string \<Rightarrow> bool" where
  "tar_url url = (endswith url ''.tar.gz'' \<or> endswith url ''.tgz'')"

lemma stage_7_tar:
  assumes "pv_binaries env = stage_binaries ar be" and "be_fetch be url = Inr archive" and "tar_url url"
    and "ae_untar ar archive = Inr ms" and "fx_binary_files x \<noteq> []"
  shows "px_evidence (stage_7 env url x cx) = px_evidence cx
      @ map binary_to_evidence (filter binary_has_findings (map to_finding (scan_tar be (fx_binary_files x) ms)))"
    and "sr_success (last (px_results (stage_7 env url x cx)))"
  using assms by (simp_all add: stage_7_def stage_binaries_def extract_and_analyze_def tar_url_def Let_def
      add_result_def add_evidence_def)

lemma binary_symbol_in_evidence:
  assumes "pv_binaries env = stage_binaries ar be" and "be_fetch be url = Inr archive" and "tar_url url"
    and "ae_untar ar archive = Inr (before @ m # after)"
    and "list_all (\<lambda>m'. listed (fx_binary_files x) m' \<longrightarrow> readable m') before" and "listed (fx_binary_files x) m"
    and "am_read m = Inr (Some data)" and "length data \<le> MAX_BINARY_SIZE" and "symbol_given be data nm"
  shows "\<exists>f. binary_to_evidence f \<in> set (px_evidence (stage_7 env url x cx)) \<and> bf_path f = am_name m
    \<and> nm \<in> set (bf_suspicious_imports f)"
proof -
  let ?r = "analyze_binary be data (am_name m)"
  have r: "nm \<in> set (br_suspicious_imports ?r)" using assms(9) by (simp add: analyze_binary_symbols)
  then have "binary_has_findings (to_finding ?r)" by (auto simp: binary_has_findings_def to_finding_def)
  moreover have "fx_binary_files x \<noteq> []" using assms(6) by (auto simp: listed_def)
  ultimately have "binary_to_evidence (to_finding ?r) \<in> set (px_evidence (stage_7 env url x cx))"
    using scan_tar_reaches [OF assms(5-8)] stage_7_tar(1) [OF assms(1-4)] by simp
  with r show ?thesis by (intro exI [of _ "to_finding ?r"]) (simp add: to_finding_def)
qed

text \<open>One native file of a tar archive that cannot be read ends stage 7's scan: whatever native files follow it
  in the archive add no evidence, and the stage still reports success.\<close>
theorem unreadable_binary_hides_rest:
  assumes "pv_binaries env = stage_binaries ar be" and "be_fetch be url = Inr archive" and "tar_url url"
    and "ae_untar ar archive = Inr (before @ m # after)"
    and "listed (fx_binary_files x) m" and "am_read m = Inl e"
  shows "px_evidence (stage_7 env url x cx) = px_evidence cx @ map binary_to_evidence
      (filter binary_has_findings (map to_finding (scan_tar be (fx_binary_files x) (before @ [m]))))
    \<and> sr_success (last (px_results (stage_7 env url x cx)))"
proof -
  have "fx_binary_files x \<noteq> []" using assms(5) by (auto simp: listed_def)
  note s = stage_7_tar [OF assms(1-4) this]
  show ?thesis
    by (simp only: s(1) scan_tar_stops [OF assms(5,6), of be before after]) (simp only: s(2))
qed

text \<open>A damaged library before one that links \<^verbatim>\<open>system\<close>: the second one alone is evidence, the two
  together are none.\<close>

definition elf_file :: string where
  "elf_file = CHR 0x7F # ''ELF''"

definition elf_env :: binary_env where
  "elf_env = \<lparr>be_pefile = None, be_elftools = Some (\<lambda>d. ([Some ''system''], None)),
     be_utf8_replace = id, be_fetch = \<lambda>u. Inr []\<rparr>"

definition damaged_so :: member where
  "damaged_so = \<lparr>am_name = ''p/a.so'', am_isfile = True, am_size = 4, am_read = Inl (ValueError ''crc'')\<rparr>"

definition hostile_so :: member where
  "hostile_so = \<lparr>am_name = ''p/b.so'', am_isfile = True, am_size = 4, am_read = Inr (Some elf_file)\<rparr>"

definition binaries_env :: "member list \<Rightarrow> pipe_env" where
  "binaries_env ms = (sample_env [] (Other []) (sample_detectors 0 []))
     \<lparr>pv_binaries := stage_binaries (sample_archive\<lparr>ae_untar := \<lambda>_. Inr ms\<rparr>) elf_env\<rparr>"

definition two_libraries :: full_source_extract where
  "two_libraries = empty_extract\<lparr>fx_binary_files := [''p/a.so'', ''p/b.so'']\<rparr>"

lemma tgz_url: "tar_url ''u.tgz''"
  by (simp add: tar_url_def suffix_to_prefix)

theorem unreadable_binary_hides_rest_witness:
  "px_evidence (stage_7 (binaries_env [damaged_so, hostile_so]) ''u.tgz'' two_libraries start_ctx) = []
   \<and> px_evidence (stage_7 (binaries_env [hostile_so]) ''u.tgz'' two_libraries start_ctx) \<noteq> []"
proof
  show "px_evidence (stage_7 (binaries_env [damaged_so, hostile_so]) ''u.tgz'' two_libraries start_ctx) = []"
    using unreadable_binary_hides_rest
        [of "binaries_env [damaged_so, hostile_so]" "sample_archive\<lparr>ae_untar := \<lambda>_. Inr [damaged_so, hostile_so]\<rparr>"
          elf_env "''u.tgz''" "[]" "[]" damaged_so "[hostile_so]" two_libraries "ValueError ''crc''" start_ctx]
    by (simp add: binaries_env_def elf_env_def tgz_url listed_def two_libraries_def damaged_so_def start_ctx_def
        unreadable_def new_result_def to_finding_def binary_has_findings_def)
  have "symbol_given elf_env elf_file ''system''"
    by (simp add: symbol_given_def elf_file_def detect_binary_type_def elf_env_def SUSPICIOUS_ELF_SYMBOLS_def)
  then show "px_evidence (stage_7 (binaries_env [hostile_so]) ''u.tgz'' two_libraries start_ctx) \<noteq> []"
    using binary_symbol_in_evidence
        [of "binaries_env [hostile_so]" "sample_archive\<lparr>ae_untar := \<lambda>_. Inr [hostile_so]\<rparr>"
          elf_env "''u.tgz''" "[]" "[]" hostile_so "[]" two_libraries elf_file "''system''" start_ctx]
    by (auto simp: binaries_env_def elf_env_def tgz_url listed_def two_libraries_def hostile_so_def
        elf_file_def MAX_BINARY_SIZE_def)
qed

end
