(* ===== verification/Sandbox.thy ===== *)
theory Sandbox
  imports RuntimeExtract Registry
begin

text \<open>
  Dynamic analysis: \<^verbatim>\<open>stages/stage_sandbox.py\<close> runs an installation in a container and
  \<^verbatim>\<open>knowledge/ossf_package_analysis.py\<close>, the default, reads what the OpenSSF has already seen a
  package do. Running a command, \<^verbatim>\<open>shutil.which\<close>, the clock, HTTP and \<^verbatim>\<open>urllib\<close>'s
  quoting are parameters; the command lines, the logs' patterns and the parsers are the code's.
\<close>

subsection \<open>Observed behaviour\<close>

text \<open>The OpenSSF's paths come from JSON and may be any hashable value.\<close>

record observed_behavior =
  ob_process_spawns :: "string list"
  ob_network_requests :: "string list"
  ob_file_writes :: "pyval list"
  ob_env_reads :: "string list"
  ob_mode :: string
  ob_duration_s :: rat
  ob_error :: "string option"

definition new_observed :: "string \<Rightarrow> rat \<Rightarrow> string option \<Rightarrow> observed_behavior" where
  "new_observed mode duration err =
     \<lparr>ob_process_spawns = [], ob_network_requests = [], ob_file_writes = [], ob_env_reads = [],
      ob_mode = mode, ob_duration_s = duration, ob_error = err\<rparr>"

definition ob_has_findings :: "observed_behavior \<Rightarrow> bool" where
  "ob_has_findings ob =
     (ob_process_spawns ob \<noteq> [] \<or> ob_network_requests ob \<noteq> [] \<or> ob_file_writes ob \<noteq> [])"

definition add_network :: "string \<Rightarrow> observed_behavior \<Rightarrow> observed_behavior" where
  "add_network x ob = ob\<lparr>ob_network_requests := ob_network_requests ob @ [x]\<rparr>"

definition add_process :: "string \<Rightarrow> observed_behavior \<Rightarrow> observed_behavior" where
  "add_process x ob = ob\<lparr>ob_process_spawns := ob_process_spawns ob @ [x]\<rparr>"

definition add_file :: "pyval \<Rightarrow> observed_behavior \<Rightarrow> observed_behavior" where
  "add_file x ob = ob\<lparr>ob_file_writes := ob_file_writes ob @ [x]\<rparr>"

subsection \<open>Containers\<close>

datatype run_result = Finished string string | TimedOut | RunFailed pyexn

record sandbox_env =
  sx_docker :: bool
  sx_run :: "string list \<Rightarrow> int \<Rightarrow> run_result"
  sx_elapsed :: rat
  sx_http :: "string \<Rightarrow> int \<Rightarrow> http_result"
  sx_quote :: "string \<Rightarrow> string"
  sx_show_float :: "rat \<Rightarrow> string"















subsection \<open>System calls\<close>















subsection \<open>The OpenSSF's analyses\<close>






text \<open>Equality of hashable values: numbers of different types can be equal.\<close>

fun num_of :: "pyval \<Rightarrow> rat option" where
  "num_of (PBool b) = Some (if b then 1 else 0)"
| "num_of (PInt i) = Some (of_int i)"
| "num_of (PFloat x) = Some x"
| "num_of v = None"

definition py_same :: "pyval \<Rightarrow> pyval \<Rightarrow> bool" where
  "py_same a b = (a = b \<or> num_of a \<noteq> None \<and> num_of a = num_of b)"

definition SENSITIVE_PARTS :: "string list" where
  "SENSITIVE_PARTS =
     [''.ssh'', ''.aws'', ''credentials'', ''passwd'',
      ''shadow'', ''.npmrc'', ''.pypirc'', ''environ'']"

text \<open>The state of the loops: the observation, and the set of full network labels. What is written or
  spawned has been seen exactly when it is listed.\<close>

type_synonym ossf_state = "observed_behavior \<times> string list"

definition note_file :: "pyval \<Rightarrow> ossf_state \<Rightarrow> pyexn + ossf_state" where
  "note_file v st =
     (if \<not> hashable v then Inl (TypeError ''unhashable type'')
      else if list_ex (py_same v) (ob_file_writes (fst st)) then Inr st
      else Inr (add_file v (fst st), snd st))"

definition file_entry :: "pyval \<Rightarrow> ossf_state \<Rightarrow> pyexn + ossf_state" where
  "file_entry f st =
     (case f of
        PDict d \<Rightarrow>
          let path = d_get d ''Path'' (PStr []) in
          if \<not> py_truth path then Inr st
          else if py_truth (dget d ''Write'') \<or> py_truth (dget d ''Delete'') then note_file path st
          else if py_truth (dget d ''Read'')
          then bindE (attr_str ''lower'' path) (\<lambda>p.
                 if list_ex (\<lambda>s. contains s (py_lower p)) SENSITIVE_PARTS
                 then note_file (PStr (''read sensitive '' @ p)) st else Inr st)
          else Inr st
      | _ \<Rightarrow> Inr st)"

definition command_text :: "sandbox_env \<Rightarrow> pyval \<Rightarrow> string option" where
  "command_text env cmd =
     (case cmd of
        PList xs \<Rightarrow> if xs = [] then None
          else Some (take 200 (py_join '' '' (map (pv_str (sx_show_float env)) (take 6 xs))))
      | PStr s \<Rightarrow> Some (take 200 s)
      | _ \<Rightarrow> None)"

definition command_entry :: "sandbox_env \<Rightarrow> pyval \<Rightarrow> ossf_state \<Rightarrow> pyexn + ossf_state" where
  "command_entry env c st =
     (case c of
        PDict d \<Rightarrow>
          (case command_text env (dget d ''Command'') of
             None \<Rightarrow> Inr st
           | Some cmd \<Rightarrow>
               if cmd \<in> set (ob_process_spawns (fst st)) then Inr st
               else Inr (add_process cmd (fst st), snd st))
      | _ \<Rightarrow> Inr st)"

definition note_net :: "string \<Rightarrow> ossf_state \<Rightarrow> ossf_state" where
  "note_net label st =
     (if label \<in> set (snd st) then st else (add_network (take 200 label) (fst st), label # snd st))"

definition socket_entry :: "sandbox_env \<Rightarrow> pyval \<Rightarrow> ossf_state \<Rightarrow> pyexn + ossf_state" where
  "socket_entry env s st =
     (case s of
        PDict d \<Rightarrow>
          let str = pv_str (sx_show_float env); addr = dget d ''Address''; port = dget d ''Port'';
              hostnames = py_or (dget d ''Hostnames'') (PList [])
          in Inr (case hostnames of
               PList (h # hs) \<Rightarrow> note_net (''connect '' @ str h @ '' ('' @ str addr @ '':'' @ str port @ '')'') st
             | _ \<Rightarrow> if py_truth addr then note_net (''connect '' @ str addr @ '':'' @ str port) st else st)
      | _ \<Rightarrow> Inr st)"

definition dns_entry :: "sandbox_env \<Rightarrow> pyval \<Rightarrow> ossf_state \<Rightarrow> pyexn + ossf_state" where
  "dns_entry env v st =
     (case v of
        PDict d \<Rightarrow>
          let host = dget d ''Hostname'' in
          Inr (if py_truth host then note_net (''DNS '' @ pv_str (sx_show_float env) host) st else st)
      | _ \<Rightarrow> Inr st)"

definition phase_list :: "pydict \<Rightarrow> string \<Rightarrow> pyexn + pyval list" where
  "phase_list d k = py_list (py_or (dget d k) (PList []))"

definition phase_entry :: "sandbox_env \<Rightarrow> pyval \<Rightarrow> ossf_state \<Rightarrow> pyexn + ossf_state" where
  "phase_entry env phase st =
     (case phase of
        PDict d \<Rightarrow>
          bindE (bindE (phase_list d ''Files'') (\<lambda>xs. foldE file_entry xs st)) (\<lambda>st.
          bindE (bindE (phase_list d ''Commands'') (\<lambda>xs. foldE (command_entry env) xs st)) (\<lambda>st.
          bindE (bindE (phase_list d ''Sockets'') (\<lambda>xs. foldE (socket_entry env) xs st)) (\<lambda>st.
          bindE (phase_list d ''DNS'') (\<lambda>xs. foldE (dns_entry env) xs st))))
      | _ \<Rightarrow> Inr st)"

definition phases_of :: "pydict \<Rightarrow> pyval list option" where
  "phases_of d =
     (case py_or (dget d ''Analysis'') (PDict []) of
        PDict p \<Rightarrow> Some (if p = [] then [PDict d] else map snd p)
      | _ \<Rightarrow> None)"

definition parse_ossf_to_observed :: "sandbox_env \<Rightarrow> pyval \<Rightarrow> rat \<Rightarrow> pyexn + observed_behavior" where
  "parse_ossf_to_observed env data duration =
     bindE (attr_dict ''get'' data) (\<lambda>d.
       let ob = new_observed ''ossf-package-analysis'' duration None in
       case phases_of d of
         None \<Rightarrow> Inr ob
       | Some phases \<Rightarrow> bindE (foldE (phase_entry env) phases (ob, [])) (\<lambda>st. Inr (fst st)))"

subsection \<open>The sandboxes\<close>

datatype sandbox = MockSandbox | DockerSandbox int | StraceDockerSandbox int bool | OssfDataSandbox int



definition get_default_sandbox :: sandbox where
  "get_default_sandbox = OssfDataSandbox 15"

definition get_local_docker_sandbox :: "sandbox_env \<Rightarrow> sandbox" where
  "get_local_docker_sandbox env = (if sx_docker env then DockerSandbox 60 else MockSandbox)"

subsection \<open>What the host is made to run\<close>





text \<open>A host whose shell would do harm if it were given a command that is not confined.\<close>

definition harmful_host :: sandbox_env where
  "harmful_host = \<lparr>sx_docker = True,
     sx_run = (\<lambda>cmd t. if hd cmd = ''docker'' then Finished ''Running setup.py'' [] else Finished ''harm'' []),
     sx_elapsed = 1, sx_http = (\<lambda>u t. HttpStatus 404), sx_quote = id, sx_show_float = (\<lambda>x. [])\<rparr>"


subsection \<open>What the OpenSSF's analysis says is reported\<close>

text \<open>An entry adds to the lists of the observation and never removes anything.\<close>

definition grown :: "ossf_state \<Rightarrow> ossf_state \<Rightarrow> bool" where
  "grown st st' \<longleftrightarrow> prefix (ob_file_writes (fst st)) (ob_file_writes (fst st'))
     \<and> prefix (ob_process_spawns (fst st)) (ob_process_spawns (fst st'))
     \<and> prefix (ob_network_requests (fst st)) (ob_network_requests (fst st'))"

lemma observed_refl [simp]: "grown st st"
  by (simp add: grown_def)

lemma observed_trans: "grown a b \<Longrightarrow> grown b c \<Longrightarrow> grown a c"
  unfolding grown_def by (blast intro: prefix_order.trans)

lemma note_grows:
  "note_file v st = Inr st' \<Longrightarrow> grown st st'" "grown st (note_net l st)"
  by (auto simp: note_file_def note_net_def grown_def add_file_def add_network_def split: if_splits)

lemma ossf_entry_grows:
  "file_entry v st = Inr st' \<Longrightarrow> grown st st'"
  "command_entry env v st = Inr st' \<Longrightarrow> grown st st'"
  "socket_entry env v st = Inr st' \<Longrightarrow> grown st st'"
  "dns_entry env v st = Inr st' \<Longrightarrow> grown st st'"
  by (auto simp: file_entry_def command_entry_def socket_entry_def dns_entry_def Let_def bindE_Inr_iff
      note_grows add_process_def grown_def [of _ "(_, _)"]
      split: pyval.splits if_splits option.splits list.splits intro: note_grows)

lemma foldE_grows:
  assumes "foldE f xs st = Inr st'" and "\<And>x s s'. f x s = Inr s' \<Longrightarrow> grown s s'"
  shows "grown st st'"
  using assms(1) by (induction xs arbitrary: st) (auto simp: bindE_Inr_iff dest: assms(2) intro: observed_trans)

lemma foldE_through:
  assumes "foldE f xs st = Inr st'" and "x \<in> set xs" and "\<And>x s s'. f x s = Inr s' \<Longrightarrow> grown s s'"
  obtains s s' where "f x s = Inr s'" "grown s' st'"
  using assms(1,2)
  by (induction xs arbitrary: st) (auto simp: bindE_Inr_iff dest: foldE_grows [OF _ assms(3)])

lemma folds_grow:
  "foldE file_entry xs st = Inr st' \<Longrightarrow> grown st st'"
  "foldE (command_entry env) xs st = Inr st' \<Longrightarrow> grown st st'"
  "foldE (socket_entry env) xs st = Inr st' \<Longrightarrow> grown st st'"
  "foldE (dns_entry env) xs st = Inr st' \<Longrightarrow> grown st st'"
  by (erule foldE_grows, erule ossf_entry_grows)+

lemma phase_entryE:
  assumes "phase_entry env v st = Inr st'"
  obtains (other) "st' = st"
  | (phase) d fs cs ss ds a b c where "v = PDict d" "phase_list d ''Files'' = Inr fs" "foldE file_entry fs st = Inr a"
      "foldE (command_entry env) cs a = Inr b" "foldE (socket_entry env) ss b = Inr c"
      "foldE (dns_entry env) ds c = Inr st'"
  using assms by (cases v) (auto simp: phase_entry_def bindE_Inr_iff)

lemma phase_grows: "phase_entry env v st = Inr st' \<Longrightarrow> grown st st'"
  by (erule phase_entryE) (simp, blast dest: folds_grow intro: observed_trans)

lemma note_file_noted: "note_file v st = Inr st' \<Longrightarrow> list_ex (py_same v) (ob_file_writes (fst st'))"
  by (auto simp: note_file_def add_file_def py_same_def split: if_splits)

lemma py_same_str [simp]: "py_same (PStr s) v \<longleftrightarrow> v = PStr s"
  by (auto simp: py_same_def)

text \<open>A file that the OpenSSF saw a package write or delete, in any phase, is listed in the observation.\<close>
theorem ossf_write_reported:
  assumes "parse_ossf_to_observed env (PDict d) elapsed = Inr ob" and "phases_of d = Some phases"
    and "PDict phase \<in> set phases" and "phase_list phase ''Files'' = Inr files" and "PDict f \<in> set files"
    and "d_get f ''Path'' (PStr []) = PStr path" and "path \<noteq> []"
    and "py_truth (dget f ''Write'') \<or> py_truth (dget f ''Delete'')"
  shows "PStr path \<in> set (ob_file_writes ob)"
proof -
  obtain st where st: "foldE (phase_entry env) phases (new_observed ''ossf-package-analysis'' elapsed None, []) = Inr st"
    and ob: "ob = fst st"
    using assms(1,2) by (auto simp: parse_ossf_to_observed_def attr_dict_def Let_def bindE_Inr_iff)
  obtain s s' where s: "phase_entry env (PDict phase) s = Inr s'" "grown s' st"
    using foldE_through [OF st assms(3) phase_grows] .
  then obtain a cs b ss c ds where ph: "foldE file_entry files s = Inr a" "foldE (command_entry env) cs a = Inr b"
      "foldE (socket_entry env) ss b = Inr c" "foldE (dns_entry env) ds c = Inr s'"
    using assms(4) by (auto simp: phase_entry_def bindE_Inr_iff)
  obtain u u' where u: "file_entry (PDict f) u = Inr u'" "grown u' a"
    using foldE_through [OF ph(1) assms(5) ossf_entry_grows(1)] .
  have "note_file (PStr path) u = Inr u'"
    using u(1) assms(6-8) by (simp add: file_entry_def)
  then have "PStr path \<in> set (ob_file_writes (fst u'))"
    using note_file_noted by (fastforce simp: list_ex_iff)
  moreover have "grown u' st"
    using u(2) folds_grow(2) [OF ph(2)] folds_grow(3) [OF ph(3)] folds_grow(4) [OF ph(4)] s(2)
    by (blast intro: observed_trans)
  ultimately show ?thesis unfolding ob grown_def using set_mono_prefix by blast
qed

definition ossf_sample :: pydict where
  "ossf_sample = [(''Analysis'', PDict [(''install'', PDict [(''Files'', PList
     [PDict [(''Path'', PStr ''/root/.bashrc''), (''Write'', PBool True)]])])])]"

theorem ossf_write_reported_witness:
  "\<exists>ob. parse_ossf_to_observed harmful_host (PDict ossf_sample) 1 = Inr ob
     \<and> PStr ''/root/.bashrc'' \<in> set (ob_file_writes ob)"
proof -
  let ?f = "[(''Path'', PStr ''/root/.bashrc''), (''Write'', PBool True)]"
  let ?p = "[(''Files'', PList [PDict ?f])]"
  have p: "phases_of ossf_sample = Some [PDict ?p]"
    by (simp add: phases_of_def ossf_sample_def py_or_def dget_def)
  obtain ob where ob: "parse_ossf_to_observed harmful_host (PDict ossf_sample) 1 = Inr ob"
    by (simp add: parse_ossf_to_observed_def p attr_dict_def phase_entry_def phase_list_def py_or_def dget_def
        file_entry_def note_file_def new_observed_def)
  show ?thesis
    using ossf_write_reported [OF ob p, of ?p "[PDict ?f]" ?f "''/root/.bashrc''"] ob
    by (simp add: phase_list_def py_or_def dget_def)
qed

subsection \<open>Bounds\<close>

text \<open>What an observation shows is bounded, and its file writes are pairwise different.\<close>

definition tidy :: "ossf_state \<Rightarrow> bool" where
  "tidy st \<longleftrightarrow> distinct (ob_file_writes (fst st)) \<and> distinct (ob_process_spawns (fst st))
     \<and> list_all (\<lambda>x. length x \<le> 200) (ob_network_requests (fst st) @ ob_process_spawns (fst st))"

lemma note_tidy:
  "note_file v st = Inr st' \<Longrightarrow> tidy st \<Longrightarrow> tidy st'" "tidy st \<Longrightarrow> tidy (note_net l st)"
  by (auto simp: note_file_def note_net_def tidy_def add_file_def add_network_def list_ex_iff py_same_def
      split: if_splits)

lemma command_text_bound: "command_text env v = Some c \<Longrightarrow> length c \<le> 200"
  by (auto simp: command_text_def split: pyval.splits if_splits)

lemma entry_tidy:
  "file_entry v st = Inr st' \<Longrightarrow> tidy st \<Longrightarrow> tidy st'"
  "command_entry env v st = Inr st' \<Longrightarrow> tidy st \<Longrightarrow> tidy st'"
  "socket_entry env v st = Inr st' \<Longrightarrow> tidy st \<Longrightarrow> tidy st'"
  "dns_entry env v st = Inr st' \<Longrightarrow> tidy st \<Longrightarrow> tidy st'"
  by (auto simp: file_entry_def command_entry_def socket_entry_def dns_entry_def Let_def bindE_Inr_iff
      add_process_def tidy_def [of "(_, _)"] dest: command_text_bound
      split: pyval.splits if_splits option.splits list.splits intro: note_tidy)
     (auto simp: tidy_def dest: command_text_bound)

lemma foldE_keeps:
  assumes "foldE f xs st = Inr st'" and "P st" and "\<And>x s s'. f x s = Inr s' \<Longrightarrow> P s \<Longrightarrow> P s'"
  shows "P st'"
  using assms(1,2) by (induction xs arbitrary: st) (auto simp: bindE_Inr_iff dest: assms(3))

lemma folds_tidy:
  "foldE file_entry xs st = Inr st' \<Longrightarrow> tidy st \<Longrightarrow> tidy st'"
  "foldE (command_entry env) xs st = Inr st' \<Longrightarrow> tidy st \<Longrightarrow> tidy st'"
  "foldE (socket_entry env) xs st = Inr st' \<Longrightarrow> tidy st \<Longrightarrow> tidy st'"
  "foldE (dns_entry env) xs st = Inr st' \<Longrightarrow> tidy st \<Longrightarrow> tidy st'"
  by (erule (1) foldE_keeps, erule (1) entry_tidy)+

lemma phase_tidy: "phase_entry env v st = Inr st' \<Longrightarrow> tidy st \<Longrightarrow> tidy st'"
  by (erule phase_entryE) (simp, blast dest: folds_tidy)

lemma phases_tidy: "foldE (phase_entry env) xs st = Inr st' \<Longrightarrow> tidy st \<Longrightarrow> tidy st'"
  by (erule (1) foldE_keeps, erule (1) phase_tidy)

lemma ossf_observation_tidy:
  assumes "parse_ossf_to_observed env data elapsed = Inr ob"
  shows "distinct (ob_file_writes ob) \<and> distinct (ob_process_spawns ob)
    \<and> list_all (\<lambda>x. length x \<le> 200) (ob_network_requests ob @ ob_process_spawns ob)"
proof -
  have t: "tidy (new_observed ''ossf-package-analysis'' elapsed None, [])"
    by (simp add: tidy_def new_observed_def)
  from assms t show ?thesis
    by (auto simp: parse_ossf_to_observed_def bindE_Inr_iff Let_def new_observed_def split: option.splits
        dest!: phases_tidy) (simp_all add: tidy_def)
qed

end
