(* ===== verification/Reporting.thy ===== *)
theory Reporting
  imports RuntimeExtract
begin

text \<open>
  Reports for people and other tools: \<^verbatim>\<open>stages/stage_vex.py\<close> turns an analysis into a CycloneDX bill of
  materials whose vulnerabilities are the analysis' evidence, \<^verbatim>\<open>reporting/formats.py\<close> into text. How a
  float is shown and the random UUID are parameters. Every enumeration of an evidence is set, and a member of a
  string enumeration is true, so the \<^verbatim>\<open>if e.llm_verdict else\<close> of the code never takes its other branch.
\<close>

subsection \<open>CycloneDX\<close>

definition TOOL_VENDOR :: string where
  "TOOL_VENDOR = ''pkgsentinel''"

definition TOOL_NAME :: string where
  "TOOL_NAME = ''secure-capstone''"

definition TOOL_VERSION :: string where
  "TOOL_VERSION = ''2.0''"

definition SCHEMA_VERSION :: string where
  "SCHEMA_VERSION = ''1.5''"

fun vex_purl :: "string \<Rightarrow> ecosystem \<Rightarrow> string \<Rightarrow> string" where
  "vex_purl pkg PYPI version = ''pkg:pypi/'' @ pkg @ ''@'' @ version"
| "vex_purl pkg NPM version = ''pkg:npm/'' @ pkg @ ''@'' @ version"

fun severity_to_cdx :: "severity \<Rightarrow> string" where
  "severity_to_cdx SevHIGH = ''high''"
| "severity_to_cdx SevMEDIUM = ''medium''"
| "severity_to_cdx SevLOW = ''low''"

definition verdict_to_state :: "verdict \<Rightarrow> string" where
  "verdict_to_state v =
     (case map_of [(MALICIOUS, ''exploitable''), (HIGH_RISK, ''exploitable''), (SUSPICIOUS, ''in_triage''),
                   (CLEAN, ''not_affected''), (ERROR, ''in_triage''), (CANNOT_ANALYZE, ''in_triage'')] v of
        None \<Rightarrow> ''in_triage'' | Some s \<Rightarrow> s)"

fun llm_to_state :: "llm_verdict \<Rightarrow> string" where
  "llm_to_state LlmMALICIOUS = ''exploitable''"
| "llm_to_state LlmSUSPICIOUS = ''in_triage''"
| "llm_to_state LlmBENIGN = ''not_affected''"

definition vuln_ref :: "evidence \<Rightarrow> string" where
  "vuln_ref e = ''vuln-'' @ ev_ttp_id e @ ''-'' @ ev_file_path e @ ''-'' @ show_int (ev_line_start e)"

definition vuln_score :: "evidence \<Rightarrow> rat" where
  "vuln_score e = round2 (min 1 (max 0 (ev_confidence e)) * 10)"

definition prop_entry :: "string \<Rightarrow> string \<Rightarrow> pyval" where
  "prop_entry name val = PDict [(''name'', PStr name), (''value'', PStr val)]"

definition evidence_to_vuln :: "(rat \<Rightarrow> string) \<Rightarrow> evidence \<Rightarrow> string \<Rightarrow> string \<Rightarrow> pydict" where
  "evidence_to_vuln show_float e pkg_purl overall_state =
     (let state = llm_to_state (ev_llm_verdict e);
          rating = PDict [(''method'', PStr ''other''),
                          (''severity'', PStr (severity_to_cdx (ev_ttp_severity e))),
                          (''score'', PFloat (vuln_score e))]
      in [(''bom-ref'', PStr (vuln_ref e)),
          (''id'', PStr (ev_ttp_id e)),
          (''source'', PDict [(''name'', PStr (ttp_source_value (ev_ttp_source e))), (''url'', PStr (ev_ttp_url e))]),
          (''ratings'', PList [rating]),
          (''description'', PStr (ev_ttp_name e)),
          (''detail'', PStr (take 1500 (ev_llm_reasoning e))),
          (''affects'', PList [PDict [(''ref'', PStr pkg_purl)]]),
          (''analysis'', PDict
            [(''state'', PStr state),
             (''justification'', PStr ''code_analysis''),
             (''detail'', PStr (take 2000
                (''file='' @ ev_file_path e @ '' L'' @ show_int (ev_line_start e) @ ''-'' @ show_int (ev_line_end e)
                 @ ''; sequence='' @ py_join '' -> '' (take 6 (ev_behavior_sequence e))))),
             (''response'', pstrs (if state = ''exploitable'' then [''update'', ''rollback''] else []))]),
          (''properties'', PList
            [prop_entry ''ai-slopsq:vector_similarity'' (show_float (round3 (ev_vector_similarity e))),
             prop_entry ''ai-slopsq:confidence'' (show_float (round3 (ev_confidence e))),
             prop_entry ''ai-slopsq:llm_model'' (ev_llm_model e),
             prop_entry ''ai-slopsq:llm_verdict'' (llm_verdict_value (ev_llm_verdict e))])])"

text \<open>What the pipeline stored of the scorecard, SLSA and SSDF stages; each is asked for its fields.\<close>

definition scorecard_prop :: "(rat \<Rightarrow> string) \<Rightarrow> pydict \<Rightarrow> pyexn + pyval list" where
  "scorecard_prop show_float pm =
     (case map_of pm ''scorecard'' of
        None \<Rightarrow> Inr []
      | Some v \<Rightarrow> bindE (attr_dict ''get'' v) (\<lambda>d.
          if dget d ''overall_score'' = PNone then Inr []
          else Inr [prop_entry ''ai-slopsq:scorecard_score'' (pv_str show_float (dget d ''overall_score''))]))"

definition slsa_prop :: "pydict \<Rightarrow> pyexn + pyval list" where
  "slsa_prop pm =
     (case map_of pm ''slsa'' of
        None \<Rightarrow> Inr []
      | Some v \<Rightarrow> bindE (attr_dict ''get'' v) (\<lambda>d.
          Inr [PDict [(''name'', PStr ''ai-slopsq:slsa_level''),
                      (''value'', d_get d ''level'' (PStr ''UNKNOWN''))]]))"

fun pv_len :: "pyval \<Rightarrow> pyexn + nat" where
  "pv_len (PStr s) = Inr (length s)"
| "pv_len (PList xs) = Inr (length xs)"
| "pv_len (PDict d) = Inr (length d)"
| "pv_len v = Inl (TypeError ''object has no len()'')"

definition ssdf_prop :: "(rat \<Rightarrow> string) \<Rightarrow> pydict \<Rightarrow> pyexn + pyval list" where
  "ssdf_prop show_float pm =
     (case map_of pm ''ssdf'' of
        None \<Rightarrow> Inr []
      | Some v \<Rightarrow> bindE (attr_dict ''get'' v) (\<lambda>d.
          bindE (pv_len (d_get d ''checks'' (PList []))) (\<lambda>n.
            Inr [prop_entry ''ai-slopsq:ssdf_pass''
                   (pv_str show_float (d_get d ''pass'' (PInt 0)) @ ''/'' @ show_nat n)])))"

definition vex_properties :: "(rat \<Rightarrow> string) \<Rightarrow> analysis_report \<Rightarrow> pyexn + pyval list" where
  "vex_properties show_float r =
     (let pm = ar_package_meta r in
      bindE (scorecard_prop show_float pm) (\<lambda>sc.
      bindE (slsa_prop pm) (\<lambda>sl.
      bindE (ssdf_prop show_float pm) (\<lambda>sd.
        Inr ([prop_entry ''ai-slopsq:verdict'' (verdict_value (ar_verdict r)),
              prop_entry ''ai-slopsq:source_files'' (pv_str show_float (d_get pm ''source_files'' (PInt 0))),
              prop_entry ''ai-slopsq:archive_size'' (pv_str show_float (d_get pm ''archive_size'' (PInt 0)))]
             @ sc @ sl @ sd)))))"

definition vulnerabilities :: "(rat \<Rightarrow> string) \<Rightarrow> analysis_report \<Rightarrow> pydict list" where
  "vulnerabilities show_float r =
     (let pkg_purl = vex_purl (ar_package r) (ar_ecosystem r) (ar_version r);
          overall_state = verdict_to_state (ar_verdict r)
      in map (\<lambda>e. evidence_to_vuln show_float e pkg_purl overall_state) (ar_evidence r))"

definition to_cyclonedx :: "(rat \<Rightarrow> string) \<Rightarrow> string \<Rightarrow> analysis_report \<Rightarrow> pyexn + pydict" where
  "to_cyclonedx show_float uuid4 r =
     bindE (vex_properties show_float r) (\<lambda>properties.
       let pkg_purl = vex_purl (ar_package r) (ar_ecosystem r) (ar_version r);
           component = PDict
             [(''type'', PStr ''library''), (''bom-ref'', PStr pkg_purl), (''name'', PStr (ar_package r)),
              (''version'', PStr (ar_version r)), (''purl'', PStr pkg_purl), (''properties'', PList properties)]
       in Inr
         [(''bomFormat'', PStr ''CycloneDX''),
          (''specVersion'', PStr SCHEMA_VERSION),
          (''serialNumber'', PStr (''urn:uuid:'' @ uuid4)),
          (''version'', PInt 1),
          (''metadata'', PDict
            [(''timestamp'', PStr (ar_analyzed_at r)),
             (''tools'', PList [PDict [(''vendor'', PStr TOOL_VENDOR), (''name'', PStr TOOL_NAME),
                                       (''version'', PStr TOOL_VERSION)]]),
             (''component'', component)]),
          (''components'', PList [component]),
          (''vulnerabilities'', PList (map PDict (vulnerabilities show_float r)))])"

subsection \<open>Text\<close>

definition rule_line :: string where
  "rule_line = replicate 70 (CHR ''='')"

definition show_value :: "(rat \<Rightarrow> string) \<Rightarrow> string \<times> pyval \<Rightarrow> string" where
  "show_value show_float kv = fst kv @ ''='' @ pv_str show_float (snd kv)"

definition stage_line :: "(rat \<Rightarrow> string) \<Rightarrow> stage_result \<Rightarrow> string" where
  "stage_line show_float s =
     (let mark = (if sr_success s then ''OK'' else ''FAIL'');
          err = (if truthy_opt (sr_error s) then '' -- error: '' @ or_else (sr_error s) [] else []);
          payload = (if sr_payload s \<noteq> []
             then ''  '' @ py_join '', '' (map (show_value show_float) (take 3 (sr_payload s))) else [])
      in ''  ['' @ mark @ ''] '' @ sr_stage s @ payload @ err)"

definition evidence_lines :: "nat \<Rightarrow> evidence \<Rightarrow> string list" where
  "evidence_lines i e =
     [newline @ ''-- Evidence #'' @ show_nat i @ '' --'',
      ''  File     : '' @ ev_file_path e @ '' (L'' @ show_int (ev_line_start e) @ ''-''
        @ show_int (ev_line_end e) @ '')'',
      ''  Sequence : '' @ py_join '' -> '' (take 6 (ev_behavior_sequence e)),
      ''  Dims     : '' @ py_join '', '' (map dimension_value (ev_attack_dimensions e)),
      ''  TTP      : '' @ ev_ttp_id e @ '' -- '' @ ev_ttp_name e,
      ''             ('' @ ttp_source_value (ev_ttp_source e) @ '', severity ''
        @ severity_value (ev_ttp_severity e) @ '', sim '' @ fmt_2f (ev_vector_similarity e) @ '')'']
     @ (if ev_ttp_url e \<noteq> [] then [''             '' @ ev_ttp_url e] else [])
     @ [''  LLM      : ['' @ llm_verdict_value (ev_llm_verdict e) @ ''] '' @ take 200 (ev_llm_reasoning e)]
     @ (case ev_version_diff e of None \<Rightarrow> []
        | Some d \<Rightarrow> [''  VerDiff  : '' @ severity_value (vd_risk d) @ '' -- '' @ take 120 (vd_details d)])
     @ [''  Conf     : '' @ fmt_2f (ev_confidence e)]"

text \<open>The report's \<^verbatim>\<open>package_meta\<close> is changed on the way.\<close>

definition noisy :: "analysis_report \<Rightarrow> bool" where
  "noisy r = (ar_verdict r = CLEAN \<and> ar_evidence r \<noteq> [])"

definition format_report :: "(rat \<Rightarrow> string) \<Rightarrow> analysis_report \<Rightarrow> string \<times> analysis_report" where
  "format_report show_float r =
     (let n = length (ar_evidence r);
          verdict_str = verdict_value (ar_verdict r)
            @ (if noisy r then ''  (noisy: '' @ show_nat n @ '' weak evidence)'' else []);
          r' = (if noisy r
                then r\<lparr>ar_package_meta := dict_setdefault ''clean_with_noise'' (PBool True) (ar_package_meta r)\<rparr>
                else r)
      in (py_join newline
            ([rule_line,
              ''Package   : '' @ ar_package r @ '' '' @ ar_version r @ '' ('' @ ecosystem_value (ar_ecosystem r) @ '')'',
              ''Analyzed  : '' @ ar_analyzed_at r,
              ''Verdict   : '' @ verdict_str,
              rule_line,
              newline @ ''[Stage Results]'']
             @ map (stage_line show_float) (ar_stage_results r)
             @ (if ar_evidence r \<noteq> []
                then (newline @ ''[Evidence ('' @ show_nat n @ '')]'')
                  # concat (map (\<lambda>(i, e). evidence_lines i e) (zip [1..<n + 1] (ar_evidence r)))
                else [newline @ ''[Evidence] (none -- package appears clean)''])),
          r'))"

subsection \<open>What the documents say\<close>

definition vuln_state :: "pydict \<Rightarrow> pyexn + string" where
  "vuln_state v = bindE (bindE (d_item v ''analysis'') as_dict) (\<lambda>a. bindE (d_item a ''state'') as_str)"

lemma vuln_state_of:
  "vuln_state (evidence_to_vuln sf e p st) = Inr (llm_to_state (ev_llm_verdict e))"
  by (simp add: vuln_state_def evidence_to_vuln_def Let_def)

text \<open>A rating stays on the scale of the format.\<close>

lemma round_half_even_bounds:
  assumes "of_int a \<le> x" and "x \<le> of_int b"
  shows "a \<le> round_half_even x \<and> round_half_even x \<le> b"
proof -
  have lo: "a \<le> floor x" using assms(1) by (simp add: le_floor_iff)
  have up: "floor x \<le> b" using assms(2) by linarith
  have top: "floor x < b" if "x - of_int (floor x) > 0"
  proof -
    have "of_int (floor x) < (of_int b :: rat)" using that assms(2) by linarith
    then show ?thesis by simp
  qed
  show ?thesis
    using lo up top by (auto simp: round_half_even_def Let_def)
qed

lemma vuln_score_bounds: "0 \<le> vuln_score e \<and> vuln_score e \<le> 10"
proof -
  let ?x = "min 1 (max 0 (ev_confidence e)) * 10 * 100"
  have "(of_int 0 :: rat) \<le> ?x" "?x \<le> of_int 1000" by (auto simp: min_def max_def)
  from round_half_even_bounds [OF this] show ?thesis
    by (simp add: vuln_score_def round2_def)
qed

text \<open>In a CycloneDX document the state of a vulnerability is that of its evidence's reviewer verdict alone:
  two reports that differ in their verdict, whether MALICIOUS or CLEAN, have the same vulnerabilities, one for
  each evidence in order.\<close>
theorem vex_ignores_verdict:
  assumes "to_cyclonedx show_float uuid r = Inr bom"
  shows "map_of bom ''vulnerabilities'' = Some (PList (map PDict (vulnerabilities show_float (r\<lparr>ar_verdict := v\<rparr>))))
    \<and> map vuln_state (vulnerabilities show_float r) = map (\<lambda>e. Inr (llm_to_state (ev_llm_verdict e))) (ar_evidence r)"
proof -
  have "vulnerabilities show_float (r\<lparr>ar_verdict := v\<rparr>) = vulnerabilities show_float r"
    by (simp add: vulnerabilities_def Let_def evidence_to_vuln_def)
  moreover have "map vuln_state (vulnerabilities show_float r) = map (\<lambda>e. Inr (llm_to_state (ev_llm_verdict e))) (ar_evidence r)"
    by (simp add: vulnerabilities_def Let_def vuln_state_of comp_def)
  moreover have "map_of bom ''vulnerabilities'' = Some (PList (map PDict (vulnerabilities show_float r)))"
    using assms by (auto simp: to_cyclonedx_def bindE_Inr_iff Let_def)
  ultimately show ?thesis by simp
qed

lemma format_keeps_judgment:
  "ar_verdict (snd (format_report sf r)) = ar_verdict r \<and> ar_evidence (snd (format_report sf r)) = ar_evidence r"
  by (simp add: format_report_def Let_def)

text \<open>A MALICIOUS report whose only evidence the reviewer called benign.\<close>

definition cleared_report :: analysis_report where
  "cleared_report = (empty_report ''2026-01-01'' ''p'' PYPI ''1.0'')\<lparr>ar_verdict := MALICIOUS,
     ar_evidence := [(mitre_evidence ''p/setup.py'')\<lparr>ev_llm_verdict := LlmBENIGN\<rparr>]\<rparr>"

theorem vex_ignores_verdict_witness:
  "\<exists>bom. to_cyclonedx (\<lambda>x. []) ''u'' cleared_report = Inr bom
     \<and> map_of bom ''vulnerabilities'' =
         Some (PList (map PDict (vulnerabilities (\<lambda>x. []) (cleared_report\<lparr>ar_verdict := CLEAN\<rparr>))))
     \<and> map vuln_state (vulnerabilities (\<lambda>x. []) cleared_report) = [Inr ''not_affected'']"
proof -
  obtain bom where "to_cyclonedx (\<lambda>x. []) ''u'' cleared_report = Inr bom"
    by (simp add: to_cyclonedx_def vex_properties_def scorecard_prop_def slsa_prop_def ssdf_prop_def
        cleared_report_def empty_report_def Let_def)
  from vex_ignores_verdict [OF this, of CLEAN] this show ?thesis
    by (auto simp: cleared_report_def empty_report_def)
qed

end
