(* ===== verification/StixSink.thy ===== *)
theory StixSink
  imports RuntimeExtract StringAnalysis Worker
begin

text \<open>
  \<^verbatim>\<open>realtime/sinks/stix_sink.py\<close> and \<^verbatim>\<open>taxii_sink.py\<close>: a report as a STIX 2.1 bundle, written to a
  directory and pushed to a TAXII collection. A report is the dictionary of \<^verbatim>\<open>report_to_serializable\<close>, read
  field by field; a field of another type than the report's is a \<open>TypeError\<close>. UUIDs, the clock, SHA-256,
  \<^verbatim>\<open>json.dumps\<close>, the file system and HTTP are parameters; the clock is read once for every time stamp, and
  the number of the reading is its argument.
\<close>

subsection \<open>The environment\<close>

datatype taxii_answer = TaxiiResponse int string | TaxiiHttpError int string | TaxiiUrlError string | TaxiiFailure pyexn

record http_post =
  hp_url :: string
  hp_headers :: "(string \<times> string) list"
  hp_body :: string
  hp_timeout :: int

record sink_env =
  sv_uuid5 :: "string \<Rightarrow> string"
  sv_uuid4 :: string
  sv_now :: "nat \<Rightarrow> string"
  sv_sha256 :: "string \<Rightarrow> string"
  sv_dumps :: "pyval \<Rightarrow> string"
  sv_loads :: "string \<Rightarrow> pyexn + pyval"
  sv_decode :: "string \<Rightarrow> string"
  sv_makedirs :: "string \<Rightarrow> pyexn option"
  sv_write :: "string \<Rightarrow> string \<Rightarrow> pyexn option"
  sv_post :: "http_post \<Rightarrow> taxii_answer"

definition rget :: "pydict \<Rightarrow> string \<Rightarrow> string \<Rightarrow> pyexn + string" where
  "rget d k dflt = as_str (d_get d k (PStr dflt))"

text \<open>\<^verbatim>\<open>os.makedirs\<close> and one written file; the path and body of the file are the second component.\<close>

type_synonym files = "(string \<times> string) list"

definition path_join :: "string \<Rightarrow> string \<Rightarrow> string" where
  "path_join dir f = (if startswith f ''/'' then f else if dir = [] \<or> endswith dir ''/'' then dir @ f
     else dir @ ''/'' @ f)"

definition write_file :: "sink_env \<Rightarrow> string \<Rightarrow> string \<Rightarrow> (pyexn + unit) \<times> files" where
  "write_file env path body =
     (case sv_write env path body of Some e \<Rightarrow> (Inl e, []) | None \<Rightarrow> (Inr (), [(path, body)]))"

definition with_dir :: "sink_env \<Rightarrow> string \<Rightarrow> (pyexn + 'a) \<times> files \<Rightarrow> (pyexn + 'a) \<times> files" where
  "with_dir env dir act = (case sv_makedirs env dir of Some e \<Rightarrow> (Inl e, []) | None \<Rightarrow> act)"

definition thenW :: "(pyexn + 'a) \<times> files \<Rightarrow> ('a \<Rightarrow> (pyexn + 'b) \<times> files) \<Rightarrow> (pyexn + 'b) \<times> files" where
  "thenW r f = (case r of (Inl e, w) \<Rightarrow> (Inl e, w) | (Inr x, w) \<Rightarrow> (case f x of (y, w') \<Rightarrow> (y, w @ w')))"

subsection \<open>Objects\<close>

definition TOOL_ID :: "sink_env \<Rightarrow> string" where
  "TOOL_ID env = ''identity--'' @ sv_uuid5 env ''ai-slopsq-detector''"

definition new_id :: "sink_env \<Rightarrow> string \<Rightarrow> string list \<Rightarrow> string" where
  "new_id env pre parts = pre @ ''--'' @ sv_uuid5 env (py_join ''|'' parts)"

definition stix_purl :: "string \<Rightarrow> string \<Rightarrow> string \<Rightarrow> string" where
  "stix_purl eco name version =
     (if eco = ''PyPI'' then ''pkg:pypi/'' @ name @ ''@'' @ version
      else if eco = ''npm'' then ''pkg:npm/'' @ name @ ''@'' @ version
      else ''pkg:generic/'' @ name @ ''@'' @ version)"

definition squote :: "string \<Rightarrow> string" where
  "squote s = [CHR 0x27] @ s @ [CHR 0x27]"

definition build_pattern :: "pydict \<Rightarrow> pyexn + string" where
  "build_pattern report =
     bindE (rget report ''package'' ''?'') (\<lambda>pkg.
     bindE (rget report ''version'' ''?'') (\<lambda>ver.
     bindE (rget report ''ecosystem'' ''?'') (\<lambda>eco.
       Inr (''[software:name = '' @ squote pkg @ '' AND ''
            @ ''software:version = '' @ squote ver @ '' AND ''
            @ ''software:vendor = '' @ squote eco @ '']''))))"

definition verdict_to_label :: "string \<Rightarrow> string list" where
  "verdict_to_label v =
     (case map_of [(''MALICIOUS'', [''malicious-activity'', ''supply-chain-compromise'']),
                   (''HIGH_RISK'', [''malicious-activity'']),
                   (''SUSPICIOUS'', [''anomalous-activity'']),
                   (''CLEAN'', [''benign''])] v of
        None \<Rightarrow> [''anomalous-activity''] | Some ls \<Rightarrow> ls)"

definition identity_object :: "sink_env \<Rightarrow> pydict" where
  "identity_object env =
     [(''type'', PStr ''identity''),
      (''spec_version'', PStr ''2.1''),
      (''id'', PStr (TOOL_ID env)),
      (''created'', PStr ''2026-01-01T00:00:00.000Z''),
      (''modified'', PStr (sv_now env 0)),
      (''name'', PStr ''pkgsentinel''),
      (''identity_class'', PStr ''system''),
      (''sectors'', pstrs [''technology'']),
      (''description'', PStr ''pkgsentinel supply-chain detector'')]"

definition software_object :: "sink_env \<Rightarrow> string \<Rightarrow> string \<Rightarrow> string \<Rightarrow> pydict" where
  "software_object env pkg ver eco =
     [(''type'', PStr ''software''),
      (''spec_version'', PStr ''2.1''),
      (''id'', PStr (new_id env ''software'' [eco, pkg, ver])),
      (''name'', PStr pkg),
      (''version'', PStr ver),
      (''vendor'', PStr eco),
      (''extensions'', PDict [(''extension-definition--agentic-purl'', PDict
         [(''extension_type'', PStr ''property-extension''), (''purl'', PStr (stix_purl eco pkg ver))])])]"

definition kill_chain :: "string \<Rightarrow> pyval" where
  "kill_chain phase = PDict [(''kill_chain_name'', PStr ''mitre-attack''), (''phase_name'', PStr phase)]"

definition malware_object :: "sink_env \<Rightarrow> string \<Rightarrow> string \<Rightarrow> string \<Rightarrow> string \<Rightarrow> pydict option" where
  "malware_object env pkg ver eco verdict =
     (if verdict \<notin> {''MALICIOUS'', ''HIGH_RISK''} then None
      else Some
        [(''type'', PStr ''malware''),
         (''spec_version'', PStr ''2.1''),
         (''id'', PStr (new_id env ''malware'' [eco, pkg, ver])),
         (''created_by_ref'', PStr (TOOL_ID env)),
         (''created'', PStr (sv_now env 6)),
         (''modified'', PStr (sv_now env 7)),
         (''name'', PStr (eco @ ''/'' @ pkg @ ''@'' @ ver)),
         (''malware_types'', pstrs [''trojan'', ''backdoor'']),
         (''is_family'', PBool False),
         (''kill_chain_phases'', PList [kill_chain ''initial-access'', kill_chain ''execution''])])"

text \<open>The evidence cited is the first one with the highest confidence.\<close>

definition evidence_dicts :: "pydict \<Rightarrow> pyexn + pydict list" where
  "evidence_dicts report =
     bindE (py_list (py_or (d_get report ''evidence'' (PList [])) (PList []))) (mapE (attr_dict ''get''))"

definition confidence_of :: "pydict \<Rightarrow> pyexn + rat" where
  "confidence_of e = as_float (d_get e ''confidence'' (PInt 0))"

definition top_evidence :: "pydict list \<Rightarrow> pyexn + pydict" where
  "top_evidence evs =
     bindE (mapE (\<lambda>e. bindE (confidence_of e) (\<lambda>c. Inr (c, e))) evs) (\<lambda>scored.
       Inr (case scored of [] \<Rightarrow> [] | s # ss \<Rightarrow> snd (first_max_by fst s ss)))"

definition description_of :: "pydict \<Rightarrow> pydict \<Rightarrow> pyexn + pyval" where
  "description_of top_ev report =
     (if py_truth (d_get top_ev ''llm_reasoning'' (PStr [])) then Inr (dget top_ev ''llm_reasoning'')
      else bindE (attr_dict ''get'' (d_get report ''package_meta'' (PDict []))) (\<lambda>pm.
        Inr (d_get pm ''advisory_summary'' (PStr []))))"

definition indicator_object :: "sink_env \<Rightarrow> pydict \<Rightarrow> pyexn + pydict" where
  "indicator_object env report =
     bindE (rget report ''package'' ''?'') (\<lambda>pkg.
     bindE (rget report ''version'' ''?'') (\<lambda>ver.
     bindE (rget report ''ecosystem'' ''?'') (\<lambda>eco.
     bindE (rget report ''verdict'' ''ERROR'') (\<lambda>verdict.
     bindE (evidence_dicts report) (\<lambda>evs.
     bindE (top_evidence evs) (\<lambda>top_ev.
     bindE (rget top_ev ''ttp_id'' ''T1195.002'') (\<lambda>ttp.
     bindE (description_of top_ev report) (\<lambda>descr.
     bindE (build_pattern report) (\<lambda>pattern.
       Inr
         [(''type'', PStr ''indicator''),
          (''spec_version'', PStr ''2.1''),
          (''id'', PStr (new_id env ''indicator'' [eco, pkg, ver, verdict])),
          (''created_by_ref'', PStr (TOOL_ID env)),
          (''created'', PStr (sv_now env 1)),
          (''modified'', PStr (sv_now env 2)),
          (''name'', PStr (verdict @ '': '' @ eco @ ''/'' @ pkg @ ''@'' @ ver)),
          (''description'', descr),
          (''indicator_types'', pstrs (verdict_to_label verdict)),
          (''pattern'', PStr pattern),
          (''pattern_type'', PStr ''stix''),
          (''valid_from'', PStr (sv_now env 3)),
          (''kill_chain_phases'', PList [kill_chain ''initial-access'']),
          (''labels'', pstrs (verdict_to_label verdict)),
          (''external_references'', PList
            [PDict [(''source_name'', PStr ''mitre-attack''),
                    (''external_id'', PStr (last (split_on (CHR ''/'') ttp))),
                    (''url'', d_get top_ev ''ttp_url'' (PStr []))],
             PDict [(''source_name'', PStr ''purl''), (''external_id'', PStr (stix_purl eco pkg ver))]]),
          (''x_agentic_verdict'', PStr verdict),
          (''x_agentic_confidence'', d_get top_ev ''confidence'' (PFloat 0)),
          (''x_agentic_evidence_count'', PInt (int (length evs)))])))))))))"

definition relationship :: "sink_env \<Rightarrow> nat \<Rightarrow> string \<Rightarrow> string \<Rightarrow> string \<Rightarrow> pydict" where
  "relationship env k source target rtype =
     [(''type'', PStr ''relationship''),
      (''spec_version'', PStr ''2.1''),
      (''id'', PStr (new_id env ''relationship'' [source, target, rtype])),
      (''created_by_ref'', PStr (TOOL_ID env)),
      (''created'', PStr (sv_now env k)),
      (''modified'', PStr (sv_now env (k + 1))),
      (''relationship_type'', PStr rtype),
      (''source_ref'', PStr source),
      (''target_ref'', PStr target)]"

definition id_of :: "pydict \<Rightarrow> string" where
  "id_of obj = (case dget obj ''id'' of PStr s \<Rightarrow> s | _ \<Rightarrow> [])"

definition stix_objects :: "sink_env \<Rightarrow> pydict \<Rightarrow> pyexn + pydict list" where
  "stix_objects env report =
     bindE (rget report ''package'' ''?'') (\<lambda>pkg.
     bindE (rget report ''version'' ''?'') (\<lambda>ver.
     bindE (rget report ''ecosystem'' ''?'') (\<lambda>eco.
     bindE (rget report ''verdict'' ''ERROR'') (\<lambda>verdict.
     let sw = software_object env pkg ver eco in
     bindE (indicator_object env report) (\<lambda>indic.
       Inr ([identity_object env, sw, indic, relationship env 4 (id_of indic) (id_of sw) ''indicates'']
            @ (case malware_object env pkg ver eco verdict of
                 None \<Rightarrow> []
               | Some mal \<Rightarrow> [mal, relationship env 8 (id_of indic) (id_of mal) ''indicates'',
                              relationship env 10 (id_of mal) (id_of sw) ''uses''])))))))"

definition to_stix_bundle :: "sink_env \<Rightarrow> pydict \<Rightarrow> pyexn + pydict" where
  "to_stix_bundle env report =
     bindE (stix_objects env report) (\<lambda>objects.
       Inr [(''type'', PStr ''bundle''),
            (''id'', PStr (''bundle--'' @ sv_uuid4 env)),
            (''objects'', PList (map PDict objects))])"

subsection \<open>TAXII\<close>

record taxii_sink =
  tx_collection_objects_url :: "string option"
  tx_api_root_url :: "string option"
  tx_collection_id :: "string option"
  tx_basic_user :: "string option"
  tx_basic_pass :: "string option"
  tx_bearer_token :: "string option"
  tx_timeout :: int
  tx_user_agent :: string
  tx_extra_headers :: "(string \<times> string) list"

definition endpoint :: "taxii_sink \<Rightarrow> pyexn + string" where
  "endpoint tx =
     (if truthy_opt (tx_collection_objects_url tx)
      then Inr (rstrip_chars ''/'' (or_else (tx_collection_objects_url tx) []) @ ''/'')
      else if truthy_opt (tx_api_root_url tx) \<and> truthy_opt (tx_collection_id tx)
      then Inr (rstrip_chars ''/'' (or_else (tx_api_root_url tx) []) @ ''/collections/''
             @ or_else (tx_collection_id tx) [] @ ''/objects/'')
      else Inl (ValueError (''TaxiiSink requires either collection_objects_url or ''
             @ ''(api_root_url + collection_id)'')))"

definition auth_header :: "taxii_sink \<Rightarrow> string option" where
  "auth_header tx =
     (if truthy_opt (tx_bearer_token tx) then Some (''Bearer '' @ or_else (tx_bearer_token tx) [])
      else (case (tx_basic_user tx, tx_basic_pass tx) of
              (Some u, Some p) \<Rightarrow> Some (''Basic '' @ b64_encode (u @ '':'' @ p))
            | _ \<Rightarrow> None))"

definition to_envelope :: "pydict \<Rightarrow> pydict" where
  "to_envelope bundle = [(''objects'', py_or (dget bundle ''objects'') (PList []))]"

definition taxii_headers :: "taxii_sink \<Rightarrow> (string \<times> string) list" where
  "taxii_headers tx =
     fold (\<lambda>(k, v). AList.update k v) (tx_extra_headers tx)
       ([(''Content-Type'', ''application/taxii+json;version=2.1''),
         (''Accept'', ''application/taxii+json;version=2.1''),
         (''User-Agent'', tx_user_agent tx)]
        @ (case auth_header tx of None \<Rightarrow> [] | Some a \<Rightarrow> [(''Authorization'', a)]))"

definition taxii_result :: "bool \<Rightarrow> pyval \<Rightarrow> string \<Rightarrow> nat \<Rightarrow> pyval \<Rightarrow> pyval \<Rightarrow> pydict" where
  "taxii_result ok code url n status err =
     [(''ok'', PBool ok), (''status_code'', code), (''endpoint'', PStr url), (''object_count'', PInt (int n)),
      (''status'', status), (''error'', err)]"

definition object_count :: "pydict \<Rightarrow> nat" where
  "object_count envelope = (case dget envelope ''objects'' of PList xs \<Rightarrow> length xs | _ \<Rightarrow> 0)"

definition post_bundle :: "sink_env \<Rightarrow> taxii_sink \<Rightarrow> pydict \<Rightarrow> pydict" where
  "post_bundle env tx bundle =
     (case endpoint tx of
        Inl e \<Rightarrow> [(''ok'', PBool False), (''status_code'', PNone), (''endpoint'', PNone), (''object_count'', PInt 0),
                  (''status'', PNone), (''error'', PStr (exn_str e))]
      | Inr url \<Rightarrow>
          let envelope = to_envelope bundle; n = object_count envelope in
          (case sv_post env \<lparr>hp_url = url, hp_headers = taxii_headers tx, hp_body = sv_dumps env (PDict envelope),
                  hp_timeout = tx_timeout tx\<rparr> of
             TaxiiResponse code body \<Rightarrow>
               taxii_result (200 \<le> code \<and> code < 300) (PInt code) url n
                 (if body = [] then PNone
                  else try_else (sv_loads env body) (PDict [(''raw'', PStr (sv_decode env (take 200 body)))])) PNone
           | TaxiiHttpError code body \<Rightarrow>
               taxii_result False (PInt code) url n PNone
                 (PStr (''HTTP '' @ show_int code @ '': '' @ sv_decode env (take 300 body)))
           | TaxiiUrlError msg \<Rightarrow> taxii_result False PNone url n PNone (PStr (''URLError: '' @ msg))
           | TaxiiFailure e \<Rightarrow>
               taxii_result False PNone url n PNone (PStr (exn_name e @ '': '' @ exn_str e))))"

subsection \<open>The sink\<close>

record stix_sink =
  st_out_dir :: "string option"
  st_taxii_url :: "string option"
  st_taxii_user :: "string option"
  st_taxii_pass :: "string option"
  st_taxii_bearer :: "string option"
  st_timeout :: int

definition slash_free :: "string \<Rightarrow> string" where
  "slash_free s = map (\<lambda>c. if c = CHR ''/'' then CHR ''_'' else c) s"

definition stix_file_name :: "pydict \<Rightarrow> string \<Rightarrow> pyexn + string" where
  "stix_file_name report sha =
     bindE (rget report ''package'' ''x'') (\<lambda>pkg.
     bindE (rget report ''ecosystem'' ''x'') (\<lambda>eco.
     bindE (rget report ''version'' ''x'') (\<lambda>ver.
       Inr (slash_free (eco @ ''_'' @ pkg @ ''_'' @ ver @ ''_'' @ take 12 sha @ ''.json'')))))"

definition taxii_of :: "stix_sink \<Rightarrow> taxii_sink" where
  "taxii_of st =
     (let bearer = truthy_opt (st_taxii_bearer st) in
      \<lparr>tx_collection_objects_url = st_taxii_url st, tx_api_root_url = None, tx_collection_id = None,
       tx_basic_user = (if bearer then None else st_taxii_user st),
       tx_basic_pass = (if bearer then None else st_taxii_pass st),
       tx_bearer_token = st_taxii_bearer st, tx_timeout = st_timeout st,
       tx_user_agent = ''ai-slopsq-taxii/1.0'', tx_extra_headers = []\<rparr>)"

definition taxii_outcome :: "pydict \<Rightarrow> pydict \<Rightarrow> pydict" where
  "taxii_outcome tx result =
     (let result = AList.update ''taxii_status'' (dget tx ''status_code'') result;
          result = (if \<not> py_truth (dget tx ''ok'') \<and> py_truth (dget tx ''error'')
                    then AList.update ''taxii_error'' (dget tx ''error'') result else result)
      in if py_truth (dget tx ''status'') then AList.update ''taxii_response'' (dget tx ''status'') result else result)"

definition stix_emit :: "sink_env \<Rightarrow> stix_sink \<Rightarrow> pydict \<Rightarrow> (pyexn + pydict) \<times> files" where
  "stix_emit env st report =
     thenW (to_stix_bundle env report, []) (\<lambda>bundle.
       let body = sv_dumps env (PDict bundle); sha = sv_sha256 env body; result = [(''sha256'', PStr sha)] in
       thenW
         (if truthy_opt (st_out_dir st)
          then let dir = or_else (st_out_dir st) [] in
               with_dir env dir
                 (thenW (stix_file_name report sha, []) (\<lambda>fname.
                   let path = path_join dir fname in
                   thenW (write_file env path body) (\<lambda>u. (Inr (AList.update ''file'' (PStr path) result), []))))
          else (Inr result, []))
         (\<lambda>result.
           (Inr (if truthy_opt (st_taxii_url st)
                 then taxii_outcome (post_bundle env (taxii_of st) bundle) result else result), [])))"

subsection \<open>Bundles\<close>

definition ref_keys :: "string list" where
  "ref_keys = [''created_by_ref'', ''source_ref'', ''target_ref'']"

definition refs_in :: "pydict \<Rightarrow> string set" where
  "refs_in ob = {s. list_ex (\<lambda>k. map_of ob k = Some (PStr s)) ref_keys}"

definition refs_of :: "pydict list \<Rightarrow> string set" where
  "refs_of objs = (\<Union>ob\<in>set objs. refs_in ob)"

definition type_in :: "pydict \<Rightarrow> string" where
  "type_in ob = (case dget ob ''type'' of PStr s \<Rightarrow> s | _ \<Rightarrow> [])"

definition types_of :: "pydict list \<Rightarrow> string list" where
  "types_of objs = map type_in objs"

lemma id_simps [simp]:
  "id_of (identity_object env) = TOOL_ID env"
  "id_of (software_object env pkg ver eco) = new_id env ''software'' [eco, pkg, ver]"
  "id_of (relationship env k a b t) = new_id env ''relationship'' [a, b, t]"
  by (simp_all add: id_of_def dget_def identity_object_def software_object_def relationship_def)

lemma refs_simps [simp]:
  "refs_in (identity_object env) = {}"
  "refs_in (software_object env pkg ver eco) = {}"
  "refs_in (relationship env k a b t) = {TOOL_ID env, a, b}"
  by (auto simp: refs_in_def ref_keys_def identity_object_def software_object_def relationship_def)

lemma type_simps [simp]:
  "type_in (identity_object env) = ''identity''"
  "type_in (software_object env pkg ver eco) = ''software''"
  "type_in (relationship env k a b t) = ''relationship''"
  by (simp_all add: type_in_def dget_def identity_object_def software_object_def relationship_def)

lemma indicator_fields:
  assumes "indicator_object env report = Inr indic"
  shows "refs_in indic = {TOOL_ID env}" and "type_in indic = ''indicator''"
  using assms by (auto simp: indicator_object_def bindE_Inr_iff refs_in_def ref_keys_def type_in_def dget_def)

lemma malware_fields:
  assumes "malware_object env pkg ver eco v = Some m"
  shows "refs_in m = {TOOL_ID env}" and "type_in m = ''malware''"
  using assms by (auto simp: malware_object_def refs_in_def ref_keys_def type_in_def dget_def split: if_splits)

lemma malware_iff: "malware_object env pkg ver eco v = None \<longleftrightarrow> v \<notin> {''MALICIOUS'', ''HIGH_RISK''}"
  by (simp add: malware_object_def)

lemma stix_objects_ok:
  assumes "stix_objects env report = Inr objs"
  shows "refs_of objs \<subseteq> id_of ` set objs"
    and "rget report ''verdict'' ''ERROR'' = Inr v \<Longrightarrow>
      ''malware'' \<in> set (types_of objs) \<longleftrightarrow> v \<in> {''MALICIOUS'', ''HIGH_RISK''}"
proof -
  obtain pkg ver eco verdict indic where v: "rget report ''verdict'' ''ERROR'' = Inr verdict"
    and i: "indicator_object env report = Inr indic"
    and objs: "objs = [identity_object env, software_object env pkg ver eco, indic,
        relationship env 4 (id_of indic) (id_of (software_object env pkg ver eco)) ''indicates'']
      @ (case malware_object env pkg ver eco verdict of None \<Rightarrow> []
         | Some mal \<Rightarrow> [mal, relationship env 8 (id_of indic) (id_of mal) ''indicates'',
             relationship env 10 (id_of mal) (id_of (software_object env pkg ver eco)) ''uses''])"
    using assms by (auto simp: stix_objects_def bindE_Inr_iff Let_def)
  note f = indicator_fields [OF i]
  have "refs_of objs \<subseteq> id_of ` set objs
    \<and> (''malware'' \<in> set (types_of objs) \<longleftrightarrow> verdict \<in> {''MALICIOUS'', ''HIGH_RISK''})"
  proof (cases "malware_object env pkg ver eco verdict")
    case None
    then have "verdict \<notin> {''MALICIOUS'', ''HIGH_RISK''}" by (simp only: malware_iff simp_thms)
    then show ?thesis by (simp add: objs None refs_of_def types_of_def f)
  next
    case (Some mal)
    then have "verdict \<in> {''MALICIOUS'', ''HIGH_RISK''}" by (metis malware_iff option.distinct(1))
    then show ?thesis by (simp add: objs Some refs_of_def types_of_def f malware_fields [OF Some])
  qed
  then show "refs_of objs \<subseteq> id_of ` set objs"
    and "rget report ''verdict'' ''ERROR'' = Inr v \<Longrightarrow>
      ''malware'' \<in> set (types_of objs) \<longleftrightarrow> v \<in> {''MALICIOUS'', ''HIGH_RISK''}"
    using v by simp_all
qed

text \<open>The dictionary of a report has every field at its type, so no field makes the sink raise.\<close>

lemma serialized_fields [simp]:
  "rget (report_to_serializable r) ''package'' d = Inr (ar_package r)"
  "rget (report_to_serializable r) ''version'' d = Inr (ar_version r)"
  "rget (report_to_serializable r) ''ecosystem'' d = Inr (ecosystem_value (ar_ecosystem r))"
  "rget (report_to_serializable r) ''verdict'' d = Inr (verdict_value (ar_verdict r))"
  "d_get (report_to_serializable r) ''evidence'' v = PList (map evidence_serializable (ar_evidence r))"
  "d_get (report_to_serializable r) ''package_meta'' v = PDict (ar_package_meta r)"
  by (simp_all add: rget_def report_to_serializable_def)

definition ev_dict :: "evidence \<Rightarrow> pydict" where
  "ev_dict e = (case evidence_serializable e of PDict d \<Rightarrow> d | _ \<Rightarrow> [])"

lemma evidence_dict: "evidence_serializable e = PDict (ev_dict e)"
  by (simp add: ev_dict_def evidence_serializable_def)

lemma ev_dict_fields [simp]:
  "d_get (ev_dict e) ''confidence'' v = PFloat (ev_confidence e)"
  "d_get (ev_dict e) ''ttp_id'' v = PStr (ev_ttp_id e)"
  "d_get (ev_dict e) ''llm_reasoning'' v = PStr (ev_llm_reasoning e)"
  "d_get (ev_dict e) ''code_snippet'' v = PStr (ev_code_snippet e)"
  "ev_dict e \<noteq> []"
  by (simp_all add: ev_dict_def evidence_serializable_def)

lemma serialized_evidence: "evidence_dicts (report_to_serializable r) = Inr (map ev_dict (ar_evidence r))"
proof -
  have "mapE (attr_dict ''get'') (map evidence_serializable es) = Inr (map ev_dict es)" for es
    by (induction es) (simp_all add: evidence_dict attr_dict_def)
  then show ?thesis by (cases "ar_evidence r") (simp_all add: evidence_dicts_def py_or_def evidence_dict attr_dict_def)
qed

lemma top_evidence_of:
  "\<exists>t. top_evidence (map ev_dict es) = Inr t \<and> (es = [] \<longrightarrow> t = []) \<and> (es \<noteq> [] \<longrightarrow> t \<in> ev_dict ` set es)"
proof -
  have m: "mapE (\<lambda>e. bindE (confidence_of e) (\<lambda>c. Inr (c, e))) (map ev_dict es)
      = Inr (map (\<lambda>e. (ev_confidence e, ev_dict e)) es)"
    by (induction es) (simp_all add: confidence_of_def)
  show ?thesis
  proof (cases es)
    case (Cons e rest)
    let ?key = "\<lambda>e. (ev_confidence e, ev_dict e)"
    have "first_max_by fst (?key e) (map ?key rest) \<in> set (?key e # map ?key rest)" by (rule first_max_by_in)
    then have "snd (first_max_by fst (?key e) (map ?key rest)) \<in> ev_dict ` set es" using Cons by auto
    then show ?thesis using Cons m by (simp add: top_evidence_def)
  qed (simp add: top_evidence_def)
qed

text \<open>C16: Every analysis report has a STIX bundle; each reference in it, of a relationship or to a creator, is
  the identifier of an object of the same bundle, and the bundle calls the package malware exactly when the
  verdict is MALICIOUS or HIGH_RISK.\<close>
theorem stix_bundle_sound:
  "\<exists>objs. to_stix_bundle env (report_to_serializable r) =
      Inr [(''type'', PStr ''bundle''), (''id'', PStr (''bundle--'' @ sv_uuid4 env)),
           (''objects'', PList (map PDict objs))]
    \<and> refs_of objs \<subseteq> id_of ` set objs
    \<and> (''malware'' \<in> set (types_of objs)) = (ar_verdict r \<in> {MALICIOUS, HIGH_RISK})"
proof -
  let ?d = "report_to_serializable r"
  obtain t where t: "top_evidence (map ev_dict (ar_evidence r)) = Inr t"
    and t': "t = [] \<or> t \<in> ev_dict ` set (ar_evidence r)"
    using top_evidence_of [of "ar_evidence r"] by (cases "ar_evidence r = []") auto
  have ttp: "\<exists>s. rget t ''ttp_id'' ''T1195.002'' = Inr s" using t' by (auto simp: rget_def)
  have descr: "\<exists>x. description_of t ?d = Inr x"
    by (auto simp: description_of_def attr_dict_def)
  obtain objs where objs: "stix_objects env ?d = Inr objs"
    using ttp descr
    by (auto simp: stix_objects_def indicator_object_def serialized_evidence t build_pattern_def Let_def)
  have v: "verdict_value (ar_verdict r) \<in> {''MALICIOUS'', ''HIGH_RISK''} \<longleftrightarrow> ar_verdict r \<in> {MALICIOUS, HIGH_RISK}"
    by (cases "ar_verdict r") simp_all
  show ?thesis
    using stix_objects_ok(1) [OF objs] stix_objects_ok(2) [OF objs, of "verdict_value (ar_verdict r)"] v
    by (intro exI [of _ objs]) (simp add: to_stix_bundle_def objs)
qed

end
