(* ===== verification/PolicySinks.thy ===== *)
theory PolicySinks
  imports StixSink ApiAuth
begin

text \<open>
  \<^verbatim>\<open>realtime/sinks/pmg_policy.py\<close> and \<^verbatim>\<open>falco_policy.py\<close>: a report as an install policy for the package
  manager guard, and as rules for Falco and Tetragon. The last section gives the worker these sinks.
\<close>

subsection \<open>The package manager guard\<close>

definition VERDICT_ACTION :: "(string \<times> string) list" where
  "VERDICT_ACTION =
     [(''MALICIOUS'', ''deny''),
      (''HIGH_RISK'', ''deny''),
      (''SUSPICIOUS'', ''warn''),
      (''AGENTIC'', ''warn'')]"

definition ecosystem_to_pmg :: "string \<Rightarrow> string" where
  "ecosystem_to_pmg eco =
     (let e = py_lower eco in if e = ''pypi'' then ''pypi'' else if e = ''npm'' then ''npm'' else e)"

definition is_alnum :: "char \<Rightarrow> bool" where
  "is_alnum c = (is_alpha c \<or> is_digit c)"

definition slug :: "string \<Rightarrow> string" where
  "slug s =
     (let s2 = strip_chars ''-''
            (map (\<lambda>ch. if is_alnum ch \<or> ch \<in> set ''-_'' then ch else CHR ''-'') (py_lower s))
      in if s2 = [] then ''x'' else s2)"

text \<open>\<^verbatim>\<open>report.get(k) or d\<close>.\<close>

definition rget_or :: "pydict \<Rightarrow> string \<Rightarrow> string \<Rightarrow> pyexn + string" where
  "rget_or d k dflt = as_str (py_or (dget d k) (PStr dflt))"

definition dq :: "string \<Rightarrow> string" where
  "dq s = ''\"'' @ s @ ''\"''"

definition pmg_summary :: "string \<Rightarrow> string \<Rightarrow> string \<Rightarrow> string \<Rightarrow> pydict \<Rightarrow> pyexn + string" where
  "pmg_summary verdict pkg ver eco report =
     bindE (py_list (py_or (dget report ''evidence'') (PList []))) (\<lambda>evidence.
     bindE (case evidence of
         [] \<Rightarrow> Inr []
       | e # _ \<Rightarrow> bindE (attr_dict ''get'' e) (\<lambda>first.
           bindE (rget_or first ''ttp_id'' []) (\<lambda>ttp.
           bindE (rget_or first ''llm_reasoning'' []) (\<lambda>why.
             let reasoning = take 120 why in
             Inr ((if ttp \<noteq> [] then [''TTP: '' @ ttp] else [])
                  @ (if reasoning \<noteq> [] then [''Reason: '' @ reasoning] else [])))))) (\<lambda>parts.
       Inr (map (\<lambda>c. if c = CHR 0x0A then CHR '' '' else if c = CHR 0x22 then CHR 0x27 else c)
         (py_join '' | '' ([''pkgsentinel verdict='' @ verdict,
                           pkg @ ''@'' @ ver @ '' ('' @ eco @ '')''] @ parts)))))"

definition pmg_cel :: "string \<Rightarrow> string \<Rightarrow> string \<Rightarrow> string" where
  "pmg_cel pkg ver eco =
     (if ver = ''*'' \<or> ver = []
      then ''packages.exists(p, '' @ ''p.name == '' @ dq pkg @ '' && '' @ ''p.ecosystem == '' @ dq eco @ '')''
      else ''packages.exists(p, '' @ ''p.name == '' @ dq pkg @ '' && '' @ ''p.version == '' @ dq ver @ '' && ''
           @ ''p.ecosystem == '' @ dq eco @ '')'')"

definition pmg_lines :: "string \<Rightarrow> string \<Rightarrow> string \<Rightarrow> string \<Rightarrow> string \<Rightarrow> string list" where
  "pmg_lines verdict rule_name summary cel action =
     [''name: pkgsentinel-auto'',
      ''description: '' @ dq (''Auto-generated from pkgsentinel verdict='' @ verdict),
      ''tags:'',
      ''  - auto'',
      ''  - pkgsentinel'',
      ''  - '' @ py_lower verdict,
      ''rules:'',
      ''  - name: '' @ rule_name,
      ''    summary: '' @ dq summary,
      ''    check:'',
      ''      - cel: |'',
      ''          '' @ cel,
      ''    action: '' @ action]"

definition to_pmg_policy :: "pydict \<Rightarrow> pyexn + string option" where
  "to_pmg_policy report =
     bindE (rget_or report ''verdict'' []) (\<lambda>v.
       let verdict = py_upper v in
       case map_of VERDICT_ACTION verdict of
         None \<Rightarrow> Inr None
       | Some action \<Rightarrow>
           bindE (rget_or report ''package'' ''unknown'') (\<lambda>pkg.
           bindE (rget_or report ''version'' ''*'') (\<lambda>ver.
           bindE (rget_or report ''ecosystem'' ''pypi'') (\<lambda>eco0.
           let eco = ecosystem_to_pmg eco0;
               rule_name = take 64 (action @ ''-'' @ slug eco @ ''-'' @ slug pkg @ ''-'' @ slug ver)
           in bindE (pmg_summary verdict pkg ver eco report) (\<lambda>summary.
             Inr (Some (py_join newline (pmg_lines verdict rule_name summary (pmg_cel pkg ver eco) action)
                        @ newline)))))))"

definition pmg_emit :: "sink_env \<Rightarrow> string option \<Rightarrow> (rat \<Rightarrow> string) \<Rightarrow> pydict \<Rightarrow> (pyexn + pydict) \<times> files" where
  "pmg_emit env out_dir show_float report =
     thenW (to_pmg_policy report, []) (\<lambda>policy.
       case policy of
         None \<Rightarrow>
           (Inr [(''ok'', PBool True), (''skipped'', PBool True),
                 (''reason'', PStr (''verdict='' @ pv_str show_float (dget report ''verdict'')
                    @ '' '' @ utf8 [226, 134, 146] @ '' no policy''))], [])
       | Some body \<Rightarrow>
           let sha = sv_sha256 env body;
               result = [(''ok'', PBool True), (''sha256'', PStr sha), (''size'', PInt (int (length body)))]
           in if truthy_opt out_dir
              then let dir = or_else out_dir [] in
                with_dir env dir
                  (thenW (rget report ''package'' ''x'', []) (\<lambda>pkg.
                   thenW (rget report ''ecosystem'' ''x'', []) (\<lambda>eco.
                   thenW (rget report ''version'' ''x'', []) (\<lambda>ver.
                   let path = path_join dir (''pmg-'' @ slug eco @ ''-'' @ slug pkg @ ''-'' @ slug ver @ ''-''
                         @ take 8 sha @ ''.yaml'') in
                   thenW (write_file env path body) (\<lambda>u.
                     (Inr (AList.update ''file'' (PStr path) result), []))))))
              else (Inr result, []))"

subsection \<open>Indicators of a report\<close>

text \<open>A grave accent stands for a single quote.\<close>

definition sq :: "string \<Rightarrow> string" where
  "sq s = map (\<lambda>c. if c = CHR 0x60 then CHR 0x27 else c) s"

record report_iocs =
  ri_domains :: "string list"
  ri_ips :: "string list"
  ri_commands :: "string list"

definition URL_RE :: regex where
  "URL_RE = rxP ''https?://([a-zA-Z0-9.`-]+)(?::`d+)?''"

definition COMMAND_RE :: regex where
  "COMMAND_RE =
     rxP (''(?:^|[`s'' @ [CHR 0x27] @ ''\"])(curl`s+`S+|wget`s+`S+|sh`s+-c`s+`S+|''
          @ ''powershell`s+`S+|/bin/bash`s+`S+)'')"

definition ADVISORY_URL_RE :: regex where
  "ADVISORY_URL_RE = rxP ''https?://([a-zA-Z0-9.`-]+)''"

definition snippet_of :: "pyval \<Rightarrow> pyexn + string" where
  "snippet_of ev = bindE (attr_dict ''get'' ev) (\<lambda>d.
     bindE (re_text (py_or (d_get d ''code_snippet'' (PStr [])) (PStr []))) Inr)"

definition extract_iocs :: "pydict \<Rightarrow> pyexn + report_iocs" where
  "extract_iocs report =
     bindE (attr_dict ''get'' (py_or (dget report ''package_meta'') (PDict []))) (\<lambda>pm.
     bindE (py_list (py_or (d_get report ''evidence'' (PList [])) (PList []))) (\<lambda>evs.
     bindE (mapE snippet_of evs) (\<lambda>snippets.
     bindE (re_text (d_get pm ''advisory_summary'' (PStr []))) (\<lambda>summary.
       Inr \<lparr>ri_domains = sorted_set (concat (map (findall1 URL_RE) snippets) @ findall1 ADVISORY_URL_RE summary),
            ri_ips = [],
            ri_commands = sorted_set (concat (map (\<lambda>s. map (take 200) (findall1 COMMAND_RE s)) snippets))\<rparr>))))"

definition safe_id :: "string list \<Rightarrow> string" where
  "safe_id parts =
     take 60 (map (\<lambda>c. if is_alnum c \<or> c = CHR ''-'' then c else CHR ''-'') (py_lower (py_join ''-'' parts)))"

definition yaml_escape :: "string \<Rightarrow> string" where
  "yaml_escape s = concat (map (\<lambda>c. if c = CHR 0x27 then [c, c] else [c]) s)"

subsection \<open>Falco rules\<close>

text \<open>
  The rule for commands has a fixed condition: of the report's commands only whether there are any matters.
\<close>

definition domain_rules :: "string \<Rightarrow> string \<Rightarrow> string \<Rightarrow> string \<Rightarrow> string \<Rightarrow> string list \<Rightarrow> string list" where
  "domain_rules base pkg eco ver verdict domains =
     (let domains_str = py_join '', '' (map (\<lambda>d. squote (yaml_escape d)) (take 50 domains)) in
      [''- macro: agentic_known_bad_domains_'' @ base,
       ''  condition: >'',
       ''    fd.sip.name in ('' @ domains_str @ '')'',
       [],
       ''- rule: Agentic Outbound to known-bad domain ('' @ pkg @ '')'',
       ''  desc: >'',
       ''    Connection to a domain associated with malicious package ''
         @ eco @ ''/'' @ pkg @ ''@'' @ ver @ '' (verdict='' @ verdict @ '').'',
       ''  condition: >'',
       ''    outbound and agentic_known_bad_domains_'' @ base,
       ''  output: >'',
       ''    Agentic outbound connection to '' @ pkg @ '' IoC domain ''
         @ ''(proc.cmdline=%proc.cmdline fd.name=%fd.name ''
         @ ''container.id=%container.id)'',
       ''  priority: WARNING'',
       ''  tags: [agentic, supply-chain, network]'',
       []])"

definition command_rules :: "string \<Rightarrow> string \<Rightarrow> string \<Rightarrow> string list" where
  "command_rules pkg eco ver =
     [''- rule: Agentic Suspicious exec ('' @ pkg @ '')'',
      ''  desc: >'',
      ''    Execution of command pattern observed in malicious package ''
        @ eco @ ''/'' @ pkg @ ''@'' @ ver @ ''.'',
      ''  condition: >'',
      ''    spawned_process and ''
        @ sq ''(proc.cmdline contains `curl` or proc.cmdline contains `wget` ''
        @ sq ''or proc.cmdline contains `powershell -e` ''
        @ sq ''or proc.cmdline contains `base64 -d`)'',
      ''  output: >'',
      ''    Agentic suspicious exec linked to '' @ pkg @ '' ''
        @ ''(proc.cmdline=%proc.cmdline)'',
      ''  priority: WARNING'',
      ''  tags: [agentic, supply-chain, exec]'',
      []]"

definition falco_lines :: "string \<Rightarrow> string \<Rightarrow> string \<Rightarrow> string \<Rightarrow> report_iocs \<Rightarrow> string list" where
  "falco_lines pkg eco ver verdict iocs =
     [''# Auto-generated by pkgsentinel/2.0'',
      ''# Source: '' @ eco @ ''/'' @ pkg @ ''@'' @ ver @ '' (verdict='' @ verdict @ '')'',
      []]
     @ (if ri_domains iocs \<noteq> []
        then domain_rules (safe_id [''agentic'', eco, pkg, ver]) pkg eco ver verdict (ri_domains iocs) else [])
     @ (if ri_commands iocs \<noteq> [] then command_rules pkg eco ver else [])
     @ (if ri_domains iocs = [] \<and> ri_commands iocs = []
        then [''# No extractable IoCs from this report'',
              ''# (no domains or commands found in evidence/snippets)''] else [])"

definition with_report ::
  "pydict \<Rightarrow> (string \<Rightarrow> string \<Rightarrow> string \<Rightarrow> string \<Rightarrow> report_iocs \<Rightarrow> string list) \<Rightarrow> pyexn + string" where
  "with_report report ls =
     bindE (rget report ''package'' ''?'') (\<lambda>pkg.
     bindE (rget report ''ecosystem'' ''?'') (\<lambda>eco.
     bindE (rget report ''version'' ''?'') (\<lambda>ver.
     bindE (rget report ''verdict'' ''ERROR'') (\<lambda>verdict.
     bindE (extract_iocs report) (\<lambda>iocs.
       Inr (py_join newline (ls pkg eco ver verdict iocs)))))))"

definition to_falco_rules :: "pydict \<Rightarrow> pyexn + string" where
  "to_falco_rules report = with_report report falco_lines"

subsection \<open>Tetragon policies\<close>

definition policy_head :: "string \<Rightarrow> string \<Rightarrow> string \<Rightarrow> string \<Rightarrow> string list" where
  "policy_head pkg eco ver verdict =
     [''apiVersion: cilium.io/v1alpha1'',
      ''kind: TracingPolicy'',
      ''metadata:'',
      ''  name: agentic-'' @ safe_id [''agentic'', eco, pkg, ver],
      ''  labels:'',
      ''    pkgsentinel.io/source: pkgsentinel'',
      ''    pkgsentinel.io/verdict: '' @ verdict,
      ''    pkgsentinel.io/ecosystem: '' @ eco,
      ''    pkgsentinel.io/package: '' @ safe_id [pkg],
      ''  annotations:'',
      ''    pkgsentinel.io/source-ref: '' @ squote (eco @ ''/'' @ pkg @ ''@'' @ ver),
      ''spec:'',
      ''  kprobes:'']"

definition connect_hook :: "string list \<Rightarrow> string list" where
  "connect_hook domains =
     [''  - call: tcp_connect'',
      ''    syscall: false'',
      ''    args:'',
      ''    - index: 0'',
      ''      type: sock'',
      ''    selectors:'',
      ''    - matchArgs:'',
      ''      - index: 0'',
      ''        operator: DAddr'',
      ''        values:'']
     @ map (\<lambda>d. ''        - '' @ d) (take 50 domains)
     @ [''      matchActions:'',
        ''      - action: Sigkill'',
        []]"

definition EXECVE_HOOK :: "string list" where
  "EXECVE_HOOK =
     [''  - call: __x64_sys_execve'',
      ''    syscall: true'',
      ''    args:'',
      ''    - index: 0'',
      ''      type: string'',
      ''    - index: 1'',
      ''      type: charbuf'',
      ''    selectors:'',
      ''    - matchArgs:'',
      ''      - index: 0'',
      ''        operator: Postfix'',
      ''        values:'',
      ''        - /curl'',
      ''        - /wget'',
      ''        - /powershell'',
      ''        - /bash'',
      ''      matchActions:'',
      ''      - action: Sigkill'']"

definition policy_lines :: "string \<Rightarrow> string \<Rightarrow> string \<Rightarrow> string \<Rightarrow> report_iocs \<Rightarrow> string list" where
  "policy_lines pkg eco ver verdict iocs =
     policy_head pkg eco ver verdict
     @ (if ri_domains iocs \<noteq> [] then connect_hook (ri_domains iocs) else [])
     @ EXECVE_HOOK"

definition to_tracing_policy :: "pydict \<Rightarrow> pyexn + string" where
  "to_tracing_policy report = with_report report policy_lines"

subsection \<open>Strict mode\<close>

definition FALCO_TRUSTED_DOMAINS :: "string list" where
  "FALCO_TRUSTED_DOMAINS =
     [''pypi.org'', ''files.pythonhosted.org'',
      ''registry.npmjs.org'',
      ''rubygems.org'', ''crates.io'',
      ''raw.githubusercontent.com'', ''github.com'',
      ''storage.googleapis.com'']"

definition trusted_items :: string where
  "trusted_items = py_join '', '' (map squote FALCO_TRUSTED_DOMAINS)"

definition STRICT_FALCO_LINES :: "string list" where
  "STRICT_FALCO_LINES =
     [''# pkgsentinel '' @ utf8 [226, 128, 148] @ '' Generic strict-mode Falco rules'',
      ''# '' @ utf8 [235, 170, 168, 235, 147, 160] @ '' pip/npm/node-managed '' @ utf8 [237, 148, 132, 235, 161, 156, 236, 132, 184, 236, 138, 164, 236, 151, 144] @ '' '' @ utf8 [236, 160, 129, 236, 154, 169] @ ''. per-package '' @ utf8 [235, 163, 176, 234, 179, 188] @ '' '' @ utf8 [235, 179, 145, 237, 150, 137] @ ''.'',
      ''# '' @ utf8 [236, 182, 156, 235, 160, 165] @ '': /etc/falco/rules.d/pkgsentinel-strict.yaml'',
      [],
      ''- list: pkgsentinel_pkg_processes'',
      ''  items: [pip, pip3, npm, npx, node, yarn, pnpm, setup.py, easy_install]'',
      [],
      ''- list: pkgsentinel_trusted_domains'',
      ''  items: ['' @ trusted_items @ '']'',
      [],
      ''- list: pkgsentinel_cred_paths'',
      ''  items:'',
      ''    - /root/.ssh'',
      ''    - /home'',
      ''    - /Users'',
      ''    - /.aws/credentials'',
      ''    - /.aws/config'',
      ''    - /etc/shadow'',
      ''    - /.npmrc'',
      ''    - /.pypirc'',
      ''    - /.netrc'',
      [],
      ''- macro: pkgsentinel_pkg_proc_ancestor'',
      ''  condition: >'',
      ''    proc.aname[1] in (pkgsentinel_pkg_processes) or'',
      ''    proc.aname[2] in (pkgsentinel_pkg_processes) or'',
      ''    proc.aname[3] in (pkgsentinel_pkg_processes)'',
      [],
      ''- rule: pkgsentinel_strict_cred_access'',
      sq ''  desc: `pkgsentinel: any pip/npm-rooted process accessed credentials`'',
      ''  condition: >'',
      ''    evt.type in (openat, open) and'',
      sq ''    (fd.name pmatch `*/.ssh/*` or'',
      sq ''     fd.name pmatch `*/.aws/credentials` or'',
      sq ''     fd.name pmatch `*/.aws/config` or'',
      ''     fd.name = /etc/shadow or'',
      sq ''     fd.name pmatch `*/.npmrc` or'',
      sq ''     fd.name pmatch `*/.pypirc` or'',
      sq ''     fd.name pmatch `*/.netrc` or'',
      sq ''     fd.name pmatch `*/Library/Application Support/Google/*` or'',
      sq ''     fd.name pmatch `*/AppData/Roaming/Mozilla/*`) and'',
      ''    pkgsentinel_pkg_proc_ancestor'',
      ''  output: >'',
      ''    pkgsentinel STRICT: package install process accessed credentials'',
      ''    (proc=%proc.name file=%fd.name pid=%proc.pid pkg_root=%proc.aname[2])'',
      ''  priority: CRITICAL'',
      ''  tags: [pkgsentinel, supply-chain, credential-access, strict-mode]'',
      [],
      ''- rule: pkgsentinel_strict_external_connect'',
      sq ''  desc: `pkgsentinel: package process connected outside registry CDN`'',
      ''  condition: >'',
      ''    evt.type = connect and'',
      ''    fd.typechar = 4 and'',
      ''    not fd.sip = 127.0.0.1 and'',
      sq ''    not fd.sip startswith `10.` and'',
      sq ''    not fd.sip startswith `172.` and'',
      sq ''    not fd.sip startswith `192.168.` and'',
      sq ''    not fd.sip startswith `169.254.` and'',
      ''    pkgsentinel_pkg_proc_ancestor'',
      ''  output: >'',
      ''    pkgsentinel STRICT: package install process connected external'',
      ''    (dst=%fd.sip:%fd.sport proc=%proc.cmdline pid=%proc.pid)'',
      ''  priority: CRITICAL'',
      ''  tags: [pkgsentinel, supply-chain, network-egress, strict-mode]'',
      [],
      ''- rule: pkgsentinel_strict_shell_in_install'',
      sq ''  desc: `pkgsentinel: shell spawned during package install hook`'',
      ''  condition: >'',
      ''    evt.type = execve and'',
      ''    proc.name in (sh, bash, zsh, dash, pwsh, powershell) and'',
      ''    pkgsentinel_pkg_proc_ancestor'',
      ''  output: >'',
      ''    pkgsentinel STRICT: install hook executed shell'',
      ''    (cmdline=%proc.cmdline pkg_root=%proc.aname[2])'',
      ''  priority: WARNING'',
      ''  tags: [pkgsentinel, supply-chain, install-hook, strict-mode]'',
      [],
      ''- rule: pkgsentinel_strict_persistence_attempt'',
      sq ''  desc: `pkgsentinel: install hook wrote crontab / systemd / launchd`'',
      ''  condition: >'',
      ''    evt.type in (openat, open) and'',
      ''    (evt.is_open_write = true or evt.is_open_create = true) and'',
      sq ''    (fd.name pmatch `*/crontab` or'',
      sq ''     fd.name pmatch `/etc/cron*` or'',
      sq ''     fd.name pmatch `/etc/systemd/system/*` or'',
      sq ''     fd.name pmatch `*/Library/LaunchAgents/*` or'',
      sq ''     fd.name pmatch `*/Library/LaunchDaemons/*` or'',
      sq ''     fd.name pmatch `*/.bashrc` or'',
      sq ''     fd.name pmatch `*/.zshrc`) and'',
      ''    pkgsentinel_pkg_proc_ancestor'',
      ''  output: >'',
      ''    pkgsentinel STRICT: install hook tried persistence'',
      ''    (file=%fd.name proc=%proc.cmdline)'',
      ''  priority: CRITICAL'',
      ''  tags: [pkgsentinel, supply-chain, persistence, strict-mode]'']"


definition generate_strict_mode_falco :: string where
  "generate_strict_mode_falco = py_join newline STRICT_FALCO_LINES @ newline"

definition STRICT_TETRAGON_LINES :: "string list" where
  "STRICT_TETRAGON_LINES =
     [''# pkgsentinel '' @ utf8 [226, 128, 148] @ '' Generic strict-mode Tetragon TracingPolicy'',
      ''# '' @ utf8 [236, 182, 156, 235, 160, 165] @ '': kubectl apply -f - '' @ utf8 [235, 152, 144, 235, 138, 148] @ '' /etc/tetragon/tracing-policies/'',
      [],
      ''apiVersion: cilium.io/v1alpha1'',
      ''kind: TracingPolicy'',
      ''metadata:'',
      ''  name: pkgsentinel-strict-mode'',
      ''  labels:'',
      ''    app: pkgsentinel'',
      ''    mode: strict'',
      ''spec:'',
      ''  kprobes:'',
      ''    # '' @ utf8 [236, 158, 144, 234, 178, 169, 236, 166, 157, 235, 170, 133] @ '' '' @ utf8 [237, 140, 140, 236, 157, 188] @ '' openat '' @ utf8 [226, 134, 146] @ '' Sigkill'',
      sq ''    - call: `sys_openat`'',
      ''      syscall: true'',
      ''      args:'',
      ''        - index: 0'',
      sq ''          type: `int`'',
      ''        - index: 1'',
      sq ''          type: `string`'',
      ''        - index: 2'',
      sq ''          type: `int`'',
      ''      selectors:'',
      ''        - matchBinaries:'',
      sq ''            - operator: `In`'',
      ''              values:'',
      sq ''                - `/usr/bin/pip`'',
      sq ''                - `/usr/bin/pip3`'',
      sq ''                - `/usr/bin/npm`'',
      sq ''                - `/usr/bin/node`'',
      sq ''                - `/usr/local/bin/npm`'',
      sq ''                - `/usr/local/bin/node`'',
      sq ''                - `/usr/local/bin/pip`'',
      ''          matchArgs:'',
      ''            - index: 1'',
      sq ''              operator: `Postfix`'',
      ''              values:'',
      sq ''                - `/.ssh/id_rsa`'',
      sq ''                - `/.ssh/id_ed25519`'',
      sq ''                - `/.aws/credentials`'',
      sq ''                - `/.aws/config`'',
      sq ''                - `/.npmrc`'',
      sq ''                - `/.pypirc`'',
      sq ''                - `/.netrc`'',
      sq ''                - `/etc/shadow`'',
      ''          matchActions:'',
      ''            - action: Sigkill'',
      ''    # '' @ utf8 [236, 153, 184, 235, 182, 128] @ '' IP connect '' @ utf8 [226, 134, 146] @ '' Sigkill'',
      sq ''    - call: `tcp_connect`'',
      ''      args:'',
      ''        - index: 0'',
      sq ''          type: `sock`'',
      ''      selectors:'',
      ''        - matchBinaries:'',
      sq ''            - operator: `In`'',
      ''              values:'',
      sq ''                - `/usr/bin/pip`'',
      sq ''                - `/usr/bin/npm`'',
      sq ''                - `/usr/bin/node`'',
      sq ''                - `/usr/local/bin/npm`'',
      sq ''                - `/usr/local/bin/node`'',
      ''          matchArgs:'',
      ''            - index: 0'',
      sq ''              operator: `NotDAddr`'',
      ''              values:'',
      sq ''                - `127.0.0.0/8`'',
      sq ''                - `10.0.0.0/8`'',
      sq ''                - `172.16.0.0/12`'',
      sq ''                - `192.168.0.0/16`'',
      sq ''                - `169.254.0.0/16`'',
      ''          matchActions:'',
      ''            - action: Sigkill'']"

definition generate_strict_mode_tetragon :: string where
  "generate_strict_mode_tetragon = py_join newline STRICT_TETRAGON_LINES @ newline"

subsection \<open>The Falco sink\<close>

record falco_sink =
  fl_out_dir :: string
  fl_emit_falco :: bool
  fl_emit_tetragon :: bool
  fl_emit_strict_mode :: bool

text \<open>A file is opened before its text is made: when that raises, the file is left empty.\<close>

definition write_text :: "sink_env \<Rightarrow> string \<Rightarrow> pyexn + string \<Rightarrow> (pyexn + unit) \<times> files" where
  "write_text env path r =
     (case sv_write env path (case r of Inr t \<Rightarrow> t | Inl e \<Rightarrow> []) of
        Some e \<Rightarrow> (Inl e, [])
      | None \<Rightarrow> (case r of Inl e \<Rightarrow> (Inl e, [(path, [])]) | Inr t \<Rightarrow> (Inr (), [(path, t)])))"

definition emit_file ::
  "sink_env \<Rightarrow> bool \<Rightarrow> string \<Rightarrow> string \<Rightarrow> string \<Rightarrow> pyexn + string \<Rightarrow> pydict \<Rightarrow> (pyexn + pydict) \<times> files" where
  "emit_file env wanted key dir fname r out =
     (if wanted
      then thenW (write_text env (path_join dir fname) r) (\<lambda>u.
             (Inr (AList.update key (PStr (path_join dir fname)) out), []))
      else (Inr out, []))"

definition falco_emit :: "sink_env \<Rightarrow> falco_sink \<Rightarrow> pydict \<Rightarrow> (pyexn + pydict) \<times> files" where
  "falco_emit env fs report =
     (let dir = fl_out_dir fs in
      with_dir env dir
        (thenW (rget report ''package'' ''x'', []) (\<lambda>pkg.
         thenW (rget report ''ecosystem'' ''x'', []) (\<lambda>eco.
         thenW (rget report ''version'' ''x'', []) (\<lambda>ver.
         let base = safe_id [eco, pkg, ver] in
         thenW (emit_file env (fl_emit_falco fs) ''falco'' dir (base @ ''.falco.yaml'') (to_falco_rules report) [])
           (\<lambda>out.
         thenW (emit_file env (fl_emit_tetragon fs) ''tetragon'' dir (base @ ''.tetragon.yaml'')
             (to_tracing_policy report) out) (\<lambda>out.
         thenW (emit_file env (fl_emit_strict_mode fs) ''strict_falco'' dir ''pkgsentinel-strict.falco.yaml''
             (Inr generate_strict_mode_falco) out) (\<lambda>out.
           emit_file env (fl_emit_strict_mode fs) ''strict_tetragon'' dir ''pkgsentinel-strict.tetragon.yaml''
             (Inr generate_strict_mode_tetragon) out))))))))"

subsection \<open>Where the sinks write\<close>

text \<open>A file directly in a directory.\<close>

definition inside :: "string \<Rightarrow> string \<times> string \<Rightarrow> bool" where
  "inside dir w \<longleftrightarrow> (\<exists>f. fst w = path_join dir f \<and> CHR ''/'' \<notin> set f \<and> length f > 2)"

lemma thenW_all:
  "list_all P (snd (thenW r f)) \<longleftrightarrow> list_all P (snd r) \<and> (\<forall>x. fst r = Inr x \<longrightarrow> list_all P (snd (f x)))"
  by (cases r; cases "fst r") (auto simp: thenW_def split: prod.splits)

lemma with_dir_all: "list_all P (snd act) \<Longrightarrow> list_all P (snd (with_dir env dir act))"
  by (simp add: with_dir_def split: option.split)

lemma insideI: "CHR ''/'' \<notin> set f \<Longrightarrow> length f > 2 \<Longrightarrow> inside dir (path_join dir f, body)"
  unfolding inside_def by (intro exI [of _ f]) simp

lemma write_file_inside:
  "CHR ''/'' \<notin> set f \<Longrightarrow> length f > 2 \<Longrightarrow> list_all (inside dir) (snd (write_file env (path_join dir f) body))"
  by (simp add: write_file_def insideI split: option.split)

lemma write_text_inside:
  "CHR ''/'' \<notin> set f \<Longrightarrow> length f > 2 \<Longrightarrow> list_all (inside dir) (snd (write_text env (path_join dir f) r))"
  by (simp add: write_text_def insideI split: option.split sum.split)

lemma emit_file_inside:
  "CHR ''/'' \<notin> set f \<Longrightarrow> length f > 2 \<Longrightarrow> list_all (inside dir) (snd (emit_file env b key dir f r out))"
  by (simp add: emit_file_def thenW_all write_text_inside)

lemma is_alnum_slash: "\<not> is_alnum (CHR ''/'')"
  by (simp add: is_alnum_def is_alpha_def is_digit_def)

lemma safe_id_slash: "CHR ''/'' \<notin> set (safe_id parts)"
  by (auto simp: safe_id_def is_alnum_slash dest!: in_set_takeD split: if_splits)

lemma set_strip_chars: "set (strip_chars cs s) \<subseteq> set s"
  by (auto simp: strip_chars_def dest!: set_dropWhileD)

lemma slug_slash: "CHR ''/'' \<notin> set (slug s)"
proof -
  have "CHR ''/'' \<notin> set (map (\<lambda>ch. if is_alnum ch \<or> ch \<in> set ''-_'' then ch else CHR ''-'') (py_lower s))"
    by (auto simp: is_alnum_slash split: if_splits)
  then have "CHR ''/'' \<notin> set (strip_chars ''-''
      (map (\<lambda>ch. if is_alnum ch \<or> ch \<in> set ''-_'' then ch else CHR ''-'') (py_lower s)))"
    using set_strip_chars by blast
  then show ?thesis unfolding slug_def Let_def by simp
qed

lemma stix_emit_inside:
  "list_all (inside (or_else (st_out_dir st) [])) (snd (stix_emit env st report))"
proof -
  have "CHR ''/'' \<notin> set f \<and> length f > 2" if "stix_file_name report sha = Inr f" for f sha
    using that by (auto simp: stix_file_name_def bindE_Inr_iff slash_free_def)
  then show ?thesis
    unfolding stix_emit_def
    by (auto simp: thenW_all Let_def simp del: AList.update.simps intro!: with_dir_all write_file_inside)
qed

lemma falco_emit_inside: "list_all (inside (fl_out_dir fs)) (snd (falco_emit env fs report))"
  unfolding falco_emit_def Let_def
  by (intro with_dir_all) (simp add: thenW_all emit_file_inside safe_id_slash)

lemma pmg_emit_inside:
  assumes "\<And>x. CHR ''/'' \<notin> set (sv_sha256 env x)"
  shows "list_all (inside (or_else out_dir [])) (snd (pmg_emit env out_dir show_float report))"
proof -
  have slash: "CHR ''/'' \<notin> set (take n (sv_sha256 env x))" for n x
    using assms [of x] by (auto dest: in_set_takeD)
  show ?thesis
    unfolding pmg_emit_def
    by (auto simp: thenW_all Let_def split: option.split
        intro!: with_dir_all write_file_inside [unfolded append_assoc])
       (auto simp: thenW_all slash slug_slash intro!: write_file_inside)
qed

text \<open>C15: Whatever a package is called, what its report makes the STIX, Falco and package guard sinks write are
  files directly in the directory each is configured with; no name leads out of it.\<close>
theorem sinks_write_inside:
  assumes "\<forall>x. CHR ''/'' \<notin> set (sv_sha256 env x)"
  shows "list_all (inside (or_else (st_out_dir st) [])) (snd (stix_emit env st report))
    \<and> list_all (inside (fl_out_dir fs)) (snd (falco_emit env fs report))
    \<and> list_all (inside (or_else out_dir [])) (snd (pmg_emit env out_dir show_float report))"
  using assms stix_emit_inside falco_emit_inside pmg_emit_inside by simp

definition quiet_sinks :: sink_env where
  "quiet_sinks = \<lparr>sv_uuid5 = (\<lambda>s. ''0''), sv_uuid4 = ''1'', sv_now = (\<lambda>k. ''t''), sv_sha256 = (\<lambda>s. ''abcdef''),
     sv_dumps = (\<lambda>v. ''{}''), sv_loads = (\<lambda>s. Inr PNone), sv_decode = id, sv_makedirs = (\<lambda>d. None),
     sv_write = (\<lambda>p b. None), sv_post = (\<lambda>h. TaxiiUrlError ''offline'')\<rparr>"

definition climbing_report :: pydict where
  "climbing_report = [(''verdict'', PStr ''MALICIOUS''), (''package'', PStr ''../../etc/cron.d/x'')]"

theorem sinks_write_inside_witness:
  "list_all (inside ''out'') (snd (pmg_emit quiet_sinks (Some ''out'') (\<lambda>x. []) climbing_report))
    \<and> map fst (snd (pmg_emit quiet_sinks (Some ''out'') (\<lambda>x. []) climbing_report))
        = [''out/pmg-x-etc-cron-d-x-x-abcdef.yaml'']"
proof
  show "list_all (inside ''out'') (snd (pmg_emit quiet_sinks (Some ''out'') (\<lambda>x. []) climbing_report))"
  proof -
    have "\<forall>x. CHR ''/'' \<notin> set (sv_sha256 quiet_sinks x)" by (simp add: quiet_sinks_def)
    from sinks_write_inside [OF this, where out_dir = "Some ''out''" and report = climbing_report and show_float = "\<lambda>x. []"]
    show ?thesis by simp
  qed
  show "map fst (snd (pmg_emit quiet_sinks (Some ''out'') (\<lambda>x. []) climbing_report))
      = [''out/pmg-x-etc-cron-d-x-x-abcdef.yaml'']"
    by code_simp
qed

subsection \<open>The worker's sinks\<close>

definition worker_webhook ::
  "mac \<Rightarrow> sink_env \<Rightarrow> (http_request \<Rightarrow> http_answer) \<Rightarrow> rat \<Rightarrow> sink_config \<Rightarrow> pydict \<Rightarrow> pyexn + pydict" where
  "worker_webhook mac env http now cfg report =
     as_dict (webhook_emit mac (sv_sha256 env) (sv_dumps env) http now
       \<lparr>wh_url = or_else (sc_webhook_url cfg) [], wh_secret = or_else (sc_webhook_secret cfg) [], wh_timeout = 10,
        wh_event_name = ''package.verdict''\<rparr> (PDict report))"

definition stix_of :: "sink_config \<Rightarrow> stix_sink" where
  "stix_of cfg =
     \<lparr>st_out_dir = sc_stix_out_dir cfg, st_taxii_url = sc_taxii_url cfg, st_taxii_user = sc_taxii_user cfg,
      st_taxii_pass = sc_taxii_pass cfg, st_taxii_bearer = sc_taxii_bearer cfg, st_timeout = 15\<rparr>"

definition worker_sinks ::
  "mac \<Rightarrow> sink_env \<Rightarrow> (http_request \<Rightarrow> http_answer) \<Rightarrow> rat \<Rightarrow> (rat \<Rightarrow> string) \<Rightarrow> sinks" where
  "worker_sinks mac env http now show_float =
     \<lparr>emit_stix = (\<lambda>cfg report. fst (stix_emit env (stix_of cfg) report)),
      emit_webhook = worker_webhook mac env http now,
      emit_falco = (\<lambda>cfg report. fst (falco_emit env
         \<lparr>fl_out_dir = or_else (sc_falco_out_dir cfg) [], fl_emit_falco = True, fl_emit_tetragon = True,
          fl_emit_strict_mode = False\<rparr> report)),
      emit_pmg = (\<lambda>cfg report. fst (pmg_emit env (sc_pmg_out_dir cfg) show_float report))\<rparr>"

text \<open>
  The text of a policy that denies one package, written out line by line: the check compares the name, the
  version (unless it is \<^verbatim>\<open>*\<close>, which stands for every version) and the ecosystem.
\<close>

definition denial_policy :: "verdict \<Rightarrow> ecosystem \<Rightarrow> string \<Rightarrow> string \<Rightarrow> string \<Rightarrow> string \<Rightarrow> string" where
  "denial_policy verdict eco pkg ver rule_name summary =
     concat (map (\<lambda>line. line @ [CHR 0x0A])
       [''name: pkgsentinel-auto'',
        ''description: \"Auto-generated from pkgsentinel verdict=''
          @ (if verdict = MALICIOUS then ''MALICIOUS'' else ''HIGH_RISK'') @ ''\"'',
        ''tags:'',
        ''  - auto'',
        ''  - pkgsentinel'',
        (if verdict = MALICIOUS then ''  - malicious'' else ''  - high_risk''),
        ''rules:'',
        ''  - name: '' @ rule_name,
        ''    summary: \"'' @ summary @ ''\"'',
        ''    check:'',
        ''      - cel: |'',
        ''          packages.exists(p, p.name == \"'' @ pkg @ ''\" && ''
          @ (if ver = ''*'' then [] else ''p.version == \"'' @ ver @ ''\" && '')
          @ ''p.ecosystem == \"'' @ (case eco of PYPI \<Rightarrow> ''pypi'' | NPM \<Rightarrow> ''npm'') @ ''\")'',
        ''    action: deny''])"

lemma py_join_lines: "xs \<noteq> [] \<Longrightarrow> py_join sep xs @ sep = concat (map (\<lambda>x. x @ sep) xs)"
  by (induction sep xs rule: py_join.induct) simp_all

lemma denial_lines:
  assumes "verdict \<in> {MALICIOUS, HIGH_RISK}" and "ver \<noteq> []"
  shows "py_join newline (pmg_lines (verdict_value verdict) rule_name summary
      (pmg_cel pkg ver (case eco of PYPI \<Rightarrow> ''pypi'' | NPM \<Rightarrow> ''npm'')) ''deny'') @ newline
    = denial_policy verdict eco pkg ver rule_name summary"
proof -
  have low: "py_lower ''MALICIOUS'' = ''malicious''" "py_lower ''HIGH_RISK'' = ''high_risk''" by code_simp+
  have "pmg_lines v n s c d \<noteq> []" for v n s c d by (simp add: pmg_lines_def)
  then show ?thesis
    unfolding denial_policy_def using assms
    by (subst py_join_lines, simp, intro arg_cong [of _ _ concat] arg_cong [of _ _ "map _"])
      (auto simp: pmg_lines_def pmg_cel_def dq_def low newline_def)
qed

text \<open>
  The rule's name and its summary are free text, but neither has a quote or a newline in it, so that they
  stay inside their lines.
\<close>

lemma slug_clean: "c \<in> set (slug s) \<Longrightarrow> is_alnum c \<or> c \<in> set ''-_x''"
  unfolding slug_def Let_def strip_chars_def
  by (auto split: if_splits dest!: set_dropWhileD)

lemma alnum_not_special: "is_alnum c \<Longrightarrow> c \<noteq> CHR 0x0A \<and> c \<noteq> CHR 0x22"
  by (auto simp: is_alnum_def is_alpha_def is_digit_def)

lemma pmg_summary_clean:
  assumes "pmg_summary v pkg ver eco report = Inr s"
  shows "CHR 0x0A \<notin> set s" and "CHR 0x22 \<notin> set s"
  using assms unfolding pmg_summary_def bindE_Inr_iff by (auto split: if_splits)

lemma pmg_policy_of:
  assumes "ar_package r \<noteq> []" and "ar_version r \<noteq> []" and "ar_verdict r \<in> {MALICIOUS, HIGH_RISK}"
  obtains rule_name summary where "to_pmg_policy (report_to_serializable r)
      = Inr (Some (denial_policy (ar_verdict r) (ar_ecosystem r) (ar_package r) (ar_version r) rule_name summary))"
    and "{CHR 0x0A, CHR 0x22} \<inter> (set rule_name \<union> set summary) = {}"
proof -
  let ?d = "report_to_serializable r"
  let ?eco = "case ar_ecosystem r of PYPI \<Rightarrow> ''pypi'' | NPM \<Rightarrow> ''npm''"
  have g: "dget ?d ''package'' = PStr (ar_package r)" "dget ?d ''version'' = PStr (ar_version r)"
      "dget ?d ''ecosystem'' = PStr (ecosystem_value (ar_ecosystem r))"
      "dget ?d ''verdict'' = PStr (verdict_value (ar_verdict r))"
      "dget ?d ''evidence'' = PList (map evidence_serializable (ar_evidence r))"
    by (simp_all add: dget_def report_to_serializable_def)
  have v: "map_of VERDICT_ACTION (verdict_value (ar_verdict r)) = Some ''deny''"
    using assms(3) by (auto simp: VERDICT_ACTION_def)
  have up: "py_upper (verdict_value (ar_verdict r)) = verdict_value (ar_verdict r)" "verdict_value (ar_verdict r) \<noteq> []"
    by (cases "ar_verdict r"; simp add: py_upper_def upper_char_def)+
  have eco: "ecosystem_value (ar_ecosystem r) \<noteq> []" by (cases "ar_ecosystem r") simp_all
  have "ecosystem_to_pmg ''PyPI'' = ''pypi''" "ecosystem_to_pmg ''npm'' = ''npm''" by code_simp+
  then have pmg: "ecosystem_to_pmg (ecosystem_value (ar_ecosystem r)) = ?eco" by (cases "ar_ecosystem r") simp_all
  have "\<exists>s. pmg_summary v p ver e ?d = Inr s" for v p ver e
    by (cases "ar_evidence r") (simp_all add: pmg_summary_def g py_or_def evidence_dict attr_dict_def rget_or_def
        dget_def Let_def)
  then obtain s where s: "pmg_summary (verdict_value (ar_verdict r)) (ar_package r) (ar_version r) ?eco ?d = Inr s"
    by blast
  let ?name = "take 64 (''deny'' @ ''-'' @ slug ?eco @ ''-'' @ slug (ar_package r) @ ''-'' @ slug (ar_version r))"
  have name: "{CHR 0x0A, CHR 0x22} \<inter> set ?name = {}"
    by (auto dest!: in_set_takeD slug_clean simp: is_alnum_def is_alpha_def is_digit_def simp del: take_append)
  have "to_pmg_policy ?d = Inr (Some
      (py_join newline (pmg_lines (verdict_value (ar_verdict r)) ?name s
        (pmg_cel (ar_package r) (ar_version r) ?eco) ''deny'') @ newline))"
    by (simp add: to_pmg_policy_def rget_or_def g py_or_def Let_def assms(1,2) v up eco pmg s del: take_append)
  then show ?thesis
    using name pmg_summary_clean [OF s]
    by (intro that [of ?name s]) (simp_all only: denial_lines [OF assms(3,2)], auto)
qed

lemma emit_sinks_pmg:
  assumes "truthy_opt (sc_pmg_out_dir cfg)" and "emit_pmg sk cfg report = Inr r"
  shows "(''pmg'', r) \<in> set (fst (emit_sinks sk job report cfg lg))"
    and "sl_kind (last (snd (emit_sinks sk job report cfg lg))) = ''pmg''"
    and "sl_success (last (snd (emit_sinks sk job report cfg lg)))
      = (if py_truth (d_get r ''ok'' (PBool False)) then 1 else 0)"
  using assms by (simp_all add: emit_sinks_def emit_one_def log_sink_def Let_def split: prod.split)

lemma pmg_emit_written:
  assumes "to_pmg_policy report = Inr (Some body)" and "dir \<noteq> []" and "sv_makedirs env dir = None"
    and "\<And>p b. sv_write env p b = None"
    and "rget report ''package'' ''x'' = Inr pkg" and "rget report ''ecosystem'' ''x'' = Inr eco"
    and "rget report ''version'' ''x'' = Inr ver"
  shows "\<exists>path answer. pmg_emit env (Some dir) show_float report = (Inr answer, [(path, body)])
    \<and> map_of answer ''file'' = Some (PStr path) \<and> py_truth (d_get answer ''ok'' (PBool False))"
proof -
  have "or_else (Some dir) [] = dir" using assms(2) by (cases dir) simp_all
  then show ?thesis by (simp add: pmg_emit_def thenW_def with_dir_def write_file_def Let_def assms)
qed

text \<open>C7: When the analysis of a queued package ends MALICIOUS or HIGH_RISK and a policy directory is configured,
  the worker writes one package guard policy: its only rule has the action \<^verbatim>\<open>deny\<close> and a check that compares
  a package's name, version and ecosystem with this one's (the version \<^verbatim>\<open>*\<close> leaves the version out). The name
  and the version stand in the check as they are; the free texts of the policy have no quote and no newline.
  The worker logs that it wrote the policy.\<close>
theorem condemned_package_denied:
  assumes "we_sinks env i = worker_sinks mac senv http now show_float"
    and "ecosystem_of (qj_ecosystem job) = Inr eco"
    and "we_pipeline env i (qj_package job) eco (qj_version job) = Inr ar"
    and "ar_verdict ar \<in> {MALICIOUS, HIGH_RISK}" and "ar_package ar \<noteq> []" and "ar_version ar \<noteq> []"
    and "sc_pmg_out_dir cfg = Some dir" and "dir \<noteq> []"
    and "sv_makedirs senv dir = None" and "\<And>p b. sv_write senv p b = None"
  shows "\<exists>answer path rule_name summary.
      (''pmg'', answer) \<in> set (jr_sinks_emitted (fst (process_one env i cfg job st)))
    \<and> map_of answer ''file'' = Some (PStr path)
    \<and> snd (pmg_emit senv (Some dir) show_float (report_to_serializable ar)) =
        [(path, denial_policy (ar_verdict ar) (ar_ecosystem ar) (ar_package ar) (ar_version ar) rule_name summary)]
    \<and> {CHR 0x0A, CHR 0x22} \<inter> (set rule_name \<union> set summary) = {}
    \<and> sl_kind (last (ws_log (snd (process_one env i cfg job st)))) = ''pmg''
    \<and> sl_success (last (ws_log (snd (process_one env i cfg job st)))) = 1"
proof -
  let ?d = "report_to_serializable ar"
  let ?body = "denial_policy (ar_verdict ar) (ar_ecosystem ar) (ar_package ar) (ar_version ar)"
  obtain rule_name summary where policy: "to_pmg_policy ?d = Inr (Some (?body rule_name summary))"
    and clean: "{CHR 0x0A, CHR 0x22} \<inter> (set rule_name \<union> set summary) = {}"
    using pmg_policy_of [OF assms(5,6,4)] by blast
  obtain path answer where e: "pmg_emit senv (Some dir) show_float ?d = (Inr answer, [(path, ?body rule_name summary)])"
    and a: "map_of answer ''file'' = Some (PStr path)" "py_truth (d_get answer ''ok'' (PBool False))"
    using pmg_emit_written [OF policy assms(8,9,10) serialized_fields(1,3,2)] by blast
  have emit: "emit_pmg (we_sinks env i) cfg ?d = Inr answer" by (simp add: assms(1,7) worker_sinks_def e)
  have t: "truthy_opt (sc_pmg_out_dir cfg)" using assms(7,8) by simp
  have p: "jr_sinks_emitted (fst (process_one env i cfg job st)) = fst (emit_sinks (we_sinks env i) job ?d cfg (ws_log st))"
      "ws_log (snd (process_one env i cfg job st)) = snd (emit_sinks (we_sinks env i) job ?d cfg (ws_log st))"
    using assms(2,3,4) t
    by (auto simp: process_one_def Let_def should_emit_def SINK_VERDICTS_def any_configured_def split: prod.split)
  have w: "snd (pmg_emit senv (Some dir) show_float ?d) = [(path, ?body rule_name summary)]" by (simp add: e)
  note emitted = emit_sinks_pmg [OF t emit, of job "ws_log st"]
  have f: "(''pmg'', answer) \<in> set (jr_sinks_emitted (fst (process_one env i cfg job st)))"
      "sl_kind (last (ws_log (snd (process_one env i cfg job st)))) = ''pmg''"
      "sl_success (last (ws_log (snd (process_one env i cfg job st)))) = 1"
    using emitted(1,2) a(2) emitted(3) by (simp_all only: p if_True)
  show ?thesis using f(1) a(1) w clean f(2,3) by blast
qed

text \<open>A queued package that the pipeline condemns.\<close>

definition condemning_env :: worker_env where
  "condemning_env = sample_worker_env
     \<lparr>we_pipeline := \<lambda>i p eco v. Inr ((empty_report ''t'' p eco v)\<lparr>ar_verdict := MALICIOUS\<rparr>),
      we_sinks := \<lambda>i. worker_sinks (\<lambda>k m. []) quiet_sinks (\<lambda>h. NetFailure ''offline'') 0 (\<lambda>x. [])\<rparr>"

definition evil_job :: queued_job where
  "evil_job = \<lparr>qj_id = 1, qj_ecosystem = ''npm'', qj_package = ''evil'', qj_version = ''1.0'', qj_archive_url = [],
     qj_priority = 0, qj_source_event = [], qj_enqueued_at = 0, qj_locked_by = None\<rparr>"

definition pmg_config :: sink_config where
  "pmg_config = (sink_from_env (\<lambda>v. None))\<lparr>sc_pmg_out_dir := Some ''out''\<rparr>"

theorem condemned_package_denied_witness:
  "\<exists>answer. (''pmg'', answer) \<in> set (jr_sinks_emitted (fst (process_one condemning_env 0 pmg_config evil_job
    \<lparr>ws_queue = sample_queue, ws_log = []\<rparr>)))"
proof -
  have e: "ecosystem_of ''npm'' = Inr NPM" by (simp add: ecosystem_of_def enum_of_def)
  show ?thesis
    using condemned_package_denied [of condemning_env 0 "\<lambda>k m. []" quiet_sinks "\<lambda>h. NetFailure ''offline''" 0 "\<lambda>x. []"
        evil_job NPM "(empty_report ''t'' ''evil'' NPM ''1.0'')\<lparr>ar_verdict := MALICIOUS\<rparr>" pmg_config "''out''"
        "\<lparr>ws_queue = sample_queue, ws_log = []\<rparr>"]
    by (auto simp: condemning_env_def evil_job_def pmg_config_def e empty_report_def quiet_sinks_def)
qed

subsection \<open>What the generated rules depend on\<close>

text \<open>The rules for commands are the same whatever commands the report holds.\<close>

lemma falco_ignores_commands:
  assumes "ri_commands iocs \<noteq> []" and "cmds \<noteq> []"
  shows "falco_lines pkg eco ver verdict (iocs\<lparr>ri_commands := cmds\<rparr>) = falco_lines pkg eco ver verdict iocs"
  using assms by (simp add: falco_lines_def)

text \<open>Every policy, also that of a report without any indicator, kills what runs \<^verbatim>\<open>curl\<close>, \<^verbatim>\<open>wget\<close>
  or \<^verbatim>\<open>bash\<close>.\<close>

lemma py_join_append:
  "xs \<noteq> [] \<Longrightarrow> ys \<noteq> [] \<Longrightarrow> py_join sep (xs @ ys) = py_join sep xs @ sep @ py_join sep ys"
proof (induction sep xs rule: py_join.induct)
  case (2 sep x)
  then show ?case by (cases ys) simp_all
qed simp_all

lemma policy_kills_shells:
  assumes "to_tracing_policy report = Inr t"
  shows "suffix (newline @ py_join newline EXECVE_HOOK) t"
proof -
  obtain pkg eco ver verdict iocs where t: "t = py_join newline (policy_lines pkg eco ver verdict iocs)"
    using assms by (auto simp: to_tracing_policy_def with_report_def bindE_Inr_iff)
  have "EXECVE_HOOK \<noteq> []" "policy_head pkg eco ver verdict \<noteq> []" by (simp_all add: EXECVE_HOOK_def policy_head_def)
  then have "t = py_join newline (policy_head pkg eco ver verdict
      @ (if ri_domains iocs \<noteq> [] then connect_hook (ri_domains iocs) else [])) @ newline @ py_join newline EXECVE_HOOK"
    unfolding t policy_lines_def append_assoc [symmetric] by (subst py_join_append) simp_all
  then show ?thesis by (simp add: suffix_def)
qed

end
