(* ===== verification/Watchers.thy ===== *)
theory Watchers
  imports RuntimeExtract Registry QueueProtocol
begin

text \<open>
  \<^verbatim>\<open>monitor/pypi_watcher.py\<close> and \<^verbatim>\<open>monitor/npm_watcher.py\<close>: what the registries report as new is
  put into the scan queue, and how far was read is kept in \<^verbatim>\<open>schema_meta\<close>. The XML-RPC call, the parsed
  items of the RSS feed and npm's HTTP answers are parameters; so are the clock readings of the insertions.
  A field of another type than the registry's is a \<open>TypeError\<close>.
\<close>

record watch_db =
  wd_meta :: "(string \<times> string) list"
  wd_queue :: scan_queue

definition set_meta :: "string \<Rightarrow> string \<Rightarrow> watch_db \<Rightarrow> watch_db" where
  "set_meta k v db = db\<lparr>wd_meta := AList.update k v (wd_meta db)\<rparr>"

subsection \<open>PyPI's changelog\<close>

record changelog_row =
  cl_name :: string
  cl_version :: "string option"
  cl_timestamp :: pyval
  cl_action :: "string option"
  cl_serial :: int

text \<open>An entry that is no sequence of at least five elements is passed over; a longer one cannot be
  unpacked.\<close>

definition changelog_entry :: "pyval \<Rightarrow> pyexn + changelog_row option" where
  "changelog_entry entry =
     (case entry of
        PList xs \<Rightarrow>
          (case xs of
             [name, version, ts, action, serial] \<Rightarrow>
               bindE (as_str name) (\<lambda>n. bindE (as_opt as_str version) (\<lambda>v.
               bindE (as_opt as_str action) (\<lambda>a. bindE (as_int serial) (\<lambda>s.
                 Inr (Some \<lparr>cl_name = n, cl_version = v, cl_timestamp = ts, cl_action = a, cl_serial = s\<rparr>)))))
           | _ \<Rightarrow> if length xs < 5 then Inr None else Inl (ValueError ''too many values to unpack (expected 5)''))
      | _ \<Rightarrow> Inr None)"

definition fetch_xmlrpc :: "(int \<Rightarrow> pyexn + pyval list) \<Rightarrow> int \<Rightarrow> pyexn + changelog_row list" where
  "fetch_xmlrpc proxy since =
     bindE (proxy since) (\<lambda>rows. bindE (mapE changelog_entry rows) (\<lambda>out. Inr (List.map_filter id out)))"

definition is_release_action :: "string \<Rightarrow> bool" where
  "is_release_action a = (a = ''new release'' \<or> a = ''create'' \<or> startswith a ''add '')"

definition action_of :: "changelog_row \<Rightarrow> string" where
  "action_of r = py_lower (or_else (cl_action r) [])"

definition is_release :: "changelog_row \<Rightarrow> bool" where
  "is_release r = (truthy_opt (cl_version r) \<and> is_release_action (action_of r))"

definition release_of :: "changelog_row \<Rightarrow> release_event" where
  "release_of r =
     \<lparr>re_ecosystem = ''PyPI'', re_package = cl_name r, re_version = or_else (cl_version r) [],
      re_archive_url = [], re_source_event = ''pypi_xmlrpc'',
      re_raw_meta = [(''action'', PStr (action_of r)), (''serial'', PInt (cl_serial r)),
                     (''timestamp'', cl_timestamp r)]\<rparr>"

fun to_release_events_xmlrpc :: "(string \<times> string) list \<Rightarrow> changelog_row list \<Rightarrow> release_event list" where
  "to_release_events_xmlrpc seen [] = []"
| "to_release_events_xmlrpc seen (r # rs) =
     (if \<not> is_release r then to_release_events_xmlrpc seen rs
      else let key = (cl_name r, or_else (cl_version r) []) in
        if key \<in> set seen then to_release_events_xmlrpc seen rs
        else release_of r # to_release_events_xmlrpc (key # seen) rs)"

subsection \<open>PyPI's feed\<close>

text \<open>\<^verbatim>\<open>title.rsplit(" ", 1)\<close>: the name before the last space and the version behind it.\<close>

record rss_item =
  ri_title :: string
  ri_link :: string
  ri_pub_date :: string

definition rsplit_space :: "string \<Rightarrow> (string \<times> string) option" where
  "rsplit_space s =
     (if CHR '' '' \<in> set s
      then Some (rev (tl (dropWhile (\<lambda>c. c \<noteq> CHR '' '') (rev s))), rev (takeWhile (\<lambda>c. c \<noteq> CHR '' '') (rev s)))
      else None)"

definition rss_event :: "rss_item \<Rightarrow> release_event option" where
  "rss_event it =
     map_option (\<lambda>(name, version).
       \<lparr>re_ecosystem = ''PyPI'', re_package = name, re_version = version, re_archive_url = [],
        re_source_event = ''pypi_rss'',
        re_raw_meta = [(''link'', PStr (py_strip (ri_link it))), (''pubDate'', PStr (py_strip (ri_pub_date it)))]\<rparr>)
       (rsplit_space (py_strip (ri_title it)))"

definition to_release_events_rss :: "rss_item list \<Rightarrow> release_event list" where
  "to_release_events_rss items = List.map_filter rss_event items"

subsection \<open>Polling PyPI\<close>

definition LAST_SERIAL_KEY :: string where
  "LAST_SERIAL_KEY = ''watcher.pypi.last_serial''"

definition get_last_serial :: "watch_db \<Rightarrow> int" where
  "get_last_serial db =
     (let v = map_of (wd_meta db) LAST_SERIAL_KEY in
      if truthy_opt v then (case py_int (or_else v []) of Some n \<Rightarrow> n | None \<Rightarrow> 0) else 0)"

definition set_last_serial :: "int \<Rightarrow> watch_db \<Rightarrow> watch_db" where
  "set_last_serial serial db = set_meta LAST_SERIAL_KEY (show_int serial) db"

record pypi_env =
  wp_proxy :: "int \<Rightarrow> pyexn + pyval list"
  wp_rss :: "pyexn + rss_item list"
  wp_clock :: "nat \<Rightarrow> int"
  wp_priority :: priority_db

definition poll_failed :: "string \<Rightarrow> pydict" where
  "poll_failed err = [(''used'', PNone), (''error'', PStr err), (''enqueued'', PInt 0)]"

definition poll_result :: "string option \<Rightarrow> nat \<Rightarrow> nat \<Rightarrow> string option \<Rightarrow> pydict" where
  "poll_result used seen enqueued err =
     [(''used'', popt PStr used), (''events_seen'', PInt (int seen)), (''enqueued'', PInt (int enqueued)),
      (''error'', popt PStr err)]"

definition timed :: "(nat \<Rightarrow> int) \<Rightarrow> release_event list \<Rightarrow> (int \<times> release_event) list" where
  "timed clock evs = zip (map clock [0..<length evs]) evs"

definition enqueue_events ::
  "(nat \<Rightarrow> int) \<Rightarrow> priority_db \<Rightarrow> release_event list \<Rightarrow> watch_db \<Rightarrow> nat \<times> watch_db" where
  "enqueue_events clock pdb evs db =
     (case enqueue_many pdb (timed clock evs) (wd_queue db) of (n, q) \<Rightarrow> (n, db\<lparr>wd_queue := q\<rparr>))"

text \<open>The first source: its events, the name of the source when it answered, the error, the serial kept.\<close>

definition poll_changelog ::
  "pypi_env \<Rightarrow> watch_db \<Rightarrow> release_event list \<times> string option \<times> string option \<times> watch_db" where
  "poll_changelog env db =
     (case fetch_xmlrpc (wp_proxy env) (get_last_serial db) of
        Inl e \<Rightarrow> ([], None, Some (''xmlrpc: '' @ exn_str e), db)
      | Inr rows \<Rightarrow>
          if rows = [] then ([], Some ''xmlrpc'', None, db)
          else (to_release_events_xmlrpc [] rows, Some ''xmlrpc'', None,
                set_last_serial (py_max (map cl_serial rows) 0) db))"

text \<open>\<^verbatim>\<open>events[:max_events]\<close>, unless \<^verbatim>\<open>max_events\<close> is zero.\<close>

definition limited :: "nat \<Rightarrow> 'a list \<Rightarrow> 'a list" where
  "limited max_events evs = (if max_events \<noteq> 0 \<and> length evs > max_events then take max_events evs else evs)"

definition pypi_poll_once :: "pypi_env \<Rightarrow> string \<Rightarrow> nat \<Rightarrow> watch_db \<Rightarrow> pydict \<times> watch_db" where
  "pypi_poll_once env prefer max_events db =
     (case (if prefer \<in> {''auto'', ''xmlrpc''} then poll_changelog env db else ([], None, None, db)) of
        (events, used, err, db) \<Rightarrow>
          if prefer = ''xmlrpc'' \<and> err \<noteq> None then (poll_failed (or_else err []), db)
          else if events = [] \<and> prefer \<in> {''auto'', ''rss''}
          then (case wp_rss env of
                  Inl e \<Rightarrow> (poll_failed (''rss: '' @ exn_str e), db)
                | Inr items \<Rightarrow>
                    let evs = limited max_events (to_release_events_rss items) in
                    (case enqueue_events (wp_clock env) (wp_priority env) evs db of
                       (n, db') \<Rightarrow> (poll_result (Some ''rss'') (length evs) n err, db')))
          else let evs = limited max_events events in
               (case enqueue_events (wp_clock env) (wp_priority env) evs db of
                  (n, db') \<Rightarrow> (poll_result used (length evs) n err, db')))"

subsection \<open>Polling npm\<close>

record npm_env =
  wn_db_info :: "pyexn + pyval"
  wn_changes :: "pyval \<Rightarrow> int \<Rightarrow> pyexn + pyval"
  wn_meta :: "string \<Rightarrow> pyexn + pyval"
  wn_clock :: "nat \<Rightarrow> int"
  wn_priority :: priority_db
  wn_show_float :: "rat \<Rightarrow> string"

text \<open>\<^verbatim>\<open>int(v)\<close> of a JSON value.\<close>

fun int_of_value :: "pyval \<Rightarrow> pyexn + int" where
  "int_of_value (PInt i) = Inr i"
| "int_of_value (PBool b) = Inr (if b then 1 else 0)"
| "int_of_value (PFloat x) = Inr (if x \<ge> 0 then floor x else - floor (- x))"
| "int_of_value (PStr s) = (case py_int s of Some n \<Rightarrow> Inr n | None \<Rightarrow> Inl (ValueError ''invalid literal for int()''))"
| "int_of_value v = Inl (TypeError ''int() argument'')"

definition fetch_changes :: "npm_env \<Rightarrow> pyval \<Rightarrow> int \<Rightarrow> pyexn + pyval" where
  "fetch_changes env since limit =
     (if since \<in> {PInt 0, PStr ''0''}
      then bindE (wn_db_info env) (\<lambda>info.
           bindE (attr_dict ''get'' info) (\<lambda>d.
           bindE (int_of_value (d_get d ''update_seq'' (PInt 0))) (\<lambda>cur_seq.
             wn_changes env (PInt (max 1 (cur_seq - limit))) limit)))
      else wn_changes env since limit)"

definition fetch_package_meta :: "npm_env \<Rightarrow> string \<Rightarrow> pyval" where
  "fetch_package_meta env name = try_else (wn_meta env name) PNone"

text \<open>\<^verbatim>\<open>xs[-k:]\<close>.\<close>

definition from_end :: "int \<Rightarrow> 'a list \<Rightarrow> 'a list" where
  "from_end k xs = (if k > 0 then drop (length xs - nat k) xs else drop (nat (- k)) xs)"

definition recent_versions :: "int \<Rightarrow> pydict \<Rightarrow> pydict \<Rightarrow> pyexn + string list" where
  "recent_versions max_versions meta versions =
     bindE (sub_dict (dget meta ''dist-tags'')) (\<lambda>tags.
     bindE (as_opt as_str (dget tags ''latest'')) (\<lambda>latest.
       let recent = from_end max_versions (dict_keys versions) in
       Inr (if truthy_opt latest \<and> or_else latest [] \<notin> set recent then recent @ [or_else latest []] else recent)))"

definition version_event :: "string \<Rightarrow> pyval \<Rightarrow> pydict \<Rightarrow> pydict \<Rightarrow> string \<Rightarrow> pyexn + release_event" where
  "version_event name seq meta versions v =
     bindE (sub_dict (dget meta ''dist-tags'')) (\<lambda>tags.
     bindE (attr_dict ''get'' (d_get versions v (PDict []))) (\<lambda>ver_meta.
     bindE (sub_dict (dget ver_meta ''dist'')) (\<lambda>dist.
     bindE (as_str (d_get dist ''tarball'' (PStr []))) (\<lambda>tarball.
       Inr \<lparr>re_ecosystem = ''npm'', re_package = name, re_version = v, re_archive_url = tarball,
            re_source_event = ''npm_changes'',
            re_raw_meta = [(''seq'', seq), (''is_latest'', PBool (dget tags ''latest'' = PStr v)),
                           (''shasum'', dget dist ''shasum'')]\<rparr>))))"

definition package_events :: "npm_env \<Rightarrow> int \<Rightarrow> string \<Rightarrow> pyval \<Rightarrow> pyexn + release_event list" where
  "package_events env max_versions name seq =
     (let meta_pv = fetch_package_meta env name in
      if \<not> py_truth meta_pv then Inr []
      else bindE (attr_dict ''get'' meta_pv) (\<lambda>meta.
           bindE (sub_dict (dget meta ''versions'')) (\<lambda>versions.
           bindE (recent_versions max_versions meta versions) (mapE (version_event name seq meta versions)))))"

definition row_events :: "npm_env \<Rightarrow> bool \<Rightarrow> int \<Rightarrow> pyval \<Rightarrow> pyexn + release_event list" where
  "row_events env fetch_versions max_versions row =
     bindE (attr_dict ''get'' row) (\<lambda>d.
       if py_truth (dget d ''deleted'') then Inr []
       else if \<not> py_truth (dget d ''id'') then Inr []
       else bindE (attr_str ''startswith'' (dget d ''id'')) (\<lambda>name.
         if startswith name ''_'' then Inr []
         else if \<not> fetch_versions
         then Inr [\<lparr>re_ecosystem = ''npm'', re_package = name, re_version = ''latest'', re_archive_url = [],
                    re_source_event = ''npm_changes'', re_raw_meta = [(''seq'', dget d ''seq'')]\<rparr>]
         else package_events env max_versions name (dget d ''seq'')))"

definition changes_to_events :: "npm_env \<Rightarrow> bool \<Rightarrow> int \<Rightarrow> pyval list \<Rightarrow> pyexn + release_event list" where
  "changes_to_events env fetch_versions max_versions rows =
     bindE (mapE (row_events env fetch_versions max_versions) rows) (\<lambda>es. Inr (concat es))"

definition LAST_SEQ_KEY :: string where
  "LAST_SEQ_KEY = ''watcher.npm.last_seq''"

definition get_last_seq :: "watch_db \<Rightarrow> pyval" where
  "get_last_seq db =
     (let v = map_of (wd_meta db) LAST_SEQ_KEY in
      if truthy_opt v
      then (case py_int (or_else v []) of Some n \<Rightarrow> PInt n | None \<Rightarrow> PStr (or_else v []))
      else PInt 0)"

definition npm_poll_once ::
  "npm_env \<Rightarrow> int \<Rightarrow> bool \<Rightarrow> int \<Rightarrow> watch_db \<Rightarrow> pyexn + pydict \<times> watch_db" where
  "npm_poll_once env limit fetch_versions max_versions db =
     (let seq_before = get_last_seq db in
      case fetch_changes env seq_before limit of
        Inl e \<Rightarrow> Inr ([(''used'', PStr ''couchdb''), (''error'', PStr (''fetch: '' @ exn_str e)),
                        (''enqueued'', PInt 0)], db)
      | Inr data \<Rightarrow>
          bindE (attr_dict ''get'' data) (\<lambda>d.
          bindE (py_list (py_or (dget d ''results'') (PList []))) (\<lambda>rows.
          bindE (changes_to_events env fetch_versions max_versions rows) (\<lambda>events.
            let new_last = py_or (dget d ''last_seq'') seq_before in
            case enqueue_events (wn_clock env) (wn_priority env) events db of
              (n, db') \<Rightarrow>
                Inr ([(''used'', PStr ''couchdb''), (''since'', seq_before), (''last_seq'', new_last),
                      (''changes_seen'', PInt (int (length rows))), (''events'', PInt (int (length events))),
                      (''enqueued'', PInt (int n))],
                     set_meta LAST_SEQ_KEY (pv_str (wn_show_float env) new_last) db')))))"

subsection \<open>The number that is kept\<close>

lemma no_space_digit: "is_digit c \<Longrightarrow> \<not> is_space c"
  by (auto simp: is_digit_def is_space_def Let_def)

lemma dropWhile_none: "list_all (\<lambda>c. \<not> P c) s \<Longrightarrow> dropWhile P s = s"
  by (cases s) simp_all

lemma py_strip_none: "list_all (\<lambda>c. \<not> is_space c) s \<Longrightarrow> py_strip s = s"
  by (simp add: py_strip_def dropWhile_none)

lemma digits_not:
  "list_all is_digit s \<Longrightarrow> CHR ''_'' \<notin> set s" "list_all is_digit s \<Longrightarrow> CHR ''-'' \<notin> set s"
  "list_all is_digit s \<Longrightarrow> CHR ''+'' \<notin> set s"
  by (auto simp: list_all_iff is_digit_def)

lemma py_int_show_int [simp]: "py_int (show_int i) = Some i"
proof -
  let ?d = "show_nat (nat \<bar>i\<bar>)"
  have d: "list_all is_digit ?d" "?d \<noteq> []" by (simp_all add: show_nat_digits)
  have s: "py_strip (show_int i) = show_int i"
  proof (intro py_strip_none)
    have m: "\<not> is_space (CHR ''-'')" by (simp add: is_space_def)
    show "list_all (\<lambda>c. \<not> is_space c) (show_int i)"
      using d(1) m no_space_digit by (auto simp: show_int_def list_all_iff)
  qed
  have f: "filter is_digit ?d = ?d" using d(1) by (simp add: filter_id_conv list_all_iff)
  have h: "hd ?d \<noteq> CHR ''_''" "last ?d \<noteq> CHR ''_''"
    using d digits_not(1) [OF d(1)] by (metis hd_in_set, metis last_in_set)
  have u: "\<not> contains ''__'' ?d" using digits_not(1) [OF d(1)] by (auto simp: sublist_def)
  have l: "list_all (\<lambda>c. is_digit c \<or> c = CHR ''_'') ?d" using d(1) by (simp add: list_all_iff)
  show ?thesis
  proof (cases "i < 0")
    case True
    then have "show_int i = CHR ''-'' # ?d" by (simp add: show_int_def)
    then show ?thesis using True s d h u l f by (simp add: py_int_def Let_def)
  next
    case False
    then have e: "show_int i = ?d" by (simp add: show_int_def)
    have "hd ?d \<noteq> CHR ''-''" "hd ?d \<noteq> CHR ''+''"
      using d digits_not(2,3) [OF d(1)] by (metis hd_in_set)+
    then have "\<not> startswith ?d ''-''" "\<not> startswith ?d ''+''" using d(2) by (cases ?d; simp)+
    then show ?thesis using False e s d h u l f by (simp add: py_int_def Let_def)
  qed
qed

lemma serial_kept: "get_last_serial (set_last_serial n db) = n"
proof -
  have "show_int n \<noteq> []" by (simp add: show_int_def)
  then have "truthy_opt (Some (show_int n))" "or_else (Some (show_int n)) [] = show_int n"
    by (cases "show_int n"; simp)+
  then show ?thesis
    by (simp add: get_last_serial_def set_last_serial_def set_meta_def update_conv)
qed

subsection \<open>What is enqueued\<close>

definition queue_keys :: "scan_queue \<Rightarrow> (string \<times> string \<times> string) set" where
  "queue_keys q = (\<lambda>r. (sq_ecosystem r, sq_package r, sq_version r)) ` set (sq_rows q)"

definition event_key :: "release_event \<Rightarrow> string \<times> string \<times> string" where
  "event_key ev = (re_ecosystem ev, re_package ev, re_version ev)"

text \<open>An event's row is there afterwards: inserted, or already there at this very instant.\<close>

lemma enqueue_keys:
  assumes "re_ecosystem ev \<in> {''PyPI'', ''npm''}"
  shows "queue_keys (snd (enqueue now db p ev q)) = insert (event_key ev) (queue_keys q)"
proof (cases "row_key (new_row (sq_next_id q) ev (case p of None \<Rightarrow> auto_priority db ev | Some p \<Rightarrow> p) now)
    \<in> set (map row_key (sq_rows q))")
  case True
  then obtain r where "r \<in> set (sq_rows q)"
    "(sq_package r, sq_ecosystem r, sq_version r) = (re_package ev, re_ecosystem ev, re_version ev)"
    by (auto simp: row_key_def new_row_def)
  then have "event_key ev \<in> queue_keys q" by (force simp: event_key_def queue_keys_def)
  with True show ?thesis
    by (simp add: enqueue_def insert_event_def Let_def insert_allowed_def insert_absorb)
next
  case False
  with assms show ?thesis
    by (auto simp: enqueue_def insert_event_def Let_def insert_allowed_def queue_keys_def event_key_def new_row_def)
qed

lemma enqueue_many_keys:
  assumes "\<And>x. x \<in> set evs \<Longrightarrow> re_ecosystem (snd x) \<in> {''PyPI'', ''npm''}"
  shows "queue_keys (snd (enqueue_many db evs q)) = event_key ` snd ` set evs \<union> queue_keys q"
  using assms
proof (induction evs arbitrary: q)
  case (Cons x evs)
  obtain now ev where x: "x = (now, ev)" by (cases x)
  obtain ok q1 where 1: "enqueue now db None ev q = (ok, q1)" by fastforce
  have "queue_keys q1 = insert (event_key ev) (queue_keys q)"
    using enqueue_keys [of ev now db None q] Cons.prems [of x] 1 by (simp add: x)
  with Cons.IH [of q1] Cons.prems show ?case
    by (simp add: x 1 split: prod.split) (metis snd_conv)
qed simp

lemma enqueue_events_keys:
  assumes "\<And>ev. ev \<in> set evs \<Longrightarrow> re_ecosystem ev \<in> {''PyPI'', ''npm''}"
  shows "queue_keys (wd_queue (snd (enqueue_events clock pdb evs db)))
      = event_key ` set evs \<union> queue_keys (wd_queue db)"
    and "wd_meta (snd (enqueue_events clock pdb evs db)) = wd_meta db"
proof -
  have "snd ` set (timed clock evs) = set evs"
    by (simp add: timed_def flip: set_map)
  then have "queue_keys (snd (enqueue_many pdb (timed clock evs) (wd_queue db)))
      = event_key ` set evs \<union> queue_keys (wd_queue db)"
    using enqueue_many_keys [of "timed clock evs" pdb "wd_queue db"] assms by (metis imageI)
  then show "queue_keys (wd_queue (snd (enqueue_events clock pdb evs db)))
      = event_key ` set evs \<union> queue_keys (wd_queue db)"
    by (cases "enqueue_many pdb (timed clock evs) (wd_queue db)") (simp add: enqueue_events_def)
  show "wd_meta (snd (enqueue_events clock pdb evs db)) = wd_meta db"
    by (simp add: enqueue_events_def split: prod.split)
qed

subsection \<open>The changelog's releases\<close>

definition row_release :: "changelog_row \<Rightarrow> string \<times> string" where
  "row_release r = (cl_name r, or_else (cl_version r) [])"

lemma release_events_keys:
  "(\<lambda>ev. (re_package ev, re_version ev)) ` set (to_release_events_xmlrpc seen rows)
     = row_release ` {r \<in> set rows. is_release r} - set seen"
  by (induction seen rows rule: to_release_events_xmlrpc.induct)
    (auto simp: row_release_def release_of_def Let_def)

lemma release_events_distinct:
  "distinct (map (\<lambda>ev. (re_package ev, re_version ev)) (to_release_events_xmlrpc seen rows))"
proof (induction seen rows rule: to_release_events_xmlrpc.induct)
  case (2 seen r rs)
  have "(cl_name r, or_else (cl_version r) []) \<notin> (\<lambda>ev. (re_package ev, re_version ev)) `
      set (to_release_events_xmlrpc ((cl_name r, or_else (cl_version r) []) # seen) rs)"
    unfolding release_events_keys by simp
  with 2 show ?case by (auto simp: Let_def release_of_def)
qed simp

lemma release_events_eco: "ev \<in> set (to_release_events_xmlrpc seen rows) \<Longrightarrow> re_ecosystem ev = ''PyPI''"
  by (induction seen rows rule: to_release_events_xmlrpc.induct) (auto simp: release_of_def Let_def split: if_splits)

lemma poll_with_releases:
  assumes "prefer \<in> {''auto'', ''xmlrpc''}" and "fetch_xmlrpc (wp_proxy env) (get_last_serial db) = Inr rows"
    and "to_release_events_xmlrpc [] rows \<noteq> []"
  shows "snd (pypi_poll_once env prefer max_events db)
    = snd (enqueue_events (wp_clock env) (wp_priority env) (limited max_events (to_release_events_xmlrpc [] rows))
        (set_last_serial (py_max (map cl_serial rows) 0) db))"
  using assms by (cases rows) (auto simp: pypi_poll_once_def poll_changelog_def Let_def split: prod.split)

lemma set_limited: "set (limited n xs) \<subseteq> set xs"
  by (auto simp: limited_def dest: in_set_takeD)

lemma polled_keys:
  assumes "prefer \<in> {''auto'', ''xmlrpc''}" and "fetch_xmlrpc (wp_proxy env) (get_last_serial db) = Inr rows"
    and "to_release_events_xmlrpc [] rows \<noteq> []"
  shows "queue_keys (wd_queue (snd (pypi_poll_once env prefer max_events db)))
      = event_key ` set (limited max_events (to_release_events_xmlrpc [] rows)) \<union> queue_keys (wd_queue db)"
    and "get_last_serial (snd (pypi_poll_once env prefer max_events db)) = Max (cl_serial ` set rows)"
proof -
  have eco: "re_ecosystem ev \<in> {''PyPI'', ''npm''}" if "ev \<in> set (limited max_events (to_release_events_xmlrpc [] rows))" for ev
    using release_events_eco set_limited that by fastforce
  show "queue_keys (wd_queue (snd (pypi_poll_once env prefer max_events db)))
      = event_key ` set (limited max_events (to_release_events_xmlrpc [] rows)) \<union> queue_keys (wd_queue db)"
    by (simp add: poll_with_releases [OF assms] enqueue_events_keys(1) [OF eco] set_last_serial_def set_meta_def)
  have "rows \<noteq> []" using assms(3) by auto
  then have "py_max (map cl_serial rows) 0 = Max (cl_serial ` set rows)"
    by (cases rows) (simp_all only: list.map py_max.simps fold_max_Max set_map list.set image_insert)
  then show "get_last_serial (snd (pypi_poll_once env prefer max_events db)) = Max (cl_serial ` set rows)"
    using serial_kept [of "py_max (map cl_serial rows) 0" db]
    by (simp add: poll_with_releases [OF assms] get_last_serial_def enqueue_events_keys(2) [OF eco])
qed

text \<open>C22: A poll that reads PyPI's changelog puts every release of it into the queue, whatever else the queue
  holds, as long as there are no more releases than the limit.\<close>
theorem polled_releases_queued:
  assumes "prefer \<in> {''auto'', ''xmlrpc''}" and "fetch_xmlrpc (wp_proxy env) (get_last_serial db) = Inr rows"
    and "length (to_release_events_xmlrpc [] rows) \<le> max_events"
    and "r \<in> set rows" and "is_release r"
  shows "(''PyPI'', cl_name r, the (cl_version r))
      \<in> queue_keys (wd_queue (snd (pypi_poll_once env prefer max_events db)))"
proof -
  have v: "or_else (cl_version r) [] = the (cl_version r)"
    using assms(5) by (cases "cl_version r") (auto simp: is_release_def or_else_def split: list.split)
  have "row_release r \<in> (\<lambda>ev. (re_package ev, re_version ev)) ` set (to_release_events_xmlrpc [] rows)"
    using assms(4,5) by (auto simp: release_events_keys)
  then obtain ev where ev: "ev \<in> set (to_release_events_xmlrpc [] rows)"
    and k: "row_release r = (re_package ev, re_version ev)" by auto
  have "to_release_events_xmlrpc [] rows \<noteq> []" using ev by auto
  moreover have "limited max_events (to_release_events_xmlrpc [] rows) = to_release_events_xmlrpc [] rows"
    using assms(3) by (simp add: limited_def)
  moreover have "event_key ev = (''PyPI'', cl_name r, the (cl_version r))"
    using k release_events_eco [OF ev] by (simp add: event_key_def row_release_def v)
  ultimately show ?thesis
    using polled_keys(1) [OF assms(1,2), of max_events] ev by (metis UnI1 imageI)
qed

text \<open>C23: With more releases than the limit, a poll loses some for good: a release of the changelog is not put
  into the queue, while the serial from which the next poll asks is already as high as its own or higher.\<close>
theorem truncated_releases_lost:
  assumes "prefer \<in> {''auto'', ''xmlrpc''}" and "fetch_xmlrpc (wp_proxy env) (get_last_serial db) = Inr rows"
    and "0 < max_events" and "max_events < length (to_release_events_xmlrpc [] rows)"
  shows "\<exists>r\<in>set rows. is_release r
    \<and> cl_serial r \<le> get_last_serial (snd (pypi_poll_once env prefer max_events db))
    \<and> ((''PyPI'', row_release r) \<in> queue_keys (wd_queue (snd (pypi_poll_once env prefer max_events db)))
        \<longleftrightarrow> (''PyPI'', row_release r) \<in> queue_keys (wd_queue db))"
proof -
  let ?evs = "to_release_events_xmlrpc [] rows"
  let ?k = "\<lambda>ev. (re_package ev, re_version ev)"
  have ne: "?evs \<noteq> []" using assms(4) by auto
  have lim: "limited max_events ?evs = take max_events ?evs" using assms(3,4) by (simp add: limited_def)
  let ?ev = "?evs ! max_events"
  have ev: "?ev \<in> set ?evs" using assms(4) by simp
  then have "?k ?ev \<in> ?k ` set ?evs" by (rule imageI)
  then have "?k ?ev \<in> row_release ` {r \<in> set rows. is_release r}" by (simp only: release_events_keys list.set Diff_empty)
  then obtain r where r: "r \<in> set rows" "is_release r" and k: "row_release r = ?k ?ev" by auto
  have "?evs = take max_events ?evs @ ?ev # drop (Suc max_events) ?evs" by (rule id_take_nth_drop [OF assms(4)])
  with release_events_distinct [of "[]" rows]
  have "distinct (map ?k (take max_events ?evs @ ?ev # drop (Suc max_events) ?evs))" by simp
  then have "?k ?ev \<notin> ?k ` set (take max_events ?evs)" by (simp only: map_append distinct_append list.map set_map) force
  then have "(''PyPI'', row_release r) \<notin> event_key ` set (limited max_events ?evs)"
    unfolding lim k by (auto simp: event_key_def)
  moreover have "cl_serial r \<le> Max (cl_serial ` set rows)" using r(1) by simp
  ultimately show ?thesis
    using r polled_keys [OF assms(1,2) ne, of max_events] by (intro bexI [of _ r] conjI) auto
qed

text \<open>Two releases in one answer.\<close>

definition sample_changelog :: "pyval list" where
  "sample_changelog =
     [PList [PStr ''a'', PStr ''1.0'', PInt 0, PStr ''new release'', PInt 5],
      PList [PStr ''a'', PStr ''1.0'', PInt 0, PStr ''add source file a.tar.gz'', PInt 6],
      PList [PStr ''b'', PStr ''2.0'', PInt 0, PStr ''new release'', PInt 7]]"

definition sample_pypi :: pypi_env where
  "sample_pypi = \<lparr>wp_proxy = (\<lambda>n. Inr sample_changelog), wp_rss = Inr [], wp_clock = int, wp_priority = sample_db\<rparr>"

definition sample_rows :: "changelog_row list" where
  "sample_rows =
     [\<lparr>cl_name = ''a'', cl_version = Some ''1.0'', cl_timestamp = PInt 0, cl_action = Some ''new release'', cl_serial = 5\<rparr>,
      \<lparr>cl_name = ''a'', cl_version = Some ''1.0'', cl_timestamp = PInt 0,
       cl_action = Some ''add source file a.tar.gz'', cl_serial = 6\<rparr>,
      \<lparr>cl_name = ''b'', cl_version = Some ''2.0'', cl_timestamp = PInt 0, cl_action = Some ''new release'', cl_serial = 7\<rparr>]"

definition fresh_watch :: watch_db where
  "fresh_watch = \<lparr>wd_meta = [], wd_queue = empty_queue\<rparr>"

lemma sample_fetched: "fetch_xmlrpc (wp_proxy sample_pypi) (get_last_serial fresh_watch) = Inr sample_rows"
  by (simp add: fetch_xmlrpc_def sample_pypi_def sample_changelog_def changelog_entry_def sample_rows_def
      List.map_filter_simps)

lemma sample_releases:
  "length (to_release_events_xmlrpc [] sample_rows) = 2" "is_release (sample_rows ! 2)"
  by (simp_all add: sample_rows_def is_release_def action_of_def is_release_action_def py_lower_def lower_char_def
      Let_def)

theorem polled_releases_queued_witness:
  "(''PyPI'', ''b'', ''2.0'') \<in> queue_keys (wd_queue (snd (pypi_poll_once sample_pypi ''auto'' 500 fresh_watch)))"
  using polled_releases_queued [OF _ sample_fetched _ _ sample_releases(2), of "''auto''" 500]
  by (simp add: sample_releases(1)) (simp add: sample_rows_def)

theorem truncated_releases_lost_witness:
  "\<exists>r\<in>set sample_rows. cl_serial r \<le> get_last_serial (snd (pypi_poll_once sample_pypi ''xmlrpc'' 1 fresh_watch))
     \<and> (''PyPI'', row_release r) \<notin> queue_keys (wd_queue (snd (pypi_poll_once sample_pypi ''xmlrpc'' 1 fresh_watch)))"
  using truncated_releases_lost [OF _ sample_fetched, of "''xmlrpc''" 1]
  by (auto simp: sample_releases(1) fresh_watch_def empty_queue_def queue_keys_def)

subsection \<open>npm's changes\<close>

text \<open>A changed package whose metadata cannot be fetched gives no event, and the sequence number moves on.\<close>

lemma unfetched_package_skipped:
  "wn_meta env name = Inl e \<Longrightarrow> package_events env k name seq = Inr []"
  by (simp add: package_events_def fetch_package_meta_def)

lemma npm_sequence_kept:
  assumes "npm_poll_once env limit fv k db = Inr (out, db')" and "map_of out ''last_seq'' = Some v"
  shows "map_of (wd_meta db') LAST_SEQ_KEY = Some (pv_str (wn_show_float env) v)"
  using assms by (auto simp: npm_poll_once_def Let_def bindE_Inr_iff set_meta_def update_conv case_prod_unfold
      split: sum.splits)

end
