(* ===== verification/Feeds.thy ===== *)
theory Feeds
  imports Watchers ThreatFilter StageCache
begin

text \<open>
  \<^verbatim>\<open>feeds/osv.py\<close>, \<^verbatim>\<open>feeds/popular.py\<close>, \<^verbatim>\<open>feeds/network_ioc.py\<close> and \<^verbatim>\<open>feeds/refresh.py\<close>:
  advisories, popular packages and network indicators downloaded into the threat database. Downloads, SHA-256,
  zip, JSON, CSV, URL parsing and clocks are parameters. A JSON field of another type than the feed's is a
  \<open>TypeError\<close>, as it is in the code wherever the field is used as text.
\<close>

subsection \<open>Tables\<close>

record advisory_row =
  fm_advisory_id :: string
  fm_ecosystem :: string
  fm_package :: string
  fm_version_glob :: string
  fm_attack_type :: string
  fm_source :: string
  fm_summary :: string
  fm_code_indicators :: string
  fm_network_indicators :: string
  fm_references :: string
  fm_published :: string
  fm_modified :: string

record known_popular_row =
  fp_ecosystem :: string
  fp_package :: string
  fp_rank :: int
  fp_downloads_30d :: "int option"
  fp_source :: string

record ioc_row =
  io_indicator :: string
  io_indicator_type :: string
  io_source :: string
  io_severity :: string
  io_note :: string

record feed_meta_row =
  fe_source :: string
  fe_last_fetched_at :: string
  fe_record_count :: int
  fe_fetch_sha256 :: string
  fe_feed_version :: string
  fe_error :: "string option"

record feed_db =
  fd_malicious :: "advisory_row list"
  fd_popular :: "known_popular_row list"
  fd_blocklist :: "ioc_row list"
  fd_meta :: "feed_meta_row list"
  fd_cache :: cache_db
  fd_stages :: stage_db

record zip_entry =
  ze_name :: string
  ze_file_size :: nat
  ze_compress_size :: nat
  ze_read :: "pyexn + string"

record feed_env =
  fv_get :: "string \<Rightarrow> pyexn + string"
  fv_sha256 :: "string \<Rightarrow> string"
  fv_unzip :: "string \<Rightarrow> pyexn + zip_entry list"
  fv_loads :: "string \<Rightarrow> pyexn + pyval"
  fv_dumps :: "pyval \<Rightarrow> string"
  fv_csv :: "string \<Rightarrow> pyexn + string list"
  fv_host :: "string \<Rightarrow> pyexn + string option"
  fv_decode :: "string \<Rightarrow> string"
  fv_now_sql :: string
  fv_feed_version :: string
  fv_cache_env :: cache_env
  fv_show_float :: "rat \<Rightarrow> string"

subsection \<open>What the feeds write\<close>

definition advisory_key :: "advisory_row \<Rightarrow> string \<times> string \<times> string" where
  "advisory_key r = (fm_advisory_id r, fm_ecosystem r, fm_package r)"

text \<open>
  A new advisory is appended and fires the two triggers; a known one is updated but for the date it was
  published, and fires nothing, since they are triggers on insertion.
\<close>

definition upsert_advisory :: "feed_env \<Rightarrow> advisory_row \<Rightarrow> feed_db \<Rightarrow> feed_db" where
  "upsert_advisory env r db =
     (case fetch advisory_key (fd_malicious db) (advisory_key r) of
        Some old \<Rightarrow> db\<lparr>fd_malicious := upsert advisory_key (r\<lparr>fm_published := fm_published old\<rparr>) (fd_malicious db)\<rparr>
      | None \<Rightarrow> db\<lparr>fd_malicious := upsert advisory_key r (fd_malicious db),
                   fd_cache := on_new_advisory (fv_cache_env env) (fm_ecosystem r) (fm_package r)
                     (fm_advisory_id r) (fd_cache db),
                   fd_stages := drop_threat_stages (fm_ecosystem r) (fm_package r) (fd_stages db)\<rparr>)"

definition popular_key :: "known_popular_row \<Rightarrow> string \<times> string" where
  "popular_key r = (fp_ecosystem r, fp_package r)"

definition ioc_key :: "ioc_row \<Rightarrow> string \<times> string" where
  "ioc_key r = (io_indicator r, io_source r)"

definition meta_row :: "feed_env \<Rightarrow> string \<Rightarrow> nat \<Rightarrow> string \<Rightarrow> string option \<Rightarrow> feed_meta_row" where
  "meta_row env source n sha err =
     \<lparr>fe_source = source, fe_last_fetched_at = fv_now_sql env, fe_record_count = int n,
      fe_fetch_sha256 = sha, fe_feed_version = fv_feed_version env, fe_error = err\<rparr>"

definition record_meta :: "feed_env \<Rightarrow> string \<Rightarrow> nat \<Rightarrow> string \<Rightarrow> string option \<Rightarrow> feed_db \<Rightarrow> feed_db" where
  "record_meta env source n sha err db =
     db\<lparr>fd_meta := upsert fe_source (meta_row env source n sha err) (fd_meta db)\<rparr>"

definition unchanged :: "string \<Rightarrow> string \<Rightarrow> feed_db \<Rightarrow> feed_meta_row option" where
  "unchanged source sha db =
     (case fetch fe_source (fd_meta db) source of
        Some m \<Rightarrow> if fe_fetch_sha256 m = sha then Some m else None
      | None \<Rightarrow> None)"

text \<open>\<^verbatim>\<open>_http_get\<close> and \<^verbatim>\<open>_download_with_sha256\<close>.\<close>

definition https_get :: "feed_env \<Rightarrow> string \<Rightarrow> pyexn + string \<times> string" where
  "https_get env url =
     (if \<not> startswith url ''https://'' then Inl (ValueError (''feed URL must be HTTPS: '' @ url))
      else bindE (fv_get env url) (\<lambda>body. Inr (body, fv_sha256 env body)))"

subsection \<open>Advisories of OSV\<close>

definition OSV_URLS :: "(string \<times> string) list" where
  "OSV_URLS =
     [(''PyPI'', ''https://osv-vulnerabilities.storage.googleapis.com/PyPI/all.zip''),
      (''npm'', ''https://osv-vulnerabilities.storage.googleapis.com/npm/all.zip'')]"

definition STRONG_MALICIOUS_PHRASES :: "string list" where
  "STRONG_MALICIOUS_PHRASES =
     [''malicious package'', ''malicious code'',
      ''malware was found'', ''malware detected'',
      ''typosquatting'', ''typo-squat'', ''slopsquatting'',
      ''dependency confusion'',
      ''credential stealer'', ''info stealer'', ''infostealer'',
      ''supply chain attack'',
      ''backdoored'', ''contains a backdoor'',
      ''any version of this package'',
      ''exfiltrate'', ''exfiltrates'', ''harvest credentials'']"

definition NETWORK_INDICATOR_RE :: regex where
  "NETWORK_INDICATOR_RE =
     rxP (''(?:https?://[^`s\"'' @ [CHR 0x27] @ ''>)]+''
          @ ''|[a-zA-Z0-9.-]+`.(?:com|net|org|io|xyz|info|top|tk|ml|ga|cf|gq|onion)(?:/[^`s\"'' @ [CHR 0x27]
          @ ''>)]*)?''
          @ ''|`b(?:`d{1,3}`.){3}`d{1,3}(?::`d+)?)'')"

definition CODE_INDICATOR_PATTERNS :: "regex list" where
  "CODE_INDICATOR_PATTERNS = map rxI
     [''`bbase64`.b64decode`b'', ''`bexec`s*`('', ''`beval`s*`('',
      ''`bsubprocess`.(?:Popen|run|call)`b'', ''`bos`.system`b'',
      ''`bchild_process`.(?:exec|spawn)`b'',
      ''`brequests`.(?:get|post)`b'', ''`burllib`.request`b'',
      ''`bprocess`.env`b'', ''`bos`.environ`b'', ''`batob`s*`('',
      ''`bcurl`b'', ''`bwget`b'', ''`bpowershell`b'']"

text \<open>\<^verbatim>\<open>s.replace(p, "")\<close>.\<close>

function remove_all :: "string \<Rightarrow> string \<Rightarrow> string" where
  "remove_all p [] = []"
| "remove_all p (x # xs) =
     (if p \<noteq> [] \<and> startswith (x # xs) p then remove_all p (drop (length p) (x # xs))
      else x # remove_all p xs)"
  by pat_completeness auto
termination
  by (relation "measure (length \<circ> snd)") (auto simp: Suc_le_eq)

definition code_name :: "regex \<Rightarrow> string" where
  "code_name r =
     strip_chars [CHR 0x5C] (remove_all '')'' (remove_all ''(?:''
       (remove_all (CHR 0x5C # ''s*'') (remove_all (CHR 0x5C # ''b'') (rg_pattern r)))))"

definition extract_indicators :: "string \<Rightarrow> string list \<times> string list" where
  "extract_indicators text =
     (sorted_set (map code_name (filter (\<lambda>r. re_found r text) CODE_INDICATOR_PATTERNS)),
      take 10 (dedup_first (map (group0 text) (finditer NETWORK_INDICATOR_RE text))))"

definition classify_text :: "string \<Rightarrow> string" where
  "classify_text text =
     (if list_ex (\<lambda>p. contains p text) STRONG_MALICIOUS_PHRASES
      then if list_ex (\<lambda>k. contains k text) [''typosquat'', ''typo-squat'', ''typo squat''] then ''typosquatting''
           else if contains ''dependency confusion'' text then ''dependency_confusion''
           else if contains ''slopsquat'' text then ''slopsquatting''
           else ''malicious_package''
      else ''other'')"

definition mal_id :: "string \<Rightarrow> bool" where
  "mal_id s = startswith (py_upper s) ''MAL-''"

fun any_mal :: "pyval list \<Rightarrow> pyexn + bool" where
  "any_mal [] = Inr False"
| "any_mal (v # vs) = bindE (attr_str ''upper'' v) (\<lambda>s. if mal_id s then Inr True else any_mal vs)"

text \<open>The summary and the details are added without the \<^verbatim>\<open>or ""\<close> of the other fields.\<close>

definition osv_classify :: "pydict \<Rightarrow> pyexn + string" where
  "osv_classify d =
     bindE (attr_str ''upper'' (py_or (dget d ''id'') (PStr []))) (\<lambda>i.
       if mal_id i then Inr ''malicious_package''
       else bindE (py_list (py_or (d_get d ''aliases'' (PList [])) (PList []))) (\<lambda>aliases.
       bindE (any_mal aliases) (\<lambda>mal.
         if mal then Inr ''malicious_package''
         else bindE (as_str (d_get d ''summary'' (PStr []))) (\<lambda>s.
              bindE (as_str (d_get d ''details'' (PStr []))) (\<lambda>t.
                Inr (classify_text (py_lower (s @ '' '' @ t))))))))"

definition field_or :: "pydict \<Rightarrow> string \<Rightarrow> pyexn + string" where
  "field_or d k = as_str (py_or (dget d k) (PStr []))"

definition list_or :: "pydict \<Rightarrow> string \<Rightarrow> pyexn + pyval list" where
  "list_or d k = py_list (py_or (dget d k) (PList []))"

definition ref_urls :: "pydict \<Rightarrow> pyexn + pyval list" where
  "ref_urls d =
     bindE (list_or d ''references'') (\<lambda>rs.
     bindE (mapE (\<lambda>r. bindE (attr_dict ''get'' r) (\<lambda>x. Inr (dget x ''url''))) rs) (\<lambda>urls.
       Inr (take 10 (filter py_truth urls))))"

definition event_versions :: "pyval \<Rightarrow> pyexn + string list" where
  "event_versions ev =
     bindE (attr_dict ''items'' ev) (\<lambda>d.
       mapE as_str (filter (\<lambda>v. py_truth v \<and> v \<noteq> PStr ''0'')
         (map snd (filter (\<lambda>kv. fst kv \<in> {''introduced'', ''fixed'', ''limit''}) d))))"

definition range_versions :: "pyval \<Rightarrow> pyexn + string list" where
  "range_versions r =
     bindE (attr_dict ''get'' r) (\<lambda>d. bindE (list_or d ''events'') (\<lambda>evs.
     bindE (mapE event_versions evs) (\<lambda>vs. Inr (concat vs))))"

definition affected_versions :: "pydict \<Rightarrow> pyexn + string list" where
  "affected_versions a =
     bindE (bindE (list_or a ''versions'') (mapE as_str)) (\<lambda>vs.
     bindE (bindE (list_or a ''ranges'') (mapE range_versions)) (\<lambda>rs.
       Inr (sorted_set (vs @ concat rs))))"

definition affected_row :: "(string \<Rightarrow> string \<Rightarrow> advisory_row) \<Rightarrow> pyval \<Rightarrow> pyexn + advisory_row list" where
  "affected_row mk a =
     bindE (attr_dict ''get'' a) (\<lambda>d.
     bindE (sub_dict (dget d ''package'')) (\<lambda>p.
     bindE (field_or p ''name'') (\<lambda>name.
       if name = [] then Inr []
       else bindE (affected_versions d) (\<lambda>versions.
         Inr [mk name (if versions = [] then ''*'' else take 300 (py_join '','' versions))]))))"

definition SUPPLY_CHAIN_TYPES :: "string list" where
  "SUPPLY_CHAIN_TYPES =
     [''malicious_package'', ''typosquatting'',
      ''dependency_confusion'', ''slopsquatting'']"

definition parse_one :: "feed_env \<Rightarrow> pyval \<Rightarrow> string \<Rightarrow> pyexn + advisory_row list" where
  "parse_one env raw ecosystem =
     bindE (attr_dict ''get'' raw) (\<lambda>d.
     bindE (as_str (d_get d ''id'' (PStr []))) (\<lambda>advisory_id.
       if advisory_id = [] then Inr []
       else bindE (list_or d ''affected'') (\<lambda>affected.
       if affected = [] then Inr []
       else bindE (field_or d ''summary'') (\<lambda>summary0.
       bindE (field_or d ''details'') (\<lambda>details0.
       let summary = take 500 summary0;
           (code_ind, net_ind) = extract_indicators (summary @ newline @ take 2000 details0)
       in bindE (osv_classify d) (\<lambda>attack_type.
       bindE (ref_urls d) (\<lambda>refs.
       if attack_type \<notin> set SUPPLY_CHAIN_TYPES then Inr []
       else bindE (as_str (d_get d ''published'' (PStr []))) (\<lambda>published.
       bindE (as_str (d_get d ''modified'' (PStr []))) (\<lambda>modified.
       bindE (mapE (affected_row (\<lambda>name glob.
           \<lparr>fm_advisory_id = advisory_id, fm_ecosystem = ecosystem, fm_package = name, fm_version_glob = glob,
            fm_attack_type = attack_type, fm_source = ''OSV'', fm_summary = summary,
            fm_code_indicators = fv_dumps env (pstrs code_ind), fm_network_indicators = fv_dumps env (pstrs net_ind),
            fm_references = fv_dumps env (PList refs), fm_published = published, fm_modified = modified\<rparr>)) affected)
         (\<lambda>rows. Inr (concat rows)))))))))))"

subsection \<open>Ingesting OSV\<close>

definition MAX_ENTRY_BYTES :: nat where
  "MAX_ENTRY_BYTES = 16 * 1024 * 1024"

definition MAX_TOTAL_BYTES :: nat where
  "MAX_TOTAL_BYTES = 2 * 1024 * 1024 * 1024"

definition MAX_RATIO :: nat where
  "MAX_RATIO = 200"

definition suspicious_entry :: "zip_entry \<Rightarrow> bool" where
  "suspicious_entry e =
     (ze_file_size e > MAX_ENTRY_BYTES
      \<or> ze_compress_size e > 0 \<and> ze_file_size e > MAX_RATIO * ze_compress_size e)"

text \<open>
  The loop over the entries: \<open>rows\<close> and \<open>n\<close> what has been parsed so far, \<open>used\<close> the bytes unpacked. It ends at
  the limit on rows, if there is one, and when the entries together are too large.
\<close>

definition reached :: "nat option \<Rightarrow> 'a list \<Rightarrow> bool" where
  "reached limit rows = (case limit of None \<Rightarrow> False | Some k \<Rightarrow> k \<noteq> 0 \<and> length rows \<ge> k)"

fun osv_entries :: "feed_env \<Rightarrow> string \<Rightarrow> nat option \<Rightarrow> zip_entry list \<Rightarrow> nat \<Rightarrow> nat \<Rightarrow> advisory_row list
    \<Rightarrow> pyexn + nat \<times> advisory_row list" where
  "osv_entries env eco limit [] used n rows = Inr (n, rows)"
| "osv_entries env eco limit (e # es) used n rows =
     (if suspicious_entry e then osv_entries env eco limit es used n rows
      else let used = used + ze_file_size e in
        if used > MAX_TOTAL_BYTES then Inr (n, rows)
        else (case bindE (ze_read e) (fv_loads env) of
                Inl _ \<Rightarrow> osv_entries env eco limit es used n rows
              | Inr raw \<Rightarrow>
                  bindE (parse_one env raw eco) (\<lambda>parsed.
                    if parsed = [] then osv_entries env eco limit es used n rows
                    else if reached limit (rows @ parsed) then Inr (Suc n, rows @ parsed)
                    else osv_entries env eco limit es used (Suc n) (rows @ parsed))))"

definition json_entries :: "zip_entry list \<Rightarrow> zip_entry list" where
  "json_entries es = filter (\<lambda>e. endswith (ze_name e) ''.json'') es"

type_synonym 'a feed_action = "feed_db \<Rightarrow> (pyexn + 'a) \<times> feed_db"

definition osv_source :: "string \<Rightarrow> string" where
  "osv_source eco = ''osv-'' @ py_lower eco"

definition ingest_osv :: "feed_env \<Rightarrow> string \<Rightarrow> nat option \<Rightarrow> bool \<Rightarrow> pydict feed_action" where
  "ingest_osv env eco limit skip_if_unchanged db =
     (case map_of OSV_URLS eco of
        None \<Rightarrow> (Inl (ValueError (''unsupported ecosystem: '' @ eco)), db)
      | Some url \<Rightarrow>
          (case https_get env url of
             Inl e \<Rightarrow>
               (Inr [(''ok'', PBool False), (''ecosystem'', PStr eco), (''error'', PStr (exn_str e))],
                record_meta env (osv_source eco) 0 [] (Some (''download failed: '' @ exn_str e)) db)
           | Inr (body, sha) \<Rightarrow>
               (case (if skip_if_unchanged then unchanged (osv_source eco) sha db else None) of
                  Some m \<Rightarrow>
                    (Inr [(''ok'', PBool True), (''ecosystem'', PStr eco), (''skipped'', PBool True),
                          (''record_count'', PInt (fe_record_count m))], db)
                | None \<Rightarrow>
                    (case bindE (fv_unzip env body) (\<lambda>es. osv_entries env eco limit (json_entries es) 0 0 []) of
                       Inl e \<Rightarrow> (Inl e, db)
                     | Inr (n, rows) \<Rightarrow>
                         (Inr [(''ok'', PBool True), (''ecosystem'', PStr eco), (''advisories'', PInt (int n)),
                               (''rows'', PInt (int (length rows))), (''fetch_sha256'', PStr sha),
                               (''feed_version'', PStr (fv_feed_version env))],
                          record_meta env (osv_source eco) (length rows) sha None
                            (fold (upsert_advisory env) rows db))))))"

subsection \<open>Popular packages\<close>

definition PYPI_TOP_URL :: string where
  "PYPI_TOP_URL = ''https://hugovk.github.io/top-pypi-packages/top-pypi-packages.json''"

definition NPM_TOP_URL :: string where
  "NPM_TOP_URL = ''https://anvaka.github.io/npmrank/online/npmrank.json''"

definition http_json :: "feed_env \<Rightarrow> string \<Rightarrow> pyexn + pyval \<times> string" where
  "http_json env url =
     bindE (https_get env url) (\<lambda>(body, sha). bindE (fv_loads env body) (\<lambda>v. Inr (v, sha)))"

definition download_failed :: "feed_env \<Rightarrow> string \<Rightarrow> string \<times> pyval \<Rightarrow> pyexn \<Rightarrow> pydict feed_action" where
  "download_failed env source label e db =
     (Inr [(''ok'', PBool False), label, (''error'', PStr (exn_str e))],
      record_meta env source 0 [] (Some (exn_str e)) db)"

definition feed_skipped :: "string \<times> pyval \<Rightarrow> pydict" where
  "feed_skipped label = [(''ok'', PBool True), label, (''skipped'', PBool True)]"

definition feed_done :: "feed_env \<Rightarrow> string \<times> pyval \<Rightarrow> nat \<Rightarrow> string \<Rightarrow> pydict" where
  "feed_done env label n sha =
     [(''ok'', PBool True), label, (''rows'', PInt (int n)), (''feed_version'', PStr (fv_feed_version env)),
      (''fetch_sha256'', PStr sha)]"

definition popular_row_of :: "nat \<Rightarrow> pyval \<Rightarrow> pyexn + known_popular_row list" where
  "popular_row_of rank item =
     bindE (attr_dict ''get'' item) (\<lambda>d.
       let name = py_or (dget d ''project'') (dget d ''name'') in
       if \<not> py_truth name then Inr []
       else bindE (attr_str ''lower'' name) (\<lambda>s.
            bindE (int_of_value (py_or (dget d ''download_count'') (PInt 0))) (\<lambda>downloads.
              Inr [\<lparr>fp_ecosystem = ''PyPI'', fp_package = py_lower s, fp_rank = int rank,
                    fp_downloads_30d = Some downloads, fp_source = ''top-pypi-packages''\<rparr>])))"

definition pypi_top_rows :: "nat \<Rightarrow> pyval list \<Rightarrow> pyexn + known_popular_row list" where
  "pypi_top_rows top_n items =
     bindE (mapE (\<lambda>(rank, item). popular_row_of rank item) (zip [1..<Suc top_n] (take top_n items))) (\<lambda>rs.
       Inr (concat rs))"

definition dict_field :: "pyval \<Rightarrow> string \<Rightarrow> pyval \<Rightarrow> pyval" where
  "dict_field v k dflt = (case v of PDict d \<Rightarrow> d_get d k dflt | _ \<Rightarrow> dflt)"

definition ingest_rows ::
  "feed_env \<Rightarrow> string \<Rightarrow> string \<times> pyval \<Rightarrow> string \<Rightarrow> pyexn + known_popular_row list \<Rightarrow> pydict feed_action" where
  "ingest_rows env source label sha rows db =
     (case rows of
        Inl e \<Rightarrow> (Inl e, db)
      | Inr rs \<Rightarrow> (Inr (feed_done env label (length rs) sha),
                   record_meta env source (length rs) sha None
                     (db\<lparr>fd_popular := fold (upsert popular_key) rs (fd_popular db)\<rparr>)))"

definition ingest_pypi_top :: "feed_env \<Rightarrow> nat \<Rightarrow> bool \<Rightarrow> pydict feed_action" where
  "ingest_pypi_top env top_n skip_if_unchanged db =
     (let source = ''popular-pypi''; label = (''ecosystem'', PStr ''PyPI'') in
      case http_json env PYPI_TOP_URL of
        Inl e \<Rightarrow> download_failed env source label e db
      | Inr (data, sha) \<Rightarrow>
          if skip_if_unchanged \<and> unchanged source sha db \<noteq> None then (Inr (feed_skipped label), db)
          else let rows_in = dict_field data ''rows'' (PList []) in
            if \<not> py_truth rows_in
            then (Inr [(''ok'', PBool False), label, (''error'', PStr ''empty top-pypi feed'')], db)
            else ingest_rows env source label sha (bindE (as_list rows_in) (pypi_top_rows top_n)) db)"

text \<open>npm's packages are ranked by their score, the highest first.\<close>

definition npm_top_rows :: "nat \<Rightarrow> pydict \<Rightarrow> pyexn + known_popular_row list" where
  "npm_top_rows top_n d =
     bindE (mapE (\<lambda>(name, score). bindE (as_float (py_or score (PInt 0))) (\<lambda>x. Inr (name, x))) d) (\<lambda>scored.
       Inr (map (\<lambda>(rank, (name, score)).
           \<lparr>fp_ecosystem = ''npm'', fp_package = py_lower name, fp_rank = int rank, fp_downloads_30d = None,
            fp_source = ''anvaka-npmrank''\<rparr>)
         (zip [1..<Suc top_n] (take top_n (sort_key (\<lambda>x. - snd x) scored)))))"

definition ingest_npm_top :: "feed_env \<Rightarrow> nat \<Rightarrow> bool \<Rightarrow> pydict feed_action" where
  "ingest_npm_top env top_n skip_if_unchanged db =
     (let source = ''popular-npm''; label = (''ecosystem'', PStr ''npm'') in
      case http_json env NPM_TOP_URL of
        Inl e \<Rightarrow> download_failed env source label e db
      | Inr (data, sha) \<Rightarrow>
          if skip_if_unchanged \<and> unchanged source sha db \<noteq> None then (Inr (feed_skipped label), db)
          else let rank_dict = dict_field data ''rank'' (PDict []) in
            if \<not> py_truth rank_dict
            then (Inr [(''ok'', PBool False), label, (''error'', PStr ''empty npmrank feed'')], db)
            else ingest_rows env source label sha (bindE (attr_dict ''items'' rank_dict) (npm_top_rows top_n)) db)"

definition feed_lookup_popular :: "feed_db \<Rightarrow> string \<Rightarrow> string \<Rightarrow> pydict option" where
  "feed_lookup_popular db eco package =
     map_option (\<lambda>r. [(''rank'', PInt (fp_rank r)), (''downloads_30d'', popt PInt (fp_downloads_30d r)),
                      (''source'', PStr (fp_source r))])
       (fetch popular_key (fd_popular db) (eco, py_lower package))"

subsection \<open>Network indicators\<close>

definition URLHAUS_CSV :: string where
  "URLHAUS_CSV = ''https://urlhaus.abuse.ch/downloads/csv_recent/''"

definition FEODO_JSON :: string where
  "FEODO_JSON = ''https://feodotracker.abuse.ch/downloads/ipblocklist.json''"

definition ioc_of :: "string \<Rightarrow> string \<Rightarrow> string \<Rightarrow> string \<Rightarrow> ioc_row" where
  "ioc_of indicator kind source descr =
     \<lparr>io_indicator = indicator, io_indicator_type = kind, io_source = source, io_severity = ''HIGH'', io_note = descr\<rparr>"

definition unquoted :: "string \<Rightarrow> string" where
  "unquoted s = strip_chars ''\"'' (py_strip s)"

definition urlhaus_line :: "feed_env \<Rightarrow> string \<Rightarrow> pyexn + ioc_row list" where
  "urlhaus_line env raw =
     (let line = py_strip raw in
      if line = [] \<or> startswith line ''#'' then Inr []
      else bindE (fv_csv env line) (\<lambda>parts.
        if length parts < 7 then Inr []
        else let url = unquoted (parts ! 2); threat = unquoted (parts ! 5); tags = unquoted (parts ! 6) in
          if url = [] then Inr []
          else let host = try_else (fv_host env url) None in
            Inr (ioc_of url ''url'' ''urlhaus'' (threat @ ''; tags='' @ tags)
                 # (if truthy_opt host
                    then [ioc_of (or_else host []) ''domain'' ''urlhaus'' (threat @ ''; from-url'')] else []))))"

fun urlhaus_rows :: "feed_env \<Rightarrow> nat option \<Rightarrow> string list \<Rightarrow> ioc_row list \<Rightarrow> pyexn + ioc_row list" where
  "urlhaus_rows env limit [] rows = Inr rows"
| "urlhaus_rows env limit (l # ls) rows =
     bindE (urlhaus_line env l) (\<lambda>new.
       if new \<noteq> [] \<and> reached limit (rows @ new) then Inr (rows @ new)
       else urlhaus_rows env limit ls (rows @ new))"

fun first_by :: "('a \<Rightarrow> 'k) \<Rightarrow> 'k list \<Rightarrow> 'a list \<Rightarrow> 'a list" where
  "first_by key seen [] = []"
| "first_by key seen (x # xs) =
     (if key x \<in> set seen then first_by key seen xs else x # first_by key (key x # seen) xs)"

definition store_iocs :: "feed_env \<Rightarrow> string \<Rightarrow> string \<Rightarrow> ioc_row list \<Rightarrow> pydict feed_action" where
  "store_iocs env source sha rows db =
     (Inr (feed_done env (''source'', PStr source) (length rows) sha),
      record_meta env source (length rows) sha None
        (db\<lparr>fd_blocklist := fold (upsert ioc_key) rows (fd_blocklist db)\<rparr>))"

definition ingest_urlhaus :: "feed_env \<Rightarrow> nat option \<Rightarrow> bool \<Rightarrow> pydict feed_action" where
  "ingest_urlhaus env limit skip_if_unchanged db =
     (let source = ''urlhaus''; label = (''source'', PStr source) in
      case https_get env URLHAUS_CSV of
        Inl e \<Rightarrow> download_failed env source label e db
      | Inr (body, sha) \<Rightarrow>
          if skip_if_unchanged \<and> unchanged source sha db \<noteq> None then (Inr (feed_skipped label), db)
          else (case urlhaus_rows env limit (py_splitlines (fv_decode env body)) [] of
                  Inl e \<Rightarrow> (Inl e, db)
                | Inr rows \<Rightarrow> store_iocs env source sha (first_by ioc_key [] rows) db))"

definition feodo_item :: "feed_env \<Rightarrow> pyval \<Rightarrow> pyexn + ioc_row list" where
  "feodo_item env item =
     bindE (attr_dict ''get'' item) (\<lambda>d.
       if \<not> py_truth (dget d ''ip_address'') then Inr []
       else bindE (as_str (dget d ''ip_address'')) (\<lambda>ip.
         let str = pv_str (fv_show_float env) in
         Inr [ioc_of ip ''ip'' ''feodo'' (str (d_get d ''malware'' (PStr ''?'')) @ ''; ''
                @ ''first='' @ str (d_get d ''first_seen'' (PStr ''?'')) @ ''; ''
                @ ''last='' @ str (d_get d ''last_online'' (PStr ''?'')))]))"

definition ingest_feodo :: "feed_env \<Rightarrow> bool \<Rightarrow> pydict feed_action" where
  "ingest_feodo env skip_if_unchanged db =
     (let source = ''feodo''; label = (''source'', PStr source) in
      case https_get env FEODO_JSON of
        Inl e \<Rightarrow> download_failed env source label e db
      | Inr (body, sha) \<Rightarrow>
          if skip_if_unchanged \<and> unchanged source sha db \<noteq> None then (Inr (feed_skipped label), db)
          else (case fv_loads env body of
                  Inl e \<Rightarrow> (Inr [(''ok'', PBool False), label, (''error'', PStr (''json: '' @ exn_str e))], db)
                | Inr data \<Rightarrow>
                    (case bindE (py_list data) (mapE (feodo_item env)) of
                       Inl e \<Rightarrow> (Inl e, db)
                     | Inr rows \<Rightarrow> store_iocs env source sha (concat rows) db)))"

definition lookup_indicator :: "feed_db \<Rightarrow> string \<Rightarrow> pydict list" where
  "lookup_indicator db indicator =
     map (\<lambda>r. [(''type'', PStr (io_indicator_type r)), (''source'', PStr (io_source r)),
               (''severity'', PStr (io_severity r)), (''note'', PStr (io_note r))])
       (sort_key io_severity (filter (\<lambda>r. io_indicator r = indicator) (fd_blocklist db)))"

subsection \<open>All feeds\<close>

record feed_choice =
  fc_osv_pypi :: bool
  fc_osv_npm :: bool
  fc_popular_pypi :: bool
  fc_popular_npm :: bool
  fc_urlhaus :: bool
  fc_feodo :: bool

text \<open>An exception of one feed ends the refresh.\<close>

fun run_feeds :: "(bool \<times> pydict feed_action) list \<Rightarrow> pydict list feed_action" where
  "run_feeds [] db = (Inr [], db)"
| "run_feeds ((wanted, act) # acts) db =
     (if \<not> wanted then run_feeds acts db
      else (case act db of
              (Inl e, db1) \<Rightarrow> (Inl e, db1)
            | (Inr r, db1) \<Rightarrow>
                (case run_feeds acts db1 of
                   (Inl e, db2) \<Rightarrow> (Inl e, db2)
                 | (Inr rs, db2) \<Rightarrow> (Inr (r # rs), db2))))"

definition feed_actions :: "feed_env \<Rightarrow> feed_choice \<Rightarrow> bool \<Rightarrow> nat option \<Rightarrow> (bool \<times> pydict feed_action) list" where
  "feed_actions env c skip osv_limit =
     [(fc_osv_pypi c, ingest_osv env ''PyPI'' osv_limit skip),
      (fc_osv_npm c, ingest_osv env ''npm'' osv_limit skip),
      (fc_popular_pypi c, ingest_pypi_top env 5000 skip),
      (fc_popular_npm c, ingest_npm_top env 5000 skip),
      (fc_urlhaus c, ingest_urlhaus env None skip),
      (fc_feodo c, ingest_feodo env skip)]"

definition run_all :: "feed_env \<Rightarrow> rat \<Rightarrow> feed_choice \<Rightarrow> bool \<Rightarrow> nat option \<Rightarrow> pydict feed_action" where
  "run_all env elapsed c skip osv_limit db =
     (case run_feeds (feed_actions env c skip osv_limit) db of
        (Inl e, db1) \<Rightarrow> (Inl e, db1)
      | (Inr rs, db1) \<Rightarrow>
          (Inr [(''elapsed_s'', PFloat (round1 elapsed)), (''results'', PList (map PDict rs)),
                (''ok_all'', PBool (list_all (\<lambda>r. py_truth (dget r ''ok'')) rs))], db1))"

definition show_status :: "string \<Rightarrow> feed_db \<Rightarrow> pydict" where
  "show_status now db =
     [(''feeds'', PList (map (\<lambda>m. PDict
         [(''source'', PStr (fe_source m)), (''last_fetched_at'', PStr (fe_last_fetched_at m)),
          (''record_count'', PInt (fe_record_count m)), (''fetch_sha256_prefix'', PStr (take 12 (fe_fetch_sha256 m))),
          (''feed_version'', PStr (fe_feed_version m)), (''error'', popt PStr (fe_error m))])
         (sort_key fe_source (fd_meta db)))),
      (''tables'', PDict
        [(''known_malicious'', PInt (int (length (fd_malicious db)))),
         (''known_popular'', PInt (int (length (fd_popular db)))),
         (''network_blocklist'', PInt (int (length (fd_blocklist db)))),
         (''analyses'', PInt (int (length (cb_analyses (fd_cache db))))),
         (''cache_invalidation_log'', PInt (int (length (cb_log (fd_cache db)))))]),
      (''checked_at'', PStr now)]"

subsection \<open>What an advisory of the feed does\<close>

lemma mapE_mem: "mapE f xs = Inr ys \<Longrightarrow> x \<in> set xs \<Longrightarrow> \<exists>y\<in>set ys. f x = Inr y"
  by (induction xs arbitrary: ys) (auto simp: bindE_Inr_iff)

text \<open>The columns the threat filter reads.\<close>

definition threat_row :: "advisory_row \<Rightarrow> malicious_row" where
  "threat_row r =
     \<lparr>km_advisory_id = fm_advisory_id r, km_ecosystem = fm_ecosystem r, km_package = fm_package r,
      km_attack_type = fm_attack_type r, km_summary = Some (fm_summary r), km_modified = Some (fm_modified r)\<rparr>"

definition tables_of :: "feed_db \<Rightarrow> threat_tables" where
  "tables_of db =
     \<lparr>tt_malicious = map threat_row (fd_malicious db),
      tt_popular = map (\<lambda>r. \<lparr>kp_ecosystem = fp_ecosystem r, kp_package = fp_package r,
        kp_rank = Some (fp_rank r), kp_downloads_30d = fp_downloads_30d r\<rparr>) (fd_popular db)\<rparr>"

lemma entries_kept: "osv_entries env eco limit es used n rows = Inr (m, out) \<Longrightarrow> set rows \<subseteq> set out"
proof (induction es arbitrary: used n rows)
  case (Cons e es)
  from Cons.prems show ?case
    by (auto simp: Let_def bindE_Inr_iff split: if_splits sum.splits dest!: Cons.IH)
qed simp

lemma entry_parsed:
  assumes "osv_entries env eco None es used n rows = Inr (m, out)" "e \<in> set es" "\<not> suspicious_entry e"
    and "used + sum_list (map ze_file_size es) \<le> MAX_TOTAL_BYTES"
    and "bindE (ze_read e) (fv_loads env) = Inr raw"
  shows "\<exists>parsed. parse_one env raw eco = Inr parsed \<and> set parsed \<subseteq> set out"
  using assms
proof (induction es arbitrary: used n rows)
  case (Cons x es)
  show ?case
  proof (cases "x = e \<and> e \<notin> set es")
    case True
    with Cons.prems show ?thesis
      by (auto simp: Let_def bindE_Inr_iff reached_def split: if_splits dest!: entries_kept)
  next
    case False
    with Cons.prems(2) have "e \<in> set es" by auto
    with Cons.prems Cons.IH show ?thesis
      by (auto simp: Let_def bindE_Inr_iff reached_def ac_simps split: if_splits sum.splits)
  qed
qed simp

lemma upserted_advisory:
  "fetch advisory_key (fd_malicious (upsert_advisory env r db)) k \<noteq> None
     \<longleftrightarrow> k = advisory_key r \<or> fetch advisory_key (fd_malicious db) k \<noteq> None"
proof -
  have "advisory_key (r\<lparr>fm_published := p\<rparr>) = advisory_key r" for p by (simp add: advisory_key_def)
  then show ?thesis by (auto simp: upsert_advisory_def fetch_upsert split: option.split)
qed

lemma upserted_advisories:
  "fetch advisory_key (fd_malicious (fold (upsert_advisory env) rows db)) k \<noteq> None
     \<longleftrightarrow> k \<in> advisory_key ` set rows \<or> fetch advisory_key (fd_malicious db) k \<noteq> None"
proof (induction rows arbitrary: db)
  case (Cons r rows)
  show ?case by (simp only: fold.simps comp_apply Cons.IH upserted_advisory) auto
qed simp

lemma mal_advisory_rows:
  assumes "parse_one env (PDict d) eco = Inr rows"
    and "d_get d ''id'' (PStr []) = PStr i" "mal_id i"
    and "dget d ''affected'' = PList affected" "PDict a \<in> set affected"
    and "dget a ''package'' = PDict p" "dget p ''name'' = PStr name" "name \<noteq> []"
  shows "\<exists>r\<in>set rows. fm_ecosystem r = eco \<and> fm_package r = name"
proof -
  have i: "i \<noteq> []" using assms(3) by (auto simp: mal_id_def py_upper_def)
  have "py_truth (dget d ''id'')" "dget d ''id'' = PStr i"
    using assms(2) i by (auto simp: dget_def d_get_def split: option.splits)
  then have cl: "osv_classify d = Inr ''malicious_package''"
    using assms(3) i by (simp add: osv_classify_def py_or_def)
  have aff: "list_or d ''affected'' = Inr affected" "affected \<noteq> []"
    using assms(4,5) by (auto simp: list_or_def py_or_def)
  from assms(1) obtain mk parts where
    parts: "mapE (affected_row mk) affected = Inr parts" "rows = concat parts"
    and mk: "\<And>n g. fm_ecosystem (mk n g) = eco \<and> fm_package (mk n g) = n"
    using i
    by (auto simp: parse_one_def attr_dict_def assms(2) aff cl Let_def bindE_Inr_iff SUPPLY_CHAIN_TYPES_def
        case_prod_unfold split: if_splits intro: that)
  from mapE_mem [OF parts(1) assms(5)] obtain ys where
    ys: "ys \<in> set parts" "affected_row mk (PDict a) = Inr ys" by blast
  then have "\<exists>g. ys = [mk name g]"
    using assms(6-8) by (auto simp: affected_row_def attr_dict_def sub_dict_def py_or_def field_or_def bindE_Inr_iff
        split: if_splits)
  then obtain g where "[mk name g] \<in> set parts" using ys(1) by blast
  then have "mk name g \<in> set rows" unfolding parts(2) by force
  then show ?thesis using mk by blast
qed

lemma ingested:
  assumes "ingest_osv env eco limit False db = (Inr out, db')"
    and "map_of OSV_URLS eco = Some url" "fv_get env url = Inr body" "fv_unzip env body = Inr es"
  obtains n rows where "osv_entries env eco limit (json_entries es) 0 0 [] = Inr (n, rows)"
    and "fd_malicious db' = fd_malicious (fold (upsert_advisory env) rows db)"
proof -
  have "startswith url ''https://''" using assms(2) by (auto simp: OSV_URLS_def split: if_splits)
  with assms that show thesis
    by (auto simp: ingest_osv_def https_get_def record_meta_def split: sum.splits)
qed

lemma json_entries_size:
  "sum_list (map ze_file_size es) \<le> m \<Longrightarrow> sum_list (map ze_file_size (json_entries es)) \<le> m"
proof -
  have "sum_list (map ze_file_size (json_entries es)) \<le> sum_list (map ze_file_size es)"
    by (induction es) (auto simp: json_entries_def)
  then show "sum_list (map ze_file_size es) \<le> m \<Longrightarrow> sum_list (map ze_file_size (json_entries es)) \<le> m" by simp
qed

lemma tables_of_match:
  assumes "fetch advisory_key (fd_malicious db) (i, ecosystem_value eco, name) \<noteq> None" "py_lower name = py_lower package"
  shows "tf_exact_match (threat_filter (Inr (tables_of db)) package eco)"
proof -
  from assms(1) obtain r where r: "r \<in> set (fd_malicious db)" "advisory_key r = (i, ecosystem_value eco, name)"
    by (auto simp: fetch_None_iff)
  with assms(2) have "list_ex (\<lambda>r. km_ecosystem r = ecosystem_value eco \<and> py_lower (km_package r) = py_lower package)
      (tt_malicious (tables_of db))"
    by (auto simp: list_ex_iff tables_of_def threat_row_def advisory_key_def)
  then show ?thesis by (simp add: threat_filter_fields check_exact_None)
qed

text \<open>C6: An advisory of OSV's dump blocks the package it names. When a full ingest of a dump of at most 2 GiB ends,
  and one of its readable entries is a \<^verbatim>\<open>MAL-\<close> advisory that lists a package, then the threat filter reports an
  exact match for every spelling of that package in the ecosystem, whatever else the dump and the database hold.\<close>
theorem ingested_advisory_blocks:
  assumes "ingest_osv env (ecosystem_value eco) None False db = (Inr out, db')"
    and "map_of OSV_URLS (ecosystem_value eco) = Some url" "fv_get env url = Inr body" "fv_unzip env body = Inr es"
    and "sum_list (map ze_file_size es) \<le> MAX_TOTAL_BYTES"
    and "e \<in> set es" "endswith (ze_name e) ''.json''" "\<not> suspicious_entry e"
    and "bindE (ze_read e) (fv_loads env) = Inr (PDict d)"
    and "d_get d ''id'' (PStr []) = PStr i" "mal_id i"
    and "dget d ''affected'' = PList affected" "PDict a \<in> set affected"
    and "dget a ''package'' = PDict p" "dget p ''name'' = PStr name" "name \<noteq> []"
    and "py_lower name = py_lower package"
  shows "tf_exact_match (threat_filter (Inr (tables_of db')) package eco)"
proof -
  from ingested [OF assms(1-4)] obtain n rows where
    n: "osv_entries env (ecosystem_value eco) None (json_entries es) 0 0 [] = Inr (n, rows)"
    and db': "fd_malicious db' = fd_malicious (fold (upsert_advisory env) rows db)" .
  have "e \<in> set (json_entries es)" using assms(6,7) by (simp add: json_entries_def)
  from entry_parsed [OF n this assms(8) _ assms(9)] json_entries_size [OF assms(5)]
  obtain parsed where "parse_one env (PDict d) (ecosystem_value eco) = Inr parsed" "set parsed \<subseteq> set rows" by auto
  with mal_advisory_rows [OF _ assms(10-16)] obtain r where
    "r \<in> set rows" "fm_ecosystem r = ecosystem_value eco" "fm_package r = name" by blast
  then have "fetch advisory_key (fd_malicious db') (fm_advisory_id r, ecosystem_value eco, name) \<noteq> None"
    unfolding db' upserted_advisories by (auto simp: advisory_key_def)
  from tables_of_match [OF this assms(17)] show ?thesis .
qed

lemma recorded_unchanged: "unchanged source sha (record_meta env source n sha err db) = Some (meta_row env source n sha err)"
  by (simp add: unchanged_def record_meta_def fetch_upsert) (simp add: meta_row_def)

lemma ingest_unchanged:
  assumes "ingest_osv env eco limit skip db = (Inr out, db')" "dget out ''ok'' = PBool True"
    and "map_of OSV_URLS eco = Some url" "fv_get env url = Inr body"
  shows "unchanged (osv_source eco) (fv_sha256 env body) db' \<noteq> None"
proof -
  have "startswith url ''https://''" using assms(3) by (auto simp: OSV_URLS_def split: if_splits)
  with assms show ?thesis
    by (auto simp: ingest_osv_def https_get_def recorded_unchanged dget_def split: sum.splits option.splits if_splits)
qed

text \<open>C36: An ingest that stopped at a limit, or at the size of an archive, sticks: it records the dump's SHA-256 like a
  complete one, so that the following full ingest of the same download reports success, is skipped and leaves the
  database as it is, and the advisories cut off stay unknown until the feed publishes another dump.\<close>
theorem limited_ingest_sticks:
  assumes "ingest_osv env eco limit skip db = (Inr out, db')" "dget out ''ok'' = PBool True"
    and "map_of OSV_URLS eco = Some url" "fv_get env url = Inr body" "fv_get env' url = Inr body"
    and "fv_sha256 env' = fv_sha256 env"
  shows "\<exists>out'. ingest_osv env' eco None True db' = (Inr out', db') \<and> dget out' ''ok'' = PBool True
     \<and> dget out' ''skipped'' = PBool True"
proof -
  have "startswith url ''https://''" using assms(3) by (auto simp: OSV_URLS_def split: if_splits)
  with assms(3,5,6) ingest_unchanged [OF assms(1-4)] show ?thesis
    by (auto simp: ingest_osv_def https_get_def dget_def)
qed

subsection \<open>A concrete dump\<close>

definition sample_advisory :: "string \<Rightarrow> string \<Rightarrow> pydict" where
  "sample_advisory i name =
     [(''id'', PStr i), (''affected'', PList [PDict [(''package'', PDict [(''name'', PStr name)])]])]"

definition sample_entry :: "string \<Rightarrow> zip_entry" where
  "sample_entry n = \<lparr>ze_name = n @ ''.json'', ze_file_size = 100, ze_compress_size = 50, ze_read = Inr n\<rparr>"

definition sample_feed :: feed_env where
  "sample_feed =
     \<lparr>fv_get = (\<lambda>url. Inr ''zip''), fv_sha256 = (\<lambda>s. s), fv_unzip = (\<lambda>b. Inr [sample_entry ''a'', sample_entry ''b'']),
      fv_loads = (\<lambda>s. Inr (PDict (sample_advisory (''MAL-'' @ s) (''pkg-'' @ s)))), fv_dumps = (\<lambda>v. ''[]''),
      fv_csv = (\<lambda>s. Inr [s]), fv_host = (\<lambda>s. Inr None), fv_decode = (\<lambda>s. s), fv_now_sql = ''2025-01-01 00:00:00'',
      fv_feed_version = ''20250101T000000Z'', fv_cache_env = sample_cache_env, fv_show_float = (\<lambda>r. [])\<rparr>"

definition empty_feeds :: feed_db where
  "empty_feeds = \<lparr>fd_malicious = [], fd_popular = [], fd_blocklist = [], fd_meta = [],
     fd_cache = \<lparr>cb_analyses = [], cb_log = []\<rparr>, fd_stages = []\<rparr>"

lemma sample_text: "extract_indicators newline = ([], [])"
  by code_simp

definition sample_osv_row :: "string \<Rightarrow> advisory_row" where
  "sample_osv_row s =
     \<lparr>fm_advisory_id = ''MAL-'' @ s, fm_ecosystem = ''PyPI'', fm_package = ''pkg-'' @ s, fm_version_glob = ''*'',
      fm_attack_type = ''malicious_package'', fm_source = ''OSV'', fm_summary = [], fm_code_indicators = ''[]'',
      fm_network_indicators = ''[]'', fm_references = ''[]'', fm_published = [], fm_modified = []\<rparr>"

lemma mal_sample: "mal_id (''MAL-'' @ s)"
  by (simp add: mal_id_def py_upper_def upper_char_def)

lemma parse_sample:
  "parse_one sample_feed (PDict (sample_advisory (''MAL-'' @ s) (''pkg-'' @ s))) ''PyPI'' = Inr [sample_osv_row s]"
  using mal_sample [of s] sample_text
  by (simp add: parse_one_def sample_advisory_def attr_dict_def list_or_def field_or_def py_or_def dget_def d_get_def
      osv_classify_def ref_urls_def SUPPLY_CHAIN_TYPES_def affected_row_def sub_dict_def affected_versions_def
      sample_osv_row_def sorted_set_def) (simp add: sample_feed_def)

lemma sample_entries:
  "json_entries [sample_entry ''a'', sample_entry ''b''] = [sample_entry ''a'', sample_entry ''b'']"
  "osv_entries sample_feed ''PyPI'' None [sample_entry ''a'', sample_entry ''b''] 0 0 []
     = Inr (2, [sample_osv_row ''a'', sample_osv_row ''b''])"
  "osv_entries sample_feed ''PyPI'' (Some (Suc 0)) [sample_entry ''a'', sample_entry ''b''] 0 0 [] = Inr (1, [sample_osv_row ''a''])"
proof -
  have loads: "bindE (ze_read (sample_entry s)) (fv_loads sample_feed)
      = Inr (PDict (sample_advisory (''MAL-'' @ s) (''pkg-'' @ s)))" for s
    by (simp add: sample_entry_def sample_feed_def)
  have small: "\<not> suspicious_entry (sample_entry s)" "ze_file_size (sample_entry s) = 100"
      "endswith (ze_name (sample_entry s)) ''.json''" for s
    by (simp_all add: suspicious_entry_def sample_entry_def MAX_ENTRY_BYTES_def MAX_RATIO_def suffix_def)
  show "json_entries [sample_entry ''a'', sample_entry ''b''] = [sample_entry ''a'', sample_entry ''b'']"
    by (simp add: json_entries_def small)
  show "osv_entries sample_feed ''PyPI'' None [sample_entry ''a'', sample_entry ''b''] 0 0 []
     = Inr (2, [sample_osv_row ''a'', sample_osv_row ''b''])"
    by (simp only: osv_entries.simps Let_def loads small sum.case bindE_simps parse_sample)
      (simp add: reached_def MAX_TOTAL_BYTES_def)
  show "osv_entries sample_feed ''PyPI'' (Some (Suc 0)) [sample_entry ''a'', sample_entry ''b''] 0 0 [] = Inr (1, [sample_osv_row ''a''])"
    by (simp only: osv_entries.simps Let_def loads small sum.case bindE_simps parse_sample)
      (simp add: reached_def MAX_TOTAL_BYTES_def)
qed

definition sample_ingested :: "nat option \<Rightarrow> feed_db" where
  "sample_ingested limit = snd (ingest_osv sample_feed ''PyPI'' limit False empty_feeds)"

definition sample_url :: string where
  "sample_url = the (map_of OSV_URLS ''PyPI'')"

lemma sample_feed_sel:
  "map_of OSV_URLS ''PyPI'' = Some sample_url" "fv_get sample_feed sample_url = Inr ''zip''"
  "fv_unzip sample_feed ''zip'' = Inr [sample_entry ''a'', sample_entry ''b'']" "startswith sample_url ''https://''"
  by (simp_all add: sample_url_def OSV_URLS_def sample_feed_def)

lemma sample_ingest:
  "\<exists>out. ingest_osv sample_feed ''PyPI'' None False empty_feeds = (Inr out, sample_ingested None)"
  "\<exists>out. ingest_osv sample_feed ''PyPI'' (Some (Suc 0)) False empty_feeds = (Inr out, sample_ingested (Some (Suc 0)))
     \<and> dget out ''ok'' = PBool True"
  "map fm_package (fd_malicious (sample_ingested (Some (Suc 0)))) = [''pkg-a'']"
  by (simp_all add: sample_ingested_def ingest_osv_def https_get_def sample_feed_sel sample_entries dget_def
      del: osv_entries.simps)
    (simp add: upsert_advisory_def record_meta_def empty_feeds_def upsert_def sample_osv_row_def)

theorem ingested_advisory_blocks_witness:
  "tf_exact_match (threat_filter (Inr (tables_of (sample_ingested None))) ''PKG-B'' PYPI)"
proof -
  from sample_ingest(1) obtain out where
    out: "ingest_osv sample_feed ''PyPI'' None False empty_feeds = (Inr out, sample_ingested None)" by blast
  show ?thesis
  proof (rule ingested_advisory_blocks [where e = "sample_entry ''b''" and name = "''pkg-b''"
        and a = "[(''package'', PDict [(''name'', PStr ''pkg-b'')])]" and p = "[(''name'', PStr ''pkg-b'')]"
        and affected = "[PDict [(''package'', PDict [(''name'', PStr ''pkg-b'')])]]" and eco = PYPI])
    show "ingest_osv sample_feed (ecosystem_value PYPI) None False empty_feeds = (Inr out, sample_ingested None)"
      using out by simp
    show "map_of OSV_URLS (ecosystem_value PYPI) = Some sample_url" "fv_get sample_feed sample_url = Inr ''zip''"
      "fv_unzip sample_feed ''zip'' = Inr [sample_entry ''a'', sample_entry ''b'']"
      by (simp_all add: sample_feed_sel)
    show "bindE (ze_read (sample_entry ''b'')) (fv_loads sample_feed) = Inr (PDict (sample_advisory (''MAL-'' @ ''b'') (''pkg-'' @ ''b'')))"
      by (simp add: sample_entry_def sample_feed_def)
    show "mal_id (''MAL-'' @ ''b'')" by (rule mal_sample)
    show "py_lower ''pkg-b'' = py_lower ''PKG-B''" by code_simp
  qed (simp_all add: sample_advisory_def dget_def sample_entry_def MAX_TOTAL_BYTES_def MAX_ENTRY_BYTES_def
      MAX_RATIO_def suspicious_entry_def suffix_def)
qed

theorem limited_ingest_sticks_witness:
  "\<exists>out. ingest_osv sample_feed ''PyPI'' None True (sample_ingested (Some (Suc 0))) = (Inr out, sample_ingested (Some (Suc 0)))
     \<and> dget out ''ok'' = PBool True
     \<and> \<not> tf_exact_match (threat_filter (Inr (tables_of (sample_ingested (Some (Suc 0))))) ''pkg-b'' PYPI)"
proof -
  have "\<not> tf_exact_match (threat_filter (Inr (tables_of (sample_ingested (Some (Suc 0))))) ''pkg-b'' PYPI)"
  proof -
    from sample_ingest(3) obtain r where "fd_malicious (sample_ingested (Some (Suc 0))) = [r]" "fm_package r = ''pkg-a''" by auto
    then show ?thesis
      by (simp add: threat_filter_fields check_exact_None tables_of_def threat_row_def py_lower_def lower_char_def)
  qed
  with sample_ingest(2) show ?thesis
    using limited_ingest_sticks [OF _ _ sample_feed_sel(1,2,2) refl, of "Some (Suc 0)" False empty_feeds] by blast
qed

subsection \<open>Advisories that change\<close>

text \<open>An advisory that is already known is updated without firing the triggers: the cached reports and stages stay.\<close>

lemma known_advisory_keeps_caches:
  "fetch advisory_key (fd_malicious db) (advisory_key r) \<noteq> None \<Longrightarrow>
     fd_cache (upsert_advisory env r db) = fd_cache db \<and> fd_stages (upsert_advisory env r db) = fd_stages db"
  by (auto simp: upsert_advisory_def)

text \<open>A new one drops the threat stages kept for its package.\<close>

lemma new_advisory_drops_stages:
  assumes "fetch advisory_key (fd_malicious db) (advisory_key r) = None"
    and "sk_stage k \<in> {''stage_0a_threat_filter'', ''stage_0b_attack_history''}"
    and "sk_ecosystem k = fm_ecosystem r" "sk_package k = fm_package r"
  shows "fetch stage_row_key (fd_stages (upsert_advisory env r db)) (k, v) = None"
  using assms by (simp add: upsert_advisory_def drop_threat_stages_def fetch_delete_where)

end
