(* ===== verification/Spec2Isabelle.thy ===== *)
theory Spec2Isabelle
  imports Schema VerdictRules PriorityQueue QueueProtocol Worker ApiCatalog EntryPoint PyAst Behavior
    SequencePatterns StringAnalysis Indicators TaintPython Dependency
    TtpMatch Anomaly Converters MultiAgent KeyedTable Integrity AnalysisCache StageCache
    EditDistance AttackIndex ThreatFilter Registry FullDiff
    AgenticManifest AgenticStage Reputation Pipeline PipelineFacts CachedStages
    Regex AgenticDetect AgenticRules
    ApiAuth RuntimeStore RuntimeExtract RuleGenerator RuntimeAlert ApiServer JsAst TaintJs Deobfuscate
    BinaryScan Sandbox Reporting StixSink PolicySinks Watchers Feeds
begin

text \<open>
  pkgSentinel decides whether a package of PyPI or npm is malicious. This library models the program
  under \<^verbatim>\<open>src/src/pkgsentinel\<close>; paths below are relative to that directory.

  \<^bold>\<open>The program.\<close> An analysis (\<^verbatim>\<open>pipeline.py\<close>) runs a fixed order of stages over one package
  version. Registry and history gates come first (stages 0, 0B, 0C). Stage 1 reads the archive,
  stage 1C classifies agentic packages, stages 2 and 3 find the calls of each file and what they add
  to the version before, stages 4 to 4F match techniques, indicators, patterns, strings, taint flows
  and dependencies, stage 5 asks a language model, the rest is reference information. Every stage
  appends evidence and a stage result; \<^verbatim>\<open>verdict_rules.py\<close> turns all evidence into the verdict. Two caches
  (whole reports, single stages) stand between. Around the analysis stand a scan queue filled by
  watchers and emptied by workers (\<^verbatim>\<open>monitor\<close>), an HTTP server (\<^verbatim>\<open>server\<close>, \<^verbatim>\<open>api\<close>) and a feedback
  loop that learns indicators from run-time alerts (\<^verbatim>\<open>intel\<close>, \<^verbatim>\<open>db/runtime_intel.py\<close>) and feeds them to the
  attack index that stage 0B reads.

  \<^bold>\<open>Foundations.\<close>
  \<^item> \<^theory_text>\<open>Py_Prelude\<close>: Python's values, exceptions, strings, dictionaries and loops. An exception is the
    left summand of a result; \<open>bindE\<close> stops at it, so every raise is a branch.
  \<^item> \<^theory_text>\<open>Regex\<close>: Python's module \<^verbatim>\<open>re\<close> with its backtracking order, captures, search and substitution.
    The patterns of the source are parsed from their own text.
  \<^item> \<^theory_text>\<open>PyAst\<close>: the syntax tree the Python analysers walk. \<^theory_text>\<open>KeyedTable\<close>: a table with a primary key,
    whose locale gives the map laws to the tables of the caches and of the intelligence store.
  \<^item> \<^theory_text>\<open>Schema\<close> (\<^verbatim>\<open>schema.py\<close>, \<^verbatim>\<open>reporting/serialize.py\<close>): evidence, stage results and report with
    their dictionaries.

  \<^bold>\<open>The analysis.\<close>
  \<^item> \<^theory_text>\<open>Registry\<close>, \<^theory_text>\<open>ThreatFilter\<close>, \<^theory_text>\<open>AttackIndex\<close>, \<^theory_text>\<open>EditDistance\<close>: the gates and the attack index; the edit
    distances are proved to be least numbers of edits, the look-ups to be exact.
  \<^item> \<^theory_text>\<open>EntryPoint\<close>: extraction; every regular member of an archive is accounted for once.
  \<^item> \<^theory_text>\<open>AgenticManifest\<close>, \<^theory_text>\<open>AgenticDetect\<close>, \<^theory_text>\<open>AgenticRules\<close>, \<^theory_text>\<open>AgenticStage\<close>: agentic packages
    (\<^verbatim>\<open>agentic/\<close>): the manifest, the detectors, the rules R1 to R4 and the decision; what a
    declaration can excuse and what it cannot.
  \<^item> \<^theory_text>\<open>ApiCatalog\<close>, \<^theory_text>\<open>Behavior\<close>, \<^theory_text>\<open>JsAst\<close>: the calls of each Python and JavaScript file. \<^theory_text>\<open>FullDiff\<close>: what a
    version adds.
  \<^item> \<^theory_text>\<open>TtpMatch\<close>, \<^theory_text>\<open>Indicators\<close>, \<^theory_text>\<open>SequencePatterns\<close>, \<^theory_text>\<open>StringAnalysis\<close>, \<^theory_text>\<open>TaintPython\<close>, \<^theory_text>\<open>Dependency\<close>,
    \<^theory_text>\<open>Anomaly\<close>: the static matchers. The greedy miner is equivalent to the declarative meaning of its
    patterns, the taint slicer is sound and finds direct flows, the dependency walk is bounded.
  \<^item> \<^theory_text>\<open>TaintJs\<close>: the JavaScript half of the taint slicer, flows from one module to another. \<^theory_text>\<open>Deobfuscate\<close>: the
    decoding layers and the text patterns that are searched in all of them.
  \<^item> \<^theory_text>\<open>BinaryScan\<close>: native files, stage 7. \<^theory_text>\<open>Sandbox\<close>: dynamic analysis, stage 8; what the host is made to run.
  \<^item> \<^theory_text>\<open>MultiAgent\<close>: prompts, answers and the vote of stage 5. \<^theory_text>\<open>Reputation\<close>: Scorecard, SLSA and SSDF.
  \<^item> \<^theory_text>\<open>Converters\<close>, \<^theory_text>\<open>VerdictRules\<close>: from findings to evidence to the verdict.
  \<^item> \<^theory_text>\<open>Integrity\<close>, \<^theory_text>\<open>AnalysisCache\<close>, \<^theory_text>\<open>StageCache\<close>: fingerprints and the two caches; the stage cache
    refines a map, a hit of the report cache is sound.
  \<^item> \<^theory_text>\<open>Pipeline\<close>, \<^theory_text>\<open>PipelineFacts\<close>, \<^theory_text>\<open>CachedStages\<close>: the composition of all of these in the program's order,
    with its early returns and error handlers; what holds of the verdict of a whole run, and that the
    cached stages give the same evidence as the stages themselves.

  \<^bold>\<open>Around the analysis.\<close>
  \<^item> \<^theory_text>\<open>PriorityQueue\<close>, \<^theory_text>\<open>QueueProtocol\<close>, \<^theory_text>\<open>Worker\<close>: the scan queue as a table, the step relation of
    watchers and workers that share it, the worker loop against the contract of a job source.
  \<^item> \<^theory_text>\<open>RuntimeStore\<close>, \<^theory_text>\<open>RuntimeExtract\<close>, \<^theory_text>\<open>RuleGenerator\<close>, \<^theory_text>\<open>RuntimeAlert\<close>: the feedback loop from an
    alert to learned indicators, rule drafts, the attack index and the exports.
  \<^item> \<^theory_text>\<open>ApiAuth\<close>, \<^theory_text>\<open>ApiServer\<close>: signed requests, replays, and the endpoints over pipeline and feedback loop.
  \<^item> \<^theory_text>\<open>Watchers\<close>: what PyPI's and npm's changes put into the queue, and from where the next poll goes on.
  \<^item> \<^theory_text>\<open>Feeds\<close>: advisories, popular packages and network indicators downloaded into the tables that stage 0A
    reads, and the triggers that invalidate the caches.
  \<^item> \<^theory_text>\<open>StixSink\<close>, \<^theory_text>\<open>PolicySinks\<close> (\<^verbatim>\<open>realtime/sinks\<close>): a report as STIX bundle, TAXII push, install policy, Falco
    and Tetragon rules; the worker with these sinks. \<^theory_text>\<open>Reporting\<close>: CycloneDX and text.

  \<^bold>\<open>Interfaces.\<close> The locale \<open>keyed_table\<close> is what caches and store rely on, \<open>job_source\<close> what the worker
  loop relies on, \<open>stage_codec\<close> what the stage cache relies on; each is interpreted on the model's own
  definitions, in the theory of the provider.

  \<^bold>\<open>State.\<close> A SQL table is the list of its rows in the order of their ids, a transaction an update of the
  list, and an exception inside one leaves it as it was. The attack index, the nonce cache, the counters
  and the pipeline's context are records that are passed along. Time is an argument: text or a number of
  seconds as the code has it. Floats are exact rationals; the program compares, clamps and rounds them.

  \<^bold>\<open>Termination and fuel.\<close> The program's loops are structural recursion, or functions with a measure:
  the dependency walk is bounded by the cap on results, the Merkle loop by the number of hashes left.
  The worker with \<^verbatim>\<open>--loop\<close> may run forever and is a \<open>partial_function\<close>; that it returns without
  \<^verbatim>\<open>--loop\<close>, and never with it, is proved. The matcher of \<^theory_text>\<open>Regex\<close> repeats a group at most as often as
  there are characters left and one more time, which is enough, as a repetition that consumes nothing
  ends the loop.

  \<^bold>\<open>Properties.\<close> A theorem that states a property of the program is preceded by a text with its number;
  its witness applies it at a concrete input. Theorems about faults state what the code does: a replay
  after the nonce has expired (\<^theory_text>\<open>ApiAuth\<close>), the stage cache whose failure ends an analysis
  (\<^theory_text>\<open>PipelineFacts\<close>), releases and advisories that a limit cuts off for good (\<^theory_text>\<open>Watchers\<close>, \<^theory_text>\<open>Feeds\<close>), an
  unreadable file that hides those behind it (\<^theory_text>\<open>BinaryScan\<close>), and others among the library's lemmas.

  \<^bold>\<open>Not modelled.\<close> Code outside the repository is a parameter: the network, SQLite, the tar, zip, JSON,
  TOML and YAML readers, Python's parser, tree-sitter, SHA-256 and HMAC, the embedding index, the
  language model, the clocks, docker, the file system and the readers of native binaries. Of the
  repository's own code the following is left out: the partial version diff and the import parser, which
  the program does not call, the collectors of the knowledge tables and the package baseline, the
  connection and key management of the database, the command line adapter and the cron entry point,
  argument parsers, self checks and printed output, and the benchmark scripts under \<^verbatim>\<open>src/scripts\<close>. Text is ASCII where the code applies
  case mapping or regular expressions to it.
\<close>

end
